(* ===== verification/Upf_Prelude.thy ===== *)
theory Upf_Prelude
  imports Main "HOL-Library.Word"
begin

text \<open>
  Shared vocabulary of the development: the machine integers of \<^verbatim>\<open>include/types.h\<close>, the
  in-memory (little endian) representation of an integer as a list of bytes, the byte swaps
  (\<^verbatim>\<open>htons\<close>, \<^verbatim>\<open>htobe32\<close>, \<^verbatim>\<open>be64toh\<close>, \<dots>), byte-exact update of a buffer, and the result type
  of operations that may throw.  The programs run on a little endian host (the only
  configuration the repository builds), so the memory image of an integer is its little endian
  byte string and a conversion between host and network order reverses that string.
\<close>

unbundle bit_operations_syntax

named_theorems bytes_simps "sizes and round trips of in-memory representations"
named_theorems buf_simps "reading and writing fields of a byte buffer"
named_theorems stream_simps "reading from a stream that holds enough bytes"

type_synonym u8 = "8 word"
type_synonym u16 = "16 word"
type_synonym u32 = "32 word"
type_synonym u64 = "64 word"
type_synonym s32 = "32 word"
type_synonym bytes = "8 word list"

section \<open>Results\<close>

text \<open>\<open>Inl e\<close> is the exception thrown by the source, \<open>Inr v\<close> the normal return value.\<close>

definition rbind :: "'e + 'a \<Rightarrow> ('a \<Rightarrow> 'e + 'b) \<Rightarrow> 'e + 'b" where
  "rbind m f = (case m of Inl e \<Rightarrow> Inl e | Inr v \<Rightarrow> f v)"

lemma rbind_Inr [simp]: "rbind (Inr v) f = f v"
  by (simp add: rbind_def)

lemma rbind_Inl [simp]: "rbind (Inl e) f = Inl e"
  by (simp add: rbind_def)

lemma rbind_eq_Inr: "rbind m f = Inr r \<longleftrightarrow> (\<exists>v. m = Inr v \<and> f v = Inr r)"
  by (cases m) simp_all

section \<open>In-memory representation of integers\<close>

fun le_bytes :: "nat \<Rightarrow> 'a::len word \<Rightarrow> bytes" where
  "le_bytes 0 w = []"
| "le_bytes (Suc n) w = ucast w # le_bytes n (drop_bit 8 w)"

fun le_word :: "bytes \<Rightarrow> 'a::len word" where
  "le_word [] = 0"
| "le_word (b # bs) = (ucast b OR push_bit 8 (le_word bs))"

lemma length_le_bytes [simp, bytes_simps]: "length (le_bytes n w) = n"
  by (induction n arbitrary: w) simp_all

lemma nth_le_bytes: "i < n \<Longrightarrow> le_bytes n w ! i = ucast (drop_bit (8 * i) w)"
  by (induction n arbitrary: w i)
    (auto simp: nth_Cons less_Suc_eq_0_disj drop_bit_drop_bit ac_simps split: nat.splits)

lemma bit_le_word:
  "bit (le_word bs :: 'a::len word) i \<longleftrightarrow>
     i < LENGTH('a) \<and> i div 8 < length bs \<and> bit (bs ! (i div 8)) (i mod 8)"
proof (induction bs arbitrary: i)
  case Nil
  show ?case by simp
next
  case (Cons b bs)
  show ?case
  proof (cases "i < 8")
    case True
    then show ?thesis
      by (auto simp: bit_simps)
  next
    case False
    then have "i div 8 = Suc ((i - 8) div 8)" and "i mod 8 = (i - 8) mod 8"
      by (simp_all add: le_div_geq le_mod_geq)
    moreover have "\<not> bit b i"
      using False bit_imp_le_length [of b i] by auto
    ultimately show ?thesis
      using False Cons [of "i - 8"] by (auto simp: bit_simps)
  qed
qed

lemma le_word_le_bytes [simp, bytes_simps]:
  fixes w :: "'a::len word"
  assumes "LENGTH('a) \<le> 8 * n"
  shows "le_word (le_bytes n w) = w"
proof (rule bit_word_eqI)
  fix i assume "i < LENGTH('a)"
  with assms have "i div 8 < n" by linarith
  then show "bit (le_word (le_bytes n w) :: 'a word) i \<longleftrightarrow> bit w i"
    using \<open>i < LENGTH('a)\<close> by (simp add: bit_le_word nth_le_bytes bit_simps)
qed

lemma le_bytes_le_word [simp, bytes_simps]:
  assumes "length bs = n" and "8 * n \<le> LENGTH('a::len)"
  shows "le_bytes n (le_word bs :: 'a word) = bs"
proof (rule nth_equalityI)
  show "length (le_bytes n (le_word bs :: 'a word)) = length bs"
    using assms by simp
next
  fix i assume "i < length (le_bytes n (le_word bs :: 'a word))"
  then have i: "i < n" by simp
  show "le_bytes n (le_word bs :: 'a word) ! i = bs ! i"
  proof (rule bit_word_eqI)
    fix j assume "j < LENGTH(8)"
    then have j: "j < 8" by simp
    with i assms have "8 * i + j < LENGTH('a)" by linarith
    moreover have "(8 * i + j) div 8 = i" and "(8 * i + j) mod 8 = j"
      using j by simp_all
    ultimately show "bit (le_bytes n (le_word bs :: 'a word) ! i) j \<longleftrightarrow> bit (bs ! i) j"
      using i j assms by (simp add: nth_le_bytes bit_simps bit_le_word)
  qed
qed

section \<open>Bit fields\<close>

text \<open>
  A one bit member of a bit field struct, at its position in the byte (the compiler allocates
  bit fields from the lowest bit upwards).
\<close>

definition flag :: "nat \<Rightarrow> bool \<Rightarrow> u8" where
  "flag i b = (if b then push_bit i 1 else 0)"

lemma bit_flag [simp]: "bit (flag i b) j \<longleftrightarrow> b \<and> j = i \<and> i < 8"
  by (auto simp: flag_def bit_simps)

lemma flag_False [simp]: "flag i False = 0"
  by (simp add: flag_def)

section \<open>Byte order\<close>

text \<open>
  \<^verbatim>\<open>htons\<close>, \<^verbatim>\<open>htobe16\<close>, \<^verbatim>\<open>be16toh\<close> and their 32 and 64 bit relatives all reverse the memory
  image of their operand on a little endian host.
\<close>

definition bswap :: "nat \<Rightarrow> 'a::len word \<Rightarrow> 'a word" where
  "bswap n w = le_word (rev (le_bytes n w))"

abbreviation swap16 :: "u16 \<Rightarrow> u16" where "swap16 \<equiv> bswap 2"
abbreviation swap32 :: "u32 \<Rightarrow> u32" where "swap32 \<equiv> bswap 4"
abbreviation swap64 :: "u64 \<Rightarrow> u64" where "swap64 \<equiv> bswap 8"

lemma le_bytes_bswap [simp, bytes_simps]:
  fixes w :: "'a::len word"
  shows "8 * n \<le> LENGTH('a) \<Longrightarrow> le_bytes n (bswap n w) = rev (le_bytes n w)"
  by (simp add: bswap_def)

lemma bswap_le_word [simp, bytes_simps]:
  "length bs = n \<Longrightarrow> 8 * n \<le> LENGTH('a::len) \<Longrightarrow>
     bswap n (le_word bs :: 'a word) = le_word (rev bs)"
  by (simp add: bswap_def)

lemma bswap_bswap [simp, bytes_simps]:
  fixes w :: "'a::len word"
  shows "8 * n = LENGTH('a) \<Longrightarrow> bswap n (bswap n w) = w"
  by (simp add: bswap_def)

lemma bswap_inject [simp]:
  fixes v w :: "'a::len word"
  assumes "8 * n = LENGTH('a)"
  shows "bswap n v = bswap n w \<longleftrightarrow> v = w"
  using bswap_bswap [OF assms, of v] bswap_bswap [OF assms, of w] by metis

lemma le_word_rev_le_bytes [simp, bytes_simps]: "le_word (rev (le_bytes n w)) = bswap n w"
  by (simp add: bswap_def)

section \<open>Fields of a byte buffer\<close>

text \<open>
  A field is addressed by its offset from the start of the buffer.  The source checks
  \<open>offset + size \<le> data_end\<close> before every access; the accessors below are only used after
  such a check.
\<close>

definition get_bytes :: "nat \<Rightarrow> nat \<Rightarrow> bytes \<Rightarrow> bytes" where
  "get_bytes off n buf = take n (drop off buf)"

definition put_bytes :: "nat \<Rightarrow> bytes \<Rightarrow> bytes \<Rightarrow> bytes" where
  "put_bytes off bs buf = take off buf @ bs @ drop (off + length bs) buf"

definition get_u8 :: "nat \<Rightarrow> bytes \<Rightarrow> u8" where
  "get_u8 off buf = le_word (get_bytes off 1 buf)"

definition get_u16 :: "nat \<Rightarrow> bytes \<Rightarrow> u16" where
  "get_u16 off buf = le_word (get_bytes off 2 buf)"

definition get_u32 :: "nat \<Rightarrow> bytes \<Rightarrow> u32" where
  "get_u32 off buf = le_word (get_bytes off 4 buf)"

lemma length_get_bytes [simp, buf_simps]:
  "off + n \<le> length buf \<Longrightarrow> length (get_bytes off n buf) = n"
  by (simp add: get_bytes_def)

lemma length_put_bytes [simp, buf_simps]:
  "off + length bs \<le> length buf \<Longrightarrow> length (put_bytes off bs buf) = length buf"
  by (simp add: put_bytes_def)

lemma get_put_same [simp, buf_simps]:
  "off + length bs \<le> length buf \<Longrightarrow> n = length bs \<Longrightarrow>
     get_bytes off n (put_bytes off bs buf) = bs"
  by (simp add: get_bytes_def put_bytes_def)

lemma get_put_below [simp, buf_simps]:
  "o1 + n \<le> o2 \<Longrightarrow> o2 + length bs \<le> length buf \<Longrightarrow>
     get_bytes o1 n (put_bytes o2 bs buf) = get_bytes o1 n buf"
  by (simp add: get_bytes_def put_bytes_def drop_take)

lemma get_put_above [simp, buf_simps]:
  "o2 + length bs \<le> o1 \<Longrightarrow> o2 + length bs \<le> length buf \<Longrightarrow>
     get_bytes o1 n (put_bytes o2 bs buf) = get_bytes o1 n buf"
  by (simp add: get_bytes_def put_bytes_def)

lemma drop_put_above [simp, buf_simps]:
  "off + length bs \<le> k \<Longrightarrow> off + length bs \<le> length buf \<Longrightarrow>
     drop k (put_bytes off bs buf) = drop k buf"
  by (simp add: put_bytes_def)

lemma take_put_below [simp, buf_simps]:
  "k \<le> off \<Longrightarrow> off \<le> length buf \<Longrightarrow> take k (put_bytes off bs buf) = take k buf"
  by (simp add: put_bytes_def)

lemma get_bytes_append_left:
  "off + n \<le> length xs \<Longrightarrow> get_bytes off n (xs @ ys) = get_bytes off n xs"
  by (simp add: get_bytes_def)

lemma get_bytes_append_right:
  "length xs \<le> off \<Longrightarrow> get_bytes off n (xs @ ys) = get_bytes (off - length xs) n ys"
  by (simp add: get_bytes_def)

lemma get_bytes_drop:
  "get_bytes off n (drop k buf) = get_bytes (k + off) n buf"
  by (simp add: get_bytes_def add.commute)

lemma put_bytes_append_left [buf_simps]:
  "off + length bs \<le> length xs \<Longrightarrow> put_bytes off bs (xs @ ys) = put_bytes off bs xs @ ys"
  by (simp add: put_bytes_def)

lemma put_bytes_append_right [buf_simps]:
  "length xs \<le> off \<Longrightarrow> put_bytes off bs (xs @ ys) = xs @ put_bytes (off - length xs) bs ys"
  by (simp add: put_bytes_def)

lemma put_bytes_all [buf_simps]: "length bs = length xs \<Longrightarrow> put_bytes 0 bs xs = bs"
  by (simp add: put_bytes_def)

lemma get_bytes_all: "length xs = n \<Longrightarrow> get_bytes 0 n xs = xs"
  by (simp add: get_bytes_def)

lemma get_bytes_join: "get_bytes a n xs @ drop (a + n) xs = drop a xs"
  by (metis add.commute append_take_drop_id drop_drop get_bytes_def)

lemma get_bytes_get_bytes:
  "off + n \<le> k \<Longrightarrow> get_bytes off n (get_bytes a k buf) = get_bytes (a + off) n buf"
  by (simp add: get_bytes_def drop_take add.commute min_def)

lemmas get_bytes_append = get_bytes_append_left get_bytes_append_right

lemma obtain_split:
  assumes "n \<le> length xs"
  obtains ys zs where "xs = ys @ zs" and "length ys = n"
  using assms by (metis append_take_drop_id length_take min.absorb2)

lemma split_in_three: "xs = take a xs @ take b (drop a xs) @ drop (a + b) xs"
  by (metis add.commute append_take_drop_id drop_drop)

end
