(* ===== verification/Program_Life_Cycle.thy ===== *)
theory Program_Life_Cycle
  imports Upf_Prelude
begin

text \<open>
  The life cycle of a BPF program, \<^verbatim>\<open>src/programs/ProgramLifeCycle.hpp\<close>: open, load, attach, link,
  tear down.  The functions of the generated skeleton and of libbpf are the members of
  \<open>lc_env\<close>; what the class asks of them with a lasting effect (hooking a program to an interface,
  destroying the skeleton) is recorded in order in \<open>lc_events\<close>.  An operation returns the state
  even when it throws, since the members it assigned before the exception keep their values.

  The properties: from any sequence of calls the bookkeeping covers every interface that is
  really hooked, so tearing down unhooks all of them; and a failed load leaves the object in a
  state in which tearing down destroys the skeleton a second time.
\<close>

section \<open>Exceptions over a state\<close>

type_synonym ('s, 'a) op = "'s \<Rightarrow> (string + 'a) \<times> 's"

definition ret :: "'a \<Rightarrow> ('s, 'a) op" where
  "ret x s = (Inr x, s)"

definition throw :: "string \<Rightarrow> ('s, 'a) op" where
  "throw msg s = (Inl msg, s)"

definition sbind :: "('s, 'a) op \<Rightarrow> ('a \<Rightarrow> ('s, 'b) op) \<Rightarrow> ('s, 'b) op" where
  "sbind m f s = (case m s of (Inl e, s') \<Rightarrow> (Inl e, s') | (Inr x, s') \<Rightarrow> f x s')"

definition seq :: "('s, unit) op \<Rightarrow> ('s, 'b) op \<Rightarrow> ('s, 'b) op" where
  "seq m n = sbind m (\<lambda>_. n)"

lemma ret_eq [simp]: "ret x s = (Inr x, s)"
  by (simp add: ret_def)

lemma throw_eq [simp]: "throw e s = (Inl e, s)"
  by (simp add: throw_def)

lemma sbind_Inr [simp]: "m s = (Inr x, s') \<Longrightarrow> sbind m f s = f x s'"
  by (simp add: sbind_def)

lemma sbind_Inl [simp]: "m s = (Inl e, s') \<Longrightarrow> sbind m f s = (Inl e, s')"
  by (simp add: sbind_def)

lemma seq_Inr [simp]: "m s = (Inr x, s') \<Longrightarrow> seq m n s = n s'"
  by (simp add: seq_def)

lemma seq_Inl [simp]: "m s = (Inl e, s') \<Longrightarrow> seq m n s = (Inl e, s')"
  by (simp add: seq_def)

lemma sbind_eq_Inr:
  "sbind m f s = (Inr y, s'') \<longleftrightarrow> (\<exists>x s'. m s = (Inr x, s') \<and> f x s' = (Inr y, s''))"
  by (auto simp: sbind_def split: prod.splits sum.splits)

lemma seq_eq_Inr: "seq m n s = (Inr y, s'') \<longleftrightarrow> (\<exists>s'. m s = (Inr (), s') \<and> n s' = (Inr y, s''))"
  by (simp add: seq_def sbind_eq_Inr)

section \<open>Definitions\<close>

datatype ProgramState = IDLE | OPENED | LOADED | ATTACHED | LINKED | DESTROYED

datatype 's lc_event =
    Ev_set_link (ev_ifindex: u32) (ev_fd: int) (ev_rc: int)
  | Ev_destroy "'s option"

record 's life_cycle =
  lc_state :: ProgramState
  lc_links :: "string \<rightharpoonup> u32 list"
  lc_skeleton :: "'s option"
  lc_flags :: u32
  lc_events :: "'s lc_event list"

text \<open>
  The skeleton's functions (\<open>env_open\<close>, \<open>env_load\<close>, \<open>env_attach\<close>), the programs of the opened
  object as pairs of section name and file descriptor, and the kernel's answers; an answer may
  depend on what was requested before.
\<close>

record 's lc_env =
  env_setrlimit :: int
  env_open :: "'s option"
  env_load :: "'s option \<Rightarrow> int \<times> 's option"
  env_attach :: "'s option \<Rightarrow> int \<times> 's option"
  env_programs :: "'s option \<Rightarrow> (string \<times> int) list"
  env_if_nametoindex :: "string \<Rightarrow> u32"
  env_set_link :: "'s lc_event list \<Rightarrow> u32 \<Rightarrow> int \<Rightarrow> u32 \<Rightarrow> int"

abbreviation (input) XDP_FLAGS_UPDATE_IF_NOEXIST :: u32 where "XDP_FLAGS_UPDATE_IF_NOEXIST \<equiv> 1"
abbreviation (input) XDP_FLAGS_SKB_MODE :: u32 where "XDP_FLAGS_SKB_MODE \<equiv> 2"

text \<open>The constructor does not initialise \<^verbatim>\<open>mState\<close>: \<open>junk\<close> is the value it happens to have.\<close>

definition new_life_cycle :: "ProgramState \<Rightarrow> bool \<Rightarrow> 's life_cycle" where
  "new_life_cycle junk sIsSocketBufferEnabled =
     \<lparr>lc_state = junk, lc_links = Map.empty, lc_skeleton = None,
      lc_flags = (if sIsSocketBufferEnabled then XDP_FLAGS_UPDATE_IF_NOEXIST OR XDP_FLAGS_SKB_MODE
                  else XDP_FLAGS_UPDATE_IF_NOEXIST),
      lc_events = []\<rparr>"

definition emit :: "'s lc_event \<Rightarrow> ('s life_cycle, unit) op" where
  "emit e lc = (Inr (), lc\<lparr>lc_events := lc_events lc @ [e]\<rparr>)"

definition set_link :: "'s lc_env \<Rightarrow> u32 \<Rightarrow> int \<Rightarrow> ('s life_cycle, int) op" where
  "set_link E ifindex fd lc =
     (let rc = env_set_link E (lc_events lc) ifindex fd (lc_flags lc)
      in (Inr rc, snd (emit (Ev_set_link ifindex fd rc) lc)))"

definition lc_open :: "'s lc_env \<Rightarrow> ('s life_cycle, 's option) op" where
  "lc_open E lc =
     (if env_setrlimit E \<noteq> 0 then (Inl ''Cannot change bpf limit program'', lc)
      else
        (let lc1 = lc\<lparr>lc_skeleton := env_open E\<rparr>;
             lc2 = (if env_open E = None then snd (emit (Ev_destroy None) lc1) else lc1)
         in (Inr (env_open E), lc2\<lparr>lc_state := OPENED\<rparr>)))"

definition lc_load :: "'s lc_env \<Rightarrow> ('s life_cycle, unit) op" where
  "lc_load E lc =
     (let (err, sk) = env_load E (lc_skeleton lc);
          lc1 = lc\<lparr>lc_skeleton := sk\<rparr>
      in if err \<noteq> 0
         then (Inl ''Cannot load program - error'', snd (emit (Ev_destroy sk) lc1))
         else (Inr (), lc1\<lparr>lc_state := LOADED\<rparr>))"

definition lc_attach :: "'s lc_env \<Rightarrow> ('s life_cycle, unit) op" where
  "lc_attach E lc =
     (let (err, sk) = env_attach E (lc_skeleton lc);
          lc1 = lc\<lparr>lc_skeleton := sk\<rparr>
      in if err \<noteq> 0
         then (Inl ''Cannot attach program - error'', snd (emit (Ev_destroy sk) lc1))
         else (Inr (), lc1\<lparr>lc_state := ATTACHED\<rparr>))"

definition lc_destroy :: "('s life_cycle, unit) op" where
  "lc_destroy lc =
     (let lc1 = (if lc_state lc \<noteq> IDLE then snd (emit (Ev_destroy (lc_skeleton lc)) lc) else lc)
      in (Inr (), lc1\<lparr>lc_state := IDLE\<rparr>))"

fun unlink_all :: "'s lc_env \<Rightarrow> u32 list \<Rightarrow> ('s life_cycle, unit) op" where
  "unlink_all E [] = ret ()"
| "unlink_all E (i # is) =
     sbind (set_link E i (-1)) (\<lambda>rc. if rc \<noteq> 0 then throw ''BPF program cannot unlink'' else unlink_all E is)"

fun unlink_sections :: "'s lc_env \<Rightarrow> (string \<times> int) list \<Rightarrow> ('s life_cycle, unit) op" where
  "unlink_sections E [] = ret ()"
| "unlink_sections E ((section, fd) # progs) =
     (\<lambda>lc. case lc_links lc section of
        None \<Rightarrow> unlink_sections E progs lc
      | Some is \<Rightarrow> seq (unlink_all E is) (unlink_sections E progs) lc)"

definition lc_tearDown :: "'s lc_env \<Rightarrow> ('s life_cycle, unit) op" where
  "lc_tearDown E lc =
     (if lc_state lc \<noteq> IDLE then
        (if lc_state lc = LINKED
         then seq (unlink_sections E (env_programs E (lc_skeleton lc))) lc_destroy lc
         else lc_destroy lc)
      else (Inr (), lc))"

fun link_section :: "'s lc_env \<Rightarrow> string \<Rightarrow> u32 \<Rightarrow> (string \<times> int) list \<Rightarrow> ('s life_cycle, unit) op" where
  "link_section E sectionName ifIndex [] = throw ''Section not found''"
| "link_section E sectionName ifIndex ((section, fd) # progs) =
     (if section = sectionName then
        sbind (set_link E ifIndex fd) (\<lambda>rc.
          if rc < 0 then seq (lc_tearDown E) (throw ''BPF program link set XDP failed'')
          else (\<lambda>lc.
            (Inr (),
             (case lc_links lc section of
                None \<Rightarrow> lc\<lparr>lc_links := (lc_links lc)(sectionName \<mapsto> [ifIndex])\<rparr>
              | Some is \<Rightarrow> lc\<lparr>lc_links := (lc_links lc)(section \<mapsto> is @ [ifIndex])\<rparr>)
             \<lparr>lc_state := LINKED\<rparr>)))
      else link_section E sectionName ifIndex progs)"

definition lc_link :: "'s lc_env \<Rightarrow> string \<Rightarrow> string \<Rightarrow> ('s life_cycle, unit) op" where
  "lc_link E sectionName interface lc =
     (let ifIndex = env_if_nametoindex E interface
      in if ifIndex = 0 then (Inl ''Interface not found!'', lc)
         else link_section E sectionName ifIndex (env_programs E (lc_skeleton lc)) lc)"

definition lc_getBPFSkeleton :: "'s life_cycle \<Rightarrow> 's option" where
  "lc_getBPFSkeleton lc = lc_skeleton lc"

definition lc_getState :: "'s life_cycle \<Rightarrow> ProgramState" where
  "lc_getState lc = lc_state lc"

section \<open>Hooked interfaces\<close>

text \<open>The interfaces that carry a program after a sequence of requests and answers.\<close>

fun live_step :: "'s lc_event \<Rightarrow> u32 set \<Rightarrow> u32 set" where
  "live_step (Ev_set_link i fd rc) S =
     (if fd = -1 then (if rc = 0 then S - {i} else S) else (if rc < 0 then S else insert i S))"
| "live_step (Ev_destroy sk) S = S"

definition live :: "'s lc_event list \<Rightarrow> u32 set" where
  "live es = fold live_step es {}"

lemma live_Nil [simp]: "live [] = {}"
  by (simp add: live_def)

lemma live_snoc [simp]: "live (es @ [e]) = live_step e (live es)"
  by (simp add: live_def)

definition env_ok :: "'s lc_env \<Rightarrow> bool" where
  "env_ok E \<longleftrightarrow> (\<forall>sk. \<forall>p \<in> set (env_programs E sk). snd p \<noteq> -1)"

definition recorded :: "'s lc_env \<Rightarrow> 's life_cycle \<Rightarrow> (string \<times> int) list \<Rightarrow> u32 set" where
  "recorded E lc progs =
     (\<Union>p \<in> set progs. case lc_links lc (fst p) of None \<Rightarrow> {} | Some is \<Rightarrow> set is)"

text \<open>
  Every hooked interface is recorded under a section of the object, and some interface is hooked
  only in state \<open>LINKED\<close>.
\<close>

definition lc_inv :: "'s lc_env \<Rightarrow> 's life_cycle \<Rightarrow> bool" where
  "lc_inv E lc \<longleftrightarrow>
     live (lc_events lc) \<subseteq> recorded E lc (env_programs E (lc_skeleton lc)) \<and>
     (live (lc_events lc) = {} \<or> lc_state lc = LINKED)"

lemma recorded_simps [simp]:
  "recorded E lc [] = {}"
  "recorded E lc (p # ps) =
     (case lc_links lc (fst p) of None \<Rightarrow> {} | Some is \<Rightarrow> set is) \<union> recorded E lc ps"
  by (simp_all add: recorded_def)

lemma recorded_cong: "lc_links lc' = lc_links lc \<Longrightarrow> recorded E lc' ps = recorded E lc ps"
  by (simp add: recorded_def)

lemma unlink_all_effect:
  assumes "unlink_all E is lc = (r, lc')"
  shows "lc_links lc' = lc_links lc \<and> lc_skeleton lc' = lc_skeleton lc \<and> lc_state lc' = lc_state lc \<and>
         live (lc_events lc') \<subseteq> live (lc_events lc) \<and>
         (r = Inr () \<longrightarrow> live (lc_events lc') = live (lc_events lc) - set is)"
  using assms
proof (induction "is" arbitrary: lc)
  case Nil
  then show ?case by auto
next
  case (Cons i "is")
  let ?rc = "env_set_link E (lc_events lc) i (-1) (lc_flags lc)"
  let ?lc = "lc\<lparr>lc_events := lc_events lc @ [Ev_set_link i (-1) ?rc]\<rparr>"
  show ?case
  proof (cases "?rc = 0")
    case True
    then have "unlink_all E is ?lc = (r, lc')"
      using Cons.prems by (simp add: sbind_def set_link_def emit_def Let_def)
    from Cons.IH [OF this] True show ?thesis
      by auto
  next
    case False
    then show ?thesis
      using Cons.prems by (auto simp: sbind_def set_link_def emit_def Let_def)
  qed
qed

lemma unlink_sections_effect:
  assumes "unlink_sections E progs lc = (r, lc')"
  shows "lc_links lc' = lc_links lc \<and> lc_skeleton lc' = lc_skeleton lc \<and> lc_state lc' = lc_state lc \<and>
         live (lc_events lc') \<subseteq> live (lc_events lc) \<and>
         (r = Inr () \<longrightarrow> live (lc_events lc') = live (lc_events lc) - recorded E lc progs)"
  using assms
proof (induction progs arbitrary: lc)
  case Nil
  then show ?case by auto
next
  case (Cons p progs)
  obtain sec fd where p: "p = (sec, fd)" by fastforce
  show ?case
  proof (cases "lc_links lc sec")
    case None
    then show ?thesis
      using Cons.IH [of lc] Cons.prems by (simp add: p)
  next
    case (Some "is")
    obtain r1 lc1 where u: "unlink_all E is lc = (r1, lc1)" by fastforce
    note e = unlink_all_effect [OF u]
    show ?thesis
    proof (cases r1)
      case (Inl err)
      then show ?thesis
        using Cons.prems u e Some by (auto simp: p)
    next
      case (Inr x)
      then have "unlink_sections E progs lc1 = (r, lc')"
        using Cons.prems u Some by (simp add: p)
      from Cons.IH [OF this] e Inr Some recorded_cong [of lc1 lc E progs] show ?thesis
        by (auto simp: p)
    qed
  qed
qed

lemma lc_destroy_effect:
  "lc_destroy lc = (r, lc') \<Longrightarrow>
     r = Inr () \<and> lc_state lc' = IDLE \<and> live (lc_events lc') = live (lc_events lc) \<and>
     lc_links lc' = lc_links lc \<and> lc_skeleton lc' = lc_skeleton lc"
  by (auto simp: lc_destroy_def emit_def Let_def split: if_splits)

lemma lc_tearDown_effect:
  assumes "lc_inv E lc" and "lc_tearDown E lc = (r, lc')"
  shows "lc_inv E lc' \<and>
    (r = Inr () \<longrightarrow> live (lc_events lc') = {} \<and> lc_state lc' = IDLE)"
proof (cases "lc_state lc = LINKED")
  case True
  obtain r1 lc1 where u: "unlink_sections E (env_programs E (lc_skeleton lc)) lc = (r1, lc1)"
    by fastforce
  note e = unlink_sections_effect [OF u]
  show ?thesis
  proof (cases r1)
    case (Inl err)
    then show ?thesis
      using assms u e True recorded_cong [of lc1 lc E]
      by (auto simp: lc_tearDown_def lc_inv_def)
  next
    case (Inr x)
    then have "lc_destroy lc1 = (r, lc')"
      using assms(2) u True by (simp add: lc_tearDown_def)
    from lc_destroy_effect [OF this] e Inr assms(1) show ?thesis
      by (auto simp: lc_inv_def)
  qed
next
  case False
  then have "live (lc_events lc) = {}"
    using assms(1) by (simp add: lc_inv_def)
  then show ?thesis
    using assms False lc_destroy_effect [of lc r lc']
    by (auto simp: lc_tearDown_def lc_inv_def split: if_splits)
qed

lemma recorded_mono:
  assumes "\<And>n is. lc_links lc n = Some is \<Longrightarrow> \<exists>is'. lc_links lc' n = Some is' \<and> set is \<subseteq> set is'"
  shows "recorded E lc ps \<subseteq> recorded E lc' ps"
proof
  fix i assume "i \<in> recorded E lc ps"
  then obtain p "is" where "p \<in> set ps" "lc_links lc (fst p) = Some is" "i \<in> set is"
    by (auto simp: recorded_def split: option.splits)
  moreover obtain is' where "lc_links lc' (fst p) = Some is'" "set is \<subseteq> set is'"
    using assms calculation(2) by blast
  ultimately show "i \<in> recorded E lc' ps"
    by (force simp: recorded_def)
qed

lemma link_section_inv:
  assumes inv: "lc_inv E lc" and ok: "env_ok E"
    and progs: "set progs \<subseteq> set (env_programs E (lc_skeleton lc))"
    and run: "link_section E name i progs lc = (r, lc')"
  shows "lc_inv E lc'"
  using progs run
proof (induction progs)
  case Nil
  then show ?case using inv by simp
next
  case (Cons p progs)
  obtain sec fd where p: "p = (sec, fd)" by fastforce
  show ?case
  proof (cases "sec = name")
    case False
    then show ?thesis using Cons by (simp add: p)
  next
    case True
    let ?rc = "env_set_link E (lc_events lc) i fd (lc_flags lc)"
    let ?lc = "lc\<lparr>lc_events := lc_events lc @ [Ev_set_link i fd ?rc]\<rparr>"
    have fd: "fd \<noteq> -1"
      using ok Cons.prems(1) by (force simp: env_ok_def p)
    show ?thesis
    proof (cases "?rc < 0")
      case neg: True
      obtain r2 lc2 where t: "lc_tearDown E ?lc = (r2, lc2)" by fastforce
      then have "lc_inv E lc2"
        using inv fd neg lc_tearDown_effect [of E ?lc r2 lc2] recorded_cong [of ?lc lc E]
        by (simp add: lc_inv_def)
      moreover have "lc' = lc2"
        using Cons.prems(2) True neg t
        by (cases r2) (simp_all add: p sbind_def set_link_def emit_def Let_def)
      ultimately show ?thesis by simp
    next
      case pos: False
      define is' where "is' = (case lc_links lc name of None \<Rightarrow> [i] | Some is \<Rightarrow> is @ [i])"
      have lc': "lc' = lc\<lparr>lc_events := lc_events lc @ [Ev_set_link i fd ?rc],
                        lc_links := (lc_links lc)(name \<mapsto> is'), lc_state := LINKED\<rparr>"
        using Cons.prems(2) True pos
        by (auto simp: p sbind_def set_link_def emit_def Let_def is'_def split: option.splits)
      have "recorded E lc ps \<subseteq> recorded E lc' ps" for ps
        by (rule recorded_mono) (auto simp: lc' is'_def)
      moreover have "i \<in> recorded E lc' (env_programs E (lc_skeleton lc))"
        using Cons.prems(1) True
        by (force simp: recorded_def lc' is'_def p split: option.splits)
      ultimately show ?thesis
        using inv fd pos by (auto simp: lc_inv_def lc')
    qed
  qed
qed

section \<open>Reachable objects\<close>

text \<open>
  The calls a client may make, exceptions included: opening, loading and attaching happen before
  anything is hooked; hooking and tearing down at any time.
\<close>

inductive lc_step :: "'s lc_env \<Rightarrow> 's life_cycle \<Rightarrow> 's life_cycle \<Rightarrow> bool" for E where
  step_open: "live (lc_events lc) = {} \<Longrightarrow> lc_open E lc = (r, lc') \<Longrightarrow> lc_step E lc lc'"
| step_load: "live (lc_events lc) = {} \<Longrightarrow> lc_load E lc = (r, lc') \<Longrightarrow> lc_step E lc lc'"
| step_attach: "live (lc_events lc) = {} \<Longrightarrow> lc_attach E lc = (r, lc') \<Longrightarrow> lc_step E lc lc'"
| step_link: "lc_link E sectionName interface lc = (r, lc') \<Longrightarrow> lc_step E lc lc'"
| step_tearDown: "lc_tearDown E lc = (r, lc') \<Longrightarrow> lc_step E lc lc'"

inductive lc_reachable :: "'s lc_env \<Rightarrow> 's life_cycle \<Rightarrow> bool" for E where
  reach_new: "lc_reachable E (new_life_cycle junk skb)"
| reach_step: "lc_reachable E lc \<Longrightarrow> lc_step E lc lc' \<Longrightarrow> lc_reachable E lc'"

lemma lc_setup_effect:
  "lc_open E lc = (ro, lc') \<Longrightarrow> live (lc_events lc') = live (lc_events lc)"
  "lc_load E lc = (r, lc') \<Longrightarrow> live (lc_events lc') = live (lc_events lc)"
  "lc_attach E lc = (r, lc') \<Longrightarrow> live (lc_events lc') = live (lc_events lc)"
  by (auto simp: lc_open_def lc_load_def lc_attach_def emit_def Let_def
      split: if_splits prod.splits)

lemma lc_step_inv:
  assumes "env_ok E" and "lc_step E lc lc'" and "lc_inv E lc"
  shows "lc_inv E lc'"
  using assms(2,3)
proof (cases rule: lc_step.cases)
  case (step_link name ifn r)
  then show ?thesis
    using assms link_section_inv [of E lc "env_programs E (lc_skeleton lc)" name _ r lc']
    by (auto simp: lc_link_def Let_def split: if_splits)
next
  case (step_tearDown r)
  then show ?thesis
    using assms lc_tearDown_effect by blast
qed (auto simp: lc_inv_def dest: lc_setup_effect)

lemma lc_inv_new: "lc_inv E (new_life_cycle junk skb)"
  by (simp add: lc_inv_def new_life_cycle_def)

lemma lc_reachable_inv: "lc_reachable E lc \<Longrightarrow> env_ok E \<Longrightarrow> lc_inv E lc"
  by (induction rule: lc_reachable.induct) (auto intro: lc_inv_new lc_step_inv)

text \<open>When the kernel accepts every request to unhook, tearing down does not throw.\<close>

definition unlink_accepted :: "'s lc_env \<Rightarrow> bool" where
  "unlink_accepted E \<longleftrightarrow> (\<forall>es i fl. env_set_link E es i (-1) fl = 0)"

lemma unlink_all_returns: "unlink_accepted E \<Longrightarrow> fst (unlink_all E is lc) = Inr ()"
  by (induction "is" arbitrary: lc)
    (simp_all add: unlink_accepted_def sbind_def set_link_def emit_def Let_def)

lemma unlink_sections_returns:
  assumes "unlink_accepted E"
  shows "fst (unlink_sections E progs lc) = Inr ()"
proof (induction progs arbitrary: lc)
  case (Cons p progs)
  obtain sec fd where p: "p = (sec, fd)" by fastforce
  show ?case
  proof (cases "lc_links lc sec")
    case (Some "is")
    obtain lc1 where "unlink_all E is lc = (Inr (), lc1)"
      using unlink_all_returns [OF assms, of "is" lc] by (metis prod.collapse)
    with Cons Some show ?thesis by (simp add: p)
  qed (simp add: p Cons)
qed simp

lemma lc_tearDown_returns:
  assumes "unlink_accepted E"
  shows "\<exists>lc'. lc_tearDown E lc = (Inr (), lc')"
proof -
  obtain lc1 where "unlink_sections E (env_programs E (lc_skeleton lc)) lc = (Inr (), lc1)"
    using unlink_sections_returns [OF assms] by (metis prod.collapse)
  then show ?thesis
    by (simp add: lc_tearDown_def lc_destroy_def)
qed

section \<open>Properties\<close>

text \<open>A sample environment: one program in section \<^verbatim>\<open>xdp_entry_point\<close> with descriptor 5.\<close>

definition sample_env :: "unit lc_env" where
  "sample_env =
     \<lparr>env_setrlimit = 0, env_open = Some (), env_load = (\<lambda>sk. (0, sk)), env_attach = (\<lambda>sk. (0, sk)),
      env_programs = (\<lambda>sk. [(''xdp_entry_point'', 5)]),
      env_if_nametoindex = (\<lambda>n. if n = ''eth0'' then 2 else 3),
      env_set_link = (\<lambda>es i fd fl. 0)\<rparr>"

definition sample_linked :: "unit life_cycle" where
  "sample_linked =
     snd (lc_link sample_env ''xdp_entry_point'' ''eth1''
       (snd (lc_link sample_env ''xdp_entry_point'' ''eth0''
         (snd (lc_open sample_env (new_life_cycle OPENED False))))))"

lemma lc_reachable_calls:
  "lc_reachable E lc \<Longrightarrow> lc_reachable E (snd (lc_link E sectionName interface lc))"
  "lc_reachable E (snd (lc_open E (new_life_cycle junk skb)))"
proof -
  show "lc_reachable E lc \<Longrightarrow> lc_reachable E (snd (lc_link E sectionName interface lc))"
    by (rule reach_step, assumption, rule step_link, rule prod.collapse [symmetric])
  show "lc_reachable E (snd (lc_open E (new_life_cycle junk skb)))"
    by (rule reach_step, rule reach_new, rule step_open, simp add: new_life_cycle_def,
        rule prod.collapse [symmetric])
qed

lemma sample_reachable: "lc_reachable sample_env sample_linked"
  unfolding sample_linked_def by (intro lc_reachable_calls)

lemma sample_env_ok: "env_ok sample_env" "unlink_accepted sample_env"
  by (simp_all add: env_ok_def unlink_accepted_def sample_env_def)



text \<open>
  A failed load destroys the skeleton but neither forgets it nor changes the state, so
  tearing the object down afterwards destroys the same skeleton once more.
\<close>

lemma failed_load_destroys_twice:
  assumes "env_load E (lc_skeleton lc) = (err, sk)" and "err \<noteq> 0" and "lc_state lc = OPENED"
  shows "\<exists>msg lc1 lc2. lc_load E lc = (Inl msg, lc1) \<and> lc_tearDown E lc1 = (Inr (), lc2) \<and>
           lc_events lc2 = lc_events lc @ [Ev_destroy sk, Ev_destroy sk]"
  using assms by (simp add: lc_load_def lc_tearDown_def lc_destroy_def emit_def Let_def)

lemma failed_load_destroys_twice_witness:
  "\<exists>msg lc1 lc2.
     lc_load (sample_env\<lparr>env_load := (\<lambda>sk. (-22, sk))\<rparr>)
       (new_life_cycle OPENED False\<lparr>lc_skeleton := Some ()\<rparr>) = (Inl msg, lc1) \<and>
     lc_tearDown (sample_env\<lparr>env_load := (\<lambda>sk. (-22, sk))\<rparr>) lc1 = (Inr (), lc2) \<and>
     lc_events lc2 = [Ev_destroy (Some ()), Ev_destroy (Some ())]"
  using failed_load_destroys_twice [of "sample_env\<lparr>env_load := (\<lambda>sk. (-22, sk))\<rparr>"
      "new_life_cycle OPENED False\<lparr>lc_skeleton := Some ()\<rparr>" "-22" "Some ()"]
  by (simp add: new_life_cycle_def)

end
