(* ===== verification/Bpf_Map.thy ===== *)
theory Bpf_Map
  imports Program_Life_Cycle
begin

text \<open>
  The wrappers around BPF maps: \<^verbatim>\<open>src/wrappers/BPFMap.hpp\<close> and \<^verbatim>\<open>src/wrappers/BPFMaps.cpp\<close>.  The
  \<^verbatim>\<open>bpf\<close> system calls are the members of \<open>map_sys\<close>; \<open>map_sys_ok\<close> is what \<^verbatim>\<open>bpf(2)\<close> documents of
  them, with the keys a map accepts as a parameter: a hash map accepts a new key while it is
  not full, an array accepts every index below its size.

  The contract the clients of the wrapper rely on is the locale \<open>map_store\<close>; the wrapper meets
  it for every kernel map.
\<close>

section \<open>Definitions\<close>

abbreviation (input) BPF_ANY :: int where "BPF_ANY \<equiv> 0"

record ('k, 'v) bpf_map =
  bm_name :: string
  bm_max_entries :: nat
  bm_elems :: "'k \<rightharpoonup> 'v"

record ('k, 'v) map_sys =
  sys_lookup :: "('k, 'v) bpf_map \<Rightarrow> 'k \<Rightarrow> int \<times> 'v option"
  sys_update :: "('k, 'v) bpf_map \<Rightarrow> 'k \<Rightarrow> 'v \<Rightarrow> int \<Rightarrow> int \<times> ('k \<rightharpoonup> 'v)"
  sys_delete :: "('k, 'v) bpf_map \<Rightarrow> 'k \<Rightarrow> int \<times> ('k \<rightharpoonup> 'v)"

text \<open>\<open>BPFMap_lookup\<close> returns the code and the content of \<^verbatim>\<open>*pValue\<close> afterwards.\<close>

definition BPFMap_lookup :: "('k, 'v) map_sys \<Rightarrow> 'k \<Rightarrow> 'v \<Rightarrow> ('k, 'v) bpf_map \<Rightarrow> int \<times> 'v" where
  "BPFMap_lookup S key pValue m =
     (let (lookupReturn, v) = sys_lookup S m key
      in (lookupReturn, case v of Some x \<Rightarrow> x | None \<Rightarrow> pValue))"

definition BPFMap_update ::
    "('k, 'v) map_sys \<Rightarrow> 'k \<Rightarrow> 'v \<Rightarrow> int \<Rightarrow> (('k, 'v) bpf_map, int) op" where
  "BPFMap_update S key value flags m =
     (let (updateReturn, es) = sys_update S m key value flags;
          m' = m\<lparr>bm_elems := es\<rparr>
      in if updateReturn \<noteq> 0 then (Inl ''The BPF map cannot be updated'', m')
         else (Inr updateReturn, m'))"

definition BPFMap_remove :: "('k, 'v) map_sys \<Rightarrow> 'k \<Rightarrow> (('k, 'v) bpf_map, int) op" where
  "BPFMap_remove S key m =
     (let (deleteReturn, es) = sys_delete S m key;
          m' = m\<lparr>bm_elems := es\<rparr>
      in if deleteReturn \<noteq> 0 then (Inl ''The BPF map cannot be removed'', m')
         else (Inr deleteReturn, m'))"

text \<open>
  \<^verbatim>\<open>BPFMaps\<close> keeps the maps of a skeleton in its order; \<^verbatim>\<open>getMap\<close> answers the first one with the
  name.  The failing \<^verbatim>\<open>assert\<close> on an object without maps is an error of its own.
\<close>

fun getMap_loop :: "string list \<Rightarrow> string \<Rightarrow> nat \<Rightarrow> string + nat" where
  "getMap_loop [] name i = Inl ''Map was not found''"
| "getMap_loop (n # ns) name i = (if name = n then Inr i else getMap_loop ns name (i + 1))"

definition BPFMaps_getMap :: "string list \<Rightarrow> string \<Rightarrow> string + nat" where
  "BPFMaps_getMap names name =
     (if names = [] then Inl ''assertion failed'' else getMap_loop names name 0)"

section \<open>The kernel's side\<close>

definition hash_accepts :: "('k, 'v) bpf_map \<Rightarrow> 'k \<Rightarrow> bool" where
  "hash_accepts m k \<longleftrightarrow> bm_elems m k \<noteq> None \<or> card (dom (bm_elems m)) < bm_max_entries m"

definition array_accepts :: "(u32, 'v) bpf_map \<Rightarrow> u32 \<Rightarrow> bool" where
  "array_accepts m k \<longleftrightarrow> unat k < bm_max_entries m"

definition map_sys_ok ::
    "(('k, 'v) bpf_map \<Rightarrow> 'k \<Rightarrow> bool) \<Rightarrow> ('k, 'v) map_sys \<Rightarrow> bool" where
  "map_sys_ok accepts S \<longleftrightarrow>
     (\<forall>m k v.
        (if accepts m k then sys_update S m k v BPF_ANY = (0, (bm_elems m)(k \<mapsto> v))
         else fst (sys_update S m k v BPF_ANY) \<noteq> 0 \<and> snd (sys_update S m k v BPF_ANY) = bm_elems m) \<and>
        (if bm_elems m k = None then fst (sys_delete S m k) \<noteq> 0 \<and> snd (sys_delete S m k) = bm_elems m
         else sys_delete S m k = (0, (bm_elems m)(k := None))) \<and>
        (case bm_elems m k of
           None \<Rightarrow> fst (sys_lookup S m k) \<noteq> 0 \<and> snd (sys_lookup S m k) = None
         | Some x \<Rightarrow> sys_lookup S m k = (0, Some x)))"

text \<open>A concrete kernel map, for the witnesses.\<close>

definition ref_map_sys :: "(('k, 'v) bpf_map \<Rightarrow> 'k \<Rightarrow> bool) \<Rightarrow> ('k, 'v) map_sys" where
  "ref_map_sys accepts =
     \<lparr>sys_lookup = (\<lambda>m k. case bm_elems m k of None \<Rightarrow> (-2, None) | Some x \<Rightarrow> (0, Some x)),
      sys_update = (\<lambda>m k v fl. if accepts m k then (0, (bm_elems m)(k \<mapsto> v)) else (-7, bm_elems m)),
      sys_delete = (\<lambda>m k. if bm_elems m k = None then (-2, bm_elems m)
                         else (0, (bm_elems m)(k := None)))\<rparr>"

lemma ref_map_sys_ok: "map_sys_ok accepts (ref_map_sys accepts)"
  by (simp add: map_sys_ok_def ref_map_sys_def split: option.splits)

section \<open>The contract of the wrapper\<close>

locale map_store =
  fixes accepts :: "('k, 'v) bpf_map \<Rightarrow> 'k \<Rightarrow> bool"
    and update :: "'k \<Rightarrow> 'v \<Rightarrow> (('k, 'v) bpf_map, int) op"
    and remove :: "'k \<Rightarrow> (('k, 'v) bpf_map, int) op"
    and lookup :: "'k \<Rightarrow> 'v \<Rightarrow> ('k, 'v) bpf_map \<Rightarrow> int \<times> 'v"
  assumes update_ok: "accepts m k \<Longrightarrow> update k v m = (Inr 0, m\<lparr>bm_elems := (bm_elems m)(k \<mapsto> v)\<rparr>)"
    and update_refused: "\<not> accepts m k \<Longrightarrow> \<exists>e. update k v m = (Inl e, m)"
    and remove_ok: "bm_elems m k \<noteq> None \<Longrightarrow>
                      remove k m = (Inr 0, m\<lparr>bm_elems := (bm_elems m)(k := None)\<rparr>)"
    and remove_absent: "bm_elems m k = None \<Longrightarrow> \<exists>e. remove k m = (Inl e, m)"
    and lookup_found: "bm_elems m k = Some v \<Longrightarrow> lookup k d m = (0, v)"
    and lookup_absent: "bm_elems m k = None \<Longrightarrow> \<exists>rc. rc \<noteq> 0 \<and> lookup k d m = (rc, d)"
begin

lemma lookup_after_update:
  "update k v m = (Inr rc, m') \<Longrightarrow> lookup k d m' = (0, v)"
  using update_ok [of m k v] update_refused [of m k v] lookup_found [of m' k v d]
  by (cases "accepts m k") auto

lemma remove_after_update:
  assumes "accepts m k"
  shows "\<exists>m1. update k v m = (Inr 0, m1) \<and>
           remove k m1 = (Inr 0, m\<lparr>bm_elems := (bm_elems m)(k := None)\<rparr>)"
  using update_ok [OF assms, of v] remove_ok [of "m\<lparr>bm_elems := (bm_elems m)(k \<mapsto> v)\<rparr>" k]
  by simp

lemma update_keeps_others:
  "snd (update k v m) = m' \<Longrightarrow> j \<noteq> k \<Longrightarrow> bm_elems m' j = bm_elems m j"
  using update_ok [of m k v] update_refused [of m k v] by (cases "accepts m k") auto

lemma failed_changes_nothing:
  "fst (update k v m) = Inl e \<Longrightarrow> snd (update k v m) = m"
  "fst (remove k m) = Inl e \<Longrightarrow> snd (remove k m) = m"
  using update_ok [of m k v] update_refused [of m k v] remove_ok [of m k] remove_absent [of m k]
  by (cases "accepts m k"; cases "bm_elems m k"; auto)+

end

text \<open>A kernel map behind the wrapper.\<close>

locale kernel_map =
  fixes accepts :: "('k, 'v) bpf_map \<Rightarrow> 'k \<Rightarrow> bool" and S :: "('k, 'v) map_sys"
  assumes sys: "map_sys_ok accepts S"

sublocale kernel_map \<subseteq> map_store accepts "\<lambda>k v. BPFMap_update S k v BPF_ANY" "BPFMap_remove S"
    "BPFMap_lookup S"
proof
  fix m k v d
  note law = sys [unfolded map_sys_ok_def, rule_format, of m k v]
  show "accepts m k \<Longrightarrow> BPFMap_update S k v BPF_ANY m = (Inr 0, m\<lparr>bm_elems := (bm_elems m)(k \<mapsto> v)\<rparr>)"
    using law by (simp add: BPFMap_update_def)
  show "\<not> accepts m k \<Longrightarrow> \<exists>e. BPFMap_update S k v BPF_ANY m = (Inl e, m)"
    using law by (simp add: BPFMap_update_def split_def)
  show "bm_elems m k \<noteq> None \<Longrightarrow>
      BPFMap_remove S k m = (Inr 0, m\<lparr>bm_elems := (bm_elems m)(k := None)\<rparr>)"
    using law by (auto simp: BPFMap_remove_def)
  show "bm_elems m k = None \<Longrightarrow> \<exists>e. BPFMap_remove S k m = (Inl e, m)"
    using law by (simp add: BPFMap_remove_def split_def)
  show "bm_elems m k = Some v \<Longrightarrow> BPFMap_lookup S k d m = (0, v)"
    using law by (simp add: BPFMap_lookup_def)
  show "bm_elems m k = None \<Longrightarrow> \<exists>rc. rc \<noteq> 0 \<and> BPFMap_lookup S k d m = (rc, d)"
    using law by (simp add: BPFMap_lookup_def split_def)
qed

context kernel_map
begin

lemma wrapper_store:
  "map_store accepts (\<lambda>k v. BPFMap_update S k v BPF_ANY) (BPFMap_remove S) (BPFMap_lookup S)"
  by unfold_locales

end

lemmas wrapper_is_store = kernel_map.wrapper_store [OF kernel_map.intro]

interpretation ref_hash: kernel_map hash_accepts "ref_map_sys hash_accepts"
  by unfold_locales (rule ref_map_sys_ok)

interpretation ref_array: kernel_map array_accepts "ref_map_sys array_accepts"
  by unfold_locales (rule ref_map_sys_ok)

lemma getMap_loop_found:
  "getMap_loop ns name i = Inr j \<Longrightarrow>
     \<exists>l. j = i + l \<and> l < length ns \<and> ns ! l = name \<and> name \<notin> set (take l ns)"
proof (induction ns arbitrary: i)
  case (Cons n ns)
  show ?case
  proof (cases "name = n")
    case False
    then obtain l where "j = Suc i + l" "l < length ns" "ns ! l = name" "name \<notin> set (take l ns)"
      using Cons.IH [of "i + 1"] Cons.prems by auto
    with False show ?thesis
      by (intro exI [of _ "Suc l"]) simp
  qed (use Cons.prems in auto)
qed simp

lemma getMap_loop_missing: "getMap_loop ns name i = Inl e \<Longrightarrow> name \<notin> set ns"
  by (induction ns arbitrary: i) (auto split: if_splits)

section \<open>Properties\<close>

text \<open>
  \<^verbatim>\<open>getMap\<close> answers the first map with the requested name, and throws exactly when no map
  has it.
\<close>

theorem BPFMaps_getMap_spec:
  "case BPFMaps_getMap names name of
     Inr j \<Rightarrow> j < length names \<and> names ! j = name \<and> name \<notin> set (take j names)
   | Inl e \<Rightarrow> name \<notin> set names"
  using getMap_loop_found [of names name 0] getMap_loop_missing [of names name 0]
  by (auto simp: BPFMaps_getMap_def split: sum.splits)

end
