(* ===== verification/Bpf_Types.thy ===== *)
theory Bpf_Types
  imports Upf_Prelude
begin

text \<open>
  Data shared by the BPF programs and the management layer: the XDP actions, the packet as the
  programs see it (\<^verbatim>\<open>struct xdp_md\<close>), the sizes and offsets of the protocol headers of
  \<^verbatim>\<open>src/bpf/protocols\<close>, the rules stored in the maps (\<^verbatim>\<open>src/bpf/pfcp\<close>, \<^verbatim>\<open>src/bpf/ie\<close>), the key
  of the pipeline index map, and the kernel's BPF helpers as parameters with the documented
  behaviour the programs rely on.  Of the information elements only the members that some code
  of the repository reads or writes are kept; the \<^verbatim>\<open>ie_base\<close> headers and the members that are
  zero initialised and never read again are not.
\<close>

section \<open>Constants\<close>

abbreviation (input) XDP_ABORTED :: u32 where "XDP_ABORTED \<equiv> 0"
abbreviation (input) XDP_DROP :: u32 where "XDP_DROP \<equiv> 1"
abbreviation (input) XDP_PASS :: u32 where "XDP_PASS \<equiv> 2"
abbreviation (input) XDP_TX :: u32 where "XDP_TX \<equiv> 3"
abbreviation (input) XDP_REDIRECT :: u32 where "XDP_REDIRECT \<equiv> 4"
abbreviation (input) XDP_ACTION_MAX :: u32 where "XDP_ACTION_MAX \<equiv> 5"

abbreviation (input) ETH_SIZE :: nat where "ETH_SIZE \<equiv> 14"
abbreviation (input) IPH_SIZE :: nat where "IPH_SIZE \<equiv> 20"
abbreviation (input) UDPH_SIZE :: nat where "UDPH_SIZE \<equiv> 8"
abbreviation (input) GTPUH_SIZE :: nat where "GTPUH_SIZE \<equiv> 8"

definition GTP_ENCAPSULATED_SIZE :: nat where
  "GTP_ENCAPSULATED_SIZE = IPH_SIZE + UDPH_SIZE + GTPUH_SIZE"

abbreviation (input) GTP_UDP_PORT :: u16 where "GTP_UDP_PORT \<equiv> 2152"
abbreviation (input) GTP_FLAGS :: u8 where "GTP_FLAGS \<equiv> 0x30"
abbreviation (input) GTPU_G_PDU :: u8 where "GTPU_G_PDU \<equiv> 255"

abbreviation (input) ETH_P_IP :: u16 where "ETH_P_IP \<equiv> 0x0800"
abbreviation (input) ETH_P_8021Q :: u16 where "ETH_P_8021Q \<equiv> 0x8100"
abbreviation (input) ETH_P_8021AD :: u16 where "ETH_P_8021AD \<equiv> 0x88A8"
abbreviation (input) IPPROTO_UDP :: u8 where "IPPROTO_UDP \<equiv> 17"

abbreviation (input) INTERFACE_VALUE_ACCESS :: u8 where "INTERFACE_VALUE_ACCESS \<equiv> 0"
abbreviation (input) INTERFACE_VALUE_CORE :: u8 where "INTERFACE_VALUE_CORE \<equiv> 1"

abbreviation (input) OUTER_HEADER_CREATION_GTPU_UDP_IPV4 :: u16
  where "OUTER_HEADER_CREATION_GTPU_UDP_IPV4 \<equiv> 0x0100"
abbreviation (input) OUTER_HEADER_CREATION_GTPU_UDP_IPV6 :: u16
  where "OUTER_HEADER_CREATION_GTPU_UDP_IPV6 \<equiv> 0x0200"
abbreviation (input) OUTER_HEADER_CREATION_UDP_IPV4 :: u16
  where "OUTER_HEADER_CREATION_UDP_IPV4 \<equiv> 0x0400"
abbreviation (input) OUTER_HEADER_CREATION_UDP_IPV6 :: u16
  where "OUTER_HEADER_CREATION_UDP_IPV6 \<equiv> 0x0800"

abbreviation (input) OUTER_HEADER_REMOVAL_GTPU_UDP_IPV4 :: u8
  where "OUTER_HEADER_REMOVAL_GTPU_UDP_IPV4 \<equiv> 0"
abbreviation (input) OUTER_HEADER_REMOVAL_UDP_IPV4 :: u8
  where "OUTER_HEADER_REMOVAL_UDP_IPV4 \<equiv> 2"

text \<open>\<^verbatim>\<open>enum FlowDirection\<close> of \<^verbatim>\<open>include/types.h\<close>, with its numbering.\<close>

datatype FlowDirection = DOWNLINK | UPLINK

fun flow_id :: "FlowDirection \<Rightarrow> u32" where
  "flow_id DOWNLINK = 0"
| "flow_id UPLINK = 1"

section \<open>Packets\<close>

text \<open>
  \<^verbatim>\<open>struct xdp_md\<close>: \<open>pkt_data\<close> is the memory from \<^verbatim>\<open>data\<close> up to \<^verbatim>\<open>data_end\<close>, \<open>pkt_room\<close> the
  memory in front of \<^verbatim>\<open>data\<close> that \<^verbatim>\<open>bpf_xdp_adjust_head\<close> may claim.
\<close>

record xdp_md =
  pkt_data :: bytes
  pkt_room :: bytes

section \<open>Rules in the maps\<close>

text \<open>\<^verbatim>\<open>apply_action_t_\<close>: bit fields, lowest bit first (\<^verbatim>\<open>src/bpf/ie/apply_action.h\<close>).\<close>

record apply_action_t =
  aa_spare :: "3 word"
  aa_dupl :: bool
  aa_nocp :: bool
  aa_buff :: bool
  aa_forw :: bool
  aa_drop :: bool

definition apply_action_mem :: "apply_action_t \<Rightarrow> u8" where
  "apply_action_mem a =
     (ucast (aa_spare a) OR flag 3 (aa_dupl a) OR flag 4 (aa_nocp a) OR flag 5 (aa_buff a)
      OR flag 6 (aa_forw a) OR flag 7 (aa_drop a))"

definition apply_action_of_mem :: "u8 \<Rightarrow> apply_action_t" where
  "apply_action_of_mem b =
     \<lparr>aa_spare = ucast b, aa_dupl = bit b 3, aa_nocp = bit b 4, aa_buff = bit b 5,
      aa_forw = bit b 6, aa_drop = bit b 7\<rparr>"

record outer_header_creation_t =
  ohc_description :: u16
  ohc_teid :: u32
  ohc_ipv4_address :: u32
  ohc_port_number :: u16

record forwarding_parameters_t =
  fwp_destination_interface :: u8
  fwp_outer_header_creation :: outer_header_creation_t

record pfcp_far_t =
  far_far_id :: u32
  far_apply_action :: apply_action_t
  far_forwarding_parameters :: forwarding_parameters_t

record pdi_t =
  pdi_source_interface :: u8
  pdi_fteid_teid :: u32
  pdi_ue_ipv4_address :: u32

record pfcp_pdr_t =
  pdr_rule_id :: u16
  pdr_precedence :: u32
  pdr_pdi :: pdi_t
  pdr_outer_header_removal :: u8
  pdr_far_id :: u32

text \<open>\<^verbatim>\<open>struct next_rule_prog_index_key\<close>: the key of \<^verbatim>\<open>m_next_rule_prog_index\<close>.\<close>

record next_rule_prog_index_key =
  key_teid :: u32
  key_source_value :: u8
  key_ipv4_address :: u32

lemma apply_action_mem_roundtrip [simp]: "apply_action_of_mem (apply_action_mem a) = a"
proof -
  have "(ucast (apply_action_mem a) :: 3 word) = aa_spare a"
    by (rule bit_word_eqI) (auto simp: apply_action_mem_def bit_simps)
  moreover have "\<not> bit (aa_spare a) i" if "3 \<le> i" for i
    using that bit_imp_le_length [of "aa_spare a" i] by auto
  ultimately show ?thesis
    by (intro apply_action_t.equality)
      (simp_all add: apply_action_of_mem_def, simp_all add: apply_action_mem_def bit_simps)
qed

section \<open>The kernel's BPF helpers\<close>

text \<open>
  The helpers are code of the Linux kernel.  They are parameters of every definition that calls
  them; the predicates below are the documented behaviour (\<^verbatim>\<open>bpf-helpers(7)\<close>) that theorems name
  as hypotheses.  Maps are only looked up by the programs, so a map is the partial function from
  its keys to its values that \<^verbatim>\<open>bpf_map_lookup_elem\<close> computes.
\<close>

record bpf_helpers =
  bpf_xdp_adjust_head :: "xdp_md \<Rightarrow> int \<Rightarrow> int \<times> xdp_md"
  bpf_csum_diff :: "bytes \<Rightarrow> bytes \<Rightarrow> u32 \<Rightarrow> u32"
  bpf_redirect_map :: "(u32 \<rightharpoonup> u32) \<Rightarrow> u32 \<Rightarrow> u64 \<Rightarrow> u32"

text \<open>
  Moving \<^verbatim>\<open>data\<close> forward by \<open>k\<close> keeps the rest of the packet if at least an Ethernet header is
  left; moving it back by \<open>k\<close> needs \<open>k\<close> bytes of head room, whose content becomes packet data.
\<close>

definition adjust_head_shrinks :: "bpf_helpers \<Rightarrow> bool" where
  "adjust_head_shrinks H \<longleftrightarrow>
     (\<forall>ctx k. k + ETH_SIZE \<le> length (pkt_data ctx) \<longrightarrow>
        fst (bpf_xdp_adjust_head H ctx (int k)) = 0 \<and>
        pkt_data (snd (bpf_xdp_adjust_head H ctx (int k))) = drop k (pkt_data ctx))"

definition adjust_head_grows :: "bpf_helpers \<Rightarrow> bool" where
  "adjust_head_grows H \<longleftrightarrow>
     (\<forall>ctx k. 0 < k \<and> k \<le> length (pkt_room ctx) \<longrightarrow>
        fst (bpf_xdp_adjust_head H ctx (- int k)) = 0 \<and>
        (\<exists>new. length new = k \<and>
           pkt_data (snd (bpf_xdp_adjust_head H ctx (- int k))) = new @ pkt_data ctx))"

lemma adjust_head_shrinksD:
  "adjust_head_shrinks H \<Longrightarrow> k + ETH_SIZE \<le> length (pkt_data ctx) \<Longrightarrow>
     pkt_data (snd (bpf_xdp_adjust_head H ctx (int k))) = drop k (pkt_data ctx)"
  by (simp add: adjust_head_shrinks_def)

lemma adjust_head_growsE:
  assumes "adjust_head_grows H" and "0 < k" and "k \<le> length (pkt_room ctx)"
  obtains new where "length new = k"
    and "pkt_data (snd (bpf_xdp_adjust_head H ctx (- int k))) = new @ pkt_data ctx"
  using assms unfolding adjust_head_grows_def by meson

text \<open>\<open>halves\<close> reads a buffer as the 16 bit words that the Internet checksum adds up.\<close>

fun halves :: "bytes \<Rightarrow> u16 list" where
  "halves (a # b # bs) = le_word [a, b] # halves bs"
| "halves [a] = [ucast a]"
| "halves [] = []"

definition csum_diff_sums :: "bpf_helpers \<Rightarrow> bool" where
  "csum_diff_sums H \<longleftrightarrow>
     (\<forall>to. length to mod 4 = 0 \<longrightarrow>
        unat (bpf_csum_diff H [] to 0) mod 65535 = (\<Sum>h\<leftarrow>halves to. unat h) mod 65535)"

definition redirect_map_ok :: "bpf_helpers \<Rightarrow> bool" where
  "redirect_map_ok H \<longleftrightarrow>
     (\<forall>m k. bpf_redirect_map H m k 0 = (if m k = None then XDP_ABORTED else XDP_REDIRECT))"

text \<open>
  A concrete instance, used by the witnesses: \<^verbatim>\<open>bpf_xdp_adjust_head\<close> on a buffer with head
  room, a one's complement sum, and a device map lookup.
\<close>

definition ref_adjust_head :: "xdp_md \<Rightarrow> int \<Rightarrow> int \<times> xdp_md" where
  "ref_adjust_head ctx d =
     (if 0 \<le> d then
        (if nat d + ETH_SIZE \<le> length (pkt_data ctx)
         then (0, \<lparr>pkt_data = drop (nat d) (pkt_data ctx),
                   pkt_room = pkt_room ctx @ take (nat d) (pkt_data ctx)\<rparr>)
         else (-22, ctx))
      else
        (let k = nat (- d); n = length (pkt_room ctx) in
         if k \<le> n
         then (0, \<lparr>pkt_data = drop (n - k) (pkt_room ctx) @ pkt_data ctx,
                   pkt_room = take (n - k) (pkt_room ctx)\<rparr>)
         else (-22, ctx)))"

definition ref_helpers :: bpf_helpers where
  "ref_helpers =
     \<lparr>bpf_xdp_adjust_head = ref_adjust_head,
      bpf_csum_diff = (\<lambda>from to seed. of_nat ((\<Sum>h\<leftarrow>halves to. unat h) mod 65535)),
      bpf_redirect_map = (\<lambda>m k fl. if m k = None then XDP_ABORTED else XDP_REDIRECT)\<rparr>"

lemma ref_adjust_head_shrinks: "adjust_head_shrinks ref_helpers"
  by (simp add: adjust_head_shrinks_def ref_helpers_def ref_adjust_head_def)

lemma ref_adjust_head_grows: "adjust_head_grows ref_helpers"
  by (simp add: adjust_head_grows_def ref_helpers_def ref_adjust_head_def Let_def)

lemma ref_csum_diff_sums: "csum_diff_sums ref_helpers"
proof -
  have "unat (of_nat (s mod 65535) :: u32) mod 65535 = s mod 65535" for s :: nat
  proof -
    have "s mod 65535 < 2 ^ 32"
      by (rule less_trans [of _ 65535]) simp_all
    then show ?thesis
      by (simp add: unat_of_nat)
  qed
  then show ?thesis
    by (simp add: csum_diff_sums_def ref_helpers_def)
qed

lemma ref_redirect_map_ok: "redirect_map_ok ref_helpers"
  by (simp add: redirect_map_ok_def ref_helpers_def)

end
