(* ===== verification/Xdp_Entry.thy ===== *)
theory Xdp_Entry
  imports Bpf_Types "HOL-Library.Monad_Syntax"
begin

text \<open>
  The entry program \<^verbatim>\<open>src/bpf/upf_xdp_bpf.c\<close> (Parser and Detector) and the action counters of
  \<^verbatim>\<open>src/bpf/xdp_stats_kern.h\<close>.

  Every read of packet memory goes through \<open>peek\<close>, which is \<open>None\<close> when the access is not inside
  \<^verbatim>\<open>[data, data_end)\<close>; a handler is \<open>None\<close> exactly when the code would touch memory outside the
  packet.  \<open>bpf_tail_call\<close> is the parameter \<open>tail\<close>: \<open>Some r\<close> when the kernel jumps to the program
  at that index (whose result is \<open>r\<close>; the caller never resumes), \<open>None\<close> when the call fails and
  control returns.
\<close>

definition peek :: "nat \<Rightarrow> nat \<Rightarrow> bytes \<Rightarrow> bytes option" where
  "peek off n buf = (if off + n \<le> length buf then Some (get_bytes off n buf) else None)"

definition peek8 :: "nat \<Rightarrow> bytes \<Rightarrow> u8 option" where
  "peek8 off buf = map_option le_word (peek off 1 buf)"

definition peek16 :: "nat \<Rightarrow> bytes \<Rightarrow> u16 option" where
  "peek16 off buf = map_option le_word (peek off 2 buf)"

definition peek32 :: "nat \<Rightarrow> bytes \<Rightarrow> u32 option" where
  "peek32 off buf = map_option le_word (peek off 4 buf)"

definition poke :: "nat \<Rightarrow> bytes \<Rightarrow> bytes \<Rightarrow> bytes option" where
  "poke off bs buf = (if off + length bs \<le> length buf then Some (put_bytes off bs buf) else None)"

datatype 'r flow = Tail 'r | Ret u32

section \<open>Action counters\<close>

record datarec =
  rx_packets :: u64
  rx_bytes :: u64

definition xdp_stats_record_action ::
    "(u32 \<rightharpoonup> datarec) \<Rightarrow> xdp_md \<Rightarrow> u32 \<Rightarrow> u32 \<times> (u32 \<rightharpoonup> datarec)" where
  "xdp_stats_record_action mc_stats ctx action =
     (if action \<ge> XDP_ACTION_MAX then (XDP_ABORTED, mc_stats)
      else case mc_stats action of
        None \<Rightarrow> (XDP_ABORTED, mc_stats)
      | Some rec \<Rightarrow>
          (action,
           mc_stats(action \<mapsto> rec\<lparr>rx_packets := rx_packets rec + 1,
                                  rx_bytes := rx_bytes rec + of_nat (length (pkt_data ctx))\<rparr>)))"

section \<open>Handlers\<close>

definition tail_call_next_prog ::
    "(next_rule_prog_index_key \<rightharpoonup> u32) \<Rightarrow> (xdp_md \<Rightarrow> u32 \<Rightarrow> 'r option) \<Rightarrow>
     xdp_md \<Rightarrow> u32 \<Rightarrow> u8 \<Rightarrow> u32 \<Rightarrow> 'r flow" where
  "tail_call_next_prog m_next_rule_prog_index tail ctx teid source_value ipv4_address =
     (case m_next_rule_prog_index
            \<lparr>key_teid = teid, key_source_value = source_value, key_ipv4_address = ipv4_address\<rparr> of
        None \<Rightarrow> Ret 0
      | Some index_prog \<Rightarrow>
          (case tail ctx index_prog of Some r \<Rightarrow> Tail r | None \<Rightarrow> Ret 0))"

text \<open>Sequencing after a possible tail call: code after a successful call never runs.\<close>

definition after_tail :: "'r flow \<Rightarrow> u32 \<Rightarrow> 'r flow" where
  "after_tail f v = (case f of Tail r \<Rightarrow> Tail r | Ret _ \<Rightarrow> Ret v)"

definition ip_inner_check_ipv4 :: "xdp_md \<Rightarrow> nat \<Rightarrow> u8 option" where
  "ip_inner_check_ipv4 ctx iph =
     (if iph + IPH_SIZE > length (pkt_data ctx) then Some (ucast XDP_ABORTED)
      else do {
        b \<leftarrow> peek8 iph (pkt_data ctx);
        Some (if drop_bit 4 b = 4 then 1 else 0)
      })"

definition gtp_handle ::
    "(next_rule_prog_index_key \<rightharpoonup> u32) \<Rightarrow> (xdp_md \<Rightarrow> u32 \<Rightarrow> 'r option) \<Rightarrow>
     xdp_md \<Rightarrow> nat \<Rightarrow> u32 \<Rightarrow> 'r flow option" where
  "gtp_handle m tail ctx gtpuh src_ue_ip =
     (if gtpuh + GTPUH_SIZE > length (pkt_data ctx) then Some (Ret XDP_DROP)
      else do {
        message_type \<leftarrow> peek8 (gtpuh + 1) (pkt_data ctx);
        if message_type \<noteq> GTPU_G_PDU then Some (Ret XDP_PASS)
        else do {
          inner \<leftarrow> ip_inner_check_ipv4 ctx (gtpuh + GTPUH_SIZE);
          if inner = 0 then Some (Ret XDP_DROP)
          else do {
            teid \<leftarrow> peek32 (gtpuh + 4) (pkt_data ctx);
            Some (after_tail (tail_call_next_prog m tail ctx teid INTERFACE_VALUE_ACCESS src_ue_ip)
                    XDP_PASS)
          }
        }
      })"

definition udp_handle ::
    "(next_rule_prog_index_key \<rightharpoonup> u32) \<Rightarrow> (xdp_md \<Rightarrow> u32 \<Rightarrow> 'r option) \<Rightarrow>
     xdp_md \<Rightarrow> nat \<Rightarrow> u32 \<Rightarrow> u32 \<Rightarrow> 'r flow option" where
  "udp_handle m tail ctx udph src_ip dest_ip =
     (if udph + UDPH_SIZE > length (pkt_data ctx) then Some (Ret XDP_ABORTED)
      else do {
        dest \<leftarrow> peek16 (udph + 2) (pkt_data ctx);
        if swap16 dest = GTP_UDP_PORT then gtp_handle m tail ctx (udph + UDPH_SIZE) src_ip
        else Some (after_tail (tail_call_next_prog m tail ctx 0 INTERFACE_VALUE_CORE dest_ip) XDP_PASS)
      })"

definition ipv4_handle ::
    "(next_rule_prog_index_key \<rightharpoonup> u32) \<Rightarrow> (xdp_md \<Rightarrow> u32 \<Rightarrow> 'r option) \<Rightarrow>
     xdp_md \<Rightarrow> nat \<Rightarrow> 'r flow option" where
  "ipv4_handle m tail ctx iph =
     (if iph + IPH_SIZE > length (pkt_data ctx) then Some (Ret XDP_ABORTED)
      else do {
        ip_src \<leftarrow> peek32 (iph + 12) (pkt_data ctx);
        ip_dest \<leftarrow> peek32 (iph + 16) (pkt_data ctx);
        protocol \<leftarrow> peek8 (iph + 9) (pkt_data ctx);
        if protocol = IPPROTO_UDP then udp_handle m tail ctx (iph + IPH_SIZE) ip_src ip_dest
        else Some (Ret XDP_PASS)
      })"

definition eth_handle ::
    "(next_rule_prog_index_key \<rightharpoonup> u32) \<Rightarrow> (xdp_md \<Rightarrow> u32 \<Rightarrow> 'r option) \<Rightarrow>
     xdp_md \<Rightarrow> 'r flow option" where
  "eth_handle m tail ctx =
     (if ETH_SIZE > length (pkt_data ctx) then Some (Ret XDP_PASS)
      else do {
        h_proto \<leftarrow> peek16 12 (pkt_data ctx);
        let eth_type = swap16 h_proto;
        if eth_type = ETH_P_8021Q \<or> eth_type = ETH_P_8021AD then do {
          let offset = ETH_SIZE + 4;
          _ \<leftarrow> (if \<not> offset > length (pkt_data ctx) then peek16 (ETH_SIZE + 2) (pkt_data ctx)
               else Some h_proto);
          ipv4_handle m tail ctx offset
        }
        else if eth_type = ETH_P_IP then ipv4_handle m tail ctx ETH_SIZE
        else Some (Ret XDP_PASS)
      })"

definition entry_point ::
    "(next_rule_prog_index_key \<rightharpoonup> u32) \<Rightarrow> (xdp_md \<Rightarrow> u32 \<Rightarrow> 'r option) \<Rightarrow>
     (u32 \<rightharpoonup> datarec) \<Rightarrow> xdp_md \<Rightarrow> ('r flow \<times> (u32 \<rightharpoonup> datarec)) option" where
  "entry_point m tail mc_stats ctx =
     (case eth_handle m tail ctx of
        None \<Rightarrow> None
      | Some (Tail r) \<Rightarrow> Some (Tail r, mc_stats)
      | Some (Ret a) \<Rightarrow>
          (let (action, mc_stats') = xdp_stats_record_action mc_stats ctx a
           in Some (Ret action, mc_stats')))"

section \<open>Memory safety\<close>

lemma peek_Some [simp]: "off + n \<le> length buf \<Longrightarrow> peek off n buf = Some (get_bytes off n buf)"
  by (simp add: peek_def)

lemma peek8_Some [simp]: "off < length buf \<Longrightarrow> peek8 off buf = Some (get_u8 off buf)"
  by (simp add: peek8_def get_u8_def)

lemma peek16_Some [simp]: "off + 2 \<le> length buf \<Longrightarrow> peek16 off buf = Some (get_u16 off buf)"
  by (simp add: peek16_def get_u16_def)

lemma peek32_Some [simp]: "off + 4 \<le> length buf \<Longrightarrow> peek32 off buf = Some (get_u32 off buf)"
  by (simp add: peek32_def get_u32_def)

lemma poke_Some [simp]:
  "off + length bs \<le> length buf \<Longrightarrow> poke off bs buf = Some (put_bytes off bs buf)"
  by (simp add: poke_def)

text \<open>Reading and overwriting one segment of a frame given as a concatenation.\<close>

lemma peek_segment: "length xs = off \<Longrightarrow> length ys = n \<Longrightarrow> peek off n (xs @ ys @ zs) = Some ys"
  by (simp add: get_bytes_def)

lemma poke_segment:
  "length xs = off \<Longrightarrow> length ys = length bs \<Longrightarrow> poke off bs (xs @ ys @ zs) = Some (xs @ bs @ zs)"
  by (simp add: put_bytes_def)

lemma ip_inner_check_ipv4_safe [simp]: "ip_inner_check_ipv4 ctx iph \<noteq> None"
  by (simp add: ip_inner_check_ipv4_def del: not_None_eq)

lemma gtp_handle_safe [simp]: "gtp_handle m tail ctx gtpuh ip \<noteq> None"
  by (simp add: gtp_handle_def Option.bind_eq_None_conv del: not_None_eq)

lemma udp_handle_safe [simp]: "udp_handle m tail ctx udph s d \<noteq> None"
  by (simp add: udp_handle_def del: not_None_eq)

lemma ipv4_handle_safe [simp]: "ipv4_handle m tail ctx iph \<noteq> None"
  by (simp add: ipv4_handle_def del: not_None_eq)

lemma eth_handle_safe [simp]: "eth_handle m tail ctx \<noteq> None"
  by (simp add: eth_handle_def Let_def del: not_None_eq)

section \<open>Detection\<close>

text \<open>
  The shape of an uplink packet as the Detector sees it: an untagged IPv4 frame carrying UDP to
  the GTP-U port, a G-PDU and an inner IPv4 header, all of it present.
\<close>

definition uplink_gpdu :: "bytes \<Rightarrow> bool" where
  "uplink_gpdu buf \<longleftrightarrow>
     70 \<le> length buf \<and> swap16 (get_u16 12 buf) = ETH_P_IP \<and> get_u8 23 buf = IPPROTO_UDP \<and>
     swap16 (get_u16 36 buf) = GTP_UDP_PORT \<and> get_u8 43 buf = GTPU_G_PDU \<and>
     drop_bit 4 (get_u8 50 buf) = 4"

text \<open>A downlink packet: an untagged IPv4 frame carrying UDP to any other port.\<close>

definition downlink_udp :: "bytes \<Rightarrow> bool" where
  "downlink_udp buf \<longleftrightarrow>
     42 \<le> length buf \<and> swap16 (get_u16 12 buf) = ETH_P_IP \<and> get_u8 23 buf = IPPROTO_UDP \<and>
     swap16 (get_u16 36 buf) \<noteq> GTP_UDP_PORT"

definition uplink_key :: "bytes \<Rightarrow> next_rule_prog_index_key" where
  "uplink_key buf =
     \<lparr>key_teid = get_u32 46 buf, key_source_value = INTERFACE_VALUE_ACCESS,
      key_ipv4_address = get_u32 26 buf\<rparr>"

definition downlink_key :: "bytes \<Rightarrow> next_rule_prog_index_key" where
  "downlink_key buf =
     \<lparr>key_teid = 0, key_source_value = INTERFACE_VALUE_CORE, key_ipv4_address = get_u32 30 buf\<rparr>"

lemma eth_handle_uplink:
  assumes "uplink_gpdu (pkt_data ctx)"
  shows "eth_handle m tail ctx =
    Some (after_tail (case m (uplink_key (pkt_data ctx)) of None \<Rightarrow> Ret 0
        | Some i \<Rightarrow> (case tail ctx i of Some r \<Rightarrow> Tail r | None \<Rightarrow> Ret 0)) XDP_PASS)"
  using assms
  by (simp add: uplink_gpdu_def eth_handle_def ipv4_handle_def udp_handle_def gtp_handle_def
      ip_inner_check_ipv4_def tail_call_next_prog_def uplink_key_def Let_def)

lemma eth_handle_downlink:
  assumes "downlink_udp (pkt_data ctx)"
  shows "eth_handle m tail ctx =
    Some (after_tail (case m (downlink_key (pkt_data ctx)) of None \<Rightarrow> Ret 0
        | Some i \<Rightarrow> (case tail ctx i of Some r \<Rightarrow> Tail r | None \<Rightarrow> Ret 0)) XDP_PASS)"
  using assms
  by (simp add: downlink_udp_def eth_handle_def ipv4_handle_def udp_handle_def
      tail_call_next_prog_def downlink_key_def Let_def)

section \<open>The Detector's decision\<close>

text \<open>
  What the entry program decides from the bytes of a frame, as one table: a final XDP action, or
  the key under which the pipeline of the packet is looked up.  \<open>iph\<close> is the offset of the outer
  IPv4 header, 18 behind a VLAN tag.
\<close>

definition vlan_tagged :: "bytes \<Rightarrow> bool" where
  "vlan_tagged buf \<longleftrightarrow> swap16 (get_u16 12 buf) \<in> {ETH_P_8021Q, ETH_P_8021AD}"

definition detect :: "bytes \<Rightarrow> u32 + next_rule_prog_index_key" where
  "detect buf =
     (let iph = (if vlan_tagged buf then 18 else 14); n = length buf in
      if n < 14 \<or> (\<not> vlan_tagged buf \<and> swap16 (get_u16 12 buf) \<noteq> ETH_P_IP) then Inl XDP_PASS
      else if n < iph + 20 then Inl XDP_ABORTED
      else if get_u8 (iph + 9) buf \<noteq> IPPROTO_UDP then Inl XDP_PASS
      else if n < iph + 28 then Inl XDP_ABORTED
      else if swap16 (get_u16 (iph + 22) buf) \<noteq> GTP_UDP_PORT then
        Inr \<lparr>key_teid = 0, key_source_value = INTERFACE_VALUE_CORE,
             key_ipv4_address = get_u32 (iph + 16) buf\<rparr>
      else if n < iph + 36 then Inl XDP_DROP
      else if get_u8 (iph + 29) buf \<noteq> GTPU_G_PDU then Inl XDP_PASS
      else if n < iph + 56 \<or> drop_bit 4 (get_u8 (iph + 36) buf) \<noteq> 4 then Inl XDP_DROP
      else
        Inr \<lparr>key_teid = get_u32 (iph + 32) buf, key_source_value = INTERFACE_VALUE_ACCESS,
             key_ipv4_address = get_u32 (iph + 12) buf\<rparr>)"

text \<open>The pipeline selected by a key: the index map, then the program array.\<close>

definition pipeline ::
    "(next_rule_prog_index_key \<rightharpoonup> u32) \<Rightarrow> (xdp_md \<Rightarrow> u32 \<Rightarrow> 'r option) \<Rightarrow> xdp_md \<Rightarrow>
     next_rule_prog_index_key \<Rightarrow> 'r option" where
  "pipeline m tail ctx k = (case m k of None \<Rightarrow> None | Some i \<Rightarrow> tail ctx i)"

lemma after_tail_next_prog:
  "after_tail (tail_call_next_prog m tail ctx t s a) v =
     (case pipeline m tail ctx \<lparr>key_teid = t, key_source_value = s, key_ipv4_address = a\<rparr> of
        Some r \<Rightarrow> Tail r | None \<Rightarrow> Ret v)"
  by (simp add: after_tail_def tail_call_next_prog_def pipeline_def split: option.splits)

lemma ip_inner_check_ipv4_eq:
  "ip_inner_check_ipv4 ctx iph =
     Some (if iph + 20 \<le> length (pkt_data ctx) \<and> drop_bit 4 (get_u8 iph (pkt_data ctx)) = 4
           then 1 else 0)"
  by (simp add: ip_inner_check_ipv4_def)

lemma ipv4_handle_detect:
  assumes "14 \<le> length (pkt_data ctx)"
    and "vlan_tagged (pkt_data ctx) \<or> swap16 (get_u16 12 (pkt_data ctx)) = ETH_P_IP"
  shows "ipv4_handle m tail ctx (if vlan_tagged (pkt_data ctx) then 18 else 14) =
    Some (case detect (pkt_data ctx) of Inl a \<Rightarrow> Ret a
          | Inr k \<Rightarrow> (case pipeline m tail ctx k of Some r \<Rightarrow> Tail r | None \<Rightarrow> Ret XDP_PASS))"
  using assms
  by (auto simp: ipv4_handle_def udp_handle_def gtp_handle_def detect_def Let_def
      ip_inner_check_ipv4_eq after_tail_next_prog)

lemma eth_handle_detect:
  "eth_handle m tail ctx =
    Some (case detect (pkt_data ctx) of Inl a \<Rightarrow> Ret a
          | Inr k \<Rightarrow> (case pipeline m tail ctx k of Some r \<Rightarrow> Tail r | None \<Rightarrow> Ret XDP_PASS))"
proof (cases "14 \<le> length (pkt_data ctx)
    \<and> (vlan_tagged (pkt_data ctx) \<or> swap16 (get_u16 12 (pkt_data ctx)) = ETH_P_IP)")
  case True
  then show ?thesis
    using ipv4_handle_detect [of ctx m tail]
    by (auto simp: eth_handle_def Let_def vlan_tagged_def split: if_splits)
next
  case False
  then show ?thesis
    by (auto simp: eth_handle_def Let_def vlan_tagged_def detect_def)
qed

section \<open>Properties\<close>

text \<open>A frame whose action is final: counted under that action, then returned.\<close>

definition finished ::
    "(u32 \<rightharpoonup> datarec) \<Rightarrow> xdp_md \<Rightarrow> u32 \<Rightarrow> 'r flow \<times> (u32 \<rightharpoonup> datarec)" where
  "finished mc_stats ctx a =
     (let (action, mc_stats') = xdp_stats_record_action mc_stats ctx a in (Ret action, mc_stats'))"

lemma entry_point_eq:
  "entry_point m tail mc_stats ctx =
     Some (case detect (pkt_data ctx) of
             Inl a \<Rightarrow> finished mc_stats ctx a
           | Inr k \<Rightarrow> (case pipeline m tail ctx k of
                 Some r \<Rightarrow> (Tail r, mc_stats)
               | None \<Rightarrow> finished mc_stats ctx XDP_PASS))"
  by (simp add: entry_point_def eth_handle_detect finished_def split_def Let_def
      split: sum.splits option.splits)

lemma detect_action: "detect buf = Inl a \<Longrightarrow> a \<in> {XDP_ABORTED, XDP_DROP, XDP_PASS}"
  by (simp add: detect_def Let_def split: if_splits)

lemma record_action_range:
  "fst (xdp_stats_record_action s ctx a) \<in> {XDP_ABORTED, a}"
  by (simp add: xdp_stats_record_action_def split: option.splits)

text \<open>
  C18: On every frame, however short or malformed, the entry program stays inside the packet's
  memory and ends: either control moves to a pipeline program and the counters are untouched, or
  it returns one of \<^verbatim>\<open>XDP_ABORTED\<close>, \<^verbatim>\<open>XDP_DROP\<close> and \<^verbatim>\<open>XDP_PASS\<close>.
\<close>

theorem entry_point_memory_safe:
  "\<exists>f mc_stats'. entry_point m tail mc_stats ctx = Some (f, mc_stats') \<and>
     (case f of Tail r \<Rightarrow> mc_stats' = mc_stats
      | Ret a \<Rightarrow> a \<in> {XDP_ABORTED, XDP_DROP, XDP_PASS})"
proof -
  have fin: "\<exists>f s'. finished mc_stats ctx a = (f, s') \<and>
      (case f of Tail r \<Rightarrow> s' = mc_stats | Ret b \<Rightarrow> b \<in> {XDP_ABORTED, XDP_DROP, XDP_PASS})"
    if "a \<in> {XDP_ABORTED, XDP_DROP, XDP_PASS}" for a
    using that record_action_range [of mc_stats ctx a] by (auto simp: finished_def split_def)
  show ?thesis
    using detect_action [of "pkt_data ctx"] fin
    by (auto simp: entry_point_eq split: sum.splits option.splits)
qed

text \<open>
  C7: The entry program implements the Detector's decision table: it runs the pipeline installed
  for the key of the packet exactly when the table yields a key, the index map holds it and the
  program array has a program at that index; in every other case the action of the table (pass,
  when the pipeline is missing) is counted and returned.
\<close>

theorem entry_point_refines_detect:
  "entry_point m tail mc_stats ctx =
     Some (case detect (pkt_data ctx) of
             Inl a \<Rightarrow> finished mc_stats ctx a
           | Inr k \<Rightarrow> (case pipeline m tail ctx k of
                 Some r \<Rightarrow> (Tail r, mc_stats)
               | None \<Rightarrow> finished mc_stats ctx XDP_PASS))"
  by (rule entry_point_eq)

text \<open>
  When the per-CPU counter map has an entry for the action (an array map has all of them),
  the recorded action is returned unchanged, its packet counter grows by one and its byte
  counter by the length of the frame (modulo \<open>2 ^ 64\<close>), and no other counter moves.
\<close>

theorem xdp_stats_record_action_counts:
  assumes "\<not> a \<ge> XDP_ACTION_MAX" and "mc_stats a = Some r"
  shows "\<exists>mc_stats'. xdp_stats_record_action mc_stats ctx a = (a, mc_stats') \<and>
           mc_stats' a = Some \<lparr>rx_packets = rx_packets r + 1,
                              rx_bytes = rx_bytes r + of_nat (length (pkt_data ctx))\<rparr> \<and>
           (\<forall>b. b = a \<or> mc_stats' b = mc_stats b)"
  using assms by (simp add: xdp_stats_record_action_def)

theorem xdp_stats_record_action_counts_witness:
  "\<exists>mc_stats'. xdp_stats_record_action (\<lambda>a. Some \<lparr>rx_packets = 7, rx_bytes = 100\<rparr>)
       \<lparr>pkt_data = [1, 2, 3], pkt_room = []\<rparr> XDP_PASS = (XDP_PASS, mc_stats') \<and>
     mc_stats' XDP_PASS = Some \<lparr>rx_packets = 8, rx_bytes = 103\<rparr> \<and>
     (\<forall>b. b = XDP_PASS \<or> mc_stats' b = Some \<lparr>rx_packets = 7, rx_bytes = 100\<rparr>)"
  using xdp_stats_record_action_counts
    [of XDP_PASS "\<lambda>a. Some \<lparr>rx_packets = 7, rx_bytes = 100\<rparr>" "\<lparr>rx_packets = 7, rx_bytes = 100\<rparr>"
      "\<lparr>pkt_data = [1, 2, 3], pkt_room = []\<rparr>"]
  by simp

end
