(* ===== verification/Csum.thy ===== *)
theory Csum
  imports Bpf_Types
begin

text \<open>
  \<^verbatim>\<open>src/bpf/utils/csum.h\<close>: the Internet checksum routines of the datapath.  The theory shows
  that the folding and end-around-carry additions compute residues modulo \<open>2\<^sup>1\<^sup>6 - 1\<close> (and
  \<open>2\<^sup>3\<^sup>2 - 1\<close>), and that writing the folded complement of a header's sum into its zeroed
  check field makes the header pass the receiver's verification.
\<close>

section \<open>Definitions\<close>

definition pcn_csum_fold :: "u32 \<Rightarrow> u16" where
  "pcn_csum_fold csum =
     (let sum1 = (csum AND 0xffff) + drop_bit 16 csum;
          sum2 = (sum1 AND 0xffff) + drop_bit 16 sum1
      in ucast (NOT sum2))"

definition pcn_csum_add :: "u32 \<Rightarrow> u32 \<Rightarrow> u32" where
  "pcn_csum_add csum addend =
     (let res = csum + addend in res + (if res < addend then 1 else 0))"

definition pcn_csum16_add :: "u16 \<Rightarrow> u16 \<Rightarrow> u16" where
  "pcn_csum16_add csum addend =
     (let res = csum + addend in res + (if res < addend then 1 else 0))"

definition pcn_csum_unfold :: "u16 \<Rightarrow> u32" where
  "pcn_csum_unfold n = ucast n"

definition pcn_csum_replace_by_diff :: "u16 \<Rightarrow> u32 \<Rightarrow> u16" where
  "pcn_csum_replace_by_diff chk diff =
     pcn_csum_fold (pcn_csum_add diff (NOT (pcn_csum_unfold chk)))"

abbreviation BPF_F_HDR_FIELD_MASK :: u32 where "BPF_F_HDR_FIELD_MASK \<equiv> 0xf"
abbreviation EINVAL :: int where "EINVAL \<equiv> 22"
abbreviation EFAULT :: int where "EFAULT \<equiv> 14"

definition pcn_l3_csum_replace :: "xdp_md \<Rightarrow> u32 \<Rightarrow> u32 \<Rightarrow> u32 \<Rightarrow> u32 \<Rightarrow> int \<times> xdp_md" where
  "pcn_l3_csum_replace ctx csum_offset old_value new_value flags =
     (if flags AND NOT BPF_F_HDR_FIELD_MASK \<noteq> 0 then (- EINVAL, ctx)
      else if csum_offset > 0xffff \<or> csum_offset AND 1 \<noteq> 0 then (- EFAULT, ctx)
      else let off = unat csum_offset; buf = pkt_data ctx in
        if off + 2 > length buf then (- EINVAL, ctx)
        else let chk = get_u16 off buf;
                 store = (\<lambda>v. ctx\<lparr>pkt_data := put_bytes off (le_bytes 2 v) buf\<rparr>)
             in if flags AND BPF_F_HDR_FIELD_MASK = 0 then
                  (0, store (pcn_csum_replace_by_diff chk new_value))
                else if flags AND BPF_F_HDR_FIELD_MASK = 2 then
                  (0, store (NOT (pcn_csum16_add
                              (pcn_csum16_add (NOT chk) (ucast (NOT old_value)))
                              (ucast new_value))))
                else if flags AND BPF_F_HDR_FIELD_MASK = 4 then
                  (0, store (pcn_csum_replace_by_diff chk
                              (pcn_csum_add new_value (NOT old_value))))
                else (- EINVAL, ctx))"

definition pcn_csum_diff :: "bpf_helpers \<Rightarrow> bytes \<Rightarrow> bytes \<Rightarrow> u32 \<Rightarrow> u32" where
  "pcn_csum_diff H from to seed = bpf_csum_diff H from to seed"

definition pcn_update_csum :: "bytes \<Rightarrow> bytes" where
  "pcn_update_csum iph =
     (let csum = (\<Sum>h\<leftarrow>halves (take IPH_SIZE iph). ucast h) :: u32
      in put_bytes 10 (le_bytes 2 (ucast (NOT ((csum AND 0xffff) + drop_bit 16 csum)) :: u16)) iph)"

text \<open>
  The receiver's verification (RFC 1071): the one's complement sum of all 16 bit words of the
  header, including the checksum, is all ones.
\<close>

definition ones_sum :: "u16 list \<Rightarrow> u16" where
  "ones_sum hs = foldr pcn_csum16_add hs 0"

definition ip_header_checksum_ok :: "bytes \<Rightarrow> bool" where
  "ip_header_checksum_ok hdr \<longleftrightarrow> ones_sum (halves hdr) = 0xffff"

section \<open>Residues\<close>

lemma unat_low_half: "unat (w AND 0xffff :: u32) = unat w mod 65536"
proof -
  have "w AND 0xffff = take_bit 16 w"
    by (simp add: take_bit_eq_mask mask_eq_exp_minus_1)
  then show ?thesis
    by (simp add: take_bit_eq_mod unat_mod)
qed

lemma unat_high_half: "unat (drop_bit 16 w :: u32) = unat w div 65536"
  by (simp add: drop_bit_eq_div unat_div)

lemma fold_step_nat: "(n mod 65536 + n div 65536) mod 65535 = n mod (65535::nat)"
proof -
  define q r where "q = n div 65536" and "r = n mod 65536"
  have "n = 65535 * q + (r + q)"
    unfolding q_def r_def by simp
  then have "n mod 65535 = (r + q) mod 65535"
    by (metis mod_mult_self4)
  then show ?thesis by (simp add: q_def r_def)
qed

lemma unat_fold_step:
  fixes w :: u32
  shows "unat ((w AND 0xffff) + drop_bit 16 w) = unat w mod 65536 + unat w div 65536"
proof -
  have "unat w < 4294967296" using unsigned_less [of w, where 'a = nat] by simp
  then have "unat w div 65536 < 65536" by (simp add: less_mult_imp_div_less)
  moreover have "unat w mod 65536 < 65536" by simp
  ultimately have "unat (w AND 0xffff) + unat (drop_bit 16 w) < 2 ^ LENGTH(32)"
    by (simp add: unat_low_half unat_high_half)
  then show ?thesis
    by (simp add: unat_add_lem [THEN iffD1] unat_low_half unat_high_half)
qed

lemma unat_not16: "unat (NOT h :: u16) = 65535 - unat h"
proof -
  have "NOT h = - 1 - h" by (simp add: not_eq_complement)
  moreover have "h \<le> - 1" by simp
  ultimately have "unat (NOT h) = unat (- 1 :: u16) - unat h"
    by (simp add: unat_sub)
  then show ?thesis by (simp add: unsigned_minus_1_eq_mask mask_eq_exp_minus_1)
qed

lemma fold_twice_small: "n \<le> 131070 \<Longrightarrow> n mod 65536 + n div 65536 \<le> (65535::nat)"
proof (cases "n < 65536")
  case True
  then show ?thesis by simp
next
  case False
  assume "n \<le> 131070"
  with False have "n = (n - 65536) + 65536" and le: "n - 65536 \<le> 65534"
    by linarith+
  then obtain m where "n = m + 65536" and "m \<le> 65534" by blast
  then show ?thesis by simp
qed

lemma pcn_csum_fold_residue:
  "(unat (NOT (pcn_csum_fold s)) mod 65535 = unat s mod 65535)"
proof -
  define s1 where "s1 = (s AND 0xffff) + drop_bit 16 s"
  define s2 where "s2 = (s1 AND 0xffff) + drop_bit 16 s1"
  have u1: "unat s1 = unat s mod 65536 + unat s div 65536"
    unfolding s1_def by (rule unat_fold_step)
  have u2: "unat s2 = unat s1 mod 65536 + unat s1 div 65536"
    unfolding s2_def by (rule unat_fold_step)
  have "unat s < 4294967296" using unsigned_less [of s, where 'a = nat] by simp
  then have "unat s div 65536 < 65536" by (simp add: less_mult_imp_div_less)
  then have "unat s1 \<le> 131070" using u1 by simp
  then have small: "unat s2 \<le> 65535"
    unfolding u2 by (rule fold_twice_small)
  have "NOT (pcn_csum_fold s) = (ucast s2 :: u16)"
    by (rule bit_word_eqI) (simp add: pcn_csum_fold_def Let_def s1_def s2_def bit_simps)
  moreover have "unat (ucast s2 :: u16) = unat s2"
    using small by (simp add: unsigned_ucast_eq take_bit_nat_eq_self)
  ultimately have "unat (NOT (pcn_csum_fold s)) mod 65535 = unat s2 mod 65535"
    by simp
  also have "\<dots> = unat s mod 65535"
    using u1 u2 fold_step_nat by metis
  finally show ?thesis .
qed

lemma unat_end_around:
  fixes a b :: "'a::len word"
  assumes "1 < LENGTH('a)"
  shows "unat (let res = a + b in res + (if res < b then 1 else 0)) =
     (if unat a + unat b < 2 ^ LENGTH('a) then unat a + unat b
      else unat a + unat b - (2 ^ LENGTH('a) - 1))"
proof (cases "unat a + unat b < 2 ^ LENGTH('a)")
  case True
  then have s: "unat (a + b) = unat a + unat b"
    by (simp add: unat_add_lem [THEN iffD1])
  then have "\<not> a + b < b" by (simp add: word_less_nat_alt)
  then show ?thesis using True s by (simp add: Let_def)
next
  case False
  let ?N = "2 ^ LENGTH('a) :: nat"
  have a: "unat a < ?N" and b: "unat b < ?N" by simp_all
  have "(unat a + unat b - ?N) < ?N" using a b by linarith
  then have "(unat a + unat b) mod ?N = unat a + unat b - ?N"
    using False by (simp add: le_mod_geq)
  then have s: "unat (a + b) = unat a + unat b - ?N"
    using unat_word_ariths(1) [of a b] by simp
  then have less: "a + b < b"
    unfolding word_less_nat_alt s using False a by linarith
  have "unat (a + b) + unat (1 :: 'a word) < ?N"
    unfolding s unsigned_1 using a b False by linarith
  then have "unat (a + b + 1) = unat a + unat b - ?N + 1"
    using s by (simp add: unat_add_lem [THEN iffD1])
  then show ?thesis
    using False less by (simp add: Let_def)
qed

lemma unat_pcn_csum16_add:
  "unat (pcn_csum16_add a b) =
     (if unat a + unat b < 65536 then unat a + unat b else unat a + unat b - 65535)"
  using unat_end_around [of a b] by (simp add: pcn_csum16_add_def)

lemma unat_pcn_csum_add:
  "unat (pcn_csum_add a b) =
     (if unat a + unat b < 4294967296 then unat a + unat b
      else unat a + unat b - 4294967295)"
  using unat_end_around [of a b] by (simp add: pcn_csum_add_def)

lemma pcn_csum_add_residue:
  "unat (pcn_csum_add a b) mod 65535 = (unat a + unat b) mod 65535"
proof (cases "unat a + unat b < 4294967296")
  case True
  then show ?thesis by (simp add: unat_pcn_csum_add)
next
  case False
  then have "unat a + unat b = (unat a + unat b - 4294967295) + 65537 * 65535" by simp
  then show ?thesis
    using False by (metis mod_mult_self1 unat_pcn_csum_add)
qed

lemma ones_sum_residue:
  "unat (ones_sum hs) mod 65535 = (\<Sum>h\<leftarrow>hs. unat h) mod 65535"
proof (induction hs)
  case Nil
  show ?case by (simp add: ones_sum_def)
next
  case (Cons h hs)
  have step: "unat (pcn_csum16_add a b) mod 65535 = (unat a + unat b) mod 65535" for a b
  proof (cases "unat a + unat b < 65536")
    case True
    then show ?thesis by (simp add: unat_pcn_csum16_add)
  next
    case False
    then have "unat a + unat b = (unat a + unat b - 65535) + 65535" by simp
    then show ?thesis
      using False by (metis mod_add_self2 unat_pcn_csum16_add)
  qed
  have "unat (ones_sum (h # hs)) mod 65535 = (unat h + unat (ones_sum hs)) mod 65535"
    by (simp add: ones_sum_def step)
  also have "\<dots> = (unat h + (\<Sum>h\<leftarrow>hs. unat h)) mod 65535"
    using Cons by (metis mod_add_right_eq)
  finally show ?case by simp
qed

lemma ones_sum_nonzero: "\<exists>h \<in> set hs. h \<noteq> 0 \<Longrightarrow> ones_sum hs \<noteq> 0"
proof (induction hs)
  case Nil
  then show ?case by simp
next
  case (Cons h hs)
  have pos: "pcn_csum16_add a b \<noteq> 0" if "a \<noteq> 0 \<or> b \<noteq> 0" for a b
  proof -
    have "0 < unat a \<or> 0 < unat b" using that by (simp add: unat_gt_0)
    moreover have "unat a < 65536" "unat b < 65536"
      using unsigned_less [of a, where 'a = nat] unsigned_less [of b, where 'a = nat] by simp_all
    ultimately have "unat (pcn_csum16_add a b) \<noteq> 0"
      by (auto simp: unat_pcn_csum16_add)
    then show ?thesis by (simp add: unat_0_iff)
  qed
  from Cons have "h \<noteq> 0 \<or> ones_sum hs \<noteq> 0" by auto
  then show ?case using pos by (simp add: ones_sum_def)
qed

lemma ip_header_checksum_okI:
  assumes "(\<Sum>h\<leftarrow>halves hdr. unat h) mod 65535 = 0" and "\<exists>h \<in> set (halves hdr). h \<noteq> 0"
  shows "ip_header_checksum_ok hdr"
proof -
  let ?s = "ones_sum (halves hdr)"
  have "unat ?s mod 65535 = 0" using assms(1) by (simp add: ones_sum_residue)
  moreover have nz: "unat ?s \<noteq> 0" using ones_sum_nonzero [OF assms(2)] by (simp add: unat_0_iff)
  have "unat ?s < 65536" using unsigned_less [of ?s, where 'a = nat] by simp
  ultimately have "65535 dvd unat ?s"
    by (simp add: mod_eq_0_iff_dvd)
  then obtain q where "unat ?s = 65535 * q" by (elim dvdE)
  with nz \<open>unat ?s < 65536\<close> have "q = 1" by linarith
  with \<open>unat ?s = 65535 * q\<close> have "unat ?s = 65535" by simp
  then have "?s = 0xffff" by (simp add: word_unat_eq_iff)
  then show ?thesis by (simp add: ip_header_checksum_ok_def)
qed

lemma sum_halves_append:
  "even (length xs) \<Longrightarrow> halves (xs @ ys) = halves xs @ halves ys"
  by (induction xs rule: halves.induct) simp_all

text \<open>
  The value \<^verbatim>\<open>pcn_csum_replace_by_diff\<close> stores over a zero field is the complement, modulo
  65535, of the sum it is given.
\<close>

lemma replace_by_diff_residue:
  "(unat (pcn_csum_replace_by_diff 0 diff) + unat diff) mod 65535 = 0"
proof -
  let ?c = "pcn_csum_replace_by_diff 0 diff"
  have "unat (NOT ?c) mod 65535 = unat (pcn_csum_add diff (NOT 0)) mod 65535"
    by (simp add: pcn_csum_replace_by_diff_def pcn_csum_unfold_def pcn_csum_fold_residue)
  also have "\<dots> = (unat diff + 4294967295) mod 65535"
    by (simp add: pcn_csum_add_residue unsigned_minus_1_eq_mask mask_eq_exp_minus_1)
  also have "\<dots> = unat diff mod 65535"
    using mod_mult_self2 [of "unat diff" 65535 65537] by simp
  finally have r: "unat (NOT ?c) mod 65535 = unat diff mod 65535" .
  have "unat ?c \<le> 65535" using unsigned_less [of ?c, where 'a = nat] by simp
  then have "unat ?c + unat (NOT ?c) = 65535" by (simp add: unat_not16)
  then have "(unat ?c + unat (NOT ?c)) mod 65535 = 0" by simp
  then show ?thesis using r by (metis mod_add_right_eq)
qed

lemma halves_two: "length xs = 2 \<Longrightarrow> halves xs = [le_word xs]"
  by (auto simp: length_Suc_conv numeral_2_eq_2)

text \<open>
  A header whose check field was zero passes verification once the complement of its sum is
  written into the field.
\<close>

lemma checksum_filled_ok:
  assumes H: "csum_diff_sums H" and len: "length hdr = 20" and zero: "get_u16 10 hdr = 0"
    and nz: "\<exists>h \<in> set (halves (take 10 hdr)). h \<noteq> 0"
  shows "ip_header_checksum_ok
           (put_bytes 10 (le_bytes 2 (pcn_csum_replace_by_diff 0 (bpf_csum_diff H [] hdr 0))) hdr)"
    (is "ip_header_checksum_ok ?new")
proof -
  let ?s = "bpf_csum_diff H [] hdr 0"
  let ?c = "pcn_csum_replace_by_diff 0 ?s"
  let ?a = "take 10 hdr" and ?b = "get_bytes 10 2 hdr" and ?d = "drop 12 hdr"
  have hdr: "hdr = ?a @ ?b @ ?d"
    using split_in_three [of hdr 10 2] by (simp add: get_bytes_def)
  have new: "?new = ?a @ le_bytes 2 ?c @ ?d"
    by (simp add: put_bytes_def)
  have "halves hdr = halves ?a @ [le_word ?b] @ halves ?d"
    using len by (subst hdr) (simp add: sum_halves_append halves_two)
  moreover have "(le_word ?b :: u16) = 0"
    using zero by (simp add: get_u16_def)
  ultimately have old: "(\<Sum>h\<leftarrow>halves hdr. unat h)
      = (\<Sum>h\<leftarrow>halves ?a. unat h) + (\<Sum>h\<leftarrow>halves ?d. unat h)"
    by simp
  have halves_new: "halves ?new = halves ?a @ [?c] @ halves ?d"
    using len by (simp add: new sum_halves_append halves_two)
  then have "(\<Sum>h\<leftarrow>halves ?new. unat h) = unat ?c + (\<Sum>h\<leftarrow>halves hdr. unat h)"
    by (simp add: old)
  moreover have "(\<Sum>h\<leftarrow>halves hdr. unat h) mod 65535 = unat ?s mod 65535"
    using H len by (simp add: csum_diff_sums_def)
  ultimately have "(\<Sum>h\<leftarrow>halves ?new. unat h) mod 65535 = (unat ?c + unat ?s) mod 65535"
    by (metis mod_add_right_eq)
  then have "(\<Sum>h\<leftarrow>halves ?new. unat h) mod 65535 = 0"
    by (simp add: replace_by_diff_residue)
  moreover have "\<exists>h \<in> set (halves ?new). h \<noteq> 0"
    using nz unfolding halves_new by auto
  ultimately show ?thesis by (rule ip_header_checksum_okI)
qed

end
