(* ===== verification/Far_Program_Bpf.thy ===== *)
theory Far_Program_Bpf
  imports Xdp_Entry Csum
begin

text \<open>
  The forwarding action program \<^verbatim>\<open>src/bpf/far_bpf.c\<close>, to which the entry program tail calls:
  removal of the GTP-U encapsulation on the way to the data network, creation of it on the way
  to the access network, and the redirect to the egress interface.  Reads and writes of packet
  memory are checked (\<open>peek\<close>, \<open>poke\<close>); \<open>None\<close> is an access outside the packet.

  The lemmas give the exact effect of both directions on a packet that is long enough, the
  Internet checksum of the header that is pushed, and that no branch leaves the packet.
\<close>

section \<open>Definitions\<close>

definition xdp_redirect_gtpu :: "xdp_md \<Rightarrow> u32" where
  "xdp_redirect_gtpu ctx = XDP_PASS"

abbreviation (input) IP_CSUM_OFFSET :: u32 where "IP_CSUM_OFFSET \<equiv> 24"

text \<open>\<^verbatim>\<open>LOCAL_IP\<close> as the file defines it when the build does not (10.1.3.30 in memory order).\<close>

definition LOCAL_IP :: u32 where
  "LOCAL_IP = 503513354"

text \<open>
  \<open>iph\<close> and \<open>eth\<close> are the offsets of the headers; the first component of the result is the
  return value (0 success, 1 fail).
\<close>

definition update_dst_mac_address ::
    "(u32 \<rightharpoonup> bytes) \<Rightarrow> nat \<Rightarrow> nat \<Rightarrow> bytes \<Rightarrow> (u32 \<times> bytes) option" where
  "update_dst_mac_address m_arp_table iph eth buf = do {
     daddr \<leftarrow> peek32 (iph + 16) buf;
     case m_arp_table daddr of
       None \<Rightarrow> Some (1, buf)
     | Some mac \<Rightarrow> do {
         buf' \<leftarrow> poke eth (take 6 mac) buf;
         Some (0, buf')
       }
   }"

text \<open>
  The 20 bytes of the outer IPv4 header and the 8 bytes of the UDP and GTP-U headers, in memory
  order, as the member assignments of the source leave them.
\<close>

definition outer_ip_header :: "u32 \<Rightarrow> u16 \<Rightarrow> u32 \<Rightarrow> bytes" where
  "outer_ip_header local_ip inner_tot_len daddr =
     [0x45, 0] @ le_bytes 2 (swap16 (swap16 inner_tot_len + of_nat GTP_ENCAPSULATED_SIZE))
     @ le_bytes 2 (0 :: u16) @ le_bytes 2 (0x0040 :: u16) @ [64, IPPROTO_UDP]
     @ le_bytes 2 (0 :: u16) @ le_bytes 4 local_ip @ le_bytes 4 daddr"

definition outer_udp_header :: "u16 \<Rightarrow> u16 \<Rightarrow> bytes" where
  "outer_udp_header inner_tot_len port =
     le_bytes 2 (swap16 GTP_UDP_PORT) @ le_bytes 2 (swap16 port)
     @ le_bytes 2 (swap16 (swap16 inner_tot_len + of_nat UDPH_SIZE + of_nat GTPUH_SIZE))
     @ le_bytes 2 (0 :: u16)"

definition outer_gtpu_header :: "u16 \<Rightarrow> u32 \<Rightarrow> bytes" where
  "outer_gtpu_header inner_tot_len teid =
     [GTP_FLAGS, GTPU_G_PDU] @ le_bytes 2 inner_tot_len @ le_bytes 4 teid"

text \<open>
  The C function is declared to return \<^verbatim>\<open>u32\<close>; \<open>None\<close> as its return value stands for falling
  off its end, which the source does on success.
\<close>

definition create_outer_header_gtpu_ipv4 ::
    "bpf_helpers \<Rightarrow> u32 \<Rightarrow> (u32 \<rightharpoonup> bytes) \<Rightarrow> xdp_md \<Rightarrow> pfcp_far_t \<Rightarrow>
     (u32 option \<times> xdp_md) option" where
  "create_outer_header_gtpu_ipv4 H local_ip m_arp_table ctx0 far =
     (let ctx = snd (bpf_xdp_adjust_head H ctx0 (- int GTP_ENCAPSULATED_SIZE));
          buf = pkt_data ctx;
          len = length buf;
          ohc = fwp_outer_header_creation (far_forwarding_parameters far);
          orig_eth = GTP_ENCAPSULATED_SIZE;
          ip = ETH_SIZE;
          inner_ip = ip + GTP_ENCAPSULATED_SIZE;
          udp = ip + IPH_SIZE;
          gtpuh = udp + UDPH_SIZE
      in if ETH_SIZE > len then Some (Some XDP_DROP, ctx)
         else if orig_eth + ETH_SIZE > len then Some (Some XDP_DROP, ctx)
         else do {
           eth \<leftarrow> peek orig_eth ETH_SIZE buf;
           buf \<leftarrow> poke 0 eth buf;
           if ip + IPH_SIZE > len then Some (Some XDP_DROP, ctx\<lparr>pkt_data := buf\<rparr>)
           else if inner_ip + IPH_SIZE > len then Some (Some XDP_DROP, ctx\<lparr>pkt_data := buf\<rparr>)
           else do {
             tot_len \<leftarrow> peek16 (inner_ip + 2) buf;
             buf \<leftarrow> poke ip (outer_ip_header local_ip tot_len (ohc_ipv4_address ohc)) buf;
             if udp + UDPH_SIZE > len then Some (Some XDP_DROP, ctx\<lparr>pkt_data := buf\<rparr>)
             else do {
               buf \<leftarrow> poke udp (outer_udp_header tot_len (ohc_port_number ohc)) buf;
               daddr \<leftarrow> peek32 (ip + 16) buf;
               case m_arp_table daddr of
                 None \<Rightarrow> Some (Some XDP_DROP, ctx\<lparr>pkt_data := buf\<rparr>)
               | Some mac \<Rightarrow> do {
                   buf \<leftarrow> poke 0 (take 6 mac) buf;
                   if gtpuh + GTPUH_SIZE > len then Some (Some XDP_DROP, ctx\<lparr>pkt_data := buf\<rparr>)
                   else do {
                     buf \<leftarrow> poke gtpuh (outer_gtpu_header tot_len (ohc_teid ohc)) buf;
                     hdr \<leftarrow> peek ip IPH_SIZE buf;
                     let l3sum = pcn_csum_diff H [] hdr 0;
                     let ctx = ctx\<lparr>pkt_data := buf\<rparr>;
                     Some (None, snd (pcn_l3_csum_replace ctx IP_CSUM_OFFSET 0 l3sum 0))
                   }
                 }
             }
           }
         })"

definition pfcp_far_apply ::
    "bpf_helpers \<Rightarrow> u32 \<Rightarrow> (u32 \<rightharpoonup> bytes) \<Rightarrow> (u32 \<rightharpoonup> u32) \<Rightarrow>
     xdp_md \<Rightarrow> pfcp_far_t option \<Rightarrow> FlowDirection \<Rightarrow> FlowDirection \<Rightarrow> (u32 \<times> xdp_md) option" where
  "pfcp_far_apply H local_ip m_arp_table m_redirect_interfaces ctx p_far to_core to_access =
     (let buf = pkt_data ctx; len = length buf; new_eth = GTP_ENCAPSULATED_SIZE in
      if ETH_SIZE > len then Some (XDP_DROP, ctx)
      else case p_far of
        None \<Rightarrow> Some (XDP_DROP, ctx)
      | Some far \<Rightarrow>
        (let fwp = far_forwarding_parameters far;
             dest_interface = fwp_destination_interface fwp;
             creation = ohc_description (fwp_outer_header_creation fwp)
         in if aa_forw (far_apply_action far) then
              (if dest_interface = INTERFACE_VALUE_CORE then
                 (if creation = OUTER_HEADER_CREATION_UDP_IPV4 then
                    (if new_eth + ETH_SIZE > len then Some (1, ctx)
                     else do {
                       eth \<leftarrow> peek 0 ETH_SIZE buf;
                       buf \<leftarrow> poke new_eth eth buf;
                       if new_eth + ETH_SIZE + IPH_SIZE > len
                       then Some (XDP_DROP, ctx\<lparr>pkt_data := buf\<rparr>)
                       else do {
                         (fail, buf) \<leftarrow>
                           update_dst_mac_address m_arp_table (new_eth + ETH_SIZE) new_eth buf;
                         if fail \<noteq> 0 then Some (XDP_DROP, ctx\<lparr>pkt_data := buf\<rparr>)
                         else Some (bpf_redirect_map H m_redirect_interfaces (flow_id to_core) 0,
                                snd (bpf_xdp_adjust_head H (ctx\<lparr>pkt_data := buf\<rparr>)
                                      (int GTP_ENCAPSULATED_SIZE)))
                       }
                     })
                  else Some (XDP_PASS, ctx))
               else if dest_interface = INTERFACE_VALUE_ACCESS then
                 (if creation = OUTER_HEADER_CREATION_GTPU_UDP_IPV4 then do {
                    (_, ctx) \<leftarrow> create_outer_header_gtpu_ipv4 H local_ip m_arp_table ctx far;
                    Some (bpf_redirect_map H m_redirect_interfaces (flow_id to_access) 0, ctx)
                  }
                  else Some (XDP_PASS, ctx))
               else Some (XDP_PASS, ctx))
            else Some (XDP_PASS, ctx)))"

text \<open>
  In \<^verbatim>\<open>far_bpf.c\<close> the redirect towards the core uses the interface of \<open>UPLINK\<close> and the one
  towards the access network that of \<open>DOWNLINK\<close>.  The unique FAR of the program is at key 0.
\<close>

definition far_entry_point ::
    "bpf_helpers \<Rightarrow> u32 \<Rightarrow> (u32 \<rightharpoonup> bytes) \<Rightarrow> (u32 \<rightharpoonup> u32) \<Rightarrow> (u8 \<rightharpoonup> pfcp_far_t) \<Rightarrow>
     xdp_md \<Rightarrow> (u32 \<times> xdp_md) option" where
  "far_entry_point H local_ip m_arp_table m_redirect_interfaces m_far ctx =
     pfcp_far_apply H local_ip m_arp_table m_redirect_interfaces ctx (m_far 0) UPLINK DOWNLINK"

section \<open>Memory safety\<close>

lemma length_outer_ip_header [simp]: "length (outer_ip_header l t d) = 20"
  by (simp add: outer_ip_header_def)

lemma length_outer_udp_header [simp]: "length (outer_udp_header t p) = 8"
  by (simp add: outer_udp_header_def)

lemma length_outer_gtpu_header [simp]: "length (outer_gtpu_header t d) = 8"
  by (simp add: outer_gtpu_header_def)

lemma encap_size [simp]: "GTP_ENCAPSULATED_SIZE = 36"
  by (simp add: GTP_ENCAPSULATED_SIZE_def)

lemma update_dst_mac_address_safe:
  "iph + 20 \<le> length buf \<Longrightarrow> eth + 6 \<le> length buf \<Longrightarrow>
     update_dst_mac_address arp iph eth buf \<noteq> None"
  by (simp add: update_dst_mac_address_def min_def del: not_None_eq split: option.splits)

lemma create_outer_header_gtpu_ipv4_safe [simp]:
  "create_outer_header_gtpu_ipv4 H local_ip arp ctx far \<noteq> None"
  by (simp add: create_outer_header_gtpu_ipv4_def Let_def min_def del: not_None_eq
      split: option.splits)

lemma pfcp_far_apply_safe:
  "pfcp_far_apply H local_ip arp redir ctx p_far dc da \<noteq> None"
  using update_dst_mac_address_safe [of 50 _ 36 arp]
  by (simp add: pfcp_far_apply_def Let_def Option.bind_eq_None_conv split_def del: not_None_eq
      split: option.splits)

section \<open>Decapsulation\<close>

definition forwards_to_core :: "pfcp_far_t \<Rightarrow> bool" where
  "forwards_to_core far \<longleftrightarrow>
     aa_forw (far_apply_action far) \<and>
     fwp_destination_interface (far_forwarding_parameters far) = INTERFACE_VALUE_CORE \<and>
     ohc_description (fwp_outer_header_creation (far_forwarding_parameters far))
       = OUTER_HEADER_CREATION_UDP_IPV4"

definition forwards_to_access :: "pfcp_far_t \<Rightarrow> bool" where
  "forwards_to_access far \<longleftrightarrow>
     aa_forw (far_apply_action far) \<and>
     fwp_destination_interface (far_forwarding_parameters far) = INTERFACE_VALUE_ACCESS \<and>
     ohc_description (fwp_outer_header_creation (far_forwarding_parameters far))
       = OUTER_HEADER_CREATION_GTPU_UDP_IPV4"

text \<open>The frame that leaves: a new destination address in front of the inner packet.\<close>

definition decapsulated :: "bytes \<Rightarrow> bytes \<Rightarrow> bytes" where
  "decapsulated mac buf = mac @ get_bytes 6 8 buf @ drop 50 buf"

lemma pfcp_far_apply_decap:
  assumes H: "adjust_head_shrinks H" and far: "forwards_to_core far"
    and len: "70 \<le> length (pkt_data ctx)"
    and arp: "arp (get_u32 66 (pkt_data ctx)) = Some mac" and mac: "length mac = 6"
  shows "\<exists>ctx'. pfcp_far_apply H local_ip arp redir ctx (Some far) dc da
             = Some (bpf_redirect_map H redir (flow_id dc) 0, ctx')
           \<and> pkt_data ctx' = decapsulated mac (pkt_data ctx)"
proof -
  let ?buf = "pkt_data ctx"
  let ?b1 = "put_bytes 36 (get_bytes 0 14 ?buf) ?buf"
  let ?b2 = "put_bytes 36 mac ?b1"
  have "get_u32 66 ?b1 = get_u32 66 ?buf"
    using len by (simp add: get_u32_def)
  then have mac': "update_dst_mac_address arp 50 36 ?b1 = Some (0, ?b2)"
    using len arp mac by (simp add: update_dst_mac_address_def)
  have "pfcp_far_apply H local_ip arp redir ctx (Some far) dc da =
      Some (bpf_redirect_map H redir (flow_id dc) 0,
            snd (bpf_xdp_adjust_head H (ctx\<lparr>pkt_data := ?b2\<rparr>) (int 36)))"
    using far len mac' by (simp add: pfcp_far_apply_def Let_def forwards_to_core_def)
  moreover have "pkt_data (snd (bpf_xdp_adjust_head H (ctx\<lparr>pkt_data := ?b2\<rparr>) (int 36)))
      = drop 36 ?b2"
    using len mac adjust_head_shrinksD [OF H, of 36 "ctx\<lparr>pkt_data := ?b2\<rparr>"] by simp
  moreover have "drop 36 ?b2 = decapsulated mac ?buf"
  proof -
    obtain e p where "?buf = e @ p" and "length e = 14"
      using obtain_split [of 14 ?buf] len by auto
    moreover obtain q r where "p = q @ r" and "length q = 22"
      using obtain_split [of 22 p] len calculation by auto
    moreover obtain s t where "r = s @ t" and "length s = 14"
      using obtain_split [of 14 r] len calculation by auto
    moreover obtain u v where "e = u @ v" and "length u = 6"
      using obtain_split [of 6 e] calculation by auto
    ultimately show ?thesis
      using mac by (simp add: buf_simps decapsulated_def get_bytes_append get_bytes_all)
        (simp add: put_bytes_def get_bytes_def)
  qed
  ultimately show ?thesis by simp
qed

section \<open>Encapsulation\<close>

text \<open>The outer IPv4 header with its check field filled in.\<close>

definition outer_ip_checked :: "bpf_helpers \<Rightarrow> u32 \<Rightarrow> u16 \<Rightarrow> u32 \<Rightarrow> bytes" where
  "outer_ip_checked H local_ip tot_len daddr =
     (let hdr = outer_ip_header local_ip tot_len daddr
      in put_bytes 10 (le_bytes 2 (pcn_csum_replace_by_diff 0 (bpf_csum_diff H [] hdr 0))) hdr)"

definition encapsulated :: "bpf_helpers \<Rightarrow> u32 \<Rightarrow> pfcp_far_t \<Rightarrow> bytes \<Rightarrow> bytes \<Rightarrow> bytes" where
  "encapsulated H local_ip far mac buf =
     (let ohc = fwp_outer_header_creation (far_forwarding_parameters far);
          tot_len = get_u16 16 buf
      in mac @ get_bytes 6 8 buf @ outer_ip_checked H local_ip tot_len (ohc_ipv4_address ohc)
         @ outer_udp_header tot_len (ohc_port_number ohc)
         @ outer_gtpu_header tot_len (ohc_teid ohc) @ drop 14 buf)"

lemma outer_ip_header_daddr: "get_u32 16 (outer_ip_header l t d) = d"
  by (simp add: get_u32_def get_bytes_def outer_ip_header_def)

lemma outer_ip_header_check: "get_u16 10 (outer_ip_header l t d) = 0"
  by (simp add: get_u16_def get_bytes_def outer_ip_header_def)

lemma csum_replace_in_frame:
  assumes "length e = 14" and "length hdr = 20" and "get_u16 10 hdr = 0"
  shows "pkt_data (snd (pcn_l3_csum_replace (ctx\<lparr>pkt_data := e @ hdr @ rest\<rparr>) IP_CSUM_OFFSET 0 s 0))
    = e @ put_bytes 10 (le_bytes 2 (pcn_csum_replace_by_diff 0 s)) hdr @ rest"
proof -
  have "get_u16 24 (e @ hdr @ rest) = 0"
    using assms by (simp add: get_u16_def get_bytes_append)
  then show ?thesis
    using assms by (simp add: pcn_l3_csum_replace_def Let_def buf_simps)
qed

lemma create_outer_header_encap:
  assumes H: "adjust_head_grows H" and room: "36 \<le> length (pkt_room ctx)"
    and len: "34 \<le> length (pkt_data ctx)"
    and arp: "arp (ohc_ipv4_address (fwp_outer_header_creation (far_forwarding_parameters far)))
               = Some mac"
    and mac: "length mac = 6"
  shows "\<exists>ctx'. create_outer_header_gtpu_ipv4 H local_ip arp ctx far = Some (None, ctx')
           \<and> pkt_data ctx' = encapsulated H local_ip far mac (pkt_data ctx)"
proof -
  let ?ohc = "fwp_outer_header_creation (far_forwarding_parameters far)"
  let ?tl = "get_u16 16 (pkt_data ctx)"
  let ?ctx = "snd (bpf_xdp_adjust_head H ctx (- 36))"
  obtain new where new: "length new = 36" "pkt_data ?ctx = new @ pkt_data ctx"
    using adjust_head_growsE [OF H _ room] by auto
  let ?e1 = "take 6 (pkt_data ctx)" and ?e2 = "get_bytes 6 8 (pkt_data ctx)"
  let ?ip = "outer_ip_header local_ip ?tl (ohc_ipv4_address ?ohc)"
  let ?udp = "outer_udp_header ?tl (ohc_port_number ?ohc)"
  let ?gtp = "outer_gtpu_header ?tl (ohc_teid ?ohc)"
  define n1 n2 n3 where "n1 = take 14 new" and "n2 = take 20 (drop 14 new)"
    and "n3 = drop 34 new"
  have n: "new = n1 @ n2 @ n3" "length n1 = 14" "length n2 = 20" "length n3 = 2"
    using new(1) split_in_three [of new 14 20] by (simp_all add: n1_def n2_def n3_def)
  have e: "pkt_data ctx = ?e1 @ ?e2 @ drop 14 (pkt_data ctx)" "length ?e1 = 6" "length ?e2 = 8"
    using len split_in_three [of "pkt_data ctx" 6 8] by (simp_all add: get_bytes_def)
  let ?rest = "drop 14 (pkt_data ctx)"
  have buf: "pkt_data ?ctx = n1 @ n2 @ (n3 @ ?e1) @ ?e2 @ ?rest"
    using new(2) n(1) e(1) by simp
  have tl: "get_u16 52 (eth @ n2 @ (n3 @ ?e1) @ ?e2 @ ?rest) = ?tl" if "length eth = 14" for eth
    using n(2-) e(2-) that len by (simp add: get_u16_def get_bytes_append get_bytes_drop)
  have l: "length (pkt_data ?ctx) = 50 + length ?rest" "20 \<le> length ?rest"
    using n(2-) e(2-) len by (simp_all add: buf)
  let ?eth = "?e1 @ ?e2"
  let ?f0 = "?eth @ n2 @ (n3 @ ?e1) @ ?e2 @ ?rest"
  let ?f1 = "?eth @ ?ip @ (n3 @ ?e1) @ ?e2 @ ?rest"
  let ?f2 = "(?eth @ ?ip) @ ?udp @ ?e2 @ ?rest"
  let ?f3 = "mac @ ?e2 @ ?ip @ ?udp @ ?e2 @ ?rest"
  let ?f4 = "(mac @ ?e2 @ ?ip @ ?udp) @ ?gtp @ ?rest"
  have p: "peek 36 14 (pkt_data ?ctx) = Some ?eth" "poke 0 ?eth (pkt_data ?ctx) = Some ?f0"
    "poke 14 ?ip ?f0 = Some ?f1" "poke 34 ?udp ?f1 = Some ?f2"
    "poke 0 (take 6 mac) ?f2 = Some ?f3" "poke 42 ?gtp ?f3 = Some ?f4"
    "peek 14 20 ?f4 = Some ?ip"
    using n(2-) e(2-) mac
      peek_segment [of "n1 @ n2 @ n3" 36 ?eth 14 ?rest] poke_segment [of "[]" 0 n1 ?eth]
      poke_segment [of ?eth 14 n2 ?ip] poke_segment [of "?eth @ ?ip" 34 "n3 @ ?e1" ?udp]
      poke_segment [of "[]" 0 ?e1 mac] poke_segment [of "mac @ ?e2 @ ?ip @ ?udp" 42 ?e2 ?gtp]
      peek_segment [of "mac @ ?e2" 14 ?ip 20]
    by (simp_all add: buf del: poke_Some peek_Some)
  have t: "peek16 52 ?f0 = Some ?tl" "peek32 30 ?f2 = Some (ohc_ipv4_address ?ohc)"
    using n(2-) e(2-) l tl [of ?eth] outer_ip_header_daddr [of local_ip ?tl "ohc_ipv4_address ?ohc"]
    by (simp_all add: get_u32_def get_bytes_append)
  have "create_outer_header_gtpu_ipv4 H local_ip arp ctx far =
      Some (None, snd (pcn_l3_csum_replace (?ctx\<lparr>pkt_data := ?f4\<rparr>) IP_CSUM_OFFSET 0
                         (bpf_csum_diff H [] ?ip 0) 0))"
    using l p t arp
    by (simp add: create_outer_header_gtpu_ipv4_def Let_def pcn_csum_diff_def
        del: poke_Some peek_Some peek16_Some peek32_Some append_assoc)
  moreover have "pkt_data (snd (pcn_l3_csum_replace (?ctx\<lparr>pkt_data := ?f4\<rparr>) IP_CSUM_OFFSET 0
                         (bpf_csum_diff H [] ?ip 0) 0)) = encapsulated H local_ip far mac (pkt_data ctx)"
    using e(2-) mac csum_replace_in_frame
        [where e = "mac @ ?e2" and hdr = ?ip and ctx = ?ctx and rest = "?udp @ ?gtp @ ?rest"]
    by (simp add: outer_ip_header_check encapsulated_def outer_ip_checked_def Let_def)
  ultimately show ?thesis by simp
qed

section \<open>The encapsulated frame\<close>

lemma length_outer_ip_checked [simp]: "length (outer_ip_checked H l t d) = 20"
  by (simp add: outer_ip_checked_def Let_def)

lemma outer_ip_checked_ok:
  assumes "csum_diff_sums H"
  shows "ip_header_checksum_ok (outer_ip_checked H l t d)"
proof -
  let ?hdr = "outer_ip_header l t d"
  obtain rest where "take 10 ?hdr = 0x45 # 0 # rest"
    by (simp add: outer_ip_header_def)
  then have "halves (take 10 ?hdr) = 0x45 # halves rest"
    by simp
  then have "\<exists>h \<in> set (halves (take 10 ?hdr)). h \<noteq> 0"
    by simp
  then show ?thesis
    unfolding outer_ip_checked_def Let_def
    using assms by (intro checksum_filled_ok) (simp_all add: outer_ip_header_check)
qed

lemma encapsulated_parts:
  assumes "length mac = 6" and "34 \<le> length buf"
  shows "take 6 (encapsulated H l far mac buf) = mac"
    and "get_bytes 6 8 (encapsulated H l far mac buf) = get_bytes 6 8 buf"
    and "get_bytes 14 20 (encapsulated H l far mac buf) =
           outer_ip_checked H l (get_u16 16 buf)
             (ohc_ipv4_address (fwp_outer_header_creation (far_forwarding_parameters far)))"
    and "get_bytes 34 8 (encapsulated H l far mac buf) =
           outer_udp_header (get_u16 16 buf)
             (ohc_port_number (fwp_outer_header_creation (far_forwarding_parameters far)))"
    and "get_bytes 42 8 (encapsulated H l far mac buf) =
           outer_gtpu_header (get_u16 16 buf)
             (ohc_teid (fwp_outer_header_creation (far_forwarding_parameters far)))"
    and "drop 50 (encapsulated H l far mac buf) = drop 14 buf"
    and "length (encapsulated H l far mac buf) = length buf + 36"
  using assms by (simp_all add: encapsulated_def Let_def get_bytes_append get_bytes_all)

lemma outer_ip_checked_fields:
  "get_u8 9 (outer_ip_checked H l t d) = IPPROTO_UDP" "get_u32 12 (outer_ip_checked H l t d) = l"
  "get_u32 16 (outer_ip_checked H l t d) = d"
  "get_u16 2 (outer_ip_checked H l t d) = swap16 (swap16 t + 36)"
  by (simp_all add: outer_ip_checked_def Let_def get_u8_def get_u16_def get_u32_def)
    (simp_all add: outer_ip_header_def get_bytes_def)

lemma outer_udp_header_fields:
  "get_u16 2 (outer_udp_header t p) = swap16 p"
  "get_u16 4 (outer_udp_header t p) = swap16 (swap16 t + 16)"
  by (simp_all add: outer_udp_header_def get_u16_def get_bytes_def add.commute)

lemma outer_gtpu_header_fields:
  "get_u8 1 (outer_gtpu_header t d) = GTPU_G_PDU" "get_u32 4 (outer_gtpu_header t d) = d"
  "get_u16 2 (outer_gtpu_header t d) = t"
  by (simp_all add: outer_gtpu_header_def get_u8_def get_u16_def get_u32_def get_bytes_def)

lemma encapsulated_field:
  assumes "length mac = 6" and "34 \<le> length buf"
  shows "\<lbrakk>6 \<le> i; i + n \<le> 14\<rbrakk> \<Longrightarrow>
           get_bytes i n (encapsulated H l far mac buf) = get_bytes i n buf"
    and "\<lbrakk>14 \<le> i; i + n \<le> 34\<rbrakk> \<Longrightarrow>
           get_bytes i n (encapsulated H l far mac buf) = get_bytes (i - 14) n
             (outer_ip_checked H l (get_u16 16 buf)
               (ohc_ipv4_address (fwp_outer_header_creation (far_forwarding_parameters far))))"
    and "\<lbrakk>34 \<le> i; i + n \<le> 42\<rbrakk> \<Longrightarrow>
           get_bytes i n (encapsulated H l far mac buf) = get_bytes (i - 34) n
             (outer_udp_header (get_u16 16 buf)
               (ohc_port_number (fwp_outer_header_creation (far_forwarding_parameters far))))"
    and "\<lbrakk>42 \<le> i; i + n \<le> 50\<rbrakk> \<Longrightarrow>
           get_bytes i n (encapsulated H l far mac buf) = get_bytes (i - 42) n
             (outer_gtpu_header (get_u16 16 buf)
               (ohc_teid (fwp_outer_header_creation (far_forwarding_parameters far))))"
    and "50 \<le> i \<Longrightarrow> get_bytes i n (encapsulated H l far mac buf) = get_bytes (i - 36) n buf"
  using assms
  by (simp_all add: encapsulated_def Let_def get_bytes_append get_bytes_get_bytes get_bytes_drop)

text \<open>The Detector on a frame that was encapsulated towards the GTP-U port.\<close>

lemma detect_encapsulated:
  fixes far :: pfcp_far_t
  defines "ohc \<equiv> fwp_outer_header_creation (far_forwarding_parameters far)"
  assumes "length mac = 6" and "34 \<le> length buf" and "swap16 (get_u16 12 buf) = ETH_P_IP"
    and "drop_bit 4 (get_u8 14 buf) = 4" and "ohc_port_number ohc = GTP_UDP_PORT"
  shows "detect (encapsulated H l far mac buf) =
    Inr \<lparr>key_teid = ohc_teid ohc, key_source_value = INTERFACE_VALUE_ACCESS,
         key_ipv4_address = l\<rparr>"
proof -
  let ?e = "encapsulated H l far mac buf"
  note [simp] = encapsulated_field [OF assms(2,3)] encapsulated_parts(7) [OF assms(2,3)]
  have f: "get_u16 12 ?e = get_u16 12 buf" "get_u8 23 ?e = IPPROTO_UDP" "get_u32 26 ?e = l"
    "get_u16 36 ?e = swap16 GTP_UDP_PORT" "get_u8 43 ?e = GTPU_G_PDU" "get_u32 46 ?e = ohc_teid ohc"
    "get_u8 50 ?e = get_u8 14 buf"
    using assms(6) outer_ip_checked_fields outer_udp_header_fields outer_gtpu_header_fields
    by (simp_all add: get_u8_def get_u16_def get_u32_def ohc_def)
  then show ?thesis
    using assms(3-5) by (simp add: detect_def Let_def vlan_tagged_def)
qed

section \<open>Both directions of the program\<close>

lemma pfcp_far_apply_encap:
  assumes H: "adjust_head_grows H" and far: "forwards_to_access far"
    and room: "36 \<le> length (pkt_room ctx)" and len: "34 \<le> length (pkt_data ctx)"
    and arp: "arp (ohc_ipv4_address (fwp_outer_header_creation (far_forwarding_parameters far)))
               = Some mac"
    and mac: "length mac = 6"
  shows "\<exists>ctx'. pfcp_far_apply H local_ip arp redir ctx (Some far) dc da
             = Some (bpf_redirect_map H redir (flow_id da) 0, ctx')
           \<and> pkt_data ctx' = encapsulated H local_ip far mac (pkt_data ctx)"
  using create_outer_header_encap [where arp = arp and far = far, OF H room len arp mac, of local_ip]
    far len
  by (auto simp: pfcp_far_apply_def Let_def forwards_to_access_def)

text \<open>A missing neighbour: the frame is widened, but its GTP-U header is never written.\<close>

lemma create_outer_header_no_arp:
  assumes "arp (ohc_ipv4_address (fwp_outer_header_creation (far_forwarding_parameters far))) = None"
  shows "fst (the (create_outer_header_gtpu_ipv4 H local_ip arp ctx far)) = Some XDP_DROP"
proof -
  have d: "get_u32 30 (put_bytes 34 (outer_udp_header t p) (put_bytes 14 (outer_ip_header l t d) buf)) = d"
    if "42 \<le> length buf" for t p l d buf
    using that by (simp add: get_u32_def put_bytes_def get_bytes_append)
      (metis get_u32_def outer_ip_header_daddr)
  have "the (if b then Some x else y) = (if b then x else the y)" for b and x :: "'a" and y
    by simp
  then show ?thesis
    using assms d
    by (simp add: create_outer_header_gtpu_ipv4_def Let_def split_def)
qed

lemma pfcp_far_apply_no_arp:
  assumes "forwards_to_access far" and "14 \<le> length (pkt_data ctx)"
    and "arp (ohc_ipv4_address (fwp_outer_header_creation (far_forwarding_parameters far))) = None"
  shows "fst (the (create_outer_header_gtpu_ipv4 H local_ip arp ctx far)) = Some XDP_DROP \<and>
         fst (the (pfcp_far_apply H local_ip arp redir ctx (Some far) dc da))
           = bpf_redirect_map H redir (flow_id da) 0"
proof -
  obtain r ctx' where c: "create_outer_header_gtpu_ipv4 H local_ip arp ctx far = Some (r, ctx')"
    using create_outer_header_gtpu_ipv4_safe [of H local_ip arp ctx far]
    by (metis not_None_eq surj_pair)
  show ?thesis
    using assms create_outer_header_no_arp [where arp = arp and far = far, OF assms(3), of H local_ip ctx]
    by (simp add: pfcp_far_apply_def Let_def forwards_to_access_def c)
qed

lemma far_entry_point_encap:
  fixes far :: pfcp_far_t
  defines "ohc \<equiv> fwp_outer_header_creation (far_forwarding_parameters far)"
  assumes "adjust_head_grows H" and "csum_diff_sums H" and "redirect_map_ok H"
    and "m_far 0 = Some far" and "forwards_to_access far"
    and "36 \<le> length (pkt_room ctx)" and "34 \<le> length (pkt_data ctx)"
    and "arp (ohc_ipv4_address ohc) = Some mac" and "length mac = 6"
    and "redir (flow_id DOWNLINK) = Some ifindex"
  shows "\<exists>ctx' ip udp gtpu.
           far_entry_point H local_ip arp redir m_far ctx = Some (XDP_REDIRECT, ctx') \<and>
           pkt_data ctx' = mac @ get_bytes 6 8 (pkt_data ctx) @ ip @ udp @ gtpu
                           @ drop 14 (pkt_data ctx) \<and>
           length ip = 20 \<and> length udp = 8 \<and> length gtpu = 8 \<and>
           ip_header_checksum_ok ip \<and> get_u8 9 ip = IPPROTO_UDP \<and>
           get_u32 12 ip = local_ip \<and> get_u32 16 ip = ohc_ipv4_address ohc \<and>
           get_u16 2 udp = swap16 (ohc_port_number ohc) \<and>
           get_u8 1 gtpu = GTPU_G_PDU \<and> get_u32 4 gtpu = ohc_teid ohc"
proof -
  let ?t = "get_u16 16 (pkt_data ctx)"
  obtain ctx' where "far_entry_point H local_ip arp redir m_far ctx = Some (XDP_REDIRECT, ctx')"
    and "pkt_data ctx' = encapsulated H local_ip far mac (pkt_data ctx)"
    using pfcp_far_apply_encap [where arp = arp and H = H and far = far and ctx = ctx and mac = mac
        and redir = redir and dc = UPLINK and da = DOWNLINK and local_ip = local_ip] assms
    by (auto simp: far_entry_point_def redirect_map_ok_def)
  then show ?thesis
    using assms(3) outer_ip_checked_fields [of H local_ip ?t] outer_udp_header_fields
      outer_gtpu_header_fields outer_ip_checked_ok
    by (intro exI [of _ ctx'] exI [of _ "outer_ip_checked H local_ip ?t (ohc_ipv4_address ohc)"]
        exI [of _ "outer_udp_header ?t (ohc_port_number ohc)"]
        exI [of _ "outer_gtpu_header ?t (ohc_teid ohc)"])
      (simp add: encapsulated_def Let_def ohc_def)
qed

section \<open>Properties\<close>

text \<open>
  Sample rules and frames at which the properties are exercised: an uplink G-PDU of 70 bytes
  with a 20 byte inner packet, and a downlink UDP frame of 42 bytes.
\<close>

definition sample_far :: "u8 \<Rightarrow> u16 \<Rightarrow> pfcp_far_t" where
  "sample_far dest desc =
     \<lparr>far_far_id = 1, far_apply_action = apply_action_of_mem (flag 6 True),
      far_forwarding_parameters =
        \<lparr>fwp_destination_interface = dest,
         fwp_outer_header_creation =
           \<lparr>ohc_description = desc, ohc_teid = 100, ohc_ipv4_address = 0x0103010A,
            ohc_port_number = GTP_UDP_PORT\<rparr>\<rparr>\<rparr>"

definition sample_far_core :: pfcp_far_t where
  "sample_far_core = sample_far INTERFACE_VALUE_CORE OUTER_HEADER_CREATION_UDP_IPV4"

definition sample_far_access :: pfcp_far_t where
  "sample_far_access = sample_far INTERFACE_VALUE_ACCESS OUTER_HEADER_CREATION_GTPU_UDP_IPV4"

definition sample_eth :: bytes where
  "sample_eth = [2, 0, 0, 0, 0, 1, 2, 0, 0, 0, 0, 2, 8, 0]"

definition sample_inner :: bytes where
  "sample_inner = [0x45, 0, 0, 28, 0, 0, 0, 0, 64, 17, 0, 0, 10, 10, 10, 1, 10, 1, 3, 27,
                   0x30, 0x39, 0x30, 0x3A, 0, 8, 0, 0]"

definition sample_outer :: bytes where
  "sample_outer = [0x45, 0, 0, 64, 0, 0, 0, 0, 64, 17, 0, 0, 10, 1, 3, 1, 10, 1, 3, 30,
                   8, 0x68, 8, 0x68, 0, 44, 0, 0, 0x30, 255, 0, 28, 100, 0, 0, 0]"

definition sample_downlink :: xdp_md where
  "sample_downlink = \<lparr>pkt_data = sample_eth @ sample_inner, pkt_room = replicate 256 0\<rparr>"

definition sample_uplink :: xdp_md where
  "sample_uplink = \<lparr>pkt_data = sample_eth @ sample_outer @ sample_inner, pkt_room = replicate 256 0\<rparr>"

lemmas sample_defs = sample_far_def sample_far_core_def sample_far_access_def sample_eth_def
  sample_inner_def sample_outer_def sample_downlink_def sample_uplink_def

lemma sample_forwards [simp]:
  "forwards_to_core sample_far_core" "forwards_to_access sample_far_access"
  by (simp_all add: sample_defs forwards_to_core_def forwards_to_access_def apply_action_of_mem_def)

lemma sample_lengths [simp]:
  "length (pkt_data sample_uplink) = 78" "length (pkt_data sample_downlink) = 42"
  "length (pkt_room sample_downlink) = 256"
  by (simp_all add: sample_defs)

text \<open>
  C19: On every packet and every content of the maps the forwarding program stays inside the
  packet's memory and returns an action.
\<close>

theorem far_entry_point_memory_safe:
  "\<exists>action ctx'. far_entry_point H local_ip arp redir m_far ctx = Some (action, ctx')"
  using pfcp_far_apply_safe [of H local_ip arp redir ctx "m_far 0" UPLINK DOWNLINK]
  by (simp add: far_entry_point_def)

text \<open>
  C14: With a FAR that forwards to the core network, a frame of at least 70 bytes whose inner
  destination is in the ARP table is redirected to the uplink interface with the outer IPv4, UDP
  and GTP-U headers gone: the frame that leaves is the neighbour's address, the source address
  and type of the frame that came in, and the inner packet byte for byte.
\<close>

theorem far_entry_point_decapsulates:
  assumes "adjust_head_shrinks H" and "redirect_map_ok H"
    and "m_far 0 = Some far" and "forwards_to_core far"
    and "70 \<le> length (pkt_data ctx)"
    and "arp (get_u32 66 (pkt_data ctx)) = Some mac" and "length mac = 6"
    and "redir (flow_id UPLINK) = Some ifindex"
  shows "\<exists>ctx'. far_entry_point H local_ip arp redir m_far ctx = Some (XDP_REDIRECT, ctx') \<and>
           pkt_data ctx' = mac @ get_bytes 6 8 (pkt_data ctx) @ drop 50 (pkt_data ctx)"
  using pfcp_far_apply_decap
    [where arp = arp and H = H and far = far and ctx = ctx and mac = mac and redir = redir
      and dc = UPLINK and da = DOWNLINK and local_ip = local_ip] assms
  by (auto simp: far_entry_point_def redirect_map_ok_def decapsulated_def)

theorem far_entry_point_decapsulates_witness:
  "\<exists>ctx'. far_entry_point ref_helpers LOCAL_IP [0x1B03010A \<mapsto> [2, 0, 0, 0, 0, 9]] [1 \<mapsto> 7]
       [0 \<mapsto> sample_far_core] sample_uplink = Some (XDP_REDIRECT, ctx') \<and>
     pkt_data ctx' = [2, 0, 0, 0, 0, 9, 2, 0, 0, 0, 0, 2, 8, 0] @ sample_inner"
proof -
  have "get_u32 66 (pkt_data sample_uplink) = 0x1B03010A"
    by code_simp
  moreover have "get_bytes 6 8 (pkt_data sample_uplink) = [2, 0, 0, 0, 0, 2, 8, 0]"
    "drop 50 (pkt_data sample_uplink) = sample_inner"
    by code_simp+
  ultimately show ?thesis
    using far_entry_point_decapsulates [of ref_helpers "[0 \<mapsto> sample_far_core]" sample_far_core
        sample_uplink "[0x1B03010A \<mapsto> [2, 0, 0, 0, 0, 9]]" "[2, 0, 0, 0, 0, 9]" "[1 \<mapsto> 7]" 7 LOCAL_IP]
    by (simp add: ref_adjust_head_shrinks ref_redirect_map_ok)
qed

text \<open>
  C15: With a FAR that forwards to the access network and enough head room, a frame whose tunnel
  peer is in the ARP table is redirected to the downlink interface as a G-PDU: 36 bytes longer,
  the old Ethernet header (with the peer's address) in front, an outer IPv4 header from the
  local address to the peer whose Internet checksum verifies, UDP to the rule's port, a GTP-U
  header with the rule's TEID, and behind them the whole packet that came in.
\<close>

theorem far_entry_point_encapsulates:
  fixes far :: pfcp_far_t
  defines "ohc \<equiv> fwp_outer_header_creation (far_forwarding_parameters far)"
  assumes "adjust_head_grows H" and "csum_diff_sums H" and "redirect_map_ok H"
    and "m_far 0 = Some far" and "forwards_to_access far"
    and "36 \<le> length (pkt_room ctx)" and "34 \<le> length (pkt_data ctx)"
    and "arp (ohc_ipv4_address ohc) = Some mac" and "length mac = 6"
    and "redir (flow_id DOWNLINK) = Some ifindex"
  shows "\<exists>ctx' ip udp gtpu.
           far_entry_point H local_ip arp redir m_far ctx = Some (XDP_REDIRECT, ctx') \<and>
           pkt_data ctx' = mac @ get_bytes 6 8 (pkt_data ctx) @ ip @ udp @ gtpu
                           @ drop 14 (pkt_data ctx) \<and>
           length ip = 20 \<and> length udp = 8 \<and> length gtpu = 8 \<and>
           ip_header_checksum_ok ip \<and> get_u8 9 ip = IPPROTO_UDP \<and>
           get_u32 12 ip = local_ip \<and> get_u32 16 ip = ohc_ipv4_address ohc \<and>
           get_u16 2 udp = swap16 (ohc_port_number ohc) \<and>
           get_u8 1 gtpu = GTPU_G_PDU \<and> get_u32 4 gtpu = ohc_teid ohc"
  unfolding ohc_def
  by (rule far_entry_point_encap [where m_far = m_far and arp = arp and redir = redir and far = far and ifindex = ifindex,
        OF assms(2-11) [unfolded ohc_def]])

theorem far_entry_point_encapsulates_witness:
  "\<exists>ctx' ip udp gtpu.
     far_entry_point ref_helpers LOCAL_IP [0x0103010A \<mapsto> [2, 0, 0, 0, 0, 8]] [0 \<mapsto> 6]
       [0 \<mapsto> sample_far_access] sample_downlink = Some (XDP_REDIRECT, ctx') \<and>
     pkt_data ctx' = [2, 0, 0, 0, 0, 8, 2, 0, 0, 0, 0, 2, 8, 0] @ ip @ udp @ gtpu @ sample_inner \<and>
     length ip = 20 \<and> length udp = 8 \<and> length gtpu = 8 \<and>
     ip_header_checksum_ok ip \<and> get_u32 16 ip = 0x0103010A \<and> get_u32 4 gtpu = 100"
proof -
  have "get_bytes 6 8 (pkt_data sample_downlink) = [2, 0, 0, 0, 0, 2, 8, 0]"
    "drop 14 (pkt_data sample_downlink) = sample_inner"
    "ohc_ipv4_address (fwp_outer_header_creation (far_forwarding_parameters sample_far_access))
       = 0x0103010A"
    "ohc_teid (fwp_outer_header_creation (far_forwarding_parameters sample_far_access)) = 100"
    by code_simp+
  then show ?thesis
    using far_entry_point_encapsulates [of ref_helpers "[0 \<mapsto> sample_far_access]" sample_far_access
        sample_downlink "[0x0103010A \<mapsto> [2, 0, 0, 0, 0, 8]]" "[2, 0, 0, 0, 0, 8]" "[0 \<mapsto> 6]" 6 LOCAL_IP]
    by (simp add: ref_adjust_head_grows ref_redirect_map_ok ref_csum_diff_sums) blast
qed

text \<open>
  C16: Round trip of the tunnel.  The frame the program sends towards the access network when the
  rule names the GTP-U port is again a G-PDU for the entry program of the peer, detected under
  the rule's TEID and the local address, and decapsulating it yields the original packet behind
  the new destination address.
\<close>

theorem encapsulate_detect_decapsulate:
  fixes far :: pfcp_far_t
  defines "ohc \<equiv> fwp_outer_header_creation (far_forwarding_parameters far)"
  assumes "adjust_head_grows H" and "forwards_to_access far"
    and "36 \<le> length (pkt_room ctx)" and "34 \<le> length (pkt_data ctx)"
    and "arp (ohc_ipv4_address ohc) = Some mac" and "length mac = 6"
    and "swap16 (get_u16 12 (pkt_data ctx)) = ETH_P_IP"
    and "drop_bit 4 (get_u8 14 (pkt_data ctx)) = 4"
    and "ohc_port_number ohc = GTP_UDP_PORT"
    and "adjust_head_shrinks H" and "forwards_to_core peer_far"
    and "peer_arp (get_u32 30 (pkt_data ctx)) = Some peer_mac" and "length peer_mac = 6"
  shows "\<exists>act ctx' act' ctx''.
     far_entry_point H local_ip arp redir [0 \<mapsto> far] ctx = Some (act, ctx') \<and>
     detect (pkt_data ctx') =
       Inr \<lparr>key_teid = ohc_teid ohc, key_source_value = INTERFACE_VALUE_ACCESS,
            key_ipv4_address = local_ip\<rparr> \<and>
     far_entry_point H peer_ip peer_arp peer_redir [0 \<mapsto> peer_far] ctx' = Some (act', ctx'') \<and>
     pkt_data ctx'' = peer_mac @ drop 6 (pkt_data ctx)"
proof -
  let ?buf = "pkt_data ctx"
  obtain ctx' act where enc: "far_entry_point H local_ip arp redir [0 \<mapsto> far] ctx = Some (act, ctx')"
    and e: "pkt_data ctx' = encapsulated H local_ip far mac ?buf"
    using pfcp_far_apply_encap [where arp = arp and H = H and far = far and ctx = ctx and mac = mac
        and redir = redir and dc = UPLINK and da = DOWNLINK and local_ip = local_ip] assms
    by (auto simp: far_entry_point_def)
  have "get_u32 66 (pkt_data ctx') = get_u32 30 ?buf"
    using assms e by (simp add: get_u32_def encapsulated_field)
  then obtain ctx'' act' where dec:
    "far_entry_point H peer_ip peer_arp peer_redir [0 \<mapsto> peer_far] ctx' = Some (act', ctx'')"
    "pkt_data ctx'' = decapsulated peer_mac (pkt_data ctx')"
    using pfcp_far_apply_decap [where arp = peer_arp and H = H and far = peer_far and ctx = ctx'
        and mac = peer_mac and redir = peer_redir and dc = UPLINK and da = DOWNLINK
        and local_ip = peer_ip] assms e
    by (auto simp: far_entry_point_def encapsulated_parts(7))
  have "decapsulated peer_mac (pkt_data ctx') = peer_mac @ drop 6 ?buf"
    using assms e encapsulated_parts(2,6) [of mac ?buf H local_ip far] get_bytes_join [of 6 8 ?buf]
    by (simp add: decapsulated_def)
  then show ?thesis
    using enc dec e detect_encapsulated [of mac ?buf far] assms by (auto simp: ohc_def)
qed

theorem encapsulate_detect_decapsulate_witness:
  "\<exists>act ctx' act' ctx''.
     far_entry_point ref_helpers LOCAL_IP [0x0103010A \<mapsto> [2, 0, 0, 0, 0, 8]] [0 \<mapsto> 6]
       [0 \<mapsto> sample_far_access] sample_downlink = Some (act, ctx') \<and>
     detect (pkt_data ctx') =
       Inr \<lparr>key_teid = 100, key_source_value = INTERFACE_VALUE_ACCESS, key_ipv4_address = LOCAL_IP\<rparr> \<and>
     far_entry_point ref_helpers 5 [0x1B03010A \<mapsto> [2, 0, 0, 0, 0, 9]] [1 \<mapsto> 7]
       [0 \<mapsto> sample_far_core] ctx' = Some (act', ctx'') \<and>
     pkt_data ctx'' = [2, 0, 0, 0, 0, 9, 2, 0, 0, 0, 0, 2, 8, 0] @ sample_inner"
proof -
  have "get_u32 30 (pkt_data sample_downlink) = 0x1B03010A"
    "swap16 (get_u16 12 (pkt_data sample_downlink)) = ETH_P_IP"
    "drop_bit 4 (get_u8 14 (pkt_data sample_downlink)) = 4"
    "drop 6 (pkt_data sample_downlink) = [2, 0, 0, 0, 0, 2, 8, 0] @ sample_inner"
    "fwp_outer_header_creation (far_forwarding_parameters sample_far_access)
       = \<lparr>ohc_description = OUTER_HEADER_CREATION_GTPU_UDP_IPV4, ohc_teid = 100,
          ohc_ipv4_address = 0x0103010A, ohc_port_number = GTP_UDP_PORT\<rparr>"
    by code_simp+
  then show ?thesis
    using encapsulate_detect_decapsulate [of ref_helpers sample_far_access sample_downlink
        "[0x0103010A \<mapsto> [2, 0, 0, 0, 0, 8]]" "[2, 0, 0, 0, 0, 8]" sample_far_core
        "[0x1B03010A \<mapsto> [2, 0, 0, 0, 0, 9]]" "[2, 0, 0, 0, 0, 9]" LOCAL_IP "[0 \<mapsto> 6]" 5 "[1 \<mapsto> 7]"]
    by (simp add: ref_adjust_head_grows ref_adjust_head_shrinks)
qed

text \<open>
  C17: The length fields of the frame that is sent.  When the inner total length leaves room for
  the 36 bytes of the tunnel headers in 16 bits, the outer total length is the inner one plus
  36, the UDP length plus 16 and the GTP-U length the inner total length itself.
\<close>

theorem encapsulated_length_fields:
  fixes far :: pfcp_far_t
  defines "ohc \<equiv> fwp_outer_header_creation (far_forwarding_parameters far)"
  assumes "adjust_head_grows H" and "forwards_to_access far"
    and "36 \<le> length (pkt_room ctx)" and "34 \<le> length (pkt_data ctx)"
    and "arp (ohc_ipv4_address ohc) = Some mac" and "length mac = 6"
    and "unat (swap16 (get_u16 16 (pkt_data ctx))) = inner" and "inner + 36 < 65536"
  shows "\<exists>act ctx'. far_entry_point H local_ip arp redir [0 \<mapsto> far] ctx = Some (act, ctx') \<and>
           length (pkt_data ctx') = length (pkt_data ctx) + 36 \<and>
           unat (swap16 (get_u16 16 (pkt_data ctx'))) = inner + 36 \<and>
           unat (swap16 (get_u16 38 (pkt_data ctx'))) = inner + 16 \<and>
           unat (swap16 (get_u16 44 (pkt_data ctx'))) = inner"
proof -
  let ?t = "get_u16 16 (pkt_data ctx)"
  obtain act ctx' where a: "far_entry_point H local_ip arp redir [0 \<mapsto> far] ctx = Some (act, ctx')"
    and e: "pkt_data ctx' = encapsulated H local_ip far mac (pkt_data ctx)"
    using pfcp_far_apply_encap [where arp = arp and H = H and far = far and ctx = ctx and mac = mac
        and redir = redir and dc = UPLINK and da = DOWNLINK and local_ip = local_ip] assms
    by (auto simp: far_entry_point_def)
  have "get_u16 16 (pkt_data ctx') = swap16 (swap16 ?t + 36)"
    "get_u16 38 (pkt_data ctx') = swap16 (swap16 ?t + 16)" "get_u16 44 (pkt_data ctx') = ?t"
    using assms e outer_ip_checked_fields outer_udp_header_fields outer_gtpu_header_fields
    by (simp_all add: get_u16_def encapsulated_field)
  then show ?thesis
    using assms a e by (simp add: encapsulated_parts(7) unat_word_ariths)
qed

theorem encapsulated_length_fields_witness:
  "\<exists>act ctx'. far_entry_point ref_helpers LOCAL_IP [0x0103010A \<mapsto> [2, 0, 0, 0, 0, 8]] [0 \<mapsto> 6]
       [0 \<mapsto> sample_far_access] sample_downlink = Some (act, ctx') \<and>
     length (pkt_data ctx') = 78 \<and> unat (swap16 (get_u16 16 (pkt_data ctx'))) = 64 \<and>
     unat (swap16 (get_u16 38 (pkt_data ctx'))) = 44 \<and>
     unat (swap16 (get_u16 44 (pkt_data ctx'))) = 28"
proof -
  have "unat (swap16 (get_u16 16 (pkt_data sample_downlink))) = 28"
    "ohc_ipv4_address (fwp_outer_header_creation (far_forwarding_parameters sample_far_access))
       = 0x0103010A"
    by code_simp+
  then show ?thesis
    using encapsulated_length_fields [of ref_helpers sample_far_access sample_downlink
        "[0x0103010A \<mapsto> [2, 0, 0, 0, 0, 8]]" "[2, 0, 0, 0, 0, 8]" 28 LOCAL_IP "[0 \<mapsto> 6]"]
    by (simp add: ref_adjust_head_grows)
qed

text \<open>
  The verdict of the header creation is lost.  When the tunnel peer has no ARP entry,
  \<^verbatim>\<open>create_outer_header_gtpu_ipv4\<close> answers \<^verbatim>\<open>XDP_DROP\<close>, yet the program still redirects the
  frame to the downlink interface.
\<close>

lemma far_entry_point_ignores_drop:
  assumes "redirect_map_ok H" and "m_far 0 = Some far" and "forwards_to_access far"
    and "14 \<le> length (pkt_data ctx)"
    and "arp (ohc_ipv4_address (fwp_outer_header_creation (far_forwarding_parameters far))) = None"
    and "redir (flow_id DOWNLINK) = Some ifindex"
  shows "fst (the (create_outer_header_gtpu_ipv4 H local_ip arp ctx far)) = Some XDP_DROP \<and>
         fst (the (far_entry_point H local_ip arp redir m_far ctx)) = XDP_REDIRECT"
  using pfcp_far_apply_no_arp [where arp = arp and far = far and H = H and ctx = ctx
      and redir = redir and dc = UPLINK and da = DOWNLINK and local_ip = local_ip] assms
  by (simp add: far_entry_point_def redirect_map_ok_def)

lemma far_entry_point_ignores_drop_witness:
  "fst (the (create_outer_header_gtpu_ipv4 ref_helpers LOCAL_IP Map.empty sample_downlink
               sample_far_access)) = Some XDP_DROP \<and>
   fst (the (far_entry_point ref_helpers LOCAL_IP Map.empty [0 \<mapsto> 6] [0 \<mapsto> sample_far_access]
               sample_downlink)) = XDP_REDIRECT"
  using far_entry_point_ignores_drop [of ref_helpers "[0 \<mapsto> sample_far_access]" sample_far_access
      sample_downlink Map.empty "[0 \<mapsto> 6]" 6 LOCAL_IP]
  by (simp add: ref_redirect_map_ok)

text \<open>
  A FAR that does not ask to forward, whatever its other actions (drop, buffer, notify,
  duplicate), passes the frame to the kernel's network stack unchanged; the program reads no
  action bit but \<^verbatim>\<open>forw\<close>.  A program without a FAR drops the frame.
\<close>

lemma far_entry_point_not_forwarding:
  assumes "14 \<le> length (pkt_data ctx)"
  shows "far_entry_point H local_ip arp redir m_far ctx =
           (case m_far 0 of
              None \<Rightarrow> Some (XDP_DROP, ctx)
            | Some far \<Rightarrow>
                (if aa_forw (far_apply_action far)
                 then far_entry_point H local_ip arp redir [0 \<mapsto> far] ctx
                 else Some (XDP_PASS, ctx)))"
  using assms by (simp add: far_entry_point_def pfcp_far_apply_def Let_def split: option.splits)

lemma far_entry_point_not_forwarding_witness:
  "far_entry_point ref_helpers LOCAL_IP Map.empty [0 \<mapsto> 6]
     [0 \<mapsto> sample_far_access\<lparr>far_apply_action := apply_action_of_mem (flag 7 True)\<rparr>]
     sample_downlink = Some (XDP_PASS, sample_downlink)"
  using far_entry_point_not_forwarding [of sample_downlink ref_helpers LOCAL_IP Map.empty "[0 \<mapsto> 6]"
      "[0 \<mapsto> sample_far_access\<lparr>far_apply_action := apply_action_of_mem (flag 7 True)\<rparr>]"]
  by (simp add: apply_action_of_mem_def)

end
