(* ===== verification/Session_Program_Bpf.thy ===== *)
theory Session_Program_Bpf
  imports Far_Program_Bpf
begin

text \<open>
  The session program \<^verbatim>\<open>src/bpf/session_bpf.c\<close>: the PDR lookup of both flow directions in front
  of a copy of the forwarding action.  The copy differs from \<^verbatim>\<open>far_bpf.c\<close> only in that the
  redirect uses the direction of the flow; the two helpers it shares with \<^verbatim>\<open>far_bpf.c\<close> are
  textually the same and are not repeated.

  A map value holds a single PDR.  The source matches \<^verbatim>\<open>p_pdr[i]\<close> with a local variable \<^verbatim>\<open>i\<close> that
  is never assigned; its value is the parameter \<open>i\<close> of the lookups, and an index other than 0 is
  outside the map value (\<open>None\<close>).
\<close>

section \<open>Definitions\<close>

definition session_pfcp_far_apply ::
    "bpf_helpers \<Rightarrow> u32 \<Rightarrow> (u32 \<rightharpoonup> bytes) \<Rightarrow> (u32 \<rightharpoonup> u32) \<Rightarrow>
     xdp_md \<Rightarrow> pfcp_far_t option \<Rightarrow> FlowDirection \<Rightarrow> (u32 \<times> xdp_md) option" where
  "session_pfcp_far_apply H local_ip m_arp_table m_redirect_interfaces ctx p_far direction =
     pfcp_far_apply H local_ip m_arp_table m_redirect_interfaces ctx p_far direction direction"

text \<open>The result is 0 when the PDR matches (or when there is no IP header), 1 otherwise.\<close>

definition pfcp_pdr_match_pdi_access :: "pfcp_pdr_t \<Rightarrow> nat option \<Rightarrow> u32 \<Rightarrow> u32" where
  "pfcp_pdr_match_pdi_access pdr p_iph teid =
     (case p_iph of
        None \<Rightarrow> 0
      | Some iph \<Rightarrow>
          if pdr_outer_header_removal pdr \<noteq> OUTER_HEADER_REMOVAL_GTPU_UDP_IPV4
             \<or> pdi_source_interface (pdr_pdi pdr) \<noteq> INTERFACE_VALUE_ACCESS
             \<or> pdi_fteid_teid (pdr_pdi pdr) \<noteq> teid
          then 1 else 0)"

definition pfcp_pdr_match_pdi_downlink :: "pfcp_pdr_t \<Rightarrow> nat option \<Rightarrow> bytes \<Rightarrow> u32 option" where
  "pfcp_pdr_match_pdi_downlink pdr p_iph buf =
     (case p_iph of
        None \<Rightarrow> Some 0
      | Some iph \<Rightarrow> do {
          daddr \<leftarrow> peek32 (iph + 16) buf;
          Some (if pdr_outer_header_removal pdr \<noteq> OUTER_HEADER_REMOVAL_UDP_IPV4
                   \<or> pdi_source_interface (pdr_pdi pdr) \<noteq> INTERFACE_VALUE_CORE
                   \<or> pdi_ue_ipv4_address (pdr_pdi pdr) \<noteq> daddr
                then 1 else 0)
        })"

definition map_value_at :: "'v \<Rightarrow> u32 \<Rightarrow> 'v option" where
  "map_value_at v i = (if i = 0 then Some v else None)"

record session_maps =
  m_fars :: "u32 \<rightharpoonup> pfcp_far_t"
  m_session_redirect_interfaces :: "u32 \<rightharpoonup> u32"
  m_teid_pdr :: "u32 \<rightharpoonup> pfcp_pdr_t"
  m_ueip_pdr :: "u32 \<rightharpoonup> pfcp_pdr_t"
  m_session_arp_table :: "u32 \<rightharpoonup> bytes"

definition pfcp_pdr_lookup_uplink ::
    "bpf_helpers \<Rightarrow> u32 \<Rightarrow> session_maps \<Rightarrow> u32 \<Rightarrow> xdp_md \<Rightarrow> (u32 \<times> xdp_md) option" where
  "pfcp_pdr_lookup_uplink H local_ip M i ctx =
     (if ETH_SIZE + IPH_SIZE + UDPH_SIZE + GTPUH_SIZE > length (pkt_data ctx)
      then Some (XDP_PASS, ctx)
      else do {
        let gtpuh = ETH_SIZE + IPH_SIZE + UDPH_SIZE;
        let iph = gtpuh + GTPUH_SIZE;
        raw \<leftarrow> peek32 (gtpuh + 4) (pkt_data ctx);
        let teid = swap32 raw;
        case m_teid_pdr M teid of
          None \<Rightarrow> Some (XDP_DROP, ctx)
        | Some pdr \<Rightarrow> do {
            pdr_i \<leftarrow> map_value_at pdr i;
            if pfcp_pdr_match_pdi_access pdr_i (Some iph) teid = 0 then
              session_pfcp_far_apply H local_ip (m_session_arp_table M)
                (m_session_redirect_interfaces M) ctx (m_fars M (pdr_far_id pdr)) UPLINK
            else Some (XDP_PASS, ctx)
          }
      })"

definition pfcp_pdr_lookup_downlink ::
    "bpf_helpers \<Rightarrow> u32 \<Rightarrow> session_maps \<Rightarrow> u32 \<Rightarrow> xdp_md \<Rightarrow> (u32 \<times> xdp_md) option" where
  "pfcp_pdr_lookup_downlink H local_ip M i ctx =
     (if ETH_SIZE + IPH_SIZE + UDPH_SIZE > length (pkt_data ctx) then Some (XDP_PASS, ctx)
      else do {
        let iph = ETH_SIZE;
        dest_ip \<leftarrow> peek32 (iph + 16) (pkt_data ctx);
        case m_ueip_pdr M dest_ip of
          None \<Rightarrow> Some (XDP_DROP, ctx)
        | Some pdr \<Rightarrow> do {
            pdr_i \<leftarrow> map_value_at pdr i;
            match \<leftarrow> pfcp_pdr_match_pdi_downlink pdr_i (Some iph) (pkt_data ctx);
            if match = 0 then
              session_pfcp_far_apply H local_ip (m_session_arp_table M)
                (m_session_redirect_interfaces M) ctx (m_fars M (pdr_far_id pdr)) DOWNLINK
            else Some (XDP_PASS, ctx)
          }
      })"

definition uplink_entry_point ::
    "bpf_helpers \<Rightarrow> u32 \<Rightarrow> session_maps \<Rightarrow> u32 \<Rightarrow> (u32 \<rightharpoonup> datarec) \<Rightarrow> xdp_md \<Rightarrow>
     (u32 \<times> (u32 \<rightharpoonup> datarec) \<times> xdp_md) option" where
  "uplink_entry_point H local_ip M i mc_stats ctx = do {
     (action, ctx') \<leftarrow> pfcp_pdr_lookup_uplink H local_ip M i ctx;
     let (r, mc_stats') = xdp_stats_record_action mc_stats ctx' action;
     Some (r, mc_stats', ctx')
   }"

definition downlink_entry_point ::
    "bpf_helpers \<Rightarrow> u32 \<Rightarrow> session_maps \<Rightarrow> u32 \<Rightarrow> (u32 \<rightharpoonup> datarec) \<Rightarrow> xdp_md \<Rightarrow>
     (u32 \<times> (u32 \<rightharpoonup> datarec) \<times> xdp_md) option" where
  "downlink_entry_point H local_ip M i mc_stats ctx = do {
     (action, ctx') \<leftarrow> pfcp_pdr_lookup_downlink H local_ip M i ctx;
     let (r, mc_stats') = xdp_stats_record_action mc_stats ctx' action;
     Some (r, mc_stats', ctx')
   }"

section \<open>Lookups\<close>

text \<open>When the PDR of a session accepts a flow, spelled out.\<close>

definition accepts_uplink :: "pfcp_pdr_t \<Rightarrow> u32 \<Rightarrow> bool" where
  "accepts_uplink pdr teid \<longleftrightarrow>
     pdr_outer_header_removal pdr = OUTER_HEADER_REMOVAL_GTPU_UDP_IPV4 \<and>
     pdi_source_interface (pdr_pdi pdr) = INTERFACE_VALUE_ACCESS \<and>
     pdi_fteid_teid (pdr_pdi pdr) = teid"

definition accepts_downlink :: "pfcp_pdr_t \<Rightarrow> u32 \<Rightarrow> bool" where
  "accepts_downlink pdr ip \<longleftrightarrow>
     pdr_outer_header_removal pdr = OUTER_HEADER_REMOVAL_UDP_IPV4 \<and>
     pdi_source_interface (pdr_pdi pdr) = INTERFACE_VALUE_CORE \<and>
     pdi_ue_ipv4_address (pdr_pdi pdr) = ip"

lemma match_access_iff: "pfcp_pdr_match_pdi_access pdr (Some iph) teid = 0 \<longleftrightarrow> accepts_uplink pdr teid"
  by (simp add: pfcp_pdr_match_pdi_access_def accepts_uplink_def)

lemma match_downlink_eq:
  "iph + 20 \<le> length buf \<Longrightarrow> pfcp_pdr_match_pdi_downlink pdr (Some iph) buf =
     Some (if accepts_downlink pdr (get_u32 (iph + 16) buf) then 0 else 1)"
  by (simp add: pfcp_pdr_match_pdi_downlink_def accepts_downlink_def)

lemma lookup_uplink_index0:
  assumes "50 \<le> length (pkt_data ctx)"
  shows "pfcp_pdr_lookup_uplink H local_ip M 0 ctx =
    (let teid = swap32 (get_u32 46 (pkt_data ctx)) in
     case m_teid_pdr M teid of
       None \<Rightarrow> Some (XDP_DROP, ctx)
     | Some pdr \<Rightarrow>
         if accepts_uplink pdr teid
         then pfcp_far_apply H local_ip (m_session_arp_table M) (m_session_redirect_interfaces M)
                ctx (m_fars M (pdr_far_id pdr)) UPLINK UPLINK
         else Some (XDP_PASS, ctx))"
  using assms by (simp add: pfcp_pdr_lookup_uplink_def Let_def map_value_at_def match_access_iff
      session_pfcp_far_apply_def split: option.splits)

lemma lookup_downlink_index0:
  assumes "42 \<le> length (pkt_data ctx)"
  shows "pfcp_pdr_lookup_downlink H local_ip M 0 ctx =
    (let ip = get_u32 30 (pkt_data ctx) in
     case m_ueip_pdr M ip of
       None \<Rightarrow> Some (XDP_DROP, ctx)
     | Some pdr \<Rightarrow>
         if accepts_downlink pdr ip
         then pfcp_far_apply H local_ip (m_session_arp_table M) (m_session_redirect_interfaces M)
                ctx (m_fars M (pdr_far_id pdr)) DOWNLINK DOWNLINK
         else Some (XDP_PASS, ctx))"
  using assms by (simp add: pfcp_pdr_lookup_downlink_def Let_def map_value_at_def match_downlink_eq
      session_pfcp_far_apply_def split: option.splits)

section \<open>Properties\<close>


definition sample_pdr :: pfcp_pdr_t where
  "sample_pdr =
     \<lparr>pdr_rule_id = 1, pdr_precedence = 0,
      pdr_pdi = \<lparr>pdi_source_interface = INTERFACE_VALUE_ACCESS, pdi_fteid_teid = 0x64000000,
                 pdi_ue_ipv4_address = 0\<rparr>,
      pdr_outer_header_removal = OUTER_HEADER_REMOVAL_GTPU_UDP_IPV4, pdr_far_id = 9\<rparr>"

definition sample_session_maps :: session_maps where
  "sample_session_maps =
     \<lparr>m_fars = [9 \<mapsto> sample_far_core], m_session_redirect_interfaces = [1 \<mapsto> 7],
      m_teid_pdr = [0x64000000 \<mapsto> sample_pdr], m_ueip_pdr = Map.empty,
      m_session_arp_table = [0x1B03010A \<mapsto> [2, 0, 0, 0, 0, 9]]\<rparr>"






end
