(* ===== verification/Upf_Programs.thy ===== *)
theory Upf_Programs
  imports Bpf_Map Session_Program_Bpf
begin

text \<open>
  The objects that own a loaded BPF program: \<^verbatim>\<open>FARProgram\<close>, \<^verbatim>\<open>UPFProgram\<close> and \<^verbatim>\<open>SessionProgram\<close>
  (\<^verbatim>\<open>src/programs\<close>).  The skeleton bpftool generates for each program is a record of the names of
  its maps, the descriptors of its entry points and the maps themselves; it lives inside the
  life cycle of the object.  An object is identified with its life cycle, the number that
  \<^verbatim>\<open>BPFProgram\<close> gives a FAR program is handled by its creator.

  Reading a member of a skeleton that could not be opened is a null dereference in the source;
  here it is the error \<open>null_skeleton\<close>.
\<close>

section \<open>Maps inside a skeleton\<close>

definition null_skeleton :: string where
  "null_skeleton = ''null skeleton''"

definition with_map ::
    "('s \<Rightarrow> ('k, 'v) bpf_map) \<Rightarrow> (('k, 'v) bpf_map \<Rightarrow> 's \<Rightarrow> 's) \<Rightarrow> (('k, 'v) bpf_map, 'a) op \<Rightarrow>
     ('s life_cycle, unit) op" where
  "with_map g p f lc =
     (case lc_skeleton lc of
        None \<Rightarrow> (Inl null_skeleton, lc)
      | Some sk \<Rightarrow>
          (let (r, m) = f (g sk); lc' = lc\<lparr>lc_skeleton := Some (p m sk)\<rparr>
           in (case r of Inl e \<Rightarrow> (Inl e, lc') | Inr _ \<Rightarrow> (Inr (), lc'))))"

fun require_maps :: "string list \<Rightarrow> string list \<Rightarrow> string + unit" where
  "require_maps names [] = Inr ()"
| "require_maps names (n # ns) =
     (case BPFMaps_getMap names n of Inl e \<Rightarrow> Inl e | Inr _ \<Rightarrow> require_maps names ns)"

definition initialize_maps :: "('s \<Rightarrow> string list) \<Rightarrow> string list \<Rightarrow> ('s life_cycle, unit) op" where
  "initialize_maps names req lc =
     (case lc_skeleton lc of
        None \<Rightarrow> (Inl null_skeleton, lc)
      | Some sk \<Rightarrow> (require_maps (names sk) req, lc))"

section \<open>\<^verbatim>\<open>FARProgram\<close>\<close>

record far_skeleton =
  fsk_names :: "string list"
  fsk_fd :: int
  fsk_m_far :: "(u8, pfcp_far_t) bpf_map"
  fsk_m_arp_table :: "(u32, bytes) bpf_map"
  fsk_m_redirect_interfaces :: "(u32, u32) bpf_map"

definition FARProgram_initializeMaps :: "(far_skeleton life_cycle, unit) op" where
  "FARProgram_initializeMaps =
     initialize_maps fsk_names [''m_far'', ''m_arp_table'', ''m_redirect_interfaces'']"

definition FARProgram_redirect_update ::
    "(u32, u32) map_sys \<Rightarrow> u32 \<Rightarrow> u32 \<Rightarrow> (far_skeleton life_cycle, unit) op" where
  "FARProgram_redirect_update S key value =
     with_map fsk_m_redirect_interfaces (\<lambda>m sk. sk\<lparr>fsk_m_redirect_interfaces := m\<rparr>)
       (BPFMap_update S key value BPF_ANY)"

definition FARProgram_setup ::
    "far_skeleton lc_env \<Rightarrow> (u32, u32) map_sys \<Rightarrow> string \<Rightarrow> string \<Rightarrow>
     (far_skeleton life_cycle, unit) op" where
  "FARProgram_setup E S udpInterface gtpInterface =
     sbind (lc_open E) (\<lambda>_.
     seq FARProgram_initializeMaps (
     seq (lc_load E) (
     seq (lc_attach E) (
     seq (FARProgram_redirect_update S (flow_id UPLINK) (env_if_nametoindex E udpInterface))
         (FARProgram_redirect_update S (flow_id DOWNLINK) (env_if_nametoindex E gtpInterface))))))"

definition FARProgram_tearDown :: "far_skeleton lc_env \<Rightarrow> (far_skeleton life_cycle, unit) op" where
  "FARProgram_tearDown E = lc_tearDown E"

definition FARProgram_getFd :: "far_skeleton life_cycle \<Rightarrow> int option" where
  "FARProgram_getFd lc = map_option fsk_fd (lc_getBPFSkeleton lc)"

definition FARProgram_far_update ::
    "(u8, pfcp_far_t) map_sys \<Rightarrow> u8 \<Rightarrow> pfcp_far_t \<Rightarrow> (far_skeleton life_cycle, unit) op" where
  "FARProgram_far_update S key value =
     with_map fsk_m_far (\<lambda>m sk. sk\<lparr>fsk_m_far := m\<rparr>) (BPFMap_update S key value BPF_ANY)"

section \<open>\<^verbatim>\<open>UPFProgram\<close>\<close>

record upf_skeleton =
  usk_names :: "string list"
  usk_m_teid_session :: "(u32, int) bpf_map"
  usk_m_ueip_session :: "(u32, int) bpf_map"
  usk_m_next_rule_prog :: "(u32, int) bpf_map"
  usk_m_next_rule_prog_index :: "(next_rule_prog_index_key, u32) bpf_map"

definition UPFProgram_initializeMaps :: "(upf_skeleton life_cycle, unit) op" where
  "UPFProgram_initializeMaps =
     initialize_maps usk_names
       [''m_teid_session'', ''m_ueip_session'', ''m_next_rule_prog'', ''m_next_rule_prog_index'']"

definition UPFProgram_setup ::
    "upf_skeleton lc_env \<Rightarrow> string \<Rightarrow> string \<Rightarrow> (upf_skeleton life_cycle, unit) op" where
  "UPFProgram_setup E mGTPInterface mUDPInterface =
     sbind (lc_open E) (\<lambda>_.
     seq UPFProgram_initializeMaps (
     seq (lc_load E) (
     seq (lc_attach E) (
     if mUDPInterface = [] \<or> mGTPInterface = []
     then throw ''GTP or UDP interface not defined!''
     else seq (lc_link E ''xdp_entry_point'' mUDPInterface)
              (lc_link E ''xdp_entry_point'' mGTPInterface)))))"

definition UPFProgram_tearDown :: "upf_skeleton lc_env \<Rightarrow> (upf_skeleton life_cycle, unit) op" where
  "UPFProgram_tearDown E = lc_tearDown E"

definition UPFProgram_updateProgramMap ::
    "(u32, int) map_sys \<Rightarrow> u32 \<Rightarrow> int \<Rightarrow> (upf_skeleton life_cycle, unit) op" where
  "UPFProgram_updateProgramMap S key fd =
     with_map usk_m_teid_session (\<lambda>m sk. sk\<lparr>usk_m_teid_session := m\<rparr>)
       (BPFMap_update S key fd BPF_ANY)"

definition UPFProgram_removeProgramMap ::
    "(u32, int) map_sys \<Rightarrow> u32 \<Rightarrow> (upf_skeleton life_cycle, unit) op" where
  "UPFProgram_removeProgramMap S key =
     with_map usk_m_teid_session (\<lambda>m sk. sk\<lparr>usk_m_teid_session := m\<rparr>)
       (\<lambda>m. if fst (BPFMap_lookup S key 0 m) = 0 then BPFMap_remove S key m else (Inr 0, m))"

definition UPFProgram_prog_update ::
    "(u32, int) map_sys \<Rightarrow> u32 \<Rightarrow> int \<Rightarrow> (upf_skeleton life_cycle, unit) op" where
  "UPFProgram_prog_update S key fd =
     with_map usk_m_next_rule_prog (\<lambda>m sk. sk\<lparr>usk_m_next_rule_prog := m\<rparr>)
       (BPFMap_update S key fd BPF_ANY)"

definition UPFProgram_index_update ::
    "(next_rule_prog_index_key, u32) map_sys \<Rightarrow> next_rule_prog_index_key \<Rightarrow> u32 \<Rightarrow>
     (upf_skeleton life_cycle, unit) op" where
  "UPFProgram_index_update S key i =
     with_map usk_m_next_rule_prog_index (\<lambda>m sk. sk\<lparr>usk_m_next_rule_prog_index := m\<rparr>)
       (BPFMap_update S key i BPF_ANY)"

definition UPFProgram_index_remove ::
    "(next_rule_prog_index_key, u32) map_sys \<Rightarrow> next_rule_prog_index_key \<Rightarrow>
     (upf_skeleton life_cycle, unit) op" where
  "UPFProgram_index_remove S key =
     with_map usk_m_next_rule_prog_index (\<lambda>m sk. sk\<lparr>usk_m_next_rule_prog_index := m\<rparr>)
       (BPFMap_remove S key)"

section \<open>\<^verbatim>\<open>SessionProgram\<close>\<close>

record session_skeleton =
  ssk_names :: "string list"
  ssk_uplink_fd :: int
  ssk_downlink_fd :: int
  ssk_m_redirect_interfaces :: "(u32, u32) bpf_map"

definition SessionProgram_initializeMaps :: "(session_skeleton life_cycle, unit) op" where
  "SessionProgram_initializeMaps =
     initialize_maps ssk_names
       [''m_fars'', ''m_teid_pdr'', ''m_ueip_pdr'', ''mc_stats'', ''m_redirect_interfaces'',
        ''m_arp_table'']"

definition SessionProgram_setup :: "session_skeleton lc_env \<Rightarrow> (session_skeleton life_cycle, unit) op" where
  "SessionProgram_setup E =
     sbind (lc_open E) (\<lambda>_. seq SessionProgram_initializeMaps (seq (lc_load E) (lc_attach E)))"

definition SessionProgram_tearDown :: "session_skeleton lc_env \<Rightarrow> (session_skeleton life_cycle, unit) op" where
  "SessionProgram_tearDown E = lc_tearDown E"

definition SessionProgram_getUplinkFileDescriptor :: "session_skeleton life_cycle \<Rightarrow> int option" where
  "SessionProgram_getUplinkFileDescriptor lc = map_option ssk_uplink_fd (lc_getBPFSkeleton lc)"

definition SessionProgram_getDownlinkFileDescriptor :: "session_skeleton life_cycle \<Rightarrow> int option" where
  "SessionProgram_getDownlinkFileDescriptor lc = map_option ssk_downlink_fd (lc_getBPFSkeleton lc)"

definition SessionProgram_redirect_update ::
    "(u32, u32) map_sys \<Rightarrow> u32 \<Rightarrow> u32 \<Rightarrow> (session_skeleton life_cycle, unit) op" where
  "SessionProgram_redirect_update S key value =
     with_map ssk_m_redirect_interfaces (\<lambda>m sk. sk\<lparr>ssk_m_redirect_interfaces := m\<rparr>)
       (BPFMap_update S key value BPF_ANY)"

section \<open>Lemmas\<close>

lemma with_map_ok:
  "lc_skeleton lc = Some sk \<Longrightarrow> f (g sk) = (Inr r, m) \<Longrightarrow>
     with_map g p f lc = (Inr (), lc\<lparr>lc_skeleton := Some (p m sk)\<rparr>)"
  by (simp add: with_map_def)

lemma with_map_error:
  "lc_skeleton lc = Some sk \<Longrightarrow> f (g sk) = (Inl e, m) \<Longrightarrow>
     with_map g p f lc = (Inl e, lc\<lparr>lc_skeleton := Some (p m sk)\<rparr>)"
  by (simp add: with_map_def)

lemma with_map_frame:
  "with_map g p f lc = (r, lc') \<Longrightarrow>
     lc_state lc' = lc_state lc \<and> lc_links lc' = lc_links lc \<and> lc_events lc' = lc_events lc"
  by (auto simp: with_map_def Let_def split: option.splits prod.splits sum.splits)

lemma require_maps_ok: "set req \<subseteq> set names \<Longrightarrow> require_maps names req = Inr ()"
proof (induction req)
  case (Cons n ns)
  then have "names \<noteq> []" and "n \<in> set names"
    by auto
  then obtain j where "BPFMaps_getMap names n = Inr j"
    using getMap_loop_missing [of names n 0] by (cases "getMap_loop names n 0") (auto simp: BPFMaps_getMap_def)
  with Cons show ?case by simp
qed simp

text \<open>The environment of a FAR program that opens, loads and attaches without an error.\<close>

definition far_env_ok :: "far_skeleton lc_env \<Rightarrow> far_skeleton \<Rightarrow> bool" where
  "far_env_ok E sk \<longleftrightarrow>
     env_setrlimit E = 0 \<and> env_open E = Some sk \<and> env_load E (Some sk) = (0, Some sk) \<and>
     env_attach E (Some sk) = (0, Some sk) \<and>
     {''m_far'', ''m_arp_table'', ''m_redirect_interfaces''} \<subseteq> set (fsk_names sk) \<and>
     bm_elems (fsk_m_far sk) = Map.empty \<and> bm_max_entries (fsk_m_far sk) = 1 \<and>
     2 \<le> bm_max_entries (fsk_m_redirect_interfaces sk)"

definition far_ready :: "far_skeleton lc_env \<Rightarrow> far_skeleton \<Rightarrow> string \<Rightarrow> string \<Rightarrow> far_skeleton" where
  "far_ready E sk udpI gtpI =
     sk\<lparr>fsk_m_redirect_interfaces := (fsk_m_redirect_interfaces sk)
         \<lparr>bm_elems := (bm_elems (fsk_m_redirect_interfaces sk))
            (1 \<mapsto> env_if_nametoindex E udpI, 0 \<mapsto> env_if_nametoindex E gtpI)\<rparr>\<rparr>"

lemma redirect_update_ok:
  assumes S: "map_sys_ok array_accepts S" and sk: "lc_skeleton lc = Some sk"
    and k: "unat k < bm_max_entries (fsk_m_redirect_interfaces sk)"
  shows "FARProgram_redirect_update S k v lc =
    (Inr (), lc\<lparr>lc_skeleton := Some (sk\<lparr>fsk_m_redirect_interfaces := (fsk_m_redirect_interfaces sk)
       \<lparr>bm_elems := (bm_elems (fsk_m_redirect_interfaces sk))(k \<mapsto> v)\<rparr>\<rparr>)\<rparr>)"
  unfolding FARProgram_redirect_update_def
  by (rule with_map_ok [OF sk], rule map_store.update_ok [OF wrapper_is_store [OF S]])
    (simp add: array_accepts_def k)

lemma FARProgram_setup_ok:
  assumes ok: "far_env_ok E sk" and S: "map_sys_ok array_accepts S"
  shows "\<exists>lc'. FARProgram_setup E S udpI gtpI lc = (Inr (), lc') \<and>
           lc_skeleton lc' = Some (far_ready E sk udpI gtpI) \<and> lc_state lc' = ATTACHED"
proof -
  let ?o = "lc\<lparr>lc_skeleton := Some sk, lc_state := OPENED\<rparr>"
  let ?a = "?o\<lparr>lc_state := ATTACHED\<rparr>"
  have "lc_open E lc = (Inr (Some sk), ?o)"
    using ok by (simp add: far_env_ok_def lc_open_def Let_def)
  moreover have "FARProgram_initializeMaps ?o = (Inr (), ?o)"
    using ok require_maps_ok [of "[''m_far'', ''m_arp_table'', ''m_redirect_interfaces'']" "fsk_names sk"]
    by (simp add: FARProgram_initializeMaps_def initialize_maps_def far_env_ok_def)
  moreover have "lc_load E ?o = (Inr (), ?o\<lparr>lc_state := LOADED\<rparr>)"
    "lc_attach E (?o\<lparr>lc_state := LOADED\<rparr>) = (Inr (), ?a)"
    using ok by (simp_all add: far_env_ok_def lc_load_def lc_attach_def)
  moreover have "2 \<le> bm_max_entries (fsk_m_redirect_interfaces sk)"
    using ok by (simp add: far_env_ok_def)
  ultimately show ?thesis
    using redirect_update_ok [OF S, where lc = ?a]
      redirect_update_ok [OF S, where k = 0 and v = "env_if_nametoindex E gtpI"]
    by (simp add: FARProgram_setup_def far_ready_def)
qed

end
