(* ===== verification/Pfcp_Types.thy ===== *)
theory Pfcp_Types
  imports Bpf_Types
begin

text \<open>
  The core types of the PFCP information elements, \<^verbatim>\<open>src/oai/common/3gpp_29.244.h\<close>.  A structure
  with one member is the type of that member; the others are records with the members of the
  source in its order, a bit field of one bit as \<^typ>\<open>bool\<close>, wider ones as words of their width.
  Each record comes with the value its zero initialisation yields.  \<^verbatim>\<open>apply_action_t\<close> has the
  layout of the type of the BPF programs and is not repeated.
\<close>

type_synonym in6_addr = "128 word"

type_synonym user_plane_inactivity_timer_t = "u32"
type_synonym cause_t = "u8"
type_synonym source_interface_t = "u8"
type_synonym network_instance_t = "string"
type_synonym application_id_t = "string"
type_synonym qer_correlation_id_t = "u32"
type_synonym precedence_t = "u32"
type_synonym transport_level_marking_t = "string"
type_synonym time_threshold_t = "u32"
type_synonym monitoring_time_t = "u32"
type_synonym subsequent_time_threshold_t = "u32"
type_synonym inactivity_detection_time_t = "u32"
type_synonym offending_ie_t = "u16"
type_synonym destination_interface_t = "u8"
type_synonym pdr_id_t = "u16"
type_synonym urr_id_t = "u32"
type_synonym bar_id_t = "u8"
type_synonym outer_header_removal_t = "u8"
type_synonym recovery_time_stamp_t = "u32"
type_synonym activate_predefined_rules_t = "string"
type_synonym deactivate_predefined_rules_t = "string"
type_synonym far_id_t = "u32"
type_synonym qer_id_t = "u32"
type_synonym traffic_endpoint_id_t = "u8"
type_synonym ethertype_t = "u16"
type_synonym ethernet_filter_id_t = "u32"
type_synonym framed_route_t = "string"
type_synonym framed_routing_t = "u32"
type_synonym framed_ipv6_route_t = "string"

record fteid_t =
  fteid_chid :: "bool"
  fteid_ch :: "bool"
  fteid_v4 :: "bool"
  fteid_v6 :: "bool"
  fteid_teid :: "u32"
  fteid_ipv4_address :: "u32"
  fteid_ipv6_address :: "in6_addr"
  fteid_choose_id :: "u8"

definition fteid0 :: fteid_t where
  "fteid0 = \<lparr>fteid_chid = False,
     fteid_ch = False,
     fteid_v4 = False,
     fteid_v6 = False,
     fteid_teid = 0,
     fteid_ipv4_address = 0,
     fteid_ipv6_address = 0,
     fteid_choose_id = 0\<rparr>"

record sdf_filter_t =
  sdf_spare :: "3 word"
  sdf_bid :: "bool"
  sdf_fl :: "bool"
  sdf_spi :: "bool"
  sdf_ttc :: "bool"
  sdf_fd :: "bool"
  sdf_length_of_flow_description :: "u16"
  sdf_flow_description :: "string"
  sdf_tos_traffic_class :: "string"
  sdf_security_parameter_index :: "string"
  sdf_flow_label :: "string"
  sdf_sdf_filter_id :: "u32"

definition sdf_filter0 :: sdf_filter_t where
  "sdf_filter0 = \<lparr>sdf_spare = 0,
     sdf_bid = False,
     sdf_fl = False,
     sdf_spi = False,
     sdf_ttc = False,
     sdf_fd = False,
     sdf_length_of_flow_description = 0,
     sdf_flow_description = [],
     sdf_tos_traffic_class = [],
     sdf_security_parameter_index = [],
     sdf_flow_label = [],
     sdf_sdf_filter_id = 0\<rparr>"

record gate_status_t =
  gate_ul_gate :: "2 word"
  gate_dl_gate :: "2 word"

definition gate_status0 :: gate_status_t where
  "gate_status0 = \<lparr>gate_ul_gate = 0,
     gate_dl_gate = 0\<rparr>"

record mbr_t =
  mbr_ul_mbr :: "u64"
  mbr_dl_mbr :: "u64"

definition mbr0 :: mbr_t where
  "mbr0 = \<lparr>mbr_ul_mbr = 0,
     mbr_dl_mbr = 0\<rparr>"

record gbr_t =
  gbr_ul_gbr :: "u64"
  gbr_dl_gbr :: "u64"

definition gbr0 :: gbr_t where
  "gbr0 = \<lparr>gbr_ul_gbr = 0,
     gbr_dl_gbr = 0\<rparr>"

record volume_threshold_t =
  vth_tovol :: "bool"
  vth_ulvol :: "bool"
  vth_dlvol :: "bool"
  vth_spare :: "5 word"
  vth_total_volume :: "u64"
  vth_uplink_volume :: "u64"
  vth_downlink_volume :: "u64"

definition volume_threshold0 :: volume_threshold_t where
  "volume_threshold0 = \<lparr>vth_tovol = False,
     vth_ulvol = False,
     vth_dlvol = False,
     vth_spare = 0,
     vth_total_volume = 0,
     vth_uplink_volume = 0,
     vth_downlink_volume = 0\<rparr>"

record redirect_information_t =
  redir_redirect_address_type :: "4 word"
  redir_spare :: "4 word"
  redir_redirect_server_address_length :: "u16"

definition redirect_information0 :: redirect_information_t where
  "redirect_information0 = \<lparr>redir_redirect_address_type = 0,
     redir_spare = 0,
     redir_redirect_server_address_length = 0\<rparr>"

record report_type_t =
  rept_upir :: "bool"
  rept_erir :: "bool"
  rept_usar :: "bool"
  rept_dldr :: "bool"
  rept_spare :: "4 word"

definition report_type0 :: report_type_t where
  "report_type0 = \<lparr>rept_upir = False,
     rept_erir = False,
     rept_usar = False,
     rept_dldr = False,
     rept_spare = 0\<rparr>"

record forwarding_policy_t =
  fpol_forwarding_policy_identifier_length :: "u8"
  fpol_forwarding_policy_identifier :: "string"

definition forwarding_policy0 :: forwarding_policy_t where
  "forwarding_policy0 = \<lparr>fpol_forwarding_policy_identifier_length = 0,
     fpol_forwarding_policy_identifier = []\<rparr>"

record pfcpsmreq_flags_t =
  smreq_spare :: "5 word"
  smreq_qaurr :: "bool"
  smreq_sndem :: "bool"
  smreq_drobu :: "bool"

definition pfcpsmreq_flags0 :: pfcpsmreq_flags_t where
  "pfcpsmreq_flags0 = \<lparr>smreq_spare = 0,
     smreq_qaurr = False,
     smreq_sndem = False,
     smreq_drobu = False\<rparr>"

record fseid_t =
  fseid_spare :: "6 word"
  fseid_v4 :: "bool"
  fseid_v6 :: "bool"
  fseid_seid :: "u64"
  fseid_ipv4_address :: "u32"
  fseid_ipv6_address :: "in6_addr"

definition fseid0 :: fseid_t where
  "fseid0 = \<lparr>fseid_spare = 0,
     fseid_v4 = False,
     fseid_v6 = False,
     fseid_seid = 0,
     fseid_ipv4_address = 0,
     fseid_ipv6_address = 0\<rparr>"

record node_id_t =
  node_id_spare :: "4 word"
  node_id_node_id_type :: "4 word"
  node_id_ipv4_address :: "u32"
  node_id_ipv6_address :: "in6_addr"
  node_id_fqdn :: "string"

definition node_id0 :: node_id_t where
  "node_id0 = \<lparr>node_id_spare = 0,
     node_id_node_id_type = 0,
     node_id_ipv4_address = 0,
     node_id_ipv6_address = 0,
     node_id_fqdn = []\<rparr>"

record core_outer_header_creation_t =
  ohcr_outer_header_creation_description :: "u16"
  ohcr_teid :: "u32"
  ohcr_ipv4_address :: "u32"
  ohcr_ipv6_address :: "in6_addr"
  ohcr_port_number :: "u16"

definition core_outer_header_creation0 :: core_outer_header_creation_t where
  "core_outer_header_creation0 = \<lparr>ohcr_outer_header_creation_description = 0,
     ohcr_teid = 0,
     ohcr_ipv4_address = 0,
     ohcr_ipv6_address = 0,
     ohcr_port_number = 0\<rparr>"

record cp_function_features_t =
  cpff_spare :: "6 word"
  cpff_ovrl :: "bool"
  cpff_load :: "bool"

definition cp_function_features0 :: cp_function_features_t where
  "cp_function_features0 = \<lparr>cpff_spare = 0,
     cpff_ovrl = False,
     cpff_load = False\<rparr>"

record ue_ip_address_t =
  ueip_ipv6d :: "bool"
  ueip_sd :: "bool"
  ueip_v4 :: "bool"
  ueip_v6 :: "bool"
  ueip_ipv4_address :: "u32"
  ueip_ipv6_address :: "in6_addr"
  ueip_ipv6_prefix_delegation_bits :: "u8"

definition ue_ip_address0 :: ue_ip_address_t where
  "ue_ip_address0 = \<lparr>ueip_ipv6d = False,
     ueip_sd = False,
     ueip_v4 = False,
     ueip_v6 = False,
     ueip_ipv4_address = 0,
     ueip_ipv6_address = 0,
     ueip_ipv6_prefix_delegation_bits = 0\<rparr>"

record header_enrichment_t =
  hdre_spare :: "3 word"
  hdre_header_type :: "5 word"
  hdre_lenght_of_header_field_name :: "u8"
  hdre_header_field_name :: "string"
  hdre_lenght_of_header_field_value :: "u8"
  hdre_header_field_value :: "string"

definition header_enrichment0 :: header_enrichment_t where
  "header_enrichment0 = \<lparr>hdre_spare = 0,
     hdre_header_type = 0,
     hdre_lenght_of_header_field_name = 0,
     hdre_header_field_name = [],
     hdre_lenght_of_header_field_value = 0,
     hdre_header_field_value = []\<rparr>"

record node_report_type_t =
  nrt_spare :: "7 word"
  nrt_upfr :: "bool"

definition node_report_type0 :: node_report_type_t where
  "node_report_type0 = \<lparr>nrt_spare = 0,
     nrt_upfr = False\<rparr>"

record qfi_t =
  qfi_spare :: "2 word"
  qfi_qfi :: "6 word"

definition qfi0 :: qfi_t where
  "qfi0 = \<lparr>qfi_spare = 0,
     qfi_qfi = 0\<rparr>"

record mac_address_t =
  maca_spare :: "4 word"
  maca_udes :: "bool"
  maca_usou :: "bool"
  maca_dest :: "u8"
  maca_sour :: "u8"
  maca_source_mac_address :: "bytes"
  maca_destination_mac_address :: "bytes"
  maca_upper_source_mac_address :: "bytes"
  maca_upper_destination_mac_address :: "bytes"

definition mac_address0 :: mac_address_t where
  "mac_address0 = \<lparr>maca_spare = 0,
     maca_udes = False,
     maca_usou = False,
     maca_dest = 0,
     maca_sour = 0,
     maca_source_mac_address = replicate 6 0,
     maca_destination_mac_address = replicate 6 0,
     maca_upper_source_mac_address = replicate 6 0,
     maca_upper_destination_mac_address = replicate 6 0\<rparr>"

record c_tag_t =
  c_tag_spare :: "bool"
  c_tag_vid :: "bool"
  c_tag_dei :: "bool"
  c_tag_pcp :: "bool"
  c_tag_dei_flag :: "bool"
  c_tag_pcp_value :: "3 word"
  c_tag_cvid_value :: "u16"

definition c_tag0 :: c_tag_t where
  "c_tag0 = \<lparr>c_tag_spare = False,
     c_tag_vid = False,
     c_tag_dei = False,
     c_tag_pcp = False,
     c_tag_dei_flag = False,
     c_tag_pcp_value = 0,
     c_tag_cvid_value = 0\<rparr>"

record s_tag_t =
  s_tag_spare :: "bool"
  s_tag_vid :: "bool"
  s_tag_dei :: "bool"
  s_tag_pcp :: "bool"
  s_tag_dei_flag :: "bool"
  s_tag_pcp_value :: "3 word"
  s_tag_svid_value :: "u16"

definition s_tag0 :: s_tag_t where
  "s_tag0 = \<lparr>s_tag_spare = False,
     s_tag_vid = False,
     s_tag_dei = False,
     s_tag_pcp = False,
     s_tag_dei_flag = False,
     s_tag_pcp_value = 0,
     s_tag_svid_value = 0\<rparr>"

record proxying_t =
  prox_spare :: "6 word"
  prox_ins :: "bool"
  prox_arp :: "bool"

definition proxying0 :: proxying_t where
  "proxying0 = \<lparr>prox_spare = 0,
     prox_ins = False,
     prox_arp = False\<rparr>"

record ethernet_filter_properties_t =
  ethfp_spare :: "7 word"
  ethfp_bide :: "bool"

definition ethernet_filter_properties0 :: ethernet_filter_properties_t where
  "ethernet_filter_properties0 = \<lparr>ethfp_spare = 0,
     ethfp_bide = False\<rparr>"

record subsequent_volume_threshold_t =
  svth_tovol :: "bool"
  svth_ulvol :: "bool"
  svth_dlvol :: "bool"
  svth_spare :: "5 word"
  svth_total_volume :: "u64"
  svth_uplink_volume :: "u64"
  svth_downlink_volume :: "u64"

definition subsequent_volume_threshold0 :: subsequent_volume_threshold_t where
  "subsequent_volume_threshold0 = \<lparr>svth_tovol = False,
     svth_ulvol = False,
     svth_dlvol = False,
     svth_spare = 0,
     svth_total_volume = 0,
     svth_uplink_volume = 0,
     svth_downlink_volume = 0\<rparr>"

record reporting_triggers_t =
  rtrig_liusa :: "bool"
  rtrig_droth :: "bool"
  rtrig_stop :: "bool"
  rtrig_start :: "bool"
  rtrig_quhti :: "bool"
  rtrig_timth :: "bool"
  rtrig_volth :: "bool"
  rtrig_perio :: "bool"
  rtrig_spare1 :: "bool"
  rtrig_spare2 :: "bool"
  rtrig_spare3 :: "bool"
  rtrig_eveth :: "bool"
  rtrig_macar :: "bool"
  rtrig_envcl :: "bool"
  rtrig_timqu :: "bool"
  rtrig_volqu :: "bool"

definition reporting_triggers0 :: reporting_triggers_t where
  "reporting_triggers0 = \<lparr>rtrig_liusa = False,
     rtrig_droth = False,
     rtrig_stop = False,
     rtrig_start = False,
     rtrig_quhti = False,
     rtrig_timth = False,
     rtrig_volth = False,
     rtrig_perio = False,
     rtrig_spare1 = False,
     rtrig_spare2 = False,
     rtrig_spare3 = False,
     rtrig_eveth = False,
     rtrig_macar = False,
     rtrig_envcl = False,
     rtrig_timqu = False,
     rtrig_volqu = False\<rparr>"

record up_function_features_t =
  upff_bucp :: "bool"
  upff_ddnd :: "bool"
  upff_dlbd :: "bool"
  upff_trst :: "bool"
  upff_ftup :: "bool"
  upff_pfdm :: "bool"
  upff_heeu :: "bool"
  upff_treu :: "bool"
  upff_empu :: "bool"
  upff_pdiu :: "bool"
  upff_udbc :: "bool"
  upff_quoac :: "bool"
  upff_trace :: "bool"
  upff_frrt :: "bool"
  upff_spare :: "2 word"

definition up_function_features0 :: up_function_features_t where
  "up_function_features0 = \<lparr>upff_bucp = False,
     upff_ddnd = False,
     upff_dlbd = False,
     upff_trst = False,
     upff_ftup = False,
     upff_pfdm = False,
     upff_heeu = False,
     upff_treu = False,
     upff_empu = False,
     upff_pdiu = False,
     upff_udbc = False,
     upff_quoac = False,
     upff_trace = False,
     upff_frrt = False,
     upff_spare = 0\<rparr>"

record failed_rule_id_t =
  frule_spare :: "3 word"
  frule_rule_id_type :: "5 word"
  frule_rule_id_value :: "u32"

definition failed_rule_id0 :: failed_rule_id_t where
  "failed_rule_id0 = \<lparr>frule_spare = 0,
     frule_rule_id_type = 0,
     frule_rule_id_value = 0\<rparr>"

record user_plane_ip_resource_information_t =
  upip_spare :: "bool"
  upip_assosi :: "bool"
  upip_assoni :: "bool"
  upip_teidri :: "3 word"
  upip_v6 :: "bool"
  upip_v4 :: "bool"
  upip_teid_range :: "u8"
  upip_ipv4_address :: "u32"
  upip_ipv6_address :: "in6_addr"
  upip_network_instance :: "u16"
  upip_source_interface :: "u8"

definition user_plane_ip_resource_information0 :: user_plane_ip_resource_information_t where
  "user_plane_ip_resource_information0 = \<lparr>upip_spare = False,
     upip_assosi = False,
     upip_assoni = False,
     upip_teidri = 0,
     upip_v6 = False,
     upip_v4 = False,
     upip_teid_range = 0,
     upip_ipv4_address = 0,
     upip_ipv6_address = 0,
     upip_network_instance = 0,
     upip_source_interface = 0\<rparr>"

definition apply_action0 :: apply_action_t where
  "apply_action0 = apply_action_of_mem 0"

section \<open>Ordering of F-SEIDs\<close>

text \<open>
  \<^verbatim>\<open>fseid_s::operator<\<close>: \<open>fseid_lt this i\<close> is \<^verbatim>\<open>*this < i\<close>.  \<open>s6_half\<close> is the 64 bit number the
  source builds from two of the four 32 bit words of an IPv6 address.
\<close>

definition s6_addr32 :: "in6_addr \<Rightarrow> nat \<Rightarrow> u32" where
  "s6_addr32 a j = le_word (get_bytes (4 * j) 4 (le_bytes 16 a))"

definition s6_half :: "in6_addr \<Rightarrow> nat \<Rightarrow> u64" where
  "s6_half a j = (push_bit 32 (ucast (s6_addr32 a j)) OR ucast (s6_addr32 a (j + 1)))"

definition fseid_lt :: "fseid_t \<Rightarrow> fseid_t \<Rightarrow> bool" where
  "fseid_lt this i =
     (if fseid_seid i < fseid_seid this then True
      else if fseid_seid i > fseid_seid this then False
      else if fseid_v4 i = fseid_v4 this \<and> fseid_ipv4_address i > fseid_ipv4_address this then True
      else if fseid_v4 i = fseid_v4 this \<and> fseid_ipv4_address i < fseid_ipv4_address this then False
      else if fseid_v4 i \<noteq> fseid_v4 this \<and> fseid_v4 this then True
      else if fseid_v6 i = fseid_v6 this then
        (let a = fseid_ipv6_address i; b = fseid_ipv6_address this in
         if s6_half a 0 < s6_half b 0 then True
         else if s6_half a 0 > s6_half b 0 then False
         else if s6_half a 2 < s6_half b 2 then True
         else False)
      else fseid_v6 this)"

end
