(* ===== verification/Pfcp_Containers.thy ===== *)
theory Pfcp_Containers
  imports Pfcp_Types
begin

text \<open>
  The rule containers of \<^verbatim>\<open>src/oai/pfcp/msg_pfcp.hpp\<close>: the grouped elements of session
  establishment and modification as the session handling sees them.  An optional member is a
  pair of a presence flag and a value, as in the source (\<^verbatim>\<open>std::pair<bool, T>\<close>); \<^verbatim>\<open>set\<close> stores a
  value and raises the flag, \<^verbatim>\<open>get\<close> answers the flag and overwrites its argument only when the
  flag is set.  The overloads of \<^verbatim>\<open>set\<close> and \<^verbatim>\<open>get\<close> are told apart by the name of the member.

  The contract of an optional member is the locale \<open>optional_member\<close>; every member that the
  session handling reads through \<^verbatim>\<open>get\<close> is an instance.
\<close>

section \<open>Optional members\<close>

type_synonym 'a optm = "bool \<times> 'a"

definition opt_get :: "'a optm \<Rightarrow> 'a \<Rightarrow> bool \<times> 'a" where
  "opt_get m v = (if fst m then (True, snd m) else (False, v))"

lemma opt_get_present [simp]: "opt_get (True, x) v = (True, x)"
  by (simp add: opt_get_def)

lemma opt_get_absent [simp]: "opt_get (False, x) v = (False, v)"
  by (simp add: opt_get_def)

locale optional_member =
  fixes set_member :: "'v \<Rightarrow> 'c \<Rightarrow> 'c"
    and get_member :: "'c \<Rightarrow> 'v \<Rightarrow> bool \<times> 'v"
    and fresh :: 'c
  assumes get_set: "get_member (set_member v c) w = (True, v)"
    and set_set: "set_member v (set_member w c) = set_member v c"
    and get_fresh: "get_member fresh w = (False, w)"
    and get_cases: "get_member c w = (False, w) \<or> (\<exists>v. \<forall>u. get_member c u = (True, v))"
begin

text \<open>What a successful \<^verbatim>\<open>get\<close> returns does not depend on the variable it overwrites.\<close>

lemma get_stable: "fst (get_member c w) \<Longrightarrow> get_member c u = get_member c w"
  using get_cases [of c w] by auto

lemma last_set_wins: "get_member (set_member v (set_member w c)) u = (True, v)"
  by (simp add: get_set)

lemma fresh_not_set: "fresh \<noteq> set_member v c"
proof
  assume "fresh = set_member v c"
  then show False using get_set [of v c v] get_fresh [of v] by simp
qed

end

section \<open>Containers\<close>

subsection \<open>\<^verbatim>\<open>ethernet_packet_filter\<close>\<close>

record ethernet_packet_filter =
  epf_ethernet_filter_id :: "u32 optm"
  epf_ethernet_filter_properties :: "ethernet_filter_properties_t optm"
  epf_mac_address :: "mac_address_t optm"
  epf_ethertype :: "u16 optm"
  epf_c_tag :: "c_tag_t optm"
  epf_s_tag :: "s_tag_t optm"
  epf_sdf_filter :: "sdf_filter_t optm"

definition new_ethernet_packet_filter :: ethernet_packet_filter where
  "new_ethernet_packet_filter = \<lparr>epf_ethernet_filter_id = (False, 0),
     epf_ethernet_filter_properties = (False, ethernet_filter_properties0),
     epf_mac_address = (False, mac_address0),
     epf_ethertype = (False, 0),
     epf_c_tag = (False, c_tag0),
     epf_s_tag = (False, s_tag0),
     epf_sdf_filter = (False, sdf_filter0)\<rparr>"

definition copy_ethernet_packet_filter :: "ethernet_packet_filter \<Rightarrow> ethernet_packet_filter" where
  "copy_ethernet_packet_filter e = \<lparr>epf_ethernet_filter_id = epf_ethernet_filter_id e, epf_ethernet_filter_properties = epf_ethernet_filter_properties e, epf_mac_address = epf_mac_address e, epf_ethertype = epf_ethertype e, epf_c_tag = epf_c_tag e, epf_s_tag = epf_s_tag e, epf_sdf_filter = epf_sdf_filter e\<rparr>"

definition ethernet_packet_filter_set_ethernet_filter_id :: "u32 \<Rightarrow> ethernet_packet_filter \<Rightarrow> ethernet_packet_filter" where
  "ethernet_packet_filter_set_ethernet_filter_id v c = c\<lparr>epf_ethernet_filter_id := (True, v)\<rparr>"

definition ethernet_packet_filter_get_ethernet_filter_id :: "ethernet_packet_filter \<Rightarrow> u32 \<Rightarrow> bool \<times> u32" where
  "ethernet_packet_filter_get_ethernet_filter_id c v = opt_get (epf_ethernet_filter_id c) v"

definition ethernet_packet_filter_set_ethernet_filter_properties :: "ethernet_filter_properties_t \<Rightarrow> ethernet_packet_filter \<Rightarrow> ethernet_packet_filter" where
  "ethernet_packet_filter_set_ethernet_filter_properties v c = c\<lparr>epf_ethernet_filter_properties := (True, v)\<rparr>"

definition ethernet_packet_filter_get_ethernet_filter_properties :: "ethernet_packet_filter \<Rightarrow> ethernet_filter_properties_t \<Rightarrow> bool \<times> ethernet_filter_properties_t" where
  "ethernet_packet_filter_get_ethernet_filter_properties c v = opt_get (epf_ethernet_filter_properties c) v"

definition ethernet_packet_filter_set_mac_address :: "mac_address_t \<Rightarrow> ethernet_packet_filter \<Rightarrow> ethernet_packet_filter" where
  "ethernet_packet_filter_set_mac_address v c = c\<lparr>epf_mac_address := (True, v)\<rparr>"

definition ethernet_packet_filter_get_mac_address :: "ethernet_packet_filter \<Rightarrow> mac_address_t \<Rightarrow> bool \<times> mac_address_t" where
  "ethernet_packet_filter_get_mac_address c v = opt_get (epf_mac_address c) v"

definition ethernet_packet_filter_set_ethertype :: "u16 \<Rightarrow> ethernet_packet_filter \<Rightarrow> ethernet_packet_filter" where
  "ethernet_packet_filter_set_ethertype v c = c\<lparr>epf_ethertype := (True, v)\<rparr>"

definition ethernet_packet_filter_get_ethertype :: "ethernet_packet_filter \<Rightarrow> u16 \<Rightarrow> bool \<times> u16" where
  "ethernet_packet_filter_get_ethertype c v = opt_get (epf_ethertype c) v"

definition ethernet_packet_filter_set_c_tag :: "c_tag_t \<Rightarrow> ethernet_packet_filter \<Rightarrow> ethernet_packet_filter" where
  "ethernet_packet_filter_set_c_tag v c = c\<lparr>epf_c_tag := (True, v)\<rparr>"

definition ethernet_packet_filter_get_c_tag :: "ethernet_packet_filter \<Rightarrow> c_tag_t \<Rightarrow> bool \<times> c_tag_t" where
  "ethernet_packet_filter_get_c_tag c v = opt_get (epf_c_tag c) v"

definition ethernet_packet_filter_set_s_tag :: "s_tag_t \<Rightarrow> ethernet_packet_filter \<Rightarrow> ethernet_packet_filter" where
  "ethernet_packet_filter_set_s_tag v c = c\<lparr>epf_s_tag := (True, v)\<rparr>"

definition ethernet_packet_filter_get_s_tag :: "ethernet_packet_filter \<Rightarrow> s_tag_t \<Rightarrow> bool \<times> s_tag_t" where
  "ethernet_packet_filter_get_s_tag c v = opt_get (epf_s_tag c) v"

definition ethernet_packet_filter_set_sdf_filter :: "sdf_filter_t \<Rightarrow> ethernet_packet_filter \<Rightarrow> ethernet_packet_filter" where
  "ethernet_packet_filter_set_sdf_filter v c = c\<lparr>epf_sdf_filter := (True, v)\<rparr>"

definition ethernet_packet_filter_get_sdf_filter :: "ethernet_packet_filter \<Rightarrow> sdf_filter_t \<Rightarrow> bool \<times> sdf_filter_t" where
  "ethernet_packet_filter_get_sdf_filter c v = opt_get (epf_sdf_filter c) v"

subsection \<open>\<^verbatim>\<open>pdi\<close>\<close>

record pdi =
  pd_source_interface :: "u8 optm"
  pd_local_fteid :: "fteid_t optm"
  pd_network_instance :: "string optm"
  pd_ue_ip_address :: "ue_ip_address_t optm"
  pd_traffic_endpoint_id :: "u8 optm"
  pd_sdf_filter :: "sdf_filter_t optm"
  pd_application_id :: "string optm"
  pd_ethernet_packet_filter :: "ethernet_packet_filter optm"
  pd_qfi :: "qfi_t optm"
  pd_framed_route :: "string optm"
  pd_framed_routing :: "u32 optm"
  pd_framed_ipv6_route :: "string optm"

definition new_pdi :: pdi where
  "new_pdi = \<lparr>pd_source_interface = (False, 0),
     pd_local_fteid = (False, fteid0),
     pd_network_instance = (False, []),
     pd_ue_ip_address = (False, ue_ip_address0),
     pd_traffic_endpoint_id = (False, 0),
     pd_sdf_filter = (False, sdf_filter0),
     pd_application_id = (False, []),
     pd_ethernet_packet_filter = (False, new_ethernet_packet_filter),
     pd_qfi = (False, qfi0),
     pd_framed_route = (False, []),
     pd_framed_routing = (False, 0),
     pd_framed_ipv6_route = (False, [])\<rparr>"

definition copy_pdi :: "pdi \<Rightarrow> pdi" where
  "copy_pdi p = \<lparr>pd_source_interface = pd_source_interface p, pd_local_fteid = pd_local_fteid p, pd_network_instance = pd_network_instance p, pd_ue_ip_address = pd_ue_ip_address p, pd_traffic_endpoint_id = pd_traffic_endpoint_id p, pd_sdf_filter = pd_sdf_filter p, pd_application_id = pd_application_id p, pd_ethernet_packet_filter = pd_ethernet_packet_filter p, pd_qfi = pd_qfi p, pd_framed_route = pd_framed_route p, pd_framed_routing = pd_framed_routing p, pd_framed_ipv6_route = pd_framed_ipv6_route p\<rparr>"

definition pdi_set_source_interface :: "u8 \<Rightarrow> pdi \<Rightarrow> pdi" where
  "pdi_set_source_interface v c = c\<lparr>pd_source_interface := (True, v)\<rparr>"

definition pdi_get_source_interface :: "pdi \<Rightarrow> u8 \<Rightarrow> bool \<times> u8" where
  "pdi_get_source_interface c v = opt_get (pd_source_interface c) v"

definition pdi_set_local_fteid :: "fteid_t \<Rightarrow> pdi \<Rightarrow> pdi" where
  "pdi_set_local_fteid v c = c\<lparr>pd_local_fteid := (True, v)\<rparr>"

definition pdi_get_local_fteid :: "pdi \<Rightarrow> fteid_t \<Rightarrow> bool \<times> fteid_t" where
  "pdi_get_local_fteid c v = opt_get (pd_local_fteid c) v"

definition pdi_set_network_instance :: "string \<Rightarrow> pdi \<Rightarrow> pdi" where
  "pdi_set_network_instance v c = c\<lparr>pd_network_instance := (True, v)\<rparr>"

definition pdi_get_network_instance :: "pdi \<Rightarrow> string \<Rightarrow> bool \<times> string" where
  "pdi_get_network_instance c v = opt_get (pd_network_instance c) v"

definition pdi_set_ue_ip_address :: "ue_ip_address_t \<Rightarrow> pdi \<Rightarrow> pdi" where
  "pdi_set_ue_ip_address v c = c\<lparr>pd_ue_ip_address := (True, v)\<rparr>"

definition pdi_get_ue_ip_address :: "pdi \<Rightarrow> ue_ip_address_t \<Rightarrow> bool \<times> ue_ip_address_t" where
  "pdi_get_ue_ip_address c v = opt_get (pd_ue_ip_address c) v"

definition pdi_set_traffic_endpoint_id :: "u8 \<Rightarrow> pdi \<Rightarrow> pdi" where
  "pdi_set_traffic_endpoint_id v c = c\<lparr>pd_traffic_endpoint_id := (True, v)\<rparr>"

definition pdi_get_traffic_endpoint_id :: "pdi \<Rightarrow> u8 \<Rightarrow> bool \<times> u8" where
  "pdi_get_traffic_endpoint_id c v = opt_get (pd_traffic_endpoint_id c) v"

definition pdi_set_sdf_filter :: "sdf_filter_t \<Rightarrow> pdi \<Rightarrow> pdi" where
  "pdi_set_sdf_filter v c = c\<lparr>pd_sdf_filter := (True, v)\<rparr>"

definition pdi_get_sdf_filter :: "pdi \<Rightarrow> sdf_filter_t \<Rightarrow> bool \<times> sdf_filter_t" where
  "pdi_get_sdf_filter c v = opt_get (pd_sdf_filter c) v"

definition pdi_set_application_id :: "string \<Rightarrow> pdi \<Rightarrow> pdi" where
  "pdi_set_application_id v c = c\<lparr>pd_application_id := (True, v)\<rparr>"

definition pdi_get_application_id :: "pdi \<Rightarrow> string \<Rightarrow> bool \<times> string" where
  "pdi_get_application_id c v = opt_get (pd_application_id c) v"

definition pdi_set_ethernet_packet_filter :: "ethernet_packet_filter \<Rightarrow> pdi \<Rightarrow> pdi" where
  "pdi_set_ethernet_packet_filter v c = c\<lparr>pd_ethernet_packet_filter := (True, v)\<rparr>"

definition pdi_get_ethernet_packet_filter :: "pdi \<Rightarrow> ethernet_packet_filter \<Rightarrow> bool \<times> ethernet_packet_filter" where
  "pdi_get_ethernet_packet_filter c v = opt_get (pd_ethernet_packet_filter c) v"

definition pdi_set_qfi :: "qfi_t \<Rightarrow> pdi \<Rightarrow> pdi" where
  "pdi_set_qfi v c = c\<lparr>pd_qfi := (True, v)\<rparr>"

definition pdi_get_qfi :: "pdi \<Rightarrow> qfi_t \<Rightarrow> bool \<times> qfi_t" where
  "pdi_get_qfi c v = opt_get (pd_qfi c) v"

definition pdi_set_framed_route :: "string \<Rightarrow> pdi \<Rightarrow> pdi" where
  "pdi_set_framed_route v c = c\<lparr>pd_framed_route := (True, v)\<rparr>"

definition pdi_get_framed_route :: "pdi \<Rightarrow> string \<Rightarrow> bool \<times> string" where
  "pdi_get_framed_route c v = opt_get (pd_framed_route c) v"

definition pdi_set_framed_routing :: "u32 \<Rightarrow> pdi \<Rightarrow> pdi" where
  "pdi_set_framed_routing v c = c\<lparr>pd_framed_routing := (True, v)\<rparr>"

definition pdi_get_framed_routing :: "pdi \<Rightarrow> u32 \<Rightarrow> bool \<times> u32" where
  "pdi_get_framed_routing c v = opt_get (pd_framed_routing c) v"

definition pdi_set_framed_ipv6_route :: "string \<Rightarrow> pdi \<Rightarrow> pdi" where
  "pdi_set_framed_ipv6_route v c = c\<lparr>pd_framed_ipv6_route := (True, v)\<rparr>"

definition pdi_get_framed_ipv6_route :: "pdi \<Rightarrow> string \<Rightarrow> bool \<times> string" where
  "pdi_get_framed_ipv6_route c v = opt_get (pd_framed_ipv6_route c) v"

subsection \<open>\<^verbatim>\<open>create_pdr\<close>\<close>

record create_pdr =
  cp_pdr_id :: "u16 optm"
  cp_precedence :: "u32 optm"
  cp_pdi :: "pdi optm"
  cp_outer_header_removal :: "u8 optm"
  cp_far_id :: "u32 optm"
  cp_urr_id :: "u32 optm"
  cp_qer_id :: "u32 optm"
  cp_activate_predefined_rules :: "string optm"

definition new_create_pdr :: create_pdr where
  "new_create_pdr = \<lparr>cp_pdr_id = (False, 0),
     cp_precedence = (False, 0),
     cp_pdi = (False, new_pdi),
     cp_outer_header_removal = (False, 0),
     cp_far_id = (False, 0),
     cp_urr_id = (False, 0),
     cp_qer_id = (False, 0),
     cp_activate_predefined_rules = (False, [])\<rparr>"

definition copy_create_pdr :: "create_pdr \<Rightarrow> create_pdr" where
  "copy_create_pdr c = \<lparr>cp_pdr_id = cp_pdr_id c, cp_precedence = cp_precedence c, cp_pdi = cp_pdi c, cp_outer_header_removal = cp_outer_header_removal c, cp_far_id = cp_far_id c, cp_urr_id = cp_urr_id c, cp_qer_id = cp_qer_id c, cp_activate_predefined_rules = cp_activate_predefined_rules c\<rparr>"

definition create_pdr_set_pdr_id :: "u16 \<Rightarrow> create_pdr \<Rightarrow> create_pdr" where
  "create_pdr_set_pdr_id v c = c\<lparr>cp_pdr_id := (True, v)\<rparr>"

definition create_pdr_get_pdr_id :: "create_pdr \<Rightarrow> u16 \<Rightarrow> bool \<times> u16" where
  "create_pdr_get_pdr_id c v = opt_get (cp_pdr_id c) v"

definition create_pdr_set_precedence :: "u32 \<Rightarrow> create_pdr \<Rightarrow> create_pdr" where
  "create_pdr_set_precedence v c = c\<lparr>cp_precedence := (True, v)\<rparr>"

definition create_pdr_get_precedence :: "create_pdr \<Rightarrow> u32 \<Rightarrow> bool \<times> u32" where
  "create_pdr_get_precedence c v = opt_get (cp_precedence c) v"

definition create_pdr_set_pdi :: "pdi \<Rightarrow> create_pdr \<Rightarrow> create_pdr" where
  "create_pdr_set_pdi v c = c\<lparr>cp_pdi := (True, v)\<rparr>"

definition create_pdr_get_pdi :: "create_pdr \<Rightarrow> pdi \<Rightarrow> bool \<times> pdi" where
  "create_pdr_get_pdi c v = opt_get (cp_pdi c) v"

definition create_pdr_set_outer_header_removal :: "u8 \<Rightarrow> create_pdr \<Rightarrow> create_pdr" where
  "create_pdr_set_outer_header_removal v c = c\<lparr>cp_outer_header_removal := (True, v)\<rparr>"

definition create_pdr_get_outer_header_removal :: "create_pdr \<Rightarrow> u8 \<Rightarrow> bool \<times> u8" where
  "create_pdr_get_outer_header_removal c v = opt_get (cp_outer_header_removal c) v"

definition create_pdr_set_far_id :: "u32 \<Rightarrow> create_pdr \<Rightarrow> create_pdr" where
  "create_pdr_set_far_id v c = c\<lparr>cp_far_id := (True, v)\<rparr>"

definition create_pdr_get_far_id :: "create_pdr \<Rightarrow> u32 \<Rightarrow> bool \<times> u32" where
  "create_pdr_get_far_id c v = opt_get (cp_far_id c) v"

definition create_pdr_set_urr_id :: "u32 \<Rightarrow> create_pdr \<Rightarrow> create_pdr" where
  "create_pdr_set_urr_id v c = c\<lparr>cp_urr_id := (True, v)\<rparr>"

definition create_pdr_get_urr_id :: "create_pdr \<Rightarrow> u32 \<Rightarrow> bool \<times> u32" where
  "create_pdr_get_urr_id c v = opt_get (cp_urr_id c) v"

definition create_pdr_set_qer_id :: "u32 \<Rightarrow> create_pdr \<Rightarrow> create_pdr" where
  "create_pdr_set_qer_id v c = c\<lparr>cp_qer_id := (True, v)\<rparr>"

definition create_pdr_get_qer_id :: "create_pdr \<Rightarrow> u32 \<Rightarrow> bool \<times> u32" where
  "create_pdr_get_qer_id c v = opt_get (cp_qer_id c) v"

definition create_pdr_set_activate_predefined_rules :: "string \<Rightarrow> create_pdr \<Rightarrow> create_pdr" where
  "create_pdr_set_activate_predefined_rules v c = c\<lparr>cp_activate_predefined_rules := (True, v)\<rparr>"

definition create_pdr_get_activate_predefined_rules :: "create_pdr \<Rightarrow> string \<Rightarrow> bool \<times> string" where
  "create_pdr_get_activate_predefined_rules c v = opt_get (cp_activate_predefined_rules c) v"

subsection \<open>\<^verbatim>\<open>update_forwarding_parameters\<close>\<close>

record update_forwarding_parameters =
  ufp_destination_interface :: "u8 optm"
  ufp_network_instance :: "string optm"
  ufp_outer_header_creation :: "core_outer_header_creation_t optm"
  ufp_transport_level_marking :: "string optm"
  ufp_forwarding_policy :: "forwarding_policy_t optm"
  ufp_header_enrichment :: "header_enrichment_t optm"
  ufp_pfcpsmreq_flags :: "pfcpsmreq_flags_t optm"
  ufp_linked_traffic_endpoint_id :: "u8 optm"

definition new_update_forwarding_parameters :: update_forwarding_parameters where
  "new_update_forwarding_parameters = \<lparr>ufp_destination_interface = (False, 0),
     ufp_network_instance = (False, []),
     ufp_outer_header_creation = (False, core_outer_header_creation0),
     ufp_transport_level_marking = (False, []),
     ufp_forwarding_policy = (False, forwarding_policy0),
     ufp_header_enrichment = (False, header_enrichment0),
     ufp_pfcpsmreq_flags = (False, pfcpsmreq_flags0),
     ufp_linked_traffic_endpoint_id = (False, 0)\<rparr>"

definition copy_update_forwarding_parameters :: "update_forwarding_parameters \<Rightarrow> update_forwarding_parameters" where
  "copy_update_forwarding_parameters u = \<lparr>ufp_destination_interface = ufp_destination_interface u, ufp_network_instance = ufp_network_instance u, ufp_outer_header_creation = ufp_outer_header_creation u, ufp_transport_level_marking = ufp_transport_level_marking u, ufp_forwarding_policy = ufp_forwarding_policy u, ufp_header_enrichment = ufp_header_enrichment u, ufp_pfcpsmreq_flags = ufp_pfcpsmreq_flags u, ufp_linked_traffic_endpoint_id = ufp_linked_traffic_endpoint_id u\<rparr>"

definition update_forwarding_parameters_set_destination_interface :: "u8 \<Rightarrow> update_forwarding_parameters \<Rightarrow> update_forwarding_parameters" where
  "update_forwarding_parameters_set_destination_interface v c = c\<lparr>ufp_destination_interface := (True, v)\<rparr>"

definition update_forwarding_parameters_get_destination_interface :: "update_forwarding_parameters \<Rightarrow> u8 \<Rightarrow> bool \<times> u8" where
  "update_forwarding_parameters_get_destination_interface c v = opt_get (ufp_destination_interface c) v"

definition update_forwarding_parameters_set_network_instance :: "string \<Rightarrow> update_forwarding_parameters \<Rightarrow> update_forwarding_parameters" where
  "update_forwarding_parameters_set_network_instance v c = c\<lparr>ufp_network_instance := (True, v)\<rparr>"

definition update_forwarding_parameters_get_network_instance :: "update_forwarding_parameters \<Rightarrow> string \<Rightarrow> bool \<times> string" where
  "update_forwarding_parameters_get_network_instance c v = opt_get (ufp_network_instance c) v"

definition update_forwarding_parameters_set_outer_header_creation :: "core_outer_header_creation_t \<Rightarrow> update_forwarding_parameters \<Rightarrow> update_forwarding_parameters" where
  "update_forwarding_parameters_set_outer_header_creation v c = c\<lparr>ufp_outer_header_creation := (True, v)\<rparr>"

definition update_forwarding_parameters_get_outer_header_creation :: "update_forwarding_parameters \<Rightarrow> core_outer_header_creation_t \<Rightarrow> bool \<times> core_outer_header_creation_t" where
  "update_forwarding_parameters_get_outer_header_creation c v = opt_get (ufp_outer_header_creation c) v"

definition update_forwarding_parameters_set_transport_level_marking :: "string \<Rightarrow> update_forwarding_parameters \<Rightarrow> update_forwarding_parameters" where
  "update_forwarding_parameters_set_transport_level_marking v c = c\<lparr>ufp_transport_level_marking := (True, v)\<rparr>"

definition update_forwarding_parameters_get_transport_level_marking :: "update_forwarding_parameters \<Rightarrow> string \<Rightarrow> bool \<times> string" where
  "update_forwarding_parameters_get_transport_level_marking c v = opt_get (ufp_transport_level_marking c) v"

definition update_forwarding_parameters_set_forwarding_policy :: "forwarding_policy_t \<Rightarrow> update_forwarding_parameters \<Rightarrow> update_forwarding_parameters" where
  "update_forwarding_parameters_set_forwarding_policy v c = c\<lparr>ufp_forwarding_policy := (True, v)\<rparr>"

definition update_forwarding_parameters_get_forwarding_policy :: "update_forwarding_parameters \<Rightarrow> forwarding_policy_t \<Rightarrow> bool \<times> forwarding_policy_t" where
  "update_forwarding_parameters_get_forwarding_policy c v = opt_get (ufp_forwarding_policy c) v"

definition update_forwarding_parameters_set_header_enrichment :: "header_enrichment_t \<Rightarrow> update_forwarding_parameters \<Rightarrow> update_forwarding_parameters" where
  "update_forwarding_parameters_set_header_enrichment v c = c\<lparr>ufp_header_enrichment := (True, v)\<rparr>"

definition update_forwarding_parameters_get_header_enrichment :: "update_forwarding_parameters \<Rightarrow> header_enrichment_t \<Rightarrow> bool \<times> header_enrichment_t" where
  "update_forwarding_parameters_get_header_enrichment c v = opt_get (ufp_header_enrichment c) v"

definition update_forwarding_parameters_set_pfcpsmreq_flags :: "pfcpsmreq_flags_t \<Rightarrow> update_forwarding_parameters \<Rightarrow> update_forwarding_parameters" where
  "update_forwarding_parameters_set_pfcpsmreq_flags v c = c\<lparr>ufp_pfcpsmreq_flags := (True, v)\<rparr>"

definition update_forwarding_parameters_get_pfcpsmreq_flags :: "update_forwarding_parameters \<Rightarrow> pfcpsmreq_flags_t \<Rightarrow> bool \<times> pfcpsmreq_flags_t" where
  "update_forwarding_parameters_get_pfcpsmreq_flags c v = opt_get (ufp_pfcpsmreq_flags c) v"

definition update_forwarding_parameters_set_linked_traffic_endpoint_id :: "u8 \<Rightarrow> update_forwarding_parameters \<Rightarrow> update_forwarding_parameters" where
  "update_forwarding_parameters_set_linked_traffic_endpoint_id v c = c\<lparr>ufp_linked_traffic_endpoint_id := (True, v)\<rparr>"

definition update_forwarding_parameters_get_linked_traffic_endpoint_id :: "update_forwarding_parameters \<Rightarrow> u8 \<Rightarrow> bool \<times> u8" where
  "update_forwarding_parameters_get_linked_traffic_endpoint_id c v = opt_get (ufp_linked_traffic_endpoint_id c) v"

subsection \<open>\<^verbatim>\<open>forwarding_parameters\<close>\<close>

record forwarding_parameters =
  fp_destination_interface :: "u8 optm"
  fp_network_instance :: "string optm"
  fp_redirect_information :: "redirect_information_t optm"
  fp_outer_header_creation :: "core_outer_header_creation_t optm"
  fp_transport_level_marking :: "string optm"
  fp_forwarding_policy :: "forwarding_policy_t optm"
  fp_header_enrichment :: "header_enrichment_t optm"
  fp_linked_traffic_endpoint_id :: "u8 optm"
  fp_proxying :: "proxying_t optm"

definition new_forwarding_parameters :: forwarding_parameters where
  "new_forwarding_parameters = \<lparr>fp_destination_interface = (False, 0),
     fp_network_instance = (False, []),
     fp_redirect_information = (False, redirect_information0),
     fp_outer_header_creation = (False, core_outer_header_creation0),
     fp_transport_level_marking = (False, []),
     fp_forwarding_policy = (False, forwarding_policy0),
     fp_header_enrichment = (False, header_enrichment0),
     fp_linked_traffic_endpoint_id = (False, 0),
     fp_proxying = (False, proxying0)\<rparr>"

definition copy_forwarding_parameters :: "forwarding_parameters \<Rightarrow> forwarding_parameters" where
  "copy_forwarding_parameters f = \<lparr>fp_destination_interface = fp_destination_interface f, fp_network_instance = fp_network_instance f, fp_redirect_information = fp_redirect_information f, fp_outer_header_creation = fp_outer_header_creation f, fp_transport_level_marking = fp_transport_level_marking f, fp_forwarding_policy = fp_forwarding_policy f, fp_header_enrichment = fp_header_enrichment f, fp_linked_traffic_endpoint_id = fp_linked_traffic_endpoint_id f, fp_proxying = fp_proxying f\<rparr>"

definition forwarding_parameters_set_destination_interface :: "u8 \<Rightarrow> forwarding_parameters \<Rightarrow> forwarding_parameters" where
  "forwarding_parameters_set_destination_interface v c = c\<lparr>fp_destination_interface := (True, v)\<rparr>"

definition forwarding_parameters_get_destination_interface :: "forwarding_parameters \<Rightarrow> u8 \<Rightarrow> bool \<times> u8" where
  "forwarding_parameters_get_destination_interface c v = opt_get (fp_destination_interface c) v"

definition forwarding_parameters_set_network_instance :: "string \<Rightarrow> forwarding_parameters \<Rightarrow> forwarding_parameters" where
  "forwarding_parameters_set_network_instance v c = c\<lparr>fp_network_instance := (True, v)\<rparr>"

definition forwarding_parameters_get_network_instance :: "forwarding_parameters \<Rightarrow> string \<Rightarrow> bool \<times> string" where
  "forwarding_parameters_get_network_instance c v = opt_get (fp_network_instance c) v"

definition forwarding_parameters_set_redirect_information :: "redirect_information_t \<Rightarrow> forwarding_parameters \<Rightarrow> forwarding_parameters" where
  "forwarding_parameters_set_redirect_information v c = c\<lparr>fp_redirect_information := (True, v)\<rparr>"

definition forwarding_parameters_get_redirect_information :: "forwarding_parameters \<Rightarrow> redirect_information_t \<Rightarrow> bool \<times> redirect_information_t" where
  "forwarding_parameters_get_redirect_information c v = opt_get (fp_redirect_information c) v"

definition forwarding_parameters_set_outer_header_creation :: "core_outer_header_creation_t \<Rightarrow> forwarding_parameters \<Rightarrow> forwarding_parameters" where
  "forwarding_parameters_set_outer_header_creation v c = c\<lparr>fp_outer_header_creation := (True, v)\<rparr>"

definition forwarding_parameters_get_outer_header_creation :: "forwarding_parameters \<Rightarrow> core_outer_header_creation_t \<Rightarrow> bool \<times> core_outer_header_creation_t" where
  "forwarding_parameters_get_outer_header_creation c v = opt_get (fp_outer_header_creation c) v"

definition forwarding_parameters_set_transport_level_marking :: "string \<Rightarrow> forwarding_parameters \<Rightarrow> forwarding_parameters" where
  "forwarding_parameters_set_transport_level_marking v c = c\<lparr>fp_transport_level_marking := (True, v)\<rparr>"

definition forwarding_parameters_get_transport_level_marking :: "forwarding_parameters \<Rightarrow> string \<Rightarrow> bool \<times> string" where
  "forwarding_parameters_get_transport_level_marking c v = opt_get (fp_transport_level_marking c) v"

definition forwarding_parameters_set_forwarding_policy :: "forwarding_policy_t \<Rightarrow> forwarding_parameters \<Rightarrow> forwarding_parameters" where
  "forwarding_parameters_set_forwarding_policy v c = c\<lparr>fp_forwarding_policy := (True, v)\<rparr>"

definition forwarding_parameters_get_forwarding_policy :: "forwarding_parameters \<Rightarrow> forwarding_policy_t \<Rightarrow> bool \<times> forwarding_policy_t" where
  "forwarding_parameters_get_forwarding_policy c v = opt_get (fp_forwarding_policy c) v"

definition forwarding_parameters_set_header_enrichment :: "header_enrichment_t \<Rightarrow> forwarding_parameters \<Rightarrow> forwarding_parameters" where
  "forwarding_parameters_set_header_enrichment v c = c\<lparr>fp_header_enrichment := (True, v)\<rparr>"

definition forwarding_parameters_get_header_enrichment :: "forwarding_parameters \<Rightarrow> header_enrichment_t \<Rightarrow> bool \<times> header_enrichment_t" where
  "forwarding_parameters_get_header_enrichment c v = opt_get (fp_header_enrichment c) v"

definition forwarding_parameters_set_linked_traffic_endpoint_id :: "u8 \<Rightarrow> forwarding_parameters \<Rightarrow> forwarding_parameters" where
  "forwarding_parameters_set_linked_traffic_endpoint_id v c = c\<lparr>fp_linked_traffic_endpoint_id := (True, v)\<rparr>"

definition forwarding_parameters_get_linked_traffic_endpoint_id :: "forwarding_parameters \<Rightarrow> u8 \<Rightarrow> bool \<times> u8" where
  "forwarding_parameters_get_linked_traffic_endpoint_id c v = opt_get (fp_linked_traffic_endpoint_id c) v"

definition forwarding_parameters_set_proxying :: "proxying_t \<Rightarrow> forwarding_parameters \<Rightarrow> forwarding_parameters" where
  "forwarding_parameters_set_proxying v c = c\<lparr>fp_proxying := (True, v)\<rparr>"

definition forwarding_parameters_get_proxying :: "forwarding_parameters \<Rightarrow> proxying_t \<Rightarrow> bool \<times> proxying_t" where
  "forwarding_parameters_get_proxying c v = opt_get (fp_proxying c) v"

definition forwarding_parameters_update :: "update_forwarding_parameters \<Rightarrow> forwarding_parameters \<Rightarrow> bool \<times> forwarding_parameters" where
  "forwarding_parameters_update u c =
     (let c = (if fst (ufp_destination_interface u) then forwarding_parameters_set_destination_interface (snd (ufp_destination_interface u)) c else c) in
      let c = (if fst (ufp_network_instance u) then forwarding_parameters_set_network_instance (snd (ufp_network_instance u)) c else c) in
      let c = (if fst (ufp_outer_header_creation u) then forwarding_parameters_set_outer_header_creation (snd (ufp_outer_header_creation u)) c else c) in
      let c = (if fst (ufp_transport_level_marking u) then forwarding_parameters_set_transport_level_marking (snd (ufp_transport_level_marking u)) c else c) in
      let c = (if fst (ufp_forwarding_policy u) then forwarding_parameters_set_forwarding_policy (snd (ufp_forwarding_policy u)) c else c) in
      let c = (if fst (ufp_header_enrichment u) then forwarding_parameters_set_header_enrichment (snd (ufp_header_enrichment u)) c else c) in
      let c = (if fst (ufp_linked_traffic_endpoint_id u) then forwarding_parameters_set_linked_traffic_endpoint_id (snd (ufp_linked_traffic_endpoint_id u)) c else c) in
      (True, c))"

subsection \<open>\<^verbatim>\<open>update_duplicating_parameters\<close>\<close>

record update_duplicating_parameters =
  udup_destination_interface :: "u8 optm"
  udup_outer_header_creation :: "core_outer_header_creation_t optm"
  udup_transport_level_marking :: "string optm"
  udup_forwarding_policy :: "forwarding_policy_t optm"

definition new_update_duplicating_parameters :: update_duplicating_parameters where
  "new_update_duplicating_parameters = \<lparr>udup_destination_interface = (False, 0),
     udup_outer_header_creation = (False, core_outer_header_creation0),
     udup_transport_level_marking = (False, []),
     udup_forwarding_policy = (False, forwarding_policy0)\<rparr>"

definition copy_update_duplicating_parameters :: "update_duplicating_parameters \<Rightarrow> update_duplicating_parameters" where
  "copy_update_duplicating_parameters u = \<lparr>udup_destination_interface = udup_destination_interface u, udup_outer_header_creation = udup_outer_header_creation u, udup_transport_level_marking = udup_transport_level_marking u, udup_forwarding_policy = udup_forwarding_policy u\<rparr>"

definition update_duplicating_parameters_set_destination_interface :: "u8 \<Rightarrow> update_duplicating_parameters \<Rightarrow> update_duplicating_parameters" where
  "update_duplicating_parameters_set_destination_interface v c = c\<lparr>udup_destination_interface := (True, v)\<rparr>"

definition update_duplicating_parameters_get_destination_interface :: "update_duplicating_parameters \<Rightarrow> u8 \<Rightarrow> bool \<times> u8" where
  "update_duplicating_parameters_get_destination_interface c v = opt_get (udup_destination_interface c) v"

definition update_duplicating_parameters_set_outer_header_creation :: "core_outer_header_creation_t \<Rightarrow> update_duplicating_parameters \<Rightarrow> update_duplicating_parameters" where
  "update_duplicating_parameters_set_outer_header_creation v c = c\<lparr>udup_outer_header_creation := (True, v)\<rparr>"

definition update_duplicating_parameters_get_outer_header_creation :: "update_duplicating_parameters \<Rightarrow> core_outer_header_creation_t \<Rightarrow> bool \<times> core_outer_header_creation_t" where
  "update_duplicating_parameters_get_outer_header_creation c v = opt_get (udup_outer_header_creation c) v"

definition update_duplicating_parameters_set_transport_level_marking :: "string \<Rightarrow> update_duplicating_parameters \<Rightarrow> update_duplicating_parameters" where
  "update_duplicating_parameters_set_transport_level_marking v c = c\<lparr>udup_transport_level_marking := (True, v)\<rparr>"

definition update_duplicating_parameters_get_transport_level_marking :: "update_duplicating_parameters \<Rightarrow> string \<Rightarrow> bool \<times> string" where
  "update_duplicating_parameters_get_transport_level_marking c v = opt_get (udup_transport_level_marking c) v"

definition update_duplicating_parameters_set_forwarding_policy :: "forwarding_policy_t \<Rightarrow> update_duplicating_parameters \<Rightarrow> update_duplicating_parameters" where
  "update_duplicating_parameters_set_forwarding_policy v c = c\<lparr>udup_forwarding_policy := (True, v)\<rparr>"

definition update_duplicating_parameters_get_forwarding_policy :: "update_duplicating_parameters \<Rightarrow> forwarding_policy_t \<Rightarrow> bool \<times> forwarding_policy_t" where
  "update_duplicating_parameters_get_forwarding_policy c v = opt_get (udup_forwarding_policy c) v"

subsection \<open>\<^verbatim>\<open>duplicating_parameters\<close>\<close>

record duplicating_parameters =
  dup_destination_interface :: "u8 optm"
  dup_outer_header_creation :: "core_outer_header_creation_t optm"
  dup_transport_level_marking :: "string optm"
  dup_forwarding_policy :: "forwarding_policy_t optm"

definition new_duplicating_parameters :: duplicating_parameters where
  "new_duplicating_parameters = \<lparr>dup_destination_interface = (False, 0),
     dup_outer_header_creation = (False, core_outer_header_creation0),
     dup_transport_level_marking = (False, []),
     dup_forwarding_policy = (False, forwarding_policy0)\<rparr>"

definition copy_duplicating_parameters :: "duplicating_parameters \<Rightarrow> duplicating_parameters" where
  "copy_duplicating_parameters d = \<lparr>dup_destination_interface = dup_destination_interface d, dup_outer_header_creation = dup_outer_header_creation d, dup_transport_level_marking = dup_transport_level_marking d, dup_forwarding_policy = dup_forwarding_policy d\<rparr>"

definition duplicating_parameters_set_destination_interface :: "u8 \<Rightarrow> duplicating_parameters \<Rightarrow> duplicating_parameters" where
  "duplicating_parameters_set_destination_interface v c = c\<lparr>dup_destination_interface := (True, v)\<rparr>"

definition duplicating_parameters_get_destination_interface :: "duplicating_parameters \<Rightarrow> u8 \<Rightarrow> bool \<times> u8" where
  "duplicating_parameters_get_destination_interface c v = opt_get (dup_destination_interface c) v"

definition duplicating_parameters_set_outer_header_creation :: "core_outer_header_creation_t \<Rightarrow> duplicating_parameters \<Rightarrow> duplicating_parameters" where
  "duplicating_parameters_set_outer_header_creation v c = c\<lparr>dup_outer_header_creation := (True, v)\<rparr>"

definition duplicating_parameters_get_outer_header_creation :: "duplicating_parameters \<Rightarrow> core_outer_header_creation_t \<Rightarrow> bool \<times> core_outer_header_creation_t" where
  "duplicating_parameters_get_outer_header_creation c v = opt_get (dup_outer_header_creation c) v"

definition duplicating_parameters_set_transport_level_marking :: "string \<Rightarrow> duplicating_parameters \<Rightarrow> duplicating_parameters" where
  "duplicating_parameters_set_transport_level_marking v c = c\<lparr>dup_transport_level_marking := (True, v)\<rparr>"

definition duplicating_parameters_get_transport_level_marking :: "duplicating_parameters \<Rightarrow> string \<Rightarrow> bool \<times> string" where
  "duplicating_parameters_get_transport_level_marking c v = opt_get (dup_transport_level_marking c) v"

definition duplicating_parameters_set_forwarding_policy :: "forwarding_policy_t \<Rightarrow> duplicating_parameters \<Rightarrow> duplicating_parameters" where
  "duplicating_parameters_set_forwarding_policy v c = c\<lparr>dup_forwarding_policy := (True, v)\<rparr>"

definition duplicating_parameters_get_forwarding_policy :: "duplicating_parameters \<Rightarrow> forwarding_policy_t \<Rightarrow> bool \<times> forwarding_policy_t" where
  "duplicating_parameters_get_forwarding_policy c v = opt_get (dup_forwarding_policy c) v"

definition duplicating_parameters_update :: "update_duplicating_parameters \<Rightarrow> duplicating_parameters \<Rightarrow> bool \<times> duplicating_parameters" where
  "duplicating_parameters_update u c =
     (let c = (if fst (udup_destination_interface u) then duplicating_parameters_set_destination_interface (snd (udup_destination_interface u)) c else c) in
      let c = (if fst (udup_outer_header_creation u) then duplicating_parameters_set_outer_header_creation (snd (udup_outer_header_creation u)) c else c) in
      let c = (if fst (udup_transport_level_marking u) then duplicating_parameters_set_transport_level_marking (snd (udup_transport_level_marking u)) c else c) in
      let c = (if fst (udup_forwarding_policy u) then duplicating_parameters_set_forwarding_policy (snd (udup_forwarding_policy u)) c else c) in
      (True, c))"

subsection \<open>\<^verbatim>\<open>create_far\<close>\<close>

record create_far =
  cf_far_id :: "u32 optm"
  cf_apply_action :: "apply_action_t optm"
  cf_forwarding_parameters :: "forwarding_parameters optm"
  cf_duplicating_parameters :: "duplicating_parameters optm"
  cf_bar_id :: "u8 optm"

definition new_create_far :: create_far where
  "new_create_far = \<lparr>cf_far_id = (False, 0),
     cf_apply_action = (False, apply_action0),
     cf_forwarding_parameters = (False, new_forwarding_parameters),
     cf_duplicating_parameters = (False, new_duplicating_parameters),
     cf_bar_id = (False, 0)\<rparr>"

definition copy_create_far :: "create_far \<Rightarrow> create_far" where
  "copy_create_far c = \<lparr>cf_far_id = cf_far_id c, cf_apply_action = cf_apply_action c, cf_forwarding_parameters = cf_forwarding_parameters c, cf_duplicating_parameters = cf_duplicating_parameters c, cf_bar_id = cf_bar_id c\<rparr>"

definition create_far_set_far_id :: "u32 \<Rightarrow> create_far \<Rightarrow> create_far" where
  "create_far_set_far_id v c = c\<lparr>cf_far_id := (True, v)\<rparr>"

definition create_far_get_far_id :: "create_far \<Rightarrow> u32 \<Rightarrow> bool \<times> u32" where
  "create_far_get_far_id c v = opt_get (cf_far_id c) v"

definition create_far_set_apply_action :: "apply_action_t \<Rightarrow> create_far \<Rightarrow> create_far" where
  "create_far_set_apply_action v c = c\<lparr>cf_apply_action := (True, v)\<rparr>"

definition create_far_get_apply_action :: "create_far \<Rightarrow> apply_action_t \<Rightarrow> bool \<times> apply_action_t" where
  "create_far_get_apply_action c v = opt_get (cf_apply_action c) v"

definition create_far_set_forwarding_parameters :: "forwarding_parameters \<Rightarrow> create_far \<Rightarrow> create_far" where
  "create_far_set_forwarding_parameters v c = c\<lparr>cf_forwarding_parameters := (True, v)\<rparr>"

definition create_far_get_forwarding_parameters :: "create_far \<Rightarrow> forwarding_parameters \<Rightarrow> bool \<times> forwarding_parameters" where
  "create_far_get_forwarding_parameters c v = opt_get (cf_forwarding_parameters c) v"

definition create_far_set_duplicating_parameters :: "duplicating_parameters \<Rightarrow> create_far \<Rightarrow> create_far" where
  "create_far_set_duplicating_parameters v c = c\<lparr>cf_duplicating_parameters := (True, v)\<rparr>"

definition create_far_get_duplicating_parameters :: "create_far \<Rightarrow> duplicating_parameters \<Rightarrow> bool \<times> duplicating_parameters" where
  "create_far_get_duplicating_parameters c v = opt_get (cf_duplicating_parameters c) v"

definition create_far_set_bar_id :: "u8 \<Rightarrow> create_far \<Rightarrow> create_far" where
  "create_far_set_bar_id v c = c\<lparr>cf_bar_id := (True, v)\<rparr>"

definition create_far_get_bar_id :: "create_far \<Rightarrow> u8 \<Rightarrow> bool \<times> u8" where
  "create_far_get_bar_id c v = opt_get (cf_bar_id c) v"

subsection \<open>\<^verbatim>\<open>update_pdr\<close>\<close>

record update_pdr =
  upd_pdr_id :: "u16"
  upd_outer_header_removal :: "u8 optm"
  upd_precedence :: "u32 optm"
  upd_pdi :: "pdi optm"
  upd_far_id :: "u32 optm"
  upd_urr_id :: "u32 optm"
  upd_qer_id :: "u32 optm"
  upd_activate_predefined_rules :: "string list"
  upd_deactivate_predefined_rules :: "string list"

definition new_update_pdr :: update_pdr where
  "new_update_pdr = \<lparr>upd_pdr_id = 0,
     upd_outer_header_removal = (False, 0),
     upd_precedence = (False, 0),
     upd_pdi = (False, new_pdi),
     upd_far_id = (False, 0),
     upd_urr_id = (False, 0),
     upd_qer_id = (False, 0),
     upd_activate_predefined_rules = [],
     upd_deactivate_predefined_rules = []\<rparr>"

definition copy_update_pdr :: "update_pdr \<Rightarrow> update_pdr" where
  "copy_update_pdr u = \<lparr>upd_pdr_id = upd_pdr_id u, upd_outer_header_removal = upd_outer_header_removal u, upd_precedence = upd_precedence u, upd_pdi = upd_pdi u, upd_far_id = upd_far_id u, upd_urr_id = upd_urr_id u, upd_qer_id = upd_qer_id u, upd_activate_predefined_rules = upd_activate_predefined_rules u, upd_deactivate_predefined_rules = upd_deactivate_predefined_rules u\<rparr>"

definition update_pdr_set_pdr_id :: "u16 \<Rightarrow> update_pdr \<Rightarrow> update_pdr" where
  "update_pdr_set_pdr_id v c = c\<lparr>upd_pdr_id := v\<rparr>"

definition update_pdr_get_pdr_id :: "update_pdr \<Rightarrow> u16 \<Rightarrow> bool \<times> u16" where
  "update_pdr_get_pdr_id c v = (True, upd_pdr_id c)"

definition update_pdr_set_outer_header_removal :: "u8 \<Rightarrow> update_pdr \<Rightarrow> update_pdr" where
  "update_pdr_set_outer_header_removal v c = c\<lparr>upd_outer_header_removal := (True, v)\<rparr>"

definition update_pdr_get_outer_header_removal :: "update_pdr \<Rightarrow> u8 \<Rightarrow> bool \<times> u8" where
  "update_pdr_get_outer_header_removal c v = opt_get (upd_outer_header_removal c) v"

definition update_pdr_set_precedence :: "u32 \<Rightarrow> update_pdr \<Rightarrow> update_pdr" where
  "update_pdr_set_precedence v c = c\<lparr>upd_precedence := (True, v)\<rparr>"

definition update_pdr_get_precedence :: "update_pdr \<Rightarrow> u32 \<Rightarrow> bool \<times> u32" where
  "update_pdr_get_precedence c v = opt_get (upd_precedence c) v"

definition update_pdr_set_pdi :: "pdi \<Rightarrow> update_pdr \<Rightarrow> update_pdr" where
  "update_pdr_set_pdi v c = c\<lparr>upd_pdi := (True, v)\<rparr>"

definition update_pdr_get_pdi :: "update_pdr \<Rightarrow> pdi \<Rightarrow> bool \<times> pdi" where
  "update_pdr_get_pdi c v = opt_get (upd_pdi c) v"

definition update_pdr_set_far_id :: "u32 \<Rightarrow> update_pdr \<Rightarrow> update_pdr" where
  "update_pdr_set_far_id v c = c\<lparr>upd_far_id := (True, v)\<rparr>"

definition update_pdr_get_far_id :: "update_pdr \<Rightarrow> u32 \<Rightarrow> bool \<times> u32" where
  "update_pdr_get_far_id c v = opt_get (upd_far_id c) v"

definition update_pdr_set_urr_id :: "u32 \<Rightarrow> update_pdr \<Rightarrow> update_pdr" where
  "update_pdr_set_urr_id v c = c\<lparr>upd_urr_id := (True, v)\<rparr>"

definition update_pdr_get_urr_id :: "update_pdr \<Rightarrow> u32 \<Rightarrow> bool \<times> u32" where
  "update_pdr_get_urr_id c v = opt_get (upd_urr_id c) v"

definition update_pdr_set_qer_id :: "u32 \<Rightarrow> update_pdr \<Rightarrow> update_pdr" where
  "update_pdr_set_qer_id v c = c\<lparr>upd_qer_id := (True, v)\<rparr>"

definition update_pdr_get_qer_id :: "update_pdr \<Rightarrow> u32 \<Rightarrow> bool \<times> u32" where
  "update_pdr_get_qer_id c v = opt_get (upd_qer_id c) v"

definition update_pdr_set_activate_predefined_rules :: "string \<Rightarrow> update_pdr \<Rightarrow> update_pdr" where
  "update_pdr_set_activate_predefined_rules v c = c\<lparr>upd_activate_predefined_rules := upd_activate_predefined_rules c @ [v]\<rparr>"

definition update_pdr_set_deactivate_predefined_rules :: "string \<Rightarrow> update_pdr \<Rightarrow> update_pdr" where
  "update_pdr_set_deactivate_predefined_rules v c = c\<lparr>upd_deactivate_predefined_rules := upd_deactivate_predefined_rules c @ [v]\<rparr>"

subsection \<open>\<^verbatim>\<open>update_far\<close>\<close>

record update_far =
  uf_far_id :: "u32"
  uf_apply_action :: "apply_action_t optm"
  uf_update_forwarding_parameters :: "update_forwarding_parameters optm"
  uf_update_duplicating_parameters :: "update_duplicating_parameters optm"
  uf_bar_id :: "u8 optm"

definition new_update_far :: update_far where
  "new_update_far = \<lparr>uf_far_id = 0,
     uf_apply_action = (False, apply_action0),
     uf_update_forwarding_parameters = (False, new_update_forwarding_parameters),
     uf_update_duplicating_parameters = (False, new_update_duplicating_parameters),
     uf_bar_id = (False, 0)\<rparr>"

definition copy_update_far :: "update_far \<Rightarrow> update_far" where
  "copy_update_far u = \<lparr>uf_far_id = uf_far_id u, uf_apply_action = uf_apply_action u, uf_update_forwarding_parameters = uf_update_forwarding_parameters u, uf_update_duplicating_parameters = uf_update_duplicating_parameters u, uf_bar_id = uf_bar_id u\<rparr>"

definition update_far_set_far_id :: "u32 \<Rightarrow> update_far \<Rightarrow> update_far" where
  "update_far_set_far_id v c = c\<lparr>uf_far_id := v\<rparr>"

definition update_far_get_far_id :: "update_far \<Rightarrow> u32 \<Rightarrow> bool \<times> u32" where
  "update_far_get_far_id c v = (True, uf_far_id c)"

definition update_far_set_apply_action :: "apply_action_t \<Rightarrow> update_far \<Rightarrow> update_far" where
  "update_far_set_apply_action v c = c\<lparr>uf_apply_action := (True, v)\<rparr>"

definition update_far_get_apply_action :: "update_far \<Rightarrow> apply_action_t \<Rightarrow> bool \<times> apply_action_t" where
  "update_far_get_apply_action c v = opt_get (uf_apply_action c) v"

definition update_far_set_update_forwarding_parameters :: "update_forwarding_parameters \<Rightarrow> update_far \<Rightarrow> update_far" where
  "update_far_set_update_forwarding_parameters v c = c\<lparr>uf_update_forwarding_parameters := (True, v)\<rparr>"

definition update_far_get_update_forwarding_parameters :: "update_far \<Rightarrow> update_forwarding_parameters \<Rightarrow> bool \<times> update_forwarding_parameters" where
  "update_far_get_update_forwarding_parameters c v = opt_get (uf_update_forwarding_parameters c) v"

definition update_far_set_update_duplicating_parameters :: "update_duplicating_parameters \<Rightarrow> update_far \<Rightarrow> update_far" where
  "update_far_set_update_duplicating_parameters v c = c\<lparr>uf_update_duplicating_parameters := (True, v)\<rparr>"

definition update_far_get_update_duplicating_parameters :: "update_far \<Rightarrow> update_duplicating_parameters \<Rightarrow> bool \<times> update_duplicating_parameters" where
  "update_far_get_update_duplicating_parameters c v = opt_get (uf_update_duplicating_parameters c) v"

definition update_far_set_bar_id :: "u8 \<Rightarrow> update_far \<Rightarrow> update_far" where
  "update_far_set_bar_id v c = c\<lparr>uf_bar_id := (True, v)\<rparr>"

definition update_far_get_bar_id :: "update_far \<Rightarrow> u8 \<Rightarrow> bool \<times> u8" where
  "update_far_get_bar_id c v = opt_get (uf_bar_id c) v"

subsection \<open>\<^verbatim>\<open>remove_pdr\<close>\<close>

record remove_pdr =
  rp_pdr_id :: "u16 optm"

definition new_remove_pdr :: remove_pdr where
  "new_remove_pdr = \<lparr>rp_pdr_id = (False, 0)\<rparr>"

definition copy_remove_pdr :: "remove_pdr \<Rightarrow> remove_pdr" where
  "copy_remove_pdr r = \<lparr>rp_pdr_id = rp_pdr_id r\<rparr>"

definition remove_pdr_set_pdr_id :: "u16 \<Rightarrow> remove_pdr \<Rightarrow> remove_pdr" where
  "remove_pdr_set_pdr_id v c = c\<lparr>rp_pdr_id := (True, v)\<rparr>"

definition remove_pdr_get_pdr_id :: "remove_pdr \<Rightarrow> u16 \<Rightarrow> bool \<times> u16" where
  "remove_pdr_get_pdr_id c v = opt_get (rp_pdr_id c) v"

subsection \<open>\<^verbatim>\<open>remove_far\<close>\<close>

record remove_far =
  rf_far_id :: "u32 optm"

definition new_remove_far :: remove_far where
  "new_remove_far = \<lparr>rf_far_id = (False, 0)\<rparr>"

definition copy_remove_far :: "remove_far \<Rightarrow> remove_far" where
  "copy_remove_far r = \<lparr>rf_far_id = rf_far_id r\<rparr>"

definition remove_far_set_far_id :: "u32 \<Rightarrow> remove_far \<Rightarrow> remove_far" where
  "remove_far_set_far_id v c = c\<lparr>rf_far_id := (True, v)\<rparr>"

definition remove_far_get_far_id :: "remove_far \<Rightarrow> u32 \<Rightarrow> bool \<times> u32" where
  "remove_far_get_far_id c v = opt_get (rf_far_id c) v"

section \<open>Copies\<close>

lemma copy_ethernet_packet_filter_id [simp]: "copy_ethernet_packet_filter c = c"
  by (simp add: copy_ethernet_packet_filter_def)

lemma copy_pdi_id [simp]: "copy_pdi c = c"
  by (simp add: copy_pdi_def)

lemma copy_create_pdr_id [simp]: "copy_create_pdr c = c"
  by (simp add: copy_create_pdr_def)

lemma copy_update_forwarding_parameters_id [simp]: "copy_update_forwarding_parameters c = c"
  by (simp add: copy_update_forwarding_parameters_def)

lemma copy_forwarding_parameters_id [simp]: "copy_forwarding_parameters c = c"
  by (simp add: copy_forwarding_parameters_def)

lemma copy_update_duplicating_parameters_id [simp]: "copy_update_duplicating_parameters c = c"
  by (simp add: copy_update_duplicating_parameters_def)

lemma copy_duplicating_parameters_id [simp]: "copy_duplicating_parameters c = c"
  by (simp add: copy_duplicating_parameters_def)

lemma copy_create_far_id [simp]: "copy_create_far c = c"
  by (simp add: copy_create_far_def)

lemma copy_update_pdr_id [simp]: "copy_update_pdr c = c"
  by (simp add: copy_update_pdr_def)

lemma copy_update_far_id [simp]: "copy_update_far c = c"
  by (simp add: copy_update_far_def)

lemma copy_remove_pdr_id [simp]: "copy_remove_pdr c = c"
  by (simp add: copy_remove_pdr_def)

lemma copy_remove_far_id [simp]: "copy_remove_far c = c"
  by (simp add: copy_remove_far_def)

section \<open>Every optional member meets the contract\<close>

interpretation epf_ethernet_filter_id: optional_member ethernet_packet_filter_set_ethernet_filter_id ethernet_packet_filter_get_ethernet_filter_id new_ethernet_packet_filter
  by unfold_locales (auto simp: ethernet_packet_filter_set_ethernet_filter_id_def ethernet_packet_filter_get_ethernet_filter_id_def new_ethernet_packet_filter_def opt_get_def)

interpretation epf_ethernet_filter_properties: optional_member ethernet_packet_filter_set_ethernet_filter_properties ethernet_packet_filter_get_ethernet_filter_properties new_ethernet_packet_filter
  by unfold_locales (auto simp: ethernet_packet_filter_set_ethernet_filter_properties_def ethernet_packet_filter_get_ethernet_filter_properties_def new_ethernet_packet_filter_def opt_get_def)

interpretation epf_mac_address: optional_member ethernet_packet_filter_set_mac_address ethernet_packet_filter_get_mac_address new_ethernet_packet_filter
  by unfold_locales (auto simp: ethernet_packet_filter_set_mac_address_def ethernet_packet_filter_get_mac_address_def new_ethernet_packet_filter_def opt_get_def)

interpretation epf_ethertype: optional_member ethernet_packet_filter_set_ethertype ethernet_packet_filter_get_ethertype new_ethernet_packet_filter
  by unfold_locales (auto simp: ethernet_packet_filter_set_ethertype_def ethernet_packet_filter_get_ethertype_def new_ethernet_packet_filter_def opt_get_def)

interpretation epf_c_tag: optional_member ethernet_packet_filter_set_c_tag ethernet_packet_filter_get_c_tag new_ethernet_packet_filter
  by unfold_locales (auto simp: ethernet_packet_filter_set_c_tag_def ethernet_packet_filter_get_c_tag_def new_ethernet_packet_filter_def opt_get_def)

interpretation epf_s_tag: optional_member ethernet_packet_filter_set_s_tag ethernet_packet_filter_get_s_tag new_ethernet_packet_filter
  by unfold_locales (auto simp: ethernet_packet_filter_set_s_tag_def ethernet_packet_filter_get_s_tag_def new_ethernet_packet_filter_def opt_get_def)

interpretation epf_sdf_filter: optional_member ethernet_packet_filter_set_sdf_filter ethernet_packet_filter_get_sdf_filter new_ethernet_packet_filter
  by unfold_locales (auto simp: ethernet_packet_filter_set_sdf_filter_def ethernet_packet_filter_get_sdf_filter_def new_ethernet_packet_filter_def opt_get_def)

interpretation pd_source_interface: optional_member pdi_set_source_interface pdi_get_source_interface new_pdi
  by unfold_locales (auto simp: pdi_set_source_interface_def pdi_get_source_interface_def new_pdi_def opt_get_def)

interpretation pd_local_fteid: optional_member pdi_set_local_fteid pdi_get_local_fteid new_pdi
  by unfold_locales (auto simp: pdi_set_local_fteid_def pdi_get_local_fteid_def new_pdi_def opt_get_def)

interpretation pd_network_instance: optional_member pdi_set_network_instance pdi_get_network_instance new_pdi
  by unfold_locales (auto simp: pdi_set_network_instance_def pdi_get_network_instance_def new_pdi_def opt_get_def)

interpretation pd_ue_ip_address: optional_member pdi_set_ue_ip_address pdi_get_ue_ip_address new_pdi
  by unfold_locales (auto simp: pdi_set_ue_ip_address_def pdi_get_ue_ip_address_def new_pdi_def opt_get_def)

interpretation pd_traffic_endpoint_id: optional_member pdi_set_traffic_endpoint_id pdi_get_traffic_endpoint_id new_pdi
  by unfold_locales (auto simp: pdi_set_traffic_endpoint_id_def pdi_get_traffic_endpoint_id_def new_pdi_def opt_get_def)

interpretation pd_sdf_filter: optional_member pdi_set_sdf_filter pdi_get_sdf_filter new_pdi
  by unfold_locales (auto simp: pdi_set_sdf_filter_def pdi_get_sdf_filter_def new_pdi_def opt_get_def)

interpretation pd_application_id: optional_member pdi_set_application_id pdi_get_application_id new_pdi
  by unfold_locales (auto simp: pdi_set_application_id_def pdi_get_application_id_def new_pdi_def opt_get_def)

interpretation pd_ethernet_packet_filter: optional_member pdi_set_ethernet_packet_filter pdi_get_ethernet_packet_filter new_pdi
  by unfold_locales (auto simp: pdi_set_ethernet_packet_filter_def pdi_get_ethernet_packet_filter_def new_pdi_def opt_get_def)

interpretation pd_qfi: optional_member pdi_set_qfi pdi_get_qfi new_pdi
  by unfold_locales (auto simp: pdi_set_qfi_def pdi_get_qfi_def new_pdi_def opt_get_def)

interpretation pd_framed_route: optional_member pdi_set_framed_route pdi_get_framed_route new_pdi
  by unfold_locales (auto simp: pdi_set_framed_route_def pdi_get_framed_route_def new_pdi_def opt_get_def)

interpretation pd_framed_routing: optional_member pdi_set_framed_routing pdi_get_framed_routing new_pdi
  by unfold_locales (auto simp: pdi_set_framed_routing_def pdi_get_framed_routing_def new_pdi_def opt_get_def)

interpretation pd_framed_ipv6_route: optional_member pdi_set_framed_ipv6_route pdi_get_framed_ipv6_route new_pdi
  by unfold_locales (auto simp: pdi_set_framed_ipv6_route_def pdi_get_framed_ipv6_route_def new_pdi_def opt_get_def)

interpretation cp_pdr_id: optional_member create_pdr_set_pdr_id create_pdr_get_pdr_id new_create_pdr
  by unfold_locales (auto simp: create_pdr_set_pdr_id_def create_pdr_get_pdr_id_def new_create_pdr_def opt_get_def)

interpretation cp_precedence: optional_member create_pdr_set_precedence create_pdr_get_precedence new_create_pdr
  by unfold_locales (auto simp: create_pdr_set_precedence_def create_pdr_get_precedence_def new_create_pdr_def opt_get_def)

interpretation cp_pdi: optional_member create_pdr_set_pdi create_pdr_get_pdi new_create_pdr
  by unfold_locales (auto simp: create_pdr_set_pdi_def create_pdr_get_pdi_def new_create_pdr_def opt_get_def)

interpretation cp_outer_header_removal: optional_member create_pdr_set_outer_header_removal create_pdr_get_outer_header_removal new_create_pdr
  by unfold_locales (auto simp: create_pdr_set_outer_header_removal_def create_pdr_get_outer_header_removal_def new_create_pdr_def opt_get_def)

interpretation cp_far_id: optional_member create_pdr_set_far_id create_pdr_get_far_id new_create_pdr
  by unfold_locales (auto simp: create_pdr_set_far_id_def create_pdr_get_far_id_def new_create_pdr_def opt_get_def)

interpretation cp_urr_id: optional_member create_pdr_set_urr_id create_pdr_get_urr_id new_create_pdr
  by unfold_locales (auto simp: create_pdr_set_urr_id_def create_pdr_get_urr_id_def new_create_pdr_def opt_get_def)

interpretation cp_qer_id: optional_member create_pdr_set_qer_id create_pdr_get_qer_id new_create_pdr
  by unfold_locales (auto simp: create_pdr_set_qer_id_def create_pdr_get_qer_id_def new_create_pdr_def opt_get_def)

interpretation cp_activate_predefined_rules: optional_member create_pdr_set_activate_predefined_rules create_pdr_get_activate_predefined_rules new_create_pdr
  by unfold_locales (auto simp: create_pdr_set_activate_predefined_rules_def create_pdr_get_activate_predefined_rules_def new_create_pdr_def opt_get_def)

interpretation ufp_destination_interface: optional_member update_forwarding_parameters_set_destination_interface update_forwarding_parameters_get_destination_interface new_update_forwarding_parameters
  by unfold_locales (auto simp: update_forwarding_parameters_set_destination_interface_def update_forwarding_parameters_get_destination_interface_def new_update_forwarding_parameters_def opt_get_def)

interpretation ufp_network_instance: optional_member update_forwarding_parameters_set_network_instance update_forwarding_parameters_get_network_instance new_update_forwarding_parameters
  by unfold_locales (auto simp: update_forwarding_parameters_set_network_instance_def update_forwarding_parameters_get_network_instance_def new_update_forwarding_parameters_def opt_get_def)

interpretation ufp_outer_header_creation: optional_member update_forwarding_parameters_set_outer_header_creation update_forwarding_parameters_get_outer_header_creation new_update_forwarding_parameters
  by unfold_locales (auto simp: update_forwarding_parameters_set_outer_header_creation_def update_forwarding_parameters_get_outer_header_creation_def new_update_forwarding_parameters_def opt_get_def)

interpretation ufp_transport_level_marking: optional_member update_forwarding_parameters_set_transport_level_marking update_forwarding_parameters_get_transport_level_marking new_update_forwarding_parameters
  by unfold_locales (auto simp: update_forwarding_parameters_set_transport_level_marking_def update_forwarding_parameters_get_transport_level_marking_def new_update_forwarding_parameters_def opt_get_def)

interpretation ufp_forwarding_policy: optional_member update_forwarding_parameters_set_forwarding_policy update_forwarding_parameters_get_forwarding_policy new_update_forwarding_parameters
  by unfold_locales (auto simp: update_forwarding_parameters_set_forwarding_policy_def update_forwarding_parameters_get_forwarding_policy_def new_update_forwarding_parameters_def opt_get_def)

interpretation ufp_header_enrichment: optional_member update_forwarding_parameters_set_header_enrichment update_forwarding_parameters_get_header_enrichment new_update_forwarding_parameters
  by unfold_locales (auto simp: update_forwarding_parameters_set_header_enrichment_def update_forwarding_parameters_get_header_enrichment_def new_update_forwarding_parameters_def opt_get_def)

interpretation ufp_pfcpsmreq_flags: optional_member update_forwarding_parameters_set_pfcpsmreq_flags update_forwarding_parameters_get_pfcpsmreq_flags new_update_forwarding_parameters
  by unfold_locales (auto simp: update_forwarding_parameters_set_pfcpsmreq_flags_def update_forwarding_parameters_get_pfcpsmreq_flags_def new_update_forwarding_parameters_def opt_get_def)

interpretation ufp_linked_traffic_endpoint_id: optional_member update_forwarding_parameters_set_linked_traffic_endpoint_id update_forwarding_parameters_get_linked_traffic_endpoint_id new_update_forwarding_parameters
  by unfold_locales (auto simp: update_forwarding_parameters_set_linked_traffic_endpoint_id_def update_forwarding_parameters_get_linked_traffic_endpoint_id_def new_update_forwarding_parameters_def opt_get_def)

interpretation fp_destination_interface: optional_member forwarding_parameters_set_destination_interface forwarding_parameters_get_destination_interface new_forwarding_parameters
  by unfold_locales (auto simp: forwarding_parameters_set_destination_interface_def forwarding_parameters_get_destination_interface_def new_forwarding_parameters_def opt_get_def)

interpretation fp_network_instance: optional_member forwarding_parameters_set_network_instance forwarding_parameters_get_network_instance new_forwarding_parameters
  by unfold_locales (auto simp: forwarding_parameters_set_network_instance_def forwarding_parameters_get_network_instance_def new_forwarding_parameters_def opt_get_def)

interpretation fp_redirect_information: optional_member forwarding_parameters_set_redirect_information forwarding_parameters_get_redirect_information new_forwarding_parameters
  by unfold_locales (auto simp: forwarding_parameters_set_redirect_information_def forwarding_parameters_get_redirect_information_def new_forwarding_parameters_def opt_get_def)

interpretation fp_outer_header_creation: optional_member forwarding_parameters_set_outer_header_creation forwarding_parameters_get_outer_header_creation new_forwarding_parameters
  by unfold_locales (auto simp: forwarding_parameters_set_outer_header_creation_def forwarding_parameters_get_outer_header_creation_def new_forwarding_parameters_def opt_get_def)

interpretation fp_transport_level_marking: optional_member forwarding_parameters_set_transport_level_marking forwarding_parameters_get_transport_level_marking new_forwarding_parameters
  by unfold_locales (auto simp: forwarding_parameters_set_transport_level_marking_def forwarding_parameters_get_transport_level_marking_def new_forwarding_parameters_def opt_get_def)

interpretation fp_forwarding_policy: optional_member forwarding_parameters_set_forwarding_policy forwarding_parameters_get_forwarding_policy new_forwarding_parameters
  by unfold_locales (auto simp: forwarding_parameters_set_forwarding_policy_def forwarding_parameters_get_forwarding_policy_def new_forwarding_parameters_def opt_get_def)

interpretation fp_header_enrichment: optional_member forwarding_parameters_set_header_enrichment forwarding_parameters_get_header_enrichment new_forwarding_parameters
  by unfold_locales (auto simp: forwarding_parameters_set_header_enrichment_def forwarding_parameters_get_header_enrichment_def new_forwarding_parameters_def opt_get_def)

interpretation fp_linked_traffic_endpoint_id: optional_member forwarding_parameters_set_linked_traffic_endpoint_id forwarding_parameters_get_linked_traffic_endpoint_id new_forwarding_parameters
  by unfold_locales (auto simp: forwarding_parameters_set_linked_traffic_endpoint_id_def forwarding_parameters_get_linked_traffic_endpoint_id_def new_forwarding_parameters_def opt_get_def)

interpretation fp_proxying: optional_member forwarding_parameters_set_proxying forwarding_parameters_get_proxying new_forwarding_parameters
  by unfold_locales (auto simp: forwarding_parameters_set_proxying_def forwarding_parameters_get_proxying_def new_forwarding_parameters_def opt_get_def)

interpretation udup_destination_interface: optional_member update_duplicating_parameters_set_destination_interface update_duplicating_parameters_get_destination_interface new_update_duplicating_parameters
  by unfold_locales (auto simp: update_duplicating_parameters_set_destination_interface_def update_duplicating_parameters_get_destination_interface_def new_update_duplicating_parameters_def opt_get_def)

interpretation udup_outer_header_creation: optional_member update_duplicating_parameters_set_outer_header_creation update_duplicating_parameters_get_outer_header_creation new_update_duplicating_parameters
  by unfold_locales (auto simp: update_duplicating_parameters_set_outer_header_creation_def update_duplicating_parameters_get_outer_header_creation_def new_update_duplicating_parameters_def opt_get_def)

interpretation udup_transport_level_marking: optional_member update_duplicating_parameters_set_transport_level_marking update_duplicating_parameters_get_transport_level_marking new_update_duplicating_parameters
  by unfold_locales (auto simp: update_duplicating_parameters_set_transport_level_marking_def update_duplicating_parameters_get_transport_level_marking_def new_update_duplicating_parameters_def opt_get_def)

interpretation udup_forwarding_policy: optional_member update_duplicating_parameters_set_forwarding_policy update_duplicating_parameters_get_forwarding_policy new_update_duplicating_parameters
  by unfold_locales (auto simp: update_duplicating_parameters_set_forwarding_policy_def update_duplicating_parameters_get_forwarding_policy_def new_update_duplicating_parameters_def opt_get_def)

interpretation dup_destination_interface: optional_member duplicating_parameters_set_destination_interface duplicating_parameters_get_destination_interface new_duplicating_parameters
  by unfold_locales (auto simp: duplicating_parameters_set_destination_interface_def duplicating_parameters_get_destination_interface_def new_duplicating_parameters_def opt_get_def)

interpretation dup_outer_header_creation: optional_member duplicating_parameters_set_outer_header_creation duplicating_parameters_get_outer_header_creation new_duplicating_parameters
  by unfold_locales (auto simp: duplicating_parameters_set_outer_header_creation_def duplicating_parameters_get_outer_header_creation_def new_duplicating_parameters_def opt_get_def)

interpretation dup_transport_level_marking: optional_member duplicating_parameters_set_transport_level_marking duplicating_parameters_get_transport_level_marking new_duplicating_parameters
  by unfold_locales (auto simp: duplicating_parameters_set_transport_level_marking_def duplicating_parameters_get_transport_level_marking_def new_duplicating_parameters_def opt_get_def)

interpretation dup_forwarding_policy: optional_member duplicating_parameters_set_forwarding_policy duplicating_parameters_get_forwarding_policy new_duplicating_parameters
  by unfold_locales (auto simp: duplicating_parameters_set_forwarding_policy_def duplicating_parameters_get_forwarding_policy_def new_duplicating_parameters_def opt_get_def)

interpretation cf_far_id: optional_member create_far_set_far_id create_far_get_far_id new_create_far
  by unfold_locales (auto simp: create_far_set_far_id_def create_far_get_far_id_def new_create_far_def opt_get_def)

interpretation cf_apply_action: optional_member create_far_set_apply_action create_far_get_apply_action new_create_far
  by unfold_locales (auto simp: create_far_set_apply_action_def create_far_get_apply_action_def new_create_far_def opt_get_def)

interpretation cf_forwarding_parameters: optional_member create_far_set_forwarding_parameters create_far_get_forwarding_parameters new_create_far
  by unfold_locales (auto simp: create_far_set_forwarding_parameters_def create_far_get_forwarding_parameters_def new_create_far_def opt_get_def)

interpretation cf_duplicating_parameters: optional_member create_far_set_duplicating_parameters create_far_get_duplicating_parameters new_create_far
  by unfold_locales (auto simp: create_far_set_duplicating_parameters_def create_far_get_duplicating_parameters_def new_create_far_def opt_get_def)

interpretation cf_bar_id: optional_member create_far_set_bar_id create_far_get_bar_id new_create_far
  by unfold_locales (auto simp: create_far_set_bar_id_def create_far_get_bar_id_def new_create_far_def opt_get_def)

interpretation upd_outer_header_removal: optional_member update_pdr_set_outer_header_removal update_pdr_get_outer_header_removal new_update_pdr
  by unfold_locales (auto simp: update_pdr_set_outer_header_removal_def update_pdr_get_outer_header_removal_def new_update_pdr_def opt_get_def)

interpretation upd_precedence: optional_member update_pdr_set_precedence update_pdr_get_precedence new_update_pdr
  by unfold_locales (auto simp: update_pdr_set_precedence_def update_pdr_get_precedence_def new_update_pdr_def opt_get_def)

interpretation upd_pdi: optional_member update_pdr_set_pdi update_pdr_get_pdi new_update_pdr
  by unfold_locales (auto simp: update_pdr_set_pdi_def update_pdr_get_pdi_def new_update_pdr_def opt_get_def)

interpretation upd_far_id: optional_member update_pdr_set_far_id update_pdr_get_far_id new_update_pdr
  by unfold_locales (auto simp: update_pdr_set_far_id_def update_pdr_get_far_id_def new_update_pdr_def opt_get_def)

interpretation upd_urr_id: optional_member update_pdr_set_urr_id update_pdr_get_urr_id new_update_pdr
  by unfold_locales (auto simp: update_pdr_set_urr_id_def update_pdr_get_urr_id_def new_update_pdr_def opt_get_def)

interpretation upd_qer_id: optional_member update_pdr_set_qer_id update_pdr_get_qer_id new_update_pdr
  by unfold_locales (auto simp: update_pdr_set_qer_id_def update_pdr_get_qer_id_def new_update_pdr_def opt_get_def)

interpretation uf_apply_action: optional_member update_far_set_apply_action update_far_get_apply_action new_update_far
  by unfold_locales (auto simp: update_far_set_apply_action_def update_far_get_apply_action_def new_update_far_def opt_get_def)

interpretation uf_update_forwarding_parameters: optional_member update_far_set_update_forwarding_parameters update_far_get_update_forwarding_parameters new_update_far
  by unfold_locales (auto simp: update_far_set_update_forwarding_parameters_def update_far_get_update_forwarding_parameters_def new_update_far_def opt_get_def)

interpretation uf_update_duplicating_parameters: optional_member update_far_set_update_duplicating_parameters update_far_get_update_duplicating_parameters new_update_far
  by unfold_locales (auto simp: update_far_set_update_duplicating_parameters_def update_far_get_update_duplicating_parameters_def new_update_far_def opt_get_def)

interpretation uf_bar_id: optional_member update_far_set_bar_id update_far_get_bar_id new_update_far
  by unfold_locales (auto simp: update_far_set_bar_id_def update_far_get_bar_id_def new_update_far_def opt_get_def)

interpretation rp_pdr_id: optional_member remove_pdr_set_pdr_id remove_pdr_get_pdr_id new_remove_pdr
  by unfold_locales (auto simp: remove_pdr_set_pdr_id_def remove_pdr_get_pdr_id_def new_remove_pdr_def opt_get_def)

interpretation rf_far_id: optional_member remove_far_set_far_id remove_far_get_far_id new_remove_far
  by unfold_locales (auto simp: remove_far_set_far_id_def remove_far_get_far_id_def new_remove_far_def opt_get_def)

end
