(* ===== verification/Pfcp_Rules.thy ===== *)
theory Pfcp_Rules
  imports Pfcp_Containers
begin

text \<open>
  The installed rules: \<^verbatim>\<open>pfcp_far\<close> (\<^verbatim>\<open>src/oai/pfcp/pfcp_far.hpp\<close>, \<^verbatim>\<open>pfcp_far.cpp\<close>) and \<^verbatim>\<open>pfcp_pdr\<close>
  (\<^verbatim>\<open>pfcp_pdr.hpp\<close>, \<^verbatim>\<open>pfcp_pdr.cpp\<close>) with their construction from a request and their update.
  The mutex of a PDR has no counterpart: rules are only touched by one thread at a time.
\<close>

section \<open>Forwarding action rules\<close>

record pfcp_far =
  fa_far_id :: "u32"
  fa_apply_action :: "apply_action_t"
  fa_forwarding_parameters :: "forwarding_parameters optm"
  fa_duplicating_parameters :: "duplicating_parameters optm"
  fa_bar_id :: "u8 optm"

definition pfcp_far_set_far_id :: "u32 \<Rightarrow> pfcp_far \<Rightarrow> pfcp_far" where
  "pfcp_far_set_far_id v c = c\<lparr>fa_far_id := v\<rparr>"

definition pfcp_far_get_far_id :: "pfcp_far \<Rightarrow> u32 \<Rightarrow> bool \<times> u32" where
  "pfcp_far_get_far_id c v = (True, fa_far_id c)"

definition pfcp_far_set_apply_action :: "apply_action_t \<Rightarrow> pfcp_far \<Rightarrow> pfcp_far" where
  "pfcp_far_set_apply_action v c = c\<lparr>fa_apply_action := v\<rparr>"

definition pfcp_far_get_apply_action :: "pfcp_far \<Rightarrow> apply_action_t \<Rightarrow> bool \<times> apply_action_t" where
  "pfcp_far_get_apply_action c v = (True, fa_apply_action c)"

definition pfcp_far_set_forwarding_parameters :: "forwarding_parameters \<Rightarrow> pfcp_far \<Rightarrow> pfcp_far" where
  "pfcp_far_set_forwarding_parameters v c = c\<lparr>fa_forwarding_parameters := (True, v)\<rparr>"

definition pfcp_far_get_forwarding_parameters :: "pfcp_far \<Rightarrow> forwarding_parameters \<Rightarrow> bool \<times> forwarding_parameters" where
  "pfcp_far_get_forwarding_parameters c v = opt_get (fa_forwarding_parameters c) v"

definition pfcp_far_set_duplicating_parameters :: "duplicating_parameters \<Rightarrow> pfcp_far \<Rightarrow> pfcp_far" where
  "pfcp_far_set_duplicating_parameters v c = c\<lparr>fa_duplicating_parameters := (True, v)\<rparr>"

definition pfcp_far_get_duplicating_parameters :: "pfcp_far \<Rightarrow> duplicating_parameters \<Rightarrow> bool \<times> duplicating_parameters" where
  "pfcp_far_get_duplicating_parameters c v = opt_get (fa_duplicating_parameters c) v"

definition pfcp_far_set_bar_id :: "u8 \<Rightarrow> pfcp_far \<Rightarrow> pfcp_far" where
  "pfcp_far_set_bar_id v c = c\<lparr>fa_bar_id := (True, v)\<rparr>"

definition pfcp_far_get_bar_id :: "pfcp_far \<Rightarrow> u8 \<Rightarrow> bool \<times> u8" where
  "pfcp_far_get_bar_id c v = opt_get (fa_bar_id c) v"

definition pfcp_far_of_create :: "create_far \<Rightarrow> pfcp_far" where
  "pfcp_far_of_create c =
     \<lparr>fa_far_id = snd (cf_far_id c), fa_apply_action = snd (cf_apply_action c),
      fa_forwarding_parameters = cf_forwarding_parameters c,
      fa_duplicating_parameters = cf_duplicating_parameters c, fa_bar_id = cf_bar_id c\<rparr>"

text \<open>\<^verbatim>\<open>pfcp_far::update\<close>; the cause parameter is never written.\<close>

definition pfcp_far_update :: "update_far \<Rightarrow> pfcp_far \<Rightarrow> bool \<times> pfcp_far" where
  "pfcp_far_update u f =
     (let f = f\<lparr>fa_apply_action := snd (update_far_get_apply_action u (fa_apply_action f))\<rparr>;
          f = (if fst (uf_update_forwarding_parameters u)
               then f\<lparr>fa_forwarding_parameters :=
                       (fst (fa_forwarding_parameters f),
                        snd (forwarding_parameters_update (snd (uf_update_forwarding_parameters u))
                               (snd (fa_forwarding_parameters f))))\<rparr>
               else f);
          f = (if fst (uf_update_duplicating_parameters u)
               then f\<lparr>fa_duplicating_parameters :=
                       (fst (fa_duplicating_parameters f),
                        snd (duplicating_parameters_update (snd (uf_update_duplicating_parameters u))
                               (snd (fa_duplicating_parameters f))))\<rparr>
               else f);
          (got, v) = update_far_get_bar_id u (snd (fa_bar_id f));
          f = f\<lparr>fa_bar_id := (fst (fa_bar_id f) \<or> got, v)\<rparr>
      in (True, f))"

section \<open>Packet detection rules\<close>

record pfcp_pdr =
  pr_local_seid :: "u64"
  pr_pdr_id :: "u16"
  pr_precedence :: "u32 optm"
  pr_pdi :: "pdi optm"
  pr_outer_header_removal :: "u8 optm"
  pr_far_id :: "u32 optm"
  pr_urr_id :: "u32 optm"
  pr_qer_id :: "u32 optm"
  pr_activate_predefined_rules :: "string optm"
  pr_notified_cp :: "bool"

definition pfcp_pdr_set_local_seid :: "u64 \<Rightarrow> pfcp_pdr \<Rightarrow> pfcp_pdr" where
  "pfcp_pdr_set_local_seid v c = c\<lparr>pr_local_seid := v\<rparr>"

definition pfcp_pdr_get_local_seid :: "pfcp_pdr \<Rightarrow> u64 \<Rightarrow> bool \<times> u64" where
  "pfcp_pdr_get_local_seid c v = (True, pr_local_seid c)"

definition pfcp_pdr_set_pdr_id :: "u16 \<Rightarrow> pfcp_pdr \<Rightarrow> pfcp_pdr" where
  "pfcp_pdr_set_pdr_id v c = c\<lparr>pr_pdr_id := v\<rparr>"

definition pfcp_pdr_get_pdr_id :: "pfcp_pdr \<Rightarrow> u16 \<Rightarrow> bool \<times> u16" where
  "pfcp_pdr_get_pdr_id c v = (True, pr_pdr_id c)"

definition pfcp_pdr_set_precedence :: "u32 \<Rightarrow> pfcp_pdr \<Rightarrow> pfcp_pdr" where
  "pfcp_pdr_set_precedence v c = c\<lparr>pr_precedence := (True, v)\<rparr>"

definition pfcp_pdr_get_precedence :: "pfcp_pdr \<Rightarrow> u32 \<Rightarrow> bool \<times> u32" where
  "pfcp_pdr_get_precedence c v = opt_get (pr_precedence c) v"

definition pfcp_pdr_set_pdi :: "pdi \<Rightarrow> pfcp_pdr \<Rightarrow> pfcp_pdr" where
  "pfcp_pdr_set_pdi v c = c\<lparr>pr_pdi := (True, v)\<rparr>"

definition pfcp_pdr_get_pdi :: "pfcp_pdr \<Rightarrow> pdi \<Rightarrow> bool \<times> pdi" where
  "pfcp_pdr_get_pdi c v = opt_get (pr_pdi c) v"

definition pfcp_pdr_set_outer_header_removal :: "u8 \<Rightarrow> pfcp_pdr \<Rightarrow> pfcp_pdr" where
  "pfcp_pdr_set_outer_header_removal v c = c\<lparr>pr_outer_header_removal := (True, v)\<rparr>"

definition pfcp_pdr_get_outer_header_removal :: "pfcp_pdr \<Rightarrow> u8 \<Rightarrow> bool \<times> u8" where
  "pfcp_pdr_get_outer_header_removal c v = opt_get (pr_outer_header_removal c) v"

definition pfcp_pdr_set_far_id :: "u32 \<Rightarrow> pfcp_pdr \<Rightarrow> pfcp_pdr" where
  "pfcp_pdr_set_far_id v c = c\<lparr>pr_far_id := (True, v)\<rparr>"

definition pfcp_pdr_get_far_id :: "pfcp_pdr \<Rightarrow> u32 \<Rightarrow> bool \<times> u32" where
  "pfcp_pdr_get_far_id c v = opt_get (pr_far_id c) v"

definition pfcp_pdr_set_urr_id :: "u32 \<Rightarrow> pfcp_pdr \<Rightarrow> pfcp_pdr" where
  "pfcp_pdr_set_urr_id v c = c\<lparr>pr_urr_id := (True, v)\<rparr>"

definition pfcp_pdr_get_urr_id :: "pfcp_pdr \<Rightarrow> u32 \<Rightarrow> bool \<times> u32" where
  "pfcp_pdr_get_urr_id c v = opt_get (pr_urr_id c) v"

definition pfcp_pdr_set_qer_id :: "u32 \<Rightarrow> pfcp_pdr \<Rightarrow> pfcp_pdr" where
  "pfcp_pdr_set_qer_id v c = c\<lparr>pr_qer_id := (True, v)\<rparr>"

definition pfcp_pdr_get_qer_id :: "pfcp_pdr \<Rightarrow> u32 \<Rightarrow> bool \<times> u32" where
  "pfcp_pdr_get_qer_id c v = opt_get (pr_qer_id c) v"

definition pfcp_pdr_set_activate_predefined_rules :: "string \<Rightarrow> pfcp_pdr \<Rightarrow> pfcp_pdr" where
  "pfcp_pdr_set_activate_predefined_rules v c = c\<lparr>pr_activate_predefined_rules := (True, v)\<rparr>"

definition pfcp_pdr_get_activate_predefined_rules :: "pfcp_pdr \<Rightarrow> string \<Rightarrow> bool \<times> string" where
  "pfcp_pdr_get_activate_predefined_rules c v = opt_get (pr_activate_predefined_rules c) v"

definition pfcp_pdr_of_create :: "create_pdr \<Rightarrow> pfcp_pdr" where
  "pfcp_pdr_of_create c =
     \<lparr>pr_local_seid = 0, pr_pdr_id = snd (cp_pdr_id c), pr_precedence = cp_precedence c,
      pr_pdi = cp_pdi c, pr_outer_header_removal = cp_outer_header_removal c,
      pr_far_id = cp_far_id c, pr_urr_id = cp_urr_id c, pr_qer_id = cp_qer_id c,
      pr_activate_predefined_rules = cp_activate_predefined_rules c, pr_notified_cp = False\<rparr>"

definition upd_member :: "bool \<times> 'a \<Rightarrow> 'a optm \<Rightarrow> 'a optm" where
  "upd_member r m = (fst m \<or> fst r, snd r)"

definition pfcp_pdr_update :: "update_pdr \<Rightarrow> pfcp_pdr \<Rightarrow> bool \<times> pfcp_pdr" where
  "pfcp_pdr_update u p =
     (True,
      p\<lparr>pr_outer_header_removal :=
          upd_member (update_pdr_get_outer_header_removal u (snd (pr_outer_header_removal p)))
            (pr_outer_header_removal p),
        pr_precedence := upd_member (update_pdr_get_precedence u (snd (pr_precedence p))) (pr_precedence p),
        pr_pdi := upd_member (update_pdr_get_pdi u (snd (pr_pdi p))) (pr_pdi p),
        pr_far_id := upd_member (update_pdr_get_far_id u (snd (pr_far_id p))) (pr_far_id p),
        pr_urr_id := upd_member (update_pdr_get_urr_id u (snd (pr_urr_id p))) (pr_urr_id p),
        pr_qer_id := upd_member (update_pdr_get_qer_id u (snd (pr_qer_id p))) (pr_qer_id p)\<rparr>)"

definition pfcp_pdr_less :: "pfcp_pdr \<Rightarrow> pfcp_pdr \<Rightarrow> bool" where
  "pfcp_pdr_less p q \<longleftrightarrow> snd (pr_precedence p) < snd (pr_precedence q)"

text \<open>The report that \<^verbatim>\<open>notify_cp_requested\<close> builds is never sent; what remains is the flag.\<close>

definition notify_cp_requested :: "pfcp_pdr \<Rightarrow> pfcp_pdr" where
  "notify_cp_requested p = (if \<not> pr_notified_cp p then p\<lparr>pr_notified_cp := True\<rparr> else p)"

section \<open>What an update changes\<close>

text \<open>An optional member after an update: the new value when the request has it, else the old.\<close>

definition merged :: "'a optm \<Rightarrow> 'a optm \<Rightarrow> 'a optm" where
  "merged new old = (if fst new then (True, snd new) else old)"

lemma upd_member_get [simp]: "upd_member (opt_get n (snd m)) m = merged n m"
  by (cases m) (simp add: upd_member_def opt_get_def merged_def)

lemmas update_getters = update_pdr_get_outer_header_removal_def update_pdr_get_precedence_def
  update_pdr_get_pdi_def update_pdr_get_far_id_def update_pdr_get_urr_id_def
  update_pdr_get_qer_id_def update_far_get_apply_action_def update_far_get_bar_id_def

lemma pfcp_pdr_update_eq:
  "pfcp_pdr_update u p =
     (True,
      p\<lparr>pr_outer_header_removal := merged (upd_outer_header_removal u) (pr_outer_header_removal p),
        pr_precedence := merged (upd_precedence u) (pr_precedence p),
        pr_pdi := merged (upd_pdi u) (pr_pdi p),
        pr_far_id := merged (upd_far_id u) (pr_far_id p),
        pr_urr_id := merged (upd_urr_id u) (pr_urr_id p),
        pr_qer_id := merged (upd_qer_id u) (pr_qer_id p)\<rparr>)"
  by (simp add: pfcp_pdr_update_def update_getters)

lemma pfcp_far_update_ids [simp]:
  "fa_far_id (snd (pfcp_far_update u f)) = fa_far_id f" "fst (pfcp_far_update u f)"
  by (simp_all add: pfcp_far_update_def Let_def split_def)

lemma pfcp_pdr_update_ids [simp]:
  "pr_pdr_id (snd (pfcp_pdr_update u p)) = pr_pdr_id p" "fst (pfcp_pdr_update u p)"
  by (simp_all add: pfcp_pdr_update_eq)

lemma far_update_keeps_presence:
  "fst (fa_forwarding_parameters (snd (pfcp_far_update u f))) = fst (fa_forwarding_parameters f)"
  by (simp add: pfcp_far_update_def Let_def split_def)

lemma forwarding_parameters_update_eq:
  "forwarding_parameters_update u c =
     (True,
      c\<lparr>fp_destination_interface := merged (ufp_destination_interface u) (fp_destination_interface c),
        fp_network_instance := merged (ufp_network_instance u) (fp_network_instance c),
        fp_outer_header_creation := merged (ufp_outer_header_creation u) (fp_outer_header_creation c),
        fp_transport_level_marking :=
          merged (ufp_transport_level_marking u) (fp_transport_level_marking c),
        fp_forwarding_policy := merged (ufp_forwarding_policy u) (fp_forwarding_policy c),
        fp_header_enrichment := merged (ufp_header_enrichment u) (fp_header_enrichment c),
        fp_linked_traffic_endpoint_id :=
          merged (ufp_linked_traffic_endpoint_id u) (fp_linked_traffic_endpoint_id c)\<rparr>)"
  by (simp add: forwarding_parameters_update_def Let_def merged_def
      forwarding_parameters_set_destination_interface_def forwarding_parameters_set_network_instance_def
      forwarding_parameters_set_outer_header_creation_def
      forwarding_parameters_set_transport_level_marking_def
      forwarding_parameters_set_forwarding_policy_def forwarding_parameters_set_header_enrichment_def
      forwarding_parameters_set_linked_traffic_endpoint_id_def)

end
