(* ===== verification/Pfcp_Session.thy ===== *)
theory Pfcp_Session
  imports Pfcp_Rules
begin

text \<open>
  The rule tables of a session, \<^verbatim>\<open>src/oai/pfcp/pfcp_session.cpp\<close>: two vectors of rules that are
  searched from the front by identifier.  An operation that the source declares as \<^verbatim>\<open>bool\<close> with
  reference parameters for the cause and the offending element returns the flag, the cause, the
  offending element and the session.

  Both vectors meet the contract \<open>rule_table\<close>, from which the lemmas about sequences of
  operations follow for FARs and PDRs alike.
\<close>

section \<open>Definitions\<close>

abbreviation (input) CAUSE_VALUE_REQUEST_REJECTED :: u8 where "CAUSE_VALUE_REQUEST_REJECTED \<equiv> 64"
abbreviation (input) CAUSE_VALUE_MANDATORY_IE_MISSING :: u8
  where "CAUSE_VALUE_MANDATORY_IE_MISSING \<equiv> 66"
abbreviation (input) CAUSE_VALUE_RULE_CREATION_MODIFICATION_FAILURE :: u8
  where "CAUSE_VALUE_RULE_CREATION_MODIFICATION_FAILURE \<equiv> 73"

abbreviation (input) PFCP_IE_PDI :: u16 where "PFCP_IE_PDI \<equiv> 2"
abbreviation (input) PFCP_IE_FORWARDING_PARAMETERS :: u16 where "PFCP_IE_FORWARDING_PARAMETERS \<equiv> 4"
abbreviation (input) PFCP_IE_DUPLICATING_PARAMETERS :: u16 where "PFCP_IE_DUPLICATING_PARAMETERS \<equiv> 5"
abbreviation (input) PFCP_IE_SOURCE_INTERFACE :: u16 where "PFCP_IE_SOURCE_INTERFACE \<equiv> 20"
abbreviation (input) PFCP_IE_F_TEID :: u16 where "PFCP_IE_F_TEID \<equiv> 21"
abbreviation (input) PFCP_IE_PRECEDENCE :: u16 where "PFCP_IE_PRECEDENCE \<equiv> 29"
abbreviation (input) PFCP_IE_APPLY_ACTION :: u16 where "PFCP_IE_APPLY_ACTION \<equiv> 44"
abbreviation (input) PFCP_IE_PACKET_DETECTION_RULE_ID :: u16
  where "PFCP_IE_PACKET_DETECTION_RULE_ID \<equiv> 56"
abbreviation (input) PFCP_IE_FAR_ID :: u16 where "PFCP_IE_FAR_ID \<equiv> 108"

record pfcp_session =
  ses_cp_fseid :: fseid_t
  ses_seid :: u64
  ses_pdrs :: "pfcp_pdr list"
  ses_fars :: "pfcp_far list"

definition new_pfcp_session :: "fseid_t \<Rightarrow> u64 \<Rightarrow> pfcp_session" where
  "new_pfcp_session cp up_seid =
     \<lparr>ses_cp_fseid = cp, ses_seid = up_seid, ses_pdrs = [], ses_fars = []\<rparr>"

fun find_far :: "u32 \<Rightarrow> pfcp_far list \<Rightarrow> pfcp_far option" where
  "find_far i [] = None"
| "find_far i (f # fs) = (if fa_far_id f = i then Some f else find_far i fs)"

fun find_pdr :: "u16 \<Rightarrow> pfcp_pdr list \<Rightarrow> pfcp_pdr option" where
  "find_pdr i [] = None"
| "find_pdr i (p # ps) = (if pr_pdr_id p = i then Some p else find_pdr i ps)"

definition session_get_far :: "pfcp_session \<Rightarrow> u32 \<Rightarrow> pfcp_far option" where
  "session_get_far s far_id = find_far far_id (ses_fars s)"

definition session_get_pdr :: "pfcp_session \<Rightarrow> u16 \<Rightarrow> pfcp_pdr option" where
  "session_get_pdr s pdr_id = find_pdr pdr_id (ses_pdrs s)"

definition session_add_far :: "pfcp_far \<Rightarrow> pfcp_session \<Rightarrow> pfcp_session" where
  "session_add_far f s = s\<lparr>ses_fars := ses_fars s @ [f]\<rparr>"

definition session_add_pdr :: "pfcp_pdr \<Rightarrow> pfcp_session \<Rightarrow> pfcp_session" where
  "session_add_pdr p s = s\<lparr>ses_pdrs := ses_pdrs s @ [p]\<rparr>"

text \<open>\<open>None\<close> when the loop runs to the end of the vector without erasing.\<close>

fun erase_far :: "u32 \<Rightarrow> pfcp_far list \<Rightarrow> pfcp_far list option" where
  "erase_far i [] = None"
| "erase_far i (f # fs) = (if fa_far_id f = i then Some fs else map_option ((#) f) (erase_far i fs))"

fun erase_pdr :: "u16 \<Rightarrow> pfcp_pdr list \<Rightarrow> pfcp_pdr list option" where
  "erase_pdr i [] = None"
| "erase_pdr i (p # ps) = (if pr_pdr_id p = i then Some ps else map_option ((#) p) (erase_pdr i ps))"

definition session_remove_far :: "u32 \<Rightarrow> u8 \<Rightarrow> pfcp_session \<Rightarrow> bool \<times> u8 \<times> pfcp_session" where
  "session_remove_far i cause s =
     (case erase_far i (ses_fars s) of
        Some fs \<Rightarrow> (True, cause, s\<lparr>ses_fars := fs\<rparr>)
      | None \<Rightarrow> (False, CAUSE_VALUE_RULE_CREATION_MODIFICATION_FAILURE, s))"

definition session_remove_pdr :: "u16 \<Rightarrow> u8 \<Rightarrow> pfcp_session \<Rightarrow> bool \<times> u8 \<times> pfcp_session" where
  "session_remove_pdr i cause s =
     (case erase_pdr i (ses_pdrs s) of
        Some ps \<Rightarrow> (True, cause, s\<lparr>ses_pdrs := ps\<rparr>)
      | None \<Rightarrow> (False, CAUSE_VALUE_RULE_CREATION_MODIFICATION_FAILURE, s))"

text \<open>\<^verbatim>\<open>get\<close> hands out the shared rule, which is then updated in place.\<close>

fun replace_far :: "u32 \<Rightarrow> pfcp_far \<Rightarrow> pfcp_far list \<Rightarrow> pfcp_far list" where
  "replace_far i g [] = []"
| "replace_far i g (f # fs) = (if fa_far_id f = i then g # fs else f # replace_far i g fs)"

fun replace_pdr :: "u16 \<Rightarrow> pfcp_pdr \<Rightarrow> pfcp_pdr list \<Rightarrow> pfcp_pdr list" where
  "replace_pdr i q [] = []"
| "replace_pdr i q (p # ps) = (if pr_pdr_id p = i then q # ps else p # replace_pdr i q ps)"

definition session_update_far :: "update_far \<Rightarrow> u8 \<Rightarrow> pfcp_session \<Rightarrow> bool \<times> u8 \<times> pfcp_session" where
  "session_update_far u cause s =
     (case session_get_far s (uf_far_id u) of
        Some f \<Rightarrow>
          (let (r, g) = pfcp_far_update u f
           in (r, cause, s\<lparr>ses_fars := replace_far (uf_far_id u) g (ses_fars s)\<rparr>))
      | None \<Rightarrow> (False, CAUSE_VALUE_RULE_CREATION_MODIFICATION_FAILURE, s))"

definition session_update_pdr :: "update_pdr \<Rightarrow> u8 \<Rightarrow> pfcp_session \<Rightarrow> bool \<times> u8 \<times> pfcp_session" where
  "session_update_pdr u cause s =
     (case session_get_pdr s (upd_pdr_id u) of
        Some p \<Rightarrow>
          (let (r, q) = pfcp_pdr_update u p
           in (r, cause, s\<lparr>ses_pdrs := replace_pdr (upd_pdr_id u) q (ses_pdrs s)\<rparr>))
      | None \<Rightarrow> (False, CAUSE_VALUE_RULE_CREATION_MODIFICATION_FAILURE, s))"

definition session_create_far ::
    "create_far \<Rightarrow> cause_t \<Rightarrow> u16 \<Rightarrow> pfcp_session \<Rightarrow> bool \<times> cause_t \<times> u16 \<times> pfcp_session" where
  "session_create_far cr_far cause offending_ie s =
     (if \<not> fst (cf_far_id cr_far)
      then (False, CAUSE_VALUE_MANDATORY_IE_MISSING, PFCP_IE_FAR_ID, s)
      else if \<not> fst (cf_apply_action cr_far)
      then (False, CAUSE_VALUE_MANDATORY_IE_MISSING, PFCP_IE_APPLY_ACTION, s)
      else if aa_forw (snd (cf_apply_action cr_far)) \<and> \<not> fst (cf_forwarding_parameters cr_far)
      then (False, CAUSE_VALUE_MANDATORY_IE_MISSING, PFCP_IE_FORWARDING_PARAMETERS, s)
      else if aa_dupl (snd (cf_apply_action cr_far)) \<and> \<not> fst (cf_duplicating_parameters cr_far)
      then (False, CAUSE_VALUE_MANDATORY_IE_MISSING, PFCP_IE_DUPLICATING_PARAMETERS, s)
      else (True, cause, offending_ie, session_add_far (pfcp_far_of_create cr_far) s))"

definition session_create_pdr ::
    "create_pdr \<Rightarrow> cause_t \<Rightarrow> u16 \<Rightarrow> pfcp_session \<Rightarrow> bool \<times> cause_t \<times> u16 \<times> pfcp_session" where
  "session_create_pdr cr_pdr cause offending_ie s =
     (if \<not> fst (cp_pdr_id cr_pdr)
      then (False, CAUSE_VALUE_MANDATORY_IE_MISSING, PFCP_IE_PACKET_DETECTION_RULE_ID, s)
      else if \<not> fst (cp_pdi cr_pdr)
      then (False, CAUSE_VALUE_MANDATORY_IE_MISSING, PFCP_IE_PDI, s)
      else if \<not> fst (cp_precedence cr_pdr)
      then (False, CAUSE_VALUE_MANDATORY_IE_MISSING, PFCP_IE_PRECEDENCE, s)
      else
        (let pdi = snd (cp_pdi cr_pdr);
             pdr = pfcp_pdr_set_local_seid (ses_seid s) (pfcp_pdr_of_create cr_pdr)
         in if \<not> fst (pd_source_interface pdi)
            then (False, CAUSE_VALUE_MANDATORY_IE_MISSING, PFCP_IE_SOURCE_INTERFACE, s)
            else if fst (pd_traffic_endpoint_id pdi)
            then (False, CAUSE_VALUE_REQUEST_REJECTED, offending_ie, s)
            else if snd (pd_source_interface pdi) = INTERFACE_VALUE_ACCESS then
              (if \<not> fst (pd_local_fteid pdi)
               then (False, CAUSE_VALUE_MANDATORY_IE_MISSING, PFCP_IE_F_TEID, s)
               else (True, cause, offending_ie, session_add_pdr pdr s))
            else if snd (pd_source_interface pdi) = INTERFACE_VALUE_CORE
            then (True, cause, offending_ie, session_add_pdr pdr s)
            else (False, CAUSE_VALUE_REQUEST_REJECTED, offending_ie, s)))"

definition session_remove_far_ie ::
    "remove_far \<Rightarrow> cause_t \<Rightarrow> u16 \<Rightarrow> pfcp_session \<Rightarrow> bool \<times> cause_t \<times> u16 \<times> pfcp_session" where
  "session_remove_far_ie rm_far cause offending_ie s =
     (if \<not> fst (rf_far_id rm_far)
      then (False, CAUSE_VALUE_MANDATORY_IE_MISSING, PFCP_IE_FAR_ID, s)
      else (let (r, cause', s') = session_remove_far (snd (rf_far_id rm_far)) cause s
            in (r, cause', offending_ie, s')))"

definition session_remove_pdr_ie ::
    "remove_pdr \<Rightarrow> cause_t \<Rightarrow> u16 \<Rightarrow> pfcp_session \<Rightarrow> bool \<times> cause_t \<times> u16 \<times> pfcp_session" where
  "session_remove_pdr_ie rm_pdr cause offending_ie s =
     (if \<not> fst (rp_pdr_id rm_pdr)
      then (False, CAUSE_VALUE_MANDATORY_IE_MISSING, PFCP_IE_PACKET_DETECTION_RULE_ID, s)
      else (let (r, cause', s') = session_remove_pdr (snd (rp_pdr_id rm_pdr)) cause s
            in (r, cause', offending_ie, s')))"

definition session_cleanup :: "pfcp_session \<Rightarrow> pfcp_session" where
  "session_cleanup s = s\<lparr>ses_fars := [], ses_pdrs := []\<rparr>"

definition session_get_up_seid :: "pfcp_session \<Rightarrow> u64" where
  "session_get_up_seid s = ses_seid s"

section \<open>The contract of a rule table\<close>

locale rule_table =
  fixes rule_id :: "'r \<Rightarrow> 'k"
    and ids :: "'s \<Rightarrow> 'k list"
    and get :: "'s \<Rightarrow> 'k \<Rightarrow> 'r option"
    and add :: "'r \<Rightarrow> 's \<Rightarrow> 's"
    and remove :: "'k \<Rightarrow> 's \<Rightarrow> bool \<times> 's"
    and replace :: "'k \<Rightarrow> 'r \<Rightarrow> 's \<Rightarrow> 's"
  assumes get_None: "get s i = None \<longleftrightarrow> i \<notin> set (ids s)"
    and get_id: "get s i = Some r \<Longrightarrow> rule_id r = i"
    and get_add: "get (add r s) i =
                    (if i \<in> set (ids s) then get s i else if rule_id r = i then Some r else None)"
    and ids_add: "ids (add r s) = ids s @ [rule_id r]"
    and remove_found: "fst (remove i s) \<longleftrightarrow> i \<in> set (ids s)"
    and ids_remove: "ids (snd (remove i s)) = remove1 i (ids s)"
    and get_remove_other: "i \<noteq> j \<Longrightarrow> get (snd (remove i s)) j = get s j"
    and ids_replace: "rule_id r = i \<Longrightarrow> ids (replace i r s) = ids s"
    and get_replace: "rule_id r = i \<Longrightarrow> i \<in> set (ids s) \<Longrightarrow>
                        get (replace i r s) j = (if j = i then Some r else get s j)"
begin

lemma get_add_fresh: "rule_id r \<notin> set (ids s) \<Longrightarrow> get (add r s) (rule_id r) = Some r"
  by (simp add: get_add)

lemma add_keeps_distinct:
  "distinct (ids s) \<Longrightarrow> rule_id r \<notin> set (ids s) \<Longrightarrow> distinct (ids (add r s))"
  by (simp add: ids_add)

lemma remove_keeps_distinct: "distinct (ids s) \<Longrightarrow> distinct (ids (snd (remove i s)))"
  by (simp add: ids_remove)

lemma get_removed: "distinct (ids s) \<Longrightarrow> get (snd (remove i s)) i = None"
  by (simp add: get_None ids_remove)

text \<open>Adding a fresh rule and removing it again leaves every lookup as it was.\<close>

lemma remove_add:
  assumes "distinct (ids s)" and "rule_id r \<notin> set (ids s)"
  shows "get (snd (remove (rule_id r) (add r s))) j = get s j"
proof (cases "j = rule_id r")
  case True
  then show ?thesis
    using assms(2) get_removed [OF add_keeps_distinct [OF assms]] get_None [of s "rule_id r"] by metis
next
  case False
  then show ?thesis
    using assms by (simp add: get_remove_other get_add get_None) (metis get_None)
qed

lemma get_add_eq:
  "get (add r s) i = (if i = rule_id r \<and> get s i = None then Some r else get s i)"
  using get_None [of s i] by (auto simp: get_add)

text \<open>A second rule with an identifier in use is stored, but never found.\<close>

lemma add_shadowed: "rule_id r \<in> set (ids s) \<Longrightarrow> get (add r s) i = get s i"
  by (simp add: get_add) (metis get_None)

end

section \<open>Both tables meet the contract\<close>

lemma find_far_None: "find_far i fs = None \<longleftrightarrow> i \<notin> fa_far_id ` set fs"
  by (induction fs) auto

lemma find_far_id: "find_far i fs = Some f \<Longrightarrow> fa_far_id f = i"
  by (induction fs) (auto split: if_splits)

lemma find_far_append:
  "find_far i (fs @ [f]) = (case find_far i fs of Some g \<Rightarrow> Some g
     | None \<Rightarrow> if fa_far_id f = i then Some f else None)"
  by (induction fs) auto

lemma erase_far_None: "erase_far i fs = None \<longleftrightarrow> i \<notin> fa_far_id ` set fs"
  by (induction fs) auto

lemma erase_far_effect:
  "erase_far i fs = Some gs \<Longrightarrow>
     map fa_far_id gs = remove1 i (map fa_far_id fs) \<and> (\<forall>j. j \<noteq> i \<longrightarrow> find_far j gs = find_far j fs)"
  by (induction fs arbitrary: gs) (auto split: if_splits)

lemma replace_far_effect:
  "fa_far_id g = i \<Longrightarrow> map fa_far_id (replace_far i g fs) = map fa_far_id fs"
  "fa_far_id g = i \<Longrightarrow> i \<in> fa_far_id ` set fs \<Longrightarrow>
     find_far j (replace_far i g fs) = (if j = i then Some g else find_far j fs)"
  by (induction fs) auto

interpretation fars: rule_table fa_far_id "\<lambda>s. map fa_far_id (ses_fars s)" session_get_far
    session_add_far "\<lambda>i s. (\<lambda>(r, c, s'). (r, s')) (session_remove_far i cause s)"
    "\<lambda>i g s. s\<lparr>ses_fars := replace_far i g (ses_fars s)\<rparr>" for cause
proof
  fix s :: pfcp_session and i j f
  show "session_get_far s i = None \<longleftrightarrow> i \<notin> set (map fa_far_id (ses_fars s))"
    by (simp add: session_get_far_def find_far_None)
  show "session_get_far s i = Some f \<Longrightarrow> fa_far_id f = i"
    by (simp add: session_get_far_def find_far_id)
  show "session_get_far (session_add_far f s) i =
      (if i \<in> set (map fa_far_id (ses_fars s)) then session_get_far s i
       else if fa_far_id f = i then Some f else None)"
    using find_far_None [of i "ses_fars s"]
    by (auto simp: session_get_far_def session_add_far_def find_far_append split: option.splits)
  show "map fa_far_id (ses_fars (session_add_far f s)) = map fa_far_id (ses_fars s) @ [fa_far_id f]"
    by (simp add: session_add_far_def)
  show "fst ((\<lambda>(r, c, s'). (r, s')) (session_remove_far i cause s))
      \<longleftrightarrow> i \<in> set (map fa_far_id (ses_fars s))"
    using erase_far_None [of i "ses_fars s"]
    by (auto simp: session_remove_far_def split: option.splits)
  show "map fa_far_id (ses_fars (snd ((\<lambda>(r, c, s'). (r, s')) (session_remove_far i cause s))))
      = remove1 i (map fa_far_id (ses_fars s))"
    using erase_far_None [of i "ses_fars s"] erase_far_effect [of i "ses_fars s"]
    by (auto simp: session_remove_far_def remove1_idem split: option.splits)
  show "i \<noteq> j \<Longrightarrow> session_get_far (snd ((\<lambda>(r, c, s'). (r, s')) (session_remove_far i cause s))) j
      = session_get_far s j"
    using erase_far_effect [of i "ses_fars s"]
    by (auto simp: session_remove_far_def session_get_far_def split: option.splits)
  show "fa_far_id f = i \<Longrightarrow> map fa_far_id (ses_fars (s\<lparr>ses_fars := replace_far i f (ses_fars s)\<rparr>))
      = map fa_far_id (ses_fars s)"
    by (simp add: replace_far_effect)
  show "fa_far_id f = i \<Longrightarrow> i \<in> set (map fa_far_id (ses_fars s)) \<Longrightarrow>
      session_get_far (s\<lparr>ses_fars := replace_far i f (ses_fars s)\<rparr>) j
      = (if j = i then Some f else session_get_far s j)"
    by (simp add: session_get_far_def replace_far_effect)
qed

lemma find_pdr_None: "find_pdr i fs = None \<longleftrightarrow> i \<notin> pr_pdr_id ` set fs"
  by (induction fs) auto

lemma find_pdr_id: "find_pdr i fs = Some f \<Longrightarrow> pr_pdr_id f = i"
  by (induction fs) (auto split: if_splits)

lemma find_pdr_append:
  "find_pdr i (fs @ [f]) = (case find_pdr i fs of Some g \<Rightarrow> Some g
     | None \<Rightarrow> if pr_pdr_id f = i then Some f else None)"
  by (induction fs) auto

lemma erase_pdr_None: "erase_pdr i fs = None \<longleftrightarrow> i \<notin> pr_pdr_id ` set fs"
  by (induction fs) auto

lemma erase_pdr_effect:
  "erase_pdr i fs = Some gs \<Longrightarrow>
     map pr_pdr_id gs = remove1 i (map pr_pdr_id fs) \<and> (\<forall>j. j \<noteq> i \<longrightarrow> find_pdr j gs = find_pdr j fs)"
  by (induction fs arbitrary: gs) (auto split: if_splits)

lemma replace_pdr_effect:
  "pr_pdr_id g = i \<Longrightarrow> map pr_pdr_id (replace_pdr i g fs) = map pr_pdr_id fs"
  "pr_pdr_id g = i \<Longrightarrow> i \<in> pr_pdr_id ` set fs \<Longrightarrow>
     find_pdr j (replace_pdr i g fs) = (if j = i then Some g else find_pdr j fs)"
  by (induction fs) auto

interpretation pdrs: rule_table pr_pdr_id "\<lambda>s. map pr_pdr_id (ses_pdrs s)" session_get_pdr
    session_add_pdr "\<lambda>i s. (\<lambda>(r, c, s'). (r, s')) (session_remove_pdr i cause s)"
    "\<lambda>i g s. s\<lparr>ses_pdrs := replace_pdr i g (ses_pdrs s)\<rparr>" for cause
proof
  fix s :: pfcp_session and i j f
  show "session_get_pdr s i = None \<longleftrightarrow> i \<notin> set (map pr_pdr_id (ses_pdrs s))"
    by (simp add: session_get_pdr_def find_pdr_None)
  show "session_get_pdr s i = Some f \<Longrightarrow> pr_pdr_id f = i"
    by (simp add: session_get_pdr_def find_pdr_id)
  show "session_get_pdr (session_add_pdr f s) i =
      (if i \<in> set (map pr_pdr_id (ses_pdrs s)) then session_get_pdr s i
       else if pr_pdr_id f = i then Some f else None)"
    using find_pdr_None [of i "ses_pdrs s"]
    by (auto simp: session_get_pdr_def session_add_pdr_def find_pdr_append split: option.splits)
  show "map pr_pdr_id (ses_pdrs (session_add_pdr f s)) = map pr_pdr_id (ses_pdrs s) @ [pr_pdr_id f]"
    by (simp add: session_add_pdr_def)
  show "fst ((\<lambda>(r, c, s'). (r, s')) (session_remove_pdr i cause s))
      \<longleftrightarrow> i \<in> set (map pr_pdr_id (ses_pdrs s))"
    using erase_pdr_None [of i "ses_pdrs s"]
    by (auto simp: session_remove_pdr_def split: option.splits)
  show "map pr_pdr_id (ses_pdrs (snd ((\<lambda>(r, c, s'). (r, s')) (session_remove_pdr i cause s))))
      = remove1 i (map pr_pdr_id (ses_pdrs s))"
    using erase_pdr_None [of i "ses_pdrs s"] erase_pdr_effect [of i "ses_pdrs s"]
    by (auto simp: session_remove_pdr_def remove1_idem split: option.splits)
  show "i \<noteq> j \<Longrightarrow> session_get_pdr (snd ((\<lambda>(r, c, s'). (r, s')) (session_remove_pdr i cause s))) j
      = session_get_pdr s j"
    using erase_pdr_effect [of i "ses_pdrs s"]
    by (auto simp: session_remove_pdr_def session_get_pdr_def split: option.splits)
  show "pr_pdr_id f = i \<Longrightarrow> map pr_pdr_id (ses_pdrs (s\<lparr>ses_pdrs := replace_pdr i f (ses_pdrs s)\<rparr>))
      = map pr_pdr_id (ses_pdrs s)"
    by (simp add: replace_pdr_effect)
  show "pr_pdr_id f = i \<Longrightarrow> i \<in> set (map pr_pdr_id (ses_pdrs s)) \<Longrightarrow>
      session_get_pdr (s\<lparr>ses_pdrs := replace_pdr i f (ses_pdrs s)\<rparr>) j
      = (if j = i then Some f else session_get_pdr s j)"
    by (simp add: session_get_pdr_def replace_pdr_effect)
qed

section \<open>Requests\<close>

text \<open>The elements a request must have, and the first one that is missing.\<close>

definition far_missing :: "create_far \<Rightarrow> u16 option" where
  "far_missing c =
     (if \<not> fst (cf_far_id c) then Some PFCP_IE_FAR_ID
      else if \<not> fst (cf_apply_action c) then Some PFCP_IE_APPLY_ACTION
      else if aa_forw (snd (cf_apply_action c)) \<and> \<not> fst (cf_forwarding_parameters c)
      then Some PFCP_IE_FORWARDING_PARAMETERS
      else if aa_dupl (snd (cf_apply_action c)) \<and> \<not> fst (cf_duplicating_parameters c)
      then Some PFCP_IE_DUPLICATING_PARAMETERS
      else None)"

definition pdr_missing :: "create_pdr \<Rightarrow> u16 option" where
  "pdr_missing c =
     (if \<not> fst (cp_pdr_id c) then Some PFCP_IE_PACKET_DETECTION_RULE_ID
      else if \<not> fst (cp_pdi c) then Some PFCP_IE_PDI
      else if \<not> fst (cp_precedence c) then Some PFCP_IE_PRECEDENCE
      else if \<not> fst (pd_source_interface (snd (cp_pdi c))) then Some PFCP_IE_SOURCE_INTERFACE
      else if \<not> fst (pd_traffic_endpoint_id (snd (cp_pdi c)))
              \<and> snd (pd_source_interface (snd (cp_pdi c))) = INTERFACE_VALUE_ACCESS
              \<and> \<not> fst (pd_local_fteid (snd (cp_pdi c)))
      then Some PFCP_IE_F_TEID
      else None)"

definition pdr_supported :: "create_pdr \<Rightarrow> bool" where
  "pdr_supported c \<longleftrightarrow>
     \<not> fst (pd_traffic_endpoint_id (snd (cp_pdi c))) \<and>
     snd (pd_source_interface (snd (cp_pdi c))) \<in> {INTERFACE_VALUE_ACCESS, INTERFACE_VALUE_CORE}"

definition pdr_installed :: "pfcp_session \<Rightarrow> create_pdr \<Rightarrow> pfcp_pdr" where
  "pdr_installed s c = (pfcp_pdr_of_create c)\<lparr>pr_local_seid := ses_seid s\<rparr>"

lemma session_create_far_eq:
  "session_create_far c cause ie s =
     (case far_missing c of
        Some m \<Rightarrow> (False, CAUSE_VALUE_MANDATORY_IE_MISSING, m, s)
      | None \<Rightarrow> (True, cause, ie, session_add_far (pfcp_far_of_create c) s))"
  by (simp add: session_create_far_def far_missing_def)

lemma session_create_pdr_eq:
  "session_create_pdr c cause ie s =
     (case pdr_missing c of
        Some m \<Rightarrow> (False, CAUSE_VALUE_MANDATORY_IE_MISSING, m, s)
      | None \<Rightarrow> (if pdr_supported c then (True, cause, ie, session_add_pdr (pdr_installed s c) s)
                else (False, CAUSE_VALUE_REQUEST_REJECTED, ie, s)))"
  by (simp add: session_create_pdr_def pdr_missing_def pdr_supported_def Let_def pdr_installed_def
      pfcp_pdr_set_local_seid_def)

lemma pfcp_far_of_create_id [simp]: "fa_far_id (pfcp_far_of_create c) = snd (cf_far_id c)"
  by (simp add: pfcp_far_of_create_def)

lemma pdr_installed_id [simp]: "pr_pdr_id (pdr_installed s c) = snd (cp_pdr_id c)"
  by (simp add: pdr_installed_def pfcp_pdr_of_create_def)

section \<open>Properties\<close>

text \<open>
  C32: Creating a FAR.  A request that lacks a mandatory element is refused with that element as
  the offending one and the session unchanged.  Otherwise the FAR of the request is stored: it
  is found under its identifier unless the session already had a FAR with this identifier, which
  then stays the one that is found; every other FAR and all PDRs are untouched.
\<close>

theorem session_create_far_spec:
  "case far_missing c of
     Some m \<Rightarrow> session_create_far c cause ie s = (False, CAUSE_VALUE_MANDATORY_IE_MISSING, m, s)
   | None \<Rightarrow> \<exists>s'. session_create_far c cause ie s = (True, cause, ie, s') \<and>
       ses_pdrs s' = ses_pdrs s \<and> ses_seid s' = ses_seid s \<and>
       (\<forall>i. session_get_far s' i =
             (if i = snd (cf_far_id c) \<and> session_get_far s i = None
              then Some (pfcp_far_of_create c) else session_get_far s i))"
  using fars.get_add_eq [of "pfcp_far_of_create c" s]
  by (auto simp: session_create_far_eq session_add_far_def split: option.splits)

text \<open>
  C33: Creating a PDR.  A missing mandatory element (the F-TEID is mandatory on the access side)
  is reported; a traffic endpoint or a source interface other than access and core is rejected;
  otherwise the PDR is stored with the session's identifier, and found under its own unless that
  was taken.  A refused request leaves the session unchanged.
\<close>

theorem session_create_pdr_spec:
  "case pdr_missing c of
     Some m \<Rightarrow> session_create_pdr c cause ie s = (False, CAUSE_VALUE_MANDATORY_IE_MISSING, m, s)
   | None \<Rightarrow>
       if pdr_supported c
       then \<exists>s'. session_create_pdr c cause ie s = (True, cause, ie, s') \<and>
              ses_fars s' = ses_fars s \<and> ses_seid s' = ses_seid s \<and>
              (\<forall>i. session_get_pdr s' i =
                    (if i = snd (cp_pdr_id c) \<and> session_get_pdr s i = None
                     then Some (pdr_installed s c) else session_get_pdr s i))
       else session_create_pdr c cause ie s = (False, CAUSE_VALUE_REQUEST_REJECTED, ie, s)"
  using pdrs.get_add_eq [of "pdr_installed s c" s]
  by (auto simp: session_create_pdr_eq session_add_pdr_def split: option.splits)

text \<open>
  Creating a FAR under a fresh identifier and removing it again succeeds and restores every
  lookup.
\<close>

lemma session_create_remove_far:
  assumes "far_missing c = None" and "distinct (map fa_far_id (ses_fars s))"
    and "session_get_far s (snd (cf_far_id c)) = None"
    and "rm = remove_far_set_far_id (snd (cf_far_id c)) new_remove_far"
  shows "\<exists>s' s''. session_create_far c cause ie s = (True, cause, ie, s') \<and>
           session_remove_far_ie rm cause ie s' = (True, cause, ie, s'') \<and>
           (\<forall>i. session_get_far s'' i = session_get_far s i)"
proof -
  let ?i = "snd (cf_far_id c)"
  let ?s' = "session_add_far (pfcp_far_of_create c) s"
  have fresh: "fa_far_id (pfcp_far_of_create c) \<notin> set (map fa_far_id (ses_fars s))"
    using assms(3) fars.get_None [of s ?i] by simp
  obtain r cs s'' where rem: "session_remove_far ?i cause ?s' = (r, cs, s'')"
    by (metis prod_cases3)
  have "r" and "cs = cause"
    using rem fars.remove_found [where i = ?i and s = ?s' and cause = cause]
      fars.ids_add [of "pfcp_far_of_create c" s]
    by (auto simp: session_remove_far_def split: option.splits)
  moreover have "session_get_far s'' i = session_get_far s i" for i
    using rem fars.remove_add [OF assms(2) fresh, where cause = cause] by simp
  ultimately show ?thesis
    using assms rem
    by (simp add: session_create_far_eq session_remove_far_ie_def remove_far_set_far_id_def)
qed

definition sample_create_far :: "u32 \<Rightarrow> create_far" where
  "sample_create_far i =
     new_create_far\<lparr>cf_far_id := (True, i), cf_apply_action := (True, apply_action_of_mem (flag 6 True)),
                    cf_forwarding_parameters := (True, new_forwarding_parameters)\<rparr>"

lemma sample_far_missing [simp]: "far_missing (sample_create_far i) = None"
  by (simp add: far_missing_def sample_create_far_def apply_action_of_mem_def)

lemma sample_create_far_id [simp]: "cf_far_id (sample_create_far i) = (True, i)"
  by (simp add: sample_create_far_def)

lemma session_create_remove_far_witness:
  "\<exists>s' s''. session_create_far (sample_create_far 5) 1 0 (new_pfcp_session fseid0 9) = (True, 1, 0, s') \<and>
     session_remove_far_ie (remove_far_set_far_id 5 new_remove_far) 1 0 s' = (True, 1, 0, s'') \<and>
     (\<forall>i. session_get_far s'' i = None)"
  using session_create_remove_far [of "sample_create_far 5" "new_pfcp_session fseid0 9"
      "remove_far_set_far_id 5 new_remove_far" 1 0]
  by (simp add: new_pfcp_session_def session_get_far_def)


text \<open>
  An update never makes forwarding parameters present.  A FAR created without them that is
  later updated with forwarding parameters stores the new values, but its getter still answers
  that it has none.
\<close>

theorem session_update_far_keeps_absent:
  assumes "session_get_far s (uf_far_id u) = Some f" and "\<not> fst (fa_forwarding_parameters f)"
  shows "\<exists>s' g. session_update_far u cause s = (True, cause, s') \<and>
           session_get_far s' (uf_far_id u) = Some g \<and>
           pfcp_far_get_forwarding_parameters g v = (False, v)"
proof -
  let ?g = "snd (pfcp_far_update u f)"
  have id: "fa_far_id ?g = uf_far_id u" and mem: "uf_far_id u \<in> set (map fa_far_id (ses_fars s))"
    using assms(1) fars.get_id [OF assms(1)] fars.get_None [of s "uf_far_id u"] by simp_all
  then show ?thesis
    using assms fars.get_replace [OF id mem, of "uf_far_id u"] far_update_keeps_presence [of u f]
    by (simp add: session_update_far_def split_def pfcp_far_get_forwarding_parameters_def opt_get_def)
qed

theorem session_update_far_keeps_absent_witness:
  "\<exists>s' g. session_update_far
       (new_update_far\<lparr>uf_far_id := 5,
          uf_update_forwarding_parameters := (True, new_update_forwarding_parameters)\<rparr>) 1
       ((new_pfcp_session fseid0 9)\<lparr>ses_fars := [pfcp_far_of_create (new_create_far\<lparr>cf_far_id := (True, 5)\<rparr>)]\<rparr>)
       = (True, 1, s') \<and>
     session_get_far s' 5 = Some g \<and>
     pfcp_far_get_forwarding_parameters g new_forwarding_parameters = (False, new_forwarding_parameters)"
  using session_update_far_keeps_absent
    [of "(new_pfcp_session fseid0 9)\<lparr>ses_fars := [pfcp_far_of_create (new_create_far\<lparr>cf_far_id := (True, 5)\<rparr>)]\<rparr>"
        "new_update_far\<lparr>uf_far_id := 5,
           uf_update_forwarding_parameters := (True, new_update_forwarding_parameters)\<rparr>"
        "pfcp_far_of_create (new_create_far\<lparr>cf_far_id := (True, 5)\<rparr>)" 1 new_forwarding_parameters]
  by (simp add: session_get_far_def pfcp_far_of_create_def new_create_far_def)

end
