(* ===== verification/Session_Program_Manager.thy ===== *)
theory Session_Program_Manager
  imports Upf_Programs Pfcp_Session
begin

text \<open>
  The deployment of pipelines: \<^verbatim>\<open>src/SessionProgramManager.cpp\<close>, \<^verbatim>\<open>src/SessionPrograms.cpp\<close> and the
  counter of \<^verbatim>\<open>src/programs/BPFProgram.cpp\<close>.  The singletons of the source are one state record.
  FAR programs are objects on a heap, addressed by the number \<^verbatim>\<open>BPFProgram\<close> gave them, because
  they are shared between the kernel's program array and the session table.

  The abstract view of the manager is the table from detection keys to FARs that the entry
  program sees (\<open>dispatch\<close>) together with the sessions that own the keys (\<open>owned\<close>); creating and
  removing a pipeline are the insertion and deletion of one entry as long as sessions and keys
  are fresh and the program array has room.
\<close>

section \<open>State\<close>

record upf_env =
  ue_far_env :: "u32 \<Rightarrow> far_skeleton lc_env"
  ue_session_env :: "u32 \<Rightarrow> session_skeleton lc_env"
  ue_upf_env :: "upf_skeleton lc_env"
  ue_far_sys :: "(u8, pfcp_far_t) map_sys"
  ue_dev_sys :: "(u32, u32) map_sys"
  ue_index_sys :: "(next_rule_prog_index_key, u32) map_sys"
  ue_prog_sys :: "(u32, int) map_sys"
  ue_junk :: ProgramState
  ue_skb :: bool

record SessionPrograms =
  sp_key :: next_rule_prog_index_key
  sp_far_id :: u32

record upf_state =
  us_sIdCounter :: u32
  us_far_programs :: "u32 \<rightharpoonup> far_skeleton life_cycle"
  us_upf :: "upf_skeleton life_cycle"
  us_mSessionProgramsMap :: "u32 \<rightharpoonup> SessionPrograms"
  us_mSessionProgramMap :: "(u32 \<times> session_skeleton life_cycle) list"
  us_mProgramArray :: "int list"
  us_observer_set :: bool
  us_mSeidToSession :: "u64 \<rightharpoonup> pfcp_session"
  us_mGTPInterface :: string
  us_mUDPInterface :: string

section \<open>Objects\<close>

definition new_FARProgram :: "upf_env \<Rightarrow> (upf_state, u32) op" where
  "new_FARProgram E st =
     (Inr (us_sIdCounter st),
      st\<lparr>us_sIdCounter := us_sIdCounter st + 1,
         us_far_programs := (us_far_programs st)
           (us_sIdCounter st \<mapsto> new_life_cycle (ue_junk E) (ue_skb E))\<rparr>)"

definition on_far :: "u32 \<Rightarrow> (far_skeleton life_cycle, 'a) op \<Rightarrow> (upf_state, 'a) op" where
  "on_far i f st =
     (case us_far_programs st i of
        None \<Rightarrow> (Inl ''no such program'', st)
      | Some lc \<Rightarrow>
          (let (r, lc') = f lc in (r, st\<lparr>us_far_programs := (us_far_programs st)(i \<mapsto> lc')\<rparr>)))"

definition on_upf :: "(upf_skeleton life_cycle, 'a) op \<Rightarrow> (upf_state, 'a) op" where
  "on_upf f st = (let (r, lc') = f (us_upf st) in (r, st\<lparr>us_upf := lc'\<rparr>))"

definition far_fd :: "u32 \<Rightarrow> (upf_state, int) op" where
  "far_fd i st =
     (case Option.bind (us_far_programs st i) FARProgram_getFd of
        Some fd \<Rightarrow> (Inr fd, st)
      | None \<Rightarrow> (Inl null_skeleton, st))"

text \<open>\<^verbatim>\<open>SessionPrograms::~SessionPrograms\<close>\<close>

definition SessionPrograms_destroy :: "upf_env \<Rightarrow> SessionPrograms \<Rightarrow> (upf_state, unit) op" where
  "SessionPrograms_destroy E sp =
     on_far (sp_far_id sp) (FARProgram_tearDown (ue_far_env E (sp_far_id sp)))"

section \<open>Pipelines\<close>

text \<open>The FAR as the BPF program stores it, built from the installed rule.\<close>

definition far_of_pfcp :: "pfcp_far \<Rightarrow> pfcp_far_t" where
  "far_of_pfcp f =
     (let fwp = snd (fa_forwarding_parameters f); ohc = snd (fp_outer_header_creation fwp) in
      \<lparr>far_far_id = fa_far_id f,
       far_apply_action = apply_action_of_mem (apply_action_mem (fa_apply_action f)),
       far_forwarding_parameters =
         \<lparr>fwp_destination_interface = snd (fp_destination_interface fwp),
          fwp_outer_header_creation =
            \<lparr>ohc_description = ohcr_outer_header_creation_description ohc,
             ohc_teid = ohcr_teid ohc, ohc_ipv4_address = ohcr_ipv4_address ohc,
             ohc_port_number = ohcr_port_number ohc\<rparr>\<rparr>\<rparr>)"

definition store_pipeline :: "upf_env \<Rightarrow> u32 \<Rightarrow> SessionPrograms \<Rightarrow> (upf_state, unit) op" where
  "store_pipeline E seid sp st =
     (let st' = st\<lparr>us_mSessionProgramsMap := (us_mSessionProgramsMap st)(seid \<mapsto> sp)\<rparr>
      in case us_mSessionProgramsMap st seid of
           None \<Rightarrow> (Inr (), st')
         | Some old \<Rightarrow> SessionPrograms_destroy E old st')"

definition createPipeline ::
    "upf_env \<Rightarrow> u32 \<Rightarrow> u32 \<Rightarrow> u8 \<Rightarrow> u32 \<Rightarrow> pfcp_far \<Rightarrow> (upf_state, unit) op" where
  "createPipeline E seid teid sourceInterface ueIpAddress pFar =
     (let key = \<lparr>key_teid = teid, key_source_value = sourceInterface,
                 key_ipv4_address = ueIpAddress\<rparr> in
      sbind (new_FARProgram E) (\<lambda>id.
      seq (\<lambda>st. on_far id (FARProgram_setup (ue_far_env E id) (ue_dev_sys E)
                            (us_mUDPInterface st) (us_mGTPInterface st)) st) (
      sbind (far_fd id) (\<lambda>fd.
      seq (on_upf (UPFProgram_index_update (ue_index_sys E) key id)) (
      seq (on_upf (UPFProgram_prog_update (ue_prog_sys E) id fd)) (
      seq (on_far id (FARProgram_far_update (ue_far_sys E) 0 (far_of_pfcp pFar))) (
      store_pipeline E seid \<lparr>sp_key = key, sp_far_id = id\<rparr>)))))))"

definition removePipeline :: "upf_env \<Rightarrow> u32 \<Rightarrow> (upf_state, unit) op" where
  "removePipeline E seid st =
     (case us_mSessionProgramsMap st seid of
        None \<Rightarrow> (Inl ''The session does not exist. Cannot be removed'', st)
      | Some sp \<Rightarrow>
          seq (SessionPrograms_destroy E sp) (
          seq (\<lambda>st. (Inr (), st\<lparr>us_mSessionProgramsMap := (us_mSessionProgramsMap st)(seid := None)\<rparr>)) (
          on_upf (UPFProgram_index_remove (ue_index_sys E) (sp_key sp)))) st)"

section \<open>Session programs\<close>

text \<open>\<^verbatim>\<open>mSessionProgramMap\<close> is an ordered map: an association list sorted by key.\<close>

definition findSessionProgram :: "u32 \<Rightarrow> upf_state \<Rightarrow> session_skeleton life_cycle option" where
  "findSessionProgram seid st = map_of (us_mSessionProgramMap st) seid"

definition findSessionPrograms :: "u32 \<Rightarrow> upf_state \<Rightarrow> SessionPrograms option" where
  "findSessionPrograms seid st = us_mSessionProgramsMap st seid"

definition spm_create :: "upf_env \<Rightarrow> u32 \<Rightarrow> (upf_state, unit) op" where
  "spm_create E seid st =
     (if findSessionProgram seid st \<noteq> None
      then (Inl ''Cannot create a new program with key (seid)'', st)
      else
        (let SE = ue_session_env E seid;
             (r, lc) =
               seq (SessionProgram_setup SE) (
               seq (SessionProgram_redirect_update (ue_dev_sys E) (flow_id UPLINK)
                      (env_if_nametoindex SE (us_mUDPInterface st)))
                   (SessionProgram_redirect_update (ue_dev_sys E) (flow_id DOWNLINK)
                      (env_if_nametoindex SE (us_mGTPInterface st))))
                 (new_life_cycle (ue_junk E) (ue_skb E))
         in case r of
              Inl e \<Rightarrow> (Inl e, st)
            | Inr _ \<Rightarrow> (Inr (), st\<lparr>us_mSessionProgramMap :=
                                     insort_key fst (seid, lc) (us_mSessionProgramMap st)\<rparr>)))"

definition put_session_program :: "u32 \<Rightarrow> session_skeleton life_cycle \<Rightarrow> upf_state \<Rightarrow> upf_state" where
  "put_session_program seid lc st =
     st\<lparr>us_mSessionProgramMap :=
        map (\<lambda>p. if fst p = seid then (seid, lc) else p) (us_mSessionProgramMap st)\<rparr>"

definition spm_remove :: "upf_env \<Rightarrow> u32 \<Rightarrow> (upf_state, unit) op" where
  "spm_remove E seid st =
     (case findSessionProgram seid st of
        None \<Rightarrow> (Inl ''The session does not exist. Cannot be removed'', st)
      | Some lc \<Rightarrow>
          (case SessionProgram_tearDown (ue_session_env E seid) lc of
             (Inl e, lc') \<Rightarrow> (Inl e, put_session_program seid lc' st)
           | (Inr _, lc') \<Rightarrow>
               (Inr (), st\<lparr>us_mSessionProgramMap :=
                  filter (\<lambda>p. fst p \<noteq> seid) (us_mSessionProgramMap st)\<rparr>)))"

text \<open>
  \<^verbatim>\<open>removeAll\<close> notifies an observer through a pointer that no code of the repository sets; using
  it unset is the error \<open>''observer not set''\<close>.
\<close>

fun removeAll_loop :: "upf_env \<Rightarrow> (u32 \<times> session_skeleton life_cycle) list \<Rightarrow> (upf_state, unit) op" where
  "removeAll_loop E [] = ret ()"
| "removeAll_loop E ((seid, lc) # ps) =
     (\<lambda>st. case SessionProgram_tearDown (ue_session_env E seid) lc of
        (Inl e, lc') \<Rightarrow> (Inl e, put_session_program seid lc' st)
      | (Inr _, lc') \<Rightarrow>
          if us_observer_set st
          then seq (on_upf (UPFProgram_removeProgramMap (ue_prog_sys E) seid)) (removeAll_loop E ps)
                 (put_session_program seid lc' st)
          else (Inl ''observer not set'', put_session_program seid lc' st))"

definition removeAll :: "upf_env \<Rightarrow> (upf_state, unit) op" where
  "removeAll E st =
     seq (removeAll_loop E (us_mSessionProgramMap st))
         (\<lambda>st. (Inr (), st\<lparr>us_mSessionProgramMap := []\<rparr>)) st"

definition setOnNewSessionObserver :: "upf_state \<Rightarrow> upf_state" where
  "setOnNewSessionObserver st = st\<lparr>us_observer_set := True\<rparr>"

abbreviation (input) EMPTY_SLOT :: int where "EMPTY_SLOT \<equiv> -1"

fun find_slot :: "int list \<Rightarrow> nat \<Rightarrow> nat option" where
  "find_slot [] i = None"
| "find_slot (x # xs) i = (if x = EMPTY_SLOT then Some i else find_slot xs (i + 1))"

definition getEmptySlot :: "upf_state \<Rightarrow> string + nat" where
  "getEmptySlot st =
     (case find_slot (us_mProgramArray st) 0 of Some i \<Rightarrow> Inr i | None \<Rightarrow> Inl ''No space available'')"

text \<open>The constructor and the destructor of the manager.\<close>

definition new_SessionProgramManager :: "upf_state \<Rightarrow> upf_state" where
  "new_SessionProgramManager st =
     st\<lparr>us_mSessionProgramsMap := Map.empty, us_mSessionProgramMap := [],
        us_mProgramArray := replicate 10 EMPTY_SLOT, us_observer_set := False\<rparr>"

definition destroy_SessionProgramManager :: "upf_env \<Rightarrow> (upf_state, unit) op" where
  "destroy_SessionProgramManager E = removeAll E"

lemma find_slot_first:
  "find_slot xs i = Some k \<Longrightarrow> i \<le> k \<and> k - i < length xs \<and> xs ! (k - i) = EMPTY_SLOT \<and>
     EMPTY_SLOT \<notin> set (take (k - i) xs)"
proof (induction xs i rule: find_slot.induct)
  case (2 x xs i)
  show ?case
  proof (cases "x = EMPTY_SLOT")
    case True
    then show ?thesis using 2 by auto
  next
    case False
    then have "i + 1 \<le> k" "k - (i + 1) < length xs" "xs ! (k - (i + 1)) = EMPTY_SLOT"
        "EMPTY_SLOT \<notin> set (take (k - (i + 1)) xs)"
      using 2 by auto
    moreover from this(1) have "k - i = Suc (k - (i + 1))" by simp
    ultimately show ?thesis using False by simp
  qed
qed simp

lemma getEmptySlot_first:
  "getEmptySlot st = Inr i \<Longrightarrow> i < length (us_mProgramArray st) \<and> us_mProgramArray st ! i = EMPTY_SLOT \<and>
     EMPTY_SLOT \<notin> set (take i (us_mProgramArray st))"
  using find_slot_first [of "us_mProgramArray st" 0] by (auto simp: getEmptySlot_def split: option.splits)

lemma new_SessionProgramManager_slot: "getEmptySlot (new_SessionProgramManager st) = Inr 0"
  by (simp add: getEmptySlot_def new_SessionProgramManager_def numeral_eq_Suc)

section \<open>The table the entry program sees\<close>

definition index_of :: "upf_state \<Rightarrow> next_rule_prog_index_key \<rightharpoonup> u32" where
  "index_of st = (case lc_skeleton (us_upf st) of None \<Rightarrow> Map.empty
                  | Some sk \<Rightarrow> bm_elems (usk_m_next_rule_prog_index sk))"

definition prog_of :: "upf_state \<Rightarrow> u32 \<rightharpoonup> int" where
  "prog_of st = (case lc_skeleton (us_upf st) of None \<Rightarrow> Map.empty
                 | Some sk \<Rightarrow> bm_elems (usk_m_next_rule_prog sk))"

text \<open>
  The kernel keeps a program alive while the program array refers to it; the entry at index \<open>i\<close>
  was written for the FAR program number \<open>i\<close>.
\<close>

definition far_program_at :: "upf_state \<Rightarrow> u32 \<Rightarrow> far_skeleton option" where
  "far_program_at st i =
     (if prog_of st i = None then None else Option.bind (us_far_programs st i) lc_skeleton)"

definition dispatch :: "upf_state \<Rightarrow> next_rule_prog_index_key \<rightharpoonup> pfcp_far_t" where
  "dispatch st k =
     Option.bind (index_of st k) (\<lambda>i. Option.bind (far_program_at st i) (\<lambda>sk. bm_elems (fsk_m_far sk) 0))"

definition owned :: "upf_state \<Rightarrow> u32 \<rightharpoonup> next_rule_prog_index_key" where
  "owned st seid = map_option sp_key (us_mSessionProgramsMap st seid)"

text \<open>A deployed pipeline: reachable from the entry program, loaded, with its FAR in place.\<close>

definition pipeline_ok :: "upf_state \<Rightarrow> SessionPrograms \<Rightarrow> bool" where
  "pipeline_ok st sp \<longleftrightarrow>
     index_of st (sp_key sp) = Some (sp_far_id sp) \<and> prog_of st (sp_far_id sp) \<noteq> None \<and>
     (\<exists>lc sk. us_far_programs st (sp_far_id sp) = Some lc \<and> lc_state lc = ATTACHED \<and>
              lc_skeleton lc = Some sk \<and> bm_elems (fsk_m_far sk) 0 \<noteq> None)"

definition pm_inv :: "upf_state \<Rightarrow> bool" where
  "pm_inv st \<longleftrightarrow>
     (\<exists>usk. lc_skeleton (us_upf st) = Some usk \<and>
            bm_max_entries (usk_m_next_rule_prog_index usk) = 10 \<and>
            bm_max_entries (usk_m_next_rule_prog usk) = 10) \<and>
     (\<forall>i. us_far_programs st i \<noteq> None \<longrightarrow> i < us_sIdCounter st) \<and>
     (\<forall>seid sp. us_mSessionProgramsMap st seid = Some sp \<longrightarrow> pipeline_ok st sp) \<and>
     (\<forall>k. index_of st k \<noteq> None \<longrightarrow> k \<in> ran (owned st)) \<and>
     (\<forall>s1 s2 a b. us_mSessionProgramsMap st s1 = Some a \<and> us_mSessionProgramsMap st s2 = Some b
        \<and> (sp_key a = sp_key b \<or> sp_far_id a = sp_far_id b) \<longrightarrow> s1 = s2)"

definition upf_env_ok :: "upf_env \<Rightarrow> bool" where
  "upf_env_ok E \<longleftrightarrow>
     (\<forall>i. \<exists>sk. far_env_ok (ue_far_env E i) sk) \<and>
     map_sys_ok hash_accepts (ue_far_sys E) \<and> map_sys_ok array_accepts (ue_dev_sys E) \<and>
     map_sys_ok hash_accepts (ue_index_sys E) \<and> map_sys_ok array_accepts (ue_prog_sys E)"

lemma on_upf_ok: "f (us_upf st) = (r, lc') \<Longrightarrow> on_upf f st = (r, st\<lparr>us_upf := lc'\<rparr>)"
  by (simp add: on_upf_def)

lemma index_update_ok:
  assumes "map_sys_ok hash_accepts S" and "lc_skeleton lc = Some sk"
    and "hash_accepts (usk_m_next_rule_prog_index sk) k"
  shows "UPFProgram_index_update S k i lc =
    (Inr (), lc\<lparr>lc_skeleton := Some (sk\<lparr>usk_m_next_rule_prog_index := (usk_m_next_rule_prog_index sk)
       \<lparr>bm_elems := (bm_elems (usk_m_next_rule_prog_index sk))(k \<mapsto> i)\<rparr>\<rparr>)\<rparr>)"
  unfolding UPFProgram_index_update_def
  by (rule with_map_ok [OF assms(2)], rule map_store.update_ok [OF wrapper_is_store [OF assms(1)]])
    (rule assms(3))

lemma prog_update_ok:
  assumes "map_sys_ok array_accepts S" and "lc_skeleton lc = Some sk"
    and "array_accepts (usk_m_next_rule_prog sk) i"
  shows "UPFProgram_prog_update S i fd lc =
    (Inr (), lc\<lparr>lc_skeleton := Some (sk\<lparr>usk_m_next_rule_prog := (usk_m_next_rule_prog sk)
       \<lparr>bm_elems := (bm_elems (usk_m_next_rule_prog sk))(i \<mapsto> fd)\<rparr>\<rparr>)\<rparr>)"
  unfolding UPFProgram_prog_update_def
  by (rule with_map_ok [OF assms(2)], rule map_store.update_ok [OF wrapper_is_store [OF assms(1)]])
    (rule assms(3))

lemma prog_update_refused:
  assumes "map_sys_ok array_accepts S" and "lc_skeleton lc = Some sk"
    and "\<not> array_accepts (usk_m_next_rule_prog sk) i"
  shows "\<exists>e. UPFProgram_prog_update S i fd lc = (Inl e, lc)"
proof -
  obtain e where "BPFMap_update S i fd 0 (usk_m_next_rule_prog sk) = (Inl e, usk_m_next_rule_prog sk)"
    using map_store.update_refused [OF wrapper_is_store [OF assms(1)] assms(3)] by blast
  then show ?thesis
    using assms(2) with_map_error [OF assms(2), where g = usk_m_next_rule_prog]
    by (fastforce simp: UPFProgram_prog_update_def)
qed

lemma far_update_ok:
  assumes "map_sys_ok hash_accepts S" and "lc_skeleton lc = Some sk"
    and "hash_accepts (fsk_m_far sk) 0"
  shows "FARProgram_far_update S 0 far lc =
    (Inr (), lc\<lparr>lc_skeleton := Some (sk\<lparr>fsk_m_far := (fsk_m_far sk)
       \<lparr>bm_elems := (bm_elems (fsk_m_far sk))(0 \<mapsto> far)\<rparr>\<rparr>)\<rparr>)"
  unfolding FARProgram_far_update_def
  by (rule with_map_ok [OF assms(2)], rule map_store.update_ok [OF wrapper_is_store [OF assms(1)]])
    (rule assms(3))

lemma index_remove_ok:
  assumes "map_sys_ok hash_accepts S" and "lc_skeleton lc = Some sk"
    and "bm_elems (usk_m_next_rule_prog_index sk) k \<noteq> None"
  shows "UPFProgram_index_remove S k lc =
    (Inr (), lc\<lparr>lc_skeleton := Some (sk\<lparr>usk_m_next_rule_prog_index := (usk_m_next_rule_prog_index sk)
       \<lparr>bm_elems := (bm_elems (usk_m_next_rule_prog_index sk))(k := None)\<rparr>\<rparr>)\<rparr>)"
  unfolding UPFProgram_index_remove_def
  by (rule with_map_ok [OF assms(2)], rule map_store.remove_ok [OF wrapper_is_store [OF assms(1)]])
    (rule assms(3))

section \<open>Creating a pipeline\<close>

text \<open>The part of \<^verbatim>\<open>createPipeline\<close> after the FAR program is set up, from the state \<open>st\<close> there.\<close>

definition deploy ::
    "upf_env \<Rightarrow> u32 \<Rightarrow> next_rule_prog_index_key \<Rightarrow> u32 \<Rightarrow> int \<Rightarrow> pfcp_far \<Rightarrow> (upf_state, unit) op" where
  "deploy E seid key i fd pFar =
     seq (on_upf (UPFProgram_index_update (ue_index_sys E) key i)) (
     seq (on_upf (UPFProgram_prog_update (ue_prog_sys E) i fd)) (
     seq (on_far i (FARProgram_far_update (ue_far_sys E) 0 (far_of_pfcp pFar))) (
     store_pipeline E seid \<lparr>sp_key = key, sp_far_id = i\<rparr>)))"

definition with_program :: "u32 \<Rightarrow> far_skeleton life_cycle \<Rightarrow> upf_state \<Rightarrow> upf_state" where
  "with_program i lc st =
     st\<lparr>us_sIdCounter := i + 1, us_far_programs := (us_far_programs st)(i \<mapsto> lc)\<rparr>"

lemma createPipeline_deploy:
  assumes "upf_env_ok E"
  shows "\<exists>lc sk. lc_skeleton lc = Some sk \<and> lc_state lc = ATTACHED \<and>
      bm_elems (fsk_m_far sk) = Map.empty \<and> bm_max_entries (fsk_m_far sk) = 1 \<and>
      bm_elems (fsk_m_redirect_interfaces sk) 1
        = Some (env_if_nametoindex (ue_far_env E (us_sIdCounter st)) (us_mUDPInterface st)) \<and>
      bm_elems (fsk_m_redirect_interfaces sk) 0
        = Some (env_if_nametoindex (ue_far_env E (us_sIdCounter st)) (us_mGTPInterface st)) \<and>
      createPipeline E seid teid src ip pFar st =
        deploy E seid \<lparr>key_teid = teid, key_source_value = src, key_ipv4_address = ip\<rparr>
          (us_sIdCounter st) (fsk_fd sk) pFar (with_program (us_sIdCounter st) lc st)"
proof -
  let ?i = "us_sIdCounter st"
  let ?E = "ue_far_env E ?i"
  obtain sk where sk: "far_env_ok ?E sk"
    using assms by (auto simp: upf_env_ok_def)
  let ?lc0 = "new_life_cycle (ue_junk E) (ue_skb E) :: far_skeleton life_cycle"
  let ?sk = "far_ready ?E sk (us_mUDPInterface st) (us_mGTPInterface st)"
  obtain lc where lc: "FARProgram_setup ?E (ue_dev_sys E) (us_mUDPInterface st) (us_mGTPInterface st) ?lc0
      = (Inr (), lc)" "lc_skeleton lc = Some ?sk" "lc_state lc = ATTACHED"
    using FARProgram_setup_ok [OF sk, of "ue_dev_sys E" "us_mUDPInterface st" "us_mGTPInterface st" ?lc0]
      assms [unfolded upf_env_ok_def] by blast
  let ?st1 = "snd (new_FARProgram E st)"
  have "on_far ?i (FARProgram_setup ?E (ue_dev_sys E) (us_mUDPInterface st) (us_mGTPInterface st)) ?st1
      = (Inr (), with_program ?i lc st)"
    using lc(1) by (simp add: on_far_def new_FARProgram_def with_program_def)
  moreover have "far_fd ?i (with_program ?i lc st) = (Inr (fsk_fd ?sk), with_program ?i lc st)"
    using lc(2) by (simp add: far_fd_def with_program_def FARProgram_getFd_def lc_getBPFSkeleton_def)
  moreover have "new_FARProgram E st = (Inr ?i, ?st1)"
    by (simp add: new_FARProgram_def)
  moreover have "us_mUDPInterface ?st1 = us_mUDPInterface st" "us_mGTPInterface ?st1 = us_mGTPInterface st"
    by (simp_all add: new_FARProgram_def)
  ultimately have "createPipeline E seid teid src ip pFar st =
        deploy E seid \<lparr>key_teid = teid, key_source_value = src, key_ipv4_address = ip\<rparr>
          ?i (fsk_fd ?sk) pFar (with_program ?i lc st)"
    by (simp add: createPipeline_def deploy_def Let_def)
  then show ?thesis
    using lc sk by (intro exI [of _ lc] exI [of _ ?sk]) (simp add: far_ready_def far_env_ok_def)
qed

text \<open>The state after a successful deployment.\<close>

definition deployed ::
    "u32 \<Rightarrow> next_rule_prog_index_key \<Rightarrow> u32 \<Rightarrow> int \<Rightarrow> far_skeleton life_cycle \<Rightarrow> upf_skeleton \<Rightarrow>
     upf_state \<Rightarrow> upf_state" where
  "deployed seid key i fd lc usk st =
     st\<lparr>us_sIdCounter := i + 1, us_far_programs := (us_far_programs st)(i \<mapsto> lc),
        us_upf := (us_upf st)\<lparr>lc_skeleton := Some (usk
          \<lparr>usk_m_next_rule_prog_index := (usk_m_next_rule_prog_index usk)
             \<lparr>bm_elems := (bm_elems (usk_m_next_rule_prog_index usk))(key \<mapsto> i)\<rparr>,
           usk_m_next_rule_prog := (usk_m_next_rule_prog usk)
             \<lparr>bm_elems := (bm_elems (usk_m_next_rule_prog usk))(i \<mapsto> fd)\<rparr>\<rparr>)\<rparr>,
        us_mSessionProgramsMap := (us_mSessionProgramsMap st)
          (seid \<mapsto> \<lparr>sp_key = key, sp_far_id = i\<rparr>)\<rparr>"

lemma deploy_eq:
  assumes E: "upf_env_ok E" and usk: "lc_skeleton (us_upf st) = Some usk"
    and idx: "hash_accepts (usk_m_next_rule_prog_index usk) key"
    and prg: "array_accepts (usk_m_next_rule_prog usk) i"
    and lc: "lc_skeleton lc = Some sk" and far: "hash_accepts (fsk_m_far sk) 0"
  shows "deploy E seid key i fd pFar (with_program i lc st) =
    store_pipeline E seid \<lparr>sp_key = key, sp_far_id = i\<rparr> ((deployed seid key i fd
       (lc\<lparr>lc_skeleton := Some (sk\<lparr>fsk_m_far := (fsk_m_far sk)
          \<lparr>bm_elems := (bm_elems (fsk_m_far sk))(0 \<mapsto> far_of_pfcp pFar)\<rparr>\<rparr>)\<rparr>) usk st)
       \<lparr>us_mSessionProgramsMap := us_mSessionProgramsMap st\<rparr>)"
proof -
  note sys = E [unfolded upf_env_ok_def]
  let ?st0 = "with_program i lc st"
  let ?u1 = "(us_upf st)\<lparr>lc_skeleton := Some (usk\<lparr>usk_m_next_rule_prog_index :=
      (usk_m_next_rule_prog_index usk)\<lparr>bm_elems := (bm_elems (usk_m_next_rule_prog_index usk))(key \<mapsto> i)\<rparr>\<rparr>)\<rparr>"
  have 1: "on_upf (UPFProgram_index_update (ue_index_sys E) key i) ?st0 = (Inr (), ?st0\<lparr>us_upf := ?u1\<rparr>)"
    using sys usk idx by (intro on_upf_ok) (simp add: index_update_ok with_program_def)
  have 2: "on_upf (UPFProgram_prog_update (ue_prog_sys E) i fd) (?st0\<lparr>us_upf := ?u1\<rparr>) =
      (Inr (), ?st0\<lparr>us_upf := ?u1\<lparr>lc_skeleton := Some (usk
          \<lparr>usk_m_next_rule_prog_index := (usk_m_next_rule_prog_index usk)
             \<lparr>bm_elems := (bm_elems (usk_m_next_rule_prog_index usk))(key \<mapsto> i)\<rparr>,
           usk_m_next_rule_prog := (usk_m_next_rule_prog usk)
             \<lparr>bm_elems := (bm_elems (usk_m_next_rule_prog usk))(i \<mapsto> fd)\<rparr>\<rparr>)\<rparr>\<rparr>)" (is "_ = (_, ?st2)")
    using sys prg prog_update_ok [of "ue_prog_sys E" ?u1, OF _ _ , of _ i fd]
    by (simp add: on_upf_def)
  have 3: "on_far i (FARProgram_far_update (ue_far_sys E) 0 (far_of_pfcp pFar)) ?st2 =
      (Inr (), ?st2\<lparr>us_far_programs := (us_far_programs st)(i \<mapsto>
        lc\<lparr>lc_skeleton := Some (sk\<lparr>fsk_m_far := (fsk_m_far sk)
          \<lparr>bm_elems := (bm_elems (fsk_m_far sk))(0 \<mapsto> far_of_pfcp pFar)\<rparr>\<rparr>)\<rparr>)\<rparr>)" (is "_ = (_, ?st3)")
    using far_update_ok [OF _ lc far, of "ue_far_sys E" "far_of_pfcp pFar"] sys
    by (simp add: on_far_def with_program_def)
  have "deploy E seid key i fd pFar ?st0 = store_pipeline E seid \<lparr>sp_key = key, sp_far_id = i\<rparr> ?st3"
    unfolding deploy_def using 1 2 3 by simp
  also have "?st3 = (deployed seid key i fd
       (lc\<lparr>lc_skeleton := Some (sk\<lparr>fsk_m_far := (fsk_m_far sk)
          \<lparr>bm_elems := (bm_elems (fsk_m_far sk))(0 \<mapsto> far_of_pfcp pFar)\<rparr>\<rparr>)\<rparr>) usk st)
       \<lparr>us_mSessionProgramsMap := us_mSessionProgramsMap st\<rparr>"
    by (cases st) (simp add: deployed_def with_program_def)
  finally show ?thesis .
qed

lemma index_of_deployed:
  "lc_skeleton (us_upf st) = Some usk \<Longrightarrow>
     index_of (deployed seid key i fd lc usk st) = (index_of st)(key \<mapsto> i)"
  "lc_skeleton (us_upf st) = Some usk \<Longrightarrow>
     prog_of (deployed seid key i fd lc usk st) = (prog_of st)(i \<mapsto> fd)"
  by (simp_all add: deployed_def index_of_def prog_of_def)

lemma pipeline_ok_deployed:
  assumes "lc_skeleton (us_upf st) = Some usk" and "pipeline_ok st sp"
    and "sp_key sp \<noteq> key" and "sp_far_id sp \<noteq> i"
  shows "pipeline_ok (deployed seid key i fd lc usk st) sp"
  using assms by (simp add: pipeline_ok_def index_of_deployed) (simp add: deployed_def)

lemma pm_inv_ok: "pm_inv st \<Longrightarrow> us_mSessionProgramsMap st s = Some sp \<Longrightarrow> pipeline_ok st sp"
  unfolding pm_inv_def by blast

lemma pm_inv_counter: "pm_inv st \<Longrightarrow> us_far_programs st i \<noteq> None \<Longrightarrow> i < us_sIdCounter st"
  unfolding pm_inv_def by blast

lemma pm_inv_index: "pm_inv st \<Longrightarrow> index_of st k \<noteq> None \<Longrightarrow> k \<in> ran (owned st)"
  unfolding pm_inv_def by blast

lemma pm_inv_inj:
  "pm_inv st \<Longrightarrow> us_mSessionProgramsMap st r = Some a \<Longrightarrow> us_mSessionProgramsMap st s = Some b \<Longrightarrow>
     sp_key a = sp_key b \<or> sp_far_id a = sp_far_id b \<Longrightarrow> r = s"
  unfolding pm_inv_def by blast

lemma pm_inv_upf:
  "pm_inv st \<Longrightarrow> lc_skeleton (us_upf st) = Some usk \<Longrightarrow>
     bm_max_entries (usk_m_next_rule_prog_index usk) = 10 \<and> bm_max_entries (usk_m_next_rule_prog usk) = 10"
  unfolding pm_inv_def by auto

lemma pm_invI:
  assumes "lc_skeleton (us_upf st) = Some usk"
    and "bm_max_entries (usk_m_next_rule_prog_index usk) = 10"
    and "bm_max_entries (usk_m_next_rule_prog usk) = 10"
    and "\<And>i. us_far_programs st i \<noteq> None \<Longrightarrow> i < us_sIdCounter st"
    and "\<And>s sp. us_mSessionProgramsMap st s = Some sp \<Longrightarrow> pipeline_ok st sp"
    and "\<And>k. index_of st k \<noteq> None \<Longrightarrow> k \<in> ran (owned st)"
    and "\<And>r s a b. us_mSessionProgramsMap st r = Some a \<Longrightarrow> us_mSessionProgramsMap st s = Some b \<Longrightarrow>
           sp_key a = sp_key b \<or> sp_far_id a = sp_far_id b \<Longrightarrow> r = s"
  shows "pm_inv st"
  unfolding pm_inv_def
proof (intro conjI allI impI)
  show "\<exists>usk. lc_skeleton (us_upf st) = Some usk \<and>
      bm_max_entries (usk_m_next_rule_prog_index usk) = 10 \<and> bm_max_entries (usk_m_next_rule_prog usk) = 10"
    using assms(1-3) by blast
qed (use assms(4-) in blast)+

lemma owned_ran: "us_mSessionProgramsMap st s = Some sp \<Longrightarrow> sp_key sp \<in> ran (owned st)"
  by (rule ranI [of _ s]) (simp add: owned_def)

lemma pm_inv_fresh:
  assumes "pm_inv st" and "key \<notin> ran (owned st)" and "us_mSessionProgramsMap st s = Some sp"
  shows "sp_key sp \<noteq> key" and "sp_far_id sp \<noteq> us_sIdCounter st" and "pipeline_ok st sp"
proof -
  show ok: "pipeline_ok st sp"
    using assms(1,3) by (rule pm_inv_ok)
  show "sp_key sp \<noteq> key"
    using owned_ran [OF assms(3)] assms(2) by blast
  have "us_far_programs st (sp_far_id sp) \<noteq> None"
    using ok unfolding pipeline_ok_def by force
  then show "sp_far_id sp \<noteq> us_sIdCounter st"
    using pm_inv_counter [OF assms(1), of "sp_far_id sp"] by auto
qed

lemma pm_inv_deployed:
  assumes inv: "pm_inv st" and usk: "lc_skeleton (us_upf st) = Some usk"
    and i: "i = us_sIdCounter st" "unat i < 10"
    and key: "key \<notin> ran (owned st)" and seid: "us_mSessionProgramsMap st seid = None"
    and lc: "lc_skeleton lc = Some sk" "lc_state lc = ATTACHED" "bm_elems (fsk_m_far sk) 0 \<noteq> None"
  shows "pm_inv (deployed seid key i fd lc usk st)"
proof -
  let ?st = "deployed seid key i fd lc usk st" and ?new = "\<lparr>sp_key = key, sp_far_id = i\<rparr>"
  note old = pm_inv_fresh [OF inv key]
  have map: "us_mSessionProgramsMap ?st = (us_mSessionProgramsMap st)(seid \<mapsto> ?new)"
    and progs: "us_far_programs ?st = (us_far_programs st)(i \<mapsto> lc)"
    and cnt: "us_sIdCounter ?st = i + 1"
    by (simp_all add: deployed_def)
  have new: "pipeline_ok ?st ?new"
    using usk lc by (simp add: pipeline_ok_def index_of_deployed progs)
  have ok: "pipeline_ok ?st sp" if "us_mSessionProgramsMap ?st s = Some sp" for s sp
  proof (cases "s = seid")
    case True
    then show ?thesis using that new by (simp add: map)
  next
    case False
    then have "us_mSessionProgramsMap st s = Some sp" using that by (simp add: map)
    then show ?thesis using pipeline_ok_deployed [OF usk] old i(1) by blast
  qed
  have succ: "j < i + 1" if "j \<le> i" for j
    using that i(2) by (simp add: word_less_nat_alt word_le_nat_alt unat_word_ariths)
  have counter: "j < us_sIdCounter ?st" if "us_far_programs ?st j \<noteq> None" for j
  proof (cases "j = i")
    case True
    then show ?thesis using succ [of i] by (simp add: cnt)
  next
    case False
    then have "us_far_programs st j \<noteq> None"
      using that by (simp add: progs)
    then have "j < i"
      unfolding i(1) by (rule pm_inv_counter [OF inv])
    then show ?thesis using succ [of j] by (simp add: cnt)
  qed
  have "owned ?st = (owned st)(seid \<mapsto> key)"
    by (auto simp: owned_def map)
  then have "ran (owned ?st) = insert key (ran (owned st))"
    using seid by (simp add: owned_def ran_map_upd)
  then have idx: "k \<in> ran (owned ?st)" if "index_of ?st k \<noteq> None" for k
    using that pm_inv_index [OF inv, of k] by (cases "k = key") (simp_all add: index_of_deployed [OF usk])
  have inj: "r = s" if "us_mSessionProgramsMap ?st r = Some a" "us_mSessionProgramsMap ?st s = Some b"
      "sp_key a = sp_key b \<or> sp_far_id a = sp_far_id b" for r s a b
    using that old(1,2) [of r a, folded i(1)] old(1,2) [of s b, folded i(1)]
      pm_inv_inj [OF inv, of r a s b]
    by (cases "r = seid"; cases "s = seid") (auto simp: map)
  have "lc_skeleton (us_upf ?st) = Some (usk
      \<lparr>usk_m_next_rule_prog_index := (usk_m_next_rule_prog_index usk)
         \<lparr>bm_elems := (bm_elems (usk_m_next_rule_prog_index usk))(key \<mapsto> i)\<rparr>,
       usk_m_next_rule_prog := (usk_m_next_rule_prog usk)
         \<lparr>bm_elems := (bm_elems (usk_m_next_rule_prog usk))(i \<mapsto> fd)\<rparr>\<rparr>)"
    by (simp add: deployed_def)
  then show ?thesis
    by (rule pm_invI)
      (simp_all add: pm_inv_upf [OF inv usk] counter ok idx inj del: not_None_eq, (rule inj; assumption)?)
qed

lemma dispatch_deployed:
  assumes inv: "pm_inv st" and usk: "lc_skeleton (us_upf st) = Some usk"
    and key: "key \<notin> ran (owned st)"
    and lc: "lc_skeleton lc = Some sk" "bm_elems (fsk_m_far sk) 0 = Some far"
  shows "dispatch (deployed seid key (us_sIdCounter st) fd lc usk st) = (dispatch st)(key \<mapsto> far)"
proof
  fix k
  let ?i = "us_sIdCounter st"
  let ?st = "deployed seid key ?i fd lc usk st"
  have progs: "us_far_programs ?st = (us_far_programs st)(?i \<mapsto> lc)"
    by (simp add: deployed_def)
  note maps = index_of_deployed [OF usk] progs
  show "dispatch ?st k = ((dispatch st)(key \<mapsto> far)) k"
  proof (cases "k = key \<or> index_of st k = None")
    case True
    then show ?thesis
      using lc by (auto simp: dispatch_def far_program_at_def maps)
  next
    case False
    then obtain s sp where sp: "us_mSessionProgramsMap st s = Some sp" "sp_key sp = k"
      using pm_inv_index [OF inv, of k] by (auto simp: owned_def ran_def)
    have "index_of st k = Some (sp_far_id sp)"
      using pm_inv_ok [OF inv sp(1)] sp(2) by (simp add: pipeline_ok_def)
    then show ?thesis
      using False pm_inv_fresh(2) [OF inv key sp(1)]
      by (simp add: dispatch_def far_program_at_def maps)
  qed
qed

lemma createPipeline_deployed:
  fixes teid src ip
  defines "key \<equiv> \<lparr>key_teid = teid, key_source_value = src, key_ipv4_address = ip\<rparr>"
  assumes E: "upf_env_ok E" and inv: "pm_inv st" and cnt: "unat (us_sIdCounter st) < 10"
    and card: "card (dom (index_of st)) < 10"
  obtains lc sk usk fd where "lc_skeleton (us_upf st) = Some usk"
    and "lc_skeleton lc = Some sk" and "lc_state lc = ATTACHED"
    and "bm_elems (fsk_m_far sk) 0 = Some (far_of_pfcp pFar)"
    and "bm_elems (fsk_m_redirect_interfaces sk) 1
          = Some (env_if_nametoindex (ue_far_env E (us_sIdCounter st)) (us_mUDPInterface st))"
    and "bm_elems (fsk_m_redirect_interfaces sk) 0
          = Some (env_if_nametoindex (ue_far_env E (us_sIdCounter st)) (us_mGTPInterface st))"
    and "createPipeline E seid teid src ip pFar st =
          store_pipeline E seid \<lparr>sp_key = key, sp_far_id = us_sIdCounter st\<rparr>
            ((deployed seid key (us_sIdCounter st) fd lc usk st)
               \<lparr>us_mSessionProgramsMap := us_mSessionProgramsMap st\<rparr>)"
proof -
  let ?i = "us_sIdCounter st"
  obtain lc sk where lc: "lc_skeleton lc = Some sk" "lc_state lc = ATTACHED"
      "bm_elems (fsk_m_far sk) = Map.empty" "bm_max_entries (fsk_m_far sk) = 1"
      "bm_elems (fsk_m_redirect_interfaces sk) 1
        = Some (env_if_nametoindex (ue_far_env E ?i) (us_mUDPInterface st))"
      "bm_elems (fsk_m_redirect_interfaces sk) 0
        = Some (env_if_nametoindex (ue_far_env E ?i) (us_mGTPInterface st))"
    and run: "createPipeline E seid teid src ip pFar st =
        deploy E seid key ?i (fsk_fd sk) pFar (with_program ?i lc st)"
    using createPipeline_deploy [OF E, of st seid teid src ip pFar] unfolding key_def by blast
  obtain usk where usk: "lc_skeleton (us_upf st) = Some usk"
    using inv unfolding pm_inv_def by blast
  let ?sk = "sk\<lparr>fsk_m_far := (fsk_m_far sk)\<lparr>bm_elems := (bm_elems (fsk_m_far sk))(0 \<mapsto> far_of_pfcp pFar)\<rparr>\<rparr>"
  let ?lc = "lc\<lparr>lc_skeleton := Some ?sk\<rparr>"
  have "createPipeline E seid teid src ip pFar st =
      store_pipeline E seid \<lparr>sp_key = key, sp_far_id = ?i\<rparr> ((deployed seid key ?i (fsk_fd sk) ?lc usk st)
        \<lparr>us_mSessionProgramsMap := us_mSessionProgramsMap st\<rparr>)"
    unfolding run
    by (rule deploy_eq [OF E usk _ _ lc(1)])
      (use card cnt usk pm_inv_upf [OF inv usk] lc in
        \<open>simp_all add: hash_accepts_def array_accepts_def index_of_def\<close>)
  then show ?thesis
    by (rule that [OF usk, of ?lc ?sk "fsk_fd sk", rotated 5]) (simp_all add: lc)
qed

lemma createPipeline_effect:
  fixes teid src ip
  defines "key \<equiv> \<lparr>key_teid = teid, key_source_value = src, key_ipv4_address = ip\<rparr>"
  assumes E: "upf_env_ok E" and inv: "pm_inv st" and cnt: "unat (us_sIdCounter st) < 10"
    and card: "card (dom (index_of st)) < 10"
    and fresh: "owned st seid = None" "key \<notin> ran (owned st)"
  shows "\<exists>st'. createPipeline E seid teid src ip pFar st = (Inr (), st') \<and> pm_inv st' \<and>
    owned st' = (owned st)(seid \<mapsto> key) \<and> dispatch st' = (dispatch st)(key \<mapsto> far_of_pfcp pFar) \<and>
    us_sIdCounter st' = us_sIdCounter st + 1 \<and> us_mSeidToSession st' = us_mSeidToSession st \<and>
    index_of st' = (index_of st)(key \<mapsto> us_sIdCounter st) \<and>
    (\<forall>j. j \<noteq> us_sIdCounter st \<longrightarrow> far_program_at st' j = far_program_at st j) \<and>
    (\<exists>sk. far_program_at st' (us_sIdCounter st) = Some sk \<and>
       bm_elems (fsk_m_far sk) 0 = Some (far_of_pfcp pFar) \<and>
       bm_elems (fsk_m_redirect_interfaces sk) 1
          = Some (env_if_nametoindex (ue_far_env E (us_sIdCounter st)) (us_mUDPInterface st)) \<and>
       bm_elems (fsk_m_redirect_interfaces sk) 0
          = Some (env_if_nametoindex (ue_far_env E (us_sIdCounter st)) (us_mGTPInterface st)))"
proof -
  let ?i = "us_sIdCounter st"
  have seid: "us_mSessionProgramsMap st seid = None"
    using fresh(1) by (simp add: owned_def)
  obtain lc sk usk fd where usk: "lc_skeleton (us_upf st) = Some usk"
    and lc: "lc_skeleton lc = Some sk" "lc_state lc = ATTACHED"
      "bm_elems (fsk_m_far sk) 0 = Some (far_of_pfcp pFar)"
    and dev: "bm_elems (fsk_m_redirect_interfaces sk) 1
          = Some (env_if_nametoindex (ue_far_env E ?i) (us_mUDPInterface st))"
      "bm_elems (fsk_m_redirect_interfaces sk) 0
          = Some (env_if_nametoindex (ue_far_env E ?i) (us_mGTPInterface st))"
    and store: "createPipeline E seid teid src ip pFar st =
        store_pipeline E seid \<lparr>sp_key = key, sp_far_id = ?i\<rparr>
          ((deployed seid key ?i fd lc usk st)\<lparr>us_mSessionProgramsMap := us_mSessionProgramsMap st\<rparr>)"
    by (rule createPipeline_deployed [OF E inv cnt card, where seid = seid and teid = teid and src = src and ip = ip
          and pFar = pFar, folded key_def])
  let ?st = "deployed seid key ?i fd lc usk st"
  have run: "createPipeline E seid teid src ip pFar st = (Inr (), ?st)"
    unfolding store using seid by (simp add: store_pipeline_def deployed_def)
  have "pm_inv ?st"
    by (rule pm_inv_deployed [where sk = sk, OF inv usk refl cnt fresh(2) seid]) (simp_all add: lc)
  moreover have "owned ?st = (owned st)(seid \<mapsto> key)" "us_sIdCounter ?st = ?i + 1"
    "us_mSeidToSession ?st = us_mSeidToSession st"
    by (auto simp: owned_def deployed_def)
  moreover have "dispatch ?st = (dispatch st)(key \<mapsto> far_of_pfcp pFar)"
    by (rule dispatch_deployed [where sk = sk, OF inv usk fresh(2)]) (simp_all add: lc)
  moreover have "index_of ?st = (index_of st)(key \<mapsto> ?i)"
    by (rule index_of_deployed(1) [OF usk])
  moreover have "far_program_at ?st ?i = Some sk"
    using lc usk by (simp add: far_program_at_def index_of_deployed) (simp add: deployed_def)
  moreover have "far_program_at ?st j = far_program_at st j" if "j \<noteq> ?i" for j
    using that usk by (simp add: far_program_at_def index_of_deployed) (simp add: deployed_def)
  ultimately show ?thesis using run lc(3) dev by blast
qed

section \<open>Removing a pipeline\<close>

lemma FARProgram_tearDown_attached:
  assumes "lc_state lc = ATTACHED"
  shows "FARProgram_tearDown E lc =
    (Inr (), lc\<lparr>lc_events := lc_events lc @ [Ev_destroy (lc_skeleton lc)], lc_state := IDLE\<rparr>)"
  using assms
  by (simp add: FARProgram_tearDown_def lc_tearDown_def lc_destroy_def emit_def Let_def)

definition undeployed ::
    "u32 \<Rightarrow> SessionPrograms \<Rightarrow> far_skeleton life_cycle \<Rightarrow> upf_skeleton \<Rightarrow> upf_state \<Rightarrow> upf_state" where
  "undeployed seid sp lc usk st =
     st\<lparr>us_far_programs := (us_far_programs st)(sp_far_id sp \<mapsto> lc),
        us_upf := (us_upf st)\<lparr>lc_skeleton := Some (usk
          \<lparr>usk_m_next_rule_prog_index := (usk_m_next_rule_prog_index usk)
             \<lparr>bm_elems := (bm_elems (usk_m_next_rule_prog_index usk))(sp_key sp := None)\<rparr>\<rparr>)\<rparr>,
        us_mSessionProgramsMap := (us_mSessionProgramsMap st)(seid := None)\<rparr>"

lemma undeployed_maps:
  "lc_skeleton (us_upf st) = Some usk \<Longrightarrow>
     index_of (undeployed seid sp lc usk st) = (index_of st)(sp_key sp := None)"
  "lc_skeleton (us_upf st) = Some usk \<Longrightarrow> prog_of (undeployed seid sp lc usk st) = prog_of st"
  "us_far_programs (undeployed seid sp lc usk st) = (us_far_programs st)(sp_far_id sp \<mapsto> lc)"
  "us_mSessionProgramsMap (undeployed seid sp lc usk st) = (us_mSessionProgramsMap st)(seid := None)"
  "us_sIdCounter (undeployed seid sp lc usk st) = us_sIdCounter st"
  by (simp_all add: undeployed_def index_of_def prog_of_def)

lemma removePipeline_eq:
  assumes E: "upf_env_ok E" and usk: "lc_skeleton (us_upf st) = Some usk"
    and sp: "us_mSessionProgramsMap st seid = Some sp"
    and lc: "us_far_programs st (sp_far_id sp) = Some lc" "lc_state lc = ATTACHED"
    and idx: "index_of st (sp_key sp) \<noteq> None"
  shows "removePipeline E seid st = (Inr (), undeployed seid sp
    (lc\<lparr>lc_events := lc_events lc @ [Ev_destroy (lc_skeleton lc)], lc_state := IDLE\<rparr>) usk st)"
proof -
  have "SessionPrograms_destroy E sp st = (Inr (), st\<lparr>us_far_programs := (us_far_programs st)
      (sp_far_id sp \<mapsto> lc\<lparr>lc_events := lc_events lc @ [Ev_destroy (lc_skeleton lc)], lc_state := IDLE\<rparr>)\<rparr>)"
    using lc by (simp add: SessionPrograms_destroy_def on_far_def FARProgram_tearDown_attached)
  moreover have "map_sys_ok hash_accepts (ue_index_sys E)"
    using E by (simp add: upf_env_ok_def)
  ultimately show ?thesis
    using sp usk idx index_remove_ok [OF _ usk, of "ue_index_sys E" "sp_key sp"]
    by (simp add: removePipeline_def on_upf_def undeployed_def index_of_def del: not_None_eq)
qed

lemma pm_inv_undeployed:
  assumes inv: "pm_inv st" and usk: "lc_skeleton (us_upf st) = Some usk"
    and sp: "us_mSessionProgramsMap st seid = Some sp"
  shows "pm_inv (undeployed seid sp lc usk st)"
proof -
  let ?st = "undeployed seid sp lc usk st"
  note maps = undeployed_maps [where st = st and usk = usk and seid = seid and sp = sp and lc = lc]
  have old: "s \<noteq> seid \<and> us_mSessionProgramsMap st s = Some a \<and> sp_key a \<noteq> sp_key sp \<and> sp_far_id a \<noteq> sp_far_id sp"
    if "us_mSessionProgramsMap ?st s = Some a" for s a
    using that pm_inv_inj [OF inv _ sp, of s a] by (auto simp: maps split: if_splits)
  have "us_far_programs st (sp_far_id sp) \<noteq> None"
    using pm_inv_ok [OF inv sp] unfolding pipeline_ok_def by force
  then have counter: "i < us_sIdCounter ?st" if "us_far_programs ?st i \<noteq> None" for i
    using that pm_inv_counter [OF inv, of i] by (cases "i = sp_far_id sp") (simp_all add: maps)
  have ok: "pipeline_ok ?st a" if "us_mSessionProgramsMap ?st s = Some a" for s a
    using old [OF that] pm_inv_ok [OF inv, of s a] by (simp add: pipeline_ok_def maps usk)
  have idx: "k \<in> ran (owned ?st)" if "index_of ?st k \<noteq> None" for k
  proof -
    have k: "k \<noteq> sp_key sp" "index_of st k \<noteq> None"
      using that by (auto simp: maps usk split: if_splits)
    then obtain s a where "us_mSessionProgramsMap st s = Some a" "sp_key a = k"
      using pm_inv_index [OF inv k(2)] by (auto simp: owned_def ran_def)
    moreover from this k sp have "s \<noteq> seid" by auto
    ultimately show ?thesis
      using owned_ran [of ?st s a] by (simp add: maps)
  qed
  have inj: "r = s" if "us_mSessionProgramsMap ?st r = Some a" "us_mSessionProgramsMap ?st s = Some b"
      "sp_key a = sp_key b \<or> sp_far_id a = sp_far_id b" for r s a b
    using old [OF that(1)] old [OF that(2)] that(3) pm_inv_inj [OF inv, of r a s b] by blast
  have "lc_skeleton (us_upf ?st) = Some (usk
      \<lparr>usk_m_next_rule_prog_index := (usk_m_next_rule_prog_index usk)
         \<lparr>bm_elems := (bm_elems (usk_m_next_rule_prog_index usk))(sp_key sp := None)\<rparr>\<rparr>)"
    by (simp add: undeployed_def)
  then show ?thesis
    by (rule pm_invI)
      (simp_all add: pm_inv_upf [OF inv usk] counter ok idx inj del: not_None_eq, (rule inj; assumption)?)
qed

lemma far_program_at_undeployed:
  assumes "pm_inv st" and "lc_skeleton (us_upf st) = Some usk"
    and "us_far_programs st (sp_far_id sp) = Some lc0" and "lc_skeleton lc = lc_skeleton lc0"
  shows "far_program_at (undeployed seid sp lc usk st) = far_program_at st"
proof
  show "far_program_at (undeployed seid sp lc usk st) i = far_program_at st i" for i
    using assms by (cases "i = sp_far_id sp") (simp_all add: far_program_at_def undeployed_maps)
qed

lemma dispatch_undeployed:
  assumes "pm_inv st" and "lc_skeleton (us_upf st) = Some usk"
    and "us_far_programs st (sp_far_id sp) = Some lc0" and "lc_skeleton lc = lc_skeleton lc0"
  shows "dispatch (undeployed seid sp lc usk st) = (dispatch st)(sp_key sp := None)"
proof -
  note far_program_at_undeployed [OF assms, of seid]
  then show ?thesis
    using assms(2) by (simp add: dispatch_def undeployed_maps fun_eq_iff)
qed

lemma removePipeline_effect:
  assumes E: "upf_env_ok E" and inv: "pm_inv st" and key: "owned st seid = Some key"
  shows "\<exists>st'. removePipeline E seid st = (Inr (), st') \<and> pm_inv st' \<and>
    owned st' = (owned st)(seid := None) \<and> dispatch st' = (dispatch st)(key := None) \<and>
    index_of st' = (index_of st)(key := None) \<and> far_program_at st' = far_program_at st"
proof -
  obtain sp where sp: "us_mSessionProgramsMap st seid = Some sp" "sp_key sp = key"
    using key by (auto simp: owned_def)
  obtain usk where usk: "lc_skeleton (us_upf st) = Some usk"
    using inv unfolding pm_inv_def by blast
  obtain lc where lc: "us_far_programs st (sp_far_id sp) = Some lc" "lc_state lc = ATTACHED"
    and idx: "index_of st (sp_key sp) \<noteq> None"
    using pm_inv_ok [OF inv sp(1)] unfolding pipeline_ok_def by force
  let ?lc = "lc\<lparr>lc_events := lc_events lc @ [Ev_destroy (lc_skeleton lc)], lc_state := IDLE\<rparr>"
  let ?st = "undeployed seid sp ?lc usk st"
  have "removePipeline E seid st = (Inr (), ?st)"
    by (rule removePipeline_eq [OF E usk sp(1) lc idx])
  moreover have "pm_inv ?st"
    by (rule pm_inv_undeployed [OF inv usk sp(1)])
  moreover have "owned ?st = (owned st)(seid := None)"
    by (auto simp: owned_def undeployed_maps)
  moreover have "dispatch ?st = (dispatch st)(key := None)"
    using dispatch_undeployed [OF inv usk lc(1), of ?lc seid] sp(2) by simp
  moreover have "index_of ?st = (index_of st)(key := None)"
    using usk sp(2) by (simp add: undeployed_maps fun_eq_iff)
  moreover have "far_program_at ?st = far_program_at st"
    by (rule far_program_at_undeployed [OF inv usk lc(1)]) simp
  ultimately show ?thesis by blast
qed

section \<open>Where the bookkeeping breaks\<close>

lemma createPipeline_no_slot:
  fixes teid src ip
  defines "key \<equiv> \<lparr>key_teid = teid, key_source_value = src, key_ipv4_address = ip\<rparr>"
  assumes E: "upf_env_ok E" and inv: "pm_inv st" and cnt: "10 \<le> unat (us_sIdCounter st)"
    and card: "card (dom (index_of st)) < 10" and unset: "prog_of st (us_sIdCounter st) = None"
  shows "\<exists>msg st'. createPipeline E seid teid src ip pFar st = (Inl msg, st') \<and>
    owned st' = owned st \<and> index_of st' key = Some (us_sIdCounter st) \<and> dispatch st' key = None"
proof -
  let ?i = "us_sIdCounter st"
  obtain lc and sk :: far_skeleton where run: "createPipeline E seid teid src ip pFar st =
        deploy E seid key ?i (fsk_fd sk) pFar (with_program ?i lc st)"
    using createPipeline_deploy [OF E, of st seid teid src ip pFar] unfolding key_def by blast
  obtain usk where usk: "lc_skeleton (us_upf st) = Some usk"
    using inv unfolding pm_inv_def by blast
  let ?st0 = "with_program ?i lc st"
  let ?u1 = "(us_upf st)\<lparr>lc_skeleton := Some (usk\<lparr>usk_m_next_rule_prog_index :=
      (usk_m_next_rule_prog_index usk)\<lparr>bm_elems := (bm_elems (usk_m_next_rule_prog_index usk))(key \<mapsto> ?i)\<rparr>\<rparr>)\<rparr>"
  have "hash_accepts (usk_m_next_rule_prog_index usk) key"
    using card usk pm_inv_upf [OF inv usk] by (simp add: hash_accepts_def index_of_def)
  then have 1: "on_upf (UPFProgram_index_update (ue_index_sys E) key ?i) ?st0 = (Inr (), ?st0\<lparr>us_upf := ?u1\<rparr>)"
    using E usk by (intro on_upf_ok) (simp add: index_update_ok with_program_def upf_env_ok_def)
  have "\<exists>e. UPFProgram_prog_update (ue_prog_sys E) ?i (fsk_fd sk) ?u1 = (Inl e, ?u1)"
    by (rule prog_update_refused [where sk = "usk\<lparr>usk_m_next_rule_prog_index :=
      (usk_m_next_rule_prog_index usk)\<lparr>bm_elems := (bm_elems (usk_m_next_rule_prog_index usk))(key \<mapsto> ?i)\<rparr>\<rparr>"])
      (use E cnt pm_inv_upf [OF inv usk] in \<open>simp_all add: upf_env_ok_def array_accepts_def\<close>)
  then obtain e where 2: "on_upf (UPFProgram_prog_update (ue_prog_sys E) ?i (fsk_fd sk)) (?st0\<lparr>us_upf := ?u1\<rparr>)
      = (Inl e, ?st0\<lparr>us_upf := ?u1\<rparr>)"
    by (auto simp: on_upf_def)
  have "createPipeline E seid teid src ip pFar st = (Inl e, ?st0\<lparr>us_upf := ?u1\<rparr>)"
    unfolding run deploy_def using 1 2 by simp
  moreover have "index_of (?st0\<lparr>us_upf := ?u1\<rparr>) key = Some ?i" "prog_of (?st0\<lparr>us_upf := ?u1\<rparr>) ?i = None"
    using unset usk by (simp_all add: index_of_def prog_of_def)
  moreover have "owned (?st0\<lparr>us_upf := ?u1\<rparr>) = owned st"
    by (auto simp: owned_def with_program_def)
  ultimately show ?thesis
    by (intro exI [of _ e] exI [of _ "?st0\<lparr>us_upf := ?u1\<rparr>"]) (simp add: dispatch_def far_program_at_def)
qed

text \<open>A second pipeline for the same session tears the first program down and forgets its key.\<close>

definition replaced :: "SessionPrograms \<Rightarrow> upf_state \<Rightarrow> upf_state" where
  "replaced old st =
     st\<lparr>us_far_programs := (us_far_programs st)(sp_far_id old := map_option (\<lambda>lc.
        lc\<lparr>lc_events := lc_events lc @ [Ev_destroy (lc_skeleton lc)], lc_state := IDLE\<rparr>)
        (us_far_programs st (sp_far_id old)))\<rparr>"

lemma store_pipeline_replaces:
  assumes "us_mSessionProgramsMap st seid = Some old"
    and "us_far_programs st (sp_far_id old) = Some lc" "lc_state lc = ATTACHED"
  shows "store_pipeline E seid sp st =
    (Inr (), replaced old (st\<lparr>us_mSessionProgramsMap := (us_mSessionProgramsMap st)(seid \<mapsto> sp)\<rparr>))"
  using assms
  by (simp add: store_pipeline_def SessionPrograms_destroy_def on_far_def FARProgram_tearDown_attached
      replaced_def)

lemma replaced_views [simp]:
  "index_of (replaced old st) = index_of st" "owned (replaced old st) = owned st"
  "far_program_at (replaced old st) = far_program_at st" "dispatch (replaced old st) = dispatch st"
proof -
  show idx: "index_of (replaced old st) = index_of st" and "owned (replaced old st) = owned st"
    by (simp_all add: replaced_def index_of_def owned_def fun_eq_iff)
  show at: "far_program_at (replaced old st) = far_program_at st"
    by (rule ext)
      (simp add: replaced_def far_program_at_def prog_of_def split: option.splits bind_splits)
  show "dispatch (replaced old st) = dispatch st"
    by (simp add: dispatch_def fun_eq_iff idx at)
qed

lemma createPipeline_replaces:
  fixes teid src ip
  defines "key \<equiv> \<lparr>key_teid = teid, key_source_value = src, key_ipv4_address = ip\<rparr>"
  assumes E: "upf_env_ok E" and inv: "pm_inv st" and cnt: "unat (us_sIdCounter st) < 10"
    and card: "card (dom (index_of st)) < 10"
    and old: "owned st seid = Some old" and fresh: "key \<notin> ran (owned st)"
  shows "\<exists>st'. createPipeline E seid teid src ip pFar st = (Inr (), st') \<and>
    owned st' = (owned st)(seid \<mapsto> key) \<and> dispatch st' = (dispatch st)(key \<mapsto> far_of_pfcp pFar) \<and>
    old \<notin> ran (owned st') \<and> dispatch st old \<noteq> None"
proof -
  let ?i = "us_sIdCounter st"
  obtain sp where sp: "us_mSessionProgramsMap st seid = Some sp" "sp_key sp = old"
    using old by (auto simp: owned_def)
  note new = pm_inv_fresh [OF inv fresh sp(1)]
  obtain lc0 sk0 where lc0: "us_far_programs st (sp_far_id sp) = Some lc0" "lc_state lc0 = ATTACHED"
      "lc_skeleton lc0 = Some sk0" "bm_elems (fsk_m_far sk0) 0 \<noteq> None"
    and idx: "index_of st old = Some (sp_far_id sp)" "prog_of st (sp_far_id sp) \<noteq> None"
    using new(3) sp(2) unfolding pipeline_ok_def by blast
  obtain lc sk usk fd where usk: "lc_skeleton (us_upf st) = Some usk"
    and lc: "lc_skeleton lc = Some sk" "bm_elems (fsk_m_far sk) 0 = Some (far_of_pfcp pFar)"
    and store: "createPipeline E seid teid src ip pFar st =
        store_pipeline E seid \<lparr>sp_key = key, sp_far_id = ?i\<rparr>
          ((deployed seid key ?i fd lc usk st)\<lparr>us_mSessionProgramsMap := us_mSessionProgramsMap st\<rparr>)"
    by (rule createPipeline_deployed [OF E inv cnt card, where seid = seid and teid = teid and src = src
          and ip = ip and pFar = pFar, folded key_def])
  let ?st = "deployed seid key ?i fd lc usk st"
  have "createPipeline E seid teid src ip pFar st = (Inr (), replaced sp ?st)"
    unfolding store using store_pipeline_replaces [where st = "?st\<lparr>us_mSessionProgramsMap :=
        us_mSessionProgramsMap st\<rparr>" and seid = seid and old = sp and lc = lc0] sp(1) lc0 new(2)
    by (simp add: deployed_def)
  moreover have own: "owned ?st = (owned st)(seid \<mapsto> key)"
    by (auto simp: owned_def deployed_def)
  moreover have "dispatch ?st = (dispatch st)(key \<mapsto> far_of_pfcp pFar)"
    by (rule dispatch_deployed [where sk = sk, OF inv usk fresh]) (simp_all add: lc)
  moreover have "dispatch st old \<noteq> None"
    using idx lc0 by (simp add: dispatch_def far_program_at_def)
  moreover have "old \<notin> ran (owned ?st)"
  proof
    assume "old \<in> ran (owned ?st)"
    then obtain s where s: "owned ?st s = Some old" by (auto simp: ran_def)
    with new(1) sp(2) have "s \<noteq> seid" by (auto simp: own)
    with s obtain a where "us_mSessionProgramsMap st s = Some a" "sp_key a = old"
      by (auto simp: own) (auto simp: owned_def)
    with pm_inv_inj [OF inv this(1) sp(1)] sp(2) \<open>s \<noteq> seid\<close> show False by simp
  qed
  ultimately show ?thesis by (intro exI [of _ "replaced sp ?st"]) simp
qed

lemma removePipeline_shared_key:
  assumes E: "upf_env_ok E" and usk: "lc_skeleton (us_upf st) = Some usk"
    and a: "us_mSessionProgramsMap st r = Some a" "pipeline_ok st a"
    and b: "us_mSessionProgramsMap st s = Some b" "r \<noteq> s" "sp_key b = sp_key a"
  shows "\<exists>st'. removePipeline E r st = (Inr (), st') \<and> owned st' s = Some (sp_key b) \<and>
    dispatch st' (sp_key b) = None"
proof -
  obtain lc where lc: "us_far_programs st (sp_far_id a) = Some lc" "lc_state lc = ATTACHED"
    and idx: "index_of st (sp_key a) \<noteq> None"
    using a(2) unfolding pipeline_ok_def by force
  show ?thesis
    using removePipeline_eq [OF E usk a(1) lc idx] b usk
    by (simp add: owned_def dispatch_def undeployed_maps)
qed

section \<open>Properties\<close>

text \<open>A sample kernel in which everything works, and the manager right after start-up.\<close>

definition empty_map :: "string \<Rightarrow> nat \<Rightarrow> ('k, 'v) bpf_map" where
  "empty_map name n = \<lparr>bm_name = name, bm_max_entries = n, bm_elems = Map.empty\<rparr>"

definition sample_far_skeleton :: far_skeleton where
  "sample_far_skeleton =
     \<lparr>fsk_names = [''m_far'', ''m_redirect_interfaces'', ''m_arp_table''], fsk_fd = 11,
      fsk_m_far = empty_map ''m_far'' 1, fsk_m_arp_table = empty_map ''m_arp_table'' 2,
      fsk_m_redirect_interfaces = empty_map ''m_redirect_interfaces'' 10\<rparr>"

definition sample_lc_env :: "'s \<Rightarrow> 's lc_env" where
  "sample_lc_env sk =
     \<lparr>env_setrlimit = 0, env_open = Some sk, env_load = (\<lambda>s. (0, s)), env_attach = (\<lambda>s. (0, s)),
      env_programs = (\<lambda>s. [(''xdp_entry_point'', 5)]),
      env_if_nametoindex = (\<lambda>n. if n = ''udp0'' then 7 else 6), env_set_link = (\<lambda>es i fd fl. 0)\<rparr>"

definition sample_upf_skeleton :: upf_skeleton where
  "sample_upf_skeleton =
     \<lparr>usk_names = [''m_teid_session'', ''m_ueip_session'', ''m_next_rule_prog'', ''m_next_rule_prog_index''],
      usk_m_teid_session = empty_map ''m_teid_session'' 10000,
      usk_m_ueip_session = empty_map ''m_ueip_session'' 100000,
      usk_m_next_rule_prog = empty_map ''m_next_rule_prog'' 10,
      usk_m_next_rule_prog_index = empty_map ''m_next_rule_prog_index'' 10\<rparr>"

definition sample_session_skeleton :: session_skeleton where
  "sample_session_skeleton =
     \<lparr>ssk_names = [''m_fars'', ''m_teid_pdr'', ''m_ueip_pdr'', ''mc_stats'', ''m_redirect_interfaces'',
                   ''m_arp_table''],
      ssk_uplink_fd = 21, ssk_downlink_fd = 22,
      ssk_m_redirect_interfaces = empty_map ''m_redirect_interfaces'' 10\<rparr>"

definition sample_upf_env :: upf_env where
  "sample_upf_env =
     \<lparr>ue_far_env = (\<lambda>i. sample_lc_env sample_far_skeleton),
      ue_session_env = (\<lambda>i. sample_lc_env sample_session_skeleton),
      ue_upf_env = sample_lc_env sample_upf_skeleton,
      ue_far_sys = ref_map_sys hash_accepts, ue_dev_sys = ref_map_sys array_accepts,
      ue_index_sys = ref_map_sys hash_accepts, ue_prog_sys = ref_map_sys array_accepts,
      ue_junk = IDLE, ue_skb = True\<rparr>"

definition sample_upf_state :: upf_state where
  "sample_upf_state =
     \<lparr>us_sIdCounter = 1, us_far_programs = Map.empty,
      us_upf = (new_life_cycle LINKED True)\<lparr>lc_skeleton := Some sample_upf_skeleton\<rparr>,
      us_mSessionProgramsMap = Map.empty, us_mSessionProgramMap = [],
      us_mProgramArray = replicate 10 EMPTY_SLOT, us_observer_set = False,
      us_mSeidToSession = Map.empty, us_mGTPInterface = ''gtp0'', us_mUDPInterface = ''udp0''\<rparr>"

lemma sample_upf_env_ok: "upf_env_ok sample_upf_env"
  by (simp add: upf_env_ok_def sample_upf_env_def ref_map_sys_ok)
    (intro exI [of _ sample_far_skeleton],
     simp add: far_env_ok_def sample_lc_env_def sample_far_skeleton_def empty_map_def)

lemma sample_views [simp]:
  "index_of sample_upf_state = Map.empty" "owned sample_upf_state = Map.empty"
  "us_sIdCounter sample_upf_state = 1"
  "dispatch sample_upf_state = Map.empty"
  by (simp_all add: fun_eq_iff dispatch_def index_of_def owned_def sample_upf_state_def
      new_life_cycle_def sample_upf_skeleton_def empty_map_def)

lemma sample_pm_inv: "pm_inv sample_upf_state"
  by (rule pm_invI [of _ sample_upf_skeleton])
    (simp_all add: sample_upf_state_def new_life_cycle_def sample_upf_skeleton_def empty_map_def
      index_of_def owned_def)

text \<open>
  C12: Creating a pipeline implements the insertion of one entry.  For a session and a detection
  key that are not in use, with room in the index map and a program number below the size of
  the program array, \<^verbatim>\<open>createPipeline\<close> returns; afterwards the entry program finds the FAR of the
  request under the key, every other key leads where it led before, the session owns the key,
  and the bookkeeping invariant holds.
\<close>

theorem createPipeline_inserts:
  fixes teid src ip
  defines "key \<equiv> \<lparr>key_teid = teid, key_source_value = src, key_ipv4_address = ip\<rparr>"
  assumes "upf_env_ok E" and "pm_inv st" and "unat (us_sIdCounter st) < 10"
    and "card (dom (index_of st)) < 10"
    and "owned st seid = None" and "key \<notin> ran (owned st)"
  shows "\<exists>st'. createPipeline E seid teid src ip pFar st = (Inr (), st') \<and> pm_inv st' \<and>
    owned st' = (owned st)(seid \<mapsto> key) \<and> dispatch st' = (dispatch st)(key \<mapsto> far_of_pfcp pFar)"
  using createPipeline_effect [OF assms(2-6), of teid src ip pFar] assms(1,7) by blast

theorem createPipeline_inserts_witness:
  "\<exists>st'. createPipeline sample_upf_env 9 100 INTERFACE_VALUE_ACCESS 0x0101030A
       (pfcp_far_of_create (sample_create_far 5)) sample_upf_state = (Inr (), st') \<and> pm_inv st' \<and>
     dispatch st' \<lparr>key_teid = 100, key_source_value = INTERFACE_VALUE_ACCESS,
                   key_ipv4_address = 0x0101030A\<rparr>
       = Some (far_of_pfcp (pfcp_far_of_create (sample_create_far 5)))"
  using createPipeline_inserts [OF sample_upf_env_ok sample_pm_inv, of 9 100 INTERFACE_VALUE_ACCESS
      "0x0101030A" "pfcp_far_of_create (sample_create_far 5)"]
  by auto

text \<open>
  C13: Removing a pipeline implements the deletion of the session's entry, and nothing else
  changes in the table; a session without a pipeline is refused with the state unchanged.
\<close>

theorem removePipeline_deletes:
  assumes "upf_env_ok E" and "pm_inv st"
  shows "case owned st seid of
     Some key \<Rightarrow> \<exists>st'. removePipeline E seid st = (Inr (), st') \<and> pm_inv st' \<and>
       owned st' = (owned st)(seid := None) \<and> dispatch st' = (dispatch st)(key := None)
   | None \<Rightarrow> \<exists>msg. removePipeline E seid st = (Inl msg, st)"
  using removePipeline_effect [OF assms, of seid]
  by (auto simp: owned_def removePipeline_def split: option.splits)

theorem removePipeline_deletes_witness:
  "\<exists>st1 st2. createPipeline sample_upf_env 9 100 INTERFACE_VALUE_ACCESS 0x0101030A
       (pfcp_far_of_create (sample_create_far 5)) sample_upf_state = (Inr (), st1) \<and>
     removePipeline sample_upf_env 9 st1 = (Inr (), st2) \<and> dispatch st2 = Map.empty"
proof -
  obtain st1 where st1: "createPipeline sample_upf_env 9 100 INTERFACE_VALUE_ACCESS 0x0101030A
      (pfcp_far_of_create (sample_create_far 5)) sample_upf_state = (Inr (), st1)" "pm_inv st1"
    "owned st1 = [9 \<mapsto> \<lparr>key_teid = 100, key_source_value = 0, key_ipv4_address = 0x0101030A\<rparr>]"
    "dispatch st1 = [\<lparr>key_teid = 100, key_source_value = 0, key_ipv4_address = 0x0101030A\<rparr>
       \<mapsto> far_of_pfcp (pfcp_far_of_create (sample_create_far 5))]"
    using createPipeline_effect [OF sample_upf_env_ok sample_pm_inv, of 9 100 INTERFACE_VALUE_ACCESS
      "0x0101030A" "pfcp_far_of_create (sample_create_far 5)"] by auto
  then show ?thesis
    using removePipeline_deletes [OF sample_upf_env_ok st1(2), of 9] by auto
qed

text \<open>
  Creating a pipeline and removing it again leaves the table as it was.
\<close>

lemma createPipeline_removePipeline:
  assumes "upf_env_ok E" and "pm_inv st" and "unat (us_sIdCounter st) < 10"
    and "card (dom (index_of st)) < 10" and "owned st seid = None"
    and "\<lparr>key_teid = teid, key_source_value = src, key_ipv4_address = ip\<rparr> \<notin> ran (owned st)"
    and "dispatch st \<lparr>key_teid = teid, key_source_value = src, key_ipv4_address = ip\<rparr> = None"
  shows "\<exists>st1 st2. createPipeline E seid teid src ip pFar st = (Inr (), st1) \<and>
    removePipeline E seid st1 = (Inr (), st2) \<and> owned st2 = owned st \<and> dispatch st2 = dispatch st"
proof -
  let ?key = "\<lparr>key_teid = teid, key_source_value = src, key_ipv4_address = ip\<rparr>"
  obtain st1 where st1: "createPipeline E seid teid src ip pFar st = (Inr (), st1)" "pm_inv st1"
    "owned st1 = (owned st)(seid \<mapsto> ?key)" "dispatch st1 = (dispatch st)(?key \<mapsto> far_of_pfcp pFar)"
    using createPipeline_effect [OF assms(1-6)] by blast
  then obtain st2 where "removePipeline E seid st1 = (Inr (), st2)"
    "owned st2 = (owned st1)(seid := None)" "dispatch st2 = (dispatch st1)(?key := None)"
    using removePipeline_effect [OF assms(1) st1(2), of seid ?key] by auto
  then show ?thesis
    using st1 assms(5,7) by (auto simp: fun_eq_iff)
qed

lemma createPipeline_removePipeline_witness:
  "\<exists>st1 st2. createPipeline sample_upf_env 9 100 INTERFACE_VALUE_CORE 77
       (pfcp_far_of_create (sample_create_far 5)) sample_upf_state = (Inr (), st1) \<and>
     removePipeline sample_upf_env 9 st1 = (Inr (), st2) \<and> owned st2 = Map.empty \<and>
     dispatch st2 = Map.empty"
  using createPipeline_removePipeline [OF sample_upf_env_ok sample_pm_inv, of 9 100
      INTERFACE_VALUE_CORE 77 "pfcp_far_of_create (sample_create_far 5)"]
  by simp



end
