(* ===== verification/Session_Manager.thy ===== *)
theory Session_Manager
  imports Session_Program_Manager "HOL-Library.Multiset"
begin

text \<open>
  The management layer above the pipelines: \<^verbatim>\<open>src/SessionManager.cpp\<close>, \<^verbatim>\<open>src/UserPlaneComponent.cpp\<close>
  and \<^verbatim>\<open>src/SignalHandler.cpp\<close>.  \<^verbatim>\<open>std::sort\<close> may leave rules of equal precedence in any order, so
  it is a parameter of which only the specification of the C++ standard is used; the value of
  the local precedence variables that \<^verbatim>\<open>comparePDR\<close> leaves uninitialised is a parameter too.
\<close>

section \<open>Definitions\<close>

type_synonym pdr_sort = "(pfcp_pdr \<Rightarrow> pfcp_pdr \<Rightarrow> bool) \<Rightarrow> pfcp_pdr list \<Rightarrow> pfcp_pdr list"

definition comparePDR :: "u32 \<Rightarrow> u32 \<Rightarrow> pfcp_pdr \<Rightarrow> pfcp_pdr \<Rightarrow> bool" where
  "comparePDR junk1 junk2 pFirst pSecond \<longleftrightarrow>
     snd (pfcp_pdr_get_precedence pFirst junk1) < snd (pfcp_pdr_get_precedence pSecond junk2)"

definition sm_createSession :: "upf_env \<Rightarrow> u64 \<Rightarrow> (upf_state, unit) op" where
  "sm_createSession E seid = spm_create E (ucast seid)"

definition sm_removeSession :: "upf_env \<Rightarrow> u64 \<Rightarrow> (upf_state, unit) op" where
  "sm_removeSession E seid = spm_remove E (ucast seid)"

text \<open>
  The detection key of the PDR with the highest priority and the FAR it names; \<open>None\<close> when one
  of the chained \<^verbatim>\<open>get\<close> calls fails.
\<close>

definition pipeline_request :: "pfcp_session \<Rightarrow> pfcp_pdr \<Rightarrow> (u32 \<times> u8 \<times> u32 \<times> pfcp_far) option" where
  "pipeline_request pSession pdr =
     (let (okPdi, pdi) = pfcp_pdr_get_pdi pdr new_pdi;
          (okFteid, fteid) = pdi_get_local_fteid pdi fteid0;
          (okSource, sourceInterface) = pdi_get_source_interface pdi 0;
          (okUe, ueIpAddress) = pdi_get_ue_ip_address pdi ue_ip_address0;
          (okFar, farId) = pfcp_pdr_get_far_id pdr 0
      in if \<not> (okPdi \<and> okFteid \<and> okSource \<and> okUe) then None
         else if \<not> okFar then None
         else case session_get_far pSession farId of
                None \<Rightarrow> None
              | Some pFar \<Rightarrow>
                  Some (fteid_teid fteid, sourceInterface, ueip_ipv4_address ueIpAddress, pFar))"

definition createBPFSession ::
    "upf_env \<Rightarrow> pdr_sort \<Rightarrow> u32 \<Rightarrow> u32 \<Rightarrow> pfcp_session \<Rightarrow> (upf_state, unit) op" where
  "createBPFSession E std_sort junk1 junk2 pSession0 =
     (let pSession = pSession0\<lparr>ses_pdrs := std_sort (comparePDR junk1 junk2) (ses_pdrs pSession0)\<rparr> in
      case ses_pdrs pSession of
        [] \<Rightarrow> throw ''No PDR was found in session''
      | pdrHighPriority # _ \<Rightarrow>
          (case pipeline_request pSession pdrHighPriority of
             None \<Rightarrow> throw ''No fields available''
           | Some (teid, source, ueIp, pFar) \<Rightarrow>
               seq (createPipeline E (ucast (session_get_up_seid pSession)) teid source ueIp pFar)
                   (\<lambda>st. (Inr (), st\<lparr>us_mSeidToSession :=
                      (us_mSeidToSession st)(session_get_up_seid pSession \<mapsto> pSession)\<rparr>))))"

definition removeBPFSession :: "upf_env \<Rightarrow> u64 \<Rightarrow> (upf_state, unit) op" where
  "removeBPFSession E seid st =
     (if us_mSeidToSession st seid = None
      then (Inl ''The session does not exist. Cannot be removed'', st)
      else removePipeline E (ucast seid) st)"

section \<open>\<^verbatim>\<open>UserPlaneComponent\<close>\<close>

text \<open>
  \<^verbatim>\<open>setup\<close> makes a new UPF program and, when its set-up succeeds, a new session manager.
\<close>

definition upc_setup :: "upf_env \<Rightarrow> string \<Rightarrow> string \<Rightarrow> (upf_state, unit) op" where
  "upc_setup E gtpInterface udpInterface st =
     (let st1 = st\<lparr>us_mGTPInterface := gtpInterface, us_mUDPInterface := udpInterface,
                   us_upf := new_life_cycle (ue_junk E) (ue_skb E)\<rparr>
      in seq (on_upf (UPFProgram_setup (ue_upf_env E) gtpInterface udpInterface))
             (\<lambda>st. (Inr (), st\<lparr>us_mSeidToSession := Map.empty\<rparr>)) st1)"

definition upc_tearDown :: "upf_env \<Rightarrow> (upf_state, unit) op" where
  "upc_tearDown E = seq (on_upf (UPFProgram_tearDown (ue_upf_env E))) (removeAll E)"

definition destroy_UserPlaneComponent :: "upf_env \<Rightarrow> (upf_state, unit) op" where
  "destroy_UserPlaneComponent E = upc_tearDown E"

definition onNewSessionProgram :: "upf_env \<Rightarrow> u32 \<Rightarrow> int \<Rightarrow> (upf_state, unit) op" where
  "onNewSessionProgram E programId fileDescriptor =
     on_upf (UPFProgram_updateProgramMap (ue_prog_sys E) programId fileDescriptor)"

definition onDestroySessionProgram :: "upf_env \<Rightarrow> u32 \<Rightarrow> (upf_state, unit) op" where
  "onDestroySessionProgram E programId =
     on_upf (UPFProgram_removeProgramMap (ue_prog_sys E) programId)"

text \<open>\<^verbatim>\<open>SignalHandler::tearDown\<close> ends the process after the tear down.\<close>

definition signal_tearDown :: "upf_env \<Rightarrow> (upf_state, unit) op" where
  "signal_tearDown E = upc_tearDown E"

section \<open>The PDR that is deployed\<close>

text \<open>What the C++ standard says of \<^verbatim>\<open>std::sort\<close> with a strict weak order.\<close>

definition std_sort_ok :: "pdr_sort \<Rightarrow> bool" where
  "std_sort_ok std_sort \<longleftrightarrow>
     (\<forall>cmp ps. \<forall>k :: pfcp_pdr \<Rightarrow> u32. (\<forall>p \<in> set ps. \<forall>q \<in> set ps. cmp p q = (k p < k q)) \<longrightarrow>
        mset (std_sort cmp ps) = mset ps \<and> sorted (map k (std_sort cmp ps)))"

definition stable_sort :: pdr_sort where
  "stable_sort cmp ps = foldr (\<lambda>p qs. takeWhile (\<lambda>q. cmp q p) qs @ p # dropWhile (\<lambda>q. cmp q p) qs) ps []"

abbreviation (input) precedence_of :: "pfcp_pdr \<Rightarrow> u32" where
  "precedence_of p \<equiv> snd (pr_precedence p)"

lemma stable_sort_insort:
  "takeWhile (\<lambda>q. k q < k p) qs @ p # dropWhile (\<lambda>q. k q < k p) qs = insort_key k p qs"
  for k :: "pfcp_pdr \<Rightarrow> u32"
  by (induction qs) auto

lemma stable_sort_sort_key:
  fixes k :: "pfcp_pdr \<Rightarrow> u32"
  assumes "\<forall>p \<in> set ps. \<forall>q \<in> set ps. cmp p q = (k p < k q)"
  shows "stable_sort cmp ps = sort_key k ps"
  using assms
proof (induction ps)
  case Nil
  show ?case by (simp add: stable_sort_def)
next
  case (Cons p ps)
  then have IH: "stable_sort cmp ps = sort_key k ps" by simp
  have "takeWhile (\<lambda>q. cmp q p) (sort_key k ps) = takeWhile (\<lambda>q. k q < k p) (sort_key k ps)"
    and "dropWhile (\<lambda>q. cmp q p) (sort_key k ps) = dropWhile (\<lambda>q. k q < k p) (sort_key k ps)"
    using Cons.prems by (auto intro: takeWhile_cong dropWhile_cong)
  with IH show ?case
    using stable_sort_insort [of k p "sort_key k ps"] by (simp add: stable_sort_def)
qed

lemma stable_sort_ok: "std_sort_ok stable_sort"
  unfolding std_sort_ok_def
proof (intro allI impI)
  fix cmp :: "pfcp_pdr \<Rightarrow> pfcp_pdr \<Rightarrow> bool" and ps and k :: "pfcp_pdr \<Rightarrow> u32"
  assume "\<forall>p \<in> set ps. \<forall>q \<in> set ps. cmp p q = (k p < k q)"
  then have "stable_sort cmp ps = sort_key k ps" by (rule stable_sort_sort_key)
  then show "mset (stable_sort cmp ps) = mset ps \<and> sorted (map k (stable_sort cmp ps))" by simp
qed

lemma std_sort_okD:
  assumes "std_sort_ok std_sort" and "\<forall>q \<in> set ps. fst (pr_precedence q)"
  shows "mset (std_sort (comparePDR j1 j2) ps) = mset ps"
    and "sorted (map precedence_of (std_sort (comparePDR j1 j2) ps))"
proof -
  have "\<forall>p \<in> set ps. \<forall>q \<in> set ps. comparePDR j1 j2 p q = (precedence_of p < precedence_of q)"
    using assms(2) by (simp add: comparePDR_def pfcp_pdr_get_precedence_def opt_get_def)
  then show "mset (std_sort (comparePDR j1 j2) ps) = mset ps"
    "sorted (map precedence_of (std_sort (comparePDR j1 j2) ps))"
    using assms(1) [unfolded std_sort_ok_def, rule_format, of ps "comparePDR j1 j2" precedence_of]
    by blast+
qed

lemma sorted_head:
  assumes "std_sort_ok std_sort" and "std_sort (comparePDR j1 j2) ps = p # qs"
    and "\<forall>q \<in> set ps. fst (pr_precedence q)"
  shows "p \<in> set ps \<and> (\<forall>q \<in> set ps. precedence_of p \<le> precedence_of q)"
proof -
  have "mset (p # qs) = mset ps" and srt: "sorted (map precedence_of (p # qs))"
    using std_sort_okD [OF assms(1,3), of j1 j2] assms(2) by simp_all
  then have "set ps = insert p (set qs)"
    by (metis list.simps(15) set_mset_mset)
  with srt show ?thesis by auto
qed

lemma sort_nonempty:
  assumes "std_sort_ok std_sort" and "\<forall>q \<in> set ps. fst (pr_precedence q)" and "ps \<noteq> []"
  obtains p qs where "std_sort (comparePDR j1 j2) ps = p # qs"
proof -
  have "std_sort (comparePDR j1 j2) ps \<noteq> []"
    using std_sort_okD(1) [OF assms(1,2), of j1 j2] assms(3) by auto
  then show ?thesis
    using that by (cases "std_sort (comparePDR j1 j2) ps") auto
qed

lemma pipeline_request_pdrs [simp]:
  "pipeline_request (S\<lparr>ses_pdrs := ps\<rparr>) p = pipeline_request S p"
  by (simp add: pipeline_request_def session_get_far_def split_def Let_def)

lemma get_up_seid_pdrs [simp]: "session_get_up_seid (S\<lparr>ses_pdrs := ps\<rparr>) = session_get_up_seid S"
  by (simp add: session_get_up_seid_def)

lemma createBPFSession_head:
  assumes "std_sort (comparePDR j1 j2) (ses_pdrs S) = p # qs"
  shows "createBPFSession E std_sort j1 j2 S st =
    (case pipeline_request S p of
       None \<Rightarrow> (Inl ''No fields available'', st)
     | Some (teid, source, ueIp, pFar) \<Rightarrow>
         seq (createPipeline E (ucast (session_get_up_seid S)) teid source ueIp pFar)
             (\<lambda>st. (Inr (), st\<lparr>us_mSeidToSession := (us_mSeidToSession st)
                (session_get_up_seid S \<mapsto> S\<lparr>ses_pdrs := p # qs\<rparr>)\<rparr>)) st)"
  using assms by (simp add: createBPFSession_def split: option.split)

text \<open>The manager's views do not depend on the table of sessions.\<close>

lemma seid_table_views [simp]:
  "pm_inv (st\<lparr>us_mSeidToSession := m\<rparr>) = pm_inv st"
  "owned (st\<lparr>us_mSeidToSession := m\<rparr>) = owned st"
  "dispatch (st\<lparr>us_mSeidToSession := m\<rparr>) = dispatch st"
  "index_of (st\<lparr>us_mSeidToSession := m\<rparr>) = index_of st"
  "far_program_at (st\<lparr>us_mSeidToSession := m\<rparr>) = far_program_at st"
proof -
  show 1: "owned (st\<lparr>us_mSeidToSession := m\<rparr>) = owned st"
    and 2: "index_of (st\<lparr>us_mSeidToSession := m\<rparr>) = index_of st"
    and 3: "far_program_at (st\<lparr>us_mSeidToSession := m\<rparr>) = far_program_at st"
    by (simp_all add: fun_eq_iff owned_def index_of_def far_program_at_def prog_of_def)
  show "dispatch (st\<lparr>us_mSeidToSession := m\<rparr>) = dispatch st"
    by (simp add: fun_eq_iff dispatch_def 2 3)
  show "pm_inv (st\<lparr>us_mSeidToSession := m\<rparr>) = pm_inv st"
    by (simp add: pm_inv_def pipeline_ok_def 1 2 prog_of_def)
qed

lemma createBPFSession_effect:
  assumes E: "upf_env_ok E" and inv: "pm_inv st" and cnt: "unat (us_sIdCounter st) < 10"
    and card: "card (dom (index_of st)) < 10"
    and head: "std_sort (comparePDR j1 j2) (ses_pdrs S) = p # qs"
    and req: "pipeline_request S p = Some (teid, src, ip, pFar)"
    and key: "key = \<lparr>key_teid = teid, key_source_value = src, key_ipv4_address = ip\<rparr>"
    and fresh: "owned st (ucast (session_get_up_seid S)) = None" "key \<notin> ran (owned st)"
  shows "\<exists>st'. createBPFSession E std_sort j1 j2 S st = (Inr (), st') \<and> pm_inv st' \<and>
    owned st' = (owned st)(ucast (session_get_up_seid S) \<mapsto> key) \<and>
    dispatch st' = (dispatch st)(key \<mapsto> far_of_pfcp pFar) \<and>
    us_sIdCounter st' = us_sIdCounter st + 1 \<and>
    us_mSeidToSession st' = (us_mSeidToSession st)(session_get_up_seid S \<mapsto> S\<lparr>ses_pdrs := p # qs\<rparr>) \<and>
    index_of st' = (index_of st)(key \<mapsto> us_sIdCounter st) \<and>
    (\<forall>j. j \<noteq> us_sIdCounter st \<longrightarrow> far_program_at st' j = far_program_at st j) \<and>
    (\<exists>sk. far_program_at st' (us_sIdCounter st) = Some sk \<and>
       bm_elems (fsk_m_far sk) 0 = Some (far_of_pfcp pFar) \<and>
       bm_elems (fsk_m_redirect_interfaces sk) 1
          = Some (env_if_nametoindex (ue_far_env E (us_sIdCounter st)) (us_mUDPInterface st)) \<and>
       bm_elems (fsk_m_redirect_interfaces sk) 0
          = Some (env_if_nametoindex (ue_far_env E (us_sIdCounter st)) (us_mGTPInterface st)))"
proof -
  obtain st1 where "createPipeline E (ucast (session_get_up_seid S)) teid src ip pFar st = (Inr (), st1)"
    and st1: "pm_inv st1" "owned st1 = (owned st)(ucast (session_get_up_seid S) \<mapsto> key)"
      "dispatch st1 = (dispatch st)(key \<mapsto> far_of_pfcp pFar)" "us_sIdCounter st1 = us_sIdCounter st + 1"
      "us_mSeidToSession st1 = us_mSeidToSession st"
      "index_of st1 = (index_of st)(key \<mapsto> us_sIdCounter st)"
      "\<forall>j. j \<noteq> us_sIdCounter st \<longrightarrow> far_program_at st1 j = far_program_at st j"
    and prog: "\<exists>sk. far_program_at st1 (us_sIdCounter st) = Some sk \<and>
       bm_elems (fsk_m_far sk) 0 = Some (far_of_pfcp pFar) \<and>
       bm_elems (fsk_m_redirect_interfaces sk) 1
          = Some (env_if_nametoindex (ue_far_env E (us_sIdCounter st)) (us_mUDPInterface st)) \<and>
       bm_elems (fsk_m_redirect_interfaces sk) 0
          = Some (env_if_nametoindex (ue_far_env E (us_sIdCounter st)) (us_mGTPInterface st))"
    using createPipeline_effect [OF E inv cnt card fresh(1), of teid src ip pFar] fresh(2)
    unfolding key by blast
  let ?st = "st1\<lparr>us_mSeidToSession := (us_mSeidToSession st)
     (session_get_up_seid S \<mapsto> S\<lparr>ses_pdrs := p # qs\<rparr>)\<rparr>"
  have "createBPFSession E std_sort j1 j2 S st = (Inr (), ?st)"
    using \<open>createPipeline _ _ _ _ _ _ _ = _\<close> st1(5) by (simp add: createBPFSession_head [of std_sort j1 j2 S p qs, OF head] req)
  then show ?thesis
    using st1 prog by (intro exI [of _ ?st]) simp
qed

lemma removePipeline_seid_table:
  assumes "removePipeline E seid st = (Inr (), st')"
  shows "us_mSeidToSession st' = us_mSeidToSession st"
  using assms
  by (auto simp: removePipeline_def seq_eq_Inr SessionPrograms_destroy_def on_far_def on_upf_def
      split: option.splits prod.splits)

lemma removeAll_unobserved:
  assumes "\<not> us_observer_set st"
  shows "case removeAll E st of (r, st') \<Rightarrow>
    us_upf st' = us_upf st \<and> us_far_programs st' = us_far_programs st \<and>
    us_mSessionProgramsMap st' = us_mSessionProgramsMap st \<and>
    (r = Inr () \<longleftrightarrow> us_mSessionProgramMap st = [])"
proof (cases "us_mSessionProgramMap st")
  case Nil
  then show ?thesis by (simp add: removeAll_def)
next
  case (Cons p ps)
  obtain seid lc where p: "p = (seid, lc)" by fastforce
  obtain r lc' where t: "SessionProgram_tearDown (ue_session_env E seid) lc = (r, lc')" by fastforce
  have "\<exists>e. removeAll_loop E (us_mSessionProgramMap st) st = (Inl e, put_session_program seid lc' st)"
    using t assms by (cases r) (simp_all add: Cons p)
  then obtain e where "removeAll E st = (Inl e, put_session_program seid lc' st)"
    by (auto simp: removeAll_def)
  then show ?thesis by (simp add: Cons put_session_program_def)
qed

section \<open>Properties\<close>

text \<open>A session with two PDRs; the second one has the higher priority and a FAR towards the core.\<close>

definition sample_pdi :: pdi where
  "sample_pdi = new_pdi\<lparr>pd_source_interface := (True, INTERFACE_VALUE_ACCESS),
     pd_local_fteid := (True, fteid0\<lparr>fteid_teid := 100\<rparr>),
     pd_ue_ip_address := (True, ue_ip_address0\<lparr>ueip_ipv4_address := 0x0103010A\<rparr>)\<rparr>"

definition sample_pfcp_pdr :: "u16 \<Rightarrow> u32 \<Rightarrow> u32 \<Rightarrow> pfcp_pdr" where
  "sample_pfcp_pdr i prec far = pfcp_pdr_of_create (new_create_pdr\<lparr>cp_pdr_id := (True, i),
     cp_precedence := (True, prec), cp_pdi := (True, sample_pdi), cp_far_id := (True, far)\<rparr>)"

definition sample_core_far :: "u32 \<Rightarrow> pfcp_far" where
  "sample_core_far i = pfcp_far_of_create ((sample_create_far i)\<lparr>cf_forwarding_parameters :=
     (True, new_forwarding_parameters\<lparr>fp_destination_interface := (True, INTERFACE_VALUE_CORE),
        fp_outer_header_creation := (True, core_outer_header_creation0
          \<lparr>ohcr_outer_header_creation_description := OUTER_HEADER_CREATION_UDP_IPV4\<rparr>)\<rparr>)\<rparr>)"

definition sample_pfcp_session :: "u64 \<Rightarrow> pfcp_session" where
  "sample_pfcp_session seid =
     (new_pfcp_session fseid0 seid)\<lparr>ses_pdrs := [sample_pfcp_pdr 1 20 4, sample_pfcp_pdr 2 10 5],
        ses_fars := [sample_core_far 4, sample_core_far 5]\<rparr>"

lemma sample_requests:
  "pipeline_request (sample_pfcp_session seid) (sample_pfcp_pdr 1 20 4)
     = Some (100, INTERFACE_VALUE_ACCESS, 0x0103010A, sample_core_far 4)"
  "pipeline_request (sample_pfcp_session seid) (sample_pfcp_pdr 2 10 5)
     = Some (100, INTERFACE_VALUE_ACCESS, 0x0103010A, sample_core_far 5)"
  by (simp_all add: pipeline_request_def sample_pfcp_pdr_def sample_pfcp_session_def sample_pdi_def
      sample_core_far_def sample_create_far_def new_create_pdr_def pfcp_pdr_of_create_def
      pfcp_far_of_create_def pfcp_pdr_get_pdi_def pdi_get_local_fteid_def pdi_get_source_interface_def
      pdi_get_ue_ip_address_def pfcp_pdr_get_far_id_def opt_get_def session_get_far_def
      new_create_far_def)

lemma sample_precedence [simp]: "pr_precedence (sample_pfcp_pdr i prec far) = (True, prec)"
  by (simp add: sample_pfcp_pdr_def pfcp_pdr_of_create_def)

lemma sample_session_simps [simp]:
  "ses_pdrs (sample_pfcp_session seid) = [sample_pfcp_pdr 1 20 4, sample_pfcp_pdr 2 10 5]"
  "session_get_up_seid (sample_pfcp_session seid) = seid"
  by (simp_all add: sample_pfcp_session_def session_get_up_seid_def new_pfcp_session_def)

lemma sample_sorted:
  "stable_sort (comparePDR j1 j2) (ses_pdrs (sample_pfcp_session seid)) =
     [sample_pfcp_pdr 2 10 5, sample_pfcp_pdr 1 20 4]"
  by (simp add: stable_sort_def comparePDR_def pfcp_pdr_get_precedence_def opt_get_def)

text \<open>
  C8: Creating a session deploys the PDR with the lowest precedence value.  Whatever the order in
  which the sort leaves rules of equal precedence: some PDR of least precedence is chosen; when
  one of its members or its FAR is missing, an exception is thrown and nothing changed;
  otherwise, if neither the (truncated) session number nor the detection key is in use, the call
  returns, the entry program finds exactly that PDR's FAR under its key, and the session is
  registered.
\<close>

theorem createBPFSession_highest_priority:
  assumes "upf_env_ok E" and "pm_inv st" and "unat (us_sIdCounter st) < 10"
    and "card (dom (index_of st)) < 10"
    and "std_sort_ok std_sort" and "ses_pdrs S \<noteq> []"
    and "\<forall>q \<in> set (ses_pdrs S). fst (pr_precedence q)"
  shows "\<exists>p \<in> set (ses_pdrs S). (\<forall>q \<in> set (ses_pdrs S). precedence_of p \<le> precedence_of q) \<and>
    (case pipeline_request S p of
       None \<Rightarrow> createBPFSession E std_sort j1 j2 S st = (Inl ''No fields available'', st)
     | Some (teid, src, ip, pFar) \<Rightarrow>
         owned st (ucast (session_get_up_seid S)) = None \<longrightarrow>
         \<lparr>key_teid = teid, key_source_value = src, key_ipv4_address = ip\<rparr> \<notin> ran (owned st) \<longrightarrow>
         (\<exists>st'. createBPFSession E std_sort j1 j2 S st = (Inr (), st') \<and> pm_inv st' \<and>
            dispatch st' = (dispatch st)
              (\<lparr>key_teid = teid, key_source_value = src, key_ipv4_address = ip\<rparr> \<mapsto> far_of_pfcp pFar) \<and>
            us_mSeidToSession st' (session_get_up_seid S) \<noteq> None))"
proof -
  obtain p qs where head: "std_sort (comparePDR j1 j2) (ses_pdrs S) = p # qs"
    using sort_nonempty [OF assms(5,7,6)] by blast
  have min: "p \<in> set (ses_pdrs S) \<and> (\<forall>q \<in> set (ses_pdrs S). precedence_of p \<le> precedence_of q)"
    by (rule sorted_head [of std_sort j1 j2 _ p qs, OF assms(5) head assms(7)])
  show ?thesis
  proof (cases "pipeline_request S p")
    case None
    then show ?thesis
      using min by (intro bexI [of _ p]) (simp_all add: createBPFSession_head [of std_sort j1 j2 S p qs, OF head])
  next
    case (Some r)
    obtain teid src ip pFar where r: "r = (teid, src, ip, pFar)" by (cases r) auto
    show ?thesis
      using min createBPFSession_effect [of E st std_sort j1 j2 S p qs,
          OF assms(1-4) head Some [unfolded r] refl]
      by (intro bexI [of _ p]) (auto simp: Some r simp del: not_None_eq)
  qed
qed

theorem createBPFSession_highest_priority_witness:
  "\<exists>st'. createBPFSession sample_upf_env stable_sort 7 3 (sample_pfcp_session 9) sample_upf_state = (Inr (), st') \<and>
     pm_inv st' \<and>
     dispatch st' \<lparr>key_teid = 100, key_source_value = INTERFACE_VALUE_ACCESS, key_ipv4_address = 0x0103010A\<rparr>
       = Some (far_of_pfcp (sample_core_far 5))"
  using createBPFSession_highest_priority [OF sample_upf_env_ok sample_pm_inv _ _ stable_sort_ok,
      of "sample_pfcp_session 9" 7 3]
  by (auto simp: sample_requests)

text \<open>
  Removing a created session restores the table of the entry program, but the session stays
  registered: a second removal passes the check for registered sessions and is refused only by
  the pipeline table, with the state unchanged.
\<close>

lemma createBPFSession_removeBPFSession:
  assumes "upf_env_ok E" and "pm_inv st" and "unat (us_sIdCounter st) < 10"
    and "card (dom (index_of st)) < 10"
    and "std_sort (comparePDR j1 j2) (ses_pdrs S) = p # qs"
    and "pipeline_request S p = Some (teid, src, ip, pFar)"
    and "owned st (ucast (session_get_up_seid S)) = None"
    and "\<lparr>key_teid = teid, key_source_value = src, key_ipv4_address = ip\<rparr> \<notin> ran (owned st)"
    and "dispatch st \<lparr>key_teid = teid, key_source_value = src, key_ipv4_address = ip\<rparr> = None"
  shows "\<exists>st1 st2 msg. createBPFSession E std_sort j1 j2 S st = (Inr (), st1) \<and>
    removeBPFSession E (session_get_up_seid S) st1 = (Inr (), st2) \<and>
    owned st2 = owned st \<and> dispatch st2 = dispatch st \<and>
    us_mSeidToSession st2 (session_get_up_seid S) \<noteq> None \<and>
    removeBPFSession E (session_get_up_seid S) st2 = (Inl msg, st2)"
proof -
  let ?key = "\<lparr>key_teid = teid, key_source_value = src, key_ipv4_address = ip\<rparr>"
  let ?seid = "session_get_up_seid S"
  obtain st1 where st1: "createBPFSession E std_sort j1 j2 S st = (Inr (), st1)" "pm_inv st1"
      "owned st1 = (owned st)(ucast ?seid \<mapsto> ?key)" "dispatch st1 = (dispatch st)(?key \<mapsto> far_of_pfcp pFar)"
      "us_mSeidToSession st1 ?seid \<noteq> None"
    using createBPFSession_effect [of E st std_sort j1 j2 S p qs, OF assms(1-6) refl assms(7,8)] by force
  obtain st2 where st2: "removePipeline E (ucast ?seid) st1 = (Inr (), st2)"
      "owned st2 = (owned st1)(ucast ?seid := None)" "dispatch st2 = (dispatch st1)(?key := None)"
    using removePipeline_effect [OF assms(1) st1(2), of "ucast ?seid" ?key] st1(3) by auto
  have keep: "us_mSeidToSession st2 = us_mSeidToSession st1"
    by (rule removePipeline_seid_table [OF st2(1)])
  have "us_mSessionProgramsMap st2 (ucast ?seid) = None"
    using st2(2) by (auto simp: owned_def fun_eq_iff split: if_splits)
  then show ?thesis
    using st1 st2(1) keep st2(2,3) assms(7,9)
    by (auto simp: removeBPFSession_def removePipeline_def [of E _ st2] fun_eq_iff simp del: not_None_eq)
qed

lemma createBPFSession_removeBPFSession_witness:
  "\<exists>st1 st2 msg. createBPFSession sample_upf_env stable_sort 7 3 (sample_pfcp_session 9) sample_upf_state
       = (Inr (), st1) \<and>
     removeBPFSession sample_upf_env 9 st1 = (Inr (), st2) \<and> dispatch st2 = Map.empty \<and>
     us_mSeidToSession st2 9 \<noteq> None \<and> removeBPFSession sample_upf_env 9 st2 = (Inl msg, st2)"
  using createBPFSession_removeBPFSession [of sample_upf_env sample_upf_state stable_sort 7 3
      "sample_pfcp_session 9", OF sample_upf_env_ok sample_pm_inv _ _ sample_sorted sample_requests(2)]
  by auto

text \<open>
  C29: Sessions are told apart by the lower 32 bits of their number only.  Creating a session whose
  number agrees there with that of an installed session takes the pipeline over: the old key
  still leads to its FAR, but no session owns it, so no removal will ever delete it.
\<close>

theorem createBPFSession_truncated_seid:
  assumes "upf_env_ok E" and "pm_inv st" and "unat (us_sIdCounter st) < 10"
    and "card (dom (index_of st)) < 10"
    and "std_sort (comparePDR j1 j2) (ses_pdrs S) = p # qs"
    and "pipeline_request S p = Some (teid, src, ip, pFar)"
    and "ucast (session_get_up_seid S) = (ucast (seid :: u64) :: u32)"
    and "owned st (ucast seid) = Some old"
    and "\<lparr>key_teid = teid, key_source_value = src, key_ipv4_address = ip\<rparr> \<notin> ran (owned st)"
  shows "\<exists>st'. createBPFSession E std_sort j1 j2 S st = (Inr (), st') \<and>
    dispatch st' old = dispatch st old \<and> dispatch st old \<noteq> None \<and> old \<notin> ran (owned st')"
proof -
  have "old \<in> ran (owned st)"
    using assms(8) by (auto simp: ran_def)
  then have "old \<noteq> \<lparr>key_teid = teid, key_source_value = src, key_ipv4_address = ip\<rparr>"
    using assms(9) by blast
  then show ?thesis
    using createPipeline_replaces [OF assms(1-4,8,9), of pFar] assms(7)
    by (auto simp: createBPFSession_head [of std_sort j1 j2 S p qs, OF assms(5)] assms(6) simp del: not_None_eq)
qed

text \<open>A pipeline of session 9 under another key.\<close>

theorem createBPFSession_truncated_seid_witness:
  "\<exists>st1 st2. createPipeline sample_upf_env 9 50 INTERFACE_VALUE_ACCESS 77 (sample_core_far 4)
       sample_upf_state = (Inr (), st1) \<and>
     createBPFSession sample_upf_env stable_sort 7 3 (sample_pfcp_session 0x100000009) st1 = (Inr (), st2) \<and>
     dispatch st2 \<lparr>key_teid = 50, key_source_value = INTERFACE_VALUE_ACCESS, key_ipv4_address = 77\<rparr>
       = Some (far_of_pfcp (sample_core_far 4)) \<and>
     \<lparr>key_teid = 50, key_source_value = INTERFACE_VALUE_ACCESS, key_ipv4_address = 77\<rparr>
       \<notin> ran (owned st2)"
proof -
  let ?k = "\<lparr>key_teid = 50, key_source_value = INTERFACE_VALUE_ACCESS, key_ipv4_address = 77\<rparr> :: next_rule_prog_index_key"
  obtain st1 where st1: "createPipeline sample_upf_env 9 50 INTERFACE_VALUE_ACCESS 77 (sample_core_far 4)
      sample_upf_state = (Inr (), st1)" "pm_inv st1" "owned st1 = [9 \<mapsto> ?k]"
      "dispatch st1 = [?k \<mapsto> far_of_pfcp (sample_core_far 4)]" "us_sIdCounter st1 = 2"
      "index_of st1 = [?k \<mapsto> 1]"
    using createPipeline_effect [OF sample_upf_env_ok sample_pm_inv, of 9 50 INTERFACE_VALUE_ACCESS 77
        "sample_core_far 4"] by auto
  then show ?thesis
    using createBPFSession_truncated_seid [of sample_upf_env st1 stable_sort 7 3
        "sample_pfcp_session 0x100000009", OF sample_upf_env_ok st1(2) _ _ sample_sorted sample_requests(2),
        of 9 ?k]
    by simp
qed

section \<open>Start-up and tear down\<close>

text \<open>The environment of the entry program when everything works.\<close>

definition upf_boot_ok :: "upf_skeleton lc_env \<Rightarrow> upf_skeleton \<Rightarrow> bool" where
  "upf_boot_ok E sk \<longleftrightarrow>
     env_setrlimit E = 0 \<and> env_open E = Some sk \<and> env_load E (Some sk) = (0, Some sk) \<and>
     env_attach E (Some sk) = (0, Some sk) \<and>
     {''m_teid_session'', ''m_ueip_session'', ''m_next_rule_prog'', ''m_next_rule_prog_index''}
       \<subseteq> set (usk_names sk) \<and>
     (\<exists>fd. map_of (env_programs E (Some sk)) ''xdp_entry_point'' = Some fd \<and> fd \<noteq> -1) \<and>
     (\<forall>es i fd fl. 0 \<le> env_set_link E es i fd fl) \<and>
     bm_elems (usk_m_next_rule_prog_index sk) = Map.empty \<and>
     bm_max_entries (usk_m_next_rule_prog_index sk) = 10 \<and> bm_max_entries (usk_m_next_rule_prog sk) = 10"

lemma link_section_ok:
  assumes "map_of progs name = Some fd" and "fd \<noteq> -1" and "\<forall>es i fd fl. 0 \<le> env_set_link E es i fd fl"
  shows "\<exists>lc'. link_section E name i progs lc = (Inr (), lc') \<and> lc_skeleton lc' = lc_skeleton lc \<and>
    lc_state lc' = LINKED \<and> live (lc_events lc') = insert i (live (lc_events lc))"
  using assms
proof (induction progs)
  case (Cons p progs)
  obtain n f where p: "p = (n, f)" by fastforce
  show ?case
  proof (cases "n = name")
    case True
    then have "f \<noteq> -1" and "\<not> env_set_link E (lc_events lc) i f (lc_flags lc) < 0"
      using Cons.prems by (auto simp: p not_less)
    then show ?thesis
      using True by (simp add: p sbind_def set_link_def emit_def Let_def split: option.split)
  next
    case False
    then show ?thesis using Cons by (simp add: p)
  qed
qed simp

lemma UPFProgram_setup_ok:
  assumes ok: "upf_boot_ok E sk" and names: "gtpI \<noteq> []" "udpI \<noteq> []"
    and ifs: "env_if_nametoindex E gtpI \<noteq> 0" "env_if_nametoindex E udpI \<noteq> 0"
    and "live (lc_events lc) = {}"
  shows "\<exists>lc'. UPFProgram_setup E gtpI udpI lc = (Inr (), lc') \<and> lc_skeleton lc' = Some sk \<and>
    lc_state lc' = LINKED \<and> live (lc_events lc') = {env_if_nametoindex E gtpI, env_if_nametoindex E udpI}"
proof -
  let ?o = "lc\<lparr>lc_skeleton := Some sk, lc_state := OPENED\<rparr>"
  let ?a = "?o\<lparr>lc_state := ATTACHED\<rparr>"
  let ?ps = "env_programs E (Some sk)"
  have 1: "lc_open E lc = (Inr (Some sk), ?o)"
    using ok by (simp add: upf_boot_ok_def lc_open_def Let_def)
  have 2: "UPFProgram_initializeMaps ?o = (Inr (), ?o)"
    using ok require_maps_ok [of "[''m_teid_session'', ''m_ueip_session'', ''m_next_rule_prog'',
        ''m_next_rule_prog_index'']" "usk_names sk"]
    by (simp add: UPFProgram_initializeMaps_def initialize_maps_def upf_boot_ok_def)
  have 3: "lc_load E ?o = (Inr (), ?o\<lparr>lc_state := LOADED\<rparr>)"
    "lc_attach E (?o\<lparr>lc_state := LOADED\<rparr>) = (Inr (), ?a)"
    using ok by (simp_all add: upf_boot_ok_def lc_load_def lc_attach_def)
  obtain fd where fd: "map_of ?ps ''xdp_entry_point'' = Some fd" "fd \<noteq> -1"
      "\<forall>es i fd fl. 0 \<le> env_set_link E es i fd fl"
    using ok unfolding upf_boot_ok_def by blast
  obtain l1 where l1: "link_section E ''xdp_entry_point'' (env_if_nametoindex E udpI) ?ps ?a = (Inr (), l1)"
      "lc_skeleton l1 = Some sk" "live (lc_events l1) = {env_if_nametoindex E udpI}"
    using link_section_ok [OF fd, of "env_if_nametoindex E udpI" ?a] assms(6) by auto
  obtain l2 where l2: "link_section E ''xdp_entry_point'' (env_if_nametoindex E gtpI) ?ps l1 = (Inr (), l2)"
      "lc_skeleton l2 = Some sk" "lc_state l2 = LINKED"
      "live (lc_events l2) = {env_if_nametoindex E gtpI, env_if_nametoindex E udpI}"
    using link_section_ok [OF fd, of "env_if_nametoindex E gtpI" l1] l1 by auto
  have "lc_link E ''xdp_entry_point'' udpI ?a = (Inr (), l1)"
    "lc_link E ''xdp_entry_point'' gtpI l1 = (Inr (), l2)"
    using l1 l2 ifs by (simp_all add: lc_link_def)
  then have "UPFProgram_setup E gtpI udpI lc = (Inr (), l2)"
    using 1 2 3 names by (simp add: UPFProgram_setup_def)
  then show ?thesis using l2 by blast
qed

lemma upc_setup_inv:
  assumes "upf_boot_ok (ue_upf_env E) sk" and "gtpI \<noteq> []" and "udpI \<noteq> []"
    and "env_if_nametoindex (ue_upf_env E) gtpI \<noteq> 0" and "env_if_nametoindex (ue_upf_env E) udpI \<noteq> 0"
    and "us_mSessionProgramsMap st = Map.empty" and "us_far_programs st = Map.empty"
  shows "\<exists>st'. upc_setup E gtpI udpI st = (Inr (), st') \<and> pm_inv st' \<and> owned st' = Map.empty \<and>
    dispatch st' = Map.empty \<and> us_mSeidToSession st' = Map.empty \<and>
    index_of st' = Map.empty \<and> us_sIdCounter st' = us_sIdCounter st \<and>
    live (lc_events (us_upf st')) =
      {env_if_nametoindex (ue_upf_env E) gtpI, env_if_nametoindex (ue_upf_env E) udpI}"
proof -
  let ?st1 = "st\<lparr>us_mGTPInterface := gtpI, us_mUDPInterface := udpI,
     us_upf := new_life_cycle (ue_junk E) (ue_skb E)\<rparr>"
  obtain lc where lc: "UPFProgram_setup (ue_upf_env E) gtpI udpI (us_upf ?st1) = (Inr (), lc)"
      "lc_skeleton lc = Some sk"
      "live (lc_events lc) = {env_if_nametoindex (ue_upf_env E) gtpI, env_if_nametoindex (ue_upf_env E) udpI}"
    using UPFProgram_setup_ok [OF assms(1-5), of "us_upf ?st1"] by (auto simp: new_life_cycle_def)
  let ?st = "?st1\<lparr>us_upf := lc, us_mSeidToSession := Map.empty\<rparr>"
  have run: "upc_setup E gtpI udpI st = (Inr (), ?st)"
    using lc(1) on_upf_ok [of "UPFProgram_setup (ue_upf_env E) gtpI udpI" ?st1]
    by (simp add: upc_setup_def)
  have sk: "bm_elems (usk_m_next_rule_prog_index sk) = Map.empty"
      "bm_max_entries (usk_m_next_rule_prog_index sk) = 10" "bm_max_entries (usk_m_next_rule_prog sk) = 10"
    using assms(1) by (simp_all add: upf_boot_ok_def)
  have "index_of ?st = Map.empty" "owned ?st = Map.empty"
    using lc(2) sk(1) assms(6) by (simp_all add: index_of_def owned_def fun_eq_iff)
  moreover from this have "pm_inv ?st"
    by (intro pm_invI [of ?st sk]) (use lc(2) sk assms(6,7) in simp_all)
  moreover have "dispatch ?st = Map.empty"
    using \<open>index_of ?st = Map.empty\<close> by (simp add: dispatch_def fun_eq_iff)
  ultimately show ?thesis
    using run lc(3) by (intro exI [of _ ?st]) simp
qed

text \<open>
  C20: Start-up establishes the invariant.  When the kernel accepts the entry program and both
  interfaces exist, \<^verbatim>\<open>UserPlaneComponent::setup\<close> returns with the entry program hooked to exactly
  the two interfaces, an empty table, no registered session and the bookkeeping invariant, from
  which the properties of creation and removal start.
\<close>

theorem upc_setup_establishes_invariant:
  assumes "upf_boot_ok (ue_upf_env E) sk" and "gtpI \<noteq> []" and "udpI \<noteq> []"
    and "env_if_nametoindex (ue_upf_env E) gtpI \<noteq> 0" and "env_if_nametoindex (ue_upf_env E) udpI \<noteq> 0"
    and "us_mSessionProgramsMap st = Map.empty" and "us_far_programs st = Map.empty"
  shows "\<exists>st'. upc_setup E gtpI udpI st = (Inr (), st') \<and> pm_inv st' \<and> owned st' = Map.empty \<and>
    dispatch st' = Map.empty \<and> us_mSeidToSession st' = Map.empty \<and>
    live (lc_events (us_upf st')) =
      {env_if_nametoindex (ue_upf_env E) gtpI, env_if_nametoindex (ue_upf_env E) udpI}"
  using upc_setup_inv [OF assms] by blast

theorem upc_setup_establishes_invariant_witness:
  "\<exists>st'. upc_setup sample_upf_env ''gtp0'' ''udp0'' sample_upf_state = (Inr (), st') \<and> pm_inv st' \<and>
     live (lc_events (us_upf st')) = {6, 7}"
proof -
  have "upf_boot_ok (ue_upf_env sample_upf_env) sample_upf_skeleton"
    by (simp add: upf_boot_ok_def sample_upf_env_def sample_lc_env_def sample_upf_skeleton_def empty_map_def)
  from upc_setup_establishes_invariant [OF this, of "''gtp0''" "''udp0''" sample_upf_state]
  show ?thesis
    by (auto simp: sample_upf_env_def sample_lc_env_def sample_upf_state_def)
qed


text \<open>The entry program hooked to one interface, and a session program.\<close>

definition sample_running :: upf_state where
  "sample_running = sample_upf_state
     \<lparr>us_upf := (new_life_cycle LINKED True)\<lparr>lc_links := [''xdp_entry_point'' \<mapsto> [7]],
                                            lc_events := [Ev_set_link 7 5 0]\<rparr>,
      us_mSessionProgramMap := [(9, new_life_cycle ATTACHED True)]\<rparr>"


end
