(* ===== verification/Running_System.thy ===== *)
theory Running_System
  imports Session_Manager
begin

text \<open>
  The data path and the control plane together: the entry program runs on the maps that the
  management layer maintains, operations of the control plane change them, and every reachable state
  satisfies the invariant of the bookkeeping.  The theorems follow a frame from the session request to
  the wire, and show that sessions do not disturb each other.
\<close>

section \<open>The running system\<close>

text \<open>
  The data path as the kernel runs it on the maps that the management layer maintains: the entry
  program reads the index map and tail calls into the program array.  The neighbour table of the
  FAR programs is filled from outside the repository, it is the parameter \<open>arp\<close>.
\<close>

definition run_far :: "bpf_helpers \<Rightarrow> u32 \<Rightarrow> (u32 \<rightharpoonup> bytes) \<Rightarrow> upf_state \<Rightarrow> xdp_md \<Rightarrow> u32 \<Rightarrow>
    (u32 \<times> xdp_md) option option" where
  "run_far H local_ip arp st ctx i =
     map_option (\<lambda>sk. far_entry_point H local_ip arp (bm_elems (fsk_m_redirect_interfaces sk))
                        (bm_elems (fsk_m_far sk)) ctx)
       (far_program_at st i)"

definition upf_receive :: "bpf_helpers \<Rightarrow> u32 \<Rightarrow> (u32 \<rightharpoonup> bytes) \<Rightarrow> (u32 \<rightharpoonup> datarec) \<Rightarrow> upf_state \<Rightarrow> xdp_md \<Rightarrow>
    ((u32 \<times> xdp_md) option flow \<times> (u32 \<rightharpoonup> datarec)) option" where
  "upf_receive H local_ip arp mc_stats st ctx =
     entry_point (index_of st) (run_far H local_ip arp st) mc_stats ctx"

text \<open>
  The operations of the control plane on a running system.  Sessions are created with numbers and
  detection keys that are not in use, while program numbers and the index map have room; any
  session may be removed at any time, and operations may fail.
\<close>

definition requested_key :: "pdr_sort \<Rightarrow> u32 \<Rightarrow> u32 \<Rightarrow> pfcp_session \<Rightarrow> next_rule_prog_index_key option" where
  "requested_key std_sort j1 j2 S =
     (case std_sort (comparePDR j1 j2) (ses_pdrs S) of
        [] \<Rightarrow> None
      | p # _ \<Rightarrow> map_option (\<lambda>(teid, src, ip, pFar).
          \<lparr>key_teid = teid, key_source_value = src, key_ipv4_address = ip\<rparr>) (pipeline_request S p))"

definition can_create :: "pdr_sort \<Rightarrow> u32 \<Rightarrow> u32 \<Rightarrow> pfcp_session \<Rightarrow> upf_state \<Rightarrow> bool" where
  "can_create std_sort j1 j2 S st \<longleftrightarrow>
     unat (us_sIdCounter st) < 10 \<and> card (dom (index_of st)) < 10 \<and>
     owned st (ucast (session_get_up_seid S)) = None \<and>
     (case requested_key std_sort j1 j2 S of None \<Rightarrow> True | Some k \<Rightarrow> k \<notin> ran (owned st))"

lemma can_createD:
  assumes "can_create std_sort j1 j2 S st"
    and "std_sort (comparePDR j1 j2) (ses_pdrs S) = p # qs"
    and "pipeline_request S p = Some (teid, src, ip, pFar)"
  shows "unat (us_sIdCounter st) < 10" and "card (dom (index_of st)) < 10"
    and "owned st (ucast (session_get_up_seid S)) = None"
    and "\<lparr>key_teid = teid, key_source_value = src, key_ipv4_address = ip\<rparr> \<notin> ran (owned st)"
  using assms by (simp_all add: can_create_def requested_key_def)

inductive upf_step :: "upf_env \<Rightarrow> upf_state \<Rightarrow> upf_state \<Rightarrow> bool" for E where
  step_createBPFSession:
    "can_create std_sort j1 j2 S st \<Longrightarrow> createBPFSession E std_sort j1 j2 S st = (r, st') \<Longrightarrow> upf_step E st st'"
| step_removeBPFSession: "removeBPFSession E seid st = (r, st') \<Longrightarrow> upf_step E st st'"

inductive upf_reachable :: "upf_env \<Rightarrow> upf_state \<Rightarrow> bool" for E where
  reach_setup:
    "us_mSessionProgramsMap st = Map.empty \<Longrightarrow> us_far_programs st = Map.empty \<Longrightarrow>
     upf_boot_ok (ue_upf_env E) sk \<Longrightarrow> gtpI \<noteq> [] \<Longrightarrow> udpI \<noteq> [] \<Longrightarrow>
     env_if_nametoindex (ue_upf_env E) gtpI \<noteq> 0 \<Longrightarrow> env_if_nametoindex (ue_upf_env E) udpI \<noteq> 0 \<Longrightarrow>
     upc_setup E gtpI udpI st = (Inr (), st') \<Longrightarrow> upf_reachable E st'"
| reach_upf_step: "upf_reachable E st \<Longrightarrow> upf_step E st st' \<Longrightarrow> upf_reachable E st'"

inductive_cases upf_stepE: "upf_step E st st'"

text \<open>What an operation that may happen does to the views of the manager.\<close>

lemma can_create_cases:
  assumes "upf_env_ok E" and "pm_inv st" and "can_create std_sort j1 j2 S st"
    and "createBPFSession E std_sort j1 j2 S st = (r, st')"
  obtains "st' = st"
  | p qs teid src ip pFar where "std_sort (comparePDR j1 j2) (ses_pdrs S) = p # qs"
      "pipeline_request S p = Some (teid, src, ip, pFar)"
      "\<lparr>key_teid = teid, key_source_value = src, key_ipv4_address = ip\<rparr> \<notin> ran (owned st)"
      "owned st (ucast (session_get_up_seid S)) = None"
      "createBPFSession E std_sort j1 j2 S st = (Inr (), st')" "pm_inv st'"
      "owned st' = (owned st)(ucast (session_get_up_seid S)
         \<mapsto> \<lparr>key_teid = teid, key_source_value = src, key_ipv4_address = ip\<rparr>)"
      "us_mSeidToSession st' = (us_mSeidToSession st)(session_get_up_seid S \<mapsto> S\<lparr>ses_pdrs := p # qs\<rparr>)"
      "index_of st' = (index_of st)
         (\<lparr>key_teid = teid, key_source_value = src, key_ipv4_address = ip\<rparr> \<mapsto> us_sIdCounter st)"
      "\<forall>j. j \<noteq> us_sIdCounter st \<longrightarrow> far_program_at st' j = far_program_at st j"
      "\<exists>sk. far_program_at st' (us_sIdCounter st) = Some sk \<and>
         bm_elems (fsk_m_far sk) 0 = Some (far_of_pfcp pFar)"
proof (cases "std_sort (comparePDR j1 j2) (ses_pdrs S)")
  case Nil
  then show ?thesis using assms(4) by (intro that(1)) (simp add: createBPFSession_def)
next
  case (Cons p qs)
  note head = createBPFSession_head [of std_sort j1 j2 S p qs, OF Cons]
  show ?thesis
  proof (cases "pipeline_request S p")
    case None
    then show ?thesis using assms(4) by (intro that(1)) (simp add: head)
  next
    case (Some q)
    obtain teid src ip pFar where q: "q = (teid, src, ip, pFar)" by (cases q) auto
    note room = can_createD [OF assms(3) Cons Some [unfolded q]]
    note createBPFSession_effect [of E st std_sort j1 j2 S p qs, OF assms(1,2) room(1,2) Cons
          Some [unfolded q] refl room(3,4)]
    then show ?thesis
      using assms(4) by (intro that(2) [OF Cons Some [unfolded q] room(4,3)]) auto
  qed
qed

lemma removeBPFSession_cases:
  assumes "upf_env_ok E" and "pm_inv st" and "removeBPFSession E seid st = (r, st')"
  obtains "st' = st" "us_mSeidToSession st seid = None \<or> owned st (ucast seid) = None"
  | key where "owned st (ucast seid) = Some key" "us_mSeidToSession st seid \<noteq> None" "pm_inv st'"
      "owned st' = (owned st)(ucast seid := None)" "us_mSeidToSession st' = us_mSeidToSession st"
      "index_of st' = (index_of st)(key := None)" "far_program_at st' = far_program_at st"
proof (cases "us_mSeidToSession st seid = None \<or> owned st (ucast seid) = None")
  case True
  then have "st' = st"
    using assms(3) by (auto simp: removeBPFSession_def removePipeline_def owned_def split: if_splits)
  with True show ?thesis by (rule that(1) [rotated])
next
  case False
  then obtain key where key: "owned st (ucast seid) = Some key" by auto
  have "removePipeline E (ucast seid) st = (r, st')"
    using False assms(3) by (auto simp: removeBPFSession_def split: if_splits)
  with removePipeline_effect [OF assms(1,2) key] removePipeline_seid_table [of E "ucast seid" st st']
  show ?thesis
    using False key by (intro that(2) [OF key]) auto
qed

lemma createBPFSession_inv:
  assumes "upf_env_ok E" and "pm_inv st" and "can_create std_sort j1 j2 S st"
    and "createBPFSession E std_sort j1 j2 S st = (r, st')"
  shows "pm_inv st'"
  by (rule can_create_cases [OF assms]) (use assms(2) in auto)

lemma removeBPFSession_inv:
  assumes "upf_env_ok E" and "pm_inv st" and "removeBPFSession E seid st = (r, st')"
  shows "pm_inv st'"
  by (rule removeBPFSession_cases [OF assms]) (use assms(2) in auto)

lemma upf_reachable_inv: "upf_reachable E st \<Longrightarrow> upf_env_ok E \<Longrightarrow> pm_inv st"
proof (induction rule: upf_reachable.induct)
  case (reach_setup st sk gtpI udpI st')
  from upc_setup_inv [OF reach_setup.hyps(3-7,1,2)] reach_setup.hyps(8) show ?case
    by auto
next
  case (reach_upf_step st st')
  from reach_upf_step.hyps(2) show ?case
    by (rule upf_stepE)
      (use reach_upf_step createBPFSession_inv removeBPFSession_inv in blast)+
qed

section \<open>Properties of the running system\<close>

lemma pm_inv_dispatch:
  assumes "pm_inv st"
  shows "case index_of st k of
      None \<Rightarrow> dispatch st k = None
    | Some i \<Rightarrow> \<exists>sk far. far_program_at st i = Some sk \<and> bm_elems (fsk_m_far sk) 0 = Some far \<and>
        dispatch st k = Some far"
proof (cases "index_of st k")
  case None
  then show ?thesis by (simp add: dispatch_def)
next
  case (Some i)
  then obtain s sp where sp: "us_mSessionProgramsMap st s = Some sp" "sp_key sp = k"
    using pm_inv_index [OF assms, of k] by (auto simp: owned_def ran_def)
  then show ?thesis
    using pm_inv_ok [OF assms sp(1)] Some
    by (auto simp: pipeline_ok_def dispatch_def far_program_at_def)
qed

lemma far_entry_point_cong: "m_far 0 = m_far' 0 \<Longrightarrow>
    far_entry_point H local_ip arp redir m_far ctx = far_entry_point H local_ip arp redir m_far' ctx"
  by (simp add: far_entry_point_def)

lemma sample_uplink_detect: "detect (pkt_data sample_uplink) =
    Inr \<lparr>key_teid = 100, key_source_value = INTERFACE_VALUE_ACCESS, key_ipv4_address = 0x0103010A\<rparr>"
  by code_simp

text \<open>The sample component after its start, ready for a session.\<close>

lemma sample_started:
  obtains st where "upf_reachable sample_upf_env st" "can_create std_sort j1 j2 S st"
    "owned st = Map.empty" "index_of st = Map.empty" "us_sIdCounter st = 1"
proof -
  have ok: "upf_boot_ok (ue_upf_env sample_upf_env) sample_upf_skeleton"
    by (simp add: upf_boot_ok_def sample_upf_env_def sample_lc_env_def sample_upf_skeleton_def empty_map_def)
  have env: "env_if_nametoindex (ue_upf_env sample_upf_env) ''gtp0'' \<noteq> 0"
    "env_if_nametoindex (ue_upf_env sample_upf_env) ''udp0'' \<noteq> 0"
    "us_mSessionProgramsMap sample_upf_state = Map.empty" "us_far_programs sample_upf_state = Map.empty"
    "us_sIdCounter sample_upf_state = 1"
    by (simp_all add: sample_upf_env_def sample_lc_env_def sample_upf_state_def)
  obtain st where st: "upc_setup sample_upf_env ''gtp0'' ''udp0'' sample_upf_state = (Inr (), st)"
      "owned st = Map.empty" "index_of st = Map.empty" "us_sIdCounter st = 1"
    using upc_setup_inv [OF ok, of "''gtp0''" "''udp0''" sample_upf_state] env by auto
  have "upf_reachable sample_upf_env st"
    by (rule reach_setup [OF env(3,4) ok _ _ env(1,2) st(1)]) simp_all
  moreover have "can_create std_sort j1 j2 S st"
    using st(2-4) by (simp add: can_create_def split: option.split)
  ultimately show ?thesis using st(2-4) that by blast
qed






section \<open>Sessions do not disturb each other\<close>

text \<open>
  The operations of all sessions but one.  The slots of the manager are selected by the lower half
  of the session number, so the other sessions are those that differ there.
\<close>

inductive step_besides :: "upf_env \<Rightarrow> u32 \<Rightarrow> upf_state \<Rightarrow> upf_state \<Rightarrow> bool" for E s where
  besides_create:
    "can_create std_sort j1 j2 S st \<Longrightarrow> ucast (session_get_up_seid S) \<noteq> s \<Longrightarrow>
     createBPFSession E std_sort j1 j2 S st = (r, st') \<Longrightarrow> step_besides E s st st'"
| besides_remove:
    "ucast seid \<noteq> s \<Longrightarrow> removeBPFSession E seid st = (r, st') \<Longrightarrow> step_besides E s st st'"

text \<open>The program that the entry program runs for a key.\<close>

definition program_for :: "upf_state \<Rightarrow> next_rule_prog_index_key \<Rightarrow> far_skeleton option" where
  "program_for st k = Option.bind (index_of st k) (far_program_at st)"

lemma upf_receive_eq:
  "upf_receive H local_ip arp mc_stats st ctx =
     Some (case detect (pkt_data ctx) of
        Inl a \<Rightarrow> finished mc_stats ctx a
      | Inr k \<Rightarrow> (case program_for st k of
            None \<Rightarrow> finished mc_stats ctx XDP_PASS
          | Some sk \<Rightarrow> (Tail (far_entry_point H local_ip arp (bm_elems (fsk_m_redirect_interfaces sk))
                          (bm_elems (fsk_m_far sk)) ctx), mc_stats)))"
  by (auto simp: upf_receive_def entry_point_eq pipeline_def run_far_def program_for_def
      split: sum.split option.split)

lemma owned_program:
  assumes "pm_inv st" and "owned st s = Some k"
  obtains i where "index_of st k = Some i" "i \<noteq> us_sIdCounter st"
proof -
  obtain sp where sp: "us_mSessionProgramsMap st s = Some sp" "sp_key sp = k"
    using assms(2) by (auto simp: owned_def)
  from pm_inv_ok [OF assms(1) sp(1)] sp(2) have "index_of st k = Some (sp_far_id sp)"
      "us_far_programs st (sp_far_id sp) \<noteq> None"
    by (auto simp: pipeline_ok_def)
  with pm_inv_counter [OF assms(1), of "sp_far_id sp"] show ?thesis
    by (intro that) auto
qed

lemma owned_inj:
  assumes "pm_inv st" and "owned st r = Some k" and "owned st s = Some k"
  shows "r = s"
  using assms(2,3) pm_inv_inj [OF assms(1), of r _ s] by (auto simp: owned_def)

lemma step_besides_keeps:
  assumes "step_besides E s st st'" and "upf_env_ok E" and "pm_inv st" and "owned st s = Some k"
  shows "pm_inv st'" and "owned st' s = Some k" and "program_for st' k = program_for st k"
    and "us_mSeidToSession st q \<noteq> None \<Longrightarrow> us_mSeidToSession st' q \<noteq> None"
proof -
  obtain i where i: "index_of st k = Some i" "i \<noteq> us_sIdCounter st"
    by (rule owned_program [OF assms(3,4)])
  have "pm_inv st' \<and> owned st' s = Some k \<and> program_for st' k = program_for st k \<and>
      (us_mSeidToSession st q \<noteq> None \<longrightarrow> us_mSeidToSession st' q \<noteq> None)"
    using assms(1)
  proof cases
    case (besides_create std_sort j1 j2 S r)
    from assms(2,3) besides_create(1,3) show ?thesis
    proof (rule can_create_cases)
      fix p qs teid src ip pFar
      let ?key = "\<lparr>key_teid = teid, key_source_value = src, key_ipv4_address = ip\<rparr>"
      assume st': "?key \<notin> ran (owned st)" "pm_inv st'" "owned st' = (owned st)(ucast (session_get_up_seid S) \<mapsto> ?key)"
        "us_mSeidToSession st' = (us_mSeidToSession st)(session_get_up_seid S \<mapsto> S\<lparr>ses_pdrs := p # qs\<rparr>)"
        "index_of st' = (index_of st)(?key \<mapsto> us_sIdCounter st)"
        "\<forall>j. j \<noteq> us_sIdCounter st \<longrightarrow> far_program_at st' j = far_program_at st j"
      have "?key \<noteq> k" using st'(1) ranI [of "owned st" s k, OF assms(4)] by blast
      then show ?thesis
        using st'(2-) i assms(4) besides_create(2) by (simp add: program_for_def)
    qed (use assms in simp)
  next
    case (besides_remove seid r)
    from assms(2,3) besides_remove(2) show ?thesis
    proof (rule removeBPFSession_cases)
      fix key
      assume st': "owned st (ucast seid) = Some key" "pm_inv st'" "owned st' = (owned st)(ucast seid := None)"
        "us_mSeidToSession st' = us_mSeidToSession st"
        "index_of st' = (index_of st)(key := None)" "far_program_at st' = far_program_at st"
      have "key \<noteq> k" using owned_inj [OF assms(3) st'(1), of s] assms(4) besides_remove(1) by blast
      then show ?thesis
        using st'(2-) assms(4) besides_remove(1) by (simp add: program_for_def)
    qed (use assms in simp)
  qed
  then show "pm_inv st'" "owned st' s = Some k" "program_for st' k = program_for st k"
    "us_mSeidToSession st q \<noteq> None \<Longrightarrow> us_mSeidToSession st' q \<noteq> None"
    by simp_all
qed

lemma steps_besides_keep:
  assumes "(step_besides E s)\<^sup>*\<^sup>* st st'" and "upf_env_ok E" and "pm_inv st" and "owned st s = Some k"
  shows "pm_inv st' \<and> owned st' s = Some k \<and> program_for st' k = program_for st k \<and>
    (us_mSeidToSession st q \<noteq> None \<longrightarrow> us_mSeidToSession st' q \<noteq> None)"
  using assms(1)
proof (induction rule: rtranclp_induct)
  case base
  show ?case using assms(3,4) by simp
next
  case (step st1 st2)
  then show ?case
    using step_besides_keeps [OF step.hyps(2) assms(2), of k] by metis
qed

text \<open>
  The session for the downlink: its PDR detects frames of the data network by the address of the
  device alone, and its FAR sends them through a tunnel to the access network.
\<close>

definition sample_access_far :: "u32 \<Rightarrow> pfcp_far" where
  "sample_access_far i = pfcp_far_of_create ((sample_create_far i)\<lparr>cf_forwarding_parameters :=
     (True, new_forwarding_parameters\<lparr>fp_destination_interface := (True, INTERFACE_VALUE_ACCESS),
        fp_outer_header_creation := (True, core_outer_header_creation0
          \<lparr>ohcr_outer_header_creation_description := OUTER_HEADER_CREATION_GTPU_UDP_IPV4,
            ohcr_teid := 200, ohcr_ipv4_address := 0x0103010A, ohcr_port_number := GTP_UDP_PORT\<rparr>)\<rparr>)\<rparr>)"

definition sample_downlink_pdr :: pfcp_pdr where
  "sample_downlink_pdr = pfcp_pdr_of_create (new_create_pdr\<lparr>cp_pdr_id := (True, 3),
     cp_precedence := (True, 5), cp_far_id := (True, 6),
     cp_pdi := (True, new_pdi\<lparr>pd_source_interface := (True, INTERFACE_VALUE_CORE),
       pd_local_fteid := (True, fteid0\<lparr>fteid_teid := 0\<rparr>),
       pd_ue_ip_address := (True, ue_ip_address0\<lparr>ueip_ipv4_address := 0x1B03010A\<rparr>)\<rparr>)\<rparr>)"

definition sample_downlink_session :: "u64 \<Rightarrow> pfcp_session" where
  "sample_downlink_session seid =
     (new_pfcp_session fseid0 seid)\<lparr>ses_pdrs := [sample_downlink_pdr], ses_fars := [sample_access_far 6]\<rparr>"

lemma sample_downlink_request:
  "pipeline_request (sample_downlink_session seid) sample_downlink_pdr
     = Some (0, INTERFACE_VALUE_CORE, 0x1B03010A, sample_access_far 6)"
  by (simp add: pipeline_request_def sample_downlink_pdr_def sample_downlink_session_def
      sample_access_far_def sample_create_far_def new_create_pdr_def pfcp_pdr_of_create_def
      pfcp_far_of_create_def pfcp_pdr_get_pdi_def pdi_get_local_fteid_def pdi_get_source_interface_def
      pdi_get_ue_ip_address_def pfcp_pdr_get_far_id_def opt_get_def session_get_far_def
      new_create_far_def)

lemma sample_downlink_session_simps:
  "stable_sort (comparePDR j1 j2) (ses_pdrs (sample_downlink_session seid)) = [sample_downlink_pdr]"
  "session_get_up_seid (sample_downlink_session seid) = seid"
  by (simp_all add: sample_downlink_session_def stable_sort_def session_get_up_seid_def new_pfcp_session_def)

lemma sample_downlink_detect: "detect (pkt_data sample_downlink) =
    Inr \<lparr>key_teid = 0, key_source_value = INTERFACE_VALUE_CORE, key_ipv4_address = 0x1B03010A\<rparr>"
  by code_simp



text \<open>Two sessions side by side: the uplink session 9, then the downlink session 3.\<close>

lemma sample_two_sessions:
  obtains st st1 st2 where "upf_reachable sample_upf_env st" "upf_reachable sample_upf_env st1"
    "can_create stable_sort 7 3 (sample_pfcp_session 9) st"
    "createBPFSession sample_upf_env stable_sort 7 3 (sample_pfcp_session 9) st = (Inr (), st1)"
    "owned st1 9 = Some \<lparr>key_teid = 100, key_source_value = INTERFACE_VALUE_ACCESS, key_ipv4_address = 0x0103010A\<rparr>"
    "createBPFSession sample_upf_env stable_sort 7 3 (sample_downlink_session 3) st1 = (Inr (), st2)"
    "step_besides sample_upf_env 9 st1 st2"
proof -
  let ?key = "\<lparr>key_teid = 100, key_source_value = INTERFACE_VALUE_ACCESS, key_ipv4_address = 0x0103010A\<rparr> :: next_rule_prog_index_key"
  let ?S = "sample_pfcp_session 9" and ?T = "sample_downlink_session 3"
  obtain st where st: "upf_reachable sample_upf_env st" "can_create stable_sort 7 3 ?S st"
      "owned st = Map.empty" "index_of st = Map.empty" "us_sIdCounter st = 1"
    by (rule sample_started)
  note inv = upf_reachable_inv [OF st(1) sample_upf_env_ok]
  obtain st1 where st1: "createBPFSession sample_upf_env stable_sort 7 3 ?S st = (Inr (), st1)" "pm_inv st1"
      "owned st1 = [9 \<mapsto> ?key]" "index_of st1 = [?key \<mapsto> 1]" "us_sIdCounter st1 = 2"
    using createBPFSession_effect [of sample_upf_env st stable_sort 7 3 ?S, OF sample_upf_env_ok inv _ _
        sample_sorted sample_requests(2) refl] st(3-5)
    by auto
  have c1: "can_create stable_sort 7 3 ?T st1"
    using st1(3-5) by (simp add: can_create_def requested_key_def sample_downlink_session_simps
        sample_downlink_request)
  obtain st2 where st2: "createBPFSession sample_upf_env stable_sort 7 3 ?T st1 = (Inr (), st2)"
    using createBPFSession_effect [of sample_upf_env st1 stable_sort 7 3 ?T, OF sample_upf_env_ok st1(2) _ _
        sample_downlink_session_simps(1) sample_downlink_request refl] st1(3-5)
    by (auto simp: sample_downlink_session_simps)
  show ?thesis
  proof (rule that [OF st(1) _ st(2) st1(1) _ st2])
    show "upf_reachable sample_upf_env st1"
      by (rule reach_upf_step [OF st(1) step_createBPFSession [OF st(2) st1(1)]])
    show "step_besides sample_upf_env 9 st1 st2"
      by (rule besides_create [OF c1 _ st2]) (simp add: sample_downlink_session_simps)
  qed (simp add: st1(3))
qed



text \<open>
  C5: The life of a session.  From its creation until its removal, whatever happens to other
  sessions in between, the frames with its detection key are handled by the FAR of its PDR of
  highest priority; after its removal they pass on to the network stack.
\<close>

theorem session_lifetime:
  assumes "upf_reachable E st" and "upf_env_ok E" and "can_create std_sort j1 j2 S st"
    and "std_sort (comparePDR j1 j2) (ses_pdrs S) = p # qs"
    and "pipeline_request S p = Some (teid, src, ip, pFar)"
    and "createBPFSession E std_sort j1 j2 S st = (r1, st1)"
    and "(step_besides E (ucast (session_get_up_seid S)))\<^sup>*\<^sup>* st1 st2"
    and "removeBPFSession E (session_get_up_seid S) st2 = (r3, st3)"
    and "detect (pkt_data ctx) = Inr \<lparr>key_teid = teid, key_source_value = src, key_ipv4_address = ip\<rparr>"
  shows "r1 = Inr () \<and> r3 = Inr () \<and>
    (\<exists>redir. upf_receive H local_ip arp mc_stats st2 ctx =
       Some (Tail (far_entry_point H local_ip arp redir [0 \<mapsto> far_of_pfcp pFar] ctx), mc_stats)) \<and>
    upf_receive H local_ip arp mc_stats st3 ctx = Some (finished mc_stats ctx XDP_PASS)"
proof -
  let ?key = "\<lparr>key_teid = teid, key_source_value = src, key_ipv4_address = ip\<rparr>"
  let ?seid = "session_get_up_seid S"
  note inv = upf_reachable_inv [OF assms(1,2)]
  note room = can_createD [of std_sort, OF assms(3-5)]
  obtain sk where st1: "r1 = Inr ()" "pm_inv st1" "owned st1 (ucast ?seid) = Some ?key"
      "us_mSeidToSession st1 ?seid \<noteq> None" "program_for st1 ?key = Some sk"
      "bm_elems (fsk_m_far sk) 0 = Some (far_of_pfcp pFar)"
    using createBPFSession_effect [of E st std_sort j1 j2 S p qs, OF assms(2) inv room(1,2) assms(4,5) refl
        room(3,4)] assms(6)
    by (auto simp: program_for_def)
  have st2: "pm_inv st2" "owned st2 (ucast ?seid) = Some ?key" "program_for st2 ?key = Some sk"
      "us_mSeidToSession st2 ?seid \<noteq> None"
    using steps_besides_keep [OF assms(7,2) st1(2,3), of ?seid] st1(4,5) by auto
  have "r3 = Inr ()"
    using removePipeline_effect [OF assms(2) st2(1,2)] st2(4) assms(8)
    by (auto simp: removeBPFSession_def)
  moreover have "program_for st3 ?key = None"
    using assms(2) st2(1) assms(8)
    by (rule removeBPFSession_cases) (use st2 in \<open>auto simp: program_for_def\<close>)
  ultimately show ?thesis
    using st1(1,6) st2(3) assms(9) far_entry_point_cong [of "bm_elems (fsk_m_far sk)" "[0 \<mapsto> far_of_pfcp pFar]"]
    by (auto simp: upf_receive_eq)
qed

theorem session_lifetime_witness:
  "\<exists>st st1 st2 st3 redir.
     createBPFSession sample_upf_env stable_sort 7 3 (sample_pfcp_session 9) st = (Inr (), st1) \<and>
     createBPFSession sample_upf_env stable_sort 7 3 (sample_downlink_session 3) st1 = (Inr (), st2) \<and>
     removeBPFSession sample_upf_env 9 st2 = (Inr (), st3) \<and>
     upf_receive ref_helpers LOCAL_IP Map.empty Map.empty st2 sample_uplink =
       Some (Tail (far_entry_point ref_helpers LOCAL_IP Map.empty redir
         [0 \<mapsto> far_of_pfcp (sample_core_far 5)] sample_uplink), Map.empty) \<and>
     upf_receive ref_helpers LOCAL_IP Map.empty Map.empty st3 sample_uplink
       = Some (finished Map.empty sample_uplink XDP_PASS)"
proof -
  obtain st st1 st2 where st: "upf_reachable sample_upf_env st"
    "can_create stable_sort 7 3 (sample_pfcp_session 9) st"
    "createBPFSession sample_upf_env stable_sort 7 3 (sample_pfcp_session 9) st = (Inr (), st1)"
    "createBPFSession sample_upf_env stable_sort 7 3 (sample_downlink_session 3) st1 = (Inr (), st2)"
    "step_besides sample_upf_env 9 st1 st2"
    by (rule sample_two_sessions)
  obtain r3 st3 where st3: "removeBPFSession sample_upf_env 9 st2 = (r3, st3)" by fastforce
  from st(5) have "(step_besides sample_upf_env (ucast (session_get_up_seid (sample_pfcp_session 9))))\<^sup>*\<^sup>* st1 st2"
    by (simp add: r_into_rtranclp)
  from session_lifetime [of sample_upf_env st stable_sort 7 3, OF st(1) sample_upf_env_ok st(2) sample_sorted
      sample_requests(2) st(3) this _ sample_uplink_detect, of r3 st3 ref_helpers LOCAL_IP Map.empty Map.empty]
  show ?thesis
    using st(3,4) st3
    by (intro exI [of _ st] exI [of _ st1] exI [of _ st2] exI [of _ st3]) auto
qed

section \<open>From the rules of a request to the data path\<close>

lemma sort_single:
  assumes "std_sort_ok std_sort" and "fst (pr_precedence p)"
  shows "std_sort (comparePDR j1 j2) [p] = [p]"
  using std_sort_okD(1) [of std_sort "[p]" j1 j2] assms by simp

lemma accepted_rules:
  assumes "session_create_far cf c1 o1 (new_pfcp_session f seid) = (True, c2, o2, S1)"
    and "session_create_pdr cp c3 o3 S1 = (True, c4, o4, S)"
  shows "ses_fars S = [pfcp_far_of_create cf]" and "\<exists>p. ses_pdrs S = [p] \<and> pr_pdi p = cp_pdi cp \<and>
      pr_far_id p = cp_far_id cp \<and> pr_precedence p = cp_precedence cp"
    and "fst (cp_pdi cp)" and "fst (cp_precedence cp)" and "fst (pd_source_interface (snd (cp_pdi cp)))"
    and "session_get_up_seid S = seid"
  using assms
  by (auto simp: session_create_far_eq session_create_pdr_eq session_add_far_def session_add_pdr_def
      new_pfcp_session_def pdr_installed_def pfcp_pdr_of_create_def pdr_missing_def session_get_up_seid_def
      split: option.splits if_splits)

text \<open>
  C6: The rules of a request reach the data path.  Let a new session accept a FAR and a PDR that names it, and let the
  session be deployed on a running system that has room for it.  If the PDI has an F-TEID and the address of the device, the
  deployment returns and every frame with the key of the PDI is handled by exactly that FAR; if one of them is
  missing, which is accepted for a PDR of the core side, the deployment throws and the system is as before.
\<close>

theorem rules_reach_data_path:
  assumes "upf_reachable E st" and "upf_env_ok E" and "std_sort_ok std_sort"
    and "session_create_far cf c1 o1 (new_pfcp_session f seid) = (True, c2, o2, S1)"
    and "session_create_pdr cp c3 o3 S1 = (True, c4, o4, S)"
    and "cp_far_id cp = (True, snd (cf_far_id cf))" and "can_create std_sort j1 j2 S st"
  shows "if fst (pd_local_fteid (snd (cp_pdi cp))) \<and> fst (pd_ue_ip_address (snd (cp_pdi cp)))
    then \<exists>st'. createBPFSession E std_sort j1 j2 S st = (Inr (), st') \<and>
      (\<forall>ctx. detect (pkt_data ctx) =
          Inr \<lparr>key_teid = fteid_teid (snd (pd_local_fteid (snd (cp_pdi cp)))),
               key_source_value = snd (pd_source_interface (snd (cp_pdi cp))),
               key_ipv4_address = ueip_ipv4_address (snd (pd_ue_ip_address (snd (cp_pdi cp))))\<rparr> \<longrightarrow>
        (\<exists>redir. upf_receive H local_ip arp mc_stats st' ctx =
           Some (Tail (far_entry_point H local_ip arp redir [0 \<mapsto> far_of_pfcp (pfcp_far_of_create cf)] ctx), mc_stats)))
    else createBPFSession E std_sort j1 j2 S st = (Inl ''No fields available'', st)"
proof -
  note rules = accepted_rules [OF assms(4,5)]
  obtain p where p: "ses_pdrs S = [p]" "pr_pdi p = cp_pdi cp" "pr_far_id p = cp_far_id cp"
      "pr_precedence p = cp_precedence cp"
    using rules(2) by blast
  have sorted: "std_sort (comparePDR j1 j2) (ses_pdrs S) = [p]"
    using sort_single [OF assms(3), of p j1 j2] p(1,4) rules(4) by simp
  let ?pdi = "snd (cp_pdi cp)"
  have request: "pipeline_request S p =
      (if fst (pd_local_fteid ?pdi) \<and> fst (pd_ue_ip_address ?pdi)
       then Some (fteid_teid (snd (pd_local_fteid ?pdi)), snd (pd_source_interface ?pdi),
              ueip_ipv4_address (snd (pd_ue_ip_address ?pdi)), pfcp_far_of_create cf) else None)"
    using rules(1,3,5) p assms(6)
    by (simp add: pipeline_request_def pfcp_pdr_get_pdi_def pdi_get_local_fteid_def pdi_get_source_interface_def
        pdi_get_ue_ip_address_def pfcp_pdr_get_far_id_def opt_get_def session_get_far_def)
  show ?thesis
  proof (cases "fst (pd_local_fteid ?pdi) \<and> fst (pd_ue_ip_address ?pdi)")
    case False
    then have "pipeline_request S p = None" by (auto simp: request)
    then have "createBPFSession E std_sort j1 j2 S st = (Inl ''No fields available'', st)"
      by (simp add: createBPFSession_head [of std_sort j1 j2 S p "[]", OF sorted])
    with False show ?thesis by (simp only: if_False)
  next
    case True
    let ?key = "\<lparr>key_teid = fteid_teid (snd (pd_local_fteid ?pdi)), key_source_value = snd (pd_source_interface ?pdi),
       key_ipv4_address = ueip_ipv4_address (snd (pd_ue_ip_address ?pdi))\<rparr>"
    have req: "pipeline_request S p = Some (fteid_teid (snd (pd_local_fteid ?pdi)), snd (pd_source_interface ?pdi),
        ueip_ipv4_address (snd (pd_ue_ip_address ?pdi)), pfcp_far_of_create cf)"
      using request True by simp
    note room = can_createD [of std_sort, OF assms(7) sorted req]
    obtain st' sk where st': "createBPFSession E std_sort j1 j2 S st = (Inr (), st')" "program_for st' ?key = Some sk"
        "bm_elems (fsk_m_far sk) 0 = Some (far_of_pfcp (pfcp_far_of_create cf))"
      using createBPFSession_effect [of E st std_sort j1 j2 S p "[]", OF assms(2) upf_reachable_inv [OF assms(1,2)]
          room(1,2) sorted req refl room(3,4)]
      by (auto simp: program_for_def)
    have "\<exists>redir. upf_receive H local_ip arp mc_stats st' ctx =
        Some (Tail (far_entry_point H local_ip arp redir [0 \<mapsto> far_of_pfcp (pfcp_far_of_create cf)] ctx), mc_stats)"
      if "detect (pkt_data ctx) = Inr ?key" for ctx
      using that st'(2,3) far_entry_point_cong [of "bm_elems (fsk_m_far sk)" "[0 \<mapsto> far_of_pfcp (pfcp_far_of_create cf)]"]
      by (auto simp: upf_receive_eq)
    then show ?thesis using True st'(1) by auto
  qed
qed

theorem rules_reach_data_path_witness:
  "\<exists>S1 S st st' redir.
     session_create_far (sample_create_far 5) 1 0 (new_pfcp_session fseid0 9) = (True, 1, 0, S1) \<and>
     session_create_pdr (new_create_pdr\<lparr>cp_pdr_id := (True, 2), cp_precedence := (True, 10),
       cp_pdi := (True, sample_pdi), cp_far_id := (True, 5)\<rparr>) 1 0 S1 = (True, 1, 0, S) \<and>
     createBPFSession sample_upf_env stable_sort 7 3 S st = (Inr (), st') \<and>
     upf_receive ref_helpers LOCAL_IP Map.empty Map.empty st' sample_uplink =
       Some (Tail (far_entry_point ref_helpers LOCAL_IP Map.empty redir
         [0 \<mapsto> far_of_pfcp (pfcp_far_of_create (sample_create_far 5))] sample_uplink), Map.empty)"
proof -
  let ?cp = "new_create_pdr\<lparr>cp_pdr_id := (True, 2), cp_precedence := (True, 10),
       cp_pdi := (True, sample_pdi), cp_far_id := (True, 5)\<rparr>"
  obtain S1 where S1: "session_create_far (sample_create_far 5) 1 0 (new_pfcp_session fseid0 9) = (True, 1, 0, S1)"
    by (simp add: session_create_far_eq)
  have "pdr_missing ?cp = None" "pdr_supported ?cp"
    by (simp_all add: pdr_missing_def pdr_supported_def sample_pdi_def new_pdi_def)
  then obtain S where S: "session_create_pdr ?cp 1 0 S1 = (True, 1, 0, S)"
    by (simp add: session_create_pdr_eq)
  obtain st where st: "upf_reachable sample_upf_env st" "can_create stable_sort 7 3 S st"
    by (rule sample_started)
  have "fst (pd_local_fteid sample_pdi)" "fst (pd_ue_ip_address sample_pdi)"
      "fteid_teid (snd (pd_local_fteid sample_pdi)) = 100" "snd (pd_source_interface sample_pdi) = INTERFACE_VALUE_ACCESS"
      "ueip_ipv4_address (snd (pd_ue_ip_address sample_pdi)) = 0x0103010A"
    by (simp_all add: sample_pdi_def)
  with rules_reach_data_path [of sample_upf_env st stable_sort "sample_create_far 5" 1 0 fseid0 9 1 0 S1 ?cp 1 0 1 0 S 7 3
      ref_helpers LOCAL_IP Map.empty Map.empty, OF st(1) sample_upf_env_ok stable_sort_ok S1 S _ st(2)]
  obtain st' where st': "createBPFSession sample_upf_env stable_sort 7 3 S st = (Inr (), st')"
     "\<forall>ctx. detect (pkt_data ctx) =
          Inr \<lparr>key_teid = 100, key_source_value = INTERFACE_VALUE_ACCESS, key_ipv4_address = 0x0103010A\<rparr> \<longrightarrow>
        (\<exists>redir. upf_receive ref_helpers LOCAL_IP Map.empty Map.empty st' ctx =
           Some (Tail (far_entry_point ref_helpers LOCAL_IP Map.empty redir
             [0 \<mapsto> far_of_pfcp (pfcp_far_of_create (sample_create_far 5))] ctx), Map.empty))"
    by auto
  from st'(2) [rule_format, OF sample_uplink_detect] obtain redir where
     "upf_receive ref_helpers LOCAL_IP Map.empty Map.empty st' sample_uplink =
       Some (Tail (far_entry_point ref_helpers LOCAL_IP Map.empty redir
         [0 \<mapsto> far_of_pfcp (pfcp_far_of_create (sample_create_far 5))] sample_uplink), Map.empty)"
    by blast
  with S1 S st'(1) show ?thesis
    by (intro exI [of _ S1] exI [of _ S] exI [of _ st] exI [of _ st'] exI [of _ redir]) simp
qed

end
