(* ===== verification/Ie_Stream.thy ===== *)
theory Ie_Stream
  imports Pfcp_Containers
begin

text \<open>
  The byte level of the PFCP codec, \<^verbatim>\<open>src/oai/pfcp/3gpp_29.244.hpp\<close>: the input stream, the exceptions
  of the codec, the type-length header of an information element, and the contract every class
  of elements has to satisfy.

  \<^verbatim>\<open>std::istream::read\<close> copies the bytes that are left and marks the stream as failed when there
  are too few; a failed stream is never read again and leaves the variable as it was.  The
  conversion to host order that follows a read is applied in either case.  Memory that is not
  initialised holds some byte, the component \<open>is_junk\<close> of the stream; nothing depends on it but
  code that reads such memory.
\<close>

section \<open>Streams\<close>

record istream =
  is_rest :: bytes
  is_fail :: bool
  is_junk :: u8

abbreviation stream :: "u8 \<Rightarrow> bytes \<Rightarrow> istream" where
  "stream j bs \<equiv> \<lparr>is_rest = bs, is_fail = False, is_junk = j\<rparr>"

definition is_read :: "bytes \<Rightarrow> istream \<Rightarrow> bytes \<times> istream" where
  "is_read old is =
     (if is_fail is then (old, is)
      else if length old \<le> length (is_rest is)
      then (take (length old) (is_rest is), is\<lparr>is_rest := drop (length old) (is_rest is)\<rparr>)
      else (is_rest is @ drop (length (is_rest is)) old, is\<lparr>is_rest := [], is_fail := True\<rparr>))"

text \<open>Reading an integer: as it is in memory, in network order, and a single byte.\<close>

definition read_raw :: "nat \<Rightarrow> 'a::len word \<Rightarrow> istream \<Rightarrow> 'a word \<times> istream" where
  "read_raw n old is = (let (bs, is') = is_read (le_bytes n old) is in (le_word bs, is'))"

definition read_be :: "nat \<Rightarrow> 'a::len word \<Rightarrow> istream \<Rightarrow> 'a word \<times> istream" where
  "read_be n old is = (let (bs, is') = is_read (le_bytes n old) is in (le_word (rev bs), is'))"

abbreviation read_u8 :: "u8 \<Rightarrow> istream \<Rightarrow> u8 \<times> istream" where
  "read_u8 \<equiv> read_raw 1"

definition be_bytes :: "nat \<Rightarrow> 'a::len word \<Rightarrow> bytes" where
  "be_bytes n w = rev (le_bytes n w)"

text \<open>Strings are written with \<^verbatim>\<open>operator<<\<close> and read into an array of their length.\<close>

definition bytes_of_string :: "string \<Rightarrow> bytes" where
  "bytes_of_string = map (\<lambda>c. word_of_nat (of_char c))"

definition string_of_bytes :: "bytes \<Rightarrow> string" where
  "string_of_bytes = map (\<lambda>b. char_of (unat b))"

definition read_string :: "nat \<Rightarrow> istream \<Rightarrow> string \<times> istream" where
  "read_string n is =
     (let (bs, is') = is_read (replicate n (is_junk is)) is in (string_of_bytes bs, is'))"

lemma is_read_append [simp, stream_simps]:
  "length xs = length old \<Longrightarrow> is_read old (stream j (xs @ ys)) = (xs, stream j ys)"
  by (simp add: is_read_def)

lemma is_read_Cons [simp, stream_simps]:
  "length old = Suc 0 \<Longrightarrow> is_read old (stream j (x # ys)) = ([x], stream j ys)"
  by (simp add: is_read_def)

lemma is_read_Nil [simp, stream_simps]: "is_read [] (stream j ys) = ([], stream j ys)"
  by (simp add: is_read_def)

lemma length_be_bytes [simp]: "length (be_bytes n w) = n"
  by (simp add: be_bytes_def)

lemma read_be_append [simp, stream_simps]:
  fixes w :: "'a::len word"
  shows "LENGTH('a) \<le> 8 * n \<Longrightarrow> read_be n old (stream j (be_bytes n w @ ys)) = (w, stream j ys)"
  by (simp add: read_be_def be_bytes_def)

lemma read_raw_append [simp, stream_simps]:
  fixes w :: "'a::len word"
  shows "LENGTH('a) \<le> 8 * n \<Longrightarrow> read_raw n old (stream j (le_bytes n w @ ys)) = (w, stream j ys)"
  by (simp add: read_raw_def)

lemma le_bytes_1 [simp]: "le_bytes (Suc 0) (b :: u8) = [b]"
  by simp

lemma read_u8_Cons [simp, stream_simps]: "read_raw (Suc 0) old (stream j (b # ys)) = (b, stream j ys)"
  for b :: u8
  by (simp add: read_raw_def)

lemma length_bytes_of_string [simp]: "length (bytes_of_string s) = length s"
  by (simp add: bytes_of_string_def)

lemma string_of_bytes_of_string [simp]: "string_of_bytes (bytes_of_string s) = s"
proof -
  have "char_of (unat (word_of_nat (of_char c) :: u8)) = c" for c
  proof -
    have "(of_char c :: nat) < 2 ^ 8"
      using of_char_of [of "of_char c :: nat"] by simp
    then show ?thesis
      by (simp add: unat_of_nat)
  qed
  then show ?thesis
    by (simp add: string_of_bytes_def bytes_of_string_def o_def)
qed

lemma read_string_append [simp, stream_simps]:
  "length s = n \<Longrightarrow> read_string n (stream j (bytes_of_string s @ ys)) = (s, stream j ys)"
  by (simp add: read_string_def)

section \<open>Exceptions\<close>

text \<open>
  The exceptions of the codec, \<^verbatim>\<open>std::length_error\<close> of the string library, and \<open>Undefined_behaviour\<close>
  for an access outside an array, after which the source promises nothing.
\<close>

datatype pfcp_exn =
    Tlv_bad_length u16 u16
  | Ie_value u16 string
  | Illegal_ie u16
  | Ie_unimplemented u16
  | Msg_bad_length u8 u16 u16 u16
  | Length_error
  | Undefined_behaviour

section \<open>Types of elements\<close>

abbreviation (input) PFCP_IE_CREATE_PDR :: u8 where "PFCP_IE_CREATE_PDR \<equiv> 1"
abbreviation (input) PFCP_IE_PDI :: u8 where "PFCP_IE_PDI \<equiv> 2"
abbreviation (input) PFCP_IE_CREATE_FAR :: u8 where "PFCP_IE_CREATE_FAR \<equiv> 3"
abbreviation (input) PFCP_IE_FORWARDING_PARAMETERS :: u8 where "PFCP_IE_FORWARDING_PARAMETERS \<equiv> 4"
abbreviation (input) PFCP_IE_DUPLICATING_PARAMETERS :: u8 where "PFCP_IE_DUPLICATING_PARAMETERS \<equiv> 5"
abbreviation (input) PFCP_IE_CREATE_URR :: u8 where "PFCP_IE_CREATE_URR \<equiv> 6"
abbreviation (input) PFCP_IE_CREATE_QER :: u8 where "PFCP_IE_CREATE_QER \<equiv> 7"
abbreviation (input) PFCP_IE_CREATED_PDR :: u8 where "PFCP_IE_CREATED_PDR \<equiv> 8"
abbreviation (input) PFCP_IE_UPDATE_PDR :: u8 where "PFCP_IE_UPDATE_PDR \<equiv> 9"
abbreviation (input) PFCP_IE_UPDATE_FAR :: u8 where "PFCP_IE_UPDATE_FAR \<equiv> 10"
abbreviation (input) PFCP_IE_UPDATE_FORWARDING_PARAMETERS :: u8 where "PFCP_IE_UPDATE_FORWARDING_PARAMETERS \<equiv> 11"
abbreviation (input) PFCP_IE_UPDATE_BAR_WITHIN_PFCP_SESSION_REPORT_RESPONSE :: u8 where "PFCP_IE_UPDATE_BAR_WITHIN_PFCP_SESSION_REPORT_RESPONSE \<equiv> 12"
abbreviation (input) PFCP_IE_UPDATE_URR :: u8 where "PFCP_IE_UPDATE_URR \<equiv> 13"
abbreviation (input) PFCP_IE_UPDATE_QER :: u8 where "PFCP_IE_UPDATE_QER \<equiv> 14"
abbreviation (input) PFCP_IE_REMOVE_PDR :: u8 where "PFCP_IE_REMOVE_PDR \<equiv> 15"
abbreviation (input) PFCP_IE_REMOVE_FAR :: u8 where "PFCP_IE_REMOVE_FAR \<equiv> 16"
abbreviation (input) PFCP_IE_REMOVE_URR :: u8 where "PFCP_IE_REMOVE_URR \<equiv> 17"
abbreviation (input) PFCP_IE_REMOVE_QER :: u8 where "PFCP_IE_REMOVE_QER \<equiv> 18"
abbreviation (input) PFCP_IE_CAUSE :: u8 where "PFCP_IE_CAUSE \<equiv> 19"
abbreviation (input) PFCP_IE_SOURCE_INTERFACE :: u8 where "PFCP_IE_SOURCE_INTERFACE \<equiv> 20"
abbreviation (input) PFCP_IE_F_TEID :: u8 where "PFCP_IE_F_TEID \<equiv> 21"
abbreviation (input) PFCP_IE_NETWORK_INSTANCE :: u8 where "PFCP_IE_NETWORK_INSTANCE \<equiv> 22"
abbreviation (input) PFCP_IE_SDF_FILTER :: u8 where "PFCP_IE_SDF_FILTER \<equiv> 23"
abbreviation (input) PFCP_IE_APPLICATION_ID :: u8 where "PFCP_IE_APPLICATION_ID \<equiv> 24"
abbreviation (input) PFCP_IE_GATE_STATUS :: u8 where "PFCP_IE_GATE_STATUS \<equiv> 25"
abbreviation (input) PFCP_IE_MBR :: u8 where "PFCP_IE_MBR \<equiv> 26"
abbreviation (input) PFCP_IE_GBR :: u8 where "PFCP_IE_GBR \<equiv> 27"
abbreviation (input) PFCP_IE_QER_CORRELATION_ID :: u8 where "PFCP_IE_QER_CORRELATION_ID \<equiv> 28"
abbreviation (input) PFCP_IE_PRECEDENCE :: u8 where "PFCP_IE_PRECEDENCE \<equiv> 29"
abbreviation (input) PFCP_IE_TRANSPORT_LEVEL_MARKING :: u8 where "PFCP_IE_TRANSPORT_LEVEL_MARKING \<equiv> 30"
abbreviation (input) PFCP_IE_VOLUME_THRESHOLD :: u8 where "PFCP_IE_VOLUME_THRESHOLD \<equiv> 31"
abbreviation (input) PFCP_IE_TIME_THRESHOLD :: u8 where "PFCP_IE_TIME_THRESHOLD \<equiv> 32"
abbreviation (input) PFCP_IE_MONITORING_TIME :: u8 where "PFCP_IE_MONITORING_TIME \<equiv> 33"
abbreviation (input) PFCP_IE_SUBSEQUENT_VOLUME_THRESHOLD :: u8 where "PFCP_IE_SUBSEQUENT_VOLUME_THRESHOLD \<equiv> 34"
abbreviation (input) PFCP_IE_SUBSEQUENT_TIME_THRESHOLD :: u8 where "PFCP_IE_SUBSEQUENT_TIME_THRESHOLD \<equiv> 35"
abbreviation (input) PFCP_IE_INACTIVITY_DETECTION_TIME :: u8 where "PFCP_IE_INACTIVITY_DETECTION_TIME \<equiv> 36"
abbreviation (input) PFCP_IE_REPORTING_TRIGGERS :: u8 where "PFCP_IE_REPORTING_TRIGGERS \<equiv> 37"
abbreviation (input) PFCP_IE_REPORT_TYPE :: u8 where "PFCP_IE_REPORT_TYPE \<equiv> 39"
abbreviation (input) PFCP_IE_OFFENDING_IE :: u8 where "PFCP_IE_OFFENDING_IE \<equiv> 40"
abbreviation (input) PFCP_IE_FORWARDING_POLICY :: u8 where "PFCP_IE_FORWARDING_POLICY \<equiv> 41"
abbreviation (input) PFCP_IE_DESTINATION_INTERFACE :: u8 where "PFCP_IE_DESTINATION_INTERFACE \<equiv> 42"
abbreviation (input) PFCP_IE_UP_FUNCTION_FEATURES :: u8 where "PFCP_IE_UP_FUNCTION_FEATURES \<equiv> 43"
abbreviation (input) PFCP_IE_APPLY_ACTION :: u8 where "PFCP_IE_APPLY_ACTION \<equiv> 44"
abbreviation (input) PFCP_IE_PACKET_DETECTION_RULE_ID :: u8 where "PFCP_IE_PACKET_DETECTION_RULE_ID \<equiv> 56"
abbreviation (input) PFCP_IE_F_SEID :: u8 where "PFCP_IE_F_SEID \<equiv> 57"
abbreviation (input) PFCP_IE_NODE_ID :: u8 where "PFCP_IE_NODE_ID \<equiv> 60"
abbreviation (input) PFCP_IE_URR_ID :: u8 where "PFCP_IE_URR_ID \<equiv> 81"
abbreviation (input) PFCP_IE_DOWNLINK_DATA_REPORT :: u8 where "PFCP_IE_DOWNLINK_DATA_REPORT \<equiv> 83"
abbreviation (input) PFCP_IE_OUTER_HEADER_CREATION :: u8 where "PFCP_IE_OUTER_HEADER_CREATION \<equiv> 84"
abbreviation (input) PFCP_IE_BAR_ID :: u8 where "PFCP_IE_BAR_ID \<equiv> 88"
abbreviation (input) PFCP_IE_CP_FUNCTION_FEATURES :: u8 where "PFCP_IE_CP_FUNCTION_FEATURES \<equiv> 89"
abbreviation (input) PFCP_IE_UE_IP_ADDRESS :: u8 where "PFCP_IE_UE_IP_ADDRESS \<equiv> 93"
abbreviation (input) PFCP_IE_OUTER_HEADER_REMOVAL :: u8 where "PFCP_IE_OUTER_HEADER_REMOVAL \<equiv> 95"
abbreviation (input) PFCP_IE_RECOVERY_TIME_STAMP :: u8 where "PFCP_IE_RECOVERY_TIME_STAMP \<equiv> 96"
abbreviation (input) PFCP_IE_NODE_REPORT_TYPE :: u8 where "PFCP_IE_NODE_REPORT_TYPE \<equiv> 101"
abbreviation (input) PFCP_IE_ACTIVATE_PREDEFINED_RULES :: u8 where "PFCP_IE_ACTIVATE_PREDEFINED_RULES \<equiv> 106"
abbreviation (input) PFCP_IE_DEACTIVATE_PREDEFINED_RULES :: u8 where "PFCP_IE_DEACTIVATE_PREDEFINED_RULES \<equiv> 107"
abbreviation (input) PFCP_IE_FAR_ID :: u8 where "PFCP_IE_FAR_ID \<equiv> 108"
abbreviation (input) PFCP_IE_QER_ID :: u8 where "PFCP_IE_QER_ID \<equiv> 109"
abbreviation (input) PFCP_IE_FAILED_RULE_ID :: u8 where "PFCP_IE_FAILED_RULE_ID \<equiv> 114"
abbreviation (input) PFCP_IE_USER_PLANE_IP_RESOURCE_INFORMATION :: u8 where "PFCP_IE_USER_PLANE_IP_RESOURCE_INFORMATION \<equiv> 116"
abbreviation (input) PFCP_IE_USER_PLANE_INACTIVITY_TIMER :: u8 where "PFCP_IE_USER_PLANE_INACTIVITY_TIMER \<equiv> 117"
abbreviation (input) PFCP_IE_QFI :: u8 where "PFCP_IE_QFI \<equiv> 124"
abbreviation (input) PFCP_IE_CREATE_TRAFFIC_ENDPOINT :: u8 where "PFCP_IE_CREATE_TRAFFIC_ENDPOINT \<equiv> 127"
abbreviation (input) PFCP_IE_USER_ID :: u8 where "PFCP_IE_USER_ID \<equiv> 141"

section \<open>The header of an element\<close>

record pfcp_tlv =
  tlv_type :: u16
  tlv_length :: u16
  tlv_enterprise_id :: u16

definition new_pfcp_tlv :: pfcp_tlv where
  "new_pfcp_tlv = \<lparr>tlv_type = 0, tlv_length = 0, tlv_enterprise_id = 0\<rparr>"

text \<open>\<^verbatim>\<open>pfcp_ie(const uint8_t tlv_type)\<close>: the type is truncated to a byte.\<close>

definition tlv_of_type :: "u8 \<Rightarrow> pfcp_tlv" where
  "tlv_of_type t = new_pfcp_tlv\<lparr>tlv_type := ucast t\<rparr>"

definition tlv_set_length :: "u16 \<Rightarrow> pfcp_tlv \<Rightarrow> pfcp_tlv" where
  "tlv_set_length l t = t\<lparr>tlv_length := l\<rparr>"

definition tlv_add_length :: "u16 \<Rightarrow> pfcp_tlv \<Rightarrow> pfcp_tlv" where
  "tlv_add_length l t = t\<lparr>tlv_length := tlv_length t + l\<rparr>"

definition tlv_dump_to :: "pfcp_tlv \<Rightarrow> bytes" where
  "tlv_dump_to t =
     be_bytes 2 (tlv_type t) @ be_bytes 2 (tlv_length t)
     @ (if tlv_type t AND 0x8000 \<noteq> 0 then be_bytes 2 (tlv_enterprise_id t) else [])"

definition tlv_load_from :: "pfcp_tlv \<Rightarrow> istream \<Rightarrow> pfcp_tlv \<times> istream" where
  "tlv_load_from t is =
     (let (ty, is) = read_be 2 (tlv_type t) is;
          (len, is) = read_be 2 (tlv_length t) is
      in if ty AND 0x8000 \<noteq> 0 then
           (let (e, is) = read_be 2 (tlv_enterprise_id t) is
            in (\<lparr>tlv_type = ty, tlv_length = len, tlv_enterprise_id = e\<rparr>, is))
         else (t\<lparr>tlv_type := ty, tlv_length := len\<rparr>, is))"

definition ie_tlv :: "u8 \<Rightarrow> nat \<Rightarrow> pfcp_tlv" where
  "ie_tlv t n = \<lparr>tlv_type = ucast t, tlv_length = of_nat n, tlv_enterprise_id = 0\<rparr>"

lemmas tlv_defs = tlv_set_length_def tlv_add_length_def tlv_of_type_def new_pfcp_tlv_def ie_tlv_def

lemma tlv_load_dump:
  "tlv_load_from new_pfcp_tlv (stream j (tlv_dump_to t @ rest)) =
     (if tlv_type t AND 0x8000 \<noteq> 0 then t else t\<lparr>tlv_enterprise_id := 0\<rparr>, stream j rest)"
  by (simp add: tlv_load_from_def tlv_dump_to_def new_pfcp_tlv_def)

lemma ucast_no_enterprise [simp]: "(ucast (t :: u8) :: u16) AND 0x8000 = 0"
proof -
  have "\<not> bit ((ucast t :: u16) AND push_bit 15 1) n" for n
    using bit_imp_le_length [of t n] by (auto simp only: bit_simps) simp
  then have "(ucast t :: u16) AND push_bit 15 1 = 0"
    by (intro bit_word_eqI) simp
  then show ?thesis by simp
qed

lemma tlv_load_ie_tlv [simp]:
  "tlv_load_from new_pfcp_tlv (stream j (tlv_dump_to (ie_tlv t n) @ rest)) = (ie_tlv t n, stream j rest)"
  by (simp add: tlv_load_dump ie_tlv_def)

section \<open>The contract of a class of elements\<close>

text \<open>
  What the classes of elements have in common: an object is made from a core value, writes itself
  behind its header, and is read back by an object made from that header.  \<open>canon\<close> are the core
  values without content in members that their flags declare absent, \<open>body\<close> the bytes behind the
  header.
\<close>

definition read_ie ::
    "(u8 \<Rightarrow> pfcp_tlv \<Rightarrow> 'ie) \<Rightarrow> ('ie \<Rightarrow> istream \<Rightarrow> (pfcp_exn + 'ie) \<times> istream) \<Rightarrow> istream \<Rightarrow>
     (pfcp_exn + 'ie) \<times> istream" where
  "read_ie of_tlv load is = (let (t, is) = tlv_load_from new_pfcp_tlv is in load (of_tlv (is_junk is) t) is)"

locale ie_codec =
  fixes ie_type :: u8
    and make :: "'c \<Rightarrow> 'ie"
    and tlv_of :: "'ie \<Rightarrow> pfcp_tlv"
    and dump :: "'ie \<Rightarrow> (pfcp_exn + 'ie) \<times> bytes"
    and of_tlv :: "u8 \<Rightarrow> pfcp_tlv \<Rightarrow> 'ie"
    and load :: "'ie \<Rightarrow> istream \<Rightarrow> (pfcp_exn + 'ie) \<times> istream"
    and to_core :: "'ie \<Rightarrow> 'c"
    and canon :: "'c \<Rightarrow> bool"
    and body :: "'c \<Rightarrow> bytes"
  assumes tlv_make: "canon c \<Longrightarrow> tlv_of (make c) = ie_tlv ie_type (length (body c))"
    and dump_make: "canon c \<Longrightarrow>
      dump (make c) = (Inr (make c), tlv_dump_to (ie_tlv ie_type (length (body c))) @ body c)"
    and load_body: "canon c \<Longrightarrow>
      \<exists>ie. load (of_tlv j (ie_tlv ie_type (length (body c)))) (stream j (body c @ rest)) = (Inr ie, stream j rest) \<and>
        tlv_of ie = ie_tlv ie_type (length (body c)) \<and> to_core ie = c"
    and body_length: "canon c \<Longrightarrow> 0 < length (body c) \<and> length (body c) < 2 ^ 16"
begin

text \<open>Reading back what was written yields the core value and the rest of the stream.\<close>

lemma read_dump:
  assumes "canon c"
  shows "\<exists>ie. read_ie of_tlv load (stream j (snd (dump (make c)) @ rest)) = (Inr ie, stream j rest) \<and>
    to_core ie = c"
  using load_body [OF assms, of j rest] by (auto simp: read_ie_def dump_make [OF assms])

text \<open>No encoding is a prefix of another one.\<close>

lemma dump_prefix_free:
  assumes "canon c" and "canon d" and "snd (dump (make c)) @ xs = snd (dump (make d)) @ ys"
  shows "c = d \<and> xs = ys"
proof -
  obtain a where a: "read_ie of_tlv load (stream 0 (snd (dump (make c)) @ xs)) = (Inr a, stream 0 xs)"
      "to_core a = c"
    using read_dump [OF assms(1)] by blast
  obtain b where "read_ie of_tlv load (stream 0 (snd (dump (make d)) @ ys)) = (Inr b, stream 0 ys)"
      "to_core b = d"
    using read_dump [OF assms(2)] by blast
  with a have "(Inr a, stream 0 xs) = (Inr b, stream 0 ys)" and "to_core a = c" "to_core b = d"
    unfolding assms(3) by simp_all
  then show ?thesis by simp
qed

text \<open>The declared length is the number of bytes behind the four bytes of the header.\<close>

lemma dump_length:
  assumes "canon c"
  shows "length (snd (dump (make c))) = 4 + unat (tlv_length (tlv_of (make c)))"
  using body_length [OF assms]
  by (simp add: dump_make [OF assms] tlv_make [OF assms] ie_tlv_def tlv_dump_to_def unat_of_nat)

end

end
