(* ===== verification/Ie_Scalar.thy ===== *)
theory Ie_Scalar
  imports Ie_Stream
begin

text \<open>
  The classes of elements that carry one number or one string, of
  \<^verbatim>\<open>src/oai/pfcp/3gpp_29.244.hpp\<close>.  For every class: its members, the constructor from the core
  type, the constructor from a header, the conversion back, writing and reading.  Each class is
  an instance of \<open>ie_codec\<close>, but two: \<^verbatim>\<open>pfcp_qer_correlation_id_ie\<close> refuses the length it writes,
  and \<^verbatim>\<open>pfcp_urr_id_ie\<close> writes host order and reads network order.
\<close>

section \<open>Numbers\<close>

subsection \<open>\<^verbatim>\<open>pfcp_cause_ie\<close>\<close>

record pfcp_cause_ie =
  cause_ie_tlv :: pfcp_tlv
  cause_ie_cause_value :: u8

definition new_cause_ie :: "u8 \<Rightarrow> pfcp_cause_ie" where
  "new_cause_ie b =
     \<lparr>cause_ie_tlv = tlv_set_length 1 (tlv_of_type PFCP_IE_CAUSE), cause_ie_cause_value = b\<rparr>"

definition cause_ie_of_tlv :: "u8 \<Rightarrow> pfcp_tlv \<Rightarrow> pfcp_cause_ie" where
  "cause_ie_of_tlv j t = \<lparr>cause_ie_tlv = t, cause_ie_cause_value = 0\<rparr>"

definition cause_ie_to_core :: "pfcp_cause_ie \<Rightarrow> u8" where
  "cause_ie_to_core ie = cause_ie_cause_value ie"

definition cause_ie_dump_to :: "pfcp_cause_ie \<Rightarrow> (pfcp_exn + pfcp_cause_ie) \<times> bytes" where
  "cause_ie_dump_to ie = (Inr ie, tlv_dump_to (cause_ie_tlv ie) @ le_bytes 1 (cause_ie_cause_value ie))"

definition cause_ie_load_from :: "pfcp_cause_ie \<Rightarrow> istream \<Rightarrow> (pfcp_exn + pfcp_cause_ie) \<times> istream" where
  "cause_ie_load_from ie is =
     (if tlv_length (cause_ie_tlv ie) \<noteq> 1 then (Inl (Tlv_bad_length (tlv_type (cause_ie_tlv ie)) (tlv_length (cause_ie_tlv ie))), is)
      else (let (v, is) = read_raw 1 (cause_ie_cause_value ie) is in (Inr (ie\<lparr>cause_ie_cause_value := v\<rparr>), is)))"

lemmas cause_ie_defs = new_cause_ie_def cause_ie_of_tlv_def cause_ie_to_core_def cause_ie_dump_to_def
  cause_ie_load_from_def

interpretation cause_ie: ie_codec PFCP_IE_CAUSE new_cause_ie cause_ie_tlv
    cause_ie_dump_to cause_ie_of_tlv cause_ie_load_from cause_ie_to_core "\<lambda>_. True" "le_bytes 1"
  by unfold_locales (simp_all add: cause_ie_defs tlv_defs)

subsection \<open>\<^verbatim>\<open>pfcp_source_interface_ie\<close>\<close>

record pfcp_source_interface_ie =
  source_interface_ie_tlv :: pfcp_tlv
  source_interface_ie_interface_value :: u8

definition new_source_interface_ie :: "u8 \<Rightarrow> pfcp_source_interface_ie" where
  "new_source_interface_ie b =
     \<lparr>source_interface_ie_tlv = tlv_set_length 1 (tlv_of_type PFCP_IE_SOURCE_INTERFACE), source_interface_ie_interface_value = b\<rparr>"

definition source_interface_ie_of_tlv :: "u8 \<Rightarrow> pfcp_tlv \<Rightarrow> pfcp_source_interface_ie" where
  "source_interface_ie_of_tlv j t = \<lparr>source_interface_ie_tlv = t, source_interface_ie_interface_value = 255\<rparr>"

definition source_interface_ie_to_core :: "pfcp_source_interface_ie \<Rightarrow> u8" where
  "source_interface_ie_to_core ie = source_interface_ie_interface_value ie"

definition source_interface_ie_dump_to :: "pfcp_source_interface_ie \<Rightarrow> (pfcp_exn + pfcp_source_interface_ie) \<times> bytes" where
  "source_interface_ie_dump_to ie = (Inr ie, tlv_dump_to (source_interface_ie_tlv ie) @ le_bytes 1 (source_interface_ie_interface_value ie))"

definition source_interface_ie_load_from :: "pfcp_source_interface_ie \<Rightarrow> istream \<Rightarrow> (pfcp_exn + pfcp_source_interface_ie) \<times> istream" where
  "source_interface_ie_load_from ie is =
     (if tlv_length (source_interface_ie_tlv ie) \<noteq> 1 then (Inl (Tlv_bad_length (tlv_type (source_interface_ie_tlv ie)) (tlv_length (source_interface_ie_tlv ie))), is)
      else (let (v, is) = read_raw 1 (source_interface_ie_interface_value ie) is in (Inr (ie\<lparr>source_interface_ie_interface_value := v\<rparr>), is)))"

lemmas source_interface_ie_defs = new_source_interface_ie_def source_interface_ie_of_tlv_def source_interface_ie_to_core_def source_interface_ie_dump_to_def
  source_interface_ie_load_from_def

interpretation source_interface_ie: ie_codec PFCP_IE_SOURCE_INTERFACE new_source_interface_ie source_interface_ie_tlv
    source_interface_ie_dump_to source_interface_ie_of_tlv source_interface_ie_load_from source_interface_ie_to_core "\<lambda>_. True" "le_bytes 1"
  by unfold_locales (simp_all add: source_interface_ie_defs tlv_defs)

subsection \<open>\<^verbatim>\<open>pfcp_qer_correlation_id_ie\<close>\<close>

record pfcp_qer_correlation_id_ie =
  qer_correlation_id_ie_tlv :: pfcp_tlv
  qer_correlation_id_ie_qer_correlation_id :: u32

definition new_qer_correlation_id_ie :: "u32 \<Rightarrow> pfcp_qer_correlation_id_ie" where
  "new_qer_correlation_id_ie b =
     \<lparr>qer_correlation_id_ie_tlv = tlv_set_length 4 (tlv_of_type PFCP_IE_QER_CORRELATION_ID), qer_correlation_id_ie_qer_correlation_id = b\<rparr>"

definition qer_correlation_id_ie_of_tlv :: "u8 \<Rightarrow> pfcp_tlv \<Rightarrow> pfcp_qer_correlation_id_ie" where
  "qer_correlation_id_ie_of_tlv j t = \<lparr>qer_correlation_id_ie_tlv = t, qer_correlation_id_ie_qer_correlation_id = 0\<rparr>"

definition qer_correlation_id_ie_to_core :: "pfcp_qer_correlation_id_ie \<Rightarrow> u32" where
  "qer_correlation_id_ie_to_core ie = qer_correlation_id_ie_qer_correlation_id ie"

definition qer_correlation_id_ie_dump_to :: "pfcp_qer_correlation_id_ie \<Rightarrow> (pfcp_exn + pfcp_qer_correlation_id_ie) \<times> bytes" where
  "qer_correlation_id_ie_dump_to ie = (Inr ie, tlv_dump_to (qer_correlation_id_ie_tlv ie) @ be_bytes 4 (qer_correlation_id_ie_qer_correlation_id ie))"

definition qer_correlation_id_ie_load_from :: "pfcp_qer_correlation_id_ie \<Rightarrow> istream \<Rightarrow> (pfcp_exn + pfcp_qer_correlation_id_ie) \<times> istream" where
  "qer_correlation_id_ie_load_from ie is =
     (if tlv_length (qer_correlation_id_ie_tlv ie) \<noteq> 1 then (Inl (Tlv_bad_length (tlv_type (qer_correlation_id_ie_tlv ie)) (tlv_length (qer_correlation_id_ie_tlv ie))), is)
      else (let (v, is) = read_be 4 (qer_correlation_id_ie_qer_correlation_id ie) is in (Inr (ie\<lparr>qer_correlation_id_ie_qer_correlation_id := v\<rparr>), is)))"

lemmas qer_correlation_id_ie_defs = new_qer_correlation_id_ie_def qer_correlation_id_ie_of_tlv_def qer_correlation_id_ie_to_core_def qer_correlation_id_ie_dump_to_def
  qer_correlation_id_ie_load_from_def

subsection \<open>\<^verbatim>\<open>pfcp_precedence_ie\<close>\<close>

record pfcp_precedence_ie =
  precedence_ie_tlv :: pfcp_tlv
  precedence_ie_precedence :: u32

definition new_precedence_ie :: "u32 \<Rightarrow> pfcp_precedence_ie" where
  "new_precedence_ie b =
     \<lparr>precedence_ie_tlv = tlv_set_length 4 (tlv_of_type PFCP_IE_PRECEDENCE), precedence_ie_precedence = b\<rparr>"

definition precedence_ie_of_tlv :: "u8 \<Rightarrow> pfcp_tlv \<Rightarrow> pfcp_precedence_ie" where
  "precedence_ie_of_tlv j t = \<lparr>precedence_ie_tlv = t, precedence_ie_precedence = 0\<rparr>"

definition precedence_ie_to_core :: "pfcp_precedence_ie \<Rightarrow> u32" where
  "precedence_ie_to_core ie = precedence_ie_precedence ie"

definition precedence_ie_dump_to :: "pfcp_precedence_ie \<Rightarrow> (pfcp_exn + pfcp_precedence_ie) \<times> bytes" where
  "precedence_ie_dump_to ie = (Inr ie, tlv_dump_to (precedence_ie_tlv ie) @ be_bytes 4 (precedence_ie_precedence ie))"

definition precedence_ie_load_from :: "pfcp_precedence_ie \<Rightarrow> istream \<Rightarrow> (pfcp_exn + pfcp_precedence_ie) \<times> istream" where
  "precedence_ie_load_from ie is =
     (if tlv_length (precedence_ie_tlv ie) \<noteq> 4 then (Inl (Tlv_bad_length (tlv_type (precedence_ie_tlv ie)) (tlv_length (precedence_ie_tlv ie))), is)
      else (let (v, is) = read_be 4 (precedence_ie_precedence ie) is in (Inr (ie\<lparr>precedence_ie_precedence := v\<rparr>), is)))"

lemmas precedence_ie_defs = new_precedence_ie_def precedence_ie_of_tlv_def precedence_ie_to_core_def precedence_ie_dump_to_def
  precedence_ie_load_from_def

interpretation precedence_ie: ie_codec PFCP_IE_PRECEDENCE new_precedence_ie precedence_ie_tlv
    precedence_ie_dump_to precedence_ie_of_tlv precedence_ie_load_from precedence_ie_to_core "\<lambda>_. True" "be_bytes 4"
  by unfold_locales (simp_all add: precedence_ie_defs tlv_defs)

subsection \<open>\<^verbatim>\<open>pfcp_time_threshold_ie\<close>\<close>

record pfcp_time_threshold_ie =
  time_threshold_ie_tlv :: pfcp_tlv
  time_threshold_ie_time_threshold :: u32

definition new_time_threshold_ie :: "u32 \<Rightarrow> pfcp_time_threshold_ie" where
  "new_time_threshold_ie b =
     \<lparr>time_threshold_ie_tlv = tlv_set_length 4 (tlv_of_type PFCP_IE_TIME_THRESHOLD), time_threshold_ie_time_threshold = b\<rparr>"

definition time_threshold_ie_of_tlv :: "u8 \<Rightarrow> pfcp_tlv \<Rightarrow> pfcp_time_threshold_ie" where
  "time_threshold_ie_of_tlv j t = \<lparr>time_threshold_ie_tlv = t, time_threshold_ie_time_threshold = 0\<rparr>"

definition time_threshold_ie_to_core :: "pfcp_time_threshold_ie \<Rightarrow> u32" where
  "time_threshold_ie_to_core ie = time_threshold_ie_time_threshold ie"

definition time_threshold_ie_dump_to :: "pfcp_time_threshold_ie \<Rightarrow> (pfcp_exn + pfcp_time_threshold_ie) \<times> bytes" where
  "time_threshold_ie_dump_to ie = (Inr ie, tlv_dump_to (time_threshold_ie_tlv ie) @ be_bytes 4 (time_threshold_ie_time_threshold ie))"

definition time_threshold_ie_load_from :: "pfcp_time_threshold_ie \<Rightarrow> istream \<Rightarrow> (pfcp_exn + pfcp_time_threshold_ie) \<times> istream" where
  "time_threshold_ie_load_from ie is =
     (if tlv_length (time_threshold_ie_tlv ie) \<noteq> 4 then (Inl (Tlv_bad_length (tlv_type (time_threshold_ie_tlv ie)) (tlv_length (time_threshold_ie_tlv ie))), is)
      else (let (v, is) = read_be 4 (time_threshold_ie_time_threshold ie) is in (Inr (ie\<lparr>time_threshold_ie_time_threshold := v\<rparr>), is)))"

lemmas time_threshold_ie_defs = new_time_threshold_ie_def time_threshold_ie_of_tlv_def time_threshold_ie_to_core_def time_threshold_ie_dump_to_def
  time_threshold_ie_load_from_def

interpretation time_threshold_ie: ie_codec PFCP_IE_TIME_THRESHOLD new_time_threshold_ie time_threshold_ie_tlv
    time_threshold_ie_dump_to time_threshold_ie_of_tlv time_threshold_ie_load_from time_threshold_ie_to_core "\<lambda>_. True" "be_bytes 4"
  by unfold_locales (simp_all add: time_threshold_ie_defs tlv_defs)

subsection \<open>\<^verbatim>\<open>pfcp_monitoring_time_ie\<close>\<close>

record pfcp_monitoring_time_ie =
  monitoring_time_ie_tlv :: pfcp_tlv
  monitoring_time_ie_monitoring_time :: u32

definition new_monitoring_time_ie :: "u32 \<Rightarrow> pfcp_monitoring_time_ie" where
  "new_monitoring_time_ie b =
     \<lparr>monitoring_time_ie_tlv = tlv_set_length 4 (tlv_of_type PFCP_IE_MONITORING_TIME), monitoring_time_ie_monitoring_time = b\<rparr>"

definition monitoring_time_ie_of_tlv :: "u8 \<Rightarrow> pfcp_tlv \<Rightarrow> pfcp_monitoring_time_ie" where
  "monitoring_time_ie_of_tlv j t = \<lparr>monitoring_time_ie_tlv = t, monitoring_time_ie_monitoring_time = 0\<rparr>"

definition monitoring_time_ie_to_core :: "pfcp_monitoring_time_ie \<Rightarrow> u32" where
  "monitoring_time_ie_to_core ie = monitoring_time_ie_monitoring_time ie"

definition monitoring_time_ie_dump_to :: "pfcp_monitoring_time_ie \<Rightarrow> (pfcp_exn + pfcp_monitoring_time_ie) \<times> bytes" where
  "monitoring_time_ie_dump_to ie = (Inr ie, tlv_dump_to (monitoring_time_ie_tlv ie) @ be_bytes 4 (monitoring_time_ie_monitoring_time ie))"

definition monitoring_time_ie_load_from :: "pfcp_monitoring_time_ie \<Rightarrow> istream \<Rightarrow> (pfcp_exn + pfcp_monitoring_time_ie) \<times> istream" where
  "monitoring_time_ie_load_from ie is =
     (if tlv_length (monitoring_time_ie_tlv ie) \<noteq> 4 then (Inl (Tlv_bad_length (tlv_type (monitoring_time_ie_tlv ie)) (tlv_length (monitoring_time_ie_tlv ie))), is)
      else (let (v, is) = read_be 4 (monitoring_time_ie_monitoring_time ie) is in (Inr (ie\<lparr>monitoring_time_ie_monitoring_time := v\<rparr>), is)))"

lemmas monitoring_time_ie_defs = new_monitoring_time_ie_def monitoring_time_ie_of_tlv_def monitoring_time_ie_to_core_def monitoring_time_ie_dump_to_def
  monitoring_time_ie_load_from_def

interpretation monitoring_time_ie: ie_codec PFCP_IE_MONITORING_TIME new_monitoring_time_ie monitoring_time_ie_tlv
    monitoring_time_ie_dump_to monitoring_time_ie_of_tlv monitoring_time_ie_load_from monitoring_time_ie_to_core "\<lambda>_. True" "be_bytes 4"
  by unfold_locales (simp_all add: monitoring_time_ie_defs tlv_defs)

subsection \<open>\<^verbatim>\<open>pfcp_subsequent_time_threshold_ie\<close>\<close>

record pfcp_subsequent_time_threshold_ie =
  subsequent_time_threshold_ie_tlv :: pfcp_tlv
  subsequent_time_threshold_ie_subsequent_time_threshold :: u32

definition new_subsequent_time_threshold_ie :: "u32 \<Rightarrow> pfcp_subsequent_time_threshold_ie" where
  "new_subsequent_time_threshold_ie b =
     \<lparr>subsequent_time_threshold_ie_tlv = tlv_set_length 4 (tlv_of_type PFCP_IE_SUBSEQUENT_TIME_THRESHOLD), subsequent_time_threshold_ie_subsequent_time_threshold = b\<rparr>"

definition subsequent_time_threshold_ie_of_tlv :: "u8 \<Rightarrow> pfcp_tlv \<Rightarrow> pfcp_subsequent_time_threshold_ie" where
  "subsequent_time_threshold_ie_of_tlv j t = \<lparr>subsequent_time_threshold_ie_tlv = t, subsequent_time_threshold_ie_subsequent_time_threshold = 0\<rparr>"

definition subsequent_time_threshold_ie_to_core :: "pfcp_subsequent_time_threshold_ie \<Rightarrow> u32" where
  "subsequent_time_threshold_ie_to_core ie = subsequent_time_threshold_ie_subsequent_time_threshold ie"

definition subsequent_time_threshold_ie_dump_to :: "pfcp_subsequent_time_threshold_ie \<Rightarrow> (pfcp_exn + pfcp_subsequent_time_threshold_ie) \<times> bytes" where
  "subsequent_time_threshold_ie_dump_to ie = (Inr ie, tlv_dump_to (subsequent_time_threshold_ie_tlv ie) @ be_bytes 4 (subsequent_time_threshold_ie_subsequent_time_threshold ie))"

definition subsequent_time_threshold_ie_load_from :: "pfcp_subsequent_time_threshold_ie \<Rightarrow> istream \<Rightarrow> (pfcp_exn + pfcp_subsequent_time_threshold_ie) \<times> istream" where
  "subsequent_time_threshold_ie_load_from ie is =
     (if tlv_length (subsequent_time_threshold_ie_tlv ie) \<noteq> 4 then (Inl (Tlv_bad_length (tlv_type (subsequent_time_threshold_ie_tlv ie)) (tlv_length (subsequent_time_threshold_ie_tlv ie))), is)
      else (let (v, is) = read_be 4 (subsequent_time_threshold_ie_subsequent_time_threshold ie) is in (Inr (ie\<lparr>subsequent_time_threshold_ie_subsequent_time_threshold := v\<rparr>), is)))"

lemmas subsequent_time_threshold_ie_defs = new_subsequent_time_threshold_ie_def subsequent_time_threshold_ie_of_tlv_def subsequent_time_threshold_ie_to_core_def subsequent_time_threshold_ie_dump_to_def
  subsequent_time_threshold_ie_load_from_def

interpretation subsequent_time_threshold_ie: ie_codec PFCP_IE_SUBSEQUENT_TIME_THRESHOLD new_subsequent_time_threshold_ie subsequent_time_threshold_ie_tlv
    subsequent_time_threshold_ie_dump_to subsequent_time_threshold_ie_of_tlv subsequent_time_threshold_ie_load_from subsequent_time_threshold_ie_to_core "\<lambda>_. True" "be_bytes 4"
  by unfold_locales (simp_all add: subsequent_time_threshold_ie_defs tlv_defs)

subsection \<open>\<^verbatim>\<open>pfcp_inactivity_detection_time_ie\<close>\<close>

record pfcp_inactivity_detection_time_ie =
  inactivity_detection_time_ie_tlv :: pfcp_tlv
  inactivity_detection_time_ie_inactivity_detection_time :: u32

definition new_inactivity_detection_time_ie :: "u32 \<Rightarrow> pfcp_inactivity_detection_time_ie" where
  "new_inactivity_detection_time_ie b =
     \<lparr>inactivity_detection_time_ie_tlv = tlv_set_length 4 (tlv_of_type PFCP_IE_INACTIVITY_DETECTION_TIME), inactivity_detection_time_ie_inactivity_detection_time = b\<rparr>"

definition inactivity_detection_time_ie_of_tlv :: "u8 \<Rightarrow> pfcp_tlv \<Rightarrow> pfcp_inactivity_detection_time_ie" where
  "inactivity_detection_time_ie_of_tlv j t = \<lparr>inactivity_detection_time_ie_tlv = t, inactivity_detection_time_ie_inactivity_detection_time = 0\<rparr>"

definition inactivity_detection_time_ie_to_core :: "pfcp_inactivity_detection_time_ie \<Rightarrow> u32" where
  "inactivity_detection_time_ie_to_core ie = inactivity_detection_time_ie_inactivity_detection_time ie"

definition inactivity_detection_time_ie_dump_to :: "pfcp_inactivity_detection_time_ie \<Rightarrow> (pfcp_exn + pfcp_inactivity_detection_time_ie) \<times> bytes" where
  "inactivity_detection_time_ie_dump_to ie = (Inr ie, tlv_dump_to (inactivity_detection_time_ie_tlv ie) @ be_bytes 4 (inactivity_detection_time_ie_inactivity_detection_time ie))"

definition inactivity_detection_time_ie_load_from :: "pfcp_inactivity_detection_time_ie \<Rightarrow> istream \<Rightarrow> (pfcp_exn + pfcp_inactivity_detection_time_ie) \<times> istream" where
  "inactivity_detection_time_ie_load_from ie is =
     (if tlv_length (inactivity_detection_time_ie_tlv ie) \<noteq> 4 then (Inl (Tlv_bad_length (tlv_type (inactivity_detection_time_ie_tlv ie)) (tlv_length (inactivity_detection_time_ie_tlv ie))), is)
      else (let (v, is) = read_be 4 (inactivity_detection_time_ie_inactivity_detection_time ie) is in (Inr (ie\<lparr>inactivity_detection_time_ie_inactivity_detection_time := v\<rparr>), is)))"

lemmas inactivity_detection_time_ie_defs = new_inactivity_detection_time_ie_def inactivity_detection_time_ie_of_tlv_def inactivity_detection_time_ie_to_core_def inactivity_detection_time_ie_dump_to_def
  inactivity_detection_time_ie_load_from_def

interpretation inactivity_detection_time_ie: ie_codec PFCP_IE_INACTIVITY_DETECTION_TIME new_inactivity_detection_time_ie inactivity_detection_time_ie_tlv
    inactivity_detection_time_ie_dump_to inactivity_detection_time_ie_of_tlv inactivity_detection_time_ie_load_from inactivity_detection_time_ie_to_core "\<lambda>_. True" "be_bytes 4"
  by unfold_locales (simp_all add: inactivity_detection_time_ie_defs tlv_defs)

subsection \<open>\<^verbatim>\<open>pfcp_offending_ie_ie\<close>\<close>

record pfcp_offending_ie_ie =
  offending_ie_ie_tlv :: pfcp_tlv
  offending_ie_ie_type_of_the_offending_ie :: u16

definition new_offending_ie_ie :: "u16 \<Rightarrow> pfcp_offending_ie_ie" where
  "new_offending_ie_ie b =
     \<lparr>offending_ie_ie_tlv = tlv_set_length 2 (tlv_of_type PFCP_IE_OFFENDING_IE), offending_ie_ie_type_of_the_offending_ie = b\<rparr>"

definition offending_ie_ie_of_tlv :: "u8 \<Rightarrow> pfcp_tlv \<Rightarrow> pfcp_offending_ie_ie" where
  "offending_ie_ie_of_tlv j t = \<lparr>offending_ie_ie_tlv = t, offending_ie_ie_type_of_the_offending_ie = 0\<rparr>"

definition offending_ie_ie_to_core :: "pfcp_offending_ie_ie \<Rightarrow> u16" where
  "offending_ie_ie_to_core ie = offending_ie_ie_type_of_the_offending_ie ie"

definition offending_ie_ie_dump_to :: "pfcp_offending_ie_ie \<Rightarrow> (pfcp_exn + pfcp_offending_ie_ie) \<times> bytes" where
  "offending_ie_ie_dump_to ie = (Inr ie, tlv_dump_to (offending_ie_ie_tlv ie) @ be_bytes 2 (offending_ie_ie_type_of_the_offending_ie ie))"

definition offending_ie_ie_load_from :: "pfcp_offending_ie_ie \<Rightarrow> istream \<Rightarrow> (pfcp_exn + pfcp_offending_ie_ie) \<times> istream" where
  "offending_ie_ie_load_from ie is =
     (if tlv_length (offending_ie_ie_tlv ie) \<noteq> 2 then (Inl (Tlv_bad_length (tlv_type (offending_ie_ie_tlv ie)) (tlv_length (offending_ie_ie_tlv ie))), is)
      else (let (v, is) = read_be 2 (offending_ie_ie_type_of_the_offending_ie ie) is in (Inr (ie\<lparr>offending_ie_ie_type_of_the_offending_ie := v\<rparr>), is)))"

lemmas offending_ie_ie_defs = new_offending_ie_ie_def offending_ie_ie_of_tlv_def offending_ie_ie_to_core_def offending_ie_ie_dump_to_def
  offending_ie_ie_load_from_def

interpretation offending_ie_ie: ie_codec PFCP_IE_OFFENDING_IE new_offending_ie_ie offending_ie_ie_tlv
    offending_ie_ie_dump_to offending_ie_ie_of_tlv offending_ie_ie_load_from offending_ie_ie_to_core "\<lambda>_. True" "be_bytes 2"
  by unfold_locales (simp_all add: offending_ie_ie_defs tlv_defs)

subsection \<open>\<^verbatim>\<open>pfcp_destination_interface_ie\<close>\<close>

record pfcp_destination_interface_ie =
  destination_interface_ie_tlv :: pfcp_tlv
  destination_interface_ie_interface_value :: u8

definition new_destination_interface_ie :: "u8 \<Rightarrow> pfcp_destination_interface_ie" where
  "new_destination_interface_ie b =
     \<lparr>destination_interface_ie_tlv = tlv_set_length 1 (tlv_of_type PFCP_IE_DESTINATION_INTERFACE), destination_interface_ie_interface_value = b\<rparr>"

definition destination_interface_ie_of_tlv :: "u8 \<Rightarrow> pfcp_tlv \<Rightarrow> pfcp_destination_interface_ie" where
  "destination_interface_ie_of_tlv j t = \<lparr>destination_interface_ie_tlv = t, destination_interface_ie_interface_value = 255\<rparr>"

definition destination_interface_ie_to_core :: "pfcp_destination_interface_ie \<Rightarrow> u8" where
  "destination_interface_ie_to_core ie = destination_interface_ie_interface_value ie"

definition destination_interface_ie_dump_to :: "pfcp_destination_interface_ie \<Rightarrow> (pfcp_exn + pfcp_destination_interface_ie) \<times> bytes" where
  "destination_interface_ie_dump_to ie = (Inr ie, tlv_dump_to (destination_interface_ie_tlv ie) @ le_bytes 1 (destination_interface_ie_interface_value ie))"

definition destination_interface_ie_load_from :: "pfcp_destination_interface_ie \<Rightarrow> istream \<Rightarrow> (pfcp_exn + pfcp_destination_interface_ie) \<times> istream" where
  "destination_interface_ie_load_from ie is =
     (if tlv_length (destination_interface_ie_tlv ie) \<noteq> 1 then (Inl (Tlv_bad_length (tlv_type (destination_interface_ie_tlv ie)) (tlv_length (destination_interface_ie_tlv ie))), is)
      else (let (v, is) = read_raw 1 (destination_interface_ie_interface_value ie) is in (Inr (ie\<lparr>destination_interface_ie_interface_value := v\<rparr>), is)))"

lemmas destination_interface_ie_defs = new_destination_interface_ie_def destination_interface_ie_of_tlv_def destination_interface_ie_to_core_def destination_interface_ie_dump_to_def
  destination_interface_ie_load_from_def

interpretation destination_interface_ie: ie_codec PFCP_IE_DESTINATION_INTERFACE new_destination_interface_ie destination_interface_ie_tlv
    destination_interface_ie_dump_to destination_interface_ie_of_tlv destination_interface_ie_load_from destination_interface_ie_to_core "\<lambda>_. True" "le_bytes 1"
  by unfold_locales (simp_all add: destination_interface_ie_defs tlv_defs)

subsection \<open>\<^verbatim>\<open>pfcp_pdr_id_ie\<close>\<close>

record pfcp_pdr_id_ie =
  pdr_id_ie_tlv :: pfcp_tlv
  pdr_id_ie_rule_id :: u16

definition new_pdr_id_ie :: "u16 \<Rightarrow> pfcp_pdr_id_ie" where
  "new_pdr_id_ie b =
     \<lparr>pdr_id_ie_tlv = tlv_set_length 2 (tlv_of_type PFCP_IE_PACKET_DETECTION_RULE_ID), pdr_id_ie_rule_id = b\<rparr>"

definition pdr_id_ie_of_tlv :: "u8 \<Rightarrow> pfcp_tlv \<Rightarrow> pfcp_pdr_id_ie" where
  "pdr_id_ie_of_tlv j t = \<lparr>pdr_id_ie_tlv = t, pdr_id_ie_rule_id = 0\<rparr>"

definition pdr_id_ie_to_core :: "pfcp_pdr_id_ie \<Rightarrow> u16" where
  "pdr_id_ie_to_core ie = pdr_id_ie_rule_id ie"

definition pdr_id_ie_dump_to :: "pfcp_pdr_id_ie \<Rightarrow> (pfcp_exn + pfcp_pdr_id_ie) \<times> bytes" where
  "pdr_id_ie_dump_to ie = (Inr ie, tlv_dump_to (pdr_id_ie_tlv ie) @ be_bytes 2 (pdr_id_ie_rule_id ie))"

definition pdr_id_ie_load_from :: "pfcp_pdr_id_ie \<Rightarrow> istream \<Rightarrow> (pfcp_exn + pfcp_pdr_id_ie) \<times> istream" where
  "pdr_id_ie_load_from ie is =
     (if tlv_length (pdr_id_ie_tlv ie) \<noteq> 2 then (Inl (Tlv_bad_length (tlv_type (pdr_id_ie_tlv ie)) (tlv_length (pdr_id_ie_tlv ie))), is)
      else (let (v, is) = read_be 2 (pdr_id_ie_rule_id ie) is in (Inr (ie\<lparr>pdr_id_ie_rule_id := v\<rparr>), is)))"

lemmas pdr_id_ie_defs = new_pdr_id_ie_def pdr_id_ie_of_tlv_def pdr_id_ie_to_core_def pdr_id_ie_dump_to_def
  pdr_id_ie_load_from_def

interpretation pdr_id_ie: ie_codec PFCP_IE_PACKET_DETECTION_RULE_ID new_pdr_id_ie pdr_id_ie_tlv
    pdr_id_ie_dump_to pdr_id_ie_of_tlv pdr_id_ie_load_from pdr_id_ie_to_core "\<lambda>_. True" "be_bytes 2"
  by unfold_locales (simp_all add: pdr_id_ie_defs tlv_defs)

subsection \<open>\<^verbatim>\<open>pfcp_urr_id_ie\<close>\<close>

record pfcp_urr_id_ie =
  urr_id_ie_tlv :: pfcp_tlv
  urr_id_ie_urr_id :: u32

definition new_urr_id_ie :: "u32 \<Rightarrow> pfcp_urr_id_ie" where
  "new_urr_id_ie b =
     \<lparr>urr_id_ie_tlv = tlv_set_length 4 (tlv_of_type PFCP_IE_URR_ID), urr_id_ie_urr_id = b\<rparr>"

definition urr_id_ie_of_tlv :: "u8 \<Rightarrow> pfcp_tlv \<Rightarrow> pfcp_urr_id_ie" where
  "urr_id_ie_of_tlv j t = \<lparr>urr_id_ie_tlv = t, urr_id_ie_urr_id = le_word (replicate 4 j)\<rparr>"

definition urr_id_ie_to_core :: "pfcp_urr_id_ie \<Rightarrow> u32" where
  "urr_id_ie_to_core ie = urr_id_ie_urr_id ie"

definition urr_id_ie_dump_to :: "pfcp_urr_id_ie \<Rightarrow> (pfcp_exn + pfcp_urr_id_ie) \<times> bytes" where
  "urr_id_ie_dump_to ie = (Inr ie, tlv_dump_to (urr_id_ie_tlv ie) @ le_bytes 4 (urr_id_ie_urr_id ie))"

definition urr_id_ie_load_from :: "pfcp_urr_id_ie \<Rightarrow> istream \<Rightarrow> (pfcp_exn + pfcp_urr_id_ie) \<times> istream" where
  "urr_id_ie_load_from ie is =
     (if tlv_length (urr_id_ie_tlv ie) \<noteq> 4 then (Inl (Tlv_bad_length (tlv_type (urr_id_ie_tlv ie)) (tlv_length (urr_id_ie_tlv ie))), is)
      else (let (v, is) = read_be 4 (urr_id_ie_urr_id ie) is in (Inr (ie\<lparr>urr_id_ie_urr_id := v\<rparr>), is)))"

lemmas urr_id_ie_defs = new_urr_id_ie_def urr_id_ie_of_tlv_def urr_id_ie_to_core_def urr_id_ie_dump_to_def
  urr_id_ie_load_from_def

subsection \<open>\<^verbatim>\<open>pfcp_bar_id_ie\<close>\<close>

record pfcp_bar_id_ie =
  bar_id_ie_tlv :: pfcp_tlv
  bar_id_ie_bar_id :: u8

definition new_bar_id_ie :: "u8 \<Rightarrow> pfcp_bar_id_ie" where
  "new_bar_id_ie b =
     \<lparr>bar_id_ie_tlv = tlv_set_length 1 (tlv_of_type PFCP_IE_BAR_ID), bar_id_ie_bar_id = b\<rparr>"

definition bar_id_ie_of_tlv :: "u8 \<Rightarrow> pfcp_tlv \<Rightarrow> pfcp_bar_id_ie" where
  "bar_id_ie_of_tlv j t = \<lparr>bar_id_ie_tlv = t, bar_id_ie_bar_id = 0\<rparr>"

definition bar_id_ie_to_core :: "pfcp_bar_id_ie \<Rightarrow> u8" where
  "bar_id_ie_to_core ie = bar_id_ie_bar_id ie"

definition bar_id_ie_dump_to :: "pfcp_bar_id_ie \<Rightarrow> (pfcp_exn + pfcp_bar_id_ie) \<times> bytes" where
  "bar_id_ie_dump_to ie = (Inr ie, tlv_dump_to (bar_id_ie_tlv ie) @ le_bytes 1 (bar_id_ie_bar_id ie))"

definition bar_id_ie_load_from :: "pfcp_bar_id_ie \<Rightarrow> istream \<Rightarrow> (pfcp_exn + pfcp_bar_id_ie) \<times> istream" where
  "bar_id_ie_load_from ie is =
     (if tlv_length (bar_id_ie_tlv ie) \<noteq> 1 then (Inl (Tlv_bad_length (tlv_type (bar_id_ie_tlv ie)) (tlv_length (bar_id_ie_tlv ie))), is)
      else (let (v, is) = read_raw 1 (bar_id_ie_bar_id ie) is in (Inr (ie\<lparr>bar_id_ie_bar_id := v\<rparr>), is)))"

lemmas bar_id_ie_defs = new_bar_id_ie_def bar_id_ie_of_tlv_def bar_id_ie_to_core_def bar_id_ie_dump_to_def
  bar_id_ie_load_from_def

interpretation bar_id_ie: ie_codec PFCP_IE_BAR_ID new_bar_id_ie bar_id_ie_tlv
    bar_id_ie_dump_to bar_id_ie_of_tlv bar_id_ie_load_from bar_id_ie_to_core "\<lambda>_. True" "le_bytes 1"
  by unfold_locales (simp_all add: bar_id_ie_defs tlv_defs)

subsection \<open>\<^verbatim>\<open>pfcp_outer_header_removal_ie\<close>\<close>

record pfcp_outer_header_removal_ie =
  outer_header_removal_ie_tlv :: pfcp_tlv
  outer_header_removal_ie_outer_header_removal_description :: u8

definition new_outer_header_removal_ie :: "u8 \<Rightarrow> pfcp_outer_header_removal_ie" where
  "new_outer_header_removal_ie b =
     \<lparr>outer_header_removal_ie_tlv = tlv_set_length 1 (tlv_of_type PFCP_IE_OUTER_HEADER_REMOVAL), outer_header_removal_ie_outer_header_removal_description = b\<rparr>"

definition outer_header_removal_ie_of_tlv :: "u8 \<Rightarrow> pfcp_tlv \<Rightarrow> pfcp_outer_header_removal_ie" where
  "outer_header_removal_ie_of_tlv j t = \<lparr>outer_header_removal_ie_tlv = t, outer_header_removal_ie_outer_header_removal_description = j\<rparr>"

definition outer_header_removal_ie_to_core :: "pfcp_outer_header_removal_ie \<Rightarrow> u8" where
  "outer_header_removal_ie_to_core ie = outer_header_removal_ie_outer_header_removal_description ie"

definition outer_header_removal_ie_dump_to :: "pfcp_outer_header_removal_ie \<Rightarrow> (pfcp_exn + pfcp_outer_header_removal_ie) \<times> bytes" where
  "outer_header_removal_ie_dump_to ie = (let ie = ie\<lparr>outer_header_removal_ie_tlv := tlv_set_length 1 (outer_header_removal_ie_tlv ie)\<rparr> in (Inr ie, tlv_dump_to (outer_header_removal_ie_tlv ie) @ le_bytes 1 (outer_header_removal_ie_outer_header_removal_description ie)))"

definition outer_header_removal_ie_load_from :: "pfcp_outer_header_removal_ie \<Rightarrow> istream \<Rightarrow> (pfcp_exn + pfcp_outer_header_removal_ie) \<times> istream" where
  "outer_header_removal_ie_load_from ie is =
     (if tlv_length (outer_header_removal_ie_tlv ie) \<noteq> 1 then (Inl (Tlv_bad_length (tlv_type (outer_header_removal_ie_tlv ie)) (tlv_length (outer_header_removal_ie_tlv ie))), is)
      else (let (v, is) = read_raw 1 (outer_header_removal_ie_outer_header_removal_description ie) is in (Inr (ie\<lparr>outer_header_removal_ie_outer_header_removal_description := v\<rparr>), is)))"

lemmas outer_header_removal_ie_defs = new_outer_header_removal_ie_def outer_header_removal_ie_of_tlv_def outer_header_removal_ie_to_core_def outer_header_removal_ie_dump_to_def
  outer_header_removal_ie_load_from_def

interpretation outer_header_removal_ie: ie_codec PFCP_IE_OUTER_HEADER_REMOVAL new_outer_header_removal_ie outer_header_removal_ie_tlv
    outer_header_removal_ie_dump_to outer_header_removal_ie_of_tlv outer_header_removal_ie_load_from outer_header_removal_ie_to_core "\<lambda>_. True" "le_bytes 1"
  by unfold_locales (simp_all add: outer_header_removal_ie_defs tlv_defs)

subsection \<open>\<^verbatim>\<open>pfcp_recovery_time_stamp_ie\<close>\<close>

record pfcp_recovery_time_stamp_ie =
  recovery_time_stamp_ie_tlv :: pfcp_tlv
  recovery_time_stamp_ie_recovery_time_stamp :: u32

definition new_recovery_time_stamp_ie :: "u32 \<Rightarrow> pfcp_recovery_time_stamp_ie" where
  "new_recovery_time_stamp_ie b =
     \<lparr>recovery_time_stamp_ie_tlv = tlv_set_length 4 (tlv_of_type PFCP_IE_RECOVERY_TIME_STAMP), recovery_time_stamp_ie_recovery_time_stamp = b\<rparr>"

definition recovery_time_stamp_ie_of_tlv :: "u8 \<Rightarrow> pfcp_tlv \<Rightarrow> pfcp_recovery_time_stamp_ie" where
  "recovery_time_stamp_ie_of_tlv j t = \<lparr>recovery_time_stamp_ie_tlv = t, recovery_time_stamp_ie_recovery_time_stamp = 0\<rparr>"

definition recovery_time_stamp_ie_to_core :: "pfcp_recovery_time_stamp_ie \<Rightarrow> u32" where
  "recovery_time_stamp_ie_to_core ie = recovery_time_stamp_ie_recovery_time_stamp ie"

definition recovery_time_stamp_ie_dump_to :: "pfcp_recovery_time_stamp_ie \<Rightarrow> (pfcp_exn + pfcp_recovery_time_stamp_ie) \<times> bytes" where
  "recovery_time_stamp_ie_dump_to ie = (Inr ie, tlv_dump_to (recovery_time_stamp_ie_tlv ie) @ be_bytes 4 (recovery_time_stamp_ie_recovery_time_stamp ie))"

definition recovery_time_stamp_ie_load_from :: "pfcp_recovery_time_stamp_ie \<Rightarrow> istream \<Rightarrow> (pfcp_exn + pfcp_recovery_time_stamp_ie) \<times> istream" where
  "recovery_time_stamp_ie_load_from ie is =
     (if tlv_length (recovery_time_stamp_ie_tlv ie) \<noteq> 4 then (Inl (Tlv_bad_length (tlv_type (recovery_time_stamp_ie_tlv ie)) (tlv_length (recovery_time_stamp_ie_tlv ie))), is)
      else (let (v, is) = read_be 4 (recovery_time_stamp_ie_recovery_time_stamp ie) is in (Inr (ie\<lparr>recovery_time_stamp_ie_recovery_time_stamp := v\<rparr>), is)))"

lemmas recovery_time_stamp_ie_defs = new_recovery_time_stamp_ie_def recovery_time_stamp_ie_of_tlv_def recovery_time_stamp_ie_to_core_def recovery_time_stamp_ie_dump_to_def
  recovery_time_stamp_ie_load_from_def

interpretation recovery_time_stamp_ie: ie_codec PFCP_IE_RECOVERY_TIME_STAMP new_recovery_time_stamp_ie recovery_time_stamp_ie_tlv
    recovery_time_stamp_ie_dump_to recovery_time_stamp_ie_of_tlv recovery_time_stamp_ie_load_from recovery_time_stamp_ie_to_core "\<lambda>_. True" "be_bytes 4"
  by unfold_locales (simp_all add: recovery_time_stamp_ie_defs tlv_defs)

subsection \<open>\<^verbatim>\<open>pfcp_far_id_ie\<close>\<close>

record pfcp_far_id_ie =
  far_id_ie_tlv :: pfcp_tlv
  far_id_ie_far_id :: u32

definition new_far_id_ie :: "u32 \<Rightarrow> pfcp_far_id_ie" where
  "new_far_id_ie b =
     \<lparr>far_id_ie_tlv = tlv_set_length 4 (tlv_of_type PFCP_IE_FAR_ID), far_id_ie_far_id = b\<rparr>"

definition far_id_ie_of_tlv :: "u8 \<Rightarrow> pfcp_tlv \<Rightarrow> pfcp_far_id_ie" where
  "far_id_ie_of_tlv j t = \<lparr>far_id_ie_tlv = t, far_id_ie_far_id = le_word (replicate 4 j)\<rparr>"

definition far_id_ie_to_core :: "pfcp_far_id_ie \<Rightarrow> u32" where
  "far_id_ie_to_core ie = far_id_ie_far_id ie"

definition far_id_ie_dump_to :: "pfcp_far_id_ie \<Rightarrow> (pfcp_exn + pfcp_far_id_ie) \<times> bytes" where
  "far_id_ie_dump_to ie = (Inr ie, tlv_dump_to (far_id_ie_tlv ie) @ be_bytes 4 (far_id_ie_far_id ie))"

definition far_id_ie_load_from :: "pfcp_far_id_ie \<Rightarrow> istream \<Rightarrow> (pfcp_exn + pfcp_far_id_ie) \<times> istream" where
  "far_id_ie_load_from ie is =
     (if tlv_length (far_id_ie_tlv ie) \<noteq> 4 then (Inl (Tlv_bad_length (tlv_type (far_id_ie_tlv ie)) (tlv_length (far_id_ie_tlv ie))), is)
      else (let (v, is) = read_be 4 (far_id_ie_far_id ie) is in (Inr (ie\<lparr>far_id_ie_far_id := v\<rparr>), is)))"

lemmas far_id_ie_defs = new_far_id_ie_def far_id_ie_of_tlv_def far_id_ie_to_core_def far_id_ie_dump_to_def
  far_id_ie_load_from_def

interpretation far_id_ie: ie_codec PFCP_IE_FAR_ID new_far_id_ie far_id_ie_tlv
    far_id_ie_dump_to far_id_ie_of_tlv far_id_ie_load_from far_id_ie_to_core "\<lambda>_. True" "be_bytes 4"
  by unfold_locales (simp_all add: far_id_ie_defs tlv_defs)

subsection \<open>\<^verbatim>\<open>pfcp_qer_id_ie\<close>\<close>

record pfcp_qer_id_ie =
  qer_id_ie_tlv :: pfcp_tlv
  qer_id_ie_qer_id :: u32

definition new_qer_id_ie :: "u32 \<Rightarrow> pfcp_qer_id_ie" where
  "new_qer_id_ie b =
     \<lparr>qer_id_ie_tlv = tlv_set_length 4 (tlv_of_type PFCP_IE_QER_ID), qer_id_ie_qer_id = b\<rparr>"

definition qer_id_ie_of_tlv :: "u8 \<Rightarrow> pfcp_tlv \<Rightarrow> pfcp_qer_id_ie" where
  "qer_id_ie_of_tlv j t = \<lparr>qer_id_ie_tlv = t, qer_id_ie_qer_id = le_word (replicate 4 j)\<rparr>"

definition qer_id_ie_to_core :: "pfcp_qer_id_ie \<Rightarrow> u32" where
  "qer_id_ie_to_core ie = qer_id_ie_qer_id ie"

definition qer_id_ie_dump_to :: "pfcp_qer_id_ie \<Rightarrow> (pfcp_exn + pfcp_qer_id_ie) \<times> bytes" where
  "qer_id_ie_dump_to ie = (Inr ie, tlv_dump_to (qer_id_ie_tlv ie) @ be_bytes 4 (qer_id_ie_qer_id ie))"

definition qer_id_ie_load_from :: "pfcp_qer_id_ie \<Rightarrow> istream \<Rightarrow> (pfcp_exn + pfcp_qer_id_ie) \<times> istream" where
  "qer_id_ie_load_from ie is =
     (if tlv_length (qer_id_ie_tlv ie) \<noteq> 4 then (Inl (Tlv_bad_length (tlv_type (qer_id_ie_tlv ie)) (tlv_length (qer_id_ie_tlv ie))), is)
      else (let (v, is) = read_be 4 (qer_id_ie_qer_id ie) is in (Inr (ie\<lparr>qer_id_ie_qer_id := v\<rparr>), is)))"

lemmas qer_id_ie_defs = new_qer_id_ie_def qer_id_ie_of_tlv_def qer_id_ie_to_core_def qer_id_ie_dump_to_def
  qer_id_ie_load_from_def

interpretation qer_id_ie: ie_codec PFCP_IE_QER_ID new_qer_id_ie qer_id_ie_tlv
    qer_id_ie_dump_to qer_id_ie_of_tlv qer_id_ie_load_from qer_id_ie_to_core "\<lambda>_. True" "be_bytes 4"
  by unfold_locales (simp_all add: qer_id_ie_defs tlv_defs)

subsection \<open>\<^verbatim>\<open>pfcp_user_plane_inactivity_timer_ie\<close>\<close>

record pfcp_user_plane_inactivity_timer_ie =
  user_plane_inactivity_timer_ie_tlv :: pfcp_tlv
  user_plane_inactivity_timer_ie_user_plane_inactivity_timer :: u32

definition new_user_plane_inactivity_timer_ie :: "u32 \<Rightarrow> pfcp_user_plane_inactivity_timer_ie" where
  "new_user_plane_inactivity_timer_ie b =
     \<lparr>user_plane_inactivity_timer_ie_tlv = tlv_set_length 4 (tlv_of_type PFCP_IE_USER_PLANE_INACTIVITY_TIMER), user_plane_inactivity_timer_ie_user_plane_inactivity_timer = b\<rparr>"

definition user_plane_inactivity_timer_ie_of_tlv :: "u8 \<Rightarrow> pfcp_tlv \<Rightarrow> pfcp_user_plane_inactivity_timer_ie" where
  "user_plane_inactivity_timer_ie_of_tlv j t = \<lparr>user_plane_inactivity_timer_ie_tlv = t, user_plane_inactivity_timer_ie_user_plane_inactivity_timer = le_word (replicate 4 j)\<rparr>"

definition user_plane_inactivity_timer_ie_to_core :: "pfcp_user_plane_inactivity_timer_ie \<Rightarrow> u32" where
  "user_plane_inactivity_timer_ie_to_core ie = user_plane_inactivity_timer_ie_user_plane_inactivity_timer ie"

definition user_plane_inactivity_timer_ie_dump_to :: "pfcp_user_plane_inactivity_timer_ie \<Rightarrow> (pfcp_exn + pfcp_user_plane_inactivity_timer_ie) \<times> bytes" where
  "user_plane_inactivity_timer_ie_dump_to ie = (Inr ie, tlv_dump_to (user_plane_inactivity_timer_ie_tlv ie) @ be_bytes 4 (user_plane_inactivity_timer_ie_user_plane_inactivity_timer ie))"

definition user_plane_inactivity_timer_ie_load_from :: "pfcp_user_plane_inactivity_timer_ie \<Rightarrow> istream \<Rightarrow> (pfcp_exn + pfcp_user_plane_inactivity_timer_ie) \<times> istream" where
  "user_plane_inactivity_timer_ie_load_from ie is =
     (if tlv_length (user_plane_inactivity_timer_ie_tlv ie) \<noteq> 4 then (Inl (Tlv_bad_length (tlv_type (user_plane_inactivity_timer_ie_tlv ie)) (tlv_length (user_plane_inactivity_timer_ie_tlv ie))), is)
      else (let (v, is) = read_be 4 (user_plane_inactivity_timer_ie_user_plane_inactivity_timer ie) is in (Inr (ie\<lparr>user_plane_inactivity_timer_ie_user_plane_inactivity_timer := v\<rparr>), is)))"

lemmas user_plane_inactivity_timer_ie_defs = new_user_plane_inactivity_timer_ie_def user_plane_inactivity_timer_ie_of_tlv_def user_plane_inactivity_timer_ie_to_core_def user_plane_inactivity_timer_ie_dump_to_def
  user_plane_inactivity_timer_ie_load_from_def

interpretation user_plane_inactivity_timer_ie: ie_codec PFCP_IE_USER_PLANE_INACTIVITY_TIMER new_user_plane_inactivity_timer_ie user_plane_inactivity_timer_ie_tlv
    user_plane_inactivity_timer_ie_dump_to user_plane_inactivity_timer_ie_of_tlv user_plane_inactivity_timer_ie_load_from user_plane_inactivity_timer_ie_to_core "\<lambda>_. True" "be_bytes 4"
  by unfold_locales (simp_all add: user_plane_inactivity_timer_ie_defs tlv_defs)

section \<open>Strings\<close>

lemma length_word_simps:
  "n < 65536 \<Longrightarrow> unat (of_nat n :: u16) = n"
  "0 < n \<Longrightarrow> n < 65536 \<Longrightarrow> (of_nat n :: u16) \<noteq> 0"
proof -
  show unat: "unat (of_nat n :: u16) = n" if "n < 65536" for n
    using that by (simp add: unat_of_nat)
  show "(of_nat n :: u16) \<noteq> 0" if "0 < n" "n < 65536"
    using unat [OF that(2)] that(1) by (metis less_irrefl unat_0)
qed

subsection \<open>\<^verbatim>\<open>pfcp_network_instance_ie\<close>\<close>

record pfcp_network_instance_ie =
  network_instance_ie_tlv :: pfcp_tlv
  network_instance_ie_network_instance :: string

definition new_network_instance_ie :: "string \<Rightarrow> pfcp_network_instance_ie" where
  "new_network_instance_ie b =
     \<lparr>network_instance_ie_tlv = tlv_set_length (of_nat (length b)) (tlv_of_type PFCP_IE_NETWORK_INSTANCE),
      network_instance_ie_network_instance = b\<rparr>"

definition network_instance_ie_of_tlv :: "u8 \<Rightarrow> pfcp_tlv \<Rightarrow> pfcp_network_instance_ie" where
  "network_instance_ie_of_tlv j t = \<lparr>network_instance_ie_tlv = t, network_instance_ie_network_instance = []\<rparr>"

definition network_instance_ie_to_core :: "pfcp_network_instance_ie \<Rightarrow> string" where
  "network_instance_ie_to_core ie = network_instance_ie_network_instance ie"

definition network_instance_ie_dump_to :: "pfcp_network_instance_ie \<Rightarrow> (pfcp_exn + pfcp_network_instance_ie) \<times> bytes" where
  "network_instance_ie_dump_to ie =
     (Inr ie, tlv_dump_to (network_instance_ie_tlv ie) @ bytes_of_string (network_instance_ie_network_instance ie))"

definition network_instance_ie_load_from :: "pfcp_network_instance_ie \<Rightarrow> istream \<Rightarrow> (pfcp_exn + pfcp_network_instance_ie) \<times> istream" where
  "network_instance_ie_load_from ie is =
     (let (v, is) = read_string (unat (tlv_length (network_instance_ie_tlv ie))) is in (Inr (ie\<lparr>network_instance_ie_network_instance := v\<rparr>), is))"

lemmas network_instance_ie_defs = new_network_instance_ie_def network_instance_ie_of_tlv_def network_instance_ie_to_core_def
  network_instance_ie_dump_to_def network_instance_ie_load_from_def

interpretation network_instance_ie: ie_codec PFCP_IE_NETWORK_INSTANCE new_network_instance_ie
    network_instance_ie_tlv network_instance_ie_dump_to network_instance_ie_of_tlv
    network_instance_ie_load_from network_instance_ie_to_core "\<lambda>s. 0 < length s \<and> length s < 65536" bytes_of_string
  by unfold_locales (auto simp: network_instance_ie_defs tlv_defs length_word_simps)

subsection \<open>\<^verbatim>\<open>pfcp_application_id_ie\<close>\<close>

record pfcp_application_id_ie =
  application_id_ie_tlv :: pfcp_tlv
  application_id_ie_application_id :: string

definition new_application_id_ie :: "string \<Rightarrow> pfcp_application_id_ie" where
  "new_application_id_ie b =
     \<lparr>application_id_ie_tlv = tlv_set_length (of_nat (length b)) (tlv_of_type PFCP_IE_APPLICATION_ID),
      application_id_ie_application_id = b\<rparr>"

definition application_id_ie_of_tlv :: "u8 \<Rightarrow> pfcp_tlv \<Rightarrow> pfcp_application_id_ie" where
  "application_id_ie_of_tlv j t = \<lparr>application_id_ie_tlv = t, application_id_ie_application_id = []\<rparr>"

definition application_id_ie_to_core :: "pfcp_application_id_ie \<Rightarrow> string" where
  "application_id_ie_to_core ie = application_id_ie_application_id ie"

definition application_id_ie_dump_to :: "pfcp_application_id_ie \<Rightarrow> (pfcp_exn + pfcp_application_id_ie) \<times> bytes" where
  "application_id_ie_dump_to ie =
     (Inr ie, tlv_dump_to (application_id_ie_tlv ie) @ bytes_of_string (application_id_ie_application_id ie))"

definition application_id_ie_load_from :: "pfcp_application_id_ie \<Rightarrow> istream \<Rightarrow> (pfcp_exn + pfcp_application_id_ie) \<times> istream" where
  "application_id_ie_load_from ie is =
     (let (v, is) = read_string (unat (tlv_length (application_id_ie_tlv ie))) is in (Inr (ie\<lparr>application_id_ie_application_id := v\<rparr>), is))"

lemmas application_id_ie_defs = new_application_id_ie_def application_id_ie_of_tlv_def application_id_ie_to_core_def
  application_id_ie_dump_to_def application_id_ie_load_from_def

interpretation application_id_ie: ie_codec PFCP_IE_APPLICATION_ID new_application_id_ie
    application_id_ie_tlv application_id_ie_dump_to application_id_ie_of_tlv
    application_id_ie_load_from application_id_ie_to_core "\<lambda>s. 0 < length s \<and> length s < 65536" bytes_of_string
  by unfold_locales (auto simp: application_id_ie_defs tlv_defs length_word_simps)

subsection \<open>\<^verbatim>\<open>pfcp_transport_level_marking_ie\<close>\<close>

record pfcp_transport_level_marking_ie =
  transport_level_marking_ie_tlv :: pfcp_tlv
  transport_level_marking_ie_transport_level_marking :: string

definition new_transport_level_marking_ie :: "string \<Rightarrow> pfcp_transport_level_marking_ie" where
  "new_transport_level_marking_ie b =
     \<lparr>transport_level_marking_ie_tlv = tlv_set_length (of_nat (length b)) (tlv_of_type PFCP_IE_TRANSPORT_LEVEL_MARKING),
      transport_level_marking_ie_transport_level_marking = b\<rparr>"

definition transport_level_marking_ie_of_tlv :: "u8 \<Rightarrow> pfcp_tlv \<Rightarrow> pfcp_transport_level_marking_ie" where
  "transport_level_marking_ie_of_tlv j t = \<lparr>transport_level_marking_ie_tlv = t, transport_level_marking_ie_transport_level_marking = []\<rparr>"

definition transport_level_marking_ie_to_core :: "pfcp_transport_level_marking_ie \<Rightarrow> string" where
  "transport_level_marking_ie_to_core ie = transport_level_marking_ie_transport_level_marking ie"

definition transport_level_marking_ie_dump_to :: "pfcp_transport_level_marking_ie \<Rightarrow> (pfcp_exn + pfcp_transport_level_marking_ie) \<times> bytes" where
  "transport_level_marking_ie_dump_to ie =
     (if tlv_length (transport_level_marking_ie_tlv ie) \<noteq> 2
      then (Inl (Tlv_bad_length (tlv_type (transport_level_marking_ie_tlv ie)) (tlv_length (transport_level_marking_ie_tlv ie))), tlv_dump_to (transport_level_marking_ie_tlv ie))
      else (Inr ie, tlv_dump_to (transport_level_marking_ie_tlv ie) @ bytes_of_string (transport_level_marking_ie_transport_level_marking ie)))"

definition transport_level_marking_ie_load_from :: "pfcp_transport_level_marking_ie \<Rightarrow> istream \<Rightarrow> (pfcp_exn + pfcp_transport_level_marking_ie) \<times> istream" where
  "transport_level_marking_ie_load_from ie is =
     (if tlv_length (transport_level_marking_ie_tlv ie) \<noteq> 2 then (Inl (Tlv_bad_length (tlv_type (transport_level_marking_ie_tlv ie)) (tlv_length (transport_level_marking_ie_tlv ie))), is)
      else (let (v, is) = read_string (2) is in (Inr (ie\<lparr>transport_level_marking_ie_transport_level_marking := v\<rparr>), is)))"

lemmas transport_level_marking_ie_defs = new_transport_level_marking_ie_def transport_level_marking_ie_of_tlv_def transport_level_marking_ie_to_core_def
  transport_level_marking_ie_dump_to_def transport_level_marking_ie_load_from_def

interpretation transport_level_marking_ie: ie_codec PFCP_IE_TRANSPORT_LEVEL_MARKING new_transport_level_marking_ie
    transport_level_marking_ie_tlv transport_level_marking_ie_dump_to transport_level_marking_ie_of_tlv
    transport_level_marking_ie_load_from transport_level_marking_ie_to_core "\<lambda>s. length s = 2" bytes_of_string
  by unfold_locales (auto simp: transport_level_marking_ie_defs tlv_defs length_word_simps)

subsection \<open>\<^verbatim>\<open>pfcp_activate_predefined_rules_ie\<close>\<close>

record pfcp_activate_predefined_rules_ie =
  activate_predefined_rules_ie_tlv :: pfcp_tlv
  activate_predefined_rules_ie_predefined_rules_name :: string

definition new_activate_predefined_rules_ie :: "string \<Rightarrow> pfcp_activate_predefined_rules_ie" where
  "new_activate_predefined_rules_ie b =
     \<lparr>activate_predefined_rules_ie_tlv = tlv_set_length (of_nat (length b)) (tlv_of_type PFCP_IE_ACTIVATE_PREDEFINED_RULES),
      activate_predefined_rules_ie_predefined_rules_name = b\<rparr>"

definition activate_predefined_rules_ie_of_tlv :: "u8 \<Rightarrow> pfcp_tlv \<Rightarrow> pfcp_activate_predefined_rules_ie" where
  "activate_predefined_rules_ie_of_tlv j t = \<lparr>activate_predefined_rules_ie_tlv = t, activate_predefined_rules_ie_predefined_rules_name = []\<rparr>"

definition activate_predefined_rules_ie_to_core :: "pfcp_activate_predefined_rules_ie \<Rightarrow> string" where
  "activate_predefined_rules_ie_to_core ie = activate_predefined_rules_ie_predefined_rules_name ie"

definition activate_predefined_rules_ie_dump_to :: "pfcp_activate_predefined_rules_ie \<Rightarrow> (pfcp_exn + pfcp_activate_predefined_rules_ie) \<times> bytes" where
  "activate_predefined_rules_ie_dump_to ie =
     (let ie = ie\<lparr>activate_predefined_rules_ie_tlv := tlv_set_length (of_nat (length (activate_predefined_rules_ie_predefined_rules_name ie))) (activate_predefined_rules_ie_tlv ie)\<rparr>
      in (Inr ie, tlv_dump_to (activate_predefined_rules_ie_tlv ie) @ bytes_of_string (activate_predefined_rules_ie_predefined_rules_name ie)))"

definition activate_predefined_rules_ie_load_from :: "pfcp_activate_predefined_rules_ie \<Rightarrow> istream \<Rightarrow> (pfcp_exn + pfcp_activate_predefined_rules_ie) \<times> istream" where
  "activate_predefined_rules_ie_load_from ie is =
     (if tlv_length (activate_predefined_rules_ie_tlv ie) = 0 then (Inl (Tlv_bad_length (tlv_type (activate_predefined_rules_ie_tlv ie)) (tlv_length (activate_predefined_rules_ie_tlv ie))), is)
      else (let (v, is) = read_string (unat (tlv_length (activate_predefined_rules_ie_tlv ie))) is in (Inr (ie\<lparr>activate_predefined_rules_ie_predefined_rules_name := v\<rparr>), is)))"

lemmas activate_predefined_rules_ie_defs = new_activate_predefined_rules_ie_def activate_predefined_rules_ie_of_tlv_def activate_predefined_rules_ie_to_core_def
  activate_predefined_rules_ie_dump_to_def activate_predefined_rules_ie_load_from_def

interpretation activate_predefined_rules_ie: ie_codec PFCP_IE_ACTIVATE_PREDEFINED_RULES new_activate_predefined_rules_ie
    activate_predefined_rules_ie_tlv activate_predefined_rules_ie_dump_to activate_predefined_rules_ie_of_tlv
    activate_predefined_rules_ie_load_from activate_predefined_rules_ie_to_core "\<lambda>s. 0 < length s \<and> length s < 65536" bytes_of_string
  by unfold_locales (auto simp: activate_predefined_rules_ie_defs tlv_defs length_word_simps)

subsection \<open>\<^verbatim>\<open>pfcp_deactivate_predefined_rules_ie\<close>\<close>

record pfcp_deactivate_predefined_rules_ie =
  deactivate_predefined_rules_ie_tlv :: pfcp_tlv
  deactivate_predefined_rules_ie_predefined_rules_name :: string

definition new_deactivate_predefined_rules_ie :: "string \<Rightarrow> pfcp_deactivate_predefined_rules_ie" where
  "new_deactivate_predefined_rules_ie b =
     \<lparr>deactivate_predefined_rules_ie_tlv = tlv_set_length (of_nat (length b)) (tlv_of_type PFCP_IE_DEACTIVATE_PREDEFINED_RULES),
      deactivate_predefined_rules_ie_predefined_rules_name = b\<rparr>"

definition deactivate_predefined_rules_ie_of_tlv :: "u8 \<Rightarrow> pfcp_tlv \<Rightarrow> pfcp_deactivate_predefined_rules_ie" where
  "deactivate_predefined_rules_ie_of_tlv j t = \<lparr>deactivate_predefined_rules_ie_tlv = t, deactivate_predefined_rules_ie_predefined_rules_name = []\<rparr>"

definition deactivate_predefined_rules_ie_to_core :: "pfcp_deactivate_predefined_rules_ie \<Rightarrow> string" where
  "deactivate_predefined_rules_ie_to_core ie = deactivate_predefined_rules_ie_predefined_rules_name ie"

definition deactivate_predefined_rules_ie_dump_to :: "pfcp_deactivate_predefined_rules_ie \<Rightarrow> (pfcp_exn + pfcp_deactivate_predefined_rules_ie) \<times> bytes" where
  "deactivate_predefined_rules_ie_dump_to ie =
     (let ie = ie\<lparr>deactivate_predefined_rules_ie_tlv := tlv_set_length (of_nat (length (deactivate_predefined_rules_ie_predefined_rules_name ie))) (deactivate_predefined_rules_ie_tlv ie)\<rparr>
      in (Inr ie, tlv_dump_to (deactivate_predefined_rules_ie_tlv ie) @ bytes_of_string (deactivate_predefined_rules_ie_predefined_rules_name ie)))"

definition deactivate_predefined_rules_ie_load_from :: "pfcp_deactivate_predefined_rules_ie \<Rightarrow> istream \<Rightarrow> (pfcp_exn + pfcp_deactivate_predefined_rules_ie) \<times> istream" where
  "deactivate_predefined_rules_ie_load_from ie is =
     (if tlv_length (deactivate_predefined_rules_ie_tlv ie) = 0 then (Inl (Tlv_bad_length (tlv_type (deactivate_predefined_rules_ie_tlv ie)) (tlv_length (deactivate_predefined_rules_ie_tlv ie))), is)
      else (let (v, is) = read_string (unat (tlv_length (deactivate_predefined_rules_ie_tlv ie))) is in (Inr (ie\<lparr>deactivate_predefined_rules_ie_predefined_rules_name := v\<rparr>), is)))"

lemmas deactivate_predefined_rules_ie_defs = new_deactivate_predefined_rules_ie_def deactivate_predefined_rules_ie_of_tlv_def deactivate_predefined_rules_ie_to_core_def
  deactivate_predefined_rules_ie_dump_to_def deactivate_predefined_rules_ie_load_from_def

interpretation deactivate_predefined_rules_ie: ie_codec PFCP_IE_DEACTIVATE_PREDEFINED_RULES new_deactivate_predefined_rules_ie
    deactivate_predefined_rules_ie_tlv deactivate_predefined_rules_ie_dump_to deactivate_predefined_rules_ie_of_tlv
    deactivate_predefined_rules_ie_load_from deactivate_predefined_rules_ie_to_core "\<lambda>s. 0 < length s \<and> length s < 65536" bytes_of_string
  by unfold_locales (auto simp: deactivate_predefined_rules_ie_defs tlv_defs length_word_simps)

section \<open>Classes that do not read what they write\<close>

lemma qer_correlation_id_load_dump:
  "read_ie qer_correlation_id_ie_of_tlv qer_correlation_id_ie_load_from
     (stream j (snd (qer_correlation_id_ie_dump_to (new_qer_correlation_id_ie c)) @ rest)) =
   (Inl (Tlv_bad_length (ucast PFCP_IE_QER_CORRELATION_ID) 4), stream j (be_bytes 4 c @ rest))"
  using tlv_load_ie_tlv [where j = j and t = PFCP_IE_QER_CORRELATION_ID and n = 4 and rest = "be_bytes 4 c @ rest"]
  by (simp add: read_ie_def qer_correlation_id_ie_defs tlv_defs)

lemma urr_id_load_dump:
  "\<exists>ie. read_ie urr_id_ie_of_tlv urr_id_ie_load_from
     (stream j (snd (urr_id_ie_dump_to (new_urr_id_ie c)) @ rest)) = (Inr ie, stream j rest) \<and>
     urr_id_ie_to_core ie = swap32 c"
proof -
  have "read_be 4 v (stream j (le_bytes 4 c @ rest)) = (swap32 c, stream j rest)" for v :: u32
    by (simp add: read_be_def)
  then show ?thesis
    using tlv_load_ie_tlv [where j = j and t = PFCP_IE_URR_ID and n = 4 and rest = "le_bytes 4 c @ rest"]
    by (simp add: read_ie_def urr_id_ie_defs tlv_defs del: le_bytes.simps)
qed

end
