(* ===== verification/Ie_Flags.thy ===== *)
theory Ie_Flags
  imports Ie_Stream
begin

text \<open>
  The classes of elements whose content is one or two bytes of flags or small bit fields, and the
  bit rates, of \<^verbatim>\<open>src/oai/pfcp/3gpp_29.244.hpp\<close>.  A union of a bit field struct and a byte is that
  byte; the compiler allocates bit fields from the lowest bit.  Spare bits of a core value are
  not sent, so the contract \<open>ie_codec\<close> holds for values with spare bits zero.
  \<^verbatim>\<open>pfcp_node_report_type_ie\<close> never takes its flag over and is the exception.
\<close>

section \<open>Flags\<close>

subsection \<open>\<^verbatim>\<open>pfcp_reporting_triggers_ie\<close>\<close>

record pfcp_reporting_triggers_ie =
  reporting_triggers_ie_tlv :: pfcp_tlv
  reporting_triggers_ie_u1 :: u8
  reporting_triggers_ie_u2 :: u8

definition new_reporting_triggers_ie :: "reporting_triggers_t \<Rightarrow> pfcp_reporting_triggers_ie" where
  "new_reporting_triggers_ie b =
     \<lparr>reporting_triggers_ie_tlv = tlv_set_length 2 (tlv_of_type PFCP_IE_REPORTING_TRIGGERS),
      reporting_triggers_ie_u1 = flag 0 (rtrig_perio b) OR flag 1 (rtrig_volth b) OR flag 2 (rtrig_timth b) OR flag 3 (rtrig_quhti b) OR flag 4 (rtrig_start b) OR flag 5 (rtrig_stop b) OR flag 6 (rtrig_droth b) OR flag 7 (rtrig_liusa b),
      reporting_triggers_ie_u2 = flag 0 (rtrig_volqu b) OR flag 1 (rtrig_timqu b) OR flag 2 (rtrig_envcl b) OR flag 3 (rtrig_macar b) OR flag 4 (rtrig_eveth b)\<rparr>"

definition reporting_triggers_ie_of_tlv :: "u8 \<Rightarrow> pfcp_tlv \<Rightarrow> pfcp_reporting_triggers_ie" where
  "reporting_triggers_ie_of_tlv j t = \<lparr>reporting_triggers_ie_tlv = t, reporting_triggers_ie_u1 = j, reporting_triggers_ie_u2 = j\<rparr>"

definition reporting_triggers_ie_to_core :: "pfcp_reporting_triggers_ie \<Rightarrow> reporting_triggers_t" where
  "reporting_triggers_ie_to_core ie =
     reporting_triggers0\<lparr>rtrig_perio := bit (reporting_triggers_ie_u1 ie) 0, rtrig_volth := bit (reporting_triggers_ie_u1 ie) 1, rtrig_timth := bit (reporting_triggers_ie_u1 ie) 2, rtrig_quhti := bit (reporting_triggers_ie_u1 ie) 3, rtrig_start := bit (reporting_triggers_ie_u1 ie) 4, rtrig_stop := bit (reporting_triggers_ie_u1 ie) 5, rtrig_droth := bit (reporting_triggers_ie_u1 ie) 6, rtrig_liusa := bit (reporting_triggers_ie_u1 ie) 7,
        rtrig_volqu := bit (reporting_triggers_ie_u2 ie) 0, rtrig_timqu := bit (reporting_triggers_ie_u2 ie) 1, rtrig_envcl := bit (reporting_triggers_ie_u2 ie) 2, rtrig_macar := bit (reporting_triggers_ie_u2 ie) 3, rtrig_eveth := bit (reporting_triggers_ie_u2 ie) 4\<rparr>"

definition reporting_triggers_ie_dump_to :: "pfcp_reporting_triggers_ie \<Rightarrow> (pfcp_exn + pfcp_reporting_triggers_ie) \<times> bytes" where
  "reporting_triggers_ie_dump_to ie = (let ie = ie\<lparr>reporting_triggers_ie_tlv := tlv_set_length 2 (reporting_triggers_ie_tlv ie)\<rparr> in (Inr ie, tlv_dump_to (reporting_triggers_ie_tlv ie) @ [reporting_triggers_ie_u1 ie, reporting_triggers_ie_u2 ie]))"

definition reporting_triggers_ie_load_from :: "pfcp_reporting_triggers_ie \<Rightarrow> istream \<Rightarrow> (pfcp_exn + pfcp_reporting_triggers_ie) \<times> istream" where
  "reporting_triggers_ie_load_from ie is =
     (if tlv_length (reporting_triggers_ie_tlv ie) \<noteq> 2 then (Inl (Tlv_bad_length (tlv_type (reporting_triggers_ie_tlv ie)) (tlv_length (reporting_triggers_ie_tlv ie))), is)
      else (let (v1, is) = read_u8 (reporting_triggers_ie_u1 ie) is; (v2, is) = read_u8 (reporting_triggers_ie_u2 ie) is in (Inr (ie\<lparr>reporting_triggers_ie_u1 := v1, reporting_triggers_ie_u2 := v2\<rparr>), is)))"

lemmas reporting_triggers_ie_defs = new_reporting_triggers_ie_def reporting_triggers_ie_of_tlv_def reporting_triggers_ie_to_core_def
  reporting_triggers_ie_dump_to_def reporting_triggers_ie_load_from_def

definition reporting_triggers_canon :: "reporting_triggers_t \<Rightarrow> bool" where
  "reporting_triggers_canon c \<longleftrightarrow> \<not> rtrig_spare1 c \<and> \<not> rtrig_spare2 c \<and> \<not> rtrig_spare3 c"

interpretation reporting_triggers_ie: ie_codec PFCP_IE_REPORTING_TRIGGERS new_reporting_triggers_ie
    reporting_triggers_ie_tlv reporting_triggers_ie_dump_to reporting_triggers_ie_of_tlv
    reporting_triggers_ie_load_from reporting_triggers_ie_to_core reporting_triggers_canon
    "\<lambda>c. [flag 0 (rtrig_perio c) OR flag 1 (rtrig_volth c) OR flag 2 (rtrig_timth c) OR flag 3 (rtrig_quhti c) OR flag 4 (rtrig_start c) OR flag 5 (rtrig_stop c) OR flag 6 (rtrig_droth c) OR flag 7 (rtrig_liusa c), flag 0 (rtrig_volqu c) OR flag 1 (rtrig_timqu c) OR flag 2 (rtrig_envcl c) OR flag 3 (rtrig_macar c) OR flag 4 (rtrig_eveth c)]"
  by unfold_locales
    (auto simp: reporting_triggers_ie_defs tlv_defs reporting_triggers0_def reporting_triggers_canon_def bit_or_iff
      intro!: reporting_triggers_t.equality)

subsection \<open>\<^verbatim>\<open>pfcp_report_type_ie\<close>\<close>

record pfcp_report_type_ie =
  report_type_ie_tlv :: pfcp_tlv
  report_type_ie_u1 :: u8

definition new_report_type_ie :: "report_type_t \<Rightarrow> pfcp_report_type_ie" where
  "new_report_type_ie b =
     \<lparr>report_type_ie_tlv = tlv_set_length 1 (tlv_of_type PFCP_IE_REPORT_TYPE),
      report_type_ie_u1 = flag 0 (rept_dldr b) OR flag 1 (rept_usar b) OR flag 2 (rept_erir b) OR flag 3 (rept_upir b)\<rparr>"

definition report_type_ie_of_tlv :: "u8 \<Rightarrow> pfcp_tlv \<Rightarrow> pfcp_report_type_ie" where
  "report_type_ie_of_tlv j t = \<lparr>report_type_ie_tlv = t, report_type_ie_u1 = 0\<rparr>"

definition report_type_ie_to_core :: "pfcp_report_type_ie \<Rightarrow> report_type_t" where
  "report_type_ie_to_core ie =
     report_type0\<lparr>rept_dldr := bit (report_type_ie_u1 ie) 0, rept_usar := bit (report_type_ie_u1 ie) 1, rept_erir := bit (report_type_ie_u1 ie) 2, rept_upir := bit (report_type_ie_u1 ie) 3\<rparr>"

definition report_type_ie_dump_to :: "pfcp_report_type_ie \<Rightarrow> (pfcp_exn + pfcp_report_type_ie) \<times> bytes" where
  "report_type_ie_dump_to ie = (Inr ie, tlv_dump_to (report_type_ie_tlv ie) @ [report_type_ie_u1 ie])"

definition report_type_ie_load_from :: "pfcp_report_type_ie \<Rightarrow> istream \<Rightarrow> (pfcp_exn + pfcp_report_type_ie) \<times> istream" where
  "report_type_ie_load_from ie is =
     (if tlv_length (report_type_ie_tlv ie) \<noteq> 1 then (Inl (Tlv_bad_length (tlv_type (report_type_ie_tlv ie)) (tlv_length (report_type_ie_tlv ie))), is)
      else (let (v1, is) = read_u8 (report_type_ie_u1 ie) is in (Inr (ie\<lparr>report_type_ie_u1 := v1\<rparr>), is)))"

lemmas report_type_ie_defs = new_report_type_ie_def report_type_ie_of_tlv_def report_type_ie_to_core_def
  report_type_ie_dump_to_def report_type_ie_load_from_def

definition report_type_canon :: "report_type_t \<Rightarrow> bool" where
  "report_type_canon c \<longleftrightarrow> rept_spare c = 0"

interpretation report_type_ie: ie_codec PFCP_IE_REPORT_TYPE new_report_type_ie
    report_type_ie_tlv report_type_ie_dump_to report_type_ie_of_tlv
    report_type_ie_load_from report_type_ie_to_core report_type_canon
    "\<lambda>c. [flag 0 (rept_dldr c) OR flag 1 (rept_usar c) OR flag 2 (rept_erir c) OR flag 3 (rept_upir c)]"
  by unfold_locales
    (auto simp: report_type_ie_defs tlv_defs report_type0_def report_type_canon_def bit_or_iff
      intro!: report_type_t.equality)

subsection \<open>\<^verbatim>\<open>pfcp_up_function_features_ie\<close>\<close>

record pfcp_up_function_features_ie =
  up_function_features_ie_tlv :: pfcp_tlv
  up_function_features_ie_u1 :: u8
  up_function_features_ie_u2 :: u8

definition new_up_function_features_ie :: "up_function_features_t \<Rightarrow> pfcp_up_function_features_ie" where
  "new_up_function_features_ie b =
     \<lparr>up_function_features_ie_tlv = tlv_set_length 2 (tlv_of_type PFCP_IE_UP_FUNCTION_FEATURES),
      up_function_features_ie_u1 = flag 0 (upff_bucp b) OR flag 1 (upff_ddnd b) OR flag 2 (upff_dlbd b) OR flag 3 (upff_trst b) OR flag 4 (upff_ftup b) OR flag 5 (upff_pfdm b) OR flag 6 (upff_heeu b) OR flag 7 (upff_treu b),
      up_function_features_ie_u2 = flag 0 (upff_empu b) OR flag 1 (upff_pdiu b) OR flag 2 (upff_udbc b) OR flag 3 (upff_quoac b) OR flag 4 (upff_trace b) OR flag 5 (upff_frrt b)\<rparr>"

definition up_function_features_ie_of_tlv :: "u8 \<Rightarrow> pfcp_tlv \<Rightarrow> pfcp_up_function_features_ie" where
  "up_function_features_ie_of_tlv j t = \<lparr>up_function_features_ie_tlv = t, up_function_features_ie_u1 = 0, up_function_features_ie_u2 = 0\<rparr>"

definition up_function_features_ie_to_core :: "pfcp_up_function_features_ie \<Rightarrow> up_function_features_t" where
  "up_function_features_ie_to_core ie =
     up_function_features0\<lparr>upff_bucp := bit (up_function_features_ie_u1 ie) 0, upff_ddnd := bit (up_function_features_ie_u1 ie) 1, upff_dlbd := bit (up_function_features_ie_u1 ie) 2, upff_trst := bit (up_function_features_ie_u1 ie) 3, upff_ftup := bit (up_function_features_ie_u1 ie) 4, upff_pfdm := bit (up_function_features_ie_u1 ie) 5, upff_heeu := bit (up_function_features_ie_u1 ie) 6, upff_treu := bit (up_function_features_ie_u1 ie) 7,
        upff_empu := bit (up_function_features_ie_u2 ie) 0, upff_pdiu := bit (up_function_features_ie_u2 ie) 1, upff_udbc := bit (up_function_features_ie_u2 ie) 2, upff_quoac := bit (up_function_features_ie_u2 ie) 3, upff_trace := bit (up_function_features_ie_u2 ie) 4, upff_frrt := bit (up_function_features_ie_u2 ie) 5\<rparr>"

definition up_function_features_ie_dump_to :: "pfcp_up_function_features_ie \<Rightarrow> (pfcp_exn + pfcp_up_function_features_ie) \<times> bytes" where
  "up_function_features_ie_dump_to ie = (let ie = ie\<lparr>up_function_features_ie_tlv := tlv_set_length 2 (up_function_features_ie_tlv ie)\<rparr> in (Inr ie, tlv_dump_to (up_function_features_ie_tlv ie) @ [up_function_features_ie_u1 ie, up_function_features_ie_u2 ie]))"

definition up_function_features_ie_load_from :: "pfcp_up_function_features_ie \<Rightarrow> istream \<Rightarrow> (pfcp_exn + pfcp_up_function_features_ie) \<times> istream" where
  "up_function_features_ie_load_from ie is =
     (if tlv_length (up_function_features_ie_tlv ie) \<noteq> 2 then (Inl (Tlv_bad_length (tlv_type (up_function_features_ie_tlv ie)) (tlv_length (up_function_features_ie_tlv ie))), is)
      else (let (v1, is) = read_u8 (up_function_features_ie_u1 ie) is; (v2, is) = read_u8 (up_function_features_ie_u2 ie) is in (Inr (ie\<lparr>up_function_features_ie_u1 := v1, up_function_features_ie_u2 := v2\<rparr>), is)))"

lemmas up_function_features_ie_defs = new_up_function_features_ie_def up_function_features_ie_of_tlv_def up_function_features_ie_to_core_def
  up_function_features_ie_dump_to_def up_function_features_ie_load_from_def

definition up_function_features_canon :: "up_function_features_t \<Rightarrow> bool" where
  "up_function_features_canon c \<longleftrightarrow> upff_spare c = 0"

interpretation up_function_features_ie: ie_codec PFCP_IE_UP_FUNCTION_FEATURES new_up_function_features_ie
    up_function_features_ie_tlv up_function_features_ie_dump_to up_function_features_ie_of_tlv
    up_function_features_ie_load_from up_function_features_ie_to_core up_function_features_canon
    "\<lambda>c. [flag 0 (upff_bucp c) OR flag 1 (upff_ddnd c) OR flag 2 (upff_dlbd c) OR flag 3 (upff_trst c) OR flag 4 (upff_ftup c) OR flag 5 (upff_pfdm c) OR flag 6 (upff_heeu c) OR flag 7 (upff_treu c), flag 0 (upff_empu c) OR flag 1 (upff_pdiu c) OR flag 2 (upff_udbc c) OR flag 3 (upff_quoac c) OR flag 4 (upff_trace c) OR flag 5 (upff_frrt c)]"
  by unfold_locales
    (auto simp: up_function_features_ie_defs tlv_defs up_function_features0_def up_function_features_canon_def bit_or_iff
      intro!: up_function_features_t.equality)

subsection \<open>\<^verbatim>\<open>pfcp_apply_action_ie\<close>\<close>

record pfcp_apply_action_ie =
  apply_action_ie_tlv :: pfcp_tlv
  apply_action_ie_u1 :: u8

definition new_apply_action_ie :: "apply_action_t \<Rightarrow> pfcp_apply_action_ie" where
  "new_apply_action_ie b =
     \<lparr>apply_action_ie_tlv = tlv_set_length 1 (tlv_of_type PFCP_IE_APPLY_ACTION),
      apply_action_ie_u1 = flag 0 (aa_drop b) OR flag 1 (aa_forw b) OR flag 2 (aa_buff b) OR flag 3 (aa_nocp b) OR flag 4 (aa_dupl b)\<rparr>"

definition apply_action_ie_of_tlv :: "u8 \<Rightarrow> pfcp_tlv \<Rightarrow> pfcp_apply_action_ie" where
  "apply_action_ie_of_tlv j t = \<lparr>apply_action_ie_tlv = t, apply_action_ie_u1 = 0\<rparr>"

definition apply_action_ie_to_core :: "pfcp_apply_action_ie \<Rightarrow> apply_action_t" where
  "apply_action_ie_to_core ie =
     apply_action0\<lparr>aa_drop := bit (apply_action_ie_u1 ie) 0, aa_forw := bit (apply_action_ie_u1 ie) 1, aa_buff := bit (apply_action_ie_u1 ie) 2, aa_nocp := bit (apply_action_ie_u1 ie) 3, aa_dupl := bit (apply_action_ie_u1 ie) 4\<rparr>"

definition apply_action_ie_dump_to :: "pfcp_apply_action_ie \<Rightarrow> (pfcp_exn + pfcp_apply_action_ie) \<times> bytes" where
  "apply_action_ie_dump_to ie = (Inr ie, tlv_dump_to (apply_action_ie_tlv ie) @ [apply_action_ie_u1 ie])"

definition apply_action_ie_load_from :: "pfcp_apply_action_ie \<Rightarrow> istream \<Rightarrow> (pfcp_exn + pfcp_apply_action_ie) \<times> istream" where
  "apply_action_ie_load_from ie is =
     (if tlv_length (apply_action_ie_tlv ie) \<noteq> 1 then (Inl (Tlv_bad_length (tlv_type (apply_action_ie_tlv ie)) (tlv_length (apply_action_ie_tlv ie))), is)
      else (let (v1, is) = read_u8 (apply_action_ie_u1 ie) is in (Inr (ie\<lparr>apply_action_ie_u1 := v1\<rparr>), is)))"

lemmas apply_action_ie_defs = new_apply_action_ie_def apply_action_ie_of_tlv_def apply_action_ie_to_core_def
  apply_action_ie_dump_to_def apply_action_ie_load_from_def

definition apply_action_canon :: "apply_action_t \<Rightarrow> bool" where
  "apply_action_canon c \<longleftrightarrow> aa_spare c = 0"

interpretation apply_action_ie: ie_codec PFCP_IE_APPLY_ACTION new_apply_action_ie
    apply_action_ie_tlv apply_action_ie_dump_to apply_action_ie_of_tlv
    apply_action_ie_load_from apply_action_ie_to_core apply_action_canon
    "\<lambda>c. [flag 0 (aa_drop c) OR flag 1 (aa_forw c) OR flag 2 (aa_buff c) OR flag 3 (aa_nocp c) OR flag 4 (aa_dupl c)]"
  by unfold_locales
    (auto simp: apply_action_ie_defs tlv_defs apply_action0_def apply_action_canon_def bit_or_iff apply_action_of_mem_def
      intro!: apply_action_t.equality)

subsection \<open>\<^verbatim>\<open>pfcp_cp_function_features_ie\<close>\<close>

record pfcp_cp_function_features_ie =
  cp_function_features_ie_tlv :: pfcp_tlv
  cp_function_features_ie_u1 :: u8

definition new_cp_function_features_ie :: "cp_function_features_t \<Rightarrow> pfcp_cp_function_features_ie" where
  "new_cp_function_features_ie b =
     \<lparr>cp_function_features_ie_tlv = tlv_set_length 1 (tlv_of_type PFCP_IE_CP_FUNCTION_FEATURES),
      cp_function_features_ie_u1 = flag 0 (cpff_load b) OR flag 1 (cpff_ovrl b)\<rparr>"

definition cp_function_features_ie_of_tlv :: "u8 \<Rightarrow> pfcp_tlv \<Rightarrow> pfcp_cp_function_features_ie" where
  "cp_function_features_ie_of_tlv j t = \<lparr>cp_function_features_ie_tlv = t, cp_function_features_ie_u1 = 0\<rparr>"

definition cp_function_features_ie_to_core :: "pfcp_cp_function_features_ie \<Rightarrow> cp_function_features_t" where
  "cp_function_features_ie_to_core ie =
     cp_function_features0\<lparr>cpff_load := bit (cp_function_features_ie_u1 ie) 0, cpff_ovrl := bit (cp_function_features_ie_u1 ie) 1\<rparr>"

definition cp_function_features_ie_dump_to :: "pfcp_cp_function_features_ie \<Rightarrow> (pfcp_exn + pfcp_cp_function_features_ie) \<times> bytes" where
  "cp_function_features_ie_dump_to ie = (Inr ie, tlv_dump_to (cp_function_features_ie_tlv ie) @ [cp_function_features_ie_u1 ie])"

definition cp_function_features_ie_load_from :: "pfcp_cp_function_features_ie \<Rightarrow> istream \<Rightarrow> (pfcp_exn + pfcp_cp_function_features_ie) \<times> istream" where
  "cp_function_features_ie_load_from ie is =
     (if tlv_length (cp_function_features_ie_tlv ie) \<noteq> 1 then (Inl (Tlv_bad_length (tlv_type (cp_function_features_ie_tlv ie)) (tlv_length (cp_function_features_ie_tlv ie))), is)
      else (let (v1, is) = read_u8 (cp_function_features_ie_u1 ie) is in (Inr (ie\<lparr>cp_function_features_ie_u1 := v1\<rparr>), is)))"

lemmas cp_function_features_ie_defs = new_cp_function_features_ie_def cp_function_features_ie_of_tlv_def cp_function_features_ie_to_core_def
  cp_function_features_ie_dump_to_def cp_function_features_ie_load_from_def

definition cp_function_features_canon :: "cp_function_features_t \<Rightarrow> bool" where
  "cp_function_features_canon c \<longleftrightarrow> cpff_spare c = 0"

interpretation cp_function_features_ie: ie_codec PFCP_IE_CP_FUNCTION_FEATURES new_cp_function_features_ie
    cp_function_features_ie_tlv cp_function_features_ie_dump_to cp_function_features_ie_of_tlv
    cp_function_features_ie_load_from cp_function_features_ie_to_core cp_function_features_canon
    "\<lambda>c. [flag 0 (cpff_load c) OR flag 1 (cpff_ovrl c)]"
  by unfold_locales
    (auto simp: cp_function_features_ie_defs tlv_defs cp_function_features0_def cp_function_features_canon_def bit_or_iff
      intro!: cp_function_features_t.equality)

subsection \<open>\<^verbatim>\<open>pfcp_node_report_type_ie\<close>\<close>

text \<open>
  The constructor ignores its argument, and \<^verbatim>\<open>to_core_type\<close> assigns the wrong way round: it clears
  the member of the element and leaves the core value as it is.
\<close>

record pfcp_node_report_type_ie =
  node_report_type_ie_tlv :: pfcp_tlv
  node_report_type_ie_u1 :: u8

definition new_node_report_type_ie :: "node_report_type_t \<Rightarrow> pfcp_node_report_type_ie" where
  "new_node_report_type_ie b =
     \<lparr>node_report_type_ie_tlv = tlv_set_length 1 (tlv_of_type PFCP_IE_NODE_REPORT_TYPE),
      node_report_type_ie_u1 = 0\<rparr>"

definition node_report_type_ie_of_tlv :: "u8 \<Rightarrow> pfcp_tlv \<Rightarrow> pfcp_node_report_type_ie" where
  "node_report_type_ie_of_tlv j t = \<lparr>node_report_type_ie_tlv = t, node_report_type_ie_u1 = 0\<rparr>"

definition node_report_type_ie_to_core :: "pfcp_node_report_type_ie \<Rightarrow> node_report_type_t" where
  "node_report_type_ie_to_core ie = node_report_type0"

definition node_report_type_ie_dump_to ::
    "pfcp_node_report_type_ie \<Rightarrow> (pfcp_exn + pfcp_node_report_type_ie) \<times> bytes" where
  "node_report_type_ie_dump_to ie =
     (Inr ie, tlv_dump_to (node_report_type_ie_tlv ie) @ [node_report_type_ie_u1 ie])"

definition node_report_type_ie_load_from ::
    "pfcp_node_report_type_ie \<Rightarrow> istream \<Rightarrow> (pfcp_exn + pfcp_node_report_type_ie) \<times> istream" where
  "node_report_type_ie_load_from ie is =
     (if tlv_length (node_report_type_ie_tlv ie) \<noteq> 1
      then (Inl (Tlv_bad_length (tlv_type (node_report_type_ie_tlv ie)) (tlv_length (node_report_type_ie_tlv ie))), is)
      else (let (v, is) = read_u8 (node_report_type_ie_u1 ie) is
            in (Inr (ie\<lparr>node_report_type_ie_u1 := v\<rparr>), is)))"

lemma node_report_type_lost: "new_node_report_type_ie b = new_node_report_type_ie c"
  by (simp add: new_node_report_type_ie_def)

section \<open>Small bit fields\<close>

lemma low_bits_or:
  fixes a :: "'a::len word"
  assumes "LENGTH('a) \<le> k" and "k < 8"
  shows "ucast ((ucast a :: u8) OR push_bit k b) = a"
  using assms by (intro bit_word_eqI) (auto simp: bit_simps)

lemma ucast_up_down:
  fixes a :: "'a::len word"
  shows "LENGTH('a) \<le> 8 \<Longrightarrow> ucast (ucast a :: u8) = a"
  by (intro bit_word_eqI) (auto simp: bit_simps)

lemma high_bits_or:
  fixes a :: "'a::len word" and b :: "'b::len word"
  assumes "LENGTH('a) \<le> k" and "k + LENGTH('b) \<le> 8"
  shows "ucast (drop_bit k ((ucast a :: u8) OR push_bit k (ucast b))) = b"
proof (rule bit_word_eqI)
  fix n assume "n < LENGTH('b)"
  moreover have "\<not> bit a (k + n)"
    using assms(1) bit_imp_le_length [of a "k + n"] by auto
  ultimately show "bit (ucast (drop_bit k ((ucast a :: u8) OR push_bit k (ucast b))) :: 'b word) n = bit b n"
    using assms by (auto simp: bit_simps)
qed

subsection \<open>\<^verbatim>\<open>pfcp_gate_status_ie\<close>\<close>

record pfcp_gate_status_ie =
  gate_status_ie_tlv :: pfcp_tlv
  gate_status_ie_u1 :: u8

definition new_gate_status_ie :: "gate_status_t \<Rightarrow> pfcp_gate_status_ie" where
  "new_gate_status_ie b =
     \<lparr>gate_status_ie_tlv = tlv_set_length 1 (tlv_of_type PFCP_IE_GATE_STATUS),
      gate_status_ie_u1 = ucast (gate_dl_gate b) OR push_bit 2 (ucast (gate_ul_gate b))\<rparr>"

definition gate_status_ie_of_tlv :: "u8 \<Rightarrow> pfcp_tlv \<Rightarrow> pfcp_gate_status_ie" where
  "gate_status_ie_of_tlv j t = \<lparr>gate_status_ie_tlv = t, gate_status_ie_u1 = j\<rparr>"

definition gate_status_ie_to_core :: "pfcp_gate_status_ie \<Rightarrow> gate_status_t" where
  "gate_status_ie_to_core ie =
     \<lparr>gate_ul_gate = ucast (drop_bit 2 (gate_status_ie_u1 ie)), gate_dl_gate = ucast (gate_status_ie_u1 ie)\<rparr>"

definition gate_status_ie_dump_to :: "pfcp_gate_status_ie \<Rightarrow> (pfcp_exn + pfcp_gate_status_ie) \<times> bytes" where
  "gate_status_ie_dump_to ie = (Inr ie, tlv_dump_to (gate_status_ie_tlv ie) @ [gate_status_ie_u1 ie])"

definition gate_status_ie_load_from ::
    "pfcp_gate_status_ie \<Rightarrow> istream \<Rightarrow> (pfcp_exn + pfcp_gate_status_ie) \<times> istream" where
  "gate_status_ie_load_from ie is =
     (if tlv_length (gate_status_ie_tlv ie) \<noteq> 1
      then (Inl (Tlv_bad_length (tlv_type (gate_status_ie_tlv ie)) (tlv_length (gate_status_ie_tlv ie))), is)
      else (let (v, is) = read_u8 (gate_status_ie_u1 ie) is in (Inr (ie\<lparr>gate_status_ie_u1 := v\<rparr>), is)))"

lemmas gate_status_ie_defs = new_gate_status_ie_def gate_status_ie_of_tlv_def gate_status_ie_to_core_def
  gate_status_ie_dump_to_def gate_status_ie_load_from_def

interpretation gate_status_ie: ie_codec PFCP_IE_GATE_STATUS new_gate_status_ie gate_status_ie_tlv
    gate_status_ie_dump_to gate_status_ie_of_tlv gate_status_ie_load_from gate_status_ie_to_core
    "\<lambda>_. True" "\<lambda>c. [ucast (gate_dl_gate c) OR push_bit 2 (ucast (gate_ul_gate c))]"
  by unfold_locales
    (simp_all add: gate_status_ie_defs tlv_defs low_bits_or high_bits_or del: drop_bit_or push_bit_numeral)

subsection \<open>\<^verbatim>\<open>pfcp_qfi_ie\<close>\<close>

record pfcp_qfi_ie =
  qfi_ie_tlv :: pfcp_tlv
  qfi_ie_u1 :: u8

definition new_qfi_ie :: "qfi_t \<Rightarrow> pfcp_qfi_ie" where
  "new_qfi_ie b =
     \<lparr>qfi_ie_tlv = tlv_set_length 1 (tlv_of_type PFCP_IE_QFI), qfi_ie_u1 = ucast (qfi_qfi b)\<rparr>"

definition qfi_ie_of_tlv :: "u8 \<Rightarrow> pfcp_tlv \<Rightarrow> pfcp_qfi_ie" where
  "qfi_ie_of_tlv j t = \<lparr>qfi_ie_tlv = t, qfi_ie_u1 = j\<rparr>"

definition qfi_ie_to_core :: "pfcp_qfi_ie \<Rightarrow> qfi_t" where
  "qfi_ie_to_core ie = qfi0\<lparr>qfi_qfi := ucast (qfi_ie_u1 ie)\<rparr>"

definition qfi_ie_dump_to :: "pfcp_qfi_ie \<Rightarrow> (pfcp_exn + pfcp_qfi_ie) \<times> bytes" where
  "qfi_ie_dump_to ie = (Inr ie, tlv_dump_to (qfi_ie_tlv ie) @ [qfi_ie_u1 ie])"

definition qfi_ie_load_from :: "pfcp_qfi_ie \<Rightarrow> istream \<Rightarrow> (pfcp_exn + pfcp_qfi_ie) \<times> istream" where
  "qfi_ie_load_from ie is =
     (if tlv_length (qfi_ie_tlv ie) \<noteq> 1
      then (Inl (Tlv_bad_length (tlv_type (qfi_ie_tlv ie)) (tlv_length (qfi_ie_tlv ie))), is)
      else (let (v, is) = read_u8 (qfi_ie_u1 ie) is in (Inr (ie\<lparr>qfi_ie_u1 := v\<rparr>), is)))"

lemmas qfi_ie_defs = new_qfi_ie_def qfi_ie_of_tlv_def qfi_ie_to_core_def qfi_ie_dump_to_def
  qfi_ie_load_from_def

interpretation qfi_ie: ie_codec PFCP_IE_QFI new_qfi_ie qfi_ie_tlv qfi_ie_dump_to qfi_ie_of_tlv
    qfi_ie_load_from qfi_ie_to_core "\<lambda>c. qfi_spare c = 0" "\<lambda>c. [ucast (qfi_qfi c)]"
  by unfold_locales
    (auto simp: qfi_ie_defs tlv_defs qfi0_def ucast_up_down intro!: qfi_t.equality)

section \<open>Bit rates\<close>

text \<open>
  A rate is sent as 40 bits; the loops of the source take the low bytes one by one from the last
  place of the array, and put them together again by shifting.
\<close>

fun low_bytes :: "nat \<Rightarrow> u64 \<Rightarrow> bytes" where
  "low_bytes 0 x = []"
| "low_bytes (Suc n) x = ucast (x AND 0xFF) # low_bytes n (drop_bit 8 x)"

fun join_bytes :: "u64 \<Rightarrow> bytes \<Rightarrow> u64" where
  "join_bytes x [] = x"
| "join_bytes x (b # bs) = join_bytes (push_bit 8 x OR ucast b) bs"

definition forty_bits :: "u64 \<Rightarrow> bool" where
  "forty_bits x \<longleftrightarrow> x AND 0x000000FFFFFFFFFF = x"

lemma low_bytes_eq [simp]: "low_bytes n x = le_bytes n x"
proof (induction n arbitrary: x)
  case (Suc n)
  have "x AND 0xFF = take_bit 8 x"
    by (simp add: take_bit_eq_mask mask_eq_exp_minus_1)
  then have "ucast (x AND 0xFF) = (ucast x :: u8)"
    by (simp only:) (intro bit_word_eqI, auto simp: bit_simps)
  with Suc show ?case by simp
qed simp

lemma join_bytes_snoc: "join_bytes x (bs @ [b]) = push_bit 8 (join_bytes x bs) OR ucast b"
  by (induction bs arbitrary: x) simp_all

lemma join_bytes_eq: "join_bytes 0 bs = le_word (rev bs)"
  by (induction bs rule: rev_induct) (simp_all add: join_bytes_snoc or.commute)

lemma join_low_bytes: "x AND 0x000000FFFFFFFFFF = x \<Longrightarrow> join_bytes 0 (rev (le_bytes 5 x)) = x"
proof -
  assume x: "x AND 0x000000FFFFFFFFFF = x"
  have "(0x000000FFFFFFFFFF :: u64) = mask 40"
    by (simp add: mask_eq_exp_minus_1)
  with x have bits: "bit x i \<longleftrightarrow> bit x i \<and> i < 40" for i
    by (metis bit_and_iff bit_mask_iff)
  have "le_word (le_bytes 5 x) = x"
  proof (rule bit_word_eqI)
    fix i assume i: "i < LENGTH(64)"
    show "bit (le_word (le_bytes 5 x) :: u64) i = bit x i"
    proof (cases "i < 40")
      case True
      then have "i div 8 < 5" by linarith
      then show ?thesis using i by (simp add: bit_le_word nth_le_bytes bit_simps)
    next
      case False
      then have "\<not> i div 8 < 5" by linarith
      then show ?thesis using i bits [of i] False by (simp add: bit_le_word)
    qed
  qed
  then show ?thesis by (simp add: join_bytes_eq)
qed

subsection \<open>\<^verbatim>\<open>pfcp_mbr_ie\<close>\<close>

record pfcp_mbr_ie =
  mbr_ie_tlv :: pfcp_tlv
  mbr_ie_ul_mbr :: bytes
  mbr_ie_dl_mbr :: bytes

definition new_mbr_ie :: "mbr_t \<Rightarrow> pfcp_mbr_ie" where
  "new_mbr_ie b =
     (let uplink = mbr_ul_mbr b AND 0x000000FFFFFFFFFF; downlink = mbr_dl_mbr b AND 0x000000FFFFFFFFFF
      in \<lparr>mbr_ie_tlv = tlv_set_length 10 (tlv_of_type PFCP_IE_MBR),
          mbr_ie_ul_mbr = rev (low_bytes 5 uplink), mbr_ie_dl_mbr = rev (low_bytes 5 downlink)\<rparr>)"

definition mbr_ie_of_tlv :: "u8 \<Rightarrow> pfcp_tlv \<Rightarrow> pfcp_mbr_ie" where
  "mbr_ie_of_tlv j t =
     \<lparr>mbr_ie_tlv = t, mbr_ie_ul_mbr = replicate 5 0, mbr_ie_dl_mbr = replicate 5 0\<rparr>"

definition mbr_ie_to_core :: "pfcp_mbr_ie \<Rightarrow> mbr_t" where
  "mbr_ie_to_core ie =
     \<lparr>mbr_ul_mbr = join_bytes 0 (mbr_ie_ul_mbr ie), mbr_dl_mbr = join_bytes 0 (mbr_ie_dl_mbr ie)\<rparr>"

definition mbr_ie_dump_to :: "pfcp_mbr_ie \<Rightarrow> (pfcp_exn + pfcp_mbr_ie) \<times> bytes" where
  "mbr_ie_dump_to ie =
     (Inr ie, tlv_dump_to (mbr_ie_tlv ie) @ mbr_ie_ul_mbr ie @ mbr_ie_dl_mbr ie)"

definition mbr_ie_load_from :: "pfcp_mbr_ie \<Rightarrow> istream \<Rightarrow> (pfcp_exn + pfcp_mbr_ie) \<times> istream" where
  "mbr_ie_load_from ie is =
     (if tlv_length (mbr_ie_tlv ie) \<noteq> 10 then (Inl (Tlv_bad_length (tlv_type (mbr_ie_tlv ie)) (tlv_length (mbr_ie_tlv ie))), is)
      else (let (ul, is) = is_read (mbr_ie_ul_mbr ie) is; (dl, is) = is_read (mbr_ie_dl_mbr ie) is
            in (Inr (ie\<lparr>mbr_ie_ul_mbr := ul, mbr_ie_dl_mbr := dl\<rparr>), is)))"

lemmas mbr_ie_defs = new_mbr_ie_def mbr_ie_of_tlv_def mbr_ie_to_core_def mbr_ie_dump_to_def
  mbr_ie_load_from_def

interpretation mbr_ie: ie_codec PFCP_IE_MBR new_mbr_ie mbr_ie_tlv
    mbr_ie_dump_to mbr_ie_of_tlv mbr_ie_load_from mbr_ie_to_core
    "\<lambda>c. forty_bits (mbr_ul_mbr c) \<and> forty_bits (mbr_dl_mbr c)"
    "\<lambda>c. rev (low_bytes 5 (mbr_ul_mbr c)) @ rev (low_bytes 5 (mbr_dl_mbr c))"
  by unfold_locales (auto simp: mbr_ie_defs tlv_defs forty_bits_def Let_def join_low_bytes)

subsection \<open>\<^verbatim>\<open>pfcp_gbr_ie\<close>\<close>

record pfcp_gbr_ie =
  gbr_ie_tlv :: pfcp_tlv
  gbr_ie_ul_gbr :: bytes
  gbr_ie_dl_gbr :: bytes

definition new_gbr_ie :: "gbr_t \<Rightarrow> pfcp_gbr_ie" where
  "new_gbr_ie b =
     (let uplink = gbr_ul_gbr b AND 0x000000FFFFFFFFFF; downlink = gbr_dl_gbr b AND 0x000000FFFFFFFFFF
      in \<lparr>gbr_ie_tlv = tlv_set_length 10 (tlv_of_type PFCP_IE_GBR),
          gbr_ie_ul_gbr = rev (low_bytes 5 uplink), gbr_ie_dl_gbr = rev (low_bytes 5 downlink)\<rparr>)"

definition gbr_ie_of_tlv :: "u8 \<Rightarrow> pfcp_tlv \<Rightarrow> pfcp_gbr_ie" where
  "gbr_ie_of_tlv j t =
     \<lparr>gbr_ie_tlv = t, gbr_ie_ul_gbr = replicate 5 0, gbr_ie_dl_gbr = replicate 5 0\<rparr>"

definition gbr_ie_to_core :: "pfcp_gbr_ie \<Rightarrow> gbr_t" where
  "gbr_ie_to_core ie =
     \<lparr>gbr_ul_gbr = join_bytes 0 (gbr_ie_ul_gbr ie), gbr_dl_gbr = join_bytes 0 (gbr_ie_dl_gbr ie)\<rparr>"

definition gbr_ie_dump_to :: "pfcp_gbr_ie \<Rightarrow> (pfcp_exn + pfcp_gbr_ie) \<times> bytes" where
  "gbr_ie_dump_to ie =
     (Inr ie, tlv_dump_to (gbr_ie_tlv ie) @ gbr_ie_ul_gbr ie @ gbr_ie_dl_gbr ie)"

definition gbr_ie_load_from :: "pfcp_gbr_ie \<Rightarrow> istream \<Rightarrow> (pfcp_exn + pfcp_gbr_ie) \<times> istream" where
  "gbr_ie_load_from ie is =
     (if tlv_length (gbr_ie_tlv ie) \<noteq> 10 then (Inl (Tlv_bad_length (tlv_type (gbr_ie_tlv ie)) (tlv_length (gbr_ie_tlv ie))), is)
      else (let (ul, is) = is_read (gbr_ie_ul_gbr ie) is; (dl, is) = is_read (gbr_ie_dl_gbr ie) is
            in (Inr (ie\<lparr>gbr_ie_ul_gbr := ul, gbr_ie_dl_gbr := dl\<rparr>), is)))"

lemmas gbr_ie_defs = new_gbr_ie_def gbr_ie_of_tlv_def gbr_ie_to_core_def gbr_ie_dump_to_def
  gbr_ie_load_from_def

interpretation gbr_ie: ie_codec PFCP_IE_GBR new_gbr_ie gbr_ie_tlv
    gbr_ie_dump_to gbr_ie_of_tlv gbr_ie_load_from gbr_ie_to_core
    "\<lambda>c. forty_bits (gbr_ul_gbr c) \<and> forty_bits (gbr_dl_gbr c)"
    "\<lambda>c. rev (low_bytes 5 (gbr_ul_gbr c)) @ rev (low_bytes 5 (gbr_dl_gbr c))"
  by unfold_locales (auto simp: gbr_ie_defs tlv_defs forty_bits_def Let_def join_low_bytes)

section \<open>Forwarding policy\<close>

record pfcp_forwarding_policy_ie =
  forwarding_policy_ie_tlv :: pfcp_tlv
  forwarding_policy_ie_identifier_length :: u8
  forwarding_policy_ie_identifier :: string

definition new_forwarding_policy_ie :: "forwarding_policy_t \<Rightarrow> pfcp_forwarding_policy_ie" where
  "new_forwarding_policy_ie b =
     \<lparr>forwarding_policy_ie_tlv =
        tlv_set_length (of_nat (1 + length (fpol_forwarding_policy_identifier b)))
          (tlv_of_type PFCP_IE_FORWARDING_POLICY),
      forwarding_policy_ie_identifier_length = fpol_forwarding_policy_identifier_length b,
      forwarding_policy_ie_identifier = fpol_forwarding_policy_identifier b\<rparr>"

definition forwarding_policy_ie_of_tlv :: "u8 \<Rightarrow> pfcp_tlv \<Rightarrow> pfcp_forwarding_policy_ie" where
  "forwarding_policy_ie_of_tlv j t =
     \<lparr>forwarding_policy_ie_tlv = t, forwarding_policy_ie_identifier_length = 0,
      forwarding_policy_ie_identifier = []\<rparr>"

definition forwarding_policy_ie_to_core :: "pfcp_forwarding_policy_ie \<Rightarrow> forwarding_policy_t" where
  "forwarding_policy_ie_to_core ie =
     \<lparr>fpol_forwarding_policy_identifier_length = forwarding_policy_ie_identifier_length ie,
      fpol_forwarding_policy_identifier = forwarding_policy_ie_identifier ie\<rparr>"

definition forwarding_policy_ie_dump_to ::
    "pfcp_forwarding_policy_ie \<Rightarrow> (pfcp_exn + pfcp_forwarding_policy_ie) \<times> bytes" where
  "forwarding_policy_ie_dump_to ie =
     (Inr ie, tlv_dump_to (forwarding_policy_ie_tlv ie) @ [forwarding_policy_ie_identifier_length ie]
              @ bytes_of_string (forwarding_policy_ie_identifier ie))"

definition forwarding_policy_ie_load_from ::
    "pfcp_forwarding_policy_ie \<Rightarrow> istream \<Rightarrow> (pfcp_exn + pfcp_forwarding_policy_ie) \<times> istream" where
  "forwarding_policy_ie_load_from ie is =
     (let t = forwarding_policy_ie_tlv ie; bad = Inl (Tlv_bad_length (tlv_type t) (tlv_length t)) in
      if tlv_length t < 1 then (bad, is)
      else (let (n, is) = read_u8 (forwarding_policy_ie_identifier_length ie) is in
        if unat (tlv_length t) \<noteq> 1 + unat n then (bad, is)
        else (let (v, is) = read_string (unat n) is
              in (Inr (ie\<lparr>forwarding_policy_ie_identifier_length := n,
                         forwarding_policy_ie_identifier := v\<rparr>), is))))"

lemmas forwarding_policy_ie_defs = new_forwarding_policy_ie_def forwarding_policy_ie_of_tlv_def
  forwarding_policy_ie_to_core_def forwarding_policy_ie_dump_to_def forwarding_policy_ie_load_from_def

definition forwarding_policy_canon :: "forwarding_policy_t \<Rightarrow> bool" where
  "forwarding_policy_canon c \<longleftrightarrow>
     length (fpol_forwarding_policy_identifier c) = unat (fpol_forwarding_policy_identifier_length c)"

lemma policy_length:
  "unat (1 + ucast (n :: u8) :: u16) = Suc (unat n)" "(1 + ucast n :: u16) \<noteq> 0" "unat n < 256"
proof -
  show n: "unat n < 256" using unsigned_less [of n] by simp
  then have "unat (ucast n :: u16) = unat n"
    by (simp add: unsigned_ucast_eq take_bit_nat_eq_self)
  with n show u: "unat (1 + ucast n :: u16) = Suc (unat n)"
    by (simp add: unat_word_ariths)
  show "(1 + ucast n :: u16) \<noteq> 0"
    using u by (metis Zero_not_Suc unat_0)
qed

interpretation forwarding_policy_ie: ie_codec PFCP_IE_FORWARDING_POLICY new_forwarding_policy_ie
    forwarding_policy_ie_tlv forwarding_policy_ie_dump_to forwarding_policy_ie_of_tlv
    forwarding_policy_ie_load_from forwarding_policy_ie_to_core forwarding_policy_canon
    "\<lambda>c. fpol_forwarding_policy_identifier_length c # bytes_of_string (fpol_forwarding_policy_identifier c)"
proof (unfold_locales, goal_cases)
  case (4 c)
  then show ?case
    using policy_length(3) [of "fpol_forwarding_policy_identifier_length c"]
    by (simp add: forwarding_policy_canon_def)
qed (simp_all add: forwarding_policy_ie_defs tlv_defs forwarding_policy_canon_def policy_length Let_def)

end
