(* ===== verification/Ie_Address.thy ===== *)
theory Ie_Address
  imports Ie_Stream
begin

text \<open>
  The classes of elements that carry addresses behind flags, of \<^verbatim>\<open>src/oai/pfcp/3gpp_29.244.hpp\<close>:
  F-TEID, F-SEID, UE IP address and outer header creation.  An address is written as it is in
  memory (\<^verbatim>\<open>ipv4_address_dump_to\<close>, \<^verbatim>\<open>ipv6_address_dump_to\<close>), numbers in network order.

  F-TEID, F-SEID and UE IP address satisfy the contract \<open>ie_codec\<close> for values without content in
  absent members, F-TEID only without a choose identifier beside a TEID.  An outer header
  creation is read into memory that is not initialised: what its description declares absent
  stays as it was.
\<close>

lemma bit_flags [simp]: "bit (flag i b OR w) j \<longleftrightarrow> (b \<and> j = i \<and> i < 8) \<or> bit w j"
  by (auto simp: bit_or_iff)

section \<open>F-TEID\<close>

record pfcp_fteid_ie =
  fteid_ie_tlv :: pfcp_tlv
  fteid_ie_u1 :: u8
  fteid_ie_teid :: u32
  fteid_ie_ipv4_address :: u32
  fteid_ie_ipv6_address :: in6_addr
  fteid_ie_choose_id :: u8

abbreviation (input) fteid_u1_v4 :: "u8 \<Rightarrow> bool" where "fteid_u1_v4 u \<equiv> bit u 0"
abbreviation (input) fteid_u1_v6 :: "u8 \<Rightarrow> bool" where "fteid_u1_v6 u \<equiv> bit u 1"
abbreviation (input) fteid_u1_ch :: "u8 \<Rightarrow> bool" where "fteid_u1_ch u \<equiv> bit u 2"
abbreviation (input) fteid_u1_chid :: "u8 \<Rightarrow> bool" where "fteid_u1_chid u \<equiv> bit u 3"

definition fteid_ie_length :: "u8 \<Rightarrow> u16" where
  "fteid_ie_length u1 =
     1 + (if \<not> fteid_u1_ch u1
          then 4 + (if fteid_u1_v4 u1 then 4 else 0) + (if fteid_u1_v6 u1 then 16 else 0)
          else if fteid_u1_chid u1 then 1 else 0)"

text \<open>The constructor sets \<^verbatim>\<open>choose_id\<close> only together with both flags; \<open>j\<close> is what it holds otherwise.\<close>

definition new_fteid_ie :: "u8 \<Rightarrow> fteid_t \<Rightarrow> pfcp_fteid_ie" where
  "new_fteid_ie j b =
     (let u1 = flag 2 (fteid_ch b) OR flag 3 (fteid_chid b);
          u1 = (if \<not> fteid_ch b then flag 0 (fteid_v4 b) OR flag 1 (fteid_v6 b) OR u1 else u1)
      in \<lparr>fteid_ie_tlv = tlv_set_length (fteid_ie_length u1) (tlv_of_type PFCP_IE_F_TEID),
          fteid_ie_u1 = u1, fteid_ie_teid = fteid_teid b,
          fteid_ie_ipv4_address = (if fteid_ch b then 0 else fteid_ipv4_address b),
          fteid_ie_ipv6_address = (if fteid_ch b then 0 else fteid_ipv6_address b),
          fteid_ie_choose_id = (if fteid_ch b \<and> fteid_chid b then fteid_choose_id b else j)\<rparr>)"

definition fteid_ie_of_tlv :: "u8 \<Rightarrow> pfcp_tlv \<Rightarrow> pfcp_fteid_ie" where
  "fteid_ie_of_tlv j t =
     \<lparr>fteid_ie_tlv = t, fteid_ie_u1 = 0, fteid_ie_teid = 0, fteid_ie_ipv4_address = 0,
      fteid_ie_ipv6_address = 0, fteid_ie_choose_id = 0\<rparr>"

definition fteid_ie_to_core :: "pfcp_fteid_ie \<Rightarrow> fteid_t" where
  "fteid_ie_to_core ie =
     (let u1 = fteid_ie_u1 ie in
      \<lparr>fteid_chid = fteid_u1_chid u1, fteid_ch = fteid_u1_ch u1, fteid_v4 = fteid_u1_v4 u1,
       fteid_v6 = fteid_u1_v6 u1, fteid_teid = fteid_ie_teid ie,
       fteid_ipv4_address = fteid_ie_ipv4_address ie, fteid_ipv6_address = fteid_ie_ipv6_address ie,
       fteid_choose_id = fteid_ie_choose_id ie\<rparr>)"

definition fteid_ie_dump_to :: "pfcp_fteid_ie \<Rightarrow> (pfcp_exn + pfcp_fteid_ie) \<times> bytes" where
  "fteid_ie_dump_to ie =
     (let u1 = fteid_ie_u1 ie;
          ie = ie\<lparr>fteid_ie_tlv := tlv_set_length (fteid_ie_length u1) (fteid_ie_tlv ie)\<rparr>
      in (Inr ie,
          tlv_dump_to (fteid_ie_tlv ie) @ [u1]
          @ (if \<not> fteid_u1_ch u1 then
               be_bytes 4 (fteid_ie_teid ie)
               @ (if fteid_u1_v4 u1 then le_bytes 4 (fteid_ie_ipv4_address ie) else [])
               @ (if fteid_u1_v6 u1 then le_bytes 16 (fteid_ie_ipv6_address ie) else [])
             else [])
          @ (if fteid_u1_chid u1 then [fteid_ie_choose_id ie] else [])))"

definition fteid_ie_load_from :: "pfcp_fteid_ie \<Rightarrow> istream \<Rightarrow> (pfcp_exn + pfcp_fteid_ie) \<times> istream" where
  "fteid_ie_load_from ie is =
     (let t = fteid_ie_tlv ie; (u1, is) = read_u8 (fteid_ie_u1 ie) is; ie = ie\<lparr>fteid_ie_u1 := u1\<rparr> in
      if tlv_length t \<noteq> fteid_ie_length u1 then (Inl (Tlv_bad_length (tlv_type t) (tlv_length t)), is)
      else if \<not> fteid_u1_ch u1 then
        (let (teid, is) = read_be 4 (fteid_ie_teid ie) is;
             (v4, is) = (if fteid_u1_v4 u1 then read_raw 4 (fteid_ie_ipv4_address ie) is
                         else (fteid_ie_ipv4_address ie, is));
             (v6, is) = (if fteid_u1_v6 u1 then read_raw 16 (fteid_ie_ipv6_address ie) is
                         else (fteid_ie_ipv6_address ie, is))
         in (Inr (ie\<lparr>fteid_ie_teid := teid, fteid_ie_ipv4_address := v4, fteid_ie_ipv6_address := v6\<rparr>), is))
      else if fteid_u1_chid u1 then
        (let (v, is) = read_u8 (fteid_ie_choose_id ie) is in (Inr (ie\<lparr>fteid_ie_choose_id := v\<rparr>), is))
      else (Inr ie, is))"

lemmas fteid_ie_defs = new_fteid_ie_def fteid_ie_of_tlv_def fteid_ie_to_core_def fteid_ie_dump_to_def
  fteid_ie_load_from_def fteid_ie_length_def

definition fteid_canon :: "fteid_t \<Rightarrow> bool" where
  "fteid_canon c \<longleftrightarrow>
     (if fteid_ch c then
        \<not> fteid_v4 c \<and> \<not> fteid_v6 c \<and> fteid_teid c = 0 \<and> (fteid_chid c \<or> fteid_choose_id c = 0)
      else \<not> fteid_chid c \<and> fteid_choose_id c = 0) \<and>
     (fteid_v4 c \<or> fteid_ipv4_address c = 0) \<and> (fteid_v6 c \<or> fteid_ipv6_address c = 0)"

definition fteid_body :: "fteid_t \<Rightarrow> bytes" where
  "fteid_body c =
     [flag 0 (fteid_v4 c) OR flag 1 (fteid_v6 c) OR flag 2 (fteid_ch c) OR flag 3 (fteid_chid c)]
     @ (if fteid_ch c then (if fteid_chid c then [fteid_choose_id c] else [])
        else be_bytes 4 (fteid_teid c)
          @ (if fteid_v4 c then le_bytes 4 (fteid_ipv4_address c) else [])
          @ (if fteid_v6 c then le_bytes 16 (fteid_ipv6_address c) else []))"

interpretation fteid_ie: ie_codec PFCP_IE_F_TEID "new_fteid_ie j" fteid_ie_tlv fteid_ie_dump_to
    fteid_ie_of_tlv fteid_ie_load_from fteid_ie_to_core fteid_canon fteid_body
  for j
  by unfold_locales
    (auto simp: fteid_ie_defs tlv_defs fteid_canon_def fteid_body_def Let_def intro!: fteid_t.equality
      simp del: le_bytes.simps)

section \<open>F-SEID\<close>

record pfcp_f_seid_ie =
  f_seid_ie_tlv :: pfcp_tlv
  f_seid_ie_u1 :: u8
  f_seid_ie_seid :: u64
  f_seid_ie_ipv4_address :: u32
  f_seid_ie_ipv6_address :: in6_addr

abbreviation (input) fseid_u1_v6 :: "u8 \<Rightarrow> bool" where "fseid_u1_v6 u \<equiv> bit u 0"
abbreviation (input) fseid_u1_v4 :: "u8 \<Rightarrow> bool" where "fseid_u1_v4 u \<equiv> bit u 1"

definition f_seid_ie_length :: "u8 \<Rightarrow> u16" where
  "f_seid_ie_length u1 = 9 + (if fseid_u1_v4 u1 then 4 else 0) + (if fseid_u1_v6 u1 then 16 else 0)"

definition new_f_seid_ie :: "fseid_t \<Rightarrow> pfcp_f_seid_ie" where
  "new_f_seid_ie b =
     (let u1 = flag 0 (fseid_v6 b) OR flag 1 (fseid_v4 b) in
      \<lparr>f_seid_ie_tlv = tlv_set_length (f_seid_ie_length u1) (tlv_of_type PFCP_IE_F_SEID),
       f_seid_ie_u1 = u1, f_seid_ie_seid = fseid_seid b,
       f_seid_ie_ipv4_address = (if fseid_v4 b then fseid_ipv4_address b else 0),
       f_seid_ie_ipv6_address = (if fseid_v6 b then fseid_ipv6_address b else 0)\<rparr>)"

definition f_seid_ie_of_tlv :: "u8 \<Rightarrow> pfcp_tlv \<Rightarrow> pfcp_f_seid_ie" where
  "f_seid_ie_of_tlv j t =
     \<lparr>f_seid_ie_tlv = t, f_seid_ie_u1 = j, f_seid_ie_seid = le_word (replicate 8 j),
      f_seid_ie_ipv4_address = le_word (replicate 4 j), f_seid_ie_ipv6_address = le_word (replicate 16 j)\<rparr>"

definition f_seid_ie_to_core :: "pfcp_f_seid_ie \<Rightarrow> fseid_t" where
  "f_seid_ie_to_core ie =
     (let u1 = f_seid_ie_u1 ie in
      fseid0\<lparr>fseid_v4 := fseid_u1_v4 u1, fseid_v6 := fseid_u1_v6 u1, fseid_seid := f_seid_ie_seid ie,
        fseid_ipv4_address := (if fseid_u1_v4 u1 then f_seid_ie_ipv4_address ie else 0),
        fseid_ipv6_address := (if fseid_u1_v6 u1 then f_seid_ie_ipv6_address ie else 0)\<rparr>)"

definition f_seid_ie_dump_to :: "pfcp_f_seid_ie \<Rightarrow> (pfcp_exn + pfcp_f_seid_ie) \<times> bytes" where
  "f_seid_ie_dump_to ie =
     (let u1 = f_seid_ie_u1 ie;
          ie = ie\<lparr>f_seid_ie_tlv := tlv_set_length (f_seid_ie_length u1) (f_seid_ie_tlv ie)\<rparr>
      in (Inr ie,
          tlv_dump_to (f_seid_ie_tlv ie) @ [u1] @ be_bytes 8 (f_seid_ie_seid ie)
          @ (if fseid_u1_v4 u1 then le_bytes 4 (f_seid_ie_ipv4_address ie) else [])
          @ (if fseid_u1_v6 u1 then le_bytes 16 (f_seid_ie_ipv6_address ie) else [])))"

definition f_seid_ie_load_from :: "pfcp_f_seid_ie \<Rightarrow> istream \<Rightarrow> (pfcp_exn + pfcp_f_seid_ie) \<times> istream" where
  "f_seid_ie_load_from ie is =
     (let t = f_seid_ie_tlv ie; (u1, is) = read_u8 (f_seid_ie_u1 ie) is; ie = ie\<lparr>f_seid_ie_u1 := u1\<rparr> in
      if tlv_length t \<noteq> f_seid_ie_length u1 then (Inl (Tlv_bad_length (tlv_type t) (tlv_length t)), is)
      else
        (let (seid, is) = read_be 8 (f_seid_ie_seid ie) is;
             (v4, is) = (if fseid_u1_v4 u1 then read_raw 4 (f_seid_ie_ipv4_address ie) is
                         else (f_seid_ie_ipv4_address ie, is));
             (v6, is) = (if fseid_u1_v6 u1 then read_raw 16 (f_seid_ie_ipv6_address ie) is
                         else (f_seid_ie_ipv6_address ie, is))
         in (Inr (ie\<lparr>f_seid_ie_seid := seid, f_seid_ie_ipv4_address := v4,
                     f_seid_ie_ipv6_address := v6\<rparr>), is)))"

lemmas f_seid_ie_defs = new_f_seid_ie_def f_seid_ie_of_tlv_def f_seid_ie_to_core_def
  f_seid_ie_dump_to_def f_seid_ie_load_from_def f_seid_ie_length_def

definition fseid_canon :: "fseid_t \<Rightarrow> bool" where
  "fseid_canon c \<longleftrightarrow> fseid_spare c = 0 \<and>
     (fseid_v4 c \<or> fseid_ipv4_address c = 0) \<and> (fseid_v6 c \<or> fseid_ipv6_address c = 0)"

definition fseid_body :: "fseid_t \<Rightarrow> bytes" where
  "fseid_body c =
     [flag 0 (fseid_v6 c) OR flag 1 (fseid_v4 c)] @ be_bytes 8 (fseid_seid c)
     @ (if fseid_v4 c then le_bytes 4 (fseid_ipv4_address c) else [])
     @ (if fseid_v6 c then le_bytes 16 (fseid_ipv6_address c) else [])"

interpretation f_seid_ie: ie_codec PFCP_IE_F_SEID new_f_seid_ie f_seid_ie_tlv f_seid_ie_dump_to
    f_seid_ie_of_tlv f_seid_ie_load_from f_seid_ie_to_core fseid_canon fseid_body
  by unfold_locales
    (auto simp: f_seid_ie_defs tlv_defs fseid_canon_def fseid_body_def fseid0_def Let_def
      intro!: fseid_t.equality simp del: le_bytes.simps)

section \<open>UE IP address\<close>

record pfcp_ue_ip_address_ie =
  ue_ip_address_ie_tlv :: pfcp_tlv
  ue_ip_address_ie_u1 :: u8
  ue_ip_address_ie_ipv4_address :: u32
  ue_ip_address_ie_ipv6_address :: in6_addr
  ue_ip_address_ie_ipv6_prefix_delegation_bits :: u8

abbreviation (input) ueip_u1_v6 :: "u8 \<Rightarrow> bool" where "ueip_u1_v6 u \<equiv> bit u 0"
abbreviation (input) ueip_u1_v4 :: "u8 \<Rightarrow> bool" where "ueip_u1_v4 u \<equiv> bit u 1"
abbreviation (input) ueip_u1_sd :: "u8 \<Rightarrow> bool" where "ueip_u1_sd u \<equiv> bit u 2"
abbreviation (input) ueip_u1_ipv6d :: "u8 \<Rightarrow> bool" where "ueip_u1_ipv6d u \<equiv> bit u 3"

definition ue_ip_address_ie_length :: "u8 \<Rightarrow> u16" where
  "ue_ip_address_ie_length u1 =
     1 + (if ueip_u1_v4 u1 then 4 else 0)
       + (if ueip_u1_v6 u1 then 16 + (if ueip_u1_ipv6d u1 then 1 else 0) else 0)"

definition new_ue_ip_address_ie :: "ue_ip_address_t \<Rightarrow> pfcp_ue_ip_address_ie" where
  "new_ue_ip_address_ie b =
     (let ipv6d = (ueip_v6 b \<and> ueip_ipv6d b);
          u1 = flag 0 (ueip_v6 b) OR flag 1 (ueip_v4 b) OR flag 2 (ueip_sd b) OR flag 3 ipv6d
      in \<lparr>ue_ip_address_ie_tlv = tlv_set_length (ue_ip_address_ie_length u1) (tlv_of_type PFCP_IE_UE_IP_ADDRESS),
          ue_ip_address_ie_u1 = u1,
          ue_ip_address_ie_ipv4_address = (if ueip_v4 b then ueip_ipv4_address b else 0),
          ue_ip_address_ie_ipv6_address = (if ueip_v6 b then ueip_ipv6_address b else 0),
          ue_ip_address_ie_ipv6_prefix_delegation_bits =
            (if ipv6d then ueip_ipv6_prefix_delegation_bits b else 0)\<rparr>)"

definition ue_ip_address_ie_of_tlv :: "u8 \<Rightarrow> pfcp_tlv \<Rightarrow> pfcp_ue_ip_address_ie" where
  "ue_ip_address_ie_of_tlv j t =
     \<lparr>ue_ip_address_ie_tlv = t, ue_ip_address_ie_u1 = j,
      ue_ip_address_ie_ipv4_address = le_word (replicate 4 j),
      ue_ip_address_ie_ipv6_address = le_word (replicate 16 j),
      ue_ip_address_ie_ipv6_prefix_delegation_bits = j\<rparr>"

definition ue_ip_address_ie_to_core :: "pfcp_ue_ip_address_ie \<Rightarrow> ue_ip_address_t" where
  "ue_ip_address_ie_to_core ie =
     (let u1 = ue_ip_address_ie_u1 ie; ipv6d = (ueip_u1_v6 u1 \<and> ueip_u1_ipv6d u1) in
      \<lparr>ueip_ipv6d = ipv6d, ueip_sd = ueip_u1_sd u1, ueip_v4 = ueip_u1_v4 u1, ueip_v6 = ueip_u1_v6 u1,
       ueip_ipv4_address = (if ueip_u1_v4 u1 then ue_ip_address_ie_ipv4_address ie else 0),
       ueip_ipv6_address = (if ueip_u1_v6 u1 then ue_ip_address_ie_ipv6_address ie else 0),
       ueip_ipv6_prefix_delegation_bits =
         (if ipv6d then ue_ip_address_ie_ipv6_prefix_delegation_bits ie else 0)\<rparr>)"

definition ue_ip_address_ie_dump_to ::
    "pfcp_ue_ip_address_ie \<Rightarrow> (pfcp_exn + pfcp_ue_ip_address_ie) \<times> bytes" where
  "ue_ip_address_ie_dump_to ie =
     (let u1 = ue_ip_address_ie_u1 ie;
          ie = ie\<lparr>ue_ip_address_ie_tlv :=
                 tlv_set_length (ue_ip_address_ie_length u1) (ue_ip_address_ie_tlv ie)\<rparr>
      in (Inr ie,
          tlv_dump_to (ue_ip_address_ie_tlv ie) @ [u1]
          @ (if ueip_u1_v4 u1 then le_bytes 4 (ue_ip_address_ie_ipv4_address ie) else [])
          @ (if ueip_u1_v6 u1 then
               le_bytes 16 (ue_ip_address_ie_ipv6_address ie)
               @ (if ueip_u1_ipv6d u1 then [ue_ip_address_ie_ipv6_prefix_delegation_bits ie] else [])
             else [])))"

definition ue_ip_address_ie_load_from ::
    "pfcp_ue_ip_address_ie \<Rightarrow> istream \<Rightarrow> (pfcp_exn + pfcp_ue_ip_address_ie) \<times> istream" where
  "ue_ip_address_ie_load_from ie is =
     (let t = ue_ip_address_ie_tlv ie; (u1, is) = read_u8 (ue_ip_address_ie_u1 ie) is;
          ie = ie\<lparr>ue_ip_address_ie_u1 := u1\<rparr> in
      if tlv_length t \<noteq> ue_ip_address_ie_length u1
      then (Inl (Tlv_bad_length (tlv_type t) (tlv_length t)), is)
      else
        (let (v4, is) = (if ueip_u1_v4 u1 then read_raw 4 (ue_ip_address_ie_ipv4_address ie) is
                         else (ue_ip_address_ie_ipv4_address ie, is));
             (v6, is) = (if ueip_u1_v6 u1 then read_raw 16 (ue_ip_address_ie_ipv6_address ie) is
                         else (ue_ip_address_ie_ipv6_address ie, is));
             (bits, is) = (if ueip_u1_v6 u1 \<and> ueip_u1_ipv6d u1
                           then read_u8 (ue_ip_address_ie_ipv6_prefix_delegation_bits ie) is
                           else (ue_ip_address_ie_ipv6_prefix_delegation_bits ie, is))
         in (Inr (ie\<lparr>ue_ip_address_ie_ipv4_address := v4, ue_ip_address_ie_ipv6_address := v6,
                     ue_ip_address_ie_ipv6_prefix_delegation_bits := bits\<rparr>), is)))"

lemmas ue_ip_address_ie_defs = new_ue_ip_address_ie_def ue_ip_address_ie_of_tlv_def
  ue_ip_address_ie_to_core_def ue_ip_address_ie_dump_to_def ue_ip_address_ie_load_from_def
  ue_ip_address_ie_length_def

definition ue_ip_address_canon :: "ue_ip_address_t \<Rightarrow> bool" where
  "ue_ip_address_canon c \<longleftrightarrow>
     (ueip_v4 c \<or> ueip_ipv4_address c = 0) \<and> (ueip_v6 c \<or> ueip_ipv6_address c = 0 \<and> \<not> ueip_ipv6d c) \<and>
     (ueip_ipv6d c \<or> ueip_ipv6_prefix_delegation_bits c = 0)"

definition ue_ip_address_body :: "ue_ip_address_t \<Rightarrow> bytes" where
  "ue_ip_address_body c =
     [flag 0 (ueip_v6 c) OR flag 1 (ueip_v4 c) OR flag 2 (ueip_sd c) OR flag 3 (ueip_ipv6d c)]
     @ (if ueip_v4 c then le_bytes 4 (ueip_ipv4_address c) else [])
     @ (if ueip_v6 c then le_bytes 16 (ueip_ipv6_address c) else [])
     @ (if ueip_ipv6d c then [ueip_ipv6_prefix_delegation_bits c] else [])"

interpretation ue_ip_address_ie: ie_codec PFCP_IE_UE_IP_ADDRESS new_ue_ip_address_ie
    ue_ip_address_ie_tlv ue_ip_address_ie_dump_to ue_ip_address_ie_of_tlv ue_ip_address_ie_load_from
    ue_ip_address_ie_to_core ue_ip_address_canon ue_ip_address_body
  by unfold_locales
    (auto simp: ue_ip_address_ie_defs tlv_defs ue_ip_address_canon_def ue_ip_address_body_def Let_def
      intro!: ue_ip_address_t.equality simp del: le_bytes.simps)

section \<open>Outer header creation\<close>

record pfcp_outer_header_creation_ie =
  outer_header_creation_ie_tlv :: pfcp_tlv
  outer_header_creation_ie_description :: u16
  outer_header_creation_ie_teid :: u32
  outer_header_creation_ie_ipv4_address :: u32
  outer_header_creation_ie_ipv6_address :: in6_addr
  outer_header_creation_ie_port_number :: u16

abbreviation (input) OUTER_HEADER_CREATION_GTPU_UDP_IPV4 :: u16 where "OUTER_HEADER_CREATION_GTPU_UDP_IPV4 \<equiv> 0x0100"
abbreviation (input) OUTER_HEADER_CREATION_GTPU_UDP_IPV6 :: u16 where "OUTER_HEADER_CREATION_GTPU_UDP_IPV6 \<equiv> 0x0200"
abbreviation (input) OUTER_HEADER_CREATION_UDP_IPV4 :: u16 where "OUTER_HEADER_CREATION_UDP_IPV4 \<equiv> 0x0400"
abbreviation (input) OUTER_HEADER_CREATION_UDP_IPV6 :: u16 where "OUTER_HEADER_CREATION_UDP_IPV6 \<equiv> 0x0800"

text \<open>The conditions of the description under which a member is present.\<close>

definition ohc_has_teid :: "u16 \<Rightarrow> bool" where
  "ohc_has_teid d \<longleftrightarrow> d AND (OUTER_HEADER_CREATION_GTPU_UDP_IPV4 OR OUTER_HEADER_CREATION_GTPU_UDP_IPV6) \<noteq> 0"

definition ohc_has_ipv4 :: "u16 \<Rightarrow> bool" where
  "ohc_has_ipv4 d \<longleftrightarrow> d AND (OUTER_HEADER_CREATION_GTPU_UDP_IPV4 OR OUTER_HEADER_CREATION_UDP_IPV4) \<noteq> 0"

definition ohc_has_ipv6 :: "u16 \<Rightarrow> bool" where
  "ohc_has_ipv6 d \<longleftrightarrow> d AND (OUTER_HEADER_CREATION_GTPU_UDP_IPV6 OR OUTER_HEADER_CREATION_UDP_IPV6) \<noteq> 0"

definition ohc_has_port :: "u16 \<Rightarrow> bool" where
  "ohc_has_port d \<longleftrightarrow> d AND OUTER_HEADER_CREATION_UDP_IPV4 \<noteq> 0"

definition new_outer_header_creation_ie :: "core_outer_header_creation_t \<Rightarrow> pfcp_outer_header_creation_ie" where
  "new_outer_header_creation_ie b =
     (let d = ohcr_outer_header_creation_description b;
          t = tlv_set_length 2 (tlv_of_type PFCP_IE_OUTER_HEADER_CREATION);
          t = (if ohc_has_teid d then tlv_add_length 4 t else t);
          t = (if ohc_has_ipv4 d then tlv_add_length 4 t else t);
          t = (if ohc_has_ipv6 d then tlv_add_length 16 t else t);
          t = (if ohc_has_port d then tlv_add_length 2 t else t)
      in \<lparr>outer_header_creation_ie_tlv = t, outer_header_creation_ie_description = d,
          outer_header_creation_ie_teid = (if ohc_has_teid d then ohcr_teid b else 0),
          outer_header_creation_ie_ipv4_address = (if ohc_has_ipv4 d then ohcr_ipv4_address b else 0),
          outer_header_creation_ie_ipv6_address = (if ohc_has_ipv6 d then ohcr_ipv6_address b else 0),
          outer_header_creation_ie_port_number = (if ohc_has_port d then ohcr_port_number b else 0)\<rparr>)"

definition outer_header_creation_ie_of_tlv :: "u8 \<Rightarrow> pfcp_tlv \<Rightarrow> pfcp_outer_header_creation_ie" where
  "outer_header_creation_ie_of_tlv j t =
     \<lparr>outer_header_creation_ie_tlv = t, outer_header_creation_ie_description = le_word [j, j],
      outer_header_creation_ie_teid = le_word (replicate 4 j),
      outer_header_creation_ie_ipv4_address = le_word (replicate 4 j),
      outer_header_creation_ie_ipv6_address = le_word (replicate 16 j),
      outer_header_creation_ie_port_number = le_word [j, j]\<rparr>"

definition outer_header_creation_ie_to_core :: "pfcp_outer_header_creation_ie \<Rightarrow> core_outer_header_creation_t" where
  "outer_header_creation_ie_to_core ie =
     \<lparr>ohcr_outer_header_creation_description = outer_header_creation_ie_description ie,
      ohcr_teid = outer_header_creation_ie_teid ie,
      ohcr_ipv4_address = outer_header_creation_ie_ipv4_address ie,
      ohcr_ipv6_address = outer_header_creation_ie_ipv6_address ie,
      ohcr_port_number = outer_header_creation_ie_port_number ie\<rparr>"

definition outer_header_creation_ie_dump_to ::
    "pfcp_outer_header_creation_ie \<Rightarrow> (pfcp_exn + pfcp_outer_header_creation_ie) \<times> bytes" where
  "outer_header_creation_ie_dump_to ie =
     (let d = outer_header_creation_ie_description ie in
      (Inr ie,
       tlv_dump_to (outer_header_creation_ie_tlv ie) @ be_bytes 2 d
       @ (if ohc_has_teid d then be_bytes 4 (outer_header_creation_ie_teid ie) else [])
       @ (if ohc_has_ipv4 d then le_bytes 4 (outer_header_creation_ie_ipv4_address ie) else [])
       @ (if ohc_has_ipv6 d then le_bytes 16 (outer_header_creation_ie_ipv6_address ie) else [])
       @ (if ohc_has_port d then be_bytes 2 (outer_header_creation_ie_port_number ie) else [])))"

definition outer_header_creation_ie_load_from ::
    "pfcp_outer_header_creation_ie \<Rightarrow> istream \<Rightarrow> (pfcp_exn + pfcp_outer_header_creation_ie) \<times> istream" where
  "outer_header_creation_ie_load_from ie is =
     (let t = outer_header_creation_ie_tlv ie in
      if tlv_length t < 4 then (Inl (Tlv_bad_length (tlv_type t) (tlv_length t)), is)
      else
        (let (d, is) = read_be 2 (outer_header_creation_ie_description ie) is;
             (teid, is) = (if ohc_has_teid d then read_be 4 (outer_header_creation_ie_teid ie) is
                           else (outer_header_creation_ie_teid ie, is));
             (v4, is) = (if ohc_has_ipv4 d then read_raw 4 (outer_header_creation_ie_ipv4_address ie) is
                         else (outer_header_creation_ie_ipv4_address ie, is));
             (v6, is) = (if ohc_has_ipv6 d then read_raw 16 (outer_header_creation_ie_ipv6_address ie) is
                         else (outer_header_creation_ie_ipv6_address ie, is));
             (port, is) = (if ohc_has_port d then read_be 2 (outer_header_creation_ie_port_number ie) is
                           else (outer_header_creation_ie_port_number ie, is))
         in (Inr (ie\<lparr>outer_header_creation_ie_description := d, outer_header_creation_ie_teid := teid,
                     outer_header_creation_ie_ipv4_address := v4, outer_header_creation_ie_ipv6_address := v6,
                     outer_header_creation_ie_port_number := port\<rparr>), is)))"

lemmas outer_header_creation_ie_defs = new_outer_header_creation_ie_def outer_header_creation_ie_of_tlv_def
  outer_header_creation_ie_to_core_def outer_header_creation_ie_dump_to_def
  outer_header_creation_ie_load_from_def

text \<open>
  What is read back is the core value with uninitialised memory in the members that the
  description declares absent.
\<close>

definition ohc_with_junk :: "u8 \<Rightarrow> core_outer_header_creation_t \<Rightarrow> core_outer_header_creation_t" where
  "ohc_with_junk j c =
     (let d = ohcr_outer_header_creation_description c in
      \<lparr>ohcr_outer_header_creation_description = d,
       ohcr_teid = (if ohc_has_teid d then ohcr_teid c else le_word (replicate 4 j)),
       ohcr_ipv4_address = (if ohc_has_ipv4 d then ohcr_ipv4_address c else le_word (replicate 4 j)),
       ohcr_ipv6_address = (if ohc_has_ipv6 d then ohcr_ipv6_address c else le_word (replicate 16 j)),
       ohcr_port_number = (if ohc_has_port d then ohcr_port_number c else le_word [j, j])\<rparr>)"

lemma outer_header_creation_read_dump:
  assumes "ohc_has_teid (ohcr_outer_header_creation_description c) \<or> ohc_has_ipv4 (ohcr_outer_header_creation_description c) \<or>
    ohc_has_ipv6 (ohcr_outer_header_creation_description c)"
  shows "\<exists>ie. read_ie outer_header_creation_ie_of_tlv outer_header_creation_ie_load_from
      (stream j (snd (outer_header_creation_ie_dump_to (new_outer_header_creation_ie c)) @ rest)) =
      (Inr ie, stream j rest) \<and> outer_header_creation_ie_to_core ie = ohc_with_junk j c"
  using assms
  by (auto simp: read_ie_def outer_header_creation_ie_defs tlv_defs ohc_with_junk_def Let_def
      tlv_load_dump [unfolded new_pfcp_tlv_def] simp del: le_bytes.simps replicate.simps)

text \<open>A description without any of the four flags is written with a length that the reader refuses.\<close>

lemma outer_header_creation_read_dump_none:
  assumes "\<not> ohc_has_teid (ohcr_outer_header_creation_description c)" "\<not> ohc_has_ipv4 (ohcr_outer_header_creation_description c)"
    "\<not> ohc_has_ipv6 (ohcr_outer_header_creation_description c)" "\<not> ohc_has_port (ohcr_outer_header_creation_description c)"
  shows "fst (read_ie outer_header_creation_ie_of_tlv outer_header_creation_ie_load_from
      (stream j (snd (outer_header_creation_ie_dump_to (new_outer_header_creation_ie c)) @ rest))) =
      Inl (Tlv_bad_length 84 2)"
  using assms
  by (simp add: read_ie_def outer_header_creation_ie_defs tlv_defs Let_def
      tlv_load_dump [unfolded new_pfcp_tlv_def] del: le_bytes.simps replicate.simps)

section \<open>User plane IP resource information\<close>

record pfcp_user_plane_ip_resource_information_ie =
  upip_ie_tlv :: pfcp_tlv
  upip_ie_u1 :: u8
  upip_ie_teid_range :: u8
  upip_ie_ipv4_address :: u32
  upip_ie_ipv6_address :: in6_addr
  upip_ie_network_instance :: u16
  upip_ie_u2 :: u8

abbreviation (input) upip_u1_v4 :: "u8 \<Rightarrow> bool" where "upip_u1_v4 u \<equiv> bit u 0"
abbreviation (input) upip_u1_v6 :: "u8 \<Rightarrow> bool" where "upip_u1_v6 u \<equiv> bit u 1"
abbreviation (input) upip_u1_teidri :: "u8 \<Rightarrow> 3 word" where "upip_u1_teidri u \<equiv> ucast (drop_bit 2 u)"
abbreviation (input) upip_u1_assoni :: "u8 \<Rightarrow> bool" where "upip_u1_assoni u \<equiv> bit u 5"
abbreviation (input) upip_u1_assosi :: "u8 \<Rightarrow> bool" where "upip_u1_assosi u \<equiv> bit u 6"

definition new_upip_ie :: "user_plane_ip_resource_information_t \<Rightarrow> pfcp_user_plane_ip_resource_information_ie" where
  "new_upip_ie b =
     (let u1 = flag 0 (upip_v4 b) OR flag 1 (upip_v6 b) OR push_bit 2 (ucast (upip_teidri b))
             OR flag 5 (upip_assoni b) OR flag 6 (upip_assosi b);
          t = tlv_set_length 1 (tlv_of_type PFCP_IE_USER_PLANE_IP_RESOURCE_INFORMATION);
          t = (if upip_v4 b then tlv_add_length 4 t else t);
          t = (if upip_v6 b then tlv_add_length 16 t else t);
          t = (if upip_assoni b then tlv_add_length 2 t else t);
          t = (if upip_assosi b then tlv_add_length 1 t else t)
      in \<lparr>upip_ie_tlv = t, upip_ie_u1 = u1, upip_ie_teid_range = upip_teid_range b,
          upip_ie_ipv4_address = (if upip_v4 b then upip_ipv4_address b else 0),
          upip_ie_ipv6_address = (if upip_v6 b then upip_ipv6_address b else 0),
          upip_ie_network_instance = (if upip_assoni b then upip_network_instance b else 0),
          upip_ie_u2 = (if upip_assosi b then ucast (upip_source_interface b) else 0)\<rparr>)"

definition upip_ie_of_tlv :: "u8 \<Rightarrow> pfcp_tlv \<Rightarrow> pfcp_user_plane_ip_resource_information_ie" where
  "upip_ie_of_tlv j t =
     \<lparr>upip_ie_tlv = t, upip_ie_u1 = 0, upip_ie_teid_range = 0, upip_ie_ipv4_address = 0,
      upip_ie_ipv6_address = 0, upip_ie_network_instance = 0, upip_ie_u2 = 0\<rparr>"

definition upip_ie_to_core :: "pfcp_user_plane_ip_resource_information_ie \<Rightarrow> user_plane_ip_resource_information_t" where
  "upip_ie_to_core ie =
     (let u1 = upip_ie_u1 ie in
      user_plane_ip_resource_information0
        \<lparr>upip_v4 := upip_u1_v4 u1, upip_v6 := upip_u1_v6 u1, upip_teidri := upip_u1_teidri u1,
         upip_assoni := upip_u1_assoni u1, upip_assosi := upip_u1_assosi u1,
         upip_teid_range := upip_ie_teid_range ie,
         upip_ipv4_address := (if upip_u1_v4 u1 then upip_ie_ipv4_address ie else 0),
         upip_ipv6_address := (if upip_u1_v6 u1 then upip_ie_ipv6_address ie else 0),
         upip_network_instance := (if upip_u1_assoni u1 then upip_ie_network_instance ie else 0),
         upip_source_interface := (if upip_u1_assosi u1 then upip_ie_u2 ie AND 0xf else 0)\<rparr>)"

text \<open>
  \<^verbatim>\<open>htobe32\<close> widens the byte \<^verbatim>\<open>teid_range\<close> and the 16 bits of \<^verbatim>\<open>network_instance\<close>, four bytes are
  written for each.  On reading, one byte and two bytes are taken, and \<^verbatim>\<open>be32toh\<close> moves the byte
  out of the part that is kept.
\<close>

definition upip_ie_dump_to ::
    "pfcp_user_plane_ip_resource_information_ie \<Rightarrow>
     (pfcp_exn + pfcp_user_plane_ip_resource_information_ie) \<times> bytes" where
  "upip_ie_dump_to ie =
     (let u1 = upip_ie_u1 ie in
      (Inr ie,
       tlv_dump_to (upip_ie_tlv ie) @ [u1] @ be_bytes 4 (ucast (upip_ie_teid_range ie) :: u32)
       @ (if upip_u1_v4 u1 then le_bytes 4 (upip_ie_ipv4_address ie) else [])
       @ (if upip_u1_v6 u1 then le_bytes 16 (upip_ie_ipv6_address ie) else [])
       @ (if upip_u1_assoni u1 then be_bytes 4 (ucast (upip_ie_network_instance ie) :: u32) else [])
       @ (if upip_u1_assosi u1 then [upip_ie_u2 ie] else [])))"

definition upip_ie_load_from ::
    "pfcp_user_plane_ip_resource_information_ie \<Rightarrow> istream \<Rightarrow>
     (pfcp_exn + pfcp_user_plane_ip_resource_information_ie) \<times> istream" where
  "upip_ie_load_from ie is =
     (let t = upip_ie_tlv ie in
      if tlv_length t < 1 then (Inl (Tlv_bad_length (tlv_type t) (tlv_length t)), is)
      else
        (let (u1, is) = read_u8 (upip_ie_u1 ie) is;
             (r, is) = read_u8 (upip_ie_teid_range ie) is;
             r = ucast (le_word (be_bytes 4 (ucast r :: u32)) :: u32);
             (v4, is) = (if upip_u1_v4 u1 then read_raw 4 (upip_ie_ipv4_address ie) is
                         else (upip_ie_ipv4_address ie, is));
             (v6, is) = (if upip_u1_v6 u1 then read_raw 16 (upip_ie_ipv6_address ie) is
                         else (upip_ie_ipv6_address ie, is));
             (ni, is) = (if upip_u1_assoni u1 then read_be 2 (upip_ie_network_instance ie) is
                         else (upip_ie_network_instance ie, is));
             (u2, is) = (if upip_u1_assosi u1 then read_u8 (upip_ie_u2 ie) is else (upip_ie_u2 ie, is))
         in (Inr (ie\<lparr>upip_ie_u1 := u1, upip_ie_teid_range := r, upip_ie_ipv4_address := v4,
                     upip_ie_ipv6_address := v6, upip_ie_network_instance := ni, upip_ie_u2 := u2\<rparr>), is)))"

lemmas upip_ie_defs = new_upip_ie_def upip_ie_of_tlv_def upip_ie_to_core_def upip_ie_dump_to_def
  upip_ie_load_from_def

text \<open>The range of TEIDs is lost whatever the stream holds.\<close>

lemma swap_byte_lost: "(ucast (le_word (be_bytes 4 (ucast (r :: u8) :: u32)) :: u32) :: u8) = 0"
proof -
  have "drop_bit 8 (ucast r :: u32) = 0"
    by (intro bit_word_eqI) (auto simp: bit_simps dest: bit_imp_le_length)
  moreover have "ucast (ucast r :: u32) = r"
    by (rule bit_word_eqI) (simp add: bit_simps)
  ultimately have "le_bytes (Suc 3) (ucast r :: u32) = [r, 0, 0, 0]"
    by (simp add: numeral_3_eq_3)
  then have "be_bytes 4 (ucast r :: u32) = [0, 0, 0, r]"
    by (simp add: be_bytes_def)
  then show ?thesis
    by (intro bit_word_eqI) (simp add: bit_simps)
qed

lemma upip_teid_range_lost:
  assumes "upip_ie_load_from ie is = (Inr ie', is')"
  shows "upip_teid_range (upip_ie_to_core ie') = 0"
  using assms
  by (auto simp: upip_ie_load_from_def upip_ie_to_core_def user_plane_ip_resource_information0_def Let_def
      split_def swap_byte_lost split: if_splits)

text \<open>Four bytes at least are written beyond the declared length.\<close>

lemma upip_dump_length:
  "length (snd (upip_ie_dump_to (new_upip_ie c))) =
     4 + unat (tlv_length (upip_ie_tlv (new_upip_ie c))) + 4 + (if upip_assoni c then 2 else 0)"
proof -
  have "\<not> bit (upip_teidri c) 3" and "\<not> bit (upip_teidri c) 4"
    using bit_imp_le_length [of "upip_teidri c" 3] bit_imp_le_length [of "upip_teidri c" 4] by auto
  then show ?thesis
    by (simp add: upip_ie_defs tlv_defs tlv_dump_to_def Let_def bit_simps del: le_bytes.simps)
qed

end
