(* ===== verification/Ie_Other.thy ===== *)
theory Ie_Other
  imports Ie_Stream
begin

text \<open>
  The classes of elements of \<^verbatim>\<open>src/oai/pfcp/3gpp_29.244.hpp\<close> whose reader and writer disagree: SDF
  filter, the two volume thresholds, failed rule identifier and user identifier.  Each class is
  modelled as written; the lemmas say for which values reading back still works and what happens
  to the others.
\<close>

section \<open>SDF filter\<close>

record pfcp_sdf_filter_ie =
  sdf_filter_ie_tlv :: pfcp_tlv
  sdf_filter_ie_u1 :: u8
  sdf_filter_ie_length_of_flow_description :: u16
  sdf_filter_ie_flow_description :: string
  sdf_filter_ie_tos_traffic_class :: string
  sdf_filter_ie_security_parameter_index :: string
  sdf_filter_ie_flow_label :: string
  sdf_filter_ie_sdf_filter_id :: u32

abbreviation (input) sdf_u1_fd :: "u8 \<Rightarrow> bool" where "sdf_u1_fd u \<equiv> bit u 0"
abbreviation (input) sdf_u1_ttc :: "u8 \<Rightarrow> bool" where "sdf_u1_ttc u \<equiv> bit u 1"
abbreviation (input) sdf_u1_spi :: "u8 \<Rightarrow> bool" where "sdf_u1_spi u \<equiv> bit u 2"
abbreviation (input) sdf_u1_fl :: "u8 \<Rightarrow> bool" where "sdf_u1_fl u \<equiv> bit u 3"
abbreviation (input) sdf_u1_bid :: "u8 \<Rightarrow> bool" where "sdf_u1_bid u \<equiv> bit u 4"

definition sdf_u1_of :: "sdf_filter_t \<Rightarrow> u8" where
  "sdf_u1_of b = flag 0 (sdf_fd b) OR flag 1 (sdf_ttc b) OR flag 2 (sdf_spi b) OR flag 3 (sdf_fl b) OR flag 4 (sdf_bid b)"

text \<open>The flow label and the filter identifier are not counted in the length.\<close>

definition new_sdf_filter_ie :: "sdf_filter_t \<Rightarrow> pfcp_exn + pfcp_sdf_filter_ie" where
  "new_sdf_filter_ie b =
     (let t = tlv_set_length 2 (tlv_of_type PFCP_IE_SDF_FILTER);
          t = (if sdf_fd b then tlv_add_length (of_nat (2 + length (sdf_flow_description b))) t else t)
      in if sdf_ttc b \<and> length (sdf_tos_traffic_class b) \<noteq> 2
         then Inl (Ie_value (tlv_type t) ''tos_traffic_class'')
         else
      (let t = (if sdf_ttc b then tlv_add_length 2 t else t)
       in if sdf_spi b \<and> length (sdf_security_parameter_index b) \<noteq> 4
          then Inl (Ie_value (tlv_type t) ''security_parameter_index'')
          else
       (let t = (if sdf_spi b then tlv_add_length 4 t else t)
        in if sdf_fl b \<and> length (sdf_flow_label b) \<noteq> 3
           then Inl (Ie_value (tlv_type t) ''flow_label'')
           else
             Inr \<lparr>sdf_filter_ie_tlv = t, sdf_filter_ie_u1 = sdf_u1_of b,
                  sdf_filter_ie_length_of_flow_description =
                    (if sdf_fd b then sdf_length_of_flow_description b else 0),
                  sdf_filter_ie_flow_description = (if sdf_fd b then sdf_flow_description b else []),
                  sdf_filter_ie_tos_traffic_class = (if sdf_ttc b then sdf_tos_traffic_class b else []),
                  sdf_filter_ie_security_parameter_index =
                    (if sdf_spi b then sdf_security_parameter_index b else []),
                  sdf_filter_ie_flow_label = (if sdf_fl b then sdf_flow_label b else []),
                  sdf_filter_ie_sdf_filter_id = (if sdf_bid b then sdf_sdf_filter_id b else 0)\<rparr>)))"

definition sdf_filter_ie_of_tlv :: "u8 \<Rightarrow> pfcp_tlv \<Rightarrow> pfcp_sdf_filter_ie" where
  "sdf_filter_ie_of_tlv j t =
     \<lparr>sdf_filter_ie_tlv = t, sdf_filter_ie_u1 = j,
      sdf_filter_ie_length_of_flow_description = le_word (replicate 2 j),
      sdf_filter_ie_flow_description = [], sdf_filter_ie_tos_traffic_class = [],
      sdf_filter_ie_security_parameter_index = [], sdf_filter_ie_flow_label = [],
      sdf_filter_ie_sdf_filter_id = le_word (replicate 4 j)\<rparr>"

definition sdf_filter_ie_to_core :: "pfcp_sdf_filter_ie \<Rightarrow> sdf_filter_t" where
  "sdf_filter_ie_to_core ie =
     (let u1 = sdf_filter_ie_u1 ie in
      \<lparr>sdf_spare = 0, sdf_bid = sdf_u1_bid u1, sdf_fl = sdf_u1_fl u1, sdf_spi = sdf_u1_spi u1,
       sdf_ttc = sdf_u1_ttc u1, sdf_fd = sdf_u1_fd u1,
       sdf_length_of_flow_description =
         (if sdf_u1_fd u1 then sdf_filter_ie_length_of_flow_description ie else 0),
       sdf_flow_description = (if sdf_u1_fd u1 then sdf_filter_ie_flow_description ie else []),
       sdf_tos_traffic_class = (if sdf_u1_ttc u1 then sdf_filter_ie_tos_traffic_class ie else []),
       sdf_security_parameter_index =
         (if sdf_u1_spi u1 then sdf_filter_ie_security_parameter_index ie else []),
       sdf_flow_label = (if sdf_u1_fl u1 then sdf_filter_ie_flow_label ie else []),
       sdf_sdf_filter_id = (if sdf_u1_bid u1 then sdf_filter_ie_sdf_filter_id ie else 0)\<rparr>)"

text \<open>\<^verbatim>\<open>os << sdf_filter_id\<close> prints the number in decimal.\<close>

fun decimal :: "nat \<Rightarrow> bytes" where
  "decimal n = (if n < 10 then [of_nat (48 + n)] else decimal (n div 10) @ [of_nat (48 + n mod 10)])"

declare decimal.simps [simp del]

definition sdf_filter_ie_dump_to :: "pfcp_sdf_filter_ie \<Rightarrow> (pfcp_exn + pfcp_sdf_filter_ie) \<times> bytes" where
  "sdf_filter_ie_dump_to ie =
     (let u1 = sdf_filter_ie_u1 ie in
      (Inr ie,
       tlv_dump_to (sdf_filter_ie_tlv ie) @ [u1, 0]
       @ (if sdf_u1_fd u1 then
            be_bytes 2 (sdf_filter_ie_length_of_flow_description ie)
            @ bytes_of_string (sdf_filter_ie_flow_description ie) else [])
       @ (if sdf_u1_ttc u1 then bytes_of_string (sdf_filter_ie_tos_traffic_class ie) else [])
       @ (if sdf_u1_spi u1 then bytes_of_string (sdf_filter_ie_security_parameter_index ie) else [])
       @ (if sdf_u1_fl u1 then bytes_of_string (sdf_filter_ie_flow_label ie) else [])
       @ (if sdf_u1_bid u1 then decimal (unat (sdf_filter_ie_sdf_filter_id ie)) else [])))"

definition sdf_filter_ie_load_from :: "pfcp_sdf_filter_ie \<Rightarrow> istream \<Rightarrow> (pfcp_exn + pfcp_sdf_filter_ie) \<times> istream" where
  "sdf_filter_ie_load_from ie is =
     (let (u1, is) = read_u8 (sdf_filter_ie_u1 ie) is;
          (spare, is) = read_u8 0 is;
          (n, is) = (if sdf_u1_fd u1 then read_be 2 (sdf_filter_ie_length_of_flow_description ie) is
                     else (sdf_filter_ie_length_of_flow_description ie, is));
          (fd, is) = (if sdf_u1_fd u1 then read_string (unat n) is
                      else (sdf_filter_ie_flow_description ie, is));
          (ttc, is) = (if sdf_u1_ttc u1 then read_string 2 is else (sdf_filter_ie_tos_traffic_class ie, is));
          (spi, is) = (if sdf_u1_spi u1 then read_string 4 is
                       else (sdf_filter_ie_security_parameter_index ie, is));
          (fl, is) = (if sdf_u1_fl u1 then read_string 3 is else (sdf_filter_ie_flow_label ie, is));
          (i, is) = (if sdf_u1_bid u1 then read_be 4 (sdf_filter_ie_sdf_filter_id ie) is
                     else (sdf_filter_ie_sdf_filter_id ie, is))
      in (Inr (ie\<lparr>sdf_filter_ie_u1 := u1, sdf_filter_ie_length_of_flow_description := n,
                  sdf_filter_ie_flow_description := fd, sdf_filter_ie_tos_traffic_class := ttc,
                  sdf_filter_ie_security_parameter_index := spi, sdf_filter_ie_flow_label := fl,
                  sdf_filter_ie_sdf_filter_id := i\<rparr>), is))"

lemmas sdf_filter_ie_defs = new_sdf_filter_ie_def sdf_filter_ie_of_tlv_def sdf_filter_ie_to_core_def
  sdf_filter_ie_dump_to_def sdf_filter_ie_load_from_def sdf_u1_of_def

text \<open>The constructor throws exactly for a present member of the wrong size.\<close>

lemma new_sdf_filter_ie_throws:
  "(\<exists>e. new_sdf_filter_ie c = Inl e) \<longleftrightarrow>
     sdf_ttc c \<and> length (sdf_tos_traffic_class c) \<noteq> 2 \<or>
     sdf_spi c \<and> length (sdf_security_parameter_index c) \<noteq> 4 \<or>
     sdf_fl c \<and> length (sdf_flow_label c) \<noteq> 3"
  by (auto simp: new_sdf_filter_ie_def Let_def)

text \<open>
  The contract holds for filters without flow label and identifier; the first would add bytes
  that the length does not count, the second is written as text and read as a number.
\<close>

definition sdf_filter_canon :: "sdf_filter_t \<Rightarrow> bool" where
  "sdf_filter_canon c \<longleftrightarrow> sdf_spare c = 0 \<and> \<not> sdf_fl c \<and> \<not> sdf_bid c \<and> sdf_flow_label c = [] \<and> sdf_sdf_filter_id c = 0 \<and>
     (if sdf_fd c then length (sdf_flow_description c) < 65000 \<and>
          unat (sdf_length_of_flow_description c) = length (sdf_flow_description c)
      else sdf_flow_description c = [] \<and> sdf_length_of_flow_description c = 0) \<and>
     (if sdf_ttc c then length (sdf_tos_traffic_class c) = 2 else sdf_tos_traffic_class c = []) \<and>
     (if sdf_spi c then length (sdf_security_parameter_index c) = 4 else sdf_security_parameter_index c = [])"

definition sdf_filter_body :: "sdf_filter_t \<Rightarrow> bytes" where
  "sdf_filter_body c =
     [sdf_u1_of c, 0]
     @ (if sdf_fd c then be_bytes 2 (sdf_length_of_flow_description c) @ bytes_of_string (sdf_flow_description c) else [])
     @ (if sdf_ttc c then bytes_of_string (sdf_tos_traffic_class c) else [])
     @ (if sdf_spi c then bytes_of_string (sdf_security_parameter_index c) else [])"

lemma sdf_u1_of_bits [simp]:
  "bit (sdf_u1_of c) 0 = sdf_fd c" "bit (sdf_u1_of c) (Suc 0) = sdf_ttc c" "bit (sdf_u1_of c) 2 = sdf_spi c"
  "bit (sdf_u1_of c) 3 = sdf_fl c" "bit (sdf_u1_of c) 4 = sdf_bid c"
  by (simp_all add: sdf_u1_of_def bit_or_iff)

lemma new_sdf_filter_ie_canon:
  assumes "sdf_filter_canon c"
  shows "new_sdf_filter_ie c = Inr \<lparr>sdf_filter_ie_tlv = ie_tlv PFCP_IE_SDF_FILTER (length (sdf_filter_body c)),
    sdf_filter_ie_u1 = sdf_u1_of c,
    sdf_filter_ie_length_of_flow_description = sdf_length_of_flow_description c,
    sdf_filter_ie_flow_description = sdf_flow_description c,
    sdf_filter_ie_tos_traffic_class = sdf_tos_traffic_class c,
    sdf_filter_ie_security_parameter_index = sdf_security_parameter_index c,
    sdf_filter_ie_flow_label = [], sdf_filter_ie_sdf_filter_id = 0\<rparr>"
  using assms
  by (cases "sdf_fd c"; cases "sdf_ttc c"; cases "sdf_spi c")
    (simp_all add: new_sdf_filter_ie_def sdf_filter_canon_def sdf_filter_body_def tlv_defs)

lemma sdf_filter_ie_load_body:
  assumes "sdf_filter_canon c"
  shows "\<exists>ie. sdf_filter_ie_load_from (sdf_filter_ie_of_tlv j t) (stream j (sdf_filter_body c @ rest)) =
    (Inr ie, stream j rest) \<and> sdf_filter_ie_tlv ie = t \<and> sdf_filter_ie_to_core ie = c"
  using assms
  by (cases "sdf_fd c"; cases "sdf_ttc c"; cases "sdf_spi c")
    (simp_all add: sdf_filter_ie_load_from_def sdf_filter_ie_of_tlv_def sdf_filter_ie_to_core_def
      sdf_filter_canon_def sdf_filter_body_def sdf_filter_t.equality del: le_bytes.simps replicate.simps)

interpretation sdf_filter_ie: ie_codec PFCP_IE_SDF_FILTER "\<lambda>c. projr (new_sdf_filter_ie c)" sdf_filter_ie_tlv
    sdf_filter_ie_dump_to sdf_filter_ie_of_tlv sdf_filter_ie_load_from sdf_filter_ie_to_core
    sdf_filter_canon sdf_filter_body
proof unfold_locales
  fix c j rest
  assume c: "sdf_filter_canon c"
  show "sdf_filter_ie_tlv (projr (new_sdf_filter_ie c)) = ie_tlv PFCP_IE_SDF_FILTER (length (sdf_filter_body c))"
    by (simp add: new_sdf_filter_ie_canon [OF c])
  show "sdf_filter_ie_dump_to (projr (new_sdf_filter_ie c)) =
      (Inr (projr (new_sdf_filter_ie c)),
       tlv_dump_to (ie_tlv PFCP_IE_SDF_FILTER (length (sdf_filter_body c))) @ sdf_filter_body c)"
    using c by (simp add: new_sdf_filter_ie_canon sdf_filter_ie_dump_to_def sdf_filter_body_def Let_def
        sdf_filter_canon_def)
  show "\<exists>ie. sdf_filter_ie_load_from (sdf_filter_ie_of_tlv j (ie_tlv PFCP_IE_SDF_FILTER (length (sdf_filter_body c))))
      (stream j (sdf_filter_body c @ rest)) = (Inr ie, stream j rest) \<and>
      sdf_filter_ie_tlv ie = ie_tlv PFCP_IE_SDF_FILTER (length (sdf_filter_body c)) \<and> sdf_filter_ie_to_core ie = c"
    by (rule sdf_filter_ie_load_body [OF c])
  show "0 < length (sdf_filter_body c) \<and> length (sdf_filter_body c) < 2 ^ 16"
    using c by (simp add: sdf_filter_body_def sdf_filter_canon_def split: if_splits)
qed

text \<open>With an identifier that has fewer than four digits the reader runs into the bytes that follow.\<close>

lemma sdf_filter_id_lost:
  "sdf_filter_ie_to_core (projr (fst (read_ie sdf_filter_ie_of_tlv sdf_filter_ie_load_from
     (stream 0 (snd (sdf_filter_ie_dump_to (projr (new_sdf_filter_ie
        (sdf_filter0\<lparr>sdf_bid := True, sdf_sdf_filter_id := 7\<rparr>)))) @ [1, 2, 3, 4])))))
   = sdf_filter0\<lparr>sdf_bid := True, sdf_sdf_filter_id := 0x37010203\<rparr>"
  by code_simp

section \<open>Volume thresholds\<close>

abbreviation (input) vol_u1_tovol :: "u8 \<Rightarrow> bool" where "vol_u1_tovol u \<equiv> bit u 0"
abbreviation (input) vol_u1_ulvol :: "u8 \<Rightarrow> bool" where "vol_u1_ulvol u \<equiv> bit u 1"
abbreviation (input) vol_u1_dlvol :: "u8 \<Rightarrow> bool" where "vol_u1_dlvol u \<equiv> bit u 2"

subsection \<open>\<^verbatim>\<open>pfcp_volume_threshold_ie\<close>\<close>

record pfcp_volume_threshold_ie =
  volume_threshold_ie_tlv :: pfcp_tlv
  volume_threshold_ie_u1 :: u8
  volume_threshold_ie_total_volume :: u64
  volume_threshold_ie_uplink_volume :: u64
  volume_threshold_ie_downlink_volume :: u64

definition volume_threshold_ie_length :: "u8 \<Rightarrow> u16" where
  "volume_threshold_ie_length u1 =
     1 + (if vol_u1_tovol u1 then 8 else 0) + (if vol_u1_ulvol u1 then 8 else 0)
       + (if vol_u1_dlvol u1 then 8 else 0)"

definition new_volume_threshold_ie :: "volume_threshold_t \<Rightarrow> pfcp_volume_threshold_ie" where
  "new_volume_threshold_ie b =
     (let u1 = flag 0 (vth_tovol b) OR flag 1 (vth_ulvol b) OR flag 2 (vth_dlvol b) in
      \<lparr>volume_threshold_ie_tlv = tlv_set_length (volume_threshold_ie_length u1) (tlv_of_type PFCP_IE_VOLUME_THRESHOLD),
       volume_threshold_ie_u1 = u1,
       volume_threshold_ie_total_volume = (if vol_u1_tovol u1 then vth_total_volume b else 0),
       volume_threshold_ie_uplink_volume = (if vol_u1_ulvol u1 then vth_uplink_volume b else 0),
       volume_threshold_ie_downlink_volume = (if vol_u1_dlvol u1 then vth_downlink_volume b else 0)\<rparr>)"

definition volume_threshold_ie_of_tlv :: "u8 \<Rightarrow> pfcp_tlv \<Rightarrow> pfcp_volume_threshold_ie" where
  "volume_threshold_ie_of_tlv j t =
     \<lparr>volume_threshold_ie_tlv = t, volume_threshold_ie_u1 = j,
      volume_threshold_ie_total_volume = le_word (replicate 8 j),
      volume_threshold_ie_uplink_volume = le_word (replicate 8 j),
      volume_threshold_ie_downlink_volume = le_word (replicate 8 j)\<rparr>"

definition volume_threshold_ie_to_core :: "pfcp_volume_threshold_ie \<Rightarrow> volume_threshold_t" where
  "volume_threshold_ie_to_core ie =
     (let u1 = volume_threshold_ie_u1 ie in
      volume_threshold0\<lparr>vth_tovol := vol_u1_tovol u1, vth_ulvol := vol_u1_ulvol u1, vth_dlvol := vol_u1_dlvol u1,
        vth_total_volume := (if vol_u1_tovol u1 then volume_threshold_ie_total_volume ie else 0),
        vth_uplink_volume := (if vol_u1_ulvol u1 then volume_threshold_ie_uplink_volume ie else 0),
        vth_downlink_volume := (if vol_u1_dlvol u1 then volume_threshold_ie_downlink_volume ie else 0)\<rparr>)"

definition volume_threshold_ie_dump_to ::
    "pfcp_volume_threshold_ie \<Rightarrow> (pfcp_exn + pfcp_volume_threshold_ie) \<times> bytes" where
  "volume_threshold_ie_dump_to ie =
     (let u1 = volume_threshold_ie_u1 ie;
          ie = ie\<lparr>volume_threshold_ie_tlv := tlv_set_length (volume_threshold_ie_length u1) (volume_threshold_ie_tlv ie)\<rparr>
      in (Inr ie,
          tlv_dump_to (volume_threshold_ie_tlv ie) @ [u1]
          @ (if vol_u1_tovol u1 then be_bytes 8 (volume_threshold_ie_total_volume ie) else [])
          @ (if vol_u1_ulvol u1 then be_bytes 8 (volume_threshold_ie_uplink_volume ie) else [])
          @ (if vol_u1_dlvol u1 then be_bytes 8 (volume_threshold_ie_downlink_volume ie) else [])))"

text \<open>
  The flags are not read; every volume is stored in the member for the total, and the member it
  belongs to keeps the bytes in network order.
\<close>

definition volume_threshold_ie_load_from ::
    "pfcp_volume_threshold_ie \<Rightarrow> istream \<Rightarrow> (pfcp_exn + pfcp_volume_threshold_ie) \<times> istream" where
  "volume_threshold_ie_load_from ie is =
     (let t = volume_threshold_ie_tlv ie; u1 = volume_threshold_ie_u1 ie in
      if tlv_length t < 1 then (Inl (Tlv_bad_length (tlv_type t) (tlv_length t)), is)
      else
        (let (tot, is) = (if vol_u1_tovol u1 then read_be 8 (volume_threshold_ie_total_volume ie) is
                          else (volume_threshold_ie_total_volume ie, is));
             (ul, is) = (if vol_u1_ulvol u1 then read_raw 8 (volume_threshold_ie_uplink_volume ie) is
                         else (volume_threshold_ie_uplink_volume ie, is));
             tot = (if vol_u1_ulvol u1 then le_word (be_bytes 8 ul) else tot);
             (dl, is) = (if vol_u1_dlvol u1 then read_raw 8 (volume_threshold_ie_downlink_volume ie) is
                         else (volume_threshold_ie_downlink_volume ie, is));
             tot = (if vol_u1_dlvol u1 then le_word (be_bytes 8 dl) else tot)
         in (Inr (ie\<lparr>volume_threshold_ie_total_volume := tot, volume_threshold_ie_uplink_volume := ul,
                     volume_threshold_ie_downlink_volume := dl\<rparr>), is)))"

lemmas volume_threshold_ie_defs = new_volume_threshold_ie_def volume_threshold_ie_of_tlv_def volume_threshold_ie_to_core_def
  volume_threshold_ie_dump_to_def volume_threshold_ie_load_from_def volume_threshold_ie_length_def

text \<open>
  Whatever was sent, an object in zeroed memory reads nothing and yields the empty threshold; the
  content stays in the stream, where the next element is expected.
\<close>

lemma volume_threshold_lost:
  "\<exists>ie bs. read_ie volume_threshold_ie_of_tlv volume_threshold_ie_load_from
      (stream 0 (snd (volume_threshold_ie_dump_to (new_volume_threshold_ie c)) @ rest)) =
      (Inr ie, stream 0 (bs @ rest)) \<and> bs \<noteq> [] \<and> volume_threshold_ie_to_core ie = volume_threshold0"
proof -
  let ?ie = "new_volume_threshold_ie c"
  obtain bs where d: "snd (volume_threshold_ie_dump_to ?ie) =
      tlv_dump_to (\<lparr>tlv_type = ucast PFCP_IE_VOLUME_THRESHOLD, tlv_length = volume_threshold_ie_length (volume_threshold_ie_u1 ?ie), tlv_enterprise_id = 0\<rparr>) @ bs"
    and "bs \<noteq> []"
    by (simp add: volume_threshold_ie_dump_to_def new_volume_threshold_ie_def tlv_defs Let_def)
  moreover have "\<not> volume_threshold_ie_length u < 1" for u
    by (simp add: volume_threshold_ie_length_def)
  ultimately show ?thesis
    by (auto simp: read_ie_def tlv_load_dump volume_threshold_ie_of_tlv_def volume_threshold_ie_load_from_def
        volume_threshold_ie_to_core_def volume_threshold0_def)
qed

subsection \<open>\<^verbatim>\<open>pfcp_subsequent_volume_threshold_ie\<close>\<close>

record pfcp_subsequent_volume_threshold_ie =
  subsequent_volume_threshold_ie_tlv :: pfcp_tlv
  subsequent_volume_threshold_ie_u1 :: u8
  subsequent_volume_threshold_ie_total_volume :: u64
  subsequent_volume_threshold_ie_uplink_volume :: u64
  subsequent_volume_threshold_ie_downlink_volume :: u64

definition subsequent_volume_threshold_ie_length :: "u8 \<Rightarrow> u16" where
  "subsequent_volume_threshold_ie_length u1 =
     1 + (if vol_u1_tovol u1 then 8 else 0) + (if vol_u1_ulvol u1 then 8 else 0)
       + (if vol_u1_dlvol u1 then 8 else 0)"

definition new_subsequent_volume_threshold_ie :: "subsequent_volume_threshold_t \<Rightarrow> pfcp_subsequent_volume_threshold_ie" where
  "new_subsequent_volume_threshold_ie b =
     (let u1 = flag 0 (svth_tovol b) OR flag 1 (svth_ulvol b) OR flag 2 (svth_dlvol b) in
      \<lparr>subsequent_volume_threshold_ie_tlv = tlv_set_length (subsequent_volume_threshold_ie_length u1) (tlv_of_type PFCP_IE_SUBSEQUENT_VOLUME_THRESHOLD),
       subsequent_volume_threshold_ie_u1 = u1,
       subsequent_volume_threshold_ie_total_volume = (if vol_u1_tovol u1 then svth_total_volume b else 0),
       subsequent_volume_threshold_ie_uplink_volume = (if vol_u1_ulvol u1 then svth_uplink_volume b else 0),
       subsequent_volume_threshold_ie_downlink_volume = (if vol_u1_dlvol u1 then svth_downlink_volume b else 0)\<rparr>)"

definition subsequent_volume_threshold_ie_of_tlv :: "u8 \<Rightarrow> pfcp_tlv \<Rightarrow> pfcp_subsequent_volume_threshold_ie" where
  "subsequent_volume_threshold_ie_of_tlv j t =
     \<lparr>subsequent_volume_threshold_ie_tlv = t, subsequent_volume_threshold_ie_u1 = j,
      subsequent_volume_threshold_ie_total_volume = le_word (replicate 8 j),
      subsequent_volume_threshold_ie_uplink_volume = le_word (replicate 8 j),
      subsequent_volume_threshold_ie_downlink_volume = le_word (replicate 8 j)\<rparr>"

definition subsequent_volume_threshold_ie_to_core :: "pfcp_subsequent_volume_threshold_ie \<Rightarrow> subsequent_volume_threshold_t" where
  "subsequent_volume_threshold_ie_to_core ie =
     (let u1 = subsequent_volume_threshold_ie_u1 ie in
      subsequent_volume_threshold0\<lparr>svth_tovol := vol_u1_tovol u1, svth_ulvol := vol_u1_ulvol u1, svth_dlvol := vol_u1_dlvol u1,
        svth_total_volume := (if vol_u1_tovol u1 then subsequent_volume_threshold_ie_total_volume ie else 0),
        svth_uplink_volume := (if vol_u1_ulvol u1 then subsequent_volume_threshold_ie_uplink_volume ie else 0),
        svth_downlink_volume := (if vol_u1_dlvol u1 then subsequent_volume_threshold_ie_downlink_volume ie else 0)\<rparr>)"

definition subsequent_volume_threshold_ie_dump_to ::
    "pfcp_subsequent_volume_threshold_ie \<Rightarrow> (pfcp_exn + pfcp_subsequent_volume_threshold_ie) \<times> bytes" where
  "subsequent_volume_threshold_ie_dump_to ie =
     (let u1 = subsequent_volume_threshold_ie_u1 ie;
          ie = ie\<lparr>subsequent_volume_threshold_ie_tlv := tlv_set_length (subsequent_volume_threshold_ie_length u1) (subsequent_volume_threshold_ie_tlv ie)\<rparr>
      in (Inr ie,
          tlv_dump_to (subsequent_volume_threshold_ie_tlv ie) @ [u1]
          @ (if vol_u1_tovol u1 then be_bytes 8 (subsequent_volume_threshold_ie_total_volume ie) else [])
          @ (if vol_u1_ulvol u1 then be_bytes 8 (subsequent_volume_threshold_ie_uplink_volume ie) else [])
          @ (if vol_u1_dlvol u1 then be_bytes 8 (subsequent_volume_threshold_ie_downlink_volume ie) else [])))"

text \<open>
  The flags are not read; every volume is stored in the member for the total, and the member it
  belongs to keeps the bytes in network order.
\<close>

definition subsequent_volume_threshold_ie_load_from ::
    "pfcp_subsequent_volume_threshold_ie \<Rightarrow> istream \<Rightarrow> (pfcp_exn + pfcp_subsequent_volume_threshold_ie) \<times> istream" where
  "subsequent_volume_threshold_ie_load_from ie is =
     (let t = subsequent_volume_threshold_ie_tlv ie; u1 = subsequent_volume_threshold_ie_u1 ie in
      if tlv_length t < 1 then (Inl (Tlv_bad_length (tlv_type t) (tlv_length t)), is)
      else
        (let (tot, is) = (if vol_u1_tovol u1 then read_be 8 (subsequent_volume_threshold_ie_total_volume ie) is
                          else (subsequent_volume_threshold_ie_total_volume ie, is));
             (ul, is) = (if vol_u1_ulvol u1 then read_raw 8 (subsequent_volume_threshold_ie_uplink_volume ie) is
                         else (subsequent_volume_threshold_ie_uplink_volume ie, is));
             tot = (if vol_u1_ulvol u1 then le_word (be_bytes 8 ul) else tot);
             (dl, is) = (if vol_u1_dlvol u1 then read_raw 8 (subsequent_volume_threshold_ie_downlink_volume ie) is
                         else (subsequent_volume_threshold_ie_downlink_volume ie, is));
             tot = (if vol_u1_dlvol u1 then le_word (be_bytes 8 dl) else tot)
         in (Inr (ie\<lparr>subsequent_volume_threshold_ie_total_volume := tot, subsequent_volume_threshold_ie_uplink_volume := ul,
                     subsequent_volume_threshold_ie_downlink_volume := dl\<rparr>), is)))"

lemmas subsequent_volume_threshold_ie_defs = new_subsequent_volume_threshold_ie_def subsequent_volume_threshold_ie_of_tlv_def subsequent_volume_threshold_ie_to_core_def
  subsequent_volume_threshold_ie_dump_to_def subsequent_volume_threshold_ie_load_from_def subsequent_volume_threshold_ie_length_def

text \<open>
  Whatever was sent, an object in zeroed memory reads nothing and yields the empty threshold; the
  content stays in the stream, where the next element is expected.
\<close>

lemma subsequent_volume_threshold_lost:
  "\<exists>ie bs. read_ie subsequent_volume_threshold_ie_of_tlv subsequent_volume_threshold_ie_load_from
      (stream 0 (snd (subsequent_volume_threshold_ie_dump_to (new_subsequent_volume_threshold_ie c)) @ rest)) =
      (Inr ie, stream 0 (bs @ rest)) \<and> bs \<noteq> [] \<and> subsequent_volume_threshold_ie_to_core ie = subsequent_volume_threshold0"
proof -
  let ?ie = "new_subsequent_volume_threshold_ie c"
  obtain bs where d: "snd (subsequent_volume_threshold_ie_dump_to ?ie) =
      tlv_dump_to (\<lparr>tlv_type = ucast PFCP_IE_SUBSEQUENT_VOLUME_THRESHOLD, tlv_length = subsequent_volume_threshold_ie_length (subsequent_volume_threshold_ie_u1 ?ie), tlv_enterprise_id = 0\<rparr>) @ bs"
    and "bs \<noteq> []"
    by (simp add: subsequent_volume_threshold_ie_dump_to_def new_subsequent_volume_threshold_ie_def tlv_defs Let_def)
  moreover have "\<not> subsequent_volume_threshold_ie_length u < 1" for u
    by (simp add: subsequent_volume_threshold_ie_length_def)
  ultimately show ?thesis
    by (auto simp: read_ie_def tlv_load_dump subsequent_volume_threshold_ie_of_tlv_def subsequent_volume_threshold_ie_load_from_def
        subsequent_volume_threshold_ie_to_core_def subsequent_volume_threshold0_def)
qed

section \<open>Failed rule identifier\<close>

record pfcp_failed_rule_id_ie =
  failed_rule_id_ie_tlv :: pfcp_tlv
  failed_rule_id_ie_u1 :: u8
  failed_rule_id_ie_rule_id_value :: u32

abbreviation (input) FAILED_RULE_ID_TYPE_PDR :: "5 word" where "FAILED_RULE_ID_TYPE_PDR \<equiv> 0"
abbreviation (input) FAILED_RULE_ID_TYPE_FAR :: "5 word" where "FAILED_RULE_ID_TYPE_FAR \<equiv> 1"
abbreviation (input) FAILED_RULE_ID_TYPE_QER :: "5 word" where "FAILED_RULE_ID_TYPE_QER \<equiv> 2"
abbreviation (input) FAILED_RULE_ID_TYPE_URR :: "5 word" where "FAILED_RULE_ID_TYPE_URR \<equiv> 3"
abbreviation (input) FAILED_RULE_ID_TYPE_BAR :: "5 word" where "FAILED_RULE_ID_TYPE_BAR \<equiv> 4"

definition new_failed_rule_id_ie :: "failed_rule_id_t \<Rightarrow> pfcp_failed_rule_id_ie" where
  "new_failed_rule_id_ie b =
     (let ty = frule_rule_id_type b in
      \<lparr>failed_rule_id_ie_tlv =
         tlv_set_length
           (if ty = FAILED_RULE_ID_TYPE_BAR then 1
            else if ty = FAILED_RULE_ID_TYPE_PDR then 2
            else if ty = FAILED_RULE_ID_TYPE_URR \<or> ty = FAILED_RULE_ID_TYPE_FAR \<or> ty = FAILED_RULE_ID_TYPE_QER then 4
            else 0)
           (tlv_of_type PFCP_IE_FAILED_RULE_ID),
       failed_rule_id_ie_u1 = ucast ty,
       failed_rule_id_ie_rule_id_value = frule_rule_id_value b\<rparr>)"

definition failed_rule_id_ie_of_tlv :: "u8 \<Rightarrow> pfcp_tlv \<Rightarrow> pfcp_failed_rule_id_ie" where
  "failed_rule_id_ie_of_tlv j t =
     \<lparr>failed_rule_id_ie_tlv = t, failed_rule_id_ie_u1 = 0, failed_rule_id_ie_rule_id_value = 0\<rparr>"

definition failed_rule_id_ie_to_core :: "pfcp_failed_rule_id_ie \<Rightarrow> failed_rule_id_t" where
  "failed_rule_id_ie_to_core ie =
     failed_rule_id0\<lparr>frule_rule_id_type := ucast (failed_rule_id_ie_u1 ie),
       frule_rule_id_value := failed_rule_id_ie_rule_id_value ie\<rparr>"

text \<open>An exception leaves the header and the flags in the output.\<close>

definition failed_rule_id_ie_dump_to :: "pfcp_failed_rule_id_ie \<Rightarrow> (pfcp_exn + pfcp_failed_rule_id_ie) \<times> bytes" where
  "failed_rule_id_ie_dump_to ie =
     (let t = failed_rule_id_ie_tlv ie; v = failed_rule_id_ie_rule_id_value ie;
          pre = tlv_dump_to t @ [failed_rule_id_ie_u1 ie] in
      if tlv_length t = 1 then (Inr ie, pre @ [ucast v])
      else if tlv_length t = 2 then (Inr ie, pre @ be_bytes 2 (ucast v :: u16))
      else if tlv_length t = 4 then (Inr ie, pre @ be_bytes 4 v)
      else (Inl (Tlv_bad_length (tlv_type t) (tlv_length t)), pre))"

definition failed_rule_id_ie_load_from ::
    "pfcp_failed_rule_id_ie \<Rightarrow> istream \<Rightarrow> (pfcp_exn + pfcp_failed_rule_id_ie) \<times> istream" where
  "failed_rule_id_ie_load_from ie is =
     (let t = failed_rule_id_ie_tlv ie; bad = Inl (Tlv_bad_length (tlv_type t) (tlv_length t)) in
      if tlv_length t \<noteq> 1 then (bad, is)
      else
        (let (u1, is) = read_u8 (failed_rule_id_ie_u1 ie) is;
             ie = ie\<lparr>failed_rule_id_ie_u1 := u1\<rparr>;
             ty = (ucast u1 :: 5 word)
         in if ty = FAILED_RULE_ID_TYPE_BAR then
              (if tlv_length t \<noteq> 1 then (bad, is)
               else (let (b, is) = read_u8 (is_junk is) is
                     in (Inr (ie\<lparr>failed_rule_id_ie_rule_id_value := ucast b\<rparr>), is)))
            else if ty = FAILED_RULE_ID_TYPE_PDR then
              (if tlv_length t \<noteq> 2 then (bad, is)
               else (let (v, is) = read_be 2 (le_word (replicate 2 (is_junk is)) :: u16) is
                     in (Inr (ie\<lparr>failed_rule_id_ie_rule_id_value := ucast v\<rparr>), is)))
            else if ty = FAILED_RULE_ID_TYPE_URR \<or> ty = FAILED_RULE_ID_TYPE_FAR \<or> ty = FAILED_RULE_ID_TYPE_QER then
              (if tlv_length t \<noteq> 4 then (bad, is)
               else (let (v, is) = read_be 4 (le_word (replicate 4 (is_junk is))) is
                     in (Inr (ie\<lparr>failed_rule_id_ie_rule_id_value := v\<rparr>), is)))
            else (Inl (Ie_value (tlv_type t) ''rule_id_type''), is)))"

lemmas failed_rule_id_ie_defs = new_failed_rule_id_ie_def failed_rule_id_ie_of_tlv_def
  failed_rule_id_ie_to_core_def failed_rule_id_ie_dump_to_def failed_rule_id_ie_load_from_def

text \<open>
  Only the identifier of a BAR is read back, and the writer emits one byte more than the length
  says; for the other rules the reader refuses the length.
\<close>

lemma failed_rule_id_load_dump:
  assumes "frule_rule_id_type c = FAILED_RULE_ID_TYPE_BAR" and "frule_spare c = 0" and "frule_rule_id_value c < 256"
  shows "\<exists>ie. read_ie failed_rule_id_ie_of_tlv failed_rule_id_ie_load_from
      (stream j (snd (failed_rule_id_ie_dump_to (new_failed_rule_id_ie c)) @ rest)) = (Inr ie, stream j rest) \<and>
    failed_rule_id_ie_to_core ie = c"
proof -
  have "(ucast (ucast (frule_rule_id_value c) :: u8) :: u32) = frule_rule_id_value c"
    using assms(3) by (simp add: word_unat_eq_iff unsigned_ucast_eq word_less_nat_alt unsigned_take_bit_eq
        take_bit_nat_eq_self)
  then show ?thesis
    using assms(1,2)
    by (simp add: read_ie_def failed_rule_id_ie_defs tlv_defs tlv_load_dump [unfolded new_pfcp_tlv_def]
        failed_rule_id0_def Let_def failed_rule_id_t.equality del: le_bytes.simps replicate.simps)
qed

lemma failed_rule_id_load_refused:
  assumes "tlv_length t \<noteq> 1"
  shows "failed_rule_id_ie_load_from (failed_rule_id_ie_of_tlv j t) is = (Inl (Tlv_bad_length (tlv_type t) (tlv_length t)), is)"
  using assms by (simp add: failed_rule_id_ie_defs Let_def)

section \<open>User identifier\<close>

text \<open>
  IMSI and MSISDN are eight bytes of binary coded digits and their number.  \<open>bcd_pack\<close> is what the
  writer does with either, \<open>bcd_load\<close> what the reader does: it copies as many bytes as the packet
  says into the eight bytes, and looks at the last one.
\<close>

record bcd_t =
  bcd_b :: bytes
  bcd_num_digits :: u32

definition bcd0 :: bcd_t where
  "bcd0 = \<lparr>bcd_b = replicate 8 0, bcd_num_digits = 0\<rparr>"

record user_id_t =
  uid_spare :: "4 word"
  uid_naif :: bool
  uid_msisdnf :: bool
  uid_imeif :: bool
  uid_imsif :: bool
  uid_length_of_imsi :: u8
  uid_imsi :: bcd_t
  uid_length_of_imei :: u8
  uid_imei :: string
  uid_length_of_msisdn :: u8
  uid_msisdn :: bcd_t
  uid_length_of_nai :: u8
  uid_nai :: string

definition user_id0 :: user_id_t where
  "user_id0 = \<lparr>uid_spare = 0, uid_naif = False, uid_msisdnf = False, uid_imeif = False, uid_imsif = False,
     uid_length_of_imsi = 0, uid_imsi = bcd0, uid_length_of_imei = 0, uid_imei = [],
     uid_length_of_msisdn = 0, uid_msisdn = bcd0, uid_length_of_nai = 0, uid_nai = []\<rparr>"

record pfcp_user_id_ie =
  user_id_ie_tlv :: pfcp_tlv
  user_id_ie_u1 :: u8
  user_id_ie_length_of_imsi :: u8
  user_id_ie_imsi :: bcd_t
  user_id_ie_length_of_imei :: u8
  user_id_ie_imei :: string
  user_id_ie_length_of_msisdn :: u8
  user_id_ie_msisdn :: bcd_t
  user_id_ie_length_of_nai :: u8
  user_id_ie_nai :: string

abbreviation (input) uid_u1_imsif :: "u8 \<Rightarrow> bool" where "uid_u1_imsif u \<equiv> bit u 0"
abbreviation (input) uid_u1_imeif :: "u8 \<Rightarrow> bool" where "uid_u1_imeif u \<equiv> bit u 1"
abbreviation (input) uid_u1_msisdnf :: "u8 \<Rightarrow> bool" where "uid_u1_msisdnf u \<equiv> bit u 2"
abbreviation (input) uid_u1_naif :: "u8 \<Rightarrow> bool" where "uid_u1_naif u \<equiv> bit u 3"

definition new_user_id_ie :: "user_id_t \<Rightarrow> pfcp_user_id_ie" where
  "new_user_id_ie b =
     (let u1 = flag 3 (uid_naif b) OR flag 2 (uid_msisdnf b) OR flag 1 (uid_imeif b) OR flag 0 (uid_imsif b);
          t = tlv_set_length 1 (tlv_of_type PFCP_IE_USER_ID);
          t = (if uid_imsif b then tlv_add_length (1 + ucast (uid_length_of_imsi b)) t else t);
          t = (if uid_imeif b then tlv_add_length (1 + ucast (uid_length_of_imei b)) t else t);
          t = (if uid_msisdnf b then tlv_add_length (1 + ucast (uid_length_of_msisdn b)) t else t);
          t = (if uid_naif b then tlv_add_length (1 + ucast (uid_length_of_nai b)) t else t)
      in \<lparr>user_id_ie_tlv = t, user_id_ie_u1 = u1,
          user_id_ie_length_of_imsi = (if uid_imsif b then uid_length_of_imsi b else 0),
          user_id_ie_imsi = (if uid_imsif b then uid_imsi b else bcd0),
          user_id_ie_length_of_imei = (if uid_imeif b then uid_length_of_imei b else 0),
          user_id_ie_imei = (if uid_imeif b then uid_imei b else []),
          user_id_ie_length_of_msisdn = (if uid_msisdnf b then uid_length_of_msisdn b else 0),
          user_id_ie_msisdn = (if uid_msisdnf b then uid_msisdn b else bcd0),
          user_id_ie_length_of_nai = (if uid_naif b then uid_length_of_nai b else 0),
          user_id_ie_nai = (if uid_naif b then uid_nai b else [])\<rparr>)"

definition user_id_ie_of_tlv :: "u8 \<Rightarrow> pfcp_tlv \<Rightarrow> pfcp_user_id_ie" where
  "user_id_ie_of_tlv j t =
     \<lparr>user_id_ie_tlv = t, user_id_ie_u1 = j, user_id_ie_length_of_imsi = j, user_id_ie_imsi = bcd0,
      user_id_ie_length_of_imei = j, user_id_ie_imei = [], user_id_ie_length_of_msisdn = j,
      user_id_ie_msisdn = bcd0, user_id_ie_length_of_nai = j, user_id_ie_nai = []\<rparr>"

text \<open>The target of the conversion is a zero initialised value in every call of the source.\<close>

definition user_id_ie_to_core :: "pfcp_user_id_ie \<Rightarrow> user_id_t" where
  "user_id_ie_to_core ie =
     (let u1 = user_id_ie_u1 ie;
          b = user_id0\<lparr>uid_naif := uid_u1_naif u1, uid_msisdnf := uid_u1_msisdnf u1,
                uid_imeif := uid_u1_imeif u1, uid_imsif := uid_u1_imsif u1\<rparr>;
          b = (if uid_u1_imsif u1 then b\<lparr>uid_length_of_imsi := user_id_ie_length_of_imsi ie,
                 uid_imsi := user_id_ie_imsi ie\<rparr> else b);
          b = (if uid_u1_imeif u1 then b\<lparr>uid_length_of_imei := user_id_ie_length_of_imei ie,
                 uid_imei := user_id_ie_imei ie\<rparr> else b);
          b = (if uid_u1_msisdnf u1 then b\<lparr>uid_length_of_msisdn := user_id_ie_length_of_msisdn ie,
                 uid_msisdn := user_id_ie_msisdn ie\<rparr> else b)
      in if uid_u1_naif u1 then b\<lparr>uid_length_of_nai := user_id_ie_length_of_nai ie,
           uid_nai := user_id_ie_nai ie\<rparr> else b)"

definition bcd_pack :: "bcd_t \<Rightarrow> u8 \<times> bcd_t" where
  "bcd_pack m =
     (let m = (if bcd_num_digits m > 15 then m\<lparr>bcd_num_digits := 15\<rparr> else m);
          n = unat (bcd_num_digits m);
          l = n div 2
      in if odd n then (of_nat (l + 1), m\<lparr>bcd_b := (bcd_b m)[l := bcd_b m ! l OR 0xf0]\<rparr>)
         else (of_nat l, m))"

definition bcd_load :: "u8 \<Rightarrow> bcd_t \<Rightarrow> istream \<Rightarrow> (pfcp_exn + u8 \<times> bcd_t) \<times> istream" where
  "bcd_load old m is =
     (let (l, is) = read_u8 old is; n = unat l in
      if n = 0 \<or> 8 < n then (Inl Undefined_behaviour, is)
      else
        (let (bs, is) = is_read (take n (bcd_b m)) is;
             b = bs @ drop n (bcd_b m);
             d = ucast l * 2 :: u32;
             d = (if b ! (n - 1) AND 0xf0 = 0xf0 then d - 1 else d)
         in (Inr (l, \<lparr>bcd_b = b, bcd_num_digits = d\<rparr>), is)))"

text \<open>The lengths are added to those that the constructor has counted already.\<close>

definition user_id_ie_dump_to :: "pfcp_user_id_ie \<Rightarrow> (pfcp_exn + pfcp_user_id_ie) \<times> bytes" where
  "user_id_ie_dump_to ie =
     (let u1 = user_id_ie_u1 ie;
          ie = (if uid_u1_imsif u1 then
                  (let (l, m) = bcd_pack (user_id_ie_imsi ie) in
                   ie\<lparr>user_id_ie_length_of_imsi := l, user_id_ie_imsi := m,
                      user_id_ie_tlv := tlv_add_length (1 + ucast l) (user_id_ie_tlv ie)\<rparr>) else ie);
          ie = (if uid_u1_imeif u1 then
                  ie\<lparr>user_id_ie_tlv := tlv_add_length (1 + ucast (user_id_ie_length_of_imei ie)) (user_id_ie_tlv ie)\<rparr>
                else ie);
          ie = (if uid_u1_msisdnf u1 then
                  (let (l, m) = bcd_pack (user_id_ie_msisdn ie) in
                   ie\<lparr>user_id_ie_length_of_msisdn := l, user_id_ie_msisdn := m,
                      user_id_ie_tlv := tlv_add_length (1 + ucast l) (user_id_ie_tlv ie)\<rparr>) else ie);
          ie = (if uid_u1_naif u1 then
                  ie\<lparr>user_id_ie_tlv := tlv_add_length (1 + ucast (user_id_ie_length_of_nai ie)) (user_id_ie_tlv ie)\<rparr>
                else ie)
      in (Inr ie,
          tlv_dump_to (user_id_ie_tlv ie) @ [u1]
          @ (if uid_u1_imsif u1 then user_id_ie_length_of_imsi ie
               # take (unat (user_id_ie_length_of_imsi ie)) (bcd_b (user_id_ie_imsi ie)) else [])
          @ (if uid_u1_imeif u1 then user_id_ie_length_of_imei ie # bytes_of_string (user_id_ie_imei ie) else [])
          @ (if uid_u1_msisdnf u1 then user_id_ie_length_of_msisdn ie
               # take (unat (user_id_ie_length_of_msisdn ie)) (bcd_b (user_id_ie_msisdn ie)) else [])
          @ (if uid_u1_naif u1 then user_id_ie_length_of_nai ie # bytes_of_string (user_id_ie_nai ie) else [])))"

definition user_id_ie_load_from :: "pfcp_user_id_ie \<Rightarrow> istream \<Rightarrow> (pfcp_exn + pfcp_user_id_ie) \<times> istream" where
  "user_id_ie_load_from ie is =
     (let t = user_id_ie_tlv ie in
      if tlv_length t \<noteq> 1 then (Inl (Tlv_bad_length (tlv_type t) (tlv_length t)), is)
      else
        (let (u1, is) = read_u8 (user_id_ie_u1 ie) is;
             ie = ie\<lparr>user_id_ie_u1 := u1\<rparr>;
             (r, is) = (if uid_u1_imsif u1 then bcd_load (user_id_ie_length_of_imsi ie) (user_id_ie_imsi ie) is
                        else (Inr (user_id_ie_length_of_imsi ie, user_id_ie_imsi ie), is))
         in case r of Inl e \<Rightarrow> (Inl e, is)
          | Inr (l, m) \<Rightarrow>
            (let m = (if uid_u1_imsif u1 \<and> 15 < bcd_num_digits m then m\<lparr>bcd_num_digits := 15\<rparr> else m);
                 ie = ie\<lparr>user_id_ie_length_of_imsi := l, user_id_ie_imsi := m\<rparr>;
                 (l, is) = (if uid_u1_imeif u1 then read_u8 (user_id_ie_length_of_imei ie) is
                            else (user_id_ie_length_of_imei ie, is));
                 (v, is) = (if uid_u1_imeif u1 then read_string (unat l) is else (user_id_ie_imei ie, is));
                 ie = ie\<lparr>user_id_ie_length_of_imei := l, user_id_ie_imei := v\<rparr>;
                 (r, is) = (if uid_u1_msisdnf u1
                            then bcd_load (user_id_ie_length_of_msisdn ie) (user_id_ie_msisdn ie) is
                            else (Inr (user_id_ie_length_of_msisdn ie, user_id_ie_msisdn ie), is))
             in case r of Inl e \<Rightarrow> (Inl e, is)
              | Inr (l, m) \<Rightarrow>
                (let ie = ie\<lparr>user_id_ie_length_of_msisdn := l, user_id_ie_msisdn := m\<rparr>;
                     (l, is) = (if uid_u1_naif u1 then read_u8 (user_id_ie_length_of_nai ie) is
                                else (user_id_ie_length_of_nai ie, is));
                     (v, is) = (if uid_u1_naif u1 then read_string (unat l) is else (user_id_ie_nai ie, is))
                 in (Inr (ie\<lparr>user_id_ie_length_of_nai := l, user_id_ie_nai := v\<rparr>), is)))))"

text \<open>An element with any content is refused.\<close>

lemma user_id_load_refused:
  assumes "tlv_length t \<noteq> 1"
  shows "user_id_ie_load_from (user_id_ie_of_tlv j t) is = (Inl (Tlv_bad_length (tlv_type t) (tlv_length t)), is)"
  using assms by (simp add: user_id_ie_load_from_def user_id_ie_of_tlv_def)

text \<open>
  With the one length that is accepted, a byte of the packet decides how far the array of the
  IMSI is overrun.
\<close>

lemma user_id_load_overrun:
  assumes "tlv_length t = 1" and "bit u 0" and "8 < l"
  shows "user_id_ie_load_from (user_id_ie_of_tlv j t) (stream j (u # l # rest)) = (Inl Undefined_behaviour, stream j rest)"
  using assms by (simp add: user_id_ie_load_from_def user_id_ie_of_tlv_def bcd_load_def word_less_nat_alt Let_def)

end
