(* ===== verification/Ie_Node_Id.thy ===== *)
theory Ie_Node_Id
  imports Ie_Stream
begin

text \<open>
  The node identifier of \<^verbatim>\<open>src/oai/pfcp/3gpp_29.244.hpp\<close> and the two loops that convert a domain
  name between its dotted and its length prefixed form, \<^verbatim>\<open>pfcp_ie::string_to_dotted\<close> and
  \<^verbatim>\<open>pfcp_ie::dotted_to_string\<close>.  Both loops count in integers that wrap around, so they are
  partial functions: \<^term>\<open>None\<close> is a loop that does not end.  The lemmas characterise when the
  first one ends, give a sufficient and a violating condition for the second one, and show that
  the two are inverse on names of fewer than 256 characters with labels of at most 63.
\<close>

section \<open>From a name to length prefixed labels\<close>

text \<open>\<^verbatim>\<open>str[i]\<close> of a string, whose end is a zero byte.\<close>

definition str_at :: "bytes \<Rightarrow> nat \<Rightarrow> u8" where
  "str_at str i = (if i < length str then str ! i else 0)"

abbreviation (input) dot_char :: u8 where "dot_char \<equiv> 46"

text \<open>
  The loop over \<^verbatim>\<open>offset\<close>, with the index \<open>li\<close> of \<^verbatim>\<open>*last_size\<close>, \<^verbatim>\<open>word_length\<close> and the array
  \<^verbatim>\<open>value\<close>.
\<close>

partial_function (option) string_to_dotted_loop ::
    "bytes \<Rightarrow> u8 \<Rightarrow> nat \<Rightarrow> u8 \<Rightarrow> bytes \<Rightarrow> (nat \<times> u8 \<times> bytes) option" where
  "string_to_dotted_loop str offset li wl va =
     (if str_at str (unat offset) = 0 then Some (li, wl, va)
      else if str_at str (unat offset) = dot_char
      then string_to_dotted_loop str (offset + 1) (unat offset + 1) 0 (va[li := wl])
      else string_to_dotted_loop str (offset + 1) li (wl + 1)
             (va[unat offset + 1 := str_at str (unat offset)]))"

definition string_to_dotted :: "u8 \<Rightarrow> bytes \<Rightarrow> bytes option" where
  "string_to_dotted j str =
     map_option (\<lambda>(li, wl, va). va[li := wl])
       (string_to_dotted_loop str 0 0 0 (replicate (length str + 1) j))"

section \<open>From length prefixed labels to a name\<close>

text \<open>
  A character is signed.  The sum of offset and character is compared with the length after
  conversion to \<^verbatim>\<open>size_t\<close>, so a negative sum is larger than any length; a negative number of
  characters to append is beyond the capacity of a string.  The byte behind the last character
  is zero.
\<close>

partial_function (option) dotted_to_string_loop ::
    "bytes \<Rightarrow> u16 \<Rightarrow> bytes \<Rightarrow> bool \<Rightarrow> (pfcp_exn + bytes \<times> bool) option" where
  "dotted_to_string_loop dot offset no_dot result =
     (if \<not> unat offset < length dot then Some (Inr (no_dot, result))
      else if sint (dot ! unat offset) < 64 then
        (if 0 \<le> int (unat offset) + sint (dot ! unat offset) \<and>
            int (unat offset) + sint (dot ! unat offset) \<le> int (length dot)
         then if sint (dot ! unat offset) < 0 then Some (Inl Length_error)
           else dotted_to_string_loop dot (offset + 1 + scast (dot ! unat offset))
                  (no_dot @ (if offset \<noteq> 0 then [dot_char] else [])
                   @ take (nat (sint (dot ! unat offset))) (drop (unat offset + 1) (dot @ [0])))
                  result
         else dotted_to_string_loop dot (offset + 1 + scast (dot ! unat offset)) no_dot result)
      else dotted_to_string_loop dot (offset + 1) (no_dot @ [dot ! unat offset]) False)"

definition dotted_to_string :: "bytes \<Rightarrow> (pfcp_exn + bytes \<times> bool) option" where
  "dotted_to_string dot = dotted_to_string_loop dot 0 [] True"

section \<open>Labels\<close>

text \<open>The two forms of a name as functions of its labels.\<close>

fun join_labels :: "bytes list \<Rightarrow> bytes" where
  "join_labels [] = []"
| "join_labels [w] = w"
| "join_labels (w # ws) = w @ [dot_char] @ join_labels ws"

definition encode_labels :: "bytes list \<Rightarrow> bytes" where
  "encode_labels ws = concat (map (\<lambda>w. of_nat (length w) # w) ws)"

definition label_ok :: "bytes \<Rightarrow> bool" where
  "label_ok w \<longleftrightarrow> length w < 64 \<and> (\<forall>c \<in> set w. c \<noteq> dot_char \<and> c \<noteq> 0)"

lemma encode_labels_simps [simp]:
  "encode_labels [] = []"
  "encode_labels (w # ws) = of_nat (length w) # w @ encode_labels ws"
  by (simp_all add: encode_labels_def)

lemma length_encode_labels: "ws \<noteq> [] \<Longrightarrow> length (encode_labels ws) = length (join_labels ws) + 1"
  by (induction ws rule: join_labels.induct) auto

section \<open>The first loop\<close>

text \<open>One run over a label: the characters are copied behind the place of their number.\<close>

lemma string_to_dotted_loop_label:
  assumes "drop (unat off) str = w @ rest" and "unat off + length w < 256"
    and "\<forall>c \<in> set w. c \<noteq> dot_char \<and> c \<noteq> 0"
    and "length va = length str + 1"
  shows "string_to_dotted_loop str off li wl va =
    string_to_dotted_loop str (off + of_nat (length w)) li (wl + of_nat (length w))
      (take (unat off + 1) va @ w @ drop (unat off + 1 + length w) va)"
  using assms
proof (induction w arbitrary: off wl va)
  case Nil
  then show ?case by simp
next
  case (Cons c w)
  have lt: "unat off < length str"
    using Cons.prems(1) by (metis drop_all not_le append_is_Nil_conv list.discI)
  then have c: "str_at str (unat off) = c"
    using lt nth_via_drop [of "unat off" str c] Cons.prems(1) by (simp add: str_at_def)
  have suc: "unat (off + 1) = Suc (unat off)"
    using Cons.prems(2) by (simp add: unat_word_ariths)
  have "drop (unat (off + 1)) str = w @ rest"
    using Cons.prems(1) lt by (simp add: suc) (metis Cons_nth_drop_Suc list.inject)
  then have "string_to_dotted_loop str (off + 1) li (wl + 1) (va[Suc (unat off) := c]) =
    string_to_dotted_loop str (off + 1 + of_nat (length w)) li (wl + 1 + of_nat (length w))
      (take (Suc (Suc (unat off))) (va[Suc (unat off) := c]) @ w
       @ drop (Suc (Suc (unat off)) + length w) (va[Suc (unat off) := c]))"
    using Cons.IH [of "off + 1" "va[Suc (unat off) := c]" "wl + 1"] Cons.prems suc by simp
  moreover have "string_to_dotted_loop str off li wl va =
      string_to_dotted_loop str (off + 1) li (wl + 1) (va[Suc (unat off) := c])"
    using Cons.prems(3) by (subst string_to_dotted_loop.simps) (simp add: c)
  ultimately show ?case
    using lt Cons.prems(4)
    by (simp add: take_Suc_conv_app_nth add.assoc)
qed

lemma string_to_dotted_loop_labels:
  assumes "ws \<noteq> []" and "drop (unat off) str = join_labels ws" and "length str < 256" and "unat off \<le> length str"
    and "\<forall>w \<in> set ws. \<forall>c \<in> set w. c \<noteq> dot_char \<and> c \<noteq> 0"
    and "length va = length str + 1"
  shows "\<exists>li wl va'. string_to_dotted_loop str off (unat off) 0 va = Some (li, wl, va') \<and>
    va'[li := wl] = take (unat off) va @ encode_labels ws"
  using assms
proof (induction ws arbitrary: off va rule: join_labels.induct)
  case 1
  then show ?case by simp
next
  case (2 w)
  have len: "unat off + length w = length str"
    using 2(2,4) by (metis join_labels.simps(2) length_drop le_add_diff_inverse)
  then have u: "unat (off + of_nat (length w)) = length str"
    using 2 by (simp add: unat_word_ariths unat_of_nat)
  have "string_to_dotted_loop str off (unat off) 0 va =
      string_to_dotted_loop str (off + of_nat (length w)) (unat off) (0 + of_nat (length w))
        (take (unat off + 1) va @ w @ drop (unat off + 1 + length w) va)"
    using 2 len by (intro string_to_dotted_loop_label [where rest = "[]"]) auto
  also have "\<dots> = Some (unat off, of_nat (length w), take (unat off + 1) va @ w)"
    using len 2 by (subst string_to_dotted_loop.simps) (simp add: u str_at_def)
  finally show ?case
    using 2 by (simp add: take_Suc_conv_app_nth list_update_append)
next
  case (3 w v vs)
  have len: "unat off + length w + 1 + length (join_labels (v # vs)) = length str"
    using 3(5) arg_cong [OF 3(3), of length, unfolded length_drop] by simp
  then have u: "unat (off + of_nat (length w)) = unat off + length w"
    using 3 by (simp add: unat_word_ariths unat_of_nat)
  then have u1: "unat (off + of_nat (length w) + 1) = unat off + length w + 1"
    using 3 len by (simp add: unat_word_ariths)
  let ?va = "take (unat off + 1) va @ w @ drop (unat off + 1 + length w) va"
  have d: "drop (unat off + length w) str = dot_char # join_labels (v # vs)"
    using arg_cong [OF 3(3), of "drop (length w)"] by (simp add: add.commute)
  then have "str_at str (unat off + length w) = dot_char"
    using len nth_via_drop [OF d] by (simp add: str_at_def)
  moreover have "string_to_dotted_loop str off (unat off) 0 va =
      string_to_dotted_loop str (off + of_nat (length w)) (unat off) (0 + of_nat (length w)) ?va"
    using 3 len by (intro string_to_dotted_loop_label [where rest = "dot_char # join_labels (v # vs)"]) auto
  ultimately have step: "string_to_dotted_loop str off (unat off) 0 va =
      string_to_dotted_loop str (off + of_nat (length w) + 1) (unat (off + of_nat (length w) + 1)) 0
        (?va[unat off := of_nat (length w)])"
    by (simp add: string_to_dotted_loop.simps [of str "off + of_nat (length w)"] u u1)
  have "drop (unat (off + of_nat (length w) + 1)) str = join_labels (v # vs)"
    unfolding u1 using arg_cong [OF d, of "drop 1"] by (simp add: ac_simps)
  then have "\<exists>li wl va'. string_to_dotted_loop str (off + of_nat (length w) + 1)
      (unat (off + of_nat (length w) + 1)) 0 (?va[unat off := of_nat (length w)]) = Some (li, wl, va') \<and>
      va'[li := wl] = take (unat (off + of_nat (length w) + 1)) (?va[unat off := of_nat (length w)]) @ encode_labels (v # vs)"
    using 3 len u1 by (intro 3(1)) auto
  moreover have "take (unat (off + of_nat (length w) + 1)) (?va[unat off := of_nat (length w)]) =
      take (unat off) va @ of_nat (length w) # w"
    using 3 len by (simp add: u1 take_Suc_conv_app_nth list_update_append)
  ultimately show ?case
    by (simp add: step)
qed

text \<open>The first loop computes the length prefixed form of every name of fewer than 256 characters.\<close>

lemma string_to_dotted_labels:
  assumes "ws \<noteq> []" and "\<forall>w \<in> set ws. \<forall>c \<in> set w. c \<noteq> dot_char \<and> c \<noteq> 0" and "length (join_labels ws) < 256"
  shows "string_to_dotted j (join_labels ws) = Some (encode_labels ws)"
  using string_to_dotted_loop_labels [of ws 0 "join_labels ws" "replicate (length (join_labels ws) + 1) j"] assms
  by (auto simp: string_to_dotted_def simp del: replicate.simps)

text \<open>It ends exactly when one of the first 256 positions holds a zero byte.\<close>

lemma string_to_dotted_loop_ends:
  "str_at str (unat off + k) = 0 \<Longrightarrow> unat off + k < 256 \<Longrightarrow> string_to_dotted_loop str off li wl va \<noteq> None"
proof (induction k arbitrary: off li wl va)
  case 0
  then show ?case by (simp add: string_to_dotted_loop.simps)
next
  case (Suc k)
  then have "unat (off + 1) = Suc (unat off)"
    by (simp add: unat_word_ariths)
  with Suc show ?case
    by (subst string_to_dotted_loop.simps) (simp del: not_None_eq)
qed

lemma string_to_dotted_loop_runs:
  "string_to_dotted_loop str off li wl va = Some r \<Longrightarrow> \<exists>i < 256. str_at str i = 0"
proof (erule string_to_dotted_loop.raw_induct
    [where P = "\<lambda>str off li wl va r. \<exists>i < 256. str_at str i = 0", rotated])
  fix f :: "bytes \<Rightarrow> u8 \<Rightarrow> nat \<Rightarrow> u8 \<Rightarrow> bytes \<Rightarrow> (nat \<times> u8 \<times> bytes) option" and str :: bytes and off li wl va r
  assume IH: "\<And>str off li wl va r. f str off li wl va = Some r \<Longrightarrow> \<exists>i < 256. str_at str i = 0"
    and run: "(if str_at str (unat off) = 0 then Some (li, wl, va)
      else if str_at str (unat off) = dot_char then f str (off + 1) (unat off + 1) 0 (va[li := wl])
      else f str (off + 1) li (wl + 1) (va[unat off + 1 := str_at str (unat off)])) = Some r"
  show "\<exists>i < 256. str_at str i = 0"
  proof (cases "str_at str (unat off) = 0")
    case True
    then show ?thesis using unsigned_less [of off] by fastforce
  next
    case False
    with run show ?thesis by (auto split: if_splits dest!: IH)
  qed
qed

lemma string_to_dotted_ends_iff: "string_to_dotted j str \<noteq> None \<longleftrightarrow> (\<exists>i < 256. str_at str i = 0)"
  using string_to_dotted_loop_runs [of str 0 0 0 "replicate (length str + 1) j"]
    string_to_dotted_loop_ends [of str 0 _ 0 0 "replicate (length str + 1) j"]
  by (fastforce simp: string_to_dotted_def simp del: replicate.simps)

section \<open>The second loop\<close>

text \<open>On length prefixed labels of at most 63 characters it appends the labels, separated by dots.\<close>

lemma sint_plain: "b < 0x80 \<Longrightarrow> sint (b :: u8) = int (unat b) \<and> (scast b :: u16) = ucast b"
proof -
  assume "b < 0x80"
  then have "uint b < 128" by (simp add: word_less_def)
  moreover have "- 128 \<le> uint b"
    using unsigned_greater_eq [of b] by (rule order_trans [rotated]) simp
  ultimately have "sint b = uint b"
    by (simp add: sint_uint signed_take_bit_int_eq_self_iff)
  moreover from this have "(scast b :: u16) = ucast b"
    by (metis of_int_sint of_int_uint)
  ultimately show ?thesis by simp
qed

lemma sint_of_label:
  assumes "n < 64"
  shows "sint (of_nat n :: u8) = int n" and "(scast (of_nat n :: u8) :: u16) = of_nat n"
proof -
  have u: "unat (of_nat n :: u8) = n"
    using assms by (simp add: unat_of_nat)
  then have "(of_nat n :: u8) < 0x80"
    using assms by (simp add: word_less_nat_alt)
  from sint_plain [OF this] u show "sint (of_nat n :: u8) = int n" "(scast (of_nat n :: u8) :: u16) = of_nat n"
    by (metis, metis of_nat_unat)
qed

definition joined :: "bool \<Rightarrow> bytes list \<Rightarrow> bytes" where
  "joined first ws = (if ws = [] then [] else (if first then [] else [dot_char]) @ join_labels ws)"

lemma joined_simps [simp]:
  "joined f [] = []"
  "joined f (w # ws) = (if f then [] else [dot_char]) @ w @ joined False ws"
  by (cases ws; simp add: joined_def)+

lemma dotted_to_string_loop_labels:
  assumes "drop (unat off) dot = encode_labels ws" and "length dot < 2 ^ 16" and "unat off \<le> length dot"
    and "\<forall>w \<in> set ws. length w < 64"
  shows "dotted_to_string_loop dot off acc res = Some (Inr (acc @ joined (off = 0) ws, res))"
  using assms
proof (induction ws arbitrary: off acc)
  case Nil
  then show ?case by (simp add: dotted_to_string_loop.simps)
next
  case (Cons w ws)
  let ?off = "off + 1 + of_nat (length w)"
  have len: "unat off + 1 + length w + length (encode_labels ws) = length dot"
    using Cons.prems(3) arg_cong [OF Cons.prems(1), of length, unfolded length_drop] by simp
  then have u: "unat ?off = unat off + 1 + length w"
    using Cons.prems(2) by (simp add: unat_word_ariths unat_of_nat)
  then have nz: "?off \<noteq> 0"
    by (metis unsigned_0 add_is_0 one_neq_zero)
  have c: "dot ! unat off = of_nat (length w)"
    using nth_via_drop Cons.prems(1) by fastforce
  have "drop (Suc (unat off)) dot = w @ encode_labels ws"
    using arg_cong [OF Cons.prems(1), of "drop 1"] by simp
  then have "take (length w) (drop (unat off + 1) (dot @ [0])) = w"
    using len by simp
  moreover have "dotted_to_string_loop dot ?off (acc @ (if off \<noteq> 0 then [dot_char] else []) @ w) res =
      Some (Inr ((acc @ (if off \<noteq> 0 then [dot_char] else []) @ w) @ joined False ws, res))"
  proof -
    have "drop (unat ?off) dot = encode_labels ws"
      unfolding u using arg_cong [OF Cons.prems(1), of "drop (1 + length w)"] by (simp add: ac_simps)
    then show ?thesis
      using Cons.IH [of ?off "acc @ (if off \<noteq> 0 then [dot_char] else []) @ w"] Cons.prems len u nz by simp
  qed
  moreover have "int (unat off) + int (length w) \<le> int (length dot)"
    using len by linarith
  ultimately show ?case
    using len Cons.prems(4)
    by (subst dotted_to_string_loop.simps) (simp add: c sint_of_label)
qed

text \<open>The two loops are inverse to each other.\<close>

lemma dotted_to_string_labels:
  assumes "ws \<noteq> []" and "\<forall>w \<in> set ws. length w < 64" and "length (encode_labels ws) < 2 ^ 16"
  shows "dotted_to_string (encode_labels ws) = Some (Inr (join_labels ws, True))"
  using dotted_to_string_loop_labels [of 0 "encode_labels ws" ws "[]" True] assms
  by (simp add: dotted_to_string_def joined_def)

text \<open>It ends on every input of plain characters that is short enough for its offset not to wrap.\<close>

lemma dotted_to_string_loop_ends:
  assumes "\<forall>c \<in> set dot. c < 0x80" and "length dot + 128 < 2 ^ 16"
  shows "\<exists>r. dotted_to_string_loop dot off acc res = Some (Inr r)"
proof (induction "length dot - unat off" arbitrary: off acc res rule: less_induct)
  case less
  show ?case
  proof (cases "unat off < length dot")
    case False
    then show ?thesis by (simp add: dotted_to_string_loop.simps)
  next
    case True
    let ?c = "dot ! unat off"
    have c: "sint ?c = int (unat ?c)" "(scast ?c :: u16) = ucast ?c" and "unat ?c < 128"
      using assms(1) True sint_plain [of ?c] by (auto simp: word_less_nat_alt)
    moreover from this True assms(2)
    have "unat (off + 1 + ucast ?c) = unat off + 1 + unat ?c" "unat (off + 1) = unat off + 1"
      by (simp_all add: unat_word_ariths unsigned_ucast_eq take_bit_nat_eq_self)
    ultimately have "\<exists>r. dotted_to_string_loop dot (off + 1 + scast ?c) acc' res' = Some (Inr r)"
      "\<exists>r. dotted_to_string_loop dot (off + 1) acc' res' = Some (Inr r)" for acc' res'
      using True by (intro less; simp)+
    then show ?thesis
      using True c by (subst dotted_to_string_loop.simps) simp
  qed
qed

text \<open>A first byte of 255 is the length minus one: the offset does not move and the loop never ends.\<close>

lemma dotted_to_string_loop_runs:
  "dotted_to_string_loop dot off acc res = Some r \<Longrightarrow> \<not> (off = 0 \<and> dot \<noteq> [] \<and> hd dot = 0xff)"
proof (erule dotted_to_string_loop.raw_induct
    [where P = "\<lambda>dot off acc res r. \<not> (off = 0 \<and> dot \<noteq> [] \<and> hd dot = 0xff)", rotated])
  fix f :: "bytes \<Rightarrow> u16 \<Rightarrow> bytes \<Rightarrow> bool \<Rightarrow> (pfcp_exn + bytes \<times> bool) option" and dot off acc res r
  assume IH: "\<And>dot off acc res r. f dot off acc res = Some r \<Longrightarrow> \<not> (off = 0 \<and> dot \<noteq> [] \<and> hd dot = 0xff)"
    and run: "(if \<not> unat off < length dot then Some (Inr (acc, res))
      else if sint (dot ! unat off) < 64 then
        (if 0 \<le> int (unat off) + sint (dot ! unat off) \<and>
            int (unat off) + sint (dot ! unat off) \<le> int (length dot)
         then if sint (dot ! unat off) < 0 then Some (Inl Length_error)
           else f dot (off + 1 + scast (dot ! unat off))
                  (acc @ (if off \<noteq> 0 then [dot_char] else [])
                   @ take (nat (sint (dot ! unat off))) (drop (unat off + 1) (dot @ [0])))
                  res
         else f dot (off + 1 + scast (dot ! unat off)) acc res)
      else f dot (off + 1) (acc @ [dot ! unat off]) False) = Some r"
  have m: "sint (0xff :: u8) = - 1" "(scast (0xff :: u8) :: u16) = - 1"
    by code_simp+
  show "\<not> (off = 0 \<and> dot \<noteq> [] \<and> hd dot = 0xff)"
  proof
    assume "off = 0 \<and> dot \<noteq> [] \<and> hd dot = 0xff"
    then have "f dot 0 acc res = Some r" and "dot \<noteq> []" "hd dot = 0xff"
      using run by (auto simp: hd_conv_nth m)
    with IH show False by blast
  qed
qed

lemma dotted_to_string_diverges: "dotted_to_string (0xff # bs) = None"
  using dotted_to_string_loop_runs [of "0xff # bs" 0 "[]" True] by (force simp: dotted_to_string_def)

text \<open>A byte above 127 behind the start is a negative number of characters to append.\<close>

lemma dotted_to_string_throws:
  assumes "length w < 64" and "\<not> b < 0x80" and "0 \<le> int (length w) + 1 + sint b"
  shows "dotted_to_string (of_nat (length w) # w @ b # bs) = Some (Inl Length_error)"
proof -
  let ?dot = "of_nat (length w) # w @ b # bs"
  have s: "sint b < 0"
  proof -
    have "uint b div 128 = 1"
      using assms(2) uint_bounded [of b] by (simp add: word_less_def)
    then have "bit (uint b) 7" by (simp add: bit_iff_odd)
    then show ?thesis by (simp add: sint_uint)
  qed
  have "dotted_to_string ?dot = dotted_to_string_loop ?dot (1 + of_nat (length w)) w True"
    using assms(1) by (simp add: dotted_to_string_def dotted_to_string_loop.simps [of ?dot 0] sint_of_label
       )
  also have "\<dots> = Some (Inl Length_error)"
  proof -
    have "unat (1 + of_nat (length w) :: u16) = 1 + length w"
      using assms(1) by (simp add: unat_word_ariths unat_of_nat)
    then show ?thesis
      using assms(3) s by (subst dotted_to_string_loop.simps) simp
  qed
  finally show ?thesis .
qed

section \<open>Names\<close>

text \<open>Every string is a sequence of labels; the names that both loops handle have short labels without zero bytes.\<close>

fun split_dots :: "bytes \<Rightarrow> bytes list" where
  "split_dots [] = [[]]"
| "split_dots (c # cs) =
     (if c = dot_char then [] # split_dots cs
      else (case split_dots cs of [] \<Rightarrow> [[c]] | w # ws \<Rightarrow> (c # w) # ws))"

definition fqdn_ok :: "bytes \<Rightarrow> bool" where
  "fqdn_ok s \<longleftrightarrow> length s < 256 \<and> 0 \<notin> set s \<and> (\<forall>w \<in> set (split_dots s). length w < 64)"

lemma split_dots_not_Nil [simp]: "split_dots s \<noteq> []"
  by (induction s) (auto split: list.split)

lemma join_split_dots [simp]: "join_labels (split_dots s) = s"
proof (induction s)
  case (Cons c s)
  then show ?case
    by (cases "split_dots s" rule: join_labels.cases) auto
qed simp

lemma set_split_dots: "w \<in> set (split_dots s) \<Longrightarrow> c \<in> set w \<Longrightarrow> c \<in> set s \<and> c \<noteq> dot_char"
proof (induction s arbitrary: w)
  case (Cons b s)
  then show ?case
    by (cases "split_dots s") (fastforce split: if_splits)+
qed simp

lemma string_to_dotted_fqdn:
  assumes "fqdn_ok s"
  shows "string_to_dotted j s = Some (encode_labels (split_dots s))"
  using string_to_dotted_labels [of "split_dots s" j] assms set_split_dots [of _ s]
  by (fastforce simp: fqdn_ok_def)

lemma dotted_to_string_fqdn:
  assumes "fqdn_ok s"
  shows "dotted_to_string (encode_labels (split_dots s)) = Some (Inr (s, True))"
  using dotted_to_string_labels [of "split_dots s"] assms length_encode_labels [of "split_dots s"]
  by (simp add: fqdn_ok_def)

section \<open>The element\<close>

record pfcp_node_id_ie =
  node_id_ie_tlv :: pfcp_tlv
  node_id_ie_u1 :: u8
  node_id_ie_ipv4_address :: u32
  node_id_ie_ipv6_address :: in6_addr
  node_id_ie_fqdn :: string

abbreviation (input) NODE_ID_TYPE_IPV4_ADDRESS :: "4 word" where "NODE_ID_TYPE_IPV4_ADDRESS \<equiv> 0"
abbreviation (input) NODE_ID_TYPE_IPV6_ADDRESS :: "4 word" where "NODE_ID_TYPE_IPV6_ADDRESS \<equiv> 1"
abbreviation (input) NODE_ID_TYPE_FQDN :: "4 word" where "NODE_ID_TYPE_FQDN \<equiv> 2"

definition new_node_id_ie :: "node_id_t \<Rightarrow> pfcp_node_id_ie" where
  "new_node_id_ie b =
     (let ty = node_id_node_id_type b; t = tlv_set_length 1 (tlv_of_type PFCP_IE_NODE_ID);
          ie = \<lparr>node_id_ie_tlv = t, node_id_ie_u1 = ucast ty, node_id_ie_ipv4_address = 0,
                node_id_ie_ipv6_address = 0, node_id_ie_fqdn = []\<rparr>
      in if ty = NODE_ID_TYPE_IPV4_ADDRESS
         then ie\<lparr>node_id_ie_tlv := tlv_add_length 4 t, node_id_ie_ipv4_address := node_id_ipv4_address b\<rparr>
         else if ty = NODE_ID_TYPE_IPV6_ADDRESS
         then ie\<lparr>node_id_ie_tlv := tlv_add_length 16 t, node_id_ie_ipv6_address := node_id_ipv6_address b\<rparr>
         else if ty = NODE_ID_TYPE_FQDN
         then ie\<lparr>node_id_ie_tlv := tlv_add_length (of_nat (length (node_id_fqdn b) + 1)) t,
                 node_id_ie_fqdn := node_id_fqdn b\<rparr>
         else ie)"

definition node_id_ie_of_tlv :: "u8 \<Rightarrow> pfcp_tlv \<Rightarrow> pfcp_node_id_ie" where
  "node_id_ie_of_tlv j t =
     \<lparr>node_id_ie_tlv = t, node_id_ie_u1 = j, node_id_ie_ipv4_address = le_word (replicate 4 j),
      node_id_ie_ipv6_address = le_word (replicate 16 j), node_id_ie_fqdn = []\<rparr>"

definition node_id_ie_to_core :: "pfcp_node_id_ie \<Rightarrow> node_id_t" where
  "node_id_ie_to_core ie =
     (let ty = (ucast (node_id_ie_u1 ie) :: 4 word); b = node_id0\<lparr>node_id_node_id_type := ty\<rparr> in
      if ty = NODE_ID_TYPE_IPV4_ADDRESS then b\<lparr>node_id_ipv4_address := node_id_ie_ipv4_address ie\<rparr>
      else if ty = NODE_ID_TYPE_IPV6_ADDRESS then b\<lparr>node_id_ipv6_address := node_id_ie_ipv6_address ie\<rparr>
      else if ty = NODE_ID_TYPE_FQDN then b\<lparr>node_id_fqdn := node_id_ie_fqdn ie\<rparr>
      else b)"

definition node_id_ie_dump_to :: "u8 \<Rightarrow> pfcp_node_id_ie \<Rightarrow> ((pfcp_exn + pfcp_node_id_ie) \<times> bytes) option" where
  "node_id_ie_dump_to j ie =
     (let ty = (ucast (node_id_ie_u1 ie) :: 4 word); pre = tlv_dump_to (node_id_ie_tlv ie) @ [node_id_ie_u1 ie] in
      if ty = NODE_ID_TYPE_IPV4_ADDRESS then Some (Inr ie, pre @ le_bytes 4 (node_id_ie_ipv4_address ie))
      else if ty = NODE_ID_TYPE_IPV6_ADDRESS then Some (Inr ie, pre @ le_bytes 16 (node_id_ie_ipv6_address ie))
      else if ty = NODE_ID_TYPE_FQDN
      then map_option (\<lambda>dotted. (Inr ie, pre @ dotted)) (string_to_dotted j (bytes_of_string (node_id_ie_fqdn ie)))
      else Some (Inr ie, pre))"

definition node_id_ie_load_from :: "pfcp_node_id_ie \<Rightarrow> istream \<Rightarrow> ((pfcp_exn + pfcp_node_id_ie) \<times> istream) option" where
  "node_id_ie_load_from ie is =
     (let t = node_id_ie_tlv ie; bad = Inl (Tlv_bad_length (tlv_type t) (tlv_length t));
          (u1, is) = read_u8 (node_id_ie_u1 ie) is;
          ie = ie\<lparr>node_id_ie_u1 := u1\<rparr>;
          ty = (ucast u1 :: 4 word);
          check_length = tlv_length t - 1
      in if ty = NODE_ID_TYPE_IPV4_ADDRESS then
           (if check_length \<noteq> 4 then Some (bad, is)
            else (let (v, is) = read_raw 4 (node_id_ie_ipv4_address ie) is
                  in Some (Inr (ie\<lparr>node_id_ie_ipv4_address := v\<rparr>), is)))
         else if ty = NODE_ID_TYPE_IPV6_ADDRESS then
           (if check_length \<noteq> 16 then Some (bad, is)
            else (let (v, is) = read_raw 16 (node_id_ie_ipv6_address ie) is
                  in Some (Inr (ie\<lparr>node_id_ie_ipv6_address := v\<rparr>), is)))
         else if ty = NODE_ID_TYPE_FQDN then
           (if check_length = 0 then Some (bad, is)
            else (let (e, is) = is_read (replicate (unat check_length) (is_junk is)) is
                  in map_option (\<lambda>r. (case r of Inl x \<Rightarrow> Inl x
                       | Inr (s, _) \<Rightarrow> Inr (ie\<lparr>node_id_ie_fqdn := string_of_bytes s\<rparr>), is)) (dotted_to_string e)))
         else Some (Inr ie, is))"

lemmas node_id_ie_defs = new_node_id_ie_def node_id_ie_of_tlv_def node_id_ie_to_core_def
  node_id_ie_dump_to_def node_id_ie_load_from_def

text \<open>Node identifiers without content beside the one their type announces.\<close>

definition node_id_canon :: "node_id_t \<Rightarrow> bool" where
  "node_id_canon c \<longleftrightarrow> node_id_spare c = 0 \<and>
     (if node_id_node_id_type c = NODE_ID_TYPE_IPV4_ADDRESS then node_id_ipv6_address c = 0 \<and> node_id_fqdn c = []
      else if node_id_node_id_type c = NODE_ID_TYPE_IPV6_ADDRESS then node_id_ipv4_address c = 0 \<and> node_id_fqdn c = []
      else node_id_ipv4_address c = 0 \<and> node_id_ipv6_address c = 0 \<and>
        (if node_id_node_id_type c = NODE_ID_TYPE_FQDN then fqdn_ok (bytes_of_string (node_id_fqdn c))
         else node_id_fqdn c = []))"

definition node_id_body :: "node_id_t \<Rightarrow> bytes" where
  "node_id_body c =
     (if node_id_node_id_type c = NODE_ID_TYPE_IPV4_ADDRESS then 0 # le_bytes 4 (node_id_ipv4_address c)
      else if node_id_node_id_type c = NODE_ID_TYPE_IPV6_ADDRESS then 1 # le_bytes 16 (node_id_ipv6_address c)
      else if node_id_node_id_type c = NODE_ID_TYPE_FQDN
      then 2 # encode_labels (split_dots (bytes_of_string (node_id_fqdn c)))
      else [ucast (node_id_node_id_type c)])"

lemma node_id_type_roundtrip [simp]: "(ucast (ucast (ty :: 4 word) :: u8) :: 4 word) = ty"
  by (rule bit_word_eqI) (simp add: bit_simps)

lemma length_node_id_body:
  assumes "node_id_canon c"
  shows "0 < length (node_id_body c) \<and> length (node_id_body c) < 300"
    and "node_id_ie_tlv (new_node_id_ie c) = ie_tlv PFCP_IE_NODE_ID (length (node_id_body c))"
  using assms length_encode_labels [of "split_dots (bytes_of_string (node_id_fqdn c))"]
  by (simp_all add: node_id_body_def node_id_canon_def fqdn_ok_def new_node_id_ie_def tlv_defs Let_def
      split: if_splits)

lemma node_id_dump:
  assumes "node_id_canon c"
  shows "node_id_ie_dump_to j (new_node_id_ie c) =
    Some (Inr (new_node_id_ie c), tlv_dump_to (ie_tlv PFCP_IE_NODE_ID (length (node_id_body c))) @ node_id_body c)"
proof -
  have "node_id_ie_u1 (new_node_id_ie c) = ucast (node_id_node_id_type c)"
    by (simp add: new_node_id_ie_def Let_def)
  then show ?thesis
    using assms length_node_id_body(2) [OF assms] string_to_dotted_fqdn [of "bytes_of_string (node_id_fqdn c)" j]
    by (auto simp: node_id_ie_dump_to_def node_id_body_def node_id_canon_def new_node_id_ie_def Let_def
        simp del: le_bytes.simps split: if_splits)
qed

lemma node_id_load:
  assumes "node_id_canon c"
  shows "\<exists>ie. node_id_ie_load_from (node_id_ie_of_tlv j (ie_tlv PFCP_IE_NODE_ID (length (node_id_body c))))
      (stream j (node_id_body c @ rest)) = Some (Inr ie, stream j rest) \<and>
    node_id_ie_tlv ie = ie_tlv PFCP_IE_NODE_ID (length (node_id_body c)) \<and> node_id_ie_to_core ie = c"
proof -
  let ?ws = "split_dots (bytes_of_string (node_id_fqdn c))"
  consider "node_id_node_id_type c = 0" | "node_id_node_id_type c = 1" | "node_id_node_id_type c = 2"
    | "node_id_node_id_type c \<noteq> 0" "node_id_node_id_type c \<noteq> 1" "node_id_node_id_type c \<noteq> 2"
    by blast
  then show ?thesis
  proof cases
    case 3
    then have ok: "fqdn_ok (bytes_of_string (node_id_fqdn c))" and z: "node_id_spare c = 0" "node_id_ipv4_address c = 0"
        "node_id_ipv6_address c = 0"
      using assms by (auto simp: node_id_canon_def)
    have l: "length (encode_labels ?ws) < 300" "0 < length (encode_labels ?ws)"
      using length_node_id_body(1) [OF assms] length_encode_labels [of ?ws] 3 by (auto simp: node_id_body_def)
    then have "unat (of_nat (length (encode_labels ?ws)) :: u16) = length (encode_labels ?ws)"
      by (simp add: unat_of_nat)
    moreover from this l have "(of_nat (length (encode_labels ?ws)) :: u16) \<noteq> 0"
      by (metis unsigned_0 less_not_refl)
    ultimately show ?thesis
      using 3 z dotted_to_string_fqdn [OF ok]
      by (simp add: node_id_ie_load_from_def node_id_ie_of_tlv_def node_id_ie_to_core_def node_id_body_def
          ie_tlv_def node_id0_def node_id_t.equality)
  qed (use assms in \<open>simp_all add: node_id_ie_load_from_def node_id_ie_of_tlv_def node_id_ie_to_core_def
      node_id_body_def node_id_canon_def ie_tlv_def node_id0_def Let_def node_id_t.equality
      del: le_bytes.simps\<close>)
qed

interpretation node_id_ie: ie_codec PFCP_IE_NODE_ID new_node_id_ie node_id_ie_tlv
    "\<lambda>ie. the (node_id_ie_dump_to j ie)" node_id_ie_of_tlv
    "\<lambda>ie is. the (node_id_ie_load_from ie is)" node_id_ie_to_core node_id_canon node_id_body
  for j
proof unfold_locales
  fix c k rest
  assume c: "node_id_canon c"
  show "node_id_ie_tlv (new_node_id_ie c) = ie_tlv PFCP_IE_NODE_ID (length (node_id_body c))"
    by (rule length_node_id_body(2) [OF c])
  show "the (node_id_ie_dump_to j (new_node_id_ie c)) =
      (Inr (new_node_id_ie c), tlv_dump_to (ie_tlv PFCP_IE_NODE_ID (length (node_id_body c))) @ node_id_body c)"
    by (simp add: node_id_dump [OF c])
  show "\<exists>ie. the (node_id_ie_load_from (node_id_ie_of_tlv k (ie_tlv PFCP_IE_NODE_ID (length (node_id_body c))))
      (stream k (node_id_body c @ rest))) = (Inr ie, stream k rest) \<and>
      node_id_ie_tlv ie = ie_tlv PFCP_IE_NODE_ID (length (node_id_body c)) \<and> node_id_ie_to_core ie = c"
    using node_id_load [OF c, of k rest] by force
  show "0 < length (node_id_body c) \<and> length (node_id_body c) < 2 ^ 16"
    using length_node_id_body(1) [OF c] by simp
qed

section \<open>Properties\<close>

text \<open>
  The loop that turns a name into labels counts in 8 bits.  It ends exactly when a zero byte, the
  one behind the last character included, is among the first 256 positions; for longer names it
  runs forever.
\<close>

lemma string_to_dotted_terminates:
  "(\<exists>dotted. string_to_dotted j str = Some dotted) \<longleftrightarrow> (\<exists>i < 256. str_at str i = 0)"
  using string_to_dotted_ends_iff [of j str] by simp

text \<open>
  C27: On names of fewer than 256 characters with labels of at most 63, the first loop computes the
  reference encoding, the labels between the dots each behind its length, whatever the memory
  of its array held, and the second loop inverts it.
\<close>

theorem fqdn_label_encoding:
  assumes "fqdn_ok s"
  shows "string_to_dotted j s = Some (encode_labels (split_dots s)) \<and>
    dotted_to_string (encode_labels (split_dots s)) = Some (Inr (s, True))"
  using string_to_dotted_fqdn [OF assms] dotted_to_string_fqdn [OF assms] by simp

theorem fqdn_label_encoding_witness:
  "string_to_dotted 0xaa [117, 112, 102, 46, 110] = Some [3, 117, 112, 102, 1, 110] \<and>
   dotted_to_string [3, 117, 112, 102, 1, 110] = Some (Inr ([117, 112, 102, 46, 110], True))"
proof -
  have "fqdn_ok [117, 112, 102, 46, 110]"
    by (simp add: fqdn_ok_def)
  from fqdn_label_encoding [OF this, of "0xaa"] show ?thesis
    by simp
qed

end
