(* ===== verification/Pfcp_Ie.thy ===== *)
theory Pfcp_Ie
  imports Ie_Scalar Ie_Flags Ie_Address Ie_Other Ie_Node_Id
begin

text \<open>
  Information elements as objects: \<^verbatim>\<open>pfcp_ie\<close> with its virtual methods, \<^verbatim>\<open>pfcp_grouped_ie\<close> and the
  factory \<^verbatim>\<open>pfcp_ie::new_pfcp_ie_from_stream\<close> of \<^verbatim>\<open>src/oai/pfcp/3gpp_29.244.cpp\<close>.

  A value of \<open>simple_ie\<close> is an object of one of the classes without members of its own kind; the
  virtual methods are defined by cases over the class.  The grouped classes share their reader
  and writer and differ in their type only.  The value \<^term>\<open>None\<close> of a method is a loop that does
  not end; it comes from domain names only.

  The factory and the reader of a group call each other.  They take fuel, one unit per call; the
  number of bytes in the stream is enough (\<open>new_pfcp_ie_fuel\<close>), and the definitions for the rest of
  the development use that amount.
\<close>

section \<open>Objects\<close>

datatype simple_ie =
    IE_cause pfcp_cause_ie
  | IE_source_interface pfcp_source_interface_ie
  | IE_fteid pfcp_fteid_ie
  | IE_network_instance pfcp_network_instance_ie
  | IE_sdf_filter pfcp_sdf_filter_ie
  | IE_application_id pfcp_application_id_ie
  | IE_gate_status pfcp_gate_status_ie
  | IE_mbr pfcp_mbr_ie
  | IE_gbr pfcp_gbr_ie
  | IE_qer_correlation_id pfcp_qer_correlation_id_ie
  | IE_precedence pfcp_precedence_ie
  | IE_transport_level_marking pfcp_transport_level_marking_ie
  | IE_volume_threshold pfcp_volume_threshold_ie
  | IE_time_threshold pfcp_time_threshold_ie
  | IE_monitoring_time pfcp_monitoring_time_ie
  | IE_subsequent_volume_threshold pfcp_subsequent_volume_threshold_ie
  | IE_subsequent_time_threshold pfcp_subsequent_time_threshold_ie
  | IE_inactivity_detection_time pfcp_inactivity_detection_time_ie
  | IE_reporting_triggers pfcp_reporting_triggers_ie
  | IE_report_type pfcp_report_type_ie
  | IE_offending_ie pfcp_offending_ie_ie
  | IE_forwarding_policy pfcp_forwarding_policy_ie
  | IE_destination_interface pfcp_destination_interface_ie
  | IE_up_function_features pfcp_up_function_features_ie
  | IE_apply_action pfcp_apply_action_ie
  | IE_pdr_id pfcp_pdr_id_ie
  | IE_f_seid pfcp_f_seid_ie
  | IE_node_id pfcp_node_id_ie
  | IE_urr_id pfcp_urr_id_ie
  | IE_outer_header_creation pfcp_outer_header_creation_ie
  | IE_bar_id pfcp_bar_id_ie
  | IE_cp_function_features pfcp_cp_function_features_ie
  | IE_ue_ip_address pfcp_ue_ip_address_ie
  | IE_outer_header_removal pfcp_outer_header_removal_ie
  | IE_recovery_time_stamp pfcp_recovery_time_stamp_ie
  | IE_activate_predefined_rules pfcp_activate_predefined_rules_ie
  | IE_deactivate_predefined_rules pfcp_deactivate_predefined_rules_ie
  | IE_far_id pfcp_far_id_ie
  | IE_qer_id pfcp_qer_id_ie
  | IE_failed_rule_id pfcp_failed_rule_id_ie
  | IE_upip pfcp_user_plane_ip_resource_information_ie
  | IE_user_plane_inactivity_timer pfcp_user_plane_inactivity_timer_ie
  | IE_qfi pfcp_qfi_ie
  | IE_user_id pfcp_user_id_ie
  | IE_node_report_type pfcp_node_report_type_ie

text \<open>The core values, one alternative per overload of \<^verbatim>\<open>pfcp_ies_container::set\<close>.\<close>

datatype core_value =
    Core_cause u8
  | Core_source_interface u8
  | Core_fteid fteid_t
  | Core_network_instance string
  | Core_sdf_filter sdf_filter_t
  | Core_application_id string
  | Core_gate_status gate_status_t
  | Core_mbr mbr_t
  | Core_gbr gbr_t
  | Core_qer_correlation_id u32
  | Core_precedence u32
  | Core_transport_level_marking string
  | Core_volume_threshold volume_threshold_t
  | Core_time_threshold u32
  | Core_monitoring_time u32
  | Core_subsequent_volume_threshold subsequent_volume_threshold_t
  | Core_subsequent_time_threshold u32
  | Core_inactivity_detection_time u32
  | Core_reporting_triggers reporting_triggers_t
  | Core_report_type report_type_t
  | Core_offending_ie u16
  | Core_forwarding_policy forwarding_policy_t
  | Core_destination_interface u8
  | Core_up_function_features up_function_features_t
  | Core_apply_action apply_action_t
  | Core_pdr_id u16
  | Core_f_seid fseid_t
  | Core_node_id node_id_t
  | Core_urr_id u32
  | Core_outer_header_creation core_outer_header_creation_t
  | Core_bar_id u8
  | Core_cp_function_features cp_function_features_t
  | Core_ue_ip_address ue_ip_address_t
  | Core_outer_header_removal u8
  | Core_recovery_time_stamp u32
  | Core_activate_predefined_rules string
  | Core_deactivate_predefined_rules string
  | Core_far_id u32
  | Core_qer_id u32
  | Core_failed_rule_id failed_rule_id_t
  | Core_upip user_plane_ip_resource_information_t
  | Core_user_plane_inactivity_timer u32
  | Core_qfi qfi_t
  | Core_user_id user_id_t
  | Core_node_report_type node_report_type_t

primrec simple_tlv :: "simple_ie \<Rightarrow> pfcp_tlv" where
  "simple_tlv (IE_cause ie) = cause_ie_tlv ie"
| "simple_tlv (IE_source_interface ie) = source_interface_ie_tlv ie"
| "simple_tlv (IE_fteid ie) = fteid_ie_tlv ie"
| "simple_tlv (IE_network_instance ie) = network_instance_ie_tlv ie"
| "simple_tlv (IE_sdf_filter ie) = sdf_filter_ie_tlv ie"
| "simple_tlv (IE_application_id ie) = application_id_ie_tlv ie"
| "simple_tlv (IE_gate_status ie) = gate_status_ie_tlv ie"
| "simple_tlv (IE_mbr ie) = mbr_ie_tlv ie"
| "simple_tlv (IE_gbr ie) = gbr_ie_tlv ie"
| "simple_tlv (IE_qer_correlation_id ie) = qer_correlation_id_ie_tlv ie"
| "simple_tlv (IE_precedence ie) = precedence_ie_tlv ie"
| "simple_tlv (IE_transport_level_marking ie) = transport_level_marking_ie_tlv ie"
| "simple_tlv (IE_volume_threshold ie) = volume_threshold_ie_tlv ie"
| "simple_tlv (IE_time_threshold ie) = time_threshold_ie_tlv ie"
| "simple_tlv (IE_monitoring_time ie) = monitoring_time_ie_tlv ie"
| "simple_tlv (IE_subsequent_volume_threshold ie) = subsequent_volume_threshold_ie_tlv ie"
| "simple_tlv (IE_subsequent_time_threshold ie) = subsequent_time_threshold_ie_tlv ie"
| "simple_tlv (IE_inactivity_detection_time ie) = inactivity_detection_time_ie_tlv ie"
| "simple_tlv (IE_reporting_triggers ie) = reporting_triggers_ie_tlv ie"
| "simple_tlv (IE_report_type ie) = report_type_ie_tlv ie"
| "simple_tlv (IE_offending_ie ie) = offending_ie_ie_tlv ie"
| "simple_tlv (IE_forwarding_policy ie) = forwarding_policy_ie_tlv ie"
| "simple_tlv (IE_destination_interface ie) = destination_interface_ie_tlv ie"
| "simple_tlv (IE_up_function_features ie) = up_function_features_ie_tlv ie"
| "simple_tlv (IE_apply_action ie) = apply_action_ie_tlv ie"
| "simple_tlv (IE_pdr_id ie) = pdr_id_ie_tlv ie"
| "simple_tlv (IE_f_seid ie) = f_seid_ie_tlv ie"
| "simple_tlv (IE_node_id ie) = node_id_ie_tlv ie"
| "simple_tlv (IE_urr_id ie) = urr_id_ie_tlv ie"
| "simple_tlv (IE_outer_header_creation ie) = outer_header_creation_ie_tlv ie"
| "simple_tlv (IE_bar_id ie) = bar_id_ie_tlv ie"
| "simple_tlv (IE_cp_function_features ie) = cp_function_features_ie_tlv ie"
| "simple_tlv (IE_ue_ip_address ie) = ue_ip_address_ie_tlv ie"
| "simple_tlv (IE_outer_header_removal ie) = outer_header_removal_ie_tlv ie"
| "simple_tlv (IE_recovery_time_stamp ie) = recovery_time_stamp_ie_tlv ie"
| "simple_tlv (IE_activate_predefined_rules ie) = activate_predefined_rules_ie_tlv ie"
| "simple_tlv (IE_deactivate_predefined_rules ie) = deactivate_predefined_rules_ie_tlv ie"
| "simple_tlv (IE_far_id ie) = far_id_ie_tlv ie"
| "simple_tlv (IE_qer_id ie) = qer_id_ie_tlv ie"
| "simple_tlv (IE_failed_rule_id ie) = failed_rule_id_ie_tlv ie"
| "simple_tlv (IE_upip ie) = upip_ie_tlv ie"
| "simple_tlv (IE_user_plane_inactivity_timer ie) = user_plane_inactivity_timer_ie_tlv ie"
| "simple_tlv (IE_qfi ie) = qfi_ie_tlv ie"
| "simple_tlv (IE_user_id ie) = user_id_ie_tlv ie"
| "simple_tlv (IE_node_report_type ie) = node_report_type_ie_tlv ie"

primrec simple_core :: "simple_ie \<Rightarrow> core_value" where
  "simple_core (IE_cause ie) = Core_cause (cause_ie_to_core ie)"
| "simple_core (IE_source_interface ie) = Core_source_interface (source_interface_ie_to_core ie)"
| "simple_core (IE_fteid ie) = Core_fteid (fteid_ie_to_core ie)"
| "simple_core (IE_network_instance ie) = Core_network_instance (network_instance_ie_to_core ie)"
| "simple_core (IE_sdf_filter ie) = Core_sdf_filter (sdf_filter_ie_to_core ie)"
| "simple_core (IE_application_id ie) = Core_application_id (application_id_ie_to_core ie)"
| "simple_core (IE_gate_status ie) = Core_gate_status (gate_status_ie_to_core ie)"
| "simple_core (IE_mbr ie) = Core_mbr (mbr_ie_to_core ie)"
| "simple_core (IE_gbr ie) = Core_gbr (gbr_ie_to_core ie)"
| "simple_core (IE_qer_correlation_id ie) = Core_qer_correlation_id (qer_correlation_id_ie_to_core ie)"
| "simple_core (IE_precedence ie) = Core_precedence (precedence_ie_to_core ie)"
| "simple_core (IE_transport_level_marking ie) = Core_transport_level_marking (transport_level_marking_ie_to_core ie)"
| "simple_core (IE_volume_threshold ie) = Core_volume_threshold (volume_threshold_ie_to_core ie)"
| "simple_core (IE_time_threshold ie) = Core_time_threshold (time_threshold_ie_to_core ie)"
| "simple_core (IE_monitoring_time ie) = Core_monitoring_time (monitoring_time_ie_to_core ie)"
| "simple_core (IE_subsequent_volume_threshold ie) = Core_subsequent_volume_threshold (subsequent_volume_threshold_ie_to_core ie)"
| "simple_core (IE_subsequent_time_threshold ie) = Core_subsequent_time_threshold (subsequent_time_threshold_ie_to_core ie)"
| "simple_core (IE_inactivity_detection_time ie) = Core_inactivity_detection_time (inactivity_detection_time_ie_to_core ie)"
| "simple_core (IE_reporting_triggers ie) = Core_reporting_triggers (reporting_triggers_ie_to_core ie)"
| "simple_core (IE_report_type ie) = Core_report_type (report_type_ie_to_core ie)"
| "simple_core (IE_offending_ie ie) = Core_offending_ie (offending_ie_ie_to_core ie)"
| "simple_core (IE_forwarding_policy ie) = Core_forwarding_policy (forwarding_policy_ie_to_core ie)"
| "simple_core (IE_destination_interface ie) = Core_destination_interface (destination_interface_ie_to_core ie)"
| "simple_core (IE_up_function_features ie) = Core_up_function_features (up_function_features_ie_to_core ie)"
| "simple_core (IE_apply_action ie) = Core_apply_action (apply_action_ie_to_core ie)"
| "simple_core (IE_pdr_id ie) = Core_pdr_id (pdr_id_ie_to_core ie)"
| "simple_core (IE_f_seid ie) = Core_f_seid (f_seid_ie_to_core ie)"
| "simple_core (IE_node_id ie) = Core_node_id (node_id_ie_to_core ie)"
| "simple_core (IE_urr_id ie) = Core_urr_id (urr_id_ie_to_core ie)"
| "simple_core (IE_outer_header_creation ie) = Core_outer_header_creation (outer_header_creation_ie_to_core ie)"
| "simple_core (IE_bar_id ie) = Core_bar_id (bar_id_ie_to_core ie)"
| "simple_core (IE_cp_function_features ie) = Core_cp_function_features (cp_function_features_ie_to_core ie)"
| "simple_core (IE_ue_ip_address ie) = Core_ue_ip_address (ue_ip_address_ie_to_core ie)"
| "simple_core (IE_outer_header_removal ie) = Core_outer_header_removal (outer_header_removal_ie_to_core ie)"
| "simple_core (IE_recovery_time_stamp ie) = Core_recovery_time_stamp (recovery_time_stamp_ie_to_core ie)"
| "simple_core (IE_activate_predefined_rules ie) = Core_activate_predefined_rules (activate_predefined_rules_ie_to_core ie)"
| "simple_core (IE_deactivate_predefined_rules ie) = Core_deactivate_predefined_rules (deactivate_predefined_rules_ie_to_core ie)"
| "simple_core (IE_far_id ie) = Core_far_id (far_id_ie_to_core ie)"
| "simple_core (IE_qer_id ie) = Core_qer_id (qer_id_ie_to_core ie)"
| "simple_core (IE_failed_rule_id ie) = Core_failed_rule_id (failed_rule_id_ie_to_core ie)"
| "simple_core (IE_upip ie) = Core_upip (upip_ie_to_core ie)"
| "simple_core (IE_user_plane_inactivity_timer ie) = Core_user_plane_inactivity_timer (user_plane_inactivity_timer_ie_to_core ie)"
| "simple_core (IE_qfi ie) = Core_qfi (qfi_ie_to_core ie)"
| "simple_core (IE_user_id ie) = Core_user_id (user_id_ie_to_core ie)"
| "simple_core (IE_node_report_type ie) = Core_node_report_type (node_report_type_ie_to_core ie)"

text \<open>The result of a method of a class as a result for the object.\<close>

definition as_simple :: "('a \<Rightarrow> simple_ie) \<Rightarrow> (pfcp_exn + 'a) \<times> 'b \<Rightarrow> (pfcp_exn + simple_ie) \<times> 'b" where
  "as_simple C r = (map_sum id C (fst r), snd r)"

lemma as_simple_simps [simp]:
  "as_simple C (Inl e, s) = (Inl e, s)"
  "as_simple C (Inr x, s) = (Inr (C x), s)"
  "snd (as_simple C r) = snd r"
  by (simp_all add: as_simple_def)

primrec simple_dump :: "u8 \<Rightarrow> simple_ie \<Rightarrow> ((pfcp_exn + simple_ie) \<times> bytes) option" where
  "simple_dump j (IE_cause ie) = Some (as_simple IE_cause (cause_ie_dump_to ie))"
| "simple_dump j (IE_source_interface ie) = Some (as_simple IE_source_interface (source_interface_ie_dump_to ie))"
| "simple_dump j (IE_fteid ie) = Some (as_simple IE_fteid (fteid_ie_dump_to ie))"
| "simple_dump j (IE_network_instance ie) = Some (as_simple IE_network_instance (network_instance_ie_dump_to ie))"
| "simple_dump j (IE_sdf_filter ie) = Some (as_simple IE_sdf_filter (sdf_filter_ie_dump_to ie))"
| "simple_dump j (IE_application_id ie) = Some (as_simple IE_application_id (application_id_ie_dump_to ie))"
| "simple_dump j (IE_gate_status ie) = Some (as_simple IE_gate_status (gate_status_ie_dump_to ie))"
| "simple_dump j (IE_mbr ie) = Some (as_simple IE_mbr (mbr_ie_dump_to ie))"
| "simple_dump j (IE_gbr ie) = Some (as_simple IE_gbr (gbr_ie_dump_to ie))"
| "simple_dump j (IE_qer_correlation_id ie) = Some (as_simple IE_qer_correlation_id (qer_correlation_id_ie_dump_to ie))"
| "simple_dump j (IE_precedence ie) = Some (as_simple IE_precedence (precedence_ie_dump_to ie))"
| "simple_dump j (IE_transport_level_marking ie) = Some (as_simple IE_transport_level_marking (transport_level_marking_ie_dump_to ie))"
| "simple_dump j (IE_volume_threshold ie) = Some (as_simple IE_volume_threshold (volume_threshold_ie_dump_to ie))"
| "simple_dump j (IE_time_threshold ie) = Some (as_simple IE_time_threshold (time_threshold_ie_dump_to ie))"
| "simple_dump j (IE_monitoring_time ie) = Some (as_simple IE_monitoring_time (monitoring_time_ie_dump_to ie))"
| "simple_dump j (IE_subsequent_volume_threshold ie) = Some (as_simple IE_subsequent_volume_threshold (subsequent_volume_threshold_ie_dump_to ie))"
| "simple_dump j (IE_subsequent_time_threshold ie) = Some (as_simple IE_subsequent_time_threshold (subsequent_time_threshold_ie_dump_to ie))"
| "simple_dump j (IE_inactivity_detection_time ie) = Some (as_simple IE_inactivity_detection_time (inactivity_detection_time_ie_dump_to ie))"
| "simple_dump j (IE_reporting_triggers ie) = Some (as_simple IE_reporting_triggers (reporting_triggers_ie_dump_to ie))"
| "simple_dump j (IE_report_type ie) = Some (as_simple IE_report_type (report_type_ie_dump_to ie))"
| "simple_dump j (IE_offending_ie ie) = Some (as_simple IE_offending_ie (offending_ie_ie_dump_to ie))"
| "simple_dump j (IE_forwarding_policy ie) = Some (as_simple IE_forwarding_policy (forwarding_policy_ie_dump_to ie))"
| "simple_dump j (IE_destination_interface ie) = Some (as_simple IE_destination_interface (destination_interface_ie_dump_to ie))"
| "simple_dump j (IE_up_function_features ie) = Some (as_simple IE_up_function_features (up_function_features_ie_dump_to ie))"
| "simple_dump j (IE_apply_action ie) = Some (as_simple IE_apply_action (apply_action_ie_dump_to ie))"
| "simple_dump j (IE_pdr_id ie) = Some (as_simple IE_pdr_id (pdr_id_ie_dump_to ie))"
| "simple_dump j (IE_f_seid ie) = Some (as_simple IE_f_seid (f_seid_ie_dump_to ie))"
| "simple_dump j (IE_node_id ie) = map_option (as_simple IE_node_id) (node_id_ie_dump_to j ie)"
| "simple_dump j (IE_urr_id ie) = Some (as_simple IE_urr_id (urr_id_ie_dump_to ie))"
| "simple_dump j (IE_outer_header_creation ie) = Some (as_simple IE_outer_header_creation (outer_header_creation_ie_dump_to ie))"
| "simple_dump j (IE_bar_id ie) = Some (as_simple IE_bar_id (bar_id_ie_dump_to ie))"
| "simple_dump j (IE_cp_function_features ie) = Some (as_simple IE_cp_function_features (cp_function_features_ie_dump_to ie))"
| "simple_dump j (IE_ue_ip_address ie) = Some (as_simple IE_ue_ip_address (ue_ip_address_ie_dump_to ie))"
| "simple_dump j (IE_outer_header_removal ie) = Some (as_simple IE_outer_header_removal (outer_header_removal_ie_dump_to ie))"
| "simple_dump j (IE_recovery_time_stamp ie) = Some (as_simple IE_recovery_time_stamp (recovery_time_stamp_ie_dump_to ie))"
| "simple_dump j (IE_activate_predefined_rules ie) = Some (as_simple IE_activate_predefined_rules (activate_predefined_rules_ie_dump_to ie))"
| "simple_dump j (IE_deactivate_predefined_rules ie) = Some (as_simple IE_deactivate_predefined_rules (deactivate_predefined_rules_ie_dump_to ie))"
| "simple_dump j (IE_far_id ie) = Some (as_simple IE_far_id (far_id_ie_dump_to ie))"
| "simple_dump j (IE_qer_id ie) = Some (as_simple IE_qer_id (qer_id_ie_dump_to ie))"
| "simple_dump j (IE_failed_rule_id ie) = Some (as_simple IE_failed_rule_id (failed_rule_id_ie_dump_to ie))"
| "simple_dump j (IE_upip ie) = Some (as_simple IE_upip (upip_ie_dump_to ie))"
| "simple_dump j (IE_user_plane_inactivity_timer ie) = Some (as_simple IE_user_plane_inactivity_timer (user_plane_inactivity_timer_ie_dump_to ie))"
| "simple_dump j (IE_qfi ie) = Some (as_simple IE_qfi (qfi_ie_dump_to ie))"
| "simple_dump j (IE_user_id ie) = Some (as_simple IE_user_id (user_id_ie_dump_to ie))"
| "simple_dump j (IE_node_report_type ie) = Some (as_simple IE_node_report_type (node_report_type_ie_dump_to ie))"

primrec simple_load :: "simple_ie \<Rightarrow> istream \<Rightarrow> ((pfcp_exn + simple_ie) \<times> istream) option" where
  "simple_load (IE_cause ie) is = Some (as_simple IE_cause (cause_ie_load_from ie is))"
| "simple_load (IE_source_interface ie) is = Some (as_simple IE_source_interface (source_interface_ie_load_from ie is))"
| "simple_load (IE_fteid ie) is = Some (as_simple IE_fteid (fteid_ie_load_from ie is))"
| "simple_load (IE_network_instance ie) is = Some (as_simple IE_network_instance (network_instance_ie_load_from ie is))"
| "simple_load (IE_sdf_filter ie) is = Some (as_simple IE_sdf_filter (sdf_filter_ie_load_from ie is))"
| "simple_load (IE_application_id ie) is = Some (as_simple IE_application_id (application_id_ie_load_from ie is))"
| "simple_load (IE_gate_status ie) is = Some (as_simple IE_gate_status (gate_status_ie_load_from ie is))"
| "simple_load (IE_mbr ie) is = Some (as_simple IE_mbr (mbr_ie_load_from ie is))"
| "simple_load (IE_gbr ie) is = Some (as_simple IE_gbr (gbr_ie_load_from ie is))"
| "simple_load (IE_qer_correlation_id ie) is = Some (as_simple IE_qer_correlation_id (qer_correlation_id_ie_load_from ie is))"
| "simple_load (IE_precedence ie) is = Some (as_simple IE_precedence (precedence_ie_load_from ie is))"
| "simple_load (IE_transport_level_marking ie) is = Some (as_simple IE_transport_level_marking (transport_level_marking_ie_load_from ie is))"
| "simple_load (IE_volume_threshold ie) is = Some (as_simple IE_volume_threshold (volume_threshold_ie_load_from ie is))"
| "simple_load (IE_time_threshold ie) is = Some (as_simple IE_time_threshold (time_threshold_ie_load_from ie is))"
| "simple_load (IE_monitoring_time ie) is = Some (as_simple IE_monitoring_time (monitoring_time_ie_load_from ie is))"
| "simple_load (IE_subsequent_volume_threshold ie) is = Some (as_simple IE_subsequent_volume_threshold (subsequent_volume_threshold_ie_load_from ie is))"
| "simple_load (IE_subsequent_time_threshold ie) is = Some (as_simple IE_subsequent_time_threshold (subsequent_time_threshold_ie_load_from ie is))"
| "simple_load (IE_inactivity_detection_time ie) is = Some (as_simple IE_inactivity_detection_time (inactivity_detection_time_ie_load_from ie is))"
| "simple_load (IE_reporting_triggers ie) is = Some (as_simple IE_reporting_triggers (reporting_triggers_ie_load_from ie is))"
| "simple_load (IE_report_type ie) is = Some (as_simple IE_report_type (report_type_ie_load_from ie is))"
| "simple_load (IE_offending_ie ie) is = Some (as_simple IE_offending_ie (offending_ie_ie_load_from ie is))"
| "simple_load (IE_forwarding_policy ie) is = Some (as_simple IE_forwarding_policy (forwarding_policy_ie_load_from ie is))"
| "simple_load (IE_destination_interface ie) is = Some (as_simple IE_destination_interface (destination_interface_ie_load_from ie is))"
| "simple_load (IE_up_function_features ie) is = Some (as_simple IE_up_function_features (up_function_features_ie_load_from ie is))"
| "simple_load (IE_apply_action ie) is = Some (as_simple IE_apply_action (apply_action_ie_load_from ie is))"
| "simple_load (IE_pdr_id ie) is = Some (as_simple IE_pdr_id (pdr_id_ie_load_from ie is))"
| "simple_load (IE_f_seid ie) is = Some (as_simple IE_f_seid (f_seid_ie_load_from ie is))"
| "simple_load (IE_node_id ie) is = map_option (as_simple IE_node_id) (node_id_ie_load_from ie is)"
| "simple_load (IE_urr_id ie) is = Some (as_simple IE_urr_id (urr_id_ie_load_from ie is))"
| "simple_load (IE_outer_header_creation ie) is = Some (as_simple IE_outer_header_creation (outer_header_creation_ie_load_from ie is))"
| "simple_load (IE_bar_id ie) is = Some (as_simple IE_bar_id (bar_id_ie_load_from ie is))"
| "simple_load (IE_cp_function_features ie) is = Some (as_simple IE_cp_function_features (cp_function_features_ie_load_from ie is))"
| "simple_load (IE_ue_ip_address ie) is = Some (as_simple IE_ue_ip_address (ue_ip_address_ie_load_from ie is))"
| "simple_load (IE_outer_header_removal ie) is = Some (as_simple IE_outer_header_removal (outer_header_removal_ie_load_from ie is))"
| "simple_load (IE_recovery_time_stamp ie) is = Some (as_simple IE_recovery_time_stamp (recovery_time_stamp_ie_load_from ie is))"
| "simple_load (IE_activate_predefined_rules ie) is = Some (as_simple IE_activate_predefined_rules (activate_predefined_rules_ie_load_from ie is))"
| "simple_load (IE_deactivate_predefined_rules ie) is = Some (as_simple IE_deactivate_predefined_rules (deactivate_predefined_rules_ie_load_from ie is))"
| "simple_load (IE_far_id ie) is = Some (as_simple IE_far_id (far_id_ie_load_from ie is))"
| "simple_load (IE_qer_id ie) is = Some (as_simple IE_qer_id (qer_id_ie_load_from ie is))"
| "simple_load (IE_failed_rule_id ie) is = Some (as_simple IE_failed_rule_id (failed_rule_id_ie_load_from ie is))"
| "simple_load (IE_upip ie) is = Some (as_simple IE_upip (upip_ie_load_from ie is))"
| "simple_load (IE_user_plane_inactivity_timer ie) is = Some (as_simple IE_user_plane_inactivity_timer (user_plane_inactivity_timer_ie_load_from ie is))"
| "simple_load (IE_qfi ie) is = Some (as_simple IE_qfi (qfi_ie_load_from ie is))"
| "simple_load (IE_user_id ie) is = Some (as_simple IE_user_id (user_id_ie_load_from ie is))"
| "simple_load (IE_node_report_type ie) is = Some (as_simple IE_node_report_type (node_report_type_ie_load_from ie is))"

text \<open>The branches of the factory for the simple classes.\<close>

definition new_simple :: "u8 \<Rightarrow> pfcp_tlv \<Rightarrow> simple_ie option" where
  "new_simple j t =
     (if tlv_type t = ucast PFCP_IE_CAUSE then Some (IE_cause (cause_ie_of_tlv j t))
      else if tlv_type t = ucast PFCP_IE_SOURCE_INTERFACE then Some (IE_source_interface (source_interface_ie_of_tlv j t))
      else if tlv_type t = ucast PFCP_IE_F_TEID then Some (IE_fteid (fteid_ie_of_tlv j t))
      else if tlv_type t = ucast PFCP_IE_NETWORK_INSTANCE then Some (IE_network_instance (network_instance_ie_of_tlv j t))
      else if tlv_type t = ucast PFCP_IE_SDF_FILTER then Some (IE_sdf_filter (sdf_filter_ie_of_tlv j t))
      else if tlv_type t = ucast PFCP_IE_APPLICATION_ID then Some (IE_application_id (application_id_ie_of_tlv j t))
      else if tlv_type t = ucast PFCP_IE_GATE_STATUS then Some (IE_gate_status (gate_status_ie_of_tlv j t))
      else if tlv_type t = ucast PFCP_IE_MBR then Some (IE_mbr (mbr_ie_of_tlv j t))
      else if tlv_type t = ucast PFCP_IE_GBR then Some (IE_gbr (gbr_ie_of_tlv j t))
      else if tlv_type t = ucast PFCP_IE_QER_CORRELATION_ID then Some (IE_qer_correlation_id (qer_correlation_id_ie_of_tlv j t))
      else if tlv_type t = ucast PFCP_IE_PRECEDENCE then Some (IE_precedence (precedence_ie_of_tlv j t))
      else if tlv_type t = ucast PFCP_IE_TRANSPORT_LEVEL_MARKING then Some (IE_transport_level_marking (transport_level_marking_ie_of_tlv j t))
      else if tlv_type t = ucast PFCP_IE_VOLUME_THRESHOLD then Some (IE_volume_threshold (volume_threshold_ie_of_tlv j t))
      else if tlv_type t = ucast PFCP_IE_TIME_THRESHOLD then Some (IE_time_threshold (time_threshold_ie_of_tlv j t))
      else if tlv_type t = ucast PFCP_IE_MONITORING_TIME then Some (IE_monitoring_time (monitoring_time_ie_of_tlv j t))
      else if tlv_type t = ucast PFCP_IE_SUBSEQUENT_VOLUME_THRESHOLD then Some (IE_subsequent_volume_threshold (subsequent_volume_threshold_ie_of_tlv j t))
      else if tlv_type t = ucast PFCP_IE_SUBSEQUENT_TIME_THRESHOLD then Some (IE_subsequent_time_threshold (subsequent_time_threshold_ie_of_tlv j t))
      else if tlv_type t = ucast PFCP_IE_INACTIVITY_DETECTION_TIME then Some (IE_inactivity_detection_time (inactivity_detection_time_ie_of_tlv j t))
      else if tlv_type t = ucast PFCP_IE_REPORTING_TRIGGERS then Some (IE_reporting_triggers (reporting_triggers_ie_of_tlv j t))
      else if tlv_type t = ucast PFCP_IE_REPORT_TYPE then Some (IE_report_type (report_type_ie_of_tlv j t))
      else if tlv_type t = ucast PFCP_IE_OFFENDING_IE then Some (IE_offending_ie (offending_ie_ie_of_tlv j t))
      else if tlv_type t = ucast PFCP_IE_FORWARDING_POLICY then Some (IE_forwarding_policy (forwarding_policy_ie_of_tlv j t))
      else if tlv_type t = ucast PFCP_IE_DESTINATION_INTERFACE then Some (IE_destination_interface (destination_interface_ie_of_tlv j t))
      else if tlv_type t = ucast PFCP_IE_UP_FUNCTION_FEATURES then Some (IE_up_function_features (up_function_features_ie_of_tlv j t))
      else if tlv_type t = ucast PFCP_IE_APPLY_ACTION then Some (IE_apply_action (apply_action_ie_of_tlv j t))
      else if tlv_type t = ucast PFCP_IE_PACKET_DETECTION_RULE_ID then Some (IE_pdr_id (pdr_id_ie_of_tlv j t))
      else if tlv_type t = ucast PFCP_IE_F_SEID then Some (IE_f_seid (f_seid_ie_of_tlv j t))
      else if tlv_type t = ucast PFCP_IE_NODE_ID then Some (IE_node_id (node_id_ie_of_tlv j t))
      else if tlv_type t = ucast PFCP_IE_URR_ID then Some (IE_urr_id (urr_id_ie_of_tlv j t))
      else if tlv_type t = ucast PFCP_IE_OUTER_HEADER_CREATION then Some (IE_outer_header_creation (outer_header_creation_ie_of_tlv j t))
      else if tlv_type t = ucast PFCP_IE_BAR_ID then Some (IE_bar_id (bar_id_ie_of_tlv j t))
      else if tlv_type t = ucast PFCP_IE_CP_FUNCTION_FEATURES then Some (IE_cp_function_features (cp_function_features_ie_of_tlv j t))
      else if tlv_type t = ucast PFCP_IE_UE_IP_ADDRESS then Some (IE_ue_ip_address (ue_ip_address_ie_of_tlv j t))
      else if tlv_type t = ucast PFCP_IE_OUTER_HEADER_REMOVAL then Some (IE_outer_header_removal (outer_header_removal_ie_of_tlv j t))
      else if tlv_type t = ucast PFCP_IE_RECOVERY_TIME_STAMP then Some (IE_recovery_time_stamp (recovery_time_stamp_ie_of_tlv j t))
      else if tlv_type t = ucast PFCP_IE_ACTIVATE_PREDEFINED_RULES then Some (IE_activate_predefined_rules (activate_predefined_rules_ie_of_tlv j t))
      else if tlv_type t = ucast PFCP_IE_DEACTIVATE_PREDEFINED_RULES then Some (IE_deactivate_predefined_rules (deactivate_predefined_rules_ie_of_tlv j t))
      else if tlv_type t = ucast PFCP_IE_FAR_ID then Some (IE_far_id (far_id_ie_of_tlv j t))
      else if tlv_type t = ucast PFCP_IE_QER_ID then Some (IE_qer_id (qer_id_ie_of_tlv j t))
      else if tlv_type t = ucast PFCP_IE_FAILED_RULE_ID then Some (IE_failed_rule_id (failed_rule_id_ie_of_tlv j t))
      else if tlv_type t = ucast PFCP_IE_USER_PLANE_IP_RESOURCE_INFORMATION then Some (IE_upip (upip_ie_of_tlv j t))
      else if tlv_type t = ucast PFCP_IE_USER_PLANE_INACTIVITY_TIMER then Some (IE_user_plane_inactivity_timer (user_plane_inactivity_timer_ie_of_tlv j t))
      else if tlv_type t = ucast PFCP_IE_QFI then Some (IE_qfi (qfi_ie_of_tlv j t))
      else if tlv_type t = ucast PFCP_IE_USER_ID then Some (IE_user_id (user_id_ie_of_tlv j t))
      else None)"

text \<open>The branches for the grouped classes.\<close>

definition grouped_types :: "u8 list" where
  "grouped_types =
     [PFCP_IE_CREATE_PDR,
      PFCP_IE_PDI,
      PFCP_IE_CREATE_FAR,
      PFCP_IE_FORWARDING_PARAMETERS,
      PFCP_IE_DUPLICATING_PARAMETERS,
      PFCP_IE_CREATE_URR,
      PFCP_IE_CREATE_QER,
      PFCP_IE_CREATED_PDR,
      PFCP_IE_UPDATE_PDR,
      PFCP_IE_UPDATE_FAR,
      PFCP_IE_UPDATE_FORWARDING_PARAMETERS,
      PFCP_IE_UPDATE_BAR_WITHIN_PFCP_SESSION_REPORT_RESPONSE,
      PFCP_IE_UPDATE_URR,
      PFCP_IE_UPDATE_QER,
      PFCP_IE_REMOVE_PDR,
      PFCP_IE_REMOVE_FAR,
      PFCP_IE_REMOVE_URR,
      PFCP_IE_REMOVE_QER,
      PFCP_IE_DOWNLINK_DATA_REPORT]"

definition is_grouped_type :: "u16 \<Rightarrow> bool" where
  "is_grouped_type ty \<longleftrightarrow> ty \<in> ucast ` set grouped_types"

section \<open>Groups and the factory\<close>

datatype pfcp_ie =
    Simple simple_ie
  | Grouped pfcp_tlv "pfcp_ie list"

fun ie_tlv_of :: "pfcp_ie \<Rightarrow> pfcp_tlv" where
  "ie_tlv_of (Simple s) = simple_tlv s"
| "ie_tlv_of (Grouped t ies) = t"

text \<open>\<^verbatim>\<open>pfcp_grouped_ie::add_ie\<close>.\<close>

fun add_ie :: "pfcp_ie \<Rightarrow> pfcp_ie \<Rightarrow> pfcp_ie" where
  "add_ie ie (Grouped t ies) =
     Grouped (tlv_add_length (4 + tlv_length (ie_tlv_of ie)) t) (ies @ [ie])"
| "add_ie ie (Simple s) = Simple s"

text \<open>
  \<^verbatim>\<open>dump_to\<close>.  Writing an object changes it (lengths are recomputed); an exception leaves what was
  written before.
\<close>

fun ie_dump_to :: "u8 \<Rightarrow> pfcp_ie \<Rightarrow> ((pfcp_exn + pfcp_ie) \<times> bytes) option"
  and ies_dump_to :: "u8 \<Rightarrow> pfcp_ie list \<Rightarrow> ((pfcp_exn + pfcp_ie list) \<times> bytes) option" where
  "ie_dump_to j (Simple s) =
     map_option (\<lambda>(r, bs). (map_sum id Simple r, bs)) (simple_dump j s)"
| "ie_dump_to j (Grouped t ies) =
     map_option (\<lambda>(r, bs). (map_sum id (Grouped t) r, tlv_dump_to t @ bs)) (ies_dump_to j ies)"
| "ies_dump_to j [] = Some (Inr [], [])"
| "ies_dump_to j (ie # ies) =
     (case ie_dump_to j ie of
        None \<Rightarrow> None
      | Some (Inl e, bs) \<Rightarrow> Some (Inl e, bs)
      | Some (Inr ie', bs) \<Rightarrow>
          map_option (\<lambda>(r, bs'). (map_sum id ((#) ie') r, bs @ bs')) (ies_dump_to j ies))"

text \<open>
  \<^verbatim>\<open>new_pfcp_ie_from_stream\<close> and \<^verbatim>\<open>pfcp_grouped_ie::load_from\<close>.  The answer \<^term>\<open>Inr None\<close> is the null
  pointer.
\<close>

fun new_pfcp_ie_from_stream :: "nat \<Rightarrow> istream \<Rightarrow> ((pfcp_exn + pfcp_ie option) \<times> istream) option"
  and grouped_load :: "nat \<Rightarrow> pfcp_tlv \<Rightarrow> int \<Rightarrow> pfcp_ie list \<Rightarrow> istream \<Rightarrow>
     ((pfcp_exn + pfcp_ie list) \<times> istream) option" where
  "new_pfcp_ie_from_stream 0 is = None"
| "new_pfcp_ie_from_stream (Suc n) is =
     (let (t, is) = tlv_load_from new_pfcp_tlv is in
      if tlv_length t \<noteq> 0 then
        (case new_simple (is_junk is) t of
           Some s \<Rightarrow> map_option (\<lambda>(r, is). (map_sum id (\<lambda>s. Some (Simple s)) r, is)) (simple_load s is)
         | None \<Rightarrow>
             if is_grouped_type (tlv_type t)
             then map_option (\<lambda>(r, is). (map_sum id (\<lambda>ies. Some (Grouped t ies)) r, is))
                    (grouped_load n t (uint (tlv_length t)) [] is)
             else Some (Inr None, is))
      else Some (Inr None, is))"
| "grouped_load 0 t remaining ies is = None"
| "grouped_load (Suc n) t remaining ies is =
     (if 0 < remaining then
        (case new_pfcp_ie_from_stream n is of
           None \<Rightarrow> None
         | Some (Inl e, is) \<Rightarrow> Some (Inl e, is)
         | Some (Inr (Some ie), is) \<Rightarrow>
             grouped_load n t (remaining - (uint (tlv_length (ie_tlv_of ie)) + 4)) (ies @ [ie]) is
         | Some (Inr None, is) \<Rightarrow> Some (Inl (Tlv_bad_length (tlv_type t) (tlv_length t)), is))
      else Some (Inr ies, is))"

end
