(* ===== verification/Pfcp_Factory.thy ===== *)
theory Pfcp_Factory
  imports Pfcp_Ie
begin

text \<open>
  The factory of \<^verbatim>\<open>src/oai/pfcp/3gpp_29.244.cpp\<close> ends: no reader puts bytes back, a header with a
  length consumes bytes, so twice the number of bytes in the stream bounds the depth of the calls
  between factory and groups.  \<open>new_pfcp_ie\<close> and \<open>grouped_loop\<close> are the functions with that fuel; the
  equations \<open>new_pfcp_ie_unfold\<close> and \<open>grouped_loop_unfold\<close> are those of the source.
\<close>

section \<open>Reading never puts bytes back\<close>

abbreviation (input) left :: "istream \<Rightarrow> nat" where "left is \<equiv> length (is_rest is)"

text \<open>A stream after some reads: it holds a part of the bytes, and is not given other ones.\<close>

definition later :: "istream \<Rightarrow> istream \<Rightarrow> bool" where
  "later s' s \<longleftrightarrow> left s' \<le> left s \<and> set (is_rest s') \<subseteq> set (is_rest s) \<and> is_junk s' = is_junk s"

lemma later_refl [simp]: "later s s"
  by (simp add: later_def)

lemma later_trans: "later s2 s1 \<Longrightarrow> later s1 s \<Longrightarrow> later s2 s"
  by (auto simp: later_def)

lemma later_left: "later s' s \<Longrightarrow> left s' \<le> left s"
  by (simp add: later_def)

definition shrinks :: "istream \<Rightarrow> 'a \<times> istream \<Rightarrow> bool" where
  "shrinks s r \<longleftrightarrow> later (snd r) s"

named_theorems shrinks_intros

lemma shrinks_pair [shrinks_intros]: "later s' s \<Longrightarrow> shrinks s (x, s')"
  by (simp add: shrinks_def)

lemma shrinks_read [shrinks_intros]: "later s' s \<Longrightarrow> shrinks s (is_read old s')"
  by (auto simp: is_read_def shrinks_def later_def dest: in_set_takeD in_set_dropD)

lemma shrinks_let_pair:
  "shrinks s X \<Longrightarrow> (\<And>v s'. later s' s \<Longrightarrow> shrinks s (g v s')) \<Longrightarrow> shrinks s (Let X (case_prod g))"
  by (cases X) (simp add: shrinks_def)

lemma shrinks_let: "shrinks s (f x) \<Longrightarrow> shrinks s (Let x f)"
  by simp

lemma shrinks_if [shrinks_intros]: "shrinks s x \<Longrightarrow> shrinks s y \<Longrightarrow> shrinks s (if b then x else y)"
  by simp

lemma shrinks_sum [shrinks_intros]:
  "(\<And>e. shrinks s (f e)) \<Longrightarrow> (\<And>x. shrinks s (g x)) \<Longrightarrow> shrinks s (case r of Inl e \<Rightarrow> f e | Inr x \<Rightarrow> g x)"
  by (cases r) simp_all

lemma shrinks_prod [shrinks_intros]: "(\<And>a b. shrinks s (f a b)) \<Longrightarrow> shrinks s (case p of (a, b) \<Rightarrow> f a b)"
  by (cases p) simp

lemma shrinks_read_raw [shrinks_intros]: "later s' s \<Longrightarrow> shrinks s (read_raw n v s')"
  unfolding read_raw_def by (rule shrinks_let_pair shrinks_intros | assumption)+

lemma shrinks_read_be [shrinks_intros]: "later s' s \<Longrightarrow> shrinks s (read_be n v s')"
  unfolding read_be_def by (rule shrinks_let_pair shrinks_intros | assumption)+

lemma shrinks_read_string [shrinks_intros]: "later s' s \<Longrightarrow> shrinks s (read_string n s')"
  unfolding read_string_def by (rule shrinks_let_pair shrinks_intros | assumption)+

lemma shrinks_bcd_load [shrinks_intros]: "later s' s \<Longrightarrow> shrinks s (bcd_load v m s')"
  unfolding bcd_load_def by (rule shrinks_let_pair shrinks_let shrinks_intros | assumption)+

lemmas simple_load_from_defs =
  cause_ie_load_from_def
  source_interface_ie_load_from_def
  fteid_ie_load_from_def
  network_instance_ie_load_from_def
  sdf_filter_ie_load_from_def
  application_id_ie_load_from_def
  gate_status_ie_load_from_def
  mbr_ie_load_from_def
  gbr_ie_load_from_def
  qer_correlation_id_ie_load_from_def
  precedence_ie_load_from_def
  transport_level_marking_ie_load_from_def
  volume_threshold_ie_load_from_def
  time_threshold_ie_load_from_def
  monitoring_time_ie_load_from_def
  subsequent_volume_threshold_ie_load_from_def
  subsequent_time_threshold_ie_load_from_def
  inactivity_detection_time_ie_load_from_def
  reporting_triggers_ie_load_from_def
  report_type_ie_load_from_def
  offending_ie_ie_load_from_def
  forwarding_policy_ie_load_from_def
  destination_interface_ie_load_from_def
  up_function_features_ie_load_from_def
  apply_action_ie_load_from_def
  pdr_id_ie_load_from_def
  f_seid_ie_load_from_def
  urr_id_ie_load_from_def
  outer_header_creation_ie_load_from_def
  bar_id_ie_load_from_def
  cp_function_features_ie_load_from_def
  ue_ip_address_ie_load_from_def
  outer_header_removal_ie_load_from_def
  recovery_time_stamp_ie_load_from_def
  activate_predefined_rules_ie_load_from_def
  deactivate_predefined_rules_ie_load_from_def
  far_id_ie_load_from_def
  qer_id_ie_load_from_def
  failed_rule_id_ie_load_from_def
  upip_ie_load_from_def
  user_plane_inactivity_timer_ie_load_from_def
  qfi_ie_load_from_def
  user_id_ie_load_from_def
  node_report_type_ie_load_from_def

lemma simple_loads_shrink:
  "shrinks is (cause_ie_load_from ie0 is)"
  "shrinks is (source_interface_ie_load_from ie1 is)"
  "shrinks is (fteid_ie_load_from ie2 is)"
  "shrinks is (network_instance_ie_load_from ie3 is)"
  "shrinks is (sdf_filter_ie_load_from ie4 is)"
  "shrinks is (application_id_ie_load_from ie5 is)"
  "shrinks is (gate_status_ie_load_from ie6 is)"
  "shrinks is (mbr_ie_load_from ie7 is)"
  "shrinks is (gbr_ie_load_from ie8 is)"
  "shrinks is (qer_correlation_id_ie_load_from ie9 is)"
  "shrinks is (precedence_ie_load_from ie10 is)"
  "shrinks is (transport_level_marking_ie_load_from ie11 is)"
  "shrinks is (volume_threshold_ie_load_from ie12 is)"
  "shrinks is (time_threshold_ie_load_from ie13 is)"
  "shrinks is (monitoring_time_ie_load_from ie14 is)"
  "shrinks is (subsequent_volume_threshold_ie_load_from ie15 is)"
  "shrinks is (subsequent_time_threshold_ie_load_from ie16 is)"
  "shrinks is (inactivity_detection_time_ie_load_from ie17 is)"
  "shrinks is (reporting_triggers_ie_load_from ie18 is)"
  "shrinks is (report_type_ie_load_from ie19 is)"
  "shrinks is (offending_ie_ie_load_from ie20 is)"
  "shrinks is (forwarding_policy_ie_load_from ie21 is)"
  "shrinks is (destination_interface_ie_load_from ie22 is)"
  "shrinks is (up_function_features_ie_load_from ie23 is)"
  "shrinks is (apply_action_ie_load_from ie24 is)"
  "shrinks is (pdr_id_ie_load_from ie25 is)"
  "shrinks is (f_seid_ie_load_from ie26 is)"
  "shrinks is (urr_id_ie_load_from ie27 is)"
  "shrinks is (outer_header_creation_ie_load_from ie28 is)"
  "shrinks is (bar_id_ie_load_from ie29 is)"
  "shrinks is (cp_function_features_ie_load_from ie30 is)"
  "shrinks is (ue_ip_address_ie_load_from ie31 is)"
  "shrinks is (outer_header_removal_ie_load_from ie32 is)"
  "shrinks is (recovery_time_stamp_ie_load_from ie33 is)"
  "shrinks is (activate_predefined_rules_ie_load_from ie34 is)"
  "shrinks is (deactivate_predefined_rules_ie_load_from ie35 is)"
  "shrinks is (far_id_ie_load_from ie36 is)"
  "shrinks is (qer_id_ie_load_from ie37 is)"
  "shrinks is (failed_rule_id_ie_load_from ie38 is)"
  "shrinks is (upip_ie_load_from ie39 is)"
  "shrinks is (user_plane_inactivity_timer_ie_load_from ie40 is)"
  "shrinks is (qfi_ie_load_from ie41 is)"
  "shrinks is (user_id_ie_load_from ie42 is)"
  "shrinks is (node_report_type_ie_load_from ie43 is)"
  unfolding simple_load_from_defs
  by (rule shrinks_let_pair shrinks_let shrinks_intros later_refl | assumption)+

lemma node_id_load_shrinks: "node_id_ie_load_from ie is = Some q \<Longrightarrow> shrinks is q"
  by (auto simp: node_id_ie_load_from_def Let_def shrinks_def later_def is_read_def read_raw_def
      split: if_splits prod.splits dest: in_set_dropD)

lemma shrinks_as_simple [simp]: "shrinks is (as_simple C q) = shrinks is q"
  by (simp add: shrinks_def)

lemma simple_load_shrinks: "simple_load ie is = Some r \<Longrightarrow> shrinks is r"
  by (cases ie) (auto simp: simple_loads_shrink dest: node_id_load_shrinks)


section \<open>The fuel\<close>

text \<open>A header with a length consumes bytes.\<close>

lemma tlv_load_shrinks: "shrinks is (tlv_load_from t is)"
  unfolding tlv_load_from_def
  by (rule shrinks_let_pair shrinks_let shrinks_intros later_refl | assumption)+

lemma read_be_nothing: "left is = 0 \<or> is_fail is \<Longrightarrow> read_be n 0 is = (v, is') \<Longrightarrow>
    v = 0 \<and> (left is' = 0 \<or> is_fail is')"
proof -
  have "le_word (rev (le_bytes n (0 :: 'a word))) = (0 :: 'a word)"
  proof -
    have "le_bytes n (0 :: 'a word) = replicate n 0" by (induction n) simp_all
    moreover have "le_word (replicate n 0) = (0 :: 'a word)" by (induction n) simp_all
    ultimately show ?thesis by simp
  qed
  then show "left is = 0 \<or> is_fail is \<Longrightarrow> read_be n 0 is = (v, is') \<Longrightarrow> v = 0 \<and> (left is' = 0 \<or> is_fail is')"
    by (auto simp: read_be_def is_read_def split: if_splits)
qed

lemma read_be_left: "read_be n v is = (w, is') \<Longrightarrow> left is' \<le> left is"
  using shrinks_read_be [of "is" "is" n v] by (simp add: shrinks_def later_left)

lemma read_be_less:
  assumes "left is \<noteq> 0" and "\<not> is_fail is" and "0 < n"
  shows "left (snd (read_be n v is)) < left is"
  using assms by (auto simp: read_be_def is_read_def)

lemma tlv_load_consumes:
  assumes "tlv_load_from new_pfcp_tlv is = (t, is')" and "tlv_length t \<noteq> 0"
  shows "left is' < left is"
proof -
  obtain ty is1 where r1: "read_be 2 (0 :: u16) is = (ty, is1)" by fastforce
  obtain len is2 where r2: "read_be 2 (0 :: u16) is1 = (len, is2)" by fastforce
  have t: "tlv_length t = len"
    using assms(1) r1 r2 by (auto simp: tlv_load_from_def new_pfcp_tlv_def split: prod.splits if_splits)
  have "\<not> (left is = 0 \<or> is_fail is)"
    using read_be_nothing [OF _ r1] read_be_nothing [OF _ r2] assms(2) t by auto
  then have "left is1 < left is"
    using read_be_less [of "is" 2 "0 :: u16"] r1 by simp
  moreover have "left is' \<le> left is1"
    using assms(1) r1
    by (fastforce simp: tlv_load_from_def new_pfcp_tlv_def split: prod.splits if_splits dest: read_be_left)
  ultimately show ?thesis by simp
qed

lemma new_pfcp_ie_consumes:
  "new_pfcp_ie_from_stream n is = Some (r, is') \<Longrightarrow> later is' is \<and> (\<forall>ie. r = Inr (Some ie) \<longrightarrow> left is' < left is)"
  "grouped_load n t rem ies is = Some (q, is') \<Longrightarrow> later is' is"
proof (induction n "is" and n t rem ies "is" arbitrary: r is' and q is' rule: new_pfcp_ie_from_stream_grouped_load.induct)
  case (2 n "is")
  obtain t is1 where t: "tlv_load_from new_pfcp_tlv is = (t, is1)" by fastforce
  have l: "later is1 is" using tlv_load_shrinks [of "is" new_pfcp_tlv] t by (simp add: shrinks_def)
  show ?case
  proof (cases "tlv_length t = 0")
    case True
    then show ?thesis using 2 t l by auto
  next
    case False
    note c = tlv_load_consumes [OF t False]
    have "later is' is1"
      using 2 t False
      by (auto split: option.splits if_splits simp: shrinks_def dest!: simple_load_shrinks)
    then show ?thesis using c l by (auto intro: later_trans dest: later_left)
  qed
next
  case (4 n t rem ies "is")
  then show ?case
    by (fastforce split: if_splits option.splits prod.splits sum.splits intro: later_trans)
qed simp_all

text \<open>Two units of fuel per byte, and one more, are enough: more fuel gives the same answer.\<close>

lemma new_pfcp_ie_step:
  assumes "\<And>is' t rem ies. left is' < left is \<Longrightarrow> grouped_load n t rem ies is' = grouped_load m t rem ies is'"
  shows "new_pfcp_ie_from_stream (Suc n) is = new_pfcp_ie_from_stream (Suc m) is"
proof -
  obtain t is1 where t: "tlv_load_from new_pfcp_tlv is = (t, is1)" by fastforce
  show ?thesis
  proof (cases "tlv_length t = 0")
    case False
    then have "grouped_load n t rem ies is1 = grouped_load m t rem ies is1" for rem ies
      using tlv_load_consumes [OF t False] assms by blast
    then show ?thesis by (simp add: t split: option.split)
  qed (simp add: t)
qed

lemma grouped_load_step:
  assumes new: "new_pfcp_ie_from_stream n is = new_pfcp_ie_from_stream m is"
    and grp: "\<And>is' rem ies. left is' < left is \<Longrightarrow> grouped_load n t rem ies is' = grouped_load m t rem ies is'"
  shows "grouped_load (Suc n) t rem ies is = grouped_load (Suc m) t rem ies is"
proof -
  have "grouped_load n t rem' ies' is' = grouped_load m t rem' ies' is'"
    if "new_pfcp_ie_from_stream m is = Some (Inr (Some ie), is')" for ie is' rem' ies'
    using new_pfcp_ie_consumes(1) [OF that] grp by blast
  then show ?thesis
    by (auto simp: new split: option.splits sum.splits)
qed

lemma new_pfcp_ie_fuel:
  "2 * left is < n \<Longrightarrow> 2 * left is < m \<Longrightarrow> new_pfcp_ie_from_stream n is = new_pfcp_ie_from_stream m is"
  "2 * left is + 1 < n \<Longrightarrow> 2 * left is + 1 < m \<Longrightarrow> grouped_load n t rem ies is = grouped_load m t rem ies is"
proof (induction "left is" arbitrary: "is" n m t rem ies rule: less_induct)
  case less
  have new: "new_pfcp_ie_from_stream n is = new_pfcp_ie_from_stream m is" if nm: "2 * left is < n" "2 * left is < m" for n m
  proof -
    obtain n' m' where s: "n = Suc n'" "m = Suc m'" using nm by (cases n; cases m) auto
    show ?thesis unfolding s
      by (rule new_pfcp_ie_step, rule less(2)) (use nm s in auto)
  qed
  {
    case 1
    then show ?case by (rule new)
  next
    case 2
    then obtain n' m' where nm: "n = Suc n'" "m = Suc m'" by (cases n; cases m) auto
    have "new_pfcp_ie_from_stream n' is = new_pfcp_ie_from_stream m' is"
      using 2 nm by (intro new) auto
    then show ?case unfolding nm
      by (rule grouped_load_step, intro less(2)) (use 2 nm in auto)
  }
qed

text \<open>The functions without fuel and their recursion equations.\<close>

definition new_pfcp_ie :: "istream \<Rightarrow> ((pfcp_exn + pfcp_ie option) \<times> istream) option" where
  "new_pfcp_ie is = new_pfcp_ie_from_stream (2 * left is + 1) is"

definition grouped_loop :: "pfcp_tlv \<Rightarrow> int \<Rightarrow> pfcp_ie list \<Rightarrow> istream \<Rightarrow> ((pfcp_exn + pfcp_ie list) \<times> istream) option" where
  "grouped_loop t remaining ies is = grouped_load (2 * left is + 2) t remaining ies is"

lemma new_pfcp_ie_from_stream_enough: "2 * left is < n \<Longrightarrow> new_pfcp_ie_from_stream n is = new_pfcp_ie is"
  unfolding new_pfcp_ie_def by (rule new_pfcp_ie_fuel(1)) auto

lemma grouped_load_enough: "2 * left is + 1 < n \<Longrightarrow> grouped_load n t rem ies is = grouped_loop t rem ies is"
  unfolding grouped_loop_def by (rule new_pfcp_ie_fuel(2)) auto

lemma new_pfcp_ie_unfold:
  "new_pfcp_ie is =
     (let (t, is) = tlv_load_from new_pfcp_tlv is in
      if tlv_length t \<noteq> 0 then
        (case new_simple (is_junk is) t of
           Some s \<Rightarrow> map_option (\<lambda>(r, is). (map_sum id (\<lambda>s. Some (Simple s)) r, is)) (simple_load s is)
         | None \<Rightarrow>
             if is_grouped_type (tlv_type t)
             then map_option (\<lambda>(r, is). (map_sum id (\<lambda>ies. Some (Grouped t ies)) r, is))
                    (grouped_loop t (uint (tlv_length t)) [] is)
             else Some (Inr None, is))
      else Some (Inr None, is))"
proof -
  obtain t is1 where t: "tlv_load_from new_pfcp_tlv is = (t, is1)" by fastforce
  then have "tlv_length t \<noteq> 0 \<Longrightarrow> grouped_load (2 * left is) t rem ies is1 = grouped_loop t rem ies is1" for rem ies
    using tlv_load_consumes [OF t] by (intro grouped_load_enough) auto
  then show ?thesis
    by (simp add: new_pfcp_ie_def t split: option.split)
qed

declare new_pfcp_ie_from_stream.simps [simp del] grouped_load.simps [simp del]

lemma grouped_loop_unfold:
  "grouped_loop t remaining ies is =
     (if 0 < remaining then
        (case new_pfcp_ie is of
           None \<Rightarrow> None
         | Some (Inl e, is) \<Rightarrow> Some (Inl e, is)
         | Some (Inr (Some ie), is) \<Rightarrow>
             grouped_loop t (remaining - (uint (tlv_length (ie_tlv_of ie)) + 4)) (ies @ [ie]) is
         | Some (Inr None, is) \<Rightarrow> Some (Inl (Tlv_bad_length (tlv_type t) (tlv_length t)), is))
      else Some (Inr ies, is))"
proof -
  have new: "new_pfcp_ie_from_stream (Suc (2 * left is)) is = new_pfcp_ie is"
    by (rule new_pfcp_ie_from_stream_enough) simp
  have "grouped_load (Suc (2 * left is)) t rem ies' is' = grouped_loop t rem ies' is'"
    if "new_pfcp_ie is = Some (Inr (Some ie), is')" for ie is' rem ies'
    using new_pfcp_ie_consumes(1) [OF that [folded new]] by (intro grouped_load_enough) simp
  then show ?thesis
    by (auto simp: grouped_loop_def [of t remaining ies "is"] grouped_load.simps(2) [of "Suc (2 * left is)"] new
        split: option.splits sum.splits)
qed

section \<open>The factory returns\<close>

text \<open>
  With that fuel the recursion always ends; what is left is the loop over the labels of a domain
  name in a node identifier.  It ends when no byte of the stream, nor of the memory a short read
  leaves as it was, has its highest bit set.
\<close>

definition plain :: "istream \<Rightarrow> bool" where
  "plain is \<longleftrightarrow> (\<forall>b \<in> set (is_rest is). b < 0x80) \<and> is_junk is < 0x80"

lemma plain_later: "later s' s \<Longrightarrow> plain s \<Longrightarrow> plain s'"
  by (auto simp: later_def plain_def)

lemma simple_load_None: "simple_load s is = None \<Longrightarrow> \<exists>ie. s = IE_node_id ie \<and> node_id_ie_load_from ie is = None"
  by (cases s) simp_all

lemma new_simple_node_id: "new_simple j t = Some (IE_node_id ie) \<Longrightarrow> ie = node_id_ie_of_tlv j t"
  by (auto simp: new_simple_def split: if_splits)

lemma is_read_plain:
  assumes "plain is" and "\<forall>b \<in> set old. b < 0x80" and "is_read old is = (bs, is')"
  shows "\<forall>b \<in> set bs. b < 0x80" and "length bs = length old"
  using assms by (auto simp: is_read_def plain_def split: if_splits dest!: in_set_takeD in_set_dropD)

lemma read_be_plain:
  assumes "plain is"
  shows "unat (fst (read_be 2 (0 :: u16) is)) < 2 ^ 15"
proof -
  obtain bs is' where r: "is_read [0, 0] is = (bs, is')" by fastforce
  then obtain x y where bs: "bs = [x, y]" and "x < 0x80"
  proof -
    have "\<forall>b \<in> set bs. b < 0x80" "length bs = 2"
      using is_read_plain [OF assms _ r] by simp_all
    then show ?thesis using that by (auto simp: length_Suc_conv numeral_2_eq_2)
  qed
  then have "take_bit 7 x = x"
    by (simp add: word_unat_eq_iff unsigned_take_bit_eq take_bit_nat_eq_self word_less_nat_alt)
  then have "\<not> bit x 7"
    by (metis bit_take_bit_iff less_irrefl)
  then have top: "\<not> bit (le_word [y, x] :: u16) 15"
    by (simp add: bit_le_word del: le_word.simps)
  have "take_bit 15 w = w" if "\<not> bit w 15" for w :: u16
  proof (rule bit_word_eqI)
    fix n assume "n < LENGTH(16)"
    then show "bit (take_bit 15 w) n = bit w n"
      using that by (cases "n = 15") (auto simp: bit_take_bit_iff)
  qed
  note this [OF top]
  with take_bit_nat_less_exp [of 15 "unat (le_word [y, x] :: u16)"] r bs show ?thesis
    by (simp add: read_be_def numeral_2_eq_2 word_unat_eq_iff unsigned_take_bit_eq del: le_word.simps)
qed

lemma tlv_load_plain:
  assumes "plain is" and "tlv_load_from new_pfcp_tlv is = (t, is')"
  shows "unat (tlv_length t) < 2 ^ 15"
proof -
  obtain ty is1 where r1: "read_be 2 (0 :: u16) is = (ty, is1)" by fastforce
  obtain len is2 where r2: "read_be 2 (0 :: u16) is1 = (len, is2)" by fastforce
  have "tlv_length t = len"
    using assms(2) r1 r2 by (auto simp: tlv_load_from_def new_pfcp_tlv_def split: prod.splits if_splits)
  moreover have "plain is1"
    using shrinks_read_be [of "is" "is" 2 "0 :: u16"] r1 assms(1) by (simp add: shrinks_def plain_later)
  ultimately show ?thesis
    using read_be_plain [of is1] r2 by simp
qed

lemma node_id_load_returns:
  assumes "plain is" and "tlv_length t \<noteq> 0" and "unat (tlv_length t) < 2 ^ 15"
  shows "node_id_ie_load_from (node_id_ie_of_tlv j t) is \<noteq> None"
proof -
  have ends: "\<exists>r. dotted_to_string e = Some r" if "\<forall>c \<in> set e. c < 0x80" "length e < 2 ^ 15" for e
    using dotted_to_string_loop_ends [of e 0 "[]" True] that by (auto simp: dotted_to_string_def)
  obtain u is1 where u: "read_u8 (node_id_ie_u1 (node_id_ie_of_tlv j t)) is = (u, is1)" by fastforce
  have p1: "plain is1"
    using shrinks_read_raw [of "is" "is" 1 "node_id_ie_u1 (node_id_ie_of_tlv j t)"] u assms(1)
    by (simp add: shrinks_def plain_later)
  obtain e is2 where e: "is_read (replicate (unat (tlv_length t - 1)) (is_junk is1)) is1 = (e, is2)" by fastforce
  have "unat (tlv_length t - 1) < 2 ^ 15"
    using assms(2,3) by (simp add: unat_minus_one)
  then have "\<exists>r. dotted_to_string e = Some r"
    using is_read_plain [OF p1 _ e] p1 by (intro ends) (auto simp: plain_def)
  then show ?thesis
    using u e
    by (auto simp: node_id_ie_load_from_def Let_def node_id_ie_of_tlv_def split_beta)
qed

lemma new_pfcp_ie_returns:
  "plain is \<Longrightarrow> new_pfcp_ie is \<noteq> None"
  "plain is \<Longrightarrow> grouped_loop t remaining ies is \<noteq> None"
proof (induction "left is" arbitrary: "is" t remaining ies rule: less_induct)
  case less
  have new: "new_pfcp_ie is \<noteq> None" if "plain is"
  proof -
    obtain t is1 where t: "tlv_load_from new_pfcp_tlv is = (t, is1)" by fastforce
    show ?thesis
    proof (cases "tlv_length t = 0")
      case False
      have "later is1 is" using tlv_load_shrinks [of "is" new_pfcp_tlv] t by (simp add: shrinks_def)
      then have p1: "plain is1" using \<open>plain is\<close> by (rule plain_later)
      have "simple_load s is1 \<noteq> None" if "new_simple (is_junk is1) t = Some s" for s
      proof
        assume "simple_load s is1 = None"
        then obtain ie where s: "s = IE_node_id ie" and ie: "node_id_ie_load_from ie is1 = None"
          using simple_load_None by blast
        have "ie = node_id_ie_of_tlv (is_junk is1) t"
          using that unfolding s by (rule new_simple_node_id)
        with ie show False
          using node_id_load_returns [OF p1 False tlv_load_plain [OF \<open>plain is\<close> t]] by simp
      qed
      moreover have "grouped_loop t rem ies is1 \<noteq> None" for rem ies
        using less(2) [OF tlv_load_consumes [OF t False] p1] .
      ultimately show ?thesis
        by (subst new_pfcp_ie_unfold) (auto simp: t simp del: not_None_eq split: option.split)
    qed (subst new_pfcp_ie_unfold, simp add: t)
  qed
  {
    case 1
    then show ?case by (rule new)
  next
    case 2
    have "grouped_loop t rem ies' is' \<noteq> None" if "new_pfcp_ie is = Some (Inr (Some ie), is')" for rem ies' ie is'
    proof (rule less(2))
      show "left is' < left is" "plain is'"
        using new_pfcp_ie_consumes(1) [OF that [unfolded new_pfcp_ie_def]] plain_later [OF _ 2] by auto
    qed
    then show ?case
      using new [OF 2] by (subst grouped_loop_unfold) (auto split: option.split sum.split)
  }
qed

text \<open>A domain name that starts with the byte 255 keeps the reader in its loop.\<close>

lemma new_pfcp_ie_hangs:
  assumes "length bs < 2 ^ 16 - 2"
  shows "new_pfcp_ie (stream j (tlv_dump_to (ie_tlv PFCP_IE_NODE_ID (2 + length bs)) @ [0x02, 0xff] @ bs @ rest)) = None"
proof -
  let ?t = "ie_tlv PFCP_IE_NODE_ID (2 + length bs)"
  have len: "unat (tlv_length ?t - 1) = 1 + length bs" and nz: "tlv_length ?t \<noteq> 0"
    using assms by (simp_all add: ie_tlv_def unat_minus_one word_unat_eq_iff unat_word_ariths unat_of_nat)
  have one: "tlv_length ?t \<noteq> 1"
    using len by auto
  have "is_read (replicate (1 + length bs) j) (stream j ((0xff # bs) @ rest)) = (0xff # bs, stream j rest)"
    by (rule is_read_append) simp
  then have "node_id_ie_load_from (node_id_ie_of_tlv j ?t) (stream j (0x02 # 0xff # bs @ rest)) = None"
    using len nz one
    by (simp add: node_id_ie_load_from_def node_id_ie_of_tlv_def Let_def dotted_to_string_diverges
        del: replicate.simps)
  moreover have "new_simple j ?t = Some (IE_node_id (node_id_ie_of_tlv j ?t))"
    by (simp add: new_simple_def ie_tlv_def)
  ultimately show ?thesis
    using nz tlv_load_ie_tlv [where t = PFCP_IE_NODE_ID and n = "2 + length bs" and j = j and rest = "[0x02, 0xff] @ bs @ rest"]
    by (subst new_pfcp_ie_unfold) simp
qed



end
