(* ===== verification/Ie_Encoding.thy ===== *)
theory Ie_Encoding
  imports Pfcp_Factory
begin

text \<open>
  The encodings of information elements.  \<open>encodes c bs\<close> says that the factory reads the bytes \<open>bs\<close>,
  whatever follows them, to an object with the content \<open>c\<close>; \<open>writes ie c\<close> that an object emits such
  bytes and that its declared length is true.  The contract \<open>ie_codec\<close> gives \<open>writes\<close> for every
  class that meets it, and a group of such elements that fits into the length field is one again.
\<close>

section \<open>Encodings\<close>

text \<open>
  The content of an object: the core value of a simple one, type and parts of a group.  What is
  read back may hold uninitialised memory in the absent members of an outer header creation;
  \<open>with_junk\<close> fills it in.
\<close>

datatype content = Leaf core_value | Node u16 "content list"

fun ie_content :: "pfcp_ie \<Rightarrow> content" where
  "ie_content (Simple s) = Leaf (simple_core s)"
| "ie_content (Grouped t ies) = Node (tlv_type t) (map ie_content ies)"

definition core_with_junk :: "u8 \<Rightarrow> core_value \<Rightarrow> core_value" where
  "core_with_junk j v = (case v of Core_outer_header_creation c \<Rightarrow> Core_outer_header_creation (ohc_with_junk j c) | _ \<Rightarrow> v)"

fun with_junk :: "u8 \<Rightarrow> content \<Rightarrow> content" where
  "with_junk j (Leaf v) = Leaf (core_with_junk j v)"
| "with_junk j (Node ty cs) = Node ty (map (with_junk j) cs)"

text \<open>The bytes \<open>bs\<close> are an encoding of a content: the factory reads them, and them only.\<close>

definition encodes :: "content \<Rightarrow> bytes \<Rightarrow> bool" where
  "encodes c bs \<longleftrightarrow>
     (\<forall>j rest. \<exists>ie. new_pfcp_ie (stream j (bs @ rest)) = Some (Inr (Some ie), stream j rest) \<and>
        ie_content ie = with_junk j c \<and> 4 + unat (tlv_length (ie_tlv_of ie)) = length bs)"

text \<open>An object writes itself without change as an encoding of a content.\<close>

definition writes :: "pfcp_ie \<Rightarrow> content \<Rightarrow> bool" where
  "writes ie c \<longleftrightarrow>
     (\<exists>bs. (\<forall>j. ie_dump_to j ie = Some (Inr ie, bs)) \<and> encodes c bs \<and>
        length bs = 4 + unat (tlv_length (ie_tlv_of ie)))"

lemma new_pfcp_ie_stream:
  assumes "0 < n" and "n < 2 ^ 16"
  shows "new_pfcp_ie (stream j (tlv_dump_to (ie_tlv ty n) @ rest)) =
    (case new_simple j (ie_tlv ty n) of
       Some s \<Rightarrow> map_option (\<lambda>(r, is). (map_sum id (\<lambda>s. Some (Simple s)) r, is)) (simple_load s (stream j rest))
     | None \<Rightarrow>
         if is_grouped_type (ucast ty)
         then map_option (\<lambda>(r, is). (map_sum id (\<lambda>ies. Some (Grouped (ie_tlv ty n) ies)) r, is))
                (grouped_loop (ie_tlv ty n) (int n) [] (stream j rest))
         else Some (Inr None, stream j rest))"
proof -
  have "uint (of_nat n :: u16) = int n"
    using assms(2) by (simp add: unsigned_of_nat take_bit_nat_eq_self)
  then have u: "uint (tlv_length (ie_tlv ty n)) = int n"
    by (simp add: ie_tlv_def)
  moreover from this have "tlv_length (ie_tlv ty n) \<noteq> 0"
    using assms(1) by (metis of_nat_0_less_iff less_irrefl unsigned_0)
  moreover have "tlv_type (ie_tlv ty n) = ucast ty"
    by (simp add: ie_tlv_def)
  ultimately show ?thesis
    by (simp add: new_pfcp_ie_unfold split: option.split)
qed

context ie_codec
begin

text \<open>A class that meets the contract encodes its core values.\<close>

lemma encodes_leaf:
  assumes "canon c"
    and new: "\<And>j n. new_simple j (ie_tlv ie_type n) = Some (C (of_tlv j (ie_tlv ie_type n)))"
    and core: "\<And>ie. simple_core (C ie) = K (to_core ie)" "\<And>ie. simple_tlv (C ie) = tlv_of ie"
    and junk: "\<And>j. core_with_junk j (K c) = K c"
    and ld: "\<And>ie is. simple_load (C ie) is = Some (as_simple C (load ie is))"
  shows "encodes (Leaf (K c)) (snd (dump (make c)))"
  unfolding encodes_def
proof (intro allI)
  fix j rest
  obtain ie where "load (of_tlv j (ie_tlv ie_type (length (body c)))) (stream j (body c @ rest)) = (Inr ie, stream j rest)"
    and ie: "tlv_of ie = ie_tlv ie_type (length (body c))" "to_core ie = c"
    using load_body [OF assms(1), of j rest] by auto
  then have "new_pfcp_ie (stream j (snd (dump (make c)) @ rest)) = Some (Inr (Some (Simple (C ie))), stream j rest)"
    using body_length [OF assms(1)]
    by (simp add: dump_make [OF assms(1)] new_pfcp_ie_stream new ld)
  moreover have "4 + unat (tlv_length (tlv_of ie)) = length (snd (dump (make c)))"
    using dump_length [OF assms(1)] by (simp add: ie tlv_make [OF assms(1)])
  ultimately show "\<exists>ie. new_pfcp_ie (stream j (snd (dump (make c)) @ rest)) = Some (Inr (Some ie), stream j rest) \<and>
      ie_content ie = with_junk j (Leaf (K c)) \<and> 4 + unat (tlv_length (ie_tlv_of ie)) = length (snd (dump (make c)))"
    using ie by (intro exI [of _ "Simple (C ie)"]) (simp add: core junk)
qed

lemma writes_leaf:
  assumes "canon c" and "\<And>j n. new_simple j (ie_tlv ie_type n) = Some (C (of_tlv j (ie_tlv ie_type n)))"
    and "\<And>ie. simple_core (C ie) = K (to_core ie)" "\<And>ie. simple_tlv (C ie) = tlv_of ie"
    and "\<And>j. core_with_junk j (K c) = K c"
    and "\<And>ie is. simple_load (C ie) is = Some (as_simple C (load ie is))"
    and "\<And>j ie. simple_dump j (C ie) = Some (as_simple C (dump ie))"
  shows "writes (Simple (C (make c))) (Leaf (K c))"
  unfolding writes_def
  using encodes_leaf [of c C K] assms dump_length [OF assms(1)] dump_make [OF assms(1)]
  by (intro exI [of _ "snd (dump (make c))"]) (simp add: assms)

end

text \<open>Every class that meets the contract.\<close>

lemmas simple_class_simps = new_simple_def core_with_junk_def ie_tlv_def

lemma writes_cause: "writes (Simple (IE_cause (new_cause_ie c))) (Leaf (Core_cause c))"
  by (rule cause_ie.writes_leaf) (simp_all add: simple_class_simps)

lemma writes_source_interface: "writes (Simple (IE_source_interface (new_source_interface_ie c))) (Leaf (Core_source_interface c))"
  by (rule source_interface_ie.writes_leaf) (simp_all add: simple_class_simps)

lemma writes_precedence: "writes (Simple (IE_precedence (new_precedence_ie c))) (Leaf (Core_precedence c))"
  by (rule precedence_ie.writes_leaf) (simp_all add: simple_class_simps)

lemma writes_time_threshold: "writes (Simple (IE_time_threshold (new_time_threshold_ie c))) (Leaf (Core_time_threshold c))"
  by (rule time_threshold_ie.writes_leaf) (simp_all add: simple_class_simps)

lemma writes_monitoring_time: "writes (Simple (IE_monitoring_time (new_monitoring_time_ie c))) (Leaf (Core_monitoring_time c))"
  by (rule monitoring_time_ie.writes_leaf) (simp_all add: simple_class_simps)

lemma writes_subsequent_time_threshold: "writes (Simple (IE_subsequent_time_threshold (new_subsequent_time_threshold_ie c))) (Leaf (Core_subsequent_time_threshold c))"
  by (rule subsequent_time_threshold_ie.writes_leaf) (simp_all add: simple_class_simps)

lemma writes_inactivity_detection_time: "writes (Simple (IE_inactivity_detection_time (new_inactivity_detection_time_ie c))) (Leaf (Core_inactivity_detection_time c))"
  by (rule inactivity_detection_time_ie.writes_leaf) (simp_all add: simple_class_simps)

lemma writes_offending_ie: "writes (Simple (IE_offending_ie (new_offending_ie_ie c))) (Leaf (Core_offending_ie c))"
  by (rule offending_ie_ie.writes_leaf) (simp_all add: simple_class_simps)

lemma writes_destination_interface: "writes (Simple (IE_destination_interface (new_destination_interface_ie c))) (Leaf (Core_destination_interface c))"
  by (rule destination_interface_ie.writes_leaf) (simp_all add: simple_class_simps)

lemma writes_pdr_id: "writes (Simple (IE_pdr_id (new_pdr_id_ie c))) (Leaf (Core_pdr_id c))"
  by (rule pdr_id_ie.writes_leaf) (simp_all add: simple_class_simps)

lemma writes_bar_id: "writes (Simple (IE_bar_id (new_bar_id_ie c))) (Leaf (Core_bar_id c))"
  by (rule bar_id_ie.writes_leaf) (simp_all add: simple_class_simps)

lemma writes_outer_header_removal: "writes (Simple (IE_outer_header_removal (new_outer_header_removal_ie c))) (Leaf (Core_outer_header_removal c))"
  by (rule outer_header_removal_ie.writes_leaf) (simp_all add: simple_class_simps)

lemma writes_recovery_time_stamp: "writes (Simple (IE_recovery_time_stamp (new_recovery_time_stamp_ie c))) (Leaf (Core_recovery_time_stamp c))"
  by (rule recovery_time_stamp_ie.writes_leaf) (simp_all add: simple_class_simps)

lemma writes_far_id: "writes (Simple (IE_far_id (new_far_id_ie c))) (Leaf (Core_far_id c))"
  by (rule far_id_ie.writes_leaf) (simp_all add: simple_class_simps)

lemma writes_qer_id: "writes (Simple (IE_qer_id (new_qer_id_ie c))) (Leaf (Core_qer_id c))"
  by (rule qer_id_ie.writes_leaf) (simp_all add: simple_class_simps)

lemma writes_user_plane_inactivity_timer: "writes (Simple (IE_user_plane_inactivity_timer (new_user_plane_inactivity_timer_ie c))) (Leaf (Core_user_plane_inactivity_timer c))"
  by (rule user_plane_inactivity_timer_ie.writes_leaf) (simp_all add: simple_class_simps)

lemma writes_network_instance: "0 < length c \<and> length c < 65536 \<Longrightarrow> writes (Simple (IE_network_instance (new_network_instance_ie c))) (Leaf (Core_network_instance c))"
  by (rule network_instance_ie.writes_leaf) (simp_all add: simple_class_simps)

lemma writes_application_id: "0 < length c \<and> length c < 65536 \<Longrightarrow> writes (Simple (IE_application_id (new_application_id_ie c))) (Leaf (Core_application_id c))"
  by (rule application_id_ie.writes_leaf) (simp_all add: simple_class_simps)

lemma writes_transport_level_marking: "length c = 2 \<Longrightarrow> writes (Simple (IE_transport_level_marking (new_transport_level_marking_ie c))) (Leaf (Core_transport_level_marking c))"
  by (rule transport_level_marking_ie.writes_leaf) (simp_all add: simple_class_simps)

lemma writes_activate_predefined_rules: "0 < length c \<and> length c < 65536 \<Longrightarrow> writes (Simple (IE_activate_predefined_rules (new_activate_predefined_rules_ie c))) (Leaf (Core_activate_predefined_rules c))"
  by (rule activate_predefined_rules_ie.writes_leaf) (simp_all add: simple_class_simps)

lemma writes_deactivate_predefined_rules: "0 < length c \<and> length c < 65536 \<Longrightarrow> writes (Simple (IE_deactivate_predefined_rules (new_deactivate_predefined_rules_ie c))) (Leaf (Core_deactivate_predefined_rules c))"
  by (rule deactivate_predefined_rules_ie.writes_leaf) (simp_all add: simple_class_simps)

lemma writes_reporting_triggers: "reporting_triggers_canon c \<Longrightarrow> writes (Simple (IE_reporting_triggers (new_reporting_triggers_ie c))) (Leaf (Core_reporting_triggers c))"
  by (rule reporting_triggers_ie.writes_leaf) (simp_all add: simple_class_simps)

lemma writes_report_type: "report_type_canon c \<Longrightarrow> writes (Simple (IE_report_type (new_report_type_ie c))) (Leaf (Core_report_type c))"
  by (rule report_type_ie.writes_leaf) (simp_all add: simple_class_simps)

lemma writes_up_function_features: "up_function_features_canon c \<Longrightarrow> writes (Simple (IE_up_function_features (new_up_function_features_ie c))) (Leaf (Core_up_function_features c))"
  by (rule up_function_features_ie.writes_leaf) (simp_all add: simple_class_simps)

lemma writes_apply_action: "apply_action_canon c \<Longrightarrow> writes (Simple (IE_apply_action (new_apply_action_ie c))) (Leaf (Core_apply_action c))"
  by (rule apply_action_ie.writes_leaf) (simp_all add: simple_class_simps)

lemma writes_cp_function_features: "cp_function_features_canon c \<Longrightarrow> writes (Simple (IE_cp_function_features (new_cp_function_features_ie c))) (Leaf (Core_cp_function_features c))"
  by (rule cp_function_features_ie.writes_leaf) (simp_all add: simple_class_simps)

lemma writes_gate_status: "writes (Simple (IE_gate_status (new_gate_status_ie c))) (Leaf (Core_gate_status c))"
  by (rule gate_status_ie.writes_leaf) (simp_all add: simple_class_simps)

lemma writes_qfi: "qfi_spare c = 0 \<Longrightarrow> writes (Simple (IE_qfi (new_qfi_ie c))) (Leaf (Core_qfi c))"
  by (rule qfi_ie.writes_leaf) (simp_all add: simple_class_simps)

lemma writes_mbr: "forty_bits (mbr_ul_mbr c) \<and> forty_bits (mbr_dl_mbr c) \<Longrightarrow> writes (Simple (IE_mbr (new_mbr_ie c))) (Leaf (Core_mbr c))"
  by (rule mbr_ie.writes_leaf) (simp_all add: simple_class_simps)

lemma writes_gbr: "forty_bits (gbr_ul_gbr c) \<and> forty_bits (gbr_dl_gbr c) \<Longrightarrow> writes (Simple (IE_gbr (new_gbr_ie c))) (Leaf (Core_gbr c))"
  by (rule gbr_ie.writes_leaf) (simp_all add: simple_class_simps)

lemma writes_forwarding_policy: "forwarding_policy_canon c \<Longrightarrow> writes (Simple (IE_forwarding_policy (new_forwarding_policy_ie c))) (Leaf (Core_forwarding_policy c))"
  by (rule forwarding_policy_ie.writes_leaf) (simp_all add: simple_class_simps)

lemma writes_fteid: "fteid_canon c \<Longrightarrow> writes (Simple (IE_fteid (new_fteid_ie j c))) (Leaf (Core_fteid c))"
  by (rule fteid_ie.writes_leaf) (simp_all add: simple_class_simps)

lemma writes_f_seid: "fseid_canon c \<Longrightarrow> writes (Simple (IE_f_seid (new_f_seid_ie c))) (Leaf (Core_f_seid c))"
  by (rule f_seid_ie.writes_leaf) (simp_all add: simple_class_simps)

lemma writes_ue_ip_address: "ue_ip_address_canon c \<Longrightarrow> writes (Simple (IE_ue_ip_address (new_ue_ip_address_ie c))) (Leaf (Core_ue_ip_address c))"
  by (rule ue_ip_address_ie.writes_leaf) (simp_all add: simple_class_simps)

lemma writes_sdf_filter: "sdf_filter_canon c \<Longrightarrow> writes (Simple (IE_sdf_filter (projr (new_sdf_filter_ie c)))) (Leaf (Core_sdf_filter c))"
  by (rule sdf_filter_ie.writes_leaf) (simp_all add: simple_class_simps)

lemma writes_node_id:
  assumes "node_id_canon c"
  shows "writes (Simple (IE_node_id (new_node_id_ie c))) (Leaf (Core_node_id c))"
proof -
  let ?t = "ie_tlv PFCP_IE_NODE_ID (length (node_id_body c))"
  have len: "0 < length (node_id_body c)" "length (node_id_body c) < 2 ^ 16"
    using length_node_id_body(1) [OF assms] by auto
  then have l: "unat (tlv_length ?t) = length (node_id_body c)"
    by (simp add: ie_tlv_def unat_of_nat)
  have "encodes (Leaf (Core_node_id c)) (tlv_dump_to ?t @ node_id_body c)"
    unfolding encodes_def
  proof (intro allI)
    fix j rest
    obtain ie where "node_id_ie_load_from (node_id_ie_of_tlv j ?t) (stream j (node_id_body c @ rest)) =
        Some (Inr ie, stream j rest)" and ie: "node_id_ie_tlv ie = ?t" "node_id_ie_to_core ie = c"
      using node_id_load [OF assms] by blast
    moreover have "new_simple j ?t = Some (IE_node_id (node_id_ie_of_tlv j ?t))"
      by (simp add: new_simple_def ie_tlv_def)
    ultimately have "new_pfcp_ie (stream j ((tlv_dump_to ?t @ node_id_body c) @ rest)) =
        Some (Inr (Some (Simple (IE_node_id ie))), stream j rest)"
      using len by (simp add: new_pfcp_ie_stream)
    then show "\<exists>ie. new_pfcp_ie (stream j ((tlv_dump_to ?t @ node_id_body c) @ rest)) = Some (Inr (Some ie), stream j rest) \<and>
        ie_content ie = with_junk j (Leaf (Core_node_id c)) \<and>
        4 + unat (tlv_length (ie_tlv_of ie)) = length (tlv_dump_to ?t @ node_id_body c)"
      using ie l by (intro exI [of _ "Simple (IE_node_id ie)"])
        (simp add: core_with_junk_def tlv_dump_to_def ie_tlv_def [of _ "length (node_id_body c)"])
  qed
  then show ?thesis
    unfolding writes_def
    using node_id_dump [OF assms] length_node_id_body(2) [OF assms] l
    by (intro exI [of _ "tlv_dump_to ?t @ node_id_body c"]) (simp add: tlv_dump_to_def ie_tlv_def)
qed

text \<open>An outer header creation with content; absent members come back as uninitialised memory.\<close>

definition ohc_ok :: "u16 \<Rightarrow> bool" where
  "ohc_ok d \<longleftrightarrow> ohc_has_teid d \<or> ohc_has_ipv4 d \<or> ohc_has_ipv6 d"

lemma writes_outer_header_creation:
  assumes "ohc_ok (ohcr_outer_header_creation_description c)"
  shows "writes (Simple (IE_outer_header_creation (new_outer_header_creation_ie c))) (Leaf (Core_outer_header_creation c))"
proof -
  let ?ie = "new_outer_header_creation_ie c"
  let ?bs = "snd (outer_header_creation_ie_dump_to ?ie)"
  obtain n body where t: "outer_header_creation_ie_tlv ?ie = ie_tlv PFCP_IE_OUTER_HEADER_CREATION n"
    and bs: "?bs = tlv_dump_to (ie_tlv PFCP_IE_OUTER_HEADER_CREATION n) @ body" and n: "n = length body" "0 < n" "n < 2 ^ 16"
    by (rule that [of "length (drop 4 ?bs)" "drop 4 ?bs"])
      (auto simp: outer_header_creation_ie_dump_to_def new_outer_header_creation_ie_def tlv_defs tlv_dump_to_def Let_def
        simp del: le_bytes.simps)
  then have l: "unat (tlv_length (outer_header_creation_ie_tlv ?ie)) = n"
    by (simp add: ie_tlv_def unat_of_nat)
  have "encodes (Leaf (Core_outer_header_creation c)) ?bs"
    unfolding encodes_def
  proof (intro allI)
    fix j rest
    obtain ie where r: "read_ie outer_header_creation_ie_of_tlv outer_header_creation_ie_load_from (stream j (?bs @ rest)) =
        (Inr ie, stream j rest)" and ie: "outer_header_creation_ie_to_core ie = ohc_with_junk j c"
      using outer_header_creation_read_dump [where c = c and j = j and rest = rest] assms by (auto simp: ohc_ok_def)
    have load: "outer_header_creation_ie_load_from (outer_header_creation_ie_of_tlv j (ie_tlv PFCP_IE_OUTER_HEADER_CREATION n))
        (stream j (body @ rest)) = (Inr ie, stream j rest)"
      using r by (simp add: read_ie_def bs)
    then have "outer_header_creation_ie_tlv ie = ie_tlv PFCP_IE_OUTER_HEADER_CREATION n"
      by (auto simp: outer_header_creation_ie_load_from_def outer_header_creation_ie_of_tlv_def Let_def
          split: if_splits prod.splits simp del: le_bytes.simps replicate.simps)
    moreover have "new_simple j (ie_tlv PFCP_IE_OUTER_HEADER_CREATION n) =
        Some (IE_outer_header_creation (outer_header_creation_ie_of_tlv j (ie_tlv PFCP_IE_OUTER_HEADER_CREATION n)))"
      by (simp add: new_simple_def ie_tlv_def)
    then have "new_pfcp_ie (stream j (?bs @ rest)) = Some (Inr (Some (Simple (IE_outer_header_creation ie))), stream j rest)"
      using n load by (simp add: bs new_pfcp_ie_stream)
    ultimately show "\<exists>ie. new_pfcp_ie (stream j (?bs @ rest)) = Some (Inr (Some ie), stream j rest) \<and>
        ie_content ie = with_junk j (Leaf (Core_outer_header_creation c)) \<and>
        4 + unat (tlv_length (ie_tlv_of ie)) = length ?bs"
      using ie l t n by (intro exI [of _ "Simple (IE_outer_header_creation ie)"])
        (simp add: core_with_junk_def bs tlv_dump_to_def ie_tlv_def)
  qed
  moreover have "fst (outer_header_creation_ie_dump_to ?ie) = Inr ?ie"
    by (simp add: outer_header_creation_ie_dump_to_def Let_def)
  moreover have "length ?bs = 4 + n"
    using n by (simp add: bs tlv_dump_to_def ie_tlv_def)
  ultimately show ?thesis
    unfolding writes_def using l
    by (intro exI [of _ ?bs]) (simp add: as_simple_def)
qed

section \<open>Groups\<close>

lemma grouped_loop_encodes:
  "list_all2 encodes cs bss \<Longrightarrow>
   \<exists>ies'. grouped_loop t (int (length (concat bss))) ies (stream j (concat bss @ rest)) = Some (Inr (ies @ ies'), stream j rest) \<and>
     map ie_content ies' = map (with_junk j) cs"
proof (induction cs bss arbitrary: ies rule: list_all2_induct)
  case Nil
  then show ?case by (simp add: grouped_loop_unfold)
next
  case (Cons c cs bs bss)
  obtain ie where new: "new_pfcp_ie (stream j (bs @ concat bss @ rest)) = Some (Inr (Some ie), stream j (concat bss @ rest))"
    and ie: "ie_content ie = with_junk j c" "4 + unat (tlv_length (ie_tlv_of ie)) = length bs"
    using Cons.hyps(1) unfolding encodes_def by meson
  obtain ies' where "grouped_loop t (int (length (concat bss))) (ies @ [ie]) (stream j (concat bss @ rest)) =
      Some (Inr ((ies @ [ie]) @ ies'), stream j rest)" "map ie_content ies' = map (with_junk j) cs"
    using Cons.IH by blast
  moreover have u: "int (length bs) = uint (tlv_length (ie_tlv_of ie)) + 4"
    unfolding ie(2) [symmetric] by simp
  moreover have "0 < int (length (concat (bs # bss)))"
    using ie(2) by simp
  ultimately show ?case
    using new ie(1) by (intro exI [of _ "ie # ies'"]) (subst grouped_loop_unfold, simp)
qed

text \<open>The reader takes the parts of a group as long as the declared length lasts.\<close>

lemma grouped_not_simple:
  assumes "ty \<in> set grouped_types"
  shows "new_simple j (ie_tlv ty n) = None" and "is_grouped_type (ucast ty)"
proof -
  show "is_grouped_type (ucast ty)"
    using assms by (simp add: is_grouped_type_def)
  show "new_simple j (ie_tlv ty n) = None"
    using assms unfolding grouped_types_def set_simps insert_iff empty_iff
    by (elim disjE; simp add: new_simple_def ie_tlv_def)
qed

lemma encodes_group:
  assumes "list_all2 encodes cs bss" and "ty \<in> set grouped_types"
    and n: "0 < length (concat bss)" "length (concat bss) < 2 ^ 16"
  shows "encodes (Node (ucast ty) cs) (tlv_dump_to (ie_tlv ty (length (concat bss))) @ concat bss)"
  unfolding encodes_def
proof (intro allI)
  fix j rest
  let ?t = "ie_tlv ty (length (concat bss))"
  obtain ies where "grouped_loop ?t (int (length (concat bss))) [] (stream j (concat bss @ rest)) = Some (Inr ies, stream j rest)"
    and ies: "map ie_content ies = map (with_junk j) cs"
    using grouped_loop_encodes [OF assms(1), where t = ?t and ies = "[]" and j = j and rest = rest] by auto
  then have "new_pfcp_ie (stream j ((tlv_dump_to ?t @ concat bss) @ rest)) = Some (Inr (Some (Grouped ?t ies)), stream j rest)"
    using n by (simp add: new_pfcp_ie_stream grouped_not_simple [OF assms(2)] del: length_concat)
  moreover have "tlv_type ?t = ucast ty" "4 + unat (tlv_length ?t) = length (tlv_dump_to ?t @ concat bss)"
    using n by (simp_all add: ie_tlv_def tlv_dump_to_def unat_of_nat del: length_concat)
  ultimately show "\<exists>ie. new_pfcp_ie (stream j ((tlv_dump_to ?t @ concat bss) @ rest)) = Some (Inr (Some ie), stream j rest) \<and>
      ie_content ie = with_junk j (Node (ucast ty) cs) \<and>
      4 + unat (tlv_length (ie_tlv_of ie)) = length (tlv_dump_to ?t @ concat bss)"
    using ies by (intro exI [of _ "Grouped ?t ies"]) (simp del: length_append)
qed

definition ie_size :: "pfcp_ie \<Rightarrow> nat" where
  "ie_size ie = 4 + unat (tlv_length (ie_tlv_of ie))"

lemma writes_all:
  assumes "list_all2 writes ies cs"
  shows "\<exists>bss. (\<forall>j. ies_dump_to j ies = Some (Inr ies, concat bss)) \<and> list_all2 encodes cs bss \<and>
    length (concat bss) = sum_list (map ie_size ies)"
  using assms
proof (induction rule: list_all2_induct)
  case Nil
  show ?case by (intro exI [of _ "[]"]) simp
next
  case (Cons ie ies c cs)
  obtain bss where "\<forall>j. ies_dump_to j ies = Some (Inr ies, concat bss)" "list_all2 encodes cs bss"
      "length (concat bss) = sum_list (map ie_size ies)"
    using Cons.IH by blast
  moreover obtain bs where "\<forall>j. ie_dump_to j ie = Some (Inr ie, bs)" "encodes c bs" "length bs = ie_size ie"
    using Cons.hyps(1) by (auto simp: writes_def ie_size_def)
  ultimately show ?case
    by (intro exI [of _ "bs # bss"]) simp
qed

lemma writes_group:
  assumes "list_all2 writes ies cs" and "ty \<in> set grouped_types"
    and "ies \<noteq> []" and "sum_list (map ie_size ies) < 2 ^ 16"
  shows "writes (Grouped (ie_tlv ty (sum_list (map ie_size ies))) ies) (Node (ucast ty) cs)"
proof -
  obtain bss where d: "\<forall>j. ies_dump_to j ies = Some (Inr ies, concat bss)" and e: "list_all2 encodes cs bss"
    and l: "length (concat bss) = sum_list (map ie_size ies)"
    using writes_all [OF assms(1)] by blast
  have "0 < length (concat bss)"
    unfolding l using assms(3) by (cases ies) (auto simp: ie_size_def)
  then have "encodes (Node (ucast ty) cs) (tlv_dump_to (ie_tlv ty (sum_list (map ie_size ies))) @ concat bss)"
    using encodes_group [OF e assms(2)] assms(4) by (simp only: l)
  then show ?thesis
    unfolding writes_def using d l assms(4)
    by (intro exI [of _ "tlv_dump_to (ie_tlv ty (sum_list (map ie_size ies))) @ concat bss"])
      (simp add: ie_tlv_def tlv_dump_to_def unat_of_nat del: length_concat)
qed

lemma add_ie_ie_tlv:
  "add_ie ie (Grouped (ie_tlv ty n) ies) = Grouped (ie_tlv ty (n + ie_size ie)) (ies @ [ie])"
  by (simp add: ie_tlv_def tlv_add_length_def ie_size_def)

end
