(* ===== verification/Pfcp_Reports.thy ===== *)
theory Pfcp_Reports
  imports Pfcp_Containers
begin

text \<open>
  The types of \<^verbatim>\<open>src/oai/common/3gpp_29.244.h\<close> and the containers of \<^verbatim>\<open>src/oai/pfcp/msg_pfcp.hpp\<close> that no class of
  elements carries: usage reports, load and overload control, buffering, monitoring, traffic endpoints.
  They are members of messages, modelled like the rule containers, with the copy constructor of each
  class as \<open>copy_\<close> and its name; a value of \<^verbatim>\<open>fq_csid_t\<close> is taken from \<^verbatim>\<open>3gpp_29.274.h\<close>, with the
  union in it as its 16 bytes.
\<close>

section \<open>Values\<close>

type_synonym measurement_period_t = "u32"
type_synonym time_quota_t = "u32"
type_synonym quota_holding_time_t = "u32"
type_synonym subsequent_time_quota_t = "u64"
type_synonym linked_urr_id_t = "u32"
type_synonym ethernet_inactivity_timer_t = "u32"
type_synonym downlink_data_notification_delay_t = "u8"
type_synonym dl_buffering_suggested_packet_count_t = "u16"
type_synonym suggested_buffering_packets_count_t = "u8"
type_synonym query_urr_reference_t = "u32"
type_synonym aggregated_urr_id_t = "u32"
type_synonym event_id_t = "u32"
type_synonym event_threshold_t = "u32"
type_synonym sequence_number_t = "u32"
type_synonym metric_t = "u8"
type_synonym mac_addresses_detected_t = "u8"
type_synonym mac_addresses_removed_t = "u8"
type_synonym ur_seqn_t = "u32"
type_synonym start_time_t = "u32"
type_synonym end_time_t = "u32"
type_synonym duration_measurement_t = "u32"
type_synonym time_of_first_packet_t = "u32"
type_synonym time_of_last_packet_t = "u32"
type_synonym application_instance_id_t = "string"

record measurement_method_t =
  mmeth_spare :: "5 word"
  mmeth_event :: "bool"
  mmeth_volum :: "bool"
  mmeth_durat :: "bool"

definition measurement_method0 :: measurement_method_t where
  "measurement_method0 = \<lparr>mmeth_spare = 0, mmeth_event = False, mmeth_volum = False, mmeth_durat = False\<rparr>"

record volume_quota_t =
  vquota_spare :: "5 word"
  vquota_dlvol :: "bool"
  vquota_ulvol :: "bool"
  vquota_tovol :: "bool"
  vquota_total_volume :: "u64"
  vquota_uplink_volume :: "u64"
  vquota_downlink_volume :: "u64"

definition volume_quota0 :: volume_quota_t where
  "volume_quota0 = \<lparr>vquota_spare = 0, vquota_dlvol = False, vquota_ulvol = False, vquota_tovol = False, vquota_total_volume = 0, vquota_uplink_volume = 0, vquota_downlink_volume = 0\<rparr>"

record dropped_dl_traffic_threshold_t =
  ddtt_spare :: "6 word"
  ddtt_dlby :: "bool"
  ddtt_dlpa :: "bool"
  ddtt_downlink_packets :: "u64"
  ddtt_number_of_bytes_of_downlink_data :: "u64"

definition dropped_dl_traffic_threshold0 :: dropped_dl_traffic_threshold_t where
  "dropped_dl_traffic_threshold0 = \<lparr>ddtt_spare = 0, ddtt_dlby = False, ddtt_dlpa = False, ddtt_downlink_packets = 0, ddtt_number_of_bytes_of_downlink_data = 0\<rparr>"

record subsequent_volume_quota_t =
  svquota_dlvol :: "bool"
  svquota_ulvol :: "bool"
  svquota_tovol :: "bool"
  svquota_total_volume :: "u64"
  svquota_uplink_volume :: "u64"
  svquota_downlink_volume :: "u64"

definition subsequent_volume_quota0 :: subsequent_volume_quota_t where
  "subsequent_volume_quota0 = \<lparr>svquota_dlvol = False, svquota_ulvol = False, svquota_tovol = False, svquota_total_volume = 0, svquota_uplink_volume = 0, svquota_downlink_volume = 0\<rparr>"

record measurement_information_t =
  minfo_spare :: "5 word"
  minfo_radi :: "bool"
  minfo_inam :: "bool"
  minfo_mbqe :: "bool"

definition measurement_information0 :: measurement_information_t where
  "measurement_information0 = \<lparr>minfo_spare = 0, minfo_radi = False, minfo_inam = False, minfo_mbqe = False\<rparr>"

record time_quota_mechanism_t =
  tqm_spare :: "6 word"
  tqm_btit :: "3 word"
  tqm_base_time_interval :: "u32"

definition time_quota_mechanism0 :: time_quota_mechanism_t where
  "time_quota_mechanism0 = \<lparr>tqm_spare = 0, tqm_btit = 0, tqm_base_time_interval = 0\<rparr>"

record packet_rate_t =
  prate_dlpr :: "bool"
  prate_ulpr :: "bool"
  prate_uplink_time_unit :: "3 word"
  prate_downlink_time_unit :: "3 word"
  prate_maximum_uplink_packet_rate :: "u16"
  prate_maximum_downlink_packet_rate :: "u16"

definition packet_rate0 :: packet_rate_t where
  "packet_rate0 = \<lparr>prate_dlpr = False, prate_ulpr = False, prate_uplink_time_unit = 0, prate_downlink_time_unit = 0, prate_maximum_uplink_packet_rate = 0, prate_maximum_downlink_packet_rate = 0\<rparr>"

record dl_flow_level_marking_t =
  dlfm_spare :: "6 word"
  dlfm_sci :: "bool"
  dlfm_ttc :: "bool"
  dlfm_tos_traffic_class :: "u16"
  dlfm_service_class_indicator :: "u16"

definition dl_flow_level_marking0 :: dl_flow_level_marking_t where
  "dl_flow_level_marking0 = \<lparr>dlfm_spare = 0, dlfm_sci = False, dlfm_ttc = False, dlfm_tos_traffic_class = 0, dlfm_service_class_indicator = 0\<rparr>"

record rqi_t =
  rqi_spare :: "7 word"
  rqi_rqi :: "bool"

definition rqi0 :: rqi_t where
  "rqi0 = \<lparr>rqi_spare = 0, rqi_rqi = False\<rparr>"

record dl_buffering_duration_t =
  dlbd_timer_unit :: "3 word"
  dlbd_timer_value :: "5 word"

definition dl_buffering_duration0 :: dl_buffering_duration_t where
  "dl_buffering_duration0 = \<lparr>dlbd_timer_unit = 0, dlbd_timer_value = 0\<rparr>"

record downlink_data_service_information_t =
  ddsi_spare :: "6 word"
  ddsi_qfii :: "bool"
  ddsi_ppi :: "bool"
  ddsi_Paging_Policy_Indication :: "u8"
  ddsi_qfi :: "u8"

definition downlink_data_service_information0 :: downlink_data_service_information_t where
  "downlink_data_service_information0 = \<lparr>ddsi_spare = 0, ddsi_qfii = False, ddsi_ppi = False, ddsi_Paging_Policy_Indication = 0, ddsi_qfi = 0\<rparr>"

record ethernet_pdu_session_information_t =
  epsi_spare :: "7 word"
  epsi_ethi :: "bool"

definition ethernet_pdu_session_information0 :: ethernet_pdu_session_information_t where
  "ethernet_pdu_session_information0 = \<lparr>epsi_spare = 0, epsi_ethi = False\<rparr>"

record pfcp_association_release_request_t =
  arel_spare :: "7 word"
  arel_sarr :: "bool"

definition pfcp_association_release_request0 :: pfcp_association_release_request_t where
  "pfcp_association_release_request0 = \<lparr>arel_spare = 0, arel_sarr = False\<rparr>"

record graceful_release_period_t =
  grp_timer_unit :: "3 word"
  grp_timer_value :: "5 word"

definition graceful_release_period0 :: graceful_release_period_t where
  "graceful_release_period0 = \<lparr>grp_timer_unit = 0, grp_timer_value = 0\<rparr>"

record pdn_type_t =
  pdnt_spare :: "5 word"
  pdnt_pdn_type :: "3 word"

definition pdn_type0 :: pdn_type_t where
  "pdn_type0 = \<lparr>pdnt_spare = 0, pdnt_pdn_type = 0\<rparr>"

record trace_information_t =
  trace_mcc_digit2 :: "4 word"
  trace_mcc_digit1 :: "4 word"
  trace_mnc_digit3 :: "4 word"
  trace_mcc_digit3 :: "4 word"
  trace_mnc_digit2 :: "4 word"
  trace_mnc_digit1 :: "4 word"
  trace_trace_id :: "u32"
  trace_length_of_triggered_events :: "u8"

definition trace_information0 :: trace_information_t where
  "trace_information0 = \<lparr>trace_mcc_digit2 = 0, trace_mcc_digit1 = 0, trace_mnc_digit3 = 0, trace_mcc_digit3 = 0, trace_mnc_digit2 = 0, trace_mnc_digit1 = 0, trace_trace_id = 0, trace_length_of_triggered_events = 0\<rparr>"

record additional_usage_reports_information_t =
  auri_spare :: "7 word"
  auri_auri :: "bool"
  auri_number_of_additional_usage_reports_value :: "u16"

definition additional_usage_reports_information0 :: additional_usage_reports_information_t where
  "additional_usage_reports_information0 = \<lparr>auri_spare = 0, auri_auri = False, auri_number_of_additional_usage_reports_value = 0\<rparr>"

record pfd_contents_t =
  pfdc_spare :: "4 word"
  pfdc_cp :: "bool"
  pfdc_dn :: "bool"
  pfdc_url_ :: "bool"
  pfdc_fd :: "bool"
  pfdc_length_of_flow_description :: "u16"
  pfdc_flow_description :: "string"
  pfdc_length_of_url :: "u16"
  pfdc_url :: "string"
  pfdc_length_of_domain_name :: "u16"
  pfdc_domain_name :: "string"
  pfdc_length_of_custom_pfd_contents :: "u16"
  pfdc_custom_pfd_contents :: "string"

definition pfd_contents0 :: pfd_contents_t where
  "pfd_contents0 = \<lparr>pfdc_spare = 0, pfdc_cp = False, pfdc_dn = False, pfdc_url_ = False, pfdc_fd = False, pfdc_length_of_flow_description = 0, pfdc_flow_description = [], pfdc_length_of_url = 0, pfdc_url = [], pfdc_length_of_domain_name = 0, pfdc_domain_name = [], pfdc_length_of_custom_pfd_contents = 0, pfdc_custom_pfd_contents = []\<rparr>"

record remote_gtp_u_peer_t =
  rpeer_spare :: "6 word"
  rpeer_v4 :: "bool"
  rpeer_v6 :: "bool"
  rpeer_ipv4_address :: "u32"
  rpeer_ipv6_address :: "in6_addr"

definition remote_gtp_u_peer0 :: remote_gtp_u_peer_t where
  "remote_gtp_u_peer0 = \<lparr>rpeer_spare = 0, rpeer_v4 = False, rpeer_v6 = False, rpeer_ipv4_address = 0, rpeer_ipv6_address = 0\<rparr>"

record multiplier_t =
  mult_value_digits :: "u64"
  mult_exponent :: "u32"

definition multiplier0 :: multiplier_t where
  "multiplier0 = \<lparr>mult_value_digits = 0, mult_exponent = 0\<rparr>"

record timer_t =
  timer_timer_unit :: "3 word"
  timer_timer_value :: "5 word"

definition timer0 :: timer_t where
  "timer0 = \<lparr>timer_timer_unit = 0, timer_timer_value = 0\<rparr>"

record oci_flags_t =
  oci_spare :: "7 word"
  oci_aoci :: "bool"

definition oci_flags0 :: oci_flags_t where
  "oci_flags0 = \<lparr>oci_spare = 0, oci_aoci = False\<rparr>"

record usage_report_trigger_t =
  urtrig_immer :: "bool"
  urtrig_droth :: "bool"
  urtrig_stop :: "bool"
  urtrig_start :: "bool"
  urtrig_quhti :: "bool"
  urtrig_timth :: "bool"
  urtrig_volth :: "bool"
  urtrig_perio :: "bool"
  urtrig_eveth :: "bool"
  urtrig_macar :: "bool"
  urtrig_envcl :: "bool"
  urtrig_monit :: "bool"
  urtrig_termr :: "bool"
  urtrig_liusa :: "bool"
  urtrig_timqu :: "bool"
  urtrig_volqu :: "bool"

definition usage_report_trigger0 :: usage_report_trigger_t where
  "usage_report_trigger0 = \<lparr>urtrig_immer = False, urtrig_droth = False, urtrig_stop = False, urtrig_start = False, urtrig_quhti = False, urtrig_timth = False, urtrig_volth = False, urtrig_perio = False, urtrig_eveth = False, urtrig_macar = False, urtrig_envcl = False, urtrig_monit = False, urtrig_termr = False, urtrig_liusa = False, urtrig_timqu = False, urtrig_volqu = False\<rparr>"

record volume_measurement_t =
  vmeas_spare :: "5 word"
  vmeas_dlvol :: "bool"
  vmeas_ulvol :: "bool"
  vmeas_tovol :: "bool"
  vmeas_total_volume :: "u64"
  vmeas_uplink_volume :: "u64"
  vmeas_downlink_volume :: "u64"

definition volume_measurement0 :: volume_measurement_t where
  "volume_measurement0 = \<lparr>vmeas_spare = 0, vmeas_dlvol = False, vmeas_ulvol = False, vmeas_tovol = False, vmeas_total_volume = 0, vmeas_uplink_volume = 0, vmeas_downlink_volume = 0\<rparr>"

record usage_information_t =
  usage_spare :: "4 word"
  usage_ube :: "bool"
  usage_uae :: "bool"
  usage_aft :: "bool"
  usage_bef :: "bool"

definition usage_information0 :: usage_information_t where
  "usage_information0 = \<lparr>usage_spare = 0, usage_ube = False, usage_uae = False, usage_aft = False, usage_bef = False\<rparr>"

record flow_information_t =
  flow_spare :: "5 word"
  flow_flow_direction :: "3 word"
  flow_length_of_flow_description :: "3 word"
  flow_flow_description :: "string"

definition flow_information0 :: flow_information_t where
  "flow_information0 = \<lparr>flow_spare = 0, flow_flow_direction = 0, flow_length_of_flow_description = 0, flow_flow_description = []\<rparr>"

record fq_csid_t =
  fqcsid_node_id_type :: "4 word"
  fqcsid_number_of_csids :: "4 word"
  fqcsid_node_id :: bytes
  fqcsid_pdn_connection_set_identifier :: "u16 list"

definition fq_csid0 :: fq_csid_t where
  "fq_csid0 = \<lparr>fqcsid_node_id_type = 0, fqcsid_number_of_csids = 0, fqcsid_node_id = replicate 16 0,
     fqcsid_pdn_connection_set_identifier = replicate 15 0\<rparr>"

section \<open>Containers\<close>

subsection \<open>\<^verbatim>\<open>pfd\<close>\<close>

record pfd =
  pfd_pfd_contents :: "pfd_contents_t optm"

definition new_pfd :: pfd where
  "new_pfd = \<lparr>pfd_pfd_contents = (False, pfd_contents0)\<rparr>"

definition copy_pfd :: "pfd \<Rightarrow> pfd" where
  "copy_pfd p = \<lparr>pfd_pfd_contents = pfd_pfd_contents p\<rparr>"

definition pfd_set_pfd_contents :: "pfd_contents_t \<Rightarrow> pfd \<Rightarrow> pfd" where
  "pfd_set_pfd_contents v c = c\<lparr>pfd_pfd_contents := (True, v)\<rparr>"

definition pfd_get_pfd_contents :: "pfd \<Rightarrow> pfd_contents_t \<Rightarrow> bool \<times> pfd_contents_t" where
  "pfd_get_pfd_contents c v = opt_get (pfd_pfd_contents c) v"

subsection \<open>\<^verbatim>\<open>application_ids_pfds\<close>\<close>

record application_ids_pfds =
  aip_application_id :: "string optm"
  aip_pfds :: "pfd list optm"

definition new_application_ids_pfds :: application_ids_pfds where
  "new_application_ids_pfds = \<lparr>aip_application_id = (False, []), aip_pfds = (False, [])\<rparr>"

definition copy_application_ids_pfds :: "application_ids_pfds \<Rightarrow> application_ids_pfds" where
  "copy_application_ids_pfds a = \<lparr>aip_application_id = aip_application_id a, aip_pfds = aip_pfds a\<rparr>"

definition application_ids_pfds_set_application_id :: "string \<Rightarrow> application_ids_pfds \<Rightarrow> application_ids_pfds" where
  "application_ids_pfds_set_application_id v c = c\<lparr>aip_application_id := (True, v)\<rparr>"

definition application_ids_pfds_get_application_id :: "application_ids_pfds \<Rightarrow> string \<Rightarrow> bool \<times> string" where
  "application_ids_pfds_get_application_id c v = opt_get (aip_application_id c) v"

definition application_ids_pfds_set_pfds :: "pfd list \<Rightarrow> application_ids_pfds \<Rightarrow> application_ids_pfds" where
  "application_ids_pfds_set_pfds v c = c\<lparr>aip_pfds := (True, v)\<rparr>"

definition application_ids_pfds_get_pfds :: "application_ids_pfds \<Rightarrow> pfd list \<Rightarrow> bool \<times> pfd list" where
  "application_ids_pfds_get_pfds c v = opt_get (aip_pfds c) v"

subsection \<open>\<^verbatim>\<open>user_plane_path_failure_report\<close>\<close>

record user_plane_path_failure_report =
  uppf_remote_gtp_u_peer :: "remote_gtp_u_peer_t optm"

definition new_user_plane_path_failure_report :: user_plane_path_failure_report where
  "new_user_plane_path_failure_report = \<lparr>uppf_remote_gtp_u_peer = (False, remote_gtp_u_peer0)\<rparr>"

definition copy_user_plane_path_failure_report :: "user_plane_path_failure_report \<Rightarrow> user_plane_path_failure_report" where
  "copy_user_plane_path_failure_report u = \<lparr>uppf_remote_gtp_u_peer = uppf_remote_gtp_u_peer u\<rparr>"

definition user_plane_path_failure_report_set_remote_gtp_u_peer :: "remote_gtp_u_peer_t \<Rightarrow> user_plane_path_failure_report \<Rightarrow> user_plane_path_failure_report" where
  "user_plane_path_failure_report_set_remote_gtp_u_peer v c = c\<lparr>uppf_remote_gtp_u_peer := (True, v)\<rparr>"

definition user_plane_path_failure_report_get_remote_gtp_u_peer :: "user_plane_path_failure_report \<Rightarrow> remote_gtp_u_peer_t \<Rightarrow> bool \<times> remote_gtp_u_peer_t" where
  "user_plane_path_failure_report_get_remote_gtp_u_peer c v = opt_get (uppf_remote_gtp_u_peer c) v"

subsection \<open>\<^verbatim>\<open>aggregated_urrs\<close>\<close>

record aggregated_urrs =
  agu_aggregated_urr_id :: "u32 optm"
  agu_multiplier :: "multiplier_t optm"

definition new_aggregated_urrs :: aggregated_urrs where
  "new_aggregated_urrs = \<lparr>agu_aggregated_urr_id = (False, 0), agu_multiplier = (False, multiplier0)\<rparr>"

definition copy_aggregated_urrs :: "aggregated_urrs \<Rightarrow> aggregated_urrs" where
  "copy_aggregated_urrs a = \<lparr>agu_aggregated_urr_id = agu_aggregated_urr_id a, agu_multiplier = agu_multiplier a\<rparr>"

definition aggregated_urrs_set_aggregated_urr_id :: "u32 \<Rightarrow> aggregated_urrs \<Rightarrow> aggregated_urrs" where
  "aggregated_urrs_set_aggregated_urr_id v c = c\<lparr>agu_aggregated_urr_id := (True, v)\<rparr>"

definition aggregated_urrs_get_aggregated_urr_id :: "aggregated_urrs \<Rightarrow> u32 \<Rightarrow> bool \<times> u32" where
  "aggregated_urrs_get_aggregated_urr_id c v = opt_get (agu_aggregated_urr_id c) v"

definition aggregated_urrs_set_multiplier :: "multiplier_t \<Rightarrow> aggregated_urrs \<Rightarrow> aggregated_urrs" where
  "aggregated_urrs_set_multiplier v c = c\<lparr>agu_multiplier := (True, v)\<rparr>"

definition aggregated_urrs_get_multiplier :: "aggregated_urrs \<Rightarrow> multiplier_t \<Rightarrow> bool \<times> multiplier_t" where
  "aggregated_urrs_get_multiplier c v = opt_get (agu_multiplier c) v"

subsection \<open>\<^verbatim>\<open>additional_monitoring_time\<close>\<close>

record additional_monitoring_time =
  amt_monitoring_time :: "u32 optm"
  amt_subsequent_volume_threshold :: "subsequent_volume_threshold_t optm"
  amt_subsequent_time_threshold :: "u32 optm"
  amt_subsequent_volume_quota :: "subsequent_volume_quota_t optm"
  amt_subsequent_time_quota :: "u64 optm"

definition new_additional_monitoring_time :: additional_monitoring_time where
  "new_additional_monitoring_time = \<lparr>amt_monitoring_time = (False, 0), amt_subsequent_volume_threshold = (False, subsequent_volume_threshold0), amt_subsequent_time_threshold = (False, 0), amt_subsequent_volume_quota = (False, subsequent_volume_quota0), amt_subsequent_time_quota = (False, 0)\<rparr>"

definition copy_additional_monitoring_time :: "additional_monitoring_time \<Rightarrow> additional_monitoring_time" where
  "copy_additional_monitoring_time a = \<lparr>amt_monitoring_time = amt_monitoring_time a, amt_subsequent_volume_threshold = amt_subsequent_volume_threshold a, amt_subsequent_time_threshold = amt_subsequent_time_threshold a, amt_subsequent_volume_quota = amt_subsequent_volume_quota a, amt_subsequent_time_quota = amt_subsequent_time_quota a\<rparr>"

definition additional_monitoring_time_set_monitoring_time :: "u32 \<Rightarrow> additional_monitoring_time \<Rightarrow> additional_monitoring_time" where
  "additional_monitoring_time_set_monitoring_time v c = c\<lparr>amt_monitoring_time := (True, v)\<rparr>"

definition additional_monitoring_time_get_monitoring_time :: "additional_monitoring_time \<Rightarrow> u32 \<Rightarrow> bool \<times> u32" where
  "additional_monitoring_time_get_monitoring_time c v = opt_get (amt_monitoring_time c) v"

definition additional_monitoring_time_set_subsequent_volume_threshold :: "subsequent_volume_threshold_t \<Rightarrow> additional_monitoring_time \<Rightarrow> additional_monitoring_time" where
  "additional_monitoring_time_set_subsequent_volume_threshold v c = c\<lparr>amt_subsequent_volume_threshold := (True, v)\<rparr>"

definition additional_monitoring_time_get_subsequent_volume_threshold :: "additional_monitoring_time \<Rightarrow> subsequent_volume_threshold_t \<Rightarrow> bool \<times> subsequent_volume_threshold_t" where
  "additional_monitoring_time_get_subsequent_volume_threshold c v = opt_get (amt_subsequent_volume_threshold c) v"

definition additional_monitoring_time_set_subsequent_time_threshold :: "u32 \<Rightarrow> additional_monitoring_time \<Rightarrow> additional_monitoring_time" where
  "additional_monitoring_time_set_subsequent_time_threshold v c = c\<lparr>amt_subsequent_time_threshold := (True, v)\<rparr>"

definition additional_monitoring_time_get_subsequent_time_threshold :: "additional_monitoring_time \<Rightarrow> u32 \<Rightarrow> bool \<times> u32" where
  "additional_monitoring_time_get_subsequent_time_threshold c v = opt_get (amt_subsequent_time_threshold c) v"

definition additional_monitoring_time_set_subsequent_volume_quota :: "subsequent_volume_quota_t \<Rightarrow> additional_monitoring_time \<Rightarrow> additional_monitoring_time" where
  "additional_monitoring_time_set_subsequent_volume_quota v c = c\<lparr>amt_subsequent_volume_quota := (True, v)\<rparr>"

definition additional_monitoring_time_get_subsequent_volume_quota :: "additional_monitoring_time \<Rightarrow> subsequent_volume_quota_t \<Rightarrow> bool \<times> subsequent_volume_quota_t" where
  "additional_monitoring_time_get_subsequent_volume_quota c v = opt_get (amt_subsequent_volume_quota c) v"

definition additional_monitoring_time_set_subsequent_time_quota :: "u64 \<Rightarrow> additional_monitoring_time \<Rightarrow> additional_monitoring_time" where
  "additional_monitoring_time_set_subsequent_time_quota v c = c\<lparr>amt_subsequent_time_quota := (True, v)\<rparr>"

definition additional_monitoring_time_get_subsequent_time_quota :: "additional_monitoring_time \<Rightarrow> u64 \<Rightarrow> bool \<times> u64" where
  "additional_monitoring_time_get_subsequent_time_quota c v = opt_get (amt_subsequent_time_quota c) v"

subsection \<open>\<^verbatim>\<open>event_information\<close>\<close>

record event_information =
  evi_event_id :: "u32 optm"
  evi_event_threshold :: "u32 optm"

definition new_event_information :: event_information where
  "new_event_information = \<lparr>evi_event_id = (False, 0), evi_event_threshold = (False, 0)\<rparr>"

definition copy_event_information :: "event_information \<Rightarrow> event_information" where
  "copy_event_information e = \<lparr>evi_event_id = evi_event_id e, evi_event_threshold = evi_event_threshold e\<rparr>"

definition event_information_set_event_id :: "u32 \<Rightarrow> event_information \<Rightarrow> event_information" where
  "event_information_set_event_id v c = c\<lparr>evi_event_id := (True, v)\<rparr>"

definition event_information_get_event_id :: "event_information \<Rightarrow> u32 \<Rightarrow> bool \<times> u32" where
  "event_information_get_event_id c v = opt_get (evi_event_id c) v"

definition event_information_set_event_threshold :: "u32 \<Rightarrow> event_information \<Rightarrow> event_information" where
  "event_information_set_event_threshold v c = c\<lparr>evi_event_threshold := (True, v)\<rparr>"

definition event_information_get_event_threshold :: "event_information \<Rightarrow> u32 \<Rightarrow> bool \<times> u32" where
  "event_information_get_event_threshold c v = opt_get (evi_event_threshold c) v"

subsection \<open>\<^verbatim>\<open>create_bar\<close>\<close>

record create_bar =
  cb_bar_id :: "u8 optm"
  cb_downlink_data_notification_delay :: "u8 optm"
  cb_suggested_buffering_packets_count :: "u8 optm"

definition new_create_bar :: create_bar where
  "new_create_bar = \<lparr>cb_bar_id = (False, 0), cb_downlink_data_notification_delay = (False, 0), cb_suggested_buffering_packets_count = (False, 0)\<rparr>"

definition copy_create_bar :: "create_bar \<Rightarrow> create_bar" where
  "copy_create_bar c = \<lparr>cb_bar_id = cb_bar_id c, cb_downlink_data_notification_delay = cb_downlink_data_notification_delay c, cb_suggested_buffering_packets_count = cb_suggested_buffering_packets_count c\<rparr>"

definition create_bar_set_bar_id :: "u8 \<Rightarrow> create_bar \<Rightarrow> create_bar" where
  "create_bar_set_bar_id v c = c\<lparr>cb_bar_id := (True, v)\<rparr>"

definition create_bar_get_bar_id :: "create_bar \<Rightarrow> u8 \<Rightarrow> bool \<times> u8" where
  "create_bar_get_bar_id c v = opt_get (cb_bar_id c) v"

definition create_bar_set_downlink_data_notification_delay :: "u8 \<Rightarrow> create_bar \<Rightarrow> create_bar" where
  "create_bar_set_downlink_data_notification_delay v c = c\<lparr>cb_downlink_data_notification_delay := (True, v)\<rparr>"

definition create_bar_get_downlink_data_notification_delay :: "create_bar \<Rightarrow> u8 \<Rightarrow> bool \<times> u8" where
  "create_bar_get_downlink_data_notification_delay c v = opt_get (cb_downlink_data_notification_delay c) v"

definition create_bar_set_suggested_buffering_packets_count :: "u8 \<Rightarrow> create_bar \<Rightarrow> create_bar" where
  "create_bar_set_suggested_buffering_packets_count v c = c\<lparr>cb_suggested_buffering_packets_count := (True, v)\<rparr>"

definition create_bar_get_suggested_buffering_packets_count :: "create_bar \<Rightarrow> u8 \<Rightarrow> bool \<times> u8" where
  "create_bar_get_suggested_buffering_packets_count c v = opt_get (cb_suggested_buffering_packets_count c) v"

subsection \<open>\<^verbatim>\<open>load_control_information\<close>\<close>

record load_control_information =
  lci_load_control_sequence_number :: "u32 optm"
  lci_load_metric :: "u8 optm"

definition new_load_control_information :: load_control_information where
  "new_load_control_information = \<lparr>lci_load_control_sequence_number = (False, 0), lci_load_metric = (False, 0)\<rparr>"

definition copy_load_control_information :: "load_control_information \<Rightarrow> load_control_information" where
  "copy_load_control_information l = \<lparr>lci_load_control_sequence_number = lci_load_control_sequence_number l, lci_load_metric = lci_load_metric l\<rparr>"

definition load_control_information_set_load_control_sequence_number :: "u32 \<Rightarrow> load_control_information \<Rightarrow> load_control_information" where
  "load_control_information_set_load_control_sequence_number v c = c\<lparr>lci_load_control_sequence_number := (True, v)\<rparr>"

definition load_control_information_get_load_control_sequence_number :: "load_control_information \<Rightarrow> u32 \<Rightarrow> bool \<times> u32" where
  "load_control_information_get_load_control_sequence_number c v = opt_get (lci_load_control_sequence_number c) v"

definition load_control_information_set_load_metric :: "u8 \<Rightarrow> load_control_information \<Rightarrow> load_control_information" where
  "load_control_information_set_load_metric v c = c\<lparr>lci_load_metric := (True, v)\<rparr>"

definition load_control_information_get_load_metric :: "load_control_information \<Rightarrow> u8 \<Rightarrow> bool \<times> u8" where
  "load_control_information_get_load_metric c v = opt_get (lci_load_metric c) v"

subsection \<open>\<^verbatim>\<open>overload_control_information\<close>\<close>

record overload_control_information =
  ovi_overload_control_sequence_number :: "u32 optm"
  ovi_overload_reduction_metric :: "u8 optm"
  ovi_period_of_validity :: "timer_t optm"
  ovi_overload_control_information_flags :: "oci_flags_t optm"

definition new_overload_control_information :: overload_control_information where
  "new_overload_control_information = \<lparr>ovi_overload_control_sequence_number = (False, 0), ovi_overload_reduction_metric = (False, 0), ovi_period_of_validity = (False, timer0), ovi_overload_control_information_flags = (False, oci_flags0)\<rparr>"

definition copy_overload_control_information :: "overload_control_information \<Rightarrow> overload_control_information" where
  "copy_overload_control_information c = \<lparr>ovi_overload_control_sequence_number = ovi_overload_control_sequence_number c, ovi_overload_reduction_metric = ovi_overload_reduction_metric c, ovi_period_of_validity = ovi_period_of_validity c, ovi_overload_control_information_flags = ovi_overload_control_information_flags c\<rparr>"

definition overload_control_information_set_overload_control_sequence_number :: "u32 \<Rightarrow> overload_control_information \<Rightarrow> overload_control_information" where
  "overload_control_information_set_overload_control_sequence_number v c = c\<lparr>ovi_overload_control_sequence_number := (True, v)\<rparr>"

definition overload_control_information_get_overload_control_sequence_number :: "overload_control_information \<Rightarrow> u32 \<Rightarrow> bool \<times> u32" where
  "overload_control_information_get_overload_control_sequence_number c v = opt_get (ovi_overload_control_sequence_number c) v"

definition overload_control_information_set_overload_reduction_metric :: "u8 \<Rightarrow> overload_control_information \<Rightarrow> overload_control_information" where
  "overload_control_information_set_overload_reduction_metric v c = c\<lparr>ovi_overload_reduction_metric := (True, v)\<rparr>"

definition overload_control_information_get_overload_reduction_metric :: "overload_control_information \<Rightarrow> u8 \<Rightarrow> bool \<times> u8" where
  "overload_control_information_get_overload_reduction_metric c v = opt_get (ovi_overload_reduction_metric c) v"

definition overload_control_information_set_period_of_validity :: "timer_t \<Rightarrow> overload_control_information \<Rightarrow> overload_control_information" where
  "overload_control_information_set_period_of_validity v c = c\<lparr>ovi_period_of_validity := (True, v)\<rparr>"

definition overload_control_information_get_period_of_validity :: "overload_control_information \<Rightarrow> timer_t \<Rightarrow> bool \<times> timer_t" where
  "overload_control_information_get_period_of_validity c v = opt_get (ovi_period_of_validity c) v"

definition overload_control_information_set_overload_control_information_flags :: "oci_flags_t \<Rightarrow> overload_control_information \<Rightarrow> overload_control_information" where
  "overload_control_information_set_overload_control_information_flags v c = c\<lparr>ovi_overload_control_information_flags := (True, v)\<rparr>"

definition overload_control_information_get_overload_control_information_flags :: "overload_control_information \<Rightarrow> oci_flags_t \<Rightarrow> bool \<times> oci_flags_t" where
  "overload_control_information_get_overload_control_information_flags c v = opt_get (ovi_overload_control_information_flags c) v"

subsection \<open>\<^verbatim>\<open>query_urr\<close>\<close>

record query_urr =
  qurr_urr_id :: "u32 optm"

definition new_query_urr :: query_urr where
  "new_query_urr = \<lparr>qurr_urr_id = (False, 0)\<rparr>"

definition copy_query_urr :: "query_urr \<Rightarrow> query_urr" where
  "copy_query_urr q = \<lparr>qurr_urr_id = qurr_urr_id q\<rparr>"

definition query_urr_set_urr_id :: "u32 \<Rightarrow> query_urr \<Rightarrow> query_urr" where
  "query_urr_set_urr_id v c = c\<lparr>qurr_urr_id := (True, v)\<rparr>"

definition query_urr_get_urr_id :: "query_urr \<Rightarrow> u32 \<Rightarrow> bool \<times> u32" where
  "query_urr_get_urr_id c v = opt_get (qurr_urr_id c) v"

subsection \<open>\<^verbatim>\<open>update_bar_within_pfcp_session_modification_request\<close>\<close>

record update_bar_within_pfcp_session_modification_request =
  ubm_bar_id :: "u8 optm"
  ubm_downlink_data_notification_delay :: "u8 optm"
  ubm_suggested_buffering_packets_count :: "u8 optm"

definition new_update_bar_within_pfcp_session_modification_request :: update_bar_within_pfcp_session_modification_request where
  "new_update_bar_within_pfcp_session_modification_request = \<lparr>ubm_bar_id = (False, 0), ubm_downlink_data_notification_delay = (False, 0), ubm_suggested_buffering_packets_count = (False, 0)\<rparr>"

definition copy_update_bar_within_pfcp_session_modification_request :: "update_bar_within_pfcp_session_modification_request \<Rightarrow> update_bar_within_pfcp_session_modification_request" where
  "copy_update_bar_within_pfcp_session_modification_request u = \<lparr>ubm_bar_id = ubm_bar_id u, ubm_downlink_data_notification_delay = ubm_downlink_data_notification_delay u, ubm_suggested_buffering_packets_count = ubm_suggested_buffering_packets_count u\<rparr>"

definition update_bar_within_pfcp_session_modification_request_set_bar_id :: "u8 \<Rightarrow> update_bar_within_pfcp_session_modification_request \<Rightarrow> update_bar_within_pfcp_session_modification_request" where
  "update_bar_within_pfcp_session_modification_request_set_bar_id v c = c\<lparr>ubm_bar_id := (True, v)\<rparr>"

definition update_bar_within_pfcp_session_modification_request_get_bar_id :: "update_bar_within_pfcp_session_modification_request \<Rightarrow> u8 \<Rightarrow> bool \<times> u8" where
  "update_bar_within_pfcp_session_modification_request_get_bar_id c v = opt_get (ubm_bar_id c) v"

definition update_bar_within_pfcp_session_modification_request_set_downlink_data_notification_delay :: "u8 \<Rightarrow> update_bar_within_pfcp_session_modification_request \<Rightarrow> update_bar_within_pfcp_session_modification_request" where
  "update_bar_within_pfcp_session_modification_request_set_downlink_data_notification_delay v c = c\<lparr>ubm_downlink_data_notification_delay := (True, v)\<rparr>"

definition update_bar_within_pfcp_session_modification_request_get_downlink_data_notification_delay :: "update_bar_within_pfcp_session_modification_request \<Rightarrow> u8 \<Rightarrow> bool \<times> u8" where
  "update_bar_within_pfcp_session_modification_request_get_downlink_data_notification_delay c v = opt_get (ubm_downlink_data_notification_delay c) v"

definition update_bar_within_pfcp_session_modification_request_set_suggested_buffering_packets_count :: "u8 \<Rightarrow> update_bar_within_pfcp_session_modification_request \<Rightarrow> update_bar_within_pfcp_session_modification_request" where
  "update_bar_within_pfcp_session_modification_request_set_suggested_buffering_packets_count v c = c\<lparr>ubm_suggested_buffering_packets_count := (True, v)\<rparr>"

definition update_bar_within_pfcp_session_modification_request_get_suggested_buffering_packets_count :: "update_bar_within_pfcp_session_modification_request \<Rightarrow> u8 \<Rightarrow> bool \<times> u8" where
  "update_bar_within_pfcp_session_modification_request_get_suggested_buffering_packets_count c v = opt_get (ubm_suggested_buffering_packets_count c) v"

subsection \<open>\<^verbatim>\<open>remove_bar\<close>\<close>

record remove_bar =
  rb_bar_id :: "u8 optm"

definition new_remove_bar :: remove_bar where
  "new_remove_bar = \<lparr>rb_bar_id = (False, 0)\<rparr>"

definition copy_remove_bar :: "remove_bar \<Rightarrow> remove_bar" where
  "copy_remove_bar r = \<lparr>rb_bar_id = rb_bar_id r\<rparr>"

definition remove_bar_set_bar_id :: "u8 \<Rightarrow> remove_bar \<Rightarrow> remove_bar" where
  "remove_bar_set_bar_id v c = c\<lparr>rb_bar_id := (True, v)\<rparr>"

definition remove_bar_get_bar_id :: "remove_bar \<Rightarrow> u8 \<Rightarrow> bool \<times> u8" where
  "remove_bar_get_bar_id c v = opt_get (rb_bar_id c) v"

subsection \<open>\<^verbatim>\<open>created_traffic_endpoint\<close>\<close>

record created_traffic_endpoint =
  cdte_traffic_endpoint_id :: "u8 optm"
  cdte_local_fteid :: "fteid_t optm"

definition new_created_traffic_endpoint :: created_traffic_endpoint where
  "new_created_traffic_endpoint = \<lparr>cdte_traffic_endpoint_id = (False, 0), cdte_local_fteid = (False, fteid0)\<rparr>"

definition copy_created_traffic_endpoint :: "created_traffic_endpoint \<Rightarrow> created_traffic_endpoint" where
  "copy_created_traffic_endpoint c = \<lparr>cdte_traffic_endpoint_id = cdte_traffic_endpoint_id c, cdte_local_fteid = cdte_local_fteid c\<rparr>"

definition created_traffic_endpoint_set_traffic_endpoint_id :: "u8 \<Rightarrow> created_traffic_endpoint \<Rightarrow> created_traffic_endpoint" where
  "created_traffic_endpoint_set_traffic_endpoint_id v c = c\<lparr>cdte_traffic_endpoint_id := (True, v)\<rparr>"

definition created_traffic_endpoint_get_traffic_endpoint_id :: "created_traffic_endpoint \<Rightarrow> u8 \<Rightarrow> bool \<times> u8" where
  "created_traffic_endpoint_get_traffic_endpoint_id c v = opt_get (cdte_traffic_endpoint_id c) v"

definition created_traffic_endpoint_set_local_fteid :: "fteid_t \<Rightarrow> created_traffic_endpoint \<Rightarrow> created_traffic_endpoint" where
  "created_traffic_endpoint_set_local_fteid v c = c\<lparr>cdte_local_fteid := (True, v)\<rparr>"

definition created_traffic_endpoint_get_local_fteid :: "created_traffic_endpoint \<Rightarrow> fteid_t \<Rightarrow> bool \<times> fteid_t" where
  "created_traffic_endpoint_get_local_fteid c v = opt_get (cdte_local_fteid c) v"

subsection \<open>\<^verbatim>\<open>update_traffic_endpoint\<close>\<close>

record update_traffic_endpoint =
  ute_traffic_endpoint_id :: "u8 optm"
  ute_local_fteid :: "fteid_t optm"
  ute_network_instance :: "string optm"
  ute_ue_ip_address :: "ue_ip_address_t optm"
  ute_framed_route :: "string optm"
  ute_framed_routing :: "u32 optm"
  ute_framed_ipv6_route :: "string optm"

definition new_update_traffic_endpoint :: update_traffic_endpoint where
  "new_update_traffic_endpoint = \<lparr>ute_traffic_endpoint_id = (False, 0), ute_local_fteid = (False, fteid0), ute_network_instance = (False, []), ute_ue_ip_address = (False, ue_ip_address0), ute_framed_route = (False, []), ute_framed_routing = (False, 0), ute_framed_ipv6_route = (False, [])\<rparr>"

definition copy_update_traffic_endpoint :: "update_traffic_endpoint \<Rightarrow> update_traffic_endpoint" where
  "copy_update_traffic_endpoint u = \<lparr>ute_traffic_endpoint_id = ute_traffic_endpoint_id u, ute_local_fteid = ute_local_fteid u, ute_network_instance = ute_network_instance u, ute_ue_ip_address = ute_ue_ip_address u, ute_framed_route = ute_framed_route u, ute_framed_routing = ute_framed_routing u, ute_framed_ipv6_route = ute_framed_ipv6_route u\<rparr>"

definition update_traffic_endpoint_set_traffic_endpoint_id :: "u8 \<Rightarrow> update_traffic_endpoint \<Rightarrow> update_traffic_endpoint" where
  "update_traffic_endpoint_set_traffic_endpoint_id v c = c\<lparr>ute_traffic_endpoint_id := (True, v)\<rparr>"

definition update_traffic_endpoint_get_traffic_endpoint_id :: "update_traffic_endpoint \<Rightarrow> u8 \<Rightarrow> bool \<times> u8" where
  "update_traffic_endpoint_get_traffic_endpoint_id c v = opt_get (ute_traffic_endpoint_id c) v"

definition update_traffic_endpoint_set_local_fteid :: "fteid_t \<Rightarrow> update_traffic_endpoint \<Rightarrow> update_traffic_endpoint" where
  "update_traffic_endpoint_set_local_fteid v c = c\<lparr>ute_local_fteid := (True, v)\<rparr>"

definition update_traffic_endpoint_get_local_fteid :: "update_traffic_endpoint \<Rightarrow> fteid_t \<Rightarrow> bool \<times> fteid_t" where
  "update_traffic_endpoint_get_local_fteid c v = opt_get (ute_local_fteid c) v"

definition update_traffic_endpoint_set_network_instance :: "string \<Rightarrow> update_traffic_endpoint \<Rightarrow> update_traffic_endpoint" where
  "update_traffic_endpoint_set_network_instance v c = c\<lparr>ute_network_instance := (True, v)\<rparr>"

definition update_traffic_endpoint_get_network_instance :: "update_traffic_endpoint \<Rightarrow> string \<Rightarrow> bool \<times> string" where
  "update_traffic_endpoint_get_network_instance c v = opt_get (ute_network_instance c) v"

definition update_traffic_endpoint_set_ue_ip_address :: "ue_ip_address_t \<Rightarrow> update_traffic_endpoint \<Rightarrow> update_traffic_endpoint" where
  "update_traffic_endpoint_set_ue_ip_address v c = c\<lparr>ute_ue_ip_address := (True, v)\<rparr>"

definition update_traffic_endpoint_get_ue_ip_address :: "update_traffic_endpoint \<Rightarrow> ue_ip_address_t \<Rightarrow> bool \<times> ue_ip_address_t" where
  "update_traffic_endpoint_get_ue_ip_address c v = opt_get (ute_ue_ip_address c) v"

definition update_traffic_endpoint_set_framed_route :: "string \<Rightarrow> update_traffic_endpoint \<Rightarrow> update_traffic_endpoint" where
  "update_traffic_endpoint_set_framed_route v c = c\<lparr>ute_framed_route := (True, v)\<rparr>"

definition update_traffic_endpoint_get_framed_route :: "update_traffic_endpoint \<Rightarrow> string \<Rightarrow> bool \<times> string" where
  "update_traffic_endpoint_get_framed_route c v = opt_get (ute_framed_route c) v"

definition update_traffic_endpoint_set_framed_routing :: "u32 \<Rightarrow> update_traffic_endpoint \<Rightarrow> update_traffic_endpoint" where
  "update_traffic_endpoint_set_framed_routing v c = c\<lparr>ute_framed_routing := (True, v)\<rparr>"

definition update_traffic_endpoint_get_framed_routing :: "update_traffic_endpoint \<Rightarrow> u32 \<Rightarrow> bool \<times> u32" where
  "update_traffic_endpoint_get_framed_routing c v = opt_get (ute_framed_routing c) v"

definition update_traffic_endpoint_set_framed_ipv6_route :: "string \<Rightarrow> update_traffic_endpoint \<Rightarrow> update_traffic_endpoint" where
  "update_traffic_endpoint_set_framed_ipv6_route v c = c\<lparr>ute_framed_ipv6_route := (True, v)\<rparr>"

definition update_traffic_endpoint_get_framed_ipv6_route :: "update_traffic_endpoint \<Rightarrow> string \<Rightarrow> bool \<times> string" where
  "update_traffic_endpoint_get_framed_ipv6_route c v = opt_get (ute_framed_ipv6_route c) v"

subsection \<open>\<^verbatim>\<open>remove_traffic_endpoint\<close>\<close>

record remove_traffic_endpoint =
  rte_traffic_endpoint_id :: "u8 optm"

definition new_remove_traffic_endpoint :: remove_traffic_endpoint where
  "new_remove_traffic_endpoint = \<lparr>rte_traffic_endpoint_id = (False, 0)\<rparr>"

definition copy_remove_traffic_endpoint :: "remove_traffic_endpoint \<Rightarrow> remove_traffic_endpoint" where
  "copy_remove_traffic_endpoint r = \<lparr>rte_traffic_endpoint_id = rte_traffic_endpoint_id r\<rparr>"

definition remove_traffic_endpoint_set_traffic_endpoint_id :: "u8 \<Rightarrow> remove_traffic_endpoint \<Rightarrow> remove_traffic_endpoint" where
  "remove_traffic_endpoint_set_traffic_endpoint_id v c = c\<lparr>rte_traffic_endpoint_id := (True, v)\<rparr>"

definition remove_traffic_endpoint_get_traffic_endpoint_id :: "remove_traffic_endpoint \<Rightarrow> u8 \<Rightarrow> bool \<times> u8" where
  "remove_traffic_endpoint_get_traffic_endpoint_id c v = opt_get (rte_traffic_endpoint_id c) v"

subsection \<open>\<^verbatim>\<open>ethernet_traffic_information\<close>\<close>

record ethernet_traffic_information =
  eti_mac_addresses_detected :: "u8 optm"
  eti_mac_addresses_removed :: "u8 optm"

definition new_ethernet_traffic_information :: ethernet_traffic_information where
  "new_ethernet_traffic_information = \<lparr>eti_mac_addresses_detected = (False, 0), eti_mac_addresses_removed = (False, 0)\<rparr>"

definition copy_ethernet_traffic_information :: "ethernet_traffic_information \<Rightarrow> ethernet_traffic_information" where
  "copy_ethernet_traffic_information e = \<lparr>eti_mac_addresses_detected = eti_mac_addresses_detected e, eti_mac_addresses_removed = eti_mac_addresses_removed e\<rparr>"

definition ethernet_traffic_information_set_mac_addresses_detected :: "u8 \<Rightarrow> ethernet_traffic_information \<Rightarrow> ethernet_traffic_information" where
  "ethernet_traffic_information_set_mac_addresses_detected v c = c\<lparr>eti_mac_addresses_detected := (True, v)\<rparr>"

definition ethernet_traffic_information_get_mac_addresses_detected :: "ethernet_traffic_information \<Rightarrow> u8 \<Rightarrow> bool \<times> u8" where
  "ethernet_traffic_information_get_mac_addresses_detected c v = opt_get (eti_mac_addresses_detected c) v"

definition ethernet_traffic_information_set_mac_addresses_removed :: "u8 \<Rightarrow> ethernet_traffic_information \<Rightarrow> ethernet_traffic_information" where
  "ethernet_traffic_information_set_mac_addresses_removed v c = c\<lparr>eti_mac_addresses_removed := (True, v)\<rparr>"

definition ethernet_traffic_information_get_mac_addresses_removed :: "ethernet_traffic_information \<Rightarrow> u8 \<Rightarrow> bool \<times> u8" where
  "ethernet_traffic_information_get_mac_addresses_removed c v = opt_get (eti_mac_addresses_removed c) v"

subsection \<open>\<^verbatim>\<open>usage_report_within_pfcp_session_modification_response\<close>\<close>

record usage_report_within_pfcp_session_modification_response =
  urm_urr_id :: "u32 optm"
  urm_ur_seqn :: "u32 optm"
  urm_usage_report_trigger :: "usage_report_trigger_t optm"
  urm_start_time :: "u32 optm"
  urm_end_time :: "u32 optm"
  urm_volume_measurement :: "volume_measurement_t optm"
  urm_duration_measurement :: "u32 optm"
  urm_time_of_first_packet :: "u32 optm"
  urm_time_of_last_packet :: "u32 optm"
  urm_usage_information :: "usage_information_t optm"
  urm_query_urr_reference :: "u32 optm"
  urm_ethernet_traffic_information :: "ethernet_traffic_information optm"

definition new_usage_report_within_pfcp_session_modification_response :: usage_report_within_pfcp_session_modification_response where
  "new_usage_report_within_pfcp_session_modification_response = \<lparr>urm_urr_id = (False, 0), urm_ur_seqn = (False, 0), urm_usage_report_trigger = (False, usage_report_trigger0), urm_start_time = (False, 0), urm_end_time = (False, 0), urm_volume_measurement = (False, volume_measurement0), urm_duration_measurement = (False, 0), urm_time_of_first_packet = (False, 0), urm_time_of_last_packet = (False, 0), urm_usage_information = (False, usage_information0), urm_query_urr_reference = (False, 0), urm_ethernet_traffic_information = (False, new_ethernet_traffic_information)\<rparr>"

definition copy_usage_report_within_pfcp_session_modification_response :: "usage_report_within_pfcp_session_modification_response \<Rightarrow> usage_report_within_pfcp_session_modification_response" where
  "copy_usage_report_within_pfcp_session_modification_response u = \<lparr>urm_urr_id = urm_urr_id u, urm_ur_seqn = urm_ur_seqn u, urm_usage_report_trigger = urm_usage_report_trigger u, urm_start_time = urm_start_time u, urm_end_time = urm_end_time u, urm_volume_measurement = urm_volume_measurement u, urm_duration_measurement = urm_duration_measurement u, urm_time_of_first_packet = urm_time_of_first_packet u, urm_time_of_last_packet = urm_time_of_last_packet u, urm_usage_information = urm_usage_information u, urm_query_urr_reference = urm_query_urr_reference u, urm_ethernet_traffic_information = urm_ethernet_traffic_information u\<rparr>"

definition usage_report_within_pfcp_session_modification_response_set_urr_id :: "u32 \<Rightarrow> usage_report_within_pfcp_session_modification_response \<Rightarrow> usage_report_within_pfcp_session_modification_response" where
  "usage_report_within_pfcp_session_modification_response_set_urr_id v c = c\<lparr>urm_urr_id := (True, v)\<rparr>"

definition usage_report_within_pfcp_session_modification_response_get_urr_id :: "usage_report_within_pfcp_session_modification_response \<Rightarrow> u32 \<Rightarrow> bool \<times> u32" where
  "usage_report_within_pfcp_session_modification_response_get_urr_id c v = opt_get (urm_urr_id c) v"

definition usage_report_within_pfcp_session_modification_response_set_ur_seqn :: "u32 \<Rightarrow> usage_report_within_pfcp_session_modification_response \<Rightarrow> usage_report_within_pfcp_session_modification_response" where
  "usage_report_within_pfcp_session_modification_response_set_ur_seqn v c = c\<lparr>urm_ur_seqn := (True, v)\<rparr>"

definition usage_report_within_pfcp_session_modification_response_get_ur_seqn :: "usage_report_within_pfcp_session_modification_response \<Rightarrow> u32 \<Rightarrow> bool \<times> u32" where
  "usage_report_within_pfcp_session_modification_response_get_ur_seqn c v = opt_get (urm_ur_seqn c) v"

definition usage_report_within_pfcp_session_modification_response_set_usage_report_trigger :: "usage_report_trigger_t \<Rightarrow> usage_report_within_pfcp_session_modification_response \<Rightarrow> usage_report_within_pfcp_session_modification_response" where
  "usage_report_within_pfcp_session_modification_response_set_usage_report_trigger v c = c\<lparr>urm_usage_report_trigger := (True, v)\<rparr>"

definition usage_report_within_pfcp_session_modification_response_get_usage_report_trigger :: "usage_report_within_pfcp_session_modification_response \<Rightarrow> usage_report_trigger_t \<Rightarrow> bool \<times> usage_report_trigger_t" where
  "usage_report_within_pfcp_session_modification_response_get_usage_report_trigger c v = opt_get (urm_usage_report_trigger c) v"

definition usage_report_within_pfcp_session_modification_response_set_start_time :: "u32 \<Rightarrow> usage_report_within_pfcp_session_modification_response \<Rightarrow> usage_report_within_pfcp_session_modification_response" where
  "usage_report_within_pfcp_session_modification_response_set_start_time v c = c\<lparr>urm_start_time := (True, v)\<rparr>"

definition usage_report_within_pfcp_session_modification_response_get_start_time :: "usage_report_within_pfcp_session_modification_response \<Rightarrow> u32 \<Rightarrow> bool \<times> u32" where
  "usage_report_within_pfcp_session_modification_response_get_start_time c v = opt_get (urm_start_time c) v"

definition usage_report_within_pfcp_session_modification_response_set_end_time :: "u32 \<Rightarrow> usage_report_within_pfcp_session_modification_response \<Rightarrow> usage_report_within_pfcp_session_modification_response" where
  "usage_report_within_pfcp_session_modification_response_set_end_time v c = c\<lparr>urm_end_time := (True, v)\<rparr>"

definition usage_report_within_pfcp_session_modification_response_get_end_time :: "usage_report_within_pfcp_session_modification_response \<Rightarrow> u32 \<Rightarrow> bool \<times> u32" where
  "usage_report_within_pfcp_session_modification_response_get_end_time c v = opt_get (urm_end_time c) v"

definition usage_report_within_pfcp_session_modification_response_set_volume_measurement :: "volume_measurement_t \<Rightarrow> usage_report_within_pfcp_session_modification_response \<Rightarrow> usage_report_within_pfcp_session_modification_response" where
  "usage_report_within_pfcp_session_modification_response_set_volume_measurement v c = c\<lparr>urm_volume_measurement := (True, v)\<rparr>"

definition usage_report_within_pfcp_session_modification_response_get_volume_measurement :: "usage_report_within_pfcp_session_modification_response \<Rightarrow> volume_measurement_t \<Rightarrow> bool \<times> volume_measurement_t" where
  "usage_report_within_pfcp_session_modification_response_get_volume_measurement c v = opt_get (urm_volume_measurement c) v"

definition usage_report_within_pfcp_session_modification_response_set_duration_measurement :: "u32 \<Rightarrow> usage_report_within_pfcp_session_modification_response \<Rightarrow> usage_report_within_pfcp_session_modification_response" where
  "usage_report_within_pfcp_session_modification_response_set_duration_measurement v c = c\<lparr>urm_duration_measurement := (True, v)\<rparr>"

definition usage_report_within_pfcp_session_modification_response_get_duration_measurement :: "usage_report_within_pfcp_session_modification_response \<Rightarrow> u32 \<Rightarrow> bool \<times> u32" where
  "usage_report_within_pfcp_session_modification_response_get_duration_measurement c v = opt_get (urm_duration_measurement c) v"

definition usage_report_within_pfcp_session_modification_response_set_time_of_first_packet :: "u32 \<Rightarrow> usage_report_within_pfcp_session_modification_response \<Rightarrow> usage_report_within_pfcp_session_modification_response" where
  "usage_report_within_pfcp_session_modification_response_set_time_of_first_packet v c = c\<lparr>urm_time_of_first_packet := (True, v)\<rparr>"

definition usage_report_within_pfcp_session_modification_response_get_time_of_first_packet :: "usage_report_within_pfcp_session_modification_response \<Rightarrow> u32 \<Rightarrow> bool \<times> u32" where
  "usage_report_within_pfcp_session_modification_response_get_time_of_first_packet c v = opt_get (urm_time_of_first_packet c) v"

definition usage_report_within_pfcp_session_modification_response_set_time_of_last_packet :: "u32 \<Rightarrow> usage_report_within_pfcp_session_modification_response \<Rightarrow> usage_report_within_pfcp_session_modification_response" where
  "usage_report_within_pfcp_session_modification_response_set_time_of_last_packet v c = c\<lparr>urm_time_of_last_packet := (True, v)\<rparr>"

definition usage_report_within_pfcp_session_modification_response_get_time_of_last_packet :: "usage_report_within_pfcp_session_modification_response \<Rightarrow> u32 \<Rightarrow> bool \<times> u32" where
  "usage_report_within_pfcp_session_modification_response_get_time_of_last_packet c v = opt_get (urm_time_of_last_packet c) v"

definition usage_report_within_pfcp_session_modification_response_set_usage_information :: "usage_information_t \<Rightarrow> usage_report_within_pfcp_session_modification_response \<Rightarrow> usage_report_within_pfcp_session_modification_response" where
  "usage_report_within_pfcp_session_modification_response_set_usage_information v c = c\<lparr>urm_usage_information := (True, v)\<rparr>"

definition usage_report_within_pfcp_session_modification_response_get_usage_information :: "usage_report_within_pfcp_session_modification_response \<Rightarrow> usage_information_t \<Rightarrow> bool \<times> usage_information_t" where
  "usage_report_within_pfcp_session_modification_response_get_usage_information c v = opt_get (urm_usage_information c) v"

definition usage_report_within_pfcp_session_modification_response_set_query_urr_reference :: "u32 \<Rightarrow> usage_report_within_pfcp_session_modification_response \<Rightarrow> usage_report_within_pfcp_session_modification_response" where
  "usage_report_within_pfcp_session_modification_response_set_query_urr_reference v c = c\<lparr>urm_query_urr_reference := (True, v)\<rparr>"

definition usage_report_within_pfcp_session_modification_response_get_query_urr_reference :: "usage_report_within_pfcp_session_modification_response \<Rightarrow> u32 \<Rightarrow> bool \<times> u32" where
  "usage_report_within_pfcp_session_modification_response_get_query_urr_reference c v = opt_get (urm_query_urr_reference c) v"

definition usage_report_within_pfcp_session_modification_response_set_ethernet_traffic_information :: "ethernet_traffic_information \<Rightarrow> usage_report_within_pfcp_session_modification_response \<Rightarrow> usage_report_within_pfcp_session_modification_response" where
  "usage_report_within_pfcp_session_modification_response_set_ethernet_traffic_information v c = c\<lparr>urm_ethernet_traffic_information := (True, v)\<rparr>"

definition usage_report_within_pfcp_session_modification_response_get_ethernet_traffic_information :: "usage_report_within_pfcp_session_modification_response \<Rightarrow> ethernet_traffic_information \<Rightarrow> bool \<times> ethernet_traffic_information" where
  "usage_report_within_pfcp_session_modification_response_get_ethernet_traffic_information c v = opt_get (urm_ethernet_traffic_information c) v"

subsection \<open>\<^verbatim>\<open>usage_report_within_pfcp_session_deletion_response\<close>\<close>

record usage_report_within_pfcp_session_deletion_response =
  urd_urr_id :: "u32 optm"
  urd_ur_seqn :: "u32 optm"
  urd_usage_report_trigger :: "usage_report_trigger_t optm"
  urd_start_time :: "u32 optm"
  urd_end_time :: "u32 optm"
  urd_volume_measurement :: "volume_measurement_t optm"
  urd_duration_measurement :: "u32 optm"
  urd_time_of_first_packet :: "u32 optm"
  urd_time_of_last_packet :: "u32 optm"
  urd_usage_information :: "usage_information_t optm"
  urd_ethernet_traffic_information :: "ethernet_traffic_information optm"

definition new_usage_report_within_pfcp_session_deletion_response :: usage_report_within_pfcp_session_deletion_response where
  "new_usage_report_within_pfcp_session_deletion_response = \<lparr>urd_urr_id = (False, 0), urd_ur_seqn = (False, 0), urd_usage_report_trigger = (False, usage_report_trigger0), urd_start_time = (False, 0), urd_end_time = (False, 0), urd_volume_measurement = (False, volume_measurement0), urd_duration_measurement = (False, 0), urd_time_of_first_packet = (False, 0), urd_time_of_last_packet = (False, 0), urd_usage_information = (False, usage_information0), urd_ethernet_traffic_information = (False, new_ethernet_traffic_information)\<rparr>"

definition copy_usage_report_within_pfcp_session_deletion_response :: "usage_report_within_pfcp_session_deletion_response \<Rightarrow> usage_report_within_pfcp_session_deletion_response" where
  "copy_usage_report_within_pfcp_session_deletion_response u = \<lparr>urd_urr_id = urd_urr_id u, urd_ur_seqn = urd_ur_seqn u, urd_usage_report_trigger = urd_usage_report_trigger u, urd_start_time = urd_start_time u, urd_end_time = urd_end_time u, urd_volume_measurement = urd_volume_measurement u, urd_duration_measurement = urd_duration_measurement u, urd_time_of_first_packet = urd_time_of_first_packet u, urd_time_of_last_packet = urd_time_of_last_packet u, urd_usage_information = urd_usage_information u, urd_ethernet_traffic_information = urd_ethernet_traffic_information u\<rparr>"

definition usage_report_within_pfcp_session_deletion_response_set_urr_id :: "u32 \<Rightarrow> usage_report_within_pfcp_session_deletion_response \<Rightarrow> usage_report_within_pfcp_session_deletion_response" where
  "usage_report_within_pfcp_session_deletion_response_set_urr_id v c = c\<lparr>urd_urr_id := (True, v)\<rparr>"

definition usage_report_within_pfcp_session_deletion_response_get_urr_id :: "usage_report_within_pfcp_session_deletion_response \<Rightarrow> u32 \<Rightarrow> bool \<times> u32" where
  "usage_report_within_pfcp_session_deletion_response_get_urr_id c v = opt_get (urd_urr_id c) v"

definition usage_report_within_pfcp_session_deletion_response_set_ur_seqn :: "u32 \<Rightarrow> usage_report_within_pfcp_session_deletion_response \<Rightarrow> usage_report_within_pfcp_session_deletion_response" where
  "usage_report_within_pfcp_session_deletion_response_set_ur_seqn v c = c\<lparr>urd_ur_seqn := (True, v)\<rparr>"

definition usage_report_within_pfcp_session_deletion_response_get_ur_seqn :: "usage_report_within_pfcp_session_deletion_response \<Rightarrow> u32 \<Rightarrow> bool \<times> u32" where
  "usage_report_within_pfcp_session_deletion_response_get_ur_seqn c v = opt_get (urd_ur_seqn c) v"

definition usage_report_within_pfcp_session_deletion_response_set_usage_report_trigger :: "usage_report_trigger_t \<Rightarrow> usage_report_within_pfcp_session_deletion_response \<Rightarrow> usage_report_within_pfcp_session_deletion_response" where
  "usage_report_within_pfcp_session_deletion_response_set_usage_report_trigger v c = c\<lparr>urd_usage_report_trigger := (True, v)\<rparr>"

definition usage_report_within_pfcp_session_deletion_response_get_usage_report_trigger :: "usage_report_within_pfcp_session_deletion_response \<Rightarrow> usage_report_trigger_t \<Rightarrow> bool \<times> usage_report_trigger_t" where
  "usage_report_within_pfcp_session_deletion_response_get_usage_report_trigger c v = opt_get (urd_usage_report_trigger c) v"

definition usage_report_within_pfcp_session_deletion_response_set_start_time :: "u32 \<Rightarrow> usage_report_within_pfcp_session_deletion_response \<Rightarrow> usage_report_within_pfcp_session_deletion_response" where
  "usage_report_within_pfcp_session_deletion_response_set_start_time v c = c\<lparr>urd_start_time := (True, v)\<rparr>"

definition usage_report_within_pfcp_session_deletion_response_get_start_time :: "usage_report_within_pfcp_session_deletion_response \<Rightarrow> u32 \<Rightarrow> bool \<times> u32" where
  "usage_report_within_pfcp_session_deletion_response_get_start_time c v = opt_get (urd_start_time c) v"

definition usage_report_within_pfcp_session_deletion_response_set_end_time :: "u32 \<Rightarrow> usage_report_within_pfcp_session_deletion_response \<Rightarrow> usage_report_within_pfcp_session_deletion_response" where
  "usage_report_within_pfcp_session_deletion_response_set_end_time v c = c\<lparr>urd_end_time := (True, v)\<rparr>"

definition usage_report_within_pfcp_session_deletion_response_get_end_time :: "usage_report_within_pfcp_session_deletion_response \<Rightarrow> u32 \<Rightarrow> bool \<times> u32" where
  "usage_report_within_pfcp_session_deletion_response_get_end_time c v = opt_get (urd_end_time c) v"

definition usage_report_within_pfcp_session_deletion_response_set_volume_measurement :: "volume_measurement_t \<Rightarrow> usage_report_within_pfcp_session_deletion_response \<Rightarrow> usage_report_within_pfcp_session_deletion_response" where
  "usage_report_within_pfcp_session_deletion_response_set_volume_measurement v c = c\<lparr>urd_volume_measurement := (True, v)\<rparr>"

definition usage_report_within_pfcp_session_deletion_response_get_volume_measurement :: "usage_report_within_pfcp_session_deletion_response \<Rightarrow> volume_measurement_t \<Rightarrow> bool \<times> volume_measurement_t" where
  "usage_report_within_pfcp_session_deletion_response_get_volume_measurement c v = opt_get (urd_volume_measurement c) v"

definition usage_report_within_pfcp_session_deletion_response_set_duration_measurement :: "u32 \<Rightarrow> usage_report_within_pfcp_session_deletion_response \<Rightarrow> usage_report_within_pfcp_session_deletion_response" where
  "usage_report_within_pfcp_session_deletion_response_set_duration_measurement v c = c\<lparr>urd_duration_measurement := (True, v)\<rparr>"

definition usage_report_within_pfcp_session_deletion_response_get_duration_measurement :: "usage_report_within_pfcp_session_deletion_response \<Rightarrow> u32 \<Rightarrow> bool \<times> u32" where
  "usage_report_within_pfcp_session_deletion_response_get_duration_measurement c v = opt_get (urd_duration_measurement c) v"

definition usage_report_within_pfcp_session_deletion_response_set_time_of_first_packet :: "u32 \<Rightarrow> usage_report_within_pfcp_session_deletion_response \<Rightarrow> usage_report_within_pfcp_session_deletion_response" where
  "usage_report_within_pfcp_session_deletion_response_set_time_of_first_packet v c = c\<lparr>urd_time_of_first_packet := (True, v)\<rparr>"

definition usage_report_within_pfcp_session_deletion_response_get_time_of_first_packet :: "usage_report_within_pfcp_session_deletion_response \<Rightarrow> u32 \<Rightarrow> bool \<times> u32" where
  "usage_report_within_pfcp_session_deletion_response_get_time_of_first_packet c v = opt_get (urd_time_of_first_packet c) v"

definition usage_report_within_pfcp_session_deletion_response_set_time_of_last_packet :: "u32 \<Rightarrow> usage_report_within_pfcp_session_deletion_response \<Rightarrow> usage_report_within_pfcp_session_deletion_response" where
  "usage_report_within_pfcp_session_deletion_response_set_time_of_last_packet v c = c\<lparr>urd_time_of_last_packet := (True, v)\<rparr>"

definition usage_report_within_pfcp_session_deletion_response_get_time_of_last_packet :: "usage_report_within_pfcp_session_deletion_response \<Rightarrow> u32 \<Rightarrow> bool \<times> u32" where
  "usage_report_within_pfcp_session_deletion_response_get_time_of_last_packet c v = opt_get (urd_time_of_last_packet c) v"

definition usage_report_within_pfcp_session_deletion_response_set_usage_information :: "usage_information_t \<Rightarrow> usage_report_within_pfcp_session_deletion_response \<Rightarrow> usage_report_within_pfcp_session_deletion_response" where
  "usage_report_within_pfcp_session_deletion_response_set_usage_information v c = c\<lparr>urd_usage_information := (True, v)\<rparr>"

definition usage_report_within_pfcp_session_deletion_response_get_usage_information :: "usage_report_within_pfcp_session_deletion_response \<Rightarrow> usage_information_t \<Rightarrow> bool \<times> usage_information_t" where
  "usage_report_within_pfcp_session_deletion_response_get_usage_information c v = opt_get (urd_usage_information c) v"

definition usage_report_within_pfcp_session_deletion_response_set_ethernet_traffic_information :: "ethernet_traffic_information \<Rightarrow> usage_report_within_pfcp_session_deletion_response \<Rightarrow> usage_report_within_pfcp_session_deletion_response" where
  "usage_report_within_pfcp_session_deletion_response_set_ethernet_traffic_information v c = c\<lparr>urd_ethernet_traffic_information := (True, v)\<rparr>"

definition usage_report_within_pfcp_session_deletion_response_get_ethernet_traffic_information :: "usage_report_within_pfcp_session_deletion_response \<Rightarrow> ethernet_traffic_information \<Rightarrow> bool \<times> ethernet_traffic_information" where
  "usage_report_within_pfcp_session_deletion_response_get_ethernet_traffic_information c v = opt_get (urd_ethernet_traffic_information c) v"

subsection \<open>\<^verbatim>\<open>application_detection_information\<close>\<close>

record application_detection_information =
  adi_application_id :: "string optm"
  adi_application_instance_id :: "string optm"
  adi_flow_information :: "flow_information_t optm"

definition new_application_detection_information :: application_detection_information where
  "new_application_detection_information = \<lparr>adi_application_id = (False, []), adi_application_instance_id = (False, []), adi_flow_information = (False, flow_information0)\<rparr>"

definition copy_application_detection_information :: "application_detection_information \<Rightarrow> application_detection_information" where
  "copy_application_detection_information a = \<lparr>adi_application_id = adi_application_id a, adi_application_instance_id = adi_application_instance_id a, adi_flow_information = adi_flow_information a\<rparr>"

definition application_detection_information_set_application_id :: "string \<Rightarrow> application_detection_information \<Rightarrow> application_detection_information" where
  "application_detection_information_set_application_id v c = c\<lparr>adi_application_id := (True, v)\<rparr>"

definition application_detection_information_get_application_id :: "application_detection_information \<Rightarrow> string \<Rightarrow> bool \<times> string" where
  "application_detection_information_get_application_id c v = opt_get (adi_application_id c) v"

definition application_detection_information_set_application_instance_id :: "string \<Rightarrow> application_detection_information \<Rightarrow> application_detection_information" where
  "application_detection_information_set_application_instance_id v c = c\<lparr>adi_application_instance_id := (True, v)\<rparr>"

definition application_detection_information_get_application_instance_id :: "application_detection_information \<Rightarrow> string \<Rightarrow> bool \<times> string" where
  "application_detection_information_get_application_instance_id c v = opt_get (adi_application_instance_id c) v"

definition application_detection_information_set_flow_information :: "flow_information_t \<Rightarrow> application_detection_information \<Rightarrow> application_detection_information" where
  "application_detection_information_set_flow_information v c = c\<lparr>adi_flow_information := (True, v)\<rparr>"

definition application_detection_information_get_flow_information :: "application_detection_information \<Rightarrow> flow_information_t \<Rightarrow> bool \<times> flow_information_t" where
  "application_detection_information_get_flow_information c v = opt_get (adi_flow_information c) v"

subsection \<open>\<^verbatim>\<open>event_reporting\<close>\<close>

record event_reporting =
  evr_event_id :: "u32 optm"

definition new_event_reporting :: event_reporting where
  "new_event_reporting = \<lparr>evr_event_id = (False, 0)\<rparr>"

definition copy_event_reporting :: "event_reporting \<Rightarrow> event_reporting" where
  "copy_event_reporting e = \<lparr>evr_event_id = evr_event_id e\<rparr>"

definition event_reporting_set_event_id :: "u32 \<Rightarrow> event_reporting \<Rightarrow> event_reporting" where
  "event_reporting_set_event_id v c = c\<lparr>evr_event_id := (True, v)\<rparr>"

definition event_reporting_get_event_id :: "event_reporting \<Rightarrow> u32 \<Rightarrow> bool \<times> u32" where
  "event_reporting_get_event_id c v = opt_get (evr_event_id c) v"

subsection \<open>\<^verbatim>\<open>usage_report_within_pfcp_session_report_request\<close>\<close>

record usage_report_within_pfcp_session_report_request =
  urr_urr_id :: "u32 optm"
  urr_ur_seqn :: "u32 optm"
  urr_usage_report_trigger :: "usage_report_trigger_t optm"
  urr_start_time :: "u32 optm"
  urr_end_time :: "u32 optm"
  urr_volume_measurement :: "volume_measurement_t optm"
  urr_duration_measurement :: "u32 optm"
  urr_application_detection_information :: "application_detection_information optm"
  urr_ue_ip_address :: "ue_ip_address_t optm"
  urr_network_instance :: "string optm"
  urr_time_of_first_packet :: "u32 optm"
  urr_time_of_last_packet :: "u32 optm"
  urr_usage_information :: "usage_information_t optm"
  urr_query_urr_reference :: "u32 optm"
  urr_event_reporting :: "event_reporting optm"
  urr_ethernet_traffic_information :: "ethernet_traffic_information optm"

definition new_usage_report_within_pfcp_session_report_request :: usage_report_within_pfcp_session_report_request where
  "new_usage_report_within_pfcp_session_report_request = \<lparr>urr_urr_id = (False, 0), urr_ur_seqn = (False, 0), urr_usage_report_trigger = (False, usage_report_trigger0), urr_start_time = (False, 0), urr_end_time = (False, 0), urr_volume_measurement = (False, volume_measurement0), urr_duration_measurement = (False, 0), urr_application_detection_information = (False, new_application_detection_information), urr_ue_ip_address = (False, ue_ip_address0), urr_network_instance = (False, []), urr_time_of_first_packet = (False, 0), urr_time_of_last_packet = (False, 0), urr_usage_information = (False, usage_information0), urr_query_urr_reference = (False, 0), urr_event_reporting = (False, new_event_reporting), urr_ethernet_traffic_information = (False, new_ethernet_traffic_information)\<rparr>"

definition copy_usage_report_within_pfcp_session_report_request :: "usage_report_within_pfcp_session_report_request \<Rightarrow> usage_report_within_pfcp_session_report_request" where
  "copy_usage_report_within_pfcp_session_report_request u = \<lparr>urr_urr_id = urr_urr_id u, urr_ur_seqn = urr_ur_seqn u, urr_usage_report_trigger = urr_usage_report_trigger u, urr_start_time = urr_start_time u, urr_end_time = urr_end_time u, urr_volume_measurement = urr_volume_measurement u, urr_duration_measurement = urr_duration_measurement u, urr_application_detection_information = urr_application_detection_information u, urr_ue_ip_address = urr_ue_ip_address u, urr_network_instance = urr_network_instance u, urr_time_of_first_packet = urr_time_of_first_packet u, urr_time_of_last_packet = urr_time_of_last_packet u, urr_usage_information = urr_usage_information u, urr_query_urr_reference = urr_query_urr_reference u, urr_event_reporting = urr_event_reporting u, urr_ethernet_traffic_information = urr_ethernet_traffic_information u\<rparr>"

definition usage_report_within_pfcp_session_report_request_set_urr_id :: "u32 \<Rightarrow> usage_report_within_pfcp_session_report_request \<Rightarrow> usage_report_within_pfcp_session_report_request" where
  "usage_report_within_pfcp_session_report_request_set_urr_id v c = c\<lparr>urr_urr_id := (True, v)\<rparr>"

definition usage_report_within_pfcp_session_report_request_get_urr_id :: "usage_report_within_pfcp_session_report_request \<Rightarrow> u32 \<Rightarrow> bool \<times> u32" where
  "usage_report_within_pfcp_session_report_request_get_urr_id c v = opt_get (urr_urr_id c) v"

definition usage_report_within_pfcp_session_report_request_set_ur_seqn :: "u32 \<Rightarrow> usage_report_within_pfcp_session_report_request \<Rightarrow> usage_report_within_pfcp_session_report_request" where
  "usage_report_within_pfcp_session_report_request_set_ur_seqn v c = c\<lparr>urr_ur_seqn := (True, v)\<rparr>"

definition usage_report_within_pfcp_session_report_request_get_ur_seqn :: "usage_report_within_pfcp_session_report_request \<Rightarrow> u32 \<Rightarrow> bool \<times> u32" where
  "usage_report_within_pfcp_session_report_request_get_ur_seqn c v = opt_get (urr_ur_seqn c) v"

definition usage_report_within_pfcp_session_report_request_set_usage_report_trigger :: "usage_report_trigger_t \<Rightarrow> usage_report_within_pfcp_session_report_request \<Rightarrow> usage_report_within_pfcp_session_report_request" where
  "usage_report_within_pfcp_session_report_request_set_usage_report_trigger v c = c\<lparr>urr_usage_report_trigger := (True, v)\<rparr>"

definition usage_report_within_pfcp_session_report_request_get_usage_report_trigger :: "usage_report_within_pfcp_session_report_request \<Rightarrow> usage_report_trigger_t \<Rightarrow> bool \<times> usage_report_trigger_t" where
  "usage_report_within_pfcp_session_report_request_get_usage_report_trigger c v = opt_get (urr_usage_report_trigger c) v"

definition usage_report_within_pfcp_session_report_request_set_start_time :: "u32 \<Rightarrow> usage_report_within_pfcp_session_report_request \<Rightarrow> usage_report_within_pfcp_session_report_request" where
  "usage_report_within_pfcp_session_report_request_set_start_time v c = c\<lparr>urr_start_time := (True, v)\<rparr>"

definition usage_report_within_pfcp_session_report_request_get_start_time :: "usage_report_within_pfcp_session_report_request \<Rightarrow> u32 \<Rightarrow> bool \<times> u32" where
  "usage_report_within_pfcp_session_report_request_get_start_time c v = opt_get (urr_start_time c) v"

definition usage_report_within_pfcp_session_report_request_set_end_time :: "u32 \<Rightarrow> usage_report_within_pfcp_session_report_request \<Rightarrow> usage_report_within_pfcp_session_report_request" where
  "usage_report_within_pfcp_session_report_request_set_end_time v c = c\<lparr>urr_end_time := (True, v)\<rparr>"

definition usage_report_within_pfcp_session_report_request_get_end_time :: "usage_report_within_pfcp_session_report_request \<Rightarrow> u32 \<Rightarrow> bool \<times> u32" where
  "usage_report_within_pfcp_session_report_request_get_end_time c v = opt_get (urr_end_time c) v"

definition usage_report_within_pfcp_session_report_request_set_volume_measurement :: "volume_measurement_t \<Rightarrow> usage_report_within_pfcp_session_report_request \<Rightarrow> usage_report_within_pfcp_session_report_request" where
  "usage_report_within_pfcp_session_report_request_set_volume_measurement v c = c\<lparr>urr_volume_measurement := (True, v)\<rparr>"

definition usage_report_within_pfcp_session_report_request_get_volume_measurement :: "usage_report_within_pfcp_session_report_request \<Rightarrow> volume_measurement_t \<Rightarrow> bool \<times> volume_measurement_t" where
  "usage_report_within_pfcp_session_report_request_get_volume_measurement c v = opt_get (urr_volume_measurement c) v"

definition usage_report_within_pfcp_session_report_request_set_duration_measurement :: "u32 \<Rightarrow> usage_report_within_pfcp_session_report_request \<Rightarrow> usage_report_within_pfcp_session_report_request" where
  "usage_report_within_pfcp_session_report_request_set_duration_measurement v c = c\<lparr>urr_duration_measurement := (True, v)\<rparr>"

definition usage_report_within_pfcp_session_report_request_get_duration_measurement :: "usage_report_within_pfcp_session_report_request \<Rightarrow> u32 \<Rightarrow> bool \<times> u32" where
  "usage_report_within_pfcp_session_report_request_get_duration_measurement c v = opt_get (urr_duration_measurement c) v"

definition usage_report_within_pfcp_session_report_request_set_application_detection_information :: "application_detection_information \<Rightarrow> usage_report_within_pfcp_session_report_request \<Rightarrow> usage_report_within_pfcp_session_report_request" where
  "usage_report_within_pfcp_session_report_request_set_application_detection_information v c = c\<lparr>urr_application_detection_information := (True, v)\<rparr>"

definition usage_report_within_pfcp_session_report_request_get_application_detection_information :: "usage_report_within_pfcp_session_report_request \<Rightarrow> application_detection_information \<Rightarrow> bool \<times> application_detection_information" where
  "usage_report_within_pfcp_session_report_request_get_application_detection_information c v = opt_get (urr_application_detection_information c) v"

definition usage_report_within_pfcp_session_report_request_set_ue_ip_address :: "ue_ip_address_t \<Rightarrow> usage_report_within_pfcp_session_report_request \<Rightarrow> usage_report_within_pfcp_session_report_request" where
  "usage_report_within_pfcp_session_report_request_set_ue_ip_address v c = c\<lparr>urr_ue_ip_address := (True, v)\<rparr>"

definition usage_report_within_pfcp_session_report_request_get_ue_ip_address :: "usage_report_within_pfcp_session_report_request \<Rightarrow> ue_ip_address_t \<Rightarrow> bool \<times> ue_ip_address_t" where
  "usage_report_within_pfcp_session_report_request_get_ue_ip_address c v = opt_get (urr_ue_ip_address c) v"

definition usage_report_within_pfcp_session_report_request_set_network_instance :: "string \<Rightarrow> usage_report_within_pfcp_session_report_request \<Rightarrow> usage_report_within_pfcp_session_report_request" where
  "usage_report_within_pfcp_session_report_request_set_network_instance v c = c\<lparr>urr_network_instance := (True, v)\<rparr>"

definition usage_report_within_pfcp_session_report_request_get_network_instance :: "usage_report_within_pfcp_session_report_request \<Rightarrow> string \<Rightarrow> bool \<times> string" where
  "usage_report_within_pfcp_session_report_request_get_network_instance c v = opt_get (urr_network_instance c) v"

definition usage_report_within_pfcp_session_report_request_set_time_of_first_packet :: "u32 \<Rightarrow> usage_report_within_pfcp_session_report_request \<Rightarrow> usage_report_within_pfcp_session_report_request" where
  "usage_report_within_pfcp_session_report_request_set_time_of_first_packet v c = c\<lparr>urr_time_of_first_packet := (True, v)\<rparr>"

definition usage_report_within_pfcp_session_report_request_get_time_of_first_packet :: "usage_report_within_pfcp_session_report_request \<Rightarrow> u32 \<Rightarrow> bool \<times> u32" where
  "usage_report_within_pfcp_session_report_request_get_time_of_first_packet c v = opt_get (urr_time_of_first_packet c) v"

definition usage_report_within_pfcp_session_report_request_set_time_of_last_packet :: "u32 \<Rightarrow> usage_report_within_pfcp_session_report_request \<Rightarrow> usage_report_within_pfcp_session_report_request" where
  "usage_report_within_pfcp_session_report_request_set_time_of_last_packet v c = c\<lparr>urr_time_of_last_packet := (True, v)\<rparr>"

definition usage_report_within_pfcp_session_report_request_get_time_of_last_packet :: "usage_report_within_pfcp_session_report_request \<Rightarrow> u32 \<Rightarrow> bool \<times> u32" where
  "usage_report_within_pfcp_session_report_request_get_time_of_last_packet c v = opt_get (urr_time_of_last_packet c) v"

definition usage_report_within_pfcp_session_report_request_set_usage_information :: "usage_information_t \<Rightarrow> usage_report_within_pfcp_session_report_request \<Rightarrow> usage_report_within_pfcp_session_report_request" where
  "usage_report_within_pfcp_session_report_request_set_usage_information v c = c\<lparr>urr_usage_information := (True, v)\<rparr>"

definition usage_report_within_pfcp_session_report_request_get_usage_information :: "usage_report_within_pfcp_session_report_request \<Rightarrow> usage_information_t \<Rightarrow> bool \<times> usage_information_t" where
  "usage_report_within_pfcp_session_report_request_get_usage_information c v = opt_get (urr_usage_information c) v"

definition usage_report_within_pfcp_session_report_request_set_query_urr_reference :: "u32 \<Rightarrow> usage_report_within_pfcp_session_report_request \<Rightarrow> usage_report_within_pfcp_session_report_request" where
  "usage_report_within_pfcp_session_report_request_set_query_urr_reference v c = c\<lparr>urr_query_urr_reference := (True, v)\<rparr>"

definition usage_report_within_pfcp_session_report_request_get_query_urr_reference :: "usage_report_within_pfcp_session_report_request \<Rightarrow> u32 \<Rightarrow> bool \<times> u32" where
  "usage_report_within_pfcp_session_report_request_get_query_urr_reference c v = opt_get (urr_query_urr_reference c) v"

definition usage_report_within_pfcp_session_report_request_set_event_reporting :: "event_reporting \<Rightarrow> usage_report_within_pfcp_session_report_request \<Rightarrow> usage_report_within_pfcp_session_report_request" where
  "usage_report_within_pfcp_session_report_request_set_event_reporting v c = c\<lparr>urr_event_reporting := (True, v)\<rparr>"

definition usage_report_within_pfcp_session_report_request_get_event_reporting :: "usage_report_within_pfcp_session_report_request \<Rightarrow> event_reporting \<Rightarrow> bool \<times> event_reporting" where
  "usage_report_within_pfcp_session_report_request_get_event_reporting c v = opt_get (urr_event_reporting c) v"

definition usage_report_within_pfcp_session_report_request_set_ethernet_traffic_information :: "ethernet_traffic_information \<Rightarrow> usage_report_within_pfcp_session_report_request \<Rightarrow> usage_report_within_pfcp_session_report_request" where
  "usage_report_within_pfcp_session_report_request_set_ethernet_traffic_information v c = c\<lparr>urr_ethernet_traffic_information := (True, v)\<rparr>"

definition usage_report_within_pfcp_session_report_request_get_ethernet_traffic_information :: "usage_report_within_pfcp_session_report_request \<Rightarrow> ethernet_traffic_information \<Rightarrow> bool \<times> ethernet_traffic_information" where
  "usage_report_within_pfcp_session_report_request_get_ethernet_traffic_information c v = opt_get (urr_ethernet_traffic_information c) v"

subsection \<open>\<^verbatim>\<open>error_indication_report\<close>\<close>

record error_indication_report =
  eir_remote_fteid :: "fteid_t optm"

definition new_error_indication_report :: error_indication_report where
  "new_error_indication_report = \<lparr>eir_remote_fteid = (False, fteid0)\<rparr>"

definition copy_error_indication_report :: "error_indication_report \<Rightarrow> error_indication_report" where
  "copy_error_indication_report e = \<lparr>eir_remote_fteid = eir_remote_fteid e\<rparr>"

definition error_indication_report_set_remote_fteid :: "fteid_t \<Rightarrow> error_indication_report \<Rightarrow> error_indication_report" where
  "error_indication_report_set_remote_fteid v c = c\<lparr>eir_remote_fteid := (True, v)\<rparr>"

definition error_indication_report_get_remote_fteid :: "error_indication_report \<Rightarrow> fteid_t \<Rightarrow> bool \<times> fteid_t" where
  "error_indication_report_get_remote_fteid c v = opt_get (eir_remote_fteid c) v"

section \<open>Copies\<close>

lemma copy_pfd_id [simp]: "copy_pfd c = c"
  by (simp add: copy_pfd_def)

lemma copy_application_ids_pfds_id [simp]: "copy_application_ids_pfds c = c"
  by (simp add: copy_application_ids_pfds_def)

lemma copy_user_plane_path_failure_report_id [simp]: "copy_user_plane_path_failure_report c = c"
  by (simp add: copy_user_plane_path_failure_report_def)

lemma copy_aggregated_urrs_id [simp]: "copy_aggregated_urrs c = c"
  by (simp add: copy_aggregated_urrs_def)

lemma copy_additional_monitoring_time_id [simp]: "copy_additional_monitoring_time c = c"
  by (simp add: copy_additional_monitoring_time_def)

lemma copy_event_information_id [simp]: "copy_event_information c = c"
  by (simp add: copy_event_information_def)

lemma copy_create_bar_id [simp]: "copy_create_bar c = c"
  by (simp add: copy_create_bar_def)

lemma copy_load_control_information_id [simp]: "copy_load_control_information c = c"
  by (simp add: copy_load_control_information_def)

lemma copy_overload_control_information_id [simp]: "copy_overload_control_information c = c"
  by (simp add: copy_overload_control_information_def)

lemma copy_query_urr_id [simp]: "copy_query_urr c = c"
  by (simp add: copy_query_urr_def)

lemma copy_update_bar_within_pfcp_session_modification_request_id [simp]: "copy_update_bar_within_pfcp_session_modification_request c = c"
  by (simp add: copy_update_bar_within_pfcp_session_modification_request_def)

lemma copy_remove_bar_id [simp]: "copy_remove_bar c = c"
  by (simp add: copy_remove_bar_def)

lemma copy_created_traffic_endpoint_id [simp]: "copy_created_traffic_endpoint c = c"
  by (simp add: copy_created_traffic_endpoint_def)

lemma copy_update_traffic_endpoint_id [simp]: "copy_update_traffic_endpoint c = c"
  by (simp add: copy_update_traffic_endpoint_def)

lemma copy_remove_traffic_endpoint_id [simp]: "copy_remove_traffic_endpoint c = c"
  by (simp add: copy_remove_traffic_endpoint_def)

lemma copy_ethernet_traffic_information_id [simp]: "copy_ethernet_traffic_information c = c"
  by (simp add: copy_ethernet_traffic_information_def)

lemma copy_usage_report_within_pfcp_session_modification_response_id [simp]: "copy_usage_report_within_pfcp_session_modification_response c = c"
  by (simp add: copy_usage_report_within_pfcp_session_modification_response_def)

lemma copy_usage_report_within_pfcp_session_deletion_response_id [simp]: "copy_usage_report_within_pfcp_session_deletion_response c = c"
  by (simp add: copy_usage_report_within_pfcp_session_deletion_response_def)

lemma copy_application_detection_information_id [simp]: "copy_application_detection_information c = c"
  by (simp add: copy_application_detection_information_def)

lemma copy_event_reporting_id [simp]: "copy_event_reporting c = c"
  by (simp add: copy_event_reporting_def)

lemma copy_usage_report_within_pfcp_session_report_request_id [simp]: "copy_usage_report_within_pfcp_session_report_request c = c"
  by (simp add: copy_usage_report_within_pfcp_session_report_request_def)

lemma copy_error_indication_report_id [simp]: "copy_error_indication_report c = c"
  by (simp add: copy_error_indication_report_def)

section \<open>Every optional member meets the contract\<close>

interpretation pfd_pfd_contents: optional_member pfd_set_pfd_contents pfd_get_pfd_contents new_pfd
  by unfold_locales (auto simp: pfd_set_pfd_contents_def pfd_get_pfd_contents_def new_pfd_def opt_get_def)

interpretation aip_application_id: optional_member application_ids_pfds_set_application_id application_ids_pfds_get_application_id new_application_ids_pfds
  by unfold_locales (auto simp: application_ids_pfds_set_application_id_def application_ids_pfds_get_application_id_def new_application_ids_pfds_def opt_get_def)

interpretation aip_pfds: optional_member application_ids_pfds_set_pfds application_ids_pfds_get_pfds new_application_ids_pfds
  by unfold_locales (auto simp: application_ids_pfds_set_pfds_def application_ids_pfds_get_pfds_def new_application_ids_pfds_def opt_get_def)

interpretation uppf_remote_gtp_u_peer: optional_member user_plane_path_failure_report_set_remote_gtp_u_peer user_plane_path_failure_report_get_remote_gtp_u_peer new_user_plane_path_failure_report
  by unfold_locales (auto simp: user_plane_path_failure_report_set_remote_gtp_u_peer_def user_plane_path_failure_report_get_remote_gtp_u_peer_def new_user_plane_path_failure_report_def opt_get_def)

interpretation agu_aggregated_urr_id: optional_member aggregated_urrs_set_aggregated_urr_id aggregated_urrs_get_aggregated_urr_id new_aggregated_urrs
  by unfold_locales (auto simp: aggregated_urrs_set_aggregated_urr_id_def aggregated_urrs_get_aggregated_urr_id_def new_aggregated_urrs_def opt_get_def)

interpretation agu_multiplier: optional_member aggregated_urrs_set_multiplier aggregated_urrs_get_multiplier new_aggregated_urrs
  by unfold_locales (auto simp: aggregated_urrs_set_multiplier_def aggregated_urrs_get_multiplier_def new_aggregated_urrs_def opt_get_def)

interpretation amt_monitoring_time: optional_member additional_monitoring_time_set_monitoring_time additional_monitoring_time_get_monitoring_time new_additional_monitoring_time
  by unfold_locales (auto simp: additional_monitoring_time_set_monitoring_time_def additional_monitoring_time_get_monitoring_time_def new_additional_monitoring_time_def opt_get_def)

interpretation amt_subsequent_volume_threshold: optional_member additional_monitoring_time_set_subsequent_volume_threshold additional_monitoring_time_get_subsequent_volume_threshold new_additional_monitoring_time
  by unfold_locales (auto simp: additional_monitoring_time_set_subsequent_volume_threshold_def additional_monitoring_time_get_subsequent_volume_threshold_def new_additional_monitoring_time_def opt_get_def)

interpretation amt_subsequent_time_threshold: optional_member additional_monitoring_time_set_subsequent_time_threshold additional_monitoring_time_get_subsequent_time_threshold new_additional_monitoring_time
  by unfold_locales (auto simp: additional_monitoring_time_set_subsequent_time_threshold_def additional_monitoring_time_get_subsequent_time_threshold_def new_additional_monitoring_time_def opt_get_def)

interpretation amt_subsequent_volume_quota: optional_member additional_monitoring_time_set_subsequent_volume_quota additional_monitoring_time_get_subsequent_volume_quota new_additional_monitoring_time
  by unfold_locales (auto simp: additional_monitoring_time_set_subsequent_volume_quota_def additional_monitoring_time_get_subsequent_volume_quota_def new_additional_monitoring_time_def opt_get_def)

interpretation amt_subsequent_time_quota: optional_member additional_monitoring_time_set_subsequent_time_quota additional_monitoring_time_get_subsequent_time_quota new_additional_monitoring_time
  by unfold_locales (auto simp: additional_monitoring_time_set_subsequent_time_quota_def additional_monitoring_time_get_subsequent_time_quota_def new_additional_monitoring_time_def opt_get_def)

interpretation evi_event_id: optional_member event_information_set_event_id event_information_get_event_id new_event_information
  by unfold_locales (auto simp: event_information_set_event_id_def event_information_get_event_id_def new_event_information_def opt_get_def)

interpretation evi_event_threshold: optional_member event_information_set_event_threshold event_information_get_event_threshold new_event_information
  by unfold_locales (auto simp: event_information_set_event_threshold_def event_information_get_event_threshold_def new_event_information_def opt_get_def)

interpretation cb_bar_id: optional_member create_bar_set_bar_id create_bar_get_bar_id new_create_bar
  by unfold_locales (auto simp: create_bar_set_bar_id_def create_bar_get_bar_id_def new_create_bar_def opt_get_def)

interpretation cb_downlink_data_notification_delay: optional_member create_bar_set_downlink_data_notification_delay create_bar_get_downlink_data_notification_delay new_create_bar
  by unfold_locales (auto simp: create_bar_set_downlink_data_notification_delay_def create_bar_get_downlink_data_notification_delay_def new_create_bar_def opt_get_def)

interpretation cb_suggested_buffering_packets_count: optional_member create_bar_set_suggested_buffering_packets_count create_bar_get_suggested_buffering_packets_count new_create_bar
  by unfold_locales (auto simp: create_bar_set_suggested_buffering_packets_count_def create_bar_get_suggested_buffering_packets_count_def new_create_bar_def opt_get_def)

interpretation lci_load_control_sequence_number: optional_member load_control_information_set_load_control_sequence_number load_control_information_get_load_control_sequence_number new_load_control_information
  by unfold_locales (auto simp: load_control_information_set_load_control_sequence_number_def load_control_information_get_load_control_sequence_number_def new_load_control_information_def opt_get_def)

interpretation lci_load_metric: optional_member load_control_information_set_load_metric load_control_information_get_load_metric new_load_control_information
  by unfold_locales (auto simp: load_control_information_set_load_metric_def load_control_information_get_load_metric_def new_load_control_information_def opt_get_def)

interpretation ovi_overload_control_sequence_number: optional_member overload_control_information_set_overload_control_sequence_number overload_control_information_get_overload_control_sequence_number new_overload_control_information
  by unfold_locales (auto simp: overload_control_information_set_overload_control_sequence_number_def overload_control_information_get_overload_control_sequence_number_def new_overload_control_information_def opt_get_def)

interpretation ovi_overload_reduction_metric: optional_member overload_control_information_set_overload_reduction_metric overload_control_information_get_overload_reduction_metric new_overload_control_information
  by unfold_locales (auto simp: overload_control_information_set_overload_reduction_metric_def overload_control_information_get_overload_reduction_metric_def new_overload_control_information_def opt_get_def)

interpretation ovi_period_of_validity: optional_member overload_control_information_set_period_of_validity overload_control_information_get_period_of_validity new_overload_control_information
  by unfold_locales (auto simp: overload_control_information_set_period_of_validity_def overload_control_information_get_period_of_validity_def new_overload_control_information_def opt_get_def)

interpretation ovi_overload_control_information_flags: optional_member overload_control_information_set_overload_control_information_flags overload_control_information_get_overload_control_information_flags new_overload_control_information
  by unfold_locales (auto simp: overload_control_information_set_overload_control_information_flags_def overload_control_information_get_overload_control_information_flags_def new_overload_control_information_def opt_get_def)

interpretation qurr_urr_id: optional_member query_urr_set_urr_id query_urr_get_urr_id new_query_urr
  by unfold_locales (auto simp: query_urr_set_urr_id_def query_urr_get_urr_id_def new_query_urr_def opt_get_def)

interpretation ubm_bar_id: optional_member update_bar_within_pfcp_session_modification_request_set_bar_id update_bar_within_pfcp_session_modification_request_get_bar_id new_update_bar_within_pfcp_session_modification_request
  by unfold_locales (auto simp: update_bar_within_pfcp_session_modification_request_set_bar_id_def update_bar_within_pfcp_session_modification_request_get_bar_id_def new_update_bar_within_pfcp_session_modification_request_def opt_get_def)

interpretation ubm_downlink_data_notification_delay: optional_member update_bar_within_pfcp_session_modification_request_set_downlink_data_notification_delay update_bar_within_pfcp_session_modification_request_get_downlink_data_notification_delay new_update_bar_within_pfcp_session_modification_request
  by unfold_locales (auto simp: update_bar_within_pfcp_session_modification_request_set_downlink_data_notification_delay_def update_bar_within_pfcp_session_modification_request_get_downlink_data_notification_delay_def new_update_bar_within_pfcp_session_modification_request_def opt_get_def)

interpretation ubm_suggested_buffering_packets_count: optional_member update_bar_within_pfcp_session_modification_request_set_suggested_buffering_packets_count update_bar_within_pfcp_session_modification_request_get_suggested_buffering_packets_count new_update_bar_within_pfcp_session_modification_request
  by unfold_locales (auto simp: update_bar_within_pfcp_session_modification_request_set_suggested_buffering_packets_count_def update_bar_within_pfcp_session_modification_request_get_suggested_buffering_packets_count_def new_update_bar_within_pfcp_session_modification_request_def opt_get_def)

interpretation rb_bar_id: optional_member remove_bar_set_bar_id remove_bar_get_bar_id new_remove_bar
  by unfold_locales (auto simp: remove_bar_set_bar_id_def remove_bar_get_bar_id_def new_remove_bar_def opt_get_def)

interpretation cdte_traffic_endpoint_id: optional_member created_traffic_endpoint_set_traffic_endpoint_id created_traffic_endpoint_get_traffic_endpoint_id new_created_traffic_endpoint
  by unfold_locales (auto simp: created_traffic_endpoint_set_traffic_endpoint_id_def created_traffic_endpoint_get_traffic_endpoint_id_def new_created_traffic_endpoint_def opt_get_def)

interpretation cdte_local_fteid: optional_member created_traffic_endpoint_set_local_fteid created_traffic_endpoint_get_local_fteid new_created_traffic_endpoint
  by unfold_locales (auto simp: created_traffic_endpoint_set_local_fteid_def created_traffic_endpoint_get_local_fteid_def new_created_traffic_endpoint_def opt_get_def)

interpretation ute_traffic_endpoint_id: optional_member update_traffic_endpoint_set_traffic_endpoint_id update_traffic_endpoint_get_traffic_endpoint_id new_update_traffic_endpoint
  by unfold_locales (auto simp: update_traffic_endpoint_set_traffic_endpoint_id_def update_traffic_endpoint_get_traffic_endpoint_id_def new_update_traffic_endpoint_def opt_get_def)

interpretation ute_local_fteid: optional_member update_traffic_endpoint_set_local_fteid update_traffic_endpoint_get_local_fteid new_update_traffic_endpoint
  by unfold_locales (auto simp: update_traffic_endpoint_set_local_fteid_def update_traffic_endpoint_get_local_fteid_def new_update_traffic_endpoint_def opt_get_def)

interpretation ute_network_instance: optional_member update_traffic_endpoint_set_network_instance update_traffic_endpoint_get_network_instance new_update_traffic_endpoint
  by unfold_locales (auto simp: update_traffic_endpoint_set_network_instance_def update_traffic_endpoint_get_network_instance_def new_update_traffic_endpoint_def opt_get_def)

interpretation ute_ue_ip_address: optional_member update_traffic_endpoint_set_ue_ip_address update_traffic_endpoint_get_ue_ip_address new_update_traffic_endpoint
  by unfold_locales (auto simp: update_traffic_endpoint_set_ue_ip_address_def update_traffic_endpoint_get_ue_ip_address_def new_update_traffic_endpoint_def opt_get_def)

interpretation ute_framed_route: optional_member update_traffic_endpoint_set_framed_route update_traffic_endpoint_get_framed_route new_update_traffic_endpoint
  by unfold_locales (auto simp: update_traffic_endpoint_set_framed_route_def update_traffic_endpoint_get_framed_route_def new_update_traffic_endpoint_def opt_get_def)

interpretation ute_framed_routing: optional_member update_traffic_endpoint_set_framed_routing update_traffic_endpoint_get_framed_routing new_update_traffic_endpoint
  by unfold_locales (auto simp: update_traffic_endpoint_set_framed_routing_def update_traffic_endpoint_get_framed_routing_def new_update_traffic_endpoint_def opt_get_def)

interpretation ute_framed_ipv6_route: optional_member update_traffic_endpoint_set_framed_ipv6_route update_traffic_endpoint_get_framed_ipv6_route new_update_traffic_endpoint
  by unfold_locales (auto simp: update_traffic_endpoint_set_framed_ipv6_route_def update_traffic_endpoint_get_framed_ipv6_route_def new_update_traffic_endpoint_def opt_get_def)

interpretation rte_traffic_endpoint_id: optional_member remove_traffic_endpoint_set_traffic_endpoint_id remove_traffic_endpoint_get_traffic_endpoint_id new_remove_traffic_endpoint
  by unfold_locales (auto simp: remove_traffic_endpoint_set_traffic_endpoint_id_def remove_traffic_endpoint_get_traffic_endpoint_id_def new_remove_traffic_endpoint_def opt_get_def)

interpretation eti_mac_addresses_detected: optional_member ethernet_traffic_information_set_mac_addresses_detected ethernet_traffic_information_get_mac_addresses_detected new_ethernet_traffic_information
  by unfold_locales (auto simp: ethernet_traffic_information_set_mac_addresses_detected_def ethernet_traffic_information_get_mac_addresses_detected_def new_ethernet_traffic_information_def opt_get_def)

interpretation eti_mac_addresses_removed: optional_member ethernet_traffic_information_set_mac_addresses_removed ethernet_traffic_information_get_mac_addresses_removed new_ethernet_traffic_information
  by unfold_locales (auto simp: ethernet_traffic_information_set_mac_addresses_removed_def ethernet_traffic_information_get_mac_addresses_removed_def new_ethernet_traffic_information_def opt_get_def)

interpretation urm_urr_id: optional_member usage_report_within_pfcp_session_modification_response_set_urr_id usage_report_within_pfcp_session_modification_response_get_urr_id new_usage_report_within_pfcp_session_modification_response
  by unfold_locales (auto simp: usage_report_within_pfcp_session_modification_response_set_urr_id_def usage_report_within_pfcp_session_modification_response_get_urr_id_def new_usage_report_within_pfcp_session_modification_response_def opt_get_def)

interpretation urm_ur_seqn: optional_member usage_report_within_pfcp_session_modification_response_set_ur_seqn usage_report_within_pfcp_session_modification_response_get_ur_seqn new_usage_report_within_pfcp_session_modification_response
  by unfold_locales (auto simp: usage_report_within_pfcp_session_modification_response_set_ur_seqn_def usage_report_within_pfcp_session_modification_response_get_ur_seqn_def new_usage_report_within_pfcp_session_modification_response_def opt_get_def)

interpretation urm_usage_report_trigger: optional_member usage_report_within_pfcp_session_modification_response_set_usage_report_trigger usage_report_within_pfcp_session_modification_response_get_usage_report_trigger new_usage_report_within_pfcp_session_modification_response
  by unfold_locales (auto simp: usage_report_within_pfcp_session_modification_response_set_usage_report_trigger_def usage_report_within_pfcp_session_modification_response_get_usage_report_trigger_def new_usage_report_within_pfcp_session_modification_response_def opt_get_def)

interpretation urm_start_time: optional_member usage_report_within_pfcp_session_modification_response_set_start_time usage_report_within_pfcp_session_modification_response_get_start_time new_usage_report_within_pfcp_session_modification_response
  by unfold_locales (auto simp: usage_report_within_pfcp_session_modification_response_set_start_time_def usage_report_within_pfcp_session_modification_response_get_start_time_def new_usage_report_within_pfcp_session_modification_response_def opt_get_def)

interpretation urm_end_time: optional_member usage_report_within_pfcp_session_modification_response_set_end_time usage_report_within_pfcp_session_modification_response_get_end_time new_usage_report_within_pfcp_session_modification_response
  by unfold_locales (auto simp: usage_report_within_pfcp_session_modification_response_set_end_time_def usage_report_within_pfcp_session_modification_response_get_end_time_def new_usage_report_within_pfcp_session_modification_response_def opt_get_def)

interpretation urm_volume_measurement: optional_member usage_report_within_pfcp_session_modification_response_set_volume_measurement usage_report_within_pfcp_session_modification_response_get_volume_measurement new_usage_report_within_pfcp_session_modification_response
  by unfold_locales (auto simp: usage_report_within_pfcp_session_modification_response_set_volume_measurement_def usage_report_within_pfcp_session_modification_response_get_volume_measurement_def new_usage_report_within_pfcp_session_modification_response_def opt_get_def)

interpretation urm_duration_measurement: optional_member usage_report_within_pfcp_session_modification_response_set_duration_measurement usage_report_within_pfcp_session_modification_response_get_duration_measurement new_usage_report_within_pfcp_session_modification_response
  by unfold_locales (auto simp: usage_report_within_pfcp_session_modification_response_set_duration_measurement_def usage_report_within_pfcp_session_modification_response_get_duration_measurement_def new_usage_report_within_pfcp_session_modification_response_def opt_get_def)

interpretation urm_time_of_first_packet: optional_member usage_report_within_pfcp_session_modification_response_set_time_of_first_packet usage_report_within_pfcp_session_modification_response_get_time_of_first_packet new_usage_report_within_pfcp_session_modification_response
  by unfold_locales (auto simp: usage_report_within_pfcp_session_modification_response_set_time_of_first_packet_def usage_report_within_pfcp_session_modification_response_get_time_of_first_packet_def new_usage_report_within_pfcp_session_modification_response_def opt_get_def)

interpretation urm_time_of_last_packet: optional_member usage_report_within_pfcp_session_modification_response_set_time_of_last_packet usage_report_within_pfcp_session_modification_response_get_time_of_last_packet new_usage_report_within_pfcp_session_modification_response
  by unfold_locales (auto simp: usage_report_within_pfcp_session_modification_response_set_time_of_last_packet_def usage_report_within_pfcp_session_modification_response_get_time_of_last_packet_def new_usage_report_within_pfcp_session_modification_response_def opt_get_def)

interpretation urm_usage_information: optional_member usage_report_within_pfcp_session_modification_response_set_usage_information usage_report_within_pfcp_session_modification_response_get_usage_information new_usage_report_within_pfcp_session_modification_response
  by unfold_locales (auto simp: usage_report_within_pfcp_session_modification_response_set_usage_information_def usage_report_within_pfcp_session_modification_response_get_usage_information_def new_usage_report_within_pfcp_session_modification_response_def opt_get_def)

interpretation urm_query_urr_reference: optional_member usage_report_within_pfcp_session_modification_response_set_query_urr_reference usage_report_within_pfcp_session_modification_response_get_query_urr_reference new_usage_report_within_pfcp_session_modification_response
  by unfold_locales (auto simp: usage_report_within_pfcp_session_modification_response_set_query_urr_reference_def usage_report_within_pfcp_session_modification_response_get_query_urr_reference_def new_usage_report_within_pfcp_session_modification_response_def opt_get_def)

interpretation urm_ethernet_traffic_information: optional_member usage_report_within_pfcp_session_modification_response_set_ethernet_traffic_information usage_report_within_pfcp_session_modification_response_get_ethernet_traffic_information new_usage_report_within_pfcp_session_modification_response
  by unfold_locales (auto simp: usage_report_within_pfcp_session_modification_response_set_ethernet_traffic_information_def usage_report_within_pfcp_session_modification_response_get_ethernet_traffic_information_def new_usage_report_within_pfcp_session_modification_response_def opt_get_def)

interpretation urd_urr_id: optional_member usage_report_within_pfcp_session_deletion_response_set_urr_id usage_report_within_pfcp_session_deletion_response_get_urr_id new_usage_report_within_pfcp_session_deletion_response
  by unfold_locales (auto simp: usage_report_within_pfcp_session_deletion_response_set_urr_id_def usage_report_within_pfcp_session_deletion_response_get_urr_id_def new_usage_report_within_pfcp_session_deletion_response_def opt_get_def)

interpretation urd_ur_seqn: optional_member usage_report_within_pfcp_session_deletion_response_set_ur_seqn usage_report_within_pfcp_session_deletion_response_get_ur_seqn new_usage_report_within_pfcp_session_deletion_response
  by unfold_locales (auto simp: usage_report_within_pfcp_session_deletion_response_set_ur_seqn_def usage_report_within_pfcp_session_deletion_response_get_ur_seqn_def new_usage_report_within_pfcp_session_deletion_response_def opt_get_def)

interpretation urd_usage_report_trigger: optional_member usage_report_within_pfcp_session_deletion_response_set_usage_report_trigger usage_report_within_pfcp_session_deletion_response_get_usage_report_trigger new_usage_report_within_pfcp_session_deletion_response
  by unfold_locales (auto simp: usage_report_within_pfcp_session_deletion_response_set_usage_report_trigger_def usage_report_within_pfcp_session_deletion_response_get_usage_report_trigger_def new_usage_report_within_pfcp_session_deletion_response_def opt_get_def)

interpretation urd_start_time: optional_member usage_report_within_pfcp_session_deletion_response_set_start_time usage_report_within_pfcp_session_deletion_response_get_start_time new_usage_report_within_pfcp_session_deletion_response
  by unfold_locales (auto simp: usage_report_within_pfcp_session_deletion_response_set_start_time_def usage_report_within_pfcp_session_deletion_response_get_start_time_def new_usage_report_within_pfcp_session_deletion_response_def opt_get_def)

interpretation urd_end_time: optional_member usage_report_within_pfcp_session_deletion_response_set_end_time usage_report_within_pfcp_session_deletion_response_get_end_time new_usage_report_within_pfcp_session_deletion_response
  by unfold_locales (auto simp: usage_report_within_pfcp_session_deletion_response_set_end_time_def usage_report_within_pfcp_session_deletion_response_get_end_time_def new_usage_report_within_pfcp_session_deletion_response_def opt_get_def)

interpretation urd_volume_measurement: optional_member usage_report_within_pfcp_session_deletion_response_set_volume_measurement usage_report_within_pfcp_session_deletion_response_get_volume_measurement new_usage_report_within_pfcp_session_deletion_response
  by unfold_locales (auto simp: usage_report_within_pfcp_session_deletion_response_set_volume_measurement_def usage_report_within_pfcp_session_deletion_response_get_volume_measurement_def new_usage_report_within_pfcp_session_deletion_response_def opt_get_def)

interpretation urd_duration_measurement: optional_member usage_report_within_pfcp_session_deletion_response_set_duration_measurement usage_report_within_pfcp_session_deletion_response_get_duration_measurement new_usage_report_within_pfcp_session_deletion_response
  by unfold_locales (auto simp: usage_report_within_pfcp_session_deletion_response_set_duration_measurement_def usage_report_within_pfcp_session_deletion_response_get_duration_measurement_def new_usage_report_within_pfcp_session_deletion_response_def opt_get_def)

interpretation urd_time_of_first_packet: optional_member usage_report_within_pfcp_session_deletion_response_set_time_of_first_packet usage_report_within_pfcp_session_deletion_response_get_time_of_first_packet new_usage_report_within_pfcp_session_deletion_response
  by unfold_locales (auto simp: usage_report_within_pfcp_session_deletion_response_set_time_of_first_packet_def usage_report_within_pfcp_session_deletion_response_get_time_of_first_packet_def new_usage_report_within_pfcp_session_deletion_response_def opt_get_def)

interpretation urd_time_of_last_packet: optional_member usage_report_within_pfcp_session_deletion_response_set_time_of_last_packet usage_report_within_pfcp_session_deletion_response_get_time_of_last_packet new_usage_report_within_pfcp_session_deletion_response
  by unfold_locales (auto simp: usage_report_within_pfcp_session_deletion_response_set_time_of_last_packet_def usage_report_within_pfcp_session_deletion_response_get_time_of_last_packet_def new_usage_report_within_pfcp_session_deletion_response_def opt_get_def)

interpretation urd_usage_information: optional_member usage_report_within_pfcp_session_deletion_response_set_usage_information usage_report_within_pfcp_session_deletion_response_get_usage_information new_usage_report_within_pfcp_session_deletion_response
  by unfold_locales (auto simp: usage_report_within_pfcp_session_deletion_response_set_usage_information_def usage_report_within_pfcp_session_deletion_response_get_usage_information_def new_usage_report_within_pfcp_session_deletion_response_def opt_get_def)

interpretation urd_ethernet_traffic_information: optional_member usage_report_within_pfcp_session_deletion_response_set_ethernet_traffic_information usage_report_within_pfcp_session_deletion_response_get_ethernet_traffic_information new_usage_report_within_pfcp_session_deletion_response
  by unfold_locales (auto simp: usage_report_within_pfcp_session_deletion_response_set_ethernet_traffic_information_def usage_report_within_pfcp_session_deletion_response_get_ethernet_traffic_information_def new_usage_report_within_pfcp_session_deletion_response_def opt_get_def)

interpretation adi_application_id: optional_member application_detection_information_set_application_id application_detection_information_get_application_id new_application_detection_information
  by unfold_locales (auto simp: application_detection_information_set_application_id_def application_detection_information_get_application_id_def new_application_detection_information_def opt_get_def)

interpretation adi_application_instance_id: optional_member application_detection_information_set_application_instance_id application_detection_information_get_application_instance_id new_application_detection_information
  by unfold_locales (auto simp: application_detection_information_set_application_instance_id_def application_detection_information_get_application_instance_id_def new_application_detection_information_def opt_get_def)

interpretation adi_flow_information: optional_member application_detection_information_set_flow_information application_detection_information_get_flow_information new_application_detection_information
  by unfold_locales (auto simp: application_detection_information_set_flow_information_def application_detection_information_get_flow_information_def new_application_detection_information_def opt_get_def)

interpretation evr_event_id: optional_member event_reporting_set_event_id event_reporting_get_event_id new_event_reporting
  by unfold_locales (auto simp: event_reporting_set_event_id_def event_reporting_get_event_id_def new_event_reporting_def opt_get_def)

interpretation urr_urr_id: optional_member usage_report_within_pfcp_session_report_request_set_urr_id usage_report_within_pfcp_session_report_request_get_urr_id new_usage_report_within_pfcp_session_report_request
  by unfold_locales (auto simp: usage_report_within_pfcp_session_report_request_set_urr_id_def usage_report_within_pfcp_session_report_request_get_urr_id_def new_usage_report_within_pfcp_session_report_request_def opt_get_def)

interpretation urr_ur_seqn: optional_member usage_report_within_pfcp_session_report_request_set_ur_seqn usage_report_within_pfcp_session_report_request_get_ur_seqn new_usage_report_within_pfcp_session_report_request
  by unfold_locales (auto simp: usage_report_within_pfcp_session_report_request_set_ur_seqn_def usage_report_within_pfcp_session_report_request_get_ur_seqn_def new_usage_report_within_pfcp_session_report_request_def opt_get_def)

interpretation urr_usage_report_trigger: optional_member usage_report_within_pfcp_session_report_request_set_usage_report_trigger usage_report_within_pfcp_session_report_request_get_usage_report_trigger new_usage_report_within_pfcp_session_report_request
  by unfold_locales (auto simp: usage_report_within_pfcp_session_report_request_set_usage_report_trigger_def usage_report_within_pfcp_session_report_request_get_usage_report_trigger_def new_usage_report_within_pfcp_session_report_request_def opt_get_def)

interpretation urr_start_time: optional_member usage_report_within_pfcp_session_report_request_set_start_time usage_report_within_pfcp_session_report_request_get_start_time new_usage_report_within_pfcp_session_report_request
  by unfold_locales (auto simp: usage_report_within_pfcp_session_report_request_set_start_time_def usage_report_within_pfcp_session_report_request_get_start_time_def new_usage_report_within_pfcp_session_report_request_def opt_get_def)

interpretation urr_end_time: optional_member usage_report_within_pfcp_session_report_request_set_end_time usage_report_within_pfcp_session_report_request_get_end_time new_usage_report_within_pfcp_session_report_request
  by unfold_locales (auto simp: usage_report_within_pfcp_session_report_request_set_end_time_def usage_report_within_pfcp_session_report_request_get_end_time_def new_usage_report_within_pfcp_session_report_request_def opt_get_def)

interpretation urr_volume_measurement: optional_member usage_report_within_pfcp_session_report_request_set_volume_measurement usage_report_within_pfcp_session_report_request_get_volume_measurement new_usage_report_within_pfcp_session_report_request
  by unfold_locales (auto simp: usage_report_within_pfcp_session_report_request_set_volume_measurement_def usage_report_within_pfcp_session_report_request_get_volume_measurement_def new_usage_report_within_pfcp_session_report_request_def opt_get_def)

interpretation urr_duration_measurement: optional_member usage_report_within_pfcp_session_report_request_set_duration_measurement usage_report_within_pfcp_session_report_request_get_duration_measurement new_usage_report_within_pfcp_session_report_request
  by unfold_locales (auto simp: usage_report_within_pfcp_session_report_request_set_duration_measurement_def usage_report_within_pfcp_session_report_request_get_duration_measurement_def new_usage_report_within_pfcp_session_report_request_def opt_get_def)

interpretation urr_application_detection_information: optional_member usage_report_within_pfcp_session_report_request_set_application_detection_information usage_report_within_pfcp_session_report_request_get_application_detection_information new_usage_report_within_pfcp_session_report_request
  by unfold_locales (auto simp: usage_report_within_pfcp_session_report_request_set_application_detection_information_def usage_report_within_pfcp_session_report_request_get_application_detection_information_def new_usage_report_within_pfcp_session_report_request_def opt_get_def)

interpretation urr_ue_ip_address: optional_member usage_report_within_pfcp_session_report_request_set_ue_ip_address usage_report_within_pfcp_session_report_request_get_ue_ip_address new_usage_report_within_pfcp_session_report_request
  by unfold_locales (auto simp: usage_report_within_pfcp_session_report_request_set_ue_ip_address_def usage_report_within_pfcp_session_report_request_get_ue_ip_address_def new_usage_report_within_pfcp_session_report_request_def opt_get_def)

interpretation urr_network_instance: optional_member usage_report_within_pfcp_session_report_request_set_network_instance usage_report_within_pfcp_session_report_request_get_network_instance new_usage_report_within_pfcp_session_report_request
  by unfold_locales (auto simp: usage_report_within_pfcp_session_report_request_set_network_instance_def usage_report_within_pfcp_session_report_request_get_network_instance_def new_usage_report_within_pfcp_session_report_request_def opt_get_def)

interpretation urr_time_of_first_packet: optional_member usage_report_within_pfcp_session_report_request_set_time_of_first_packet usage_report_within_pfcp_session_report_request_get_time_of_first_packet new_usage_report_within_pfcp_session_report_request
  by unfold_locales (auto simp: usage_report_within_pfcp_session_report_request_set_time_of_first_packet_def usage_report_within_pfcp_session_report_request_get_time_of_first_packet_def new_usage_report_within_pfcp_session_report_request_def opt_get_def)

interpretation urr_time_of_last_packet: optional_member usage_report_within_pfcp_session_report_request_set_time_of_last_packet usage_report_within_pfcp_session_report_request_get_time_of_last_packet new_usage_report_within_pfcp_session_report_request
  by unfold_locales (auto simp: usage_report_within_pfcp_session_report_request_set_time_of_last_packet_def usage_report_within_pfcp_session_report_request_get_time_of_last_packet_def new_usage_report_within_pfcp_session_report_request_def opt_get_def)

interpretation urr_usage_information: optional_member usage_report_within_pfcp_session_report_request_set_usage_information usage_report_within_pfcp_session_report_request_get_usage_information new_usage_report_within_pfcp_session_report_request
  by unfold_locales (auto simp: usage_report_within_pfcp_session_report_request_set_usage_information_def usage_report_within_pfcp_session_report_request_get_usage_information_def new_usage_report_within_pfcp_session_report_request_def opt_get_def)

interpretation urr_query_urr_reference: optional_member usage_report_within_pfcp_session_report_request_set_query_urr_reference usage_report_within_pfcp_session_report_request_get_query_urr_reference new_usage_report_within_pfcp_session_report_request
  by unfold_locales (auto simp: usage_report_within_pfcp_session_report_request_set_query_urr_reference_def usage_report_within_pfcp_session_report_request_get_query_urr_reference_def new_usage_report_within_pfcp_session_report_request_def opt_get_def)

interpretation urr_event_reporting: optional_member usage_report_within_pfcp_session_report_request_set_event_reporting usage_report_within_pfcp_session_report_request_get_event_reporting new_usage_report_within_pfcp_session_report_request
  by unfold_locales (auto simp: usage_report_within_pfcp_session_report_request_set_event_reporting_def usage_report_within_pfcp_session_report_request_get_event_reporting_def new_usage_report_within_pfcp_session_report_request_def opt_get_def)

interpretation urr_ethernet_traffic_information: optional_member usage_report_within_pfcp_session_report_request_set_ethernet_traffic_information usage_report_within_pfcp_session_report_request_get_ethernet_traffic_information new_usage_report_within_pfcp_session_report_request
  by unfold_locales (auto simp: usage_report_within_pfcp_session_report_request_set_ethernet_traffic_information_def usage_report_within_pfcp_session_report_request_get_ethernet_traffic_information_def new_usage_report_within_pfcp_session_report_request_def opt_get_def)

interpretation eir_remote_fteid: optional_member error_indication_report_set_remote_fteid error_indication_report_get_remote_fteid new_error_indication_report
  by unfold_locales (auto simp: error_indication_report_set_remote_fteid_def error_indication_report_get_remote_fteid_def new_error_indication_report_def opt_get_def)

end
