(* ===== verification/Pfcp_Messages.thy ===== *)
theory Pfcp_Messages
  imports Pfcp_Reports Ie_Other
begin

text \<open>
  The containers of \<^verbatim>\<open>src/oai/pfcp/msg_pfcp.hpp\<close> that are left: the remaining groups and the
  messages.  They are modelled like the rule containers.  Members of a type that no class of
  elements has can neither be sent nor received; a Create Traffic Endpoint can be sent only.
\<close>

section \<open>Groups\<close>

subsection \<open>\<^verbatim>\<open>create_urr\<close>\<close>

record create_urr =
  cu_urr_id :: "u32 optm"
  cu_measurement_method :: "measurement_method_t optm"
  cu_reporting_triggers :: "reporting_triggers_t optm"
  cu_measurement_period :: "u32 optm"
  cu_volume_threshold :: "volume_threshold_t optm"
  cu_volume_quota :: "volume_quota_t optm"
  cu_time_threshold :: "u32 optm"
  cu_time_quota :: "u32 optm"
  cu_quota_holding_time :: "u32 optm"
  cu_dropped_dl_traffic_threshold :: "dropped_dl_traffic_threshold_t optm"
  cu_monitoring_time :: "u32 optm"
  cu_event_information :: "event_information optm"
  cu_subsequent_volume_threshold :: "subsequent_volume_threshold_t optm"
  cu_subsequent_time_threshold :: "u32 optm"
  cu_subsequent_volume_quota :: "subsequent_volume_quota_t optm"
  cu_subsequent_time_quota :: "u64 optm"
  cu_inactivity_detection_time :: "u32 optm"
  cu_linked_urr_id :: "u32 optm"
  cu_measurement_information :: "measurement_information_t optm"
  cu_time_quota_mechanism :: "time_quota_mechanism_t optm"
  cu_aggregated_urrs :: "aggregated_urrs optm"
  cu_far_id_for_quota_action :: "u32 optm"
  cu_ethernet_inactivity_timer :: "u32 optm"
  cu_additional_monitoring_time :: "additional_monitoring_time optm"

definition new_create_urr :: create_urr where
  "new_create_urr = \<lparr>cu_urr_id = (False, 0), cu_measurement_method = (False, measurement_method0), cu_reporting_triggers = (False, reporting_triggers0), cu_measurement_period = (False, 0), cu_volume_threshold = (False, volume_threshold0), cu_volume_quota = (False, volume_quota0), cu_time_threshold = (False, 0), cu_time_quota = (False, 0), cu_quota_holding_time = (False, 0), cu_dropped_dl_traffic_threshold = (False, dropped_dl_traffic_threshold0), cu_monitoring_time = (False, 0), cu_event_information = (False, new_event_information), cu_subsequent_volume_threshold = (False, subsequent_volume_threshold0), cu_subsequent_time_threshold = (False, 0), cu_subsequent_volume_quota = (False, subsequent_volume_quota0), cu_subsequent_time_quota = (False, 0), cu_inactivity_detection_time = (False, 0), cu_linked_urr_id = (False, 0), cu_measurement_information = (False, measurement_information0), cu_time_quota_mechanism = (False, time_quota_mechanism0), cu_aggregated_urrs = (False, new_aggregated_urrs), cu_far_id_for_quota_action = (False, 0), cu_ethernet_inactivity_timer = (False, 0), cu_additional_monitoring_time = (False, new_additional_monitoring_time)\<rparr>"

definition copy_create_urr :: "create_urr \<Rightarrow> create_urr" where
  "copy_create_urr c = \<lparr>cu_urr_id = cu_urr_id c, cu_measurement_method = cu_measurement_method c, cu_reporting_triggers = cu_reporting_triggers c, cu_measurement_period = cu_measurement_period c, cu_volume_threshold = cu_volume_threshold c, cu_volume_quota = cu_volume_quota c, cu_time_threshold = cu_time_threshold c, cu_time_quota = cu_time_quota c, cu_quota_holding_time = cu_quota_holding_time c, cu_dropped_dl_traffic_threshold = cu_dropped_dl_traffic_threshold c, cu_monitoring_time = cu_monitoring_time c, cu_event_information = cu_event_information c, cu_subsequent_volume_threshold = cu_subsequent_volume_threshold c, cu_subsequent_time_threshold = cu_subsequent_time_threshold c, cu_subsequent_volume_quota = cu_subsequent_volume_quota c, cu_subsequent_time_quota = cu_subsequent_time_quota c, cu_inactivity_detection_time = cu_inactivity_detection_time c, cu_linked_urr_id = cu_linked_urr_id c, cu_measurement_information = cu_measurement_information c, cu_time_quota_mechanism = cu_time_quota_mechanism c, cu_aggregated_urrs = cu_aggregated_urrs c, cu_far_id_for_quota_action = cu_far_id_for_quota_action c, cu_ethernet_inactivity_timer = cu_ethernet_inactivity_timer c, cu_additional_monitoring_time = cu_additional_monitoring_time c\<rparr>"

definition create_urr_set_urr_id :: "u32 \<Rightarrow> create_urr \<Rightarrow> create_urr" where
  "create_urr_set_urr_id v c = c\<lparr>cu_urr_id := (True, v)\<rparr>"

definition create_urr_get_urr_id :: "create_urr \<Rightarrow> u32 \<Rightarrow> bool \<times> u32" where
  "create_urr_get_urr_id c v = opt_get (cu_urr_id c) v"

definition create_urr_set_measurement_method :: "measurement_method_t \<Rightarrow> create_urr \<Rightarrow> create_urr" where
  "create_urr_set_measurement_method v c = c\<lparr>cu_measurement_method := (True, v)\<rparr>"

definition create_urr_get_measurement_method :: "create_urr \<Rightarrow> measurement_method_t \<Rightarrow> bool \<times> measurement_method_t" where
  "create_urr_get_measurement_method c v = opt_get (cu_measurement_method c) v"

definition create_urr_set_reporting_triggers :: "reporting_triggers_t \<Rightarrow> create_urr \<Rightarrow> create_urr" where
  "create_urr_set_reporting_triggers v c = c\<lparr>cu_reporting_triggers := (True, v)\<rparr>"

definition create_urr_get_reporting_triggers :: "create_urr \<Rightarrow> reporting_triggers_t \<Rightarrow> bool \<times> reporting_triggers_t" where
  "create_urr_get_reporting_triggers c v = opt_get (cu_reporting_triggers c) v"

definition create_urr_set_measurement_period :: "u32 \<Rightarrow> create_urr \<Rightarrow> create_urr" where
  "create_urr_set_measurement_period v c = c\<lparr>cu_measurement_period := (True, v)\<rparr>"

definition create_urr_get_measurement_period :: "create_urr \<Rightarrow> u32 \<Rightarrow> bool \<times> u32" where
  "create_urr_get_measurement_period c v = opt_get (cu_measurement_period c) v"

definition create_urr_set_volume_threshold :: "volume_threshold_t \<Rightarrow> create_urr \<Rightarrow> create_urr" where
  "create_urr_set_volume_threshold v c = c\<lparr>cu_volume_threshold := (True, v)\<rparr>"

definition create_urr_get_volume_threshold :: "create_urr \<Rightarrow> volume_threshold_t \<Rightarrow> bool \<times> volume_threshold_t" where
  "create_urr_get_volume_threshold c v = opt_get (cu_volume_threshold c) v"

definition create_urr_set_volume_quota :: "volume_quota_t \<Rightarrow> create_urr \<Rightarrow> create_urr" where
  "create_urr_set_volume_quota v c = c\<lparr>cu_volume_quota := (True, v)\<rparr>"

definition create_urr_get_volume_quota :: "create_urr \<Rightarrow> volume_quota_t \<Rightarrow> bool \<times> volume_quota_t" where
  "create_urr_get_volume_quota c v = opt_get (cu_volume_quota c) v"

definition create_urr_set_time_threshold :: "u32 \<Rightarrow> create_urr \<Rightarrow> create_urr" where
  "create_urr_set_time_threshold v c = c\<lparr>cu_time_threshold := (True, v)\<rparr>"

definition create_urr_get_time_threshold :: "create_urr \<Rightarrow> u32 \<Rightarrow> bool \<times> u32" where
  "create_urr_get_time_threshold c v = opt_get (cu_time_threshold c) v"

definition create_urr_set_time_quota :: "u32 \<Rightarrow> create_urr \<Rightarrow> create_urr" where
  "create_urr_set_time_quota v c = c\<lparr>cu_time_quota := (True, v)\<rparr>"

definition create_urr_get_time_quota :: "create_urr \<Rightarrow> u32 \<Rightarrow> bool \<times> u32" where
  "create_urr_get_time_quota c v = opt_get (cu_time_quota c) v"

definition create_urr_set_quota_holding_time :: "u32 \<Rightarrow> create_urr \<Rightarrow> create_urr" where
  "create_urr_set_quota_holding_time v c = c\<lparr>cu_quota_holding_time := (True, v)\<rparr>"

definition create_urr_get_quota_holding_time :: "create_urr \<Rightarrow> u32 \<Rightarrow> bool \<times> u32" where
  "create_urr_get_quota_holding_time c v = opt_get (cu_quota_holding_time c) v"

definition create_urr_set_dropped_dl_traffic_threshold :: "dropped_dl_traffic_threshold_t \<Rightarrow> create_urr \<Rightarrow> create_urr" where
  "create_urr_set_dropped_dl_traffic_threshold v c = c\<lparr>cu_dropped_dl_traffic_threshold := (True, v)\<rparr>"

definition create_urr_get_dropped_dl_traffic_threshold :: "create_urr \<Rightarrow> dropped_dl_traffic_threshold_t \<Rightarrow> bool \<times> dropped_dl_traffic_threshold_t" where
  "create_urr_get_dropped_dl_traffic_threshold c v = opt_get (cu_dropped_dl_traffic_threshold c) v"

definition create_urr_set_monitoring_time :: "u32 \<Rightarrow> create_urr \<Rightarrow> create_urr" where
  "create_urr_set_monitoring_time v c = c\<lparr>cu_monitoring_time := (True, v)\<rparr>"

definition create_urr_get_monitoring_time :: "create_urr \<Rightarrow> u32 \<Rightarrow> bool \<times> u32" where
  "create_urr_get_monitoring_time c v = opt_get (cu_monitoring_time c) v"

definition create_urr_set_event_information :: "event_information \<Rightarrow> create_urr \<Rightarrow> create_urr" where
  "create_urr_set_event_information v c = c\<lparr>cu_event_information := (True, v)\<rparr>"

definition create_urr_get_event_information :: "create_urr \<Rightarrow> event_information \<Rightarrow> bool \<times> event_information" where
  "create_urr_get_event_information c v = opt_get (cu_event_information c) v"

definition create_urr_set_subsequent_volume_threshold :: "subsequent_volume_threshold_t \<Rightarrow> create_urr \<Rightarrow> create_urr" where
  "create_urr_set_subsequent_volume_threshold v c = c\<lparr>cu_subsequent_volume_threshold := (True, v)\<rparr>"

definition create_urr_get_subsequent_volume_threshold :: "create_urr \<Rightarrow> subsequent_volume_threshold_t \<Rightarrow> bool \<times> subsequent_volume_threshold_t" where
  "create_urr_get_subsequent_volume_threshold c v = opt_get (cu_subsequent_volume_threshold c) v"

definition create_urr_set_subsequent_time_threshold :: "u32 \<Rightarrow> create_urr \<Rightarrow> create_urr" where
  "create_urr_set_subsequent_time_threshold v c = c\<lparr>cu_subsequent_time_threshold := (True, v)\<rparr>"

definition create_urr_get_subsequent_time_threshold :: "create_urr \<Rightarrow> u32 \<Rightarrow> bool \<times> u32" where
  "create_urr_get_subsequent_time_threshold c v = opt_get (cu_subsequent_time_threshold c) v"

definition create_urr_set_subsequent_volume_quota :: "subsequent_volume_quota_t \<Rightarrow> create_urr \<Rightarrow> create_urr" where
  "create_urr_set_subsequent_volume_quota v c = c\<lparr>cu_subsequent_volume_quota := (True, v)\<rparr>"

definition create_urr_get_subsequent_volume_quota :: "create_urr \<Rightarrow> subsequent_volume_quota_t \<Rightarrow> bool \<times> subsequent_volume_quota_t" where
  "create_urr_get_subsequent_volume_quota c v = opt_get (cu_subsequent_volume_quota c) v"

definition create_urr_set_subsequent_time_quota :: "u64 \<Rightarrow> create_urr \<Rightarrow> create_urr" where
  "create_urr_set_subsequent_time_quota v c = c\<lparr>cu_subsequent_time_quota := (True, v)\<rparr>"

definition create_urr_get_subsequent_time_quota :: "create_urr \<Rightarrow> u64 \<Rightarrow> bool \<times> u64" where
  "create_urr_get_subsequent_time_quota c v = opt_get (cu_subsequent_time_quota c) v"

definition create_urr_set_inactivity_detection_time :: "u32 \<Rightarrow> create_urr \<Rightarrow> create_urr" where
  "create_urr_set_inactivity_detection_time v c = c\<lparr>cu_inactivity_detection_time := (True, v)\<rparr>"

definition create_urr_get_inactivity_detection_time :: "create_urr \<Rightarrow> u32 \<Rightarrow> bool \<times> u32" where
  "create_urr_get_inactivity_detection_time c v = opt_get (cu_inactivity_detection_time c) v"

definition create_urr_set_linked_urr_id :: "u32 \<Rightarrow> create_urr \<Rightarrow> create_urr" where
  "create_urr_set_linked_urr_id v c = c\<lparr>cu_linked_urr_id := (True, v)\<rparr>"

definition create_urr_get_linked_urr_id :: "create_urr \<Rightarrow> u32 \<Rightarrow> bool \<times> u32" where
  "create_urr_get_linked_urr_id c v = opt_get (cu_linked_urr_id c) v"

definition create_urr_set_measurement_information :: "measurement_information_t \<Rightarrow> create_urr \<Rightarrow> create_urr" where
  "create_urr_set_measurement_information v c = c\<lparr>cu_measurement_information := (True, v)\<rparr>"

definition create_urr_get_measurement_information :: "create_urr \<Rightarrow> measurement_information_t \<Rightarrow> bool \<times> measurement_information_t" where
  "create_urr_get_measurement_information c v = opt_get (cu_measurement_information c) v"

definition create_urr_set_time_quota_mechanism :: "time_quota_mechanism_t \<Rightarrow> create_urr \<Rightarrow> create_urr" where
  "create_urr_set_time_quota_mechanism v c = c\<lparr>cu_time_quota_mechanism := (True, v)\<rparr>"

definition create_urr_get_time_quota_mechanism :: "create_urr \<Rightarrow> time_quota_mechanism_t \<Rightarrow> bool \<times> time_quota_mechanism_t" where
  "create_urr_get_time_quota_mechanism c v = opt_get (cu_time_quota_mechanism c) v"

definition create_urr_set_aggregated_urrs :: "aggregated_urrs \<Rightarrow> create_urr \<Rightarrow> create_urr" where
  "create_urr_set_aggregated_urrs v c = c\<lparr>cu_aggregated_urrs := (True, v)\<rparr>"

definition create_urr_get_aggregated_urrs :: "create_urr \<Rightarrow> aggregated_urrs \<Rightarrow> bool \<times> aggregated_urrs" where
  "create_urr_get_aggregated_urrs c v = opt_get (cu_aggregated_urrs c) v"

definition create_urr_set_far_id_for_quota_action :: "u32 \<Rightarrow> create_urr \<Rightarrow> create_urr" where
  "create_urr_set_far_id_for_quota_action v c = c\<lparr>cu_far_id_for_quota_action := (True, v)\<rparr>"

definition create_urr_get_far_id_for_quota_action :: "create_urr \<Rightarrow> u32 \<Rightarrow> bool \<times> u32" where
  "create_urr_get_far_id_for_quota_action c v = opt_get (cu_far_id_for_quota_action c) v"

definition create_urr_set_ethernet_inactivity_timer :: "u32 \<Rightarrow> create_urr \<Rightarrow> create_urr" where
  "create_urr_set_ethernet_inactivity_timer v c = c\<lparr>cu_ethernet_inactivity_timer := (True, v)\<rparr>"

definition create_urr_get_ethernet_inactivity_timer :: "create_urr \<Rightarrow> u32 \<Rightarrow> bool \<times> u32" where
  "create_urr_get_ethernet_inactivity_timer c v = opt_get (cu_ethernet_inactivity_timer c) v"

definition create_urr_set_additional_monitoring_time :: "additional_monitoring_time \<Rightarrow> create_urr \<Rightarrow> create_urr" where
  "create_urr_set_additional_monitoring_time v c = c\<lparr>cu_additional_monitoring_time := (True, v)\<rparr>"

definition create_urr_get_additional_monitoring_time :: "create_urr \<Rightarrow> additional_monitoring_time \<Rightarrow> bool \<times> additional_monitoring_time" where
  "create_urr_get_additional_monitoring_time c v = opt_get (cu_additional_monitoring_time c) v"

subsection \<open>\<^verbatim>\<open>create_qer\<close>\<close>

record create_qer =
  cq_qer_id :: "u32 optm"
  cq_qer_correlation_id :: "u32 optm"
  cq_gate_status :: "gate_status_t optm"
  cq_maximum_bitrate :: "mbr_t optm"
  cq_guaranteed_bitrate :: "gbr_t optm"
  cq_packet_rate :: "packet_rate_t optm"
  cq_dl_flow_level_marking :: "dl_flow_level_marking_t optm"
  cq_qos_flow_identifier :: "qfi_t optm"
  cq_reflective_qos :: "rqi_t optm"

definition new_create_qer :: create_qer where
  "new_create_qer = \<lparr>cq_qer_id = (False, 0), cq_qer_correlation_id = (False, 0), cq_gate_status = (False, gate_status0), cq_maximum_bitrate = (False, mbr0), cq_guaranteed_bitrate = (False, gbr0), cq_packet_rate = (False, packet_rate0), cq_dl_flow_level_marking = (False, dl_flow_level_marking0), cq_qos_flow_identifier = (False, qfi0), cq_reflective_qos = (False, rqi0)\<rparr>"

definition copy_create_qer :: "create_qer \<Rightarrow> create_qer" where
  "copy_create_qer c = \<lparr>cq_qer_id = cq_qer_id c, cq_qer_correlation_id = cq_qer_correlation_id c, cq_gate_status = cq_gate_status c, cq_maximum_bitrate = cq_maximum_bitrate c, cq_guaranteed_bitrate = cq_guaranteed_bitrate c, cq_packet_rate = cq_packet_rate c, cq_dl_flow_level_marking = cq_dl_flow_level_marking c, cq_qos_flow_identifier = cq_qos_flow_identifier c, cq_reflective_qos = cq_reflective_qos c\<rparr>"

definition create_qer_set_qer_id :: "u32 \<Rightarrow> create_qer \<Rightarrow> create_qer" where
  "create_qer_set_qer_id v c = c\<lparr>cq_qer_id := (True, v)\<rparr>"

definition create_qer_get_qer_id :: "create_qer \<Rightarrow> u32 \<Rightarrow> bool \<times> u32" where
  "create_qer_get_qer_id c v = opt_get (cq_qer_id c) v"

definition create_qer_set_qer_correlation_id :: "u32 \<Rightarrow> create_qer \<Rightarrow> create_qer" where
  "create_qer_set_qer_correlation_id v c = c\<lparr>cq_qer_correlation_id := (True, v)\<rparr>"

definition create_qer_get_qer_correlation_id :: "create_qer \<Rightarrow> u32 \<Rightarrow> bool \<times> u32" where
  "create_qer_get_qer_correlation_id c v = opt_get (cq_qer_correlation_id c) v"

definition create_qer_set_gate_status :: "gate_status_t \<Rightarrow> create_qer \<Rightarrow> create_qer" where
  "create_qer_set_gate_status v c = c\<lparr>cq_gate_status := (True, v)\<rparr>"

definition create_qer_get_gate_status :: "create_qer \<Rightarrow> gate_status_t \<Rightarrow> bool \<times> gate_status_t" where
  "create_qer_get_gate_status c v = opt_get (cq_gate_status c) v"

definition create_qer_set_maximum_bitrate :: "mbr_t \<Rightarrow> create_qer \<Rightarrow> create_qer" where
  "create_qer_set_maximum_bitrate v c = c\<lparr>cq_maximum_bitrate := (True, v)\<rparr>"

definition create_qer_get_maximum_bitrate :: "create_qer \<Rightarrow> mbr_t \<Rightarrow> bool \<times> mbr_t" where
  "create_qer_get_maximum_bitrate c v = opt_get (cq_maximum_bitrate c) v"

definition create_qer_set_guaranteed_bitrate :: "gbr_t \<Rightarrow> create_qer \<Rightarrow> create_qer" where
  "create_qer_set_guaranteed_bitrate v c = c\<lparr>cq_guaranteed_bitrate := (True, v)\<rparr>"

definition create_qer_get_guaranteed_bitrate :: "create_qer \<Rightarrow> gbr_t \<Rightarrow> bool \<times> gbr_t" where
  "create_qer_get_guaranteed_bitrate c v = opt_get (cq_guaranteed_bitrate c) v"

definition create_qer_set_packet_rate :: "packet_rate_t \<Rightarrow> create_qer \<Rightarrow> create_qer" where
  "create_qer_set_packet_rate v c = c\<lparr>cq_packet_rate := (True, v)\<rparr>"

definition create_qer_get_packet_rate :: "create_qer \<Rightarrow> packet_rate_t \<Rightarrow> bool \<times> packet_rate_t" where
  "create_qer_get_packet_rate c v = opt_get (cq_packet_rate c) v"

definition create_qer_set_dl_flow_level_marking :: "dl_flow_level_marking_t \<Rightarrow> create_qer \<Rightarrow> create_qer" where
  "create_qer_set_dl_flow_level_marking v c = c\<lparr>cq_dl_flow_level_marking := (True, v)\<rparr>"

definition create_qer_get_dl_flow_level_marking :: "create_qer \<Rightarrow> dl_flow_level_marking_t \<Rightarrow> bool \<times> dl_flow_level_marking_t" where
  "create_qer_get_dl_flow_level_marking c v = opt_get (cq_dl_flow_level_marking c) v"

definition create_qer_set_qos_flow_identifier :: "qfi_t \<Rightarrow> create_qer \<Rightarrow> create_qer" where
  "create_qer_set_qos_flow_identifier v c = c\<lparr>cq_qos_flow_identifier := (True, v)\<rparr>"

definition create_qer_get_qos_flow_identifier :: "create_qer \<Rightarrow> qfi_t \<Rightarrow> bool \<times> qfi_t" where
  "create_qer_get_qos_flow_identifier c v = opt_get (cq_qos_flow_identifier c) v"

definition create_qer_set_reflective_qos :: "rqi_t \<Rightarrow> create_qer \<Rightarrow> create_qer" where
  "create_qer_set_reflective_qos v c = c\<lparr>cq_reflective_qos := (True, v)\<rparr>"

definition create_qer_get_reflective_qos :: "create_qer \<Rightarrow> rqi_t \<Rightarrow> bool \<times> rqi_t" where
  "create_qer_get_reflective_qos c v = opt_get (cq_reflective_qos c) v"

subsection \<open>\<^verbatim>\<open>created_pdr\<close>\<close>

record created_pdr =
  cdp_pdr_id :: "u16 optm"
  cdp_local_fteid :: "fteid_t optm"

definition new_created_pdr :: created_pdr where
  "new_created_pdr = \<lparr>cdp_pdr_id = (False, 0), cdp_local_fteid = (False, fteid0)\<rparr>"

definition copy_created_pdr :: "created_pdr \<Rightarrow> created_pdr" where
  "copy_created_pdr c = \<lparr>cdp_pdr_id = cdp_pdr_id c, cdp_local_fteid = cdp_local_fteid c\<rparr>"

definition created_pdr_set_pdr_id :: "u16 \<Rightarrow> created_pdr \<Rightarrow> created_pdr" where
  "created_pdr_set_pdr_id v c = c\<lparr>cdp_pdr_id := (True, v)\<rparr>"

definition created_pdr_get_pdr_id :: "created_pdr \<Rightarrow> u16 \<Rightarrow> bool \<times> u16" where
  "created_pdr_get_pdr_id c v = opt_get (cdp_pdr_id c) v"

definition created_pdr_set_local_fteid :: "fteid_t \<Rightarrow> created_pdr \<Rightarrow> created_pdr" where
  "created_pdr_set_local_fteid v c = c\<lparr>cdp_local_fteid := (True, v)\<rparr>"

definition created_pdr_get_local_fteid :: "created_pdr \<Rightarrow> fteid_t \<Rightarrow> bool \<times> fteid_t" where
  "created_pdr_get_local_fteid c v = opt_get (cdp_local_fteid c) v"

subsection \<open>\<^verbatim>\<open>update_urr\<close>\<close>

record update_urr =
  uu_urr_id :: "u32 optm"
  uu_measurement_method :: "measurement_method_t optm"
  uu_reporting_triggers :: "reporting_triggers_t optm"
  uu_measurement_period :: "u32 optm"
  uu_volume_threshold :: "volume_threshold_t optm"
  uu_volume_quota :: "volume_quota_t optm"
  uu_time_threshold :: "u32 optm"
  uu_time_quota :: "u32 optm"
  uu_quota_holding_time :: "u32 optm"
  uu_dropped_dl_traffic_threshold :: "dropped_dl_traffic_threshold_t optm"
  uu_monitoring_time :: "u32 optm"
  uu_event_information :: "event_information optm"
  uu_subsequent_volume_threshold :: "subsequent_volume_threshold_t optm"
  uu_subsequent_time_threshold :: "u32 optm"
  uu_subsequent_volume_quota :: "subsequent_volume_quota_t optm"
  uu_subsequent_time_quota :: "u64 optm"
  uu_inactivity_detection_time :: "u32 optm"
  uu_linked_urr_id :: "u32 optm"
  uu_measurement_information :: "measurement_information_t optm"
  uu_time_quota_mechanism :: "time_quota_mechanism_t optm"
  uu_aggregated_urrs :: "aggregated_urrs optm"
  uu_far_id_for_quota_action :: "u32 optm"
  uu_ethernet_inactivity_timer :: "u32 optm"
  uu_additional_monitoring_time :: "additional_monitoring_time optm"

definition new_update_urr :: update_urr where
  "new_update_urr = \<lparr>uu_urr_id = (False, 0), uu_measurement_method = (False, measurement_method0), uu_reporting_triggers = (False, reporting_triggers0), uu_measurement_period = (False, 0), uu_volume_threshold = (False, volume_threshold0), uu_volume_quota = (False, volume_quota0), uu_time_threshold = (False, 0), uu_time_quota = (False, 0), uu_quota_holding_time = (False, 0), uu_dropped_dl_traffic_threshold = (False, dropped_dl_traffic_threshold0), uu_monitoring_time = (False, 0), uu_event_information = (False, new_event_information), uu_subsequent_volume_threshold = (False, subsequent_volume_threshold0), uu_subsequent_time_threshold = (False, 0), uu_subsequent_volume_quota = (False, subsequent_volume_quota0), uu_subsequent_time_quota = (False, 0), uu_inactivity_detection_time = (False, 0), uu_linked_urr_id = (False, 0), uu_measurement_information = (False, measurement_information0), uu_time_quota_mechanism = (False, time_quota_mechanism0), uu_aggregated_urrs = (False, new_aggregated_urrs), uu_far_id_for_quota_action = (False, 0), uu_ethernet_inactivity_timer = (False, 0), uu_additional_monitoring_time = (False, new_additional_monitoring_time)\<rparr>"

definition copy_update_urr :: "update_urr \<Rightarrow> update_urr" where
  "copy_update_urr u = \<lparr>uu_urr_id = uu_urr_id u, uu_measurement_method = uu_measurement_method u, uu_reporting_triggers = uu_reporting_triggers u, uu_measurement_period = uu_measurement_period u, uu_volume_threshold = uu_volume_threshold u, uu_volume_quota = uu_volume_quota u, uu_time_threshold = uu_time_threshold u, uu_time_quota = uu_time_quota u, uu_quota_holding_time = uu_quota_holding_time u, uu_dropped_dl_traffic_threshold = uu_dropped_dl_traffic_threshold u, uu_monitoring_time = uu_monitoring_time u, uu_event_information = uu_event_information u, uu_subsequent_volume_threshold = uu_subsequent_volume_threshold u, uu_subsequent_time_threshold = uu_subsequent_time_threshold u, uu_subsequent_volume_quota = uu_subsequent_volume_quota u, uu_subsequent_time_quota = uu_subsequent_time_quota u, uu_inactivity_detection_time = uu_inactivity_detection_time u, uu_linked_urr_id = uu_linked_urr_id u, uu_measurement_information = uu_measurement_information u, uu_time_quota_mechanism = uu_time_quota_mechanism u, uu_aggregated_urrs = uu_aggregated_urrs u, uu_far_id_for_quota_action = uu_far_id_for_quota_action u, uu_ethernet_inactivity_timer = uu_ethernet_inactivity_timer u, uu_additional_monitoring_time = uu_additional_monitoring_time u\<rparr>"

definition update_urr_set_urr_id :: "u32 \<Rightarrow> update_urr \<Rightarrow> update_urr" where
  "update_urr_set_urr_id v c = c\<lparr>uu_urr_id := (True, v)\<rparr>"

definition update_urr_get_urr_id :: "update_urr \<Rightarrow> u32 \<Rightarrow> bool \<times> u32" where
  "update_urr_get_urr_id c v = opt_get (uu_urr_id c) v"

definition update_urr_set_measurement_method :: "measurement_method_t \<Rightarrow> update_urr \<Rightarrow> update_urr" where
  "update_urr_set_measurement_method v c = c\<lparr>uu_measurement_method := (True, v)\<rparr>"

definition update_urr_get_measurement_method :: "update_urr \<Rightarrow> measurement_method_t \<Rightarrow> bool \<times> measurement_method_t" where
  "update_urr_get_measurement_method c v = opt_get (uu_measurement_method c) v"

definition update_urr_set_reporting_triggers :: "reporting_triggers_t \<Rightarrow> update_urr \<Rightarrow> update_urr" where
  "update_urr_set_reporting_triggers v c = c\<lparr>uu_reporting_triggers := (True, v)\<rparr>"

definition update_urr_get_reporting_triggers :: "update_urr \<Rightarrow> reporting_triggers_t \<Rightarrow> bool \<times> reporting_triggers_t" where
  "update_urr_get_reporting_triggers c v = opt_get (uu_reporting_triggers c) v"

definition update_urr_set_measurement_period :: "u32 \<Rightarrow> update_urr \<Rightarrow> update_urr" where
  "update_urr_set_measurement_period v c = c\<lparr>uu_measurement_period := (True, v)\<rparr>"

definition update_urr_get_measurement_period :: "update_urr \<Rightarrow> u32 \<Rightarrow> bool \<times> u32" where
  "update_urr_get_measurement_period c v = opt_get (uu_measurement_period c) v"

definition update_urr_set_volume_threshold :: "volume_threshold_t \<Rightarrow> update_urr \<Rightarrow> update_urr" where
  "update_urr_set_volume_threshold v c = c\<lparr>uu_volume_threshold := (True, v)\<rparr>"

definition update_urr_get_volume_threshold :: "update_urr \<Rightarrow> volume_threshold_t \<Rightarrow> bool \<times> volume_threshold_t" where
  "update_urr_get_volume_threshold c v = opt_get (uu_volume_threshold c) v"

definition update_urr_set_volume_quota :: "volume_quota_t \<Rightarrow> update_urr \<Rightarrow> update_urr" where
  "update_urr_set_volume_quota v c = c\<lparr>uu_volume_quota := (True, v)\<rparr>"

definition update_urr_get_volume_quota :: "update_urr \<Rightarrow> volume_quota_t \<Rightarrow> bool \<times> volume_quota_t" where
  "update_urr_get_volume_quota c v = opt_get (uu_volume_quota c) v"

definition update_urr_set_time_threshold :: "u32 \<Rightarrow> update_urr \<Rightarrow> update_urr" where
  "update_urr_set_time_threshold v c = c\<lparr>uu_time_threshold := (True, v)\<rparr>"

definition update_urr_get_time_threshold :: "update_urr \<Rightarrow> u32 \<Rightarrow> bool \<times> u32" where
  "update_urr_get_time_threshold c v = opt_get (uu_time_threshold c) v"

definition update_urr_set_time_quota :: "u32 \<Rightarrow> update_urr \<Rightarrow> update_urr" where
  "update_urr_set_time_quota v c = c\<lparr>uu_time_quota := (True, v)\<rparr>"

definition update_urr_get_time_quota :: "update_urr \<Rightarrow> u32 \<Rightarrow> bool \<times> u32" where
  "update_urr_get_time_quota c v = opt_get (uu_time_quota c) v"

definition update_urr_set_quota_holding_time :: "u32 \<Rightarrow> update_urr \<Rightarrow> update_urr" where
  "update_urr_set_quota_holding_time v c = c\<lparr>uu_quota_holding_time := (True, v)\<rparr>"

definition update_urr_get_quota_holding_time :: "update_urr \<Rightarrow> u32 \<Rightarrow> bool \<times> u32" where
  "update_urr_get_quota_holding_time c v = opt_get (uu_quota_holding_time c) v"

definition update_urr_set_dropped_dl_traffic_threshold :: "dropped_dl_traffic_threshold_t \<Rightarrow> update_urr \<Rightarrow> update_urr" where
  "update_urr_set_dropped_dl_traffic_threshold v c = c\<lparr>uu_dropped_dl_traffic_threshold := (True, v)\<rparr>"

definition update_urr_get_dropped_dl_traffic_threshold :: "update_urr \<Rightarrow> dropped_dl_traffic_threshold_t \<Rightarrow> bool \<times> dropped_dl_traffic_threshold_t" where
  "update_urr_get_dropped_dl_traffic_threshold c v = opt_get (uu_dropped_dl_traffic_threshold c) v"

definition update_urr_set_monitoring_time :: "u32 \<Rightarrow> update_urr \<Rightarrow> update_urr" where
  "update_urr_set_monitoring_time v c = c\<lparr>uu_monitoring_time := (True, v)\<rparr>"

definition update_urr_get_monitoring_time :: "update_urr \<Rightarrow> u32 \<Rightarrow> bool \<times> u32" where
  "update_urr_get_monitoring_time c v = opt_get (uu_monitoring_time c) v"

definition update_urr_set_event_information :: "event_information \<Rightarrow> update_urr \<Rightarrow> update_urr" where
  "update_urr_set_event_information v c = c\<lparr>uu_event_information := (True, v)\<rparr>"

definition update_urr_get_event_information :: "update_urr \<Rightarrow> event_information \<Rightarrow> bool \<times> event_information" where
  "update_urr_get_event_information c v = opt_get (uu_event_information c) v"

definition update_urr_set_subsequent_volume_threshold :: "subsequent_volume_threshold_t \<Rightarrow> update_urr \<Rightarrow> update_urr" where
  "update_urr_set_subsequent_volume_threshold v c = c\<lparr>uu_subsequent_volume_threshold := (True, v)\<rparr>"

definition update_urr_get_subsequent_volume_threshold :: "update_urr \<Rightarrow> subsequent_volume_threshold_t \<Rightarrow> bool \<times> subsequent_volume_threshold_t" where
  "update_urr_get_subsequent_volume_threshold c v = opt_get (uu_subsequent_volume_threshold c) v"

definition update_urr_set_subsequent_time_threshold :: "u32 \<Rightarrow> update_urr \<Rightarrow> update_urr" where
  "update_urr_set_subsequent_time_threshold v c = c\<lparr>uu_subsequent_time_threshold := (True, v)\<rparr>"

definition update_urr_get_subsequent_time_threshold :: "update_urr \<Rightarrow> u32 \<Rightarrow> bool \<times> u32" where
  "update_urr_get_subsequent_time_threshold c v = opt_get (uu_subsequent_time_threshold c) v"

definition update_urr_set_subsequent_volume_quota :: "subsequent_volume_quota_t \<Rightarrow> update_urr \<Rightarrow> update_urr" where
  "update_urr_set_subsequent_volume_quota v c = c\<lparr>uu_subsequent_volume_quota := (True, v)\<rparr>"

definition update_urr_get_subsequent_volume_quota :: "update_urr \<Rightarrow> subsequent_volume_quota_t \<Rightarrow> bool \<times> subsequent_volume_quota_t" where
  "update_urr_get_subsequent_volume_quota c v = opt_get (uu_subsequent_volume_quota c) v"

definition update_urr_set_subsequent_time_quota :: "u64 \<Rightarrow> update_urr \<Rightarrow> update_urr" where
  "update_urr_set_subsequent_time_quota v c = c\<lparr>uu_subsequent_time_quota := (True, v)\<rparr>"

definition update_urr_get_subsequent_time_quota :: "update_urr \<Rightarrow> u64 \<Rightarrow> bool \<times> u64" where
  "update_urr_get_subsequent_time_quota c v = opt_get (uu_subsequent_time_quota c) v"

definition update_urr_set_inactivity_detection_time :: "u32 \<Rightarrow> update_urr \<Rightarrow> update_urr" where
  "update_urr_set_inactivity_detection_time v c = c\<lparr>uu_inactivity_detection_time := (True, v)\<rparr>"

definition update_urr_get_inactivity_detection_time :: "update_urr \<Rightarrow> u32 \<Rightarrow> bool \<times> u32" where
  "update_urr_get_inactivity_detection_time c v = opt_get (uu_inactivity_detection_time c) v"

definition update_urr_set_linked_urr_id :: "u32 \<Rightarrow> update_urr \<Rightarrow> update_urr" where
  "update_urr_set_linked_urr_id v c = c\<lparr>uu_linked_urr_id := (True, v)\<rparr>"

definition update_urr_get_linked_urr_id :: "update_urr \<Rightarrow> u32 \<Rightarrow> bool \<times> u32" where
  "update_urr_get_linked_urr_id c v = opt_get (uu_linked_urr_id c) v"

definition update_urr_set_measurement_information :: "measurement_information_t \<Rightarrow> update_urr \<Rightarrow> update_urr" where
  "update_urr_set_measurement_information v c = c\<lparr>uu_measurement_information := (True, v)\<rparr>"

definition update_urr_get_measurement_information :: "update_urr \<Rightarrow> measurement_information_t \<Rightarrow> bool \<times> measurement_information_t" where
  "update_urr_get_measurement_information c v = opt_get (uu_measurement_information c) v"

definition update_urr_set_time_quota_mechanism :: "time_quota_mechanism_t \<Rightarrow> update_urr \<Rightarrow> update_urr" where
  "update_urr_set_time_quota_mechanism v c = c\<lparr>uu_time_quota_mechanism := (True, v)\<rparr>"

definition update_urr_get_time_quota_mechanism :: "update_urr \<Rightarrow> time_quota_mechanism_t \<Rightarrow> bool \<times> time_quota_mechanism_t" where
  "update_urr_get_time_quota_mechanism c v = opt_get (uu_time_quota_mechanism c) v"

definition update_urr_set_aggregated_urrs :: "aggregated_urrs \<Rightarrow> update_urr \<Rightarrow> update_urr" where
  "update_urr_set_aggregated_urrs v c = c\<lparr>uu_aggregated_urrs := (True, v)\<rparr>"

definition update_urr_get_aggregated_urrs :: "update_urr \<Rightarrow> aggregated_urrs \<Rightarrow> bool \<times> aggregated_urrs" where
  "update_urr_get_aggregated_urrs c v = opt_get (uu_aggregated_urrs c) v"

definition update_urr_set_far_id_for_quota_action :: "u32 \<Rightarrow> update_urr \<Rightarrow> update_urr" where
  "update_urr_set_far_id_for_quota_action v c = c\<lparr>uu_far_id_for_quota_action := (True, v)\<rparr>"

definition update_urr_get_far_id_for_quota_action :: "update_urr \<Rightarrow> u32 \<Rightarrow> bool \<times> u32" where
  "update_urr_get_far_id_for_quota_action c v = opt_get (uu_far_id_for_quota_action c) v"

definition update_urr_set_ethernet_inactivity_timer :: "u32 \<Rightarrow> update_urr \<Rightarrow> update_urr" where
  "update_urr_set_ethernet_inactivity_timer v c = c\<lparr>uu_ethernet_inactivity_timer := (True, v)\<rparr>"

definition update_urr_get_ethernet_inactivity_timer :: "update_urr \<Rightarrow> u32 \<Rightarrow> bool \<times> u32" where
  "update_urr_get_ethernet_inactivity_timer c v = opt_get (uu_ethernet_inactivity_timer c) v"

definition update_urr_set_additional_monitoring_time :: "additional_monitoring_time \<Rightarrow> update_urr \<Rightarrow> update_urr" where
  "update_urr_set_additional_monitoring_time v c = c\<lparr>uu_additional_monitoring_time := (True, v)\<rparr>"

definition update_urr_get_additional_monitoring_time :: "update_urr \<Rightarrow> additional_monitoring_time \<Rightarrow> bool \<times> additional_monitoring_time" where
  "update_urr_get_additional_monitoring_time c v = opt_get (uu_additional_monitoring_time c) v"

subsection \<open>\<^verbatim>\<open>update_qer\<close>\<close>

record update_qer =
  uq_qer_id :: "u32 optm"
  uq_qer_correlation_id :: "u32 optm"
  uq_gate_status :: "gate_status_t optm"
  uq_maximum_bitrate :: "mbr_t optm"
  uq_guaranteed_bitrate :: "gbr_t optm"
  uq_packet_rate :: "packet_rate_t optm"
  uq_dl_flow_level_marking :: "dl_flow_level_marking_t optm"
  uq_qos_flow_identifier :: "qfi_t optm"
  uq_reflective_qos :: "rqi_t optm"

definition new_update_qer :: update_qer where
  "new_update_qer = \<lparr>uq_qer_id = (False, 0), uq_qer_correlation_id = (False, 0), uq_gate_status = (False, gate_status0), uq_maximum_bitrate = (False, mbr0), uq_guaranteed_bitrate = (False, gbr0), uq_packet_rate = (False, packet_rate0), uq_dl_flow_level_marking = (False, dl_flow_level_marking0), uq_qos_flow_identifier = (False, qfi0), uq_reflective_qos = (False, rqi0)\<rparr>"

definition copy_update_qer :: "update_qer \<Rightarrow> update_qer" where
  "copy_update_qer u = \<lparr>uq_qer_id = uq_qer_id u, uq_qer_correlation_id = uq_qer_correlation_id u, uq_gate_status = uq_gate_status u, uq_maximum_bitrate = uq_maximum_bitrate u, uq_guaranteed_bitrate = uq_guaranteed_bitrate u, uq_packet_rate = uq_packet_rate u, uq_dl_flow_level_marking = uq_dl_flow_level_marking u, uq_qos_flow_identifier = uq_qos_flow_identifier u, uq_reflective_qos = uq_reflective_qos u\<rparr>"

definition update_qer_set_qer_id :: "u32 \<Rightarrow> update_qer \<Rightarrow> update_qer" where
  "update_qer_set_qer_id v c = c\<lparr>uq_qer_id := (True, v)\<rparr>"

definition update_qer_get_qer_id :: "update_qer \<Rightarrow> u32 \<Rightarrow> bool \<times> u32" where
  "update_qer_get_qer_id c v = opt_get (uq_qer_id c) v"

definition update_qer_set_qer_correlation_id :: "u32 \<Rightarrow> update_qer \<Rightarrow> update_qer" where
  "update_qer_set_qer_correlation_id v c = c\<lparr>uq_qer_correlation_id := (True, v)\<rparr>"

definition update_qer_get_qer_correlation_id :: "update_qer \<Rightarrow> u32 \<Rightarrow> bool \<times> u32" where
  "update_qer_get_qer_correlation_id c v = opt_get (uq_qer_correlation_id c) v"

definition update_qer_set_gate_status :: "gate_status_t \<Rightarrow> update_qer \<Rightarrow> update_qer" where
  "update_qer_set_gate_status v c = c\<lparr>uq_gate_status := (True, v)\<rparr>"

definition update_qer_get_gate_status :: "update_qer \<Rightarrow> gate_status_t \<Rightarrow> bool \<times> gate_status_t" where
  "update_qer_get_gate_status c v = opt_get (uq_gate_status c) v"

definition update_qer_set_maximum_bitrate :: "mbr_t \<Rightarrow> update_qer \<Rightarrow> update_qer" where
  "update_qer_set_maximum_bitrate v c = c\<lparr>uq_maximum_bitrate := (True, v)\<rparr>"

definition update_qer_get_maximum_bitrate :: "update_qer \<Rightarrow> mbr_t \<Rightarrow> bool \<times> mbr_t" where
  "update_qer_get_maximum_bitrate c v = opt_get (uq_maximum_bitrate c) v"

definition update_qer_set_guaranteed_bitrate :: "gbr_t \<Rightarrow> update_qer \<Rightarrow> update_qer" where
  "update_qer_set_guaranteed_bitrate v c = c\<lparr>uq_guaranteed_bitrate := (True, v)\<rparr>"

definition update_qer_get_guaranteed_bitrate :: "update_qer \<Rightarrow> gbr_t \<Rightarrow> bool \<times> gbr_t" where
  "update_qer_get_guaranteed_bitrate c v = opt_get (uq_guaranteed_bitrate c) v"

definition update_qer_set_packet_rate :: "packet_rate_t \<Rightarrow> update_qer \<Rightarrow> update_qer" where
  "update_qer_set_packet_rate v c = c\<lparr>uq_packet_rate := (True, v)\<rparr>"

definition update_qer_get_packet_rate :: "update_qer \<Rightarrow> packet_rate_t \<Rightarrow> bool \<times> packet_rate_t" where
  "update_qer_get_packet_rate c v = opt_get (uq_packet_rate c) v"

definition update_qer_set_dl_flow_level_marking :: "dl_flow_level_marking_t \<Rightarrow> update_qer \<Rightarrow> update_qer" where
  "update_qer_set_dl_flow_level_marking v c = c\<lparr>uq_dl_flow_level_marking := (True, v)\<rparr>"

definition update_qer_get_dl_flow_level_marking :: "update_qer \<Rightarrow> dl_flow_level_marking_t \<Rightarrow> bool \<times> dl_flow_level_marking_t" where
  "update_qer_get_dl_flow_level_marking c v = opt_get (uq_dl_flow_level_marking c) v"

definition update_qer_set_qos_flow_identifier :: "qfi_t \<Rightarrow> update_qer \<Rightarrow> update_qer" where
  "update_qer_set_qos_flow_identifier v c = c\<lparr>uq_qos_flow_identifier := (True, v)\<rparr>"

definition update_qer_get_qos_flow_identifier :: "update_qer \<Rightarrow> qfi_t \<Rightarrow> bool \<times> qfi_t" where
  "update_qer_get_qos_flow_identifier c v = opt_get (uq_qos_flow_identifier c) v"

definition update_qer_set_reflective_qos :: "rqi_t \<Rightarrow> update_qer \<Rightarrow> update_qer" where
  "update_qer_set_reflective_qos v c = c\<lparr>uq_reflective_qos := (True, v)\<rparr>"

definition update_qer_get_reflective_qos :: "update_qer \<Rightarrow> rqi_t \<Rightarrow> bool \<times> rqi_t" where
  "update_qer_get_reflective_qos c v = opt_get (uq_reflective_qos c) v"

subsection \<open>\<^verbatim>\<open>update_bar_within_pfcp_session_report_response\<close>\<close>

record update_bar_within_pfcp_session_report_response =
  ubr_bar_id :: "u8 optm"
  ubr_downlink_data_notification_delay :: "u8 optm"
  ubr_dl_buffering_duration :: "dl_buffering_duration_t optm"
  ubr_dl_buffering_buffering_suggested_packet_count :: "u16 optm"
  ubr_suggested_buffering_packets_count :: "u8 optm"

definition new_update_bar_within_pfcp_session_report_response :: update_bar_within_pfcp_session_report_response where
  "new_update_bar_within_pfcp_session_report_response = \<lparr>ubr_bar_id = (False, 0), ubr_downlink_data_notification_delay = (False, 0), ubr_dl_buffering_duration = (False, dl_buffering_duration0), ubr_dl_buffering_buffering_suggested_packet_count = (False, 0), ubr_suggested_buffering_packets_count = (False, 0)\<rparr>"

definition copy_update_bar_within_pfcp_session_report_response :: "update_bar_within_pfcp_session_report_response \<Rightarrow> update_bar_within_pfcp_session_report_response" where
  "copy_update_bar_within_pfcp_session_report_response u = \<lparr>ubr_bar_id = ubr_bar_id u, ubr_downlink_data_notification_delay = ubr_downlink_data_notification_delay u, ubr_dl_buffering_duration = ubr_dl_buffering_duration u, ubr_dl_buffering_buffering_suggested_packet_count = ubr_dl_buffering_buffering_suggested_packet_count u, ubr_suggested_buffering_packets_count = ubr_suggested_buffering_packets_count u\<rparr>"

definition update_bar_within_pfcp_session_report_response_set_bar_id :: "u8 \<Rightarrow> update_bar_within_pfcp_session_report_response \<Rightarrow> update_bar_within_pfcp_session_report_response" where
  "update_bar_within_pfcp_session_report_response_set_bar_id v c = c\<lparr>ubr_bar_id := (True, v)\<rparr>"

definition update_bar_within_pfcp_session_report_response_get_bar_id :: "update_bar_within_pfcp_session_report_response \<Rightarrow> u8 \<Rightarrow> bool \<times> u8" where
  "update_bar_within_pfcp_session_report_response_get_bar_id c v = opt_get (ubr_bar_id c) v"

definition update_bar_within_pfcp_session_report_response_set_downlink_data_notification_delay :: "u8 \<Rightarrow> update_bar_within_pfcp_session_report_response \<Rightarrow> update_bar_within_pfcp_session_report_response" where
  "update_bar_within_pfcp_session_report_response_set_downlink_data_notification_delay v c = c\<lparr>ubr_downlink_data_notification_delay := (True, v)\<rparr>"

definition update_bar_within_pfcp_session_report_response_get_downlink_data_notification_delay :: "update_bar_within_pfcp_session_report_response \<Rightarrow> u8 \<Rightarrow> bool \<times> u8" where
  "update_bar_within_pfcp_session_report_response_get_downlink_data_notification_delay c v = opt_get (ubr_downlink_data_notification_delay c) v"

definition update_bar_within_pfcp_session_report_response_set_dl_buffering_duration :: "dl_buffering_duration_t \<Rightarrow> update_bar_within_pfcp_session_report_response \<Rightarrow> update_bar_within_pfcp_session_report_response" where
  "update_bar_within_pfcp_session_report_response_set_dl_buffering_duration v c = c\<lparr>ubr_dl_buffering_duration := (True, v)\<rparr>"

definition update_bar_within_pfcp_session_report_response_get_dl_buffering_duration :: "update_bar_within_pfcp_session_report_response \<Rightarrow> dl_buffering_duration_t \<Rightarrow> bool \<times> dl_buffering_duration_t" where
  "update_bar_within_pfcp_session_report_response_get_dl_buffering_duration c v = opt_get (ubr_dl_buffering_duration c) v"

definition update_bar_within_pfcp_session_report_response_set_dl_buffering_buffering_suggested_packet_count :: "u16 \<Rightarrow> update_bar_within_pfcp_session_report_response \<Rightarrow> update_bar_within_pfcp_session_report_response" where
  "update_bar_within_pfcp_session_report_response_set_dl_buffering_buffering_suggested_packet_count v c = c\<lparr>ubr_dl_buffering_buffering_suggested_packet_count := (True, v)\<rparr>"

definition update_bar_within_pfcp_session_report_response_get_dl_buffering_buffering_suggested_packet_count :: "update_bar_within_pfcp_session_report_response \<Rightarrow> u16 \<Rightarrow> bool \<times> u16" where
  "update_bar_within_pfcp_session_report_response_get_dl_buffering_buffering_suggested_packet_count c v = opt_get (ubr_dl_buffering_buffering_suggested_packet_count c) v"

definition update_bar_within_pfcp_session_report_response_set_suggested_buffering_packets_count :: "u8 \<Rightarrow> update_bar_within_pfcp_session_report_response \<Rightarrow> update_bar_within_pfcp_session_report_response" where
  "update_bar_within_pfcp_session_report_response_set_suggested_buffering_packets_count v c = c\<lparr>ubr_suggested_buffering_packets_count := (True, v)\<rparr>"

definition update_bar_within_pfcp_session_report_response_get_suggested_buffering_packets_count :: "update_bar_within_pfcp_session_report_response \<Rightarrow> u8 \<Rightarrow> bool \<times> u8" where
  "update_bar_within_pfcp_session_report_response_get_suggested_buffering_packets_count c v = opt_get (ubr_suggested_buffering_packets_count c) v"

subsection \<open>\<^verbatim>\<open>remove_urr\<close>\<close>

record remove_urr =
  ru_urr_id :: "u32 optm"

definition new_remove_urr :: remove_urr where
  "new_remove_urr = \<lparr>ru_urr_id = (False, 0)\<rparr>"

definition copy_remove_urr :: "remove_urr \<Rightarrow> remove_urr" where
  "copy_remove_urr r = \<lparr>ru_urr_id = ru_urr_id r\<rparr>"

definition remove_urr_set_urr_id :: "u32 \<Rightarrow> remove_urr \<Rightarrow> remove_urr" where
  "remove_urr_set_urr_id v c = c\<lparr>ru_urr_id := (True, v)\<rparr>"

definition remove_urr_get_urr_id :: "remove_urr \<Rightarrow> u32 \<Rightarrow> bool \<times> u32" where
  "remove_urr_get_urr_id c v = opt_get (ru_urr_id c) v"

subsection \<open>\<^verbatim>\<open>remove_qer\<close>\<close>

record remove_qer =
  rq_qer_id :: "u32 optm"

definition new_remove_qer :: remove_qer where
  "new_remove_qer = \<lparr>rq_qer_id = (False, 0)\<rparr>"

definition copy_remove_qer :: "remove_qer \<Rightarrow> remove_qer" where
  "copy_remove_qer r = \<lparr>rq_qer_id = rq_qer_id r\<rparr>"

definition remove_qer_set_qer_id :: "u32 \<Rightarrow> remove_qer \<Rightarrow> remove_qer" where
  "remove_qer_set_qer_id v c = c\<lparr>rq_qer_id := (True, v)\<rparr>"

definition remove_qer_get_qer_id :: "remove_qer \<Rightarrow> u32 \<Rightarrow> bool \<times> u32" where
  "remove_qer_get_qer_id c v = opt_get (rq_qer_id c) v"

subsection \<open>\<^verbatim>\<open>downlink_data_report\<close>\<close>

record downlink_data_report =
  ddr_pdr_id :: "u16 optm"
  ddr_downlink_data_service_information :: "downlink_data_service_information_t optm"

definition new_downlink_data_report :: downlink_data_report where
  "new_downlink_data_report = \<lparr>ddr_pdr_id = (False, 0), ddr_downlink_data_service_information = (False, downlink_data_service_information0)\<rparr>"

definition copy_downlink_data_report :: "downlink_data_report \<Rightarrow> downlink_data_report" where
  "copy_downlink_data_report d = \<lparr>ddr_pdr_id = ddr_pdr_id d, ddr_downlink_data_service_information = ddr_downlink_data_service_information d\<rparr>"

definition downlink_data_report_set_pdr_id :: "u16 \<Rightarrow> downlink_data_report \<Rightarrow> downlink_data_report" where
  "downlink_data_report_set_pdr_id v c = c\<lparr>ddr_pdr_id := (True, v)\<rparr>"

definition downlink_data_report_get_pdr_id :: "downlink_data_report \<Rightarrow> u16 \<Rightarrow> bool \<times> u16" where
  "downlink_data_report_get_pdr_id c v = opt_get (ddr_pdr_id c) v"

definition downlink_data_report_set_downlink_data_service_information :: "downlink_data_service_information_t \<Rightarrow> downlink_data_report \<Rightarrow> downlink_data_report" where
  "downlink_data_report_set_downlink_data_service_information v c = c\<lparr>ddr_downlink_data_service_information := (True, v)\<rparr>"

definition downlink_data_report_get_downlink_data_service_information :: "downlink_data_report \<Rightarrow> downlink_data_service_information_t \<Rightarrow> bool \<times> downlink_data_service_information_t" where
  "downlink_data_report_get_downlink_data_service_information c v = opt_get (ddr_downlink_data_service_information c) v"

subsection \<open>\<^verbatim>\<open>create_traffic_endpoint\<close>\<close>

record create_traffic_endpoint =
  cte_traffic_endpoint_id :: "u8 optm"
  cte_local_fteid :: "fteid_t optm"
  cte_network_instance :: "string optm"
  cte_ue_ip_address :: "ue_ip_address_t optm"
  cte_ethernet_pdu_session_information :: "ethernet_pdu_session_information_t optm"
  cte_framed_route :: "string optm"
  cte_framed_routing :: "u32 optm"
  cte_framed_ipv6_route :: "string optm"

definition new_create_traffic_endpoint :: create_traffic_endpoint where
  "new_create_traffic_endpoint = \<lparr>cte_traffic_endpoint_id = (False, 0), cte_local_fteid = (False, fteid0), cte_network_instance = (False, []), cte_ue_ip_address = (False, ue_ip_address0), cte_ethernet_pdu_session_information = (False, ethernet_pdu_session_information0), cte_framed_route = (False, []), cte_framed_routing = (False, 0), cte_framed_ipv6_route = (False, [])\<rparr>"

definition copy_create_traffic_endpoint :: "create_traffic_endpoint \<Rightarrow> create_traffic_endpoint" where
  "copy_create_traffic_endpoint c = \<lparr>cte_traffic_endpoint_id = cte_traffic_endpoint_id c, cte_local_fteid = cte_local_fteid c, cte_network_instance = cte_network_instance c, cte_ue_ip_address = cte_ue_ip_address c, cte_ethernet_pdu_session_information = cte_ethernet_pdu_session_information c, cte_framed_route = cte_framed_route c, cte_framed_routing = cte_framed_routing c, cte_framed_ipv6_route = cte_framed_ipv6_route c\<rparr>"

definition create_traffic_endpoint_set_traffic_endpoint_id :: "u8 \<Rightarrow> create_traffic_endpoint \<Rightarrow> create_traffic_endpoint" where
  "create_traffic_endpoint_set_traffic_endpoint_id v c = c\<lparr>cte_traffic_endpoint_id := (True, v)\<rparr>"

definition create_traffic_endpoint_get_traffic_endpoint_id :: "create_traffic_endpoint \<Rightarrow> u8 \<Rightarrow> bool \<times> u8" where
  "create_traffic_endpoint_get_traffic_endpoint_id c v = opt_get (cte_traffic_endpoint_id c) v"

definition create_traffic_endpoint_set_local_fteid :: "fteid_t \<Rightarrow> create_traffic_endpoint \<Rightarrow> create_traffic_endpoint" where
  "create_traffic_endpoint_set_local_fteid v c = c\<lparr>cte_local_fteid := (True, v)\<rparr>"

definition create_traffic_endpoint_get_local_fteid :: "create_traffic_endpoint \<Rightarrow> fteid_t \<Rightarrow> bool \<times> fteid_t" where
  "create_traffic_endpoint_get_local_fteid c v = opt_get (cte_local_fteid c) v"

definition create_traffic_endpoint_set_network_instance :: "string \<Rightarrow> create_traffic_endpoint \<Rightarrow> create_traffic_endpoint" where
  "create_traffic_endpoint_set_network_instance v c = c\<lparr>cte_network_instance := (True, v)\<rparr>"

definition create_traffic_endpoint_get_network_instance :: "create_traffic_endpoint \<Rightarrow> string \<Rightarrow> bool \<times> string" where
  "create_traffic_endpoint_get_network_instance c v = opt_get (cte_network_instance c) v"

definition create_traffic_endpoint_set_ue_ip_address :: "ue_ip_address_t \<Rightarrow> create_traffic_endpoint \<Rightarrow> create_traffic_endpoint" where
  "create_traffic_endpoint_set_ue_ip_address v c = c\<lparr>cte_ue_ip_address := (True, v)\<rparr>"

definition create_traffic_endpoint_get_ue_ip_address :: "create_traffic_endpoint \<Rightarrow> ue_ip_address_t \<Rightarrow> bool \<times> ue_ip_address_t" where
  "create_traffic_endpoint_get_ue_ip_address c v = opt_get (cte_ue_ip_address c) v"

definition create_traffic_endpoint_set_ethernet_pdu_session_information :: "ethernet_pdu_session_information_t \<Rightarrow> create_traffic_endpoint \<Rightarrow> create_traffic_endpoint" where
  "create_traffic_endpoint_set_ethernet_pdu_session_information v c = c\<lparr>cte_ethernet_pdu_session_information := (True, v)\<rparr>"

definition create_traffic_endpoint_get_ethernet_pdu_session_information :: "create_traffic_endpoint \<Rightarrow> ethernet_pdu_session_information_t \<Rightarrow> bool \<times> ethernet_pdu_session_information_t" where
  "create_traffic_endpoint_get_ethernet_pdu_session_information c v = opt_get (cte_ethernet_pdu_session_information c) v"

definition create_traffic_endpoint_set_framed_route :: "string \<Rightarrow> create_traffic_endpoint \<Rightarrow> create_traffic_endpoint" where
  "create_traffic_endpoint_set_framed_route v c = c\<lparr>cte_framed_route := (True, v)\<rparr>"

definition create_traffic_endpoint_get_framed_route :: "create_traffic_endpoint \<Rightarrow> string \<Rightarrow> bool \<times> string" where
  "create_traffic_endpoint_get_framed_route c v = opt_get (cte_framed_route c) v"

definition create_traffic_endpoint_set_framed_routing :: "u32 \<Rightarrow> create_traffic_endpoint \<Rightarrow> create_traffic_endpoint" where
  "create_traffic_endpoint_set_framed_routing v c = c\<lparr>cte_framed_routing := (True, v)\<rparr>"

definition create_traffic_endpoint_get_framed_routing :: "create_traffic_endpoint \<Rightarrow> u32 \<Rightarrow> bool \<times> u32" where
  "create_traffic_endpoint_get_framed_routing c v = opt_get (cte_framed_routing c) v"

definition create_traffic_endpoint_set_framed_ipv6_route :: "string \<Rightarrow> create_traffic_endpoint \<Rightarrow> create_traffic_endpoint" where
  "create_traffic_endpoint_set_framed_ipv6_route v c = c\<lparr>cte_framed_ipv6_route := (True, v)\<rparr>"

definition create_traffic_endpoint_get_framed_ipv6_route :: "create_traffic_endpoint \<Rightarrow> string \<Rightarrow> bool \<times> string" where
  "create_traffic_endpoint_get_framed_ipv6_route c v = opt_get (cte_framed_ipv6_route c) v"

section \<open>Messages\<close>

subsection \<open>\<^verbatim>\<open>pfcp_heartbeat_request\<close>\<close>

record pfcp_heartbeat_request =
  hbq_recovery_time_stamp :: "u32 optm"

definition new_pfcp_heartbeat_request :: pfcp_heartbeat_request where
  "new_pfcp_heartbeat_request = \<lparr>hbq_recovery_time_stamp = (False, 0)\<rparr>"

definition copy_pfcp_heartbeat_request :: "pfcp_heartbeat_request \<Rightarrow> pfcp_heartbeat_request" where
  "copy_pfcp_heartbeat_request i = \<lparr>hbq_recovery_time_stamp = hbq_recovery_time_stamp i\<rparr>"

definition pfcp_heartbeat_request_set_recovery_time_stamp :: "u32 \<Rightarrow> pfcp_heartbeat_request \<Rightarrow> pfcp_heartbeat_request" where
  "pfcp_heartbeat_request_set_recovery_time_stamp v c = c\<lparr>hbq_recovery_time_stamp := (True, v)\<rparr>"

definition pfcp_heartbeat_request_get_recovery_time_stamp :: "pfcp_heartbeat_request \<Rightarrow> u32 \<Rightarrow> bool \<times> u32" where
  "pfcp_heartbeat_request_get_recovery_time_stamp c v = opt_get (hbq_recovery_time_stamp c) v"

subsection \<open>\<^verbatim>\<open>pfcp_heartbeat_response\<close>\<close>

record pfcp_heartbeat_response =
  hbr_recovery_time_stamp :: "u32 optm"

definition new_pfcp_heartbeat_response :: pfcp_heartbeat_response where
  "new_pfcp_heartbeat_response = \<lparr>hbr_recovery_time_stamp = (False, 0)\<rparr>"

definition copy_pfcp_heartbeat_response :: "pfcp_heartbeat_response \<Rightarrow> pfcp_heartbeat_response" where
  "copy_pfcp_heartbeat_response i = \<lparr>hbr_recovery_time_stamp = hbr_recovery_time_stamp i\<rparr>"

definition pfcp_heartbeat_response_set_recovery_time_stamp :: "u32 \<Rightarrow> pfcp_heartbeat_response \<Rightarrow> pfcp_heartbeat_response" where
  "pfcp_heartbeat_response_set_recovery_time_stamp v c = c\<lparr>hbr_recovery_time_stamp := (True, v)\<rparr>"

definition pfcp_heartbeat_response_get_recovery_time_stamp :: "pfcp_heartbeat_response \<Rightarrow> u32 \<Rightarrow> bool \<times> u32" where
  "pfcp_heartbeat_response_get_recovery_time_stamp c v = opt_get (hbr_recovery_time_stamp c) v"

subsection \<open>\<^verbatim>\<open>pfcp_association_setup_request\<close>\<close>

record pfcp_association_setup_request =
  asq_node_id :: "node_id_t optm"
  asq_recovery_time_stamp :: "u32 optm"
  asq_up_function_features :: "up_function_features_t optm"
  asq_cp_function_features :: "cp_function_features_t optm"
  asq_user_plane_ip_resource_information :: "user_plane_ip_resource_information_t optm"

definition new_pfcp_association_setup_request :: pfcp_association_setup_request where
  "new_pfcp_association_setup_request = \<lparr>asq_node_id = (False, node_id0), asq_recovery_time_stamp = (False, 0), asq_up_function_features = (False, up_function_features0), asq_cp_function_features = (False, cp_function_features0), asq_user_plane_ip_resource_information = (False, user_plane_ip_resource_information0)\<rparr>"

definition copy_pfcp_association_setup_request :: "pfcp_association_setup_request \<Rightarrow> pfcp_association_setup_request" where
  "copy_pfcp_association_setup_request i = \<lparr>asq_node_id = asq_node_id i, asq_recovery_time_stamp = asq_recovery_time_stamp i, asq_up_function_features = asq_up_function_features i, asq_cp_function_features = asq_cp_function_features i, asq_user_plane_ip_resource_information = asq_user_plane_ip_resource_information i\<rparr>"

definition pfcp_association_setup_request_set_node_id :: "node_id_t \<Rightarrow> pfcp_association_setup_request \<Rightarrow> pfcp_association_setup_request" where
  "pfcp_association_setup_request_set_node_id v c = c\<lparr>asq_node_id := (True, v)\<rparr>"

definition pfcp_association_setup_request_get_node_id :: "pfcp_association_setup_request \<Rightarrow> node_id_t \<Rightarrow> bool \<times> node_id_t" where
  "pfcp_association_setup_request_get_node_id c v = opt_get (asq_node_id c) v"

definition pfcp_association_setup_request_set_recovery_time_stamp :: "u32 \<Rightarrow> pfcp_association_setup_request \<Rightarrow> pfcp_association_setup_request" where
  "pfcp_association_setup_request_set_recovery_time_stamp v c = c\<lparr>asq_recovery_time_stamp := (True, v)\<rparr>"

definition pfcp_association_setup_request_get_recovery_time_stamp :: "pfcp_association_setup_request \<Rightarrow> u32 \<Rightarrow> bool \<times> u32" where
  "pfcp_association_setup_request_get_recovery_time_stamp c v = opt_get (asq_recovery_time_stamp c) v"

definition pfcp_association_setup_request_set_up_function_features :: "up_function_features_t \<Rightarrow> pfcp_association_setup_request \<Rightarrow> pfcp_association_setup_request" where
  "pfcp_association_setup_request_set_up_function_features v c = c\<lparr>asq_up_function_features := (True, v)\<rparr>"

definition pfcp_association_setup_request_get_up_function_features :: "pfcp_association_setup_request \<Rightarrow> up_function_features_t \<Rightarrow> bool \<times> up_function_features_t" where
  "pfcp_association_setup_request_get_up_function_features c v = opt_get (asq_up_function_features c) v"

definition pfcp_association_setup_request_set_cp_function_features :: "cp_function_features_t \<Rightarrow> pfcp_association_setup_request \<Rightarrow> pfcp_association_setup_request" where
  "pfcp_association_setup_request_set_cp_function_features v c = c\<lparr>asq_cp_function_features := (True, v)\<rparr>"

definition pfcp_association_setup_request_get_cp_function_features :: "pfcp_association_setup_request \<Rightarrow> cp_function_features_t \<Rightarrow> bool \<times> cp_function_features_t" where
  "pfcp_association_setup_request_get_cp_function_features c v = opt_get (asq_cp_function_features c) v"

definition pfcp_association_setup_request_set_user_plane_ip_resource_information :: "user_plane_ip_resource_information_t \<Rightarrow> pfcp_association_setup_request \<Rightarrow> pfcp_association_setup_request" where
  "pfcp_association_setup_request_set_user_plane_ip_resource_information v c = c\<lparr>asq_user_plane_ip_resource_information := (True, v)\<rparr>"

definition pfcp_association_setup_request_get_user_plane_ip_resource_information :: "pfcp_association_setup_request \<Rightarrow> user_plane_ip_resource_information_t \<Rightarrow> bool \<times> user_plane_ip_resource_information_t" where
  "pfcp_association_setup_request_get_user_plane_ip_resource_information c v = opt_get (asq_user_plane_ip_resource_information c) v"

subsection \<open>\<^verbatim>\<open>pfcp_association_setup_response\<close>\<close>

record pfcp_association_setup_response =
  asr_node_id :: "node_id_t optm"
  asr_cause :: "u8 optm"
  asr_recovery_time_stamp :: "u32 optm"
  asr_up_function_features :: "up_function_features_t optm"
  asr_cp_function_features :: "cp_function_features_t optm"
  asr_user_plane_ip_resource_information :: "user_plane_ip_resource_information_t optm"

definition new_pfcp_association_setup_response :: pfcp_association_setup_response where
  "new_pfcp_association_setup_response = \<lparr>asr_node_id = (False, node_id0), asr_cause = (False, 0), asr_recovery_time_stamp = (False, 0), asr_up_function_features = (False, up_function_features0), asr_cp_function_features = (False, cp_function_features0), asr_user_plane_ip_resource_information = (False, user_plane_ip_resource_information0)\<rparr>"

definition copy_pfcp_association_setup_response :: "pfcp_association_setup_response \<Rightarrow> pfcp_association_setup_response" where
  "copy_pfcp_association_setup_response i = \<lparr>asr_node_id = asr_node_id i, asr_cause = asr_cause i, asr_recovery_time_stamp = asr_recovery_time_stamp i, asr_up_function_features = asr_up_function_features i, asr_cp_function_features = asr_cp_function_features i, asr_user_plane_ip_resource_information = asr_user_plane_ip_resource_information i\<rparr>"

definition pfcp_association_setup_response_set_node_id :: "node_id_t \<Rightarrow> pfcp_association_setup_response \<Rightarrow> pfcp_association_setup_response" where
  "pfcp_association_setup_response_set_node_id v c = c\<lparr>asr_node_id := (True, v)\<rparr>"

definition pfcp_association_setup_response_get_node_id :: "pfcp_association_setup_response \<Rightarrow> node_id_t \<Rightarrow> bool \<times> node_id_t" where
  "pfcp_association_setup_response_get_node_id c v = opt_get (asr_node_id c) v"

definition pfcp_association_setup_response_set_cause :: "u8 \<Rightarrow> pfcp_association_setup_response \<Rightarrow> pfcp_association_setup_response" where
  "pfcp_association_setup_response_set_cause v c = c\<lparr>asr_cause := (True, v)\<rparr>"

definition pfcp_association_setup_response_get_cause :: "pfcp_association_setup_response \<Rightarrow> u8 \<Rightarrow> bool \<times> u8" where
  "pfcp_association_setup_response_get_cause c v = opt_get (asr_cause c) v"

definition pfcp_association_setup_response_set_recovery_time_stamp :: "u32 \<Rightarrow> pfcp_association_setup_response \<Rightarrow> pfcp_association_setup_response" where
  "pfcp_association_setup_response_set_recovery_time_stamp v c = c\<lparr>asr_recovery_time_stamp := (True, v)\<rparr>"

definition pfcp_association_setup_response_get_recovery_time_stamp :: "pfcp_association_setup_response \<Rightarrow> u32 \<Rightarrow> bool \<times> u32" where
  "pfcp_association_setup_response_get_recovery_time_stamp c v = opt_get (asr_recovery_time_stamp c) v"

definition pfcp_association_setup_response_set_up_function_features :: "up_function_features_t \<Rightarrow> pfcp_association_setup_response \<Rightarrow> pfcp_association_setup_response" where
  "pfcp_association_setup_response_set_up_function_features v c = c\<lparr>asr_up_function_features := (True, v)\<rparr>"

definition pfcp_association_setup_response_get_up_function_features :: "pfcp_association_setup_response \<Rightarrow> up_function_features_t \<Rightarrow> bool \<times> up_function_features_t" where
  "pfcp_association_setup_response_get_up_function_features c v = opt_get (asr_up_function_features c) v"

definition pfcp_association_setup_response_set_cp_function_features :: "cp_function_features_t \<Rightarrow> pfcp_association_setup_response \<Rightarrow> pfcp_association_setup_response" where
  "pfcp_association_setup_response_set_cp_function_features v c = c\<lparr>asr_cp_function_features := (True, v)\<rparr>"

definition pfcp_association_setup_response_get_cp_function_features :: "pfcp_association_setup_response \<Rightarrow> cp_function_features_t \<Rightarrow> bool \<times> cp_function_features_t" where
  "pfcp_association_setup_response_get_cp_function_features c v = opt_get (asr_cp_function_features c) v"

definition pfcp_association_setup_response_set_user_plane_ip_resource_information :: "user_plane_ip_resource_information_t \<Rightarrow> pfcp_association_setup_response \<Rightarrow> pfcp_association_setup_response" where
  "pfcp_association_setup_response_set_user_plane_ip_resource_information v c = c\<lparr>asr_user_plane_ip_resource_information := (True, v)\<rparr>"

definition pfcp_association_setup_response_get_user_plane_ip_resource_information :: "pfcp_association_setup_response \<Rightarrow> user_plane_ip_resource_information_t \<Rightarrow> bool \<times> user_plane_ip_resource_information_t" where
  "pfcp_association_setup_response_get_user_plane_ip_resource_information c v = opt_get (asr_user_plane_ip_resource_information c) v"

subsection \<open>\<^verbatim>\<open>pfcp_association_update_request\<close>\<close>

record pfcp_association_update_request =
  auq_node_id :: "node_id_t optm"
  auq_up_function_features :: "up_function_features_t optm"
  auq_cp_function_features :: "cp_function_features_t optm"
  auq_pfcp_association_release_request :: "pfcp_association_release_request_t optm"
  auq_graceful_release_period :: "graceful_release_period_t optm"
  auq_user_plane_ip_resource_information :: "user_plane_ip_resource_information_t optm"

definition new_pfcp_association_update_request :: pfcp_association_update_request where
  "new_pfcp_association_update_request = \<lparr>auq_node_id = (False, node_id0), auq_up_function_features = (False, up_function_features0), auq_cp_function_features = (False, cp_function_features0), auq_pfcp_association_release_request = (False, pfcp_association_release_request0), auq_graceful_release_period = (False, graceful_release_period0), auq_user_plane_ip_resource_information = (False, user_plane_ip_resource_information0)\<rparr>"

definition copy_pfcp_association_update_request :: "pfcp_association_update_request \<Rightarrow> pfcp_association_update_request" where
  "copy_pfcp_association_update_request i = \<lparr>auq_node_id = auq_node_id i, auq_up_function_features = auq_up_function_features i, auq_cp_function_features = auq_cp_function_features i, auq_pfcp_association_release_request = auq_pfcp_association_release_request i, auq_graceful_release_period = auq_graceful_release_period i, auq_user_plane_ip_resource_information = auq_user_plane_ip_resource_information i\<rparr>"

definition pfcp_association_update_request_set_node_id :: "node_id_t \<Rightarrow> pfcp_association_update_request \<Rightarrow> pfcp_association_update_request" where
  "pfcp_association_update_request_set_node_id v c = c\<lparr>auq_node_id := (True, v)\<rparr>"

definition pfcp_association_update_request_get_node_id :: "pfcp_association_update_request \<Rightarrow> node_id_t \<Rightarrow> bool \<times> node_id_t" where
  "pfcp_association_update_request_get_node_id c v = opt_get (auq_node_id c) v"

definition pfcp_association_update_request_set_up_function_features :: "up_function_features_t \<Rightarrow> pfcp_association_update_request \<Rightarrow> pfcp_association_update_request" where
  "pfcp_association_update_request_set_up_function_features v c = c\<lparr>auq_up_function_features := (True, v)\<rparr>"

definition pfcp_association_update_request_get_up_function_features :: "pfcp_association_update_request \<Rightarrow> up_function_features_t \<Rightarrow> bool \<times> up_function_features_t" where
  "pfcp_association_update_request_get_up_function_features c v = opt_get (auq_up_function_features c) v"

definition pfcp_association_update_request_set_cp_function_features :: "cp_function_features_t \<Rightarrow> pfcp_association_update_request \<Rightarrow> pfcp_association_update_request" where
  "pfcp_association_update_request_set_cp_function_features v c = c\<lparr>auq_cp_function_features := (True, v)\<rparr>"

definition pfcp_association_update_request_get_cp_function_features :: "pfcp_association_update_request \<Rightarrow> cp_function_features_t \<Rightarrow> bool \<times> cp_function_features_t" where
  "pfcp_association_update_request_get_cp_function_features c v = opt_get (auq_cp_function_features c) v"

definition pfcp_association_update_request_set_pfcp_association_release_request :: "pfcp_association_release_request_t \<Rightarrow> pfcp_association_update_request \<Rightarrow> pfcp_association_update_request" where
  "pfcp_association_update_request_set_pfcp_association_release_request v c = c\<lparr>auq_pfcp_association_release_request := (True, v)\<rparr>"

definition pfcp_association_update_request_get_pfcp_association_release_request :: "pfcp_association_update_request \<Rightarrow> pfcp_association_release_request_t \<Rightarrow> bool \<times> pfcp_association_release_request_t" where
  "pfcp_association_update_request_get_pfcp_association_release_request c v = opt_get (auq_pfcp_association_release_request c) v"

definition pfcp_association_update_request_set_graceful_release_period :: "graceful_release_period_t \<Rightarrow> pfcp_association_update_request \<Rightarrow> pfcp_association_update_request" where
  "pfcp_association_update_request_set_graceful_release_period v c = c\<lparr>auq_graceful_release_period := (True, v)\<rparr>"

definition pfcp_association_update_request_get_graceful_release_period :: "pfcp_association_update_request \<Rightarrow> graceful_release_period_t \<Rightarrow> bool \<times> graceful_release_period_t" where
  "pfcp_association_update_request_get_graceful_release_period c v = opt_get (auq_graceful_release_period c) v"

definition pfcp_association_update_request_set_user_plane_ip_resource_information :: "user_plane_ip_resource_information_t \<Rightarrow> pfcp_association_update_request \<Rightarrow> pfcp_association_update_request" where
  "pfcp_association_update_request_set_user_plane_ip_resource_information v c = c\<lparr>auq_user_plane_ip_resource_information := (True, v)\<rparr>"

definition pfcp_association_update_request_get_user_plane_ip_resource_information :: "pfcp_association_update_request \<Rightarrow> user_plane_ip_resource_information_t \<Rightarrow> bool \<times> user_plane_ip_resource_information_t" where
  "pfcp_association_update_request_get_user_plane_ip_resource_information c v = opt_get (auq_user_plane_ip_resource_information c) v"

subsection \<open>\<^verbatim>\<open>pfcp_association_update_response\<close>\<close>

record pfcp_association_update_response =
  aur_node_id :: "node_id_t optm"
  aur_cause :: "u8 optm"
  aur_up_function_features :: "up_function_features_t optm"
  aur_cp_function_features :: "cp_function_features_t optm"

definition new_pfcp_association_update_response :: pfcp_association_update_response where
  "new_pfcp_association_update_response = \<lparr>aur_node_id = (False, node_id0), aur_cause = (False, 0), aur_up_function_features = (False, up_function_features0), aur_cp_function_features = (False, cp_function_features0)\<rparr>"

definition copy_pfcp_association_update_response :: "pfcp_association_update_response \<Rightarrow> pfcp_association_update_response" where
  "copy_pfcp_association_update_response i = \<lparr>aur_node_id = aur_node_id i, aur_cause = aur_cause i, aur_up_function_features = aur_up_function_features i, aur_cp_function_features = aur_cp_function_features i\<rparr>"

definition pfcp_association_update_response_set_node_id :: "node_id_t \<Rightarrow> pfcp_association_update_response \<Rightarrow> pfcp_association_update_response" where
  "pfcp_association_update_response_set_node_id v c = c\<lparr>aur_node_id := (True, v)\<rparr>"

definition pfcp_association_update_response_get_node_id :: "pfcp_association_update_response \<Rightarrow> node_id_t \<Rightarrow> bool \<times> node_id_t" where
  "pfcp_association_update_response_get_node_id c v = opt_get (aur_node_id c) v"

definition pfcp_association_update_response_set_cause :: "u8 \<Rightarrow> pfcp_association_update_response \<Rightarrow> pfcp_association_update_response" where
  "pfcp_association_update_response_set_cause v c = c\<lparr>aur_cause := (True, v)\<rparr>"

definition pfcp_association_update_response_get_cause :: "pfcp_association_update_response \<Rightarrow> u8 \<Rightarrow> bool \<times> u8" where
  "pfcp_association_update_response_get_cause c v = opt_get (aur_cause c) v"

definition pfcp_association_update_response_set_up_function_features :: "up_function_features_t \<Rightarrow> pfcp_association_update_response \<Rightarrow> pfcp_association_update_response" where
  "pfcp_association_update_response_set_up_function_features v c = c\<lparr>aur_up_function_features := (True, v)\<rparr>"

definition pfcp_association_update_response_get_up_function_features :: "pfcp_association_update_response \<Rightarrow> up_function_features_t \<Rightarrow> bool \<times> up_function_features_t" where
  "pfcp_association_update_response_get_up_function_features c v = opt_get (aur_up_function_features c) v"

definition pfcp_association_update_response_set_cp_function_features :: "cp_function_features_t \<Rightarrow> pfcp_association_update_response \<Rightarrow> pfcp_association_update_response" where
  "pfcp_association_update_response_set_cp_function_features v c = c\<lparr>aur_cp_function_features := (True, v)\<rparr>"

definition pfcp_association_update_response_get_cp_function_features :: "pfcp_association_update_response \<Rightarrow> cp_function_features_t \<Rightarrow> bool \<times> cp_function_features_t" where
  "pfcp_association_update_response_get_cp_function_features c v = opt_get (aur_cp_function_features c) v"

subsection \<open>\<^verbatim>\<open>pfcp_association_release_request\<close>\<close>

record pfcp_association_release_request =
  arq_node_id :: "node_id_t optm"

definition new_pfcp_association_release_request :: pfcp_association_release_request where
  "new_pfcp_association_release_request = \<lparr>arq_node_id = (False, node_id0)\<rparr>"

definition copy_pfcp_association_release_request :: "pfcp_association_release_request \<Rightarrow> pfcp_association_release_request" where
  "copy_pfcp_association_release_request i = \<lparr>arq_node_id = arq_node_id i\<rparr>"

definition pfcp_association_release_request_set_node_id :: "node_id_t \<Rightarrow> pfcp_association_release_request \<Rightarrow> pfcp_association_release_request" where
  "pfcp_association_release_request_set_node_id v c = c\<lparr>arq_node_id := (True, v)\<rparr>"

definition pfcp_association_release_request_get_node_id :: "pfcp_association_release_request \<Rightarrow> node_id_t \<Rightarrow> bool \<times> node_id_t" where
  "pfcp_association_release_request_get_node_id c v = opt_get (arq_node_id c) v"

subsection \<open>\<^verbatim>\<open>pfcp_association_release_response\<close>\<close>

record pfcp_association_release_response =
  arr_node_id :: "node_id_t optm"
  arr_cause :: "u8 optm"

definition new_pfcp_association_release_response :: pfcp_association_release_response where
  "new_pfcp_association_release_response = \<lparr>arr_node_id = (False, node_id0), arr_cause = (False, 0)\<rparr>"

definition copy_pfcp_association_release_response :: "pfcp_association_release_response \<Rightarrow> pfcp_association_release_response" where
  "copy_pfcp_association_release_response i = \<lparr>arr_node_id = arr_node_id i, arr_cause = arr_cause i\<rparr>"

definition pfcp_association_release_response_set_node_id :: "node_id_t \<Rightarrow> pfcp_association_release_response \<Rightarrow> pfcp_association_release_response" where
  "pfcp_association_release_response_set_node_id v c = c\<lparr>arr_node_id := (True, v)\<rparr>"

definition pfcp_association_release_response_get_node_id :: "pfcp_association_release_response \<Rightarrow> node_id_t \<Rightarrow> bool \<times> node_id_t" where
  "pfcp_association_release_response_get_node_id c v = opt_get (arr_node_id c) v"

definition pfcp_association_release_response_set_cause :: "u8 \<Rightarrow> pfcp_association_release_response \<Rightarrow> pfcp_association_release_response" where
  "pfcp_association_release_response_set_cause v c = c\<lparr>arr_cause := (True, v)\<rparr>"

definition pfcp_association_release_response_get_cause :: "pfcp_association_release_response \<Rightarrow> u8 \<Rightarrow> bool \<times> u8" where
  "pfcp_association_release_response_get_cause c v = opt_get (arr_cause c) v"

subsection \<open>\<^verbatim>\<open>pfcp_node_report_request\<close>\<close>

record pfcp_node_report_request =
  nrq_node_id :: "node_id_t optm"
  nrq_node_report_type :: "node_report_type_t optm"
  nrq_user_plane_path_failure_report :: "user_plane_path_failure_report optm"

definition new_pfcp_node_report_request :: pfcp_node_report_request where
  "new_pfcp_node_report_request = \<lparr>nrq_node_id = (False, node_id0), nrq_node_report_type = (False, node_report_type0), nrq_user_plane_path_failure_report = (False, new_user_plane_path_failure_report)\<rparr>"

definition copy_pfcp_node_report_request :: "pfcp_node_report_request \<Rightarrow> pfcp_node_report_request" where
  "copy_pfcp_node_report_request i = \<lparr>nrq_node_id = nrq_node_id i, nrq_node_report_type = nrq_node_report_type i, nrq_user_plane_path_failure_report = nrq_user_plane_path_failure_report i\<rparr>"

definition pfcp_node_report_request_set_node_id :: "node_id_t \<Rightarrow> pfcp_node_report_request \<Rightarrow> pfcp_node_report_request" where
  "pfcp_node_report_request_set_node_id v c = c\<lparr>nrq_node_id := (True, v)\<rparr>"

definition pfcp_node_report_request_get_node_id :: "pfcp_node_report_request \<Rightarrow> node_id_t \<Rightarrow> bool \<times> node_id_t" where
  "pfcp_node_report_request_get_node_id c v = opt_get (nrq_node_id c) v"

definition pfcp_node_report_request_set_node_report_type :: "node_report_type_t \<Rightarrow> pfcp_node_report_request \<Rightarrow> pfcp_node_report_request" where
  "pfcp_node_report_request_set_node_report_type v c = c\<lparr>nrq_node_report_type := (True, v)\<rparr>"

definition pfcp_node_report_request_get_node_report_type :: "pfcp_node_report_request \<Rightarrow> node_report_type_t \<Rightarrow> bool \<times> node_report_type_t" where
  "pfcp_node_report_request_get_node_report_type c v = opt_get (nrq_node_report_type c) v"

definition pfcp_node_report_request_set_user_plane_path_failure_report :: "user_plane_path_failure_report \<Rightarrow> pfcp_node_report_request \<Rightarrow> pfcp_node_report_request" where
  "pfcp_node_report_request_set_user_plane_path_failure_report v c = c\<lparr>nrq_user_plane_path_failure_report := (True, v)\<rparr>"

definition pfcp_node_report_request_get_user_plane_path_failure_report :: "pfcp_node_report_request \<Rightarrow> user_plane_path_failure_report \<Rightarrow> bool \<times> user_plane_path_failure_report" where
  "pfcp_node_report_request_get_user_plane_path_failure_report c v = opt_get (nrq_user_plane_path_failure_report c) v"

subsection \<open>\<^verbatim>\<open>pfcp_pfd_management_request\<close>\<close>

record pfcp_pfd_management_request =
  pmq_application_ids_pfds :: "application_ids_pfds optm"

definition new_pfcp_pfd_management_request :: pfcp_pfd_management_request where
  "new_pfcp_pfd_management_request = \<lparr>pmq_application_ids_pfds = (False, new_application_ids_pfds)\<rparr>"

definition copy_pfcp_pfd_management_request :: "pfcp_pfd_management_request \<Rightarrow> pfcp_pfd_management_request" where
  "copy_pfcp_pfd_management_request i = \<lparr>pmq_application_ids_pfds = pmq_application_ids_pfds i\<rparr>"

definition pfcp_pfd_management_request_set_application_ids_pfds :: "application_ids_pfds \<Rightarrow> pfcp_pfd_management_request \<Rightarrow> pfcp_pfd_management_request" where
  "pfcp_pfd_management_request_set_application_ids_pfds v c = c\<lparr>pmq_application_ids_pfds := (True, v)\<rparr>"

definition pfcp_pfd_management_request_get_application_ids_pfds :: "pfcp_pfd_management_request \<Rightarrow> application_ids_pfds \<Rightarrow> bool \<times> application_ids_pfds" where
  "pfcp_pfd_management_request_get_application_ids_pfds c v = opt_get (pmq_application_ids_pfds c) v"

subsection \<open>\<^verbatim>\<open>pfcp_pfd_management_response\<close>\<close>

record pfcp_pfd_management_response =
  pmr_cause :: "u8 optm"
  pmr_offending_ie :: "u16 optm"

definition new_pfcp_pfd_management_response :: pfcp_pfd_management_response where
  "new_pfcp_pfd_management_response = \<lparr>pmr_cause = (False, 0), pmr_offending_ie = (False, 0)\<rparr>"

definition copy_pfcp_pfd_management_response :: "pfcp_pfd_management_response \<Rightarrow> pfcp_pfd_management_response" where
  "copy_pfcp_pfd_management_response i = \<lparr>pmr_cause = pmr_cause i, pmr_offending_ie = pmr_offending_ie i\<rparr>"

definition pfcp_pfd_management_response_set_cause :: "u8 \<Rightarrow> pfcp_pfd_management_response \<Rightarrow> pfcp_pfd_management_response" where
  "pfcp_pfd_management_response_set_cause v c = c\<lparr>pmr_cause := (True, v)\<rparr>"

definition pfcp_pfd_management_response_get_cause :: "pfcp_pfd_management_response \<Rightarrow> u8 \<Rightarrow> bool \<times> u8" where
  "pfcp_pfd_management_response_get_cause c v = opt_get (pmr_cause c) v"

definition pfcp_pfd_management_response_set_offending_ie :: "u16 \<Rightarrow> pfcp_pfd_management_response \<Rightarrow> pfcp_pfd_management_response" where
  "pfcp_pfd_management_response_set_offending_ie v c = c\<lparr>pmr_offending_ie := (True, v)\<rparr>"

definition pfcp_pfd_management_response_get_offending_ie :: "pfcp_pfd_management_response \<Rightarrow> u16 \<Rightarrow> bool \<times> u16" where
  "pfcp_pfd_management_response_get_offending_ie c v = opt_get (pmr_offending_ie c) v"

subsection \<open>\<^verbatim>\<open>pfcp_version_not_supported_response\<close>\<close>

datatype pfcp_version_not_supported_response = New_pfcp_version_not_supported_response

subsection \<open>\<^verbatim>\<open>pfcp_node_report_response\<close>\<close>

record pfcp_node_report_response =
  nrr_node_id :: "node_id_t optm"
  nrr_cause :: "u8 optm"
  nrr_offending_ie :: "u16 optm"

definition new_pfcp_node_report_response :: pfcp_node_report_response where
  "new_pfcp_node_report_response = \<lparr>nrr_node_id = (False, node_id0), nrr_cause = (False, 0), nrr_offending_ie = (False, 0)\<rparr>"

definition copy_pfcp_node_report_response :: "pfcp_node_report_response \<Rightarrow> pfcp_node_report_response" where
  "copy_pfcp_node_report_response i = \<lparr>nrr_node_id = nrr_node_id i, nrr_cause = nrr_cause i, nrr_offending_ie = nrr_offending_ie i\<rparr>"

definition pfcp_node_report_response_set_node_id :: "node_id_t \<Rightarrow> pfcp_node_report_response \<Rightarrow> pfcp_node_report_response" where
  "pfcp_node_report_response_set_node_id v c = c\<lparr>nrr_node_id := (True, v)\<rparr>"

definition pfcp_node_report_response_get_node_id :: "pfcp_node_report_response \<Rightarrow> node_id_t \<Rightarrow> bool \<times> node_id_t" where
  "pfcp_node_report_response_get_node_id c v = opt_get (nrr_node_id c) v"

definition pfcp_node_report_response_set_cause :: "u8 \<Rightarrow> pfcp_node_report_response \<Rightarrow> pfcp_node_report_response" where
  "pfcp_node_report_response_set_cause v c = c\<lparr>nrr_cause := (True, v)\<rparr>"

definition pfcp_node_report_response_get_cause :: "pfcp_node_report_response \<Rightarrow> u8 \<Rightarrow> bool \<times> u8" where
  "pfcp_node_report_response_get_cause c v = opt_get (nrr_cause c) v"

definition pfcp_node_report_response_set_offending_ie :: "u16 \<Rightarrow> pfcp_node_report_response \<Rightarrow> pfcp_node_report_response" where
  "pfcp_node_report_response_set_offending_ie v c = c\<lparr>nrr_offending_ie := (True, v)\<rparr>"

definition pfcp_node_report_response_get_offending_ie :: "pfcp_node_report_response \<Rightarrow> u16 \<Rightarrow> bool \<times> u16" where
  "pfcp_node_report_response_get_offending_ie c v = opt_get (nrr_offending_ie c) v"

subsection \<open>\<^verbatim>\<open>pfcp_session_set_deletion_request\<close>\<close>

record pfcp_session_set_deletion_request =
  ssq_node_id :: "node_id_t optm"
  ssq_sgw_c_fq_csid :: "fq_csid_t optm"
  ssq_pgw_c_fq_csid :: "fq_csid_t optm"
  ssq_sgw_u_fq_csid :: "fq_csid_t optm"
  ssq_pgw_u_fq_csid :: "fq_csid_t optm"
  ssq_twan_fq_csid :: "fq_csid_t optm"
  ssq_epdg_fq_csid :: "fq_csid_t optm"
  ssq_mme_fq_csid :: "fq_csid_t optm"

definition new_pfcp_session_set_deletion_request :: pfcp_session_set_deletion_request where
  "new_pfcp_session_set_deletion_request = \<lparr>ssq_node_id = (False, node_id0), ssq_sgw_c_fq_csid = (False, fq_csid0), ssq_pgw_c_fq_csid = (False, fq_csid0), ssq_sgw_u_fq_csid = (False, fq_csid0), ssq_pgw_u_fq_csid = (False, fq_csid0), ssq_twan_fq_csid = (False, fq_csid0), ssq_epdg_fq_csid = (False, fq_csid0), ssq_mme_fq_csid = (False, fq_csid0)\<rparr>"

definition copy_pfcp_session_set_deletion_request :: "pfcp_session_set_deletion_request \<Rightarrow> pfcp_session_set_deletion_request" where
  "copy_pfcp_session_set_deletion_request i = \<lparr>ssq_node_id = ssq_node_id i, ssq_sgw_c_fq_csid = ssq_sgw_c_fq_csid i, ssq_pgw_c_fq_csid = ssq_pgw_c_fq_csid i, ssq_sgw_u_fq_csid = ssq_sgw_u_fq_csid i, ssq_pgw_u_fq_csid = ssq_pgw_u_fq_csid i, ssq_twan_fq_csid = ssq_twan_fq_csid i, ssq_epdg_fq_csid = ssq_epdg_fq_csid i, ssq_mme_fq_csid = ssq_mme_fq_csid i\<rparr>"

definition pfcp_session_set_deletion_request_set_node_id :: "node_id_t \<Rightarrow> pfcp_session_set_deletion_request \<Rightarrow> pfcp_session_set_deletion_request" where
  "pfcp_session_set_deletion_request_set_node_id v c = c\<lparr>ssq_node_id := (True, v)\<rparr>"

definition pfcp_session_set_deletion_request_get_node_id :: "pfcp_session_set_deletion_request \<Rightarrow> node_id_t \<Rightarrow> bool \<times> node_id_t" where
  "pfcp_session_set_deletion_request_get_node_id c v = opt_get (ssq_node_id c) v"

definition pfcp_session_set_deletion_request_set_sgw_c_fq_csid :: "fq_csid_t \<Rightarrow> pfcp_session_set_deletion_request \<Rightarrow> pfcp_session_set_deletion_request" where
  "pfcp_session_set_deletion_request_set_sgw_c_fq_csid v c = c\<lparr>ssq_sgw_c_fq_csid := (True, v)\<rparr>"

definition pfcp_session_set_deletion_request_get_sgw_c_fq_csid :: "pfcp_session_set_deletion_request \<Rightarrow> fq_csid_t \<Rightarrow> bool \<times> fq_csid_t" where
  "pfcp_session_set_deletion_request_get_sgw_c_fq_csid c v = opt_get (ssq_sgw_c_fq_csid c) v"

definition pfcp_session_set_deletion_request_set_pgw_c_fq_csid :: "fq_csid_t \<Rightarrow> pfcp_session_set_deletion_request \<Rightarrow> pfcp_session_set_deletion_request" where
  "pfcp_session_set_deletion_request_set_pgw_c_fq_csid v c = c\<lparr>ssq_pgw_c_fq_csid := (True, v)\<rparr>"

definition pfcp_session_set_deletion_request_get_pgw_c_fq_csid :: "pfcp_session_set_deletion_request \<Rightarrow> fq_csid_t \<Rightarrow> bool \<times> fq_csid_t" where
  "pfcp_session_set_deletion_request_get_pgw_c_fq_csid c v = opt_get (ssq_pgw_c_fq_csid c) v"

definition pfcp_session_set_deletion_request_set_sgw_u_fq_csid :: "fq_csid_t \<Rightarrow> pfcp_session_set_deletion_request \<Rightarrow> pfcp_session_set_deletion_request" where
  "pfcp_session_set_deletion_request_set_sgw_u_fq_csid v c = c\<lparr>ssq_sgw_u_fq_csid := (True, v)\<rparr>"

definition pfcp_session_set_deletion_request_get_sgw_u_fq_csid :: "pfcp_session_set_deletion_request \<Rightarrow> fq_csid_t \<Rightarrow> bool \<times> fq_csid_t" where
  "pfcp_session_set_deletion_request_get_sgw_u_fq_csid c v = opt_get (ssq_sgw_u_fq_csid c) v"

definition pfcp_session_set_deletion_request_set_pgw_u_fq_csid :: "fq_csid_t \<Rightarrow> pfcp_session_set_deletion_request \<Rightarrow> pfcp_session_set_deletion_request" where
  "pfcp_session_set_deletion_request_set_pgw_u_fq_csid v c = c\<lparr>ssq_pgw_u_fq_csid := (True, v)\<rparr>"

definition pfcp_session_set_deletion_request_get_pgw_u_fq_csid :: "pfcp_session_set_deletion_request \<Rightarrow> fq_csid_t \<Rightarrow> bool \<times> fq_csid_t" where
  "pfcp_session_set_deletion_request_get_pgw_u_fq_csid c v = opt_get (ssq_pgw_u_fq_csid c) v"

definition pfcp_session_set_deletion_request_set_twan_fq_csid :: "fq_csid_t \<Rightarrow> pfcp_session_set_deletion_request \<Rightarrow> pfcp_session_set_deletion_request" where
  "pfcp_session_set_deletion_request_set_twan_fq_csid v c = c\<lparr>ssq_twan_fq_csid := (True, v)\<rparr>"

definition pfcp_session_set_deletion_request_get_twan_fq_csid :: "pfcp_session_set_deletion_request \<Rightarrow> fq_csid_t \<Rightarrow> bool \<times> fq_csid_t" where
  "pfcp_session_set_deletion_request_get_twan_fq_csid c v = opt_get (ssq_twan_fq_csid c) v"

definition pfcp_session_set_deletion_request_set_epdg_fq_csid :: "fq_csid_t \<Rightarrow> pfcp_session_set_deletion_request \<Rightarrow> pfcp_session_set_deletion_request" where
  "pfcp_session_set_deletion_request_set_epdg_fq_csid v c = c\<lparr>ssq_epdg_fq_csid := (True, v)\<rparr>"

definition pfcp_session_set_deletion_request_get_epdg_fq_csid :: "pfcp_session_set_deletion_request \<Rightarrow> fq_csid_t \<Rightarrow> bool \<times> fq_csid_t" where
  "pfcp_session_set_deletion_request_get_epdg_fq_csid c v = opt_get (ssq_epdg_fq_csid c) v"

definition pfcp_session_set_deletion_request_set_mme_fq_csid :: "fq_csid_t \<Rightarrow> pfcp_session_set_deletion_request \<Rightarrow> pfcp_session_set_deletion_request" where
  "pfcp_session_set_deletion_request_set_mme_fq_csid v c = c\<lparr>ssq_mme_fq_csid := (True, v)\<rparr>"

definition pfcp_session_set_deletion_request_get_mme_fq_csid :: "pfcp_session_set_deletion_request \<Rightarrow> fq_csid_t \<Rightarrow> bool \<times> fq_csid_t" where
  "pfcp_session_set_deletion_request_get_mme_fq_csid c v = opt_get (ssq_mme_fq_csid c) v"

subsection \<open>\<^verbatim>\<open>pfcp_session_set_deletion_response\<close>\<close>

record pfcp_session_set_deletion_response =
  ssr_node_id :: "node_id_t optm"
  ssr_cause :: "u8 optm"
  ssr_offending_ie :: "u16 optm"

definition new_pfcp_session_set_deletion_response :: pfcp_session_set_deletion_response where
  "new_pfcp_session_set_deletion_response = \<lparr>ssr_node_id = (False, node_id0), ssr_cause = (False, 0), ssr_offending_ie = (False, 0)\<rparr>"

definition copy_pfcp_session_set_deletion_response :: "pfcp_session_set_deletion_response \<Rightarrow> pfcp_session_set_deletion_response" where
  "copy_pfcp_session_set_deletion_response i = \<lparr>ssr_node_id = ssr_node_id i, ssr_cause = ssr_cause i, ssr_offending_ie = ssr_offending_ie i\<rparr>"

definition pfcp_session_set_deletion_response_set_node_id :: "node_id_t \<Rightarrow> pfcp_session_set_deletion_response \<Rightarrow> pfcp_session_set_deletion_response" where
  "pfcp_session_set_deletion_response_set_node_id v c = c\<lparr>ssr_node_id := (True, v)\<rparr>"

definition pfcp_session_set_deletion_response_get_node_id :: "pfcp_session_set_deletion_response \<Rightarrow> node_id_t \<Rightarrow> bool \<times> node_id_t" where
  "pfcp_session_set_deletion_response_get_node_id c v = opt_get (ssr_node_id c) v"

definition pfcp_session_set_deletion_response_set_cause :: "u8 \<Rightarrow> pfcp_session_set_deletion_response \<Rightarrow> pfcp_session_set_deletion_response" where
  "pfcp_session_set_deletion_response_set_cause v c = c\<lparr>ssr_cause := (True, v)\<rparr>"

definition pfcp_session_set_deletion_response_get_cause :: "pfcp_session_set_deletion_response \<Rightarrow> u8 \<Rightarrow> bool \<times> u8" where
  "pfcp_session_set_deletion_response_get_cause c v = opt_get (ssr_cause c) v"

definition pfcp_session_set_deletion_response_set_offending_ie :: "u16 \<Rightarrow> pfcp_session_set_deletion_response \<Rightarrow> pfcp_session_set_deletion_response" where
  "pfcp_session_set_deletion_response_set_offending_ie v c = c\<lparr>ssr_offending_ie := (True, v)\<rparr>"

definition pfcp_session_set_deletion_response_get_offending_ie :: "pfcp_session_set_deletion_response \<Rightarrow> u16 \<Rightarrow> bool \<times> u16" where
  "pfcp_session_set_deletion_response_get_offending_ie c v = opt_get (ssr_offending_ie c) v"

subsection \<open>\<^verbatim>\<open>pfcp_session_establishment_request\<close>\<close>

record pfcp_session_establishment_request =
  seq_node_id :: "node_id_t optm"
  seq_cp_fseid :: "fseid_t optm"
  seq_create_pdrs :: "create_pdr list"
  seq_create_fars :: "create_far list"
  seq_create_urrs :: "create_urr list"
  seq_create_qers :: "create_qer list"
  seq_create_bar :: "create_bar optm"
  seq_create_traffic_endpoint :: "create_traffic_endpoint optm"
  seq_pdn_type :: "pdn_type_t optm"
  seq_sgw_c_fq_csid :: "fq_csid_t optm"
  seq_mme_fq_csid :: "fq_csid_t optm"
  seq_pgw_c_fq_csid :: "fq_csid_t optm"
  seq_epdg_fq_csid :: "fq_csid_t optm"
  seq_twan_fq_csid :: "fq_csid_t optm"
  seq_user_plane_inactivity_timer :: "u32 optm"
  seq_user_id :: "user_id_t optm"
  seq_trace_information :: "trace_information_t optm"

definition new_pfcp_session_establishment_request :: pfcp_session_establishment_request where
  "new_pfcp_session_establishment_request = \<lparr>seq_node_id = (False, node_id0), seq_cp_fseid = (False, fseid0), seq_create_pdrs = [], seq_create_fars = [], seq_create_urrs = [], seq_create_qers = [], seq_create_bar = (False, new_create_bar), seq_create_traffic_endpoint = (False, new_create_traffic_endpoint), seq_pdn_type = (False, pdn_type0), seq_sgw_c_fq_csid = (False, fq_csid0), seq_mme_fq_csid = (False, fq_csid0), seq_pgw_c_fq_csid = (False, fq_csid0), seq_epdg_fq_csid = (False, fq_csid0), seq_twan_fq_csid = (False, fq_csid0), seq_user_plane_inactivity_timer = (False, 0), seq_user_id = (False, user_id0), seq_trace_information = (False, trace_information0)\<rparr>"

definition copy_pfcp_session_establishment_request :: "pfcp_session_establishment_request \<Rightarrow> pfcp_session_establishment_request" where
  "copy_pfcp_session_establishment_request i = \<lparr>seq_node_id = seq_node_id i, seq_cp_fseid = seq_cp_fseid i, seq_create_pdrs = seq_create_pdrs i, seq_create_fars = seq_create_fars i, seq_create_urrs = seq_create_urrs i, seq_create_qers = seq_create_qers i, seq_create_bar = seq_create_bar i, seq_create_traffic_endpoint = seq_create_traffic_endpoint i, seq_pdn_type = seq_pdn_type i, seq_sgw_c_fq_csid = seq_sgw_c_fq_csid i, seq_mme_fq_csid = seq_mme_fq_csid i, seq_pgw_c_fq_csid = seq_pgw_c_fq_csid i, seq_epdg_fq_csid = seq_epdg_fq_csid i, seq_twan_fq_csid = seq_twan_fq_csid i, seq_user_plane_inactivity_timer = seq_user_plane_inactivity_timer i, seq_user_id = seq_user_id i, seq_trace_information = seq_trace_information i\<rparr>"

definition pfcp_session_establishment_request_set_node_id :: "node_id_t \<Rightarrow> pfcp_session_establishment_request \<Rightarrow> pfcp_session_establishment_request" where
  "pfcp_session_establishment_request_set_node_id v c = c\<lparr>seq_node_id := (True, v)\<rparr>"

definition pfcp_session_establishment_request_get_node_id :: "pfcp_session_establishment_request \<Rightarrow> node_id_t \<Rightarrow> bool \<times> node_id_t" where
  "pfcp_session_establishment_request_get_node_id c v = opt_get (seq_node_id c) v"

definition pfcp_session_establishment_request_set_cp_fseid :: "fseid_t \<Rightarrow> pfcp_session_establishment_request \<Rightarrow> pfcp_session_establishment_request" where
  "pfcp_session_establishment_request_set_cp_fseid v c = c\<lparr>seq_cp_fseid := (True, v)\<rparr>"

definition pfcp_session_establishment_request_get_cp_fseid :: "pfcp_session_establishment_request \<Rightarrow> fseid_t \<Rightarrow> bool \<times> fseid_t" where
  "pfcp_session_establishment_request_get_cp_fseid c v = opt_get (seq_cp_fseid c) v"

definition pfcp_session_establishment_request_set_create_pdrs :: "create_pdr \<Rightarrow> pfcp_session_establishment_request \<Rightarrow> pfcp_session_establishment_request" where
  "pfcp_session_establishment_request_set_create_pdrs v c = c\<lparr>seq_create_pdrs := seq_create_pdrs c @ [v]\<rparr>"

definition pfcp_session_establishment_request_set_create_fars :: "create_far \<Rightarrow> pfcp_session_establishment_request \<Rightarrow> pfcp_session_establishment_request" where
  "pfcp_session_establishment_request_set_create_fars v c = c\<lparr>seq_create_fars := seq_create_fars c @ [v]\<rparr>"

definition pfcp_session_establishment_request_set_create_urrs :: "create_urr \<Rightarrow> pfcp_session_establishment_request \<Rightarrow> pfcp_session_establishment_request" where
  "pfcp_session_establishment_request_set_create_urrs v c = c\<lparr>seq_create_urrs := seq_create_urrs c @ [v]\<rparr>"

definition pfcp_session_establishment_request_set_create_qers :: "create_qer \<Rightarrow> pfcp_session_establishment_request \<Rightarrow> pfcp_session_establishment_request" where
  "pfcp_session_establishment_request_set_create_qers v c = c\<lparr>seq_create_qers := seq_create_qers c @ [v]\<rparr>"

definition pfcp_session_establishment_request_set_create_bar :: "create_bar \<Rightarrow> pfcp_session_establishment_request \<Rightarrow> pfcp_session_establishment_request" where
  "pfcp_session_establishment_request_set_create_bar v c = c\<lparr>seq_create_bar := (True, v)\<rparr>"

definition pfcp_session_establishment_request_get_create_bar :: "pfcp_session_establishment_request \<Rightarrow> create_bar \<Rightarrow> bool \<times> create_bar" where
  "pfcp_session_establishment_request_get_create_bar c v = opt_get (seq_create_bar c) v"

definition pfcp_session_establishment_request_set_sgw_c_fq_csid :: "fq_csid_t \<Rightarrow> pfcp_session_establishment_request \<Rightarrow> pfcp_session_establishment_request" where
  "pfcp_session_establishment_request_set_sgw_c_fq_csid v c = c\<lparr>seq_sgw_c_fq_csid := (True, v)\<rparr>"

definition pfcp_session_establishment_request_get_sgw_c_fq_csid :: "pfcp_session_establishment_request \<Rightarrow> fq_csid_t \<Rightarrow> bool \<times> fq_csid_t" where
  "pfcp_session_establishment_request_get_sgw_c_fq_csid c v = opt_get (seq_sgw_c_fq_csid c) v"

definition pfcp_session_establishment_request_set_mme_fq_csid :: "fq_csid_t \<Rightarrow> pfcp_session_establishment_request \<Rightarrow> pfcp_session_establishment_request" where
  "pfcp_session_establishment_request_set_mme_fq_csid v c = c\<lparr>seq_mme_fq_csid := (True, v)\<rparr>"

definition pfcp_session_establishment_request_get_mme_fq_csid :: "pfcp_session_establishment_request \<Rightarrow> fq_csid_t \<Rightarrow> bool \<times> fq_csid_t" where
  "pfcp_session_establishment_request_get_mme_fq_csid c v = opt_get (seq_mme_fq_csid c) v"

definition pfcp_session_establishment_request_set_pgw_c_fq_csid :: "fq_csid_t \<Rightarrow> pfcp_session_establishment_request \<Rightarrow> pfcp_session_establishment_request" where
  "pfcp_session_establishment_request_set_pgw_c_fq_csid v c = c\<lparr>seq_pgw_c_fq_csid := (True, v)\<rparr>"

definition pfcp_session_establishment_request_get_pgw_c_fq_csid :: "pfcp_session_establishment_request \<Rightarrow> fq_csid_t \<Rightarrow> bool \<times> fq_csid_t" where
  "pfcp_session_establishment_request_get_pgw_c_fq_csid c v = opt_get (seq_pgw_c_fq_csid c) v"

definition pfcp_session_establishment_request_set_epdg_fq_csid :: "fq_csid_t \<Rightarrow> pfcp_session_establishment_request \<Rightarrow> pfcp_session_establishment_request" where
  "pfcp_session_establishment_request_set_epdg_fq_csid v c = c\<lparr>seq_epdg_fq_csid := (True, v)\<rparr>"

definition pfcp_session_establishment_request_get_epdg_fq_csid :: "pfcp_session_establishment_request \<Rightarrow> fq_csid_t \<Rightarrow> bool \<times> fq_csid_t" where
  "pfcp_session_establishment_request_get_epdg_fq_csid c v = opt_get (seq_epdg_fq_csid c) v"

definition pfcp_session_establishment_request_set_twan_fq_csid :: "fq_csid_t \<Rightarrow> pfcp_session_establishment_request \<Rightarrow> pfcp_session_establishment_request" where
  "pfcp_session_establishment_request_set_twan_fq_csid v c = c\<lparr>seq_twan_fq_csid := (True, v)\<rparr>"

definition pfcp_session_establishment_request_get_twan_fq_csid :: "pfcp_session_establishment_request \<Rightarrow> fq_csid_t \<Rightarrow> bool \<times> fq_csid_t" where
  "pfcp_session_establishment_request_get_twan_fq_csid c v = opt_get (seq_twan_fq_csid c) v"

definition pfcp_session_establishment_request_set_user_plane_inactivity_timer :: "u32 \<Rightarrow> pfcp_session_establishment_request \<Rightarrow> pfcp_session_establishment_request" where
  "pfcp_session_establishment_request_set_user_plane_inactivity_timer v c = c\<lparr>seq_user_plane_inactivity_timer := (True, v)\<rparr>"

definition pfcp_session_establishment_request_get_user_plane_inactivity_timer :: "pfcp_session_establishment_request \<Rightarrow> u32 \<Rightarrow> bool \<times> u32" where
  "pfcp_session_establishment_request_get_user_plane_inactivity_timer c v = opt_get (seq_user_plane_inactivity_timer c) v"

definition pfcp_session_establishment_request_set_user_id :: "user_id_t \<Rightarrow> pfcp_session_establishment_request \<Rightarrow> pfcp_session_establishment_request" where
  "pfcp_session_establishment_request_set_user_id v c = c\<lparr>seq_user_id := (True, v)\<rparr>"

definition pfcp_session_establishment_request_get_user_id :: "pfcp_session_establishment_request \<Rightarrow> user_id_t \<Rightarrow> bool \<times> user_id_t" where
  "pfcp_session_establishment_request_get_user_id c v = opt_get (seq_user_id c) v"

definition pfcp_session_establishment_request_set_trace_information :: "trace_information_t \<Rightarrow> pfcp_session_establishment_request \<Rightarrow> pfcp_session_establishment_request" where
  "pfcp_session_establishment_request_set_trace_information v c = c\<lparr>seq_trace_information := (True, v)\<rparr>"

definition pfcp_session_establishment_request_get_trace_information :: "pfcp_session_establishment_request \<Rightarrow> trace_information_t \<Rightarrow> bool \<times> trace_information_t" where
  "pfcp_session_establishment_request_get_trace_information c v = opt_get (seq_trace_information c) v"

subsection \<open>\<^verbatim>\<open>pfcp_session_establishment_response\<close>\<close>

record pfcp_session_establishment_response =
  ser_node_id :: "node_id_t optm"
  ser_cause :: "u8 optm"
  ser_offending_ie :: "u16 optm"
  ser_up_fseid :: "fseid_t optm"
  ser_created_pdrs :: "created_pdr list"
  ser_load_control_information :: "load_control_information optm"
  ser_overload_control_information :: "overload_control_information optm"
  ser_sgw_u_fq_csid :: "fq_csid_t optm"
  ser_pgw_u_fq_csid :: "fq_csid_t optm"
  ser_failed_rule_id :: "failed_rule_id_t optm"
  ser_created_traffic_endpoint :: "created_traffic_endpoint optm"

definition new_pfcp_session_establishment_response :: pfcp_session_establishment_response where
  "new_pfcp_session_establishment_response = \<lparr>ser_node_id = (False, node_id0), ser_cause = (False, 0), ser_offending_ie = (False, 0), ser_up_fseid = (False, fseid0), ser_created_pdrs = [], ser_load_control_information = (False, new_load_control_information), ser_overload_control_information = (False, new_overload_control_information), ser_sgw_u_fq_csid = (False, fq_csid0), ser_pgw_u_fq_csid = (False, fq_csid0), ser_failed_rule_id = (False, failed_rule_id0), ser_created_traffic_endpoint = (False, new_created_traffic_endpoint)\<rparr>"

definition copy_pfcp_session_establishment_response :: "pfcp_session_establishment_response \<Rightarrow> pfcp_session_establishment_response" where
  "copy_pfcp_session_establishment_response i = \<lparr>ser_node_id = ser_node_id i, ser_cause = ser_cause i, ser_offending_ie = ser_offending_ie i, ser_up_fseid = ser_up_fseid i, ser_created_pdrs = ser_created_pdrs i, ser_load_control_information = ser_load_control_information i, ser_overload_control_information = ser_overload_control_information i, ser_sgw_u_fq_csid = ser_sgw_u_fq_csid i, ser_pgw_u_fq_csid = ser_pgw_u_fq_csid i, ser_failed_rule_id = ser_failed_rule_id i, ser_created_traffic_endpoint = ser_created_traffic_endpoint i\<rparr>"

definition pfcp_session_establishment_response_set_node_id :: "node_id_t \<Rightarrow> pfcp_session_establishment_response \<Rightarrow> pfcp_session_establishment_response" where
  "pfcp_session_establishment_response_set_node_id v c = c\<lparr>ser_node_id := (True, v)\<rparr>"

definition pfcp_session_establishment_response_get_node_id :: "pfcp_session_establishment_response \<Rightarrow> node_id_t \<Rightarrow> bool \<times> node_id_t" where
  "pfcp_session_establishment_response_get_node_id c v = opt_get (ser_node_id c) v"

definition pfcp_session_establishment_response_set_cause :: "u8 \<Rightarrow> pfcp_session_establishment_response \<Rightarrow> pfcp_session_establishment_response" where
  "pfcp_session_establishment_response_set_cause v c = c\<lparr>ser_cause := (True, v)\<rparr>"

definition pfcp_session_establishment_response_get_cause :: "pfcp_session_establishment_response \<Rightarrow> u8 \<Rightarrow> bool \<times> u8" where
  "pfcp_session_establishment_response_get_cause c v = opt_get (ser_cause c) v"

definition pfcp_session_establishment_response_set_offending_ie :: "u16 \<Rightarrow> pfcp_session_establishment_response \<Rightarrow> pfcp_session_establishment_response" where
  "pfcp_session_establishment_response_set_offending_ie v c = c\<lparr>ser_offending_ie := (True, v)\<rparr>"

definition pfcp_session_establishment_response_get_offending_ie :: "pfcp_session_establishment_response \<Rightarrow> u16 \<Rightarrow> bool \<times> u16" where
  "pfcp_session_establishment_response_get_offending_ie c v = opt_get (ser_offending_ie c) v"

definition pfcp_session_establishment_response_set_up_fseid :: "fseid_t \<Rightarrow> pfcp_session_establishment_response \<Rightarrow> pfcp_session_establishment_response" where
  "pfcp_session_establishment_response_set_up_fseid v c = c\<lparr>ser_up_fseid := (True, v)\<rparr>"

definition pfcp_session_establishment_response_get_up_fseid :: "pfcp_session_establishment_response \<Rightarrow> fseid_t \<Rightarrow> bool \<times> fseid_t" where
  "pfcp_session_establishment_response_get_up_fseid c v = opt_get (ser_up_fseid c) v"

definition pfcp_session_establishment_response_set_created_pdrs :: "created_pdr \<Rightarrow> pfcp_session_establishment_response \<Rightarrow> pfcp_session_establishment_response" where
  "pfcp_session_establishment_response_set_created_pdrs v c = c\<lparr>ser_created_pdrs := ser_created_pdrs c @ [v]\<rparr>"

definition pfcp_session_establishment_response_set_load_control_information :: "load_control_information \<Rightarrow> pfcp_session_establishment_response \<Rightarrow> pfcp_session_establishment_response" where
  "pfcp_session_establishment_response_set_load_control_information v c = c\<lparr>ser_load_control_information := (True, v)\<rparr>"

definition pfcp_session_establishment_response_get_load_control_information :: "pfcp_session_establishment_response \<Rightarrow> load_control_information \<Rightarrow> bool \<times> load_control_information" where
  "pfcp_session_establishment_response_get_load_control_information c v = opt_get (ser_load_control_information c) v"

definition pfcp_session_establishment_response_set_overload_control_information :: "overload_control_information \<Rightarrow> pfcp_session_establishment_response \<Rightarrow> pfcp_session_establishment_response" where
  "pfcp_session_establishment_response_set_overload_control_information v c = c\<lparr>ser_overload_control_information := (True, v)\<rparr>"

definition pfcp_session_establishment_response_get_overload_control_information :: "pfcp_session_establishment_response \<Rightarrow> overload_control_information \<Rightarrow> bool \<times> overload_control_information" where
  "pfcp_session_establishment_response_get_overload_control_information c v = opt_get (ser_overload_control_information c) v"

definition pfcp_session_establishment_response_set_sgw_u_fq_csid :: "fq_csid_t \<Rightarrow> pfcp_session_establishment_response \<Rightarrow> pfcp_session_establishment_response" where
  "pfcp_session_establishment_response_set_sgw_u_fq_csid v c = c\<lparr>ser_sgw_u_fq_csid := (True, v)\<rparr>"

definition pfcp_session_establishment_response_get_sgw_u_fq_csid :: "pfcp_session_establishment_response \<Rightarrow> fq_csid_t \<Rightarrow> bool \<times> fq_csid_t" where
  "pfcp_session_establishment_response_get_sgw_u_fq_csid c v = opt_get (ser_sgw_u_fq_csid c) v"

definition pfcp_session_establishment_response_set_pgw_u_fq_csid :: "fq_csid_t \<Rightarrow> pfcp_session_establishment_response \<Rightarrow> pfcp_session_establishment_response" where
  "pfcp_session_establishment_response_set_pgw_u_fq_csid v c = c\<lparr>ser_pgw_u_fq_csid := (True, v)\<rparr>"

definition pfcp_session_establishment_response_get_pgw_u_fq_csid :: "pfcp_session_establishment_response \<Rightarrow> fq_csid_t \<Rightarrow> bool \<times> fq_csid_t" where
  "pfcp_session_establishment_response_get_pgw_u_fq_csid c v = opt_get (ser_pgw_u_fq_csid c) v"

definition pfcp_session_establishment_response_set_failed_rule_id :: "failed_rule_id_t \<Rightarrow> pfcp_session_establishment_response \<Rightarrow> pfcp_session_establishment_response" where
  "pfcp_session_establishment_response_set_failed_rule_id v c = c\<lparr>ser_failed_rule_id := (True, v)\<rparr>"

definition pfcp_session_establishment_response_get_failed_rule_id :: "pfcp_session_establishment_response \<Rightarrow> failed_rule_id_t \<Rightarrow> bool \<times> failed_rule_id_t" where
  "pfcp_session_establishment_response_get_failed_rule_id c v = opt_get (ser_failed_rule_id c) v"

definition pfcp_session_establishment_response_set_created_traffic_endpoint :: "created_traffic_endpoint \<Rightarrow> pfcp_session_establishment_response \<Rightarrow> pfcp_session_establishment_response" where
  "pfcp_session_establishment_response_set_created_traffic_endpoint v c = c\<lparr>ser_created_traffic_endpoint := (True, v)\<rparr>"

definition pfcp_session_establishment_response_get_created_traffic_endpoint :: "pfcp_session_establishment_response \<Rightarrow> created_traffic_endpoint \<Rightarrow> bool \<times> created_traffic_endpoint" where
  "pfcp_session_establishment_response_get_created_traffic_endpoint c v = opt_get (ser_created_traffic_endpoint c) v"

subsection \<open>\<^verbatim>\<open>pfcp_session_modification_request\<close>\<close>

record pfcp_session_modification_request =
  smq_cp_fseid :: "fseid_t optm"
  smq_remove_pdrs :: "remove_pdr list"
  smq_remove_fars :: "remove_far list"
  smq_remove_urrs :: "remove_urr list"
  smq_remove_qers :: "remove_qer list"
  smq_remove_bar :: "remove_bar optm"
  smq_remove_traffic_endpoint :: "remove_traffic_endpoint optm"
  smq_create_pdrs :: "create_pdr list"
  smq_create_fars :: "create_far list"
  smq_create_urrs :: "create_urr list"
  smq_create_qers :: "create_qer list"
  smq_create_bar :: "create_bar optm"
  smq_create_traffic_endpoint :: "create_traffic_endpoint optm"
  smq_update_pdrs :: "update_pdr list"
  smq_update_fars :: "update_far list"
  smq_update_urrs :: "update_urr list"
  smq_update_qers :: "update_qer list"
  smq_update_bar :: "update_bar_within_pfcp_session_modification_request optm"
  smq_update_traffic_endpoint :: "update_traffic_endpoint optm"
  smq_pfcpsmreq_flags :: "pfcpsmreq_flags_t optm"
  smq_pgw_c_fq_csid :: "fq_csid_t optm"
  smq_sgw_c_fq_csid :: "fq_csid_t optm"
  smq_mme_fq_csid :: "fq_csid_t optm"
  smq_epdg_fq_csid :: "fq_csid_t optm"
  smq_twan_fq_csid :: "fq_csid_t optm"
  smq_user_plane_inactivity_timer :: "u32 optm"
  smq_query_urr_reference :: "u32 optm"
  smq_trace_information :: "trace_information_t optm"

definition new_pfcp_session_modification_request :: pfcp_session_modification_request where
  "new_pfcp_session_modification_request = \<lparr>smq_cp_fseid = (False, fseid0), smq_remove_pdrs = [], smq_remove_fars = [], smq_remove_urrs = [], smq_remove_qers = [], smq_remove_bar = (False, new_remove_bar), smq_remove_traffic_endpoint = (False, new_remove_traffic_endpoint), smq_create_pdrs = [], smq_create_fars = [], smq_create_urrs = [], smq_create_qers = [], smq_create_bar = (False, new_create_bar), smq_create_traffic_endpoint = (False, new_create_traffic_endpoint), smq_update_pdrs = [], smq_update_fars = [], smq_update_urrs = [], smq_update_qers = [], smq_update_bar = (False, new_update_bar_within_pfcp_session_modification_request), smq_update_traffic_endpoint = (False, new_update_traffic_endpoint), smq_pfcpsmreq_flags = (False, pfcpsmreq_flags0), smq_pgw_c_fq_csid = (False, fq_csid0), smq_sgw_c_fq_csid = (False, fq_csid0), smq_mme_fq_csid = (False, fq_csid0), smq_epdg_fq_csid = (False, fq_csid0), smq_twan_fq_csid = (False, fq_csid0), smq_user_plane_inactivity_timer = (False, 0), smq_query_urr_reference = (False, 0), smq_trace_information = (False, trace_information0)\<rparr>"

definition copy_pfcp_session_modification_request :: "pfcp_session_modification_request \<Rightarrow> pfcp_session_modification_request" where
  "copy_pfcp_session_modification_request i = \<lparr>smq_cp_fseid = smq_cp_fseid i, smq_remove_pdrs = smq_remove_pdrs i, smq_remove_fars = smq_remove_fars i, smq_remove_urrs = smq_remove_urrs i, smq_remove_qers = smq_remove_qers i, smq_remove_bar = smq_remove_bar i, smq_remove_traffic_endpoint = smq_remove_traffic_endpoint i, smq_create_pdrs = smq_create_pdrs i, smq_create_fars = smq_create_fars i, smq_create_urrs = smq_create_urrs i, smq_create_qers = smq_create_qers i, smq_create_bar = smq_create_bar i, smq_create_traffic_endpoint = smq_create_traffic_endpoint i, smq_update_pdrs = smq_update_pdrs i, smq_update_fars = smq_update_fars i, smq_update_urrs = smq_update_urrs i, smq_update_qers = smq_update_qers i, smq_update_bar = smq_update_bar i, smq_update_traffic_endpoint = smq_update_traffic_endpoint i, smq_pfcpsmreq_flags = smq_pfcpsmreq_flags i, smq_pgw_c_fq_csid = smq_pgw_c_fq_csid i, smq_sgw_c_fq_csid = smq_sgw_c_fq_csid i, smq_mme_fq_csid = smq_mme_fq_csid i, smq_epdg_fq_csid = smq_epdg_fq_csid i, smq_twan_fq_csid = smq_twan_fq_csid i, smq_user_plane_inactivity_timer = smq_user_plane_inactivity_timer i, smq_query_urr_reference = smq_query_urr_reference i, smq_trace_information = smq_trace_information i\<rparr>"

definition pfcp_session_modification_request_set_cp_fseid :: "fseid_t \<Rightarrow> pfcp_session_modification_request \<Rightarrow> pfcp_session_modification_request" where
  "pfcp_session_modification_request_set_cp_fseid v c = c\<lparr>smq_cp_fseid := (True, v)\<rparr>"

definition pfcp_session_modification_request_get_cp_fseid :: "pfcp_session_modification_request \<Rightarrow> fseid_t \<Rightarrow> bool \<times> fseid_t" where
  "pfcp_session_modification_request_get_cp_fseid c v = opt_get (smq_cp_fseid c) v"

definition pfcp_session_modification_request_set_remove_pdrs :: "remove_pdr \<Rightarrow> pfcp_session_modification_request \<Rightarrow> pfcp_session_modification_request" where
  "pfcp_session_modification_request_set_remove_pdrs v c = c\<lparr>smq_remove_pdrs := smq_remove_pdrs c @ [v]\<rparr>"

definition pfcp_session_modification_request_set_remove_fars :: "remove_far \<Rightarrow> pfcp_session_modification_request \<Rightarrow> pfcp_session_modification_request" where
  "pfcp_session_modification_request_set_remove_fars v c = c\<lparr>smq_remove_fars := smq_remove_fars c @ [v]\<rparr>"

definition pfcp_session_modification_request_set_remove_urrs :: "remove_urr \<Rightarrow> pfcp_session_modification_request \<Rightarrow> pfcp_session_modification_request" where
  "pfcp_session_modification_request_set_remove_urrs v c = c\<lparr>smq_remove_urrs := smq_remove_urrs c @ [v]\<rparr>"

definition pfcp_session_modification_request_set_remove_qers :: "remove_qer \<Rightarrow> pfcp_session_modification_request \<Rightarrow> pfcp_session_modification_request" where
  "pfcp_session_modification_request_set_remove_qers v c = c\<lparr>smq_remove_qers := smq_remove_qers c @ [v]\<rparr>"

definition pfcp_session_modification_request_set_remove_bar :: "remove_bar \<Rightarrow> pfcp_session_modification_request \<Rightarrow> pfcp_session_modification_request" where
  "pfcp_session_modification_request_set_remove_bar v c = c\<lparr>smq_remove_bar := (True, v)\<rparr>"

definition pfcp_session_modification_request_get_remove_bar :: "pfcp_session_modification_request \<Rightarrow> remove_bar \<Rightarrow> bool \<times> remove_bar" where
  "pfcp_session_modification_request_get_remove_bar c v = opt_get (smq_remove_bar c) v"

definition pfcp_session_modification_request_set_remove_traffic_endpoint :: "remove_traffic_endpoint \<Rightarrow> pfcp_session_modification_request \<Rightarrow> pfcp_session_modification_request" where
  "pfcp_session_modification_request_set_remove_traffic_endpoint v c = c\<lparr>smq_remove_traffic_endpoint := (True, v)\<rparr>"

definition pfcp_session_modification_request_get_remove_traffic_endpoint :: "pfcp_session_modification_request \<Rightarrow> remove_traffic_endpoint \<Rightarrow> bool \<times> remove_traffic_endpoint" where
  "pfcp_session_modification_request_get_remove_traffic_endpoint c v = opt_get (smq_remove_traffic_endpoint c) v"

definition pfcp_session_modification_request_set_create_pdrs :: "create_pdr \<Rightarrow> pfcp_session_modification_request \<Rightarrow> pfcp_session_modification_request" where
  "pfcp_session_modification_request_set_create_pdrs v c = c\<lparr>smq_create_pdrs := smq_create_pdrs c @ [v]\<rparr>"

definition pfcp_session_modification_request_set_create_fars :: "create_far \<Rightarrow> pfcp_session_modification_request \<Rightarrow> pfcp_session_modification_request" where
  "pfcp_session_modification_request_set_create_fars v c = c\<lparr>smq_create_fars := smq_create_fars c @ [v]\<rparr>"

definition pfcp_session_modification_request_set_create_urrs :: "create_urr \<Rightarrow> pfcp_session_modification_request \<Rightarrow> pfcp_session_modification_request" where
  "pfcp_session_modification_request_set_create_urrs v c = c\<lparr>smq_create_urrs := smq_create_urrs c @ [v]\<rparr>"

definition pfcp_session_modification_request_set_create_qers :: "create_qer \<Rightarrow> pfcp_session_modification_request \<Rightarrow> pfcp_session_modification_request" where
  "pfcp_session_modification_request_set_create_qers v c = c\<lparr>smq_create_qers := smq_create_qers c @ [v]\<rparr>"

definition pfcp_session_modification_request_set_create_bar :: "create_bar \<Rightarrow> pfcp_session_modification_request \<Rightarrow> pfcp_session_modification_request" where
  "pfcp_session_modification_request_set_create_bar v c = c\<lparr>smq_create_bar := (True, v)\<rparr>"

definition pfcp_session_modification_request_get_create_bar :: "pfcp_session_modification_request \<Rightarrow> create_bar \<Rightarrow> bool \<times> create_bar" where
  "pfcp_session_modification_request_get_create_bar c v = opt_get (smq_create_bar c) v"

definition pfcp_session_modification_request_set_create_traffic_endpoint :: "create_traffic_endpoint \<Rightarrow> pfcp_session_modification_request \<Rightarrow> pfcp_session_modification_request" where
  "pfcp_session_modification_request_set_create_traffic_endpoint v c = c\<lparr>smq_create_traffic_endpoint := (True, v)\<rparr>"

definition pfcp_session_modification_request_get_create_traffic_endpoint :: "pfcp_session_modification_request \<Rightarrow> create_traffic_endpoint \<Rightarrow> bool \<times> create_traffic_endpoint" where
  "pfcp_session_modification_request_get_create_traffic_endpoint c v = opt_get (smq_create_traffic_endpoint c) v"

definition pfcp_session_modification_request_set_update_pdrs :: "update_pdr \<Rightarrow> pfcp_session_modification_request \<Rightarrow> pfcp_session_modification_request" where
  "pfcp_session_modification_request_set_update_pdrs v c = c\<lparr>smq_update_pdrs := smq_update_pdrs c @ [v]\<rparr>"

definition pfcp_session_modification_request_set_update_fars :: "update_far \<Rightarrow> pfcp_session_modification_request \<Rightarrow> pfcp_session_modification_request" where
  "pfcp_session_modification_request_set_update_fars v c = c\<lparr>smq_update_fars := smq_update_fars c @ [v]\<rparr>"

definition pfcp_session_modification_request_set_update_urrs :: "update_urr \<Rightarrow> pfcp_session_modification_request \<Rightarrow> pfcp_session_modification_request" where
  "pfcp_session_modification_request_set_update_urrs v c = c\<lparr>smq_update_urrs := smq_update_urrs c @ [v]\<rparr>"

definition pfcp_session_modification_request_set_update_qers :: "update_qer \<Rightarrow> pfcp_session_modification_request \<Rightarrow> pfcp_session_modification_request" where
  "pfcp_session_modification_request_set_update_qers v c = c\<lparr>smq_update_qers := smq_update_qers c @ [v]\<rparr>"

definition pfcp_session_modification_request_set_update_bar :: "update_bar_within_pfcp_session_modification_request \<Rightarrow> pfcp_session_modification_request \<Rightarrow> pfcp_session_modification_request" where
  "pfcp_session_modification_request_set_update_bar v c = c\<lparr>smq_update_bar := (True, v)\<rparr>"

definition pfcp_session_modification_request_get_update_bar :: "pfcp_session_modification_request \<Rightarrow> update_bar_within_pfcp_session_modification_request \<Rightarrow> bool \<times> update_bar_within_pfcp_session_modification_request" where
  "pfcp_session_modification_request_get_update_bar c v = opt_get (smq_update_bar c) v"

definition pfcp_session_modification_request_set_update_traffic_endpoint :: "update_traffic_endpoint \<Rightarrow> pfcp_session_modification_request \<Rightarrow> pfcp_session_modification_request" where
  "pfcp_session_modification_request_set_update_traffic_endpoint v c = c\<lparr>smq_update_traffic_endpoint := (True, v)\<rparr>"

definition pfcp_session_modification_request_get_update_traffic_endpoint :: "pfcp_session_modification_request \<Rightarrow> update_traffic_endpoint \<Rightarrow> bool \<times> update_traffic_endpoint" where
  "pfcp_session_modification_request_get_update_traffic_endpoint c v = opt_get (smq_update_traffic_endpoint c) v"

definition pfcp_session_modification_request_set_pfcpsmreq_flags :: "pfcpsmreq_flags_t \<Rightarrow> pfcp_session_modification_request \<Rightarrow> pfcp_session_modification_request" where
  "pfcp_session_modification_request_set_pfcpsmreq_flags v c = c\<lparr>smq_pfcpsmreq_flags := (True, v)\<rparr>"

definition pfcp_session_modification_request_get_pfcpsmreq_flags :: "pfcp_session_modification_request \<Rightarrow> pfcpsmreq_flags_t \<Rightarrow> bool \<times> pfcpsmreq_flags_t" where
  "pfcp_session_modification_request_get_pfcpsmreq_flags c v = opt_get (smq_pfcpsmreq_flags c) v"

definition pfcp_session_modification_request_set_pgw_c_fq_csid :: "fq_csid_t \<Rightarrow> pfcp_session_modification_request \<Rightarrow> pfcp_session_modification_request" where
  "pfcp_session_modification_request_set_pgw_c_fq_csid v c = c\<lparr>smq_pgw_c_fq_csid := (True, v)\<rparr>"

definition pfcp_session_modification_request_get_pgw_c_fq_csid :: "pfcp_session_modification_request \<Rightarrow> fq_csid_t \<Rightarrow> bool \<times> fq_csid_t" where
  "pfcp_session_modification_request_get_pgw_c_fq_csid c v = opt_get (smq_pgw_c_fq_csid c) v"

definition pfcp_session_modification_request_set_sgw_c_fq_csid :: "fq_csid_t \<Rightarrow> pfcp_session_modification_request \<Rightarrow> pfcp_session_modification_request" where
  "pfcp_session_modification_request_set_sgw_c_fq_csid v c = c\<lparr>smq_sgw_c_fq_csid := (True, v)\<rparr>"

definition pfcp_session_modification_request_get_sgw_c_fq_csid :: "pfcp_session_modification_request \<Rightarrow> fq_csid_t \<Rightarrow> bool \<times> fq_csid_t" where
  "pfcp_session_modification_request_get_sgw_c_fq_csid c v = opt_get (smq_sgw_c_fq_csid c) v"

definition pfcp_session_modification_request_set_mme_fq_csid :: "fq_csid_t \<Rightarrow> pfcp_session_modification_request \<Rightarrow> pfcp_session_modification_request" where
  "pfcp_session_modification_request_set_mme_fq_csid v c = c\<lparr>smq_mme_fq_csid := (True, v)\<rparr>"

definition pfcp_session_modification_request_get_mme_fq_csid :: "pfcp_session_modification_request \<Rightarrow> fq_csid_t \<Rightarrow> bool \<times> fq_csid_t" where
  "pfcp_session_modification_request_get_mme_fq_csid c v = opt_get (smq_mme_fq_csid c) v"

definition pfcp_session_modification_request_set_epdg_fq_csid :: "fq_csid_t \<Rightarrow> pfcp_session_modification_request \<Rightarrow> pfcp_session_modification_request" where
  "pfcp_session_modification_request_set_epdg_fq_csid v c = c\<lparr>smq_epdg_fq_csid := (True, v)\<rparr>"

definition pfcp_session_modification_request_get_epdg_fq_csid :: "pfcp_session_modification_request \<Rightarrow> fq_csid_t \<Rightarrow> bool \<times> fq_csid_t" where
  "pfcp_session_modification_request_get_epdg_fq_csid c v = opt_get (smq_epdg_fq_csid c) v"

definition pfcp_session_modification_request_set_twan_fq_csid :: "fq_csid_t \<Rightarrow> pfcp_session_modification_request \<Rightarrow> pfcp_session_modification_request" where
  "pfcp_session_modification_request_set_twan_fq_csid v c = c\<lparr>smq_twan_fq_csid := (True, v)\<rparr>"

definition pfcp_session_modification_request_get_twan_fq_csid :: "pfcp_session_modification_request \<Rightarrow> fq_csid_t \<Rightarrow> bool \<times> fq_csid_t" where
  "pfcp_session_modification_request_get_twan_fq_csid c v = opt_get (smq_twan_fq_csid c) v"

definition pfcp_session_modification_request_set_user_plane_inactivity_timer :: "u32 \<Rightarrow> pfcp_session_modification_request \<Rightarrow> pfcp_session_modification_request" where
  "pfcp_session_modification_request_set_user_plane_inactivity_timer v c = c\<lparr>smq_user_plane_inactivity_timer := (True, v)\<rparr>"

definition pfcp_session_modification_request_get_user_plane_inactivity_timer :: "pfcp_session_modification_request \<Rightarrow> u32 \<Rightarrow> bool \<times> u32" where
  "pfcp_session_modification_request_get_user_plane_inactivity_timer c v = opt_get (smq_user_plane_inactivity_timer c) v"

definition pfcp_session_modification_request_set_query_urr_reference :: "u32 \<Rightarrow> pfcp_session_modification_request \<Rightarrow> pfcp_session_modification_request" where
  "pfcp_session_modification_request_set_query_urr_reference v c = c\<lparr>smq_query_urr_reference := (True, v)\<rparr>"

definition pfcp_session_modification_request_get_query_urr_reference :: "pfcp_session_modification_request \<Rightarrow> u32 \<Rightarrow> bool \<times> u32" where
  "pfcp_session_modification_request_get_query_urr_reference c v = opt_get (smq_query_urr_reference c) v"

definition pfcp_session_modification_request_set_trace_information :: "trace_information_t \<Rightarrow> pfcp_session_modification_request \<Rightarrow> pfcp_session_modification_request" where
  "pfcp_session_modification_request_set_trace_information v c = c\<lparr>smq_trace_information := (True, v)\<rparr>"

definition pfcp_session_modification_request_get_trace_information :: "pfcp_session_modification_request \<Rightarrow> trace_information_t \<Rightarrow> bool \<times> trace_information_t" where
  "pfcp_session_modification_request_get_trace_information c v = opt_get (smq_trace_information c) v"

subsection \<open>\<^verbatim>\<open>pfcp_session_modification_response\<close>\<close>

record pfcp_session_modification_response =
  smr_cause :: "u8 optm"
  smr_offending_ie :: "u16 optm"
  smr_created_pdrs :: "created_pdr list"
  smr_load_control_information :: "load_control_information optm"
  smr_overload_control_information :: "overload_control_information optm"
  smr_usage_report :: "usage_report_within_pfcp_session_modification_response optm"
  smr_failed_rule_id :: "failed_rule_id_t optm"
  smr_additional_usage_reports_information :: "additional_usage_reports_information_t optm"
  smr_created_traffic_endpoint :: "created_traffic_endpoint optm"

definition new_pfcp_session_modification_response :: pfcp_session_modification_response where
  "new_pfcp_session_modification_response = \<lparr>smr_cause = (False, 0), smr_offending_ie = (False, 0), smr_created_pdrs = [], smr_load_control_information = (False, new_load_control_information), smr_overload_control_information = (False, new_overload_control_information), smr_usage_report = (False, new_usage_report_within_pfcp_session_modification_response), smr_failed_rule_id = (False, failed_rule_id0), smr_additional_usage_reports_information = (False, additional_usage_reports_information0), smr_created_traffic_endpoint = (False, new_created_traffic_endpoint)\<rparr>"

definition copy_pfcp_session_modification_response :: "pfcp_session_modification_response \<Rightarrow> pfcp_session_modification_response" where
  "copy_pfcp_session_modification_response i = \<lparr>smr_cause = smr_cause i, smr_offending_ie = smr_offending_ie i, smr_created_pdrs = smr_created_pdrs i, smr_load_control_information = smr_load_control_information i, smr_overload_control_information = smr_overload_control_information i, smr_usage_report = smr_usage_report i, smr_failed_rule_id = smr_failed_rule_id i, smr_additional_usage_reports_information = smr_additional_usage_reports_information i, smr_created_traffic_endpoint = smr_created_traffic_endpoint i\<rparr>"

definition pfcp_session_modification_response_set_cause :: "u8 \<Rightarrow> pfcp_session_modification_response \<Rightarrow> pfcp_session_modification_response" where
  "pfcp_session_modification_response_set_cause v c = c\<lparr>smr_cause := (True, v)\<rparr>"

definition pfcp_session_modification_response_get_cause :: "pfcp_session_modification_response \<Rightarrow> u8 \<Rightarrow> bool \<times> u8" where
  "pfcp_session_modification_response_get_cause c v = opt_get (smr_cause c) v"

definition pfcp_session_modification_response_set_offending_ie :: "u16 \<Rightarrow> pfcp_session_modification_response \<Rightarrow> pfcp_session_modification_response" where
  "pfcp_session_modification_response_set_offending_ie v c = c\<lparr>smr_offending_ie := (True, v)\<rparr>"

definition pfcp_session_modification_response_get_offending_ie :: "pfcp_session_modification_response \<Rightarrow> u16 \<Rightarrow> bool \<times> u16" where
  "pfcp_session_modification_response_get_offending_ie c v = opt_get (smr_offending_ie c) v"

definition pfcp_session_modification_response_set_created_pdrs :: "created_pdr \<Rightarrow> pfcp_session_modification_response \<Rightarrow> pfcp_session_modification_response" where
  "pfcp_session_modification_response_set_created_pdrs v c = c\<lparr>smr_created_pdrs := smr_created_pdrs c @ [v]\<rparr>"

definition pfcp_session_modification_response_set_load_control_information :: "load_control_information \<Rightarrow> pfcp_session_modification_response \<Rightarrow> pfcp_session_modification_response" where
  "pfcp_session_modification_response_set_load_control_information v c = c\<lparr>smr_load_control_information := (True, v)\<rparr>"

definition pfcp_session_modification_response_get_load_control_information :: "pfcp_session_modification_response \<Rightarrow> load_control_information \<Rightarrow> bool \<times> load_control_information" where
  "pfcp_session_modification_response_get_load_control_information c v = opt_get (smr_load_control_information c) v"

definition pfcp_session_modification_response_set_overload_control_information :: "overload_control_information \<Rightarrow> pfcp_session_modification_response \<Rightarrow> pfcp_session_modification_response" where
  "pfcp_session_modification_response_set_overload_control_information v c = c\<lparr>smr_overload_control_information := (True, v)\<rparr>"

definition pfcp_session_modification_response_get_overload_control_information :: "pfcp_session_modification_response \<Rightarrow> overload_control_information \<Rightarrow> bool \<times> overload_control_information" where
  "pfcp_session_modification_response_get_overload_control_information c v = opt_get (smr_overload_control_information c) v"

definition pfcp_session_modification_response_set_usage_report :: "usage_report_within_pfcp_session_modification_response \<Rightarrow> pfcp_session_modification_response \<Rightarrow> pfcp_session_modification_response" where
  "pfcp_session_modification_response_set_usage_report v c = c\<lparr>smr_usage_report := (True, v)\<rparr>"

definition pfcp_session_modification_response_get_usage_report :: "pfcp_session_modification_response \<Rightarrow> usage_report_within_pfcp_session_modification_response \<Rightarrow> bool \<times> usage_report_within_pfcp_session_modification_response" where
  "pfcp_session_modification_response_get_usage_report c v = opt_get (smr_usage_report c) v"

definition pfcp_session_modification_response_set_failed_rule_id :: "failed_rule_id_t \<Rightarrow> pfcp_session_modification_response \<Rightarrow> pfcp_session_modification_response" where
  "pfcp_session_modification_response_set_failed_rule_id v c = c\<lparr>smr_failed_rule_id := (True, v)\<rparr>"

definition pfcp_session_modification_response_get_failed_rule_id :: "pfcp_session_modification_response \<Rightarrow> failed_rule_id_t \<Rightarrow> bool \<times> failed_rule_id_t" where
  "pfcp_session_modification_response_get_failed_rule_id c v = opt_get (smr_failed_rule_id c) v"

definition pfcp_session_modification_response_set_additional_usage_reports_information :: "additional_usage_reports_information_t \<Rightarrow> pfcp_session_modification_response \<Rightarrow> pfcp_session_modification_response" where
  "pfcp_session_modification_response_set_additional_usage_reports_information v c = c\<lparr>smr_additional_usage_reports_information := (True, v)\<rparr>"

definition pfcp_session_modification_response_get_additional_usage_reports_information :: "pfcp_session_modification_response \<Rightarrow> additional_usage_reports_information_t \<Rightarrow> bool \<times> additional_usage_reports_information_t" where
  "pfcp_session_modification_response_get_additional_usage_reports_information c v = opt_get (smr_additional_usage_reports_information c) v"

definition pfcp_session_modification_response_set_created_traffic_endpoint :: "created_traffic_endpoint \<Rightarrow> pfcp_session_modification_response \<Rightarrow> pfcp_session_modification_response" where
  "pfcp_session_modification_response_set_created_traffic_endpoint v c = c\<lparr>smr_created_traffic_endpoint := (True, v)\<rparr>"

definition pfcp_session_modification_response_get_created_traffic_endpoint :: "pfcp_session_modification_response \<Rightarrow> created_traffic_endpoint \<Rightarrow> bool \<times> created_traffic_endpoint" where
  "pfcp_session_modification_response_get_created_traffic_endpoint c v = opt_get (smr_created_traffic_endpoint c) v"

subsection \<open>\<^verbatim>\<open>pfcp_session_deletion_request\<close>\<close>

datatype pfcp_session_deletion_request = New_pfcp_session_deletion_request

subsection \<open>\<^verbatim>\<open>pfcp_session_deletion_response\<close>\<close>

record pfcp_session_deletion_response =
  sdr_cause :: "u8 optm"
  sdr_offending_ie :: "u16 optm"

definition new_pfcp_session_deletion_response :: pfcp_session_deletion_response where
  "new_pfcp_session_deletion_response = \<lparr>sdr_cause = (False, 0), sdr_offending_ie = (False, 0)\<rparr>"

definition copy_pfcp_session_deletion_response :: "pfcp_session_deletion_response \<Rightarrow> pfcp_session_deletion_response" where
  "copy_pfcp_session_deletion_response i = \<lparr>sdr_cause = sdr_cause i, sdr_offending_ie = sdr_offending_ie i\<rparr>"

definition pfcp_session_deletion_response_set_cause :: "u8 \<Rightarrow> pfcp_session_deletion_response \<Rightarrow> pfcp_session_deletion_response" where
  "pfcp_session_deletion_response_set_cause v c = c\<lparr>sdr_cause := (True, v)\<rparr>"

definition pfcp_session_deletion_response_get_cause :: "pfcp_session_deletion_response \<Rightarrow> u8 \<Rightarrow> bool \<times> u8" where
  "pfcp_session_deletion_response_get_cause c v = opt_get (sdr_cause c) v"

definition pfcp_session_deletion_response_set_offending_ie :: "u16 \<Rightarrow> pfcp_session_deletion_response \<Rightarrow> pfcp_session_deletion_response" where
  "pfcp_session_deletion_response_set_offending_ie v c = c\<lparr>sdr_offending_ie := (True, v)\<rparr>"

definition pfcp_session_deletion_response_get_offending_ie :: "pfcp_session_deletion_response \<Rightarrow> u16 \<Rightarrow> bool \<times> u16" where
  "pfcp_session_deletion_response_get_offending_ie c v = opt_get (sdr_offending_ie c) v"

subsection \<open>\<^verbatim>\<open>pfcp_session_report_request\<close>\<close>

record pfcp_session_report_request =
  srq_report_type :: "report_type_t optm"
  srq_downlink_data_report :: "downlink_data_report optm"
  srq_usage_report :: "usage_report_within_pfcp_session_report_request optm"
  srq_error_indication_report :: "error_indication_report optm"
  srq_load_control_information :: "load_control_information optm"
  srq_overload_control_information :: "overload_control_information optm"
  srq_additional_usage_reports_information :: "additional_usage_reports_information_t optm"

definition new_pfcp_session_report_request :: pfcp_session_report_request where
  "new_pfcp_session_report_request = \<lparr>srq_report_type = (False, report_type0), srq_downlink_data_report = (False, new_downlink_data_report), srq_usage_report = (False, new_usage_report_within_pfcp_session_report_request), srq_error_indication_report = (False, new_error_indication_report), srq_load_control_information = (False, new_load_control_information), srq_overload_control_information = (False, new_overload_control_information), srq_additional_usage_reports_information = (False, additional_usage_reports_information0)\<rparr>"

definition copy_pfcp_session_report_request :: "pfcp_session_report_request \<Rightarrow> pfcp_session_report_request" where
  "copy_pfcp_session_report_request i = \<lparr>srq_report_type = srq_report_type i, srq_downlink_data_report = srq_downlink_data_report i, srq_usage_report = srq_usage_report i, srq_error_indication_report = srq_error_indication_report i, srq_load_control_information = srq_load_control_information i, srq_overload_control_information = srq_overload_control_information i, srq_additional_usage_reports_information = srq_additional_usage_reports_information i\<rparr>"

definition pfcp_session_report_request_set_report_type :: "report_type_t \<Rightarrow> pfcp_session_report_request \<Rightarrow> pfcp_session_report_request" where
  "pfcp_session_report_request_set_report_type v c = c\<lparr>srq_report_type := (True, v)\<rparr>"

definition pfcp_session_report_request_get_report_type :: "pfcp_session_report_request \<Rightarrow> report_type_t \<Rightarrow> bool \<times> report_type_t" where
  "pfcp_session_report_request_get_report_type c v = opt_get (srq_report_type c) v"

definition pfcp_session_report_request_set_downlink_data_report :: "downlink_data_report \<Rightarrow> pfcp_session_report_request \<Rightarrow> pfcp_session_report_request" where
  "pfcp_session_report_request_set_downlink_data_report v c = c\<lparr>srq_downlink_data_report := (True, v)\<rparr>"

definition pfcp_session_report_request_get_downlink_data_report :: "pfcp_session_report_request \<Rightarrow> downlink_data_report \<Rightarrow> bool \<times> downlink_data_report" where
  "pfcp_session_report_request_get_downlink_data_report c v = opt_get (srq_downlink_data_report c) v"

definition pfcp_session_report_request_set_usage_report :: "usage_report_within_pfcp_session_report_request \<Rightarrow> pfcp_session_report_request \<Rightarrow> pfcp_session_report_request" where
  "pfcp_session_report_request_set_usage_report v c = c\<lparr>srq_usage_report := (True, v)\<rparr>"

definition pfcp_session_report_request_get_usage_report :: "pfcp_session_report_request \<Rightarrow> usage_report_within_pfcp_session_report_request \<Rightarrow> bool \<times> usage_report_within_pfcp_session_report_request" where
  "pfcp_session_report_request_get_usage_report c v = opt_get (srq_usage_report c) v"

definition pfcp_session_report_request_set_error_indication_report :: "error_indication_report \<Rightarrow> pfcp_session_report_request \<Rightarrow> pfcp_session_report_request" where
  "pfcp_session_report_request_set_error_indication_report v c = c\<lparr>srq_error_indication_report := (True, v)\<rparr>"

definition pfcp_session_report_request_get_error_indication_report :: "pfcp_session_report_request \<Rightarrow> error_indication_report \<Rightarrow> bool \<times> error_indication_report" where
  "pfcp_session_report_request_get_error_indication_report c v = opt_get (srq_error_indication_report c) v"

definition pfcp_session_report_request_set_load_control_information :: "load_control_information \<Rightarrow> pfcp_session_report_request \<Rightarrow> pfcp_session_report_request" where
  "pfcp_session_report_request_set_load_control_information v c = c\<lparr>srq_load_control_information := (True, v)\<rparr>"

definition pfcp_session_report_request_get_load_control_information :: "pfcp_session_report_request \<Rightarrow> load_control_information \<Rightarrow> bool \<times> load_control_information" where
  "pfcp_session_report_request_get_load_control_information c v = opt_get (srq_load_control_information c) v"

definition pfcp_session_report_request_set_overload_control_information :: "overload_control_information \<Rightarrow> pfcp_session_report_request \<Rightarrow> pfcp_session_report_request" where
  "pfcp_session_report_request_set_overload_control_information v c = c\<lparr>srq_overload_control_information := (True, v)\<rparr>"

definition pfcp_session_report_request_get_overload_control_information :: "pfcp_session_report_request \<Rightarrow> overload_control_information \<Rightarrow> bool \<times> overload_control_information" where
  "pfcp_session_report_request_get_overload_control_information c v = opt_get (srq_overload_control_information c) v"

definition pfcp_session_report_request_set_additional_usage_reports_information :: "additional_usage_reports_information_t \<Rightarrow> pfcp_session_report_request \<Rightarrow> pfcp_session_report_request" where
  "pfcp_session_report_request_set_additional_usage_reports_information v c = c\<lparr>srq_additional_usage_reports_information := (True, v)\<rparr>"

definition pfcp_session_report_request_get_additional_usage_reports_information :: "pfcp_session_report_request \<Rightarrow> additional_usage_reports_information_t \<Rightarrow> bool \<times> additional_usage_reports_information_t" where
  "pfcp_session_report_request_get_additional_usage_reports_information c v = opt_get (srq_additional_usage_reports_information c) v"

subsection \<open>\<^verbatim>\<open>pfcp_session_report_response\<close>\<close>

record pfcp_session_report_response =
  srr_cause :: "u8 optm"
  srr_offending_ie :: "u16 optm"
  srr_update_bar :: "update_bar_within_pfcp_session_report_response optm"

definition new_pfcp_session_report_response :: pfcp_session_report_response where
  "new_pfcp_session_report_response = \<lparr>srr_cause = (False, 0), srr_offending_ie = (False, 0), srr_update_bar = (False, new_update_bar_within_pfcp_session_report_response)\<rparr>"

definition copy_pfcp_session_report_response :: "pfcp_session_report_response \<Rightarrow> pfcp_session_report_response" where
  "copy_pfcp_session_report_response i = \<lparr>srr_cause = srr_cause i, srr_offending_ie = srr_offending_ie i, srr_update_bar = srr_update_bar i\<rparr>"

definition pfcp_session_report_response_set_cause :: "u8 \<Rightarrow> pfcp_session_report_response \<Rightarrow> pfcp_session_report_response" where
  "pfcp_session_report_response_set_cause v c = c\<lparr>srr_cause := (True, v)\<rparr>"

definition pfcp_session_report_response_get_cause :: "pfcp_session_report_response \<Rightarrow> u8 \<Rightarrow> bool \<times> u8" where
  "pfcp_session_report_response_get_cause c v = opt_get (srr_cause c) v"

definition pfcp_session_report_response_set_offending_ie :: "u16 \<Rightarrow> pfcp_session_report_response \<Rightarrow> pfcp_session_report_response" where
  "pfcp_session_report_response_set_offending_ie v c = c\<lparr>srr_offending_ie := (True, v)\<rparr>"

definition pfcp_session_report_response_get_offending_ie :: "pfcp_session_report_response \<Rightarrow> u16 \<Rightarrow> bool \<times> u16" where
  "pfcp_session_report_response_get_offending_ie c v = opt_get (srr_offending_ie c) v"

definition pfcp_session_report_response_set_update_bar :: "update_bar_within_pfcp_session_report_response \<Rightarrow> pfcp_session_report_response \<Rightarrow> pfcp_session_report_response" where
  "pfcp_session_report_response_set_update_bar v c = c\<lparr>srr_update_bar := (True, v)\<rparr>"

definition pfcp_session_report_response_get_update_bar :: "pfcp_session_report_response \<Rightarrow> update_bar_within_pfcp_session_report_response \<Rightarrow> bool \<times> update_bar_within_pfcp_session_report_response" where
  "pfcp_session_report_response_get_update_bar c v = opt_get (srr_update_bar c) v"

section \<open>Copies\<close>

lemma copy_create_urr_id [simp]: "copy_create_urr c = c"
  by (simp add: copy_create_urr_def)

lemma copy_create_qer_id [simp]: "copy_create_qer c = c"
  by (simp add: copy_create_qer_def)

lemma copy_created_pdr_id [simp]: "copy_created_pdr c = c"
  by (simp add: copy_created_pdr_def)

lemma copy_update_urr_id [simp]: "copy_update_urr c = c"
  by (simp add: copy_update_urr_def)

lemma copy_update_qer_id [simp]: "copy_update_qer c = c"
  by (simp add: copy_update_qer_def)

lemma copy_update_bar_within_pfcp_session_report_response_id [simp]: "copy_update_bar_within_pfcp_session_report_response c = c"
  by (simp add: copy_update_bar_within_pfcp_session_report_response_def)

lemma copy_remove_urr_id [simp]: "copy_remove_urr c = c"
  by (simp add: copy_remove_urr_def)

lemma copy_remove_qer_id [simp]: "copy_remove_qer c = c"
  by (simp add: copy_remove_qer_def)

lemma copy_downlink_data_report_id [simp]: "copy_downlink_data_report c = c"
  by (simp add: copy_downlink_data_report_def)

lemma copy_create_traffic_endpoint_id [simp]: "copy_create_traffic_endpoint c = c"
  by (simp add: copy_create_traffic_endpoint_def)

lemma copy_pfcp_heartbeat_request_id [simp]: "copy_pfcp_heartbeat_request c = c"
  by (simp add: copy_pfcp_heartbeat_request_def)

lemma copy_pfcp_heartbeat_response_id [simp]: "copy_pfcp_heartbeat_response c = c"
  by (simp add: copy_pfcp_heartbeat_response_def)

lemma copy_pfcp_association_setup_request_id [simp]: "copy_pfcp_association_setup_request c = c"
  by (simp add: copy_pfcp_association_setup_request_def)

lemma copy_pfcp_association_setup_response_id [simp]: "copy_pfcp_association_setup_response c = c"
  by (simp add: copy_pfcp_association_setup_response_def)

lemma copy_pfcp_association_update_request_id [simp]: "copy_pfcp_association_update_request c = c"
  by (simp add: copy_pfcp_association_update_request_def)

lemma copy_pfcp_association_update_response_id [simp]: "copy_pfcp_association_update_response c = c"
  by (simp add: copy_pfcp_association_update_response_def)

lemma copy_pfcp_association_release_request_id [simp]: "copy_pfcp_association_release_request c = c"
  by (simp add: copy_pfcp_association_release_request_def)

lemma copy_pfcp_association_release_response_id [simp]: "copy_pfcp_association_release_response c = c"
  by (simp add: copy_pfcp_association_release_response_def)

lemma copy_pfcp_node_report_request_id [simp]: "copy_pfcp_node_report_request c = c"
  by (simp add: copy_pfcp_node_report_request_def)

lemma copy_pfcp_pfd_management_request_id [simp]: "copy_pfcp_pfd_management_request c = c"
  by (simp add: copy_pfcp_pfd_management_request_def)

lemma copy_pfcp_pfd_management_response_id [simp]: "copy_pfcp_pfd_management_response c = c"
  by (simp add: copy_pfcp_pfd_management_response_def)

lemma copy_pfcp_node_report_response_id [simp]: "copy_pfcp_node_report_response c = c"
  by (simp add: copy_pfcp_node_report_response_def)

lemma copy_pfcp_session_set_deletion_request_id [simp]: "copy_pfcp_session_set_deletion_request c = c"
  by (simp add: copy_pfcp_session_set_deletion_request_def)

lemma copy_pfcp_session_set_deletion_response_id [simp]: "copy_pfcp_session_set_deletion_response c = c"
  by (simp add: copy_pfcp_session_set_deletion_response_def)

lemma copy_pfcp_session_establishment_request_id [simp]: "copy_pfcp_session_establishment_request c = c"
  by (simp add: copy_pfcp_session_establishment_request_def)

lemma copy_pfcp_session_establishment_response_id [simp]: "copy_pfcp_session_establishment_response c = c"
  by (simp add: copy_pfcp_session_establishment_response_def)

lemma copy_pfcp_session_modification_request_id [simp]: "copy_pfcp_session_modification_request c = c"
  by (simp add: copy_pfcp_session_modification_request_def)

lemma copy_pfcp_session_modification_response_id [simp]: "copy_pfcp_session_modification_response c = c"
  by (simp add: copy_pfcp_session_modification_response_def)

lemma copy_pfcp_session_deletion_response_id [simp]: "copy_pfcp_session_deletion_response c = c"
  by (simp add: copy_pfcp_session_deletion_response_def)

lemma copy_pfcp_session_report_request_id [simp]: "copy_pfcp_session_report_request c = c"
  by (simp add: copy_pfcp_session_report_request_def)

lemma copy_pfcp_session_report_response_id [simp]: "copy_pfcp_session_report_response c = c"
  by (simp add: copy_pfcp_session_report_response_def)

section \<open>Every optional member meets the contract\<close>

interpretation cu_urr_id: optional_member create_urr_set_urr_id create_urr_get_urr_id new_create_urr
  by unfold_locales (auto simp: create_urr_set_urr_id_def create_urr_get_urr_id_def new_create_urr_def opt_get_def)

interpretation cu_measurement_method: optional_member create_urr_set_measurement_method create_urr_get_measurement_method new_create_urr
  by unfold_locales (auto simp: create_urr_set_measurement_method_def create_urr_get_measurement_method_def new_create_urr_def opt_get_def)

interpretation cu_reporting_triggers: optional_member create_urr_set_reporting_triggers create_urr_get_reporting_triggers new_create_urr
  by unfold_locales (auto simp: create_urr_set_reporting_triggers_def create_urr_get_reporting_triggers_def new_create_urr_def opt_get_def)

interpretation cu_measurement_period: optional_member create_urr_set_measurement_period create_urr_get_measurement_period new_create_urr
  by unfold_locales (auto simp: create_urr_set_measurement_period_def create_urr_get_measurement_period_def new_create_urr_def opt_get_def)

interpretation cu_volume_threshold: optional_member create_urr_set_volume_threshold create_urr_get_volume_threshold new_create_urr
  by unfold_locales (auto simp: create_urr_set_volume_threshold_def create_urr_get_volume_threshold_def new_create_urr_def opt_get_def)

interpretation cu_volume_quota: optional_member create_urr_set_volume_quota create_urr_get_volume_quota new_create_urr
  by unfold_locales (auto simp: create_urr_set_volume_quota_def create_urr_get_volume_quota_def new_create_urr_def opt_get_def)

interpretation cu_time_threshold: optional_member create_urr_set_time_threshold create_urr_get_time_threshold new_create_urr
  by unfold_locales (auto simp: create_urr_set_time_threshold_def create_urr_get_time_threshold_def new_create_urr_def opt_get_def)

interpretation cu_time_quota: optional_member create_urr_set_time_quota create_urr_get_time_quota new_create_urr
  by unfold_locales (auto simp: create_urr_set_time_quota_def create_urr_get_time_quota_def new_create_urr_def opt_get_def)

interpretation cu_quota_holding_time: optional_member create_urr_set_quota_holding_time create_urr_get_quota_holding_time new_create_urr
  by unfold_locales (auto simp: create_urr_set_quota_holding_time_def create_urr_get_quota_holding_time_def new_create_urr_def opt_get_def)

interpretation cu_dropped_dl_traffic_threshold: optional_member create_urr_set_dropped_dl_traffic_threshold create_urr_get_dropped_dl_traffic_threshold new_create_urr
  by unfold_locales (auto simp: create_urr_set_dropped_dl_traffic_threshold_def create_urr_get_dropped_dl_traffic_threshold_def new_create_urr_def opt_get_def)

interpretation cu_monitoring_time: optional_member create_urr_set_monitoring_time create_urr_get_monitoring_time new_create_urr
  by unfold_locales (auto simp: create_urr_set_monitoring_time_def create_urr_get_monitoring_time_def new_create_urr_def opt_get_def)

interpretation cu_event_information: optional_member create_urr_set_event_information create_urr_get_event_information new_create_urr
  by unfold_locales (auto simp: create_urr_set_event_information_def create_urr_get_event_information_def new_create_urr_def opt_get_def)

interpretation cu_subsequent_volume_threshold: optional_member create_urr_set_subsequent_volume_threshold create_urr_get_subsequent_volume_threshold new_create_urr
  by unfold_locales (auto simp: create_urr_set_subsequent_volume_threshold_def create_urr_get_subsequent_volume_threshold_def new_create_urr_def opt_get_def)

interpretation cu_subsequent_time_threshold: optional_member create_urr_set_subsequent_time_threshold create_urr_get_subsequent_time_threshold new_create_urr
  by unfold_locales (auto simp: create_urr_set_subsequent_time_threshold_def create_urr_get_subsequent_time_threshold_def new_create_urr_def opt_get_def)

interpretation cu_subsequent_volume_quota: optional_member create_urr_set_subsequent_volume_quota create_urr_get_subsequent_volume_quota new_create_urr
  by unfold_locales (auto simp: create_urr_set_subsequent_volume_quota_def create_urr_get_subsequent_volume_quota_def new_create_urr_def opt_get_def)

interpretation cu_subsequent_time_quota: optional_member create_urr_set_subsequent_time_quota create_urr_get_subsequent_time_quota new_create_urr
  by unfold_locales (auto simp: create_urr_set_subsequent_time_quota_def create_urr_get_subsequent_time_quota_def new_create_urr_def opt_get_def)

interpretation cu_inactivity_detection_time: optional_member create_urr_set_inactivity_detection_time create_urr_get_inactivity_detection_time new_create_urr
  by unfold_locales (auto simp: create_urr_set_inactivity_detection_time_def create_urr_get_inactivity_detection_time_def new_create_urr_def opt_get_def)

interpretation cu_linked_urr_id: optional_member create_urr_set_linked_urr_id create_urr_get_linked_urr_id new_create_urr
  by unfold_locales (auto simp: create_urr_set_linked_urr_id_def create_urr_get_linked_urr_id_def new_create_urr_def opt_get_def)

interpretation cu_measurement_information: optional_member create_urr_set_measurement_information create_urr_get_measurement_information new_create_urr
  by unfold_locales (auto simp: create_urr_set_measurement_information_def create_urr_get_measurement_information_def new_create_urr_def opt_get_def)

interpretation cu_time_quota_mechanism: optional_member create_urr_set_time_quota_mechanism create_urr_get_time_quota_mechanism new_create_urr
  by unfold_locales (auto simp: create_urr_set_time_quota_mechanism_def create_urr_get_time_quota_mechanism_def new_create_urr_def opt_get_def)

interpretation cu_aggregated_urrs: optional_member create_urr_set_aggregated_urrs create_urr_get_aggregated_urrs new_create_urr
  by unfold_locales (auto simp: create_urr_set_aggregated_urrs_def create_urr_get_aggregated_urrs_def new_create_urr_def opt_get_def)

interpretation cu_far_id_for_quota_action: optional_member create_urr_set_far_id_for_quota_action create_urr_get_far_id_for_quota_action new_create_urr
  by unfold_locales (auto simp: create_urr_set_far_id_for_quota_action_def create_urr_get_far_id_for_quota_action_def new_create_urr_def opt_get_def)

interpretation cu_ethernet_inactivity_timer: optional_member create_urr_set_ethernet_inactivity_timer create_urr_get_ethernet_inactivity_timer new_create_urr
  by unfold_locales (auto simp: create_urr_set_ethernet_inactivity_timer_def create_urr_get_ethernet_inactivity_timer_def new_create_urr_def opt_get_def)

interpretation cu_additional_monitoring_time: optional_member create_urr_set_additional_monitoring_time create_urr_get_additional_monitoring_time new_create_urr
  by unfold_locales (auto simp: create_urr_set_additional_monitoring_time_def create_urr_get_additional_monitoring_time_def new_create_urr_def opt_get_def)

interpretation cq_qer_id: optional_member create_qer_set_qer_id create_qer_get_qer_id new_create_qer
  by unfold_locales (auto simp: create_qer_set_qer_id_def create_qer_get_qer_id_def new_create_qer_def opt_get_def)

interpretation cq_qer_correlation_id: optional_member create_qer_set_qer_correlation_id create_qer_get_qer_correlation_id new_create_qer
  by unfold_locales (auto simp: create_qer_set_qer_correlation_id_def create_qer_get_qer_correlation_id_def new_create_qer_def opt_get_def)

interpretation cq_gate_status: optional_member create_qer_set_gate_status create_qer_get_gate_status new_create_qer
  by unfold_locales (auto simp: create_qer_set_gate_status_def create_qer_get_gate_status_def new_create_qer_def opt_get_def)

interpretation cq_maximum_bitrate: optional_member create_qer_set_maximum_bitrate create_qer_get_maximum_bitrate new_create_qer
  by unfold_locales (auto simp: create_qer_set_maximum_bitrate_def create_qer_get_maximum_bitrate_def new_create_qer_def opt_get_def)

interpretation cq_guaranteed_bitrate: optional_member create_qer_set_guaranteed_bitrate create_qer_get_guaranteed_bitrate new_create_qer
  by unfold_locales (auto simp: create_qer_set_guaranteed_bitrate_def create_qer_get_guaranteed_bitrate_def new_create_qer_def opt_get_def)

interpretation cq_packet_rate: optional_member create_qer_set_packet_rate create_qer_get_packet_rate new_create_qer
  by unfold_locales (auto simp: create_qer_set_packet_rate_def create_qer_get_packet_rate_def new_create_qer_def opt_get_def)

interpretation cq_dl_flow_level_marking: optional_member create_qer_set_dl_flow_level_marking create_qer_get_dl_flow_level_marking new_create_qer
  by unfold_locales (auto simp: create_qer_set_dl_flow_level_marking_def create_qer_get_dl_flow_level_marking_def new_create_qer_def opt_get_def)

interpretation cq_qos_flow_identifier: optional_member create_qer_set_qos_flow_identifier create_qer_get_qos_flow_identifier new_create_qer
  by unfold_locales (auto simp: create_qer_set_qos_flow_identifier_def create_qer_get_qos_flow_identifier_def new_create_qer_def opt_get_def)

interpretation cq_reflective_qos: optional_member create_qer_set_reflective_qos create_qer_get_reflective_qos new_create_qer
  by unfold_locales (auto simp: create_qer_set_reflective_qos_def create_qer_get_reflective_qos_def new_create_qer_def opt_get_def)

interpretation cdp_pdr_id: optional_member created_pdr_set_pdr_id created_pdr_get_pdr_id new_created_pdr
  by unfold_locales (auto simp: created_pdr_set_pdr_id_def created_pdr_get_pdr_id_def new_created_pdr_def opt_get_def)

interpretation cdp_local_fteid: optional_member created_pdr_set_local_fteid created_pdr_get_local_fteid new_created_pdr
  by unfold_locales (auto simp: created_pdr_set_local_fteid_def created_pdr_get_local_fteid_def new_created_pdr_def opt_get_def)

interpretation uu_urr_id: optional_member update_urr_set_urr_id update_urr_get_urr_id new_update_urr
  by unfold_locales (auto simp: update_urr_set_urr_id_def update_urr_get_urr_id_def new_update_urr_def opt_get_def)

interpretation uu_measurement_method: optional_member update_urr_set_measurement_method update_urr_get_measurement_method new_update_urr
  by unfold_locales (auto simp: update_urr_set_measurement_method_def update_urr_get_measurement_method_def new_update_urr_def opt_get_def)

interpretation uu_reporting_triggers: optional_member update_urr_set_reporting_triggers update_urr_get_reporting_triggers new_update_urr
  by unfold_locales (auto simp: update_urr_set_reporting_triggers_def update_urr_get_reporting_triggers_def new_update_urr_def opt_get_def)

interpretation uu_measurement_period: optional_member update_urr_set_measurement_period update_urr_get_measurement_period new_update_urr
  by unfold_locales (auto simp: update_urr_set_measurement_period_def update_urr_get_measurement_period_def new_update_urr_def opt_get_def)

interpretation uu_volume_threshold: optional_member update_urr_set_volume_threshold update_urr_get_volume_threshold new_update_urr
  by unfold_locales (auto simp: update_urr_set_volume_threshold_def update_urr_get_volume_threshold_def new_update_urr_def opt_get_def)

interpretation uu_volume_quota: optional_member update_urr_set_volume_quota update_urr_get_volume_quota new_update_urr
  by unfold_locales (auto simp: update_urr_set_volume_quota_def update_urr_get_volume_quota_def new_update_urr_def opt_get_def)

interpretation uu_time_threshold: optional_member update_urr_set_time_threshold update_urr_get_time_threshold new_update_urr
  by unfold_locales (auto simp: update_urr_set_time_threshold_def update_urr_get_time_threshold_def new_update_urr_def opt_get_def)

interpretation uu_time_quota: optional_member update_urr_set_time_quota update_urr_get_time_quota new_update_urr
  by unfold_locales (auto simp: update_urr_set_time_quota_def update_urr_get_time_quota_def new_update_urr_def opt_get_def)

interpretation uu_quota_holding_time: optional_member update_urr_set_quota_holding_time update_urr_get_quota_holding_time new_update_urr
  by unfold_locales (auto simp: update_urr_set_quota_holding_time_def update_urr_get_quota_holding_time_def new_update_urr_def opt_get_def)

interpretation uu_dropped_dl_traffic_threshold: optional_member update_urr_set_dropped_dl_traffic_threshold update_urr_get_dropped_dl_traffic_threshold new_update_urr
  by unfold_locales (auto simp: update_urr_set_dropped_dl_traffic_threshold_def update_urr_get_dropped_dl_traffic_threshold_def new_update_urr_def opt_get_def)

interpretation uu_monitoring_time: optional_member update_urr_set_monitoring_time update_urr_get_monitoring_time new_update_urr
  by unfold_locales (auto simp: update_urr_set_monitoring_time_def update_urr_get_monitoring_time_def new_update_urr_def opt_get_def)

interpretation uu_event_information: optional_member update_urr_set_event_information update_urr_get_event_information new_update_urr
  by unfold_locales (auto simp: update_urr_set_event_information_def update_urr_get_event_information_def new_update_urr_def opt_get_def)

interpretation uu_subsequent_volume_threshold: optional_member update_urr_set_subsequent_volume_threshold update_urr_get_subsequent_volume_threshold new_update_urr
  by unfold_locales (auto simp: update_urr_set_subsequent_volume_threshold_def update_urr_get_subsequent_volume_threshold_def new_update_urr_def opt_get_def)

interpretation uu_subsequent_time_threshold: optional_member update_urr_set_subsequent_time_threshold update_urr_get_subsequent_time_threshold new_update_urr
  by unfold_locales (auto simp: update_urr_set_subsequent_time_threshold_def update_urr_get_subsequent_time_threshold_def new_update_urr_def opt_get_def)

interpretation uu_subsequent_volume_quota: optional_member update_urr_set_subsequent_volume_quota update_urr_get_subsequent_volume_quota new_update_urr
  by unfold_locales (auto simp: update_urr_set_subsequent_volume_quota_def update_urr_get_subsequent_volume_quota_def new_update_urr_def opt_get_def)

interpretation uu_subsequent_time_quota: optional_member update_urr_set_subsequent_time_quota update_urr_get_subsequent_time_quota new_update_urr
  by unfold_locales (auto simp: update_urr_set_subsequent_time_quota_def update_urr_get_subsequent_time_quota_def new_update_urr_def opt_get_def)

interpretation uu_inactivity_detection_time: optional_member update_urr_set_inactivity_detection_time update_urr_get_inactivity_detection_time new_update_urr
  by unfold_locales (auto simp: update_urr_set_inactivity_detection_time_def update_urr_get_inactivity_detection_time_def new_update_urr_def opt_get_def)

interpretation uu_linked_urr_id: optional_member update_urr_set_linked_urr_id update_urr_get_linked_urr_id new_update_urr
  by unfold_locales (auto simp: update_urr_set_linked_urr_id_def update_urr_get_linked_urr_id_def new_update_urr_def opt_get_def)

interpretation uu_measurement_information: optional_member update_urr_set_measurement_information update_urr_get_measurement_information new_update_urr
  by unfold_locales (auto simp: update_urr_set_measurement_information_def update_urr_get_measurement_information_def new_update_urr_def opt_get_def)

interpretation uu_time_quota_mechanism: optional_member update_urr_set_time_quota_mechanism update_urr_get_time_quota_mechanism new_update_urr
  by unfold_locales (auto simp: update_urr_set_time_quota_mechanism_def update_urr_get_time_quota_mechanism_def new_update_urr_def opt_get_def)

interpretation uu_aggregated_urrs: optional_member update_urr_set_aggregated_urrs update_urr_get_aggregated_urrs new_update_urr
  by unfold_locales (auto simp: update_urr_set_aggregated_urrs_def update_urr_get_aggregated_urrs_def new_update_urr_def opt_get_def)

interpretation uu_far_id_for_quota_action: optional_member update_urr_set_far_id_for_quota_action update_urr_get_far_id_for_quota_action new_update_urr
  by unfold_locales (auto simp: update_urr_set_far_id_for_quota_action_def update_urr_get_far_id_for_quota_action_def new_update_urr_def opt_get_def)

interpretation uu_ethernet_inactivity_timer: optional_member update_urr_set_ethernet_inactivity_timer update_urr_get_ethernet_inactivity_timer new_update_urr
  by unfold_locales (auto simp: update_urr_set_ethernet_inactivity_timer_def update_urr_get_ethernet_inactivity_timer_def new_update_urr_def opt_get_def)

interpretation uu_additional_monitoring_time: optional_member update_urr_set_additional_monitoring_time update_urr_get_additional_monitoring_time new_update_urr
  by unfold_locales (auto simp: update_urr_set_additional_monitoring_time_def update_urr_get_additional_monitoring_time_def new_update_urr_def opt_get_def)

interpretation uq_qer_id: optional_member update_qer_set_qer_id update_qer_get_qer_id new_update_qer
  by unfold_locales (auto simp: update_qer_set_qer_id_def update_qer_get_qer_id_def new_update_qer_def opt_get_def)

interpretation uq_qer_correlation_id: optional_member update_qer_set_qer_correlation_id update_qer_get_qer_correlation_id new_update_qer
  by unfold_locales (auto simp: update_qer_set_qer_correlation_id_def update_qer_get_qer_correlation_id_def new_update_qer_def opt_get_def)

interpretation uq_gate_status: optional_member update_qer_set_gate_status update_qer_get_gate_status new_update_qer
  by unfold_locales (auto simp: update_qer_set_gate_status_def update_qer_get_gate_status_def new_update_qer_def opt_get_def)

interpretation uq_maximum_bitrate: optional_member update_qer_set_maximum_bitrate update_qer_get_maximum_bitrate new_update_qer
  by unfold_locales (auto simp: update_qer_set_maximum_bitrate_def update_qer_get_maximum_bitrate_def new_update_qer_def opt_get_def)

interpretation uq_guaranteed_bitrate: optional_member update_qer_set_guaranteed_bitrate update_qer_get_guaranteed_bitrate new_update_qer
  by unfold_locales (auto simp: update_qer_set_guaranteed_bitrate_def update_qer_get_guaranteed_bitrate_def new_update_qer_def opt_get_def)

interpretation uq_packet_rate: optional_member update_qer_set_packet_rate update_qer_get_packet_rate new_update_qer
  by unfold_locales (auto simp: update_qer_set_packet_rate_def update_qer_get_packet_rate_def new_update_qer_def opt_get_def)

interpretation uq_dl_flow_level_marking: optional_member update_qer_set_dl_flow_level_marking update_qer_get_dl_flow_level_marking new_update_qer
  by unfold_locales (auto simp: update_qer_set_dl_flow_level_marking_def update_qer_get_dl_flow_level_marking_def new_update_qer_def opt_get_def)

interpretation uq_qos_flow_identifier: optional_member update_qer_set_qos_flow_identifier update_qer_get_qos_flow_identifier new_update_qer
  by unfold_locales (auto simp: update_qer_set_qos_flow_identifier_def update_qer_get_qos_flow_identifier_def new_update_qer_def opt_get_def)

interpretation uq_reflective_qos: optional_member update_qer_set_reflective_qos update_qer_get_reflective_qos new_update_qer
  by unfold_locales (auto simp: update_qer_set_reflective_qos_def update_qer_get_reflective_qos_def new_update_qer_def opt_get_def)

interpretation ubr_bar_id: optional_member update_bar_within_pfcp_session_report_response_set_bar_id update_bar_within_pfcp_session_report_response_get_bar_id new_update_bar_within_pfcp_session_report_response
  by unfold_locales (auto simp: update_bar_within_pfcp_session_report_response_set_bar_id_def update_bar_within_pfcp_session_report_response_get_bar_id_def new_update_bar_within_pfcp_session_report_response_def opt_get_def)

interpretation ubr_downlink_data_notification_delay: optional_member update_bar_within_pfcp_session_report_response_set_downlink_data_notification_delay update_bar_within_pfcp_session_report_response_get_downlink_data_notification_delay new_update_bar_within_pfcp_session_report_response
  by unfold_locales (auto simp: update_bar_within_pfcp_session_report_response_set_downlink_data_notification_delay_def update_bar_within_pfcp_session_report_response_get_downlink_data_notification_delay_def new_update_bar_within_pfcp_session_report_response_def opt_get_def)

interpretation ubr_dl_buffering_duration: optional_member update_bar_within_pfcp_session_report_response_set_dl_buffering_duration update_bar_within_pfcp_session_report_response_get_dl_buffering_duration new_update_bar_within_pfcp_session_report_response
  by unfold_locales (auto simp: update_bar_within_pfcp_session_report_response_set_dl_buffering_duration_def update_bar_within_pfcp_session_report_response_get_dl_buffering_duration_def new_update_bar_within_pfcp_session_report_response_def opt_get_def)

interpretation ubr_dl_buffering_buffering_suggested_packet_count: optional_member update_bar_within_pfcp_session_report_response_set_dl_buffering_buffering_suggested_packet_count update_bar_within_pfcp_session_report_response_get_dl_buffering_buffering_suggested_packet_count new_update_bar_within_pfcp_session_report_response
  by unfold_locales (auto simp: update_bar_within_pfcp_session_report_response_set_dl_buffering_buffering_suggested_packet_count_def update_bar_within_pfcp_session_report_response_get_dl_buffering_buffering_suggested_packet_count_def new_update_bar_within_pfcp_session_report_response_def opt_get_def)

interpretation ubr_suggested_buffering_packets_count: optional_member update_bar_within_pfcp_session_report_response_set_suggested_buffering_packets_count update_bar_within_pfcp_session_report_response_get_suggested_buffering_packets_count new_update_bar_within_pfcp_session_report_response
  by unfold_locales (auto simp: update_bar_within_pfcp_session_report_response_set_suggested_buffering_packets_count_def update_bar_within_pfcp_session_report_response_get_suggested_buffering_packets_count_def new_update_bar_within_pfcp_session_report_response_def opt_get_def)

interpretation ru_urr_id: optional_member remove_urr_set_urr_id remove_urr_get_urr_id new_remove_urr
  by unfold_locales (auto simp: remove_urr_set_urr_id_def remove_urr_get_urr_id_def new_remove_urr_def opt_get_def)

interpretation rq_qer_id: optional_member remove_qer_set_qer_id remove_qer_get_qer_id new_remove_qer
  by unfold_locales (auto simp: remove_qer_set_qer_id_def remove_qer_get_qer_id_def new_remove_qer_def opt_get_def)

interpretation ddr_pdr_id: optional_member downlink_data_report_set_pdr_id downlink_data_report_get_pdr_id new_downlink_data_report
  by unfold_locales (auto simp: downlink_data_report_set_pdr_id_def downlink_data_report_get_pdr_id_def new_downlink_data_report_def opt_get_def)

interpretation ddr_downlink_data_service_information: optional_member downlink_data_report_set_downlink_data_service_information downlink_data_report_get_downlink_data_service_information new_downlink_data_report
  by unfold_locales (auto simp: downlink_data_report_set_downlink_data_service_information_def downlink_data_report_get_downlink_data_service_information_def new_downlink_data_report_def opt_get_def)

interpretation cte_traffic_endpoint_id: optional_member create_traffic_endpoint_set_traffic_endpoint_id create_traffic_endpoint_get_traffic_endpoint_id new_create_traffic_endpoint
  by unfold_locales (auto simp: create_traffic_endpoint_set_traffic_endpoint_id_def create_traffic_endpoint_get_traffic_endpoint_id_def new_create_traffic_endpoint_def opt_get_def)

interpretation cte_local_fteid: optional_member create_traffic_endpoint_set_local_fteid create_traffic_endpoint_get_local_fteid new_create_traffic_endpoint
  by unfold_locales (auto simp: create_traffic_endpoint_set_local_fteid_def create_traffic_endpoint_get_local_fteid_def new_create_traffic_endpoint_def opt_get_def)

interpretation cte_network_instance: optional_member create_traffic_endpoint_set_network_instance create_traffic_endpoint_get_network_instance new_create_traffic_endpoint
  by unfold_locales (auto simp: create_traffic_endpoint_set_network_instance_def create_traffic_endpoint_get_network_instance_def new_create_traffic_endpoint_def opt_get_def)

interpretation cte_ue_ip_address: optional_member create_traffic_endpoint_set_ue_ip_address create_traffic_endpoint_get_ue_ip_address new_create_traffic_endpoint
  by unfold_locales (auto simp: create_traffic_endpoint_set_ue_ip_address_def create_traffic_endpoint_get_ue_ip_address_def new_create_traffic_endpoint_def opt_get_def)

interpretation cte_ethernet_pdu_session_information: optional_member create_traffic_endpoint_set_ethernet_pdu_session_information create_traffic_endpoint_get_ethernet_pdu_session_information new_create_traffic_endpoint
  by unfold_locales (auto simp: create_traffic_endpoint_set_ethernet_pdu_session_information_def create_traffic_endpoint_get_ethernet_pdu_session_information_def new_create_traffic_endpoint_def opt_get_def)

interpretation cte_framed_route: optional_member create_traffic_endpoint_set_framed_route create_traffic_endpoint_get_framed_route new_create_traffic_endpoint
  by unfold_locales (auto simp: create_traffic_endpoint_set_framed_route_def create_traffic_endpoint_get_framed_route_def new_create_traffic_endpoint_def opt_get_def)

interpretation cte_framed_routing: optional_member create_traffic_endpoint_set_framed_routing create_traffic_endpoint_get_framed_routing new_create_traffic_endpoint
  by unfold_locales (auto simp: create_traffic_endpoint_set_framed_routing_def create_traffic_endpoint_get_framed_routing_def new_create_traffic_endpoint_def opt_get_def)

interpretation cte_framed_ipv6_route: optional_member create_traffic_endpoint_set_framed_ipv6_route create_traffic_endpoint_get_framed_ipv6_route new_create_traffic_endpoint
  by unfold_locales (auto simp: create_traffic_endpoint_set_framed_ipv6_route_def create_traffic_endpoint_get_framed_ipv6_route_def new_create_traffic_endpoint_def opt_get_def)

interpretation hbq_recovery_time_stamp: optional_member pfcp_heartbeat_request_set_recovery_time_stamp pfcp_heartbeat_request_get_recovery_time_stamp new_pfcp_heartbeat_request
  by unfold_locales (auto simp: pfcp_heartbeat_request_set_recovery_time_stamp_def pfcp_heartbeat_request_get_recovery_time_stamp_def new_pfcp_heartbeat_request_def opt_get_def)

interpretation hbr_recovery_time_stamp: optional_member pfcp_heartbeat_response_set_recovery_time_stamp pfcp_heartbeat_response_get_recovery_time_stamp new_pfcp_heartbeat_response
  by unfold_locales (auto simp: pfcp_heartbeat_response_set_recovery_time_stamp_def pfcp_heartbeat_response_get_recovery_time_stamp_def new_pfcp_heartbeat_response_def opt_get_def)

interpretation asq_node_id: optional_member pfcp_association_setup_request_set_node_id pfcp_association_setup_request_get_node_id new_pfcp_association_setup_request
  by unfold_locales (auto simp: pfcp_association_setup_request_set_node_id_def pfcp_association_setup_request_get_node_id_def new_pfcp_association_setup_request_def opt_get_def)

interpretation asq_recovery_time_stamp: optional_member pfcp_association_setup_request_set_recovery_time_stamp pfcp_association_setup_request_get_recovery_time_stamp new_pfcp_association_setup_request
  by unfold_locales (auto simp: pfcp_association_setup_request_set_recovery_time_stamp_def pfcp_association_setup_request_get_recovery_time_stamp_def new_pfcp_association_setup_request_def opt_get_def)

interpretation asq_up_function_features: optional_member pfcp_association_setup_request_set_up_function_features pfcp_association_setup_request_get_up_function_features new_pfcp_association_setup_request
  by unfold_locales (auto simp: pfcp_association_setup_request_set_up_function_features_def pfcp_association_setup_request_get_up_function_features_def new_pfcp_association_setup_request_def opt_get_def)

interpretation asq_cp_function_features: optional_member pfcp_association_setup_request_set_cp_function_features pfcp_association_setup_request_get_cp_function_features new_pfcp_association_setup_request
  by unfold_locales (auto simp: pfcp_association_setup_request_set_cp_function_features_def pfcp_association_setup_request_get_cp_function_features_def new_pfcp_association_setup_request_def opt_get_def)

interpretation asq_user_plane_ip_resource_information: optional_member pfcp_association_setup_request_set_user_plane_ip_resource_information pfcp_association_setup_request_get_user_plane_ip_resource_information new_pfcp_association_setup_request
  by unfold_locales (auto simp: pfcp_association_setup_request_set_user_plane_ip_resource_information_def pfcp_association_setup_request_get_user_plane_ip_resource_information_def new_pfcp_association_setup_request_def opt_get_def)

interpretation asr_node_id: optional_member pfcp_association_setup_response_set_node_id pfcp_association_setup_response_get_node_id new_pfcp_association_setup_response
  by unfold_locales (auto simp: pfcp_association_setup_response_set_node_id_def pfcp_association_setup_response_get_node_id_def new_pfcp_association_setup_response_def opt_get_def)

interpretation asr_cause: optional_member pfcp_association_setup_response_set_cause pfcp_association_setup_response_get_cause new_pfcp_association_setup_response
  by unfold_locales (auto simp: pfcp_association_setup_response_set_cause_def pfcp_association_setup_response_get_cause_def new_pfcp_association_setup_response_def opt_get_def)

interpretation asr_recovery_time_stamp: optional_member pfcp_association_setup_response_set_recovery_time_stamp pfcp_association_setup_response_get_recovery_time_stamp new_pfcp_association_setup_response
  by unfold_locales (auto simp: pfcp_association_setup_response_set_recovery_time_stamp_def pfcp_association_setup_response_get_recovery_time_stamp_def new_pfcp_association_setup_response_def opt_get_def)

interpretation asr_up_function_features: optional_member pfcp_association_setup_response_set_up_function_features pfcp_association_setup_response_get_up_function_features new_pfcp_association_setup_response
  by unfold_locales (auto simp: pfcp_association_setup_response_set_up_function_features_def pfcp_association_setup_response_get_up_function_features_def new_pfcp_association_setup_response_def opt_get_def)

interpretation asr_cp_function_features: optional_member pfcp_association_setup_response_set_cp_function_features pfcp_association_setup_response_get_cp_function_features new_pfcp_association_setup_response
  by unfold_locales (auto simp: pfcp_association_setup_response_set_cp_function_features_def pfcp_association_setup_response_get_cp_function_features_def new_pfcp_association_setup_response_def opt_get_def)

interpretation asr_user_plane_ip_resource_information: optional_member pfcp_association_setup_response_set_user_plane_ip_resource_information pfcp_association_setup_response_get_user_plane_ip_resource_information new_pfcp_association_setup_response
  by unfold_locales (auto simp: pfcp_association_setup_response_set_user_plane_ip_resource_information_def pfcp_association_setup_response_get_user_plane_ip_resource_information_def new_pfcp_association_setup_response_def opt_get_def)

interpretation auq_node_id: optional_member pfcp_association_update_request_set_node_id pfcp_association_update_request_get_node_id new_pfcp_association_update_request
  by unfold_locales (auto simp: pfcp_association_update_request_set_node_id_def pfcp_association_update_request_get_node_id_def new_pfcp_association_update_request_def opt_get_def)

interpretation auq_up_function_features: optional_member pfcp_association_update_request_set_up_function_features pfcp_association_update_request_get_up_function_features new_pfcp_association_update_request
  by unfold_locales (auto simp: pfcp_association_update_request_set_up_function_features_def pfcp_association_update_request_get_up_function_features_def new_pfcp_association_update_request_def opt_get_def)

interpretation auq_cp_function_features: optional_member pfcp_association_update_request_set_cp_function_features pfcp_association_update_request_get_cp_function_features new_pfcp_association_update_request
  by unfold_locales (auto simp: pfcp_association_update_request_set_cp_function_features_def pfcp_association_update_request_get_cp_function_features_def new_pfcp_association_update_request_def opt_get_def)

interpretation auq_pfcp_association_release_request: optional_member pfcp_association_update_request_set_pfcp_association_release_request pfcp_association_update_request_get_pfcp_association_release_request new_pfcp_association_update_request
  by unfold_locales (auto simp: pfcp_association_update_request_set_pfcp_association_release_request_def pfcp_association_update_request_get_pfcp_association_release_request_def new_pfcp_association_update_request_def opt_get_def)

interpretation auq_graceful_release_period: optional_member pfcp_association_update_request_set_graceful_release_period pfcp_association_update_request_get_graceful_release_period new_pfcp_association_update_request
  by unfold_locales (auto simp: pfcp_association_update_request_set_graceful_release_period_def pfcp_association_update_request_get_graceful_release_period_def new_pfcp_association_update_request_def opt_get_def)

interpretation auq_user_plane_ip_resource_information: optional_member pfcp_association_update_request_set_user_plane_ip_resource_information pfcp_association_update_request_get_user_plane_ip_resource_information new_pfcp_association_update_request
  by unfold_locales (auto simp: pfcp_association_update_request_set_user_plane_ip_resource_information_def pfcp_association_update_request_get_user_plane_ip_resource_information_def new_pfcp_association_update_request_def opt_get_def)

interpretation aur_node_id: optional_member pfcp_association_update_response_set_node_id pfcp_association_update_response_get_node_id new_pfcp_association_update_response
  by unfold_locales (auto simp: pfcp_association_update_response_set_node_id_def pfcp_association_update_response_get_node_id_def new_pfcp_association_update_response_def opt_get_def)

interpretation aur_cause: optional_member pfcp_association_update_response_set_cause pfcp_association_update_response_get_cause new_pfcp_association_update_response
  by unfold_locales (auto simp: pfcp_association_update_response_set_cause_def pfcp_association_update_response_get_cause_def new_pfcp_association_update_response_def opt_get_def)

interpretation aur_up_function_features: optional_member pfcp_association_update_response_set_up_function_features pfcp_association_update_response_get_up_function_features new_pfcp_association_update_response
  by unfold_locales (auto simp: pfcp_association_update_response_set_up_function_features_def pfcp_association_update_response_get_up_function_features_def new_pfcp_association_update_response_def opt_get_def)

interpretation aur_cp_function_features: optional_member pfcp_association_update_response_set_cp_function_features pfcp_association_update_response_get_cp_function_features new_pfcp_association_update_response
  by unfold_locales (auto simp: pfcp_association_update_response_set_cp_function_features_def pfcp_association_update_response_get_cp_function_features_def new_pfcp_association_update_response_def opt_get_def)

interpretation arq_node_id: optional_member pfcp_association_release_request_set_node_id pfcp_association_release_request_get_node_id new_pfcp_association_release_request
  by unfold_locales (auto simp: pfcp_association_release_request_set_node_id_def pfcp_association_release_request_get_node_id_def new_pfcp_association_release_request_def opt_get_def)

interpretation arr_node_id: optional_member pfcp_association_release_response_set_node_id pfcp_association_release_response_get_node_id new_pfcp_association_release_response
  by unfold_locales (auto simp: pfcp_association_release_response_set_node_id_def pfcp_association_release_response_get_node_id_def new_pfcp_association_release_response_def opt_get_def)

interpretation arr_cause: optional_member pfcp_association_release_response_set_cause pfcp_association_release_response_get_cause new_pfcp_association_release_response
  by unfold_locales (auto simp: pfcp_association_release_response_set_cause_def pfcp_association_release_response_get_cause_def new_pfcp_association_release_response_def opt_get_def)

interpretation nrq_node_id: optional_member pfcp_node_report_request_set_node_id pfcp_node_report_request_get_node_id new_pfcp_node_report_request
  by unfold_locales (auto simp: pfcp_node_report_request_set_node_id_def pfcp_node_report_request_get_node_id_def new_pfcp_node_report_request_def opt_get_def)

interpretation nrq_node_report_type: optional_member pfcp_node_report_request_set_node_report_type pfcp_node_report_request_get_node_report_type new_pfcp_node_report_request
  by unfold_locales (auto simp: pfcp_node_report_request_set_node_report_type_def pfcp_node_report_request_get_node_report_type_def new_pfcp_node_report_request_def opt_get_def)

interpretation nrq_user_plane_path_failure_report: optional_member pfcp_node_report_request_set_user_plane_path_failure_report pfcp_node_report_request_get_user_plane_path_failure_report new_pfcp_node_report_request
  by unfold_locales (auto simp: pfcp_node_report_request_set_user_plane_path_failure_report_def pfcp_node_report_request_get_user_plane_path_failure_report_def new_pfcp_node_report_request_def opt_get_def)

interpretation pmq_application_ids_pfds: optional_member pfcp_pfd_management_request_set_application_ids_pfds pfcp_pfd_management_request_get_application_ids_pfds new_pfcp_pfd_management_request
  by unfold_locales (auto simp: pfcp_pfd_management_request_set_application_ids_pfds_def pfcp_pfd_management_request_get_application_ids_pfds_def new_pfcp_pfd_management_request_def opt_get_def)

interpretation pmr_cause: optional_member pfcp_pfd_management_response_set_cause pfcp_pfd_management_response_get_cause new_pfcp_pfd_management_response
  by unfold_locales (auto simp: pfcp_pfd_management_response_set_cause_def pfcp_pfd_management_response_get_cause_def new_pfcp_pfd_management_response_def opt_get_def)

interpretation pmr_offending_ie: optional_member pfcp_pfd_management_response_set_offending_ie pfcp_pfd_management_response_get_offending_ie new_pfcp_pfd_management_response
  by unfold_locales (auto simp: pfcp_pfd_management_response_set_offending_ie_def pfcp_pfd_management_response_get_offending_ie_def new_pfcp_pfd_management_response_def opt_get_def)

interpretation nrr_node_id: optional_member pfcp_node_report_response_set_node_id pfcp_node_report_response_get_node_id new_pfcp_node_report_response
  by unfold_locales (auto simp: pfcp_node_report_response_set_node_id_def pfcp_node_report_response_get_node_id_def new_pfcp_node_report_response_def opt_get_def)

interpretation nrr_cause: optional_member pfcp_node_report_response_set_cause pfcp_node_report_response_get_cause new_pfcp_node_report_response
  by unfold_locales (auto simp: pfcp_node_report_response_set_cause_def pfcp_node_report_response_get_cause_def new_pfcp_node_report_response_def opt_get_def)

interpretation nrr_offending_ie: optional_member pfcp_node_report_response_set_offending_ie pfcp_node_report_response_get_offending_ie new_pfcp_node_report_response
  by unfold_locales (auto simp: pfcp_node_report_response_set_offending_ie_def pfcp_node_report_response_get_offending_ie_def new_pfcp_node_report_response_def opt_get_def)

interpretation ssq_node_id: optional_member pfcp_session_set_deletion_request_set_node_id pfcp_session_set_deletion_request_get_node_id new_pfcp_session_set_deletion_request
  by unfold_locales (auto simp: pfcp_session_set_deletion_request_set_node_id_def pfcp_session_set_deletion_request_get_node_id_def new_pfcp_session_set_deletion_request_def opt_get_def)

interpretation ssq_sgw_c_fq_csid: optional_member pfcp_session_set_deletion_request_set_sgw_c_fq_csid pfcp_session_set_deletion_request_get_sgw_c_fq_csid new_pfcp_session_set_deletion_request
  by unfold_locales (auto simp: pfcp_session_set_deletion_request_set_sgw_c_fq_csid_def pfcp_session_set_deletion_request_get_sgw_c_fq_csid_def new_pfcp_session_set_deletion_request_def opt_get_def)

interpretation ssq_pgw_c_fq_csid: optional_member pfcp_session_set_deletion_request_set_pgw_c_fq_csid pfcp_session_set_deletion_request_get_pgw_c_fq_csid new_pfcp_session_set_deletion_request
  by unfold_locales (auto simp: pfcp_session_set_deletion_request_set_pgw_c_fq_csid_def pfcp_session_set_deletion_request_get_pgw_c_fq_csid_def new_pfcp_session_set_deletion_request_def opt_get_def)

interpretation ssq_sgw_u_fq_csid: optional_member pfcp_session_set_deletion_request_set_sgw_u_fq_csid pfcp_session_set_deletion_request_get_sgw_u_fq_csid new_pfcp_session_set_deletion_request
  by unfold_locales (auto simp: pfcp_session_set_deletion_request_set_sgw_u_fq_csid_def pfcp_session_set_deletion_request_get_sgw_u_fq_csid_def new_pfcp_session_set_deletion_request_def opt_get_def)

interpretation ssq_pgw_u_fq_csid: optional_member pfcp_session_set_deletion_request_set_pgw_u_fq_csid pfcp_session_set_deletion_request_get_pgw_u_fq_csid new_pfcp_session_set_deletion_request
  by unfold_locales (auto simp: pfcp_session_set_deletion_request_set_pgw_u_fq_csid_def pfcp_session_set_deletion_request_get_pgw_u_fq_csid_def new_pfcp_session_set_deletion_request_def opt_get_def)

interpretation ssq_twan_fq_csid: optional_member pfcp_session_set_deletion_request_set_twan_fq_csid pfcp_session_set_deletion_request_get_twan_fq_csid new_pfcp_session_set_deletion_request
  by unfold_locales (auto simp: pfcp_session_set_deletion_request_set_twan_fq_csid_def pfcp_session_set_deletion_request_get_twan_fq_csid_def new_pfcp_session_set_deletion_request_def opt_get_def)

interpretation ssq_epdg_fq_csid: optional_member pfcp_session_set_deletion_request_set_epdg_fq_csid pfcp_session_set_deletion_request_get_epdg_fq_csid new_pfcp_session_set_deletion_request
  by unfold_locales (auto simp: pfcp_session_set_deletion_request_set_epdg_fq_csid_def pfcp_session_set_deletion_request_get_epdg_fq_csid_def new_pfcp_session_set_deletion_request_def opt_get_def)

interpretation ssq_mme_fq_csid: optional_member pfcp_session_set_deletion_request_set_mme_fq_csid pfcp_session_set_deletion_request_get_mme_fq_csid new_pfcp_session_set_deletion_request
  by unfold_locales (auto simp: pfcp_session_set_deletion_request_set_mme_fq_csid_def pfcp_session_set_deletion_request_get_mme_fq_csid_def new_pfcp_session_set_deletion_request_def opt_get_def)

interpretation ssr_node_id: optional_member pfcp_session_set_deletion_response_set_node_id pfcp_session_set_deletion_response_get_node_id new_pfcp_session_set_deletion_response
  by unfold_locales (auto simp: pfcp_session_set_deletion_response_set_node_id_def pfcp_session_set_deletion_response_get_node_id_def new_pfcp_session_set_deletion_response_def opt_get_def)

interpretation ssr_cause: optional_member pfcp_session_set_deletion_response_set_cause pfcp_session_set_deletion_response_get_cause new_pfcp_session_set_deletion_response
  by unfold_locales (auto simp: pfcp_session_set_deletion_response_set_cause_def pfcp_session_set_deletion_response_get_cause_def new_pfcp_session_set_deletion_response_def opt_get_def)

interpretation ssr_offending_ie: optional_member pfcp_session_set_deletion_response_set_offending_ie pfcp_session_set_deletion_response_get_offending_ie new_pfcp_session_set_deletion_response
  by unfold_locales (auto simp: pfcp_session_set_deletion_response_set_offending_ie_def pfcp_session_set_deletion_response_get_offending_ie_def new_pfcp_session_set_deletion_response_def opt_get_def)

interpretation seq_node_id: optional_member pfcp_session_establishment_request_set_node_id pfcp_session_establishment_request_get_node_id new_pfcp_session_establishment_request
  by unfold_locales (auto simp: pfcp_session_establishment_request_set_node_id_def pfcp_session_establishment_request_get_node_id_def new_pfcp_session_establishment_request_def opt_get_def)

interpretation seq_cp_fseid: optional_member pfcp_session_establishment_request_set_cp_fseid pfcp_session_establishment_request_get_cp_fseid new_pfcp_session_establishment_request
  by unfold_locales (auto simp: pfcp_session_establishment_request_set_cp_fseid_def pfcp_session_establishment_request_get_cp_fseid_def new_pfcp_session_establishment_request_def opt_get_def)

interpretation seq_create_bar: optional_member pfcp_session_establishment_request_set_create_bar pfcp_session_establishment_request_get_create_bar new_pfcp_session_establishment_request
  by unfold_locales (auto simp: pfcp_session_establishment_request_set_create_bar_def pfcp_session_establishment_request_get_create_bar_def new_pfcp_session_establishment_request_def opt_get_def)

interpretation seq_sgw_c_fq_csid: optional_member pfcp_session_establishment_request_set_sgw_c_fq_csid pfcp_session_establishment_request_get_sgw_c_fq_csid new_pfcp_session_establishment_request
  by unfold_locales (auto simp: pfcp_session_establishment_request_set_sgw_c_fq_csid_def pfcp_session_establishment_request_get_sgw_c_fq_csid_def new_pfcp_session_establishment_request_def opt_get_def)

interpretation seq_mme_fq_csid: optional_member pfcp_session_establishment_request_set_mme_fq_csid pfcp_session_establishment_request_get_mme_fq_csid new_pfcp_session_establishment_request
  by unfold_locales (auto simp: pfcp_session_establishment_request_set_mme_fq_csid_def pfcp_session_establishment_request_get_mme_fq_csid_def new_pfcp_session_establishment_request_def opt_get_def)

interpretation seq_pgw_c_fq_csid: optional_member pfcp_session_establishment_request_set_pgw_c_fq_csid pfcp_session_establishment_request_get_pgw_c_fq_csid new_pfcp_session_establishment_request
  by unfold_locales (auto simp: pfcp_session_establishment_request_set_pgw_c_fq_csid_def pfcp_session_establishment_request_get_pgw_c_fq_csid_def new_pfcp_session_establishment_request_def opt_get_def)

interpretation seq_epdg_fq_csid: optional_member pfcp_session_establishment_request_set_epdg_fq_csid pfcp_session_establishment_request_get_epdg_fq_csid new_pfcp_session_establishment_request
  by unfold_locales (auto simp: pfcp_session_establishment_request_set_epdg_fq_csid_def pfcp_session_establishment_request_get_epdg_fq_csid_def new_pfcp_session_establishment_request_def opt_get_def)

interpretation seq_twan_fq_csid: optional_member pfcp_session_establishment_request_set_twan_fq_csid pfcp_session_establishment_request_get_twan_fq_csid new_pfcp_session_establishment_request
  by unfold_locales (auto simp: pfcp_session_establishment_request_set_twan_fq_csid_def pfcp_session_establishment_request_get_twan_fq_csid_def new_pfcp_session_establishment_request_def opt_get_def)

interpretation seq_user_plane_inactivity_timer: optional_member pfcp_session_establishment_request_set_user_plane_inactivity_timer pfcp_session_establishment_request_get_user_plane_inactivity_timer new_pfcp_session_establishment_request
  by unfold_locales (auto simp: pfcp_session_establishment_request_set_user_plane_inactivity_timer_def pfcp_session_establishment_request_get_user_plane_inactivity_timer_def new_pfcp_session_establishment_request_def opt_get_def)

interpretation seq_user_id: optional_member pfcp_session_establishment_request_set_user_id pfcp_session_establishment_request_get_user_id new_pfcp_session_establishment_request
  by unfold_locales (auto simp: pfcp_session_establishment_request_set_user_id_def pfcp_session_establishment_request_get_user_id_def new_pfcp_session_establishment_request_def opt_get_def)

interpretation seq_trace_information: optional_member pfcp_session_establishment_request_set_trace_information pfcp_session_establishment_request_get_trace_information new_pfcp_session_establishment_request
  by unfold_locales (auto simp: pfcp_session_establishment_request_set_trace_information_def pfcp_session_establishment_request_get_trace_information_def new_pfcp_session_establishment_request_def opt_get_def)

interpretation ser_node_id: optional_member pfcp_session_establishment_response_set_node_id pfcp_session_establishment_response_get_node_id new_pfcp_session_establishment_response
  by unfold_locales (auto simp: pfcp_session_establishment_response_set_node_id_def pfcp_session_establishment_response_get_node_id_def new_pfcp_session_establishment_response_def opt_get_def)

interpretation ser_cause: optional_member pfcp_session_establishment_response_set_cause pfcp_session_establishment_response_get_cause new_pfcp_session_establishment_response
  by unfold_locales (auto simp: pfcp_session_establishment_response_set_cause_def pfcp_session_establishment_response_get_cause_def new_pfcp_session_establishment_response_def opt_get_def)

interpretation ser_offending_ie: optional_member pfcp_session_establishment_response_set_offending_ie pfcp_session_establishment_response_get_offending_ie new_pfcp_session_establishment_response
  by unfold_locales (auto simp: pfcp_session_establishment_response_set_offending_ie_def pfcp_session_establishment_response_get_offending_ie_def new_pfcp_session_establishment_response_def opt_get_def)

interpretation ser_up_fseid: optional_member pfcp_session_establishment_response_set_up_fseid pfcp_session_establishment_response_get_up_fseid new_pfcp_session_establishment_response
  by unfold_locales (auto simp: pfcp_session_establishment_response_set_up_fseid_def pfcp_session_establishment_response_get_up_fseid_def new_pfcp_session_establishment_response_def opt_get_def)

interpretation ser_load_control_information: optional_member pfcp_session_establishment_response_set_load_control_information pfcp_session_establishment_response_get_load_control_information new_pfcp_session_establishment_response
  by unfold_locales (auto simp: pfcp_session_establishment_response_set_load_control_information_def pfcp_session_establishment_response_get_load_control_information_def new_pfcp_session_establishment_response_def opt_get_def)

interpretation ser_overload_control_information: optional_member pfcp_session_establishment_response_set_overload_control_information pfcp_session_establishment_response_get_overload_control_information new_pfcp_session_establishment_response
  by unfold_locales (auto simp: pfcp_session_establishment_response_set_overload_control_information_def pfcp_session_establishment_response_get_overload_control_information_def new_pfcp_session_establishment_response_def opt_get_def)

interpretation ser_sgw_u_fq_csid: optional_member pfcp_session_establishment_response_set_sgw_u_fq_csid pfcp_session_establishment_response_get_sgw_u_fq_csid new_pfcp_session_establishment_response
  by unfold_locales (auto simp: pfcp_session_establishment_response_set_sgw_u_fq_csid_def pfcp_session_establishment_response_get_sgw_u_fq_csid_def new_pfcp_session_establishment_response_def opt_get_def)

interpretation ser_pgw_u_fq_csid: optional_member pfcp_session_establishment_response_set_pgw_u_fq_csid pfcp_session_establishment_response_get_pgw_u_fq_csid new_pfcp_session_establishment_response
  by unfold_locales (auto simp: pfcp_session_establishment_response_set_pgw_u_fq_csid_def pfcp_session_establishment_response_get_pgw_u_fq_csid_def new_pfcp_session_establishment_response_def opt_get_def)

interpretation ser_failed_rule_id: optional_member pfcp_session_establishment_response_set_failed_rule_id pfcp_session_establishment_response_get_failed_rule_id new_pfcp_session_establishment_response
  by unfold_locales (auto simp: pfcp_session_establishment_response_set_failed_rule_id_def pfcp_session_establishment_response_get_failed_rule_id_def new_pfcp_session_establishment_response_def opt_get_def)

interpretation ser_created_traffic_endpoint: optional_member pfcp_session_establishment_response_set_created_traffic_endpoint pfcp_session_establishment_response_get_created_traffic_endpoint new_pfcp_session_establishment_response
  by unfold_locales (auto simp: pfcp_session_establishment_response_set_created_traffic_endpoint_def pfcp_session_establishment_response_get_created_traffic_endpoint_def new_pfcp_session_establishment_response_def opt_get_def)

interpretation smq_cp_fseid: optional_member pfcp_session_modification_request_set_cp_fseid pfcp_session_modification_request_get_cp_fseid new_pfcp_session_modification_request
  by unfold_locales (auto simp: pfcp_session_modification_request_set_cp_fseid_def pfcp_session_modification_request_get_cp_fseid_def new_pfcp_session_modification_request_def opt_get_def)

interpretation smq_remove_bar: optional_member pfcp_session_modification_request_set_remove_bar pfcp_session_modification_request_get_remove_bar new_pfcp_session_modification_request
  by unfold_locales (auto simp: pfcp_session_modification_request_set_remove_bar_def pfcp_session_modification_request_get_remove_bar_def new_pfcp_session_modification_request_def opt_get_def)

interpretation smq_remove_traffic_endpoint: optional_member pfcp_session_modification_request_set_remove_traffic_endpoint pfcp_session_modification_request_get_remove_traffic_endpoint new_pfcp_session_modification_request
  by unfold_locales (auto simp: pfcp_session_modification_request_set_remove_traffic_endpoint_def pfcp_session_modification_request_get_remove_traffic_endpoint_def new_pfcp_session_modification_request_def opt_get_def)

interpretation smq_create_bar: optional_member pfcp_session_modification_request_set_create_bar pfcp_session_modification_request_get_create_bar new_pfcp_session_modification_request
  by unfold_locales (auto simp: pfcp_session_modification_request_set_create_bar_def pfcp_session_modification_request_get_create_bar_def new_pfcp_session_modification_request_def opt_get_def)

interpretation smq_create_traffic_endpoint: optional_member pfcp_session_modification_request_set_create_traffic_endpoint pfcp_session_modification_request_get_create_traffic_endpoint new_pfcp_session_modification_request
  by unfold_locales (auto simp: pfcp_session_modification_request_set_create_traffic_endpoint_def pfcp_session_modification_request_get_create_traffic_endpoint_def new_pfcp_session_modification_request_def opt_get_def)

interpretation smq_update_bar: optional_member pfcp_session_modification_request_set_update_bar pfcp_session_modification_request_get_update_bar new_pfcp_session_modification_request
  by unfold_locales (auto simp: pfcp_session_modification_request_set_update_bar_def pfcp_session_modification_request_get_update_bar_def new_pfcp_session_modification_request_def opt_get_def)

interpretation smq_update_traffic_endpoint: optional_member pfcp_session_modification_request_set_update_traffic_endpoint pfcp_session_modification_request_get_update_traffic_endpoint new_pfcp_session_modification_request
  by unfold_locales (auto simp: pfcp_session_modification_request_set_update_traffic_endpoint_def pfcp_session_modification_request_get_update_traffic_endpoint_def new_pfcp_session_modification_request_def opt_get_def)

interpretation smq_pfcpsmreq_flags: optional_member pfcp_session_modification_request_set_pfcpsmreq_flags pfcp_session_modification_request_get_pfcpsmreq_flags new_pfcp_session_modification_request
  by unfold_locales (auto simp: pfcp_session_modification_request_set_pfcpsmreq_flags_def pfcp_session_modification_request_get_pfcpsmreq_flags_def new_pfcp_session_modification_request_def opt_get_def)

interpretation smq_pgw_c_fq_csid: optional_member pfcp_session_modification_request_set_pgw_c_fq_csid pfcp_session_modification_request_get_pgw_c_fq_csid new_pfcp_session_modification_request
  by unfold_locales (auto simp: pfcp_session_modification_request_set_pgw_c_fq_csid_def pfcp_session_modification_request_get_pgw_c_fq_csid_def new_pfcp_session_modification_request_def opt_get_def)

interpretation smq_sgw_c_fq_csid: optional_member pfcp_session_modification_request_set_sgw_c_fq_csid pfcp_session_modification_request_get_sgw_c_fq_csid new_pfcp_session_modification_request
  by unfold_locales (auto simp: pfcp_session_modification_request_set_sgw_c_fq_csid_def pfcp_session_modification_request_get_sgw_c_fq_csid_def new_pfcp_session_modification_request_def opt_get_def)

interpretation smq_mme_fq_csid: optional_member pfcp_session_modification_request_set_mme_fq_csid pfcp_session_modification_request_get_mme_fq_csid new_pfcp_session_modification_request
  by unfold_locales (auto simp: pfcp_session_modification_request_set_mme_fq_csid_def pfcp_session_modification_request_get_mme_fq_csid_def new_pfcp_session_modification_request_def opt_get_def)

interpretation smq_epdg_fq_csid: optional_member pfcp_session_modification_request_set_epdg_fq_csid pfcp_session_modification_request_get_epdg_fq_csid new_pfcp_session_modification_request
  by unfold_locales (auto simp: pfcp_session_modification_request_set_epdg_fq_csid_def pfcp_session_modification_request_get_epdg_fq_csid_def new_pfcp_session_modification_request_def opt_get_def)

interpretation smq_twan_fq_csid: optional_member pfcp_session_modification_request_set_twan_fq_csid pfcp_session_modification_request_get_twan_fq_csid new_pfcp_session_modification_request
  by unfold_locales (auto simp: pfcp_session_modification_request_set_twan_fq_csid_def pfcp_session_modification_request_get_twan_fq_csid_def new_pfcp_session_modification_request_def opt_get_def)

interpretation smq_user_plane_inactivity_timer: optional_member pfcp_session_modification_request_set_user_plane_inactivity_timer pfcp_session_modification_request_get_user_plane_inactivity_timer new_pfcp_session_modification_request
  by unfold_locales (auto simp: pfcp_session_modification_request_set_user_plane_inactivity_timer_def pfcp_session_modification_request_get_user_plane_inactivity_timer_def new_pfcp_session_modification_request_def opt_get_def)

interpretation smq_query_urr_reference: optional_member pfcp_session_modification_request_set_query_urr_reference pfcp_session_modification_request_get_query_urr_reference new_pfcp_session_modification_request
  by unfold_locales (auto simp: pfcp_session_modification_request_set_query_urr_reference_def pfcp_session_modification_request_get_query_urr_reference_def new_pfcp_session_modification_request_def opt_get_def)

interpretation smq_trace_information: optional_member pfcp_session_modification_request_set_trace_information pfcp_session_modification_request_get_trace_information new_pfcp_session_modification_request
  by unfold_locales (auto simp: pfcp_session_modification_request_set_trace_information_def pfcp_session_modification_request_get_trace_information_def new_pfcp_session_modification_request_def opt_get_def)

interpretation smr_cause: optional_member pfcp_session_modification_response_set_cause pfcp_session_modification_response_get_cause new_pfcp_session_modification_response
  by unfold_locales (auto simp: pfcp_session_modification_response_set_cause_def pfcp_session_modification_response_get_cause_def new_pfcp_session_modification_response_def opt_get_def)

interpretation smr_offending_ie: optional_member pfcp_session_modification_response_set_offending_ie pfcp_session_modification_response_get_offending_ie new_pfcp_session_modification_response
  by unfold_locales (auto simp: pfcp_session_modification_response_set_offending_ie_def pfcp_session_modification_response_get_offending_ie_def new_pfcp_session_modification_response_def opt_get_def)

interpretation smr_load_control_information: optional_member pfcp_session_modification_response_set_load_control_information pfcp_session_modification_response_get_load_control_information new_pfcp_session_modification_response
  by unfold_locales (auto simp: pfcp_session_modification_response_set_load_control_information_def pfcp_session_modification_response_get_load_control_information_def new_pfcp_session_modification_response_def opt_get_def)

interpretation smr_overload_control_information: optional_member pfcp_session_modification_response_set_overload_control_information pfcp_session_modification_response_get_overload_control_information new_pfcp_session_modification_response
  by unfold_locales (auto simp: pfcp_session_modification_response_set_overload_control_information_def pfcp_session_modification_response_get_overload_control_information_def new_pfcp_session_modification_response_def opt_get_def)

interpretation smr_usage_report: optional_member pfcp_session_modification_response_set_usage_report pfcp_session_modification_response_get_usage_report new_pfcp_session_modification_response
  by unfold_locales (auto simp: pfcp_session_modification_response_set_usage_report_def pfcp_session_modification_response_get_usage_report_def new_pfcp_session_modification_response_def opt_get_def)

interpretation smr_failed_rule_id: optional_member pfcp_session_modification_response_set_failed_rule_id pfcp_session_modification_response_get_failed_rule_id new_pfcp_session_modification_response
  by unfold_locales (auto simp: pfcp_session_modification_response_set_failed_rule_id_def pfcp_session_modification_response_get_failed_rule_id_def new_pfcp_session_modification_response_def opt_get_def)

interpretation smr_additional_usage_reports_information: optional_member pfcp_session_modification_response_set_additional_usage_reports_information pfcp_session_modification_response_get_additional_usage_reports_information new_pfcp_session_modification_response
  by unfold_locales (auto simp: pfcp_session_modification_response_set_additional_usage_reports_information_def pfcp_session_modification_response_get_additional_usage_reports_information_def new_pfcp_session_modification_response_def opt_get_def)

interpretation smr_created_traffic_endpoint: optional_member pfcp_session_modification_response_set_created_traffic_endpoint pfcp_session_modification_response_get_created_traffic_endpoint new_pfcp_session_modification_response
  by unfold_locales (auto simp: pfcp_session_modification_response_set_created_traffic_endpoint_def pfcp_session_modification_response_get_created_traffic_endpoint_def new_pfcp_session_modification_response_def opt_get_def)

interpretation sdr_cause: optional_member pfcp_session_deletion_response_set_cause pfcp_session_deletion_response_get_cause new_pfcp_session_deletion_response
  by unfold_locales (auto simp: pfcp_session_deletion_response_set_cause_def pfcp_session_deletion_response_get_cause_def new_pfcp_session_deletion_response_def opt_get_def)

interpretation sdr_offending_ie: optional_member pfcp_session_deletion_response_set_offending_ie pfcp_session_deletion_response_get_offending_ie new_pfcp_session_deletion_response
  by unfold_locales (auto simp: pfcp_session_deletion_response_set_offending_ie_def pfcp_session_deletion_response_get_offending_ie_def new_pfcp_session_deletion_response_def opt_get_def)

interpretation srq_report_type: optional_member pfcp_session_report_request_set_report_type pfcp_session_report_request_get_report_type new_pfcp_session_report_request
  by unfold_locales (auto simp: pfcp_session_report_request_set_report_type_def pfcp_session_report_request_get_report_type_def new_pfcp_session_report_request_def opt_get_def)

interpretation srq_downlink_data_report: optional_member pfcp_session_report_request_set_downlink_data_report pfcp_session_report_request_get_downlink_data_report new_pfcp_session_report_request
  by unfold_locales (auto simp: pfcp_session_report_request_set_downlink_data_report_def pfcp_session_report_request_get_downlink_data_report_def new_pfcp_session_report_request_def opt_get_def)

interpretation srq_usage_report: optional_member pfcp_session_report_request_set_usage_report pfcp_session_report_request_get_usage_report new_pfcp_session_report_request
  by unfold_locales (auto simp: pfcp_session_report_request_set_usage_report_def pfcp_session_report_request_get_usage_report_def new_pfcp_session_report_request_def opt_get_def)

interpretation srq_error_indication_report: optional_member pfcp_session_report_request_set_error_indication_report pfcp_session_report_request_get_error_indication_report new_pfcp_session_report_request
  by unfold_locales (auto simp: pfcp_session_report_request_set_error_indication_report_def pfcp_session_report_request_get_error_indication_report_def new_pfcp_session_report_request_def opt_get_def)

interpretation srq_load_control_information: optional_member pfcp_session_report_request_set_load_control_information pfcp_session_report_request_get_load_control_information new_pfcp_session_report_request
  by unfold_locales (auto simp: pfcp_session_report_request_set_load_control_information_def pfcp_session_report_request_get_load_control_information_def new_pfcp_session_report_request_def opt_get_def)

interpretation srq_overload_control_information: optional_member pfcp_session_report_request_set_overload_control_information pfcp_session_report_request_get_overload_control_information new_pfcp_session_report_request
  by unfold_locales (auto simp: pfcp_session_report_request_set_overload_control_information_def pfcp_session_report_request_get_overload_control_information_def new_pfcp_session_report_request_def opt_get_def)

interpretation srq_additional_usage_reports_information: optional_member pfcp_session_report_request_set_additional_usage_reports_information pfcp_session_report_request_get_additional_usage_reports_information new_pfcp_session_report_request
  by unfold_locales (auto simp: pfcp_session_report_request_set_additional_usage_reports_information_def pfcp_session_report_request_get_additional_usage_reports_information_def new_pfcp_session_report_request_def opt_get_def)

interpretation srr_cause: optional_member pfcp_session_report_response_set_cause pfcp_session_report_response_get_cause new_pfcp_session_report_response
  by unfold_locales (auto simp: pfcp_session_report_response_set_cause_def pfcp_session_report_response_get_cause_def new_pfcp_session_report_response_def opt_get_def)

interpretation srr_offending_ie: optional_member pfcp_session_report_response_set_offending_ie pfcp_session_report_response_get_offending_ie new_pfcp_session_report_response
  by unfold_locales (auto simp: pfcp_session_report_response_set_offending_ie_def pfcp_session_report_response_get_offending_ie_def new_pfcp_session_report_response_def opt_get_def)

interpretation srr_update_bar: optional_member pfcp_session_report_response_set_update_bar pfcp_session_report_response_get_update_bar new_pfcp_session_report_response
  by unfold_locales (auto simp: pfcp_session_report_response_set_update_bar_def pfcp_session_report_response_get_update_bar_def new_pfcp_session_report_response_def opt_get_def)

end
