(* ===== verification/Pfcp_Conversion.thy ===== *)
theory Pfcp_Conversion
  imports Ie_Encoding Pfcp_Messages
begin

text \<open>
  From elements to containers, the methods \<^verbatim>\<open>to_core_type\<close> of \<^verbatim>\<open>src/oai/pfcp/3gpp_29.244.hpp\<close>.  A value
  of \<open>container\<close> is an object of a class derived from \<^verbatim>\<open>pfcp_ies_container\<close>; an overload of \<^verbatim>\<open>set\<close> that
  the class does not override throws.  A group is converted into a fresh container of its own
  class first, then stored into the target.

  The conversion of a Create URR never ends: the overload meant for it takes another type, so
  that the method calls itself.
\<close>

section \<open>Containers\<close>

datatype container =
    K_create_pdr create_pdr
  | K_pdi pdi
  | K_create_far create_far
  | K_forwarding_parameters forwarding_parameters
  | K_duplicating_parameters duplicating_parameters
  | K_create_urr create_urr
  | K_create_qer create_qer
  | K_created_pdr created_pdr
  | K_update_pdr update_pdr
  | K_update_far update_far
  | K_update_forwarding_parameters update_forwarding_parameters
  | K_update_bar_within_pfcp_session_report_response update_bar_within_pfcp_session_report_response
  | K_update_urr update_urr
  | K_update_qer update_qer
  | K_remove_pdr remove_pdr
  | K_remove_far remove_far
  | K_remove_urr remove_urr
  | K_remove_qer remove_qer
  | K_downlink_data_report downlink_data_report
  | K_pfcp_heartbeat_request pfcp_heartbeat_request
  | K_pfcp_heartbeat_response pfcp_heartbeat_response
  | K_pfcp_association_setup_request pfcp_association_setup_request
  | K_pfcp_association_setup_response pfcp_association_setup_response
  | K_pfcp_association_update_request pfcp_association_update_request
  | K_pfcp_association_update_response pfcp_association_update_response
  | K_pfcp_association_release_request pfcp_association_release_request
  | K_pfcp_association_release_response pfcp_association_release_response
  | K_pfcp_node_report_request pfcp_node_report_request
  | K_pfcp_pfd_management_request pfcp_pfd_management_request
  | K_pfcp_pfd_management_response pfcp_pfd_management_response
  | K_pfcp_version_not_supported_response pfcp_version_not_supported_response
  | K_pfcp_node_report_response pfcp_node_report_response
  | K_pfcp_session_set_deletion_request pfcp_session_set_deletion_request
  | K_pfcp_session_set_deletion_response pfcp_session_set_deletion_response
  | K_pfcp_session_establishment_request pfcp_session_establishment_request
  | K_pfcp_session_establishment_response pfcp_session_establishment_response
  | K_pfcp_session_modification_request pfcp_session_modification_request
  | K_pfcp_session_modification_response pfcp_session_modification_response
  | K_pfcp_session_deletion_request pfcp_session_deletion_request
  | K_pfcp_session_deletion_response pfcp_session_deletion_response
  | K_pfcp_session_report_request pfcp_session_report_request
  | K_pfcp_session_report_response pfcp_session_report_response

text \<open>The type that the default of an overload names in its exception.\<close>

primrec core_ie_type :: "core_value \<Rightarrow> u8" where
  "core_ie_type (Core_cause v) = PFCP_IE_CAUSE"
| "core_ie_type (Core_source_interface v) = PFCP_IE_SOURCE_INTERFACE"
| "core_ie_type (Core_fteid v) = PFCP_IE_F_TEID"
| "core_ie_type (Core_network_instance v) = PFCP_IE_NETWORK_INSTANCE"
| "core_ie_type (Core_sdf_filter v) = PFCP_IE_SDF_FILTER"
| "core_ie_type (Core_application_id v) = PFCP_IE_APPLICATION_ID"
| "core_ie_type (Core_gate_status v) = PFCP_IE_GATE_STATUS"
| "core_ie_type (Core_mbr v) = PFCP_IE_MBR"
| "core_ie_type (Core_gbr v) = PFCP_IE_GBR"
| "core_ie_type (Core_qer_correlation_id v) = PFCP_IE_QER_CORRELATION_ID"
| "core_ie_type (Core_precedence v) = PFCP_IE_PRECEDENCE"
| "core_ie_type (Core_transport_level_marking v) = PFCP_IE_TRANSPORT_LEVEL_MARKING"
| "core_ie_type (Core_volume_threshold v) = PFCP_IE_VOLUME_THRESHOLD"
| "core_ie_type (Core_time_threshold v) = PFCP_IE_TIME_THRESHOLD"
| "core_ie_type (Core_monitoring_time v) = PFCP_IE_MONITORING_TIME"
| "core_ie_type (Core_subsequent_volume_threshold v) = PFCP_IE_SUBSEQUENT_VOLUME_THRESHOLD"
| "core_ie_type (Core_subsequent_time_threshold v) = PFCP_IE_SUBSEQUENT_TIME_THRESHOLD"
| "core_ie_type (Core_inactivity_detection_time v) = PFCP_IE_INACTIVITY_DETECTION_TIME"
| "core_ie_type (Core_reporting_triggers v) = PFCP_IE_REPORTING_TRIGGERS"
| "core_ie_type (Core_report_type v) = PFCP_IE_REPORT_TYPE"
| "core_ie_type (Core_offending_ie v) = PFCP_IE_OFFENDING_IE"
| "core_ie_type (Core_forwarding_policy v) = PFCP_IE_FORWARDING_POLICY"
| "core_ie_type (Core_destination_interface v) = PFCP_IE_DESTINATION_INTERFACE"
| "core_ie_type (Core_up_function_features v) = PFCP_IE_UP_FUNCTION_FEATURES"
| "core_ie_type (Core_apply_action v) = PFCP_IE_APPLY_ACTION"
| "core_ie_type (Core_pdr_id v) = PFCP_IE_PACKET_DETECTION_RULE_ID"
| "core_ie_type (Core_f_seid v) = PFCP_IE_F_SEID"
| "core_ie_type (Core_node_id v) = PFCP_IE_NODE_ID"
| "core_ie_type (Core_urr_id v) = PFCP_IE_URR_ID"
| "core_ie_type (Core_outer_header_creation v) = PFCP_IE_OUTER_HEADER_CREATION"
| "core_ie_type (Core_bar_id v) = PFCP_IE_BAR_ID"
| "core_ie_type (Core_cp_function_features v) = PFCP_IE_CP_FUNCTION_FEATURES"
| "core_ie_type (Core_ue_ip_address v) = PFCP_IE_UE_IP_ADDRESS"
| "core_ie_type (Core_outer_header_removal v) = PFCP_IE_OUTER_HEADER_REMOVAL"
| "core_ie_type (Core_recovery_time_stamp v) = PFCP_IE_RECOVERY_TIME_STAMP"
| "core_ie_type (Core_activate_predefined_rules v) = PFCP_IE_ACTIVATE_PREDEFINED_RULES"
| "core_ie_type (Core_deactivate_predefined_rules v) = PFCP_IE_DEACTIVATE_PREDEFINED_RULES"
| "core_ie_type (Core_far_id v) = PFCP_IE_FAR_ID"
| "core_ie_type (Core_qer_id v) = PFCP_IE_QER_ID"
| "core_ie_type (Core_failed_rule_id v) = PFCP_IE_FAILED_RULE_ID"
| "core_ie_type (Core_upip v) = PFCP_IE_USER_PLANE_IP_RESOURCE_INFORMATION"
| "core_ie_type (Core_user_plane_inactivity_timer v) = PFCP_IE_USER_PLANE_INACTIVITY_TIMER"
| "core_ie_type (Core_qfi v) = PFCP_IE_QFI"
| "core_ie_type (Core_user_id v) = PFCP_IE_USER_ID"
| "core_ie_type (Core_node_report_type v) = PFCP_IE_NODE_REPORT_TYPE"

primrec container_ie_type :: "container \<Rightarrow> u8" where
  "container_ie_type (K_create_pdr v) = PFCP_IE_CREATE_PDR"
| "container_ie_type (K_pdi v) = PFCP_IE_PDI"
| "container_ie_type (K_create_far v) = PFCP_IE_CREATE_FAR"
| "container_ie_type (K_forwarding_parameters v) = PFCP_IE_FORWARDING_PARAMETERS"
| "container_ie_type (K_duplicating_parameters v) = PFCP_IE_DUPLICATING_PARAMETERS"
| "container_ie_type (K_create_urr v) = PFCP_IE_CREATE_URR"
| "container_ie_type (K_create_qer v) = PFCP_IE_CREATE_QER"
| "container_ie_type (K_created_pdr v) = PFCP_IE_CREATED_PDR"
| "container_ie_type (K_update_pdr v) = PFCP_IE_UPDATE_PDR"
| "container_ie_type (K_update_far v) = PFCP_IE_UPDATE_FAR"
| "container_ie_type (K_update_forwarding_parameters v) = PFCP_IE_UPDATE_FORWARDING_PARAMETERS"
| "container_ie_type (K_update_bar_within_pfcp_session_report_response v) = PFCP_IE_UPDATE_BAR_WITHIN_PFCP_SESSION_REPORT_RESPONSE"
| "container_ie_type (K_update_urr v) = PFCP_IE_UPDATE_URR"
| "container_ie_type (K_update_qer v) = PFCP_IE_UPDATE_QER"
| "container_ie_type (K_remove_pdr v) = PFCP_IE_REMOVE_PDR"
| "container_ie_type (K_remove_far v) = PFCP_IE_REMOVE_FAR"
| "container_ie_type (K_remove_urr v) = PFCP_IE_REMOVE_URR"
| "container_ie_type (K_remove_qer v) = PFCP_IE_REMOVE_QER"
| "container_ie_type (K_downlink_data_report v) = PFCP_IE_DOWNLINK_DATA_REPORT"
| "container_ie_type (K_pfcp_heartbeat_request v) = 0"
| "container_ie_type (K_pfcp_heartbeat_response v) = 0"
| "container_ie_type (K_pfcp_association_setup_request v) = 0"
| "container_ie_type (K_pfcp_association_setup_response v) = 0"
| "container_ie_type (K_pfcp_association_update_request v) = 0"
| "container_ie_type (K_pfcp_association_update_response v) = 0"
| "container_ie_type (K_pfcp_association_release_request v) = 0"
| "container_ie_type (K_pfcp_association_release_response v) = 0"
| "container_ie_type (K_pfcp_node_report_request v) = 0"
| "container_ie_type (K_pfcp_pfd_management_request v) = 0"
| "container_ie_type (K_pfcp_pfd_management_response v) = 0"
| "container_ie_type (K_pfcp_version_not_supported_response v) = 0"
| "container_ie_type (K_pfcp_node_report_response v) = 0"
| "container_ie_type (K_pfcp_session_set_deletion_request v) = 0"
| "container_ie_type (K_pfcp_session_set_deletion_response v) = 0"
| "container_ie_type (K_pfcp_session_establishment_request v) = 0"
| "container_ie_type (K_pfcp_session_establishment_response v) = 0"
| "container_ie_type (K_pfcp_session_modification_request v) = 0"
| "container_ie_type (K_pfcp_session_modification_response v) = 0"
| "container_ie_type (K_pfcp_session_deletion_request v) = 0"
| "container_ie_type (K_pfcp_session_deletion_response v) = 0"
| "container_ie_type (K_pfcp_session_report_request v) = 0"
| "container_ie_type (K_pfcp_session_report_response v) = 0"

section \<open>The overloads of set\<close>

definition create_pdr_set_core :: "core_value \<Rightarrow> create_pdr \<Rightarrow> pfcp_exn + create_pdr" where
  "create_pdr_set_core v c =
     (case v of
        Core_pdr_id x \<Rightarrow> Inr (create_pdr_set_pdr_id x c)
      | Core_precedence x \<Rightarrow> Inr (create_pdr_set_precedence x c)
      | Core_outer_header_removal x \<Rightarrow> Inr (create_pdr_set_outer_header_removal x c)
      | Core_far_id x \<Rightarrow> Inr (create_pdr_set_far_id x c)
      | Core_urr_id x \<Rightarrow> Inr (create_pdr_set_urr_id x c)
      | Core_qer_id x \<Rightarrow> Inr (create_pdr_set_qer_id x c)
      | Core_activate_predefined_rules x \<Rightarrow> Inr (create_pdr_set_activate_predefined_rules x c)
      | _ \<Rightarrow> Inl (Illegal_ie (ucast (core_ie_type v))))"

definition create_pdr_set_group :: "container \<Rightarrow> create_pdr \<Rightarrow> pfcp_exn + create_pdr" where
  "create_pdr_set_group v c =
     (case v of
        K_pdi x \<Rightarrow> Inr (create_pdr_set_pdi x c)
      | _ \<Rightarrow> Inl (Illegal_ie (ucast (container_ie_type v))))"

definition pdi_set_core :: "core_value \<Rightarrow> pdi \<Rightarrow> pfcp_exn + pdi" where
  "pdi_set_core v c =
     (case v of
        Core_source_interface x \<Rightarrow> Inr (pdi_set_source_interface x c)
      | Core_fteid x \<Rightarrow> Inr (pdi_set_local_fteid x c)
      | Core_network_instance x \<Rightarrow> Inr (pdi_set_network_instance x c)
      | Core_ue_ip_address x \<Rightarrow> Inr (pdi_set_ue_ip_address x c)
      | Core_sdf_filter x \<Rightarrow> Inr (pdi_set_sdf_filter x c)
      | Core_application_id x \<Rightarrow> Inr (pdi_set_application_id x c)
      | Core_qfi x \<Rightarrow> Inr (pdi_set_qfi x c)
      | _ \<Rightarrow> Inl (Illegal_ie (ucast (core_ie_type v))))"

definition create_far_set_core :: "core_value \<Rightarrow> create_far \<Rightarrow> pfcp_exn + create_far" where
  "create_far_set_core v c =
     (case v of
        Core_far_id x \<Rightarrow> Inr (create_far_set_far_id x c)
      | Core_apply_action x \<Rightarrow> Inr (create_far_set_apply_action x c)
      | Core_bar_id x \<Rightarrow> Inr (create_far_set_bar_id x c)
      | _ \<Rightarrow> Inl (Illegal_ie (ucast (core_ie_type v))))"

definition create_far_set_group :: "container \<Rightarrow> create_far \<Rightarrow> pfcp_exn + create_far" where
  "create_far_set_group v c =
     (case v of
        K_forwarding_parameters x \<Rightarrow> Inr (create_far_set_forwarding_parameters x c)
      | K_duplicating_parameters x \<Rightarrow> Inr (create_far_set_duplicating_parameters x c)
      | _ \<Rightarrow> Inl (Illegal_ie (ucast (container_ie_type v))))"

definition forwarding_parameters_set_core :: "core_value \<Rightarrow> forwarding_parameters \<Rightarrow> pfcp_exn + forwarding_parameters" where
  "forwarding_parameters_set_core v c =
     (case v of
        Core_destination_interface x \<Rightarrow> Inr (forwarding_parameters_set_destination_interface x c)
      | Core_network_instance x \<Rightarrow> Inr (forwarding_parameters_set_network_instance x c)
      | Core_outer_header_creation x \<Rightarrow> Inr (forwarding_parameters_set_outer_header_creation x c)
      | Core_transport_level_marking x \<Rightarrow> Inr (forwarding_parameters_set_transport_level_marking x c)
      | Core_forwarding_policy x \<Rightarrow> Inr (forwarding_parameters_set_forwarding_policy x c)
      | _ \<Rightarrow> Inl (Illegal_ie (ucast (core_ie_type v))))"

definition duplicating_parameters_set_core :: "core_value \<Rightarrow> duplicating_parameters \<Rightarrow> pfcp_exn + duplicating_parameters" where
  "duplicating_parameters_set_core v c =
     (case v of
        Core_destination_interface x \<Rightarrow> Inr (duplicating_parameters_set_destination_interface x c)
      | Core_outer_header_creation x \<Rightarrow> Inr (duplicating_parameters_set_outer_header_creation x c)
      | Core_transport_level_marking x \<Rightarrow> Inr (duplicating_parameters_set_transport_level_marking x c)
      | Core_forwarding_policy x \<Rightarrow> Inr (duplicating_parameters_set_forwarding_policy x c)
      | _ \<Rightarrow> Inl (Illegal_ie (ucast (core_ie_type v))))"

definition create_urr_set_core :: "core_value \<Rightarrow> create_urr \<Rightarrow> pfcp_exn + create_urr" where
  "create_urr_set_core v c =
     (case v of
        Core_urr_id x \<Rightarrow> Inr (create_urr_set_urr_id x c)
      | Core_reporting_triggers x \<Rightarrow> Inr (create_urr_set_reporting_triggers x c)
      | Core_volume_threshold x \<Rightarrow> Inr (create_urr_set_volume_threshold x c)
      | Core_time_threshold x \<Rightarrow> Inr (create_urr_set_time_threshold x c)
      | Core_monitoring_time x \<Rightarrow> Inr (create_urr_set_monitoring_time x c)
      | Core_subsequent_volume_threshold x \<Rightarrow> Inr (create_urr_set_subsequent_volume_threshold x c)
      | Core_subsequent_time_threshold x \<Rightarrow> Inr (create_urr_set_subsequent_time_threshold x c)
      | Core_inactivity_detection_time x \<Rightarrow> Inr (create_urr_set_inactivity_detection_time x c)
      | Core_far_id x \<Rightarrow> Inr (create_urr_set_far_id_for_quota_action x c)
      | _ \<Rightarrow> Inl (Illegal_ie (ucast (core_ie_type v))))"

definition create_qer_set_core :: "core_value \<Rightarrow> create_qer \<Rightarrow> pfcp_exn + create_qer" where
  "create_qer_set_core v c =
     (case v of
        Core_qer_id x \<Rightarrow> Inr (create_qer_set_qer_id x c)
      | Core_qer_correlation_id x \<Rightarrow> Inr (create_qer_set_qer_correlation_id x c)
      | Core_gate_status x \<Rightarrow> Inr (create_qer_set_gate_status x c)
      | Core_mbr x \<Rightarrow> Inr (create_qer_set_maximum_bitrate x c)
      | Core_gbr x \<Rightarrow> Inr (create_qer_set_guaranteed_bitrate x c)
      | Core_qfi x \<Rightarrow> Inr (create_qer_set_qos_flow_identifier x c)
      | _ \<Rightarrow> Inl (Illegal_ie (ucast (core_ie_type v))))"

definition created_pdr_set_core :: "core_value \<Rightarrow> created_pdr \<Rightarrow> pfcp_exn + created_pdr" where
  "created_pdr_set_core v c =
     (case v of
        Core_pdr_id x \<Rightarrow> Inr (created_pdr_set_pdr_id x c)
      | Core_fteid x \<Rightarrow> Inr (created_pdr_set_local_fteid x c)
      | _ \<Rightarrow> Inl (Illegal_ie (ucast (core_ie_type v))))"

definition update_pdr_set_core :: "core_value \<Rightarrow> update_pdr \<Rightarrow> pfcp_exn + update_pdr" where
  "update_pdr_set_core v c =
     (case v of
        Core_pdr_id x \<Rightarrow> Inr (update_pdr_set_pdr_id x c)
      | Core_outer_header_removal x \<Rightarrow> Inr (update_pdr_set_outer_header_removal x c)
      | Core_precedence x \<Rightarrow> Inr (update_pdr_set_precedence x c)
      | Core_far_id x \<Rightarrow> Inr (update_pdr_set_far_id x c)
      | Core_urr_id x \<Rightarrow> Inr (update_pdr_set_urr_id x c)
      | Core_qer_id x \<Rightarrow> Inr (update_pdr_set_qer_id x c)
      | Core_activate_predefined_rules x \<Rightarrow> Inr (update_pdr_set_activate_predefined_rules x c)
      | Core_deactivate_predefined_rules x \<Rightarrow> Inr (update_pdr_set_deactivate_predefined_rules x c)
      | _ \<Rightarrow> Inl (Illegal_ie (ucast (core_ie_type v))))"

definition update_pdr_set_group :: "container \<Rightarrow> update_pdr \<Rightarrow> pfcp_exn + update_pdr" where
  "update_pdr_set_group v c =
     (case v of
        K_pdi x \<Rightarrow> Inr (update_pdr_set_pdi x c)
      | _ \<Rightarrow> Inl (Illegal_ie (ucast (container_ie_type v))))"

definition update_far_set_core :: "core_value \<Rightarrow> update_far \<Rightarrow> pfcp_exn + update_far" where
  "update_far_set_core v c =
     (case v of
        Core_far_id x \<Rightarrow> Inr (update_far_set_far_id x c)
      | Core_apply_action x \<Rightarrow> Inr (update_far_set_apply_action x c)
      | Core_bar_id x \<Rightarrow> Inr (update_far_set_bar_id x c)
      | _ \<Rightarrow> Inl (Illegal_ie (ucast (core_ie_type v))))"

definition update_far_set_group :: "container \<Rightarrow> update_far \<Rightarrow> pfcp_exn + update_far" where
  "update_far_set_group v c =
     (case v of
        K_update_forwarding_parameters x \<Rightarrow> Inr (update_far_set_update_forwarding_parameters x c)
      | _ \<Rightarrow> Inl (Illegal_ie (ucast (container_ie_type v))))"

definition update_forwarding_parameters_set_core :: "core_value \<Rightarrow> update_forwarding_parameters \<Rightarrow> pfcp_exn + update_forwarding_parameters" where
  "update_forwarding_parameters_set_core v c =
     (case v of
        Core_destination_interface x \<Rightarrow> Inr (update_forwarding_parameters_set_destination_interface x c)
      | Core_network_instance x \<Rightarrow> Inr (update_forwarding_parameters_set_network_instance x c)
      | Core_outer_header_creation x \<Rightarrow> Inr (update_forwarding_parameters_set_outer_header_creation x c)
      | Core_transport_level_marking x \<Rightarrow> Inr (update_forwarding_parameters_set_transport_level_marking x c)
      | Core_forwarding_policy x \<Rightarrow> Inr (update_forwarding_parameters_set_forwarding_policy x c)
      | _ \<Rightarrow> Inl (Illegal_ie (ucast (core_ie_type v))))"

definition update_bar_within_pfcp_session_report_response_set_core :: "core_value \<Rightarrow> update_bar_within_pfcp_session_report_response \<Rightarrow> pfcp_exn + update_bar_within_pfcp_session_report_response" where
  "update_bar_within_pfcp_session_report_response_set_core v c =
     (case v of
        Core_bar_id x \<Rightarrow> Inr (update_bar_within_pfcp_session_report_response_set_bar_id x c)
      | _ \<Rightarrow> Inl (Illegal_ie (ucast (core_ie_type v))))"

definition update_urr_set_core :: "core_value \<Rightarrow> update_urr \<Rightarrow> pfcp_exn + update_urr" where
  "update_urr_set_core v c =
     (case v of
        Core_urr_id x \<Rightarrow> Inr (update_urr_set_urr_id x c)
      | Core_reporting_triggers x \<Rightarrow> Inr (update_urr_set_reporting_triggers x c)
      | Core_volume_threshold x \<Rightarrow> Inr (update_urr_set_volume_threshold x c)
      | Core_time_threshold x \<Rightarrow> Inr (update_urr_set_time_threshold x c)
      | Core_monitoring_time x \<Rightarrow> Inr (update_urr_set_monitoring_time x c)
      | Core_subsequent_volume_threshold x \<Rightarrow> Inr (update_urr_set_subsequent_volume_threshold x c)
      | Core_subsequent_time_threshold x \<Rightarrow> Inr (update_urr_set_subsequent_time_threshold x c)
      | Core_inactivity_detection_time x \<Rightarrow> Inr (update_urr_set_inactivity_detection_time x c)
      | Core_far_id x \<Rightarrow> Inr (update_urr_set_far_id_for_quota_action x c)
      | _ \<Rightarrow> Inl (Illegal_ie (ucast (core_ie_type v))))"

definition update_qer_set_core :: "core_value \<Rightarrow> update_qer \<Rightarrow> pfcp_exn + update_qer" where
  "update_qer_set_core v c =
     (case v of
        Core_qer_id x \<Rightarrow> Inr (update_qer_set_qer_id x c)
      | Core_qer_correlation_id x \<Rightarrow> Inr (update_qer_set_qer_correlation_id x c)
      | Core_gate_status x \<Rightarrow> Inr (update_qer_set_gate_status x c)
      | Core_mbr x \<Rightarrow> Inr (update_qer_set_maximum_bitrate x c)
      | Core_gbr x \<Rightarrow> Inr (update_qer_set_guaranteed_bitrate x c)
      | Core_qfi x \<Rightarrow> Inr (update_qer_set_qos_flow_identifier x c)
      | _ \<Rightarrow> Inl (Illegal_ie (ucast (core_ie_type v))))"

definition remove_pdr_set_core :: "core_value \<Rightarrow> remove_pdr \<Rightarrow> pfcp_exn + remove_pdr" where
  "remove_pdr_set_core v c =
     (case v of
        Core_pdr_id x \<Rightarrow> Inr (remove_pdr_set_pdr_id x c)
      | _ \<Rightarrow> Inl (Illegal_ie (ucast (core_ie_type v))))"

definition remove_far_set_core :: "core_value \<Rightarrow> remove_far \<Rightarrow> pfcp_exn + remove_far" where
  "remove_far_set_core v c =
     (case v of
        Core_far_id x \<Rightarrow> Inr (remove_far_set_far_id x c)
      | _ \<Rightarrow> Inl (Illegal_ie (ucast (core_ie_type v))))"

definition remove_urr_set_core :: "core_value \<Rightarrow> remove_urr \<Rightarrow> pfcp_exn + remove_urr" where
  "remove_urr_set_core v c =
     (case v of
        Core_urr_id x \<Rightarrow> Inr (remove_urr_set_urr_id x c)
      | _ \<Rightarrow> Inl (Illegal_ie (ucast (core_ie_type v))))"

definition remove_qer_set_core :: "core_value \<Rightarrow> remove_qer \<Rightarrow> pfcp_exn + remove_qer" where
  "remove_qer_set_core v c =
     (case v of
        Core_qer_id x \<Rightarrow> Inr (remove_qer_set_qer_id x c)
      | _ \<Rightarrow> Inl (Illegal_ie (ucast (core_ie_type v))))"

definition downlink_data_report_set_core :: "core_value \<Rightarrow> downlink_data_report \<Rightarrow> pfcp_exn + downlink_data_report" where
  "downlink_data_report_set_core v c =
     (case v of
        Core_pdr_id x \<Rightarrow> Inr (downlink_data_report_set_pdr_id x c)
      | _ \<Rightarrow> Inl (Illegal_ie (ucast (core_ie_type v))))"

definition pfcp_heartbeat_request_set_core :: "core_value \<Rightarrow> pfcp_heartbeat_request \<Rightarrow> pfcp_exn + pfcp_heartbeat_request" where
  "pfcp_heartbeat_request_set_core v c =
     (case v of
        Core_recovery_time_stamp x \<Rightarrow> Inr (pfcp_heartbeat_request_set_recovery_time_stamp x c)
      | _ \<Rightarrow> Inl (Illegal_ie (ucast (core_ie_type v))))"

definition pfcp_heartbeat_response_set_core :: "core_value \<Rightarrow> pfcp_heartbeat_response \<Rightarrow> pfcp_exn + pfcp_heartbeat_response" where
  "pfcp_heartbeat_response_set_core v c =
     (case v of
        Core_recovery_time_stamp x \<Rightarrow> Inr (pfcp_heartbeat_response_set_recovery_time_stamp x c)
      | _ \<Rightarrow> Inl (Illegal_ie (ucast (core_ie_type v))))"

definition pfcp_association_setup_request_set_core :: "core_value \<Rightarrow> pfcp_association_setup_request \<Rightarrow> pfcp_exn + pfcp_association_setup_request" where
  "pfcp_association_setup_request_set_core v c =
     (case v of
        Core_node_id x \<Rightarrow> Inr (pfcp_association_setup_request_set_node_id x c)
      | Core_recovery_time_stamp x \<Rightarrow> Inr (pfcp_association_setup_request_set_recovery_time_stamp x c)
      | Core_up_function_features x \<Rightarrow> Inr (pfcp_association_setup_request_set_up_function_features x c)
      | Core_cp_function_features x \<Rightarrow> Inr (pfcp_association_setup_request_set_cp_function_features x c)
      | Core_upip x \<Rightarrow> Inr (pfcp_association_setup_request_set_user_plane_ip_resource_information x c)
      | _ \<Rightarrow> Inl (Illegal_ie (ucast (core_ie_type v))))"

definition pfcp_association_setup_response_set_core :: "core_value \<Rightarrow> pfcp_association_setup_response \<Rightarrow> pfcp_exn + pfcp_association_setup_response" where
  "pfcp_association_setup_response_set_core v c =
     (case v of
        Core_node_id x \<Rightarrow> Inr (pfcp_association_setup_response_set_node_id x c)
      | Core_cause x \<Rightarrow> Inr (pfcp_association_setup_response_set_cause x c)
      | Core_recovery_time_stamp x \<Rightarrow> Inr (pfcp_association_setup_response_set_recovery_time_stamp x c)
      | Core_up_function_features x \<Rightarrow> Inr (pfcp_association_setup_response_set_up_function_features x c)
      | Core_cp_function_features x \<Rightarrow> Inr (pfcp_association_setup_response_set_cp_function_features x c)
      | Core_upip x \<Rightarrow> Inr (pfcp_association_setup_response_set_user_plane_ip_resource_information x c)
      | _ \<Rightarrow> Inl (Illegal_ie (ucast (core_ie_type v))))"

definition pfcp_association_update_request_set_core :: "core_value \<Rightarrow> pfcp_association_update_request \<Rightarrow> pfcp_exn + pfcp_association_update_request" where
  "pfcp_association_update_request_set_core v c =
     (case v of
        Core_node_id x \<Rightarrow> Inr (pfcp_association_update_request_set_node_id x c)
      | Core_up_function_features x \<Rightarrow> Inr (pfcp_association_update_request_set_up_function_features x c)
      | Core_cp_function_features x \<Rightarrow> Inr (pfcp_association_update_request_set_cp_function_features x c)
      | Core_upip x \<Rightarrow> Inr (pfcp_association_update_request_set_user_plane_ip_resource_information x c)
      | _ \<Rightarrow> Inl (Illegal_ie (ucast (core_ie_type v))))"

definition pfcp_association_update_response_set_core :: "core_value \<Rightarrow> pfcp_association_update_response \<Rightarrow> pfcp_exn + pfcp_association_update_response" where
  "pfcp_association_update_response_set_core v c =
     (case v of
        Core_node_id x \<Rightarrow> Inr (pfcp_association_update_response_set_node_id x c)
      | Core_cause x \<Rightarrow> Inr (pfcp_association_update_response_set_cause x c)
      | Core_up_function_features x \<Rightarrow> Inr (pfcp_association_update_response_set_up_function_features x c)
      | Core_cp_function_features x \<Rightarrow> Inr (pfcp_association_update_response_set_cp_function_features x c)
      | _ \<Rightarrow> Inl (Illegal_ie (ucast (core_ie_type v))))"

definition pfcp_association_release_request_set_core :: "core_value \<Rightarrow> pfcp_association_release_request \<Rightarrow> pfcp_exn + pfcp_association_release_request" where
  "pfcp_association_release_request_set_core v c =
     (case v of
        Core_node_id x \<Rightarrow> Inr (pfcp_association_release_request_set_node_id x c)
      | _ \<Rightarrow> Inl (Illegal_ie (ucast (core_ie_type v))))"

definition pfcp_association_release_response_set_core :: "core_value \<Rightarrow> pfcp_association_release_response \<Rightarrow> pfcp_exn + pfcp_association_release_response" where
  "pfcp_association_release_response_set_core v c =
     (case v of
        Core_node_id x \<Rightarrow> Inr (pfcp_association_release_response_set_node_id x c)
      | Core_cause x \<Rightarrow> Inr (pfcp_association_release_response_set_cause x c)
      | _ \<Rightarrow> Inl (Illegal_ie (ucast (core_ie_type v))))"

definition pfcp_node_report_request_set_core :: "core_value \<Rightarrow> pfcp_node_report_request \<Rightarrow> pfcp_exn + pfcp_node_report_request" where
  "pfcp_node_report_request_set_core v c =
     (case v of
        Core_node_id x \<Rightarrow> Inr (pfcp_node_report_request_set_node_id x c)
      | Core_node_report_type x \<Rightarrow> Inr (pfcp_node_report_request_set_node_report_type x c)
      | _ \<Rightarrow> Inl (Illegal_ie (ucast (core_ie_type v))))"

definition pfcp_pfd_management_response_set_core :: "core_value \<Rightarrow> pfcp_pfd_management_response \<Rightarrow> pfcp_exn + pfcp_pfd_management_response" where
  "pfcp_pfd_management_response_set_core v c =
     (case v of
        Core_cause x \<Rightarrow> Inr (pfcp_pfd_management_response_set_cause x c)
      | Core_offending_ie x \<Rightarrow> Inr (pfcp_pfd_management_response_set_offending_ie x c)
      | _ \<Rightarrow> Inl (Illegal_ie (ucast (core_ie_type v))))"

definition pfcp_node_report_response_set_core :: "core_value \<Rightarrow> pfcp_node_report_response \<Rightarrow> pfcp_exn + pfcp_node_report_response" where
  "pfcp_node_report_response_set_core v c =
     (case v of
        Core_node_id x \<Rightarrow> Inr (pfcp_node_report_response_set_node_id x c)
      | Core_cause x \<Rightarrow> Inr (pfcp_node_report_response_set_cause x c)
      | Core_offending_ie x \<Rightarrow> Inr (pfcp_node_report_response_set_offending_ie x c)
      | _ \<Rightarrow> Inl (Illegal_ie (ucast (core_ie_type v))))"

definition pfcp_session_set_deletion_request_set_core :: "core_value \<Rightarrow> pfcp_session_set_deletion_request \<Rightarrow> pfcp_exn + pfcp_session_set_deletion_request" where
  "pfcp_session_set_deletion_request_set_core v c =
     (case v of
        Core_node_id x \<Rightarrow> Inr (pfcp_session_set_deletion_request_set_node_id x c)
      | _ \<Rightarrow> Inl (Illegal_ie (ucast (core_ie_type v))))"

definition pfcp_session_set_deletion_response_set_core :: "core_value \<Rightarrow> pfcp_session_set_deletion_response \<Rightarrow> pfcp_exn + pfcp_session_set_deletion_response" where
  "pfcp_session_set_deletion_response_set_core v c =
     (case v of
        Core_node_id x \<Rightarrow> Inr (pfcp_session_set_deletion_response_set_node_id x c)
      | Core_cause x \<Rightarrow> Inr (pfcp_session_set_deletion_response_set_cause x c)
      | Core_offending_ie x \<Rightarrow> Inr (pfcp_session_set_deletion_response_set_offending_ie x c)
      | _ \<Rightarrow> Inl (Illegal_ie (ucast (core_ie_type v))))"

definition pfcp_session_establishment_request_set_core :: "core_value \<Rightarrow> pfcp_session_establishment_request \<Rightarrow> pfcp_exn + pfcp_session_establishment_request" where
  "pfcp_session_establishment_request_set_core v c =
     (case v of
        Core_node_id x \<Rightarrow> Inr (pfcp_session_establishment_request_set_node_id x c)
      | Core_f_seid x \<Rightarrow> Inr (pfcp_session_establishment_request_set_cp_fseid x c)
      | Core_user_plane_inactivity_timer x \<Rightarrow> Inr (pfcp_session_establishment_request_set_user_plane_inactivity_timer x c)
      | Core_user_id x \<Rightarrow> Inr (pfcp_session_establishment_request_set_user_id x c)
      | _ \<Rightarrow> Inl (Illegal_ie (ucast (core_ie_type v))))"

definition pfcp_session_establishment_request_set_group :: "container \<Rightarrow> pfcp_session_establishment_request \<Rightarrow> pfcp_exn + pfcp_session_establishment_request" where
  "pfcp_session_establishment_request_set_group v c =
     (case v of
        K_create_pdr x \<Rightarrow> Inr (pfcp_session_establishment_request_set_create_pdrs x c)
      | K_create_far x \<Rightarrow> Inr (pfcp_session_establishment_request_set_create_fars x c)
      | K_create_urr x \<Rightarrow> Inr (pfcp_session_establishment_request_set_create_urrs x c)
      | K_create_qer x \<Rightarrow> Inr (pfcp_session_establishment_request_set_create_qers x c)
      | _ \<Rightarrow> Inl (Illegal_ie (ucast (container_ie_type v))))"

definition pfcp_session_establishment_response_set_core :: "core_value \<Rightarrow> pfcp_session_establishment_response \<Rightarrow> pfcp_exn + pfcp_session_establishment_response" where
  "pfcp_session_establishment_response_set_core v c =
     (case v of
        Core_node_id x \<Rightarrow> Inr (pfcp_session_establishment_response_set_node_id x c)
      | Core_cause x \<Rightarrow> Inr (pfcp_session_establishment_response_set_cause x c)
      | Core_offending_ie x \<Rightarrow> Inr (pfcp_session_establishment_response_set_offending_ie x c)
      | Core_f_seid x \<Rightarrow> Inr (pfcp_session_establishment_response_set_up_fseid x c)
      | Core_failed_rule_id x \<Rightarrow> Inr (pfcp_session_establishment_response_set_failed_rule_id x c)
      | _ \<Rightarrow> Inl (Illegal_ie (ucast (core_ie_type v))))"

definition pfcp_session_establishment_response_set_group :: "container \<Rightarrow> pfcp_session_establishment_response \<Rightarrow> pfcp_exn + pfcp_session_establishment_response" where
  "pfcp_session_establishment_response_set_group v c =
     (case v of
        K_created_pdr x \<Rightarrow> Inr (pfcp_session_establishment_response_set_created_pdrs x c)
      | _ \<Rightarrow> Inl (Illegal_ie (ucast (container_ie_type v))))"

definition pfcp_session_modification_request_set_core :: "core_value \<Rightarrow> pfcp_session_modification_request \<Rightarrow> pfcp_exn + pfcp_session_modification_request" where
  "pfcp_session_modification_request_set_core v c =
     (case v of
        Core_f_seid x \<Rightarrow> Inr (pfcp_session_modification_request_set_cp_fseid x c)
      | Core_user_plane_inactivity_timer x \<Rightarrow> Inr (pfcp_session_modification_request_set_user_plane_inactivity_timer x c)
      | _ \<Rightarrow> Inl (Illegal_ie (ucast (core_ie_type v))))"

definition pfcp_session_modification_request_set_group :: "container \<Rightarrow> pfcp_session_modification_request \<Rightarrow> pfcp_exn + pfcp_session_modification_request" where
  "pfcp_session_modification_request_set_group v c =
     (case v of
        K_remove_pdr x \<Rightarrow> Inr (pfcp_session_modification_request_set_remove_pdrs x c)
      | K_remove_far x \<Rightarrow> Inr (pfcp_session_modification_request_set_remove_fars x c)
      | K_remove_urr x \<Rightarrow> Inr (pfcp_session_modification_request_set_remove_urrs x c)
      | K_remove_qer x \<Rightarrow> Inr (pfcp_session_modification_request_set_remove_qers x c)
      | K_create_pdr x \<Rightarrow> Inr (pfcp_session_modification_request_set_create_pdrs x c)
      | K_create_far x \<Rightarrow> Inr (pfcp_session_modification_request_set_create_fars x c)
      | K_create_urr x \<Rightarrow> Inr (pfcp_session_modification_request_set_create_urrs x c)
      | K_create_qer x \<Rightarrow> Inr (pfcp_session_modification_request_set_create_qers x c)
      | K_update_pdr x \<Rightarrow> Inr (pfcp_session_modification_request_set_update_pdrs x c)
      | K_update_far x \<Rightarrow> Inr (pfcp_session_modification_request_set_update_fars x c)
      | K_update_urr x \<Rightarrow> Inr (pfcp_session_modification_request_set_update_urrs x c)
      | K_update_qer x \<Rightarrow> Inr (pfcp_session_modification_request_set_update_qers x c)
      | _ \<Rightarrow> Inl (Illegal_ie (ucast (container_ie_type v))))"

definition pfcp_session_modification_response_set_core :: "core_value \<Rightarrow> pfcp_session_modification_response \<Rightarrow> pfcp_exn + pfcp_session_modification_response" where
  "pfcp_session_modification_response_set_core v c =
     (case v of
        Core_cause x \<Rightarrow> Inr (pfcp_session_modification_response_set_cause x c)
      | Core_offending_ie x \<Rightarrow> Inr (pfcp_session_modification_response_set_offending_ie x c)
      | Core_failed_rule_id x \<Rightarrow> Inr (pfcp_session_modification_response_set_failed_rule_id x c)
      | _ \<Rightarrow> Inl (Illegal_ie (ucast (core_ie_type v))))"

definition pfcp_session_modification_response_set_group :: "container \<Rightarrow> pfcp_session_modification_response \<Rightarrow> pfcp_exn + pfcp_session_modification_response" where
  "pfcp_session_modification_response_set_group v c =
     (case v of
        K_created_pdr x \<Rightarrow> Inr (pfcp_session_modification_response_set_created_pdrs x c)
      | _ \<Rightarrow> Inl (Illegal_ie (ucast (container_ie_type v))))"

definition pfcp_session_deletion_response_set_core :: "core_value \<Rightarrow> pfcp_session_deletion_response \<Rightarrow> pfcp_exn + pfcp_session_deletion_response" where
  "pfcp_session_deletion_response_set_core v c =
     (case v of
        Core_cause x \<Rightarrow> Inr (pfcp_session_deletion_response_set_cause x c)
      | Core_offending_ie x \<Rightarrow> Inr (pfcp_session_deletion_response_set_offending_ie x c)
      | _ \<Rightarrow> Inl (Illegal_ie (ucast (core_ie_type v))))"

definition pfcp_session_report_request_set_core :: "core_value \<Rightarrow> pfcp_session_report_request \<Rightarrow> pfcp_exn + pfcp_session_report_request" where
  "pfcp_session_report_request_set_core v c =
     (case v of
        Core_report_type x \<Rightarrow> Inr (pfcp_session_report_request_set_report_type x c)
      | _ \<Rightarrow> Inl (Illegal_ie (ucast (core_ie_type v))))"

definition pfcp_session_report_request_set_group :: "container \<Rightarrow> pfcp_session_report_request \<Rightarrow> pfcp_exn + pfcp_session_report_request" where
  "pfcp_session_report_request_set_group v c =
     (case v of
        K_downlink_data_report x \<Rightarrow> Inr (pfcp_session_report_request_set_downlink_data_report x c)
      | _ \<Rightarrow> Inl (Illegal_ie (ucast (container_ie_type v))))"

definition pfcp_session_report_response_set_core :: "core_value \<Rightarrow> pfcp_session_report_response \<Rightarrow> pfcp_exn + pfcp_session_report_response" where
  "pfcp_session_report_response_set_core v c =
     (case v of
        Core_cause x \<Rightarrow> Inr (pfcp_session_report_response_set_cause x c)
      | Core_offending_ie x \<Rightarrow> Inr (pfcp_session_report_response_set_offending_ie x c)
      | _ \<Rightarrow> Inl (Illegal_ie (ucast (core_ie_type v))))"

definition pfcp_session_report_response_set_group :: "container \<Rightarrow> pfcp_session_report_response \<Rightarrow> pfcp_exn + pfcp_session_report_response" where
  "pfcp_session_report_response_set_group v c =
     (case v of
        K_update_bar_within_pfcp_session_report_response x \<Rightarrow> Inr (pfcp_session_report_response_set_update_bar x c)
      | _ \<Rightarrow> Inl (Illegal_ie (ucast (container_ie_type v))))"

primrec container_set_core :: "core_value \<Rightarrow> container \<Rightarrow> pfcp_exn + container" where
  "container_set_core v (K_create_pdr c) = map_sum id K_create_pdr (create_pdr_set_core v c)"
| "container_set_core v (K_pdi c) = map_sum id K_pdi (pdi_set_core v c)"
| "container_set_core v (K_create_far c) = map_sum id K_create_far (create_far_set_core v c)"
| "container_set_core v (K_forwarding_parameters c) = map_sum id K_forwarding_parameters (forwarding_parameters_set_core v c)"
| "container_set_core v (K_duplicating_parameters c) = map_sum id K_duplicating_parameters (duplicating_parameters_set_core v c)"
| "container_set_core v (K_create_urr c) = map_sum id K_create_urr (create_urr_set_core v c)"
| "container_set_core v (K_create_qer c) = map_sum id K_create_qer (create_qer_set_core v c)"
| "container_set_core v (K_created_pdr c) = map_sum id K_created_pdr (created_pdr_set_core v c)"
| "container_set_core v (K_update_pdr c) = map_sum id K_update_pdr (update_pdr_set_core v c)"
| "container_set_core v (K_update_far c) = map_sum id K_update_far (update_far_set_core v c)"
| "container_set_core v (K_update_forwarding_parameters c) = map_sum id K_update_forwarding_parameters (update_forwarding_parameters_set_core v c)"
| "container_set_core v (K_update_bar_within_pfcp_session_report_response c) = map_sum id K_update_bar_within_pfcp_session_report_response (update_bar_within_pfcp_session_report_response_set_core v c)"
| "container_set_core v (K_update_urr c) = map_sum id K_update_urr (update_urr_set_core v c)"
| "container_set_core v (K_update_qer c) = map_sum id K_update_qer (update_qer_set_core v c)"
| "container_set_core v (K_remove_pdr c) = map_sum id K_remove_pdr (remove_pdr_set_core v c)"
| "container_set_core v (K_remove_far c) = map_sum id K_remove_far (remove_far_set_core v c)"
| "container_set_core v (K_remove_urr c) = map_sum id K_remove_urr (remove_urr_set_core v c)"
| "container_set_core v (K_remove_qer c) = map_sum id K_remove_qer (remove_qer_set_core v c)"
| "container_set_core v (K_downlink_data_report c) = map_sum id K_downlink_data_report (downlink_data_report_set_core v c)"
| "container_set_core v (K_pfcp_heartbeat_request c) = map_sum id K_pfcp_heartbeat_request (pfcp_heartbeat_request_set_core v c)"
| "container_set_core v (K_pfcp_heartbeat_response c) = map_sum id K_pfcp_heartbeat_response (pfcp_heartbeat_response_set_core v c)"
| "container_set_core v (K_pfcp_association_setup_request c) = map_sum id K_pfcp_association_setup_request (pfcp_association_setup_request_set_core v c)"
| "container_set_core v (K_pfcp_association_setup_response c) = map_sum id K_pfcp_association_setup_response (pfcp_association_setup_response_set_core v c)"
| "container_set_core v (K_pfcp_association_update_request c) = map_sum id K_pfcp_association_update_request (pfcp_association_update_request_set_core v c)"
| "container_set_core v (K_pfcp_association_update_response c) = map_sum id K_pfcp_association_update_response (pfcp_association_update_response_set_core v c)"
| "container_set_core v (K_pfcp_association_release_request c) = map_sum id K_pfcp_association_release_request (pfcp_association_release_request_set_core v c)"
| "container_set_core v (K_pfcp_association_release_response c) = map_sum id K_pfcp_association_release_response (pfcp_association_release_response_set_core v c)"
| "container_set_core v (K_pfcp_node_report_request c) = map_sum id K_pfcp_node_report_request (pfcp_node_report_request_set_core v c)"
| "container_set_core v (K_pfcp_pfd_management_request c) = Inl (Illegal_ie (ucast (core_ie_type v)))"
| "container_set_core v (K_pfcp_pfd_management_response c) = map_sum id K_pfcp_pfd_management_response (pfcp_pfd_management_response_set_core v c)"
| "container_set_core v (K_pfcp_version_not_supported_response c) = Inl (Illegal_ie (ucast (core_ie_type v)))"
| "container_set_core v (K_pfcp_node_report_response c) = map_sum id K_pfcp_node_report_response (pfcp_node_report_response_set_core v c)"
| "container_set_core v (K_pfcp_session_set_deletion_request c) = map_sum id K_pfcp_session_set_deletion_request (pfcp_session_set_deletion_request_set_core v c)"
| "container_set_core v (K_pfcp_session_set_deletion_response c) = map_sum id K_pfcp_session_set_deletion_response (pfcp_session_set_deletion_response_set_core v c)"
| "container_set_core v (K_pfcp_session_establishment_request c) = map_sum id K_pfcp_session_establishment_request (pfcp_session_establishment_request_set_core v c)"
| "container_set_core v (K_pfcp_session_establishment_response c) = map_sum id K_pfcp_session_establishment_response (pfcp_session_establishment_response_set_core v c)"
| "container_set_core v (K_pfcp_session_modification_request c) = map_sum id K_pfcp_session_modification_request (pfcp_session_modification_request_set_core v c)"
| "container_set_core v (K_pfcp_session_modification_response c) = map_sum id K_pfcp_session_modification_response (pfcp_session_modification_response_set_core v c)"
| "container_set_core v (K_pfcp_session_deletion_request c) = Inl (Illegal_ie (ucast (core_ie_type v)))"
| "container_set_core v (K_pfcp_session_deletion_response c) = map_sum id K_pfcp_session_deletion_response (pfcp_session_deletion_response_set_core v c)"
| "container_set_core v (K_pfcp_session_report_request c) = map_sum id K_pfcp_session_report_request (pfcp_session_report_request_set_core v c)"
| "container_set_core v (K_pfcp_session_report_response c) = map_sum id K_pfcp_session_report_response (pfcp_session_report_response_set_core v c)"

primrec container_set_group :: "container \<Rightarrow> container \<Rightarrow> pfcp_exn + container" where
  "container_set_group v (K_create_pdr c) = map_sum id K_create_pdr (create_pdr_set_group v c)"
| "container_set_group v (K_pdi c) = Inl (Illegal_ie (ucast (container_ie_type v)))"
| "container_set_group v (K_create_far c) = map_sum id K_create_far (create_far_set_group v c)"
| "container_set_group v (K_forwarding_parameters c) = Inl (Illegal_ie (ucast (container_ie_type v)))"
| "container_set_group v (K_duplicating_parameters c) = Inl (Illegal_ie (ucast (container_ie_type v)))"
| "container_set_group v (K_create_urr c) = Inl (Illegal_ie (ucast (container_ie_type v)))"
| "container_set_group v (K_create_qer c) = Inl (Illegal_ie (ucast (container_ie_type v)))"
| "container_set_group v (K_created_pdr c) = Inl (Illegal_ie (ucast (container_ie_type v)))"
| "container_set_group v (K_update_pdr c) = map_sum id K_update_pdr (update_pdr_set_group v c)"
| "container_set_group v (K_update_far c) = map_sum id K_update_far (update_far_set_group v c)"
| "container_set_group v (K_update_forwarding_parameters c) = Inl (Illegal_ie (ucast (container_ie_type v)))"
| "container_set_group v (K_update_bar_within_pfcp_session_report_response c) = Inl (Illegal_ie (ucast (container_ie_type v)))"
| "container_set_group v (K_update_urr c) = Inl (Illegal_ie (ucast (container_ie_type v)))"
| "container_set_group v (K_update_qer c) = Inl (Illegal_ie (ucast (container_ie_type v)))"
| "container_set_group v (K_remove_pdr c) = Inl (Illegal_ie (ucast (container_ie_type v)))"
| "container_set_group v (K_remove_far c) = Inl (Illegal_ie (ucast (container_ie_type v)))"
| "container_set_group v (K_remove_urr c) = Inl (Illegal_ie (ucast (container_ie_type v)))"
| "container_set_group v (K_remove_qer c) = Inl (Illegal_ie (ucast (container_ie_type v)))"
| "container_set_group v (K_downlink_data_report c) = Inl (Illegal_ie (ucast (container_ie_type v)))"
| "container_set_group v (K_pfcp_heartbeat_request c) = Inl (Illegal_ie (ucast (container_ie_type v)))"
| "container_set_group v (K_pfcp_heartbeat_response c) = Inl (Illegal_ie (ucast (container_ie_type v)))"
| "container_set_group v (K_pfcp_association_setup_request c) = Inl (Illegal_ie (ucast (container_ie_type v)))"
| "container_set_group v (K_pfcp_association_setup_response c) = Inl (Illegal_ie (ucast (container_ie_type v)))"
| "container_set_group v (K_pfcp_association_update_request c) = Inl (Illegal_ie (ucast (container_ie_type v)))"
| "container_set_group v (K_pfcp_association_update_response c) = Inl (Illegal_ie (ucast (container_ie_type v)))"
| "container_set_group v (K_pfcp_association_release_request c) = Inl (Illegal_ie (ucast (container_ie_type v)))"
| "container_set_group v (K_pfcp_association_release_response c) = Inl (Illegal_ie (ucast (container_ie_type v)))"
| "container_set_group v (K_pfcp_node_report_request c) = Inl (Illegal_ie (ucast (container_ie_type v)))"
| "container_set_group v (K_pfcp_pfd_management_request c) = Inl (Illegal_ie (ucast (container_ie_type v)))"
| "container_set_group v (K_pfcp_pfd_management_response c) = Inl (Illegal_ie (ucast (container_ie_type v)))"
| "container_set_group v (K_pfcp_version_not_supported_response c) = Inl (Illegal_ie (ucast (container_ie_type v)))"
| "container_set_group v (K_pfcp_node_report_response c) = Inl (Illegal_ie (ucast (container_ie_type v)))"
| "container_set_group v (K_pfcp_session_set_deletion_request c) = Inl (Illegal_ie (ucast (container_ie_type v)))"
| "container_set_group v (K_pfcp_session_set_deletion_response c) = Inl (Illegal_ie (ucast (container_ie_type v)))"
| "container_set_group v (K_pfcp_session_establishment_request c) = map_sum id K_pfcp_session_establishment_request (pfcp_session_establishment_request_set_group v c)"
| "container_set_group v (K_pfcp_session_establishment_response c) = map_sum id K_pfcp_session_establishment_response (pfcp_session_establishment_response_set_group v c)"
| "container_set_group v (K_pfcp_session_modification_request c) = map_sum id K_pfcp_session_modification_request (pfcp_session_modification_request_set_group v c)"
| "container_set_group v (K_pfcp_session_modification_response c) = map_sum id K_pfcp_session_modification_response (pfcp_session_modification_response_set_group v c)"
| "container_set_group v (K_pfcp_session_deletion_request c) = Inl (Illegal_ie (ucast (container_ie_type v)))"
| "container_set_group v (K_pfcp_session_deletion_response c) = Inl (Illegal_ie (ucast (container_ie_type v)))"
| "container_set_group v (K_pfcp_session_report_request c) = map_sum id K_pfcp_session_report_request (pfcp_session_report_request_set_group v c)"
| "container_set_group v (K_pfcp_session_report_response c) = map_sum id K_pfcp_session_report_response (pfcp_session_report_response_set_group v c)"

section \<open>The conversion\<close>

definition new_container :: "u16 \<Rightarrow> container option" where
  "new_container ty =
     (if ty = ucast PFCP_IE_CREATE_PDR then Some (K_create_pdr new_create_pdr)
      else if ty = ucast PFCP_IE_PDI then Some (K_pdi new_pdi)
      else if ty = ucast PFCP_IE_CREATE_FAR then Some (K_create_far new_create_far)
      else if ty = ucast PFCP_IE_FORWARDING_PARAMETERS then Some (K_forwarding_parameters new_forwarding_parameters)
      else if ty = ucast PFCP_IE_DUPLICATING_PARAMETERS then Some (K_duplicating_parameters new_duplicating_parameters)
      else if ty = ucast PFCP_IE_CREATE_URR then Some (K_create_urr new_create_urr)
      else if ty = ucast PFCP_IE_CREATE_QER then Some (K_create_qer new_create_qer)
      else if ty = ucast PFCP_IE_CREATED_PDR then Some (K_created_pdr new_created_pdr)
      else if ty = ucast PFCP_IE_UPDATE_PDR then Some (K_update_pdr new_update_pdr)
      else if ty = ucast PFCP_IE_UPDATE_FAR then Some (K_update_far new_update_far)
      else if ty = ucast PFCP_IE_UPDATE_FORWARDING_PARAMETERS then Some (K_update_forwarding_parameters new_update_forwarding_parameters)
      else if ty = ucast PFCP_IE_UPDATE_BAR_WITHIN_PFCP_SESSION_REPORT_RESPONSE then Some (K_update_bar_within_pfcp_session_report_response new_update_bar_within_pfcp_session_report_response)
      else if ty = ucast PFCP_IE_UPDATE_URR then Some (K_update_urr new_update_urr)
      else if ty = ucast PFCP_IE_UPDATE_QER then Some (K_update_qer new_update_qer)
      else if ty = ucast PFCP_IE_REMOVE_PDR then Some (K_remove_pdr new_remove_pdr)
      else if ty = ucast PFCP_IE_REMOVE_FAR then Some (K_remove_far new_remove_far)
      else if ty = ucast PFCP_IE_REMOVE_URR then Some (K_remove_urr new_remove_urr)
      else if ty = ucast PFCP_IE_REMOVE_QER then Some (K_remove_qer new_remove_qer)
      else if ty = ucast PFCP_IE_DOWNLINK_DATA_REPORT then Some (K_downlink_data_report new_downlink_data_report)
      else None)"

text \<open>\<^term>\<open>None\<close> is the recursion without end of the Create URR.\<close>

fun ie_to_core :: "pfcp_ie \<Rightarrow> container \<Rightarrow> (pfcp_exn + container) option"
  and ies_to_core :: "pfcp_ie list \<Rightarrow> container \<Rightarrow> (pfcp_exn + container) option" where
  "ie_to_core (Simple s) k = Some (container_set_core (simple_core s) k)"
| "ie_to_core (Grouped t ies) k =
     (if tlv_type t = ucast PFCP_IE_CREATE_URR then None
      else case new_container (tlv_type t) of
        None \<Rightarrow> Some (Inl (Illegal_ie (tlv_type t)))
      | Some i \<Rightarrow>
          (case ies_to_core ies i of
             None \<Rightarrow> None
           | Some (Inl e) \<Rightarrow> Some (Inl e)
           | Some (Inr i) \<Rightarrow> Some (container_set_group i k)))"
| "ies_to_core [] k = Some (Inr k)"
| "ies_to_core (ie # ies) k =
     (case ie_to_core ie k of
        None \<Rightarrow> None
      | Some (Inl e) \<Rightarrow> Some (Inl e)
      | Some (Inr k) \<Rightarrow> ies_to_core ies k)"

text \<open>The conversion depends on the content only.\<close>

fun content_to_core :: "content \<Rightarrow> container \<Rightarrow> (pfcp_exn + container) option"
  and contents_to_core :: "content list \<Rightarrow> container \<Rightarrow> (pfcp_exn + container) option" where
  "content_to_core (Leaf v) k = Some (container_set_core v k)"
| "content_to_core (Node ty cs) k =
     (if ty = ucast PFCP_IE_CREATE_URR then None
      else case new_container ty of
        None \<Rightarrow> Some (Inl (Illegal_ie ty))
      | Some i \<Rightarrow>
          (case contents_to_core cs i of
             None \<Rightarrow> None
           | Some (Inl e) \<Rightarrow> Some (Inl e)
           | Some (Inr i) \<Rightarrow> Some (container_set_group i k)))"
| "contents_to_core [] k = Some (Inr k)"
| "contents_to_core (c # cs) k =
     (case content_to_core c k of
        None \<Rightarrow> None
      | Some (Inl e) \<Rightarrow> Some (Inl e)
      | Some (Inr k) \<Rightarrow> contents_to_core cs k)"

lemma ie_to_core_content:
  "ie_to_core ie k = content_to_core (ie_content ie) k"
  "ies_to_core ies k = contents_to_core (map ie_content ies) k"
  by (induction ie k and ies k rule: ie_to_core_ies_to_core.induct)
    (auto split: option.split sum.split)

end
