(* ===== verification/Pfcp_Grouped.thy ===== *)
theory Pfcp_Grouped
  imports Pfcp_Conversion
begin

text \<open>
  The grouped elements of \<^verbatim>\<open>src/oai/pfcp/3gpp_29.244.hpp\<close>: their constructors from containers, and
  their encodings.  For the groups of PDRs and FARs: \<open>c_entries\<close> are the elements that the
  constructor adds, \<open>c_contents\<close> what they carry, \<open>c_shape\<close> says that absent members hold their
  default and members that are never sent are absent, \<open>c_canon\<close> in addition that each member can be
  encoded and the whole fits.  Then the constructor succeeds, the object writes itself, and
  converting the content back yields the container, with uninitialised memory in the absent
  members of an outer header creation.
\<close>

section \<open>Adding elements\<close>

text \<open>
  The constructors of groups and messages are sequences of \<^verbatim>\<open>if (b.x.first) add_ie(new ...)\<close> and of
  loops that add an element per member of a vector.  Such a sequence is a list of optional
  elements; the constructor of an element may throw, which ends the sequence.
\<close>

type_synonym ie_entry = "(pfcp_exn + pfcp_ie) option"

definition opt_ie :: "'a optm \<Rightarrow> ('a \<Rightarrow> pfcp_exn + pfcp_ie) \<Rightarrow> ie_entry" where
  "opt_ie m f = (if fst m then Some (f (snd m)) else None)"

fun add_ies :: "ie_entry list \<Rightarrow> pfcp_ie \<Rightarrow> pfcp_exn + pfcp_ie" where
  "add_ies [] g = Inr g"
| "add_ies (None # os) g = add_ies os g"
| "add_ies (Some (Inl e) # os) g = Inl e"
| "add_ies (Some (Inr ie) # os) g = add_ies os (add_ie ie g)"

definition make_group :: "u8 \<Rightarrow> ie_entry list \<Rightarrow> pfcp_exn + pfcp_ie" where
  "make_group ty os = add_ies os (Grouped (tlv_set_length 0 (tlv_of_type ty)) [])"

text \<open>The bytes the elements of a sequence take.\<close>

fun entries_size :: "ie_entry list \<Rightarrow> nat" where
  "entries_size [] = 0"
| "entries_size (Some (Inr ie) # os) = ie_size ie + entries_size os"
| "entries_size (_ # os) = entries_size os"

text \<open>An entry is absent, or an element that writes a content.\<close>

definition entry_ok :: "ie_entry \<Rightarrow> content list \<Rightarrow> bool" where
  "entry_ok e cs \<longleftrightarrow> e = None \<and> cs = [] \<or> (\<exists>ie c. e = Some (Inr ie) \<and> cs = [c] \<and> writes ie c)"

lemma entry_ok_None [simp]: "entry_ok None []"
  by (simp add: entry_ok_def)

lemma entry_ok_Some: "f = Inr ie \<Longrightarrow> writes ie c \<Longrightarrow> entry_ok (Some f) [c]"
  by (simp add: entry_ok_def)

definition opt_leaf :: "'a optm \<Rightarrow> ('a \<Rightarrow> content) \<Rightarrow> content list" where
  "opt_leaf m K = (if fst m then [K (snd m)] else [])"

lemma entry_ok_opt:
  "(fst m \<Longrightarrow> \<exists>ie. f (snd m) = Inr ie \<and> writes ie (K (snd m))) \<Longrightarrow> entry_ok (opt_ie m f) (opt_leaf m K)"
  by (auto simp: opt_ie_def opt_leaf_def entry_ok_def)

lemma entries_ok:
  assumes "list_all2 entry_ok os css"
  shows "\<exists>ies. list_all2 writes ies (concat css) \<and> entries_size os = sum_list (map ie_size ies) \<and>
    (\<forall>n ty ies0. add_ies os (Grouped (ie_tlv ty n) ies0) = Inr (Grouped (ie_tlv ty (n + entries_size os)) (ies0 @ ies)))"
  using assms
proof (induction rule: list_all2_induct)
  case Nil
  show ?case by (intro exI [of _ "[]"]) simp
next
  case (Cons e os cs css)
  obtain ies where ies: "list_all2 writes ies (concat css)" "entries_size os = sum_list (map ie_size ies)"
      "\<And>n ty ies0. add_ies os (Grouped (ie_tlv ty n) ies0) = Inr (Grouped (ie_tlv ty (n + entries_size os)) (ies0 @ ies))"
    using Cons.IH by blast
  from Cons.hyps(1) consider "e = None" "cs = []" | ie c where "e = Some (Inr ie)" "cs = [c]" "writes ie c"
    by (auto simp: entry_ok_def)
  then show ?case
  proof cases
    case 1
    with ies show ?thesis by (intro exI [of _ ies]) simp
  next
    case 2
    with ies show ?thesis
      by (intro exI [of _ "ie # ies"]) (simp add: add_ie_ie_tlv add.assoc del: add_ie.simps)
  qed
qed

text \<open>A group of elements that write themselves, at least one and no more than fit, writes itself.\<close>

lemma writes_make_group:
  assumes "list_all2 entry_ok os css" and "ty \<in> set grouped_types" and "concat css \<noteq> []" and "entries_size os < 2 ^ 16"
  shows "\<exists>g. make_group ty os = Inr g \<and> writes g (Node (ucast ty) (concat css))"
proof -
  obtain ies where ies: "list_all2 writes ies (concat css)" "entries_size os = sum_list (map ie_size ies)"
      "add_ies os (Grouped (ie_tlv ty 0) []) = Inr (Grouped (ie_tlv ty (0 + entries_size os)) ([] @ ies))"
    using entries_ok [OF assms(1)] by blast
  have "ies \<noteq> []"
    using ies(1) assms(3) by auto
  then have "writes (Grouped (ie_tlv ty (entries_size os)) ies) (Node (ucast ty) (concat css))"
    using writes_group [OF ies(1) assms(2)] assms(4) by (simp add: ies(2))
  moreover have "tlv_set_length 0 (tlv_of_type ty) = ie_tlv ty 0"
    by (simp add: tlv_defs)
  ultimately show ?thesis
    using ies(3) by (simp add: make_group_def)
qed

text \<open>A group without any element has length 0, which the factory takes for the end.\<close>

lemma new_pfcp_ie_empty_group:
  "new_pfcp_ie (stream j (tlv_dump_to (tlv_set_length 0 (tlv_of_type ty)) @ rest)) = Some (Inr None, stream j rest)"
  by (simp add: new_pfcp_ie_unfold tlv_load_dump [unfolded new_pfcp_tlv_def] tlv_defs)

section \<open>Optional members\<close>

definition optm_ok :: "'a \<Rightarrow> 'a optm \<Rightarrow> bool" where
  "optm_ok d m \<longleftrightarrow> (\<not> fst m \<longrightarrow> m = (False, d))"

definition optm_all :: "('a \<Rightarrow> bool) \<Rightarrow> 'a optm \<Rightarrow> bool" where
  "optm_all P m \<longleftrightarrow> (fst m \<longrightarrow> P (snd m))"

definition optm_map :: "('a \<Rightarrow> 'a) \<Rightarrow> 'a optm \<Rightarrow> 'a optm" where
  "optm_map f m = (if fst m then (True, f (snd m)) else m)"

definition opt_set :: "'a optm \<Rightarrow> ('a \<Rightarrow> 'c \<Rightarrow> 'c) \<Rightarrow> 'c \<Rightarrow> 'c" where
  "opt_set m f c = (if fst m then f (snd m) c else c)"

definition opt_value :: "'a optm \<Rightarrow> 'a optm \<Rightarrow> 'a optm" where
  "opt_value m old = (if fst m then (True, snd m) else old)"

lemma optm_ok_eq: "optm_ok d m \<Longrightarrow> opt_value m (False, d) = m"
  by (cases m) (auto simp: optm_ok_def opt_value_def)

lemma opt_set_absent [simp]: "opt_set (False, d) f c = c"
  by (simp add: opt_set_def)

lemma opt_leaf_absent [simp]: "opt_leaf (False, d) K = []"
  by (simp add: opt_leaf_def)

lemma opt_leaf_junk:
  "(\<And>v. with_junk j (K v) = K v) \<Longrightarrow> map (with_junk j) (opt_leaf m K) = opt_leaf m K"
  by (simp add: opt_leaf_def)

lemma opt_leaf_map:
  "(\<And>v. with_junk j (K v) = K (g v)) \<Longrightarrow> map (with_junk j) (opt_leaf m K) = opt_leaf (optm_map g m) K"
  by (simp add: opt_leaf_def optm_map_def)

lemma optm_map_id [simp]: "optm_map (\<lambda>v. v) m = m"
  by (cases m) (simp add: optm_map_def)

lemma entry_ok_one: "writes ie c \<Longrightarrow> entry_ok (Some (Inr ie)) [c]"
  by (simp add: entry_ok_def)

lemma entry_ok_absent: "fst m = False \<Longrightarrow> entry_ok (opt_ie m f) (opt_leaf m K)"
  by (simp add: opt_ie_def opt_leaf_def)

lemma entry_ok_all:
  "optm_all P m \<Longrightarrow> (\<And>v. P v \<Longrightarrow> \<exists>ie. f v = Inr ie \<and> writes ie (K v)) \<Longrightarrow> entry_ok (opt_ie m f) (opt_leaf m K)"
  by (rule entry_ok_opt) (simp add: optm_all_def)

lemma entry_ok_simple:
  "optm_all P m \<Longrightarrow> (\<And>v. P v \<Longrightarrow> writes (Simple (C v)) (K v)) \<Longrightarrow>
   entry_ok (opt_ie m (\<lambda>v. Inr (Simple (C v)))) (opt_leaf m K)"
  by (rule entry_ok_opt) (simp add: optm_all_def)

lemma entry_ok_total:
  "(\<And>v. writes (Simple (C v)) (K v)) \<Longrightarrow> entry_ok (opt_ie m (\<lambda>v. Inr (Simple (C v)))) (opt_leaf m K)"
  by (rule entry_ok_opt) simp

lemma writes_sdf_entry:
  assumes "sdf_filter_canon v"
  shows "\<exists>ie. map_sum id (\<lambda>ie. Simple (IE_sdf_filter ie)) (new_sdf_filter_ie v) = Inr ie \<and>
    writes ie (Leaf (Core_sdf_filter v))"
  using writes_sdf_filter [OF assms] new_sdf_filter_ie_canon [OF assms] by simp

section \<open>Constructors\<close>

definition pdi_entries :: "u8 \<Rightarrow> pdi \<Rightarrow> ie_entry list" where
  "pdi_entries j b =
     [opt_ie (pd_source_interface b) (\<lambda>v. Inr (Simple (IE_source_interface (new_source_interface_ie v)))),
      opt_ie (pd_local_fteid b) (\<lambda>v. Inr (Simple (IE_fteid (new_fteid_ie j v)))),
      opt_ie (pd_network_instance b) (\<lambda>v. Inr (Simple (IE_network_instance (new_network_instance_ie v)))),
      opt_ie (pd_ue_ip_address b) (\<lambda>v. Inr (Simple (IE_ue_ip_address (new_ue_ip_address_ie v)))),
      opt_ie (pd_sdf_filter b) (\<lambda>v. map_sum id (\<lambda>ie. Simple (IE_sdf_filter ie)) (new_sdf_filter_ie v)),
      opt_ie (pd_application_id b) (\<lambda>v. Inr (Simple (IE_application_id (new_application_id_ie v)))),
      opt_ie (pd_qfi b) (\<lambda>v. Inr (Simple (IE_qfi (new_qfi_ie v))))]"

definition new_pdi_ie :: "u8 \<Rightarrow> pdi \<Rightarrow> pfcp_exn + pfcp_ie" where
  "new_pdi_ie j b = make_group PFCP_IE_PDI (pdi_entries j b)"

definition forwarding_parameters_entries :: "u8 \<Rightarrow> forwarding_parameters \<Rightarrow> ie_entry list" where
  "forwarding_parameters_entries j b =
     [opt_ie (fp_destination_interface b) (\<lambda>v. Inr (Simple (IE_destination_interface (new_destination_interface_ie v)))),
      opt_ie (fp_network_instance b) (\<lambda>v. Inr (Simple (IE_network_instance (new_network_instance_ie v)))),
      opt_ie (fp_outer_header_creation b) (\<lambda>v. Inr (Simple (IE_outer_header_creation (new_outer_header_creation_ie v)))),
      opt_ie (fp_transport_level_marking b) (\<lambda>v. Inr (Simple (IE_transport_level_marking (new_transport_level_marking_ie v)))),
      opt_ie (fp_forwarding_policy b) (\<lambda>v. Inr (Simple (IE_forwarding_policy (new_forwarding_policy_ie v))))]"

definition new_forwarding_parameters_ie :: "u8 \<Rightarrow> forwarding_parameters \<Rightarrow> pfcp_exn + pfcp_ie" where
  "new_forwarding_parameters_ie j b = make_group PFCP_IE_FORWARDING_PARAMETERS (forwarding_parameters_entries j b)"

definition duplicating_parameters_entries :: "u8 \<Rightarrow> duplicating_parameters \<Rightarrow> ie_entry list" where
  "duplicating_parameters_entries j b =
     []"

definition new_duplicating_parameters_ie :: "u8 \<Rightarrow> duplicating_parameters \<Rightarrow> pfcp_exn + pfcp_ie" where
  "new_duplicating_parameters_ie j b = make_group PFCP_IE_DUPLICATING_PARAMETERS (duplicating_parameters_entries j b)"

definition create_pdr_entries :: "u8 \<Rightarrow> create_pdr \<Rightarrow> ie_entry list" where
  "create_pdr_entries j b =
     [opt_ie (cp_pdr_id b) (\<lambda>v. Inr (Simple (IE_pdr_id (new_pdr_id_ie v)))),
      opt_ie (cp_precedence b) (\<lambda>v. Inr (Simple (IE_precedence (new_precedence_ie v)))),
      opt_ie (cp_pdi b) (new_pdi_ie j),
      opt_ie (cp_outer_header_removal b) (\<lambda>v. Inr (Simple (IE_outer_header_removal (new_outer_header_removal_ie v)))),
      opt_ie (cp_far_id b) (\<lambda>v. Inr (Simple (IE_far_id (new_far_id_ie v)))),
      opt_ie (cp_urr_id b) (\<lambda>v. Inr (Simple (IE_urr_id (new_urr_id_ie v)))),
      opt_ie (cp_qer_id b) (\<lambda>v. Inr (Simple (IE_qer_id (new_qer_id_ie v)))),
      opt_ie (cp_activate_predefined_rules b) (\<lambda>v. Inr (Simple (IE_activate_predefined_rules (new_activate_predefined_rules_ie v))))]"

definition new_create_pdr_ie :: "u8 \<Rightarrow> create_pdr \<Rightarrow> pfcp_exn + pfcp_ie" where
  "new_create_pdr_ie j b = make_group PFCP_IE_CREATE_PDR (create_pdr_entries j b)"

definition create_far_entries :: "u8 \<Rightarrow> create_far \<Rightarrow> ie_entry list" where
  "create_far_entries j b =
     [opt_ie (cf_far_id b) (\<lambda>v. Inr (Simple (IE_far_id (new_far_id_ie v)))),
      opt_ie (cf_apply_action b) (\<lambda>v. Inr (Simple (IE_apply_action (new_apply_action_ie v)))),
      opt_ie (cf_forwarding_parameters b) (new_forwarding_parameters_ie j),
      opt_ie (cf_duplicating_parameters b) (new_duplicating_parameters_ie j),
      opt_ie (cf_bar_id b) (\<lambda>v. Inr (Simple (IE_bar_id (new_bar_id_ie v))))]"

definition new_create_far_ie :: "u8 \<Rightarrow> create_far \<Rightarrow> pfcp_exn + pfcp_ie" where
  "new_create_far_ie j b = make_group PFCP_IE_CREATE_FAR (create_far_entries j b)"

definition create_urr_entries :: "u8 \<Rightarrow> create_urr \<Rightarrow> ie_entry list" where
  "create_urr_entries j b =
     []"

definition new_create_urr_ie :: "u8 \<Rightarrow> create_urr \<Rightarrow> pfcp_exn + pfcp_ie" where
  "new_create_urr_ie j b = make_group PFCP_IE_CREATE_URR (create_urr_entries j b)"

definition create_qer_entries :: "u8 \<Rightarrow> create_qer \<Rightarrow> ie_entry list" where
  "create_qer_entries j b =
     []"

definition new_create_qer_ie :: "u8 \<Rightarrow> create_qer \<Rightarrow> pfcp_exn + pfcp_ie" where
  "new_create_qer_ie j b = make_group PFCP_IE_CREATE_QER (create_qer_entries j b)"

definition created_pdr_entries :: "u8 \<Rightarrow> created_pdr \<Rightarrow> ie_entry list" where
  "created_pdr_entries j b =
     [opt_ie (cdp_pdr_id b) (\<lambda>v. Inr (Simple (IE_pdr_id (new_pdr_id_ie v)))),
      opt_ie (cdp_local_fteid b) (\<lambda>v. Inr (Simple (IE_fteid (new_fteid_ie j v))))]"

definition new_created_pdr_ie :: "u8 \<Rightarrow> created_pdr \<Rightarrow> pfcp_exn + pfcp_ie" where
  "new_created_pdr_ie j b = make_group PFCP_IE_CREATED_PDR (created_pdr_entries j b)"

definition update_pdr_entries :: "u8 \<Rightarrow> update_pdr \<Rightarrow> ie_entry list" where
  "update_pdr_entries j b =
     []"

definition new_update_pdr_ie :: "u8 \<Rightarrow> update_pdr \<Rightarrow> pfcp_exn + pfcp_ie" where
  "new_update_pdr_ie j b = make_group PFCP_IE_UPDATE_PDR (update_pdr_entries j b)"

definition update_forwarding_parameters_entries :: "u8 \<Rightarrow> update_forwarding_parameters \<Rightarrow> ie_entry list" where
  "update_forwarding_parameters_entries j b =
     [opt_ie (ufp_destination_interface b) (\<lambda>v. Inr (Simple (IE_destination_interface (new_destination_interface_ie v)))),
      opt_ie (ufp_network_instance b) (\<lambda>v. Inr (Simple (IE_network_instance (new_network_instance_ie v)))),
      opt_ie (ufp_outer_header_creation b) (\<lambda>v. Inr (Simple (IE_outer_header_creation (new_outer_header_creation_ie v)))),
      opt_ie (ufp_transport_level_marking b) (\<lambda>v. Inr (Simple (IE_transport_level_marking (new_transport_level_marking_ie v)))),
      opt_ie (ufp_forwarding_policy b) (\<lambda>v. Inr (Simple (IE_forwarding_policy (new_forwarding_policy_ie v))))]"

definition new_update_forwarding_parameters_ie :: "u8 \<Rightarrow> update_forwarding_parameters \<Rightarrow> pfcp_exn + pfcp_ie" where
  "new_update_forwarding_parameters_ie j b = make_group PFCP_IE_UPDATE_FORWARDING_PARAMETERS (update_forwarding_parameters_entries j b)"

definition update_far_entries :: "u8 \<Rightarrow> update_far \<Rightarrow> ie_entry list" where
  "update_far_entries j b =
     [Some ((\<lambda>v. Inr (Simple (IE_far_id (new_far_id_ie v)))) (uf_far_id b)),
      opt_ie (uf_apply_action b) (\<lambda>v. Inr (Simple (IE_apply_action (new_apply_action_ie v)))),
      opt_ie (uf_update_forwarding_parameters b) (new_update_forwarding_parameters_ie j),
      opt_ie (uf_bar_id b) (\<lambda>v. Inr (Simple (IE_bar_id (new_bar_id_ie v))))]"

definition new_update_far_ie :: "u8 \<Rightarrow> update_far \<Rightarrow> pfcp_exn + pfcp_ie" where
  "new_update_far_ie j b = make_group PFCP_IE_UPDATE_FAR (update_far_entries j b)"

definition update_bar_within_pfcp_session_report_response_entries :: "u8 \<Rightarrow> update_bar_within_pfcp_session_report_response \<Rightarrow> ie_entry list" where
  "update_bar_within_pfcp_session_report_response_entries j b =
     []"

definition new_update_bar_within_pfcp_session_report_response_ie :: "u8 \<Rightarrow> update_bar_within_pfcp_session_report_response \<Rightarrow> pfcp_exn + pfcp_ie" where
  "new_update_bar_within_pfcp_session_report_response_ie j b = make_group PFCP_IE_UPDATE_BAR_WITHIN_PFCP_SESSION_REPORT_RESPONSE (update_bar_within_pfcp_session_report_response_entries j b)"

definition update_urr_entries :: "u8 \<Rightarrow> update_urr \<Rightarrow> ie_entry list" where
  "update_urr_entries j b =
     []"

definition new_update_urr_ie :: "u8 \<Rightarrow> update_urr \<Rightarrow> pfcp_exn + pfcp_ie" where
  "new_update_urr_ie j b = make_group PFCP_IE_UPDATE_URR (update_urr_entries j b)"

definition update_qer_entries :: "u8 \<Rightarrow> update_qer \<Rightarrow> ie_entry list" where
  "update_qer_entries j b =
     []"

definition new_update_qer_ie :: "u8 \<Rightarrow> update_qer \<Rightarrow> pfcp_exn + pfcp_ie" where
  "new_update_qer_ie j b = make_group PFCP_IE_UPDATE_QER (update_qer_entries j b)"

definition remove_pdr_entries :: "u8 \<Rightarrow> remove_pdr \<Rightarrow> ie_entry list" where
  "remove_pdr_entries j b =
     [opt_ie (rp_pdr_id b) (\<lambda>v. Inr (Simple (IE_pdr_id (new_pdr_id_ie v))))]"

definition new_remove_pdr_ie :: "u8 \<Rightarrow> remove_pdr \<Rightarrow> pfcp_exn + pfcp_ie" where
  "new_remove_pdr_ie j b = make_group PFCP_IE_REMOVE_PDR (remove_pdr_entries j b)"

definition remove_far_entries :: "u8 \<Rightarrow> remove_far \<Rightarrow> ie_entry list" where
  "remove_far_entries j b =
     [opt_ie (rf_far_id b) (\<lambda>v. Inr (Simple (IE_far_id (new_far_id_ie v))))]"

definition new_remove_far_ie :: "u8 \<Rightarrow> remove_far \<Rightarrow> pfcp_exn + pfcp_ie" where
  "new_remove_far_ie j b = make_group PFCP_IE_REMOVE_FAR (remove_far_entries j b)"

definition remove_urr_entries :: "u8 \<Rightarrow> remove_urr \<Rightarrow> ie_entry list" where
  "remove_urr_entries j b =
     []"

definition new_remove_urr_ie :: "u8 \<Rightarrow> remove_urr \<Rightarrow> pfcp_exn + pfcp_ie" where
  "new_remove_urr_ie j b = make_group PFCP_IE_REMOVE_URR (remove_urr_entries j b)"

definition remove_qer_entries :: "u8 \<Rightarrow> remove_qer \<Rightarrow> ie_entry list" where
  "remove_qer_entries j b =
     []"

definition new_remove_qer_ie :: "u8 \<Rightarrow> remove_qer \<Rightarrow> pfcp_exn + pfcp_ie" where
  "new_remove_qer_ie j b = make_group PFCP_IE_REMOVE_QER (remove_qer_entries j b)"

definition downlink_data_report_entries :: "u8 \<Rightarrow> downlink_data_report \<Rightarrow> ie_entry list" where
  "downlink_data_report_entries j b =
     [opt_ie (ddr_pdr_id b) (\<lambda>v. Inr (Simple (IE_pdr_id (new_pdr_id_ie v))))]"

definition new_downlink_data_report_ie :: "u8 \<Rightarrow> downlink_data_report \<Rightarrow> pfcp_exn + pfcp_ie" where
  "new_downlink_data_report_ie j b = make_group PFCP_IE_DOWNLINK_DATA_REPORT (downlink_data_report_entries j b)"

definition create_traffic_endpoint_entries :: "u8 \<Rightarrow> create_traffic_endpoint \<Rightarrow> ie_entry list" where
  "create_traffic_endpoint_entries j b =
     []"

definition new_create_traffic_endpoint_ie :: "u8 \<Rightarrow> create_traffic_endpoint \<Rightarrow> pfcp_exn + pfcp_ie" where
  "new_create_traffic_endpoint_ie j b = make_group PFCP_IE_CREATE_TRAFFIC_ENDPOINT (create_traffic_endpoint_entries j b)"

section \<open>Encodings\<close>

subsection \<open>\<^verbatim>\<open>pfcp_pdi_ie\<close>\<close>

definition pdi_contents :: "pdi \<Rightarrow> content list list" where
  "pdi_contents b =
     [opt_leaf (pd_source_interface b) (\<lambda>v. Leaf (Core_source_interface v)),
      opt_leaf (pd_local_fteid b) (\<lambda>v. Leaf (Core_fteid v)),
      opt_leaf (pd_network_instance b) (\<lambda>v. Leaf (Core_network_instance v)),
      opt_leaf (pd_ue_ip_address b) (\<lambda>v. Leaf (Core_ue_ip_address v)),
      opt_leaf (pd_sdf_filter b) (\<lambda>v. Leaf (Core_sdf_filter v)),
      opt_leaf (pd_application_id b) (\<lambda>v. Leaf (Core_application_id v)),
      opt_leaf (pd_qfi b) (\<lambda>v. Leaf (Core_qfi v))]"

definition pdi_content :: "pdi \<Rightarrow> content" where
  "pdi_content b = Node (ucast PFCP_IE_PDI) (concat (pdi_contents b))"

definition pdi_shape :: "pdi \<Rightarrow> bool" where
  "pdi_shape b \<longleftrightarrow>
     optm_ok 0 (pd_source_interface b) \<and>
     optm_ok fteid0 (pd_local_fteid b) \<and>
     optm_ok [] (pd_network_instance b) \<and>
     optm_ok ue_ip_address0 (pd_ue_ip_address b) \<and>
     pd_traffic_endpoint_id b = (False, 0) \<and>
     optm_ok sdf_filter0 (pd_sdf_filter b) \<and>
     optm_ok [] (pd_application_id b) \<and>
     pd_ethernet_packet_filter b = (False, new_ethernet_packet_filter) \<and>
     optm_ok qfi0 (pd_qfi b) \<and>
     pd_framed_route b = (False, []) \<and>
     pd_framed_routing b = (False, 0) \<and>
     pd_framed_ipv6_route b = (False, [])"

definition pdi_canon :: "u8 \<Rightarrow> pdi \<Rightarrow> bool" where
  "pdi_canon j b \<longleftrightarrow>
     pdi_shape b \<and>
     optm_all (\<lambda>v. fteid_canon v) (pd_local_fteid b) \<and>
     optm_all (\<lambda>v. 0 < length v \<and> length v < 65536) (pd_network_instance b) \<and>
     optm_all (\<lambda>v. ue_ip_address_canon v) (pd_ue_ip_address b) \<and>
     optm_all (\<lambda>v. sdf_filter_canon v) (pd_sdf_filter b) \<and>
     optm_all (\<lambda>v. 0 < length v \<and> length v < 65536) (pd_application_id b) \<and>
     optm_all (\<lambda>v. qfi_spare v = 0) (pd_qfi b) \<and>
     concat (pdi_contents b) \<noteq> [] \<and>
     entries_size (pdi_entries j b) < 2 ^ 16"

lemma pdi_writes:
  assumes "pdi_canon j b"
  shows "\<exists>ie. new_pdi_ie j b = Inr ie \<and> writes ie (pdi_content b)"
  unfolding new_pdi_ie_def pdi_content_def
proof (rule writes_make_group)
  show "list_all2 entry_ok (pdi_entries j b) (pdi_contents b)"
    unfolding pdi_entries_def pdi_contents_def
    by (intro list.rel_intros
        entry_ok_total [OF writes_source_interface]
        entry_ok_simple [OF _ writes_fteid]
        entry_ok_simple [OF _ writes_network_instance]
        entry_ok_simple [OF _ writes_ue_ip_address]
        entry_ok_all [OF _ writes_sdf_entry]
        entry_ok_simple [OF _ writes_application_id]
        entry_ok_simple [OF _ writes_qfi])
      (use assms in \<open>simp_all add: pdi_canon_def pdi_shape_def\<close>)
qed (use assms in \<open>auto simp: pdi_canon_def grouped_types_def\<close>)

lemma pdi_with_junk_content [simp]: "with_junk j (pdi_content b) = pdi_content b"
  by (simp add: pdi_content_def pdi_contents_def core_with_junk_def opt_leaf_junk)

lemma pdi_steps:
  "contents_to_core (opt_leaf m0 (\<lambda>v. Leaf (Core_source_interface v)) @ cs) (K_pdi c) = contents_to_core cs (K_pdi (opt_set m0 pdi_set_source_interface c))"
  "contents_to_core (opt_leaf m1 (\<lambda>v. Leaf (Core_fteid v)) @ cs) (K_pdi c) = contents_to_core cs (K_pdi (opt_set m1 pdi_set_local_fteid c))"
  "contents_to_core (opt_leaf m2 (\<lambda>v. Leaf (Core_network_instance v)) @ cs) (K_pdi c) = contents_to_core cs (K_pdi (opt_set m2 pdi_set_network_instance c))"
  "contents_to_core (opt_leaf m3 (\<lambda>v. Leaf (Core_ue_ip_address v)) @ cs) (K_pdi c) = contents_to_core cs (K_pdi (opt_set m3 pdi_set_ue_ip_address c))"
  "contents_to_core (opt_leaf m4 (\<lambda>v. Leaf (Core_sdf_filter v)) @ cs) (K_pdi c) = contents_to_core cs (K_pdi (opt_set m4 pdi_set_sdf_filter c))"
  "contents_to_core (opt_leaf m5 (\<lambda>v. Leaf (Core_application_id v)) @ cs) (K_pdi c) = contents_to_core cs (K_pdi (opt_set m5 pdi_set_application_id c))"
  "contents_to_core (opt_leaf m6 (\<lambda>v. Leaf (Core_qfi v)) @ cs) (K_pdi c) = contents_to_core cs (K_pdi (opt_set m6 pdi_set_qfi c))"
  by (auto simp: opt_leaf_def opt_set_def optm_all_def pdi_set_core_def)

lemma pdi_opt_set:
  "opt_set m0 pdi_set_source_interface c = c\<lparr>pd_source_interface := opt_value m0 (pd_source_interface c)\<rparr>"
  "opt_set m1 pdi_set_local_fteid c = c\<lparr>pd_local_fteid := opt_value m1 (pd_local_fteid c)\<rparr>"
  "opt_set m2 pdi_set_network_instance c = c\<lparr>pd_network_instance := opt_value m2 (pd_network_instance c)\<rparr>"
  "opt_set m3 pdi_set_ue_ip_address c = c\<lparr>pd_ue_ip_address := opt_value m3 (pd_ue_ip_address c)\<rparr>"
  "opt_set m4 pdi_set_sdf_filter c = c\<lparr>pd_sdf_filter := opt_value m4 (pd_sdf_filter c)\<rparr>"
  "opt_set m5 pdi_set_application_id c = c\<lparr>pd_application_id := opt_value m5 (pd_application_id c)\<rparr>"
  "opt_set m6 pdi_set_qfi c = c\<lparr>pd_qfi := opt_value m6 (pd_qfi c)\<rparr>"
  by (simp_all add: opt_set_def opt_value_def pdi_set_source_interface_def pdi_set_local_fteid_def pdi_set_network_instance_def pdi_set_ue_ip_address_def pdi_set_sdf_filter_def pdi_set_application_id_def pdi_set_qfi_def)

lemma pdi_to_core:
  assumes "pdi_shape b"
  shows "content_to_core (pdi_content b) k = Some (container_set_group (K_pdi b) k)"
proof -
  have "contents_to_core (concat (pdi_contents b)) (K_pdi new_pdi) = Some (Inr (K_pdi b))"
    using assms
    by (cases b)
      (simp add: pdi_contents_def pdi_shape_def pdi_steps pdi_steps [where cs = "[]", simplified] pdi_opt_set new_pdi_def optm_ok_eq opt_leaf_absent)
  then show ?thesis
    by (simp add: pdi_content_def new_container_def)
qed

subsection \<open>\<^verbatim>\<open>pfcp_forwarding_parameters_ie\<close>\<close>

definition forwarding_parameters_contents :: "forwarding_parameters \<Rightarrow> content list list" where
  "forwarding_parameters_contents b =
     [opt_leaf (fp_destination_interface b) (\<lambda>v. Leaf (Core_destination_interface v)),
      opt_leaf (fp_network_instance b) (\<lambda>v. Leaf (Core_network_instance v)),
      opt_leaf (fp_outer_header_creation b) (\<lambda>v. Leaf (Core_outer_header_creation v)),
      opt_leaf (fp_transport_level_marking b) (\<lambda>v. Leaf (Core_transport_level_marking v)),
      opt_leaf (fp_forwarding_policy b) (\<lambda>v. Leaf (Core_forwarding_policy v))]"

definition forwarding_parameters_content :: "forwarding_parameters \<Rightarrow> content" where
  "forwarding_parameters_content b = Node (ucast PFCP_IE_FORWARDING_PARAMETERS) (concat (forwarding_parameters_contents b))"

definition forwarding_parameters_shape :: "forwarding_parameters \<Rightarrow> bool" where
  "forwarding_parameters_shape b \<longleftrightarrow>
     optm_ok 0 (fp_destination_interface b) \<and>
     optm_ok [] (fp_network_instance b) \<and>
     fp_redirect_information b = (False, redirect_information0) \<and>
     optm_ok core_outer_header_creation0 (fp_outer_header_creation b) \<and>
     optm_ok [] (fp_transport_level_marking b) \<and>
     optm_ok forwarding_policy0 (fp_forwarding_policy b) \<and>
     fp_header_enrichment b = (False, header_enrichment0) \<and>
     fp_linked_traffic_endpoint_id b = (False, 0) \<and>
     fp_proxying b = (False, proxying0)"

definition forwarding_parameters_canon :: "u8 \<Rightarrow> forwarding_parameters \<Rightarrow> bool" where
  "forwarding_parameters_canon j b \<longleftrightarrow>
     forwarding_parameters_shape b \<and>
     optm_all (\<lambda>v. 0 < length v \<and> length v < 65536) (fp_network_instance b) \<and>
     optm_all (\<lambda>v. ohc_ok (ohcr_outer_header_creation_description v)) (fp_outer_header_creation b) \<and>
     optm_all (\<lambda>v. length v = 2) (fp_transport_level_marking b) \<and>
     optm_all (\<lambda>v. forwarding_policy_canon v) (fp_forwarding_policy b) \<and>
     concat (forwarding_parameters_contents b) \<noteq> [] \<and>
     entries_size (forwarding_parameters_entries j b) < 2 ^ 16"

lemma forwarding_parameters_writes:
  assumes "forwarding_parameters_canon j b"
  shows "\<exists>ie. new_forwarding_parameters_ie j b = Inr ie \<and> writes ie (forwarding_parameters_content b)"
  unfolding new_forwarding_parameters_ie_def forwarding_parameters_content_def
proof (rule writes_make_group)
  show "list_all2 entry_ok (forwarding_parameters_entries j b) (forwarding_parameters_contents b)"
    unfolding forwarding_parameters_entries_def forwarding_parameters_contents_def
    by (intro list.rel_intros
        entry_ok_total [OF writes_destination_interface]
        entry_ok_simple [OF _ writes_network_instance]
        entry_ok_simple [OF _ writes_outer_header_creation]
        entry_ok_simple [OF _ writes_transport_level_marking]
        entry_ok_simple [OF _ writes_forwarding_policy])
      (use assms in \<open>simp_all add: forwarding_parameters_canon_def forwarding_parameters_shape_def\<close>)
qed (use assms in \<open>auto simp: forwarding_parameters_canon_def grouped_types_def\<close>)

definition forwarding_parameters_with_junk :: "u8 \<Rightarrow> forwarding_parameters \<Rightarrow> forwarding_parameters" where
  "forwarding_parameters_with_junk j b = b\<lparr>fp_outer_header_creation := optm_map (ohc_with_junk j) (fp_outer_header_creation b)\<rparr>"

lemma forwarding_parameters_with_junk_content [simp]: "with_junk j (forwarding_parameters_content b) = forwarding_parameters_content (forwarding_parameters_with_junk j b)"
  by (simp add: forwarding_parameters_content_def forwarding_parameters_contents_def forwarding_parameters_with_junk_def core_with_junk_def opt_leaf_junk
    opt_leaf_map [where K = "\<lambda>v. Leaf (Core_outer_header_creation v)" and g = "ohc_with_junk j"])

lemma forwarding_parameters_with_junk_shape [simp]: "forwarding_parameters_shape b \<Longrightarrow> forwarding_parameters_shape (forwarding_parameters_with_junk j b)"
  by (auto simp: forwarding_parameters_shape_def forwarding_parameters_with_junk_def optm_ok_def optm_all_def optm_map_def)

lemma forwarding_parameters_steps:
  "contents_to_core (opt_leaf m0 (\<lambda>v. Leaf (Core_destination_interface v)) @ cs) (K_forwarding_parameters c) = contents_to_core cs (K_forwarding_parameters (opt_set m0 forwarding_parameters_set_destination_interface c))"
  "contents_to_core (opt_leaf m1 (\<lambda>v. Leaf (Core_network_instance v)) @ cs) (K_forwarding_parameters c) = contents_to_core cs (K_forwarding_parameters (opt_set m1 forwarding_parameters_set_network_instance c))"
  "contents_to_core (opt_leaf m2 (\<lambda>v. Leaf (Core_outer_header_creation v)) @ cs) (K_forwarding_parameters c) = contents_to_core cs (K_forwarding_parameters (opt_set m2 forwarding_parameters_set_outer_header_creation c))"
  "contents_to_core (opt_leaf m3 (\<lambda>v. Leaf (Core_transport_level_marking v)) @ cs) (K_forwarding_parameters c) = contents_to_core cs (K_forwarding_parameters (opt_set m3 forwarding_parameters_set_transport_level_marking c))"
  "contents_to_core (opt_leaf m4 (\<lambda>v. Leaf (Core_forwarding_policy v)) @ cs) (K_forwarding_parameters c) = contents_to_core cs (K_forwarding_parameters (opt_set m4 forwarding_parameters_set_forwarding_policy c))"
  by (auto simp: opt_leaf_def opt_set_def optm_all_def forwarding_parameters_set_core_def)

lemma forwarding_parameters_opt_set:
  "opt_set m0 forwarding_parameters_set_destination_interface c = c\<lparr>fp_destination_interface := opt_value m0 (fp_destination_interface c)\<rparr>"
  "opt_set m1 forwarding_parameters_set_network_instance c = c\<lparr>fp_network_instance := opt_value m1 (fp_network_instance c)\<rparr>"
  "opt_set m2 forwarding_parameters_set_outer_header_creation c = c\<lparr>fp_outer_header_creation := opt_value m2 (fp_outer_header_creation c)\<rparr>"
  "opt_set m3 forwarding_parameters_set_transport_level_marking c = c\<lparr>fp_transport_level_marking := opt_value m3 (fp_transport_level_marking c)\<rparr>"
  "opt_set m4 forwarding_parameters_set_forwarding_policy c = c\<lparr>fp_forwarding_policy := opt_value m4 (fp_forwarding_policy c)\<rparr>"
  by (simp_all add: opt_set_def opt_value_def forwarding_parameters_set_destination_interface_def forwarding_parameters_set_network_instance_def forwarding_parameters_set_outer_header_creation_def forwarding_parameters_set_transport_level_marking_def forwarding_parameters_set_forwarding_policy_def)

lemma forwarding_parameters_to_core:
  assumes "forwarding_parameters_shape b"
  shows "content_to_core (forwarding_parameters_content b) k = Some (container_set_group (K_forwarding_parameters b) k)"
proof -
  have "contents_to_core (concat (forwarding_parameters_contents b)) (K_forwarding_parameters new_forwarding_parameters) = Some (Inr (K_forwarding_parameters b))"
    using assms
    by (cases b)
      (simp add: forwarding_parameters_contents_def forwarding_parameters_shape_def forwarding_parameters_steps forwarding_parameters_steps [where cs = "[]", simplified] forwarding_parameters_opt_set new_forwarding_parameters_def optm_ok_eq opt_leaf_absent)
  then show ?thesis
    by (simp add: forwarding_parameters_content_def new_container_def)
qed

subsection \<open>\<^verbatim>\<open>pfcp_create_pdr_ie\<close>\<close>

definition create_pdr_contents :: "create_pdr \<Rightarrow> content list list" where
  "create_pdr_contents b =
     [opt_leaf (cp_pdr_id b) (\<lambda>v. Leaf (Core_pdr_id v)),
      opt_leaf (cp_precedence b) (\<lambda>v. Leaf (Core_precedence v)),
      opt_leaf (cp_pdi b) pdi_content,
      opt_leaf (cp_outer_header_removal b) (\<lambda>v. Leaf (Core_outer_header_removal v)),
      opt_leaf (cp_far_id b) (\<lambda>v. Leaf (Core_far_id v)),
      opt_leaf (cp_urr_id b) (\<lambda>v. Leaf (Core_urr_id v)),
      opt_leaf (cp_qer_id b) (\<lambda>v. Leaf (Core_qer_id v)),
      opt_leaf (cp_activate_predefined_rules b) (\<lambda>v. Leaf (Core_activate_predefined_rules v))]"

definition create_pdr_content :: "create_pdr \<Rightarrow> content" where
  "create_pdr_content b = Node (ucast PFCP_IE_CREATE_PDR) (concat (create_pdr_contents b))"

definition create_pdr_shape :: "create_pdr \<Rightarrow> bool" where
  "create_pdr_shape b \<longleftrightarrow>
     optm_ok 0 (cp_pdr_id b) \<and>
     optm_ok 0 (cp_precedence b) \<and>
     optm_ok new_pdi (cp_pdi b) \<and>
     optm_all pdi_shape (cp_pdi b) \<and>
     optm_ok 0 (cp_outer_header_removal b) \<and>
     optm_ok 0 (cp_far_id b) \<and>
     cp_urr_id b = (False, 0) \<and>
     optm_ok 0 (cp_qer_id b) \<and>
     optm_ok [] (cp_activate_predefined_rules b)"

definition create_pdr_canon :: "u8 \<Rightarrow> create_pdr \<Rightarrow> bool" where
  "create_pdr_canon j b \<longleftrightarrow>
     create_pdr_shape b \<and>
     optm_all (\<lambda>v. pdi_canon j v) (cp_pdi b) \<and>
     optm_all (\<lambda>v. 0 < length v \<and> length v < 65536) (cp_activate_predefined_rules b) \<and>
     concat (create_pdr_contents b) \<noteq> [] \<and>
     entries_size (create_pdr_entries j b) < 2 ^ 16"

lemma create_pdr_writes:
  assumes "create_pdr_canon j b"
  shows "\<exists>ie. new_create_pdr_ie j b = Inr ie \<and> writes ie (create_pdr_content b)"
  unfolding new_create_pdr_ie_def create_pdr_content_def
proof (rule writes_make_group)
  show "list_all2 entry_ok (create_pdr_entries j b) (create_pdr_contents b)"
    unfolding create_pdr_entries_def create_pdr_contents_def
    by (intro list.rel_intros
        entry_ok_total [OF writes_pdr_id]
        entry_ok_total [OF writes_precedence]
        entry_ok_all [OF _ pdi_writes]
        entry_ok_total [OF writes_outer_header_removal]
        entry_ok_total [OF writes_far_id]
        entry_ok_absent [of "cp_urr_id b"]
        entry_ok_total [OF writes_qer_id]
        entry_ok_simple [OF _ writes_activate_predefined_rules])
      (use assms in \<open>simp_all add: create_pdr_canon_def create_pdr_shape_def\<close>)
qed (use assms in \<open>auto simp: create_pdr_canon_def grouped_types_def\<close>)

lemma create_pdr_with_junk_content [simp]: "with_junk j (create_pdr_content b) = create_pdr_content b"
  by (simp add: create_pdr_content_def create_pdr_contents_def core_with_junk_def opt_leaf_junk)

lemma create_pdr_steps:
  "contents_to_core (opt_leaf m0 (\<lambda>v. Leaf (Core_pdr_id v)) @ cs) (K_create_pdr c) = contents_to_core cs (K_create_pdr (opt_set m0 create_pdr_set_pdr_id c))"
  "contents_to_core (opt_leaf m1 (\<lambda>v. Leaf (Core_precedence v)) @ cs) (K_create_pdr c) = contents_to_core cs (K_create_pdr (opt_set m1 create_pdr_set_precedence c))"
  "optm_all pdi_shape m2 \<Longrightarrow>
   contents_to_core (opt_leaf m2 pdi_content @ cs) (K_create_pdr c) = contents_to_core cs (K_create_pdr (opt_set m2 create_pdr_set_pdi c))"
  "contents_to_core (opt_leaf m3 (\<lambda>v. Leaf (Core_outer_header_removal v)) @ cs) (K_create_pdr c) = contents_to_core cs (K_create_pdr (opt_set m3 create_pdr_set_outer_header_removal c))"
  "contents_to_core (opt_leaf m4 (\<lambda>v. Leaf (Core_far_id v)) @ cs) (K_create_pdr c) = contents_to_core cs (K_create_pdr (opt_set m4 create_pdr_set_far_id c))"
  "contents_to_core (opt_leaf m5 (\<lambda>v. Leaf (Core_urr_id v)) @ cs) (K_create_pdr c) = contents_to_core cs (K_create_pdr (opt_set m5 create_pdr_set_urr_id c))"
  "contents_to_core (opt_leaf m6 (\<lambda>v. Leaf (Core_qer_id v)) @ cs) (K_create_pdr c) = contents_to_core cs (K_create_pdr (opt_set m6 create_pdr_set_qer_id c))"
  "contents_to_core (opt_leaf m7 (\<lambda>v. Leaf (Core_activate_predefined_rules v)) @ cs) (K_create_pdr c) = contents_to_core cs (K_create_pdr (opt_set m7 create_pdr_set_activate_predefined_rules c))"
  by (auto simp: opt_leaf_def opt_set_def optm_all_def create_pdr_set_core_def create_pdr_set_group_def pdi_to_core)

lemma create_pdr_opt_set:
  "opt_set m0 create_pdr_set_pdr_id c = c\<lparr>cp_pdr_id := opt_value m0 (cp_pdr_id c)\<rparr>"
  "opt_set m1 create_pdr_set_precedence c = c\<lparr>cp_precedence := opt_value m1 (cp_precedence c)\<rparr>"
  "opt_set m2 create_pdr_set_pdi c = c\<lparr>cp_pdi := opt_value m2 (cp_pdi c)\<rparr>"
  "opt_set m3 create_pdr_set_outer_header_removal c = c\<lparr>cp_outer_header_removal := opt_value m3 (cp_outer_header_removal c)\<rparr>"
  "opt_set m4 create_pdr_set_far_id c = c\<lparr>cp_far_id := opt_value m4 (cp_far_id c)\<rparr>"
  "opt_set m5 create_pdr_set_urr_id c = c\<lparr>cp_urr_id := opt_value m5 (cp_urr_id c)\<rparr>"
  "opt_set m6 create_pdr_set_qer_id c = c\<lparr>cp_qer_id := opt_value m6 (cp_qer_id c)\<rparr>"
  "opt_set m7 create_pdr_set_activate_predefined_rules c = c\<lparr>cp_activate_predefined_rules := opt_value m7 (cp_activate_predefined_rules c)\<rparr>"
  by (simp_all add: opt_set_def opt_value_def create_pdr_set_pdr_id_def create_pdr_set_precedence_def create_pdr_set_pdi_def create_pdr_set_outer_header_removal_def create_pdr_set_far_id_def create_pdr_set_urr_id_def create_pdr_set_qer_id_def create_pdr_set_activate_predefined_rules_def)

lemma create_pdr_to_core:
  assumes "create_pdr_shape b"
  shows "content_to_core (create_pdr_content b) k = Some (container_set_group (K_create_pdr b) k)"
proof -
  have "contents_to_core (concat (create_pdr_contents b)) (K_create_pdr new_create_pdr) = Some (Inr (K_create_pdr b))"
    using assms
    by (cases b)
      (simp add: create_pdr_contents_def create_pdr_shape_def create_pdr_steps create_pdr_steps [where cs = "[]", simplified] create_pdr_opt_set new_create_pdr_def optm_ok_eq opt_leaf_absent)
  then show ?thesis
    by (simp add: create_pdr_content_def new_container_def)
qed

subsection \<open>\<^verbatim>\<open>pfcp_create_far_ie\<close>\<close>

definition create_far_contents :: "create_far \<Rightarrow> content list list" where
  "create_far_contents b =
     [opt_leaf (cf_far_id b) (\<lambda>v. Leaf (Core_far_id v)),
      opt_leaf (cf_apply_action b) (\<lambda>v. Leaf (Core_apply_action v)),
      opt_leaf (cf_forwarding_parameters b) forwarding_parameters_content,
      opt_leaf (cf_duplicating_parameters b) (\<lambda>v. Node (ucast PFCP_IE_DUPLICATING_PARAMETERS) []),
      opt_leaf (cf_bar_id b) (\<lambda>v. Leaf (Core_bar_id v))]"

definition create_far_content :: "create_far \<Rightarrow> content" where
  "create_far_content b = Node (ucast PFCP_IE_CREATE_FAR) (concat (create_far_contents b))"

definition create_far_shape :: "create_far \<Rightarrow> bool" where
  "create_far_shape b \<longleftrightarrow>
     optm_ok 0 (cf_far_id b) \<and>
     optm_ok apply_action0 (cf_apply_action b) \<and>
     optm_ok new_forwarding_parameters (cf_forwarding_parameters b) \<and>
     optm_all forwarding_parameters_shape (cf_forwarding_parameters b) \<and>
     cf_duplicating_parameters b = (False, new_duplicating_parameters) \<and>
     optm_ok 0 (cf_bar_id b)"

definition create_far_canon :: "u8 \<Rightarrow> create_far \<Rightarrow> bool" where
  "create_far_canon j b \<longleftrightarrow>
     create_far_shape b \<and>
     optm_all (\<lambda>v. apply_action_canon v) (cf_apply_action b) \<and>
     optm_all (\<lambda>v. forwarding_parameters_canon j v) (cf_forwarding_parameters b) \<and>
     concat (create_far_contents b) \<noteq> [] \<and>
     entries_size (create_far_entries j b) < 2 ^ 16"

lemma create_far_writes:
  assumes "create_far_canon j b"
  shows "\<exists>ie. new_create_far_ie j b = Inr ie \<and> writes ie (create_far_content b)"
  unfolding new_create_far_ie_def create_far_content_def
proof (rule writes_make_group)
  show "list_all2 entry_ok (create_far_entries j b) (create_far_contents b)"
    unfolding create_far_entries_def create_far_contents_def
    by (intro list.rel_intros
        entry_ok_total [OF writes_far_id]
        entry_ok_simple [OF _ writes_apply_action]
        entry_ok_all [OF _ forwarding_parameters_writes]
        entry_ok_absent [of "cf_duplicating_parameters b"]
        entry_ok_total [OF writes_bar_id])
      (use assms in \<open>simp_all add: create_far_canon_def create_far_shape_def\<close>)
qed (use assms in \<open>auto simp: create_far_canon_def grouped_types_def\<close>)

definition create_far_with_junk :: "u8 \<Rightarrow> create_far \<Rightarrow> create_far" where
  "create_far_with_junk j b = b\<lparr>cf_forwarding_parameters := optm_map (forwarding_parameters_with_junk j) (cf_forwarding_parameters b)\<rparr>"

lemma create_far_with_junk_content [simp]: "with_junk j (create_far_content b) = create_far_content (create_far_with_junk j b)"
  by (simp add: create_far_content_def create_far_contents_def create_far_with_junk_def core_with_junk_def opt_leaf_junk
    opt_leaf_map [where K = forwarding_parameters_content and g = "forwarding_parameters_with_junk j"])

lemma create_far_with_junk_shape [simp]: "create_far_shape b \<Longrightarrow> create_far_shape (create_far_with_junk j b)"
  by (auto simp: create_far_shape_def create_far_with_junk_def optm_ok_def optm_all_def optm_map_def)

lemma create_far_steps:
  "contents_to_core (opt_leaf m0 (\<lambda>v. Leaf (Core_far_id v)) @ cs) (K_create_far c) = contents_to_core cs (K_create_far (opt_set m0 create_far_set_far_id c))"
  "contents_to_core (opt_leaf m1 (\<lambda>v. Leaf (Core_apply_action v)) @ cs) (K_create_far c) = contents_to_core cs (K_create_far (opt_set m1 create_far_set_apply_action c))"
  "optm_all forwarding_parameters_shape m2 \<Longrightarrow>
   contents_to_core (opt_leaf m2 forwarding_parameters_content @ cs) (K_create_far c) = contents_to_core cs (K_create_far (opt_set m2 create_far_set_forwarding_parameters c))"
  "contents_to_core (opt_leaf m4 (\<lambda>v. Leaf (Core_bar_id v)) @ cs) (K_create_far c) = contents_to_core cs (K_create_far (opt_set m4 create_far_set_bar_id c))"
  by (auto simp: opt_leaf_def opt_set_def optm_all_def create_far_set_core_def create_far_set_group_def forwarding_parameters_to_core)

lemma create_far_opt_set:
  "opt_set m0 create_far_set_far_id c = c\<lparr>cf_far_id := opt_value m0 (cf_far_id c)\<rparr>"
  "opt_set m1 create_far_set_apply_action c = c\<lparr>cf_apply_action := opt_value m1 (cf_apply_action c)\<rparr>"
  "opt_set m2 create_far_set_forwarding_parameters c = c\<lparr>cf_forwarding_parameters := opt_value m2 (cf_forwarding_parameters c)\<rparr>"
  "opt_set m3 create_far_set_duplicating_parameters c = c\<lparr>cf_duplicating_parameters := opt_value m3 (cf_duplicating_parameters c)\<rparr>"
  "opt_set m4 create_far_set_bar_id c = c\<lparr>cf_bar_id := opt_value m4 (cf_bar_id c)\<rparr>"
  by (simp_all add: opt_set_def opt_value_def create_far_set_far_id_def create_far_set_apply_action_def create_far_set_forwarding_parameters_def create_far_set_duplicating_parameters_def create_far_set_bar_id_def)

lemma create_far_to_core:
  assumes "create_far_shape b"
  shows "content_to_core (create_far_content b) k = Some (container_set_group (K_create_far b) k)"
proof -
  have "contents_to_core (concat (create_far_contents b)) (K_create_far new_create_far) = Some (Inr (K_create_far b))"
    using assms
    by (cases b)
      (simp add: create_far_contents_def create_far_shape_def create_far_steps create_far_steps [where cs = "[]", simplified] create_far_opt_set new_create_far_def optm_ok_eq opt_leaf_absent)
  then show ?thesis
    by (simp add: create_far_content_def new_container_def)
qed

subsection \<open>\<^verbatim>\<open>pfcp_created_pdr_ie\<close>\<close>

definition created_pdr_contents :: "created_pdr \<Rightarrow> content list list" where
  "created_pdr_contents b =
     [opt_leaf (cdp_pdr_id b) (\<lambda>v. Leaf (Core_pdr_id v)),
      opt_leaf (cdp_local_fteid b) (\<lambda>v. Leaf (Core_fteid v))]"

definition created_pdr_content :: "created_pdr \<Rightarrow> content" where
  "created_pdr_content b = Node (ucast PFCP_IE_CREATED_PDR) (concat (created_pdr_contents b))"

definition created_pdr_shape :: "created_pdr \<Rightarrow> bool" where
  "created_pdr_shape b \<longleftrightarrow>
     optm_ok 0 (cdp_pdr_id b) \<and>
     optm_ok fteid0 (cdp_local_fteid b)"

definition created_pdr_canon :: "u8 \<Rightarrow> created_pdr \<Rightarrow> bool" where
  "created_pdr_canon j b \<longleftrightarrow>
     created_pdr_shape b \<and>
     optm_all (\<lambda>v. fteid_canon v) (cdp_local_fteid b) \<and>
     concat (created_pdr_contents b) \<noteq> [] \<and>
     entries_size (created_pdr_entries j b) < 2 ^ 16"

lemma created_pdr_writes:
  assumes "created_pdr_canon j b"
  shows "\<exists>ie. new_created_pdr_ie j b = Inr ie \<and> writes ie (created_pdr_content b)"
  unfolding new_created_pdr_ie_def created_pdr_content_def
proof (rule writes_make_group)
  show "list_all2 entry_ok (created_pdr_entries j b) (created_pdr_contents b)"
    unfolding created_pdr_entries_def created_pdr_contents_def
    by (intro list.rel_intros
        entry_ok_total [OF writes_pdr_id]
        entry_ok_simple [OF _ writes_fteid])
      (use assms in \<open>simp_all add: created_pdr_canon_def created_pdr_shape_def\<close>)
qed (use assms in \<open>auto simp: created_pdr_canon_def grouped_types_def\<close>)

lemma created_pdr_with_junk_content [simp]: "with_junk j (created_pdr_content b) = created_pdr_content b"
  by (simp add: created_pdr_content_def created_pdr_contents_def core_with_junk_def opt_leaf_junk)

lemma created_pdr_steps:
  "contents_to_core (opt_leaf m0 (\<lambda>v. Leaf (Core_pdr_id v)) @ cs) (K_created_pdr c) = contents_to_core cs (K_created_pdr (opt_set m0 created_pdr_set_pdr_id c))"
  "contents_to_core (opt_leaf m1 (\<lambda>v. Leaf (Core_fteid v)) @ cs) (K_created_pdr c) = contents_to_core cs (K_created_pdr (opt_set m1 created_pdr_set_local_fteid c))"
  by (auto simp: opt_leaf_def opt_set_def optm_all_def created_pdr_set_core_def)

lemma created_pdr_opt_set:
  "opt_set m0 created_pdr_set_pdr_id c = c\<lparr>cdp_pdr_id := opt_value m0 (cdp_pdr_id c)\<rparr>"
  "opt_set m1 created_pdr_set_local_fteid c = c\<lparr>cdp_local_fteid := opt_value m1 (cdp_local_fteid c)\<rparr>"
  by (simp_all add: opt_set_def opt_value_def created_pdr_set_pdr_id_def created_pdr_set_local_fteid_def)

lemma created_pdr_to_core:
  assumes "created_pdr_shape b"
  shows "content_to_core (created_pdr_content b) k = Some (container_set_group (K_created_pdr b) k)"
proof -
  have "contents_to_core (concat (created_pdr_contents b)) (K_created_pdr new_created_pdr) = Some (Inr (K_created_pdr b))"
    using assms
    by (cases b)
      (simp add: created_pdr_contents_def created_pdr_shape_def created_pdr_steps created_pdr_steps [where cs = "[]", simplified] created_pdr_opt_set new_created_pdr_def optm_ok_eq opt_leaf_absent)
  then show ?thesis
    by (simp add: created_pdr_content_def new_container_def)
qed

subsection \<open>\<^verbatim>\<open>pfcp_update_forwarding_parameters_ie\<close>\<close>

definition update_forwarding_parameters_contents :: "update_forwarding_parameters \<Rightarrow> content list list" where
  "update_forwarding_parameters_contents b =
     [opt_leaf (ufp_destination_interface b) (\<lambda>v. Leaf (Core_destination_interface v)),
      opt_leaf (ufp_network_instance b) (\<lambda>v. Leaf (Core_network_instance v)),
      opt_leaf (ufp_outer_header_creation b) (\<lambda>v. Leaf (Core_outer_header_creation v)),
      opt_leaf (ufp_transport_level_marking b) (\<lambda>v. Leaf (Core_transport_level_marking v)),
      opt_leaf (ufp_forwarding_policy b) (\<lambda>v. Leaf (Core_forwarding_policy v))]"

definition update_forwarding_parameters_content :: "update_forwarding_parameters \<Rightarrow> content" where
  "update_forwarding_parameters_content b = Node (ucast PFCP_IE_UPDATE_FORWARDING_PARAMETERS) (concat (update_forwarding_parameters_contents b))"

definition update_forwarding_parameters_shape :: "update_forwarding_parameters \<Rightarrow> bool" where
  "update_forwarding_parameters_shape b \<longleftrightarrow>
     optm_ok 0 (ufp_destination_interface b) \<and>
     optm_ok [] (ufp_network_instance b) \<and>
     optm_ok core_outer_header_creation0 (ufp_outer_header_creation b) \<and>
     optm_ok [] (ufp_transport_level_marking b) \<and>
     optm_ok forwarding_policy0 (ufp_forwarding_policy b) \<and>
     ufp_header_enrichment b = (False, header_enrichment0) \<and>
     ufp_pfcpsmreq_flags b = (False, pfcpsmreq_flags0) \<and>
     ufp_linked_traffic_endpoint_id b = (False, 0)"

definition update_forwarding_parameters_canon :: "u8 \<Rightarrow> update_forwarding_parameters \<Rightarrow> bool" where
  "update_forwarding_parameters_canon j b \<longleftrightarrow>
     update_forwarding_parameters_shape b \<and>
     optm_all (\<lambda>v. 0 < length v \<and> length v < 65536) (ufp_network_instance b) \<and>
     optm_all (\<lambda>v. ohc_ok (ohcr_outer_header_creation_description v)) (ufp_outer_header_creation b) \<and>
     optm_all (\<lambda>v. length v = 2) (ufp_transport_level_marking b) \<and>
     optm_all (\<lambda>v. forwarding_policy_canon v) (ufp_forwarding_policy b) \<and>
     concat (update_forwarding_parameters_contents b) \<noteq> [] \<and>
     entries_size (update_forwarding_parameters_entries j b) < 2 ^ 16"

lemma update_forwarding_parameters_writes:
  assumes "update_forwarding_parameters_canon j b"
  shows "\<exists>ie. new_update_forwarding_parameters_ie j b = Inr ie \<and> writes ie (update_forwarding_parameters_content b)"
  unfolding new_update_forwarding_parameters_ie_def update_forwarding_parameters_content_def
proof (rule writes_make_group)
  show "list_all2 entry_ok (update_forwarding_parameters_entries j b) (update_forwarding_parameters_contents b)"
    unfolding update_forwarding_parameters_entries_def update_forwarding_parameters_contents_def
    by (intro list.rel_intros
        entry_ok_total [OF writes_destination_interface]
        entry_ok_simple [OF _ writes_network_instance]
        entry_ok_simple [OF _ writes_outer_header_creation]
        entry_ok_simple [OF _ writes_transport_level_marking]
        entry_ok_simple [OF _ writes_forwarding_policy])
      (use assms in \<open>simp_all add: update_forwarding_parameters_canon_def update_forwarding_parameters_shape_def\<close>)
qed (use assms in \<open>auto simp: update_forwarding_parameters_canon_def grouped_types_def\<close>)

definition update_forwarding_parameters_with_junk :: "u8 \<Rightarrow> update_forwarding_parameters \<Rightarrow> update_forwarding_parameters" where
  "update_forwarding_parameters_with_junk j b = b\<lparr>ufp_outer_header_creation := optm_map (ohc_with_junk j) (ufp_outer_header_creation b)\<rparr>"

lemma update_forwarding_parameters_with_junk_content [simp]: "with_junk j (update_forwarding_parameters_content b) = update_forwarding_parameters_content (update_forwarding_parameters_with_junk j b)"
  by (simp add: update_forwarding_parameters_content_def update_forwarding_parameters_contents_def update_forwarding_parameters_with_junk_def core_with_junk_def opt_leaf_junk
    opt_leaf_map [where K = "\<lambda>v. Leaf (Core_outer_header_creation v)" and g = "ohc_with_junk j"])

lemma update_forwarding_parameters_with_junk_shape [simp]: "update_forwarding_parameters_shape b \<Longrightarrow> update_forwarding_parameters_shape (update_forwarding_parameters_with_junk j b)"
  by (auto simp: update_forwarding_parameters_shape_def update_forwarding_parameters_with_junk_def optm_ok_def optm_all_def optm_map_def)

lemma update_forwarding_parameters_steps:
  "contents_to_core (opt_leaf m0 (\<lambda>v. Leaf (Core_destination_interface v)) @ cs) (K_update_forwarding_parameters c) = contents_to_core cs (K_update_forwarding_parameters (opt_set m0 update_forwarding_parameters_set_destination_interface c))"
  "contents_to_core (opt_leaf m1 (\<lambda>v. Leaf (Core_network_instance v)) @ cs) (K_update_forwarding_parameters c) = contents_to_core cs (K_update_forwarding_parameters (opt_set m1 update_forwarding_parameters_set_network_instance c))"
  "contents_to_core (opt_leaf m2 (\<lambda>v. Leaf (Core_outer_header_creation v)) @ cs) (K_update_forwarding_parameters c) = contents_to_core cs (K_update_forwarding_parameters (opt_set m2 update_forwarding_parameters_set_outer_header_creation c))"
  "contents_to_core (opt_leaf m3 (\<lambda>v. Leaf (Core_transport_level_marking v)) @ cs) (K_update_forwarding_parameters c) = contents_to_core cs (K_update_forwarding_parameters (opt_set m3 update_forwarding_parameters_set_transport_level_marking c))"
  "contents_to_core (opt_leaf m4 (\<lambda>v. Leaf (Core_forwarding_policy v)) @ cs) (K_update_forwarding_parameters c) = contents_to_core cs (K_update_forwarding_parameters (opt_set m4 update_forwarding_parameters_set_forwarding_policy c))"
  by (auto simp: opt_leaf_def opt_set_def optm_all_def update_forwarding_parameters_set_core_def)

lemma update_forwarding_parameters_opt_set:
  "opt_set m0 update_forwarding_parameters_set_destination_interface c = c\<lparr>ufp_destination_interface := opt_value m0 (ufp_destination_interface c)\<rparr>"
  "opt_set m1 update_forwarding_parameters_set_network_instance c = c\<lparr>ufp_network_instance := opt_value m1 (ufp_network_instance c)\<rparr>"
  "opt_set m2 update_forwarding_parameters_set_outer_header_creation c = c\<lparr>ufp_outer_header_creation := opt_value m2 (ufp_outer_header_creation c)\<rparr>"
  "opt_set m3 update_forwarding_parameters_set_transport_level_marking c = c\<lparr>ufp_transport_level_marking := opt_value m3 (ufp_transport_level_marking c)\<rparr>"
  "opt_set m4 update_forwarding_parameters_set_forwarding_policy c = c\<lparr>ufp_forwarding_policy := opt_value m4 (ufp_forwarding_policy c)\<rparr>"
  by (simp_all add: opt_set_def opt_value_def update_forwarding_parameters_set_destination_interface_def update_forwarding_parameters_set_network_instance_def update_forwarding_parameters_set_outer_header_creation_def update_forwarding_parameters_set_transport_level_marking_def update_forwarding_parameters_set_forwarding_policy_def)

lemma update_forwarding_parameters_to_core:
  assumes "update_forwarding_parameters_shape b"
  shows "content_to_core (update_forwarding_parameters_content b) k = Some (container_set_group (K_update_forwarding_parameters b) k)"
proof -
  have "contents_to_core (concat (update_forwarding_parameters_contents b)) (K_update_forwarding_parameters new_update_forwarding_parameters) = Some (Inr (K_update_forwarding_parameters b))"
    using assms
    by (cases b)
      (simp add: update_forwarding_parameters_contents_def update_forwarding_parameters_shape_def update_forwarding_parameters_steps update_forwarding_parameters_steps [where cs = "[]", simplified] update_forwarding_parameters_opt_set new_update_forwarding_parameters_def optm_ok_eq opt_leaf_absent)
  then show ?thesis
    by (simp add: update_forwarding_parameters_content_def new_container_def)
qed

subsection \<open>\<^verbatim>\<open>pfcp_update_far_ie\<close>\<close>

definition update_far_contents :: "update_far \<Rightarrow> content list list" where
  "update_far_contents b =
     [[(\<lambda>v. Leaf (Core_far_id v)) (uf_far_id b)],
      opt_leaf (uf_apply_action b) (\<lambda>v. Leaf (Core_apply_action v)),
      opt_leaf (uf_update_forwarding_parameters b) update_forwarding_parameters_content,
      opt_leaf (uf_bar_id b) (\<lambda>v. Leaf (Core_bar_id v))]"

definition update_far_content :: "update_far \<Rightarrow> content" where
  "update_far_content b = Node (ucast PFCP_IE_UPDATE_FAR) (concat (update_far_contents b))"

definition update_far_shape :: "update_far \<Rightarrow> bool" where
  "update_far_shape b \<longleftrightarrow>
     optm_ok apply_action0 (uf_apply_action b) \<and>
     optm_ok new_update_forwarding_parameters (uf_update_forwarding_parameters b) \<and>
     optm_all update_forwarding_parameters_shape (uf_update_forwarding_parameters b) \<and>
     uf_update_duplicating_parameters b = (False, new_update_duplicating_parameters) \<and>
     optm_ok 0 (uf_bar_id b)"

definition update_far_canon :: "u8 \<Rightarrow> update_far \<Rightarrow> bool" where
  "update_far_canon j b \<longleftrightarrow>
     update_far_shape b \<and>
     optm_all (\<lambda>v. apply_action_canon v) (uf_apply_action b) \<and>
     optm_all (\<lambda>v. update_forwarding_parameters_canon j v) (uf_update_forwarding_parameters b) \<and>
     concat (update_far_contents b) \<noteq> [] \<and>
     entries_size (update_far_entries j b) < 2 ^ 16"

lemma update_far_writes:
  assumes "update_far_canon j b"
  shows "\<exists>ie. new_update_far_ie j b = Inr ie \<and> writes ie (update_far_content b)"
  unfolding new_update_far_ie_def update_far_content_def
proof (rule writes_make_group)
  show "list_all2 entry_ok (update_far_entries j b) (update_far_contents b)"
    unfolding update_far_entries_def update_far_contents_def
    by (intro list.rel_intros
        entry_ok_one [OF writes_far_id]
        entry_ok_simple [OF _ writes_apply_action]
        entry_ok_all [OF _ update_forwarding_parameters_writes]
        entry_ok_total [OF writes_bar_id])
      (use assms in \<open>simp_all add: update_far_canon_def update_far_shape_def\<close>)
qed (use assms in \<open>auto simp: update_far_canon_def grouped_types_def\<close>)

definition update_far_with_junk :: "u8 \<Rightarrow> update_far \<Rightarrow> update_far" where
  "update_far_with_junk j b = b\<lparr>uf_update_forwarding_parameters := optm_map (update_forwarding_parameters_with_junk j) (uf_update_forwarding_parameters b)\<rparr>"

lemma update_far_with_junk_content [simp]: "with_junk j (update_far_content b) = update_far_content (update_far_with_junk j b)"
  by (simp add: update_far_content_def update_far_contents_def update_far_with_junk_def core_with_junk_def opt_leaf_junk
    opt_leaf_map [where K = update_forwarding_parameters_content and g = "update_forwarding_parameters_with_junk j"])

lemma update_far_with_junk_shape [simp]: "update_far_shape b \<Longrightarrow> update_far_shape (update_far_with_junk j b)"
  by (auto simp: update_far_shape_def update_far_with_junk_def optm_ok_def optm_all_def optm_map_def)

lemma update_far_steps:
  "contents_to_core ((\<lambda>v. Leaf (Core_far_id v)) v # cs) (K_update_far c) = contents_to_core cs (K_update_far (update_far_set_far_id v c))"
  "contents_to_core (opt_leaf m1 (\<lambda>v. Leaf (Core_apply_action v)) @ cs) (K_update_far c) = contents_to_core cs (K_update_far (opt_set m1 update_far_set_apply_action c))"
  "optm_all update_forwarding_parameters_shape m2 \<Longrightarrow>
   contents_to_core (opt_leaf m2 update_forwarding_parameters_content @ cs) (K_update_far c) = contents_to_core cs (K_update_far (opt_set m2 update_far_set_update_forwarding_parameters c))"
  "contents_to_core (opt_leaf m3 (\<lambda>v. Leaf (Core_bar_id v)) @ cs) (K_update_far c) = contents_to_core cs (K_update_far (opt_set m3 update_far_set_bar_id c))"
  by (auto simp: opt_leaf_def opt_set_def optm_all_def update_far_set_core_def update_far_set_group_def update_forwarding_parameters_to_core)

lemma update_far_opt_set:
  "opt_set m1 update_far_set_apply_action c = c\<lparr>uf_apply_action := opt_value m1 (uf_apply_action c)\<rparr>"
  "opt_set m2 update_far_set_update_forwarding_parameters c = c\<lparr>uf_update_forwarding_parameters := opt_value m2 (uf_update_forwarding_parameters c)\<rparr>"
  "opt_set m3 update_far_set_bar_id c = c\<lparr>uf_bar_id := opt_value m3 (uf_bar_id c)\<rparr>"
  by (simp_all add: opt_set_def opt_value_def update_far_set_far_id_def update_far_set_apply_action_def update_far_set_update_forwarding_parameters_def update_far_set_bar_id_def)

lemma update_far_to_core:
  assumes "update_far_shape b"
  shows "content_to_core (update_far_content b) k = Some (container_set_group (K_update_far b) k)"
proof -
  have "contents_to_core (concat (update_far_contents b)) (K_update_far new_update_far) = Some (Inr (K_update_far b))"
    using assms
    by (cases b)
      (simp add: update_far_contents_def update_far_shape_def update_far_steps update_far_steps [where cs = "[]", simplified] update_far_opt_set new_update_far_def optm_ok_eq opt_leaf_absent update_far_set_far_id_def update_far_set_core_def)
  then show ?thesis
    by (simp add: update_far_content_def new_container_def)
qed

subsection \<open>\<^verbatim>\<open>pfcp_remove_pdr_ie\<close>\<close>

definition remove_pdr_contents :: "remove_pdr \<Rightarrow> content list list" where
  "remove_pdr_contents b =
     [opt_leaf (rp_pdr_id b) (\<lambda>v. Leaf (Core_pdr_id v))]"

definition remove_pdr_content :: "remove_pdr \<Rightarrow> content" where
  "remove_pdr_content b = Node (ucast PFCP_IE_REMOVE_PDR) (concat (remove_pdr_contents b))"

definition remove_pdr_shape :: "remove_pdr \<Rightarrow> bool" where
  "remove_pdr_shape b \<longleftrightarrow>
     optm_ok 0 (rp_pdr_id b)"

definition remove_pdr_canon :: "u8 \<Rightarrow> remove_pdr \<Rightarrow> bool" where
  "remove_pdr_canon j b \<longleftrightarrow>
     remove_pdr_shape b \<and>
     concat (remove_pdr_contents b) \<noteq> [] \<and>
     entries_size (remove_pdr_entries j b) < 2 ^ 16"

lemma remove_pdr_writes:
  assumes "remove_pdr_canon j b"
  shows "\<exists>ie. new_remove_pdr_ie j b = Inr ie \<and> writes ie (remove_pdr_content b)"
  unfolding new_remove_pdr_ie_def remove_pdr_content_def
proof (rule writes_make_group)
  show "list_all2 entry_ok (remove_pdr_entries j b) (remove_pdr_contents b)"
    unfolding remove_pdr_entries_def remove_pdr_contents_def
    by (intro list.rel_intros
        entry_ok_total [OF writes_pdr_id])
qed (use assms in \<open>auto simp: remove_pdr_canon_def grouped_types_def\<close>)

lemma remove_pdr_with_junk_content [simp]: "with_junk j (remove_pdr_content b) = remove_pdr_content b"
  by (simp add: remove_pdr_content_def remove_pdr_contents_def core_with_junk_def opt_leaf_junk)

lemma remove_pdr_steps:
  "contents_to_core (opt_leaf m0 (\<lambda>v. Leaf (Core_pdr_id v)) @ cs) (K_remove_pdr c) = contents_to_core cs (K_remove_pdr (opt_set m0 remove_pdr_set_pdr_id c))"
  by (auto simp: opt_leaf_def opt_set_def optm_all_def remove_pdr_set_core_def)

lemma remove_pdr_opt_set:
  "opt_set m0 remove_pdr_set_pdr_id c = c\<lparr>rp_pdr_id := opt_value m0 (rp_pdr_id c)\<rparr>"
  by (simp_all add: opt_set_def opt_value_def remove_pdr_set_pdr_id_def)

lemma remove_pdr_to_core:
  assumes "remove_pdr_shape b"
  shows "content_to_core (remove_pdr_content b) k = Some (container_set_group (K_remove_pdr b) k)"
proof -
  have "contents_to_core (concat (remove_pdr_contents b)) (K_remove_pdr new_remove_pdr) = Some (Inr (K_remove_pdr b))"
    using assms
    by (cases b)
      (simp add: remove_pdr_contents_def remove_pdr_shape_def remove_pdr_steps remove_pdr_steps [where cs = "[]", simplified] remove_pdr_opt_set new_remove_pdr_def optm_ok_eq opt_leaf_absent)
  then show ?thesis
    by (simp add: remove_pdr_content_def new_container_def)
qed

subsection \<open>\<^verbatim>\<open>pfcp_remove_far_ie\<close>\<close>

definition remove_far_contents :: "remove_far \<Rightarrow> content list list" where
  "remove_far_contents b =
     [opt_leaf (rf_far_id b) (\<lambda>v. Leaf (Core_far_id v))]"

definition remove_far_content :: "remove_far \<Rightarrow> content" where
  "remove_far_content b = Node (ucast PFCP_IE_REMOVE_FAR) (concat (remove_far_contents b))"

definition remove_far_shape :: "remove_far \<Rightarrow> bool" where
  "remove_far_shape b \<longleftrightarrow>
     optm_ok 0 (rf_far_id b)"

definition remove_far_canon :: "u8 \<Rightarrow> remove_far \<Rightarrow> bool" where
  "remove_far_canon j b \<longleftrightarrow>
     remove_far_shape b \<and>
     concat (remove_far_contents b) \<noteq> [] \<and>
     entries_size (remove_far_entries j b) < 2 ^ 16"

lemma remove_far_writes:
  assumes "remove_far_canon j b"
  shows "\<exists>ie. new_remove_far_ie j b = Inr ie \<and> writes ie (remove_far_content b)"
  unfolding new_remove_far_ie_def remove_far_content_def
proof (rule writes_make_group)
  show "list_all2 entry_ok (remove_far_entries j b) (remove_far_contents b)"
    unfolding remove_far_entries_def remove_far_contents_def
    by (intro list.rel_intros
        entry_ok_total [OF writes_far_id])
qed (use assms in \<open>auto simp: remove_far_canon_def grouped_types_def\<close>)

lemma remove_far_with_junk_content [simp]: "with_junk j (remove_far_content b) = remove_far_content b"
  by (simp add: remove_far_content_def remove_far_contents_def core_with_junk_def opt_leaf_junk)

lemma remove_far_steps:
  "contents_to_core (opt_leaf m0 (\<lambda>v. Leaf (Core_far_id v)) @ cs) (K_remove_far c) = contents_to_core cs (K_remove_far (opt_set m0 remove_far_set_far_id c))"
  by (auto simp: opt_leaf_def opt_set_def optm_all_def remove_far_set_core_def)

lemma remove_far_opt_set:
  "opt_set m0 remove_far_set_far_id c = c\<lparr>rf_far_id := opt_value m0 (rf_far_id c)\<rparr>"
  by (simp_all add: opt_set_def opt_value_def remove_far_set_far_id_def)

lemma remove_far_to_core:
  assumes "remove_far_shape b"
  shows "content_to_core (remove_far_content b) k = Some (container_set_group (K_remove_far b) k)"
proof -
  have "contents_to_core (concat (remove_far_contents b)) (K_remove_far new_remove_far) = Some (Inr (K_remove_far b))"
    using assms
    by (cases b)
      (simp add: remove_far_contents_def remove_far_shape_def remove_far_steps remove_far_steps [where cs = "[]", simplified] remove_far_opt_set new_remove_far_def optm_ok_eq opt_leaf_absent)
  then show ?thesis
    by (simp add: remove_far_content_def new_container_def)
qed

subsection \<open>\<^verbatim>\<open>pfcp_downlink_data_report_ie\<close>\<close>

definition downlink_data_report_contents :: "downlink_data_report \<Rightarrow> content list list" where
  "downlink_data_report_contents b =
     [opt_leaf (ddr_pdr_id b) (\<lambda>v. Leaf (Core_pdr_id v))]"

definition downlink_data_report_content :: "downlink_data_report \<Rightarrow> content" where
  "downlink_data_report_content b = Node (ucast PFCP_IE_DOWNLINK_DATA_REPORT) (concat (downlink_data_report_contents b))"

definition downlink_data_report_shape :: "downlink_data_report \<Rightarrow> bool" where
  "downlink_data_report_shape b \<longleftrightarrow>
     optm_ok 0 (ddr_pdr_id b) \<and>
     ddr_downlink_data_service_information b = (False, downlink_data_service_information0)"

definition downlink_data_report_canon :: "u8 \<Rightarrow> downlink_data_report \<Rightarrow> bool" where
  "downlink_data_report_canon j b \<longleftrightarrow>
     downlink_data_report_shape b \<and>
     concat (downlink_data_report_contents b) \<noteq> [] \<and>
     entries_size (downlink_data_report_entries j b) < 2 ^ 16"

lemma downlink_data_report_writes:
  assumes "downlink_data_report_canon j b"
  shows "\<exists>ie. new_downlink_data_report_ie j b = Inr ie \<and> writes ie (downlink_data_report_content b)"
  unfolding new_downlink_data_report_ie_def downlink_data_report_content_def
proof (rule writes_make_group)
  show "list_all2 entry_ok (downlink_data_report_entries j b) (downlink_data_report_contents b)"
    unfolding downlink_data_report_entries_def downlink_data_report_contents_def
    by (intro list.rel_intros
        entry_ok_total [OF writes_pdr_id])
qed (use assms in \<open>auto simp: downlink_data_report_canon_def grouped_types_def\<close>)

lemma downlink_data_report_with_junk_content [simp]: "with_junk j (downlink_data_report_content b) = downlink_data_report_content b"
  by (simp add: downlink_data_report_content_def downlink_data_report_contents_def core_with_junk_def opt_leaf_junk)

lemma downlink_data_report_steps:
  "contents_to_core (opt_leaf m0 (\<lambda>v. Leaf (Core_pdr_id v)) @ cs) (K_downlink_data_report c) = contents_to_core cs (K_downlink_data_report (opt_set m0 downlink_data_report_set_pdr_id c))"
  by (auto simp: opt_leaf_def opt_set_def optm_all_def downlink_data_report_set_core_def)

lemma downlink_data_report_opt_set:
  "opt_set m0 downlink_data_report_set_pdr_id c = c\<lparr>ddr_pdr_id := opt_value m0 (ddr_pdr_id c)\<rparr>"
  by (simp_all add: opt_set_def opt_value_def downlink_data_report_set_pdr_id_def)

lemma downlink_data_report_to_core:
  assumes "downlink_data_report_shape b"
  shows "content_to_core (downlink_data_report_content b) k = Some (container_set_group (K_downlink_data_report b) k)"
proof -
  have "contents_to_core (concat (downlink_data_report_contents b)) (K_downlink_data_report new_downlink_data_report) = Some (Inr (K_downlink_data_report b))"
    using assms
    by (cases b)
      (simp add: downlink_data_report_contents_def downlink_data_report_shape_def downlink_data_report_steps downlink_data_report_steps [where cs = "[]", simplified] downlink_data_report_opt_set new_downlink_data_report_def optm_ok_eq opt_leaf_absent)
  then show ?thesis
    by (simp add: downlink_data_report_content_def new_container_def)
qed

end
