(* ===== verification/Pfcp_Msg.thy ===== *)
theory Pfcp_Msg
  imports Pfcp_Grouped
begin

text \<open>
  PFCP messages: \<^verbatim>\<open>pfcp_msg_header\<close> and \<^verbatim>\<open>pfcp_msg\<close> of \<^verbatim>\<open>src/oai/pfcp/3gpp_29.244.hpp\<close> and the constructors
  of \<^verbatim>\<open>src/oai/pfcp/3gpp_29.244.cpp\<close>.  The contract of a kind of message is the locale
  \<open>message_codec\<close>; its conclusion is that a message that is built from a container, written, read
  and converted back yields the container and leaves the rest of the stream alone.  Every
  kind of message with a constructor is an instance, but the two that cannot be.
\<close>

section \<open>The header\<close>

record pfcp_msg_header =
  mh_u1 :: u8
  mh_message_type :: u8
  mh_message_length :: u16
  mh_seid :: u64
  mh_sequence_number :: u32
  mh_u2 :: u8

abbreviation (input) mh_s :: "u8 \<Rightarrow> bool" where "mh_s u \<equiv> bit u 0"
abbreviation (input) mh_mp :: "u8 \<Rightarrow> bool" where "mh_mp u \<equiv> bit u 1"

definition new_pfcp_msg_header :: pfcp_msg_header where
  "new_pfcp_msg_header =
     \<lparr>mh_u1 = 0x20, mh_message_type = 0, mh_message_length = 3 + 1, mh_seid = 0, mh_sequence_number = 0, mh_u2 = 0\<rparr>"

definition set_seid :: "u64 \<Rightarrow> 'a pfcp_msg_header_scheme \<Rightarrow> 'a pfcp_msg_header_scheme" where
  "set_seid s h =
     (let h = h\<lparr>mh_seid := s\<rparr> in
      if \<not> mh_s (mh_u1 h)
      then h\<lparr>mh_u1 := mh_u1 h OR 1, mh_message_length := mh_message_length h + 8\<rparr>
      else h)"

definition has_seid :: "'a pfcp_msg_header_scheme \<Rightarrow> bool" where
  "has_seid h = mh_s (mh_u1 h)"

definition set_sequence_number :: "u32 \<Rightarrow> 'a pfcp_msg_header_scheme \<Rightarrow> 'a pfcp_msg_header_scheme" where
  "set_sequence_number s h = h\<lparr>mh_sequence_number := s AND 0x00FFFFFF\<rparr>"

text \<open>Writing clears the spare bits, and the priority when its flag is not set.\<close>

definition header_dump_to :: "'a pfcp_msg_header_scheme \<Rightarrow> 'a pfcp_msg_header_scheme \<times> bytes" where
  "header_dump_to h =
     (let u1 = mh_u1 h AND 0xE3;
          u2 = mh_u2 h AND 0xF0;
          sn = mh_sequence_number h;
          u2 = (if \<not> mh_mp u1 then u2 AND 0x0F else u2)
      in (h\<lparr>mh_u1 := u1, mh_u2 := u2\<rparr>,
          [u1, mh_message_type h] @ be_bytes 2 (mh_message_length h)
          @ (if mh_s u1 then be_bytes 8 (mh_seid h) else [])
          @ [ucast (drop_bit 16 sn), ucast (drop_bit 8 sn), ucast sn]
          @ [u2]))"

definition header_load_from :: "'a pfcp_msg_header_scheme \<Rightarrow> istream \<Rightarrow> 'a pfcp_msg_header_scheme \<times> istream" where
  "header_load_from h is =
     (let (u1, is) = read_u8 (mh_u1 h) is;
          (ty, is) = read_u8 (mh_message_type h) is;
          (len, is) = read_be 2 (mh_message_length h) is;
          (seid, is) = (if mh_s u1 then read_be 8 (mh_seid h) is else (0, is));
          (sn, is) = is_read (replicate 3 (is_junk is)) is;
          (u2, is) = read_u8 (mh_u2 h) is
      in (h\<lparr>mh_u1 := u1, mh_message_type := ty, mh_message_length := len, mh_seid := seid,
            mh_sequence_number :=
              push_bit 16 (ucast (sn ! 0)) OR push_bit 8 (ucast (sn ! 1)) OR ucast (sn ! 2),
            mh_u2 := u2\<rparr>, is))"

text \<open>The values a header can hold after its setters.\<close>

definition header_ok :: "'a pfcp_msg_header_scheme \<Rightarrow> bool" where
  "header_ok h \<longleftrightarrow> mh_u1 h AND 0xE3 = mh_u1 h \<and> mh_sequence_number h < 2 ^ 24 \<and>
     (has_seid h \<or> mh_seid h = 0) \<and> (if mh_mp (mh_u1 h) then mh_u2 h AND 0xF0 = mh_u2 h else mh_u2 h = 0)"

lemma sequence_number_bytes:
  assumes "s < 2 ^ 24"
  shows "push_bit 16 (ucast (ucast (drop_bit 16 s) :: u8)) OR push_bit 8 (ucast (ucast (drop_bit 8 s) :: u8))
    OR ucast (ucast s :: u8) = (s :: u32)"
proof (rule bit_word_eqI)
  fix n assume "n < LENGTH(32)"
  have "\<not> bit s n" if "24 \<le> n"
  proof -
    have "take_bit 24 s = s"
      using assms by (simp add: word_unat_eq_iff unsigned_take_bit_eq take_bit_nat_eq_self word_less_nat_alt)
    then show ?thesis using that by (metis bit_take_bit_iff not_le)
  qed
  then show "bit (push_bit 16 (ucast (ucast (drop_bit 16 s) :: u8)) OR push_bit 8 (ucast (ucast (drop_bit 8 s) :: u8))
      OR ucast (ucast s :: u8) :: u32) n = bit s n"
    using \<open>n < LENGTH(32)\<close>
    by (cases "n < 8"; cases "n < 16"; cases "n < 24") (auto simp: bit_simps less_diff_conv2)
qed

lemma header_load_dump:
  assumes "header_ok h"
  shows "header_load_from h0 (stream j (snd (header_dump_to h) @ rest)) =
      (h0\<lparr>mh_u1 := mh_u1 h, mh_message_type := mh_message_type h, mh_message_length := mh_message_length h,
          mh_seid := mh_seid h, mh_sequence_number := mh_sequence_number h, mh_u2 := mh_u2 h\<rparr>, stream j rest)"
    and "fst (header_dump_to h) = h"
proof -
  have u1: "mh_u1 h AND 0xE3 = mh_u1 h" and sn: "mh_sequence_number h < 2 ^ 24"
    using assms by (simp_all add: header_ok_def)
  have u2: "(if \<not> mh_mp (mh_u1 h) then (mh_u2 h AND 0xF0) AND 0x0F else mh_u2 h AND 0xF0) = mh_u2 h"
    using assms by (simp add: header_ok_def)
  show "fst (header_dump_to h) = h"
    using u2 by (simp add: header_dump_to_def u1 Let_def)
  have "is_read (replicate 3 j) (stream j ([a, b, c] @ xs)) = ([a, b, c], stream j xs)" for a b c xs
    by (rule is_read_append) simp
  then show "header_load_from h0 (stream j (snd (header_dump_to h) @ rest)) =
      (h0\<lparr>mh_u1 := mh_u1 h, mh_message_type := mh_message_type h, mh_message_length := mh_message_length h,
          mh_seid := mh_seid h, mh_sequence_number := mh_sequence_number h, mh_u2 := mh_u2 h\<rparr>, stream j rest)"
    using assms u2 sequence_number_bytes [OF sn]
    by (auto simp: header_dump_to_def header_load_from_def u1 Let_def header_ok_def has_seid_def
        simp del: replicate.simps)
qed

lemma header_dump_length: "length (snd (header_dump_to h)) = (if has_seid h then 16 else 8)"
  by (simp add: header_dump_to_def Let_def has_seid_def bit_and_iff)

section \<open>Messages\<close>

record pfcp_msg = pfcp_msg_header +
  msg_remote_port :: u16
  msg_ies :: "pfcp_ie list"

definition new_pfcp_msg :: pfcp_msg where
  "new_pfcp_msg = pfcp_msg_header.extend new_pfcp_msg_header \<lparr>msg_remote_port = 0, msg_ies = []\<rparr>"

definition msg_add_ie :: "pfcp_ie \<Rightarrow> pfcp_msg \<Rightarrow> pfcp_msg" where
  "msg_add_ie ie m =
     m\<lparr>msg_ies := msg_ies m @ [ie], mh_message_length := mh_message_length m + 4 + tlv_length (ie_tlv_of ie)\<rparr>"

fun msg_add_ies :: "ie_entry list \<Rightarrow> pfcp_msg \<Rightarrow> pfcp_exn + pfcp_msg" where
  "msg_add_ies [] m = Inr m"
| "msg_add_ies (None # os) m = msg_add_ies os m"
| "msg_add_ies (Some (Inl e) # os) m = Inl e"
| "msg_add_ies (Some (Inr ie) # os) m = msg_add_ies os (msg_add_ie ie m)"

text \<open>The constructors from containers do not initialise the port.\<close>

definition make_msg :: "u8 \<Rightarrow> u8 \<Rightarrow> ie_entry list \<Rightarrow> pfcp_exn + pfcp_msg" where
  "make_msg j ty os =
     msg_add_ies os (new_pfcp_msg\<lparr>msg_remote_port := le_word [j, j], mh_message_type := ty\<rparr>)"

definition msg_dump_to :: "u8 \<Rightarrow> pfcp_msg \<Rightarrow> ((pfcp_exn + pfcp_msg) \<times> bytes) option" where
  "msg_dump_to j m =
     (let (m, bs) = header_dump_to m
      in map_option (\<lambda>(r, bs'). (map_sum id (\<lambda>ies. m\<lparr>msg_ies := ies\<rparr>) r, bs @ bs')) (ies_dump_to j (msg_ies m)))"

text \<open>
  The loop reads at least once and ends when the factory returns a null pointer or the declared
  length is reached.  \<^verbatim>\<open>ies_length\<close> has 16 bits.
\<close>

function msg_load_loop :: "u16 \<Rightarrow> u16 \<Rightarrow> pfcp_ie list \<Rightarrow> istream \<Rightarrow> ((pfcp_exn + u16 \<times> pfcp_ie list) \<times> istream) option" where
  "msg_load_loop check ies_length ies is =
     (case new_pfcp_ie is of
        None \<Rightarrow> None
      | Some (Inl e, is) \<Rightarrow> Some (Inl e, is)
      | Some (Inr None, is) \<Rightarrow> Some (Inr (ies_length, ies), is)
      | Some (Inr (Some ie), is) \<Rightarrow>
          (let n = ies_length + (4 + tlv_length (ie_tlv_of ie)) in
           if n < check then msg_load_loop check n (ies @ [ie]) is
           else Some (Inr (n, ies @ [ie]), is)))"
  by pat_completeness auto

termination
  by (relation "measure (\<lambda>(_, _, _, is). length (is_rest is))")
    (auto simp: new_pfcp_ie_def dest: new_pfcp_ie_consumes(1))

declare msg_load_loop.simps [simp del]

definition check_msg_length :: "'a pfcp_msg_header_scheme \<Rightarrow> u16" where
  "check_msg_length m =
     (let check = mh_message_length m - 3 - 1 in if has_seid m then check - 8 else check)"

definition msg_load_from :: "pfcp_msg \<Rightarrow> istream \<Rightarrow> ((pfcp_exn + pfcp_msg) \<times> istream) option" where
  "msg_load_from m is =
     (let (m, is) = header_load_from m is;
          check = check_msg_length m
      in map_option (\<lambda>(r, is).
           (case r of Inl e \<Rightarrow> Inl e
            | Inr (n, ies) \<Rightarrow>
                if n \<noteq> check then Inl (Msg_bad_length (mh_message_type m) (mh_message_length m) n check)
                else Inr (m\<lparr>msg_ies := ies\<rparr>), is))
           (msg_load_loop check 0 (msg_ies m) is))"

definition msg_to_core :: "pfcp_msg \<Rightarrow> container \<Rightarrow> (pfcp_exn + container) option" where
  "msg_to_core m k = ies_to_core (msg_ies m) k"

section \<open>Reading back\<close>

lemma msg_load_from_ok:
  assumes "header_load_from m is = (m', is1)"
    and "msg_load_loop (check_msg_length m') 0 (msg_ies m') is1 = Some (Inr (check_msg_length m', ies), is2)"
  shows "msg_load_from m is = Some (Inr (m'\<lparr>msg_ies := ies\<rparr>), is2)"
  using assms by (simp add: msg_load_from_def)

lemma msg_load_loop_encodes:
  assumes "list_all2 encodes cs bss" and "cs \<noteq> []" and "n + length (concat bss) < 2 ^ 16"
  shows "\<exists>ies'. msg_load_loop (of_nat (n + length (concat bss))) (of_nat n) ies (stream j (concat bss @ rest)) =
      Some (Inr (of_nat (n + length (concat bss)), ies @ ies'), stream j rest) \<and>
    map ie_content ies' = map (with_junk j) cs"
  using assms
proof (induction cs bss arbitrary: n ies rule: list_all2_induct)
  case (Cons c cs bs bss)
  obtain ie where new: "new_pfcp_ie (stream j (bs @ concat bss @ rest)) = Some (Inr (Some ie), stream j (concat bss @ rest))"
    and ie: "ie_content ie = with_junk j c" "4 + unat (tlv_length (ie_tlv_of ie)) = length bs"
    using Cons.hyps(1) unfolding encodes_def by meson
  have l: "4 + tlv_length (ie_tlv_of ie) = of_nat (length bs)"
    unfolding ie(2) [symmetric] by simp
  let ?N = "n + length (concat (bs # bss))"
  show ?case
  proof (cases cs)
    case Nil
    then have "bss = []" using Cons.hyps(2) by simp
    with Nil new ie(1) show ?thesis
      by (intro exI [of _ "[ie]"]) (simp add: msg_load_loop.simps [of _ "of_nat n"] l)
  next
    case (Cons d ds)
    then obtain b bss' where b: "bss = b # bss'" and "encodes d b"
      using \<open>list_all2 encodes cs bss\<close> by (auto simp: list_all2_Cons1)
    then have pos: "0 < length (concat bss)"
      unfolding encodes_def by fastforce
    have lt: "of_nat a < (of_nat b :: u16)" if "a < b" "b < 2 ^ 16" for a b
      using that by (simp add: word_less_nat_alt unat_of_nat)
    have less: "of_nat (n + length bs) < (of_nat ?N :: u16)"
      by (rule lt) (use pos Cons.prems(2) in simp_all)
    obtain ies' where "msg_load_loop (of_nat ?N) (of_nat (n + length bs)) (ies @ [ie]) (stream j (concat bss @ rest)) =
        Some (Inr (of_nat ?N, (ies @ [ie]) @ ies'), stream j rest)" "map ie_content ies' = map (with_junk j) cs"
      using Cons.IH [of "n + length bs" "ies @ [ie]"] Cons.prems Cons by (auto simp: add.assoc)
    with new ie(1) less show ?thesis
      by (intro exI [of _ "ie # ies'"]) (subst msg_load_loop.simps, simp add: l)
  qed
qed simp

section \<open>The contract of a kind of message\<close>

lemma of_nat_ie_size: "(of_nat (ie_size ie) :: u16) = 4 + tlv_length (ie_tlv_of ie)"
  by (simp add: ie_size_def)

lemma msg_add_ies_ok:
  assumes "list_all2 entry_ok os css"
  shows "\<exists>ies. list_all2 writes ies (concat css) \<and> entries_size os = sum_list (map ie_size ies) \<and>
    (\<forall>m. msg_add_ies os m = Inr (m\<lparr>mh_message_length := mh_message_length m + of_nat (entries_size os),
        msg_ies := msg_ies m @ ies\<rparr>))"
  using assms
proof (induction rule: list_all2_induct)
  case Nil
  show ?case by (intro exI [of _ "[]"]) simp
next
  case (Cons e os cs css)
  obtain ies where ies: "list_all2 writes ies (concat css)" "entries_size os = sum_list (map ie_size ies)"
      "\<And>m. msg_add_ies os m = Inr (m\<lparr>mh_message_length := mh_message_length m + of_nat (entries_size os),
        msg_ies := msg_ies m @ ies\<rparr>)"
    using Cons.IH by blast
  from Cons.hyps(1) consider "e = None" "cs = []" | ie c where "e = Some (Inr ie)" "cs = [c]" "writes ie c"
    by (auto simp: entry_ok_def)
  then show ?case
  proof cases
    case 1
    with ies show ?thesis by (intro exI [of _ ies]) simp
  next
    case 2
    with ies show ?thesis
      by (intro exI [of _ "ie # ies"]) (simp add: msg_add_ie_def of_nat_ie_size add.assoc)
  qed
qed

text \<open>The entries that a loop over a vector adds.\<close>

lemma entries_all:
  "list_all P vs \<Longrightarrow> (\<And>v. P v \<Longrightarrow> \<exists>ie. f v = Inr ie \<and> writes ie (K v)) \<Longrightarrow>
   list_all2 entry_ok (map (\<lambda>v. Some (f v)) vs) (map (\<lambda>v. [K v]) vs)"
  by (induction vs) (auto intro: entry_ok_Some)

lemma entries_absent: "vs = [] \<Longrightarrow> list_all2 entry_ok (map f vs) []"
  by simp

text \<open>What a sender sets in a message before it is written.\<close>

definition address_msg :: "u64 option \<Rightarrow> u32 \<Rightarrow> pfcp_msg \<Rightarrow> pfcp_msg" where
  "address_msg seid n m = set_sequence_number n (case seid of None \<Rightarrow> m | Some s \<Rightarrow> set_seid s m)"

definition addressed_to :: "u8 \<Rightarrow> u64 option \<Rightarrow> u32 \<Rightarrow> pfcp_msg \<Rightarrow> bool" where
  "addressed_to ty seid n m \<longleftrightarrow>
     mh_message_type m = ty \<and> (if has_seid m then Some (mh_seid m) else None) = seid \<and>
     mh_sequence_number m = n AND 0x00FFFFFF"

lemma sequence_number_24: "(n :: u32) AND 0x00FFFFFF < 2 ^ 24"
proof -
  have "n AND 0x00FFFFFF = take_bit 24 n"
    by (simp add: take_bit_eq_mask mask_numeral)
  then show ?thesis
    using take_bit_nat_less_exp [of 24 "unat n"] by (simp add: word_less_nat_alt unsigned_take_bit_eq)
qed

lemma addressed_to_ies [simp]: "addressed_to ty seid n (m\<lparr>msg_ies := ies\<rparr>) = addressed_to ty seid n m"
  by (simp add: addressed_to_def has_seid_def)

text \<open>A message as its constructor leaves it, with elements that take \<open>len\<close> bytes.\<close>

definition fresh_msg :: "u8 \<Rightarrow> nat \<Rightarrow> pfcp_msg \<Rightarrow> bool" where
  "fresh_msg ty len m \<longleftrightarrow>
     mh_u1 m = 0x20 \<and> mh_message_type m = ty \<and> mh_u2 m = 0 \<and> mh_seid m = 0 \<and> mh_message_length m = of_nat (len + 4)"

lemma make_msg_ok:
  assumes "list_all2 entry_ok os css"
  shows "\<exists>p bss. make_msg j ty os = Inr p \<and> fresh_msg ty (entries_size os) p \<and>
    (\<forall>j. ies_dump_to j (msg_ies p) = Some (Inr (msg_ies p), concat bss)) \<and>
    list_all2 encodes (concat css) bss \<and> length (concat bss) = entries_size os"
proof -
  obtain ies where ies: "list_all2 writes ies (concat css)" "entries_size os = sum_list (map ie_size ies)"
    and add: "\<And>m. msg_add_ies os m = Inr (m\<lparr>mh_message_length := mh_message_length m + of_nat (entries_size os),
        msg_ies := msg_ies m @ ies\<rparr>)"
    using msg_add_ies_ok [OF assms] by blast
  let ?p = "new_pfcp_msg\<lparr>msg_remote_port := le_word [j, j], mh_message_type := ty,
      mh_message_length := mh_message_length new_pfcp_msg + of_nat (entries_size os), msg_ies := ies\<rparr>"
  have "make_msg j ty os = Inr ?p" "fresh_msg ty (entries_size os) ?p" "msg_ies ?p = ies"
    by (simp_all add: make_msg_def add fresh_msg_def new_pfcp_msg_def new_pfcp_msg_header_def pfcp_msg_header.defs)
  then show ?thesis
    using writes_all [OF ies(1)] ies(2) by metis
qed

text \<open>What a reader finds of such a message: its header, and the elements still in the stream.\<close>

lemma addressed_msg_header:
  assumes "fresh_msg ty len p"
  shows "header_ok (address_msg seid n p)" and "msg_ies (address_msg seid n p) = msg_ies p"
    and "addressed_to ty seid n (address_msg seid n p)" and "check_msg_length (address_msg seid n p) = of_nat len"
    and "has_seid (address_msg seid n p) \<longleftrightarrow> seid \<noteq> None"
  using assms sequence_number_24 [of n]
  by (auto simp: fresh_msg_def address_msg_def header_ok_def addressed_to_def set_sequence_number_def set_seid_def
      has_seid_def check_msg_length_def split: option.split)

lemma written_msg:
  assumes p: "fresh_msg ty len p" and d: "\<forall>j. ies_dump_to j (msg_ies p) = Some (Inr (msg_ies p), body)"
  shows "\<exists>hdr. msg_dump_to j (address_msg seid n p) = Some (Inr (address_msg seid n p), hdr @ body) \<and>
    length hdr = (if seid = None then 8 else 16) \<and>
    (\<forall>k rest. \<exists>q. header_load_from new_pfcp_msg (stream k (hdr @ rest)) = (q, stream k rest) \<and>
       check_msg_length q = of_nat len \<and> msg_ies q = [] \<and> addressed_to ty seid n q)"
proof -
  let ?p = "address_msg seid n p"
  note h = addressed_msg_header [OF p, of seid n]
  let ?q = "new_pfcp_msg\<lparr>mh_u1 := mh_u1 ?p, mh_message_type := mh_message_type ?p,
      mh_message_length := mh_message_length ?p, mh_seid := mh_seid ?p,
      mh_sequence_number := mh_sequence_number ?p, mh_u2 := mh_u2 ?p\<rparr>"
  have "has_seid ?q = has_seid ?p"
    by (simp add: has_seid_def)
  then have "check_msg_length ?q = check_msg_length ?p" "addressed_to ty seid n ?q = addressed_to ty seid n ?p"
    by (simp_all add: check_msg_length_def addressed_to_def)
  moreover have "msg_ies ?q = []"
    by (simp add: new_pfcp_msg_def pfcp_msg_header.defs)
  moreover have "header_load_from new_pfcp_msg (stream k (snd (header_dump_to ?p) @ rest)) = (?q, stream k rest)" for k rest
    by (rule header_load_dump(1) [OF h(1)])
  moreover have "msg_dump_to j ?p = Some (Inr ?p, snd (header_dump_to ?p) @ body)"
    using header_load_dump(2) [OF h(1)] d h(2) by (simp add: msg_dump_to_def split_beta Let_def)
  moreover have "length (snd (header_dump_to ?p)) = (if seid = None then 8 else 16)"
    by (simp add: header_dump_length h(5))
  ultimately show ?thesis
    using h(3,4) by (intro exI [of _ "snd (header_dump_to ?p)"]) auto
qed

locale message_codec =
  fixes msg_type :: u8
    and entries :: "u8 \<Rightarrow> 'm \<Rightarrow> ie_entry list"
    and contents :: "'m \<Rightarrow> content list list"
    and canon :: "u8 \<Rightarrow> 'm \<Rightarrow> bool"
    and junk :: "u8 \<Rightarrow> 'm \<Rightarrow> 'm"
    and wrap :: "'m \<Rightarrow> container"
    and fresh :: 'm
  assumes entries_written: "canon j m \<Longrightarrow> list_all2 entry_ok (entries j m) (contents m)"
    and some_element: "canon j m \<Longrightarrow> concat (contents m) \<noteq> []"
    and fits: "canon j m \<Longrightarrow> entries_size (entries j m) + 12 < 2 ^ 16"
    and converted: "canon j m \<Longrightarrow>
      contents_to_core (map (with_junk k) (concat (contents m))) (wrap fresh) = Some (Inr (wrap (junk k m)))"
begin

lemma round_trip:
  assumes "canon j m"
  shows "\<exists>p p' bs q. make_msg j msg_type (entries j m) = Inr p \<and>
    msg_dump_to j (address_msg seid n p) = Some (Inr p', bs) \<and>
    length bs = entries_size (entries j m) + (if seid = None then 8 else 16) \<and>
    msg_load_from new_pfcp_msg (stream k (bs @ rest)) = Some (Inr q, stream k rest) \<and>
    addressed_to msg_type seid n q \<and>
    msg_to_core q (wrap fresh) = Some (Inr (wrap (junk k m)))"
proof -
  let ?L = "of_nat (entries_size (entries j m)) :: u16"
  obtain p bss where p: "make_msg j msg_type (entries j m) = Inr p" "fresh_msg msg_type (entries_size (entries j m)) p"
      "\<forall>j. ies_dump_to j (msg_ies p) = Some (Inr (msg_ies p), concat bss)"
    and enc: "list_all2 encodes (concat (contents m)) bss" and len: "length (concat bss) = entries_size (entries j m)"
    using make_msg_ok [OF entries_written [OF assms], of j msg_type] by blast
  obtain hdr where d: "msg_dump_to j (address_msg seid n p) = Some (Inr (address_msg seid n p), hdr @ concat bss)"
    and hdr: "length hdr = (if seid = None then 8 else 16)"
    and hl: "\<forall>k rest. \<exists>q. header_load_from new_pfcp_msg (stream k (hdr @ rest)) = (q, stream k rest) \<and>
       check_msg_length q = ?L \<and> msg_ies q = [] \<and> addressed_to msg_type seid n q"
    using written_msg [OF p(2,3), of j seid n] by blast
  obtain q where q: "header_load_from new_pfcp_msg (stream k ((hdr @ concat bss) @ rest)) = (q, stream k (concat bss @ rest))"
    "check_msg_length q = ?L" "msg_ies q = []" "addressed_to msg_type seid n q"
    using hl by (metis append_assoc)
  obtain ies where loop: "msg_load_loop ?L 0 [] (stream k (concat bss @ rest)) = Some (Inr (?L, ies), stream k rest)"
    and c: "map ie_content ies = map (with_junk k) (concat (contents m))"
    using msg_load_loop_encodes [OF enc some_element [OF assms], where n = 0 and ies = "[]" and j = k and rest = rest]
      fits [OF assms] by (auto simp: len simp del: length_concat)
  have "msg_load_from new_pfcp_msg (stream k ((hdr @ concat bss) @ rest)) = Some (Inr (q\<lparr>msg_ies := ies\<rparr>), stream k rest)"
    by (rule msg_load_from_ok [OF q(1)]) (simp add: q loop)
  moreover have "msg_to_core (q\<lparr>msg_ies := ies\<rparr>) (wrap fresh) = Some (Inr (wrap (junk k m)))"
    by (simp add: msg_to_core_def ie_to_core_content c converted [OF assms])
  moreover have "length (hdr @ concat bss) = entries_size (entries j m) + (if seid = None then 8 else 16)"
    by (simp add: hdr len del: length_concat)
  ultimately show ?thesis
    using p(1) d q(4) addressed_to_ies by blast
qed

end

section \<open>Messages that cannot be read\<close>

lemma map_sum_Inr: "map_sum id f r = Inr y \<Longrightarrow> (\<And>x. r = Inr x \<Longrightarrow> y = f x \<Longrightarrow> P) \<Longrightarrow> P"
  by (cases r) auto

text \<open>
  A group without elements, as the constructors of Update PDR, Create QER and others leave it, has
  length 0.  The reader takes it for the end, so that the message has a wrong length.
\<close>

lemma msg_load_loop_stops:
  assumes "list_all2 encodes cs bss" and "n + length (concat bss) < N" and "N < 2 ^ 16"
    and "new_pfcp_ie (stream j rest) = Some (Inr None, s)"
  shows "\<exists>ies'. msg_load_loop (of_nat N) (of_nat n) ies (stream j (concat bss @ rest)) =
      Some (Inr (of_nat (n + length (concat bss)), ies'), s)"
  using assms(1,2)
proof (induction cs bss arbitrary: n ies rule: list_all2_induct)
  case Nil
  then show ?case using assms(4) by (simp add: msg_load_loop.simps)
next
  case (Cons c cs bs bss)
  obtain ie where new: "new_pfcp_ie (stream j (bs @ concat bss @ rest)) = Some (Inr (Some ie), stream j (concat bss @ rest))"
    and ie: "4 + unat (tlv_length (ie_tlv_of ie)) = length bs"
    using Cons.hyps(1) unfolding encodes_def by meson
  have l: "4 + tlv_length (ie_tlv_of ie) = of_nat (length bs)"
    unfolding ie [symmetric] by simp
  have "of_nat (n + length bs) < (of_nat N :: u16)"
    using Cons.prems assms(3) by (simp add: word_less_nat_alt unat_of_nat del: of_nat_add)
  moreover obtain ies' where "msg_load_loop (of_nat N) (of_nat (n + length bs)) (ies @ [ie]) (stream j (concat bss @ rest)) =
      Some (Inr (of_nat (n + length bs + length (concat bss)), ies'), s)"
    using Cons.IH [of "n + length bs" "ies @ [ie]"] Cons.prems by auto
  ultimately show ?case
    using new by (intro exI [of _ ies']) (subst msg_load_loop.simps, simp add: l add.assoc)
qed

text \<open>Entries that are written as many bytes as they declare, empty groups included.\<close>

definition entry_dumps :: "ie_entry \<Rightarrow> bool" where
  "entry_dumps e \<longleftrightarrow>
     e = None \<or> (\<exists>ie bs. e = Some (Inr ie) \<and> (\<forall>j. ie_dump_to j ie = Some (Inr ie, bs)) \<and> length bs = ie_size ie)"

lemma entry_ok_dumps: "entry_ok e cs \<Longrightarrow> entry_dumps e"
  by (auto simp: entry_ok_def entry_dumps_def writes_def ie_size_def)

lemma entries_ok_dumps: "list_all2 entry_ok os css \<Longrightarrow> list_all entry_dumps os"
  by (induction rule: list_all2_induct) (auto intro: entry_ok_dumps)

lemma entry_dumps_empty_group: "entry_dumps (Some (make_group g []))"
  by (auto simp: entry_dumps_def make_group_def ie_size_def tlv_defs tlv_dump_to_def)

lemma msg_add_ies_dumps:
  assumes "list_all entry_dumps os"
  shows "\<exists>ies bs. (\<forall>j. ies_dump_to j ies = Some (Inr ies, bs)) \<and> length bs = entries_size os \<and>
    (\<forall>m. msg_add_ies os m = Inr (m\<lparr>mh_message_length := mh_message_length m + of_nat (entries_size os),
        msg_ies := msg_ies m @ ies\<rparr>))"
  using assms
proof (induction os)
  case Nil
  show ?case by (intro exI [of _ "[]"]) simp
next
  case (Cons e os)
  obtain ies bs where ies: "\<And>j. ies_dump_to j ies = Some (Inr ies, bs)" "length bs = entries_size os"
      "\<And>m. msg_add_ies os m = Inr (m\<lparr>mh_message_length := mh_message_length m + of_nat (entries_size os),
        msg_ies := msg_ies m @ ies\<rparr>)"
    using Cons.IH Cons.prems by auto
  from Cons.prems consider "e = None"
    | ie b where "e = Some (Inr ie)" "\<And>j. ie_dump_to j ie = Some (Inr ie, b)" "length b = ie_size ie"
    by (auto simp: entry_dumps_def)
  then show ?case
  proof cases
    case 1
    with ies show ?thesis by (intro exI [of _ ies] exI [of _ bs]) simp
  next
    case 2
    with ies show ?thesis
      by (intro exI [of _ "ie # ies"] exI [of _ "b @ bs"]) (simp add: msg_add_ie_def of_nat_ie_size add.assoc)
  qed
qed

lemma msg_add_ies_append:
  "msg_add_ies (os @ os') m = (case msg_add_ies os m of Inl e \<Rightarrow> Inl e | Inr m \<Rightarrow> msg_add_ies os' m)"
  by (induction os m rule: msg_add_ies.induct) simp_all

lemma entries_size_append:
  "list_all entry_dumps os \<Longrightarrow> entries_size (os @ os') = entries_size os + entries_size os'"
  by (induction os) (auto simp: entry_dumps_def)

lemma ies_dump_append:
  assumes "ies_dump_to j xs = Some (Inr xs, b)" and "ies_dump_to j ys = Some (Inr ys, c)"
  shows "ies_dump_to j (xs @ ys) = Some (Inr (xs @ ys), b @ c)"
  using assms
proof (induction xs arbitrary: b)
  case (Cons x xs)
  then obtain b1 b2 where "ie_dump_to j x = Some (Inr x, b1)" "ies_dump_to j xs = Some (Inr xs, b2)" "b = b1 @ b2"
    by (auto split: option.splits sum.splits elim!: map_sum_Inr)
  with Cons.IH Cons.prems(2) show ?case by simp
qed simp

lemma empty_group_refused:
  assumes os: "list_all2 entry_ok os css" and os': "list_all entry_dumps os'"
    and size: "entries_size os + entries_size os' + 16 < 2 ^ 16"
  shows "\<exists>p p' bs. make_msg j ty (os @ Some (make_group g []) # os') = Inr p \<and>
    msg_dump_to j (address_msg seid n p) = Some (Inr p', bs) \<and>
    (\<forall>k rest. \<exists>len s. msg_load_from new_pfcp_msg (stream k (bs @ rest)) =
       Some (Inl (Msg_bad_length ty len (of_nat (entries_size os)) (of_nat (entries_size os + 4 + entries_size os'))), s))"
proof -
  let ?t = "tlv_set_length 0 (tlv_of_type g)" and ?N = "entries_size os + 4 + entries_size os'"
  obtain ies1 where i1: "list_all2 writes ies1 (concat css)" "entries_size os = sum_list (map ie_size ies1)"
    and a1: "\<And>m. msg_add_ies os m = Inr (m\<lparr>mh_message_length := mh_message_length m + of_nat (entries_size os),
        msg_ies := msg_ies m @ ies1\<rparr>)"
    using msg_add_ies_ok [OF os] by blast
  obtain bss where d1: "\<And>j. ies_dump_to j ies1 = Some (Inr ies1, concat bss)" and enc: "list_all2 encodes (concat css) bss"
    and len: "length (concat bss) = entries_size os"
    using writes_all [OF i1(1)] i1(2) by auto
  obtain ies2 b2 where d2: "\<And>j. ies_dump_to j ies2 = Some (Inr ies2, b2)"
    and a2: "\<And>m. msg_add_ies os' m = Inr (m\<lparr>mh_message_length := mh_message_length m + of_nat (entries_size os'),
        msg_ies := msg_ies m @ ies2\<rparr>)"
    using msg_add_ies_dumps [OF os'] by blast
  let ?p = "new_pfcp_msg\<lparr>msg_remote_port := le_word [j, j], mh_message_type := ty,
      mh_message_length := of_nat (?N + 4), msg_ies := ies1 @ Grouped ?t [] # ies2\<rparr>"
  have p: "make_msg j ty (os @ Some (make_group g []) # os') = Inr ?p" "fresh_msg ty ?N ?p"
    by (simp_all add: make_msg_def make_group_def msg_add_ies_append a1 a2 msg_add_ie_def fresh_msg_def
        new_pfcp_msg_def new_pfcp_msg_header_def pfcp_msg_header.defs tlv_defs)
  have "ies_dump_to j (Grouped ?t [] # ies2) = Some (Inr (Grouped ?t [] # ies2), tlv_dump_to ?t @ b2)" for j
    by (simp add: d2)
  then have "\<forall>j. ies_dump_to j (msg_ies ?p) = Some (Inr (msg_ies ?p), concat bss @ tlv_dump_to ?t @ b2)"
    by (simp add: ies_dump_append [OF d1])
  then obtain hdr where d: "msg_dump_to j (address_msg seid n ?p) =
      Some (Inr (address_msg seid n ?p), hdr @ concat bss @ tlv_dump_to ?t @ b2)"
    and hl: "\<forall>k rest. \<exists>q. header_load_from new_pfcp_msg (stream k (hdr @ rest)) = (q, stream k rest) \<and>
       check_msg_length q = of_nat ?N \<and> msg_ies q = [] \<and> addressed_to ty seid n q"
    using written_msg [OF p(2), of _ j seid n] by blast
  have "\<exists>len s. msg_load_from new_pfcp_msg (stream k ((hdr @ concat bss @ tlv_dump_to ?t @ b2) @ rest)) =
       Some (Inl (Msg_bad_length ty len (of_nat (entries_size os)) (of_nat ?N)), s)" for k rest
  proof -
    let ?r = "tlv_dump_to ?t @ b2 @ rest"
    obtain q where q: "header_load_from new_pfcp_msg (stream k (hdr @ concat bss @ ?r)) = (q, stream k (concat bss @ ?r))"
      "check_msg_length q = of_nat ?N" "msg_ies q = []" "mh_message_type q = ty"
      using hl unfolding addressed_to_def by meson
    obtain ies where loop: "msg_load_loop (of_nat ?N) 0 [] (stream k (concat bss @ ?r)) =
        Some (Inr (of_nat (entries_size os), ies), stream k (b2 @ rest))"
      using msg_load_loop_stops [OF enc, where n = 0 and N = ?N and j = k and ies = "[]" and rest = ?r, OF _ _ new_pfcp_ie_empty_group]
        size by (auto simp: len simp del: length_concat of_nat_add)
    have "(of_nat (entries_size os) :: u16) \<noteq> of_nat ?N"
      using size by (simp add: word_unat_eq_iff unat_of_nat del: of_nat_add)
    then show ?thesis
      using q loop by (simp add: msg_load_from_def del: of_nat_add)
  qed
  then show ?thesis
    using p(1) d by blast
qed

section \<open>Reading returns\<close>

text \<open>Every stream without bytes above 127 is read to an answer.\<close>

lemma msg_load_loop_returns: "plain is \<Longrightarrow> msg_load_loop check n ies is \<noteq> None"
proof (induction check n ies "is" rule: msg_load_loop.induct)
  case (1 check n ies "is")
  have "plain is'" if "new_pfcp_ie is = Some (r, is')" for r is'
    using new_pfcp_ie_consumes(1) [OF that [unfolded new_pfcp_ie_def]] plain_later 1(2) by blast
  then show ?case
    using new_pfcp_ie_returns(1) [OF 1(2)] 1(1)
    by (subst msg_load_loop.simps) (auto simp: Let_def simp del: not_None_eq split: option.split sum.split)
qed

lemma header_load_shrinks: "shrinks is (header_load_from h is)"
  unfolding header_load_from_def
  by (rule shrinks_let_pair shrinks_let shrinks_intros later_refl | assumption)+

section \<open>The declared length\<close>

text \<open>
  The ways a message is put together: elements, the session and the sequence number may be set in
  any order and more than once.
\<close>

inductive msg_built :: "pfcp_msg \<Rightarrow> bool" where
  new: "msg_built (new_pfcp_msg\<lparr>msg_remote_port := port, mh_message_type := ty\<rparr>)"
| add_ie: "msg_built m \<Longrightarrow> msg_built (msg_add_ie ie m)"
| seid: "msg_built m \<Longrightarrow> msg_built (set_seid s m)"
| sequence_number: "msg_built m \<Longrightarrow> msg_built (set_sequence_number n m)"

lemma msg_built_length:
  "msg_built m \<Longrightarrow>
   mh_message_length m = of_nat (4 + (if has_seid m then 8 else 0) + sum_list (map ie_size (msg_ies m)))"
  by (induction rule: msg_built.induct)
    (auto simp: new_pfcp_msg_def new_pfcp_msg_header_def pfcp_msg_header.defs msg_add_ie_def of_nat_ie_size
      set_seid_def set_sequence_number_def has_seid_def Let_def bit_or_iff)

lemma msg_built_header: "msg_built m \<Longrightarrow> header_ok m \<and> \<not> mh_mp (mh_u1 m) \<and> mh_u1 m \<in> {0x20, 0x21}"
  by (induction rule: msg_built.induct)
    (auto simp: new_pfcp_msg_def new_pfcp_msg_header_def pfcp_msg_header.defs msg_add_ie_def header_ok_def
      set_seid_def set_sequence_number_def has_seid_def Let_def sequence_number_24 [simplified])

end
