(* ===== verification/Pfcp_Message_Codecs.thy ===== *)
theory Pfcp_Message_Codecs
  imports Pfcp_Msg
begin

text \<open>
  The constructors of \<^verbatim>\<open>pfcp_msg\<close> from the containers of messages (\<^verbatim>\<open>src/oai/pfcp/3gpp_29.244.cpp\<close>), and that
  each kind of message is an instance of \<open>message_codec\<close>.  The names follow the ones of the groups:
  \<open>m_entries\<close> are the elements in the order of the constructor, \<open>m_contents\<close> what they carry, and
  \<open>m_canon\<close> says which containers survive.  Members that the encoding of elements loses are
  absent there: the user plane IP resource information, the failed rule identifier, the user
  identifier, the node report type, and the groups whose constructors drop every member.
\<close>

section \<open>Constructors\<close>

abbreviation (input) PFCP_HEARTBEAT_REQUEST :: u8 where "PFCP_HEARTBEAT_REQUEST \<equiv> 1"

abbreviation (input) PFCP_HEARTBEAT_RESPONSE :: u8 where "PFCP_HEARTBEAT_RESPONSE \<equiv> 2"

abbreviation (input) PFCP_ASSOCIATION_SETUP_REQUEST :: u8 where "PFCP_ASSOCIATION_SETUP_REQUEST \<equiv> 5"

abbreviation (input) PFCP_ASSOCIATION_SETUP_RESPONSE :: u8 where "PFCP_ASSOCIATION_SETUP_RESPONSE \<equiv> 6"

abbreviation (input) PFCP_ASSOCIATION_RELEASE_REQUEST :: u8 where "PFCP_ASSOCIATION_RELEASE_REQUEST \<equiv> 9"

abbreviation (input) PFCP_ASSOCIATION_RELEASE_RESPONSE :: u8 where "PFCP_ASSOCIATION_RELEASE_RESPONSE \<equiv> 10"

abbreviation (input) PFCP_NODE_REPORT_REQUEST :: u8 where "PFCP_NODE_REPORT_REQUEST \<equiv> 12"

abbreviation (input) PFCP_SESSION_ESTABLISHMENT_REQUEST :: u8 where "PFCP_SESSION_ESTABLISHMENT_REQUEST \<equiv> 50"

abbreviation (input) PFCP_SESSION_ESTABLISHMENT_RESPONSE :: u8 where "PFCP_SESSION_ESTABLISHMENT_RESPONSE \<equiv> 51"

abbreviation (input) PFCP_SESSION_MODIFICATION_REQUEST :: u8 where "PFCP_SESSION_MODIFICATION_REQUEST \<equiv> 52"

abbreviation (input) PFCP_SESSION_MODIFICATION_RESPONSE :: u8 where "PFCP_SESSION_MODIFICATION_RESPONSE \<equiv> 53"

abbreviation (input) PFCP_SESSION_DELETION_REQUEST :: u8 where "PFCP_SESSION_DELETION_REQUEST \<equiv> 54"

abbreviation (input) PFCP_SESSION_DELETION_RESPONSE :: u8 where "PFCP_SESSION_DELETION_RESPONSE \<equiv> 55"

abbreviation (input) PFCP_SESSION_REPORT_REQUEST :: u8 where "PFCP_SESSION_REPORT_REQUEST \<equiv> 56"

abbreviation (input) PFCP_SESSION_REPORT_RESPONSE :: u8 where "PFCP_SESSION_REPORT_RESPONSE \<equiv> 57"

definition heartbeat_request_entries :: "u8 \<Rightarrow> pfcp_heartbeat_request \<Rightarrow> ie_entry list" where
  "heartbeat_request_entries j b =
     [opt_ie (hbq_recovery_time_stamp b) (\<lambda>v. Inr (Simple (IE_recovery_time_stamp (new_recovery_time_stamp_ie v))))]"

definition new_heartbeat_request_msg :: "u8 \<Rightarrow> pfcp_heartbeat_request \<Rightarrow> pfcp_exn + pfcp_msg" where
  "new_heartbeat_request_msg j b = make_msg j PFCP_HEARTBEAT_REQUEST (heartbeat_request_entries j b)"

definition heartbeat_response_entries :: "u8 \<Rightarrow> pfcp_heartbeat_response \<Rightarrow> ie_entry list" where
  "heartbeat_response_entries j b =
     [opt_ie (hbr_recovery_time_stamp b) (\<lambda>v. Inr (Simple (IE_recovery_time_stamp (new_recovery_time_stamp_ie v))))]"

definition new_heartbeat_response_msg :: "u8 \<Rightarrow> pfcp_heartbeat_response \<Rightarrow> pfcp_exn + pfcp_msg" where
  "new_heartbeat_response_msg j b = make_msg j PFCP_HEARTBEAT_RESPONSE (heartbeat_response_entries j b)"

definition association_setup_request_entries :: "u8 \<Rightarrow> pfcp_association_setup_request \<Rightarrow> ie_entry list" where
  "association_setup_request_entries j b =
     [opt_ie (asq_node_id b) (\<lambda>v. Inr (Simple (IE_node_id (new_node_id_ie v)))),
      opt_ie (asq_recovery_time_stamp b) (\<lambda>v. Inr (Simple (IE_recovery_time_stamp (new_recovery_time_stamp_ie v)))),
      opt_ie (asq_up_function_features b) (\<lambda>v. Inr (Simple (IE_up_function_features (new_up_function_features_ie v)))),
      opt_ie (asq_cp_function_features b) (\<lambda>v. Inr (Simple (IE_cp_function_features (new_cp_function_features_ie v)))),
      opt_ie (asq_user_plane_ip_resource_information b) (\<lambda>v. Inr (Simple (IE_upip (new_upip_ie v))))]"

definition new_association_setup_request_msg :: "u8 \<Rightarrow> pfcp_association_setup_request \<Rightarrow> pfcp_exn + pfcp_msg" where
  "new_association_setup_request_msg j b = make_msg j PFCP_ASSOCIATION_SETUP_REQUEST (association_setup_request_entries j b)"

definition association_setup_response_entries :: "u8 \<Rightarrow> pfcp_association_setup_response \<Rightarrow> ie_entry list" where
  "association_setup_response_entries j b =
     [opt_ie (asr_node_id b) (\<lambda>v. Inr (Simple (IE_node_id (new_node_id_ie v)))),
      opt_ie (asr_cause b) (\<lambda>v. Inr (Simple (IE_cause (new_cause_ie v)))),
      opt_ie (asr_recovery_time_stamp b) (\<lambda>v. Inr (Simple (IE_recovery_time_stamp (new_recovery_time_stamp_ie v)))),
      opt_ie (asr_up_function_features b) (\<lambda>v. Inr (Simple (IE_up_function_features (new_up_function_features_ie v)))),
      opt_ie (asr_cp_function_features b) (\<lambda>v. Inr (Simple (IE_cp_function_features (new_cp_function_features_ie v)))),
      opt_ie (asr_user_plane_ip_resource_information b) (\<lambda>v. Inr (Simple (IE_upip (new_upip_ie v))))]"

definition new_association_setup_response_msg :: "u8 \<Rightarrow> pfcp_association_setup_response \<Rightarrow> pfcp_exn + pfcp_msg" where
  "new_association_setup_response_msg j b = make_msg j PFCP_ASSOCIATION_SETUP_RESPONSE (association_setup_response_entries j b)"

definition association_release_request_entries :: "u8 \<Rightarrow> pfcp_association_release_request \<Rightarrow> ie_entry list" where
  "association_release_request_entries j b =
     [opt_ie (arq_node_id b) (\<lambda>v. Inr (Simple (IE_node_id (new_node_id_ie v))))]"

definition new_association_release_request_msg :: "u8 \<Rightarrow> pfcp_association_release_request \<Rightarrow> pfcp_exn + pfcp_msg" where
  "new_association_release_request_msg j b = make_msg j PFCP_ASSOCIATION_RELEASE_REQUEST (association_release_request_entries j b)"

definition association_release_response_entries :: "u8 \<Rightarrow> pfcp_association_release_response \<Rightarrow> ie_entry list" where
  "association_release_response_entries j b =
     [opt_ie (arr_node_id b) (\<lambda>v. Inr (Simple (IE_node_id (new_node_id_ie v)))),
      opt_ie (arr_cause b) (\<lambda>v. Inr (Simple (IE_cause (new_cause_ie v))))]"

definition new_association_release_response_msg :: "u8 \<Rightarrow> pfcp_association_release_response \<Rightarrow> pfcp_exn + pfcp_msg" where
  "new_association_release_response_msg j b = make_msg j PFCP_ASSOCIATION_RELEASE_RESPONSE (association_release_response_entries j b)"

definition node_report_request_entries :: "u8 \<Rightarrow> pfcp_node_report_request \<Rightarrow> ie_entry list" where
  "node_report_request_entries j b =
     [opt_ie (nrq_node_id b) (\<lambda>v. Inr (Simple (IE_node_id (new_node_id_ie v)))),
      opt_ie (nrq_node_report_type b) (\<lambda>v. Inr (Simple (IE_node_report_type (new_node_report_type_ie v))))]"

definition new_node_report_request_msg :: "u8 \<Rightarrow> pfcp_node_report_request \<Rightarrow> pfcp_exn + pfcp_msg" where
  "new_node_report_request_msg j b = make_msg j PFCP_NODE_REPORT_REQUEST (node_report_request_entries j b)"

definition session_establishment_request_entries :: "u8 \<Rightarrow> pfcp_session_establishment_request \<Rightarrow> ie_entry list" where
  "session_establishment_request_entries j b =
     [opt_ie (seq_node_id b) (\<lambda>v. Inr (Simple (IE_node_id (new_node_id_ie v)))),
      opt_ie (seq_cp_fseid b) (\<lambda>v. Inr (Simple (IE_f_seid (new_f_seid_ie v))))]
     @ map (\<lambda>v. Some (new_create_pdr_ie j v)) (seq_create_pdrs b)
     @ map (\<lambda>v. Some (new_create_far_ie j v)) (seq_create_fars b)
     @ map (\<lambda>v. Some (new_create_urr_ie j v)) (seq_create_urrs b)
     @ map (\<lambda>v. Some (new_create_qer_ie j v)) (seq_create_qers b)
     @ [opt_ie (seq_create_traffic_endpoint b) (new_create_traffic_endpoint_ie j),
      opt_ie (seq_user_plane_inactivity_timer b) (\<lambda>v. Inr (Simple (IE_user_plane_inactivity_timer (new_user_plane_inactivity_timer_ie v)))),
      opt_ie (seq_user_id b) (\<lambda>v. Inr (Simple (IE_user_id (new_user_id_ie v))))]"

definition new_session_establishment_request_msg :: "u8 \<Rightarrow> pfcp_session_establishment_request \<Rightarrow> pfcp_exn + pfcp_msg" where
  "new_session_establishment_request_msg j b = make_msg j PFCP_SESSION_ESTABLISHMENT_REQUEST (session_establishment_request_entries j b)"

definition session_establishment_response_entries :: "u8 \<Rightarrow> pfcp_session_establishment_response \<Rightarrow> ie_entry list" where
  "session_establishment_response_entries j b =
     [opt_ie (ser_node_id b) (\<lambda>v. Inr (Simple (IE_node_id (new_node_id_ie v)))),
      opt_ie (ser_cause b) (\<lambda>v. Inr (Simple (IE_cause (new_cause_ie v)))),
      opt_ie (ser_offending_ie b) (\<lambda>v. Inr (Simple (IE_offending_ie (new_offending_ie_ie v)))),
      opt_ie (ser_up_fseid b) (\<lambda>v. Inr (Simple (IE_f_seid (new_f_seid_ie v))))]
     @ map (\<lambda>v. Some (new_created_pdr_ie j v)) (ser_created_pdrs b)
     @ [opt_ie (ser_failed_rule_id b) (\<lambda>v. Inr (Simple (IE_failed_rule_id (new_failed_rule_id_ie v))))]"

definition new_session_establishment_response_msg :: "u8 \<Rightarrow> pfcp_session_establishment_response \<Rightarrow> pfcp_exn + pfcp_msg" where
  "new_session_establishment_response_msg j b = make_msg j PFCP_SESSION_ESTABLISHMENT_RESPONSE (session_establishment_response_entries j b)"

definition session_modification_request_entries :: "u8 \<Rightarrow> pfcp_session_modification_request \<Rightarrow> ie_entry list" where
  "session_modification_request_entries j b =
     [opt_ie (smq_cp_fseid b) (\<lambda>v. Inr (Simple (IE_f_seid (new_f_seid_ie v))))]
     @ map (\<lambda>v. Some (new_remove_pdr_ie j v)) (smq_remove_pdrs b)
     @ map (\<lambda>v. Some (new_remove_far_ie j v)) (smq_remove_fars b)
     @ map (\<lambda>v. Some (new_remove_urr_ie j v)) (smq_remove_urrs b)
     @ map (\<lambda>v. Some (new_remove_qer_ie j v)) (smq_remove_qers b)
     @ map (\<lambda>v. Some (new_create_pdr_ie j v)) (smq_create_pdrs b)
     @ map (\<lambda>v. Some (new_create_far_ie j v)) (smq_create_fars b)
     @ map (\<lambda>v. Some (new_create_urr_ie j v)) (smq_create_urrs b)
     @ map (\<lambda>v. Some (new_create_qer_ie j v)) (smq_create_qers b)
     @ [opt_ie (smq_create_traffic_endpoint b) (new_create_traffic_endpoint_ie j)]
     @ map (\<lambda>v. Some (new_update_pdr_ie j v)) (smq_update_pdrs b)
     @ map (\<lambda>v. Some (new_update_far_ie j v)) (smq_update_fars b)
     @ map (\<lambda>v. Some (new_update_urr_ie j v)) (smq_update_urrs b)
     @ map (\<lambda>v. Some (new_update_qer_ie j v)) (smq_update_qers b)
     @ [opt_ie (smq_user_plane_inactivity_timer b) (\<lambda>v. Inr (Simple (IE_user_plane_inactivity_timer (new_user_plane_inactivity_timer_ie v))))]"

definition new_session_modification_request_msg :: "u8 \<Rightarrow> pfcp_session_modification_request \<Rightarrow> pfcp_exn + pfcp_msg" where
  "new_session_modification_request_msg j b = make_msg j PFCP_SESSION_MODIFICATION_REQUEST (session_modification_request_entries j b)"

definition session_modification_response_entries :: "u8 \<Rightarrow> pfcp_session_modification_response \<Rightarrow> ie_entry list" where
  "session_modification_response_entries j b =
     [opt_ie (smr_cause b) (\<lambda>v. Inr (Simple (IE_cause (new_cause_ie v)))),
      opt_ie (smr_offending_ie b) (\<lambda>v. Inr (Simple (IE_offending_ie (new_offending_ie_ie v))))]
     @ map (\<lambda>v. Some (new_created_pdr_ie j v)) (smr_created_pdrs b)
     @ [opt_ie (smr_failed_rule_id b) (\<lambda>v. Inr (Simple (IE_failed_rule_id (new_failed_rule_id_ie v))))]"

definition new_session_modification_response_msg :: "u8 \<Rightarrow> pfcp_session_modification_response \<Rightarrow> pfcp_exn + pfcp_msg" where
  "new_session_modification_response_msg j b = make_msg j PFCP_SESSION_MODIFICATION_RESPONSE (session_modification_response_entries j b)"

definition session_deletion_request_entries :: "u8 \<Rightarrow> pfcp_session_deletion_request \<Rightarrow> ie_entry list" where
  "session_deletion_request_entries j b =
     []"

definition new_session_deletion_request_msg :: "u8 \<Rightarrow> pfcp_session_deletion_request \<Rightarrow> pfcp_exn + pfcp_msg" where
  "new_session_deletion_request_msg j b = make_msg j PFCP_SESSION_DELETION_REQUEST (session_deletion_request_entries j b)"

definition session_deletion_response_entries :: "u8 \<Rightarrow> pfcp_session_deletion_response \<Rightarrow> ie_entry list" where
  "session_deletion_response_entries j b =
     [opt_ie (sdr_cause b) (\<lambda>v. Inr (Simple (IE_cause (new_cause_ie v)))),
      opt_ie (sdr_offending_ie b) (\<lambda>v. Inr (Simple (IE_offending_ie (new_offending_ie_ie v))))]"

definition new_session_deletion_response_msg :: "u8 \<Rightarrow> pfcp_session_deletion_response \<Rightarrow> pfcp_exn + pfcp_msg" where
  "new_session_deletion_response_msg j b = make_msg j PFCP_SESSION_DELETION_RESPONSE (session_deletion_response_entries j b)"

definition session_report_request_entries :: "u8 \<Rightarrow> pfcp_session_report_request \<Rightarrow> ie_entry list" where
  "session_report_request_entries j b =
     [opt_ie (srq_report_type b) (\<lambda>v. Inr (Simple (IE_report_type (new_report_type_ie v)))),
      opt_ie (srq_downlink_data_report b) (new_downlink_data_report_ie j)]"

definition new_session_report_request_msg :: "u8 \<Rightarrow> pfcp_session_report_request \<Rightarrow> pfcp_exn + pfcp_msg" where
  "new_session_report_request_msg j b = make_msg j PFCP_SESSION_REPORT_REQUEST (session_report_request_entries j b)"

definition session_report_response_entries :: "u8 \<Rightarrow> pfcp_session_report_response \<Rightarrow> ie_entry list" where
  "session_report_response_entries j b =
     [opt_ie (srr_cause b) (\<lambda>v. Inr (Simple (IE_cause (new_cause_ie v)))),
      opt_ie (srr_offending_ie b) (\<lambda>v. Inr (Simple (IE_offending_ie (new_offending_ie_ie v))))]"

definition new_session_report_response_msg :: "u8 \<Rightarrow> pfcp_session_report_response \<Rightarrow> pfcp_exn + pfcp_msg" where
  "new_session_report_response_msg j b = make_msg j PFCP_SESSION_REPORT_RESPONSE (session_report_response_entries j b)"

section \<open>Encodings\<close>

subsection \<open>\<^verbatim>\<open>pfcp_heartbeat_request\<close>\<close>

definition heartbeat_request_contents :: "pfcp_heartbeat_request \<Rightarrow> content list list" where
  "heartbeat_request_contents b =
     [opt_leaf (hbq_recovery_time_stamp b) (\<lambda>v. Leaf (Core_recovery_time_stamp v))]"

definition heartbeat_request_shape :: "pfcp_heartbeat_request \<Rightarrow> bool" where
  "heartbeat_request_shape b \<longleftrightarrow>
     optm_ok 0 (hbq_recovery_time_stamp b)"

definition heartbeat_request_canon :: "u8 \<Rightarrow> pfcp_heartbeat_request \<Rightarrow> bool" where
  "heartbeat_request_canon j b \<longleftrightarrow>
     heartbeat_request_shape b \<and>
     concat (heartbeat_request_contents b) \<noteq> [] \<and>
     entries_size (heartbeat_request_entries j b) + 12 < 2 ^ 16"

lemma heartbeat_request_entries_ok:
  assumes "heartbeat_request_canon j b"
  shows "list_all2 entry_ok (heartbeat_request_entries j b) (heartbeat_request_contents b)"
  unfolding heartbeat_request_entries_def heartbeat_request_contents_def
  by (intro list.rel_intros
      entry_ok_total [OF writes_recovery_time_stamp])

lemma heartbeat_request_contents_junk:
  "map (with_junk k) (concat (heartbeat_request_contents b)) = concat (heartbeat_request_contents b)"
  by (simp add: heartbeat_request_contents_def core_with_junk_def opt_leaf_junk)

lemma heartbeat_request_steps:
  "contents_to_core (opt_leaf m0 (\<lambda>v. Leaf (Core_recovery_time_stamp v)) @ cs) (K_pfcp_heartbeat_request c) =
   contents_to_core cs (K_pfcp_heartbeat_request (c\<lparr>hbq_recovery_time_stamp := opt_value m0 (hbq_recovery_time_stamp c)\<rparr>))"
  by (auto simp: opt_leaf_def opt_value_def optm_all_def pfcp_heartbeat_request_set_core_def
      pfcp_heartbeat_request_set_recovery_time_stamp_def)

lemma heartbeat_request_to_core:
  "heartbeat_request_shape b \<Longrightarrow> contents_to_core (concat (heartbeat_request_contents b)) (K_pfcp_heartbeat_request new_pfcp_heartbeat_request) = Some (Inr (K_pfcp_heartbeat_request b))"
  by (cases b)
    (simp add: heartbeat_request_contents_def heartbeat_request_shape_def new_pfcp_heartbeat_request_def optm_ok_eq
      heartbeat_request_steps
      heartbeat_request_steps [where cs = "[]", simplified])

interpretation heartbeat_request: message_codec PFCP_HEARTBEAT_REQUEST heartbeat_request_entries heartbeat_request_contents heartbeat_request_canon "(\<lambda>k b. b)" K_pfcp_heartbeat_request new_pfcp_heartbeat_request
proof (rule message_codec.intro)
  fix j k b assume "heartbeat_request_canon j b"
  then show "contents_to_core (map (with_junk k) (concat (heartbeat_request_contents b))) (K_pfcp_heartbeat_request new_pfcp_heartbeat_request) = Some (Inr (K_pfcp_heartbeat_request ((\<lambda>k b. b) k b)))"
    by (simp add: heartbeat_request_contents_junk heartbeat_request_to_core heartbeat_request_canon_def)
qed (use heartbeat_request_entries_ok in \<open>auto simp: heartbeat_request_canon_def\<close>)

subsection \<open>\<^verbatim>\<open>pfcp_heartbeat_response\<close>\<close>

definition heartbeat_response_contents :: "pfcp_heartbeat_response \<Rightarrow> content list list" where
  "heartbeat_response_contents b =
     [opt_leaf (hbr_recovery_time_stamp b) (\<lambda>v. Leaf (Core_recovery_time_stamp v))]"

definition heartbeat_response_shape :: "pfcp_heartbeat_response \<Rightarrow> bool" where
  "heartbeat_response_shape b \<longleftrightarrow>
     optm_ok 0 (hbr_recovery_time_stamp b)"

definition heartbeat_response_canon :: "u8 \<Rightarrow> pfcp_heartbeat_response \<Rightarrow> bool" where
  "heartbeat_response_canon j b \<longleftrightarrow>
     heartbeat_response_shape b \<and>
     concat (heartbeat_response_contents b) \<noteq> [] \<and>
     entries_size (heartbeat_response_entries j b) + 12 < 2 ^ 16"

lemma heartbeat_response_entries_ok:
  assumes "heartbeat_response_canon j b"
  shows "list_all2 entry_ok (heartbeat_response_entries j b) (heartbeat_response_contents b)"
  unfolding heartbeat_response_entries_def heartbeat_response_contents_def
  by (intro list.rel_intros
      entry_ok_total [OF writes_recovery_time_stamp])

lemma heartbeat_response_contents_junk:
  "map (with_junk k) (concat (heartbeat_response_contents b)) = concat (heartbeat_response_contents b)"
  by (simp add: heartbeat_response_contents_def core_with_junk_def opt_leaf_junk)

lemma heartbeat_response_steps:
  "contents_to_core (opt_leaf m0 (\<lambda>v. Leaf (Core_recovery_time_stamp v)) @ cs) (K_pfcp_heartbeat_response c) =
   contents_to_core cs (K_pfcp_heartbeat_response (c\<lparr>hbr_recovery_time_stamp := opt_value m0 (hbr_recovery_time_stamp c)\<rparr>))"
  by (auto simp: opt_leaf_def opt_value_def optm_all_def pfcp_heartbeat_response_set_core_def
      pfcp_heartbeat_response_set_recovery_time_stamp_def)

lemma heartbeat_response_to_core:
  "heartbeat_response_shape b \<Longrightarrow> contents_to_core (concat (heartbeat_response_contents b)) (K_pfcp_heartbeat_response new_pfcp_heartbeat_response) = Some (Inr (K_pfcp_heartbeat_response b))"
  by (cases b)
    (simp add: heartbeat_response_contents_def heartbeat_response_shape_def new_pfcp_heartbeat_response_def optm_ok_eq
      heartbeat_response_steps
      heartbeat_response_steps [where cs = "[]", simplified])

interpretation heartbeat_response: message_codec PFCP_HEARTBEAT_RESPONSE heartbeat_response_entries heartbeat_response_contents heartbeat_response_canon "(\<lambda>k b. b)" K_pfcp_heartbeat_response new_pfcp_heartbeat_response
proof (rule message_codec.intro)
  fix j k b assume "heartbeat_response_canon j b"
  then show "contents_to_core (map (with_junk k) (concat (heartbeat_response_contents b))) (K_pfcp_heartbeat_response new_pfcp_heartbeat_response) = Some (Inr (K_pfcp_heartbeat_response ((\<lambda>k b. b) k b)))"
    by (simp add: heartbeat_response_contents_junk heartbeat_response_to_core heartbeat_response_canon_def)
qed (use heartbeat_response_entries_ok in \<open>auto simp: heartbeat_response_canon_def\<close>)

subsection \<open>\<^verbatim>\<open>pfcp_association_setup_request\<close>\<close>

definition association_setup_request_contents :: "pfcp_association_setup_request \<Rightarrow> content list list" where
  "association_setup_request_contents b =
     [opt_leaf (asq_node_id b) (\<lambda>v. Leaf (Core_node_id v)),
      opt_leaf (asq_recovery_time_stamp b) (\<lambda>v. Leaf (Core_recovery_time_stamp v)),
      opt_leaf (asq_up_function_features b) (\<lambda>v. Leaf (Core_up_function_features v)),
      opt_leaf (asq_cp_function_features b) (\<lambda>v. Leaf (Core_cp_function_features v)),
      opt_leaf (asq_user_plane_ip_resource_information b) (\<lambda>v. Leaf (Core_upip v))]"

definition association_setup_request_shape :: "pfcp_association_setup_request \<Rightarrow> bool" where
  "association_setup_request_shape b \<longleftrightarrow>
     optm_ok node_id0 (asq_node_id b) \<and>
     optm_ok 0 (asq_recovery_time_stamp b) \<and>
     optm_ok up_function_features0 (asq_up_function_features b) \<and>
     optm_ok cp_function_features0 (asq_cp_function_features b) \<and>
     asq_user_plane_ip_resource_information b = (False, user_plane_ip_resource_information0)"

definition association_setup_request_canon :: "u8 \<Rightarrow> pfcp_association_setup_request \<Rightarrow> bool" where
  "association_setup_request_canon j b \<longleftrightarrow>
     association_setup_request_shape b \<and>
     optm_all (\<lambda>v. node_id_canon v) (asq_node_id b) \<and>
     optm_all (\<lambda>v. up_function_features_canon v) (asq_up_function_features b) \<and>
     optm_all (\<lambda>v. cp_function_features_canon v) (asq_cp_function_features b) \<and>
     concat (association_setup_request_contents b) \<noteq> [] \<and>
     entries_size (association_setup_request_entries j b) + 12 < 2 ^ 16"

lemma association_setup_request_entries_ok:
  assumes "association_setup_request_canon j b"
  shows "list_all2 entry_ok (association_setup_request_entries j b) (association_setup_request_contents b)"
  unfolding association_setup_request_entries_def association_setup_request_contents_def
  by (intro list.rel_intros
      entry_ok_simple [OF _ writes_node_id]
      entry_ok_total [OF writes_recovery_time_stamp]
      entry_ok_simple [OF _ writes_up_function_features]
      entry_ok_simple [OF _ writes_cp_function_features]
      entry_ok_absent [of "asq_user_plane_ip_resource_information b"])
    (use assms in \<open>simp_all add: association_setup_request_canon_def association_setup_request_shape_def\<close>)

lemma association_setup_request_contents_junk:
  "map (with_junk k) (concat (association_setup_request_contents b)) = concat (association_setup_request_contents b)"
  by (simp add: association_setup_request_contents_def core_with_junk_def opt_leaf_junk)

lemma association_setup_request_steps:
  "contents_to_core (opt_leaf m0 (\<lambda>v. Leaf (Core_node_id v)) @ cs) (K_pfcp_association_setup_request c) =
   contents_to_core cs (K_pfcp_association_setup_request (c\<lparr>asq_node_id := opt_value m0 (asq_node_id c)\<rparr>))"
  "contents_to_core (opt_leaf m1 (\<lambda>v. Leaf (Core_recovery_time_stamp v)) @ cs) (K_pfcp_association_setup_request c) =
   contents_to_core cs (K_pfcp_association_setup_request (c\<lparr>asq_recovery_time_stamp := opt_value m1 (asq_recovery_time_stamp c)\<rparr>))"
  "contents_to_core (opt_leaf m2 (\<lambda>v. Leaf (Core_up_function_features v)) @ cs) (K_pfcp_association_setup_request c) =
   contents_to_core cs (K_pfcp_association_setup_request (c\<lparr>asq_up_function_features := opt_value m2 (asq_up_function_features c)\<rparr>))"
  "contents_to_core (opt_leaf m3 (\<lambda>v. Leaf (Core_cp_function_features v)) @ cs) (K_pfcp_association_setup_request c) =
   contents_to_core cs (K_pfcp_association_setup_request (c\<lparr>asq_cp_function_features := opt_value m3 (asq_cp_function_features c)\<rparr>))"
  by (auto simp: opt_leaf_def opt_value_def optm_all_def pfcp_association_setup_request_set_core_def
      pfcp_association_setup_request_set_node_id_def pfcp_association_setup_request_set_recovery_time_stamp_def pfcp_association_setup_request_set_up_function_features_def pfcp_association_setup_request_set_cp_function_features_def)

lemma association_setup_request_to_core:
  "association_setup_request_shape b \<Longrightarrow> contents_to_core (concat (association_setup_request_contents b)) (K_pfcp_association_setup_request new_pfcp_association_setup_request) = Some (Inr (K_pfcp_association_setup_request b))"
  by (cases b)
    (simp add: association_setup_request_contents_def association_setup_request_shape_def new_pfcp_association_setup_request_def optm_ok_eq
      association_setup_request_steps
      association_setup_request_steps [where cs = "[]", simplified])

interpretation association_setup_request: message_codec PFCP_ASSOCIATION_SETUP_REQUEST association_setup_request_entries association_setup_request_contents association_setup_request_canon "(\<lambda>k b. b)" K_pfcp_association_setup_request new_pfcp_association_setup_request
proof (rule message_codec.intro)
  fix j k b assume "association_setup_request_canon j b"
  then show "contents_to_core (map (with_junk k) (concat (association_setup_request_contents b))) (K_pfcp_association_setup_request new_pfcp_association_setup_request) = Some (Inr (K_pfcp_association_setup_request ((\<lambda>k b. b) k b)))"
    by (simp add: association_setup_request_contents_junk association_setup_request_to_core association_setup_request_canon_def)
qed (use association_setup_request_entries_ok in \<open>auto simp: association_setup_request_canon_def\<close>)

subsection \<open>\<^verbatim>\<open>pfcp_association_setup_response\<close>\<close>

definition association_setup_response_contents :: "pfcp_association_setup_response \<Rightarrow> content list list" where
  "association_setup_response_contents b =
     [opt_leaf (asr_node_id b) (\<lambda>v. Leaf (Core_node_id v)),
      opt_leaf (asr_cause b) (\<lambda>v. Leaf (Core_cause v)),
      opt_leaf (asr_recovery_time_stamp b) (\<lambda>v. Leaf (Core_recovery_time_stamp v)),
      opt_leaf (asr_up_function_features b) (\<lambda>v. Leaf (Core_up_function_features v)),
      opt_leaf (asr_cp_function_features b) (\<lambda>v. Leaf (Core_cp_function_features v)),
      opt_leaf (asr_user_plane_ip_resource_information b) (\<lambda>v. Leaf (Core_upip v))]"

definition association_setup_response_shape :: "pfcp_association_setup_response \<Rightarrow> bool" where
  "association_setup_response_shape b \<longleftrightarrow>
     optm_ok node_id0 (asr_node_id b) \<and>
     optm_ok 0 (asr_cause b) \<and>
     optm_ok 0 (asr_recovery_time_stamp b) \<and>
     optm_ok up_function_features0 (asr_up_function_features b) \<and>
     optm_ok cp_function_features0 (asr_cp_function_features b) \<and>
     asr_user_plane_ip_resource_information b = (False, user_plane_ip_resource_information0)"

definition association_setup_response_canon :: "u8 \<Rightarrow> pfcp_association_setup_response \<Rightarrow> bool" where
  "association_setup_response_canon j b \<longleftrightarrow>
     association_setup_response_shape b \<and>
     optm_all (\<lambda>v. node_id_canon v) (asr_node_id b) \<and>
     optm_all (\<lambda>v. up_function_features_canon v) (asr_up_function_features b) \<and>
     optm_all (\<lambda>v. cp_function_features_canon v) (asr_cp_function_features b) \<and>
     concat (association_setup_response_contents b) \<noteq> [] \<and>
     entries_size (association_setup_response_entries j b) + 12 < 2 ^ 16"

lemma association_setup_response_entries_ok:
  assumes "association_setup_response_canon j b"
  shows "list_all2 entry_ok (association_setup_response_entries j b) (association_setup_response_contents b)"
  unfolding association_setup_response_entries_def association_setup_response_contents_def
  by (intro list.rel_intros
      entry_ok_simple [OF _ writes_node_id]
      entry_ok_total [OF writes_cause]
      entry_ok_total [OF writes_recovery_time_stamp]
      entry_ok_simple [OF _ writes_up_function_features]
      entry_ok_simple [OF _ writes_cp_function_features]
      entry_ok_absent [of "asr_user_plane_ip_resource_information b"])
    (use assms in \<open>simp_all add: association_setup_response_canon_def association_setup_response_shape_def\<close>)

lemma association_setup_response_contents_junk:
  "map (with_junk k) (concat (association_setup_response_contents b)) = concat (association_setup_response_contents b)"
  by (simp add: association_setup_response_contents_def core_with_junk_def opt_leaf_junk)

lemma association_setup_response_steps:
  "contents_to_core (opt_leaf m0 (\<lambda>v. Leaf (Core_node_id v)) @ cs) (K_pfcp_association_setup_response c) =
   contents_to_core cs (K_pfcp_association_setup_response (c\<lparr>asr_node_id := opt_value m0 (asr_node_id c)\<rparr>))"
  "contents_to_core (opt_leaf m1 (\<lambda>v. Leaf (Core_cause v)) @ cs) (K_pfcp_association_setup_response c) =
   contents_to_core cs (K_pfcp_association_setup_response (c\<lparr>asr_cause := opt_value m1 (asr_cause c)\<rparr>))"
  "contents_to_core (opt_leaf m2 (\<lambda>v. Leaf (Core_recovery_time_stamp v)) @ cs) (K_pfcp_association_setup_response c) =
   contents_to_core cs (K_pfcp_association_setup_response (c\<lparr>asr_recovery_time_stamp := opt_value m2 (asr_recovery_time_stamp c)\<rparr>))"
  "contents_to_core (opt_leaf m3 (\<lambda>v. Leaf (Core_up_function_features v)) @ cs) (K_pfcp_association_setup_response c) =
   contents_to_core cs (K_pfcp_association_setup_response (c\<lparr>asr_up_function_features := opt_value m3 (asr_up_function_features c)\<rparr>))"
  "contents_to_core (opt_leaf m4 (\<lambda>v. Leaf (Core_cp_function_features v)) @ cs) (K_pfcp_association_setup_response c) =
   contents_to_core cs (K_pfcp_association_setup_response (c\<lparr>asr_cp_function_features := opt_value m4 (asr_cp_function_features c)\<rparr>))"
  by (auto simp: opt_leaf_def opt_value_def optm_all_def pfcp_association_setup_response_set_core_def
      pfcp_association_setup_response_set_node_id_def pfcp_association_setup_response_set_cause_def pfcp_association_setup_response_set_recovery_time_stamp_def pfcp_association_setup_response_set_up_function_features_def pfcp_association_setup_response_set_cp_function_features_def)

lemma association_setup_response_to_core:
  "association_setup_response_shape b \<Longrightarrow> contents_to_core (concat (association_setup_response_contents b)) (K_pfcp_association_setup_response new_pfcp_association_setup_response) = Some (Inr (K_pfcp_association_setup_response b))"
  by (cases b)
    (simp add: association_setup_response_contents_def association_setup_response_shape_def new_pfcp_association_setup_response_def optm_ok_eq
      association_setup_response_steps
      association_setup_response_steps [where cs = "[]", simplified])

interpretation association_setup_response: message_codec PFCP_ASSOCIATION_SETUP_RESPONSE association_setup_response_entries association_setup_response_contents association_setup_response_canon "(\<lambda>k b. b)" K_pfcp_association_setup_response new_pfcp_association_setup_response
proof (rule message_codec.intro)
  fix j k b assume "association_setup_response_canon j b"
  then show "contents_to_core (map (with_junk k) (concat (association_setup_response_contents b))) (K_pfcp_association_setup_response new_pfcp_association_setup_response) = Some (Inr (K_pfcp_association_setup_response ((\<lambda>k b. b) k b)))"
    by (simp add: association_setup_response_contents_junk association_setup_response_to_core association_setup_response_canon_def)
qed (use association_setup_response_entries_ok in \<open>auto simp: association_setup_response_canon_def\<close>)

subsection \<open>\<^verbatim>\<open>pfcp_association_release_request\<close>\<close>

definition association_release_request_contents :: "pfcp_association_release_request \<Rightarrow> content list list" where
  "association_release_request_contents b =
     [opt_leaf (arq_node_id b) (\<lambda>v. Leaf (Core_node_id v))]"

definition association_release_request_shape :: "pfcp_association_release_request \<Rightarrow> bool" where
  "association_release_request_shape b \<longleftrightarrow>
     optm_ok node_id0 (arq_node_id b)"

definition association_release_request_canon :: "u8 \<Rightarrow> pfcp_association_release_request \<Rightarrow> bool" where
  "association_release_request_canon j b \<longleftrightarrow>
     association_release_request_shape b \<and>
     optm_all (\<lambda>v. node_id_canon v) (arq_node_id b) \<and>
     concat (association_release_request_contents b) \<noteq> [] \<and>
     entries_size (association_release_request_entries j b) + 12 < 2 ^ 16"

lemma association_release_request_entries_ok:
  assumes "association_release_request_canon j b"
  shows "list_all2 entry_ok (association_release_request_entries j b) (association_release_request_contents b)"
  unfolding association_release_request_entries_def association_release_request_contents_def
  by (intro list.rel_intros
      entry_ok_simple [OF _ writes_node_id])
    (use assms in \<open>simp_all add: association_release_request_canon_def association_release_request_shape_def\<close>)

lemma association_release_request_contents_junk:
  "map (with_junk k) (concat (association_release_request_contents b)) = concat (association_release_request_contents b)"
  by (simp add: association_release_request_contents_def core_with_junk_def opt_leaf_junk)

lemma association_release_request_steps:
  "contents_to_core (opt_leaf m0 (\<lambda>v. Leaf (Core_node_id v)) @ cs) (K_pfcp_association_release_request c) =
   contents_to_core cs (K_pfcp_association_release_request (c\<lparr>arq_node_id := opt_value m0 (arq_node_id c)\<rparr>))"
  by (auto simp: opt_leaf_def opt_value_def optm_all_def pfcp_association_release_request_set_core_def
      pfcp_association_release_request_set_node_id_def)

lemma association_release_request_to_core:
  "association_release_request_shape b \<Longrightarrow> contents_to_core (concat (association_release_request_contents b)) (K_pfcp_association_release_request new_pfcp_association_release_request) = Some (Inr (K_pfcp_association_release_request b))"
  by (cases b)
    (simp add: association_release_request_contents_def association_release_request_shape_def new_pfcp_association_release_request_def optm_ok_eq
      association_release_request_steps
      association_release_request_steps [where cs = "[]", simplified])

interpretation association_release_request: message_codec PFCP_ASSOCIATION_RELEASE_REQUEST association_release_request_entries association_release_request_contents association_release_request_canon "(\<lambda>k b. b)" K_pfcp_association_release_request new_pfcp_association_release_request
proof (rule message_codec.intro)
  fix j k b assume "association_release_request_canon j b"
  then show "contents_to_core (map (with_junk k) (concat (association_release_request_contents b))) (K_pfcp_association_release_request new_pfcp_association_release_request) = Some (Inr (K_pfcp_association_release_request ((\<lambda>k b. b) k b)))"
    by (simp add: association_release_request_contents_junk association_release_request_to_core association_release_request_canon_def)
qed (use association_release_request_entries_ok in \<open>auto simp: association_release_request_canon_def\<close>)

subsection \<open>\<^verbatim>\<open>pfcp_association_release_response\<close>\<close>

definition association_release_response_contents :: "pfcp_association_release_response \<Rightarrow> content list list" where
  "association_release_response_contents b =
     [opt_leaf (arr_node_id b) (\<lambda>v. Leaf (Core_node_id v)),
      opt_leaf (arr_cause b) (\<lambda>v. Leaf (Core_cause v))]"

definition association_release_response_shape :: "pfcp_association_release_response \<Rightarrow> bool" where
  "association_release_response_shape b \<longleftrightarrow>
     optm_ok node_id0 (arr_node_id b) \<and>
     optm_ok 0 (arr_cause b)"

definition association_release_response_canon :: "u8 \<Rightarrow> pfcp_association_release_response \<Rightarrow> bool" where
  "association_release_response_canon j b \<longleftrightarrow>
     association_release_response_shape b \<and>
     optm_all (\<lambda>v. node_id_canon v) (arr_node_id b) \<and>
     concat (association_release_response_contents b) \<noteq> [] \<and>
     entries_size (association_release_response_entries j b) + 12 < 2 ^ 16"

lemma association_release_response_entries_ok:
  assumes "association_release_response_canon j b"
  shows "list_all2 entry_ok (association_release_response_entries j b) (association_release_response_contents b)"
  unfolding association_release_response_entries_def association_release_response_contents_def
  by (intro list.rel_intros
      entry_ok_simple [OF _ writes_node_id]
      entry_ok_total [OF writes_cause])
    (use assms in \<open>simp_all add: association_release_response_canon_def association_release_response_shape_def\<close>)

lemma association_release_response_contents_junk:
  "map (with_junk k) (concat (association_release_response_contents b)) = concat (association_release_response_contents b)"
  by (simp add: association_release_response_contents_def core_with_junk_def opt_leaf_junk)

lemma association_release_response_steps:
  "contents_to_core (opt_leaf m0 (\<lambda>v. Leaf (Core_node_id v)) @ cs) (K_pfcp_association_release_response c) =
   contents_to_core cs (K_pfcp_association_release_response (c\<lparr>arr_node_id := opt_value m0 (arr_node_id c)\<rparr>))"
  "contents_to_core (opt_leaf m1 (\<lambda>v. Leaf (Core_cause v)) @ cs) (K_pfcp_association_release_response c) =
   contents_to_core cs (K_pfcp_association_release_response (c\<lparr>arr_cause := opt_value m1 (arr_cause c)\<rparr>))"
  by (auto simp: opt_leaf_def opt_value_def optm_all_def pfcp_association_release_response_set_core_def
      pfcp_association_release_response_set_node_id_def pfcp_association_release_response_set_cause_def)

lemma association_release_response_to_core:
  "association_release_response_shape b \<Longrightarrow> contents_to_core (concat (association_release_response_contents b)) (K_pfcp_association_release_response new_pfcp_association_release_response) = Some (Inr (K_pfcp_association_release_response b))"
  by (cases b)
    (simp add: association_release_response_contents_def association_release_response_shape_def new_pfcp_association_release_response_def optm_ok_eq
      association_release_response_steps
      association_release_response_steps [where cs = "[]", simplified])

interpretation association_release_response: message_codec PFCP_ASSOCIATION_RELEASE_RESPONSE association_release_response_entries association_release_response_contents association_release_response_canon "(\<lambda>k b. b)" K_pfcp_association_release_response new_pfcp_association_release_response
proof (rule message_codec.intro)
  fix j k b assume "association_release_response_canon j b"
  then show "contents_to_core (map (with_junk k) (concat (association_release_response_contents b))) (K_pfcp_association_release_response new_pfcp_association_release_response) = Some (Inr (K_pfcp_association_release_response ((\<lambda>k b. b) k b)))"
    by (simp add: association_release_response_contents_junk association_release_response_to_core association_release_response_canon_def)
qed (use association_release_response_entries_ok in \<open>auto simp: association_release_response_canon_def\<close>)

subsection \<open>\<^verbatim>\<open>pfcp_node_report_request\<close>\<close>

definition node_report_request_contents :: "pfcp_node_report_request \<Rightarrow> content list list" where
  "node_report_request_contents b =
     [opt_leaf (nrq_node_id b) (\<lambda>v. Leaf (Core_node_id v)),
      opt_leaf (nrq_node_report_type b) (\<lambda>v. Leaf (Core_node_report_type v))]"

definition node_report_request_shape :: "pfcp_node_report_request \<Rightarrow> bool" where
  "node_report_request_shape b \<longleftrightarrow>
     optm_ok node_id0 (nrq_node_id b) \<and>
     nrq_node_report_type b = (False, node_report_type0) \<and>
     nrq_user_plane_path_failure_report b = (False, new_user_plane_path_failure_report)"

definition node_report_request_canon :: "u8 \<Rightarrow> pfcp_node_report_request \<Rightarrow> bool" where
  "node_report_request_canon j b \<longleftrightarrow>
     node_report_request_shape b \<and>
     optm_all (\<lambda>v. node_id_canon v) (nrq_node_id b) \<and>
     concat (node_report_request_contents b) \<noteq> [] \<and>
     entries_size (node_report_request_entries j b) + 12 < 2 ^ 16"

lemma node_report_request_entries_ok:
  assumes "node_report_request_canon j b"
  shows "list_all2 entry_ok (node_report_request_entries j b) (node_report_request_contents b)"
  unfolding node_report_request_entries_def node_report_request_contents_def
  by (intro list.rel_intros
      entry_ok_simple [OF _ writes_node_id]
      entry_ok_absent [of "nrq_node_report_type b"])
    (use assms in \<open>simp_all add: node_report_request_canon_def node_report_request_shape_def\<close>)

lemma node_report_request_contents_junk:
  "map (with_junk k) (concat (node_report_request_contents b)) = concat (node_report_request_contents b)"
  by (simp add: node_report_request_contents_def core_with_junk_def opt_leaf_junk)

lemma node_report_request_steps:
  "contents_to_core (opt_leaf m0 (\<lambda>v. Leaf (Core_node_id v)) @ cs) (K_pfcp_node_report_request c) =
   contents_to_core cs (K_pfcp_node_report_request (c\<lparr>nrq_node_id := opt_value m0 (nrq_node_id c)\<rparr>))"
  by (auto simp: opt_leaf_def opt_value_def optm_all_def pfcp_node_report_request_set_core_def
      pfcp_node_report_request_set_node_id_def)

lemma node_report_request_to_core:
  "node_report_request_shape b \<Longrightarrow> contents_to_core (concat (node_report_request_contents b)) (K_pfcp_node_report_request new_pfcp_node_report_request) = Some (Inr (K_pfcp_node_report_request b))"
  by (cases b)
    (simp add: node_report_request_contents_def node_report_request_shape_def new_pfcp_node_report_request_def optm_ok_eq
      node_report_request_steps
      node_report_request_steps [where cs = "[]", simplified])

interpretation node_report_request: message_codec PFCP_NODE_REPORT_REQUEST node_report_request_entries node_report_request_contents node_report_request_canon "(\<lambda>k b. b)" K_pfcp_node_report_request new_pfcp_node_report_request
proof (rule message_codec.intro)
  fix j k b assume "node_report_request_canon j b"
  then show "contents_to_core (map (with_junk k) (concat (node_report_request_contents b))) (K_pfcp_node_report_request new_pfcp_node_report_request) = Some (Inr (K_pfcp_node_report_request ((\<lambda>k b. b) k b)))"
    by (simp add: node_report_request_contents_junk node_report_request_to_core node_report_request_canon_def)
qed (use node_report_request_entries_ok in \<open>auto simp: node_report_request_canon_def\<close>)

subsection \<open>\<^verbatim>\<open>pfcp_session_establishment_request\<close>\<close>

definition session_establishment_request_contents :: "pfcp_session_establishment_request \<Rightarrow> content list list" where
  "session_establishment_request_contents b =
     [opt_leaf (seq_node_id b) (\<lambda>v. Leaf (Core_node_id v)),
      opt_leaf (seq_cp_fseid b) (\<lambda>v. Leaf (Core_f_seid v))]
     @ map (\<lambda>v. [create_pdr_content v]) (seq_create_pdrs b)
     @ map (\<lambda>v. [create_far_content v]) (seq_create_fars b)
     @ []
     @ []
     @ [opt_leaf (seq_create_traffic_endpoint b) (\<lambda>v. Node (ucast PFCP_IE_CREATE_TRAFFIC_ENDPOINT) []),
      opt_leaf (seq_user_plane_inactivity_timer b) (\<lambda>v. Leaf (Core_user_plane_inactivity_timer v)),
      opt_leaf (seq_user_id b) (\<lambda>v. Leaf (Core_user_id v))]"

definition session_establishment_request_shape :: "pfcp_session_establishment_request \<Rightarrow> bool" where
  "session_establishment_request_shape b \<longleftrightarrow>
     optm_ok node_id0 (seq_node_id b) \<and>
     optm_ok fseid0 (seq_cp_fseid b) \<and>
     list_all create_pdr_shape (seq_create_pdrs b) \<and>
     list_all create_far_shape (seq_create_fars b) \<and>
     seq_create_urrs b = [] \<and>
     seq_create_qers b = [] \<and>
     seq_create_bar b = (False, new_create_bar) \<and>
     seq_create_traffic_endpoint b = (False, new_create_traffic_endpoint) \<and>
     seq_pdn_type b = (False, pdn_type0) \<and>
     seq_sgw_c_fq_csid b = (False, fq_csid0) \<and>
     seq_mme_fq_csid b = (False, fq_csid0) \<and>
     seq_pgw_c_fq_csid b = (False, fq_csid0) \<and>
     seq_epdg_fq_csid b = (False, fq_csid0) \<and>
     seq_twan_fq_csid b = (False, fq_csid0) \<and>
     optm_ok 0 (seq_user_plane_inactivity_timer b) \<and>
     seq_user_id b = (False, user_id0) \<and>
     seq_trace_information b = (False, trace_information0)"

definition session_establishment_request_canon :: "u8 \<Rightarrow> pfcp_session_establishment_request \<Rightarrow> bool" where
  "session_establishment_request_canon j b \<longleftrightarrow>
     session_establishment_request_shape b \<and>
     optm_all (\<lambda>v. node_id_canon v) (seq_node_id b) \<and>
     optm_all (\<lambda>v. fseid_canon v) (seq_cp_fseid b) \<and>
     list_all (create_pdr_canon j) (seq_create_pdrs b) \<and>
     list_all (create_far_canon j) (seq_create_fars b) \<and>
     concat (session_establishment_request_contents b) \<noteq> [] \<and>
     entries_size (session_establishment_request_entries j b) + 12 < 2 ^ 16"

lemma session_establishment_request_entries_ok:
  assumes "session_establishment_request_canon j b"
  shows "list_all2 entry_ok (session_establishment_request_entries j b) (session_establishment_request_contents b)"
  unfolding session_establishment_request_entries_def session_establishment_request_contents_def
  by (intro list_all2_appendI list.rel_intros
      entry_ok_simple [OF _ writes_node_id]
      entry_ok_simple [OF _ writes_f_seid]
      entries_all [OF _ create_pdr_writes]
      entries_all [OF _ create_far_writes]
      entries_absent [of "seq_create_urrs b"]
      entries_absent [of "seq_create_qers b"]
      entry_ok_absent [of "seq_create_traffic_endpoint b"]
      entry_ok_total [OF writes_user_plane_inactivity_timer]
      entry_ok_absent [of "seq_user_id b"])
    (use assms in \<open>simp_all add: session_establishment_request_canon_def session_establishment_request_shape_def\<close>)

definition session_establishment_request_with_junk :: "u8 \<Rightarrow> pfcp_session_establishment_request \<Rightarrow> pfcp_session_establishment_request" where
  "session_establishment_request_with_junk k b = b\<lparr>seq_create_fars := map (create_far_with_junk k) (seq_create_fars b)\<rparr>"

lemma session_establishment_request_with_junk_shape: "session_establishment_request_shape b \<Longrightarrow> session_establishment_request_shape (session_establishment_request_with_junk k b)"
  by (simp add: session_establishment_request_shape_def session_establishment_request_with_junk_def list_all_iff)

lemma session_establishment_request_contents_junk:
  "map (with_junk k) (concat (session_establishment_request_contents b)) = concat (session_establishment_request_contents (session_establishment_request_with_junk k b))"
  by (simp add: session_establishment_request_contents_def core_with_junk_def opt_leaf_junk session_establishment_request_with_junk_def o_def)

lemma session_establishment_request_steps:
  "contents_to_core (opt_leaf m0 (\<lambda>v. Leaf (Core_node_id v)) @ cs) (K_pfcp_session_establishment_request c) =
   contents_to_core cs (K_pfcp_session_establishment_request (c\<lparr>seq_node_id := opt_value m0 (seq_node_id c)\<rparr>))"
  "contents_to_core (opt_leaf m1 (\<lambda>v. Leaf (Core_f_seid v)) @ cs) (K_pfcp_session_establishment_request c) =
   contents_to_core cs (K_pfcp_session_establishment_request (c\<lparr>seq_cp_fseid := opt_value m1 (seq_cp_fseid c)\<rparr>))"
  "contents_to_core (opt_leaf m7 (\<lambda>v. Leaf (Core_user_plane_inactivity_timer v)) @ cs) (K_pfcp_session_establishment_request c) =
   contents_to_core cs (K_pfcp_session_establishment_request (c\<lparr>seq_user_plane_inactivity_timer := opt_value m7 (seq_user_plane_inactivity_timer c)\<rparr>))"
  by (auto simp: opt_leaf_def opt_value_def optm_all_def pfcp_session_establishment_request_set_core_def
      pfcp_session_establishment_request_set_node_id_def pfcp_session_establishment_request_set_cp_fseid_def pfcp_session_establishment_request_set_user_plane_inactivity_timer_def)

lemma session_establishment_request_create_pdrs_step:
  "list_all create_pdr_shape vs \<Longrightarrow> contents_to_core (map create_pdr_content vs @ cs) (K_pfcp_session_establishment_request c) =
   contents_to_core cs (K_pfcp_session_establishment_request (c\<lparr>seq_create_pdrs := seq_create_pdrs c @ vs\<rparr>))"
  by (induction vs arbitrary: c) (simp_all add: create_pdr_to_core pfcp_session_establishment_request_set_group_def pfcp_session_establishment_request_set_create_pdrs_def)

lemma session_establishment_request_create_fars_step:
  "list_all create_far_shape vs \<Longrightarrow> contents_to_core (map create_far_content vs @ cs) (K_pfcp_session_establishment_request c) =
   contents_to_core cs (K_pfcp_session_establishment_request (c\<lparr>seq_create_fars := seq_create_fars c @ vs\<rparr>))"
  by (induction vs arbitrary: c) (simp_all add: create_far_to_core pfcp_session_establishment_request_set_group_def pfcp_session_establishment_request_set_create_fars_def)

lemma session_establishment_request_to_core:
  "session_establishment_request_shape b \<Longrightarrow> contents_to_core (concat (session_establishment_request_contents b)) (K_pfcp_session_establishment_request new_pfcp_session_establishment_request) = Some (Inr (K_pfcp_session_establishment_request b))"
  by (cases b)
    (simp add: session_establishment_request_contents_def session_establishment_request_shape_def new_pfcp_session_establishment_request_def optm_ok_eq
      session_establishment_request_steps session_establishment_request_create_pdrs_step session_establishment_request_create_fars_step
      session_establishment_request_steps [where cs = "[]", simplified] session_establishment_request_create_pdrs_step [where cs = "[]", simplified] session_establishment_request_create_fars_step [where cs = "[]", simplified])

interpretation session_establishment_request: message_codec PFCP_SESSION_ESTABLISHMENT_REQUEST session_establishment_request_entries session_establishment_request_contents session_establishment_request_canon "session_establishment_request_with_junk" K_pfcp_session_establishment_request new_pfcp_session_establishment_request
proof (rule message_codec.intro)
  fix j k b assume "session_establishment_request_canon j b"
  then show "contents_to_core (map (with_junk k) (concat (session_establishment_request_contents b))) (K_pfcp_session_establishment_request new_pfcp_session_establishment_request) = Some (Inr (K_pfcp_session_establishment_request (session_establishment_request_with_junk k b)))"
    by (simp add: session_establishment_request_contents_junk session_establishment_request_to_core session_establishment_request_with_junk_shape session_establishment_request_canon_def)
qed (use session_establishment_request_entries_ok in \<open>auto simp: session_establishment_request_canon_def\<close>)

subsection \<open>\<^verbatim>\<open>pfcp_session_establishment_response\<close>\<close>

definition session_establishment_response_contents :: "pfcp_session_establishment_response \<Rightarrow> content list list" where
  "session_establishment_response_contents b =
     [opt_leaf (ser_node_id b) (\<lambda>v. Leaf (Core_node_id v)),
      opt_leaf (ser_cause b) (\<lambda>v. Leaf (Core_cause v)),
      opt_leaf (ser_offending_ie b) (\<lambda>v. Leaf (Core_offending_ie v)),
      opt_leaf (ser_up_fseid b) (\<lambda>v. Leaf (Core_f_seid v))]
     @ map (\<lambda>v. [created_pdr_content v]) (ser_created_pdrs b)
     @ [opt_leaf (ser_failed_rule_id b) (\<lambda>v. Leaf (Core_failed_rule_id v))]"

definition session_establishment_response_shape :: "pfcp_session_establishment_response \<Rightarrow> bool" where
  "session_establishment_response_shape b \<longleftrightarrow>
     optm_ok node_id0 (ser_node_id b) \<and>
     optm_ok 0 (ser_cause b) \<and>
     optm_ok 0 (ser_offending_ie b) \<and>
     optm_ok fseid0 (ser_up_fseid b) \<and>
     list_all created_pdr_shape (ser_created_pdrs b) \<and>
     ser_load_control_information b = (False, new_load_control_information) \<and>
     ser_overload_control_information b = (False, new_overload_control_information) \<and>
     ser_sgw_u_fq_csid b = (False, fq_csid0) \<and>
     ser_pgw_u_fq_csid b = (False, fq_csid0) \<and>
     ser_failed_rule_id b = (False, failed_rule_id0) \<and>
     ser_created_traffic_endpoint b = (False, new_created_traffic_endpoint)"

definition session_establishment_response_canon :: "u8 \<Rightarrow> pfcp_session_establishment_response \<Rightarrow> bool" where
  "session_establishment_response_canon j b \<longleftrightarrow>
     session_establishment_response_shape b \<and>
     optm_all (\<lambda>v. node_id_canon v) (ser_node_id b) \<and>
     optm_all (\<lambda>v. fseid_canon v) (ser_up_fseid b) \<and>
     list_all (created_pdr_canon j) (ser_created_pdrs b) \<and>
     concat (session_establishment_response_contents b) \<noteq> [] \<and>
     entries_size (session_establishment_response_entries j b) + 12 < 2 ^ 16"

lemma session_establishment_response_entries_ok:
  assumes "session_establishment_response_canon j b"
  shows "list_all2 entry_ok (session_establishment_response_entries j b) (session_establishment_response_contents b)"
  unfolding session_establishment_response_entries_def session_establishment_response_contents_def
  by (intro list_all2_appendI list.rel_intros
      entry_ok_simple [OF _ writes_node_id]
      entry_ok_total [OF writes_cause]
      entry_ok_total [OF writes_offending_ie]
      entry_ok_simple [OF _ writes_f_seid]
      entries_all [OF _ created_pdr_writes]
      entry_ok_absent [of "ser_failed_rule_id b"])
    (use assms in \<open>simp_all add: session_establishment_response_canon_def session_establishment_response_shape_def\<close>)

lemma session_establishment_response_contents_junk:
  "map (with_junk k) (concat (session_establishment_response_contents b)) = concat (session_establishment_response_contents b)"
  by (simp add: session_establishment_response_contents_def core_with_junk_def opt_leaf_junk)

lemma session_establishment_response_steps:
  "contents_to_core (opt_leaf m0 (\<lambda>v. Leaf (Core_node_id v)) @ cs) (K_pfcp_session_establishment_response c) =
   contents_to_core cs (K_pfcp_session_establishment_response (c\<lparr>ser_node_id := opt_value m0 (ser_node_id c)\<rparr>))"
  "contents_to_core (opt_leaf m1 (\<lambda>v. Leaf (Core_cause v)) @ cs) (K_pfcp_session_establishment_response c) =
   contents_to_core cs (K_pfcp_session_establishment_response (c\<lparr>ser_cause := opt_value m1 (ser_cause c)\<rparr>))"
  "contents_to_core (opt_leaf m2 (\<lambda>v. Leaf (Core_offending_ie v)) @ cs) (K_pfcp_session_establishment_response c) =
   contents_to_core cs (K_pfcp_session_establishment_response (c\<lparr>ser_offending_ie := opt_value m2 (ser_offending_ie c)\<rparr>))"
  "contents_to_core (opt_leaf m3 (\<lambda>v. Leaf (Core_f_seid v)) @ cs) (K_pfcp_session_establishment_response c) =
   contents_to_core cs (K_pfcp_session_establishment_response (c\<lparr>ser_up_fseid := opt_value m3 (ser_up_fseid c)\<rparr>))"
  by (auto simp: opt_leaf_def opt_value_def optm_all_def pfcp_session_establishment_response_set_core_def
      pfcp_session_establishment_response_set_node_id_def pfcp_session_establishment_response_set_cause_def pfcp_session_establishment_response_set_offending_ie_def pfcp_session_establishment_response_set_up_fseid_def)

lemma session_establishment_response_created_pdrs_step:
  "list_all created_pdr_shape vs \<Longrightarrow> contents_to_core (map created_pdr_content vs @ cs) (K_pfcp_session_establishment_response c) =
   contents_to_core cs (K_pfcp_session_establishment_response (c\<lparr>ser_created_pdrs := ser_created_pdrs c @ vs\<rparr>))"
  by (induction vs arbitrary: c) (simp_all add: created_pdr_to_core pfcp_session_establishment_response_set_group_def pfcp_session_establishment_response_set_created_pdrs_def)

lemma session_establishment_response_to_core:
  "session_establishment_response_shape b \<Longrightarrow> contents_to_core (concat (session_establishment_response_contents b)) (K_pfcp_session_establishment_response new_pfcp_session_establishment_response) = Some (Inr (K_pfcp_session_establishment_response b))"
  by (cases b)
    (simp add: session_establishment_response_contents_def session_establishment_response_shape_def new_pfcp_session_establishment_response_def optm_ok_eq
      session_establishment_response_steps session_establishment_response_created_pdrs_step
      session_establishment_response_steps [where cs = "[]", simplified] session_establishment_response_created_pdrs_step [where cs = "[]", simplified])

interpretation session_establishment_response: message_codec PFCP_SESSION_ESTABLISHMENT_RESPONSE session_establishment_response_entries session_establishment_response_contents session_establishment_response_canon "(\<lambda>k b. b)" K_pfcp_session_establishment_response new_pfcp_session_establishment_response
proof (rule message_codec.intro)
  fix j k b assume "session_establishment_response_canon j b"
  then show "contents_to_core (map (with_junk k) (concat (session_establishment_response_contents b))) (K_pfcp_session_establishment_response new_pfcp_session_establishment_response) = Some (Inr (K_pfcp_session_establishment_response ((\<lambda>k b. b) k b)))"
    by (simp add: session_establishment_response_contents_junk session_establishment_response_to_core session_establishment_response_canon_def)
qed (use session_establishment_response_entries_ok in \<open>auto simp: session_establishment_response_canon_def\<close>)

subsection \<open>\<^verbatim>\<open>pfcp_session_modification_request\<close>\<close>

definition session_modification_request_contents :: "pfcp_session_modification_request \<Rightarrow> content list list" where
  "session_modification_request_contents b =
     [opt_leaf (smq_cp_fseid b) (\<lambda>v. Leaf (Core_f_seid v))]
     @ map (\<lambda>v. [remove_pdr_content v]) (smq_remove_pdrs b)
     @ map (\<lambda>v. [remove_far_content v]) (smq_remove_fars b)
     @ []
     @ []
     @ map (\<lambda>v. [create_pdr_content v]) (smq_create_pdrs b)
     @ map (\<lambda>v. [create_far_content v]) (smq_create_fars b)
     @ []
     @ []
     @ [opt_leaf (smq_create_traffic_endpoint b) (\<lambda>v. Node (ucast PFCP_IE_CREATE_TRAFFIC_ENDPOINT) [])]
     @ []
     @ map (\<lambda>v. [update_far_content v]) (smq_update_fars b)
     @ []
     @ []
     @ [opt_leaf (smq_user_plane_inactivity_timer b) (\<lambda>v. Leaf (Core_user_plane_inactivity_timer v))]"

definition session_modification_request_shape :: "pfcp_session_modification_request \<Rightarrow> bool" where
  "session_modification_request_shape b \<longleftrightarrow>
     optm_ok fseid0 (smq_cp_fseid b) \<and>
     list_all remove_pdr_shape (smq_remove_pdrs b) \<and>
     list_all remove_far_shape (smq_remove_fars b) \<and>
     smq_remove_urrs b = [] \<and>
     smq_remove_qers b = [] \<and>
     smq_remove_bar b = (False, new_remove_bar) \<and>
     smq_remove_traffic_endpoint b = (False, new_remove_traffic_endpoint) \<and>
     list_all create_pdr_shape (smq_create_pdrs b) \<and>
     list_all create_far_shape (smq_create_fars b) \<and>
     smq_create_urrs b = [] \<and>
     smq_create_qers b = [] \<and>
     smq_create_bar b = (False, new_create_bar) \<and>
     smq_create_traffic_endpoint b = (False, new_create_traffic_endpoint) \<and>
     smq_update_pdrs b = [] \<and>
     list_all update_far_shape (smq_update_fars b) \<and>
     smq_update_urrs b = [] \<and>
     smq_update_qers b = [] \<and>
     smq_update_bar b = (False, new_update_bar_within_pfcp_session_modification_request) \<and>
     smq_update_traffic_endpoint b = (False, new_update_traffic_endpoint) \<and>
     smq_pfcpsmreq_flags b = (False, pfcpsmreq_flags0) \<and>
     smq_pgw_c_fq_csid b = (False, fq_csid0) \<and>
     smq_sgw_c_fq_csid b = (False, fq_csid0) \<and>
     smq_mme_fq_csid b = (False, fq_csid0) \<and>
     smq_epdg_fq_csid b = (False, fq_csid0) \<and>
     smq_twan_fq_csid b = (False, fq_csid0) \<and>
     optm_ok 0 (smq_user_plane_inactivity_timer b) \<and>
     smq_query_urr_reference b = (False, 0) \<and>
     smq_trace_information b = (False, trace_information0)"

definition session_modification_request_canon :: "u8 \<Rightarrow> pfcp_session_modification_request \<Rightarrow> bool" where
  "session_modification_request_canon j b \<longleftrightarrow>
     session_modification_request_shape b \<and>
     optm_all (\<lambda>v. fseid_canon v) (smq_cp_fseid b) \<and>
     list_all (remove_pdr_canon j) (smq_remove_pdrs b) \<and>
     list_all (remove_far_canon j) (smq_remove_fars b) \<and>
     list_all (create_pdr_canon j) (smq_create_pdrs b) \<and>
     list_all (create_far_canon j) (smq_create_fars b) \<and>
     list_all (update_far_canon j) (smq_update_fars b) \<and>
     concat (session_modification_request_contents b) \<noteq> [] \<and>
     entries_size (session_modification_request_entries j b) + 12 < 2 ^ 16"

lemma session_modification_request_entries_ok:
  assumes "session_modification_request_canon j b"
  shows "list_all2 entry_ok (session_modification_request_entries j b) (session_modification_request_contents b)"
  unfolding session_modification_request_entries_def session_modification_request_contents_def
  by (intro list_all2_appendI list.rel_intros
      entry_ok_simple [OF _ writes_f_seid]
      entries_all [OF _ remove_pdr_writes]
      entries_all [OF _ remove_far_writes]
      entries_absent [of "smq_remove_urrs b"]
      entries_absent [of "smq_remove_qers b"]
      entries_all [OF _ create_pdr_writes]
      entries_all [OF _ create_far_writes]
      entries_absent [of "smq_create_urrs b"]
      entries_absent [of "smq_create_qers b"]
      entry_ok_absent [of "smq_create_traffic_endpoint b"]
      entries_absent [of "smq_update_pdrs b"]
      entries_all [OF _ update_far_writes]
      entries_absent [of "smq_update_urrs b"]
      entries_absent [of "smq_update_qers b"]
      entry_ok_total [OF writes_user_plane_inactivity_timer])
    (use assms in \<open>simp_all add: session_modification_request_canon_def session_modification_request_shape_def\<close>)

definition session_modification_request_with_junk :: "u8 \<Rightarrow> pfcp_session_modification_request \<Rightarrow> pfcp_session_modification_request" where
  "session_modification_request_with_junk k b = b\<lparr>smq_create_fars := map (create_far_with_junk k) (smq_create_fars b), smq_update_fars := map (update_far_with_junk k) (smq_update_fars b)\<rparr>"

lemma session_modification_request_with_junk_shape: "session_modification_request_shape b \<Longrightarrow> session_modification_request_shape (session_modification_request_with_junk k b)"
  by (simp add: session_modification_request_shape_def session_modification_request_with_junk_def list_all_iff)

lemma session_modification_request_contents_junk:
  "map (with_junk k) (concat (session_modification_request_contents b)) = concat (session_modification_request_contents (session_modification_request_with_junk k b))"
  by (simp add: session_modification_request_contents_def core_with_junk_def opt_leaf_junk session_modification_request_with_junk_def o_def)

lemma session_modification_request_steps:
  "contents_to_core (opt_leaf m0 (\<lambda>v. Leaf (Core_f_seid v)) @ cs) (K_pfcp_session_modification_request c) =
   contents_to_core cs (K_pfcp_session_modification_request (c\<lparr>smq_cp_fseid := opt_value m0 (smq_cp_fseid c)\<rparr>))"
  "contents_to_core (opt_leaf m14 (\<lambda>v. Leaf (Core_user_plane_inactivity_timer v)) @ cs) (K_pfcp_session_modification_request c) =
   contents_to_core cs (K_pfcp_session_modification_request (c\<lparr>smq_user_plane_inactivity_timer := opt_value m14 (smq_user_plane_inactivity_timer c)\<rparr>))"
  by (auto simp: opt_leaf_def opt_value_def optm_all_def pfcp_session_modification_request_set_core_def
      pfcp_session_modification_request_set_cp_fseid_def pfcp_session_modification_request_set_user_plane_inactivity_timer_def)

lemma session_modification_request_remove_pdrs_step:
  "list_all remove_pdr_shape vs \<Longrightarrow> contents_to_core (map remove_pdr_content vs @ cs) (K_pfcp_session_modification_request c) =
   contents_to_core cs (K_pfcp_session_modification_request (c\<lparr>smq_remove_pdrs := smq_remove_pdrs c @ vs\<rparr>))"
  by (induction vs arbitrary: c) (simp_all add: remove_pdr_to_core pfcp_session_modification_request_set_group_def pfcp_session_modification_request_set_remove_pdrs_def)

lemma session_modification_request_remove_fars_step:
  "list_all remove_far_shape vs \<Longrightarrow> contents_to_core (map remove_far_content vs @ cs) (K_pfcp_session_modification_request c) =
   contents_to_core cs (K_pfcp_session_modification_request (c\<lparr>smq_remove_fars := smq_remove_fars c @ vs\<rparr>))"
  by (induction vs arbitrary: c) (simp_all add: remove_far_to_core pfcp_session_modification_request_set_group_def pfcp_session_modification_request_set_remove_fars_def)

lemma session_modification_request_create_pdrs_step:
  "list_all create_pdr_shape vs \<Longrightarrow> contents_to_core (map create_pdr_content vs @ cs) (K_pfcp_session_modification_request c) =
   contents_to_core cs (K_pfcp_session_modification_request (c\<lparr>smq_create_pdrs := smq_create_pdrs c @ vs\<rparr>))"
  by (induction vs arbitrary: c) (simp_all add: create_pdr_to_core pfcp_session_modification_request_set_group_def pfcp_session_modification_request_set_create_pdrs_def)

lemma session_modification_request_create_fars_step:
  "list_all create_far_shape vs \<Longrightarrow> contents_to_core (map create_far_content vs @ cs) (K_pfcp_session_modification_request c) =
   contents_to_core cs (K_pfcp_session_modification_request (c\<lparr>smq_create_fars := smq_create_fars c @ vs\<rparr>))"
  by (induction vs arbitrary: c) (simp_all add: create_far_to_core pfcp_session_modification_request_set_group_def pfcp_session_modification_request_set_create_fars_def)

lemma session_modification_request_update_fars_step:
  "list_all update_far_shape vs \<Longrightarrow> contents_to_core (map update_far_content vs @ cs) (K_pfcp_session_modification_request c) =
   contents_to_core cs (K_pfcp_session_modification_request (c\<lparr>smq_update_fars := smq_update_fars c @ vs\<rparr>))"
  by (induction vs arbitrary: c) (simp_all add: update_far_to_core pfcp_session_modification_request_set_group_def pfcp_session_modification_request_set_update_fars_def)

lemma session_modification_request_to_core:
  "session_modification_request_shape b \<Longrightarrow> contents_to_core (concat (session_modification_request_contents b)) (K_pfcp_session_modification_request new_pfcp_session_modification_request) = Some (Inr (K_pfcp_session_modification_request b))"
  by (cases b)
    (simp add: session_modification_request_contents_def session_modification_request_shape_def new_pfcp_session_modification_request_def optm_ok_eq
      session_modification_request_steps session_modification_request_remove_pdrs_step session_modification_request_remove_fars_step session_modification_request_create_pdrs_step session_modification_request_create_fars_step session_modification_request_update_fars_step
      session_modification_request_steps [where cs = "[]", simplified] session_modification_request_remove_pdrs_step [where cs = "[]", simplified] session_modification_request_remove_fars_step [where cs = "[]", simplified] session_modification_request_create_pdrs_step [where cs = "[]", simplified] session_modification_request_create_fars_step [where cs = "[]", simplified] session_modification_request_update_fars_step [where cs = "[]", simplified])

interpretation session_modification_request: message_codec PFCP_SESSION_MODIFICATION_REQUEST session_modification_request_entries session_modification_request_contents session_modification_request_canon "session_modification_request_with_junk" K_pfcp_session_modification_request new_pfcp_session_modification_request
proof (rule message_codec.intro)
  fix j k b assume "session_modification_request_canon j b"
  then show "contents_to_core (map (with_junk k) (concat (session_modification_request_contents b))) (K_pfcp_session_modification_request new_pfcp_session_modification_request) = Some (Inr (K_pfcp_session_modification_request (session_modification_request_with_junk k b)))"
    by (simp add: session_modification_request_contents_junk session_modification_request_to_core session_modification_request_with_junk_shape session_modification_request_canon_def)
qed (use session_modification_request_entries_ok in \<open>auto simp: session_modification_request_canon_def\<close>)

subsection \<open>\<^verbatim>\<open>pfcp_session_modification_response\<close>\<close>

definition session_modification_response_contents :: "pfcp_session_modification_response \<Rightarrow> content list list" where
  "session_modification_response_contents b =
     [opt_leaf (smr_cause b) (\<lambda>v. Leaf (Core_cause v)),
      opt_leaf (smr_offending_ie b) (\<lambda>v. Leaf (Core_offending_ie v))]
     @ map (\<lambda>v. [created_pdr_content v]) (smr_created_pdrs b)
     @ [opt_leaf (smr_failed_rule_id b) (\<lambda>v. Leaf (Core_failed_rule_id v))]"

definition session_modification_response_shape :: "pfcp_session_modification_response \<Rightarrow> bool" where
  "session_modification_response_shape b \<longleftrightarrow>
     optm_ok 0 (smr_cause b) \<and>
     optm_ok 0 (smr_offending_ie b) \<and>
     list_all created_pdr_shape (smr_created_pdrs b) \<and>
     smr_load_control_information b = (False, new_load_control_information) \<and>
     smr_overload_control_information b = (False, new_overload_control_information) \<and>
     smr_usage_report b = (False, new_usage_report_within_pfcp_session_modification_response) \<and>
     smr_failed_rule_id b = (False, failed_rule_id0) \<and>
     smr_additional_usage_reports_information b = (False, additional_usage_reports_information0) \<and>
     smr_created_traffic_endpoint b = (False, new_created_traffic_endpoint)"

definition session_modification_response_canon :: "u8 \<Rightarrow> pfcp_session_modification_response \<Rightarrow> bool" where
  "session_modification_response_canon j b \<longleftrightarrow>
     session_modification_response_shape b \<and>
     list_all (created_pdr_canon j) (smr_created_pdrs b) \<and>
     concat (session_modification_response_contents b) \<noteq> [] \<and>
     entries_size (session_modification_response_entries j b) + 12 < 2 ^ 16"

lemma session_modification_response_entries_ok:
  assumes "session_modification_response_canon j b"
  shows "list_all2 entry_ok (session_modification_response_entries j b) (session_modification_response_contents b)"
  unfolding session_modification_response_entries_def session_modification_response_contents_def
  by (intro list_all2_appendI list.rel_intros
      entry_ok_total [OF writes_cause]
      entry_ok_total [OF writes_offending_ie]
      entries_all [OF _ created_pdr_writes]
      entry_ok_absent [of "smr_failed_rule_id b"])
    (use assms in \<open>simp_all add: session_modification_response_canon_def session_modification_response_shape_def\<close>)

lemma session_modification_response_contents_junk:
  "map (with_junk k) (concat (session_modification_response_contents b)) = concat (session_modification_response_contents b)"
  by (simp add: session_modification_response_contents_def core_with_junk_def opt_leaf_junk)

lemma session_modification_response_steps:
  "contents_to_core (opt_leaf m0 (\<lambda>v. Leaf (Core_cause v)) @ cs) (K_pfcp_session_modification_response c) =
   contents_to_core cs (K_pfcp_session_modification_response (c\<lparr>smr_cause := opt_value m0 (smr_cause c)\<rparr>))"
  "contents_to_core (opt_leaf m1 (\<lambda>v. Leaf (Core_offending_ie v)) @ cs) (K_pfcp_session_modification_response c) =
   contents_to_core cs (K_pfcp_session_modification_response (c\<lparr>smr_offending_ie := opt_value m1 (smr_offending_ie c)\<rparr>))"
  by (auto simp: opt_leaf_def opt_value_def optm_all_def pfcp_session_modification_response_set_core_def
      pfcp_session_modification_response_set_cause_def pfcp_session_modification_response_set_offending_ie_def)

lemma session_modification_response_created_pdrs_step:
  "list_all created_pdr_shape vs \<Longrightarrow> contents_to_core (map created_pdr_content vs @ cs) (K_pfcp_session_modification_response c) =
   contents_to_core cs (K_pfcp_session_modification_response (c\<lparr>smr_created_pdrs := smr_created_pdrs c @ vs\<rparr>))"
  by (induction vs arbitrary: c) (simp_all add: created_pdr_to_core pfcp_session_modification_response_set_group_def pfcp_session_modification_response_set_created_pdrs_def)

lemma session_modification_response_to_core:
  "session_modification_response_shape b \<Longrightarrow> contents_to_core (concat (session_modification_response_contents b)) (K_pfcp_session_modification_response new_pfcp_session_modification_response) = Some (Inr (K_pfcp_session_modification_response b))"
  by (cases b)
    (simp add: session_modification_response_contents_def session_modification_response_shape_def new_pfcp_session_modification_response_def optm_ok_eq
      session_modification_response_steps session_modification_response_created_pdrs_step
      session_modification_response_steps [where cs = "[]", simplified] session_modification_response_created_pdrs_step [where cs = "[]", simplified])

interpretation session_modification_response: message_codec PFCP_SESSION_MODIFICATION_RESPONSE session_modification_response_entries session_modification_response_contents session_modification_response_canon "(\<lambda>k b. b)" K_pfcp_session_modification_response new_pfcp_session_modification_response
proof (rule message_codec.intro)
  fix j k b assume "session_modification_response_canon j b"
  then show "contents_to_core (map (with_junk k) (concat (session_modification_response_contents b))) (K_pfcp_session_modification_response new_pfcp_session_modification_response) = Some (Inr (K_pfcp_session_modification_response ((\<lambda>k b. b) k b)))"
    by (simp add: session_modification_response_contents_junk session_modification_response_to_core session_modification_response_canon_def)
qed (use session_modification_response_entries_ok in \<open>auto simp: session_modification_response_canon_def\<close>)

subsection \<open>\<^verbatim>\<open>pfcp_session_deletion_response\<close>\<close>

definition session_deletion_response_contents :: "pfcp_session_deletion_response \<Rightarrow> content list list" where
  "session_deletion_response_contents b =
     [opt_leaf (sdr_cause b) (\<lambda>v. Leaf (Core_cause v)),
      opt_leaf (sdr_offending_ie b) (\<lambda>v. Leaf (Core_offending_ie v))]"

definition session_deletion_response_shape :: "pfcp_session_deletion_response \<Rightarrow> bool" where
  "session_deletion_response_shape b \<longleftrightarrow>
     optm_ok 0 (sdr_cause b) \<and>
     optm_ok 0 (sdr_offending_ie b)"

definition session_deletion_response_canon :: "u8 \<Rightarrow> pfcp_session_deletion_response \<Rightarrow> bool" where
  "session_deletion_response_canon j b \<longleftrightarrow>
     session_deletion_response_shape b \<and>
     concat (session_deletion_response_contents b) \<noteq> [] \<and>
     entries_size (session_deletion_response_entries j b) + 12 < 2 ^ 16"

lemma session_deletion_response_entries_ok:
  assumes "session_deletion_response_canon j b"
  shows "list_all2 entry_ok (session_deletion_response_entries j b) (session_deletion_response_contents b)"
  unfolding session_deletion_response_entries_def session_deletion_response_contents_def
  by (intro list.rel_intros
      entry_ok_total [OF writes_cause]
      entry_ok_total [OF writes_offending_ie])

lemma session_deletion_response_contents_junk:
  "map (with_junk k) (concat (session_deletion_response_contents b)) = concat (session_deletion_response_contents b)"
  by (simp add: session_deletion_response_contents_def core_with_junk_def opt_leaf_junk)

lemma session_deletion_response_steps:
  "contents_to_core (opt_leaf m0 (\<lambda>v. Leaf (Core_cause v)) @ cs) (K_pfcp_session_deletion_response c) =
   contents_to_core cs (K_pfcp_session_deletion_response (c\<lparr>sdr_cause := opt_value m0 (sdr_cause c)\<rparr>))"
  "contents_to_core (opt_leaf m1 (\<lambda>v. Leaf (Core_offending_ie v)) @ cs) (K_pfcp_session_deletion_response c) =
   contents_to_core cs (K_pfcp_session_deletion_response (c\<lparr>sdr_offending_ie := opt_value m1 (sdr_offending_ie c)\<rparr>))"
  by (auto simp: opt_leaf_def opt_value_def optm_all_def pfcp_session_deletion_response_set_core_def
      pfcp_session_deletion_response_set_cause_def pfcp_session_deletion_response_set_offending_ie_def)

lemma session_deletion_response_to_core:
  "session_deletion_response_shape b \<Longrightarrow> contents_to_core (concat (session_deletion_response_contents b)) (K_pfcp_session_deletion_response new_pfcp_session_deletion_response) = Some (Inr (K_pfcp_session_deletion_response b))"
  by (cases b)
    (simp add: session_deletion_response_contents_def session_deletion_response_shape_def new_pfcp_session_deletion_response_def optm_ok_eq
      session_deletion_response_steps
      session_deletion_response_steps [where cs = "[]", simplified])

interpretation session_deletion_response: message_codec PFCP_SESSION_DELETION_RESPONSE session_deletion_response_entries session_deletion_response_contents session_deletion_response_canon "(\<lambda>k b. b)" K_pfcp_session_deletion_response new_pfcp_session_deletion_response
proof (rule message_codec.intro)
  fix j k b assume "session_deletion_response_canon j b"
  then show "contents_to_core (map (with_junk k) (concat (session_deletion_response_contents b))) (K_pfcp_session_deletion_response new_pfcp_session_deletion_response) = Some (Inr (K_pfcp_session_deletion_response ((\<lambda>k b. b) k b)))"
    by (simp add: session_deletion_response_contents_junk session_deletion_response_to_core session_deletion_response_canon_def)
qed (use session_deletion_response_entries_ok in \<open>auto simp: session_deletion_response_canon_def\<close>)

subsection \<open>\<^verbatim>\<open>pfcp_session_report_request\<close>\<close>

definition session_report_request_contents :: "pfcp_session_report_request \<Rightarrow> content list list" where
  "session_report_request_contents b =
     [opt_leaf (srq_report_type b) (\<lambda>v. Leaf (Core_report_type v)),
      opt_leaf (srq_downlink_data_report b) downlink_data_report_content]"

definition session_report_request_shape :: "pfcp_session_report_request \<Rightarrow> bool" where
  "session_report_request_shape b \<longleftrightarrow>
     optm_ok report_type0 (srq_report_type b) \<and>
     optm_ok new_downlink_data_report (srq_downlink_data_report b) \<and>
     optm_all downlink_data_report_shape (srq_downlink_data_report b) \<and>
     srq_usage_report b = (False, new_usage_report_within_pfcp_session_report_request) \<and>
     srq_error_indication_report b = (False, new_error_indication_report) \<and>
     srq_load_control_information b = (False, new_load_control_information) \<and>
     srq_overload_control_information b = (False, new_overload_control_information) \<and>
     srq_additional_usage_reports_information b = (False, additional_usage_reports_information0)"

definition session_report_request_canon :: "u8 \<Rightarrow> pfcp_session_report_request \<Rightarrow> bool" where
  "session_report_request_canon j b \<longleftrightarrow>
     session_report_request_shape b \<and>
     optm_all (\<lambda>v. report_type_canon v) (srq_report_type b) \<and>
     optm_all (\<lambda>v. downlink_data_report_canon j v) (srq_downlink_data_report b) \<and>
     concat (session_report_request_contents b) \<noteq> [] \<and>
     entries_size (session_report_request_entries j b) + 12 < 2 ^ 16"

lemma session_report_request_entries_ok:
  assumes "session_report_request_canon j b"
  shows "list_all2 entry_ok (session_report_request_entries j b) (session_report_request_contents b)"
  unfolding session_report_request_entries_def session_report_request_contents_def
  by (intro list.rel_intros
      entry_ok_simple [OF _ writes_report_type]
      entry_ok_all [OF _ downlink_data_report_writes])
    (use assms in \<open>simp_all add: session_report_request_canon_def session_report_request_shape_def\<close>)

lemma session_report_request_contents_junk:
  "map (with_junk k) (concat (session_report_request_contents b)) = concat (session_report_request_contents b)"
  by (simp add: session_report_request_contents_def core_with_junk_def opt_leaf_junk)

lemma session_report_request_steps:
  "contents_to_core (opt_leaf m0 (\<lambda>v. Leaf (Core_report_type v)) @ cs) (K_pfcp_session_report_request c) =
   contents_to_core cs (K_pfcp_session_report_request (c\<lparr>srq_report_type := opt_value m0 (srq_report_type c)\<rparr>))"
  "optm_all downlink_data_report_shape m1 \<Longrightarrow>
   contents_to_core (opt_leaf m1 downlink_data_report_content @ cs) (K_pfcp_session_report_request c) =
   contents_to_core cs (K_pfcp_session_report_request (c\<lparr>srq_downlink_data_report := opt_value m1 (srq_downlink_data_report c)\<rparr>))"
  by (auto simp: opt_leaf_def opt_value_def optm_all_def pfcp_session_report_request_set_core_def downlink_data_report_to_core pfcp_session_report_request_set_group_def
      pfcp_session_report_request_set_report_type_def pfcp_session_report_request_set_downlink_data_report_def)

lemma session_report_request_to_core:
  "session_report_request_shape b \<Longrightarrow> contents_to_core (concat (session_report_request_contents b)) (K_pfcp_session_report_request new_pfcp_session_report_request) = Some (Inr (K_pfcp_session_report_request b))"
  by (cases b)
    (simp add: session_report_request_contents_def session_report_request_shape_def new_pfcp_session_report_request_def optm_ok_eq
      session_report_request_steps
      session_report_request_steps [where cs = "[]", simplified])

interpretation session_report_request: message_codec PFCP_SESSION_REPORT_REQUEST session_report_request_entries session_report_request_contents session_report_request_canon "(\<lambda>k b. b)" K_pfcp_session_report_request new_pfcp_session_report_request
proof (rule message_codec.intro)
  fix j k b assume "session_report_request_canon j b"
  then show "contents_to_core (map (with_junk k) (concat (session_report_request_contents b))) (K_pfcp_session_report_request new_pfcp_session_report_request) = Some (Inr (K_pfcp_session_report_request ((\<lambda>k b. b) k b)))"
    by (simp add: session_report_request_contents_junk session_report_request_to_core session_report_request_canon_def)
qed (use session_report_request_entries_ok in \<open>auto simp: session_report_request_canon_def\<close>)

subsection \<open>\<^verbatim>\<open>pfcp_session_report_response\<close>\<close>

definition session_report_response_contents :: "pfcp_session_report_response \<Rightarrow> content list list" where
  "session_report_response_contents b =
     [opt_leaf (srr_cause b) (\<lambda>v. Leaf (Core_cause v)),
      opt_leaf (srr_offending_ie b) (\<lambda>v. Leaf (Core_offending_ie v))]"

definition session_report_response_shape :: "pfcp_session_report_response \<Rightarrow> bool" where
  "session_report_response_shape b \<longleftrightarrow>
     optm_ok 0 (srr_cause b) \<and>
     optm_ok 0 (srr_offending_ie b) \<and>
     srr_update_bar b = (False, new_update_bar_within_pfcp_session_report_response)"

definition session_report_response_canon :: "u8 \<Rightarrow> pfcp_session_report_response \<Rightarrow> bool" where
  "session_report_response_canon j b \<longleftrightarrow>
     session_report_response_shape b \<and>
     concat (session_report_response_contents b) \<noteq> [] \<and>
     entries_size (session_report_response_entries j b) + 12 < 2 ^ 16"

lemma session_report_response_entries_ok:
  assumes "session_report_response_canon j b"
  shows "list_all2 entry_ok (session_report_response_entries j b) (session_report_response_contents b)"
  unfolding session_report_response_entries_def session_report_response_contents_def
  by (intro list.rel_intros
      entry_ok_total [OF writes_cause]
      entry_ok_total [OF writes_offending_ie])

lemma session_report_response_contents_junk:
  "map (with_junk k) (concat (session_report_response_contents b)) = concat (session_report_response_contents b)"
  by (simp add: session_report_response_contents_def core_with_junk_def opt_leaf_junk)

lemma session_report_response_steps:
  "contents_to_core (opt_leaf m0 (\<lambda>v. Leaf (Core_cause v)) @ cs) (K_pfcp_session_report_response c) =
   contents_to_core cs (K_pfcp_session_report_response (c\<lparr>srr_cause := opt_value m0 (srr_cause c)\<rparr>))"
  "contents_to_core (opt_leaf m1 (\<lambda>v. Leaf (Core_offending_ie v)) @ cs) (K_pfcp_session_report_response c) =
   contents_to_core cs (K_pfcp_session_report_response (c\<lparr>srr_offending_ie := opt_value m1 (srr_offending_ie c)\<rparr>))"
  by (auto simp: opt_leaf_def opt_value_def optm_all_def pfcp_session_report_response_set_core_def
      pfcp_session_report_response_set_cause_def pfcp_session_report_response_set_offending_ie_def)

lemma session_report_response_to_core:
  "session_report_response_shape b \<Longrightarrow> contents_to_core (concat (session_report_response_contents b)) (K_pfcp_session_report_response new_pfcp_session_report_response) = Some (Inr (K_pfcp_session_report_response b))"
  by (cases b)
    (simp add: session_report_response_contents_def session_report_response_shape_def new_pfcp_session_report_response_def optm_ok_eq
      session_report_response_steps
      session_report_response_steps [where cs = "[]", simplified])

interpretation session_report_response: message_codec PFCP_SESSION_REPORT_RESPONSE session_report_response_entries session_report_response_contents session_report_response_canon "(\<lambda>k b. b)" K_pfcp_session_report_response new_pfcp_session_report_response
proof (rule message_codec.intro)
  fix j k b assume "session_report_response_canon j b"
  then show "contents_to_core (map (with_junk k) (concat (session_report_response_contents b))) (K_pfcp_session_report_response new_pfcp_session_report_response) = Some (Inr (K_pfcp_session_report_response ((\<lambda>k b. b) k b)))"
    by (simp add: session_report_response_contents_junk session_report_response_to_core session_report_response_canon_def)
qed (use session_report_response_entries_ok in \<open>auto simp: session_report_response_canon_def\<close>)

section \<open>The message without elements\<close>

text \<open>
  A session deletion request has a header only.  The loop of \<^verbatim>\<open>load_from\<close> still asks for an element
  once: at the end of the stream it gets none and the message is accepted, but an element that
  happens to follow in the stream is taken for a part of the message, whose length then is wrong.
\<close>

lemma session_deletion_request_dump:
  "\<exists>p p' bs. new_session_deletion_request_msg j b = Inr p \<and> msg_dump_to j (address_msg seid n p) = Some (Inr p', bs) \<and>
    (\<forall>k rest. \<exists>q. header_load_from new_pfcp_msg (stream k (bs @ rest)) = (q, stream k rest) \<and>
       check_msg_length q = 0 \<and> msg_ies q = [] \<and> addressed_to PFCP_SESSION_DELETION_REQUEST seid n q)"
proof -
  obtain p where p: "make_msg j PFCP_SESSION_DELETION_REQUEST [] = Inr p" "fresh_msg PFCP_SESSION_DELETION_REQUEST 0 p"
      "msg_ies p = []"
    by (simp add: make_msg_def fresh_msg_def new_pfcp_msg_def new_pfcp_msg_header_def pfcp_msg_header.defs)
  then obtain hdr where "msg_dump_to j (address_msg seid n p) = Some (Inr (address_msg seid n p), hdr @ [])"
    "\<forall>k rest. \<exists>q. header_load_from new_pfcp_msg (stream k (hdr @ rest)) = (q, stream k rest) \<and>
       check_msg_length q = 0 \<and> msg_ies q = [] \<and> addressed_to PFCP_SESSION_DELETION_REQUEST seid n q"
    using written_msg [OF p(2), of "[]" j seid n] by auto
  then show ?thesis
    using p(1) by (simp add: new_session_deletion_request_msg_def session_deletion_request_entries_def)
qed

lemma new_pfcp_ie_end:
  "new_pfcp_ie (stream k []) = Some (Inr None, \<lparr>is_rest = [], is_fail = True, is_junk = k\<rparr>)"
proof -
  have "read_be 2 (0 :: u16) (stream k []) = (0, \<lparr>is_rest = [], is_fail = True, is_junk = k\<rparr>)"
    "read_be 2 (0 :: u16) \<lparr>is_rest = [], is_fail = True, is_junk = k\<rparr> = (0, \<lparr>is_rest = [], is_fail = True, is_junk = k\<rparr>)"
    by (simp_all add: read_be_def is_read_def numeral_2_eq_2)
  then show ?thesis
    by (simp add: new_pfcp_ie_unfold tlv_load_from_def new_pfcp_tlv_def)
qed

lemma msg_load_from_end:
  assumes "header_load_from m (stream k bs) = (q, stream k [])" and "check_msg_length q = 0" and "msg_ies q = []"
  shows "\<exists>is'. msg_load_from m (stream k bs) = Some (Inr q, is')"
  using assms
  by (simp add: msg_load_from_def msg_load_loop.simps new_pfcp_ie_end)

lemma msg_load_from_trailing:
  assumes "header_load_from m (stream k (bs @ cs @ rest)) = (q, stream k (cs @ rest))"
    and "check_msg_length q = 0" and "encodes c cs" and "length cs < 2 ^ 16"
  shows "msg_load_from m (stream k (bs @ cs @ rest)) =
    Some (Inl (Msg_bad_length (mh_message_type q) (mh_message_length q) (of_nat (length cs)) 0), stream k rest)"
proof -
  obtain ie where ie: "new_pfcp_ie (stream k (cs @ rest)) = Some (Inr (Some ie), stream k rest)"
      "4 + unat (tlv_length (ie_tlv_of ie)) = length cs"
    using assms(3) unfolding encodes_def by meson
  have l: "4 + tlv_length (ie_tlv_of ie) = of_nat (length cs)"
    unfolding ie(2) [symmetric] by simp
  have "(of_nat (length cs) :: u16) \<noteq> 0"
    using ie(2) assms(4) by (auto simp: word_unat_eq_iff unat_of_nat)
  with ie(1) l assms(1,2) show ?thesis
    by (simp add: msg_load_from_def msg_load_loop.simps)
qed

end
