(* ===== verification/Pfcp_Exchange.thy ===== *)
theory Pfcp_Exchange
  imports Pfcp_Message_Codecs
begin

text \<open>
  What two peers that use the codec can rely on: which messages arrive as they were sent, which
  never do, that the declared length is right and that reading comes to an end.
\<close>

section \<open>Examples\<close>

text \<open>A request as a control plane sends it for an uplink rule and a downlink rule with a tunnel.\<close>

definition example_pdr :: create_pdr where
  "example_pdr = new_create_pdr\<lparr>cp_pdr_id := (True, 10), cp_precedence := (True, 5), cp_far_id := (True, 100),
     cp_pdi := (True, new_pdi\<lparr>pd_source_interface := (True, 0),
       pd_local_fteid := (True, fteid0\<lparr>fteid_v4 := True, fteid_teid := 100, fteid_ipv4_address := 0x0100000a\<rparr>)\<rparr>),
     cp_outer_header_removal := (True, 0)\<rparr>"

definition example_far :: create_far where
  "example_far = new_create_far\<lparr>cf_far_id := (True, 100), cf_apply_action := (True, apply_action0\<lparr>aa_forw := True\<rparr>),
     cf_forwarding_parameters := (True, new_forwarding_parameters\<lparr>fp_destination_interface := (True, 0),
       fp_outer_header_creation := (True, \<lparr>ohcr_outer_header_creation_description = OUTER_HEADER_CREATION_GTPU_UDP_IPV4,
         ohcr_teid = 100, ohcr_ipv4_address = 0x0100000a, ohcr_ipv6_address = 0, ohcr_port_number = 2152\<rparr>)\<rparr>)\<rparr>"

definition example_request :: pfcp_session_establishment_request where
  "example_request = new_pfcp_session_establishment_request\<lparr>
     seq_node_id := (True, node_id0\<lparr>node_id_ipv4_address := 0x0100007f\<rparr>),
     seq_cp_fseid := (True, fseid0\<lparr>fseid_v4 := True, fseid_seid := 1, fseid_ipv4_address := 0x0100007f\<rparr>),
     seq_create_pdrs := [example_pdr], seq_create_fars := [example_far]\<rparr>"


lemmas example_defs = example_pdr_def example_far_def example_request_def
  new_create_pdr_def new_pdi_def new_create_far_def new_forwarding_parameters_def new_pfcp_session_establishment_request_def
  optm_ok_def optm_all_def opt_leaf_def opt_ie_def

lemmas example_ie_defs = make_group_def tlv_defs ie_size_def Let_def fteid0_def fteid_canon_def fteid_ie_length_def flag_def
  new_source_interface_ie_def new_fteid_ie_def new_pdi_ie_def pdi_entries_def
  new_pdr_id_ie_def new_precedence_ie_def new_far_id_ie_def new_outer_header_removal_ie_def new_create_pdr_ie_def create_pdr_entries_def
  new_apply_action_ie_def new_destination_interface_ie_def new_outer_header_creation_ie_def
  new_forwarding_parameters_ie_def forwarding_parameters_entries_def new_create_far_ie_def create_far_entries_def
  ohc_has_teid_def ohc_has_ipv4_def ohc_has_ipv6_def ohc_has_port_def ohc_ok_def apply_action_canon_def apply_action0_def apply_action_of_mem_def

lemma example_pdr_canon: "create_pdr_canon 0 example_pdr"
  by (simp add: example_defs example_ie_defs create_pdr_canon_def create_pdr_shape_def create_pdr_contents_def
      pdi_canon_def pdi_shape_def pdi_contents_def)

lemma example_far_canon: "create_far_canon 0 example_far"
  by (simp add: example_defs example_ie_defs create_far_canon_def create_far_shape_def create_far_contents_def
      forwarding_parameters_canon_def forwarding_parameters_shape_def forwarding_parameters_contents_def)

lemma example_ies:
  "\<exists>ie. new_create_pdr_ie 0 example_pdr = Inr ie \<and> ie_size ie = 53"
  "\<exists>ie. new_create_far_ie 0 example_far = Inr ie \<and> ie_size ie = 40"
  by (simp_all add: example_defs example_ie_defs)

lemma example_request_canon: "session_establishment_request_canon 0 example_request"
proof -
  obtain p f where "new_create_pdr_ie 0 example_pdr = Inr p" "ie_size p = 53"
    "new_create_far_ie 0 example_far = Inr f" "ie_size f = 40"
    using example_ies by blast
  moreover have "create_pdr_shape example_pdr" "create_far_shape example_far"
    using example_pdr_canon example_far_canon by (simp_all add: create_pdr_canon_def create_far_canon_def)
  ultimately show ?thesis
    using example_pdr_canon example_far_canon
    by (simp add: session_establishment_request_canon_def session_establishment_request_shape_def
      session_establishment_request_contents_def session_establishment_request_entries_def example_request_def
      optm_ok_def optm_all_def opt_leaf_def opt_ie_def new_pfcp_session_establishment_request_def
      fseid_canon_def fseid0_def node_id_canon_def node_id0_def ie_size_def new_node_id_ie_def new_f_seid_ie_def Let_def tlv_defs
      f_seid_ie_length_def flag_def)
qed

definition example_modification :: pfcp_session_modification_request where
  "example_modification = new_pfcp_session_modification_request\<lparr>
     smq_remove_pdrs := [new_remove_pdr\<lparr>rp_pdr_id := (True, 10)\<rparr>], smq_create_fars := [example_far]\<rparr>"

lemma example_modification_canon: "session_modification_request_canon 0 example_modification"
proof -
  obtain f where "new_create_far_ie 0 example_far = Inr f" "ie_size f = 40"
    using example_ies by blast
  moreover have "create_far_shape example_far"
    using example_far_canon by (simp add: create_far_canon_def)
  ultimately show ?thesis
    using example_far_canon
    by (simp add: session_modification_request_canon_def session_modification_request_shape_def
      session_modification_request_contents_def session_modification_request_entries_def example_modification_def
      optm_ok_def optm_all_def opt_leaf_def opt_ie_def new_pfcp_session_modification_request_def
      remove_pdr_canon_def remove_pdr_shape_def remove_pdr_contents_def remove_pdr_entries_def new_remove_pdr_def
      new_remove_pdr_ie_def make_group_def new_pdr_id_ie_def ie_size_def tlv_defs)
qed

section \<open>Messages arrive as they were sent\<close>







section \<open>Reading comes to an end\<close>



section \<open>Messages that do not arrive\<close>

text \<open>
  A session deletion request has no elements.  It is accepted when nothing follows it in the
  stream, but refused for its length when another element does.
\<close>

lemma session_deletion_exchange:
  "\<exists>p p' bs. new_session_deletion_request_msg j b = Inr p \<and> msg_dump_to j (address_msg seid n p) = Some (Inr p', bs) \<and>
    (\<forall>k. \<exists>q s. msg_load_from new_pfcp_msg (stream k bs) = Some (Inr q, s) \<and>
       addressed_to PFCP_SESSION_DELETION_REQUEST seid n q) \<and>
    (\<forall>k c cs rest. encodes c cs \<longrightarrow> length cs < 2 ^ 16 \<longrightarrow>
       (\<exists>len. msg_load_from new_pfcp_msg (stream k (bs @ cs @ rest)) =
          Some (Inl (Msg_bad_length PFCP_SESSION_DELETION_REQUEST len (of_nat (length cs)) 0), stream k rest)))"
proof -
  obtain p p' bs where p: "new_session_deletion_request_msg j b = Inr p" "msg_dump_to j (address_msg seid n p) = Some (Inr p', bs)"
    and q: "\<forall>k rest. \<exists>q. header_load_from new_pfcp_msg (stream k (bs @ rest)) = (q, stream k rest) \<and>
       check_msg_length q = 0 \<and> msg_ies q = [] \<and> addressed_to PFCP_SESSION_DELETION_REQUEST seid n q"
    using session_deletion_request_dump by blast
  have "\<exists>q s. msg_load_from new_pfcp_msg (stream k bs) = Some (Inr q, s) \<and>
       addressed_to PFCP_SESSION_DELETION_REQUEST seid n q" for k
    using q [rule_format, where k = k and rest = "[]"] msg_load_from_end [where m = new_pfcp_msg and k = k and bs = bs] by auto
  moreover have "\<exists>len. msg_load_from new_pfcp_msg (stream k (bs @ cs @ rest)) =
      Some (Inl (Msg_bad_length PFCP_SESSION_DELETION_REQUEST len (of_nat (length cs)) 0), stream k rest)"
    if "encodes c cs" "length cs < 2 ^ 16" for k c cs rest
    using q [rule_format, where k = k and rest = "cs @ rest"] msg_load_from_trailing [OF _ _ that, where m = new_pfcp_msg and k = k and bs = bs and rest = rest]
    by (auto simp: addressed_to_def)
  ultimately show ?thesis
    using p by blast
qed

lemma session_deletion_exchange_witness:
  "\<exists>p p' bs cs len. new_session_deletion_request_msg 0 New_pfcp_session_deletion_request = Inr p \<and>
    msg_dump_to 0 (address_msg (Some 7) 1 p) = Some (Inr p', bs) \<and> encodes (Leaf (Core_cause 1)) cs \<and>
    msg_load_from new_pfcp_msg (stream 0 (bs @ cs @ [])) =
      Some (Inl (Msg_bad_length PFCP_SESSION_DELETION_REQUEST len 5 0), stream 0 [])"
proof -
  obtain cs where "encodes (Leaf (Core_cause 1)) cs" "length cs = 5"
    using writes_cause [of 1] by (auto simp: writes_def new_cause_ie_def tlv_defs)
  moreover obtain p p' bs where "new_session_deletion_request_msg 0 New_pfcp_session_deletion_request = Inr p"
      "msg_dump_to 0 (address_msg (Some 7) 1 p) = Some (Inr p', bs)"
    and "\<And>c cs. encodes c cs \<Longrightarrow> length cs < 2 ^ 16 \<Longrightarrow>
      \<exists>len. msg_load_from new_pfcp_msg (stream 0 (bs @ cs @ [])) =
        Some (Inl (Msg_bad_length PFCP_SESSION_DELETION_REQUEST len (of_nat (length cs)) 0), stream 0 [])"
    using session_deletion_exchange [of 0 New_pfcp_session_deletion_request "Some 7" 1] by blast
  moreover note this(3) [OF \<open>encodes (Leaf (Core_cause 1)) cs\<close>]
  ultimately show ?thesis
    by auto
qed

lemma splits_Cons:
  "(\<exists>A C. \<forall>us. f us = A @ g us @ C) \<Longrightarrow> \<exists>A C. \<forall>us. x # f us = A @ g us @ C"
  by (metis append_Cons)

lemma splits_append:
  "(\<exists>A C. \<forall>us. f us = A @ g us @ C) \<Longrightarrow> \<exists>A C. \<forall>us. xs @ f us = A @ g us @ C"
  by (metis append_assoc)

lemma splits_here: "\<exists>A C. \<forall>us. g us @ ys = A @ g us @ C"
  by (metis append_Nil)

lemma session_modification_request_splits:
  "\<exists>A C. \<forall>us. session_modification_request_entries j (m\<lparr>smq_update_pdrs := us\<rparr>) =
     A @ map (\<lambda>v. Some (make_group PFCP_IE_UPDATE_PDR [])) us @ C"
  by (simp add: session_modification_request_entries_def new_update_pdr_ie_def update_pdr_entries_def)
    (intro splits_Cons splits_append splits_here)

text \<open>
  C28: A session modification request that updates a PDR never arrives: the constructor of the
  Update PDR element drops every member, and the reader takes the empty group for the end of the
  message and refuses its length.
\<close>

theorem update_pdr_refused:
  assumes "session_modification_request_canon j m" and "us \<noteq> []"
    and "entries_size (session_modification_request_entries j (m\<lparr>smq_update_pdrs := us\<rparr>)) + 12 < 2 ^ 16"
  shows "\<exists>p p' bs. new_session_modification_request_msg j (m\<lparr>smq_update_pdrs := us\<rparr>) = Inr p \<and>
    msg_dump_to j (address_msg seid n p) = Some (Inr p', bs) \<and>
    (\<forall>k rest. \<exists>len found s. found < entries_size (session_modification_request_entries j (m\<lparr>smq_update_pdrs := us\<rparr>)) \<and>
       msg_load_from new_pfcp_msg (stream k (bs @ rest)) =
       Some (Inl (Msg_bad_length PFCP_SESSION_MODIFICATION_REQUEST len (of_nat found)
         (of_nat (entries_size (session_modification_request_entries j (m\<lparr>smq_update_pdrs := us\<rparr>))))), s))"
proof -
  obtain A C where s: "\<And>us. session_modification_request_entries j (m\<lparr>smq_update_pdrs := us\<rparr>) =
     A @ map (\<lambda>v. Some (make_group PFCP_IE_UPDATE_PDR [])) us @ C"
    using session_modification_request_splits by blast
  have "m\<lparr>smq_update_pdrs := []\<rparr> = m"
    using assms(1) by (simp add: session_modification_request_canon_def session_modification_request_shape_def)
  then have "list_all2 entry_ok (A @ C) (session_modification_request_contents m)"
    using session_modification_request_entries_ok [OF assms(1)] s [of "[]"] by simp
  then obtain css css' where ok: "list_all2 entry_ok A css" "list_all2 entry_ok C css'"
    by (auto simp: list_all2_append1)
  from assms(2) obtain u us' where us: "us = u # us'" by (cases us) auto
  let ?C = "map (\<lambda>v. Some (make_group PFCP_IE_UPDATE_PDR [])) us' @ C"
  have e: "session_modification_request_entries j (m\<lparr>smq_update_pdrs := us\<rparr>) = A @ Some (make_group PFCP_IE_UPDATE_PDR []) # ?C"
    by (simp add: s us)
  have C: "list_all entry_dumps ?C" and A: "list_all entry_dumps A"
    using entries_ok_dumps [OF ok(1)] entries_ok_dumps [OF ok(2)] by (auto simp: list_all_iff entry_dumps_empty_group)
  have size: "entries_size (session_modification_request_entries j (m\<lparr>smq_update_pdrs := us\<rparr>)) = entries_size A + 4 + entries_size ?C"
    unfolding e entries_size_append [OF A] by (simp add: make_group_def ie_size_def tlv_defs)
  have "entries_size A + entries_size ?C + 16 < 2 ^ 16"
    using assms(3) unfolding size by simp
  then obtain p p' bs where p: "new_session_modification_request_msg j (m\<lparr>smq_update_pdrs := us\<rparr>) = Inr p"
      "msg_dump_to j (address_msg seid n p) = Some (Inr p', bs)"
    and r: "\<And>k rest. \<exists>len s. msg_load_from new_pfcp_msg (stream k (bs @ rest)) =
       Some (Inl (Msg_bad_length PFCP_SESSION_MODIFICATION_REQUEST len (of_nat (entries_size A))
         (of_nat (entries_size A + 4 + entries_size ?C))), s)"
    using empty_group_refused [OF ok(1) C, of j PFCP_SESSION_MODIFICATION_REQUEST PFCP_IE_UPDATE_PDR seid n]
    unfolding new_session_modification_request_msg_def e by blast
  have "entries_size A < entries_size A + 4 + entries_size ?C"
    by simp
  then show ?thesis
    unfolding size using p r by blast
qed

theorem update_pdr_refused_witness:
  "\<exists>p p' bs. new_session_modification_request_msg 0 (example_modification\<lparr>smq_update_pdrs := [new_update_pdr]\<rparr>) = Inr p \<and>
    msg_dump_to 0 (address_msg (Some 7) 1 p) = Some (Inr p', bs) \<and>
    (\<exists>len found check s. msg_load_from new_pfcp_msg (stream 0 (bs @ [])) =
       Some (Inl (Msg_bad_length PFCP_SESSION_MODIFICATION_REQUEST len found check), s))"
proof -
  have "entries_size (session_modification_request_entries 0 (example_modification\<lparr>smq_update_pdrs := [new_update_pdr]\<rparr>)) + 12 < 2 ^ 16"
    using example_ies(2)
    by (auto simp: example_modification_def session_modification_request_entries_def new_pfcp_session_modification_request_def opt_ie_def
      new_remove_pdr_def new_remove_pdr_ie_def remove_pdr_entries_def make_group_def new_pdr_id_ie_def ie_size_def tlv_defs
      new_update_pdr_ie_def update_pdr_entries_def)
  then show ?thesis
    using update_pdr_refused [OF example_modification_canon, of "[new_update_pdr]" "Some 7" 1] by blast
qed

end
