(* ===== verification/Pfcp_Typing.thy ===== *)
theory Pfcp_Typing
  imports Pfcp_Conversion
begin

text \<open>
  What the conversion of elements into a container depends on.  A container is an object of a class that
  is fixed when it is made, and the overloads of \<^verbatim>\<open>set\<close> that the class has decide which elements it
  takes: neither the values in the elements nor what the container holds already play a part.  The
  relation \<open>same_class\<close> says that two objects are of one class; \<open>container_msg_id\<close> and \<open>get_msg_name\<close>
  are the number and the name that the classes of messages carry.
\<close>

section \<open>Classes\<close>

primrec same_class :: "container \<Rightarrow> container \<Rightarrow> bool" where
  "same_class (K_create_pdr a) k = (case k of K_create_pdr b \<Rightarrow> True | _ \<Rightarrow> False)"
| "same_class (K_pdi a) k = (case k of K_pdi b \<Rightarrow> True | _ \<Rightarrow> False)"
| "same_class (K_create_far a) k = (case k of K_create_far b \<Rightarrow> True | _ \<Rightarrow> False)"
| "same_class (K_forwarding_parameters a) k = (case k of K_forwarding_parameters b \<Rightarrow> True | _ \<Rightarrow> False)"
| "same_class (K_duplicating_parameters a) k = (case k of K_duplicating_parameters b \<Rightarrow> True | _ \<Rightarrow> False)"
| "same_class (K_create_urr a) k = (case k of K_create_urr b \<Rightarrow> True | _ \<Rightarrow> False)"
| "same_class (K_create_qer a) k = (case k of K_create_qer b \<Rightarrow> True | _ \<Rightarrow> False)"
| "same_class (K_created_pdr a) k = (case k of K_created_pdr b \<Rightarrow> True | _ \<Rightarrow> False)"
| "same_class (K_update_pdr a) k = (case k of K_update_pdr b \<Rightarrow> True | _ \<Rightarrow> False)"
| "same_class (K_update_far a) k = (case k of K_update_far b \<Rightarrow> True | _ \<Rightarrow> False)"
| "same_class (K_update_forwarding_parameters a) k = (case k of K_update_forwarding_parameters b \<Rightarrow> True | _ \<Rightarrow> False)"
| "same_class (K_update_bar_within_pfcp_session_report_response a) k = (case k of K_update_bar_within_pfcp_session_report_response b \<Rightarrow> True | _ \<Rightarrow> False)"
| "same_class (K_update_urr a) k = (case k of K_update_urr b \<Rightarrow> True | _ \<Rightarrow> False)"
| "same_class (K_update_qer a) k = (case k of K_update_qer b \<Rightarrow> True | _ \<Rightarrow> False)"
| "same_class (K_remove_pdr a) k = (case k of K_remove_pdr b \<Rightarrow> True | _ \<Rightarrow> False)"
| "same_class (K_remove_far a) k = (case k of K_remove_far b \<Rightarrow> True | _ \<Rightarrow> False)"
| "same_class (K_remove_urr a) k = (case k of K_remove_urr b \<Rightarrow> True | _ \<Rightarrow> False)"
| "same_class (K_remove_qer a) k = (case k of K_remove_qer b \<Rightarrow> True | _ \<Rightarrow> False)"
| "same_class (K_downlink_data_report a) k = (case k of K_downlink_data_report b \<Rightarrow> True | _ \<Rightarrow> False)"
| "same_class (K_pfcp_heartbeat_request a) k = (case k of K_pfcp_heartbeat_request b \<Rightarrow> True | _ \<Rightarrow> False)"
| "same_class (K_pfcp_heartbeat_response a) k = (case k of K_pfcp_heartbeat_response b \<Rightarrow> True | _ \<Rightarrow> False)"
| "same_class (K_pfcp_association_setup_request a) k = (case k of K_pfcp_association_setup_request b \<Rightarrow> True | _ \<Rightarrow> False)"
| "same_class (K_pfcp_association_setup_response a) k = (case k of K_pfcp_association_setup_response b \<Rightarrow> True | _ \<Rightarrow> False)"
| "same_class (K_pfcp_association_update_request a) k = (case k of K_pfcp_association_update_request b \<Rightarrow> True | _ \<Rightarrow> False)"
| "same_class (K_pfcp_association_update_response a) k = (case k of K_pfcp_association_update_response b \<Rightarrow> True | _ \<Rightarrow> False)"
| "same_class (K_pfcp_association_release_request a) k = (case k of K_pfcp_association_release_request b \<Rightarrow> True | _ \<Rightarrow> False)"
| "same_class (K_pfcp_association_release_response a) k = (case k of K_pfcp_association_release_response b \<Rightarrow> True | _ \<Rightarrow> False)"
| "same_class (K_pfcp_node_report_request a) k = (case k of K_pfcp_node_report_request b \<Rightarrow> True | _ \<Rightarrow> False)"
| "same_class (K_pfcp_pfd_management_request a) k = (case k of K_pfcp_pfd_management_request b \<Rightarrow> True | _ \<Rightarrow> False)"
| "same_class (K_pfcp_pfd_management_response a) k = (case k of K_pfcp_pfd_management_response b \<Rightarrow> True | _ \<Rightarrow> False)"
| "same_class (K_pfcp_version_not_supported_response a) k = (case k of K_pfcp_version_not_supported_response b \<Rightarrow> True | _ \<Rightarrow> False)"
| "same_class (K_pfcp_node_report_response a) k = (case k of K_pfcp_node_report_response b \<Rightarrow> True | _ \<Rightarrow> False)"
| "same_class (K_pfcp_session_set_deletion_request a) k = (case k of K_pfcp_session_set_deletion_request b \<Rightarrow> True | _ \<Rightarrow> False)"
| "same_class (K_pfcp_session_set_deletion_response a) k = (case k of K_pfcp_session_set_deletion_response b \<Rightarrow> True | _ \<Rightarrow> False)"
| "same_class (K_pfcp_session_establishment_request a) k = (case k of K_pfcp_session_establishment_request b \<Rightarrow> True | _ \<Rightarrow> False)"
| "same_class (K_pfcp_session_establishment_response a) k = (case k of K_pfcp_session_establishment_response b \<Rightarrow> True | _ \<Rightarrow> False)"
| "same_class (K_pfcp_session_modification_request a) k = (case k of K_pfcp_session_modification_request b \<Rightarrow> True | _ \<Rightarrow> False)"
| "same_class (K_pfcp_session_modification_response a) k = (case k of K_pfcp_session_modification_response b \<Rightarrow> True | _ \<Rightarrow> False)"
| "same_class (K_pfcp_session_deletion_request a) k = (case k of K_pfcp_session_deletion_request b \<Rightarrow> True | _ \<Rightarrow> False)"
| "same_class (K_pfcp_session_deletion_response a) k = (case k of K_pfcp_session_deletion_response b \<Rightarrow> True | _ \<Rightarrow> False)"
| "same_class (K_pfcp_session_report_request a) k = (case k of K_pfcp_session_report_request b \<Rightarrow> True | _ \<Rightarrow> False)"
| "same_class (K_pfcp_session_report_response a) k = (case k of K_pfcp_session_report_response b \<Rightarrow> True | _ \<Rightarrow> False)"

primrec container_msg_id :: "container \<Rightarrow> u8" where
  "container_msg_id (K_create_pdr a) = 0"
| "container_msg_id (K_pdi a) = 0"
| "container_msg_id (K_create_far a) = 0"
| "container_msg_id (K_forwarding_parameters a) = 0"
| "container_msg_id (K_duplicating_parameters a) = 0"
| "container_msg_id (K_create_urr a) = 0"
| "container_msg_id (K_create_qer a) = 0"
| "container_msg_id (K_created_pdr a) = 0"
| "container_msg_id (K_update_pdr a) = 0"
| "container_msg_id (K_update_far a) = 0"
| "container_msg_id (K_update_forwarding_parameters a) = 0"
| "container_msg_id (K_update_bar_within_pfcp_session_report_response a) = 0"
| "container_msg_id (K_update_urr a) = 0"
| "container_msg_id (K_update_qer a) = 0"
| "container_msg_id (K_remove_pdr a) = 0"
| "container_msg_id (K_remove_far a) = 0"
| "container_msg_id (K_remove_urr a) = 0"
| "container_msg_id (K_remove_qer a) = 0"
| "container_msg_id (K_downlink_data_report a) = 0"
| "container_msg_id (K_pfcp_heartbeat_request a) = 1"
| "container_msg_id (K_pfcp_heartbeat_response a) = 2"
| "container_msg_id (K_pfcp_association_setup_request a) = 5"
| "container_msg_id (K_pfcp_association_setup_response a) = 6"
| "container_msg_id (K_pfcp_association_update_request a) = 7"
| "container_msg_id (K_pfcp_association_update_response a) = 8"
| "container_msg_id (K_pfcp_association_release_request a) = 9"
| "container_msg_id (K_pfcp_association_release_response a) = 10"
| "container_msg_id (K_pfcp_node_report_request a) = 12"
| "container_msg_id (K_pfcp_pfd_management_request a) = 3"
| "container_msg_id (K_pfcp_pfd_management_response a) = 4"
| "container_msg_id (K_pfcp_version_not_supported_response a) = 11"
| "container_msg_id (K_pfcp_node_report_response a) = 13"
| "container_msg_id (K_pfcp_session_set_deletion_request a) = 14"
| "container_msg_id (K_pfcp_session_set_deletion_response a) = 15"
| "container_msg_id (K_pfcp_session_establishment_request a) = 50"
| "container_msg_id (K_pfcp_session_establishment_response a) = 51"
| "container_msg_id (K_pfcp_session_modification_request a) = 52"
| "container_msg_id (K_pfcp_session_modification_response a) = 53"
| "container_msg_id (K_pfcp_session_deletion_request a) = 54"
| "container_msg_id (K_pfcp_session_deletion_response a) = 55"
| "container_msg_id (K_pfcp_session_report_request a) = 56"
| "container_msg_id (K_pfcp_session_report_response a) = 57"

text \<open>The containers of groups have no name.\<close>

primrec get_msg_name :: "container \<Rightarrow> string option" where
  "get_msg_name (K_create_pdr a) = None"
| "get_msg_name (K_pdi a) = None"
| "get_msg_name (K_create_far a) = None"
| "get_msg_name (K_forwarding_parameters a) = None"
| "get_msg_name (K_duplicating_parameters a) = None"
| "get_msg_name (K_create_urr a) = None"
| "get_msg_name (K_create_qer a) = None"
| "get_msg_name (K_created_pdr a) = None"
| "get_msg_name (K_update_pdr a) = None"
| "get_msg_name (K_update_far a) = None"
| "get_msg_name (K_update_forwarding_parameters a) = None"
| "get_msg_name (K_update_bar_within_pfcp_session_report_response a) = None"
| "get_msg_name (K_update_urr a) = None"
| "get_msg_name (K_update_qer a) = None"
| "get_msg_name (K_remove_pdr a) = None"
| "get_msg_name (K_remove_far a) = None"
| "get_msg_name (K_remove_urr a) = None"
| "get_msg_name (K_remove_qer a) = None"
| "get_msg_name (K_downlink_data_report a) = None"
| "get_msg_name (K_pfcp_heartbeat_request a) = Some ''HEARTBEAT_REQUEST''"
| "get_msg_name (K_pfcp_heartbeat_response a) = Some ''HEARTBEAT_RESPONSE''"
| "get_msg_name (K_pfcp_association_setup_request a) = Some ''PFCP_ASSOCIATION_SETUP_REQUEST''"
| "get_msg_name (K_pfcp_association_setup_response a) = Some ''PFCP_ASSOCIATION_SETUP_RESPONSE''"
| "get_msg_name (K_pfcp_association_update_request a) = Some ''PFCP_ASSOCIATION_UPDATE_REQUEST''"
| "get_msg_name (K_pfcp_association_update_response a) = Some ''PFCP_ASSOCIATION_UPDATE_RESPONSE''"
| "get_msg_name (K_pfcp_association_release_request a) = Some ''PFCP_ASSOCIATION_RELEASE_REQUEST''"
| "get_msg_name (K_pfcp_association_release_response a) = Some ''PFCP_ASSOCIATION_RELEASE_RESPONSE''"
| "get_msg_name (K_pfcp_node_report_request a) = Some ''PFCP_NODE_REPORT_REQUEST''"
| "get_msg_name (K_pfcp_pfd_management_request a) = Some ''PFCP_PFD_MANAGEMENT_REQUEST''"
| "get_msg_name (K_pfcp_pfd_management_response a) = Some ''PFCP_PFD_MANAGEMENT_RESPONSE''"
| "get_msg_name (K_pfcp_version_not_supported_response a) = Some ''PFCP_VERSION_NOT_SUPPORTED_RESPONSE''"
| "get_msg_name (K_pfcp_node_report_response a) = Some ''PFCP_NODE_REPORT_RESPONSE''"
| "get_msg_name (K_pfcp_session_set_deletion_request a) = Some ''PFCP_SESSION_SET_DELETION_REQUEST''"
| "get_msg_name (K_pfcp_session_set_deletion_response a) = Some ''PFCP_SESSION_SET_DELETION_RESPONSE''"
| "get_msg_name (K_pfcp_session_establishment_request a) = Some ''PFCP_SESSION_ESTABLISHMENT_REQUEST''"
| "get_msg_name (K_pfcp_session_establishment_response a) = Some ''PFCP_SESSION_ESTABLISHMENT_RESPONSE''"
| "get_msg_name (K_pfcp_session_modification_request a) = Some ''PFCP_SESSION_MODIFICATION_REQUEST''"
| "get_msg_name (K_pfcp_session_modification_response a) = Some ''PFCP_SESSION_MODIFICATION_RESPONSE''"
| "get_msg_name (K_pfcp_session_deletion_request a) = Some ''PFCP_SESSION_DELETION_REQUEST''"
| "get_msg_name (K_pfcp_session_deletion_response a) = Some ''PFCP_SESSION_DELETION_RESPONSE''"
| "get_msg_name (K_pfcp_session_report_request a) = Some ''PFCP_SESSION_REPORT_REQUEST''"
| "get_msg_name (K_pfcp_session_report_response a) = Some ''PFCP_SESSION_REPORT_RESPONSE''"

lemma same_class_refl [simp]: "same_class k k"
  by (cases k) simp_all

lemma same_class_iff:
  "same_class (K_create_pdr a0) k \<longleftrightarrow> (\<exists>b. k = K_create_pdr b)"
  "same_class (K_pdi a1) k \<longleftrightarrow> (\<exists>b. k = K_pdi b)"
  "same_class (K_create_far a2) k \<longleftrightarrow> (\<exists>b. k = K_create_far b)"
  "same_class (K_forwarding_parameters a3) k \<longleftrightarrow> (\<exists>b. k = K_forwarding_parameters b)"
  "same_class (K_duplicating_parameters a4) k \<longleftrightarrow> (\<exists>b. k = K_duplicating_parameters b)"
  "same_class (K_create_urr a5) k \<longleftrightarrow> (\<exists>b. k = K_create_urr b)"
  "same_class (K_create_qer a6) k \<longleftrightarrow> (\<exists>b. k = K_create_qer b)"
  "same_class (K_created_pdr a7) k \<longleftrightarrow> (\<exists>b. k = K_created_pdr b)"
  "same_class (K_update_pdr a8) k \<longleftrightarrow> (\<exists>b. k = K_update_pdr b)"
  "same_class (K_update_far a9) k \<longleftrightarrow> (\<exists>b. k = K_update_far b)"
  "same_class (K_update_forwarding_parameters a10) k \<longleftrightarrow> (\<exists>b. k = K_update_forwarding_parameters b)"
  "same_class (K_update_bar_within_pfcp_session_report_response a11) k \<longleftrightarrow> (\<exists>b. k = K_update_bar_within_pfcp_session_report_response b)"
  "same_class (K_update_urr a12) k \<longleftrightarrow> (\<exists>b. k = K_update_urr b)"
  "same_class (K_update_qer a13) k \<longleftrightarrow> (\<exists>b. k = K_update_qer b)"
  "same_class (K_remove_pdr a14) k \<longleftrightarrow> (\<exists>b. k = K_remove_pdr b)"
  "same_class (K_remove_far a15) k \<longleftrightarrow> (\<exists>b. k = K_remove_far b)"
  "same_class (K_remove_urr a16) k \<longleftrightarrow> (\<exists>b. k = K_remove_urr b)"
  "same_class (K_remove_qer a17) k \<longleftrightarrow> (\<exists>b. k = K_remove_qer b)"
  "same_class (K_downlink_data_report a18) k \<longleftrightarrow> (\<exists>b. k = K_downlink_data_report b)"
  "same_class (K_pfcp_heartbeat_request a19) k \<longleftrightarrow> (\<exists>b. k = K_pfcp_heartbeat_request b)"
  "same_class (K_pfcp_heartbeat_response a20) k \<longleftrightarrow> (\<exists>b. k = K_pfcp_heartbeat_response b)"
  "same_class (K_pfcp_association_setup_request a21) k \<longleftrightarrow> (\<exists>b. k = K_pfcp_association_setup_request b)"
  "same_class (K_pfcp_association_setup_response a22) k \<longleftrightarrow> (\<exists>b. k = K_pfcp_association_setup_response b)"
  "same_class (K_pfcp_association_update_request a23) k \<longleftrightarrow> (\<exists>b. k = K_pfcp_association_update_request b)"
  "same_class (K_pfcp_association_update_response a24) k \<longleftrightarrow> (\<exists>b. k = K_pfcp_association_update_response b)"
  "same_class (K_pfcp_association_release_request a25) k \<longleftrightarrow> (\<exists>b. k = K_pfcp_association_release_request b)"
  "same_class (K_pfcp_association_release_response a26) k \<longleftrightarrow> (\<exists>b. k = K_pfcp_association_release_response b)"
  "same_class (K_pfcp_node_report_request a27) k \<longleftrightarrow> (\<exists>b. k = K_pfcp_node_report_request b)"
  "same_class (K_pfcp_pfd_management_request a28) k \<longleftrightarrow> (\<exists>b. k = K_pfcp_pfd_management_request b)"
  "same_class (K_pfcp_pfd_management_response a29) k \<longleftrightarrow> (\<exists>b. k = K_pfcp_pfd_management_response b)"
  "same_class (K_pfcp_version_not_supported_response a30) k \<longleftrightarrow> (\<exists>b. k = K_pfcp_version_not_supported_response b)"
  "same_class (K_pfcp_node_report_response a31) k \<longleftrightarrow> (\<exists>b. k = K_pfcp_node_report_response b)"
  "same_class (K_pfcp_session_set_deletion_request a32) k \<longleftrightarrow> (\<exists>b. k = K_pfcp_session_set_deletion_request b)"
  "same_class (K_pfcp_session_set_deletion_response a33) k \<longleftrightarrow> (\<exists>b. k = K_pfcp_session_set_deletion_response b)"
  "same_class (K_pfcp_session_establishment_request a34) k \<longleftrightarrow> (\<exists>b. k = K_pfcp_session_establishment_request b)"
  "same_class (K_pfcp_session_establishment_response a35) k \<longleftrightarrow> (\<exists>b. k = K_pfcp_session_establishment_response b)"
  "same_class (K_pfcp_session_modification_request a36) k \<longleftrightarrow> (\<exists>b. k = K_pfcp_session_modification_request b)"
  "same_class (K_pfcp_session_modification_response a37) k \<longleftrightarrow> (\<exists>b. k = K_pfcp_session_modification_response b)"
  "same_class (K_pfcp_session_deletion_request a38) k \<longleftrightarrow> (\<exists>b. k = K_pfcp_session_deletion_request b)"
  "same_class (K_pfcp_session_deletion_response a39) k \<longleftrightarrow> (\<exists>b. k = K_pfcp_session_deletion_response b)"
  "same_class (K_pfcp_session_report_request a40) k \<longleftrightarrow> (\<exists>b. k = K_pfcp_session_report_request b)"
  "same_class (K_pfcp_session_report_response a41) k \<longleftrightarrow> (\<exists>b. k = K_pfcp_session_report_response b)"
  by (cases k; simp)+

declare same_class.simps [simp del] same_class_iff [simp]

lemma same_class_trans: "same_class a b \<Longrightarrow> same_class b c \<Longrightarrow> same_class a c"
  by (cases a) auto

lemma same_class_msg_id: "same_class k k' \<Longrightarrow> container_msg_id k = container_msg_id k' \<and> get_msg_name k = get_msg_name k'"
  by (cases k) auto

section \<open>One overload\<close>

abbreviation same_result :: "pfcp_exn + 'a \<Rightarrow> pfcp_exn + 'b \<Rightarrow> bool" where
  "same_result \<equiv> rel_sum (=) (\<lambda>_ _. True)"

lemma create_pdr_set_core_same: "same_result (create_pdr_set_core v a) (create_pdr_set_core v b)"
  by (simp add: create_pdr_set_core_def split: core_value.split)

lemma create_pdr_set_group_same: "same_result (create_pdr_set_group v a) (create_pdr_set_group v b)"
  by (simp add: create_pdr_set_group_def split: container.split)

lemma pdi_set_core_same: "same_result (pdi_set_core v a) (pdi_set_core v b)"
  by (simp add: pdi_set_core_def split: core_value.split)

lemma create_far_set_core_same: "same_result (create_far_set_core v a) (create_far_set_core v b)"
  by (simp add: create_far_set_core_def split: core_value.split)

lemma create_far_set_group_same: "same_result (create_far_set_group v a) (create_far_set_group v b)"
  by (simp add: create_far_set_group_def split: container.split)

lemma forwarding_parameters_set_core_same: "same_result (forwarding_parameters_set_core v a) (forwarding_parameters_set_core v b)"
  by (simp add: forwarding_parameters_set_core_def split: core_value.split)

lemma duplicating_parameters_set_core_same: "same_result (duplicating_parameters_set_core v a) (duplicating_parameters_set_core v b)"
  by (simp add: duplicating_parameters_set_core_def split: core_value.split)

lemma create_urr_set_core_same: "same_result (create_urr_set_core v a) (create_urr_set_core v b)"
  by (simp add: create_urr_set_core_def split: core_value.split)

lemma create_qer_set_core_same: "same_result (create_qer_set_core v a) (create_qer_set_core v b)"
  by (simp add: create_qer_set_core_def split: core_value.split)

lemma created_pdr_set_core_same: "same_result (created_pdr_set_core v a) (created_pdr_set_core v b)"
  by (simp add: created_pdr_set_core_def split: core_value.split)

lemma update_pdr_set_core_same: "same_result (update_pdr_set_core v a) (update_pdr_set_core v b)"
  by (simp add: update_pdr_set_core_def split: core_value.split)

lemma update_pdr_set_group_same: "same_result (update_pdr_set_group v a) (update_pdr_set_group v b)"
  by (simp add: update_pdr_set_group_def split: container.split)

lemma update_far_set_core_same: "same_result (update_far_set_core v a) (update_far_set_core v b)"
  by (simp add: update_far_set_core_def split: core_value.split)

lemma update_far_set_group_same: "same_result (update_far_set_group v a) (update_far_set_group v b)"
  by (simp add: update_far_set_group_def split: container.split)

lemma update_forwarding_parameters_set_core_same: "same_result (update_forwarding_parameters_set_core v a) (update_forwarding_parameters_set_core v b)"
  by (simp add: update_forwarding_parameters_set_core_def split: core_value.split)

lemma update_bar_within_pfcp_session_report_response_set_core_same: "same_result (update_bar_within_pfcp_session_report_response_set_core v a) (update_bar_within_pfcp_session_report_response_set_core v b)"
  by (simp add: update_bar_within_pfcp_session_report_response_set_core_def split: core_value.split)

lemma update_urr_set_core_same: "same_result (update_urr_set_core v a) (update_urr_set_core v b)"
  by (simp add: update_urr_set_core_def split: core_value.split)

lemma update_qer_set_core_same: "same_result (update_qer_set_core v a) (update_qer_set_core v b)"
  by (simp add: update_qer_set_core_def split: core_value.split)

lemma remove_pdr_set_core_same: "same_result (remove_pdr_set_core v a) (remove_pdr_set_core v b)"
  by (simp add: remove_pdr_set_core_def split: core_value.split)

lemma remove_far_set_core_same: "same_result (remove_far_set_core v a) (remove_far_set_core v b)"
  by (simp add: remove_far_set_core_def split: core_value.split)

lemma remove_urr_set_core_same: "same_result (remove_urr_set_core v a) (remove_urr_set_core v b)"
  by (simp add: remove_urr_set_core_def split: core_value.split)

lemma remove_qer_set_core_same: "same_result (remove_qer_set_core v a) (remove_qer_set_core v b)"
  by (simp add: remove_qer_set_core_def split: core_value.split)

lemma downlink_data_report_set_core_same: "same_result (downlink_data_report_set_core v a) (downlink_data_report_set_core v b)"
  by (simp add: downlink_data_report_set_core_def split: core_value.split)

lemma pfcp_heartbeat_request_set_core_same: "same_result (pfcp_heartbeat_request_set_core v a) (pfcp_heartbeat_request_set_core v b)"
  by (simp add: pfcp_heartbeat_request_set_core_def split: core_value.split)

lemma pfcp_heartbeat_response_set_core_same: "same_result (pfcp_heartbeat_response_set_core v a) (pfcp_heartbeat_response_set_core v b)"
  by (simp add: pfcp_heartbeat_response_set_core_def split: core_value.split)

lemma pfcp_association_setup_request_set_core_same: "same_result (pfcp_association_setup_request_set_core v a) (pfcp_association_setup_request_set_core v b)"
  by (simp add: pfcp_association_setup_request_set_core_def split: core_value.split)

lemma pfcp_association_setup_response_set_core_same: "same_result (pfcp_association_setup_response_set_core v a) (pfcp_association_setup_response_set_core v b)"
  by (simp add: pfcp_association_setup_response_set_core_def split: core_value.split)

lemma pfcp_association_update_request_set_core_same: "same_result (pfcp_association_update_request_set_core v a) (pfcp_association_update_request_set_core v b)"
  by (simp add: pfcp_association_update_request_set_core_def split: core_value.split)

lemma pfcp_association_update_response_set_core_same: "same_result (pfcp_association_update_response_set_core v a) (pfcp_association_update_response_set_core v b)"
  by (simp add: pfcp_association_update_response_set_core_def split: core_value.split)

lemma pfcp_association_release_request_set_core_same: "same_result (pfcp_association_release_request_set_core v a) (pfcp_association_release_request_set_core v b)"
  by (simp add: pfcp_association_release_request_set_core_def split: core_value.split)

lemma pfcp_association_release_response_set_core_same: "same_result (pfcp_association_release_response_set_core v a) (pfcp_association_release_response_set_core v b)"
  by (simp add: pfcp_association_release_response_set_core_def split: core_value.split)

lemma pfcp_node_report_request_set_core_same: "same_result (pfcp_node_report_request_set_core v a) (pfcp_node_report_request_set_core v b)"
  by (simp add: pfcp_node_report_request_set_core_def split: core_value.split)

lemma pfcp_pfd_management_response_set_core_same: "same_result (pfcp_pfd_management_response_set_core v a) (pfcp_pfd_management_response_set_core v b)"
  by (simp add: pfcp_pfd_management_response_set_core_def split: core_value.split)

lemma pfcp_node_report_response_set_core_same: "same_result (pfcp_node_report_response_set_core v a) (pfcp_node_report_response_set_core v b)"
  by (simp add: pfcp_node_report_response_set_core_def split: core_value.split)

lemma pfcp_session_set_deletion_request_set_core_same: "same_result (pfcp_session_set_deletion_request_set_core v a) (pfcp_session_set_deletion_request_set_core v b)"
  by (simp add: pfcp_session_set_deletion_request_set_core_def split: core_value.split)

lemma pfcp_session_set_deletion_response_set_core_same: "same_result (pfcp_session_set_deletion_response_set_core v a) (pfcp_session_set_deletion_response_set_core v b)"
  by (simp add: pfcp_session_set_deletion_response_set_core_def split: core_value.split)

lemma pfcp_session_establishment_request_set_core_same: "same_result (pfcp_session_establishment_request_set_core v a) (pfcp_session_establishment_request_set_core v b)"
  by (simp add: pfcp_session_establishment_request_set_core_def split: core_value.split)

lemma pfcp_session_establishment_request_set_group_same: "same_result (pfcp_session_establishment_request_set_group v a) (pfcp_session_establishment_request_set_group v b)"
  by (simp add: pfcp_session_establishment_request_set_group_def split: container.split)

lemma pfcp_session_establishment_response_set_core_same: "same_result (pfcp_session_establishment_response_set_core v a) (pfcp_session_establishment_response_set_core v b)"
  by (simp add: pfcp_session_establishment_response_set_core_def split: core_value.split)

lemma pfcp_session_establishment_response_set_group_same: "same_result (pfcp_session_establishment_response_set_group v a) (pfcp_session_establishment_response_set_group v b)"
  by (simp add: pfcp_session_establishment_response_set_group_def split: container.split)

lemma pfcp_session_modification_request_set_core_same: "same_result (pfcp_session_modification_request_set_core v a) (pfcp_session_modification_request_set_core v b)"
  by (simp add: pfcp_session_modification_request_set_core_def split: core_value.split)

lemma pfcp_session_modification_request_set_group_same: "same_result (pfcp_session_modification_request_set_group v a) (pfcp_session_modification_request_set_group v b)"
  by (simp add: pfcp_session_modification_request_set_group_def split: container.split)

lemma pfcp_session_modification_response_set_core_same: "same_result (pfcp_session_modification_response_set_core v a) (pfcp_session_modification_response_set_core v b)"
  by (simp add: pfcp_session_modification_response_set_core_def split: core_value.split)

lemma pfcp_session_modification_response_set_group_same: "same_result (pfcp_session_modification_response_set_group v a) (pfcp_session_modification_response_set_group v b)"
  by (simp add: pfcp_session_modification_response_set_group_def split: container.split)

lemma pfcp_session_deletion_response_set_core_same: "same_result (pfcp_session_deletion_response_set_core v a) (pfcp_session_deletion_response_set_core v b)"
  by (simp add: pfcp_session_deletion_response_set_core_def split: core_value.split)

lemma pfcp_session_report_request_set_core_same: "same_result (pfcp_session_report_request_set_core v a) (pfcp_session_report_request_set_core v b)"
  by (simp add: pfcp_session_report_request_set_core_def split: core_value.split)

lemma pfcp_session_report_request_set_group_same: "same_result (pfcp_session_report_request_set_group v a) (pfcp_session_report_request_set_group v b)"
  by (simp add: pfcp_session_report_request_set_group_def split: container.split)

lemma pfcp_session_report_response_set_core_same: "same_result (pfcp_session_report_response_set_core v a) (pfcp_session_report_response_set_core v b)"
  by (simp add: pfcp_session_report_response_set_core_def split: core_value.split)

lemma pfcp_session_report_response_set_group_same: "same_result (pfcp_session_report_response_set_group v a) (pfcp_session_report_response_set_group v b)"
  by (simp add: pfcp_session_report_response_set_group_def split: container.split)

lemma same_result_map:
  assumes "same_result x y" and "\<And>a b. P (K a) (K b)"
  shows "rel_sum (=) P (map_sum id K x) (map_sum id K y)"
  using assms by (cases x; cases y) simp_all

lemma map_sum_class:
  assumes "map_sum id K x = Inr k'" and "\<And>a. P (K a)"
  shows "P k'"
  using assms by (cases x) auto

lemmas set_core_same =
  create_pdr_set_core_same pdi_set_core_same create_far_set_core_same forwarding_parameters_set_core_same duplicating_parameters_set_core_same create_urr_set_core_same create_qer_set_core_same created_pdr_set_core_same update_pdr_set_core_same update_far_set_core_same update_forwarding_parameters_set_core_same update_bar_within_pfcp_session_report_response_set_core_same update_urr_set_core_same update_qer_set_core_same remove_pdr_set_core_same remove_far_set_core_same remove_urr_set_core_same remove_qer_set_core_same downlink_data_report_set_core_same pfcp_heartbeat_request_set_core_same pfcp_heartbeat_response_set_core_same pfcp_association_setup_request_set_core_same pfcp_association_setup_response_set_core_same pfcp_association_update_request_set_core_same pfcp_association_update_response_set_core_same pfcp_association_release_request_set_core_same pfcp_association_release_response_set_core_same pfcp_node_report_request_set_core_same pfcp_pfd_management_response_set_core_same pfcp_node_report_response_set_core_same pfcp_session_set_deletion_request_set_core_same pfcp_session_set_deletion_response_set_core_same pfcp_session_establishment_request_set_core_same pfcp_session_establishment_response_set_core_same pfcp_session_modification_request_set_core_same pfcp_session_modification_response_set_core_same pfcp_session_deletion_response_set_core_same pfcp_session_report_request_set_core_same pfcp_session_report_response_set_core_same

lemmas set_group_same =
  create_pdr_set_group_same create_far_set_group_same update_pdr_set_group_same update_far_set_group_same pfcp_session_establishment_request_set_group_same pfcp_session_establishment_response_set_group_same pfcp_session_modification_request_set_group_same pfcp_session_modification_response_set_group_same pfcp_session_report_request_set_group_same pfcp_session_report_response_set_group_same

lemma container_set_core_same:
  assumes "same_class k k'"
  shows "rel_sum (=) same_class (container_set_core v k) (container_set_core v k')"
  using assms by (cases k) (auto intro!: same_result_map set_core_same)

lemma container_set_group_same:
  assumes "same_class k k'"
  shows "rel_sum (=) same_class (container_set_group i k) (container_set_group i k')"
  using assms by (cases k) (auto intro!: same_result_map set_group_same)

lemma container_set_core_class: "container_set_core v k = Inr k' \<Longrightarrow> same_class k k'"
  by (cases k) (auto elim!: map_sum_class)

lemma container_set_group_class: "container_set_group i k = Inr k' \<Longrightarrow> same_class k k'"
  by (cases k) (auto elim!: map_sum_class)

section \<open>The conversion\<close>

lemma ies_to_core_same:
  "same_class k k' \<Longrightarrow> rel_option (rel_sum (=) same_class) (ie_to_core ie k) (ie_to_core ie k')"
  "same_class k k' \<Longrightarrow> rel_option (rel_sum (=) same_class) (ies_to_core ies k) (ies_to_core ies k')"
proof (induction ie k and ies k arbitrary: k' and k' rule: ie_to_core_ies_to_core.induct)
  case (1 s k)
  then show ?case by (simp add: container_set_core_same)
next
  case (2 t ies k)
  then show ?case by (simp add: container_set_group_same split: option.split sum.split)
next
  case (3 k)
  then show ?case by simp
next
  case (4 ie ies k)
  have "rel_option (rel_sum (=) same_class) (ie_to_core ie k) (ie_to_core ie k')"
    by (rule 4(1) [OF 4(3)])
  then show ?case
    using 4(2) by (auto elim!: option.rel_cases rel_sum.cases)
qed

lemma ies_to_core_class:
  "ie_to_core ie k = Some (Inr k') \<Longrightarrow> same_class k k'"
  "ies_to_core ies k = Some (Inr k') \<Longrightarrow> same_class k k'"
  by (induction ie k and ies k arbitrary: k' and k' rule: ie_to_core_ies_to_core.induct)
    (auto split: option.splits sum.splits if_splits intro: container_set_core_class container_set_group_class same_class_trans)

section \<open>Property\<close>



end
