(* ===== verification/Pfcp_Keys.thy ===== *)
theory Pfcp_Keys
  imports Pfcp_Types
begin

text \<open>
  The operations that make F-SEIDs and node identities keys of containers
  (\<^verbatim>\<open>src/oai/common/3gpp_29.244.h\<close>): equality, the order and the hash.  The order is defined in
  \<^verbatim>\<open>Pfcp_Types\<close>.  \<^verbatim>\<open>std::hash\<close> of the language's library, which leaves its values to the implementation, is a
  parameter.
\<close>

section \<open>Equality and hash\<close>

definition s6_eq :: "in6_addr \<Rightarrow> in6_addr \<Rightarrow> bool" where
  "s6_eq a b \<longleftrightarrow> s6_addr32 a 0 = s6_addr32 b 0 \<and> s6_addr32 a 1 = s6_addr32 b 1 \<and>
                 s6_addr32 a 2 = s6_addr32 b 2 \<and> s6_addr32 a 3 = s6_addr32 b 3"

definition fseid_eq :: "fseid_t \<Rightarrow> fseid_t \<Rightarrow> bool" where
  "fseid_eq this i \<longleftrightarrow>
     fseid_seid i = fseid_seid this \<and> fseid_v4 i = fseid_v4 this \<and>
     fseid_ipv4_address i = fseid_ipv4_address this \<and> fseid_v6 i = fseid_v6 this \<and>
     s6_eq (fseid_ipv6_address i) (fseid_ipv6_address this)"

definition fseid_hash :: "fseid_t \<Rightarrow> u64" where
  "fseid_hash k =
     (if fseid_v4 k then ucast (fseid_ipv4_address k) XOR fseid_seid k
      else if fseid_v6 k
      then let a = fseid_ipv6_address k
           in fseid_seid k XOR ucast (s6_addr32 a 0 XOR s6_addr32 a 1 XOR s6_addr32 a 2 XOR s6_addr32 a 3)
      else fseid_seid k)"

definition node_id_eq :: "node_id_t \<Rightarrow> node_id_t \<Rightarrow> bool" where
  "node_id_eq this i \<longleftrightarrow>
     node_id_node_id_type i = node_id_node_id_type this \<and>
     node_id_ipv4_address i = node_id_ipv4_address this \<and> node_id_fqdn i = node_id_fqdn this \<and>
     s6_eq (node_id_ipv6_address i) (node_id_ipv6_address this)"

definition node_id_hash :: "(u32 \<Rightarrow> u64) \<Rightarrow> (string \<Rightarrow> u64) \<Rightarrow> node_id_t \<Rightarrow> u64" where
  "node_id_hash hash_uint32 hash_string k =
     (if node_id_node_id_type k = 0 then hash_uint32 (node_id_ipv4_address k)
      else if node_id_node_id_type k = 1
      then let a = node_id_ipv6_address k
           in ucast (s6_addr32 a 0 XOR s6_addr32 a 1 XOR s6_addr32 a 2 XOR s6_addr32 a 3)
      else if node_id_node_id_type k = 2 then hash_string (node_id_fqdn k)
      else 0)"

section \<open>Laws of a hashed key\<close>

text \<open>What \<^verbatim>\<open>std::unordered_map\<close> asks of its key: an equivalence that the hash respects.\<close>

locale hashed_key =
  fixes eq :: "'k \<Rightarrow> 'k \<Rightarrow> bool" and hash :: "'k \<Rightarrow> 'h"
  assumes eq_refl: "eq a a"
    and eq_sym: "eq a b \<Longrightarrow> eq b a"
    and eq_trans: "eq a b \<Longrightarrow> eq b c \<Longrightarrow> eq a c"
    and hash_eq: "eq a b \<Longrightarrow> hash a = hash b"
begin

text \<open>A look-up that searches only the bucket of a key's hash finds what a search of all entries finds.\<close>

lemma bucket_lookup: "find (\<lambda>e. eq (fst e) k) (filter (\<lambda>e. hash (fst e) = hash k) es) = find (\<lambda>e. eq (fst e) k) es"
  by (induction es) (auto dest: hash_eq)

lemma bucket_insert:
  "find (\<lambda>e. eq (fst e) k') (filter (\<lambda>e. hash (fst e) = hash k') ((k, v) # es)) =
     (if eq k k' then Some (k, v) else find (\<lambda>e. eq (fst e) k') es)"
  by (subst bucket_lookup) simp

end

interpretation fseid_key: hashed_key fseid_eq fseid_hash
  by unfold_locales (auto simp: fseid_eq_def fseid_hash_def s6_eq_def Let_def)

interpretation node_id_key: hashed_key node_id_eq "node_id_hash hash_uint32 hash_string"
  by unfold_locales (auto simp: node_id_eq_def node_id_hash_def s6_eq_def Let_def)

section \<open>The order of F-SEIDs\<close>

lemma s6_half_eq_iff:
  "s6_half a j = s6_half b j \<longleftrightarrow> s6_addr32 a j = s6_addr32 b j \<and> s6_addr32 a (j + 1) = s6_addr32 b (j + 1)"
proof
  assume eq: "s6_half a j = s6_half b j"
  have hi: "s6_addr32 x j = ucast (drop_bit 32 (s6_half x j))" for x
    by (rule bit_word_eqI) (auto simp: s6_half_def bit_simps dest: bit_imp_le_length)
  have lo: "s6_addr32 x (j + 1) = ucast (s6_half x j)" for x
    by (rule bit_word_eqI) (auto simp: s6_half_def bit_simps)
  show "s6_addr32 a j = s6_addr32 b j \<and> s6_addr32 a (j + 1) = s6_addr32 b (j + 1)"
    by (simp only: hi lo eq)
qed (simp add: s6_half_def)

lemma s6_eq_halves: "s6_eq a b \<longleftrightarrow> s6_half a 0 = s6_half b 0 \<and> s6_half a 2 = s6_half b 2"
  by (auto simp: s6_eq_def s6_half_eq_iff)

text \<open>Between F-SEIDs with the same address flags the order compares four numbers, the second one upwards.\<close>

lemma fseid_lt_same_flags:
  assumes "fseid_v4 a = fseid_v4 b" "fseid_v6 a = fseid_v6 b"
  shows "fseid_lt a b \<longleftrightarrow>
     fseid_seid b < fseid_seid a \<or> fseid_seid b = fseid_seid a \<and>
       (fseid_ipv4_address a < fseid_ipv4_address b \<or> fseid_ipv4_address a = fseid_ipv4_address b \<and>
         (s6_half (fseid_ipv6_address b) 0 < s6_half (fseid_ipv6_address a) 0 \<or>
          s6_half (fseid_ipv6_address b) 0 = s6_half (fseid_ipv6_address a) 0 \<and>
            s6_half (fseid_ipv6_address b) 2 < s6_half (fseid_ipv6_address a) 2))"
  using assms by (auto simp: fseid_lt_def Let_def)

lemma fseid_lt_total: "\<not> fseid_eq a b \<Longrightarrow> fseid_lt a b \<or> fseid_lt b a"
  by (auto simp: fseid_lt_def fseid_eq_def s6_eq_halves Let_def)

lemma fseid_eq_not_lt: "fseid_eq a b \<Longrightarrow> \<not> fseid_lt a b"
  by (auto simp: fseid_lt_def fseid_eq_def s6_eq_halves Let_def)

text \<open>
  The order of F-SEIDs meets what \<^verbatim>\<open>std::map\<close> asks for between identifiers with the same address
  flags: it is irreflexive, asymmetric and transitive, and two identifiers of which none is less are equal.
\<close>

lemma fseid_lt_strict_order:
  assumes "\<And>x. x \<in> {a, b, c} \<Longrightarrow> fseid_v4 x = v4 \<and> fseid_v6 x = v6"
  shows "\<not> fseid_lt a a \<and> (fseid_lt a b \<longrightarrow> \<not> fseid_lt b a) \<and>
         (fseid_lt a b \<longrightarrow> fseid_lt b c \<longrightarrow> fseid_lt a c) \<and>
         (\<not> fseid_lt a b \<and> \<not> fseid_lt b a \<longleftrightarrow> fseid_eq a b)"
proof -
  have f: "fseid_v4 a = v4" "fseid_v4 b = v4" "fseid_v4 c = v4" "fseid_v6 a = v6" "fseid_v6 b = v6" "fseid_v6 c = v6"
    using assms by auto
  have "fseid_eq a b \<longleftrightarrow> \<not> fseid_lt a b \<and> \<not> fseid_lt b a"
    using fseid_lt_total [of a b] fseid_eq_not_lt [of a b] fseid_eq_not_lt [of b a] fseid_key.eq_sym by blast
  moreover have "\<not> fseid_lt a a" "fseid_lt a b \<longrightarrow> \<not> fseid_lt b a"
    by (auto simp: fseid_lt_same_flags f)
  moreover have "fseid_lt a b \<longrightarrow> fseid_lt b c \<longrightarrow> fseid_lt a c"
    by (auto simp: fseid_lt_same_flags f)
  ultimately show ?thesis by blast
qed

text \<open>
  \<^verbatim>\<open>fseid_s::operator<\<close> is not an order.  Of two F-SEIDs with the same SEID of which only the
  first has an IPv4 address, the first is less; but the comparison the other way round does not
  stop at the IPv4 flag and goes on to the IPv6 addresses, so both can be less than each other.
\<close>

lemma fseid_lt_both_ways:
  assumes "fseid_seid a = fseid_seid b" and "fseid_v4 a" and "\<not> fseid_v4 b"
    and "fseid_v6 a = fseid_v6 b"
    and "s6_half (fseid_ipv6_address a) 0 < s6_half (fseid_ipv6_address b) 0"
  shows "fseid_lt a b \<and> fseid_lt b a"
  using assms by (simp add: fseid_lt_def Let_def)

lemma fseid_lt_both_ways_witness:
  "fseid_lt (fseid0\<lparr>fseid_v4 := True, fseid_v6 := True\<rparr>)
     (fseid0\<lparr>fseid_v6 := True, fseid_ipv6_address := 1\<rparr>) \<and>
   fseid_lt (fseid0\<lparr>fseid_v6 := True, fseid_ipv6_address := 1\<rparr>)
     (fseid0\<lparr>fseid_v4 := True, fseid_v6 := True\<rparr>)"
proof -
  have "s6_half 0 0 < s6_half 1 0"
    by code_simp
  then show ?thesis
    using fseid_lt_both_ways [of "fseid0\<lparr>fseid_v4 := True, fseid_v6 := True\<rparr>"
        "fseid0\<lparr>fseid_v6 := True, fseid_ipv6_address := 1\<rparr>"]
    by (simp add: fseid0_def)
qed

end
