(* ===== verification/Ies_Container.thy ===== *)
theory Ies_Container
  imports Pfcp_Conversion
begin

text \<open>
  The class \<^verbatim>\<open>pfcp_ies_container\<close> of \<^verbatim>\<open>msg_pfcp.hpp\<close>, from which groups and messages inherit.  It has an overload of \<^verbatim>\<open>get\<close>
  and one of \<^verbatim>\<open>set\<close> for every type that a container may hold; unless a class overrides it, an overload throws and names
  the type of the element.  The tables list the overloads in the order of the source, each with the number that its exception
  carries.  Overloads are selected by the static type of the argument, which is given by its name here.
\<close>

section \<open>Overloads\<close>

definition overloads_1 :: "(string \<times> u16) list" where
  "overloads_1 =
     [(''create_pdr'', 1),
      (''pdi'', 2),
      (''create_far'', 3),
      (''forwarding_parameters'', 4),
      (''duplicating_parameters'', 5),
      (''create_urr'', 6),
      (''create_qer'', 7),
      (''created_pdr'', 8),
      (''update_pdr'', 9),
      (''update_far'', 10),
      (''update_forwarding_parameters'', 11),
      (''update_bar_within_pfcp_session_modification_request'', 86),
      (''update_bar_within_pfcp_session_report_response'', 12),
      (''update_urr'', 13),
      (''update_qer'', 14),
      (''remove_pdr'', 15)]"

definition overloads_2 :: "(string \<times> u16) list" where
  "overloads_2 =
     [(''remove_far'', 16),
      (''remove_urr'', 17),
      (''remove_qer'', 18),
      (''cause_t'', 19),
      (''source_interface_t'', 20),
      (''fteid_t'', 21),
      (''network_instance_t'', 22),
      (''sdf_filter_t'', 23),
      (''application_id_t'', 24),
      (''gate_status_t'', 25),
      (''mbr_t'', 26),
      (''gbr_t'', 27),
      (''qer_correlation_id_t'', 28),
      (''precedence_t'', 29),
      (''transport_level_marking_t'', 30),
      (''volume_threshold_t'', 31),
      (''time_threshold_t'', 32)]"

definition overloads_3 :: "(string \<times> u16) list" where
  "overloads_3 =
     [(''monitoring_time_t'', 33),
      (''subsequent_volume_threshold_t'', 34),
      (''subsequent_time_threshold_t'', 35),
      (''inactivity_detection_time_t'', 36),
      (''reporting_triggers_t'', 37),
      (''redirect_information_t'', 38),
      (''report_type_t'', 39),
      (''offending_ie_t'', 40),
      (''forwarding_policy_t'', 41),
      (''destination_interface_t'', 42),
      (''up_function_features_s'', 43),
      (''apply_action_t'', 44),
      (''downlink_data_service_information_t'', 45),
      (''downlink_data_notification_delay_t'', 46),
      (''dl_buffering_duration_t'', 47),
      (''dl_buffering_suggested_packet_count_t'', 48)]"

definition overloads_4 :: "(string \<times> u16) list" where
  "overloads_4 =
     [(''pfcpsmreq_flags_t'', 49),
      (''pfcpsrrsp_flags_t'', 50),
      (''load_control_information'', 51),
      (''sequence_number_t'', 52),
      (''metric_t'', 53),
      (''overload_control_information'', 54),
      (''timer_t'', 55),
      (''pdr_id_t'', 56),
      (''fseid_t'', 57),
      (''application_ids_pfds'', 58),
      (''pfd'', 59),
      (''node_id_t'', 60),
      (''pfd_contents_t'', 61),
      (''measurement_method_t'', 62),
      (''usage_report_trigger_t'', 63),
      (''measurement_period_t'', 64),
      (''fq_csid_t'', 65),
      (''volume_measurement_t'', 66)]"

definition overloads_5 :: "(string \<times> u16) list" where
  "overloads_5 =
     [(''duration_measurement_t'', 67),
      (''application_detection_information'', 68),
      (''time_of_first_packet_t'', 69),
      (''time_of_last_packet_t'', 70),
      (''quota_holding_time_t'', 71),
      (''dropped_dl_traffic_threshold_t'', 72),
      (''volume_quota_t'', 73),
      (''time_quota_t'', 74),
      (''start_time_t'', 75),
      (''end_time_t'', 76),
      (''query_urr'', 77),
      (''usage_report_within_pfcp_session_modification_response'', 78),
      (''usage_report_within_pfcp_session_deletion_response'', 79),
      (''usage_report_within_pfcp_session_report_request'', 80),
      (''urr_id_t'', 81)]"

definition overloads_6 :: "(string \<times> u16) list" where
  "overloads_6 =
     [(''linked_urr_id_t'', 82),
      (''downlink_data_report'', 83),
      (''outer_header_creation_t'', 84),
      (''create_bar'', 85),
      (''remove_bar'', 87),
      (''bar_id_t'', 88),
      (''cp_function_features_t'', 89),
      (''usage_information_t'', 90),
      (''application_instance_id_t'', 91),
      (''flow_information_t'', 92),
      (''ue_ip_address_t'', 93),
      (''packet_rate_t'', 94),
      (''outer_header_removal_t'', 95),
      (''recovery_time_stamp_t'', 96),
      (''dl_flow_level_marking_t'', 97),
      (''header_enrichment_t'', 98)]"

definition overloads_7 :: "(string \<times> u16) list" where
  "overloads_7 =
     [(''error_indication_report'', 99),
      (''measurement_information_t'', 100),
      (''node_report_type_t'', 101),
      (''user_plane_path_failure_report'', 102),
      (''remote_gtp_u_peer_t'', 103),
      (''ur_seqn_t'', 104),
      (''update_duplicating_parameters'', 105),
      (''activate_predefined_rules_t'', 106),
      (''deactivate_predefined_rules_t'', 107),
      (''far_id_t'', 108),
      (''qer_id_t'', 109),
      (''oci_flags_t'', 110),
      (''pfcp_association_release_request_t'', 111),
      (''graceful_release_period_t'', 112),
      (''pdn_type_t'', 113),
      (''failed_rule_id_t'', 114),
      (''time_quota_mechanism_t'', 115)]"

definition overloads_8 :: "(string \<times> u16) list" where
  "overloads_8 =
     [(''user_plane_ip_resource_information_t'', 116),
      (''user_plane_inactivity_timer_t'', 117),
      (''aggregated_urrs'', 118),
      (''multiplier_t'', 119),
      (''aggregated_urr_id_t'', 120),
      (''subsequent_volume_quota_t'', 121),
      (''subsequent_time_quota_t'', 122),
      (''rqi_t'', 123),
      (''qfi_t'', 124),
      (''query_urr_reference_t'', 125),
      (''additional_usage_reports_information_t'', 126),
      (''create_traffic_endpoint'', 127),
      (''created_traffic_endpoint'', 128),
      (''update_traffic_endpoint'', 129),
      (''remove_traffic_endpoint'', 130),
      (''traffic_endpoint_id_t'', 131),
      (''ethernet_packet_filter'', 132)]"

definition overloads_9 :: "(string \<times> u16) list" where
  "overloads_9 =
     [(''mac_address_t'', 133),
      (''c_tag_t'', 134),
      (''s_tag_t'', 135),
      (''ethertype_t'', 136),
      (''proxying_t'', 137),
      (''ethernet_filter_id_t'', 138),
      (''ethernet_filter_properties_t'', 139),
      (''suggested_buffering_packets_count_t'', 140),
      (''user_id_t'', 141),
      (''ethernet_pdu_session_information_t'', 142),
      (''ethernet_traffic_information'', 143),
      (''mac_addresses_detected_t'', 144),
      (''mac_addresses_removed_t'', 145),
      (''ethernet_inactivity_timer_t'', 146),
      (''additional_monitoring_time'', 147),
      (''event_information'', 148),
      (''event_reporting'', 149)]"

definition overloads_10 :: "(string \<times> u16) list" where
  "overloads_10 =
     [(''event_id_t'', 150),
      (''event_threshold_t'', 151),
      (''trace_information_t'', 152),
      (''framed_route_t'', 153),
      (''framed_routing_t'', 154),
      (''framed_ipv6_route_t'', 155)]"

definition overloads :: "(string \<times> u16) list" where
  "overloads = overloads_1 @ overloads_2 @ overloads_3 @ overloads_4 @ overloads_5 @ overloads_6 @ overloads_7 @ overloads_8 @ overloads_9 @ overloads_10"

text \<open>The result of a call on a class that does not override the overload; \<open>None\<close> where there is no overload for the type.\<close>

definition base_get :: "string \<Rightarrow> pfcp_exn option" where
  "base_get ty = map_option Illegal_ie (map_of overloads ty)"

definition base_set :: "string \<Rightarrow> pfcp_exn option" where
  "base_set ty = map_option Illegal_ie (map_of overloads ty)"

section \<open>Properties\<close>

lemmas overloads_defs = overloads_def overloads_1_def overloads_2_def overloads_3_def overloads_4_def overloads_5_def overloads_6_def overloads_7_def overloads_8_def overloads_9_def overloads_10_def

text \<open>The overloads are complete: every element of the standard, from 1 to 155, has one of each, and none has two.\<close>

lemma overload_numbers: "sort (map (\<lambda>p. uint (snd p)) overloads) = [1..155]"
  by code_simp

lemma distinct_overload_numbers: "distinct (map snd overloads)"
proof -
  have "distinct (sort (map (\<lambda>p. uint (snd p)) overloads))"
    unfolding overload_numbers by simp
  then have "distinct (map (\<lambda>p. uint (snd p)) overloads)" by simp
  then show ?thesis
    by (simp add: distinct_map inj_on_def)
qed

lemma overload_unique:
  assumes "1 \<le> n" and "n \<le> 155"
  shows "\<exists>!ty. (ty, n) \<in> set overloads"
proof -
  have "set (map (\<lambda>p. uint (snd p)) overloads) = {1..155}"
    using arg_cong [OF overload_numbers, of set] by simp
  moreover have "uint n \<in> {1..155}"
    using assms by (simp add: word_le_def)
  ultimately have "uint n \<in> set (map (\<lambda>p. uint (snd p)) overloads)" by simp
  then obtain ty where "(ty, n) \<in> set overloads" by (auto dest: word_uint_eqI)
  then show ?thesis
    using distinct_overload_numbers by (intro ex1I [of _ ty]) (force simp: distinct_map inj_on_def)+
qed

text \<open>An exception names the type it was thrown for.\<close>

lemma base_get_injective:
  assumes "base_get a = Some e" and "base_get b = Some e"
  shows "a = b"
proof -
  obtain c where "e = Illegal_ie c" "(a, c) \<in> set overloads" "(b, c) \<in> set overloads"
    using assms by (auto simp: base_get_def dest: map_of_SomeD)
  then show ?thesis
    using distinct_overload_numbers by (force simp: distinct_map inj_on_def)
qed

lemma base_set_get: "base_set ty = base_get ty"
  by (simp add: base_set_def base_get_def)

text \<open>The conversion of received elements throws one of these exceptions.\<close>

lemma core_ie_type_listed: "ucast (core_ie_type v) \<in> set (map snd overloads)"
  by (cases v) (simp_all add: overloads_defs)

end
