(* ===== verification/Ie_Defaults.thy ===== *)
theory Ie_Defaults
  imports Pfcp_Ie
begin

text \<open>
  The constructors without arguments of the element classes of \<^verbatim>\<open>src/oai/pfcp/3gpp_29.244.hpp\<close>.  Each gives every
  member a value and declares a length.  For every class the bytes that such an object writes are
  compared with the length it declares.
\<close>

section \<open>Constructors\<close>

definition default_cause_ie :: pfcp_cause_ie where
  "default_cause_ie =
     \<lparr>cause_ie_tlv = tlv_set_length 1 (tlv_of_type PFCP_IE_CAUSE),
      cause_ie_cause_value = 0\<rparr>"

definition default_source_interface_ie :: pfcp_source_interface_ie where
  "default_source_interface_ie =
     \<lparr>source_interface_ie_tlv = tlv_set_length 1 (tlv_of_type PFCP_IE_SOURCE_INTERFACE),
      source_interface_ie_interface_value = 255\<rparr>"

definition default_fteid_ie :: pfcp_fteid_ie where
  "default_fteid_ie =
     \<lparr>fteid_ie_tlv = tlv_set_length 1 (tlv_of_type PFCP_IE_F_TEID),
      fteid_ie_u1 = 0,
      fteid_ie_teid = 0,
      fteid_ie_ipv4_address = 0,
      fteid_ie_ipv6_address = 0,
      fteid_ie_choose_id = 0\<rparr>"

definition default_network_instance_ie :: pfcp_network_instance_ie where
  "default_network_instance_ie =
     \<lparr>network_instance_ie_tlv = tlv_set_length 0 (tlv_of_type PFCP_IE_NETWORK_INSTANCE),
      network_instance_ie_network_instance = []\<rparr>"

definition default_sdf_filter_ie :: pfcp_sdf_filter_ie where
  "default_sdf_filter_ie =
     \<lparr>sdf_filter_ie_tlv = tlv_set_length 2 (tlv_of_type PFCP_IE_SDF_FILTER),
      sdf_filter_ie_u1 = 0,
      sdf_filter_ie_length_of_flow_description = 0,
      sdf_filter_ie_flow_description = [],
      sdf_filter_ie_tos_traffic_class = [],
      sdf_filter_ie_security_parameter_index = [],
      sdf_filter_ie_flow_label = [],
      sdf_filter_ie_sdf_filter_id = 0\<rparr>"

definition default_application_id_ie :: pfcp_application_id_ie where
  "default_application_id_ie =
     \<lparr>application_id_ie_tlv = tlv_set_length 0 (tlv_of_type PFCP_IE_APPLICATION_ID),
      application_id_ie_application_id = []\<rparr>"

definition default_gate_status_ie :: pfcp_gate_status_ie where
  "default_gate_status_ie =
     \<lparr>gate_status_ie_tlv = tlv_set_length 1 (tlv_of_type PFCP_IE_GATE_STATUS),
      gate_status_ie_u1 = 0\<rparr>"

definition default_mbr_ie :: pfcp_mbr_ie where
  "default_mbr_ie =
     \<lparr>mbr_ie_tlv = tlv_set_length 10 (tlv_of_type PFCP_IE_MBR),
      mbr_ie_ul_mbr = replicate 5 0,
      mbr_ie_dl_mbr = replicate 5 0\<rparr>"

definition default_gbr_ie :: pfcp_gbr_ie where
  "default_gbr_ie =
     \<lparr>gbr_ie_tlv = tlv_set_length 10 (tlv_of_type PFCP_IE_GBR),
      gbr_ie_ul_gbr = replicate 5 0,
      gbr_ie_dl_gbr = replicate 5 0\<rparr>"

definition default_qer_correlation_id_ie :: pfcp_qer_correlation_id_ie where
  "default_qer_correlation_id_ie =
     \<lparr>qer_correlation_id_ie_tlv = tlv_set_length 4 (tlv_of_type PFCP_IE_QER_CORRELATION_ID),
      qer_correlation_id_ie_qer_correlation_id = 0\<rparr>"

definition default_precedence_ie :: pfcp_precedence_ie where
  "default_precedence_ie =
     \<lparr>precedence_ie_tlv = tlv_set_length 4 (tlv_of_type PFCP_IE_PRECEDENCE),
      precedence_ie_precedence = 0\<rparr>"

definition default_transport_level_marking_ie :: pfcp_transport_level_marking_ie where
  "default_transport_level_marking_ie =
     \<lparr>transport_level_marking_ie_tlv = tlv_set_length 0 (tlv_of_type PFCP_IE_TRANSPORT_LEVEL_MARKING),
      transport_level_marking_ie_transport_level_marking = []\<rparr>"

definition default_volume_threshold_ie :: pfcp_volume_threshold_ie where
  "default_volume_threshold_ie =
     \<lparr>volume_threshold_ie_tlv = tlv_set_length 1 (tlv_of_type PFCP_IE_VOLUME_THRESHOLD),
      volume_threshold_ie_u1 = 0,
      volume_threshold_ie_total_volume = 0,
      volume_threshold_ie_uplink_volume = 0,
      volume_threshold_ie_downlink_volume = 0\<rparr>"

definition default_time_threshold_ie :: pfcp_time_threshold_ie where
  "default_time_threshold_ie =
     \<lparr>time_threshold_ie_tlv = tlv_set_length 4 (tlv_of_type PFCP_IE_TIME_THRESHOLD),
      time_threshold_ie_time_threshold = 0\<rparr>"

definition default_monitoring_time_ie :: pfcp_monitoring_time_ie where
  "default_monitoring_time_ie =
     \<lparr>monitoring_time_ie_tlv = tlv_set_length 4 (tlv_of_type PFCP_IE_MONITORING_TIME),
      monitoring_time_ie_monitoring_time = 0\<rparr>"

definition default_subsequent_volume_threshold_ie :: pfcp_subsequent_volume_threshold_ie where
  "default_subsequent_volume_threshold_ie =
     \<lparr>subsequent_volume_threshold_ie_tlv = tlv_set_length 1 (tlv_of_type PFCP_IE_SUBSEQUENT_VOLUME_THRESHOLD),
      subsequent_volume_threshold_ie_u1 = 0,
      subsequent_volume_threshold_ie_total_volume = 0,
      subsequent_volume_threshold_ie_uplink_volume = 0,
      subsequent_volume_threshold_ie_downlink_volume = 0\<rparr>"

definition default_subsequent_time_threshold_ie :: pfcp_subsequent_time_threshold_ie where
  "default_subsequent_time_threshold_ie =
     \<lparr>subsequent_time_threshold_ie_tlv = tlv_set_length 4 (tlv_of_type PFCP_IE_SUBSEQUENT_TIME_THRESHOLD),
      subsequent_time_threshold_ie_subsequent_time_threshold = 0\<rparr>"

definition default_inactivity_detection_time_ie :: pfcp_inactivity_detection_time_ie where
  "default_inactivity_detection_time_ie =
     \<lparr>inactivity_detection_time_ie_tlv = tlv_set_length 4 (tlv_of_type PFCP_IE_INACTIVITY_DETECTION_TIME),
      inactivity_detection_time_ie_inactivity_detection_time = 0\<rparr>"

definition default_reporting_triggers_ie :: pfcp_reporting_triggers_ie where
  "default_reporting_triggers_ie =
     \<lparr>reporting_triggers_ie_tlv = tlv_set_length 2 (tlv_of_type PFCP_IE_REPORTING_TRIGGERS),
      reporting_triggers_ie_u1 = 0,
      reporting_triggers_ie_u2 = 0\<rparr>"

definition default_report_type_ie :: pfcp_report_type_ie where
  "default_report_type_ie =
     \<lparr>report_type_ie_tlv = tlv_set_length 1 (tlv_of_type PFCP_IE_REPORT_TYPE),
      report_type_ie_u1 = 0\<rparr>"

definition default_offending_ie_ie :: pfcp_offending_ie_ie where
  "default_offending_ie_ie =
     \<lparr>offending_ie_ie_tlv = tlv_set_length 2 (tlv_of_type PFCP_IE_OFFENDING_IE),
      offending_ie_ie_type_of_the_offending_ie = 0\<rparr>"

definition default_forwarding_policy_ie :: pfcp_forwarding_policy_ie where
  "default_forwarding_policy_ie =
     \<lparr>forwarding_policy_ie_tlv = tlv_set_length 1 (tlv_of_type PFCP_IE_FORWARDING_POLICY),
      forwarding_policy_ie_identifier_length = 0,
      forwarding_policy_ie_identifier = []\<rparr>"

definition default_destination_interface_ie :: pfcp_destination_interface_ie where
  "default_destination_interface_ie =
     \<lparr>destination_interface_ie_tlv = tlv_set_length 1 (tlv_of_type PFCP_IE_DESTINATION_INTERFACE),
      destination_interface_ie_interface_value = 255\<rparr>"

definition default_up_function_features_ie :: pfcp_up_function_features_ie where
  "default_up_function_features_ie =
     \<lparr>up_function_features_ie_tlv = tlv_set_length 2 (tlv_of_type PFCP_IE_UP_FUNCTION_FEATURES),
      up_function_features_ie_u1 = 0,
      up_function_features_ie_u2 = 0\<rparr>"

definition default_apply_action_ie :: pfcp_apply_action_ie where
  "default_apply_action_ie =
     \<lparr>apply_action_ie_tlv = tlv_set_length 1 (tlv_of_type PFCP_IE_APPLY_ACTION),
      apply_action_ie_u1 = 0\<rparr>"

definition default_pdr_id_ie :: pfcp_pdr_id_ie where
  "default_pdr_id_ie =
     \<lparr>pdr_id_ie_tlv = tlv_set_length 2 (tlv_of_type PFCP_IE_PACKET_DETECTION_RULE_ID),
      pdr_id_ie_rule_id = 0\<rparr>"

definition default_f_seid_ie :: pfcp_f_seid_ie where
  "default_f_seid_ie =
     \<lparr>f_seid_ie_tlv = tlv_set_length 9 (tlv_of_type PFCP_IE_F_SEID),
      f_seid_ie_u1 = 0,
      f_seid_ie_seid = 0,
      f_seid_ie_ipv4_address = 0,
      f_seid_ie_ipv6_address = 0\<rparr>"

definition default_node_id_ie :: pfcp_node_id_ie where
  "default_node_id_ie =
     \<lparr>node_id_ie_tlv = tlv_set_length 1 (tlv_of_type PFCP_IE_NODE_ID),
      node_id_ie_u1 = 0,
      node_id_ie_ipv4_address = 0,
      node_id_ie_ipv6_address = 0,
      node_id_ie_fqdn = []\<rparr>"

definition default_urr_id_ie :: pfcp_urr_id_ie where
  "default_urr_id_ie =
     \<lparr>urr_id_ie_tlv = tlv_set_length 4 (tlv_of_type PFCP_IE_URR_ID),
      urr_id_ie_urr_id = 0\<rparr>"

definition default_outer_header_creation_ie :: pfcp_outer_header_creation_ie where
  "default_outer_header_creation_ie =
     \<lparr>outer_header_creation_ie_tlv = tlv_set_length 0 (tlv_of_type PFCP_IE_OUTER_HEADER_CREATION),
      outer_header_creation_ie_description = 0,
      outer_header_creation_ie_teid = 0,
      outer_header_creation_ie_ipv4_address = 0,
      outer_header_creation_ie_ipv6_address = 0,
      outer_header_creation_ie_port_number = 0\<rparr>"

definition default_bar_id_ie :: pfcp_bar_id_ie where
  "default_bar_id_ie =
     \<lparr>bar_id_ie_tlv = tlv_set_length 1 (tlv_of_type PFCP_IE_BAR_ID),
      bar_id_ie_bar_id = 0\<rparr>"

definition default_cp_function_features_ie :: pfcp_cp_function_features_ie where
  "default_cp_function_features_ie =
     \<lparr>cp_function_features_ie_tlv = tlv_set_length 1 (tlv_of_type PFCP_IE_CP_FUNCTION_FEATURES),
      cp_function_features_ie_u1 = 0\<rparr>"

definition default_ue_ip_address_ie :: pfcp_ue_ip_address_ie where
  "default_ue_ip_address_ie =
     \<lparr>ue_ip_address_ie_tlv = tlv_set_length 1 (tlv_of_type PFCP_IE_UE_IP_ADDRESS),
      ue_ip_address_ie_u1 = 0,
      ue_ip_address_ie_ipv4_address = 0,
      ue_ip_address_ie_ipv6_address = 0,
      ue_ip_address_ie_ipv6_prefix_delegation_bits = 0\<rparr>"

definition default_outer_header_removal_ie :: pfcp_outer_header_removal_ie where
  "default_outer_header_removal_ie =
     \<lparr>outer_header_removal_ie_tlv = tlv_set_length 1 (tlv_of_type PFCP_IE_OUTER_HEADER_REMOVAL),
      outer_header_removal_ie_outer_header_removal_description = 0\<rparr>"

definition default_recovery_time_stamp_ie :: pfcp_recovery_time_stamp_ie where
  "default_recovery_time_stamp_ie =
     \<lparr>recovery_time_stamp_ie_tlv = tlv_set_length 4 (tlv_of_type PFCP_IE_RECOVERY_TIME_STAMP),
      recovery_time_stamp_ie_recovery_time_stamp = 0\<rparr>"

definition default_activate_predefined_rules_ie :: pfcp_activate_predefined_rules_ie where
  "default_activate_predefined_rules_ie =
     \<lparr>activate_predefined_rules_ie_tlv = tlv_set_length 0 (tlv_of_type PFCP_IE_ACTIVATE_PREDEFINED_RULES),
      activate_predefined_rules_ie_predefined_rules_name = []\<rparr>"

definition default_deactivate_predefined_rules_ie :: pfcp_deactivate_predefined_rules_ie where
  "default_deactivate_predefined_rules_ie =
     \<lparr>deactivate_predefined_rules_ie_tlv = tlv_set_length 0 (tlv_of_type PFCP_IE_DEACTIVATE_PREDEFINED_RULES),
      deactivate_predefined_rules_ie_predefined_rules_name = []\<rparr>"

definition default_far_id_ie :: pfcp_far_id_ie where
  "default_far_id_ie =
     \<lparr>far_id_ie_tlv = tlv_set_length 4 (tlv_of_type PFCP_IE_FAR_ID),
      far_id_ie_far_id = 0\<rparr>"

definition default_qer_id_ie :: pfcp_qer_id_ie where
  "default_qer_id_ie =
     \<lparr>qer_id_ie_tlv = tlv_set_length 4 (tlv_of_type PFCP_IE_QER_ID),
      qer_id_ie_qer_id = 0\<rparr>"

definition default_failed_rule_id_ie :: pfcp_failed_rule_id_ie where
  "default_failed_rule_id_ie =
     \<lparr>failed_rule_id_ie_tlv = tlv_set_length 0 (tlv_of_type PFCP_IE_FAILED_RULE_ID),
      failed_rule_id_ie_u1 = 0,
      failed_rule_id_ie_rule_id_value = 0\<rparr>"

definition default_upip_ie :: pfcp_user_plane_ip_resource_information_ie where
  "default_upip_ie =
     \<lparr>upip_ie_tlv = tlv_set_length 1 (tlv_of_type PFCP_IE_USER_PLANE_IP_RESOURCE_INFORMATION),
      upip_ie_u1 = 0,
      upip_ie_teid_range = 0,
      upip_ie_ipv4_address = 0,
      upip_ie_ipv6_address = 0,
      upip_ie_network_instance = 0,
      upip_ie_u2 = 0\<rparr>"

definition default_user_plane_inactivity_timer_ie :: pfcp_user_plane_inactivity_timer_ie where
  "default_user_plane_inactivity_timer_ie =
     \<lparr>user_plane_inactivity_timer_ie_tlv = tlv_set_length 4 (tlv_of_type PFCP_IE_USER_PLANE_INACTIVITY_TIMER),
      user_plane_inactivity_timer_ie_user_plane_inactivity_timer = 0\<rparr>"

definition default_qfi_ie :: pfcp_qfi_ie where
  "default_qfi_ie =
     \<lparr>qfi_ie_tlv = tlv_set_length 1 (tlv_of_type PFCP_IE_QFI),
      qfi_ie_u1 = 0\<rparr>"

definition default_user_id_ie :: pfcp_user_id_ie where
  "default_user_id_ie =
     \<lparr>user_id_ie_tlv = tlv_set_length 1 (tlv_of_type PFCP_IE_USER_ID),
      user_id_ie_u1 = 0,
      user_id_ie_length_of_imsi = 0,
      user_id_ie_imsi = bcd0,
      user_id_ie_length_of_imei = 0,
      user_id_ie_imei = [],
      user_id_ie_length_of_msisdn = 0,
      user_id_ie_msisdn = bcd0,
      user_id_ie_length_of_nai = 0,
      user_id_ie_nai = []\<rparr>"

definition default_node_report_type_ie :: pfcp_node_report_type_ie where
  "default_node_report_type_ie =
     \<lparr>node_report_type_ie_tlv = tlv_set_length 1 (tlv_of_type PFCP_IE_NODE_REPORT_TYPE),
      node_report_type_ie_u1 = 0\<rparr>"

section \<open>The declared length of a fresh element\<close>

definition default_ies :: "simple_ie list" where
  "default_ies =
     [IE_cause default_cause_ie,
      IE_source_interface default_source_interface_ie,
      IE_fteid default_fteid_ie,
      IE_network_instance default_network_instance_ie,
      IE_sdf_filter default_sdf_filter_ie,
      IE_application_id default_application_id_ie,
      IE_gate_status default_gate_status_ie,
      IE_mbr default_mbr_ie,
      IE_gbr default_gbr_ie,
      IE_qer_correlation_id default_qer_correlation_id_ie,
      IE_precedence default_precedence_ie,
      IE_transport_level_marking default_transport_level_marking_ie,
      IE_volume_threshold default_volume_threshold_ie,
      IE_time_threshold default_time_threshold_ie,
      IE_monitoring_time default_monitoring_time_ie,
      IE_subsequent_volume_threshold default_subsequent_volume_threshold_ie,
      IE_subsequent_time_threshold default_subsequent_time_threshold_ie,
      IE_inactivity_detection_time default_inactivity_detection_time_ie,
      IE_reporting_triggers default_reporting_triggers_ie,
      IE_report_type default_report_type_ie,
      IE_offending_ie default_offending_ie_ie,
      IE_forwarding_policy default_forwarding_policy_ie,
      IE_destination_interface default_destination_interface_ie,
      IE_up_function_features default_up_function_features_ie,
      IE_apply_action default_apply_action_ie,
      IE_pdr_id default_pdr_id_ie,
      IE_f_seid default_f_seid_ie,
      IE_node_id default_node_id_ie,
      IE_urr_id default_urr_id_ie,
      IE_outer_header_creation default_outer_header_creation_ie,
      IE_bar_id default_bar_id_ie,
      IE_cp_function_features default_cp_function_features_ie,
      IE_ue_ip_address default_ue_ip_address_ie,
      IE_outer_header_removal default_outer_header_removal_ie,
      IE_recovery_time_stamp default_recovery_time_stamp_ie,
      IE_activate_predefined_rules default_activate_predefined_rules_ie,
      IE_deactivate_predefined_rules default_deactivate_predefined_rules_ie,
      IE_far_id default_far_id_ie,
      IE_qer_id default_qer_id_ie,
      IE_failed_rule_id default_failed_rule_id_ie,
      IE_upip default_upip_ie,
      IE_user_plane_inactivity_timer default_user_plane_inactivity_timer_ie,
      IE_qfi default_qfi_ie,
      IE_user_id default_user_id_ie,
      IE_node_report_type default_node_report_type_ie]"

text \<open>Writing an element succeeds, and the length in its header is the number of bytes behind it.\<close>

definition declares_length :: "u8 \<Rightarrow> simple_ie \<Rightarrow> bool" where
  "declares_length j s =
     (case simple_dump j s of
        Some (Inr s', bs) \<Rightarrow> length bs = 4 + unat (tlv_length (simple_tlv s'))
      | _ \<Rightarrow> False)"

lemmas default_ie_defs =
  default_cause_ie_def default_source_interface_ie_def default_fteid_ie_def default_network_instance_ie_def
  default_sdf_filter_ie_def default_application_id_ie_def default_gate_status_ie_def default_mbr_ie_def
  default_gbr_ie_def default_qer_correlation_id_ie_def default_precedence_ie_def
  default_transport_level_marking_ie_def default_volume_threshold_ie_def default_time_threshold_ie_def
  default_monitoring_time_ie_def default_subsequent_volume_threshold_ie_def
  default_subsequent_time_threshold_ie_def default_inactivity_detection_time_ie_def
  default_reporting_triggers_ie_def default_report_type_ie_def default_offending_ie_ie_def
  default_forwarding_policy_ie_def default_destination_interface_ie_def default_up_function_features_ie_def
  default_apply_action_ie_def default_pdr_id_ie_def default_f_seid_ie_def default_node_id_ie_def
  default_urr_id_ie_def default_outer_header_creation_ie_def default_bar_id_ie_def
  default_cp_function_features_ie_def default_ue_ip_address_ie_def default_outer_header_removal_ie_def
  default_recovery_time_stamp_ie_def default_activate_predefined_rules_ie_def
  default_deactivate_predefined_rules_ie_def default_far_id_ie_def default_qer_id_ie_def
  default_failed_rule_id_ie_def default_upip_ie_def default_user_plane_inactivity_timer_ie_def
  default_qfi_ie_def default_user_id_ie_def default_node_report_type_ie_def

lemmas element_defs =
  activate_predefined_rules_ie_defs application_id_ie_defs apply_action_ie_defs bar_id_ie_defs cause_ie_defs
  cp_function_features_ie_defs deactivate_predefined_rules_ie_defs destination_interface_ie_defs
  f_seid_ie_defs failed_rule_id_ie_defs far_id_ie_defs forwarding_policy_ie_defs fteid_ie_defs
  gate_status_ie_defs gbr_ie_defs inactivity_detection_time_ie_defs mbr_ie_defs monitoring_time_ie_defs
  network_instance_ie_defs node_id_ie_defs offending_ie_ie_defs outer_header_creation_ie_defs
  outer_header_removal_ie_defs pdr_id_ie_defs precedence_ie_defs qer_correlation_id_ie_defs qer_id_ie_defs
  qfi_ie_defs recovery_time_stamp_ie_defs report_type_ie_defs reporting_triggers_ie_defs sdf_filter_ie_defs
  source_interface_ie_defs subsequent_time_threshold_ie_defs subsequent_volume_threshold_ie_defs
  time_threshold_ie_defs transport_level_marking_ie_defs ue_ip_address_ie_defs up_function_features_ie_defs
  upip_ie_defs urr_id_ie_defs user_plane_inactivity_timer_ie_defs volume_threshold_ie_defs

lemma declares_length_default:
  "declares_length j (IE_cause default_cause_ie)"
  "declares_length j (IE_source_interface default_source_interface_ie)"
  "declares_length j (IE_fteid default_fteid_ie)"
  "declares_length j (IE_network_instance default_network_instance_ie)"
  "declares_length j (IE_sdf_filter default_sdf_filter_ie)"
  "declares_length j (IE_application_id default_application_id_ie)"
  "declares_length j (IE_gate_status default_gate_status_ie)"
  "declares_length j (IE_mbr default_mbr_ie)"
  "declares_length j (IE_gbr default_gbr_ie)"
  "declares_length j (IE_qer_correlation_id default_qer_correlation_id_ie)"
  "declares_length j (IE_precedence default_precedence_ie)"
  "\<not> declares_length j (IE_transport_level_marking default_transport_level_marking_ie)"
  "declares_length j (IE_volume_threshold default_volume_threshold_ie)"
  "declares_length j (IE_time_threshold default_time_threshold_ie)"
  "declares_length j (IE_monitoring_time default_monitoring_time_ie)"
  "declares_length j (IE_subsequent_volume_threshold default_subsequent_volume_threshold_ie)"
  "declares_length j (IE_subsequent_time_threshold default_subsequent_time_threshold_ie)"
  "declares_length j (IE_inactivity_detection_time default_inactivity_detection_time_ie)"
  "declares_length j (IE_reporting_triggers default_reporting_triggers_ie)"
  "declares_length j (IE_report_type default_report_type_ie)"
  "declares_length j (IE_offending_ie default_offending_ie_ie)"
  "declares_length j (IE_forwarding_policy default_forwarding_policy_ie)"
  "declares_length j (IE_destination_interface default_destination_interface_ie)"
  "declares_length j (IE_up_function_features default_up_function_features_ie)"
  "declares_length j (IE_apply_action default_apply_action_ie)"
  "declares_length j (IE_pdr_id default_pdr_id_ie)"
  "declares_length j (IE_f_seid default_f_seid_ie)"
  "\<not> declares_length j (IE_node_id default_node_id_ie)"
  "declares_length j (IE_urr_id default_urr_id_ie)"
  "\<not> declares_length j (IE_outer_header_creation default_outer_header_creation_ie)"
  "declares_length j (IE_bar_id default_bar_id_ie)"
  "declares_length j (IE_cp_function_features default_cp_function_features_ie)"
  "declares_length j (IE_ue_ip_address default_ue_ip_address_ie)"
  "declares_length j (IE_outer_header_removal default_outer_header_removal_ie)"
  "declares_length j (IE_recovery_time_stamp default_recovery_time_stamp_ie)"
  "declares_length j (IE_activate_predefined_rules default_activate_predefined_rules_ie)"
  "declares_length j (IE_deactivate_predefined_rules default_deactivate_predefined_rules_ie)"
  "declares_length j (IE_far_id default_far_id_ie)"
  "declares_length j (IE_qer_id default_qer_id_ie)"
  "\<not> declares_length j (IE_failed_rule_id default_failed_rule_id_ie)"
  "\<not> declares_length j (IE_upip default_upip_ie)"
  "declares_length j (IE_user_plane_inactivity_timer default_user_plane_inactivity_timer_ie)"
  "declares_length j (IE_qfi default_qfi_ie)"
  "declares_length j (IE_user_id default_user_id_ie)"
  "declares_length j (IE_node_report_type default_node_report_type_ie)"
  by (simp_all add: declares_length_def default_ie_defs element_defs user_id_ie_dump_to_def node_report_type_ie_dump_to_def
      tlv_defs tlv_dump_to_def Let_def)

text \<open>
  Every class whose fresh objects are not written consistently: a transport level marking and a failed rule id
  cannot be written at all, and a node id, an outer header creation and a user plane IP resource information write more bytes
  than they declare, so that a reader loses the place of the next element.
\<close>

lemma default_ies_declare_length:
  "filter (\<lambda>s. \<not> declares_length j s) default_ies =
     [IE_transport_level_marking default_transport_level_marking_ie,
      IE_node_id default_node_id_ie,
      IE_outer_header_creation default_outer_header_creation_ie,
      IE_failed_rule_id default_failed_rule_id_ie,
      IE_upip default_upip_ie]"
  by (simp add: default_ies_def declares_length_default)

end
