(* ===== verification/Conversions.thy ===== *)
theory Conversions
  imports Upf_Prelude
begin

text \<open>
  The text conversions of \<^verbatim>\<open>src/oai/common/utils/conversions.cpp\<close> (bytes to and from hexadecimal text, the
  decimal text of country and network codes, addresses as text) and the trimming functions of
  \<^verbatim>\<open>string.cpp\<close>.  Text is a list of bytes, and a C string its bytes without the terminating zero.  An
  access outside of a buffer is \<open>None\<close>.  The functions \<^verbatim>\<open>inet_ntop\<close> and \<^verbatim>\<open>inet_pton\<close> of the C
  library are parameters.
\<close>

section \<open>Characters\<close>

abbreviation chars :: "string \<Rightarrow> bytes" where
  "chars s \<equiv> map (\<lambda>c. of_nat (of_char c)) s"

definition isspace :: "u8 \<Rightarrow> bool" where
  "isspace c \<longleftrightarrow> c = 32 \<or> 9 \<le> c \<and> c \<le> 13"

definition hex_to_ascii_table :: bytes where
  "hex_to_ascii_table = chars ''0123456789abcdef''"

definition ascii_to_hex_table :: "int list" where
  "ascii_to_hex_table =
     replicate 48 (-1) @ [0, 1, 2, 3, 4, 5, 6, 7, 8, 9] @ replicate 7 (-1) @ [10, 11, 12, 13, 14, 15] @
     replicate 26 (-1) @ [10, 11, 12, 13, 14, 15] @ replicate 153 (-1)"

section \<open>Hexadecimal text\<close>

fun hexa_to_ascii_loop :: "bytes \<Rightarrow> nat \<Rightarrow> nat \<Rightarrow> bytes \<Rightarrow> bytes option" where
  "hexa_to_ascii_loop from i 0 to = Some to"
| "hexa_to_ascii_loop from i (Suc n) to =
     (if i < length from \<and> 2 * i + 1 < length to
      then let upper = drop_bit 4 (from ! i AND 0xf0);
               lower = from ! i AND 0x0f
           in hexa_to_ascii_loop from (i + 1) n
                (to[2 * i := hex_to_ascii_table ! unat upper, 2 * i + 1 := hex_to_ascii_table ! unat lower])
      else None)"

definition hexa_to_ascii :: "bytes \<Rightarrow> bytes \<Rightarrow> nat \<Rightarrow> bytes option" where
  "hexa_to_ascii from to len = hexa_to_ascii_loop from 0 len to"

text \<open>\<open>skip_space\<close> is \<^verbatim>\<open>while (*hex && isspace(*hex)) hex++\<close>; a zero byte ends the text.\<close>

fun skip_space :: "bytes \<Rightarrow> bytes" where
  "skip_space [] = []"
| "skip_space (c # h) = (if c = 0 then [] else if isspace c then skip_space h else c # h)"

lemma length_skip_space: "length (skip_space h) \<le> length h"
  by (induction h) auto

lemma skip_space_shorter: "skip_space h = c # h' \<Longrightarrow> length h' < length h"
  using length_skip_space [of h] by simp

function ascii_to_hex_loop :: "bytes \<Rightarrow> nat \<Rightarrow> bytes \<Rightarrow> (int \<times> bytes) option" where
  "ascii_to_hex_loop dst i hex =
     (case skip_space hex of
        [] \<Rightarrow> Some (1, dst)
      | c # hex1 \<Rightarrow>
          let high = ascii_to_hex_table ! unat c
          in if high < 0 then Some (0, dst)
             else case skip_space hex1 of
               [] \<Rightarrow> Some (0, dst)
             | c' # hex2 \<Rightarrow>
                 let low = ascii_to_hex_table ! unat c'
                 in if low < 0 then Some (0, dst)
                    else if i < length dst
                    then ascii_to_hex_loop (dst[i := word_of_int (push_bit 4 high OR low)]) (i + 1) hex2
                    else None)"
  by auto
termination
  by (relation "measure (\<lambda>(dst, i, hex). length hex)") (auto dest!: skip_space_shorter)

declare ascii_to_hex_loop.simps [simp del]

definition ascii_to_hex :: "bytes \<Rightarrow> bytes \<Rightarrow> (int \<times> bytes) option" where
  "ascii_to_hex dst h = ascii_to_hex_loop dst 0 h"

section \<open>Decimal text\<close>

function to_string :: "nat \<Rightarrow> bytes" where
  "to_string n = (if n < 10 then [of_nat (48 + n)] else to_string (n div 10) @ [of_nat (48 + n mod 10)])"
  by auto
termination by (relation "measure id") simp_all

declare to_string.simps [simp del]

definition mccToString :: "u8 \<Rightarrow> u8 \<Rightarrow> u8 \<Rightarrow> bytes" where
  "mccToString d1 d2 d3 =
     to_string (unat (of_nat (unat d1 * 100 + unat d2 * 10 + unat d3) :: u16))"

definition mncToString :: "u8 \<Rightarrow> u8 \<Rightarrow> u8 \<Rightarrow> bytes" where
  "mncToString d1 d2 d3 =
     to_string (unat (if d3 = 0x0F
       then (of_nat (unat d1 * 10 + unat d2) :: u16)
       else of_nat (unat d1 * 100 + unat d2 * 10 + unat d3)))"

section \<open>Addresses\<close>

text \<open>
  \<open>pton\<close> is \<^verbatim>\<open>inet_pton (AF_INET, ...)\<close>: the four bytes it writes, or \<open>None\<close> when it writes none;
  \<open>ntop\<close> is \<^verbatim>\<open>inet_ntop\<close> with its family fixed: the text, or \<open>None\<close> for the null pointer.
\<close>

definition fromString :: "(bytes \<Rightarrow> bytes option) \<Rightarrow> bytes \<Rightarrow> bytes" where
  "fromString pton addr4 = (case pton addr4 of None \<Rightarrow> replicate 4 0 | Some a \<Rightarrow> a)"

definition toString_in_addr :: "(bytes \<Rightarrow> bytes option) \<Rightarrow> bytes \<Rightarrow> bytes" where
  "toString_in_addr ntop inaddr = (case ntop inaddr of None \<Rightarrow> chars ''Error in_addr'' | Some str \<Rightarrow> str)"

definition toString_in6_addr :: "(bytes \<Rightarrow> bytes option) \<Rightarrow> bytes \<Rightarrow> bytes" where
  "toString_in6_addr ntop6 in6addr = (case ntop6 in6addr of None \<Rightarrow> chars ''Error in6_addr'' | Some str \<Rightarrow> str)"

section \<open>Trimming\<close>

definition ltrim :: "bytes \<Rightarrow> bytes" where
  "ltrim s = dropWhile isspace s"

definition rtrim :: "bytes \<Rightarrow> bytes" where
  "rtrim s = rev (dropWhile isspace (rev s))"

definition trim :: "bytes \<Rightarrow> bytes" where
  "trim s = ltrim (rtrim s)"

section \<open>The hexadecimal tables\<close>

lemma ascii_to_hex_table_nth:
  assumes "k < 256"
  shows "ascii_to_hex_table ! k =
     (if 48 \<le> k \<and> k < 58 then int k - 48
      else if 65 \<le> k \<and> k < 71 then int k - 55
      else if 97 \<le> k \<and> k < 103 then int k - 87 else -1)" (is "_ = ?f k")
proof -
  have t: "ascii_to_hex_table = map ?f [0..<256]" by code_simp
  show ?thesis
    unfolding t by (subst nth_map) (use assms in simp_all)
qed

lemma ascii_to_hex_table_range: "k < 256 \<Longrightarrow> -1 \<le> ascii_to_hex_table ! k \<and> ascii_to_hex_table ! k < 16"
  by (auto simp: ascii_to_hex_table_nth)

definition hex_value :: "u8 \<Rightarrow> int" where
  "hex_value c = ascii_to_hex_table ! unat c"

lemma hex_value_table:
  assumes "k < 16"
  shows "hex_value (hex_to_ascii_table ! k) = int k" "\<not> isspace (hex_to_ascii_table ! k)" "hex_to_ascii_table ! k \<noteq> 0"
proof -
  have "k \<in> {0,1,2,3,4,5,6,7,8,9,10,11,12,13,14,15}"
    using assms by (auto simp: eval_nat_numeral less_Suc_eq)
  then have "hex_value (hex_to_ascii_table ! k) = int k \<and> \<not> isspace (hex_to_ascii_table ! k) \<and> hex_to_ascii_table ! k \<noteq> 0"
    by (elim insertE) (simp_all add: hex_value_def ascii_to_hex_table_nth hex_to_ascii_table_def isspace_def)
  then show "hex_value (hex_to_ascii_table ! k) = int k" "\<not> isspace (hex_to_ascii_table ! k)" "hex_to_ascii_table ! k \<noteq> 0"
    by simp_all
qed


lemma nibbles: "drop_bit 4 (b AND 0xf0) = drop_bit 4 b" "b AND 0x0f = take_bit 4 b" for b :: u8
proof -
  have m: "x AND 0x0f = take_bit 4 x" for x :: u8
    by (simp add: take_bit_eq_mask mask_eq_exp_minus_1)
  show "b AND 0x0f = take_bit 4 b" by (rule m)
  have "drop_bit 4 (b AND 0xf0) = drop_bit 4 b AND 0x0f" by simp
  also have "\<dots> = drop_bit 4 b"
    unfolding m by (rule bit_word_eqI) (auto simp: bit_simps dest: bit_imp_le_length)
  finally show "drop_bit 4 (b AND 0xf0) = drop_bit 4 b" .
qed

lemma hex_digits_byte:
  fixes b :: u8
  shows "word_of_int (push_bit 4 (uint (drop_bit 4 b)) OR uint (take_bit 4 b)) = b"
proof (rule bit_word_eqI)
  fix i assume "i < LENGTH(8)"
  then show "bit (word_of_int (push_bit 4 (uint (drop_bit 4 b)) OR uint (take_bit 4 b)) :: u8) i = bit b i"
    by (auto simp: bit_simps)
qed

lemma nibble_less: "unat (drop_bit 4 b) < 16" "unat (take_bit 4 b) < 16" for b :: u8
proof -
  show "unat (take_bit 4 b) < 16"
    using take_bit_nat_less_exp [of 4 "unat b"] by (simp add: unsigned_take_bit_eq)
  have "unat b < 256" using unsigned_less [of b] by simp
  then show "unat (drop_bit 4 b) < 16" by (simp add: drop_bit_eq_div unat_div)
qed

section \<open>Specification of the hexadecimal conversions\<close>

definition hex_pair :: "u8 \<Rightarrow> bytes" where
  "hex_pair b = [hex_to_ascii_table ! unat (drop_bit 4 (b AND 0xf0)), hex_to_ascii_table ! unat (b AND 0x0f)]"

definition hex_text :: "bytes \<Rightarrow> bytes" where
  "hex_text h = filter (\<lambda>c. \<not> isspace c) (takeWhile (\<lambda>c. c \<noteq> 0) h)"

fun hex_pairs :: "bytes \<Rightarrow> bytes option" where
  "hex_pairs [] = Some []"
| "hex_pairs [c] = None"
| "hex_pairs (c # c' # t) =
     (if hex_value c < 0 \<or> hex_value c' < 0 then None
      else map_option (Cons (word_of_int (push_bit 4 (hex_value c) OR hex_value c'))) (hex_pairs t))"

lemma skip_space_hex_text:
  "hex_text h = (case skip_space h of [] \<Rightarrow> [] | c # h' \<Rightarrow> c # hex_text h')"
  by (induction h) (auto simp: hex_text_def)

lemma hexa_to_ascii_loop_spec:
  assumes "i + n \<le> length from" and "2 * (i + n) \<le> length to"
  shows "hexa_to_ascii_loop from i n to =
    Some (take (2 * i) to @ concat (map hex_pair (take n (drop i from))) @ drop (2 * (i + n)) to)"
  using assms
proof (induction n arbitrary: i to)
  case 0
  then show ?case by simp
next
  case (Suc n)
  let ?b = "from ! i"
  let ?to = "to[2 * i := hex_pair ?b ! 0, Suc (2 * i) := hex_pair ?b ! 1]"
  have "take (2 * (i + 1)) ?to = take (2 * i) to @ hex_pair ?b"
    using Suc.prems by (simp add: take_Suc_conv_app_nth take_update_swap list_update_append hex_pair_def)
  moreover have "drop (2 * (i + 1 + n)) ?to = drop (2 * (i + Suc n)) to"
    by simp
  moreover have "take (Suc n) (drop i from) = ?b # take n (drop (i + 1) from)"
    using Suc.prems by (simp add: Cons_nth_drop_Suc [symmetric])
  ultimately show ?case
    using Suc.IH [of "i + 1" ?to] Suc.prems by (simp add: Let_def hex_pair_def)
qed


lemma ascii_to_hex_loop_spec:
  assumes "length h \<le> 2 * (length dst - i)"
  shows "case hex_pairs (hex_text h) of
      None \<Rightarrow> \<exists>d. ascii_to_hex_loop dst i h = Some (0, d)
    | Some bs \<Rightarrow> ascii_to_hex_loop dst i h = Some (1, take i dst @ bs @ drop (i + length bs) dst)"
  using assms
proof (induction dst i h rule: ascii_to_hex_loop.induct)
  case (1 dst i h)
  show ?case
  proof (cases "skip_space h")
    case Nil
    then show ?thesis by (simp add: skip_space_hex_text [of h] ascii_to_hex_loop.simps)
  next
    case (Cons c h1)
    show ?thesis
    proof (cases "skip_space h1")
      case Nil
      then show ?thesis
        using Cons by (simp add: skip_space_hex_text [of h] skip_space_hex_text [of h1] ascii_to_hex_loop.simps Let_def)
    next
      case c': (Cons c' h2)
      let ?b = "word_of_int (push_bit 4 (hex_value c) OR hex_value c') :: u8"
      have ht: "hex_text h = c # c' # hex_text h2"
        using Cons c' by (simp add: skip_space_hex_text [of h] skip_space_hex_text [of h1])
      have len: "length h2 + 2 \<le> length h"
        using skip_space_shorter [OF Cons] skip_space_shorter [OF c'] by simp
      then have i: "i < length dst" using 1(2) by linarith
      show ?thesis
      proof (cases "hex_value c < 0 \<or> hex_value c' < 0")
        case True
        then show ?thesis
          using Cons c' ht by (auto simp: ascii_to_hex_loop.simps [of dst i h] hex_value_def Let_def)
      next
        case False
        then have step: "ascii_to_hex_loop dst i h = ascii_to_hex_loop (dst[i := ?b]) (i + 1) h2"
          using Cons c' i by (subst ascii_to_hex_loop.simps) (simp add: hex_value_def Let_def)
        have len2: "length h2 \<le> 2 * (length (dst[i := x]) - (i + 1))" for x using len 1(2) by simp
        have "take (i + 1) (dst[i := ?b]) = take i dst @ [?b]"
          using i by (simp add: take_Suc_conv_app_nth)
        moreover have "case hex_pairs (hex_text h2) of
            None \<Rightarrow> \<exists>d. ascii_to_hex_loop (dst[i := ?b]) (i + 1) h2 = Some (0, d)
          | Some bs \<Rightarrow> ascii_to_hex_loop (dst[i := ?b]) (i + 1) h2 =
              Some (1, take (i + 1) (dst[i := ?b]) @ bs @ drop (i + 1 + length bs) (dst[i := ?b]))"
          using 1(1) [OF Cons refl _ c' refl _ i len2] False unfolding hex_value_def by blast
        ultimately show ?thesis
          unfolding step ht using False by (auto split: option.splits)
      qed
    qed
  qed
qed

lemma hex_text_table:
  assumes "set t \<subseteq> set hex_to_ascii_table"
  shows "hex_text (t @ 0 # rest) = t" "hex_text t = t"
proof -
  have "\<not> isspace c \<and> c \<noteq> 0" if c: "c \<in> set t" for c
  proof -
    obtain k where "k < length hex_to_ascii_table" "c = hex_to_ascii_table ! k"
      using subsetD [OF assms c] by (auto simp: in_set_conv_nth)
    then show ?thesis using hex_value_table by (simp add: hex_to_ascii_table_def)
  qed
  then show "hex_text (t @ 0 # rest) = t" "hex_text t = t"
    unfolding hex_text_def by (induction t) auto
qed

lemma hex_pair_nibbles: "hex_pair b = [hex_to_ascii_table ! unat (drop_bit 4 b), hex_to_ascii_table ! unat (take_bit 4 b)]"
  by (simp only: hex_pair_def nibbles)

lemma hex_pair_table: "set (concat (map hex_pair bs)) \<subseteq> set hex_to_ascii_table"
proof -
  have "length hex_to_ascii_table = 16" by (simp add: hex_to_ascii_table_def)
  then show ?thesis
    using nibble_less by (auto simp: hex_pair_nibbles)
qed

lemma hex_pairs_hex_pair: "hex_pairs (concat (map hex_pair bs)) = Some bs"
  by (induction bs) (simp_all add: hex_pair_nibbles hex_value_table nibble_less hex_digits_byte)

section \<open>Properties\<close>

text \<open>
  The bytes that are written as hexadecimal text are read back: the text is exactly two digits for
  each byte, the rest of its buffer is unchanged, and with the terminating zero behind it the
  reader accepts it and stores the same bytes.
\<close>

lemma hexa_ascii_roundtrip:
  assumes "2 * length from \<le> length to" and "length from \<le> length dst"
  shows "\<exists>text. hexa_to_ascii from to (length from) = Some (text @ drop (2 * length from) to) \<and>
    length text = 2 * length from \<and>
    ascii_to_hex dst text = Some (1, from @ drop (length from) dst)"
proof -
  let ?t = "concat (map hex_pair from)"
  have len: "length ?t = 2 * length from"
    by (induction "from") (simp_all add: hex_pair_def)
  have "hexa_to_ascii from to (length from) = Some (?t @ drop (2 * length from) to)"
    using hexa_to_ascii_loop_spec [of 0 "length from" "from" to] assms by (simp add: hexa_to_ascii_def)
  moreover have "ascii_to_hex dst ?t = Some (1, from @ drop (length from) dst)"
    using ascii_to_hex_loop_spec [of ?t dst 0] assms len hex_pairs_hex_pair [of "from"]
    by (simp add: ascii_to_hex_def hex_text_table(2) [OF hex_pair_table])
  ultimately show ?thesis using len by blast
qed

lemma hexa_ascii_roundtrip_witness:
  "\<exists>text. hexa_to_ascii [0x0a, 0xf7] (replicate 5 0) 2 = Some (text @ [0]) \<and>
    length text = 4 \<and> ascii_to_hex (replicate 3 1) text = Some (1, [0x0a, 0xf7, 1])"
  using hexa_ascii_roundtrip [of "[0x0a, 0xf7]" "replicate 5 0" "replicate 3 1"]
  by (simp add: numeral_eq_Suc)

text \<open>
  For a buffer of half the length of the text, the reader never writes outside of it and decides
  exactly whether the text, up to its end and without the white space, is a sequence of pairs of
  hexadecimal digits: it then stores these bytes and returns 1, and returns 0 otherwise.
\<close>

lemma ascii_to_hex_decides:
  assumes "length h \<le> 2 * length dst"
  shows "case hex_pairs (hex_text h) of
      None \<Rightarrow> \<exists>d. ascii_to_hex dst h = Some (0, d)
    | Some bs \<Rightarrow> ascii_to_hex dst h = Some (1, bs @ drop (length bs) dst)"
  using ascii_to_hex_loop_spec [of h dst 0] assms by (simp add: ascii_to_hex_def split: option.splits)

lemma ascii_to_hex_decides_witness:
  "ascii_to_hex [0, 0] (chars ''0 A'') = Some (1, [10, 0]) \<and> (\<exists>d. ascii_to_hex [0, 0] (chars ''0A1'') = Some (0, d))"
proof -
  have "hex_pairs (hex_text (chars ''0 A'')) = Some [10]" "hex_pairs (hex_text (chars ''0A1'')) = None"
    by code_simp+
  then show ?thesis
    using ascii_to_hex_decides [of "chars ''0 A''" "[0, 0]"] ascii_to_hex_decides [of "chars ''0A1''" "[0, 0]"] by simp
qed

text \<open>
  The network codes 01 (two digits) and 001 (three digits) have the same text, and leading zeros are
  lost.
\<close>

lemma mncToString_ambiguous: "mncToString 0 1 0x0F = mncToString 0 0 1" "mccToString 0 0 1 = chars ''1''"
  by (simp_all add: mncToString_def mccToString_def to_string.simps)

text \<open>Trimming twice is trimming once, and what is left neither begins nor ends with white space.\<close>

lemma rtrim_self: "s \<noteq> [] \<Longrightarrow> \<not> isspace (last s) \<Longrightarrow> rtrim s = s"
proof -
  assume "s \<noteq> []" "\<not> isspace (last s)"
  then have "dropWhile isspace (rev s) = rev s" by (simp add: dropWhile_eq_self_iff hd_rev)
  then show ?thesis by (simp add: rtrim_def)
qed

lemma trim_ends:
  assumes "trim s \<noteq> []"
  shows "\<not> isspace (hd (trim s)) \<and> \<not> isspace (last (trim s))"
proof -
  have "\<not> isspace (hd (trim s))"
    using assms unfolding trim_def ltrim_def by (rule hd_dropWhile)
  moreover have "last (trim s) = last (rtrim s)"
    using assms unfolding trim_def ltrim_def by (metis last_append takeWhile_dropWhile_id)
  moreover have "rtrim s \<noteq> []" using assms by (auto simp: trim_def ltrim_def)
  then have "\<not> isspace (last (rtrim s))"
    unfolding rtrim_def by (simp add: last_rev hd_dropWhile)
  ultimately show ?thesis by simp
qed

lemma trim_idem: "trim (trim s) = trim s"
proof (cases "trim s")
  case (Cons c t)
  then have "rtrim (trim s) = trim s"
    using trim_ends [of s] rtrim_self by simp
  moreover have "ltrim (trim s) = trim s"
    using trim_ends [of s] Cons by (simp add: ltrim_def)
  ultimately show ?thesis by (simp only: trim_def [of "trim s"])
next
  case Nil
  show ?thesis unfolding Nil by (simp add: trim_def ltrim_def rtrim_def)
qed

end
