(* ===== verification/Core_Conversions.thy ===== *)
theory Core_Conversions
  imports Pfcp_Keys Conversions
begin

text \<open>
  The conversions between PFCP types and the types of the core network,
  \<^verbatim>\<open>src/oai/common/utils/3gpp_conversions.cpp\<close>, and the socket addresses of \<^verbatim>\<open>src/oai/common/endpoint.hpp\<close>.  A
  \<^verbatim>\<open>sockaddr_storage\<close> is its 128 bytes; \<^verbatim>\<open>sockaddr_in\<close> and \<^verbatim>\<open>sockaddr_in6\<close> are views of it (family at offset 0,
  port at 2, the address at 4 or 8).
\<close>

section \<open>Core types\<close>

definition PDN_TYPE_E_IPV4 :: u8 where "PDN_TYPE_E_IPV4 = 1"
definition PDN_TYPE_E_IPV6 :: u8 where "PDN_TYPE_E_IPV6 = 2"
definition PDN_TYPE_E_IPV4V6 :: u8 where "PDN_TYPE_E_IPV4V6 = 3"
definition PDN_TYPE_E_NON_IP :: u8 where "PDN_TYPE_E_NON_IP = 4"

lemmas pdn_types = PDN_TYPE_E_IPV4_def PDN_TYPE_E_IPV6_def PDN_TYPE_E_IPV4V6_def PDN_TYPE_E_NON_IP_def

record paa_t =
  paa_pdn_type :: u8
  paa_ipv6_prefix_length :: u8
  paa_ipv6_address :: in6_addr
  paa_ipv4_address :: u32

definition is_ip_assigned :: "paa_t \<Rightarrow> bool" where
  "is_ip_assigned p =
     (let v6 = (s6_addr32 (paa_ipv6_address p) 0 OR s6_addr32 (paa_ipv6_address p) 1 OR
                s6_addr32 (paa_ipv6_address p) 2 OR s6_addr32 (paa_ipv6_address p) 3) \<noteq> 0
      in if paa_pdn_type p = PDN_TYPE_E_IPV4 then paa_ipv4_address p \<noteq> 0
         else if paa_pdn_type p = PDN_TYPE_E_IPV6 then v6
         else if paa_pdn_type p = PDN_TYPE_E_IPV4V6 then (if paa_ipv4_address p \<noteq> 0 then True else v6)
         else False)"

record core_fteid_t =
  cf_v4 :: bool
  cf_v6 :: bool
  cf_interface_type :: "6 word"
  cf_teid_gre_key :: u32
  cf_ipv4_address :: u32
  cf_ipv6_address :: in6_addr

definition core_fteid_less :: "core_fteid_t \<Rightarrow> core_fteid_t \<Rightarrow> bool" where
  "core_fteid_less a f \<longleftrightarrow>
     cf_teid_gre_key a < cf_teid_gre_key f \<or> cf_ipv4_address a < cf_ipv4_address f \<or>
     cf_interface_type a < cf_interface_type f \<or> cf_v4 a = cf_v4 f \<or> cf_v6 a = cf_v6 f \<or>
     s6_addr32 (cf_ipv6_address a) 0 = s6_addr32 (cf_ipv6_address f) 0 \<or>
     s6_addr32 (cf_ipv6_address a) 1 = s6_addr32 (cf_ipv6_address f) 1 \<or>
     s6_addr32 (cf_ipv6_address a) 2 = s6_addr32 (cf_ipv6_address f) 2 \<or>
     s6_addr32 (cf_ipv6_address a) 3 = s6_addr32 (cf_ipv6_address f) 3"

definition core_fteid_eq :: "core_fteid_t \<Rightarrow> core_fteid_t \<Rightarrow> bool" where
  "core_fteid_eq a f \<longleftrightarrow>
     cf_teid_gre_key a = cf_teid_gre_key f \<and> cf_ipv4_address a = cf_ipv4_address f \<and>
     cf_interface_type a = cf_interface_type f \<and>
     s6_addr32 (cf_ipv6_address a) 0 = s6_addr32 (cf_ipv6_address f) 0 \<and>
     s6_addr32 (cf_ipv6_address a) 1 = s6_addr32 (cf_ipv6_address f) 1 \<and>
     s6_addr32 (cf_ipv6_address a) 2 = s6_addr32 (cf_ipv6_address f) 2 \<and>
     s6_addr32 (cf_ipv6_address a) 3 = s6_addr32 (cf_ipv6_address f) 3 \<and>
     cf_v4 a = cf_v4 f \<and> cf_v6 a = cf_v6 f"

definition core_fteid_is_zero :: "core_fteid_t \<Rightarrow> bool" where
  "core_fteid_is_zero f \<longleftrightarrow> \<not> cf_v4 f \<and> \<not> cf_v6 f"

text \<open>\<open>h\<close> is \<^verbatim>\<open>std::hash<uint32_t>\<close>.\<close>

definition core_fteid_hash :: "(u32 \<Rightarrow> u64) \<Rightarrow> core_fteid_t \<Rightarrow> u64" where
  "core_fteid_hash h k =
     (let h1 = h (ucast (cf_interface_type k));
          h2 = h (cf_teid_gre_key k) XOR h1;
          h2 = (if cf_v4 k then h2 XOR h (cf_ipv4_address k) else h2)
      in if cf_v6 k
         then h2 XOR h (s6_addr32 (cf_ipv6_address k) 0) XOR h (s6_addr32 (cf_ipv6_address k) 1)
                 XOR h (s6_addr32 (cf_ipv6_address k) 2) XOR h (s6_addr32 (cf_ipv6_address k) 3)
         else h2)"

record core_cause_t =
  cc_cause_value :: u8
  cc_pce :: bool
  cc_bce :: bool
  cc_cs :: bool
  cc_offending_ie_instance :: "4 word"
  cc_filler :: bool
  cc_offending_ie_type :: u8
  cc_offending_ie_length :: u16

record gtp_u_peer_address_t =
  peer_ipv4_address :: u32
  peer_ipv6_address :: in6_addr
  peer_is_v4 :: bool

section \<open>Conversions\<close>

definition pdn_ip_to_pfcp_ue_ip_address :: "u8 \<Rightarrow> u32 \<Rightarrow> in6_addr \<Rightarrow> ue_ip_address_t \<Rightarrow> ue_ip_address_t" where
  "pdn_ip_to_pfcp_ue_ip_address pdn_type ipv4_address ipv6_address ue =
     (if pdn_type = PDN_TYPE_E_IPV4 then ue\<lparr>ueip_v4 := True, ueip_ipv4_address := ipv4_address\<rparr>
      else if pdn_type = PDN_TYPE_E_IPV6 then ue\<lparr>ueip_v6 := True, ueip_ipv6_address := ipv6_address\<rparr>
      else if pdn_type = PDN_TYPE_E_IPV4V6
      then ue\<lparr>ueip_v4 := True, ueip_v6 := True, ueip_ipv4_address := ipv4_address, ueip_ipv6_address := ipv6_address\<rparr>
      else ue)"

definition paa_to_pfcp_ue_ip_address :: "paa_t \<Rightarrow> ue_ip_address_t \<Rightarrow> ue_ip_address_t" where
  "paa_to_pfcp_ue_ip_address paa ue =
     (if paa_pdn_type paa = PDN_TYPE_E_IPV4 then ue\<lparr>ueip_v4 := True, ueip_ipv4_address := paa_ipv4_address paa\<rparr>
      else if paa_pdn_type paa = PDN_TYPE_E_IPV6 then ue\<lparr>ueip_v6 := True, ueip_ipv6_address := paa_ipv6_address paa\<rparr>
      else if paa_pdn_type paa = PDN_TYPE_E_IPV4V6
      then ue\<lparr>ueip_v4 := True, ueip_v6 := True, ueip_ipv4_address := paa_ipv4_address paa,
              ueip_ipv6_address := paa_ipv6_address paa\<rparr>
      else ue)"

definition pfcp_to_core_fteid :: "fteid_t \<Rightarrow> core_fteid_t \<Rightarrow> core_fteid_t" where
  "pfcp_to_core_fteid pfteid fteid =
     fteid\<lparr>cf_v4 := fteid_v4 pfteid, cf_v6 := fteid_v6 pfteid, cf_ipv4_address := fteid_ipv4_address pfteid,
           cf_ipv6_address := fteid_ipv6_address pfteid, cf_teid_gre_key := fteid_teid pfteid\<rparr>"

definition pfcp_from_core_fteid :: "fteid_t \<Rightarrow> core_fteid_t \<Rightarrow> fteid_t" where
  "pfcp_from_core_fteid pfteid fteid =
     pfteid\<lparr>fteid_chid := False, fteid_ch := False, fteid_choose_id := 0,
            fteid_v4 := cf_v4 fteid, fteid_v6 := cf_v6 fteid, fteid_ipv4_address := cf_ipv4_address fteid,
            fteid_ipv6_address := cf_ipv6_address fteid, fteid_teid := cf_teid_gre_key fteid\<rparr>"

text \<open>
  The values of the two enumerations: PFCP causes on the left of the function, causes of the core network
  (16 accepted, 94 rejected, 72 system failure, 113 congestion) on the right.
\<close>

definition core_cause_value :: "u8 \<Rightarrow> u8" where
  "core_cause_value pc =
     (if pc = 1 then 16
      else if pc = 64 then 94
      else if pc \<in> {65, 66, 67, 68, 69, 70, 71, 72, 73} then 72
      else if pc = 74 then 113
      else 72)"

definition pfcp_cause_to_core_cause :: "cause_t \<Rightarrow> core_cause_t \<Rightarrow> core_cause_t" where
  "pfcp_cause_to_core_cause pc c = c\<lparr>cc_cause_value := core_cause_value pc\<rparr>"

section \<open>Socket addresses\<close>

definition AF_INET :: u16 where "AF_INET = 2"
definition AF_INET6 :: u16 where "AF_INET6 = 10"

record endpoint =
  addr_storage :: bytes
  addr_storage_len :: u32

definition new_endpoint :: endpoint where
  "new_endpoint = \<lparr>addr_storage = replicate 128 0, addr_storage_len = 128\<rparr>"

definition endpoint_copy :: "endpoint \<Rightarrow> endpoint" where
  "endpoint_copy e = \<lparr>addr_storage = addr_storage e, addr_storage_len = addr_storage_len e\<rparr>"

definition endpoint_of_storage :: "bytes \<Rightarrow> u32 \<Rightarrow> endpoint" where
  "endpoint_of_storage addr len = \<lparr>addr_storage = addr, addr_storage_len = len\<rparr>"

text \<open>\<open>raw\<close> is the memory of the object before the constructor writes into it; nothing clears it.\<close>

definition endpoint_of_in_addr :: "bytes \<Rightarrow> u32 \<Rightarrow> u16 \<Rightarrow> endpoint" where
  "endpoint_of_in_addr raw addr port =
     \<lparr>addr_storage = put_bytes 4 (le_bytes 4 addr) (put_bytes 2 (le_bytes 2 (swap16 port))
        (put_bytes 0 (le_bytes 2 AF_INET) raw)),
      addr_storage_len = 16\<rparr>"

definition endpoint_of_in6_addr :: "bytes \<Rightarrow> in6_addr \<Rightarrow> u16 \<Rightarrow> endpoint" where
  "endpoint_of_in6_addr raw addr6 port =
     \<lparr>addr_storage = put_bytes 24 (le_bytes 4 (0 :: u32)) (put_bytes 8 (le_bytes 16 addr6)
        (put_bytes 4 (le_bytes 4 (0 :: u32)) (put_bytes 2 (le_bytes 2 (swap16 port))
          (put_bytes 0 (le_bytes 2 AF_INET6) raw)))),
      addr_storage_len = 28\<rparr>"

definition endpoint_family :: "endpoint \<Rightarrow> u16" where
  "endpoint_family e = get_u16 0 (addr_storage e)"

definition endpoint_port :: "endpoint \<Rightarrow> u16" where
  "endpoint_port e = swap16 (get_u16 2 (addr_storage e))"

definition sin_addr :: "endpoint \<Rightarrow> u32" where
  "sin_addr e = get_u32 4 (addr_storage e)"

definition sin6_addr :: "endpoint \<Rightarrow> in6_addr" where
  "sin6_addr e = le_word (get_bytes 8 16 (addr_storage e))"

definition endpoint_toString ::
    "(bytes \<Rightarrow> bytes option) \<Rightarrow> (bytes \<Rightarrow> bytes option) \<Rightarrow> endpoint \<Rightarrow> bytes" where
  "endpoint_toString ntop ntop6 e =
     (if endpoint_family e = AF_INET
      then toString_in_addr ntop (le_bytes 4 (sin_addr e)) @ chars '':'' @ to_string (unat (endpoint_port e))
      else if endpoint_family e = AF_INET6
      then toString_in6_addr ntop6 (le_bytes 16 (sin6_addr e)) @ chars '':'' @ to_string (unat (endpoint_port e))
      else [])"

definition endpoint_to_gtp_u_peer_address ::
    "endpoint \<Rightarrow> gtp_u_peer_address_t \<Rightarrow> bool \<times> gtp_u_peer_address_t" where
  "endpoint_to_gtp_u_peer_address ep peer =
     (if endpoint_family ep = AF_INET then (True, peer\<lparr>peer_ipv4_address := sin_addr ep, peer_is_v4 := True\<rparr>)
      else if endpoint_family ep = AF_INET6 then (True, peer\<lparr>peer_ipv6_address := sin6_addr ep, peer_is_v4 := False\<rparr>)
      else (False, peer))"

section \<open>Lemmas\<close>

lemma quarters:
  assumes "length xs = 16"
  shows "xs = get_bytes 0 4 xs @ get_bytes 4 4 xs @ get_bytes 8 4 xs @ get_bytes 12 4 xs"
proof -
  have "get_bytes 12 4 xs = drop 12 xs" using assms by (simp add: get_bytes_def)
  then show ?thesis
    using get_bytes_join [of 0 4 xs] get_bytes_join [of 4 4 xs] get_bytes_join [of 8 4 xs] by simp
qed

lemma quarters_eq:
  assumes "length xs = 16" and "length ys = 16" and "get_bytes 0 4 xs = get_bytes 0 4 ys"
    and "get_bytes 4 4 xs = get_bytes 4 4 ys" and "get_bytes 8 4 xs = get_bytes 8 4 ys"
    and "get_bytes 12 4 xs = get_bytes 12 4 ys"
  shows "xs = ys"
  using quarters [OF assms(1)] quarters [OF assms(2)] assms(3-6) by metis

lemma s6_addr32_inject:
  assumes "\<forall>j < 4. s6_addr32 a j = s6_addr32 b j"
  shows "a = b"
proof -
  have p: "get_bytes (4 * j) 4 (le_bytes 16 a) = get_bytes (4 * j) 4 (le_bytes 16 b)" if "j < 4" for j
  proof -
    have l: "4 * j + 4 \<le> length (le_bytes 16 a)" "4 * j + 4 \<le> length (le_bytes 16 b)" using that by simp_all
    have "le_word (get_bytes (4 * j) 4 (le_bytes 16 a)) = (le_word (get_bytes (4 * j) 4 (le_bytes 16 b)) :: u32)"
      using assms that by (simp add: s6_addr32_def)
    then have "le_bytes 4 (le_word (get_bytes (4 * j) 4 (le_bytes 16 a)) :: u32) =
        le_bytes 4 (le_word (get_bytes (4 * j) 4 (le_bytes 16 b)) :: u32)"
      by (simp only:)
    then show ?thesis
      using l by (simp del: le_bytes.simps le_word.simps)
  qed
  have "le_bytes 16 a = le_bytes 16 b"
    by (rule quarters_eq)
      (use p [of 0] p [of 1] p [of 2] p [of 3] in \<open>simp_all del: le_bytes.simps\<close>)
  then have "le_word (le_bytes 16 a) = (le_word (le_bytes 16 b) :: in6_addr)" by (simp only:)
  then show ?thesis by (simp del: le_bytes.simps le_word.simps)
qed

lemma paa_to_pfcp_pdn:
  "paa_to_pfcp_ue_ip_address paa ue =
     pdn_ip_to_pfcp_ue_ip_address (paa_pdn_type paa) (paa_ipv4_address paa) (paa_ipv6_address paa) ue"
  by (simp add: paa_to_pfcp_ue_ip_address_def pdn_ip_to_pfcp_ue_ip_address_def)

text \<open>
  There and back: a tunnel identifier of the core network loses nothing, one of PFCP its choice bits.
\<close>

lemma core_fteid_roundtrip: "pfcp_to_core_fteid (pfcp_from_core_fteid p f) f = f"
  by (simp add: pfcp_to_core_fteid_def pfcp_from_core_fteid_def)

lemma pfcp_fteid_roundtrip:
  "pfcp_from_core_fteid q (pfcp_to_core_fteid p f) = p\<lparr>fteid_chid := False, fteid_ch := False, fteid_choose_id := 0\<rparr>"
  by (simp add: pfcp_to_core_fteid_def pfcp_from_core_fteid_def)

lemma core_fteid_eq_iff: "core_fteid_eq a b \<longleftrightarrow> a = b"
proof
  assume eq: "core_fteid_eq a b"
  then have "cf_ipv6_address a = cf_ipv6_address b"
    by (intro s6_addr32_inject) (auto simp: core_fteid_eq_def numeral_eq_Suc less_Suc_eq)
  with eq show "a = b" by (simp add: core_fteid_eq_def)
qed (simp add: core_fteid_eq_def)

interpretation core_fteid_key: hashed_key core_fteid_eq "core_fteid_hash h"
  by unfold_locales (simp_all add: core_fteid_eq_iff)

text \<open>
  The comparison is no strict order: it holds of every identifier and itself, since it
  accepts equal members where smaller ones are meant.
\<close>

lemma core_fteid_less_refl: "core_fteid_less a a"
  by (simp add: core_fteid_less_def)

lemma core_cause_accepted_iff: "core_cause_value pc = 16 \<longleftrightarrow> pc = 1"
  by (auto simp: core_cause_value_def)

section \<open>Properties\<close>

text \<open>
  Whatever the memory of a new endpoint held before, it has the port and the address that it was made
  from, and it becomes that peer address; an endpoint without a family becomes none, and the
  conversion then changes nothing.
\<close>

lemma endpoint_peer_address:
  assumes "length raw = 128"
  shows "endpoint_port (endpoint_of_in_addr raw addr port) = port \<and>
    endpoint_port (endpoint_of_in6_addr raw addr6 port) = port \<and>
    endpoint_to_gtp_u_peer_address (endpoint_of_in_addr raw addr port) peer =
      (True, peer\<lparr>peer_ipv4_address := addr, peer_is_v4 := True\<rparr>) \<and>
    endpoint_to_gtp_u_peer_address (endpoint_of_in6_addr raw addr6 port) peer =
      (True, peer\<lparr>peer_ipv6_address := addr6, peer_is_v4 := False\<rparr>) \<and>
    endpoint_to_gtp_u_peer_address new_endpoint peer = (False, peer)"
proof -
  have "endpoint_family new_endpoint = 0" by code_simp
  then show ?thesis
    using assms
    by (simp add: endpoint_port_def endpoint_of_in_addr_def endpoint_of_in6_addr_def endpoint_to_gtp_u_peer_address_def
      endpoint_family_def sin_addr_def sin6_addr_def get_u16_def get_u32_def AF_INET_def AF_INET6_def
      del: le_bytes.simps le_word.simps replicate.simps)
qed

lemma endpoint_peer_address_witness:
  "endpoint_port (endpoint_of_in_addr (replicate 128 7) 0x0100007f 2152) = 2152 \<and>
   endpoint_to_gtp_u_peer_address (endpoint_of_in_addr (replicate 128 7) 0x0100007f 2152)
     \<lparr>peer_ipv4_address = 0, peer_ipv6_address = 0, peer_is_v4 = False\<rparr> =
   (True, \<lparr>peer_ipv4_address = 0x0100007f, peer_ipv6_address = 0, peer_is_v4 = True\<rparr>)"
proof -
  have "length (replicate 128 (7 :: u8)) = 128" by (rule length_replicate)
  from endpoint_peer_address [OF this, where addr = "0x0100007f" and port = 2152
      and peer = "\<lparr>peer_ipv4_address = 0, peer_ipv6_address = 0, peer_is_v4 = False\<rparr>"]
  show ?thesis by (simp del: replicate.simps)
qed

end
