(* ===== verification/Subscriber_Ids.thy ===== *)
theory Subscriber_Ids
  imports Core_Conversions Ie_Other
begin

text \<open>
  The identities of subscribers and the descriptive types of \<^verbatim>\<open>src/oai/common/3gpp_29.274.h\<close> that have operations:
  IMSI, MEI and MSISDN as binary coded digits with their text, number and increment, and the texts of
  PDN types, radio access types, bearer qualities, cells and tunnel endpoints.  Each of the three
  identities holds eight bytes, two digits in each, the first one in the lower half; an access outside of
  the eight bytes is \<open>None\<close>.
\<close>

section \<open>Identities\<close>

type_synonym imsi_t = bcd_t
type_synonym mei_t = bcd_t
type_synonym msisdn_t = bcd_t

definition new_imsi :: imsi_t where
  "new_imsi = \<lparr>bcd_b = replicate 8 0, bcd_num_digits = 0\<rparr>"

definition new_mei :: mei_t where
  "new_mei = \<lparr>bcd_b = replicate 8 0, bcd_num_digits = 0\<rparr>"

definition new_msisdn :: msisdn_t where
  "new_msisdn = \<lparr>bcd_b = replicate 8 0, bcd_num_digits = 0\<rparr>"

definition copy_imsi :: "imsi_t \<Rightarrow> imsi_t" where
  "copy_imsi i = \<lparr>bcd_b = bcd_b i, bcd_num_digits = bcd_num_digits i\<rparr>"

definition copy_mei :: "mei_t \<Rightarrow> mei_t" where
  "copy_mei i = \<lparr>bcd_b = bcd_b i, bcd_num_digits = bcd_num_digits i\<rparr>"

definition copy_msisdn :: "msisdn_t \<Rightarrow> msisdn_t" where
  "copy_msisdn i = \<lparr>bcd_b = bcd_b i, bcd_num_digits = bcd_num_digits i\<rparr>"

text \<open>The loops of the three \<^verbatim>\<open>toString\<close> are the same: two digits a turn, until one is above 9.\<close>

fun digits_loop :: "bytes \<Rightarrow> bytes" where
  "digits_loop [] = []"
| "digits_loop (b # bs) =
     (if b AND 0xf > 9 then []
      else to_string (unat (b AND 0xf)) @
        (if drop_bit 4 (b AND 0xf0) > 9 then []
         else to_string (unat (drop_bit 4 (b AND 0xf0))) @ digits_loop bs))"

definition imsi_toString :: "imsi_t \<Rightarrow> bytes" where
  "imsi_toString i = digits_loop (bcd_b i)"

definition mei_toString :: "mei_t \<Rightarrow> bytes" where
  "mei_toString i = digits_loop (bcd_b i)"

definition msisdn_toString :: "msisdn_t \<Rightarrow> bytes" where
  "msisdn_toString i = digits_loop (bcd_b i)"

fun imsi64_loop :: "bytes \<Rightarrow> u64 \<Rightarrow> u64" where
  "imsi64_loop [] imsi64 = imsi64"
| "imsi64_loop (b # bs) imsi64 =
     (let d2 = drop_bit 4 (b AND 0xf0); d1 = b AND 0x0f
      in if d1 < 10
         then let imsi64 = imsi64 * 10 + ucast d1
              in if d2 < 10 then imsi64_loop bs (imsi64 * 10 + ucast d2) else imsi64
         else imsi64)"

definition to_imsi64 :: "imsi_t \<Rightarrow> u64" where
  "to_imsi64 i = imsi64_loop (bcd_b i) 0"

text \<open>
  \<^verbatim>\<open>operator++\<close>.  The three loops differ in the index they start at and in the bound they test; \<open>lo < i\<close> is the
  test.  The index counts upwards, away from the digits that a carry belongs to.
\<close>

function increment_loop :: "nat \<Rightarrow> bytes \<Rightarrow> nat \<Rightarrow> bytes option" where
  "increment_loop lo u1 i =
     (if \<not> lo < i then Some u1
      else if length u1 \<le> i then None
      else let b = u1 ! i; d0 = b AND 0x0f; d1 = b AND 0xf0
           in if d0 \<le> 9 \<and> d0 + 1 \<le> 9 then Some (u1[i := (d0 + 1) OR d1])
              else let (d0, u1) = (if d0 \<le> 9 then (0, u1[i := 0 OR d1]) else (d0, u1))
                   in if d1 \<le> 9 \<and> d1 + 1 \<le> 9 then Some (u1[i := d0 OR (d1 + 1)])
                      else let u1 = (if d1 \<le> 9 then u1[i := d0 OR 0] else u1)
                           in increment_loop lo u1 (i + 1))"
  by auto
termination
  by (relation "measure (\<lambda>(lo, u1, i). length u1 - i)") (auto split: if_splits)

declare increment_loop.simps [simp del]

definition imsi_increment :: "imsi_t \<Rightarrow> imsi_t option" where
  "imsi_increment i = map_option (\<lambda>b. i\<lparr>bcd_b := b\<rparr>) (increment_loop 5 (bcd_b i) 7)"

definition mei_increment :: "mei_t \<Rightarrow> mei_t option" where
  "mei_increment i = map_option (\<lambda>b. i\<lparr>bcd_b := b\<rparr>) (increment_loop 0 (bcd_b i) 6)"

definition msisdn_increment :: "msisdn_t \<Rightarrow> msisdn_t option" where
  "msisdn_increment i = map_option (\<lambda>b. i\<lparr>bcd_b := b\<rparr>) (increment_loop 5 (bcd_b i) 7)"

section \<open>Bearers and access types\<close>

type_synonym ebi_t = u8

definition new_ebi :: ebi_t where
  "new_ebi = 0"

definition ebi_eq :: "ebi_t \<Rightarrow> ebi_t \<Rightarrow> bool" where
  "ebi_eq a rhs \<longleftrightarrow> a = rhs"

definition ebi_ne :: "ebi_t \<Rightarrow> ebi_t \<Rightarrow> bool" where
  "ebi_ne a rhs \<longleftrightarrow> \<not> a = rhs"

definition new_pdn_type :: u8 where
  "new_pdn_type = PDN_TYPE_E_IPV4"

definition pdn_type_e2str :: "bytes list" where
  "pdn_type_e2str = [chars ''Error'', chars ''IPV4'', chars ''IPV6'', chars ''IPV4V6'', chars ''NON_IP'']"

text \<open>\<^verbatim>\<open>std::vector::at\<close> throws outside of the vector, which is \<open>None\<close>.\<close>

definition pdn_type_toString :: "u8 \<Rightarrow> bytes option" where
  "pdn_type_toString t =
     (if unat t < length pdn_type_e2str then Some (pdn_type_e2str ! unat t) else None)"

record bearer_qos_t =
  bq_pci :: bool
  bq_pl :: "4 word"
  bq_pvi :: bool
  bq_label_qci :: u8
  bq_maximum_bit_rate_for_uplink :: u64
  bq_maximum_bit_rate_for_downlink :: u64
  bq_guaranted_bit_rate_for_uplink :: u64
  bq_guaranted_bit_rate_for_downlink :: u64

definition bearer_qos_eq :: "bearer_qos_t \<Rightarrow> bearer_qos_t \<Rightarrow> bool" where
  "bearer_qos_eq a q \<longleftrightarrow>
     bq_label_qci q = bq_label_qci a \<and> bq_pl q = bq_pl a \<and> bq_pvi q = bq_pvi a \<and> bq_pci q = bq_pci a"

definition bearer_qos_toString :: "bearer_qos_t \<Rightarrow> bytes" where
  "bearer_qos_toString q =
     chars ''MBR UL='' @ to_string (unat (bq_maximum_bit_rate_for_uplink q)) @
     chars '', MBR DL='' @ to_string (unat (bq_maximum_bit_rate_for_downlink q)) @
     chars '', GBR UL='' @ to_string (unat (bq_guaranted_bit_rate_for_uplink q)) @
     chars '', GBR DL='' @ to_string (unat (bq_guaranted_bit_rate_for_downlink q)) @
     chars '', PCI='' @ to_string (of_bool (bq_pci q)) @
     chars '', PL='' @ to_string (unat (bq_pl q)) @
     chars '', PVI='' @ to_string (of_bool (bq_pvi q)) @
     chars '', QCI='' @ to_string (unat (bq_label_qci q))"

definition new_rat_type :: u8 where
  "new_rat_type = 6"

definition rat_type_toString :: "u8 \<Rightarrow> bytes" where
  "rat_type_toString t =
     (if t = 6 then chars ''EUTRAN_WB_EUTRAN''
      else if t = 8 then chars ''EUTRAN_NB_IOT''
      else if t = 9 then chars ''LTE_M''
      else if t = 10 then chars ''NR''
      else if t = 7 then chars ''VIRTUAL''
      else if t = 0 then chars ''RESERVED''
      else if t = 1 then chars ''UTRAN''
      else if t = 2 then chars ''GERAN''
      else if t = 3 then chars ''WLAN''
      else if t = 4 then chars ''GAN''
      else if t = 5 then chars ''HSPA_EVOLUTION''
      else to_string (unat t))"

section \<open>Cells and tunnels\<close>

record ecgi_field_t =
  ecgi_mcc_digit_2 :: "4 word"
  ecgi_mcc_digit_1 :: "4 word"
  ecgi_mnc_digit_3 :: "4 word"
  ecgi_mcc_digit_3 :: "4 word"
  ecgi_mnc_digit_2 :: "4 word"
  ecgi_mnc_digit_1 :: "4 word"
  ecgi_spare :: "4 word"
  ecgi_eci :: "4 word"
  ecgi_e_utran_cell_identifier :: "u8 \<times> u8 \<times> u8"

definition ecgi_cell :: "ecgi_field_t \<Rightarrow> u32" where
  "ecgi_cell e =
     (case ecgi_e_utran_cell_identifier e of
        (c0, c1, c2) \<Rightarrow> push_bit 16 (ucast c0) OR push_bit 8 (ucast c1) OR ucast c2)"

definition ecgi_toString :: "ecgi_field_t \<Rightarrow> bytes" where
  "ecgi_toString e =
     chars ''mcc='' @ mccToString (ucast (ecgi_mcc_digit_1 e)) (ucast (ecgi_mcc_digit_2 e)) (ucast (ecgi_mcc_digit_3 e)) @
     chars '', MNC='' @ mncToString (ucast (ecgi_mnc_digit_1 e)) (ucast (ecgi_mnc_digit_2 e)) (ucast (ecgi_mnc_digit_3 e)) @
     chars '', ECI='' @ to_string (unat (ecgi_eci e)) @
     chars '', EUCI='' @ to_string (unat (ecgi_cell e))"

text \<open>
  The table \<^verbatim>\<open>interface_type2char\<close> is declared in the header and defined in none of the sources: it is a
  parameter.
\<close>

definition interface_type_toString :: "(nat \<Rightarrow> bytes) \<Rightarrow> nat \<Rightarrow> bytes" where
  "interface_type_toString interface_type2char t = (if t \<le> 39 then interface_type2char t else to_string t)"

definition core_fteid_toString ::
    "(nat \<Rightarrow> bytes) \<Rightarrow> (bytes \<Rightarrow> bytes option) \<Rightarrow> (bytes \<Rightarrow> bytes option) \<Rightarrow> core_fteid_t \<Rightarrow> bytes" where
  "core_fteid_toString interface_type2char ntop ntop6 f =
     (if cf_v4 f \<or> cf_v6 f
      then chars ''Interface type='' @ interface_type_toString interface_type2char (unat (cf_interface_type f)) @
           chars '', TEID='' @ to_string (unat (cf_teid_gre_key f)) @
           (if cf_v4 f then chars '', IPv4='' @ toString_in_addr ntop (le_bytes 4 (cf_ipv4_address f)) else []) @
           (if cf_v6 f then chars '', IPv6='' @ toString_in6_addr ntop6 (le_bytes 16 (cf_ipv6_address f)) else [])
      else chars ''null_fteid'')"

section \<open>Digits\<close>

definition nibbles_of :: "bytes \<Rightarrow> nat list" where
  "nibbles_of bs = concat (map (\<lambda>b. [unat (b AND 0xf), unat (drop_bit 4 (b AND 0xf0))]) bs)"

definition bcd_digits :: "bytes \<Rightarrow> nat list" where
  "bcd_digits bs = takeWhile (\<lambda>d. d \<le> 9) (nibbles_of bs)"

definition decimal_value :: "nat list \<Rightarrow> nat" where
  "decimal_value ds = foldl (\<lambda>n d. 10 * n + d) 0 ds"

lemma nibbles_of_simps [simp]:
  "nibbles_of [] = []"
  "nibbles_of (b # bs) = unat (b AND 0xf) # unat (drop_bit 4 (b AND 0xf0)) # nibbles_of bs"
  "nibbles_of (bs @ cs) = nibbles_of bs @ nibbles_of cs"
  "length (nibbles_of bs) = 2 * length bs"
  by (simp_all add: nibbles_of_def length_concat sum_list_triv o_def)

lemma bcd_digits_le: "d \<in> set (bcd_digits bs) \<Longrightarrow> d \<le> 9"
  by (auto simp: bcd_digits_def dest: set_takeWhileD)

lemma length_bcd_digits: "length (bcd_digits bs) \<le> 2 * length bs"
  unfolding bcd_digits_def using length_takeWhile_le [of _ "nibbles_of bs"] by simp

lemma to_string_digit: "d \<le> 9 \<Longrightarrow> to_string d = [of_nat (48 + d)]"
  by (simp add: to_string.simps)

lemma digits_loop_eq: "digits_loop bs = map (\<lambda>d. of_nat (48 + d)) (bcd_digits bs)"
proof (induction bs)
  case (Cons b bs)
  show ?case
    using Cons by (auto simp: bcd_digits_def word_less_nat_alt to_string_digit not_less simp del: of_nat_add)
qed (simp add: bcd_digits_def)

lemma imsi64_loop_eq: "imsi64_loop bs a = foldl (\<lambda>n d. n * 10 + of_nat d) a (bcd_digits bs)"
proof (induction bs arbitrary: a)
  case (Cons b bs)
  have u: "ucast x = (of_nat (unat x) :: u64)" for x :: u8 by simp
  show ?case
    by (simp add: Let_def Cons.IH bcd_digits_def word_less_nat_alt u del: of_nat_unat)
qed (simp add: bcd_digits_def)

lemma decimal_snoc [simp]: "decimal_value (ds @ [d]) = 10 * decimal_value ds + d"
  by (simp add: decimal_value_def)

lemma foldl_decimal: "foldl (\<lambda>n d. n * 10 + of_nat d) 0 ds = (of_nat (decimal_value ds) :: u64)"
  by (induction ds rule: rev_induct) (simp_all add: decimal_value_def)

lemma decimal_less: "(\<And>d. d \<in> set ds \<Longrightarrow> d \<le> 9) \<Longrightarrow> decimal_value ds < 10 ^ length ds"
proof (induction ds rule: rev_induct)
  case (snoc d ds)
  then have "decimal_value ds < 10 ^ length ds" "d \<le> 9" by auto
  then show ?case by simp
qed (simp add: decimal_value_def)

lemma to_imsi64_eq: "to_imsi64 i = of_nat (decimal_value (bcd_digits (bcd_b i)))"
  by (simp add: to_imsi64_def imsi64_loop_eq foldl_decimal)

lemma decimal_bcd_less:
  assumes "length bs = 8"
  shows "decimal_value (bcd_digits bs) < 10 ^ 16"
proof -
  have "decimal_value (bcd_digits bs) < 10 ^ length (bcd_digits bs)"
    by (rule decimal_less) (rule bcd_digits_le)
  also have "\<dots> \<le> 10 ^ 16"
    using length_bcd_digits [of bs] assms by (intro power_increasing) simp_all
  finally show ?thesis .
qed

lemma takeWhile_15:
  assumes "length xs = 14" "length (takeWhile P (xs @ [y, z])) = 15"
  shows "list_all P xs" "P y" "\<not> P z"
proof -
  show *: "list_all P xs"
  proof (rule ccontr)
    assume "\<not> list_all P xs"
    then obtain x where "x \<in> set xs" "\<not> P x" by (auto simp: list_all_iff)
    then have "takeWhile P (xs @ [y, z]) = takeWhile P xs" by (rule takeWhile_append1)
    with assms length_takeWhile_le [of P xs] show False by simp
  qed
  then have "takeWhile P (xs @ [y, z]) = xs @ takeWhile P [y, z]"
    by (simp add: takeWhile_append2 list_all_iff)
  with assms show "P y" "\<not> P z" by (simp_all split: if_splits)
qed

section \<open>Increments\<close>

lemma byte_induct: "(\<forall>n \<in> set [0..<256]. P (of_nat n)) \<Longrightarrow> P b" for b :: u8
proof -
  assume P: "\<forall>n \<in> set [0..<256]. P (of_nat n)"
  have "unat b \<in> set [0..<256]" using unsigned_less [of b] by simp
  then have "P (of_nat (unat b))" using P by blast
  then show "P b" by simp
qed

text \<open>One turn of the loop: a lower digit below 9 is counted up; otherwise the upper digit must be 0.\<close>

lemma byte_facts:
  fixes b :: u8
  shows "b AND 0xf \<le> 9 \<and> (b AND 0xf) + 1 \<le> 9 \<longleftrightarrow> unat (b AND 0xf) < 9"
    and "b AND 0xf0 \<le> 9 \<longleftrightarrow> unat (drop_bit 4 (b AND 0xf0)) = 0"
    and "unat (b AND 0xf) < 9 \<Longrightarrow> (b AND 0xf) + 1 OR (b AND 0xf0) = b + 1"
    and "unat (b AND 0xf) < 9 \<Longrightarrow> unat (b + 1 AND 0xf) = unat (b AND 0xf) + 1"
    and "unat (b AND 0xf) < 9 \<Longrightarrow> drop_bit 4 (b + 1 AND 0xf0) = drop_bit 4 (b AND 0xf0)"
proof -
  have "(b AND 0xf \<le> 9 \<and> (b AND 0xf) + 1 \<le> 9 \<longleftrightarrow> unat (b AND 0xf) < 9) \<and>
     (b AND 0xf0 \<le> 9 \<longleftrightarrow> unat (drop_bit 4 (b AND 0xf0)) = 0) \<and>
     (unat (b AND 0xf) < 9 \<longrightarrow> (b AND 0xf) + 1 OR (b AND 0xf0) = b + 1 \<and>
        unat (b + 1 AND 0xf) = unat (b AND 0xf) + 1 \<and>
        drop_bit 4 (b + 1 AND 0xf0) = drop_bit 4 (b AND 0xf0))"
    by (rule byte_induct [where b = b]) code_simp
  then show "b AND 0xf \<le> 9 \<and> (b AND 0xf) + 1 \<le> 9 \<longleftrightarrow> unat (b AND 0xf) < 9"
    "b AND 0xf0 \<le> 9 \<longleftrightarrow> unat (drop_bit 4 (b AND 0xf0)) = 0"
    "unat (b AND 0xf) < 9 \<Longrightarrow> (b AND 0xf) + 1 OR (b AND 0xf0) = b + 1"
    "unat (b AND 0xf) < 9 \<Longrightarrow> unat (b + 1 AND 0xf) = unat (b AND 0xf) + 1"
    "unat (b AND 0xf) < 9 \<Longrightarrow> drop_bit 4 (b + 1 AND 0xf0) = drop_bit 4 (b AND 0xf0)"
    by blast+
qed

lemma increment_loop_counts:
  assumes "lo < i" "i < length u1" "unat (u1 ! i AND 0xf) < 9"
  shows "increment_loop lo u1 i = Some (u1[i := u1 ! i + 1])"
  using assms by (subst increment_loop.simps) (simp add: Let_def byte_facts)

lemma increment_loop_carries:
  assumes "lo < i" "i < length u1" "9 \<le> unat (u1 ! i AND 0xf)" "unat (drop_bit 4 (u1 ! i AND 0xf0)) \<noteq> 0"
  shows "increment_loop lo u1 i =
    increment_loop lo (if u1 ! i AND 0xf \<le> 9 then u1[i := u1 ! i AND 0xf0] else u1) (i + 1)"
proof -
  have "\<not> (u1 ! i AND 0xf \<le> 9 \<and> (u1 ! i AND 0xf) + 1 \<le> 9)" "\<not> u1 ! i AND 0xf0 \<le> 9"
    using assms(3,4) by (simp_all only: byte_facts not_less) simp_all
  then show ?thesis
    using assms(1,2) by (subst increment_loop.simps) (simp add: Let_def)
qed

lemma increment_loop_outside: "lo < i \<Longrightarrow> length u1 \<le> i \<Longrightarrow> increment_loop lo u1 i = None"
  by (subst increment_loop.simps) simp

section \<open>Properties\<close>

text \<open>
  The number of an IMSI is the one that its text shows: reading the digits of \<^verbatim>\<open>toString\<close> as a decimal
  number gives the result of \<^verbatim>\<open>to_imsi64\<close>, and sixteen digits never overflow its 64 bits.
\<close>

lemma imsi_text_number:
  assumes "length (bcd_b i) = 8"
  shows "unat (to_imsi64 i) = decimal_value (map (\<lambda>c. unat (c - 48)) (imsi_toString i)) \<and>
         unat (to_imsi64 i) < 10 ^ 16"
proof -
  have d: "unat (of_nat (48 + d) - 48 :: u8) = d" if "d \<le> 9" for d
    using that by (simp add: unat_of_nat)
  have "map (\<lambda>c. unat (c - 48)) (imsi_toString i) = map (\<lambda>d. d) (bcd_digits (bcd_b i))"
    unfolding imsi_toString_def digits_loop_eq map_map
    by (rule map_cong [OF refl]) (use d bcd_digits_le in \<open>simp del: of_nat_add\<close>)
  moreover have "decimal_value (bcd_digits (bcd_b i)) < 2 ^ 64"
    using decimal_bcd_less [OF assms] by simp
  ultimately show ?thesis
    using decimal_bcd_less [OF assms] by (simp add: to_imsi64_eq unat_of_nat)
qed

definition sample_imsi :: imsi_t where
  "sample_imsi = \<lparr>bcd_b = [0x02, 0x98, 0x10, 0x32, 0x54, 0x76, 0x98, 0xf7], bcd_num_digits = 15\<rparr>"

lemma imsi_text_number_witness:
  "unat (to_imsi64 sample_imsi) = 208901234567897 \<and> imsi_toString sample_imsi = chars ''208901234567897''"
proof -
  have "imsi_toString sample_imsi = chars ''208901234567897''" by code_simp
  moreover have "decimal_value (map (\<lambda>c. unat (c - 48)) (chars ''208901234567897'')) = 208901234567897"
    by (simp add: decimal_value_def)
  ultimately show ?thesis
    using imsi_text_number [of sample_imsi] by (simp add: sample_imsi_def)
qed

text \<open>
  The increment of an IMSI of fifteen digits adds one when the last digit is not 9.  When it is 9, the loop
  looks for the carry behind the array instead of at the digit before: the access has no defined result.
\<close>

lemma imsi_increment_spec:
  assumes "length (bcd_b i) = 8" and "length (bcd_digits (bcd_b i)) = 15"
  shows "case imsi_increment i of
      Some i' \<Rightarrow> last (bcd_digits (bcd_b i)) < 9 \<and> to_imsi64 i' = to_imsi64 i + 1
    | None \<Rightarrow> last (bcd_digits (bcd_b i)) = 9"
proof -
  have "bcd_b i \<noteq> []" using assms(1) by auto
  then obtain bs b where bs: "bcd_b i = bs @ [b]" by (metis rev_exhaust)
  then have len: "length bs = 7" using assms(1) by simp
  let ?l = "unat (b AND 0xf)" and ?h = "unat (drop_bit 4 (b AND 0xf0))"
  have "length (takeWhile (\<lambda>d. d \<le> 9) (nibbles_of bs @ [?l, ?h])) = 15"
    using assms(2) by (simp add: bs bcd_digits_def)
  note d = takeWhile_15 [OF _ this, unfolded nibbles_of_simps(4), simplified len]
  have digits: "bcd_digits (bs @ [c]) = nibbles_of bs @ [unat (c AND 0xf)]"
    if "unat (c AND 0xf) \<le> 9" "9 < unat (drop_bit 4 (c AND 0xf0))" for c
    using that d(1) by (simp add: bcd_digits_def takeWhile_append2 list_all_iff)
  have nth: "bcd_b i ! 7 = b" by (simp add: bs len nth_append)
  show ?thesis
  proof (cases "?l < 9")
    case True
    have "imsi_increment i = Some (i\<lparr>bcd_b := bs @ [b + 1]\<rparr>)"
      using increment_loop_counts [of 5 7 "bcd_b i"] True assms(1)
      by (simp add: imsi_increment_def nth) (simp add: bs len list_update_append)
    moreover have "bcd_digits (bs @ [b]) = nibbles_of bs @ [?l]" "bcd_digits (bs @ [b + 1]) = nibbles_of bs @ [?l + 1]"
      using True d digits [of b] digits [of "b + 1", unfolded byte_facts(4,5) [OF True]] by simp_all
    ultimately show ?thesis
      using True by (simp add: to_imsi64_eq bs)
  next
    case False
    then have "imsi_increment i = None"
      using increment_loop_carries [of 5 7 "bcd_b i"] d assms(1)
      by (simp add: imsi_increment_def increment_loop_outside nth)
    then show ?thesis using False d digits [of b] by (simp add: bs)
  qed
qed

lemma imsi_increment_spec_witness:
  "\<exists>i'. imsi_increment sample_imsi = Some i' \<and> to_imsi64 i' = to_imsi64 sample_imsi + 1"
proof -
  have "length (bcd_b sample_imsi) = 8" "length (bcd_digits (bcd_b sample_imsi)) = 15"
    "last (bcd_digits (bcd_b sample_imsi)) = 7"
    by code_simp+
  then show ?thesis
    using imsi_increment_spec [of sample_imsi] by (auto split: option.splits)
qed

text \<open>
  An MSISDN has no filler: the increment of one whose fifteenth digit is 9 changes that digit
  to 1 when the half byte behind it is 0.  The increment of an MEI starts one byte before the end.
\<close>

lemma msisdn_increment_nine:
  assumes "length (bcd_b i) = 8" and "bcd_b i ! 7 = 9"
  shows "msisdn_increment i = Some (i\<lparr>bcd_b := (bcd_b i)[7 := 1]\<rparr>)"
  using assms by (simp add: msisdn_increment_def increment_loop.simps)

lemma mei_increment_counts:
  assumes "length (bcd_b i) = 8" and "unat (bcd_b i ! 6 AND 0xf) < 9"
  shows "mei_increment i = Some (i\<lparr>bcd_b := (bcd_b i)[6 := bcd_b i ! 6 + 1]\<rparr>)"
  using increment_loop_counts [of 0 6 "bcd_b i"] assms by (simp add: mei_increment_def)

text \<open>Copies keep the digits, and the equality of bearer qualities ignores the bit rates.\<close>

lemma copies [simp]: "copy_imsi i = i" "copy_mei i = i" "copy_msisdn i = i"
  by (simp_all add: copy_imsi_def copy_mei_def copy_msisdn_def)

lemma bearer_qos_eq_rates: "bearer_qos_eq q (q\<lparr>bq_maximum_bit_rate_for_uplink := r\<rparr>)"
  by (simp add: bearer_qos_eq_def)

lemma pdn_type_toString_defined: "pdn_type_toString t \<noteq> None \<longleftrightarrow> t \<le> PDN_TYPE_E_NON_IP"
  by (auto simp: pdn_type_toString_def pdn_type_e2str_def word_le_nat_alt PDN_TYPE_E_NON_IP_def)

end
