(* ===== verification/Epc_Names.thy ===== *)
theory Epc_Names
  imports Conversions
begin

text \<open>
  The names of the network nodes in \<^verbatim>\<open>src/oai/common/utils/epc.h\<close> and \<^verbatim>\<open>epc.cpp\<close> (class \<^verbatim>\<open>Utility\<close>): the domain
  names that are built from the country and the network code, each with an overload that takes the
  three octets of a PLMN identity (suffix \<open>_plmnid\<close>), and the length-prefixed labels of an access point name.
  Text is a \<open>string\<close>; a C string is its characters before the terminating zero.
\<close>

section \<open>Codes of a network\<close>

definition LOW_NIBBLE :: "u8 \<Rightarrow> u8" where
  "LOW_NIBBLE a = a AND 0x0f"

definition HIGH_NIBBLE :: "u8 \<Rightarrow> u8" where
  "HIGH_NIBBLE a = drop_bit 4 (a AND 0xf0)"

abbreviation to_char :: "u8 \<Rightarrow> char" where
  "to_char b \<equiv> char_of (unat b)"

definition PARSE_MNC :: "bytes \<Rightarrow> string" where
  "PARSE_MNC b =
     (if HIGH_NIBBLE (b ! 1) = 0x0f
      then [CHR ''0'', to_char (LOW_NIBBLE (b ! 2) + 48), to_char (HIGH_NIBBLE (b ! 2) + 48)]
      else [to_char (LOW_NIBBLE (b ! 2) + 48), to_char (HIGH_NIBBLE (b ! 2) + 48), to_char (HIGH_NIBBLE (b ! 1) + 48)])"

definition PARSE_MCC :: "bytes \<Rightarrow> string" where
  "PARSE_MCC b =
     [to_char (LOW_NIBBLE (b ! 0) + 48), to_char (HIGH_NIBBLE (b ! 0) + 48), to_char (LOW_NIBBLE (b ! 1) + 48)]"

definition APPEND_MNC :: "string \<Rightarrow> string" where
  "APPEND_MNC a = ''mnc'' @ a @ ''.''"

definition APPEND_MCC :: "string \<Rightarrow> string" where
  "APPEND_MCC a = ''mcc'' @ a @ ''.''"

definition APPEND_3GPPNETWORK :: string where
  "APPEND_3GPPNETWORK = ''3gppnetwork.org''"

section \<open>Domain names\<close>

definition home_network :: "string \<Rightarrow> string \<Rightarrow> string" where
  "home_network mnc mcc = APPEND_MNC mnc @ APPEND_MCC mcc @ APPEND_3GPPNETWORK"

definition home_network_plmnid :: "bytes \<Rightarrow> string" where
  "home_network_plmnid plmnid = home_network (PARSE_MNC plmnid) (PARSE_MCC plmnid)"

definition home_network_gprs :: "string \<Rightarrow> string \<Rightarrow> string" where
  "home_network_gprs mnc mcc = APPEND_MNC mnc @ APPEND_MCC mcc @ ''gprs''"

definition home_network_gprs_plmnid :: "bytes \<Rightarrow> string" where
  "home_network_gprs_plmnid plmnid = home_network_gprs (PARSE_MNC plmnid) (PARSE_MCC plmnid)"

definition tai_fqdn :: "string \<Rightarrow> string \<Rightarrow> string \<Rightarrow> string \<Rightarrow> string" where
  "tai_fqdn lb hb mnc mcc =
     ''tac-lb'' @ lb @ ''.tac-hb'' @ hb @ ''.tac.epc.'' @ APPEND_MNC mnc @ APPEND_MCC mcc @ APPEND_3GPPNETWORK"

definition tai_fqdn_plmnid :: "string \<Rightarrow> string \<Rightarrow> bytes \<Rightarrow> string" where
  "tai_fqdn_plmnid lb hb plmnid = tai_fqdn lb hb (PARSE_MNC plmnid) (PARSE_MCC plmnid)"

definition mme_fqdn :: "string \<Rightarrow> string \<Rightarrow> string \<Rightarrow> string \<Rightarrow> string" where
  "mme_fqdn mmec mmegi mnc mcc =
     ''mmec'' @ mmec @ ''.mmegi'' @ mmegi @ ''.mme.epc.'' @ APPEND_MNC mnc @ APPEND_MCC mcc @ APPEND_3GPPNETWORK"

definition mme_fqdn_plmnid :: "string \<Rightarrow> string \<Rightarrow> bytes \<Rightarrow> string" where
  "mme_fqdn_plmnid mmec mmegi plmnid = mme_fqdn mmec mmegi (PARSE_MNC plmnid) (PARSE_MCC plmnid)"

definition mme_pool_fqdn :: "string \<Rightarrow> string \<Rightarrow> string \<Rightarrow> string" where
  "mme_pool_fqdn mmegi mnc mcc =
     ''mmegi'' @ mmegi @ ''.mme.epc.'' @ APPEND_MNC mnc @ APPEND_MCC mcc @ APPEND_3GPPNETWORK"

definition mme_pool_fqdn_plmnid :: "string \<Rightarrow> bytes \<Rightarrow> string" where
  "mme_pool_fqdn_plmnid mmegi plmnid = mme_pool_fqdn mmegi (PARSE_MNC plmnid) (PARSE_MCC plmnid)"

definition rai_fqdn :: "string \<Rightarrow> string \<Rightarrow> string \<Rightarrow> string \<Rightarrow> string" where
  "rai_fqdn rac lac mnc mcc =
     ''rac'' @ rac @ ''.lac'' @ lac @ ''.rac.epc.'' @ APPEND_MNC mnc @ APPEND_MCC mcc @ APPEND_3GPPNETWORK"

definition rai_fqdn_plmnid :: "string \<Rightarrow> string \<Rightarrow> bytes \<Rightarrow> string" where
  "rai_fqdn_plmnid rac lac plmnid = rai_fqdn rac lac (PARSE_MNC plmnid) (PARSE_MCC plmnid)"

definition rnc_fqdn :: "string \<Rightarrow> string \<Rightarrow> string \<Rightarrow> string" where
  "rnc_fqdn rnc mnc mcc =
     ''rnc'' @ rnc @ ''.rnc.epc.'' @ APPEND_MNC mnc @ APPEND_MCC mcc @ APPEND_3GPPNETWORK"

definition rnc_fqdn_plmnid :: "string \<Rightarrow> bytes \<Rightarrow> string" where
  "rnc_fqdn_plmnid rnc plmnid = rnc_fqdn rnc (PARSE_MNC plmnid) (PARSE_MCC plmnid)"

definition sgsn_fqdn :: "string \<Rightarrow> string \<Rightarrow> string \<Rightarrow> string \<Rightarrow> string \<Rightarrow> string" where
  "sgsn_fqdn nri rac lac mnc mcc =
     ''nri'' @ nri @ ''.rac'' @ rac @ ''.lac'' @ lac @ ''.rac.epc.'' @ APPEND_MNC mnc @ APPEND_MCC mcc @ APPEND_3GPPNETWORK"

definition sgsn_fqdn_plmnid :: "string \<Rightarrow> string \<Rightarrow> string \<Rightarrow> bytes \<Rightarrow> string" where
  "sgsn_fqdn_plmnid nri rac lac plmnid = sgsn_fqdn nri rac lac (PARSE_MNC plmnid) (PARSE_MCC plmnid)"

definition epc_nodes_domain_fqdn :: "string \<Rightarrow> string \<Rightarrow> string" where
  "epc_nodes_domain_fqdn mnc mcc = ''node.epc.'' @ APPEND_MNC mnc @ APPEND_MCC mcc @ APPEND_3GPPNETWORK"

definition epc_nodes_domain_fqdn_plmnid :: "bytes \<Rightarrow> string" where
  "epc_nodes_domain_fqdn_plmnid plmnid = epc_nodes_domain_fqdn (PARSE_MNC plmnid) (PARSE_MCC plmnid)"

definition epc_node_fqdn :: "string \<Rightarrow> string \<Rightarrow> string \<Rightarrow> string" where
  "epc_node_fqdn node mnc mcc =
     node @ ''.node.epc.'' @ APPEND_MNC mnc @ APPEND_MCC mcc @ APPEND_3GPPNETWORK"

definition epc_node_fqdn_plmnid :: "string \<Rightarrow> bytes \<Rightarrow> string" where
  "epc_node_fqdn_plmnid node plmnid = epc_node_fqdn node (PARSE_MNC plmnid) (PARSE_MCC plmnid)"

definition nonemergency_epdg_oi_fqdn :: "string \<Rightarrow> string \<Rightarrow> string" where
  "nonemergency_epdg_oi_fqdn mnc mcc =
     ''epdg.epc.'' @ APPEND_MNC mnc @ APPEND_MCC mcc @ ''pub.'' @ APPEND_3GPPNETWORK"

definition nonemergency_epdg_oi_fqdn_plmnid :: "bytes \<Rightarrow> string" where
  "nonemergency_epdg_oi_fqdn_plmnid plmnid =
     nonemergency_epdg_oi_fqdn (PARSE_MNC plmnid) (PARSE_MCC plmnid)"

definition nonemergency_epdg_tai_fqdn :: "string \<Rightarrow> string \<Rightarrow> string \<Rightarrow> string \<Rightarrow> string" where
  "nonemergency_epdg_tai_fqdn lb hb mnc mcc =
     ''tac-lb'' @ lb @ ''.tac-hb'' @ hb @ ''.tac.epdg.epc.'' @ APPEND_MNC mnc @ APPEND_MCC mcc @ APPEND_3GPPNETWORK"

definition nonemergency_epdg_tai_fqdn_plmnid :: "string \<Rightarrow> string \<Rightarrow> bytes \<Rightarrow> string" where
  "nonemergency_epdg_tai_fqdn_plmnid lb hb plmnid =
     nonemergency_epdg_tai_fqdn lb hb (PARSE_MNC plmnid) (PARSE_MCC plmnid)"

definition nonemergency_epdg_lac_fqdn :: "string \<Rightarrow> string \<Rightarrow> string \<Rightarrow> string" where
  "nonemergency_epdg_lac_fqdn lac mnc mcc =
     ''lac'' @ lac @ ''.epdg.epc.'' @ APPEND_MNC mnc @ APPEND_MCC mcc @ ''pub.'' @ APPEND_3GPPNETWORK"

definition nonemergency_epdg_lac_fqdn_plmnid :: "string \<Rightarrow> bytes \<Rightarrow> string" where
  "nonemergency_epdg_lac_fqdn_plmnid lac plmnid =
     nonemergency_epdg_lac_fqdn lac (PARSE_MNC plmnid) (PARSE_MCC plmnid)"

definition nonemergency_epdg_visitedcountry_fqdn :: "string \<Rightarrow> string" where
  "nonemergency_epdg_visitedcountry_fqdn mcc =
     ''epdg.epc.'' @ APPEND_MCC mcc @ ''visited-country.pub.'' @ APPEND_3GPPNETWORK"

definition nonemergency_epdg_visitedcountry_fqdn_plmnid :: "bytes \<Rightarrow> string" where
  "nonemergency_epdg_visitedcountry_fqdn_plmnid plmnid =
     nonemergency_epdg_visitedcountry_fqdn (PARSE_MCC plmnid)"

definition emergency_epdg_oi_fqdn :: "string \<Rightarrow> string \<Rightarrow> string" where
  "emergency_epdg_oi_fqdn mnc mcc =
     ''sos.epdg.epc.'' @ APPEND_MNC mnc @ APPEND_MCC mcc @ ''pub.'' @ APPEND_3GPPNETWORK"

definition emergency_epdg_oi_fqdn_plmnid :: "bytes \<Rightarrow> string" where
  "emergency_epdg_oi_fqdn_plmnid plmnid = emergency_epdg_oi_fqdn (PARSE_MNC plmnid) (PARSE_MCC plmnid)"

definition emergency_epdg_tai_fqdn :: "string \<Rightarrow> string \<Rightarrow> string \<Rightarrow> string \<Rightarrow> string" where
  "emergency_epdg_tai_fqdn lb hb mnc mcc =
     ''tac-lb'' @ lb @ ''.tac-hb'' @ hb @ ''.tac.sos.epdg.epc.'' @ APPEND_MNC mnc @ APPEND_MCC mcc @ ''pub.'' @ APPEND_3GPPNETWORK"

definition emergency_epdg_tai_fqdn_plmnid :: "string \<Rightarrow> string \<Rightarrow> bytes \<Rightarrow> string" where
  "emergency_epdg_tai_fqdn_plmnid lb hb plmnid =
     emergency_epdg_tai_fqdn lb hb (PARSE_MNC plmnid) (PARSE_MCC plmnid)"

definition emergency_epdg_lac_fqdn :: "string \<Rightarrow> string \<Rightarrow> string \<Rightarrow> string" where
  "emergency_epdg_lac_fqdn lac mnc mcc =
     ''lac'' @ lac @ ''.sos.epdg.epc.'' @ APPEND_MNC mnc @ APPEND_MCC mcc @ ''pub.'' @ APPEND_3GPPNETWORK"

definition emergency_epdg_lac_fqdn_plmnid :: "string \<Rightarrow> bytes \<Rightarrow> string" where
  "emergency_epdg_lac_fqdn_plmnid lac plmnid =
     emergency_epdg_lac_fqdn lac (PARSE_MNC plmnid) (PARSE_MCC plmnid)"

definition emergency_epdg_visitedcountry_fqdn :: "string \<Rightarrow> string" where
  "emergency_epdg_visitedcountry_fqdn mcc =
     ''sos.epdg.epc.'' @ APPEND_MCC mcc @ ''visited-country.pub.'' @ APPEND_3GPPNETWORK"

definition emergency_epdg_visitedcountry_fqdn_plmnid :: "bytes \<Rightarrow> string" where
  "emergency_epdg_visitedcountry_fqdn_plmnid plmnid =
     emergency_epdg_visitedcountry_fqdn (PARSE_MCC plmnid)"

definition global_enodeb_id_fqdn :: "string \<Rightarrow> string \<Rightarrow> string" where
  "global_enodeb_id_fqdn enb mcc =
     ''enb'' @ enb @ ''.enb.epc.'' @ APPEND_MCC mcc @ ''visited-country.pub.'' @ APPEND_3GPPNETWORK"

definition global_enodeb_id_fqdn_plmnid :: "string \<Rightarrow> bytes \<Rightarrow> string" where
  "global_enodeb_id_fqdn_plmnid enb plmnid = global_enodeb_id_fqdn enb (PARSE_MCC plmnid)"

definition local_homenetwork_fqdn :: "string \<Rightarrow> string \<Rightarrow> string" where
  "local_homenetwork_fqdn lhn mcc =
     ''lhn'' @ lhn @ ''.lhn.epc.'' @ APPEND_MCC mcc @ ''visited-country.pub.'' @ APPEND_3GPPNETWORK"

definition local_homenetwork_fqdn_plmnid :: "string \<Rightarrow> bytes \<Rightarrow> string" where
  "local_homenetwork_fqdn_plmnid lhn plmnid = local_homenetwork_fqdn lhn (PARSE_MCC plmnid)"

definition epc :: "string \<Rightarrow> string \<Rightarrow> string" where
  "epc mnc mcc = ''epc.'' @ APPEND_MNC mnc @ APPEND_MCC mcc @ APPEND_3GPPNETWORK"

definition epc_plmnid :: "bytes \<Rightarrow> string" where
  "epc_plmnid plmnid = epc (PARSE_MNC plmnid) (PARSE_MCC plmnid)"

definition apn_fqdn :: "string \<Rightarrow> string \<Rightarrow> string \<Rightarrow> string" where
  "apn_fqdn apnoi mnc mcc = apnoi @ ''.apn.epc.'' @ APPEND_MNC mnc @ APPEND_MCC mcc @ APPEND_3GPPNETWORK"

definition apn_fqdn_plmnid :: "string \<Rightarrow> bytes \<Rightarrow> string" where
  "apn_fqdn_plmnid apnoi plmnid = apn_fqdn apnoi (PARSE_MNC plmnid) (PARSE_MCC plmnid)"

definition apn :: "string \<Rightarrow> string \<Rightarrow> string \<Rightarrow> string" where
  "apn apnoi mnc mcc = apnoi @ ''.apn.'' @ APPEND_MNC mnc @ APPEND_MCC mcc @ ''gprs''"

definition apn_plmnid :: "string \<Rightarrow> bytes \<Rightarrow> string" where
  "apn_plmnid apnoi plmnid = apn apnoi (PARSE_MNC plmnid) (PARSE_MCC plmnid)"

section \<open>Labels of an access point name\<close>

definition isalnum :: "char \<Rightarrow> bool" where
  "isalnum c \<longleftrightarrow> (let n = of_char c :: nat in 48 \<le> n \<and> n \<le> 57 \<or> 65 \<le> n \<and> n \<le> 90 \<or> 97 \<le> n \<and> n \<le> 122)"

text \<open>The flag \<^verbatim>\<open>to_count\<close> is true throughout: it is set at the start and after each dot.\<close>

fun apn_label_loop :: "string \<Rightarrow> string \<Rightarrow> bool \<Rightarrow> u8 \<Rightarrow> nat \<Rightarrow> string" where
  "apn_label_loop [] label to_count counted index =
     (if to_count then label[index := to_char counted] else label)"
| "apn_label_loop (c # rest) label to_count counted index =
     (if isalnum c \<or> c = CHR ''-'' then apn_label_loop rest (label @ [c]) to_count (counted + 1) index
      else if c = CHR ''.'' then
        (let label = label @ [CHR ''?''];
             label = (if to_count then label[index := to_char counted] else label)
         in apn_label_loop rest label True 0 (length label - 1))
      else apn_label_loop rest label to_count counted index)"

definition apn_label :: "string \<Rightarrow> string" where
  "apn_label name = apn_label_loop name [CHR ''?''] True 0 0"

section \<open>Specification\<close>

text \<open>
  The octets of a PLMN identity, in the layout that the comment in \<^verbatim>\<open>epc.h\<close> gives: a network code has two or
  three digits, and the place of a missing third digit is filled with ones.
\<close>

definition octet :: "nat \<Rightarrow> nat \<Rightarrow> u8" where
  "octet low high = of_nat (low + 16 * high)"

definition plmn_octets :: "nat \<Rightarrow> nat \<Rightarrow> nat \<Rightarrow> nat list \<Rightarrow> bytes" where
  "plmn_octets m1 m2 m3 mnc =
     [octet m1 m2, octet m3 (if length mnc = 2 then 15 else mnc ! 2), octet (mnc ! 0) (mnc ! 1)]"

definition digit :: "nat \<Rightarrow> char" where
  "digit d = char_of (48 + d)"

fun split_at_dots :: "string \<Rightarrow> string list" where
  "split_at_dots [] = [[]]"
| "split_at_dots (c # s) =
     (if c = CHR ''.'' then [] # split_at_dots s
      else (c # hd (split_at_dots s)) # tl (split_at_dots s))"

definition apn_char :: "char \<Rightarrow> bool" where
  "apn_char c \<longleftrightarrow> isalnum c \<or> c = CHR ''-'' \<or> c = CHR ''.''"

definition labelled :: "string \<Rightarrow> string" where
  "labelled l = char_of (length l) # l"

text \<open>What a reader of the labels does: each length says where the next label begins.\<close>

fun read_labels :: "nat \<Rightarrow> string \<Rightarrow> string list option" where
  "read_labels fuel [] = Some []"
| "read_labels 0 (c # s) = None"
| "read_labels (Suc fuel) (c # s) =
     (let n = of_char c in if length s < n then None else map_option (Cons (take n s)) (read_labels fuel (drop n s)))"

lemma split_at_dots_ne [simp]: "split_at_dots s \<noteq> []"
  by (cases s) simp_all

lemma labelled_split_at_dots:
  "labelled (hd (split_at_dots s)) @ concat (map labelled (tl (split_at_dots s))) = concat (map labelled (split_at_dots s))"
  by (cases "split_at_dots s") simp_all

lemma to_char_of_nat [simp]: "to_char (of_nat n :: u8) = char_of n"
  by (simp add: unat_of_nat)

lemma apn_label_loop_spec:
  assumes "label = pre @ x # l" and "index = length pre" and "counted = of_nat (length l)"
  shows "apn_label_loop name label True counted index =
    (let ls = split_at_dots (filter apn_char name)
     in pre @ labelled (l @ hd ls) @ concat (map labelled (tl ls)))"
  using assms
proof (induction name arbitrary: label pre x l index counted)
  case Nil
  then show ?case by (simp add: labelled_def)
next
  case (Cons c name)
  consider "isalnum c \<or> c = CHR ''-''" "c \<noteq> CHR ''.''" | "c = CHR ''.''" | "\<not> apn_char c"
    by (auto simp: apn_char_def isalnum_def)
  then show ?case
  proof cases
    case 1
    then show ?thesis
      using Cons.IH [of "label @ [c]" pre x "l @ [c]" index "counted + 1"] Cons.prems
      by (simp add: apn_char_def Let_def add.commute)
  next
    case 2
    have na: "\<not> isalnum c" and ac: "apn_char c" using 2 by (simp_all add: isalnum_def apn_char_def)
    have "apn_label_loop name (pre @ labelled l @ [CHR ''?'']) True 0 (length (pre @ labelled l)) =
      (let ls = split_at_dots (filter apn_char name)
       in (pre @ labelled l) @ labelled ([] @ hd ls) @ concat (map labelled (tl ls)))"
      by (rule Cons.IH) simp_all
    then show ?thesis
      using na ac 2 Cons.prems
      by (simp add: Let_def list_update_append labelled_split_at_dots) (simp add: labelled_def)
  next
    case 3
    then show ?thesis
      using Cons.IH [of label pre x l index counted] Cons.prems by (auto simp: apn_char_def)
  qed
qed


lemma split_at_dots_set: "l \<in> set (split_at_dots s) \<Longrightarrow> set l \<subseteq> set s - {CHR ''.''}"
proof (induction s arbitrary: l)
  case (Cons c s)
  have h: "hd (split_at_dots s) \<in> set (split_at_dots s)" and t: "set (tl (split_at_dots s)) \<subseteq> set (split_at_dots s)"
    by (simp_all add: list.set_sel(2) subsetI)
  show ?case
    using Cons.prems Cons.IH [OF h] Cons.IH [of l] t by (auto split: if_splits)
qed simp

lemma read_labels_labelled:
  assumes "\<forall>l \<in> set ls. length l < 256"
  shows "read_labels (length ls) (concat (map labelled ls)) = Some ls"
  using assms by (induction ls) (simp_all add: labelled_def)

lemma read_labels_mono: "read_labels k s = Some ls \<Longrightarrow> k \<le> n \<Longrightarrow> read_labels n s = Some ls"
proof (induction k s arbitrary: n ls rule: read_labels.induct)
  case (3 fuel c s)
  let ?n = "of_char c :: nat"
  obtain ls' where l: "\<not> length s < ?n" "read_labels fuel (drop ?n s) = Some ls'" "ls = take ?n s # ls'"
    using 3(2) by (auto simp: Let_def split: if_splits)
  obtain m where "n = Suc m" "fuel \<le> m" using 3(3) by (cases n) simp_all
  with l 3(1) [OF refl l(1,2)] show ?case by (simp add: Let_def)
qed simp_all

lemma length_split_at_dots: "length (split_at_dots s) \<le> Suc (length s)"
  by (induction s) auto

lemma digit_nibbles:
  assumes "d1 < 16" and "d2 < 16"
  shows "LOW_NIBBLE (octet d1 d2) = of_nat d1" "HIGH_NIBBLE (octet d1 d2) = of_nat d2"
proof -
  have u: "unat (octet d1 d2) = d1 + 16 * d2"
    using assms by (simp add: octet_def unat_of_nat del: of_nat_add of_nat_mult)
  show "LOW_NIBBLE (octet d1 d2) = of_nat d1"
    unfolding LOW_NIBBLE_def nibbles word_unat_eq_iff unsigned_take_bit_eq u
    using assms by (simp add: take_bit_eq_mod unat_of_nat)
  show "HIGH_NIBBLE (octet d1 d2) = of_nat d2"
    unfolding HIGH_NIBBLE_def nibbles(1) unfolding drop_bit_eq_div word_unat_eq_iff unat_div
    using assms by (simp add: u unat_of_nat)
qed

lemma digit_nibble: "d < 16 \<Longrightarrow> to_char (of_nat d + 48 :: u8) = digit d"
proof -
  have "(of_nat d + 48 :: u8) = of_nat (48 + d)" by simp
  then show ?thesis unfolding digit_def by (simp only: to_char_of_nat)
qed

lemma digit_0: "digit 0 = CHR ''0''"
  by code_simp

lemmas home_network_plmnid_simps = home_network_plmnid_def home_network_def APPEND_MNC_def APPEND_MCC_def
  APPEND_3GPPNETWORK_def PARSE_MCC_def PARSE_MNC_def plmn_octets_def digit_nibbles digit_nibble digit_0

section \<open>Properties\<close>

text \<open>
  The labels of an access point name are, for every text, the parts between its dots, each behind its
  length; characters other than letters, digits, hyphens and dots are left out first.  The length is
  one byte, so that it is taken modulo 256.
\<close>

lemma apn_label_correct:
  "apn_label name = concat (map labelled (split_at_dots (filter apn_char name)))"
  using apn_label_loop_spec [of "''?''" "[]" "CHR ''?''" "[]" 0 0 name]
  by (simp add: apn_label_def Let_def labelled_split_at_dots)

text \<open>
  A reader that follows the lengths finds the parts of the name again, when they have fewer than 256
  characters and the name only the permitted ones.
\<close>

lemma apn_label_roundtrip:
  assumes "\<forall>c \<in> set name. apn_char c" and "\<forall>l \<in> set (split_at_dots name). length l < 256"
  shows "read_labels (Suc (length name)) (apn_label name) = Some (split_at_dots name)"
proof -
  have "filter apn_char name = name" using assms(1) by (simp add: filter_id_conv)
  then have "apn_label name = concat (map labelled (split_at_dots name))"
    using apn_label_loop_spec [of "''?''" "[]" "CHR ''?''" "[]" 0 0 name]
    by (simp add: apn_label_def Let_def labelled_split_at_dots)
  then show ?thesis
    using read_labels_labelled [OF assms(2)] read_labels_mono [OF _ length_split_at_dots [of name]] by simp
qed

lemma apn_label_roundtrip_witness:
  "read_labels 9 (apn_label ''oai.ipv4'') = Some [''oai'', ''ipv4'']"
proof -
  have "\<forall>c \<in> set ''oai.ipv4''. apn_char c" "split_at_dots ''oai.ipv4'' = [''oai'', ''ipv4'']"
    by (simp_all add: apn_char_def isalnum_def)
  with apn_label_roundtrip [of "''oai.ipv4''"] show ?thesis by (simp add: eval_nat_numeral)
qed

text \<open>
  The domain name of a home network carries exactly the digits of the PLMN identity that it is made
  from: country code and network code, a network code of two digits behind a zero.
\<close>

lemma home_network_digits:
  assumes "\<forall>d \<in> set ([m1, m2, m3] @ mnc). d < 10" and "length mnc = 2 \<or> length mnc = 3"
  shows "home_network_plmnid (plmn_octets m1 m2 m3 mnc) =
    ''mnc'' @ map digit (replicate (3 - length mnc) 0 @ mnc) @ ''.mcc'' @ map digit [m1, m2, m3] @ ''.3gppnetwork.org''"
proof -
  have m: "m1 < 16" "m2 < 16" "m3 < 16" using assms(1) by auto
  consider n1 n2 where "mnc = [n1, n2]" | n1 n2 n3 where "mnc = [n1, n2, n3]"
    using assms(2) by (auto simp: length_Suc_conv numeral_eq_Suc)
  then show ?thesis
  proof cases
    case 1
    then have "n1 < 16" "n2 < 16" using assms(1) by auto
    with m 1 show ?thesis by (simp add: home_network_plmnid_simps)
  next
    case 2
    then have "n1 < 16" "n2 < 16" "n3 < 15" using assms(1) by auto
    moreover from this have "(of_nat n3 :: u8) \<noteq> 15"
      by (simp add: word_unat_eq_iff unat_of_nat)
    ultimately show ?thesis using m 2 by (simp add: home_network_plmnid_simps)
  qed
qed

lemma home_network_digits_witness:
  "home_network_plmnid [0x02, 0xf8, 0x39] = ''mnc093.mcc208.3gppnetwork.org''"
proof -
  have "map digit (replicate (3 - length [9, 3]) 0 @ [9, 3]) = ''093''" "map digit [2, 0, 8] = ''208''"
    "plmn_octets 2 0 8 [9, 3] = [0x02, 0xf8, 0x39]"
    by code_simp+
  with home_network_digits [of 2 0 8 "[9, 3]"] show ?thesis by simp
qed

text \<open>
  One of the names outside of the operator's own domain is built without the label \<^verbatim>\<open>pub\<close> that the comment above the
  code and the sibling for emergency calls have.
\<close>

lemma nonemergency_epdg_tai_without_pub:
  "nonemergency_epdg_tai_fqdn ''01'' ''02'' ''093'' ''208'' = ''tac-lb01.tac-hb02.tac.epdg.epc.mnc093.mcc208.3gppnetwork.org''"
  "emergency_epdg_tai_fqdn ''01'' ''02'' ''093'' ''208'' = ''tac-lb01.tac-hb02.tac.sos.epdg.epc.mnc093.mcc208.pub.3gppnetwork.org''"
  by (simp_all add: nonemergency_epdg_tai_fqdn_def emergency_epdg_tai_fqdn_def APPEND_MNC_def APPEND_MCC_def
    APPEND_3GPPNETWORK_def)

end
