(* ===== verification/Netlink_Gateway.thy ===== *)
theory Netlink_Gateway
  imports Upf_Prelude
begin

text \<open>
  The default gateway from the routing table of the kernel: \<^verbatim>\<open>get_gateway_and_iface\<close> of \<^verbatim>\<open>src/oai/common/utils/if.cpp\<close>
  and its copy in \<^verbatim>\<open>get_gateway_netlink.cpp\<close>.  A request is sent over a netlink socket, the answer is read into
  a buffer of 4096 bytes and parsed as a sequence of route messages with attributes.  The calls of the
  operating system are the parameter \<open>E\<close>.  An access outside of the buffer is \<open>Inl Outside\<close>, and a loop that does
  not end is \<open>None\<close>.

  The specification works on routes as the kernel describes them, before they are laid out in memory.
\<close>

section \<open>Definitions\<close>

text \<open>
  The operating system: the descriptor of a new socket, the process, \<^verbatim>\<open>send\<close>, the n-th call of \<^verbatim>\<open>recv\<close> with the
  room it is given, names of interfaces, and \<^verbatim>\<open>inet_ntop\<close> for IPv4.  \<open>None\<close> is the null pointer.
\<close>

record nl_env =
  nl_socket :: int
  nl_getpid :: u32
  nl_send :: "bytes \<Rightarrow> int"
  nl_recv :: "nat \<Rightarrow> nat \<Rightarrow> int \<times> bytes"
  nl_if_indextoname :: "u32 \<Rightarrow> bytes option"
  nl_inet_ntop :: "bytes \<Rightarrow> bytes option"

datatype nl_fail = Exit_Failure | Outside

text \<open>\<^verbatim>\<open>struct nlmsghdr\<close> and the macros of \<^verbatim>\<open>linux/netlink.h\<close> and \<^verbatim>\<open>linux/rtnetlink.h\<close>.\<close>

record nlmsghdr =
  nlmsg_len :: u32
  nlmsg_type :: u16
  nlmsg_flags :: u16
  nlmsg_seq :: u32
  nlmsg_pid :: u32

abbreviation (input) NLMSG_ERROR :: u16 where "NLMSG_ERROR \<equiv> 2"
abbreviation (input) NLMSG_DONE :: u16 where "NLMSG_DONE \<equiv> 3"
abbreviation (input) RTM_GETROUTE :: u16 where "RTM_GETROUTE \<equiv> 26"
abbreviation (input) NLM_F_REQUEST :: u16 where "NLM_F_REQUEST \<equiv> 1"
abbreviation (input) NLM_F_MULTI :: u16 where "NLM_F_MULTI \<equiv> 2"
abbreviation (input) NLM_F_DUMP :: u16 where "NLM_F_DUMP \<equiv> 0x300"
abbreviation (input) RT_TABLE_MAIN :: u8 where "RT_TABLE_MAIN \<equiv> 254"
abbreviation (input) RTA_OIF :: u16 where "RTA_OIF \<equiv> 4"
abbreviation (input) RTA_GATEWAY :: u16 where "RTA_GATEWAY \<equiv> 5"
abbreviation (input) RETURNok :: int where "RETURNok \<equiv> 0"
abbreviation (input) RETURNerror :: int where "RETURNerror \<equiv> 1"
abbreviation (input) EXIT_FAILURE :: int where "EXIT_FAILURE \<equiv> 1"

definition nl_align :: "nat \<Rightarrow> nat" where
  "nl_align n = (n + 3) div 4 * 4"

definition NLMSG_OK :: "u32 \<Rightarrow> int \<Rightarrow> bool" where
  "NLMSG_OK l len \<longleftrightarrow> 16 \<le> len \<and> 16 \<le> l \<and> uint l \<le> len"

definition nl_read :: "nat \<Rightarrow> nat \<Rightarrow> bytes \<Rightarrow> bytes option" where
  "nl_read off n buf = (if off + n \<le> length buf then Some (get_bytes off n buf) else None)"

text \<open>The request, and the bytes of it that are sent: its header and an empty \<^verbatim>\<open>struct rtmsg\<close>.\<close>

definition nl_request :: "nl_env \<Rightarrow> u32 \<Rightarrow> nlmsghdr" where
  "nl_request E msgseq =
     \<lparr>nlmsg_len = 28, nlmsg_type = RTM_GETROUTE, nlmsg_flags = NLM_F_DUMP OR NLM_F_REQUEST,
      nlmsg_seq = msgseq, nlmsg_pid = nl_getpid E\<rparr>"

definition nl_request_bytes :: "nlmsghdr \<Rightarrow> bytes" where
  "nl_request_bytes h =
     le_bytes 4 (nlmsg_len h) @ le_bytes 2 (nlmsg_type h) @ le_bytes 2 (nlmsg_flags h) @
     le_bytes 4 (nlmsg_seq h) @ le_bytes 4 (nlmsg_pid h) @ replicate 12 0"

text \<open>
  The loop around \<^verbatim>\<open>recv\<close>.  All its tests but one look at the header of the request (\<^verbatim>\<open>nlmsg\<close>) where the header of the
  answer (\<^verbatim>\<open>nlh\<close>) is meant.
\<close>

partial_function (option) nl_recv_loop ::
    "nl_env \<Rightarrow> nlmsghdr \<Rightarrow> u32 \<Rightarrow> nat \<Rightarrow> bytes \<Rightarrow> nat \<Rightarrow> nat \<Rightarrow> (nl_fail + bytes \<times> nat \<times> int) option" where
  "nl_recv_loop E nlmsg msgseq n buffer ptr msg_len =
     (let (received, bs) = nl_recv E n (4096 - msg_len) in
      if received < 0 then Some (Inl Exit_Failure)
      else if \<not> NLMSG_OK (nlmsg_len nlmsg) received \<or> nlmsg_type nlmsg = NLMSG_ERROR
      then Some (Inl Exit_Failure)
      else if length buffer < ptr + 6 then Some (Inl Outside)
      else if get_u16 (ptr + 4) (put_bytes ptr bs buffer) = NLMSG_DONE
      then Some (Inr (put_bytes ptr bs buffer, ptr, received))
      else if nlmsg_flags nlmsg AND NLM_F_MULTI = 0
      then Some (Inr (put_bytes ptr bs buffer, ptr, received))
      else if nlmsg_seq nlmsg \<noteq> msgseq \<or> nlmsg_pid nlmsg \<noteq> nl_getpid E
      then nl_recv_loop E nlmsg msgseq (n + 1) (put_bytes ptr bs buffer) (ptr + nat received)
             (msg_len + nat received)
      else Some (Inr (put_bytes ptr bs buffer, ptr, received)))"

text \<open>The loop over the attributes of a route, with the names of the interface and of the gateway found so far.\<close>

definition rta_switch :: "nl_env \<Rightarrow> bytes \<Rightarrow> nat \<Rightarrow> bytes \<times> bytes \<Rightarrow> (bytes \<times> bytes) option" where
  "rta_switch E buf rta found =
     Option.bind (nl_read (rta + 2) 2 buf) (\<lambda>t.
       if le_word t = RTA_OIF
       then map_option (\<lambda>d. (case nl_if_indextoname E (le_word d) of Some name \<Rightarrow> name | None \<Rightarrow> fst found, snd found))
              (nl_read (rta + 4) 4 buf)
       else if le_word t = RTA_GATEWAY
       then map_option (\<lambda>d. (fst found, case nl_inet_ntop E d of Some str \<Rightarrow> str | None \<Rightarrow> snd found))
              (nl_read (rta + 4) 4 buf)
       else Some found)"

function rta_loop :: "nl_env \<Rightarrow> bytes \<Rightarrow> nat \<Rightarrow> int \<Rightarrow> bytes \<times> bytes \<Rightarrow> (bytes \<times> bytes) option" where
  "rta_loop E buf rta len found =
     (if len < 4 then Some found
      else Option.bind (nl_read rta 2 buf) (\<lambda>l.
        if unat (le_word l :: u16) < 4 \<or> len < int (unat (le_word l :: u16)) then Some found
        else Option.bind (rta_switch E buf rta found) (\<lambda>found.
          rta_loop E buf (rta + nl_align (unat (le_word l :: u16))) (len - int (nl_align (unat (le_word l :: u16)))) found)))"
  by auto
termination
  by (relation "measure (\<lambda>(E, buf, rta, len, found). nat len)") (auto simp: nl_align_def)

declare rta_loop.simps [simp del]

text \<open>
  The loop over the messages; \<open>bad\<close> is what \<^verbatim>\<open>rv\<close> becomes at a route of the main table without both names, and the
  result says whether both were found.
\<close>

function nl_route_loop :: "nl_env \<Rightarrow> int \<Rightarrow> bytes \<Rightarrow> nat \<Rightarrow> int \<Rightarrow> bytes \<times> bytes \<Rightarrow> int \<Rightarrow>
    (int \<times> bool \<times> bytes \<times> bytes) option" where
  "nl_route_loop E bad buf nlh len found rv =
     (if len < 16 then Some (rv, False, found)
      else Option.bind (nl_read nlh 4 buf) (\<lambda>l.
        if \<not> NLMSG_OK (le_word l) len then Some (rv, False, found)
        else Option.bind (nl_read (nlh + 20) 1 buf) (\<lambda>table.
          if le_word table \<noteq> RT_TABLE_MAIN
          then nl_route_loop E bad buf (nlh + nl_align (unat (le_word l :: u32)))
                 (len - int (nl_align (unat (le_word l :: u32)))) found rv
          else Option.bind (rta_loop E buf (nlh + 28) (uint (le_word l :: u32) - 28) found) (\<lambda>found.
            if snd found \<noteq> [] \<and> fst found \<noteq> [] then Some (rv, True, found)
            else nl_route_loop E bad buf (nlh + nl_align (unat (le_word l :: u32)))
                   (len - int (nl_align (unat (le_word l :: u32)))) found bad))))"
  by auto
termination
  by (relation "measure (\<lambda>(E, bad, buf, nlh, len, found, rv). nat len)")
    (auto simp: nl_align_def NLMSG_OK_def word_le_nat_alt)

declare nl_route_loop.simps [simp del]

text \<open>
  The function of \<^verbatim>\<open>if.cpp\<close> returns a code, the two texts behind its pointers (the second may be null), and here
  also whether the socket is left open.
\<close>

definition if_get_gateway_and_iface ::
    "nl_env \<Rightarrow> bytes \<Rightarrow> bytes option \<Rightarrow> (nl_fail + int \<times> bytes \<times> bytes option \<times> bool) option" where
  "if_get_gateway_and_iface E gw iface =
     (let nlmsg = nl_request E 0 in
      if nl_socket E < 0 then Some (Inr (EXIT_FAILURE, gw, iface, False))
      else if nl_send E (nl_request_bytes nlmsg) < 0 then Some (Inr (EXIT_FAILURE, gw, iface, True))
      else case nl_recv_loop E nlmsg 1 0 (replicate 4096 0) 0 0 of
          None \<Rightarrow> None
        | Some (Inl Exit_Failure) \<Rightarrow> Some (Inr (EXIT_FAILURE, gw, iface, True))
        | Some (Inl Outside) \<Rightarrow> Some (Inl Outside)
        | Some (Inr (buffer, nlh, received)) \<Rightarrow>
            (case nl_route_loop E RETURNerror buffer nlh received ([], []) RETURNok of
               None \<Rightarrow> Some (Inl Outside)
             | Some (rv, True, interface, gateway_address) \<Rightarrow>
                 Some (Inr (rv, gateway_address, map_option (\<lambda>_. interface) iface, False))
             | Some (rv, False, _) \<Rightarrow> Some (Inr (rv, gw, iface, False))))"

text \<open>The copy in \<^verbatim>\<open>get_gateway_netlink.cpp\<close> takes references and answers true whenever the answer could be parsed.\<close>

definition util_get_gateway_and_iface ::
    "nl_env \<Rightarrow> bytes \<Rightarrow> bytes \<Rightarrow> (nl_fail + bool \<times> bytes \<times> bytes \<times> bool) option" where
  "util_get_gateway_and_iface E gw iface =
     (let nlmsg = nl_request E 0 in
      if nl_socket E < 0 then Some (Inr (False, gw, iface, False))
      else if nl_send E (nl_request_bytes nlmsg) < 0 then Some (Inr (False, gw, iface, True))
      else case nl_recv_loop E nlmsg 1 0 (replicate 4096 0) 0 0 of
          None \<Rightarrow> None
        | Some (Inl Exit_Failure) \<Rightarrow> Some (Inr (False, gw, iface, True))
        | Some (Inl Outside) \<Rightarrow> Some (Inl Outside)
        | Some (Inr (buffer, nlh, received)) \<Rightarrow>
            (case nl_route_loop E 0 buffer nlh received ([], []) RETURNok of
               None \<Rightarrow> Some (Inl Outside)
             | Some (rv, True, interface, gateway_address) \<Rightarrow> Some (Inr (True, gateway_address, interface, False))
             | Some (rv, False, _) \<Rightarrow> Some (Inr (True, gw, iface, False))))"


section \<open>Specification\<close>

text \<open>
  A route as the kernel describes it: the fields of the two headers that the code does not look at, the routing table
  and the attributes with their types.
\<close>

record nl_route =
  nr_header :: bytes
  nr_before :: bytes
  nr_table :: u8
  nr_after :: bytes
  nr_attributes :: "(u16 \<times> bytes) list"

definition encode_attribute :: "u16 \<times> bytes \<Rightarrow> bytes" where
  "encode_attribute a =
     le_bytes 2 (of_nat (4 + length (snd a)) :: u16) @ le_bytes 2 (fst a) @ snd a @
     replicate (nl_align (length (snd a)) - length (snd a)) 0"

definition encode_attributes :: "(u16 \<times> bytes) list \<Rightarrow> bytes" where
  "encode_attributes as = concat (map encode_attribute as)"

definition encode_route :: "nl_route \<Rightarrow> bytes" where
  "encode_route r =
     le_bytes 4 (of_nat (28 + length (encode_attributes (nr_attributes r))) :: u32) @ nr_header r @ nr_before r @
     [nr_table r] @ nr_after r @ encode_attributes (nr_attributes r)"

definition encode_routes :: "nl_route list \<Rightarrow> bytes" where
  "encode_routes rs = concat (map encode_route rs)"

definition route_ok :: "nl_route \<Rightarrow> bool" where
  "route_ok r \<longleftrightarrow>
     length (nr_header r) = 12 \<and> length (nr_before r) = 4 \<and> length (nr_after r) = 7 \<and>
     list_all (\<lambda>a. length (snd a) < 65532 \<and> (fst a \<in> {RTA_OIF, RTA_GATEWAY} \<longrightarrow> 4 \<le> length (snd a)))
       (nr_attributes r)"

definition apply_attribute :: "nl_env \<Rightarrow> bytes \<times> bytes \<Rightarrow> u16 \<times> bytes \<Rightarrow> bytes \<times> bytes" where
  "apply_attribute E found a =
     (if fst a = RTA_OIF
      then (case nl_if_indextoname E (le_word (take 4 (snd a))) of Some name \<Rightarrow> name | None \<Rightarrow> fst found, snd found)
      else if fst a = RTA_GATEWAY
      then (fst found, case nl_inet_ntop E (take 4 (snd a)) of Some str \<Rightarrow> str | None \<Rightarrow> snd found)
      else found)"

definition complete :: "bytes \<times> bytes \<Rightarrow> bool" where
  "complete found \<longleftrightarrow> snd found \<noteq> [] \<and> fst found \<noteq> []"

fun first_gateway :: "nl_env \<Rightarrow> int \<Rightarrow> bytes \<times> bytes \<Rightarrow> int \<Rightarrow> nl_route list \<Rightarrow> int \<times> bool \<times> bytes \<times> bytes" where
  "first_gateway E bad found rv [] = (rv, False, found)"
| "first_gateway E bad found rv (r # rs) =
     (if nr_table r \<noteq> RT_TABLE_MAIN then first_gateway E bad found rv rs
      else let found = foldl (apply_attribute E) found (nr_attributes r) in
        if complete found then (rv, True, found) else first_gateway E bad found bad rs)"

section \<open>Reading the answer\<close>

lemma nl_align_simps [simp]:
  "n \<le> nl_align n" "nl_align (4 + n) = 4 + nl_align n" "nl_align (nl_align n) = nl_align n"
  "0 < n \<Longrightarrow> 4 \<le> nl_align n"
  unfolding nl_align_def by presburger+

lemma nl_align_dvd: "4 dvd n \<Longrightarrow> nl_align n = n"
  by (auto simp: nl_align_def dvd_def)

lemma nl_read_at: "length pre = off \<Longrightarrow> n \<le> length xs \<Longrightarrow> nl_read off n (pre @ xs) = Some (take n xs)"
  by (auto simp: nl_read_def get_bytes_def)

text \<open>The request is the only message whose header the loop checks, so it ends after its first turn.\<close>

lemma nl_recv_loop_once:
  assumes "6 \<le> length buf"
  shows "nl_recv_loop E (nl_request E seq) msgseq n buf 0 0 =
    Some (if fst (nl_recv E n 4096) < 28 then Inl Exit_Failure
          else Inr (put_bytes 0 (snd (nl_recv E n 4096)) buf, 0, fst (nl_recv E n 4096)))"
  using assms by (subst nl_recv_loop.simps) (auto simp: nl_request_def NLMSG_OK_def split_def Let_def)

lemma rta_loop_inside:
  "int rta + len \<le> int B \<Longrightarrow> B + 4 \<le> length buf \<Longrightarrow> rta_loop E buf rta len found \<noteq> None"
proof (induction E buf rta len found rule: rta_loop.induct)
  case (1 E buf rta len found)
  show ?case
  proof (cases "len < 4")
    case True
    then show ?thesis by (subst rta_loop.simps) simp
  next
    case False
    then have r: "nl_read rta 2 buf = Some (get_bytes rta 2 buf)" "rta_switch E buf rta found \<noteq> None"
      using 1(2,3) by (simp_all add: nl_read_def rta_switch_def)
    show ?thesis
      using False r 1(2,3) 1(1) [OF False r(1)] by (subst rta_loop.simps) (auto simp: algebra_simps)
  qed
qed

lemma nl_route_loop_inside:
  "int nlh + len \<le> int B \<Longrightarrow> B + 5 \<le> length buf \<Longrightarrow> nl_route_loop E bad buf nlh len found rv \<noteq> None"
proof (induction E bad buf nlh len found rv rule: nl_route_loop.induct)
  case (1 E bad buf nlh len found rv)
  show ?case
  proof (cases "len < 16")
    case True
    then show ?thesis by (subst nl_route_loop.simps) simp
  next
    case False
    then have r: "nl_read nlh 4 buf = Some (get_bytes nlh 4 buf)" "nl_read (nlh + 20) 1 buf = Some (get_bytes (nlh + 20) 1 buf)"
      using 1(3,4) by (simp_all add: nl_read_def)
    let ?l = "le_word (get_bytes nlh 4 buf) :: u32"
    show ?thesis
    proof (cases "NLMSG_OK ?l len")
      case True
      have "rta_loop E buf (nlh + 28) (uint ?l - 28) found \<noteq> None"
        using True 1(3,4) by (intro rta_loop_inside [of _ _ B]) (simp_all add: NLMSG_OK_def)
      then show ?thesis
        using False True r 1(3,4) 1(1,2) [OF False r(1) _ r(2)]
        by (subst nl_route_loop.simps) (auto simp: algebra_simps)
    next
      case no: False
      then show ?thesis using False r by (subst nl_route_loop.simps) simp
    qed
  qed
qed

lemma length_encode_attribute [simp]: "length (encode_attribute a) = 4 + nl_align (length (snd a))"
  by (simp add: encode_attribute_def)

lemma encode_attributes_simps [simp]:
  "encode_attributes [] = []" "encode_attributes (a # as) = encode_attribute a @ encode_attributes as"
  by (simp_all add: encode_attributes_def)

lemma encode_routes_simps [simp]:
  "encode_routes [] = []" "encode_routes (r # rs) = encode_route r @ encode_routes rs"
  by (simp_all add: encode_routes_def)

lemma length_encode_attributes: "4 dvd length (encode_attributes as)"
  by (induction as) (auto simp: nl_align_def)

lemma rta_loop_reads:
  assumes "list_all (\<lambda>a. length (snd a) < 65532 \<and> (fst a \<in> {RTA_OIF, RTA_GATEWAY} \<longrightarrow> 4 \<le> length (snd a))) as"
  shows "rta_loop E (pre @ encode_attributes as @ post) (length pre) (int (length (encode_attributes as))) found =
    Some (foldl (apply_attribute E) found as)"
  using assms
proof (induction as arbitrary: pre found)
  case Nil
  then show ?case by (subst rta_loop.simps) simp
next
  case (Cons a as)
  obtain t p where a: "a = (t, p)" by (cases a)
  have p: "length p < 65532" "t \<in> {RTA_OIF, RTA_GATEWAY} \<longrightarrow> 4 \<le> length p"
    using Cons.prems by (simp_all add: a)
  let ?rest = "encode_attributes as @ post"
  let ?pad = "replicate (nl_align (length p) - length p) 0 :: bytes"
  let ?buf = "pre @ le_bytes 2 (of_nat (4 + length p) :: u16) @ le_bytes 2 t @ p @ ?pad @ ?rest"
  have len: "unat (of_nat (4 + length p) :: u16) = 4 + length p"
      "uint (of_nat (4 + length p) :: u16) = int (4 + length p)"
    using p(1) by (simp_all add: unat_of_nat uint_nat del: of_nat_add)
  have left: "int (length (encode_attributes (a # as))) - int (nl_align (4 + length p))
      = int (length (encode_attributes as))" "\<not> int (length (encode_attributes (a # as))) < int (4 + length p)"
    using nl_align_simps(1) [of "length p"] by (simp_all add: a del: nl_align_simps(1))
  have buf: "pre @ encode_attributes (a # as) @ post = ?buf" "?buf = (pre @ encode_attribute a) @ ?rest"
    by (simp_all add: a encode_attribute_def del: le_bytes.simps)
  have r1: "nl_read (length pre) 2 ?buf = Some (le_bytes 2 (of_nat (4 + length p) :: u16))"
    by (subst nl_read_at) (simp_all del: le_bytes.simps of_nat_add)
  have r2: "nl_read (length pre + 2) 2 ?buf = Some (le_bytes 2 t)"
    using nl_read_at [of "pre @ le_bytes 2 (of_nat (4 + length p) :: u16)" "length pre + 2" 2]
    by (simp del: le_bytes.simps of_nat_add)
  have r3: "nl_read (length pre + 4) 4 ?buf = Some (take 4 p)" if "4 \<le> length p"
    using that nl_read_at [of "pre @ le_bytes 2 (of_nat (4 + length p) :: u16) @ le_bytes 2 t" "length pre + 4" 4]
    by (simp del: le_bytes.simps of_nat_add)
  have "rta_switch E ?buf (length pre) found = Some (apply_attribute E found a)"
    using r2 r3 p(2)
    by (auto simp: rta_switch_def apply_attribute_def a simp del: le_bytes.simps of_nat_add)
  moreover have "rta_loop E ?buf (length pre + nl_align (4 + length p)) (int (length (encode_attributes as)))
      (apply_attribute E found a) = Some (foldl (apply_attribute E) found (a # as))"
    unfolding buf(2)
    using Cons.IH [of "pre @ encode_attribute a" "apply_attribute E found a"] Cons.prems
    by (simp add: a add.assoc)
  ultimately show ?case
    unfolding buf(1)
    by (subst rta_loop.simps)
      (simp add: r1 len left del: le_bytes.simps of_nat_add nl_align_simps encode_attributes_simps of_nat_less_iff, simp)
qed

lemma length_encode_route:
  "route_ok r \<Longrightarrow> length (encode_route r) = 28 + length (encode_attributes (nr_attributes r))"
  by (simp add: encode_route_def route_ok_def)

lemma nl_route_loop_reads:
  assumes "list_all route_ok rs" and "length (encode_routes rs) < 2 ^ 31"
  shows "nl_route_loop E bad (pre @ encode_routes rs @ post) (length pre) (int (length (encode_routes rs))) found rv =
    Some (first_gateway E bad found rv rs)"
  using assms
proof (induction rs arbitrary: pre found rv)
  case Nil
  then show ?case by (subst nl_route_loop.simps) simp
next
  case (Cons r rs)
  let ?as = "encode_attributes (nr_attributes r)" and ?rest = "encode_routes rs @ post"
  let ?n = "28 + length ?as"
  let ?head = "le_bytes 4 (of_nat ?n :: u32) @ nr_header r @ nr_before r"
  have ok: "route_ok r" "list_all route_ok rs"
    using Cons.prems(1) by simp_all
  then have parts: "length (nr_header r) = 12" "length (nr_before r) = 4" "length (nr_after r) = 7"
    by (simp_all add: route_ok_def)
  have n: "unat (of_nat ?n :: u32) = ?n" "uint (of_nat ?n :: u32) = int ?n" "nl_align ?n = ?n"
    using Cons.prems(2) length_encode_route [OF ok(1)] length_encode_attributes [of "nr_attributes r"]
    by (simp_all add: unat_of_nat uint_nat nl_align_dvd del: of_nat_add)
  then have "NLMSG_OK (of_nat ?n) (int (length (encode_routes (r # rs))))"
    using length_encode_route [OF ok(1)]
    by (simp add: NLMSG_OK_def word_le_nat_alt del: of_nat_add)
  let ?buf = "pre @ encode_routes (r # rs) @ post"
  have r1: "nl_read (length pre) 4 ?buf = Some (le_bytes 4 (of_nat ?n :: u32))"
    by (subst nl_read_at) (simp_all add: encode_route_def del: le_bytes.simps of_nat_add)
  have r2: "nl_read (length pre + 20) 1 ?buf = Some [nr_table r]"
    using nl_read_at [of "pre @ ?head" "length pre + 20" 1 "nr_table r # nr_after r @ ?as @ ?rest"]
    by (simp add: parts encode_route_def del: le_bytes.simps of_nat_add)
  have r3: "rta_loop E ?buf (length pre + 28) (int ?n - 28) found =
      Some (foldl (apply_attribute E) found (nr_attributes r))" for found
    using rta_loop_reads [of "nr_attributes r" E "pre @ ?head @ [nr_table r] @ nr_after r" ?rest found] ok(1)
    by (simp add: parts route_ok_def encode_route_def del: le_bytes.simps)
  have IH: "nl_route_loop E bad ?buf (length pre + ?n) (int (length (encode_routes rs))) found rv =
      Some (first_gateway E bad found rv rs)" for found rv
    using Cons.IH [of "pre @ encode_route r" found rv] ok(2) Cons.prems(2) length_encode_route [OF ok(1)]
    by (simp add: add.assoc)
  have left: "int (length (encode_routes (r # rs))) - int ?n = int (length (encode_routes rs))"
      "\<not> int (length (encode_routes (r # rs))) < 16"
    using length_encode_route [OF ok(1)] by simp_all
  show ?case
    using \<open>NLMSG_OK _ _\<close> IH r1 r2 r3 n left
    by (subst nl_route_loop.simps)
      (simp add: complete_def Let_def del: le_bytes.simps of_nat_add encode_routes_simps)
qed

section \<open>Properties\<close>

text \<open>\<^verbatim>\<open>recv\<close> writes as many bytes as it reports, and no more than it has room for.\<close>

definition recv_ok :: "nl_env \<Rightarrow> bool" where
  "recv_ok E \<longleftrightarrow> (case nl_recv E 0 4096 of (n, bs) \<Rightarrow> n = int (length bs) \<and> length bs \<le> 4091 \<or> n = -1 \<and> bs = [])"

lemma received_buffer: "length bs \<le> 4096 \<Longrightarrow> put_bytes 0 bs (replicate 4096 0) = bs @ replicate (4096 - length bs) 0"
  by (simp add: put_bytes_def)


text \<open>
  The answer of the kernel is read back as the routes that it describes.  When the dump fits into one answer, the
  function finds the names in the first route of the main table at which an interface and a gateway have been seen.
\<close>

lemma gateway_reads_routes_eq:
  assumes "0 \<le> nl_socket E" and "0 \<le> nl_send E (nl_request_bytes (nl_request E 0))"
    and "rs \<noteq> []" and "list_all route_ok rs" and "length (encode_routes rs) \<le> 4096"
    and "nl_recv E 0 4096 = (int (length (encode_routes rs)), encode_routes rs)"
  shows "if_get_gateway_and_iface E gw iface = Some (Inr (
    case first_gateway E RETURNerror ([], []) RETURNok rs of
      (rv, True, interface, gateway) \<Rightarrow> (rv, gateway, map_option (\<lambda>_. interface) iface, False)
    | (rv, False, _) \<Rightarrow> (rv, gw, iface, False)))"
proof -
  let ?bs = "encode_routes rs"
  obtain r rs' where "rs = r # rs'" using assms(3) by (cases rs) auto
  then have "28 \<le> length ?bs" using assms(4) length_encode_route [of r] by simp
  then have "nl_recv_loop E (nl_request E 0) 1 0 (replicate 4096 0) 0 0 =
      Some (Inr (?bs @ replicate (4096 - length ?bs) 0, 0, int (length ?bs)))"
    using nl_recv_loop_once [of "replicate 4096 0" E 0 1 0] assms(5,6) received_buffer [of ?bs] by simp
  moreover have "nl_route_loop E RETURNerror (?bs @ replicate (4096 - length ?bs) 0) 0 (int (length ?bs)) ([], []) RETURNok
      = Some (first_gateway E RETURNerror ([], []) RETURNok rs)"
    using nl_route_loop_reads [of rs E RETURNerror "[]"] assms(4,5) by simp
  ultimately show ?thesis
    using assms(1,2)
    by (auto simp: if_get_gateway_and_iface_def Let_def split: prod.split bool.split)
qed

lemma first_gateway_bad: "fst (first_gateway E bad found bad rs) = bad"
  by (induction rs arbitrary: found) (auto simp: Let_def)

text \<open>
  C26: The code that \<^verbatim>\<open>if.cpp\<close> returns is decided by the first route of the main table: unless that route has both an
  interface and a gateway, the function reports an error, also when a later route has them and both texts were assigned.
  Without a route of the main table it reports success and assigns nothing.
\<close>

theorem gateway_code_first_route:
  assumes "0 \<le> nl_socket E" and "0 \<le> nl_send E (nl_request_bytes (nl_request E 0))"
    and "rs \<noteq> []" and "list_all route_ok rs" and "length (encode_routes rs) \<le> 4096"
    and "nl_recv E 0 4096 = (int (length (encode_routes rs)), encode_routes rs)"
  shows "\<exists>rv gw' iface'. if_get_gateway_and_iface E gw iface = Some (Inr (rv, gw', iface', False)) \<and>
    (case filter (\<lambda>r. nr_table r = RT_TABLE_MAIN) rs of
       [] \<Rightarrow> rv = RETURNok \<and> gw' = gw \<and> iface' = iface
     | r # _ \<Rightarrow> rv = (if complete (foldl (apply_attribute E) ([], []) (nr_attributes r)) then RETURNok else RETURNerror))"
proof -
  have "case filter (\<lambda>r. nr_table r = RT_TABLE_MAIN) rs of
      [] \<Rightarrow> first_gateway E RETURNerror found RETURNok rs = (RETURNok, False, found)
    | r # _ \<Rightarrow> fst (first_gateway E RETURNerror found RETURNok rs) =
        (if complete (foldl (apply_attribute E) found (nr_attributes r)) then RETURNok else RETURNerror)" for found
    by (induction rs) (auto simp: Let_def first_gateway_bad split: list.splits)
  note code = this [of "([], [])"]
  obtain rv b i g where first: "first_gateway E RETURNerror ([], []) RETURNok rs = (rv, b, i, g)"
    by (rule prod_cases4)
  show ?thesis
  proof (cases "filter (\<lambda>r. nr_table r = RT_TABLE_MAIN) rs")
    case Nil
    then show ?thesis using code gateway_reads_routes_eq [OF assms, of gw iface] by simp
  next
    case (Cons r rs')
    then show ?thesis
      using code first gateway_reads_routes_eq [OF assms, of gw iface] by (cases b) auto
  qed
qed

text \<open>A routing table with a route to a local network in front of the default route.\<close>

definition sample_routes :: "nl_route list" where
  "sample_routes =
     [\<lparr>nr_header = replicate 12 0, nr_before = [2, 24, 0, 0], nr_table = RT_TABLE_MAIN, nr_after = replicate 7 0,
       nr_attributes = [(RTA_OIF, [2, 0, 0, 0])]\<rparr>,
      \<lparr>nr_header = replicate 12 0, nr_before = [2, 0, 0, 0], nr_table = RT_TABLE_MAIN, nr_after = replicate 7 0,
       nr_attributes = [(RTA_GATEWAY, [10, 0, 0, 1]), (RTA_OIF, [3, 0, 0, 0])]\<rparr>]"

definition sample_nl_env :: nl_env where
  "sample_nl_env =
     \<lparr>nl_socket = 3, nl_getpid = 77, nl_send = (\<lambda>bs. int (length bs)),
      nl_recv = (\<lambda>n room. (int (length (encode_routes sample_routes)), encode_routes sample_routes)),
      nl_if_indextoname = (\<lambda>i. Some [101, 48 + ucast i]), nl_inet_ntop = (\<lambda>a. Some a)\<rparr>"

lemma sample_routes_ok: "list_all route_ok sample_routes" "length (encode_routes sample_routes) = 80"
  by (simp_all add: sample_routes_def route_ok_def encode_route_def nl_align_def del: le_bytes.simps)

lemma sample_first_gateway: "first_gateway sample_nl_env RETURNerror ([], []) RETURNok sample_routes =
    (RETURNerror, True, [101, 51], [10, 0, 0, 1])"
  by code_simp


theorem gateway_code_first_route_witness:
  "\<exists>gw' iface'. if_get_gateway_and_iface sample_nl_env [] (Some []) = Some (Inr (RETURNerror, gw', iface', False))"
proof -
  have main: "filter (\<lambda>r. nr_table r = RT_TABLE_MAIN) sample_routes = sample_routes" "sample_routes \<noteq> []"
    by (simp_all add: sample_routes_def)
  obtain r rs where r: "sample_routes = r # rs" "nr_attributes r = [(RTA_OIF, [2, 0, 0, 0])]"
    by (simp add: sample_routes_def)
  have "\<not> complete (foldl (apply_attribute sample_nl_env) ([], []) (nr_attributes r))"
    by (simp add: r(2) complete_def apply_attribute_def)
  moreover have "\<exists>rv gw' iface'. if_get_gateway_and_iface sample_nl_env [] (Some []) = Some (Inr (rv, gw', iface', False)) \<and>
    (case filter (\<lambda>r. nr_table r = RT_TABLE_MAIN) sample_routes of
       [] \<Rightarrow> rv = RETURNok \<and> gw' = [] \<and> iface' = Some []
     | r # _ \<Rightarrow> rv = (if complete (foldl (apply_attribute sample_nl_env) ([], []) (nr_attributes r)) then RETURNok else RETURNerror))"
    by (rule gateway_code_first_route [OF _ _ main(2) sample_routes_ok(1)])
      (simp_all add: sample_nl_env_def sample_routes_ok(2))
  ultimately show ?thesis
    unfolding main(1) by (simp add: r(1))
qed

end
