(* ===== verification/System_Utilities.thy ===== *)
theory System_Utilities
  imports Conversions
begin

text \<open>
  Utilities around the operating system, under \<^verbatim>\<open>src/oai/common/utils\<close>: addresses and MTU of an interface (\<^verbatim>\<open>if.cpp\<close>), its
  hardware address (\<^verbatim>\<open>get_gateway_netlink.cpp\<close>), the lock file of the process (\<^verbatim>\<open>pid_file.cpp\<close>), the scheduling of a
  thread (\<^verbatim>\<open>thread_sched.cpp\<close>), name resolution (\<^verbatim>\<open>fqdn.cpp\<close>) and the task that runs shell commands
  (\<^verbatim>\<open>async_shell_cmd.cpp\<close>).  System calls, the resolver and the messages between tasks are parameters.  Where it matters
  which calls are made, the operations keep a trace of them.
\<close>

section \<open>Interfaces\<close>

text \<open>
  The three requests to the kernel as functions of the name in \<^verbatim>\<open>struct ifreq\<close>; \<open>None\<close> is a call that fails, and
  \<open>ntop\<close> is \<^verbatim>\<open>inet_ntop\<close>.
\<close>

record if_env =
  ie_SIOCGIFADDR :: "bytes \<Rightarrow> u32 option"
  ie_SIOCGIFNETMASK :: "bytes \<Rightarrow> u32 option"
  ie_SIOCGIFMTU :: "bytes \<Rightarrow> u32 option"
  ie_ntop :: "bytes \<Rightarrow> bytes option"

definition ifr_name :: "bytes \<Rightarrow> bytes" where
  "ifr_name if_name = take 15 (takeWhile (\<lambda>c. c \<noteq> 0) if_name)"

definition get_inet_addr_from_iface :: "if_env \<Rightarrow> bytes \<Rightarrow> u32 \<Rightarrow> int \<times> u32" where
  "get_inet_addr_from_iface E if_name inet_addr =
     (case ie_SIOCGIFADDR E (ifr_name if_name) of
        None \<Rightarrow> (1, inet_addr)
      | Some a \<Rightarrow> if ie_ntop E (le_bytes 4 a) = None then (1, inet_addr) else (0, a))"

definition get_mtu_from_iface :: "if_env \<Rightarrow> bytes \<Rightarrow> u32 \<Rightarrow> int \<times> u32" where
  "get_mtu_from_iface E if_name mtu =
     (case ie_SIOCGIFMTU E (ifr_name if_name) of None \<Rightarrow> (1, mtu) | Some m \<Rightarrow> (0, m))"

text \<open>All three outputs are cleared first; a missing MTU is not an error.\<close>

definition get_inet_addr_infos_from_iface :: "if_env \<Rightarrow> bytes \<Rightarrow> int \<times> u32 \<times> u32 \<times> u32" where
  "get_inet_addr_infos_from_iface E if_name =
     (case ie_SIOCGIFADDR E (ifr_name if_name) of
        None \<Rightarrow> (1, 0, 0, 0)
      | Some a \<Rightarrow>
          if ie_ntop E (le_bytes 4 a) = None then (1, 0, 0, 0)
          else case ie_SIOCGIFNETMASK E (ifr_name if_name) of
              None \<Rightarrow> (1, a, 0, 0)
            | Some m \<Rightarrow>
                if ie_ntop E (le_bytes 4 m) = None then (1, a, 0, 0)
                else (0, a, m, case ie_SIOCGIFMTU E (ifr_name if_name) of None \<Rightarrow> 0 | Some u \<Rightarrow> u))"

text \<open>
  The hardware address is the first line of a file, read into 32 bytes; \<open>None\<close> is a file that cannot be opened, which
  leaves the empty text.
\<close>

definition get_iface_l2_addr :: "(bytes \<Rightarrow> bytes option) \<Rightarrow> bytes \<Rightarrow> bool \<times> bytes" where
  "get_iface_l2_addr file iface =
     (let wb = (case file (chars ''/sys/class/net/'' @ iface @ chars ''/address'') of
                  None \<Rightarrow> [] | Some content \<Rightarrow> take 31 (takeWhile (\<lambda>c. c \<noteq> 10) content));
          mac = takeWhile (\<lambda>c. c \<noteq> 0) wb
      in (True, filter (\<lambda>c. c \<noteq> 58) mac))"

section \<open>The lock file\<close>

abbreviation (input) F_ULOCK :: int where "F_ULOCK \<equiv> 0"
abbreviation (input) F_TLOCK :: int where "F_TLOCK \<equiv> 2"
abbreviation (input) EACCES :: int where "EACCES \<equiv> 13"
abbreviation (input) EAGAIN :: int where "EAGAIN \<equiv> 11"

datatype pid_call =
    Pid_open bytes int
  | Pid_lockf int int
  | Pid_ftruncate int
  | Pid_write int bytes
  | Pid_close int

record pid_env =
  pe_open :: "bytes \<Rightarrow> int"
  pe_lockf :: "int \<Rightarrow> int \<Rightarrow> int"
  pe_errno :: int
  pe_ftruncate :: "int \<Rightarrow> int"
  pe_getpid :: nat
  pe_write :: "int \<Rightarrow> bytes \<Rightarrow> int"

record pid_state =
  g_fd_pid_file :: int
  g_pid :: int
  pid_calls :: "pid_call list"

definition pid_call :: "pid_call \<Rightarrow> pid_state \<Rightarrow> pid_state" where
  "pid_call c st = st\<lparr>pid_calls := pid_calls st @ [c]\<rparr>"

definition lockfile :: "pid_env \<Rightarrow> int \<Rightarrow> int \<Rightarrow> pid_state \<Rightarrow> int \<times> pid_state" where
  "lockfile E fd lock_type st = (pe_lockf E fd F_TLOCK, pid_call (Pid_lockf fd F_TLOCK) st)"

definition is_pid_file_lock_success :: "pid_env \<Rightarrow> bytes \<Rightarrow> pid_state \<Rightarrow> bool \<times> pid_state" where
  "is_pid_file_lock_success E pid_file_name st =
     (let fd = pe_open E pid_file_name;
          st = pid_call (Pid_open pid_file_name fd) (st\<lparr>g_fd_pid_file := fd\<rparr>)
      in if fd < 0 then (False, st)
         else let (r, st) = lockfile E fd F_TLOCK st
      in if r < 0
         then (False, if pe_errno E = EACCES \<or> pe_errno E = EAGAIN then pid_call (Pid_close fd) st else st)
         else let st = pid_call (Pid_ftruncate fd) st
      in if pe_ftruncate E fd \<noteq> 0 then (False, pid_call (Pid_close fd) st)
         else let st = st\<lparr>g_pid := int (pe_getpid E)\<rparr>;
                  pid_dec = to_string (pe_getpid E);
                  st = pid_call (Pid_write fd pid_dec) st
      in (pe_write E fd pid_dec \<noteq> -1, st))"

definition pid_file_unlock :: "pid_env \<Rightarrow> pid_state \<Rightarrow> pid_state" where
  "pid_file_unlock E st =
     (let (_, st) = lockfile E (g_fd_pid_file st) F_ULOCK st
      in (pid_call (Pid_close (g_fd_pid_file st)) st)\<lparr>g_fd_pid_file := -1\<rparr>)"

section \<open>Threads and names\<close>

record thread_sched_params =
  tsp_cpu_id :: int
  tsp_sched_policy :: int
  tsp_sched_priority :: int
  tsp_thread_pool_size :: u32

definition new_thread_sched_params :: thread_sched_params where
  "new_thread_sched_params =
     \<lparr>tsp_cpu_id = 0, tsp_sched_policy = 1, tsp_sched_priority = 84, tsp_thread_pool_size = 1\<rparr>"

datatype sched_call = Set_affinity "int set" | Set_schedparam int int

text \<open>
  The set of processors is a local variable that is never cleared: \<open>junk\<close> is what it holds.  \<^verbatim>\<open>CPU_SET\<close> ignores
  processors from 1024 on.
\<close>

definition thread_sched_params_apply :: "int set \<Rightarrow> thread_sched_params \<Rightarrow> sched_call list" where
  "thread_sched_params_apply junk p =
     (if 0 \<le> tsp_cpu_id p
      then [Set_affinity (if tsp_cpu_id p < 1024 then insert (tsp_cpu_id p) junk else junk)] else []) @
     [Set_schedparam (tsp_sched_policy p) (tsp_sched_priority p)]"

text \<open>\<^verbatim>\<open>fqdn::resolve\<close>: the resolver throws or returns endpoints, of which the first is taken.\<close>

record dns_endpoint =
  de_address :: bytes
  de_port :: u16
  de_is_v4 :: bool

definition fqdn_resolve ::
    "(bytes \<Rightarrow> bytes \<Rightarrow> bytes + dns_endpoint list) \<Rightarrow> bytes \<Rightarrow> bytes \<Rightarrow> u32 \<Rightarrow> u8 \<Rightarrow> bytes \<Rightarrow>
     bytes + bool \<times> bytes \<times> u32 \<times> u8" where
  "fqdn_resolve resolver host_name address port addr_type protocol =
     (case resolver host_name protocol of
        Inl what \<Rightarrow> Inl (chars ''Cannot resolve a DNS name '' @ what)
      | Inr [] \<Rightarrow> Inr (False, address, port, 0)
      | Inr (e # _) \<Rightarrow> Inr (True, de_address e, ucast (de_port e), if de_is_v4 e then 0 else 1))"

section \<open>The task that runs shell commands\<close>

text \<open>
  The messages of the tasks and their classes are not part of the repository.  What the code uses of them is the
  parameter: the numbers of the four types it handles, the type of a message, and its casts to a command (origin, text
  and whether a failure ends the origin) and to a termination; \<open>system\<close> is the exit code of a shell command.
\<close>

record 'm itti_env =
  it_ASYNC_SHELL_CMD :: int
  it_TIME_OUT :: int
  it_TERMINATE :: int
  it_HEALTH_PING :: int
  it_msg_type :: "'m \<Rightarrow> int"
  it_as_command :: "'m \<Rightarrow> (int \<times> bytes \<times> bool) option"
  it_as_terminate :: "'m \<Rightarrow> bool"
  it_system :: "bytes \<Rightarrow> int"

datatype task_event = Ready | Ran bytes | Terminate_sent int | Stopped

definition async_cmd_command :: "'m itti_env \<Rightarrow> 'm \<Rightarrow> task_event list" where
  "async_cmd_command E msg =
     (case it_as_command E msg of
        None \<Rightarrow> []
      | Some (origin, system_command, is_abort_on_error) \<Rightarrow>
          Ran system_command #
            (if it_system E system_command \<noteq> 0 \<and> is_abort_on_error then [Terminate_sent origin] else []))"

text \<open>The loop, on the messages that have arrived; it waits for the next one when they are used up.\<close>

fun async_cmd_loop :: "'m itti_env \<Rightarrow> 'm list \<Rightarrow> task_event list" where
  "async_cmd_loop E [] = []"
| "async_cmd_loop E (msg # msgs) =
     (if it_msg_type E msg = it_ASYNC_SHELL_CMD E then async_cmd_command E msg @ async_cmd_loop E msgs
      else if it_msg_type E msg = it_TIME_OUT E then async_cmd_loop E msgs
      else if it_msg_type E msg = it_TERMINATE E
      then if it_as_terminate E msg then [Stopped] else async_cmd_loop E msgs
      else async_cmd_loop E msgs)"

definition async_cmd_task :: "'m itti_env \<Rightarrow> 'm list \<Rightarrow> task_event list" where
  "async_cmd_task E msgs = Ready # async_cmd_loop E msgs"

section \<open>Properties\<close>

lemma take_takeWhile: "take n (takeWhile P xs) = takeWhile P (take n xs)"
  by (induction xs arbitrary: n) (auto simp: take_Cons split: nat.split)

text \<open>Names are cut after fifteen characters: interfaces that agree there are not distinguished.\<close>

lemma ifr_name_prefix: "take 15 a = take 15 b \<Longrightarrow> ifr_name a = ifr_name b"
  by (simp add: ifr_name_def take_takeWhile)

text \<open>The combined query agrees with the two single ones, except that it clears its outputs and forgives a missing MTU.\<close>

lemma infos_agree:
  assumes "get_inet_addr_infos_from_iface E n = (0, a, m, u)"
  shows "get_inet_addr_from_iface E n x = (0, a) \<and>
    get_mtu_from_iface E n 0 = ((if ie_SIOCGIFMTU E (ifr_name n) = None then 1 else 0), u)"
  using assms
  by (auto simp: get_inet_addr_infos_from_iface_def get_inet_addr_from_iface_def get_mtu_from_iface_def
      split: option.splits if_splits)

lemma infos_error_outputs:
  assumes "get_inet_addr_infos_from_iface E n = (1, a, m, u)"
  shows "m = 0 \<and> u = 0"
  using assms by (auto simp: get_inet_addr_infos_from_iface_def split: option.splits if_splits)

text \<open>The hardware address: six groups give twelve digits; without the interface the answer is true and empty.\<close>

lemma get_iface_l2_addr_found:
  assumes "file (chars ''/sys/class/net/'' @ iface @ chars ''/address'') = Some (mac @ 10 # rest)"
    and "length mac \<le> 31" and "0 \<notin> set mac" and "10 \<notin> set mac"
  shows "get_iface_l2_addr file iface = (True, filter (\<lambda>c. c \<noteq> 58) mac)"
proof -
  have "takeWhile (\<lambda>c. c \<noteq> 10) (mac @ 10 # rest) = mac"
    using assms(4) by (subst takeWhile_append2) auto
  moreover have "takeWhile (\<lambda>c. c \<noteq> 0) mac = mac"
    using assms(3) by (auto simp: takeWhile_eq_all_conv)
  ultimately show ?thesis
    using assms(1,2) by (simp add: get_iface_l2_addr_def del: takeWhile_eq_all_conv)
qed

lemma get_iface_l2_addr_missing: "file = (\<lambda>_. None) \<Longrightarrow> get_iface_l2_addr file iface = (True, [])"
  by (simp add: get_iface_l2_addr_def)

text \<open>The descriptors that a sequence of calls leaves open.\<close>

fun open_after :: "pid_call list \<Rightarrow> int set \<Rightarrow> int set" where
  "open_after [] fds = fds"
| "open_after (Pid_open n fd # cs) fds = open_after cs (if 0 \<le> fd then insert fd fds else fds)"
| "open_after (Pid_close fd # cs) fds = open_after cs (fds - {fd})"
| "open_after (c # cs) fds = open_after cs fds"

lemma open_after_append [simp]: "open_after (cs @ ds) fds = open_after ds (open_after cs fds)"
  by (induction cs fds rule: open_after.induct) simp_all

text \<open>
  Taking the lock of the process.  It succeeds exactly when the file can be opened, locked, emptied and written, and
  then the file stays open with the process number in it.  When it fails, the descriptor that was opened is closed again
  except in two cases: the lock fails for a reason other than a competing lock, or the number cannot be written.
\<close>

lemma pid_file_lock_spec:
  assumes "pid_calls st = []" and "is_pid_file_lock_success E name st = (ok, st')"
  shows "(ok \<longleftrightarrow> 0 \<le> pe_open E name \<and> 0 \<le> pe_lockf E (pe_open E name) F_TLOCK \<and> pe_ftruncate E (pe_open E name) = 0 \<and>
            pe_write E (pe_open E name) (to_string (pe_getpid E)) \<noteq> -1) \<and>
    (ok \<longrightarrow> Pid_write (g_fd_pid_file st') (to_string (pe_getpid E)) \<in> set (pid_calls st')) \<and>
    open_after (pid_calls st') {} =
      (if 0 \<le> pe_open E name \<and>
          (if pe_lockf E (pe_open E name) F_TLOCK < 0 then pe_errno E \<noteq> EACCES \<and> pe_errno E \<noteq> EAGAIN
           else pe_ftruncate E (pe_open E name) = 0)
       then {pe_open E name} else {})"
  using assms
  by (auto simp: is_pid_file_lock_success_def lockfile_def pid_call_def Let_def split: if_splits)

definition sample_pid_env :: pid_env where
  "sample_pid_env = \<lparr>pe_open = (\<lambda>_. 5), pe_lockf = (\<lambda>_ _. 0), pe_errno = 0, pe_ftruncate = (\<lambda>_. 0), pe_getpid = 42,
     pe_write = (\<lambda>_ bs. int (length bs))\<rparr>"

definition sample_pid_state :: pid_state where
  "sample_pid_state = \<lparr>g_fd_pid_file = -1, g_pid = -1, pid_calls = []\<rparr>"

lemma pid_file_lock_spec_witness:
  "\<exists>st'. is_pid_file_lock_success sample_pid_env [] sample_pid_state = (True, st') \<and> open_after (pid_calls st') {} = {5}"
proof -
  obtain ok st' where "is_pid_file_lock_success sample_pid_env [] sample_pid_state = (ok, st')" by fastforce
  then show ?thesis
    using pid_file_lock_spec [of sample_pid_state sample_pid_env "[]" ok st']
    by (simp add: sample_pid_env_def sample_pid_state_def)
qed

text \<open>Giving up the lock locks the file once more, and relies on the closing of the descriptor.\<close>

lemma pid_file_unlock_locks:
  "pid_calls (pid_file_unlock E st) =
     pid_calls st @ [Pid_lockf (g_fd_pid_file st) F_TLOCK, Pid_close (g_fd_pid_file st)]"
  by (simp add: pid_file_unlock_def lockfile_def pid_call_def)

text \<open>A thread may run on its processor and on every one that the uncleared variable names.\<close>

lemma thread_sched_params_apply_affinity:
  "0 \<le> tsp_cpu_id p \<Longrightarrow> tsp_cpu_id p < 1024 \<Longrightarrow>
     hd (thread_sched_params_apply junk p) = Set_affinity {tsp_cpu_id p} \<longleftrightarrow> junk \<subseteq> {tsp_cpu_id p}"
  by (auto simp: thread_sched_params_apply_def)

lemma fqdn_resolve_first:
  assumes "fqdn_resolve resolver h a p t pr = Inr (True, address, port, addr_type)"
  shows "\<exists>e es. resolver h pr = Inr (e # es) \<and> address = de_address e \<and> port = ucast (de_port e) \<and>
    (addr_type = 0 \<longleftrightarrow> de_is_v4 e)"
  using assms by (auto simp: fqdn_resolve_def split: sum.splits list.splits if_splits)

text \<open>
  The shell commands are run in the order in which they were requested, each one once, up to the message that
  terminates the task; the origin of a command is told to terminate exactly when its command fails and asks for it.
  The distinct numbers of the message types are what is assumed of the messages.
\<close>

definition is_stop :: "'m itti_env \<Rightarrow> 'm \<Rightarrow> bool" where
  "is_stop E msg \<longleftrightarrow> it_msg_type E msg = it_TERMINATE E \<and> it_as_terminate E msg"

definition commands :: "'m itti_env \<Rightarrow> 'm list \<Rightarrow> (int \<times> bytes \<times> bool) list" where
  "commands E msgs =
     List.map_filter (it_as_command E) (filter (\<lambda>m. it_msg_type E m = it_ASYNC_SHELL_CMD E) msgs)"

lemma async_commands_in_order:
  assumes "it_TERMINATE E \<noteq> it_ASYNC_SHELL_CMD E" and "it_TERMINATE E \<noteq> it_TIME_OUT E"
  shows "filter (\<lambda>e. e \<noteq> Ready \<and> e \<noteq> Stopped) (async_cmd_task E msgs) =
      concat (map (\<lambda>(origin, cmd, abort). Ran cmd # (if it_system E cmd \<noteq> 0 \<and> abort then [Terminate_sent origin] else []))
        (commands E (takeWhile (\<lambda>m. \<not> is_stop E m) msgs))) \<and>
    (Stopped \<in> set (async_cmd_task E msgs) \<longleftrightarrow> (\<exists>m \<in> set msgs. is_stop E m))"
proof -
  have "filter (\<lambda>e. e \<noteq> Ready \<and> e \<noteq> Stopped) (async_cmd_loop E msgs) =
      concat (map (\<lambda>(origin, cmd, abort). Ran cmd # (if it_system E cmd \<noteq> 0 \<and> abort then [Terminate_sent origin] else []))
        (commands E (takeWhile (\<lambda>m. \<not> is_stop E m) msgs)))"
    by (induction msgs) (use assms in \<open>auto simp: async_cmd_command_def is_stop_def commands_def map_filter_simps split: option.split\<close>)
  moreover have "Stopped \<in> set (async_cmd_loop E msgs) \<longleftrightarrow> (\<exists>m \<in> set msgs. is_stop E m)"
    by (induction msgs) (use assms in \<open>auto simp: async_cmd_command_def is_stop_def split: option.splits if_splits\<close>)
  ultimately show ?thesis by (simp add: async_cmd_task_def)
qed

definition sample_itti :: "(int \<times> int \<times> bytes \<times> bool) itti_env" where
  "sample_itti = \<lparr>it_ASYNC_SHELL_CMD = 1, it_TIME_OUT = 2, it_TERMINATE = 3, it_HEALTH_PING = 4, it_msg_type = fst,
     it_as_command = (\<lambda>m. Some (snd m)), it_as_terminate = (\<lambda>_. True), it_system = (\<lambda>c. if c = [7] then 1 else 0)\<rparr>"

lemma async_commands_in_order_witness:
  "filter (\<lambda>e. e \<noteq> Ready \<and> e \<noteq> Stopped)
     (async_cmd_task sample_itti [(1, 20, [6], True), (4, 0, [], False), (1, 21, [7], True), (3, 0, [], False), (1, 22, [8], True)])
   = [Ran [6], Ran [7], Terminate_sent 21]"
  using async_commands_in_order [of sample_itti
      "[(1, 20, [6], True), (4, 0, [], False), (1, 21, [7], True), (3, 0, [], False), (1, 22, [8], True)]"]
  by (simp add: sample_itti_def commands_def is_stop_def map_filter_simps)

end
