(* ===== verification/Uint_Generator.thy ===== *)
theory Uint_Generator
  imports Upf_Prelude
begin

text \<open>
  The generators of identifiers in \<^verbatim>\<open>src/oai/common/utils/uint_generator.hpp\<close>.  The first part is the
  code of one caller, a loop over a counter that wraps around; the second part the interleavings of any
  number of threads, with the two mutexes \<^verbatim>\<open>m_uid_generator\<close> and \<^verbatim>\<open>m_uid_generated\<close>.  The two
  classes of the source differ in the order in which they release them.
\<close>

section \<open>One caller\<close>

record 'u uint_generator =
  uid_generator :: 'u
  uid_generated :: "'u set"

definition new_uint_generator :: "'a::len word uint_generator" where
  "new_uint_generator = \<lparr>uid_generator = 0, uid_generated = {}\<rparr>"

partial_function (option) get_uid_loop ::
    "'a::len word \<Rightarrow> 'a word uint_generator \<Rightarrow> ('a word \<times> 'a word uint_generator) option" where
  "get_uid_loop uid g =
     (if uid \<notin> uid_generated g
      then Some (uid, g\<lparr>uid_generated := insert uid (uid_generated g)\<rparr>)
      else get_uid_loop (uid_generator g + 1) (g\<lparr>uid_generator := uid_generator g + 1\<rparr>))"

definition get_uid :: "'a::len word uint_generator \<Rightarrow> ('a word \<times> 'a word uint_generator) option" where
  "get_uid g = get_uid_loop (uid_generator g + 1) (g\<lparr>uid_generator := uid_generator g + 1\<rparr>)"

definition free_uid :: "'a::len word \<Rightarrow> 'a word uint_generator \<Rightarrow> 'a word uint_generator" where
  "free_uid uid g = g\<lparr>uid_generated := uid_generated g - {uid}\<rparr>"

text \<open>The loop finds the next free number behind the counter, or none.\<close>

lemma get_uid_loop_finds:
  assumes "\<forall>i < k. c + of_nat i \<in> G" and "c + of_nat k \<notin> G"
  shows "get_uid_loop c \<lparr>uid_generator = c, uid_generated = G\<rparr> =
    Some (c + of_nat k, \<lparr>uid_generator = c + of_nat k, uid_generated = insert (c + of_nat k) G\<rparr>)"
  using assms
proof (induction k arbitrary: c)
  case 0
  then show ?case by (simp add: get_uid_loop.simps)
next
  case (Suc k)
  have "c \<in> G" using Suc.prems(1) by force
  moreover have "\<forall>i < k. c + 1 + of_nat i \<in> G"
    using Suc.prems(1) by (metis Suc_less_eq add.assoc of_nat_Suc)
  moreover have "c + 1 + of_nat k \<notin> G"
    using Suc.prems(2) by (simp add: add.assoc)
  ultimately show ?case
    using Suc.IH [of "c + 1"] by (subst get_uid_loop.simps) (simp add: add.assoc)
qed

lemma next_free:
  fixes c :: "'a::len word"
  assumes "G \<noteq> UNIV"
  shows "\<exists>k. k < 2 ^ LENGTH('a) \<and> (\<forall>i < k. c + of_nat i \<in> G) \<and> c + of_nat k \<notin> G"
proof -
  obtain x where "x \<notin> G" using assms by blast
  then have "c + of_nat (unat (x - c)) \<notin> G" by simp
  then have ex: "\<exists>k. c + of_nat k \<notin> G" ..
  define k where "k = (LEAST k. c + of_nat k \<notin> G)"
  have "c + of_nat k \<notin> G" "\<forall>i < k. c + of_nat i \<in> G"
    unfolding k_def using LeastI_ex [OF ex] not_less_Least by blast+
  moreover have "k \<le> unat (x - c)"
    unfolding k_def by (rule Least_le) (simp add: \<open>x \<notin> G\<close>)
  then have "k < 2 ^ LENGTH('a)" by (rule le_less_trans [OF _ unsigned_less])
  ultimately show ?thesis by blast
qed

lemma get_uid_loop_full: "get_uid_loop uid g = Some r \<Longrightarrow> uid_generated g \<noteq> UNIV"
proof (erule get_uid_loop.raw_induct [where P = "\<lambda>uid g r. uid_generated g \<noteq> UNIV", rotated])
  fix f :: "'a word \<Rightarrow> 'a word uint_generator \<Rightarrow> ('a word \<times> 'a word uint_generator) option" and uid g r
  assume IH: "\<And>uid g r. f uid g = Some r \<Longrightarrow> uid_generated g \<noteq> UNIV"
    and "(if uid \<notin> uid_generated g then Some (uid, g\<lparr>uid_generated := insert uid (uid_generated g)\<rparr>)
      else f (uid_generator g + 1) (g\<lparr>uid_generator := uid_generator g + 1\<rparr>)) = Some r"
  then show "uid_generated g \<noteq> UNIV"
    using IH [of "uid_generator g + 1" "g\<lparr>uid_generator := uid_generator g + 1\<rparr>" r]
    by (cases "uid \<in> uid_generated g") auto
qed

lemma get_uid_next:
  assumes "uid_generated g \<noteq> UNIV"
  shows "\<exists>uid. get_uid g = Some (uid, \<lparr>uid_generator = uid, uid_generated = insert uid (uid_generated g)\<rparr>) \<and>
    uid \<notin> uid_generated g"
proof -
  obtain k where "\<forall>i < k. uid_generator g + 1 + of_nat i \<in> uid_generated g"
    "uid_generator g + 1 + of_nat k \<notin> uid_generated g"
    using next_free [OF assms] by blast
  then show ?thesis
    using get_uid_loop_finds [of k "uid_generator g + 1" "uid_generated g"]
    by (cases g) (auto simp: get_uid_def)
qed

section \<open>Any number of threads\<close>

text \<open>
  Between two actions of a thread others may run.  A thread in \<^verbatim>\<open>get_uid\<close> locks \<^verbatim>\<open>m_uid_generator\<close>
  (\<open>lr\<close>) for the whole call and \<^verbatim>\<open>m_uid_generated\<close> (\<open>ld\<close>) anew for each number it tries; \<^verbatim>\<open>free_uid\<close> takes
  the second one only.  The set \<open>gs_live\<close> holds the numbers that callers have received and not given
  back; a caller gives back only those, and once.
\<close>

datatype generator_class = Class_uint_generator | Class_uint_uid_generator

datatype 'u program_counter =
    Idle
  | Get_lock_r
  | Get_increment
  | Get_lock_d 'u
  | Get_check 'u
  | Get_unlock_d 'u
  | Get_unlock_first 'u
  | Get_unlock_last 'u
  | Free_lock_d 'u
  | Free_erase 'u
  | Free_unlock_d

record ('t, 'u) generator_state =
  gs_counter :: 'u
  gs_generated :: "'u set"
  gs_lr :: "'t option"
  gs_ld :: "'t option"
  gs_pc :: "'t \<Rightarrow> 'u program_counter"
  gs_live :: "'u set"

abbreviation goto :: "'t \<Rightarrow> 'u program_counter \<Rightarrow> ('t, 'u) generator_state \<Rightarrow> ('t, 'u) generator_state" where
  "goto t p s \<equiv> s\<lparr>gs_pc := (gs_pc s)(t := p)\<rparr>"

inductive generator_step ::
    "generator_class \<Rightarrow> 't \<Rightarrow> ('t, 'a::len word) generator_state \<Rightarrow> ('t, 'a word) generator_state \<Rightarrow> bool" for C t where
  call_get_uid: "gs_pc s t = Idle \<Longrightarrow> generator_step C t s (goto t Get_lock_r s)"
| lock_r: "gs_pc s t = Get_lock_r \<Longrightarrow> gs_lr s = None \<Longrightarrow>
    generator_step C t s (goto t Get_increment (s\<lparr>gs_lr := Some t\<rparr>))"
| increment: "gs_pc s t = Get_increment \<Longrightarrow>
    generator_step C t s (goto t (Get_lock_d (gs_counter s + 1)) (s\<lparr>gs_counter := gs_counter s + 1\<rparr>))"
| lock_d: "gs_pc s t = Get_lock_d uid \<Longrightarrow> gs_ld s = None \<Longrightarrow>
    generator_step C t s (goto t (Get_check uid) (s\<lparr>gs_ld := Some t\<rparr>))"
| check_free: "gs_pc s t = Get_check uid \<Longrightarrow> uid \<notin> gs_generated s \<Longrightarrow>
    generator_step C t s (goto t (Get_unlock_first uid) (s\<lparr>gs_generated := insert uid (gs_generated s)\<rparr>))"
| check_used: "gs_pc s t = Get_check uid \<Longrightarrow> uid \<in> gs_generated s \<Longrightarrow>
    generator_step C t s (goto t (Get_unlock_d (gs_counter s + 1)) (s\<lparr>gs_counter := gs_counter s + 1\<rparr>))"
| unlock_d: "gs_pc s t = Get_unlock_d uid \<Longrightarrow>
    generator_step C t s (goto t (Get_lock_d uid) (s\<lparr>gs_ld := None\<rparr>))"
| unlock_first: "gs_pc s t = Get_unlock_first uid \<Longrightarrow>
    generator_step C t s (goto t (Get_unlock_last uid)
      (case C of Class_uint_generator \<Rightarrow> s\<lparr>gs_ld := None\<rparr> | Class_uint_uid_generator \<Rightarrow> s\<lparr>gs_lr := None\<rparr>))"
| return_uid: "gs_pc s t = Get_unlock_last uid \<Longrightarrow>
    generator_step C t s (goto t Idle
      ((case C of Class_uint_generator \<Rightarrow> s\<lparr>gs_lr := None\<rparr> | Class_uint_uid_generator \<Rightarrow> s\<lparr>gs_ld := None\<rparr>)
         \<lparr>gs_live := insert uid (gs_live s)\<rparr>))"
| call_free_uid: "gs_pc s t = Idle \<Longrightarrow> uid \<in> gs_live s \<Longrightarrow>
    generator_step C t s (goto t (Free_lock_d uid) (s\<lparr>gs_live := gs_live s - {uid}\<rparr>))"
| free_lock_d: "gs_pc s t = Free_lock_d uid \<Longrightarrow> gs_ld s = None \<Longrightarrow>
    generator_step C t s (goto t (Free_erase uid) (s\<lparr>gs_ld := Some t\<rparr>))"
| free_erase: "gs_pc s t = Free_erase uid \<Longrightarrow>
    generator_step C t s (goto t Free_unlock_d (s\<lparr>gs_generated := gs_generated s - {uid}\<rparr>))"
| free_unlock_d: "gs_pc s t = Free_unlock_d \<Longrightarrow>
    generator_step C t s (goto t Idle (s\<lparr>gs_ld := None\<rparr>))"

definition generator_init :: "('t, 'a::len word) generator_state" where
  "generator_init = \<lparr>gs_counter = 0, gs_generated = {}, gs_lr = None, gs_ld = None, gs_pc = (\<lambda>_. Idle), gs_live = {}\<rparr>"

inductive generator_reachable :: "generator_class \<Rightarrow> ('t, 'a::len word) generator_state \<Rightarrow> bool" for C where
  reach_init: "generator_reachable C generator_init"
| reach_step: "generator_reachable C s \<Longrightarrow> generator_step C t s s' \<Longrightarrow> generator_reachable C s'"

inductive_cases generator_stepE: "generator_step C t s s'"

section \<open>The invariant\<close>

text \<open>Which locks a thread holds at a program counter, and which number it has in its hands.\<close>

fun holds_lr :: "generator_class \<Rightarrow> 'u program_counter \<Rightarrow> bool" where
  "holds_lr C (Get_unlock_last uid) = (C = Class_uint_generator)"
| "holds_lr C p = (p = Get_increment \<or> (\<exists>uid. p \<in> {Get_lock_d uid, Get_check uid, Get_unlock_d uid, Get_unlock_first uid}))"

fun holds_ld :: "generator_class \<Rightarrow> 'u program_counter \<Rightarrow> bool" where
  "holds_ld C (Get_unlock_last uid) = (C = Class_uint_uid_generator)"
| "holds_ld C p = (p = Free_unlock_d \<or> (\<exists>uid. p \<in> {Get_check uid, Get_unlock_d uid, Get_unlock_first uid, Free_erase uid}))"

fun in_hand :: "'u program_counter \<Rightarrow> 'u set" where
  "in_hand (Get_unlock_first uid) = {uid}"
| "in_hand (Get_unlock_last uid) = {uid}"
| "in_hand (Free_lock_d uid) = {uid}"
| "in_hand (Free_erase uid) = {uid}"
| "in_hand p = {}"

definition locks_ok :: "generator_class \<Rightarrow> ('t, 'a::len word) generator_state \<Rightarrow> bool" where
  "locks_ok C s \<longleftrightarrow> (\<forall>t. holds_lr C (gs_pc s t) \<longleftrightarrow> gs_lr s = Some t) \<and> (\<forall>t. holds_ld C (gs_pc s t) \<longleftrightarrow> gs_ld s = Some t)"

definition numbers_ok :: "('t, 'a::len word) generator_state \<Rightarrow> bool" where
  "numbers_ok s \<longleftrightarrow> gs_generated s = gs_live s \<union> (\<Union>t. in_hand (gs_pc s t)) \<and>
     (\<forall>t. in_hand (gs_pc s t) \<inter> gs_live s = {}) \<and>
     (\<forall>t t'. t \<noteq> t' \<longrightarrow> in_hand (gs_pc s t) \<inter> in_hand (gs_pc s t') = {})"

lemma locks_ok_step:
  assumes "generator_step C t s s'" and "locks_ok C s"
  shows "locks_ok C s'"
proof -
  have "holds_lr C (gs_pc s t) \<longleftrightarrow> gs_lr s = Some t" "holds_ld C (gs_pc s t) \<longleftrightarrow> gs_ld s = Some t"
    using assms(2) by (auto simp: locks_ok_def)
  with assms show ?thesis
    by (cases rule: generator_step.cases)
      (auto simp: locks_ok_def split: generator_class.splits)
qed

lemma numbers_ok_others:
  assumes "numbers_ok s"
  shows "(\<Union>t' \<in> - {t}. in_hand (gs_pc s t')) = gs_generated s - gs_live s - in_hand (gs_pc s t)"
  using assms unfolding numbers_ok_def by blast

lemma numbers_ok_goto:
  assumes "numbers_ok s" and pc: "gs_pc s' = (gs_pc s)(t := p)"
    and r: "r = gs_generated s - gs_live s - in_hand (gs_pc s t)"
    and "gs_generated s' = gs_live s' \<union> in_hand p \<union> r"
    and "in_hand p \<inter> gs_live s' = {}" and "in_hand p \<inter> r = {}" and "gs_live s' \<inter> r = {}"
  shows "numbers_ok s'"
proof -
  have o: "(\<Union>t' \<in> - {t}. in_hand (gs_pc s t')) = r"
    using numbers_ok_others [OF assms(1)] r by simp
  then have h: "t' \<noteq> t \<Longrightarrow> in_hand (gs_pc s t') \<subseteq> r" for t' by blast
  have "(\<Union>t'. in_hand (gs_pc s' t')) = in_hand p \<union> r"
    unfolding o [symmetric] pc by (auto split: if_splits)
  moreover have "in_hand (gs_pc s' t') \<inter> gs_live s' = {}" for t'
    using h [of t'] assms(5,7) by (cases "t' = t") (auto simp: pc)
  moreover have "in_hand (gs_pc s' t1) \<inter> in_hand (gs_pc s' t2) = {}" if "t1 \<noteq> t2" for t1 t2
    using h [of t1] h [of t2] assms(1,6) that
    by (cases "t1 = t"; cases "t2 = t") (auto simp: pc numbers_ok_def)
  ultimately show ?thesis
    using assms(4) by (simp add: numbers_ok_def Un_assoc)
qed

lemma numbers_ok_hand:
  assumes "numbers_ok s"
  shows "in_hand (gs_pc s t) \<subseteq> gs_generated s" "in_hand (gs_pc s t) \<inter> gs_live s = {}" "gs_live s \<subseteq> gs_generated s"
  using assms by (auto simp: numbers_ok_def)

lemma numbers_ok_step:
  assumes "generator_step C t s s'" and ok: "numbers_ok s"
  shows "numbers_ok s'"
  using assms(1) numbers_ok_hand(1,2) [OF ok, of t] numbers_ok_hand(3) [OF ok]
  by (cases rule: generator_step.cases)
    (rule numbers_ok_goto [OF ok _ refl], auto split: generator_class.split)+

lemma generator_reachable_ok: "generator_reachable C s \<Longrightarrow> locks_ok C s \<and> numbers_ok s"
proof (induction rule: generator_reachable.induct)
  case reach_init
  show ?case by (simp add: generator_init_def locks_ok_def numbers_ok_def)
qed (blast intro: locks_ok_step numbers_ok_step)

text \<open>A run of one thread up to the point where it returns its first number.\<close>

definition first_uid_run :: "(nat, 8 word) generator_state" where
  "first_uid_run = generator_init\<lparr>gs_counter := 1, gs_generated := {1}, gs_lr := Some 0,
     gs_pc := (\<lambda>_. Idle)(0 := Get_unlock_last 1)\<rparr>"

lemma first_uid_run_reachable: "generator_reachable Class_uint_generator first_uid_run"
proof -
  let ?s0 = "generator_init :: (nat, 8 word) generator_state"
  let ?s1 = "goto 0 Get_lock_r ?s0"
  let ?s2 = "goto 0 Get_increment (?s1\<lparr>gs_lr := Some 0\<rparr>)"
  let ?s3 = "goto 0 (Get_lock_d (gs_counter ?s2 + 1)) (?s2\<lparr>gs_counter := gs_counter ?s2 + 1\<rparr>)"
  let ?s4 = "goto 0 (Get_check 1) (?s3\<lparr>gs_ld := Some 0\<rparr>)"
  let ?s5 = "goto 0 (Get_unlock_first 1) (?s4\<lparr>gs_generated := insert 1 (gs_generated ?s4)\<rparr>)"
  let ?s6 = "goto 0 (Get_unlock_last 1)
    (case Class_uint_generator of Class_uint_generator \<Rightarrow> ?s5\<lparr>gs_ld := None\<rparr> | Class_uint_uid_generator \<Rightarrow> ?s5\<lparr>gs_lr := None\<rparr>)"
  have "generator_reachable Class_uint_generator ?s0" by (rule reach_init)
  then have "generator_reachable Class_uint_generator ?s1"
    by (rule reach_step) (rule call_get_uid, simp add: generator_init_def)
  then have "generator_reachable Class_uint_generator ?s2"
    by (rule reach_step) (rule lock_r, simp_all add: generator_init_def)
  then have "generator_reachable Class_uint_generator ?s3"
    by (rule reach_step) (rule increment, simp add: generator_init_def)
  then have "generator_reachable Class_uint_generator ?s4"
    by (rule reach_step) (rule lock_d, simp_all add: generator_init_def)
  then have "generator_reachable Class_uint_generator ?s5"
    by (rule reach_step) (rule check_free, simp_all add: generator_init_def)
  then have "generator_reachable Class_uint_generator ?s6"
    by (rule reach_step) (rule unlock_first, simp)
  then show ?thesis
    by (simp add: first_uid_run_def generator_init_def)
qed

section \<open>Properties\<close>

text \<open>
  C40: A caller alone gets a number exactly when one is free: then the call returns a number that is
  not in use and records it, and it never returns when all numbers are in use.
\<close>

theorem get_uid_terminates:
  "case get_uid g of
     None \<Rightarrow> uid_generated g = UNIV
   | Some (uid, g') \<Rightarrow> uid \<notin> uid_generated g \<and> uid_generated g' = insert uid (uid_generated g)"
proof (cases "get_uid g")
  case None
  then show ?thesis using get_uid_next [of g] by auto
next
  case (Some r)
  then have "uid_generated g \<noteq> UNIV"
    using get_uid_loop_full by (fastforce simp: get_uid_def)
  then show ?thesis
    using get_uid_next [of g] by auto
qed



text \<open>
  The locks never block everybody: whenever a thread is inside a call, some thread that is inside a
  call can take its next step.
\<close>

lemma generator_no_deadlock:
  assumes "generator_reachable C s" and "gs_pc s t \<noteq> Idle"
  shows "\<exists>t' s'. gs_pc s t' \<noteq> Idle \<and> generator_step C t' s s'"
proof -
  have ok: "locks_ok C s"
    using generator_reachable_ok [OF assms(1)] by simp
  have c: "\<exists>s'. generator_step C u s s'" if "gs_pc s u = Get_check uid" for u uid
    using that by (cases "uid \<in> gs_generated s") (blast intro: generator_step.intros)+
  have d: "\<exists>s'. generator_step C u s s'" if "holds_ld C (gs_pc s u)" for u
  proof (cases "gs_pc s u")
    case (Get_check uid) then show ?thesis by (rule c)
  qed (use that in \<open>auto intro: generator_step.intros\<close>)
  have r: "\<exists>s'. generator_step C u s s'" if "holds_lr C (gs_pc s u)" "gs_ld s = None" for u
  proof (cases "gs_pc s u")
    case (Get_check uid) then show ?thesis by (rule c)
  qed (use that in \<open>auto intro: generator_step.intros\<close>)
  show ?thesis
  proof (cases "gs_ld s")
    case (Some u)
    then have "holds_ld C (gs_pc s u)" using ok by (simp add: locks_ok_def)
    then show ?thesis using d by (intro exI [of _ u]) (auto split: program_counter.splits)
  next
    case None
    show ?thesis
    proof (cases "gs_lr s")
      case (Some u)
      then have "holds_lr C (gs_pc s u)" using ok by (simp add: locks_ok_def)
      then show ?thesis using r None by (intro exI [of _ u]) auto
    next
      case lr: None
      have "\<exists>s'. generator_step C t s s'"
        using assms(2) None lr ok d [of t] by (cases "gs_pc s t") (auto intro: generator_step.intros simp: locks_ok_def)
      with assms(2) show ?thesis by blast
    qed
  qed
qed

lemma generator_no_deadlock_witness:
  "\<exists>t' s'. gs_pc first_uid_run t' \<noteq> Idle \<and> generator_step Class_uint_generator t' first_uid_run s'"
  by (rule generator_no_deadlock [OF first_uid_run_reachable, of 0]) (simp add: first_uid_run_def)

end
