(* ===== verification/Session_Text.thy ===== *)
theory Session_Text
  imports Pfcp_Session Conversions
begin

text \<open>
  The table that \<^verbatim>\<open>pfcp_session::to_string\<close> prints, one row for each PDR with the FAR that it names, and a
  line below.  The library \<^verbatim>\<open>fmt\<close> and \<^verbatim>\<open>inet_ntop\<close> are parameters: \<open>hex w n\<close> is \<^verbatim>\<open>fmt::format("{:0wx}", n)\<close>,
  \<open>ntop\<close> and \<open>ntop6\<close> give the text of an address.  Each group of appended pieces is a definition.
\<close>

section \<open>Definitions\<close>

definition resize :: "nat \<Rightarrow> bytes \<Rightarrow> bytes" where
  "resize n s = take n s @ replicate (n - length s) 32"

definition INET_ADDRSTRLEN :: nat where
  "INET_ADDRSTRLEN = 16"

definition precedence_text :: "(nat \<Rightarrow> nat \<Rightarrow> bytes) \<Rightarrow> pfcp_pdr \<Rightarrow> bytes" where
  "precedence_text hex pdr =
     (if fst (pr_precedence pdr) then chars ''|'' @ hex 8 (unat (snd (pr_precedence pdr))) else chars ''|no prece'')"

definition source_text :: "pfcp_pdr \<Rightarrow> bytes" where
  "source_text pdr =
     (if fst (pr_pdi pdr) then
        if fst (pd_source_interface (snd (pr_pdi pdr))) then
          (let v = snd (pd_source_interface (snd (pr_pdi pdr)))
           in if v = 0 then chars ''|ACC>''
              else if v = 1 then chars ''|COR>''
              else if v = 2 then chars ''|LAN>''
              else if v = 3 then chars ''|CPF>''
              else if v = 4 then chars ''|LIF>''
              else chars ''| ? >'')
        else chars ''| ? >''
      else chars ''| ? >'')"

definition action_text :: "apply_action_t \<Rightarrow> bytes" where
  "action_text a =
     (let c = (if aa_dupl a then chars ''='' else chars ''-'')
      in c @ (if aa_nocp a then chars ''N'' else c) @ (if aa_buff a then chars ''B'' else c) @
         (if aa_drop a then chars ''X'' else c))"

definition destination_text :: "pfcp_far \<Rightarrow> bytes" where
  "destination_text far =
     (if aa_forw (fa_apply_action far) then
        if fst (fa_forwarding_parameters far) \<and> fst (fp_destination_interface (snd (fa_forwarding_parameters far))) then
          (let v = snd (fp_destination_interface (snd (fa_forwarding_parameters far)))
           in if v = 0 then chars ''>ACC''
              else if v = 1 then chars ''>COR''
              else if v = 2 then chars ''>LAN''
              else if v = 3 then chars ''>CPF''
              else if v = 4 then chars ''>LIF''
              else chars ''> ? '')
        else []
      else chars ''> ? '')"

definition creation_text ::
    "(nat \<Rightarrow> nat \<Rightarrow> bytes) \<Rightarrow> (bytes \<Rightarrow> bytes option) \<Rightarrow> (bytes \<Rightarrow> bytes option) \<Rightarrow> pfcp_far \<Rightarrow> bytes" where
  "creation_text hex ntop ntop6 far =
     (if fst (fa_forwarding_parameters far) \<and> fst (fp_outer_header_creation (snd (fa_forwarding_parameters far))) then
        (let o' = snd (fp_outer_header_creation (snd (fa_forwarding_parameters far)));
             d = ohcr_outer_header_creation_description o';
             ip4 = resize INET_ADDRSTRLEN (toString_in_addr ntop (le_bytes 4 (ohcr_ipv4_address o')));
             ip6 = resize INET_ADDRSTRLEN (toString_in6_addr ntop6 (le_bytes 16 (ohcr_ipv6_address o')));
             teid = chars '':'' @ hex 8 (unat (ohcr_teid o'))
         in if d = 0x0100 then chars ''|GTPU_UDP_IPV4:'' @ ip4 @ teid
            else if d = 0x0200 then chars ''|GTPU_UDP_IPV6:'' @ teid
            else if d = 0x0400 then chars ''|UDP_IPV4     :'' @ ip4 @ replicate 9 32
            else if d = 0x0800 then chars ''|UDP_IPV6     :'' @ ip6 @ replicate 9 32
            else chars ''|BAD_VALUE    '' @ resize INET_ADDRSTRLEN [] @ replicate 9 32)
      else chars ''|none          '' @ resize INET_ADDRSTRLEN [] @ replicate 9 32)"

definition far_text ::
    "(nat \<Rightarrow> nat \<Rightarrow> bytes) \<Rightarrow> (bytes \<Rightarrow> bytes option) \<Rightarrow> (bytes \<Rightarrow> bytes option) \<Rightarrow> pfcp_session \<Rightarrow> pfcp_pdr \<Rightarrow> bytes" where
  "far_text hex ntop ntop6 s pdr =
     (if fst (pr_far_id pdr) then
        (case session_get_far s (snd (pr_far_id pdr)) of
           None \<Rightarrow> []
         | Some far \<Rightarrow> action_text (fa_apply_action far) @ destination_text far @ creation_text hex ntop ntop6 far)
      else [])"

definition removal_text :: "(nat \<Rightarrow> nat \<Rightarrow> bytes) \<Rightarrow> pfcp_pdr \<Rightarrow> bytes" where
  "removal_text hex pdr =
     (let teid = chars '':'' @ hex 8 (unat (fteid_teid (snd (pd_local_fteid (snd (pr_pdi pdr))))))
      in if fst (pr_outer_header_removal pdr) then
           (let d = snd (pr_outer_header_removal pdr)
            in if d = 0 then chars ''|GTPU_UDP_IPV4'' @ teid
               else if d = 1 then chars ''|GTPU_UDP_IPV6'' @ teid
               else if d = 2 then chars ''|UDP_IPV4     '' @ replicate 9 32
               else if d = 3 then chars ''|UDP_IPV6     '' @ replicate 9 32
               else chars ''|BAD_VALUE    '' @ replicate 9 32)
         else chars ''|none         '' @ replicate 9 32)"

definition ue_text :: "(bytes \<Rightarrow> bytes option) \<Rightarrow> pfcp_pdr \<Rightarrow> bytes" where
  "ue_text ntop pdr =
     (if fst (pr_pdi pdr) then
        if fst (pd_ue_ip_address (snd (pr_pdi pdr))) then
          (let ue = snd (pd_ue_ip_address (snd (pr_pdi pdr)))
           in resize INET_ADDRSTRLEN (if ueip_v4 ue then toString_in_addr ntop (le_bytes 4 (ueip_ipv4_address ue)) else []))
        else []
      else resize INET_ADDRSTRLEN [])"

definition row_text ::
    "(nat \<Rightarrow> nat \<Rightarrow> bytes) \<Rightarrow> (bytes \<Rightarrow> bytes option) \<Rightarrow> (bytes \<Rightarrow> bytes option) \<Rightarrow> pfcp_session \<Rightarrow> pfcp_pdr \<Rightarrow> bytes" where
  "row_text hex ntop ntop6 s pdr =
     chars ''|'' @ hex 16 (unat (ses_seid s)) @
     chars ''|'' @ hex 4 (unat (pr_pdr_id pdr)) @
     chars ''|'' @ hex 8 (unat (snd (pr_far_id pdr))) @
     precedence_text hex pdr @ source_text pdr @ far_text hex ntop ntop6 s pdr @ removal_text hex pdr @
     chars ''|'' @ ue_text ntop pdr @ chars ''|'' @ [10]"

definition session_to_string ::
    "(nat \<Rightarrow> nat \<Rightarrow> bytes) \<Rightarrow> (bytes \<Rightarrow> bytes option) \<Rightarrow> (bytes \<Rightarrow> bytes option) \<Rightarrow> pfcp_session \<Rightarrow> bytes" where
  "session_to_string hex ntop ntop6 s =
     concat (map (row_text hex ntop ntop6 s) (ses_pdrs s)) @
     chars ''+'' @ replicate 176 45 @ chars ''+'' @ [10]"

section \<open>The width of a row\<close>

text \<open>What \<^verbatim>\<open>fmt\<close> documents for a width with leading zeros, and an implementation of it.\<close>

definition hex_pads :: "(nat \<Rightarrow> nat \<Rightarrow> bytes) \<Rightarrow> bool" where
  "hex_pads hex \<longleftrightarrow> (\<forall>w n. n < 16 ^ w \<longrightarrow> length (hex w n) = w)"

fun hex_fixed :: "nat \<Rightarrow> nat \<Rightarrow> bytes" where
  "hex_fixed 0 n = []"
| "hex_fixed (Suc w) n = hex_fixed w (n div 16) @ [hex_to_ascii_table ! (n mod 16)]"

lemma hex_fixed_pads: "hex_pads hex_fixed"
proof -
  have "length (hex_fixed w n) = w" for w n by (induction w arbitrary: n) simp_all
  then show ?thesis by (simp add: hex_pads_def)
qed

lemma length_resize [simp]: "length (resize n s) = n"
  by (simp add: resize_def)

lemma hex_width_word:
  fixes x :: "'x::len word"
  assumes "hex_pads hex" and "LENGTH('x) = 4 * w"
  shows "length (hex w (unat x)) = w"
proof -
  have "unat x < 2 ^ LENGTH('x)" by (rule unsigned_less)
  also have "(2 :: nat) ^ LENGTH('x) = 16 ^ w" by (simp add: assms(2) power_mult)
  finally show ?thesis using assms(1) by (simp add: hex_pads_def)
qed

lemma hex_width:
  assumes "hex_pads hex"
  shows "length (hex 16 (unat (a :: u64))) = 16" "length (hex 8 (unat (b :: u32))) = 8" "length (hex 4 (unat (c :: u16))) = 4"
  by (rule hex_width_word [OF assms], simp)+

lemma text_widths:
  assumes "hex_pads hex"
  shows "length (precedence_text hex pdr) = 9" "length (source_text pdr) = 5" "length (action_text a) = 4"
    "length (removal_text hex pdr) = 23"
  using hex_width [OF assms]
  by (simp_all add: precedence_text_def source_text_def action_text_def removal_text_def Let_def)

text \<open>
  How much each FAR adds to its row: 48 characters for a complete one; less where pieces are not
  appended.
\<close>

definition creation_width :: "pfcp_far \<Rightarrow> nat" where
  "creation_width far =
     (if fst (fa_forwarding_parameters far) \<and> fst (fp_outer_header_creation (snd (fa_forwarding_parameters far))) then
        (let d = ohcr_outer_header_creation_description (snd (fp_outer_header_creation (snd (fa_forwarding_parameters far))))
         in if d = 0x0200 then 24 else if d \<in> {0x0100, 0x0400, 0x0800} then 40 else 39)
      else 40)"

definition destination_width :: "pfcp_far \<Rightarrow> nat" where
  "destination_width far =
     (if aa_forw (fa_apply_action far) \<and>
         \<not> (fst (fa_forwarding_parameters far) \<and> fst (fp_destination_interface (snd (fa_forwarding_parameters far))))
      then 0 else 4)"

definition far_width :: "pfcp_session \<Rightarrow> pfcp_pdr \<Rightarrow> nat" where
  "far_width s pdr =
     (if fst (pr_far_id pdr) then
        (case session_get_far s (snd (pr_far_id pdr)) of
           None \<Rightarrow> 0
         | Some far \<Rightarrow> 4 + destination_width far + creation_width far)
      else 0)"

definition ue_width :: "pfcp_pdr \<Rightarrow> nat" where
  "ue_width pdr = (if fst (pr_pdi pdr) \<and> \<not> fst (pd_ue_ip_address (snd (pr_pdi pdr))) then 0 else 16)"

lemma length_creation_text: "hex_pads hex \<Longrightarrow> length (creation_text hex ntop ntop6 far) = creation_width far"
  by (simp add: creation_text_def creation_width_def Let_def INET_ADDRSTRLEN_def hex_width)

lemma length_destination_text: "length (destination_text far) = destination_width far"
  by (simp add: destination_text_def destination_width_def Let_def)

lemma length_far_text: "hex_pads hex \<Longrightarrow> length (far_text hex ntop ntop6 s pdr) = far_width s pdr"
  by (simp add: far_text_def far_width_def length_creation_text length_destination_text text_widths split: option.split)

lemma length_ue_text: "length (ue_text ntop pdr) = ue_width pdr"
  by (simp add: ue_text_def ue_width_def Let_def INET_ADDRSTRLEN_def)

lemma length_row_text: "hex_pads hex \<Longrightarrow> length (row_text hex ntop ntop6 s pdr) = 71 + far_width s pdr + ue_width pdr"
  by (simp add: row_text_def length_far_text length_ue_text text_widths hex_width)

text \<open>A rule that is printed in full: its FAR is known, complete and not for IPv6 tunnels.\<close>

definition printable :: "pfcp_session \<Rightarrow> pfcp_pdr \<Rightarrow> bool" where
  "printable s pdr \<longleftrightarrow> far_width s pdr = 48 \<and> ue_width pdr = 16"

definition sample_text_far :: pfcp_far where
  "sample_text_far =
     \<lparr>fa_far_id = 7, fa_apply_action = apply_action0\<lparr>aa_forw := True\<rparr>,
      fa_forwarding_parameters = (True, forwarding_parameters_set_destination_interface 1 new_forwarding_parameters),
      fa_duplicating_parameters = (False, new_duplicating_parameters), fa_bar_id = (False, 0)\<rparr>"

definition sample_text_pdr :: pfcp_pdr where
  "sample_text_pdr =
     \<lparr>pr_local_seid = 1, pr_pdr_id = 2, pr_precedence = (True, 3),
      pr_pdi = (True, pdi_set_ue_ip_address (ue_ip_address0\<lparr>ueip_v4 := True\<rparr>) new_pdi),
      pr_outer_header_removal = (True, 0), pr_far_id = (True, 7), pr_urr_id = (False, 0), pr_qer_id = (False, 0),
      pr_activate_predefined_rules = (False, []), pr_notified_cp = False\<rparr>"

definition sample_text_session :: pfcp_session where
  "sample_text_session = \<lparr>ses_cp_fseid = fseid0, ses_seid = 1, ses_pdrs = [sample_text_pdr], ses_fars = [sample_text_far]\<rparr>"

lemma sample_text_printable: "printable sample_text_session sample_text_pdr"
  by (simp add: printable_def far_width_def ue_width_def destination_width_def creation_width_def session_get_far_def
    sample_text_session_def sample_text_pdr_def sample_text_far_def pdi_set_ue_ip_address_def new_pdi_def
    forwarding_parameters_set_destination_interface_def new_forwarding_parameters_def)

section \<open>Properties\<close>

text \<open>
  The rows of the table line up exactly for complete rules: a row has 135 characters when its FAR is known
  and complete and the PDR has a UE address, whatever the values, and fewer characters in every other case.
\<close>

lemma session_rows_aligned:
  assumes "hex_pads hex"
  shows "length (row_text hex ntop ntop6 s pdr) \<le> 135 \<and>
    (length (row_text hex ntop ntop6 s pdr) = 135 \<longleftrightarrow> printable s pdr) \<and>
    (list_all (printable s) (ses_pdrs s) \<longrightarrow>
       length (session_to_string hex ntop ntop6 s) = 135 * length (ses_pdrs s) + 179)"
proof -
  have b: "far_width s p \<le> 48" "ue_width p \<le> 16" for p
    by (simp_all add: far_width_def destination_width_def creation_width_def ue_width_def Let_def split: option.split)
  have "length (concat (map (row_text hex ntop ntop6 s) ps)) = 135 * length ps" if "list_all (printable s) ps" for ps
    using that by (induction ps) (simp_all add: length_row_text [OF assms] printable_def)
  then show ?thesis
    using b [of pdr] by (auto simp: length_row_text [OF assms] printable_def session_to_string_def)
qed

lemma session_rows_aligned_sample:
  "length (row_text hex_fixed (\<lambda>_. Some (chars ''10.0.0.1'')) (\<lambda>_. None) sample_text_session sample_text_pdr) = 135 \<and>
   length (session_to_string hex_fixed (\<lambda>_. Some (chars ''10.0.0.1'')) (\<lambda>_. None) sample_text_session) = 314"
proof -
  have "ses_pdrs sample_text_session = [sample_text_pdr]" by (simp add: sample_text_session_def)
  with session_rows_aligned [OF hex_fixed_pads, of "\<lambda>_. Some (chars ''10.0.0.1'')" "\<lambda>_. None" sample_text_session sample_text_pdr]
    sample_text_printable
  show ?thesis by simp
qed

text \<open>
  The address of an IPv6 tunnel is put into a variable and never printed, and an unknown kind of
  header takes one column less than the others.
\<close>

lemma creation_text_ipv6:
  assumes "hex_pads hex" and "fa_forwarding_parameters far = (True, fp)" and "fp_outer_header_creation fp = (True, h)"
    and "ohcr_outer_header_creation_description h = 0x0200"
  shows "creation_text hex ntop ntop6 far = chars ''|GTPU_UDP_IPV6:'' @ chars '':'' @ hex 8 (unat (ohcr_teid h))"
  using assms by (simp add: creation_text_def Let_def)

end
