(* ===== verification/Host_Utilities.thy ===== *)
theory Host_Utilities
  imports Conversions
begin

text \<open>
  The helpers of \<^verbatim>\<open>src/utils/Util.cpp\<close>, which read addresses from text, and of \<^verbatim>\<open>src/bpf/utils/utils.h\<close>.  The text
  is a list of bytes as in \<^verbatim>\<open>Conversions\<close>.  \<^verbatim>\<open>sscanf\<close> belongs to the language's library: its conversion
  \<^verbatim>\<open>%hhx\<close> skips white space and reads an optional sign, an optional prefix \<^verbatim>\<open>0x\<close> and hexadecimal digits, as
  \<^verbatim>\<open>strtoul\<close> does, and a value that does not fit the \<^verbatim>\<open>unsigned char\<close> it is stored to has no defined result.
\<close>

section \<open>Scanning\<close>

datatype 'a scanned = Scanned 'a bytes | No_match | Out_of_range

definition hex_digit :: "u8 \<Rightarrow> bool" where
  "hex_digit c \<longleftrightarrow> 0 \<le> hex_value c"

definition digits_value :: "bytes \<Rightarrow> int" where
  "digits_value ds = foldl (\<lambda>n c. 16 * n + hex_value c) 0 ds"

text \<open>The digits after the sign: a prefix \<^verbatim>\<open>0x\<close> counts as started, so that digits must follow it.\<close>

definition scan_digits :: "bytes \<Rightarrow> int scanned" where
  "scan_digits t =
     (let u = (case t of c # x # u \<Rightarrow> if c = 48 \<and> (x = 120 \<or> x = 88) then u else t | _ \<Rightarrow> t);
          ds = takeWhile hex_digit u
      in if ds = [] then No_match else Scanned (digits_value ds) (dropWhile hex_digit u))"

definition scan_hhx :: "bytes \<Rightarrow> u8 scanned" where
  "scan_hhx t =
     (case skip_space t of
        [] \<Rightarrow> No_match
      | c # u \<Rightarrow>
          (case scan_digits (if c = 43 \<or> c = 45 then u else c # u) of
             Scanned n r \<Rightarrow>
               (if n \<le> 255 \<and> (c = 45 \<longrightarrow> n = 0) then Scanned (word_of_int n) r else Out_of_range)
           | No_match \<Rightarrow> No_match
           | Out_of_range \<Rightarrow> Out_of_range))"

text \<open>
  \<open>scan_macs k t\<close> runs the last \<open>k\<close> conversions of the format: it counts the ones that were assigned, with
  what is left behind the last when all were (the place where \<^verbatim>\<open>%n\<close> stores).  A \<^verbatim>\<open>:\<close> matches only itself.
\<close>

fun scan_macs :: "nat \<Rightarrow> bytes \<Rightarrow> (u8 list \<times> bytes option) scanned" where
  "scan_macs 0 t = Scanned ([], Some t) t"
| "scan_macs (Suc k) t =
     (case scan_hhx t of
        Out_of_range \<Rightarrow> Out_of_range
      | No_match \<Rightarrow> Scanned ([], None) t
      | Scanned b r \<Rightarrow>
          (if k = 0 then Scanned ([b], Some r) r
           else case r of
             [] \<Rightarrow> Scanned ([b], None) r
           | c # r' \<Rightarrow>
               (if c = 58
                then case scan_macs k r' of
                       Scanned (bs, left) r'' \<Rightarrow> Scanned (b # bs, left) r''
                     | No_match \<Rightarrow> No_match
                     | Out_of_range \<Rightarrow> Out_of_range
                else Scanned ([b], None) r)))"

section \<open>Addresses\<close>

datatype util_exn = Invalid_mac_address bytes | Invalid_address

text \<open>\<open>None\<close> is the result that C leaves undefined.  \<^verbatim>\<open>c_str\<close> gives \<^verbatim>\<open>sscanf\<close> the text up to a zero byte.\<close>

definition stringToMac :: "bytes \<Rightarrow> (util_exn + u8 list) option" where
  "stringToMac s =
     (let c_str = takeWhile (\<lambda>c. c \<noteq> 0) s
      in case scan_macs 6 c_str of
           Scanned (macAddress, left) r \<Rightarrow>
             Some (if length macAddress \<noteq> 6 \<or>
                      (case left of None \<Rightarrow> True | Some r \<Rightarrow> length s \<noteq> length c_str - length r)
                   then Inl (Invalid_mac_address s) else Inr macAddress)
         | No_match \<Rightarrow> Some (Inl (Invalid_mac_address s))
         | Out_of_range \<Rightarrow> None)"

text \<open>\<open>inet_aton\<close> is the function of the C library: the address, or \<open>None\<close> when it returns 0.\<close>

definition convertIpToInet :: "(bytes \<Rightarrow> u32 option) \<Rightarrow> bytes \<Rightarrow> util_exn + u32" where
  "convertIpToInet inet_aton ipAddress =
     (case inet_aton ipAddress of None \<Rightarrow> Inl Invalid_address | Some a \<Rightarrow> Inr a)"

section \<open>Frames\<close>

text \<open>The function sees the frame through a pointer to 16 bit words and checks no bound.\<close>

definition swap_src_dst_mac :: "u16 list \<Rightarrow> u16 list option" where
  "swap_src_dst_mac p =
     (if length p < 6 then None
      else let dst0 = p ! 0; dst1 = p ! 1; dst2 = p ! 2;
               p = p[0 := p ! 3];
               p = p[1 := p ! 4];
               p = p[2 := p ! 5]
           in Some (p[3 := dst0, 4 := dst1, 5 := dst2]))"

lemma swap_src_dst_mac_exchanges:
  assumes "length src = 3" "length dst = 3"
  shows "swap_src_dst_mac (dst @ src @ rest) = Some (src @ dst @ rest)"
proof -
  obtain a b c where "dst = [a, b, c]"
    using assms(2) by (auto simp: numeral_3_eq_3 length_Suc_conv)
  moreover obtain d e f where "src = [d, e, f]"
    using assms(1) by (auto simp: numeral_3_eq_3 length_Suc_conv)
  ultimately show ?thesis by (simp add: swap_src_dst_mac_def Let_def)
qed

section \<open>Reading a printed address\<close>

fun mac_text :: "u8 list \<Rightarrow> bytes" where
  "mac_text [] = []"
| "mac_text [b] = hex_pair b"
| "mac_text (b # bs) = hex_pair b @ 58 # mac_text bs"

lemma hex_to_ascii_table_not:
  assumes "k < 16"
  shows "hex_to_ascii_table ! k \<noteq> 43" "hex_to_ascii_table ! k \<noteq> 45" "hex_to_ascii_table ! k \<noteq> 120"
    "hex_to_ascii_table ! k \<noteq> 88"
proof -
  have "\<forall>k \<in> {0..<16}. hex_to_ascii_table ! k \<notin> {43, 45, 120, 88}" by code_simp
  then have "hex_to_ascii_table ! k \<notin> {43, 45, 120, 88}" using assms by simp
  then show "hex_to_ascii_table ! k \<noteq> 43" "hex_to_ascii_table ! k \<noteq> 45" "hex_to_ascii_table ! k \<noteq> 120"
    "hex_to_ascii_table ! k \<noteq> 88" by simp_all
qed

lemma nibbles_value: "16 * uint (drop_bit 4 b) + uint (take_bit 4 b) = uint b" for b :: u8
proof -
  have "uint (drop_bit 4 b) = uint b div 16" by (simp add: drop_bit_eq_div uint_div)
  moreover have "uint (take_bit 4 b) = uint b mod 16" by (simp add: take_bit_eq_mod uint_mod)
  ultimately show ?thesis by simp
qed

lemma scan_hhx_pair:
  assumes "r = [] \<or> \<not> hex_digit (hd r)"
  shows "scan_hhx (hex_pair b @ r) = Scanned b r"
proof -
  define h where "h = hex_to_ascii_table ! unat (drop_bit 4 b)"
  define l where "l = hex_to_ascii_table ! unat (take_bit 4 b)"
  have p: "hex_pair b = [h, l]" by (simp add: hex_pair_nibbles h_def l_def)
  have h: "hex_value h = int (unat (drop_bit 4 b))" "\<not> isspace h" "h \<noteq> 0" "h \<noteq> 43" "h \<noteq> 45"
    by (simp_all add: h_def hex_value_table hex_to_ascii_table_not nibble_less)
  have l: "hex_value l = int (unat (take_bit 4 b))" "l \<noteq> 120" "l \<noteq> 88"
    by (simp_all add: l_def hex_value_table hex_to_ascii_table_not nibble_less)
  have r: "takeWhile hex_digit r = []" "dropWhile hex_digit r = r"
    using assms by (cases r; simp)+
  have "scan_digits (h # l # r) = Scanned (uint b) r"
    by (simp add: scan_digits_def hex_digit_def [of h] hex_digit_def [of l] h l r digits_value_def nibbles_value)
  moreover have "uint b \<le> 255" using uint_lt2p [of b] by simp
  ultimately show ?thesis by (simp add: p scan_hhx_def h)
qed

lemma hex_digit_colon: "\<not> hex_digit 58"
  by (simp add: hex_digit_def hex_value_def ascii_to_hex_table_nth)

lemma scan_macs_text:
  assumes "bs \<noteq> []"
  shows "scan_macs (length bs) (mac_text bs) = Scanned (bs, Some []) []"
  using assms
proof (induction bs rule: mac_text.induct)
  case (2 b)
  show ?case using scan_hhx_pair [of "[]" b] by simp
next
  case (3 b c bs)
  have "scan_hhx (mac_text (b # c # bs)) = Scanned b (58 # mac_text (c # bs))"
    using scan_hhx_pair [of "58 # mac_text (c # bs)" b] by (simp add: hex_digit_colon)
  then show ?case using 3 by simp
qed simp

lemma mac_text_nonzero: "c \<in> set (mac_text bs) \<Longrightarrow> c \<noteq> 0"
  by (induction bs rule: mac_text.induct)
    (auto simp: hex_pair_nibbles hex_value_table nibble_less)

lemma stringToMac_text:
  assumes "length ms = 6"
  shows "stringToMac (mac_text ms) = Some (Inr ms)"
proof -
  have z: "takeWhile (\<lambda>c. c \<noteq> 0) (mac_text ms) = mac_text ms"
    by (rule takeWhile_eq_all_conv [THEN iffD2]) (blast dest: mac_text_nonzero)
  have "ms \<noteq> []" using assms by auto
  then show ?thesis
    using scan_macs_text [of ms] by (simp add: stringToMac_def Let_def z assms)
qed

lemma stringToMac_length: "stringToMac s = Some (Inr ms) \<Longrightarrow> length ms = 6"
  by (auto simp: stringToMac_def Let_def split: scanned.splits prod.splits if_splits)

text \<open>What is behind the sixth group is rejected, and so are fewer groups.\<close>

lemma stringToMac_short:
  assumes "bs \<noteq> []" "length bs < 6"
  shows "stringToMac (mac_text bs) = Some (Inl (Invalid_mac_address (mac_text bs)))"
proof -
  have z: "takeWhile (\<lambda>c. c \<noteq> 0) (mac_text bs) = mac_text bs"
    by (rule takeWhile_eq_all_conv [THEN iffD2]) (blast dest: mac_text_nonzero)
  have "\<exists>r. scan_macs k (mac_text bs) = Scanned (bs, None) r" if "length bs < k" for k
    using assms(1) that
  proof (induction bs arbitrary: k rule: mac_text.induct)
    case (2 b)
    then obtain k' where "k = Suc (Suc k')" by (cases k; cases "k - 1") auto
    then show ?case using scan_hhx_pair [of "[]" b] by simp
  next
    case (3 b c bs)
    then obtain k' where k: "k = Suc k'" "length (c # bs) < k'" by (cases k) auto
    have "scan_hhx (mac_text (b # c # bs)) = Scanned b (58 # mac_text (c # bs))"
      using scan_hhx_pair [of "58 # mac_text (c # bs)" b] by (simp add: hex_digit_colon)
    then show ?case using 3(1) [of k'] k by auto
  qed simp
  from this [OF assms(2)] show ?thesis
    using assms by (auto simp: stringToMac_def Let_def z)
qed

text \<open>The scanner is more liberal than a MAC address: signs, white space and prefixes are accepted.\<close>

lemma stringToMac_liberal:
  "stringToMac (chars '' +a:0xb:-0:1:2:3'') = Some (Inr [10, 11, 0, 1, 2, 3])"
  by code_simp

lemma stringToMac_out_of_range: "stringToMac (chars ''100:0:0:0:0:0'') = None"
  by code_simp

end
