(* ===== verification/Legacy_Session.thy ===== *)
theory Legacy_Session
  imports Pfcp_Session "HOL-Library.Multiset"
begin

text \<open>
  The rule classes of \<^verbatim>\<open>src/pfcp\<close> that the PFCP classes have replaced: a session keeps its PDRs in a list that
  is sorted by precedence whenever one is added.  \<^verbatim>\<open>std::list::sort\<close> is stable, so that it is the
  library's \<open>sort_key\<close>; dereferencing the begin of an empty list is \<open>None\<close>.
\<close>

section \<open>Rules\<close>

datatype SourceInterface =
    PDI_INTERFACE_VALUE_ACCESS | PDI_INTERFACE_VALUE_CORE | PDI_INTERFACE_VALUE_SGI_LAN_N6_LAN
  | PDI_INTERFACE_VALUE_CP_FUNCTION | PDI_INTERFACE_VALUE_5G_VN_INTERNAL

fun interface_value :: "SourceInterface \<Rightarrow> u32" where
  "interface_value PDI_INTERFACE_VALUE_ACCESS = 0"
| "interface_value PDI_INTERFACE_VALUE_CORE = 1"
| "interface_value PDI_INTERFACE_VALUE_SGI_LAN_N6_LAN = 2"
| "interface_value PDI_INTERFACE_VALUE_CP_FUNCTION = 3"
| "interface_value PDI_INTERFACE_VALUE_5G_VN_INTERNAL = 4"

record PacketDetectionInformation =
  mTeid :: u32
  mUeIpAddress :: u32
  mSourceInterface :: SourceInterface

definition new_PacketDetectionInformation :: "u32 \<Rightarrow> u32 \<Rightarrow> SourceInterface \<Rightarrow> PacketDetectionInformation" where
  "new_PacketDetectionInformation teid ueIpAddress sourceInterface =
     \<lparr>mTeid = teid, mUeIpAddress = ueIpAddress, mSourceInterface = sourceInterface\<rparr>"

definition getTeid :: "PacketDetectionInformation \<Rightarrow> u32" where
  "getTeid p = mTeid p"

definition getUeIpAddress :: "PacketDetectionInformation \<Rightarrow> u32" where
  "getUeIpAddress p = mUeIpAddress p"

definition getSourceInterface :: "PacketDetectionInformation \<Rightarrow> u32" where
  "getSourceInterface p = interface_value (mSourceInterface p)"

record PacketDetectionRule =
  mPrecedence :: u32
  mPDI :: PacketDetectionInformation
  mFarId :: u32

definition new_PacketDetectionRule :: "u32 \<Rightarrow> PacketDetectionInformation \<Rightarrow> u32 \<Rightarrow> PacketDetectionRule" where
  "new_PacketDetectionRule precedence pdi farId = \<lparr>mPrecedence = precedence, mPDI = pdi, mFarId = farId\<rparr>"

definition getPrecedence :: "PacketDetectionRule \<Rightarrow> u32" where
  "getPrecedence r = mPrecedence r"

definition getPDI :: "PacketDetectionRule \<Rightarrow> PacketDetectionInformation" where
  "getPDI r = mPDI r"

definition getFarId :: "PacketDetectionRule \<Rightarrow> u32" where
  "getFarId r = mFarId r"

text \<open>A \<^verbatim>\<open>ForwardingActionRule\<close> has no members.\<close>

datatype ForwardingActionRule = New_ForwardingActionRule

section \<open>Sessions\<close>

record Session =
  mPDRs :: "PacketDetectionRule list"
  mFARs :: "ForwardingActionRule list"
  mSeid :: u64
  mpSession :: "pfcp_session option"

definition new_Session :: "u64 \<Rightarrow> Session" where
  "new_Session seid = \<lparr>mPDRs = [], mFARs = [], mSeid = seid, mpSession = None\<rparr>"

definition legacy_comparePDR :: "PacketDetectionRule \<Rightarrow> PacketDetectionRule \<Rightarrow> bool" where
  "legacy_comparePDR a b \<longleftrightarrow> getPrecedence a < getPrecedence b"

text \<open>
  A stable sort by a comparison, the contract of \<^verbatim>\<open>std::list::sort\<close>: an element goes in front of the first one
  that is not smaller, and the elements are inserted from the last to the first.
\<close>

fun insert_by :: "('a \<Rightarrow> 'a \<Rightarrow> bool) \<Rightarrow> 'a \<Rightarrow> 'a list \<Rightarrow> 'a list" where
  "insert_by lt x [] = [x]"
| "insert_by lt x (y # ys) = (if lt y x then y # insert_by lt x ys else x # y # ys)"

definition list_sort :: "('a \<Rightarrow> 'a \<Rightarrow> bool) \<Rightarrow> 'a list \<Rightarrow> 'a list" where
  "list_sort lt xs = foldr (insert_by lt) xs []"

definition addPDR :: "PacketDetectionRule \<Rightarrow> Session \<Rightarrow> Session" where
  "addPDR pdr s = s\<lparr>mPDRs := list_sort legacy_comparePDR (mPDRs s @ [pdr])\<rparr>"

definition addFAR :: "ForwardingActionRule \<Rightarrow> Session \<Rightarrow> Session" where
  "addFAR far s = s\<lparr>mFARs := mFARs s @ [far]\<rparr>"

text \<open>The overloads for the PFCP rules only log the call.\<close>

definition addPDR_pfcp :: "pfcp_pdr \<Rightarrow> Session \<Rightarrow> Session" where
  "addPDR_pfcp pdr s = s"

definition addFAR_pfcp :: "pfcp_far \<Rightarrow> Session \<Rightarrow> Session" where
  "addFAR_pfcp far s = s"

definition getHighestPrecedencePDR :: "Session \<Rightarrow> PacketDetectionRule option" where
  "getHighestPrecedencePDR s = (case mPDRs s of [] \<Rightarrow> None | r # rs \<Rightarrow> Some r)"

section \<open>Lemmas\<close>

lemma insert_by_insort: "insert_by legacy_comparePDR x ys = insort_key getPrecedence x ys"
  by (induction ys) (auto simp: legacy_comparePDR_def not_less)

lemma list_sort_sort_key: "list_sort legacy_comparePDR xs = sort_key getPrecedence xs"
proof -
  have "insert_by legacy_comparePDR = insort_key getPrecedence"
    by (intro ext) (rule insert_by_insort)
  then show ?thesis
    by (simp add: list_sort_def sort_key_def)
qed

lemma sort_key_append_sort: "sort_key f (sort_key f xs @ ys) = sort_key f (xs @ ys)"
proof (rule properties_for_sort_key)
  show "mset (sort_key f (xs @ ys)) = mset (sort_key f xs @ ys)" by simp
  have eq: "(\<lambda>x. f k = f x) = (\<lambda>x. f x = f k)" for k by (intro ext) (rule eq_commute)
  show "filter (\<lambda>x. f k = f x) (sort_key f (xs @ ys)) = filter (\<lambda>x. f k = f x) (sort_key f xs @ ys)" for k
    unfolding eq by (simp add: sort_key_stable)
  show "sorted (map f (sort_key f (xs @ ys)))" by simp
qed

lemma mPDRs_addPDR: "mPDRs (addPDR r s) = sort_key getPrecedence (mPDRs s @ [r])"
  by (simp add: addPDR_def list_sort_sort_key)

lemma fold_addPDR: "mPDRs (fold addPDR rs s) = (if rs = [] then mPDRs s else sort_key getPrecedence (mPDRs s @ rs))"
proof (induction rs arbitrary: s)
  case (Cons r rs)
  show ?case
    by (simp add: Cons.IH mPDRs_addPDR sort_key_append_sort del: sort_key_simps)
qed simp

lemma find_hd_filter: "find P xs = (if filter P xs = [] then None else Some (hd (filter P xs)))"
  by (induction xs) auto

lemma sort_key_hd_first:
  assumes "sort_key f xs = y # ys"
  shows "find (\<lambda>x. \<forall>z \<in> set xs. f x \<le> f z) xs = Some y"
proof -
  have set: "set xs = insert y (set ys)"
    using set_sort [of f xs] unfolding assms by simp
  have "\<forall>z \<in> set ys. f y \<le> f z"
    using sorted_sort_key [of f xs] unfolding assms by simp
  then have P: "(\<forall>z \<in> set xs. f x \<le> f z) \<longleftrightarrow> f x = f y" if "x \<in> set xs" for x
    using that set by (auto intro: antisym)
  have "filter (\<lambda>x. \<forall>z \<in> set xs. f x \<le> f z) xs = filter (\<lambda>x. f x = f y) xs"
    using P by (rule filter_cong [OF refl])
  also have "\<dots> = filter (\<lambda>x. f x = f y) (y # ys)"
    using sort_key_stable [of f "f y" xs] unfolding assms by simp
  finally show ?thesis by (simp add: find_hd_filter)
qed

section \<open>Property\<close>

text \<open>
  A session to which rules are added one after the other holds them sorted by precedence, rules of
  equal precedence in the order in which they came; the rule that it gives out is the first one
  added among those of the least value, and without a rule the begin of an empty list is read.
\<close>

lemma legacy_session_sorted:
  "mPDRs (fold addPDR rs (new_Session seid)) = sort_key getPrecedence rs \<and>
   getHighestPrecedencePDR (fold addPDR rs (new_Session seid)) =
     find (\<lambda>r. \<forall>q \<in> set rs. getPrecedence r \<le> getPrecedence q) rs"
proof -
  have m: "mPDRs (fold addPDR rs (new_Session seid)) = sort_key getPrecedence rs"
    by (simp add: fold_addPDR new_Session_def)
  show ?thesis
  proof (cases "sort_key getPrecedence rs")
    case Nil
    then have "rs = []" by (metis length_0_conv length_sort)
    with m show ?thesis by (simp add: getHighestPrecedencePDR_def)
  next
    case (Cons y ys)
    with m sort_key_hd_first [OF Cons] show ?thesis by (simp add: getHighestPrecedencePDR_def)
  qed
qed

end
