(* ===== verification/Spec2Isabelle.thy ===== *)
theory Spec2Isabelle
  imports Running_System Pfcp_Exchange Pfcp_Typing Pfcp_Keys Ies_Container Ie_Defaults Subscriber_Ids Epc_Names
    Netlink_Gateway System_Utilities Uint_Generator Session_Text Host_Utilities Legacy_Session
begin

text \<open>
  Verification of a 5G user plane function whose data path runs as BPF programs in the XDP hook
  (\<^verbatim>\<open>src/src/bpf\<close>), with the C++ layer that manages the programs (\<^verbatim>\<open>src/src\<close>) and the PFCP protocol
  classes of OpenAirInterface (\<^verbatim>\<open>src/src/oai\<close>) that carry the rules.

  \<^bold>\<open>The program.\<close>  A control plane describes a session by packet detection rules (PDRs) and forwarding
  action rules (FARs).  The session manager picks the PDR of highest priority and asks the pipeline
  manager for a pipeline: a FAR program of its own, an entry in the index map of the entry program
  under the detection key of the PDR, and an entry in its program array.  The entry program parses a
  frame, computes the key and tail calls the FAR program, which strips or pushes the GTP-U headers
  and redirects the frame.  The PFCP classes write such rules to a stream and read them back.

  \<^bold>\<open>Theories and sources.\<close>
  \<^item> \<^verbatim>\<open>Upf_Prelude\<close>: bytes, words and memory shared by all; \<^verbatim>\<open>Bpf_Types\<close>: the structures of the BPF side;
    \<^verbatim>\<open>Csum\<close>: \<^verbatim>\<open>utils/csum.h\<close>, with the one's complement sum as its specification.
  \<^item> \<^verbatim>\<open>Xdp_Entry\<close>: \<^verbatim>\<open>upf_xdp_bpf.c\<close>; packet accesses are partial, so that a result other than \<^term>\<open>None\<close> is
    memory safety.  The specification is \<open>detect\<close>, a decision table on the bytes of a frame.
  \<^item> \<^verbatim>\<open>Far_Program_Bpf\<close>: \<^verbatim>\<open>far_bpf.c\<close>; \<^verbatim>\<open>Session_Program_Bpf\<close>: \<^verbatim>\<open>session_bpf.c\<close>.  The kernel's helpers are the
    parameter \<open>H\<close> with their documented behaviour as hypotheses.
  \<^item> \<^verbatim>\<open>Bpf_Map\<close>: \<^verbatim>\<open>wrappers/BPFMap.hpp\<close>; \<^verbatim>\<open>Program_Life_Cycle\<close>: \<^verbatim>\<open>ProgramLifeCycle.hpp\<close>, a state machine whose
    library calls are parameters; \<^verbatim>\<open>Upf_Programs\<close>: the program classes on top of it.
  \<^item> \<^verbatim>\<open>Pfcp_Types\<close>, \<^verbatim>\<open>Pfcp_Containers\<close>, \<^verbatim>\<open>Pfcp_Reports\<close>, \<^verbatim>\<open>Pfcp_Messages\<close>: value types and the containers of
    \<^verbatim>\<open>msg_pfcp.hpp\<close> with presence flags, each optional member an instance of the locale
    \<open>optional_member\<close>; \<^verbatim>\<open>Ies_Container\<close>: the overloads of their base class; \<^verbatim>\<open>Pfcp_Keys\<close>: identifiers as keys of containers, with the laws of a hashed key as
    the locale \<open>hashed_key\<close>; \<^verbatim>\<open>Pfcp_Rules\<close>, \<^verbatim>\<open>Pfcp_Session\<close>: \<^verbatim>\<open>pfcp_far\<close>, \<^verbatim>\<open>pfcp_pdr\<close>, \<^verbatim>\<open>pfcp_session\<close>;
    \<^verbatim>\<open>Session_Text\<close>: \<^verbatim>\<open>pfcp_session::to_string\<close>; \<^verbatim>\<open>Legacy_Session\<close>: the older session class of \<^verbatim>\<open>src/pfcp\<close>.
  \<^item> \<^verbatim>\<open>Session_Program_Manager\<close>, \<^verbatim>\<open>Session_Manager\<close>: the managers, \<^verbatim>\<open>UserPlaneComponent\<close> and \<^verbatim>\<open>SignalHandler\<close>;
    \<^verbatim>\<open>Running_System\<close>: the data path on the maps of the managers, and the states that the control plane reaches.
  \<^item> \<^verbatim>\<open>Ie_Stream\<close>: input streams that may end early and leave memory as it was (the parameter \<open>j\<close> is the
    byte that uninitialised memory holds), the header of an element, and the locale \<open>ie_codec\<close>, the
    contract of an element class.  \<^verbatim>\<open>Ie_Scalar\<close>, \<^verbatim>\<open>Ie_Flags\<close>, \<^verbatim>\<open>Ie_Address\<close>, \<^verbatim>\<open>Ie_Other\<close>, \<^verbatim>\<open>Ie_Node_Id\<close>: the 45
    element classes of \<^verbatim>\<open>3gpp_29.244.hpp\<close> that the factory creates, each either an instance of the
    locale or with lemmas that say what is lost; \<^verbatim>\<open>Ie_Defaults\<close>: their default constructors.
  \<^item> \<^verbatim>\<open>Pfcp_Ie\<close>, \<^verbatim>\<open>Pfcp_Factory\<close>: objects, the factory \<^verbatim>\<open>new_pfcp_ie_from_stream\<close> and groups; \<^verbatim>\<open>Ie_Encoding\<close>: what
    an element carries (\<open>content\<close>) and when bytes encode it; \<^verbatim>\<open>Pfcp_Conversion\<close>: \<^verbatim>\<open>to_core_type\<close> and the
    overloads of \<^verbatim>\<open>set\<close>; \<^verbatim>\<open>Pfcp_Typing\<close>: what the conversion depends on; \<^verbatim>\<open>Pfcp_Grouped\<close>: constructors and
    encodings of groups.
  \<^item> \<^verbatim>\<open>Pfcp_Msg\<close>: \<^verbatim>\<open>pfcp_msg_header\<close>, \<^verbatim>\<open>pfcp_msg\<close> and the locale \<open>message_codec\<close>, the contract of a kind of
    message; \<^verbatim>\<open>Pfcp_Message_Codecs\<close>: the constructors of messages and the instances; \<^verbatim>\<open>Pfcp_Exchange\<close>: what
    peers can rely on.
  \<^item> Utilities of \<^verbatim>\<open>src/oai/common\<close>: \<^verbatim>\<open>Uint_Generator\<close>: the generators of identifiers, for one caller and as a
    transition system of threads with two mutexes; \<^verbatim>\<open>Conversions\<close>, \<^verbatim>\<open>Epc_Names\<close>: text, names of network nodes;
    \<^verbatim>\<open>Core_Conversions\<close>: \<^verbatim>\<open>3gpp_conversions.cpp\<close> and socket addresses; \<^verbatim>\<open>Subscriber_Ids\<close>: the types of
    \<^verbatim>\<open>3gpp_29.274.h\<close> that have operations; \<^verbatim>\<open>Netlink_Gateway\<close>: the query of the routing table in \<^verbatim>\<open>if.cpp\<close> and
    \<^verbatim>\<open>get_gateway_netlink.cpp\<close>; \<^verbatim>\<open>System_Utilities\<close>: interfaces, lock file, threads, names and shell commands;
    \<^verbatim>\<open>Host_Utilities\<close>: \<^verbatim>\<open>src/utils/Util.cpp\<close> and
    \<^verbatim>\<open>src/bpf/utils/utils.h\<close>.

  \<^bold>\<open>What is shown.\<close>  The entry program implements its decision table and never leaves the packet.  The
  FAR program decapsulates and encapsulates with correct lengths and checksum, and the two are
  inverse.  Pipelines, seen through the table of keys and FARs, are inserted and deleted one at a
  time, and an invariant of the bookkeeping holds in every reachable state.  Together: in every
  state that the control plane reaches, a frame is handled by exactly the FAR that is installed for
  its key, from the creation of a session to its removal, whatever happens to other sessions; the
  rules that a session accepts reach the data path as they were requested.  For sessions and rules:
  which requests are accepted and what they change.  For the protocol: round trips of elements, groups and messages, that the declared
  length of a message is right, when reading comes to an end and when it does not, and what a
  received rule becomes in the data path; the outcome of a conversion depends on the class of its target
  only.  For the utilities: numbers in use are never handed out twice, however threads interleave, and
  a call returns when a number is free; hexadecimal text, the labels of names and MAC addresses are
  read and written right, and the older session class keeps its rules sorted; the query of the routing table returns and stays in its buffer, and
  reads the routes as the kernel describes them.  Several theorems state defects of the code exactly: the
  conditions under which it fails and how.

  \<^bold>\<open>Bounds and fuel.\<close>  Machine integers keep their width.  The factory and the loop over a group recurse
  with fuel; twice the bytes of the stream and one more are enough (\<open>new_pfcp_ie_fuel\<close>), and the functions
  without fuel satisfy the equations of the source.  The two loops over domain names count in integers
  that wrap around, and so does the loop of the identifier generators, and the loop around \<^verbatim>\<open>recv\<close> depends on the kernel; they are partial functions in the
  option monad, where \<^term>\<open>None\<close> is a loop that
  does not end, and it is proved when they end.  Round trips of messages require that
  the elements and 12 bytes of header fit the 16 bit length.

  \<^bold>\<open>Not modelled.\<close>  Logging and the texts of exceptions, the abstract interfaces under
  \<^verbatim>\<open>src/interfaces\<close>, command line and process start-up; \<^verbatim>\<open>get_exe_absolute_path\<close>, which has no defined
  result because \<^verbatim>\<open>snprintf\<close> reads from the buffer it writes, and the sending of messages between tasks,
  whose classes are not part of the repository; elements that the factory
  cannot create (commented out in the source); the types of the GTPv2 and NAS headers
  under \<^verbatim>\<open>src/oai/common\<close> that the modelled parts do not use; sample programs and tests.
  Concurrency of control plane calls is not modelled: the source has no locks there, and operations
  are taken one at a time.
\<close>

section \<open>From the message to the data path\<close>

text \<open>What the memory of a reader changes in the FAR that the data path gets.\<close>

definition with_port :: "u16 \<Rightarrow> pfcp_far_t \<Rightarrow> pfcp_far_t" where
  "with_port p f =
     f\<lparr>far_forwarding_parameters := far_forwarding_parameters f\<lparr>fwp_outer_header_creation :=
        fwp_outer_header_creation (far_forwarding_parameters f)\<lparr>ohc_port_number := p\<rparr>\<rparr>\<rparr>"

definition gtpu_ipv4_tunnel :: "create_far \<Rightarrow> bool" where
  "gtpu_ipv4_tunnel c \<longleftrightarrow>
     fst (cf_forwarding_parameters c) \<and> fst (fp_outer_header_creation (snd (cf_forwarding_parameters c))) \<and>
     ohcr_outer_header_creation_description (snd (fp_outer_header_creation (snd (cf_forwarding_parameters c)))) =
       OUTER_HEADER_CREATION_GTPU_UDP_IPV4"

lemma far_with_junk_port:
  assumes "gtpu_ipv4_tunnel c"
  shows "far_of_pfcp (pfcp_far_of_create (create_far_with_junk k c)) =
    with_port (le_word [k, k]) (far_of_pfcp (pfcp_far_of_create c))"
  using assms
  by (simp add: gtpu_ipv4_tunnel_def far_of_pfcp_def pfcp_far_of_create_def create_far_with_junk_def with_port_def
      forwarding_parameters_with_junk_def optm_map_def ohc_with_junk_def Let_def
      ohc_has_teid_def ohc_has_ipv4_def ohc_has_port_def)

text \<open>
  C10: A tunnel that arrives in a session establishment request.  The FAR that the data path gets for
  it is the one the sender described, but for the port: the description GTP-U over UDP and IPv4
  carries none, so the FAR program sends to whatever port the reader's memory held.
\<close>

theorem received_far_port:
  assumes "session_establishment_request_canon j m" and "i < length (seq_create_fars m)"
    and "gtpu_ipv4_tunnel (seq_create_fars m ! i)"
  shows "\<exists>p p' bs q m'. new_session_establishment_request_msg j m = Inr p \<and>
    msg_dump_to j (address_msg seid n p) = Some (Inr p', bs) \<and>
    msg_load_from new_pfcp_msg (stream k (bs @ rest)) = Some (Inr q, stream k rest) \<and>
    msg_to_core q (K_pfcp_session_establishment_request new_pfcp_session_establishment_request) =
      Some (Inr (K_pfcp_session_establishment_request m')) \<and>
    far_of_pfcp (pfcp_far_of_create (seq_create_fars m' ! i)) =
      with_port (le_word [k, k]) (far_of_pfcp (pfcp_far_of_create (seq_create_fars m ! i)))"
proof -
  let ?m = "session_establishment_request_with_junk k m"
  have "seq_create_fars ?m ! i = create_far_with_junk k (seq_create_fars m ! i)"
    using assms(2) by (simp add: session_establishment_request_with_junk_def)
  then have "far_of_pfcp (pfcp_far_of_create (seq_create_fars ?m ! i)) =
      with_port (le_word [k, k]) (far_of_pfcp (pfcp_far_of_create (seq_create_fars m ! i)))"
    using far_with_junk_port [OF assms(3)] by (simp del: le_word.simps)
  then show ?thesis
    using session_establishment_request.round_trip [OF assms(1), where seid = seid and n = n and k = k and rest = rest]
    unfolding new_session_establishment_request_msg_def by blast
qed

theorem received_far_port_witness:
  "\<exists>p p' bs q m'. new_session_establishment_request_msg 0 example_request = Inr p \<and>
    msg_dump_to 0 (address_msg (Some 7) 1 p) = Some (Inr p', bs) \<and>
    msg_load_from new_pfcp_msg (stream 0xaa (bs @ [])) = Some (Inr q, stream 0xaa []) \<and>
    msg_to_core q (K_pfcp_session_establishment_request new_pfcp_session_establishment_request) =
      Some (Inr (K_pfcp_session_establishment_request m')) \<and>
    far_of_pfcp (pfcp_far_of_create (seq_create_fars m' ! 0)) =
      with_port (le_word [0xaa, 0xaa]) (far_of_pfcp (pfcp_far_of_create (seq_create_fars example_request ! 0)))"
  by (rule received_far_port [OF example_request_canon])
    (simp_all add: example_request_def example_far_def gtpu_ipv4_tunnel_def)

end
